(* ===== verification/Prelude.thy ===== *)
theory Prelude
  imports Main "HOL-Library.AList" "HOL-Library.Sublist" "HOL-Library.Code_Target_Nat"
begin

text \<open>
  What the components share: results and loops that stop at the first error, the interface of
  a hash map and its realisation by association lists, and the operations of Rust's
  \<open>str\<close> and integer parsing that the sources use.

  A \<open>String\<close> or \<open>&str\<close> is an Isabelle \<open>string\<close>, the list of its UTF-8 bytes; \<open>len\<close> is
  \<open>length\<close>, slicing is \<open>take\<close>/\<open>drop\<close>, and prefix tests and searches compare bytes, as Rust
  does. White space is Rust's \<open>char::is_whitespace\<close>, written as the UTF-8 sequences of those
  code points. \<open>to_lowercase\<close> is modelled on ASCII letters only.
\<close>

subsection \<open>Results and loops that stop at the first error\<close>

text \<open>\<open>Result<T, E>\<close> is \<open>'e + 'a\<close>: \<open>Inl\<close> is \<open>Err\<close>, \<open>Inr\<close> is \<open>Ok\<close>.\<close>

fun try_fold :: "('s \<Rightarrow> 'a \<Rightarrow> 'e + 's) \<Rightarrow> 's \<Rightarrow> 'a list \<Rightarrow> 'e + 's" where
  "try_fold f s [] = Inr s"
| "try_fold f s (x # xs) = (case f s x of Inl e \<Rightarrow> Inl e | Inr s' \<Rightarrow> try_fold f s' xs)"

lemma try_fold_append:
  "try_fold f s (xs @ ys) = (case try_fold f s xs of Inl e \<Rightarrow> Inl e | Inr s' \<Rightarrow> try_fold f s' ys)"
  by (induction xs arbitrary: s) (auto split: sum.splits)

lemma try_fold_invariant:
  assumes "try_fold f s xs = Inr t" and "P s"
    and "\<And>s x s'. x \<in> set xs \<Longrightarrow> P s \<Longrightarrow> f s x = Inr s' \<Longrightarrow> P s'"
  shows "P t"
  using assms
proof (induction xs arbitrary: s)
  case Nil
  then show ?case by simp
next
  case (Cons x xs)
  then obtain s' where "f s x = Inr s'" and "try_fold f s' xs = Inr t"
    by (auto split: sum.splits)
  with Cons show ?case
    by (metis list.set_intros(1) list.set_intros(2))
qed

text \<open>A loop of checks: \<open>Ok(())\<close> when every element passes.\<close>

fun try_all :: "('a \<Rightarrow> 'e + unit) \<Rightarrow> 'a list \<Rightarrow> 'e + unit" where
  "try_all f [] = Inr ()"
| "try_all f (x # xs) = (case f x of Inl e \<Rightarrow> Inl e | Inr _ \<Rightarrow> try_all f xs)"

lemma try_all_Inr: "try_all f xs = Inr () \<longleftrightarrow> (\<forall>x \<in> set xs. f x = Inr ())"
  by (induction xs) (auto split: sum.splits)

lemma try_all_Inl: "try_all f xs = Inl e \<Longrightarrow> \<exists>x \<in> set xs. f x = Inl e"
  by (induction xs) (auto split: sum.splits)

subsection \<open>Hash maps\<close>

text \<open>
  The interface of \<open>std::collections::HashMap\<close> that the components use: \<open>get\<close>, \<open>insert\<close>,
  \<open>remove\<close> and the keys. Its laws are what every caller relies on.
\<close>

locale hash_map =
  fixes get :: "'m \<Rightarrow> 'k \<Rightarrow> 'v option"
    and ins :: "'k \<Rightarrow> 'v \<Rightarrow> 'm \<Rightarrow> 'm"
    and rem :: "'k \<Rightarrow> 'm \<Rightarrow> 'm"
    and keys :: "'m \<Rightarrow> 'k list"
    and wf :: "'m \<Rightarrow> bool"
  assumes get_ins: "get (ins k v m) k' = (if k' = k then Some v else get m k')"
    and get_rem: "get (rem k m) k' = (if k' = k then None else get m k')"
    and set_keys: "set (keys m) = {k. get m k \<noteq> None}"
    and wf_ins: "wf m \<Longrightarrow> wf (ins k v m)"
    and wf_rem: "wf m \<Longrightarrow> wf (rem k m)"
    and wf_keys: "wf m \<Longrightarrow> distinct (keys m)"
begin

lemma keys_ins: "set (keys (ins k v m)) = insert k (set (keys m))"
  by (auto simp: set_keys get_ins)

lemma keys_rem: "set (keys (rem k m)) = set (keys m) - {k}"
  by (auto simp: set_keys get_rem)

lemma length_keys_ins:
  assumes "wf m"
  shows "length (keys (ins k v m))
    = (if get m k = None then Suc (length (keys m)) else length (keys m))"
proof -
  have "length (keys (ins k v m)) = card (insert k (set (keys m)))"
    using distinct_card [OF wf_keys [OF wf_ins [OF assms]]] keys_ins by metis
  moreover have "k \<in> set (keys m) \<longleftrightarrow> get m k \<noteq> None"
    by (simp add: set_keys)
  ultimately show ?thesis
    using distinct_card [OF wf_keys [OF assms]] by (auto simp: card_insert_if)
qed

lemma length_keys_rem:
  assumes "wf m"
  shows "length (keys (rem k m))
    = (if get m k = None then length (keys m) else length (keys m) - 1)"
proof -
  have "length (keys (rem k m)) = card (set (keys m) - {k})"
    using distinct_card [OF wf_keys [OF wf_rem [OF assms]]] keys_rem by metis
  moreover have "k \<in> set (keys m) \<longleftrightarrow> get m k \<noteq> None"
    by (simp add: set_keys)
  ultimately show ?thesis
    using distinct_card [OF wf_keys [OF assms]] by (auto simp: card_Diff_singleton)
qed

text \<open>A property of every stored value survives \<open>insert\<close> of a value that has it, and \<open>remove\<close>.\<close>

lemma all_ins: "(\<And>k' v'. get m k' = Some v' \<Longrightarrow> P k' v') \<Longrightarrow> P k v \<Longrightarrow>
    get (ins k v m) k' = Some v' \<Longrightarrow> P k' v'"
  by (auto simp: get_ins split: if_splits)

lemma all_rem: "(\<And>k' v'. get m k' = Some v' \<Longrightarrow> P k' v') \<Longrightarrow>
    get (rem k m) k' = Some v' \<Longrightarrow> P k' v'"
  by (auto simp: get_rem split: if_splits)

end

text \<open>
  The model of a \<open>HashMap\<close>: an association list with distinct keys. Iteration follows the
  list; Rust leaves the order open, and since the theorems hold for every list, they hold for
  every order of iteration.
\<close>

type_synonym ('k, 'v) hmap = "('k \<times> 'v) list"

abbreviation hm_get :: "('k, 'v) hmap \<Rightarrow> 'k \<Rightarrow> 'v option" where
  "hm_get \<equiv> map_of"

abbreviation hm_insert :: "'k \<Rightarrow> 'v \<Rightarrow> ('k, 'v) hmap \<Rightarrow> ('k, 'v) hmap" where
  "hm_insert \<equiv> AList.update"

abbreviation hm_remove :: "'k \<Rightarrow> ('k, 'v) hmap \<Rightarrow> ('k, 'v) hmap" where
  "hm_remove \<equiv> AList.delete"

abbreviation hm_keys :: "('k, 'v) hmap \<Rightarrow> 'k list" where
  "hm_keys \<equiv> map fst"

abbreviation hm_values :: "('k, 'v) hmap \<Rightarrow> 'v list" where
  "hm_values \<equiv> map snd"

definition hm_wf :: "('k, 'v) hmap \<Rightarrow> bool" where
  "hm_wf m = distinct (map fst m)"

definition hm_retain :: "('k \<Rightarrow> 'v \<Rightarrow> bool) \<Rightarrow> ('k, 'v) hmap \<Rightarrow> ('k, 'v) hmap" where
  "hm_retain P m = filter (\<lambda>(k, v). P k v) m"

lemma hm_wf_Nil [simp]: "hm_wf []"
  by (simp add: hm_wf_def)

lemma hm_get_delete: "map_of (AList.delete k m) k' = (if k' = k then None else map_of m k')"
  by (simp add: delete_conv')

lemma hm_get_update: "map_of (AList.update k v m) k' = (if k' = k then Some v else map_of m k')"
  by (simp add: update_conv')

interpretation hm: hash_map hm_get hm_insert hm_remove hm_keys hm_wf
  by unfold_locales
    (auto simp: hm_get_update hm_get_delete hm_wf_def distinct_update distinct_delete
      map_of_eq_None_iff)

lemma hm_wf_retain: "hm_wf m \<Longrightarrow> hm_wf (hm_retain P m)"
  by (simp add: hm_wf_def hm_retain_def distinct_map_filter)

lemma hm_get_retain:
  "hm_wf m \<Longrightarrow> map_of (hm_retain P m) k
    = (case map_of m k of Some v \<Rightarrow> if P k v then Some v else None | None \<Rightarrow> None)"
  by (induction m) (auto simp: hm_retain_def hm_wf_def map_of_eq_None_iff split: option.splits
      dest: map_of_SomeD)

lemma hm_in_set: "hm_wf m \<Longrightarrow> (k, v) \<in> set m \<longleftrightarrow> map_of m k = Some v"
  by (simp add: hm_wf_def)

lemma hm_values_get: "hm_wf m \<Longrightarrow> v \<in> set (hm_values m) \<longleftrightarrow> (\<exists>k. map_of m k = Some v)"
  by (force simp: hm_in_set [symmetric])

text \<open>Tables whose entries carry their own key and satisfy a property.\<close>

definition keyed :: "('v \<Rightarrow> 'k) \<Rightarrow> ('v \<Rightarrow> bool) \<Rightarrow> ('k, 'v) hmap \<Rightarrow> bool" where
  "keyed key P m = (hm_wf m \<and> (\<forall>k v. hm_get m k = Some v \<longrightarrow> key v = k \<and> P v))"

lemma keyed_Nil [simp]: "keyed key P []"
  by (simp add: keyed_def)

lemma keyed_wf: "keyed key P m \<Longrightarrow> hm_wf m"
  by (simp add: keyed_def)

lemma keyed_get: "keyed key P m \<Longrightarrow> hm_get m k = Some v \<Longrightarrow> key v = k \<and> P v"
  by (simp add: keyed_def)

lemma keyed_value: "keyed key P m \<Longrightarrow> v \<in> set (hm_values m) \<Longrightarrow> P v \<and> hm_get m (key v) = Some v"
proof -
  assume m: "keyed key P m" and "v \<in> set (hm_values m)"
  then obtain k where "hm_get m k = Some v"
    using hm_values_get keyed_wf by metis
  with keyed_get [OF m this] show ?thesis by simp
qed

lemma keyed_insert [intro]: "keyed key P m \<Longrightarrow> key v = k \<Longrightarrow> P v \<Longrightarrow> keyed key P (hm_insert k v m)"
  by (auto simp: keyed_def hm_get_update hm.wf_ins)

lemma keyed_remove [intro]: "keyed key P m \<Longrightarrow> keyed key P (hm_remove k m)"
  by (auto simp: keyed_def hm_get_delete hm.wf_rem)

lemma keyed_retain [intro]: "keyed key P m \<Longrightarrow> keyed key P (hm_retain Q m)"
  by (auto simp: keyed_def hm_wf_retain hm_get_retain split: option.splits if_splits)

lemma keyed_mono: "keyed key P m \<Longrightarrow> (\<And>v. P v \<Longrightarrow> Q v) \<Longrightarrow> keyed key Q m"
  by (auto simp: keyed_def)

text \<open>\<open>min_by_key\<close> of an iterator: the first element with the least key.\<close>

fun min_by_key :: "('a \<Rightarrow> 'k :: linorder) \<Rightarrow> 'a list \<Rightarrow> 'a option" where
  "min_by_key f [] = None"
| "min_by_key f (x # xs) =
     (case min_by_key f xs of
        None \<Rightarrow> Some x
      | Some y \<Rightarrow> if f y < f x then Some y else Some x)"

lemma min_by_key_None [simp]: "min_by_key f xs = None \<longleftrightarrow> xs = []"
  by (cases xs) (auto split: option.splits)

lemma min_by_key_Some:
  "min_by_key f xs = Some x \<Longrightarrow> x \<in> set xs \<and> (\<forall>y \<in> set xs. f x \<le> f y)"
proof (induction xs arbitrary: x)
  case Nil
  then show ?case by simp
next
  case (Cons z xs)
  then show ?case
    by (cases "min_by_key f xs") (auto split: if_splits)
qed

subsection \<open>Decimal numbers\<close>

definition digit_char :: "nat \<Rightarrow> char" where
  "digit_char d = ''0123456789'' ! d"

text \<open>\<open>format!("{}", n)\<close> of an unsigned integer.\<close>

fun show_nat :: "nat \<Rightarrow> string" where
  "show_nat n = (if n < 10 then [digit_char n] else show_nat (n div 10) @ [digit_char (n mod 10)])"

declare show_nat.simps [simp del]

definition digit_val :: "nat \<Rightarrow> char \<Rightarrow> nat option" where
  "digit_val base c =
     (let v = of_char c :: nat in if 48 \<le> v \<and> v < 48 + base then Some (v - 48) else None)"

fun digits_val :: "nat \<Rightarrow> nat \<Rightarrow> string \<Rightarrow> nat option" where
  "digits_val base acc [] = Some acc"
| "digits_val base acc (c # cs) =
     (case digit_val base c of None \<Rightarrow> None | Some d \<Rightarrow> digits_val base (acc * base + d) cs)"

text \<open>
  \<open>str::parse::<uN>\<close> and \<open>uN::from_str_radix\<close>: an optional \<open>+\<close>, at least one digit, no overflow.
\<close>

definition parse_uint :: "nat \<Rightarrow> nat \<Rightarrow> string \<Rightarrow> nat option" where
  "parse_uint base bound s =
     (let t = (case s of [] \<Rightarrow> [] | c # r \<Rightarrow> if c = CHR ''+'' then r else s)
      in if t = [] then None
         else case digits_val base 0 t of
                None \<Rightarrow> None
              | Some n \<Rightarrow> if n < bound then Some n else None)"

abbreviation parse_u32 :: "string \<Rightarrow> nat option" where
  "parse_u32 \<equiv> parse_uint 10 (2 ^ 32)"

abbreviation parse_u64 :: "string \<Rightarrow> nat option" where
  "parse_u64 \<equiv> parse_uint 10 (2 ^ 64)"

lemma digit_val_digit_char: "d < 10 \<Longrightarrow> digit_val 10 (digit_char d) = Some d"
proof -
  assume "d < 10"
  then have "d \<in> {0, 1, 2, 3, 4, 5, 6, 7, 8, 9}" by auto
  then show ?thesis
    by (auto simp: digit_char_def digit_val_def Let_def)
qed

lemma digit_char_plus: "d < 10 \<Longrightarrow> digit_char d \<noteq> CHR ''+''"
proof -
  assume "d < 10"
  then have "d \<in> {0, 1, 2, 3, 4, 5, 6, 7, 8, 9}" by auto
  then show ?thesis
    by (auto simp: digit_char_def)
qed

lemma digits_val_append:
  "digits_val b a (xs @ ys)
    = (case digits_val b a xs of None \<Rightarrow> None | Some a' \<Rightarrow> digits_val b a' ys)"
  by (induction xs arbitrary: a) (auto split: option.splits)

lemma digits_val_show: "digits_val 10 a (show_nat n) = Some (a * 10 ^ length (show_nat n) + n)"
proof (induction n arbitrary: a rule: show_nat.induct)
  case (1 n)
  show ?case
  proof (cases "n < 10")
    case True
    then show ?thesis by (simp add: show_nat.simps [of n] digit_val_digit_char)
  next
    case False
    with 1 show ?thesis
      by (simp add: show_nat.simps [of n] digits_val_append digit_val_digit_char algebra_simps)
  qed
qed

lemma show_nat_nonempty [simp]: "show_nat n \<noteq> []"
  by (simp add: show_nat.simps [of n])

lemma show_nat_digits: "c \<in> set (show_nat n) \<Longrightarrow> \<exists>d < 10. c = digit_char d"
proof (induction n rule: show_nat.induct)
  case (1 n)
  show ?case
  proof (cases "n < 10")
    case True
    with 1 show ?thesis by (auto simp: show_nat.simps [of n])
  next
    case False
    with 1 show ?thesis
      by (auto simp: show_nat.simps [of n])
         (metis mod_less_divisor zero_less_numeral)
  qed
qed

text \<open>What is printed reads back.\<close>

lemma parse_show: "n < bound \<Longrightarrow> parse_uint 10 bound (show_nat n) = Some n"
proof -
  assume n: "n < bound"
  obtain c cs where s: "show_nat n = c # cs"
    by (cases "show_nat n") auto
  then have "c \<noteq> CHR ''+''"
    using show_nat_digits [of c n] digit_char_plus by auto
  with s n digits_val_show [of 0 n] show ?thesis
    by (simp add: parse_uint_def)
qed

end
