(* ===== verification/Rust_Str.thy ===== *)
theory Rust_Str
  imports Prelude
begin

text \<open>
  The operations of Rust's \<open>str\<close> that the components call, on UTF-8 byte strings. Nothing here
  is code of the repository: these are the standard library's functions, and the lemmas are the
  facts about them that the components' proofs use.
\<close>

abbreviation nl :: char where "nl \<equiv> CHR 0x0A"
abbreviation cr :: char where "cr \<equiv> CHR 0x0D"
abbreviation tab :: char where "tab \<equiv> CHR 0x09"

definition starts_with :: "string \<Rightarrow> string \<Rightarrow> bool" where
  "starts_with s p = prefix p s"

definition ends_with :: "string \<Rightarrow> string \<Rightarrow> bool" where
  "ends_with s p = suffix p s"

definition contains :: "string \<Rightarrow> string \<Rightarrow> bool" where
  "contains s p = sublist p s"

definition strip_prefix :: "string \<Rightarrow> string \<Rightarrow> string option" where
  "strip_prefix s p = (if prefix p s then Some (drop (length p) s) else None)"

definition strip_suffix :: "string \<Rightarrow> string \<Rightarrow> string option" where
  "strip_suffix s p = (if suffix p s then Some (take (length s - length p) s) else None)"

text \<open>\<open>trim_start_matches(p)\<close> for a string pattern: every leading copy of \<open>p\<close> goes.\<close>

function trim_start_matches :: "string \<Rightarrow> string \<Rightarrow> string" where
  "trim_start_matches s p =
     (if p \<noteq> [] \<and> prefix p s then trim_start_matches (drop (length p) s) p else s)"
  by pat_completeness auto
termination
  by (relation "measure (\<lambda>(s, p). length s)") (auto simp: prefix_def)

declare trim_start_matches.simps [simp del]

subsection \<open>Splitting\<close>

text \<open>\<open>split(c)\<close> for a byte \<open>c\<close>: always at least one piece.\<close>

fun split_char :: "char \<Rightarrow> string \<Rightarrow> string list" where
  "split_char c [] = [[]]"
| "split_char c (x # xs) =
     (if x = c then [] # split_char c xs
      else case split_char c xs of [] \<Rightarrow> [[x]] | p # ps \<Rightarrow> (x # p) # ps)"

lemma split_char_nonempty [simp]: "split_char c s \<noteq> []"
  by (induction s) (auto split: list.splits)

lemma split_char_no_sep: "p \<in> set (split_char c s) \<Longrightarrow> c \<notin> set p"
  by (induction s arbitrary: p) (fastforce split: if_splits list.splits)+

lemma split_char_append:
  "c \<notin> set p \<Longrightarrow> split_char c (p @ c # s) = p # split_char c s"
  by (induction p) auto

lemma split_char_single: "c \<notin> set p \<Longrightarrow> split_char c p = [p]"
  by (induction p) auto

text \<open>\<open>split_once(c)\<close>: the text before the first \<open>c\<close> and the text after it.\<close>

definition split_once :: "char \<Rightarrow> string \<Rightarrow> (string \<times> string) option" where
  "split_once c s =
     (case dropWhile (\<lambda>x. x \<noteq> c) s of
        [] \<Rightarrow> None
      | _ # r \<Rightarrow> Some (takeWhile (\<lambda>x. x \<noteq> c) s, r))"

lemma split_once_append: "c \<notin> set p \<Longrightarrow> split_once c (p @ c # r) = Some (p, r)"
proof -
  assume c: "c \<notin> set p"
  then have "dropWhile (\<lambda>x. x \<noteq> c) (p @ c # r) = c # r"
    by (induction p) auto
  moreover from c have "takeWhile (\<lambda>x. x \<noteq> c) (p @ c # r) = p"
    by (induction p) auto
  ultimately show ?thesis by (simp add: split_once_def)
qed

text \<open>\<open>find(p)\<close> and \<open>rfind(p)\<close>: the offset of the first and of the last occurrence.\<close>

fun find_str :: "string \<Rightarrow> string \<Rightarrow> nat option" where
  "find_str p [] = (if p = [] then Some 0 else None)"
| "find_str p (x # xs) = (if prefix p (x # xs) then Some 0 else map_option Suc (find_str p xs))"

fun rfind_str :: "string \<Rightarrow> string \<Rightarrow> nat option" where
  "rfind_str p [] = (if p = [] then Some 0 else None)"
| "rfind_str p (x # xs) =
     (case rfind_str p xs of
        Some n \<Rightarrow> Some (Suc n)
      | None \<Rightarrow> if prefix p (x # xs) then Some 0 else None)"

text \<open>
  \<open>str::lines\<close>: the pieces that end in a line feed, without it and without one carriage return
  before it, and a last piece without a line feed as it is.
\<close>

definition strip_cr :: "string \<Rightarrow> string" where
  "strip_cr l = (if l \<noteq> [] \<and> last l = cr then butlast l else l)"

fun str_lines_acc :: "string \<Rightarrow> string \<Rightarrow> string list" where
  "str_lines_acc acc [] = (if acc = [] then [] else [rev acc])"
| "str_lines_acc acc (c # cs) =
     (if c = nl then strip_cr (rev acc) # str_lines_acc [] cs else str_lines_acc (c # acc) cs)"

definition str_lines :: "string \<Rightarrow> string list" where
  "str_lines s = str_lines_acc [] s"

text \<open>\<open>lines.join("\n")\<close>.\<close>

fun join_lines :: "string list \<Rightarrow> string" where
  "join_lines [] = []"
| "join_lines [l] = l"
| "join_lines (l # ls) = l @ nl # join_lines ls"

lemma join_lines_Cons: "ls \<noteq> [] \<Longrightarrow> join_lines (l # ls) = l @ nl # join_lines ls"
  by (cases ls) auto

lemma str_lines_acc_line:
  "nl \<notin> set l \<Longrightarrow> str_lines_acc acc (l @ nl # s) = strip_cr (rev acc @ l) # str_lines_acc [] s"
  by (induction l arbitrary: acc) auto

lemma str_lines_line: "nl \<notin> set l \<Longrightarrow> str_lines (l @ nl # s) = strip_cr l # str_lines s"
  by (simp add: str_lines_def str_lines_acc_line)

lemma str_lines_acc_last: "nl \<notin> set l \<Longrightarrow> rev acc @ l \<noteq> [] \<Longrightarrow> str_lines_acc acc l = [rev acc @ l]"
  by (induction l arbitrary: acc) auto

lemma str_lines_last: "nl \<notin> set l \<Longrightarrow> l \<noteq> [] \<Longrightarrow> str_lines l = [l]"
  by (simp add: str_lines_def str_lines_acc_last)

lemma str_lines_Nil [simp]: "str_lines [] = []"
  by (simp add: str_lines_def)

lemma strip_cr_id: "cr \<notin> set l \<Longrightarrow> strip_cr l = l"
  by (auto simp: strip_cr_def dest: last_in_set)

text \<open>A text is a line, or a line and a line feed and more text.\<close>

lemma line_cases:
  obtains (last) "nl \<notin> set s" | (line) l r where "s = l @ nl # r" and "nl \<notin> set l"
proof (cases "nl \<in> set s")
  case True
  then obtain l r where "s = l @ nl # r" and "nl \<notin> set l"
    by (metis split_list_first)
  then show ?thesis by (rule line)
next
  case False
  then show ?thesis by (rule last)
qed

lemma str_lines_nonempty: "s \<noteq> [] \<Longrightarrow> str_lines s \<noteq> []"
  by (cases s rule: line_cases) (auto simp: str_lines_line str_lines_last)

text \<open>
  Joining the lines of a text that has no carriage return gives the text back, up to the line
  feed at its end.
\<close>

lemma join_str_lines:
  "cr \<notin> set s \<Longrightarrow> join_lines (str_lines s) @ (if s \<noteq> [] \<and> last s = nl then [nl] else []) = s"
proof (induction "length s" arbitrary: s rule: less_induct)
  case less
  show ?case
  proof (cases s rule: line_cases)
    case last
    then show ?thesis
      by (cases "s = []") (auto simp: str_lines_last dest: last_in_set)
  next
    case (line l r)
    with less.prems have "cr \<notin> set r" and "cr \<notin> set l" by auto
    with line less.hyps [of r] show ?thesis
      by (cases "r = []")
         (auto simp: str_lines_line strip_cr_id join_lines_Cons str_lines_nonempty)
  qed
qed

lemma str_lines_no_nl: "l \<in> set (str_lines s) \<Longrightarrow> nl \<notin> set l"
proof (induction "length s" arbitrary: s rule: less_induct)
  case less
  show ?case
  proof (cases s rule: line_cases)
    case last
    with less.prems show ?thesis
      by (cases "s = []") (auto simp: str_lines_last)
  next
    case (line l' r)
    with less.prems have "l = strip_cr l' \<or> l \<in> set (str_lines r)"
      by (simp add: str_lines_line)
    moreover have "nl \<notin> set (strip_cr l')"
      using line(2) by (auto simp: strip_cr_def dest: in_set_butlastD)
    ultimately show ?thesis
      using less.hyps [of r] line by auto
  qed
qed

lemma str_lines_join:
  assumes "\<forall>l \<in> set ls. nl \<notin> set l \<and> cr \<notin> set l" and "ls \<noteq> []"
  shows "str_lines (join_lines ls @ [nl]) = ls"
  using assms
proof (induction ls rule: join_lines.induct)
  case 1
  then show ?case by simp
next
  case (2 l)
  then show ?case
    using str_lines_line [of l "[]"] by (simp add: strip_cr_id)
next
  case (3 l l' ls)
  then show ?case by (simp add: str_lines_line strip_cr_id)
qed

subsection \<open>White space and case\<close>

text \<open>The UTF-8 sequences of the code points with the property \<open>White_Space\<close>.\<close>

definition ws_seqs :: "string list" where
  "ws_seqs =
     [[CHR 0x09], [CHR 0x0A], [CHR 0x0B], [CHR 0x0C], [CHR 0x0D], [CHR 0x20],
      [CHR 0xC2, CHR 0x85], [CHR 0xC2, CHR 0xA0], [CHR 0xE1, CHR 0x9A, CHR 0x80],
      [CHR 0xE2, CHR 0x80, CHR 0x80], [CHR 0xE2, CHR 0x80, CHR 0x81],
      [CHR 0xE2, CHR 0x80, CHR 0x82], [CHR 0xE2, CHR 0x80, CHR 0x83],
      [CHR 0xE2, CHR 0x80, CHR 0x84], [CHR 0xE2, CHR 0x80, CHR 0x85],
      [CHR 0xE2, CHR 0x80, CHR 0x86], [CHR 0xE2, CHR 0x80, CHR 0x87],
      [CHR 0xE2, CHR 0x80, CHR 0x88], [CHR 0xE2, CHR 0x80, CHR 0x89],
      [CHR 0xE2, CHR 0x80, CHR 0x8A], [CHR 0xE2, CHR 0x80, CHR 0xA8],
      [CHR 0xE2, CHR 0x80, CHR 0xA9], [CHR 0xE2, CHR 0x80, CHR 0xAF],
      [CHR 0xE2, CHR 0x81, CHR 0x9F], [CHR 0xE3, CHR 0x80, CHR 0x80]]"

text \<open>The length of the sequence of \<open>seqs\<close> that the text begins with, 0 if there is none.\<close>

definition seq_len :: "string list \<Rightarrow> string \<Rightarrow> nat" where
  "seq_len seqs s = (case find (\<lambda>w. prefix w s) seqs of None \<Rightarrow> 0 | Some w \<Rightarrow> length w)"

lemma seq_len_le: "seq_len seqs s \<le> length s"
  by (auto simp: seq_len_def find_Some_iff prefix_length_le split: option.splits)

function strip_seqs :: "string list \<Rightarrow> string \<Rightarrow> string" where
  "strip_seqs seqs s = (if seq_len seqs s = 0 then s else strip_seqs seqs (drop (seq_len seqs s) s))"
  by pat_completeness auto
termination
proof (relation "measure (\<lambda>(q, s). length s)", goal_cases)
  case (2 seqs s)
  then show ?case using seq_len_le [of seqs s] by simp
qed simp

declare strip_seqs.simps [simp del]

definition trim_start :: "string \<Rightarrow> string" where
  "trim_start s = strip_seqs ws_seqs s"

definition trim_end :: "string \<Rightarrow> string" where
  "trim_end s = rev (strip_seqs (map rev ws_seqs) (rev s))"

definition trim :: "string \<Rightarrow> string" where
  "trim s = trim_end (trim_start s)"

text \<open>A byte that is in no white space sequence: text that begins and ends so is trimmed.\<close>

definition token_char :: "char \<Rightarrow> bool" where
  "token_char c = (c \<notin> set (concat ws_seqs))"

lemma seq_len_head:
  assumes "\<forall>w \<in> set seqs. w \<noteq> [] \<and> hd w \<noteq> c"
  shows "seq_len seqs (c # s) = 0"
proof -
  have "\<not> prefix w (c # s)" if "w \<in> set seqs" for w
    using assms that by (cases w) auto
  then show ?thesis
    by (simp add: seq_len_def find_None_iff [THEN iffD2])
qed

lemma ws_seqs_nonempty: "[] \<notin> set ws_seqs"
  by (simp add: ws_seqs_def)

lemma seq_len_token: "token_char c \<Longrightarrow> seq_len ws_seqs (c # s) = 0"
  using ws_seqs_nonempty by (intro seq_len_head) (metis concat.simps token_char_def UN_I hd_in_set set_concat)

lemma seq_len_token_rev: "token_char c \<Longrightarrow> seq_len (map rev ws_seqs) (c # s) = 0"
proof (rule seq_len_head, clarify)
  fix w
  assume c: "token_char c" and w: "w \<in> set (map rev ws_seqs)"
  then obtain v where v: "v \<in> set ws_seqs" "w = rev v" by auto
  with ws_seqs_nonempty have "v \<noteq> []" by auto
  moreover from v this have "hd w \<in> set (concat ws_seqs)"
    by (metis UN_I hd_in_set rev_is_Nil_conv set_concat set_rev)
  ultimately show "w \<noteq> [] \<and> hd w \<noteq> c"
    using c v(2) by (auto simp: token_char_def)
qed

lemma strip_seqs_head: "s = [] \<or> seq_len seqs s = 0 \<Longrightarrow> strip_seqs seqs s = s"
  using strip_seqs.simps [of seqs s] seq_len_le [of seqs s] by auto

lemma trim_token:
  assumes "s \<noteq> []" and "token_char (hd s)" and "token_char (last s)"
  shows "trim s = s"
proof -
  have "seq_len ws_seqs s = 0"
    using assms seq_len_token [of "hd s" "tl s"] by simp
  moreover have "seq_len (map rev ws_seqs) (rev s) = 0"
    using assms seq_len_token_rev [of "last s" "rev (butlast s)"]
    by (metis append_butlast_last_id rev.simps(2) rev_rev_ident rev_eq_Cons_iff)
  ultimately show ?thesis
    by (simp add: trim_def trim_start_def trim_end_def strip_seqs_head)
qed

lemma trim_Nil [simp]: "trim [] = []"
  by (simp add: trim_def trim_start_def trim_end_def strip_seqs_head)

text \<open>\<open>split_whitespace\<close>: the maximal runs without white space, none of them empty.\<close>

function split_ws :: "string \<Rightarrow> string \<Rightarrow> string list" where
  "split_ws cur s =
     (case s of
        [] \<Rightarrow> (if cur = [] then [] else [cur])
      | c # cs \<Rightarrow>
          if seq_len ws_seqs s = 0 then split_ws (cur @ [c]) cs
          else (if cur = [] then [] else [cur]) @ split_ws [] (drop (seq_len ws_seqs s) s))"
  by pat_completeness auto
termination
proof (relation "measure (\<lambda>(cur, s). length s)", goal_cases)
  case (3 cur s c cs)
  then show ?case using seq_len_le [of ws_seqs s] by simp
qed auto

declare split_ws.simps [simp del]

definition split_whitespace :: "string \<Rightarrow> string list" where
  "split_whitespace s = split_ws [] s"

lemma split_ws_nonempty: "w \<in> set (split_ws cur s) \<Longrightarrow> w \<noteq> []"
proof (induction cur s rule: split_ws.induct)
  case (1 cur s)
  then show ?case
    by (subst (asm) split_ws.simps) (auto split: list.splits if_splits)
qed

lemma split_whitespace_nonempty: "w \<in> set (split_whitespace s) \<Longrightarrow> w \<noteq> []"
  unfolding split_whitespace_def by (rule split_ws_nonempty)

definition lower_char :: "char \<Rightarrow> char" where
  "lower_char c =
     (let v = of_char c :: nat in if 65 \<le> v \<and> v \<le> 90 then char_of (v + 32) else c)"

definition to_lowercase :: "string \<Rightarrow> string" where
  "to_lowercase s = map lower_char s"

definition eq_ignore_ascii_case :: "string \<Rightarrow> string \<Rightarrow> bool" where
  "eq_ignore_ascii_case s t = (map lower_char s = map lower_char t)"

subsection \<open>Digits\<close>

lemma digit_table:
  "list_all (\<lambda>c. token_char c \<and> lower_char c = c
     \<and> c \<notin> {CHR ''/'', CHR ''s'', CHR '' '', CHR ''h'', CHR ''m'', CHR '',''}) (map digit_char [0..<10])"
  by code_simp

lemma digit_facts:
  assumes "c \<in> set (show_nat n)"
  shows "token_char c \<and> lower_char c = c
    \<and> c \<notin> {CHR ''/'', CHR ''s'', CHR '' '', CHR ''h'', CHR ''m'', CHR '',''}"
proof -
  from assms have "c \<in> set (map digit_char [0..<10])"
    using show_nat_digits by force
  with digit_table show ?thesis
    unfolding list_all_iff by (rule bspec)
qed

lemma show_nat_ends:
  "token_char (hd (show_nat n))" "token_char (last (show_nat n))"
  "hd (show_nat n) \<notin> {CHR ''s'', CHR '' ''}" "last (show_nat n) \<notin> {CHR ''s'', CHR '' '', CHR ''h'', CHR ''m''}"
  using digit_facts [OF hd_in_set, of n] digit_facts [OF last_in_set, of n] by auto

lemma trim_show [simp]: "trim (show_nat n) = show_nat n"
  by (simp add: trim_token show_nat_ends)

lemma lower_show [simp]: "map lower_char (show_nat n) = show_nat n"
  using digit_facts by (intro map_idI) blast

end
