(* ===== verification/Std_Path.thy ===== *)
theory Std_Path
  imports Rust_Str
begin

text \<open>
  \<open>std::path\<close> on Unix, as far as the components use it. A \<open>PathBuf\<close> is its text; two paths are
  equal when their components are (\<open>path_eq\<close>), and \<open>starts_with\<close> compares whole components.
  \<open>components\<close> drops repeated separators and \<open>.\<close> except at the front of a relative path, and
  keeps \<open>..\<close>: no function here consults a file system.
\<close>

datatype component = RootDir | CurDir | ParentDir | Normal string

definition seg_component :: "string \<Rightarrow> component list" where
  "seg_component s =
     (if s = [] \<or> s = ''.'' then [] else if s = ''..'' then [ParentDir] else [Normal s])"

definition is_absolute :: "string \<Rightarrow> bool" where
  "is_absolute p = prefix ''/'' p"

definition components :: "string \<Rightarrow> component list" where
  "components p =
     (let segs = split_char (CHR ''/'') p
      in (if is_absolute p then [RootDir] else if hd segs = ''.'' then [CurDir] else [])
         @ concat (map seg_component segs))"

definition path_eq :: "string \<Rightarrow> string \<Rightarrow> bool" where
  "path_eq p q = (components p = components q)"

definition path_starts_with :: "string \<Rightarrow> string \<Rightarrow> bool" where
  "path_starts_with p base = prefix (components base) (components p)"

definition file_name :: "string \<Rightarrow> string option" where
  "file_name p =
     (case rev (components p) of Normal s # _ \<Rightarrow> Some s | _ \<Rightarrow> None)"

text \<open>\<open>Path::extension\<close>: what follows the last dot of the file name, unless that dot is first.\<close>

definition file_extension :: "string \<Rightarrow> string option" where
  "file_extension p =
     (case file_name p of
        None \<Rightarrow> None
      | Some f \<Rightarrow>
          (case rfind_str ''.'' f of
             None \<Rightarrow> None
           | Some 0 \<Rightarrow> None
           | Some n \<Rightarrow> Some (drop (Suc n) f)))"

text \<open>\<open>Path::join\<close>: an absolute argument replaces the path.\<close>

definition path_join :: "string \<Rightarrow> string \<Rightarrow> string" where
  "path_join p q =
     (if is_absolute q then q
      else if p = [] \<or> last p = CHR ''/'' then p @ q
      else p @ ''/'' @ q)"

lemma path_starts_with_refl [simp]: "path_starts_with p p"
  by (simp add: path_starts_with_def)

lemma path_starts_with_trans:
  "path_starts_with p q \<Longrightarrow> path_starts_with q r \<Longrightarrow> path_starts_with p r"
  unfolding path_starts_with_def by (rule prefix_order.trans)

lemma path_eq_starts_with: "path_eq p q \<Longrightarrow> path_starts_with p q"
  by (simp add: path_eq_def path_starts_with_def)

lemma RootDir_components: "RootDir \<in> set (components p) \<longleftrightarrow> is_absolute p"
  by (auto simp: components_def Let_def seg_component_def split: if_splits)

lemma hd_components_absolute: "is_absolute p \<Longrightarrow> \<exists>cs. components p = RootDir # cs"
  by (simp add: components_def Let_def)

lemma starts_with_absolute:
  "path_starts_with p q \<Longrightarrow> is_absolute q \<Longrightarrow> is_absolute p"
  by (metis RootDir_components path_starts_with_def set_mono_prefix subsetD)

text \<open>Joining a relative path that does not start with \<open>./\<close> appends its components.\<close>

lemma split_char_cons_sep: "split_char c (p @ c # q) = split_char c p @ split_char c q"
proof (induction p)
  case Nil
  then show ?case by simp
next
  case (Cons x p)
  then show ?case by (cases "split_char c p") auto
qed

lemma components_join:
  assumes "\<not> is_absolute q" and "p \<noteq> []"
  shows "components (path_join p q)
    = components p @ concat (map seg_component (split_char (CHR ''/'') q))"
proof -
  have abs: "is_absolute (p @ t) = is_absolute p" for t
    using assms(2) by (cases p) (auto simp: is_absolute_def)
  show ?thesis
  proof (cases "last p = CHR ''/''")
    case True
    with assms(2) obtain r where r: "p = r @ ''/''"
      by (metis append_butlast_last_id)
    then show ?thesis
      using assms True abs [of q] split_char_cons_sep [of "CHR ''/''" r q]
        split_char_cons_sep [of "CHR ''/''" r "[]"]
      by (simp add: path_join_def components_def Let_def hd_append seg_component_def)
  next
    case False
    then show ?thesis
      using assms abs [of "''/'' @ q"]
      by (simp add: path_join_def components_def Let_def split_char_cons_sep hd_append)
  qed
qed

lemma join_starts_with:
  assumes "\<not> is_absolute p"
  shows "path_starts_with (path_join root p) root"
proof (cases "root = []")
  case True
  then show ?thesis
    by (simp add: path_starts_with_def components_def [of "[]"] is_absolute_def seg_component_def)
next
  case False
  with assms show ?thesis
    by (simp add: path_starts_with_def components_join)
qed

text \<open>A relative path without \<open>..\<close> is joined as the names it spells.\<close>

definition path_names :: "string \<Rightarrow> string list" where
  "path_names p = filter (\<lambda>s. s \<noteq> [] \<and> s \<noteq> ''.'') (split_char (CHR ''/'') p)"

lemma segs_Normal:
  "''..'' \<notin> set segs \<Longrightarrow>
     concat (map seg_component segs) = map Normal (filter (\<lambda>s. s \<noteq> [] \<and> s \<noteq> ''.'') segs)"
  by (induction segs) (auto simp: seg_component_def)

lemma ParentDir_segs:
  "ParentDir \<in> set (components p) \<longleftrightarrow> ''..'' \<in> set (split_char (CHR ''/'') p)"
  by (auto simp: components_def Let_def seg_component_def split: if_splits)

lemma components_join_names:
  assumes "\<not> is_absolute q" and "ParentDir \<notin> set (components q)" and "p \<noteq> []"
  shows "components (path_join p q) = components p @ map Normal (path_names q)"
  using assms by (simp add: components_join ParentDir_segs segs_Normal path_names_def)

end
