(* ===== verification/Std_Fs.thy ===== *)
theory Std_Fs
  imports Std_Path
begin

text \<open>
  The file system under \<open>std::fs\<close>, as the patch engine and the path checks see it: a finite map
  from physical locations (the names from the root) to files, directories and symbolic links,
  and a current directory. A path is walked component by component; a link is replaced by its
  target, at most 40 times (the kernel's limit). Permissions, hard links and concurrent writers
  are not modelled, and file contents are valid UTF-8.
\<close>

datatype node = File string | Dir | Link string

record file_system =
  nodes :: "(string list, node) hmap"
  cwd :: "string list"

definition node_at :: "file_system \<Rightarrow> string list \<Rightarrow> node option" where
  "node_at fs loc = (if loc = [] then Some Dir else hm_get (nodes fs) loc)"

definition put_node :: "string list \<Rightarrow> node \<Rightarrow> file_system \<Rightarrow> file_system" where
  "put_node loc n fs = fs\<lparr>nodes := hm_insert loc n (nodes fs)\<rparr>"

definition del_node :: "string list \<Rightarrow> file_system \<Rightarrow> file_system" where
  "del_node loc fs = fs\<lparr>nodes := hm_remove loc (nodes fs)\<rparr>"

definition max_links :: nat where
  "max_links = 40"

text \<open>
  The location a path leads to from \<open>cur\<close>. The last component may be missing: it is where a file
  would be created. \<open>follow\<close> says whether a link in last position is followed.
\<close>

function walk ::
  "nat \<Rightarrow> file_system \<Rightarrow> bool \<Rightarrow> string list \<Rightarrow> component list \<Rightarrow> string list option"
where
  "walk n fs follow cur [] = Some cur"
| "walk n fs follow cur (RootDir # cs) = walk n fs follow [] cs"
| "walk n fs follow cur (CurDir # cs) = walk n fs follow cur cs"
| "walk n fs follow cur (ParentDir # cs) = walk n fs follow (butlast cur) cs"
| "walk n fs follow cur (Normal s # cs) =
     (case node_at fs (cur @ [s]) of
        Some Dir \<Rightarrow> walk n fs follow (cur @ [s]) cs
      | Some (File _) \<Rightarrow> (if cs = [] then Some (cur @ [s]) else None)
      | None \<Rightarrow> (if cs = [] then Some (cur @ [s]) else None)
      | Some (Link t) \<Rightarrow>
          (if cs = [] \<and> \<not> follow then Some (cur @ [s])
           else case n of
                  0 \<Rightarrow> None
                | Suc m \<Rightarrow> walk m fs follow cur (components t @ cs)))"
  by pat_completeness auto
termination
  by (relation "measures [\<lambda>(n, fs, f, cur, cs). n, \<lambda>(n, fs, f, cur, cs). length cs]") auto

definition locate :: "file_system \<Rightarrow> bool \<Rightarrow> component list \<Rightarrow> string list option" where
  "locate fs follow path = walk max_links fs follow (cwd fs) path"

definition stat :: "file_system \<Rightarrow> bool \<Rightarrow> component list \<Rightarrow> node option" where
  "stat fs follow path =
     (case locate fs follow path of None \<Rightarrow> None | Some loc \<Rightarrow> node_at fs loc)"

text \<open>\<open>Path::exists\<close> follows links; \<open>is_symlink\<close> and \<open>symlink_metadata\<close> do not.\<close>

definition path_exists :: "file_system \<Rightarrow> component list \<Rightarrow> bool" where
  "path_exists fs path = (stat fs True path \<noteq> None)"

definition path_is_symlink :: "file_system \<Rightarrow> component list \<Rightarrow> bool" where
  "path_is_symlink fs path = (case stat fs False path of Some (Link _) \<Rightarrow> True | _ \<Rightarrow> False)"

definition read_link :: "file_system \<Rightarrow> component list \<Rightarrow> string option" where
  "read_link fs path = (case stat fs False path of Some (Link t) \<Rightarrow> Some t | _ \<Rightarrow> None)"

definition canonicalize :: "file_system \<Rightarrow> component list \<Rightarrow> component list option" where
  "canonicalize fs path =
     (case locate fs True path of
        None \<Rightarrow> None
      | Some loc \<Rightarrow> if node_at fs loc = None then None else Some (RootDir # map Normal loc))"

definition read_to_string :: "file_system \<Rightarrow> component list \<Rightarrow> string option" where
  "read_to_string fs path = (case stat fs True path of Some (File t) \<Rightarrow> Some t | _ \<Rightarrow> None)"

text \<open>Opening for writing with \<open>create\<close> and \<open>truncate\<close>, then writing the whole text.\<close>

definition write_text :: "component list \<Rightarrow> string \<Rightarrow> file_system \<Rightarrow> file_system option" where
  "write_text path text fs =
     (case locate fs True path of
        None \<Rightarrow> None
      | Some loc \<Rightarrow>
          (case node_at fs loc of
             Some Dir \<Rightarrow> None
           | Some (Link _) \<Rightarrow> None
           | _ \<Rightarrow> Some (put_node loc (File text) fs)))"

definition remove_file :: "component list \<Rightarrow> file_system \<Rightarrow> file_system option" where
  "remove_file path fs =
     (case locate fs False path of
        None \<Rightarrow> None
      | Some loc \<Rightarrow>
          (case node_at fs loc of
             None \<Rightarrow> None
           | Some Dir \<Rightarrow> None
           | _ \<Rightarrow> Some (del_node loc fs)))"

text \<open>\<open>rename\<close> of a file or link: replaces what is at the target, unless that is a directory.\<close>

definition rename_file ::
  "component list \<Rightarrow> component list \<Rightarrow> file_system \<Rightarrow> file_system option"
where
  "rename_file src dst fs =
     (case (locate fs False src, locate fs False dst) of
        (Some a, Some b) \<Rightarrow>
          (case node_at fs a of
             None \<Rightarrow> None
           | Some Dir \<Rightarrow> None
           | Some n \<Rightarrow>
               if node_at fs b = Some Dir then None
               else if a = b then Some fs
               else Some (put_node b n (del_node a fs)))
      | _ \<Rightarrow> None)"

text \<open>\<open>create_dir_all\<close>: every missing directory on the way is created.\<close>

function create_dirs ::
  "nat \<Rightarrow> string list \<Rightarrow> component list \<Rightarrow> file_system \<Rightarrow> file_system option"
where
  "create_dirs n cur [] fs = Some fs"
| "create_dirs n cur (RootDir # cs) fs = create_dirs n [] cs fs"
| "create_dirs n cur (CurDir # cs) fs = create_dirs n cur cs fs"
| "create_dirs n cur (ParentDir # cs) fs = create_dirs n (butlast cur) cs fs"
| "create_dirs n cur (Normal s # cs) fs =
     (case node_at fs (cur @ [s]) of
        Some Dir \<Rightarrow> create_dirs n (cur @ [s]) cs fs
      | Some (File _) \<Rightarrow> None
      | None \<Rightarrow> create_dirs n (cur @ [s]) cs (put_node (cur @ [s]) Dir fs)
      | Some (Link t) \<Rightarrow>
          (case n of 0 \<Rightarrow> None | Suc m \<Rightarrow> create_dirs m cur (components t @ cs) fs))"
  by pat_completeness auto
termination
  by (relation "measures [\<lambda>(n, cur, cs, fs). n, \<lambda>(n, cur, cs, fs). length cs]") auto

definition create_dir_all :: "component list \<Rightarrow> file_system \<Rightarrow> file_system option" where
  "create_dir_all path fs = create_dirs max_links (cwd fs) path fs"

subsection \<open>Reading after writing\<close>

lemma node_at_put: "loc \<noteq> [] \<Longrightarrow>
    node_at (put_node loc n fs) l = (if l = loc then Some n else node_at fs l)"
  by (auto simp: node_at_def put_node_def hm_get_update)

lemma node_at_put_other: "l \<noteq> loc \<Longrightarrow> node_at (put_node loc n fs) l = node_at fs l"
  by (auto simp: node_at_def put_node_def hm_get_update)

lemma node_at_del_other: "l \<noteq> loc \<Longrightarrow> node_at (del_node loc fs) l = node_at fs l"
  by (auto simp: node_at_def del_node_def hm_get_delete)

lemma cwd_put [simp]: "cwd (put_node loc n fs) = cwd fs"
  by (simp add: put_node_def)

lemma cwd_del [simp]: "cwd (del_node loc fs) = cwd fs"
  by (simp add: del_node_def)

subsection \<open>Trees without links\<close>

text \<open>No symbolic link at or below \<open>root\<close>.\<close>

definition link_free :: "file_system \<Rightarrow> string list \<Rightarrow> bool" where
  "link_free fs root = (\<forall>loc. prefix root loc \<longrightarrow> (\<forall>t. node_at fs loc \<noteq> Some (Link t)))"

text \<open>Without links and without \<open>..\<close>, a relative walk appends the names it meets.\<close>

fun plain :: "component list \<Rightarrow> bool" where
  "plain [] = True"
| "plain (CurDir # cs) = plain cs"
| "plain (Normal _ # cs) = plain cs"
| "plain (_ # cs) = False"

lemma plain_append [simp]: "plain (xs @ ys) = (plain xs \<and> plain ys)"
  by (induction xs rule: plain.induct) auto

lemma plain_iff: "plain cs \<longleftrightarrow> RootDir \<notin> set cs \<and> ParentDir \<notin> set cs"
  by (induction cs rule: plain.induct) auto

fun names :: "component list \<Rightarrow> string list" where
  "names [] = []"
| "names (Normal s # cs) = s # names cs"
| "names (_ # cs) = names cs"

lemma names_append [simp]: "names (xs @ ys) = names xs @ names ys"
  by (induction xs rule: names.induct) auto

lemma names_map_Normal [simp]: "names (map Normal ns) = ns"
  by (induction ns) auto

lemma prefix_snoc_intro: "prefix root cur \<Longrightarrow> prefix root (cur @ [s])"
  by (auto simp: prefix_def)

lemma walk_link_free:
  "plain cs \<Longrightarrow> link_free fs root \<Longrightarrow> prefix root cur \<Longrightarrow> walk n fs follow cur cs = Some loc
    \<Longrightarrow> loc = cur @ names cs"
proof (induction n fs follow cur cs rule: walk.induct)
  case (1 n fs follow cur)
  then show ?case by simp
next
  case (2 n fs follow cur cs)
  then show ?case by simp
next
  case (3 n fs follow cur cs)
  then show ?case by simp
next
  case (4 n fs follow cur cs)
  then show ?case by simp
next
  case (5 n fs follow cur s cs)
  let ?p = "cur @ [s]"
  have pre: "prefix root ?p"
    by (rule prefix_snoc_intro) (rule "5.prems"(3))
  show ?case
  proof (cases "node_at fs ?p")
    case None
    with "5.prems"(4) show ?thesis by (simp split: if_splits)
  next
    case (Some nd)
    show ?thesis
    proof (cases nd)
      case (File t)
      with Some "5.prems"(4) show ?thesis by (simp split: if_splits)
    next
      case Dir
      have "loc = ?p @ names cs"
        using "5.IH"(1) [of Dir] Some Dir "5.prems" pre by simp
      then show ?thesis by simp
    next
      case (Link t)
      with Some "5.prems"(2) pre show ?thesis by (simp add: link_free_def)
    qed
  qed
qed

lemma link_free_put: "link_free fs root \<Longrightarrow> loc \<noteq> [] \<Longrightarrow> (\<forall>t. n \<noteq> Link t) \<Longrightarrow> link_free (put_node loc n fs) root"
  by (simp add: link_free_def node_at_put)

text \<open>Nothing changes but locations strictly below \<open>root\<close>.\<close>

definition only_below :: "string list \<Rightarrow> file_system \<Rightarrow> file_system \<Rightarrow> bool" where
  "only_below root fs fs' =
     (cwd fs' = cwd fs \<and> (\<forall>l. \<not> strict_prefix root l \<longrightarrow> node_at fs' l = node_at fs l))"

lemma only_below_refl [simp]: "only_below root fs fs"
  by (simp add: only_below_def)

lemma only_below_trans: "only_below root a b \<Longrightarrow> only_below root b c \<Longrightarrow> only_below root a c"
  by (simp add: only_below_def)

lemma only_below_put: "strict_prefix root loc \<Longrightarrow> only_below root fs (put_node loc n fs)"
  by (auto simp: only_below_def node_at_put_other)

lemma only_below_del: "strict_prefix root loc \<Longrightarrow> only_below root fs (del_node loc fs)"
  by (auto simp: only_below_def node_at_del_other)

lemma only_below_dir: "only_below root fs fs' \<Longrightarrow> prefix p root \<Longrightarrow> node_at fs' p = node_at fs p"
  unfolding only_below_def by (meson prefix_order.leD)

lemma link_free_del: "link_free fs root \<Longrightarrow> link_free (del_node loc fs) root"
  by (auto simp: link_free_def node_at_def del_node_def hm_get_delete)

lemma strict_prefix_snoc: "prefix root cur \<Longrightarrow> strict_prefix root (cur @ [s])"
  by (auto simp: prefix_def strict_prefix_def)

lemma create_dirs_link_free:
  "plain cs \<Longrightarrow> link_free fs root \<Longrightarrow> prefix root cur \<Longrightarrow> create_dirs n cur cs fs = Some fs'
    \<Longrightarrow> link_free fs' root \<and> only_below root fs fs'"
proof (induction n cur cs fs rule: create_dirs.induct)
  case (1 n cur fs)
  then show ?case by simp
next
  case (2 n cur cs fs)
  then show ?case by simp
next
  case (3 n cur cs fs)
  then show ?case by simp
next
  case (4 n cur cs fs)
  then show ?case by simp
next
  case (5 n cur s cs fs)
  let ?p = "cur @ [s]"
  have pre: "prefix root ?p"
    by (rule prefix_snoc_intro) (rule "5.prems"(3))
  show ?case
  proof (cases "node_at fs ?p")
    case None
    let ?fs = "put_node ?p Dir fs"
    have lf: "link_free ?fs root"
      using "5.prems"(2) by (simp add: link_free_put)
    have "link_free fs' root \<and> only_below root ?fs fs'"
      using "5.IH"(1) None "5.prems" lf pre by simp
    then show ?thesis
      using only_below_put [OF strict_prefix_snoc [OF "5.prems"(3)], of fs s Dir]
        only_below_trans by blast
  next
    case (Some nd)
    show ?thesis
    proof (cases nd)
      case (File t)
      with Some "5.prems"(4) show ?thesis by simp
    next
      case Dir
      then show ?thesis
        using "5.IH"(2) Some "5.prems" pre by simp
    next
      case (Link t)
      with Some "5.prems"(2) pre show ?thesis by (simp add: link_free_def)
    qed
  qed
qed

subsection \<open>A working tree: a physical directory without links in it\<close>

definition work_tree :: "file_system \<Rightarrow> string list \<Rightarrow> bool" where
  "work_tree fs root =
     (link_free fs root \<and> (\<forall>p. prefix p root \<longrightarrow> node_at fs p = Some Dir))"

lemma work_tree_below: "work_tree fs root \<Longrightarrow> only_below root fs fs' \<Longrightarrow> link_free fs' root
    \<Longrightarrow> work_tree fs' root"
  unfolding work_tree_def using only_below_dir by metis

lemma walk_dirs:
  "(\<forall>p. prefix p ns \<longrightarrow> node_at fs (cur @ p) = Some Dir)
    \<Longrightarrow> walk n fs follow cur (map Normal ns @ cs) = walk n fs follow (cur @ ns) cs"
proof (induction ns arbitrary: cur)
  case Nil
  then show ?case by simp
next
  case (Cons s ns)
  then have "node_at fs (cur @ [s]) = Some Dir" by simp
  moreover have "\<forall>p. prefix p ns \<longrightarrow> node_at fs ((cur @ [s]) @ p) = Some Dir"
    using Cons.prems by (metis Cons_prefix_Cons append.assoc append_Cons append_Nil)
  ultimately show ?case
    using Cons.IH [of "cur @ [s]"] by simp
qed

lemma create_dirs_dirs:
  "(\<forall>p. prefix p ns \<longrightarrow> node_at fs (cur @ p) = Some Dir)
    \<Longrightarrow> create_dirs n cur (map Normal ns @ cs) fs = create_dirs n (cur @ ns) cs fs"
proof (induction ns arbitrary: cur)
  case Nil
  then show ?case by simp
next
  case (Cons s ns)
  then have "node_at fs (cur @ [s]) = Some Dir" by simp
  moreover have "\<forall>p. prefix p ns \<longrightarrow> node_at fs ((cur @ [s]) @ p) = Some Dir"
    using Cons.prems by (metis Cons_prefix_Cons append.assoc append_Cons append_Nil)
  ultimately show ?case
    using Cons.IH [of "cur @ [s]"] by simp
qed

text \<open>In a working tree, a path below the root leads to the names it spells.\<close>

lemma locate_work_tree:
  assumes "work_tree fs root" and "plain cs"
    and "locate fs follow (RootDir # map Normal root @ cs) = Some loc"
  shows "loc = root @ names cs"
proof -
  have "walk max_links fs follow root cs = Some loc"
    using assms walk_dirs [of root fs "[]" max_links follow cs]
    by (simp add: locate_def work_tree_def)
  then show ?thesis
    using walk_link_free [OF assms(2), of fs root root] assms(1) by (simp add: work_tree_def)
qed

lemma create_dir_all_work_tree:
  assumes "work_tree fs root" and "plain cs"
    and "create_dir_all (RootDir # map Normal root @ cs) fs = Some fs'"
  shows "work_tree fs' root \<and> only_below root fs fs'"
proof -
  have "create_dirs max_links root cs fs = Some fs'"
    using assms create_dirs_dirs [of root fs "[]" max_links cs]
    by (simp add: create_dir_all_def work_tree_def)
  then have "link_free fs' root \<and> only_below root fs fs'"
    using create_dirs_link_free [OF assms(2), of fs root root] assms(1) by (simp add: work_tree_def)
  then show ?thesis
    using work_tree_below [OF assms(1)] by blast
qed

lemma strict_below: "names cs \<noteq> [] \<Longrightarrow> strict_prefix root (root @ names cs)"
  by (simp add: strict_prefix_def)

lemma write_text_work_tree:
  assumes "work_tree fs root" and "plain cs" and "names cs \<noteq> []"
    and "write_text (RootDir # map Normal root @ cs) t fs = Some fs'"
  shows "work_tree fs' root \<and> only_below root fs fs'"
proof -
  from assms(4) obtain loc where loc: "locate fs True (RootDir # map Normal root @ cs) = Some loc"
    and fs': "fs' = put_node loc (File t) fs"
    by (auto simp: write_text_def split: option.splits node.splits)
  have l: "loc = root @ names cs"
    using locate_work_tree [OF assms(1,2) loc] .
  then have "only_below root fs fs'"
    using strict_below [OF assms(3)] by (simp add: fs' only_below_put)
  moreover have "link_free fs' root"
    using assms(1,3) l by (simp add: fs' link_free_put work_tree_def)
  ultimately show ?thesis
    using work_tree_below [OF assms(1)] by blast
qed

lemma remove_file_work_tree:
  assumes "work_tree fs root" and "plain cs" and "names cs \<noteq> []"
    and "remove_file (RootDir # map Normal root @ cs) fs = Some fs'"
  shows "work_tree fs' root \<and> only_below root fs fs'"
proof -
  from assms(4) obtain loc where loc: "locate fs False (RootDir # map Normal root @ cs) = Some loc"
    and fs': "fs' = del_node loc fs"
    by (auto simp: remove_file_def split: option.splits node.splits)
  have l: "loc = root @ names cs"
    using locate_work_tree [OF assms(1,2) loc] .
  then have "only_below root fs fs'"
    using strict_below [OF assms(3)] by (simp add: fs' only_below_del)
  moreover have "link_free fs' root"
    using assms(1) by (simp add: fs' link_free_del work_tree_def)
  ultimately show ?thesis
    using work_tree_below [OF assms(1)] by blast
qed

lemma rename_file_work_tree:
  assumes "work_tree fs root" and "plain cs" and "names cs \<noteq> []" and "plain ds" and "names ds \<noteq> []"
    and "rename_file (RootDir # map Normal root @ cs) (RootDir # map Normal root @ ds) fs = Some fs'"
  shows "work_tree fs' root \<and> only_below root fs fs'"
proof -
  from assms(6) obtain a b n
    where a: "locate fs False (RootDir # map Normal root @ cs) = Some a"
      and b: "locate fs False (RootDir # map Normal root @ ds) = Some b"
      and n: "node_at fs a = Some n"
      and fs': "fs' = fs \<or> fs' = put_node b n (del_node a fs)"
    by (auto simp: rename_file_def split: option.splits node.splits if_splits)
  have a': "a = root @ names cs" and b': "b = root @ names ds"
    using locate_work_tree [OF assms(1,2) a] locate_work_tree [OF assms(1,4) b] by simp_all
  have "only_below root fs (put_node b n (del_node a fs))"
    using strict_below [OF assms(3), of root] strict_below [OF assms(5), of root] a' b'
      only_below_del only_below_put only_below_trans by metis
  moreover have "link_free (put_node b n (del_node a fs)) root"
  proof (rule link_free_put)
    show "link_free (del_node a fs) root"
      using assms(1) by (simp add: link_free_del work_tree_def)
    show "b \<noteq> []" using b' assms(5) by simp
    show "\<forall>t. n \<noteq> Link t"
      using assms(1) n a' by (auto simp: work_tree_def link_free_def)
  qed
  ultimately show ?thesis
    using fs' assms(1) work_tree_below [OF assms(1)] by auto
qed

end
