(* ===== verification/Approval.thy ===== *)
theory Approval
  imports Std_Path
begin

text \<open>
  The approval levels, sandbox profiles and change kinds of \<open>crates/common/src/lib.rs\<close>, which
  the policy engine and the patch pipeline share, with the order \<open>satisfies\<close> on levels.
\<close>

datatype approval_level =
    Untrusted
  | Ask
  | Moderate
  | Trusted
  | Privileged "string list"

datatype sandbox_profile = Strict | Permissive

datatype file_change_kind =
    KindAdd | KindMod | KindDel | KindModify | KindCreate | KindDelete | KindRename | KindCopy

definition can_access_path :: "approval_level \<Rightarrow> string \<Rightarrow> bool" where
  "can_access_path l path =
     (case l of
        Privileged allowed_paths \<Rightarrow>
          (\<exists>a \<in> set allowed_paths. path_starts_with path a \<or> path_eq path a)
      | _ \<Rightarrow> True)"

definition requires_approval :: "approval_level \<Rightarrow> bool" where
  "requires_approval l = (case l of Untrusted \<Rightarrow> True | Ask \<Rightarrow> True | _ \<Rightarrow> False)"

fun security_rank :: "approval_level \<Rightarrow> nat" where
  "security_rank Untrusted = 0"
| "security_rank Ask = 1"
| "security_rank Moderate = 2"
| "security_rank Trusted = 3"
| "security_rank (Privileged _) = 4"

fun satisfies :: "approval_level \<Rightarrow> approval_level \<Rightarrow> bool" where
  "satisfies (Privileged our_paths) (Privileged req_paths) =
     (\<forall>r \<in> set req_paths. \<exists>p \<in> set our_paths. path_starts_with r p \<or> path_eq r p)"
| "satisfies (Privileged _) _ = True"
| "satisfies l required = (security_rank required \<le> security_rank l)"

subsection \<open>The order on levels\<close>

lemma under_iff: "path_starts_with r p \<or> path_eq r p \<longleftrightarrow> path_starts_with r p"
  by (auto intro: path_eq_starts_with)

lemma satisfies_Privileged:
  "satisfies (Privileged ps) (Privileged qs)
     \<longleftrightarrow> (\<forall>q \<in> set qs. \<exists>p \<in> set ps. path_starts_with q p)"
  by (simp add: under_iff)

lemma satisfies_not_Privileged:
  "security_rank r < 4 \<Longrightarrow> satisfies l r \<longleftrightarrow> security_rank r \<le> security_rank l"
  by (cases l; cases r) auto

lemma rank_Privileged: "security_rank l = 4 \<longleftrightarrow> (\<exists>ps. l = Privileged ps)"
  by (cases l) auto

lemma security_rank_le: "security_rank l \<le> 4"
  by (cases l) auto

lemma satisfies_rank: "satisfies l r \<Longrightarrow> security_rank r \<le> security_rank l"
  by (cases l; cases r) auto

lemma satisfies_refl: "satisfies l l"
proof (cases "security_rank l < 4")
  case True
  then show ?thesis by (simp add: satisfies_not_Privileged)
next
  case False
  then obtain ps where "l = Privileged ps"
    using rank_Privileged security_rank_le [of l] by force
  then show ?thesis
    by (auto simp: satisfies_Privileged simp del: satisfies.simps intro: path_starts_with_refl)
qed

lemma satisfies_trans:
  assumes "satisfies a b" and "satisfies b c"
  shows "satisfies a c"
proof (cases "security_rank c < 4")
  case True
  with assms show ?thesis
    using satisfies_rank [of a b] by (simp add: satisfies_not_Privileged)
next
  case False
  with assms [THEN satisfies_rank] obtain ps qs rs
    where "a = Privileged ps" and "b = Privileged qs" and "c = Privileged rs"
    using rank_Privileged security_rank_le [of a] security_rank_le [of b] security_rank_le [of c]
    by (metis le_antisym linorder_not_less order_trans)
  with assms have 1: "\<forall>q \<in> set qs. \<exists>p \<in> set ps. path_starts_with q p"
    and 2: "\<forall>r \<in> set rs. \<exists>q \<in> set qs. path_starts_with r q"
    by (simp_all only: satisfies_Privileged)
  have "\<forall>r \<in> set rs. \<exists>p \<in> set ps. path_starts_with r p"
    using 1 2 path_starts_with_trans by blast
  with \<open>a = Privileged ps\<close> \<open>c = Privileged rs\<close> show ?thesis
    by (simp only: satisfies_Privileged)
qed

text \<open>A level that satisfies another reaches every path the other reaches.\<close>

lemma satisfies_access:
  assumes "satisfies (Privileged ps) l" and "security_rank l = 4" and "can_access_path l p"
  shows "can_access_path (Privileged ps) p"
proof -
  from assms(2) obtain qs where l: "l = Privileged qs" by (cases l) auto
  with assms(3) obtain q where "q \<in> set qs" and "path_starts_with p q"
    by (auto simp: can_access_path_def under_iff)
  moreover from assms(1) l \<open>q \<in> set qs\<close> obtain r where "r \<in> set ps" and "path_starts_with q r"
    by (auto simp: satisfies_Privileged simp del: satisfies.simps)
  ultimately show ?thesis
    by (auto simp: can_access_path_def under_iff intro: path_starts_with_trans)
qed

end
