(* ===== verification/Policy.thy ===== *)
theory Policy
  imports Approval
begin

text \<open>
  The policy engine of \<open>crates/cli/src/core/policy.rs\<close>: the decision on a set of file changes at
  an approval level (\<open>evaluate_changes\<close> and one function per level) and the sandbox check
  (\<open>evaluate_sandbox\<close>). The helpers that take \<open>&self\<close> without reading it have no engine
  argument here. Reason texts are kept; counts are unbounded naturals.
\<close>

subsection \<open>Data\<close>

record policy_engine_config =
  max_files_moderate :: nat
  max_lines_moderate :: nat
  small_binary_whitelist :: "string list"
  small_binary_max_size :: nat

definition default_policy_engine_config :: policy_engine_config where
  "default_policy_engine_config =
     \<lparr>max_files_moderate = 10, max_lines_moderate = 400,
      small_binary_whitelist = [''png'', ''jpg'', ''jpeg'', ''ico'', ''woff'', ''woff2''],
      small_binary_max_size = 1024 * 1024\<rparr>"

record file_change =
  fc_path :: string
  fc_kind :: file_change_kind
  is_binary :: bool
  adds_exec_bit :: bool
  lines_added :: nat
  lines_deleted :: nat
  is_symlink :: bool
  symlink_target_abs :: "string option"
  touches_protected :: bool
  touches_submodule :: bool
  touches_gitmodules :: bool
  file_size_bytes :: "nat option"

record policy_context =
  file_changes :: "file_change list"
  requested_approval_level :: approval_level
  protected_paths :: "string list"
  ctx_config :: policy_engine_config

record policy_decision =
  d_allow :: bool
  d_requires_confirmation :: bool
  d_reason :: string
  d_downgraded_to :: "approval_level option"

definition allow :: "string \<Rightarrow> policy_decision" where
  "allow reason =
     \<lparr>d_allow = True, d_requires_confirmation = False, d_reason = reason, d_downgraded_to = None\<rparr>"

definition allow_with_confirmation :: "string \<Rightarrow> policy_decision" where
  "allow_with_confirmation reason =
     \<lparr>d_allow = True, d_requires_confirmation = True, d_reason = reason, d_downgraded_to = None\<rparr>"

definition deny :: "string \<Rightarrow> policy_decision" where
  "deny reason =
     \<lparr>d_allow = False, d_requires_confirmation = False, d_reason = reason, d_downgraded_to = None\<rparr>"

definition downgrade :: "string \<Rightarrow> approval_level \<Rightarrow> bool \<Rightarrow> policy_decision" where
  "downgrade reason to requires_confirmation =
     \<lparr>d_allow = True, d_requires_confirmation = requires_confirmation, d_reason = reason,
      d_downgraded_to = Some to\<rparr>"

lemmas decision_defs = allow_def allow_with_confirmation_def deny_def downgrade_def

datatype sandbox_capability =
  NetworkAccess | FileSystemWrite | ProcessSpawn | EnvironmentAccess | SystemCalls

datatype policy_error =
    EvaluationFailed string string
  | InsufficientApproval approval_level approval_level
  | SandboxViolation sandbox_capability sandbox_profile
  | PathAccessDenied string string
  | CustomError string

datatype pattern_type = GlobPattern | RegexPattern | ExactPattern

datatype policy_action =
    AllowAction
  | DenyAction
  | RequireApproval approval_level
  | RequireSandbox sandbox_profile
  | LogAndAllow

record policy_rule =
  rule_id :: string
  rule_name :: string
  rule_pattern :: string
  rule_pattern_type :: pattern_type
  rule_action :: policy_action
  rule_priority :: nat

record policy_engine =
  engine_config :: policy_engine_config
  default_approval_level :: approval_level
  default_sandbox_profile :: sandbox_profile
  path_overrides :: "(component list, approval_level) hmap"
  custom_rules :: "policy_rule list"

definition new_policy_engine :: "approval_level \<Rightarrow> sandbox_profile \<Rightarrow> policy_engine" where
  "new_policy_engine level profile =
     \<lparr>engine_config = default_policy_engine_config, default_approval_level = level,
      default_sandbox_profile = profile, path_overrides = [], custom_rules = []\<rparr>"

definition add_path_override :: "string \<Rightarrow> approval_level \<Rightarrow> policy_engine \<Rightarrow> policy_engine" where
  "add_path_override path level e =
     e\<lparr>path_overrides := hm_insert (components path) level (path_overrides e)\<rparr>"

definition add_custom_rule :: "policy_rule \<Rightarrow> policy_engine \<Rightarrow> policy_engine" where
  "add_custom_rule rule e = e\<lparr>custom_rules := custom_rules e @ [rule]\<rparr>"

record common_check_options =
  allow_privileged_symlinks :: bool
  allow_gitmodules :: bool

definition standard_options :: common_check_options where
  "standard_options = \<lparr>allow_privileged_symlinks = False, allow_gitmodules = False\<rparr>"

subsection \<open>Checks on one change\<close>

definition is_dot_env :: "string \<Rightarrow> bool" where
  "is_dot_env path =
     (case file_name path of None \<Rightarrow> False | Some name \<Rightarrow> eq_ignore_ascii_case name ''.env'')"

definition is_protected_path :: "file_change \<Rightarrow> policy_context \<Rightarrow> bool" where
  "is_protected_path fc ctx =
     (touches_protected fc \<or> (\<exists>p \<in> set (protected_paths ctx). path_starts_with (fc_path fc) p))"

definition dangerous_paths :: "string list" where
  "dangerous_paths = [''/etc'', ''/usr'', ''/bin'', ''/sbin'', ''/sys'', ''/proc'', ''/dev'']"

definition is_dangerous_symlink :: "file_change \<Rightarrow> bool" where
  "is_dangerous_symlink fc =
     (if \<not> is_symlink fc then False
      else case symlink_target_abs fc of
             None \<Rightarrow> False
           | Some target \<Rightarrow>
               if is_absolute target then True
               else if ParentDir \<in> set (components target) then True
               else \<exists>d \<in> set dangerous_paths. path_starts_with target d)"

definition is_whitelisted_binary :: "file_change \<Rightarrow> policy_engine_config \<Rightarrow> bool" where
  "is_whitelisted_binary fc config =
     (if \<not> is_binary fc then True
      else case map_option to_lowercase (file_extension (fc_path fc)) of
             None \<Rightarrow> False
           | Some ext \<Rightarrow>
               if ext \<in> set (small_binary_whitelist config)
               then (case file_size_bytes fc of
                       None \<Rightarrow> False
                     | Some sz \<Rightarrow> sz \<le> small_binary_max_size config)
               else False)"

definition total_lines_changed :: "policy_context \<Rightarrow> nat" where
  "total_lines_changed ctx =
     sum_list (map (\<lambda>fc. lines_added fc + lines_deleted fc) (file_changes ctx))"

definition is_simple_change :: "policy_context \<Rightarrow> bool" where
  "is_simple_change ctx =
     (length (file_changes ctx) \<le> 2 \<and>
      (\<forall>fc \<in> set (file_changes ctx).
         \<not> is_binary fc \<and> \<not> adds_exec_bit fc \<and> \<not> is_protected_path fc ctx \<and>
         \<not> touches_submodule fc \<and> \<not> touches_gitmodules fc \<and> \<not> is_symlink fc \<and>
         \<not> is_dot_env (fc_path fc) \<and> lines_added fc + lines_deleted fc \<le> 20))"

text \<open>The loop over the changes: the first one that breaks a rule decides.\<close>

fun check_common_loop :: "common_check_options \<Rightarrow> file_change list \<Rightarrow> policy_decision option" where
  "check_common_loop opts [] = None"
| "check_common_loop opts (fc # fcs) =
     (if is_dot_env (fc_path fc) then
        Some (deny ''Modification du fichier .env interdite'')
      else if \<not> allow_gitmodules opts \<and> touches_gitmodules fc then
        Some (deny (''Modification de .gitmodules r'' @ [CHR 0xC3, CHR 0xA9] @ ''serv''
                    @ [CHR 0xC3, CHR 0xA9] @ ''e au niveau privileged''))
      else if \<not> allow_privileged_symlinks opts \<and> is_dangerous_symlink fc then
        Some (deny (''Dangerous symlink to unauthorized path: '' @ fc_path fc))
      else check_common_loop opts fcs)"

definition check_common_restrictions ::
  "policy_context \<Rightarrow> common_check_options \<Rightarrow> policy_decision option" where
  "check_common_restrictions ctx opts = check_common_loop opts (file_changes ctx)"

subsection \<open>One function per level\<close>

definition evaluate_untrusted :: "policy_context \<Rightarrow> policy_error + policy_decision" where
  "evaluate_untrusted ctx =
     (case check_common_restrictions ctx standard_options of
        Some decision \<Rightarrow> Inr decision
      | None \<Rightarrow>
          Inr (allow_with_confirmation
            (''Untrusted level: confirmation required for '' @ show_nat (length (file_changes ctx))
             @ '' change(s)'')))"

definition evaluate_ask :: "policy_context \<Rightarrow> policy_error + policy_decision" where
  "evaluate_ask ctx =
     (case check_common_restrictions ctx standard_options of
        Some decision \<Rightarrow> Inr decision
      | None \<Rightarrow>
          if (\<exists>fc \<in> set (file_changes ctx). adds_exec_bit fc) then
            Inr (allow_with_confirmation
              ''Executable permission change requires explicit confirmation'')
          else if is_simple_change ctx then
            Inr (allow ''Simple change, automatically allowed'')
          else Inr (allow_with_confirmation ''Change requires user confirmation''))"

definition evaluate_moderate :: "policy_context \<Rightarrow> policy_error + policy_decision" where
  "evaluate_moderate ctx =
     (case check_common_restrictions ctx standard_options of
        Some decision \<Rightarrow> Inr decision
      | None \<Rightarrow>
          if max_files_moderate (ctx_config ctx) < length (file_changes ctx) then
            Inr (downgrade (''Too many files ('' @ show_nat (length (file_changes ctx)) @ '' > ''
              @ show_nat (max_files_moderate (ctx_config ctx)) @ ''), downgraded to Ask'') Ask True)
          else if max_lines_moderate (ctx_config ctx) < total_lines_changed ctx then
            Inr (downgrade (''Too many lines changed ('' @ show_nat (total_lines_changed ctx)
              @ '' > '' @ show_nat (max_lines_moderate (ctx_config ctx))
              @ ''), downgraded to Ask'') Ask True)
          else if (\<exists>fc \<in> set (file_changes ctx). is_protected_path fc ctx) then
            Inr (downgrade ''Protected path modified: confirmation required (Ask level)'' Ask True)
          else if (\<exists>fc \<in> set (file_changes ctx). adds_exec_bit fc) then
            Inr (downgrade ''Adding executable bit requires Ask level'' Ask True)
          else if (\<exists>fc \<in> set (file_changes ctx). is_binary fc) then
            Inr (downgrade ''Binary files require Ask level'' Ask True)
          else if (\<exists>fc \<in> set (file_changes ctx). touches_gitmodules fc) then
            Inr (deny ''.gitmodules modification is restricted to privileged level'')
          else if (\<exists>fc \<in> set (file_changes ctx). touches_submodule fc) then
            Inr (downgrade ''Submodule change requires Ask level'' Ask True)
          else Inr (allow ''Change allowed at moderate level''))"

definition evaluate_trusted :: "policy_context \<Rightarrow> policy_error + policy_decision" where
  "evaluate_trusted ctx =
     (case check_common_restrictions ctx standard_options of
        Some decision \<Rightarrow> Inr decision
      | None \<Rightarrow>
          if (\<exists>fc \<in> set (file_changes ctx). touches_gitmodules fc) then
            Inr (deny ''.gitmodules modification is restricted to privileged level'')
          else if (\<exists>fc \<in> set (file_changes ctx). adds_exec_bit fc) then
            Inr (downgrade ''Adding executable bit requires confirmation (Ask level)'' Ask True)
          else
            (case find (\<lambda>fc. is_binary fc \<and> \<not> is_whitelisted_binary fc (ctx_config ctx))
                    (file_changes ctx) of
               Some fc \<Rightarrow> Inr (downgrade (''Unauthorized binary: '' @ fc_path fc) Ask True)
             | None \<Rightarrow>
                 if (\<exists>fc \<in> set (file_changes ctx). is_protected_path fc ctx) then
                   Inr (allow_with_confirmation ''Sensitive path modified: confirmation required'')
                 else Inr (allow ''Change allowed at trusted level'')))"

definition evaluate_privileged ::
  "policy_context \<Rightarrow> string list \<Rightarrow> policy_error + policy_decision" where
  "evaluate_privileged ctx allowed_paths =
     (case check_common_restrictions ctx
             \<lparr>allow_privileged_symlinks = True, allow_gitmodules = True\<rparr> of
        Some decision \<Rightarrow> Inr decision
      | None \<Rightarrow>
          (case find (\<lambda>fc. \<not> (\<exists>a \<in> set allowed_paths. path_starts_with (fc_path fc) a))
                  (file_changes ctx) of
             Some fc \<Rightarrow> Inr (deny (''Path not allowed in privileged mode: '' @ fc_path fc))
           | None \<Rightarrow>
               Inr (allow (''Changement autoris'' @ [CHR 0xC3, CHR 0xA9]
                           @ '' au niveau privileged''))))"

text \<open>The level the engine applies: the requested one, capped by the engine's default.\<close>

definition effective_level :: "policy_engine \<Rightarrow> policy_context \<Rightarrow> approval_level" where
  "effective_level e ctx =
     (case (requested_approval_level ctx, default_approval_level e) of
        (Privileged _, Privileged _) \<Rightarrow> requested_approval_level ctx
      | (requested, dflt) \<Rightarrow>
          if security_rank dflt < security_rank requested then dflt
          else requested_approval_level ctx)"

definition evaluate_changes ::
  "policy_engine \<Rightarrow> policy_context \<Rightarrow> policy_error + policy_decision" where
  "evaluate_changes e ctx =
     (case effective_level e ctx of
        Untrusted \<Rightarrow> evaluate_untrusted ctx
      | Ask \<Rightarrow> evaluate_ask ctx
      | Moderate \<Rightarrow> evaluate_moderate ctx
      | Trusted \<Rightarrow> evaluate_trusted ctx
      | Privileged allowed_paths \<Rightarrow> evaluate_privileged ctx allowed_paths)"

subsection \<open>The sandbox check\<close>

datatype operation_type =
    FileReadOp | FileWriteOp | FileCreateOp | FileDeleteOp | ProcessExecuteOp
  | NetworkAccessOp | SystemConfigOp | TestExecutionOp

record operation_context =
  op_actor :: string
  op_operation :: operation_type
  op_paths :: "string list"
  op_data_size :: "nat option"
  op_estimated_duration :: "nat option"
  op_metadata :: "(string, string) hmap"

fun check_sandbox_paths :: "string \<Rightarrow> string list \<Rightarrow> policy_error + unit" where
  "check_sandbox_paths root [] = Inr ()"
| "check_sandbox_paths root (path # ps) =
     (if \<not> is_absolute path \<and> ParentDir \<in> set (components path) then
        Inl (PathAccessDenied path ''Relative path contains parent directory traversal'')
      else
        let candidate = (if is_absolute path then path else path_join root path)
        in if \<not> path_starts_with candidate root then
             Inl (PathAccessDenied path
               (''Path '' @ [CHR 0x27] @ candidate @ [CHR 0x27] @ '' is outside sandbox root ''
                 @ [CHR 0x27] @ root @ [CHR 0x27]))
           else check_sandbox_paths root ps)"

text \<open>
  \<open>canonicalize\<close> is the file system's answer (\<open>std::fs::canonicalize\<close>): \<open>None\<close> is an error.
\<close>

definition evaluate_sandbox ::
  "(string \<Rightarrow> string option) \<Rightarrow> policy_engine \<Rightarrow> operation_context \<Rightarrow> policy_error + sandbox_profile"
where
  "evaluate_sandbox canonicalize e ctx =
     (case hm_get (op_metadata ctx) ''sandbox_root'' of
        None \<Rightarrow> Inr (default_sandbox_profile e)
      | Some root \<Rightarrow>
          if root = [] then Inr (default_sandbox_profile e)
          else case canonicalize root of
                 None \<Rightarrow> Inr (default_sandbox_profile e)
               | Some canonical_root \<Rightarrow>
                   (case check_sandbox_paths canonical_root (op_paths ctx) of
                      Inl err \<Rightarrow> Inl err
                    | Inr _ \<Rightarrow> Inr (default_sandbox_profile e)))"

subsection \<open>The common restrictions\<close>

definition has_dot_env :: "policy_context \<Rightarrow> bool" where
  "has_dot_env ctx = (\<exists>fc \<in> set (file_changes ctx). is_dot_env (fc_path fc))"

definition has_gitmodules :: "policy_context \<Rightarrow> bool" where
  "has_gitmodules ctx = (\<exists>fc \<in> set (file_changes ctx). touches_gitmodules fc)"

definition has_dangerous_symlink :: "policy_context \<Rightarrow> bool" where
  "has_dangerous_symlink ctx = (\<exists>fc \<in> set (file_changes ctx). is_dangerous_symlink fc)"

lemmas has_defs = has_dot_env_def has_gitmodules_def has_dangerous_symlink_def

lemma check_common_loop_None:
  "check_common_loop opts fcs = None \<longleftrightarrow>
     (\<forall>fc \<in> set fcs. \<not> is_dot_env (fc_path fc) \<and> (allow_gitmodules opts \<or> \<not> touches_gitmodules fc)
        \<and> (allow_privileged_symlinks opts \<or> \<not> is_dangerous_symlink fc))"
  by (induction fcs) auto

lemma check_common_loop_Some:
  "check_common_loop opts fcs = Some d \<Longrightarrow> \<exists>reason. d = deny reason"
  by (induction fcs) (auto split: if_splits)

lemma check_common_deny: "check_common_restrictions ctx opts = Some d \<Longrightarrow> \<exists>reason. d = deny reason"
  unfolding check_common_restrictions_def by (rule check_common_loop_Some)

lemma check_common_standard:
  "check_common_restrictions ctx standard_options = None
     \<longleftrightarrow> \<not> has_dot_env ctx \<and> \<not> has_gitmodules ctx \<and> \<not> has_dangerous_symlink ctx"
  by (auto simp: check_common_restrictions_def check_common_loop_None standard_options_def has_defs)

lemma check_common_privileged:
  "check_common_restrictions ctx \<lparr>allow_privileged_symlinks = True, allow_gitmodules = True\<rparr> = None
     \<longleftrightarrow> \<not> has_dot_env ctx"
  by (auto simp: check_common_restrictions_def check_common_loop_None has_defs)

subsection \<open>What a decision may look like\<close>

text \<open>Denials carry neither a confirmation nor a level; a downgrade is to \<open>Ask\<close>, confirmed.\<close>

definition decision_wf :: "policy_decision \<Rightarrow> bool" where
  "decision_wf d =
     ((\<not> d_allow d \<longrightarrow> \<not> d_requires_confirmation d \<and> d_downgraded_to d = None) \<and>
      (\<forall>l. d_downgraded_to d = Some l \<longrightarrow> l = Ask \<and> d_requires_confirmation d))"

text \<open>The change goes through without a question.\<close>

definition automatic :: "policy_decision \<Rightarrow> bool" where
  "automatic d = (d_allow d \<and> \<not> d_requires_confirmation d)"

lemma decision_simps [simp]:
  "decision_wf (allow r)" "decision_wf (allow_with_confirmation r)" "decision_wf (deny r)"
  "decision_wf (downgrade r Ask True)"
  "automatic (allow r)" "\<not> automatic (allow_with_confirmation r)" "\<not> automatic (deny r)"
  "\<not> automatic (downgrade r l True)" "\<not> d_allow (deny r)" "d_allow (allow r)"
  "d_allow (allow_with_confirmation r)" "d_allow (downgrade r l c)"
  by (simp_all add: decision_wf_def automatic_def decision_defs)

text \<open>
  The contract of a level: it always returns a decision, the decision is well formed, and a
  \<open>.env\<close> file in the change set is denied.
\<close>

locale level_policy =
  fixes eval :: "policy_context \<Rightarrow> policy_error + policy_decision"
  assumes total: "\<exists>d. eval ctx = Inr d"
    and wf: "eval ctx = Inr d \<Longrightarrow> decision_wf d"
    and denies_env: "has_dot_env ctx \<Longrightarrow> eval ctx = Inr d \<Longrightarrow> \<not> d_allow d"
begin

lemma no_error: "eval ctx \<noteq> Inl err"
  using total [of ctx] by auto

lemma automatic_no_env: "eval ctx = Inr d \<Longrightarrow> automatic d \<Longrightarrow> \<not> has_dot_env ctx"
  using denies_env by (auto simp: automatic_def)

lemma denied_silently:
  "has_dot_env ctx \<Longrightarrow> eval ctx = Inr d \<Longrightarrow> \<not> d_requires_confirmation d \<and> d_downgraded_to d = None"
  using denies_env wf by (auto simp: decision_wf_def)

end

text \<open>
  A level below privileged also keeps \<open>.gitmodules\<close> and dangerous symlinks out.
\<close>

locale standard_level = level_policy +
  assumes denies_gitmodules: "has_gitmodules ctx \<Longrightarrow> eval ctx = Inr d \<Longrightarrow> \<not> d_allow d"
    and denies_symlink: "has_dangerous_symlink ctx \<Longrightarrow> eval ctx = Inr d \<Longrightarrow> \<not> d_allow d"
begin

lemma allowed_clean:
  assumes "eval ctx = Inr d" and "d_allow d"
  shows "\<not> has_dot_env ctx \<and> \<not> has_gitmodules ctx \<and> \<not> has_dangerous_symlink ctx"
  using assms denies_env denies_gitmodules denies_symlink by blast

end

lemmas level_defs =
  evaluate_untrusted_def evaluate_ask_def evaluate_moderate_def evaluate_trusted_def
  evaluate_privileged_def

text \<open>The five levels keep the contract.\<close>

interpretation untrusted_level: standard_level evaluate_untrusted
  by unfold_locales
    (auto simp: evaluate_untrusted_def check_common_standard dest!: check_common_deny
      split: option.splits)

interpretation ask_level: standard_level evaluate_ask
  by unfold_locales
    (auto simp: evaluate_ask_def check_common_standard dest!: check_common_deny
      split: option.splits if_splits)

interpretation moderate_level: standard_level evaluate_moderate
  by unfold_locales
    (auto simp: evaluate_moderate_def check_common_standard dest!: check_common_deny
      split: option.splits if_splits)

interpretation trusted_level: standard_level evaluate_trusted
  by unfold_locales
    (auto simp: evaluate_trusted_def check_common_standard dest!: check_common_deny
      split: option.splits if_splits)

interpretation privileged_level: level_policy "\<lambda>ctx. evaluate_privileged ctx allowed_paths"
  for allowed_paths
  by unfold_locales
    (auto simp: evaluate_privileged_def check_common_privileged dest!: check_common_deny
      split: option.splits if_splits)

subsection \<open>Properties of the engine\<close>

lemma evaluate_changes_cases:
  obtains (untrusted) "evaluate_changes e ctx = evaluate_untrusted ctx"
  | (ask) "evaluate_changes e ctx = evaluate_ask ctx"
  | (moderate) "evaluate_changes e ctx = evaluate_moderate ctx"
  | (trusted) "evaluate_changes e ctx = evaluate_trusted ctx"
  | (privileged) ps where "effective_level e ctx = Privileged ps"
      and "evaluate_changes e ctx = evaluate_privileged ctx ps"
  by (cases "effective_level e ctx") (auto simp: evaluate_changes_def)

lemma effective_rank:
  "security_rank (effective_level e ctx)
     = min (security_rank (requested_approval_level ctx)) (security_rank (default_approval_level e))"
  by (cases "requested_approval_level ctx"; cases "default_approval_level e")
    (simp_all add: effective_level_def)

lemma effective_Privileged:
  "effective_level e ctx = Privileged qs \<longleftrightarrow>
     requested_approval_level ctx = Privileged qs \<and> (\<exists>ps. default_approval_level e = Privileged ps)"
  by (cases "requested_approval_level ctx"; cases "default_approval_level e")
    (simp_all add: effective_level_def)

text \<open>
  the level a change set is judged at is the lower of the requested one and the engine's
  default: a request never raises its own level.
\<close>

theorem effective_level_capped:
  "security_rank (effective_level e ctx)
     = min (security_rank (requested_approval_level ctx)) (security_rank (default_approval_level e))
   \<and> effective_level e ctx \<in> {requested_approval_level ctx, default_approval_level e}"
  unfolding effective_rank
  by (cases "requested_approval_level ctx"; cases "default_approval_level e")
    (simp_all add: effective_level_def)

text \<open>
  whatever the level, the engine returns a decision (never an error), the decision is well
  formed, and a change set that touches a \<open>.env\<close> file is denied.
\<close>

theorem evaluate_changes_denies_env:
  "\<exists>d. evaluate_changes e ctx = Inr d \<and> decision_wf d \<and> (has_dot_env ctx \<longrightarrow> \<not> d_allow d)"
proof (cases e ctx rule: evaluate_changes_cases)
  case untrusted
  then show ?thesis
    using untrusted_level.total untrusted_level.wf untrusted_level.denies_env by metis
next
  case ask
  then show ?thesis using ask_level.total ask_level.wf ask_level.denies_env by metis
next
  case moderate
  then show ?thesis
    using moderate_level.total moderate_level.wf moderate_level.denies_env by metis
next
  case trusted
  then show ?thesis
    using trusted_level.total trusted_level.wf trusted_level.denies_env by metis
next
  case (privileged ps)
  then show ?thesis
    using privileged_level.total privileged_level.wf privileged_level.denies_env by metis
qed

text \<open>A change to witness the properties on: one modified text file.\<close>

definition sample_change :: "string \<Rightarrow> file_change" where
  "sample_change path =
     \<lparr>fc_path = path, fc_kind = KindMod, is_binary = False, adds_exec_bit = False,
      lines_added = 5, lines_deleted = 2, is_symlink = False, symlink_target_abs = None,
      touches_protected = False, touches_submodule = False, touches_gitmodules = False,
      file_size_bytes = None\<rparr>"

definition sample_context :: "file_change list \<Rightarrow> approval_level \<Rightarrow> policy_context" where
  "sample_context fcs level =
     \<lparr>file_changes = fcs, requested_approval_level = level, protected_paths = [''Cargo.toml''],
      ctx_config = default_policy_engine_config\<rparr>"

lemma sample_env: "has_dot_env (sample_context [sample_change ''app/.ENV''] level)"
proof -
  have "is_dot_env ''app/.ENV''" by code_simp
  then show ?thesis by (simp add: has_dot_env_def sample_context_def sample_change_def)
qed

theorem evaluate_changes_denies_env_witness:
  "\<exists>d. evaluate_changes (new_policy_engine Trusted Strict)
         (sample_context [sample_change ''app/.ENV''] Trusted) = Inr d \<and> \<not> d_allow d"
  using evaluate_changes_denies_env [of "new_policy_engine Trusted Strict"
      "sample_context [sample_change ''app/.ENV''] Trusted"] sample_env
  by blast

text \<open>
  a change to \<open>.gitmodules\<close>, or of a symbolic link that points out of the tree, is allowed
  only when both the request and the engine's default are privileged.
\<close>

theorem gitmodules_and_symlinks_need_privileged:
  assumes "evaluate_changes e ctx = Inr d" and "d_allow d"
    and "has_gitmodules ctx \<or> has_dangerous_symlink ctx"
  shows "security_rank (requested_approval_level ctx) = 4
    \<and> security_rank (default_approval_level e) = 4"
proof (cases e ctx rule: evaluate_changes_cases)
  case untrusted
  with assms show ?thesis using untrusted_level.allowed_clean by metis
next
  case ask
  with assms show ?thesis using ask_level.allowed_clean by metis
next
  case moderate
  with assms show ?thesis using moderate_level.allowed_clean by metis
next
  case trusted
  with assms show ?thesis using trusted_level.allowed_clean by metis
next
  case (privileged ps)
  then show ?thesis by (auto simp: effective_Privileged)
qed

lemma sample_privileged:
  "path_starts_with ''.gitmodules'' []" "\<not> is_dot_env ''.gitmodules''"
  by code_simp+

theorem gitmodules_and_symlinks_need_privileged_witness:
  "security_rank (requested_approval_level
     (sample_context [sample_change ''.gitmodules'' \<lparr>touches_gitmodules := True\<rparr>] (Privileged [[]])))
   = 4"
  using gitmodules_and_symlinks_need_privileged [of "new_policy_engine (Privileged []) Strict"
      "sample_context [sample_change ''.gitmodules'' \<lparr>touches_gitmodules := True\<rparr>] (Privileged [[]])"]
  by (simp add: evaluate_changes_def effective_level_def new_policy_engine_def sample_context_def
      evaluate_privileged_def check_common_restrictions_def sample_change_def sample_privileged
      has_gitmodules_def)

text \<open>
  the list of system directories in the symlink check decides nothing: a link is dangerous
  exactly when its target is absolute or climbs through \<open>..\<close>.
\<close>

theorem dangerous_symlink_iff:
  "is_dangerous_symlink fc \<longleftrightarrow>
     is_symlink fc \<and> (\<exists>t. symlink_target_abs fc = Some t \<and>
        (is_absolute t \<or> ParentDir \<in> set (components t)))"
proof -
  have "is_absolute d" if "d \<in> set dangerous_paths" for d
    using that by (auto simp: dangerous_paths_def is_absolute_def)
  then have "is_absolute t" if "\<exists>d \<in> set dangerous_paths. path_starts_with t d" for t
    using that starts_with_absolute by blast
  then show ?thesis
    by (auto simp: is_dangerous_symlink_def split: option.splits)
qed

lemma automatic_ask:
  assumes "evaluate_ask ctx = Inr d" and "automatic d"
  shows "check_common_restrictions ctx standard_options = None \<and> is_simple_change ctx"
  using assms check_common_deny [of ctx standard_options]
  by (auto simp: evaluate_ask_def split: option.splits if_splits)

lemma simple_total_lines: "is_simple_change ctx \<Longrightarrow> total_lines_changed ctx \<le> 40"
proof -
  assume simple: "is_simple_change ctx"
  let ?f = "\<lambda>fc. lines_added fc + lines_deleted fc"
  have "sum_list (map ?f (file_changes ctx)) \<le> sum_list (map (\<lambda>_. 20) (file_changes ctx))"
    using simple by (intro sum_list_mono) (auto simp: is_simple_change_def)
  moreover have "length (file_changes ctx) \<le> 2"
    using simple by (simp add: is_simple_change_def)
  ultimately show ?thesis
    by (simp add: total_lines_changed_def sum_list_triv)
qed

text \<open>What a moderate level lets through without a question.\<close>

definition moderate_clean :: "policy_context \<Rightarrow> bool" where
  "moderate_clean ctx =
     (\<not> has_dot_env ctx \<and> \<not> has_gitmodules ctx \<and> \<not> has_dangerous_symlink ctx \<and>
      length (file_changes ctx) \<le> max_files_moderate (ctx_config ctx) \<and>
      total_lines_changed ctx \<le> max_lines_moderate (ctx_config ctx) \<and>
      (\<forall>fc \<in> set (file_changes ctx). \<not> is_protected_path fc ctx \<and> \<not> adds_exec_bit fc \<and>
         \<not> is_binary fc \<and> \<not> touches_submodule fc))"

lemma moderate_automatic_common:
  "(\<exists>d. evaluate_moderate ctx = Inr d \<and> automatic d) = moderate_clean ctx"
proof (cases "check_common_restrictions ctx standard_options")
  case None
  then have clean: "\<not> has_dot_env ctx \<and> \<not> has_gitmodules ctx \<and> \<not> has_dangerous_symlink ctx"
    by (simp add: check_common_standard)
  with None show ?thesis
    by (auto simp: evaluate_moderate_def moderate_clean_def has_gitmodules_def)
next
  case (Some d)
  then have "has_dot_env ctx \<or> has_gitmodules ctx \<or> has_dangerous_symlink ctx"
    using check_common_standard [of ctx] by auto
  with Some check_common_deny [OF Some] show ?thesis
    by (auto simp: evaluate_moderate_def moderate_clean_def)
qed

text \<open>
  at the moderate level a change set is applied without confirmation exactly when it is
  within the file and line limits and touches no environment file, submodule configuration,
  dangerous link, protected path, executable bit, binary or submodule.
\<close>

theorem moderate_automatic_iff:
  "(\<exists>d. evaluate_moderate ctx = Inr d \<and> automatic d) \<longleftrightarrow> moderate_clean ctx"
  by (rule moderate_automatic_common)

lemmas moderate_automatic_clean = moderate_automatic_common [THEN iffD1]
lemmas moderate_clean_automatic = moderate_automatic_common [THEN iffD2]

lemma moderate_automatic_trusted:
  assumes "moderate_clean ctx"
  shows "\<exists>d. evaluate_trusted ctx = Inr d \<and> automatic d"
proof -
  have common: "check_common_restrictions ctx standard_options = None"
    using assms by (simp add: check_common_standard moderate_clean_def)
  have "find (\<lambda>fc. is_binary fc \<and> \<not> is_whitelisted_binary fc (ctx_config ctx)) (file_changes ctx)
      = None"
    using assms by (auto simp: find_None_iff moderate_clean_def)
  with common assms show ?thesis
    by (auto simp: evaluate_trusted_def moderate_clean_def has_gitmodules_def)
qed

definition applies_unasked :: "policy_error + policy_decision \<Rightarrow> bool" where
  "applies_unasked v \<longleftrightarrow> (\<exists>d. v = Inr d \<and> automatic d)"

lemma untrusted_always_asks: "\<not> applies_unasked (evaluate_untrusted ctx)"
  using check_common_deny [of ctx standard_options]
  by (auto simp: applies_unasked_def evaluate_untrusted_def split: option.splits)

lemma ask_then_moderate:
  assumes "2 \<le> max_files_moderate (ctx_config ctx)" and "40 \<le> max_lines_moderate (ctx_config ctx)"
    and "applies_unasked (evaluate_ask ctx)"
  shows "applies_unasked (evaluate_moderate ctx)"
proof -
  from assms(3) have clean: "check_common_restrictions ctx standard_options = None"
    and simple: "is_simple_change ctx"
    using automatic_ask unfolding applies_unasked_def by blast+
  with simple_total_lines [OF simple] assms have "moderate_clean ctx"
    by (auto simp: moderate_clean_def check_common_standard is_simple_change_def)
  then show ?thesis unfolding applies_unasked_def by (rule moderate_clean_automatic)
qed

lemma moderate_then_trusted:
  "applies_unasked (evaluate_moderate ctx) \<Longrightarrow> applies_unasked (evaluate_trusted ctx)"
  using moderate_automatic_trusted moderate_automatic_clean unfolding applies_unasked_def by blast

text \<open>The evaluation at a level below the privileged one, by its rank.\<close>

fun evaluate_rank :: "nat \<Rightarrow> policy_context \<Rightarrow> policy_error + policy_decision" where
  "evaluate_rank 0 ctx = evaluate_untrusted ctx"
| "evaluate_rank (Suc 0) ctx = evaluate_ask ctx"
| "evaluate_rank (Suc (Suc 0)) ctx = evaluate_moderate ctx"
| "evaluate_rank (Suc (Suc (Suc n))) ctx = evaluate_trusted ctx"

lemma evaluate_by_rank:
  assumes "security_rank (effective_level e ctx) < 4"
  shows "evaluate_changes e ctx = evaluate_rank (security_rank (effective_level e ctx)) ctx"
  using assms by (cases "effective_level e ctx") (simp_all add: evaluate_changes_def eval_nat_numeral)

lemma rank_step:
  assumes "2 \<le> max_files_moderate (ctx_config ctx)" and "40 \<le> max_lines_moderate (ctx_config ctx)"
    and "applies_unasked (evaluate_rank k ctx)"
  shows "applies_unasked (evaluate_rank (Suc k) ctx)"
  using assms ask_then_moderate [OF assms(1,2)] moderate_then_trusted [of ctx] untrusted_always_asks [of ctx]
  by (cases "(k, ctx)" rule: evaluate_rank.cases) simp_all

lemma rank_mono:
  assumes "2 \<le> max_files_moderate (ctx_config ctx)" and "40 \<le> max_lines_moderate (ctx_config ctx)"
    and "applies_unasked (evaluate_rank k ctx)" and "k \<le> n"
  shows "applies_unasked (evaluate_rank n ctx)"
  using assms(4,3) by (induction n rule: dec_induct) (use rank_step [OF assms(1,2)] in auto)

text \<open>The requested level plays its part only in the choice of the level.\<close>

lemma requested_level_unread:
  "evaluate_rank k (ctx\<lparr>requested_approval_level := r\<rparr>) = evaluate_rank k ctx"
proof -
  let ?c = "ctx\<lparr>requested_approval_level := r\<rparr>"
  have "is_protected_path fc ?c = is_protected_path fc ctx" for fc
    by (simp add: is_protected_path_def)
  moreover from this have "is_simple_change ?c = is_simple_change ctx"
    by (simp add: is_simple_change_def)
  ultimately show ?thesis
    by (cases "(k, ctx)" rule: evaluate_rank.cases)
      (simp_all add: evaluate_untrusted_def evaluate_ask_def evaluate_moderate_def evaluate_trusted_def
        check_common_restrictions_def total_lines_changed_def cong: option.case_cong)
qed

text \<open>
  C40: raising a level never adds a question. Where the limits of the moderate level are at
  least 2 files and 40 lines (the defaults are 10 and 400), a set of changes that the engine applies
  without a question is applied without one too when a level as high or higher is requested, up to
  \<open>Trusted\<close>, from an engine whose own level is as high or higher; and it was applied at a level
  above \<open>Untrusted\<close>, which asks for everything. The privileged level is left out: it denies
  changes outside of its paths that \<open>Trusted\<close> applies (\<open>privileged_denies_more\<close>).
\<close>

theorem automatic_monotone_in_level:
  assumes "2 \<le> max_files_moderate (ctx_config ctx)" and "40 \<le> max_lines_moderate (ctx_config ctx)"
    and "evaluate_changes e ctx = Inr d" and "automatic d"
    and "security_rank (requested_approval_level ctx) \<le> security_rank r" and "security_rank r < 4"
    and "security_rank (default_approval_level e) \<le> security_rank (default_approval_level e')"
  shows "(\<exists>d'. evaluate_changes e' (ctx\<lparr>requested_approval_level := r\<rparr>) = Inr d' \<and> automatic d')
    \<and> 0 < security_rank (effective_level e ctx)"
proof -
  let ?c = "ctx\<lparr>requested_approval_level := r\<rparr>"
  let ?k = "security_rank (effective_level e ctx)" and ?n = "security_rank (effective_level e' ?c)"
  have k: "?k = min (security_rank (requested_approval_level ctx)) (security_rank (default_approval_level e))"
    and n: "?n = min (security_rank r) (security_rank (default_approval_level e'))"
    using effective_rank [where ctx = ctx and e = e] effective_rank [where ctx = ?c and e = e'] by simp_all
  then have le: "?k \<le> ?n" "?k < 4" "?n < 4" using assms(5-7) by auto
  have unasked: "applies_unasked (evaluate_rank ?k ctx)"
    using assms(3,4) evaluate_by_rank [OF le(2)] by (auto simp: applies_unasked_def)
  then have "applies_unasked (evaluate_changes e' ?c)"
    using rank_mono [OF assms(1,2) unasked le(1)] evaluate_by_rank [OF le(3)]
    by (simp add: requested_level_unread)
  moreover have "?k \<noteq> 0" using unasked untrusted_always_asks [of ctx] by (cases ?k) auto
  ultimately show ?thesis by (simp add: applies_unasked_def)
qed

lemma sample_paths:
  "\<not> is_dot_env ''src/main.rs''" "\<not> path_starts_with ''src/main.rs'' ''Cargo.toml''"
  "\<not> is_dot_env ''/etc/passwd''" "path_starts_with ''/etc/passwd'' ''/''"
  "\<not> path_starts_with ''/etc/passwd'' ''Cargo.toml''"
  "\<not> path_starts_with ''/etc/passwd'' ''/srv/app''" "\<not> path_eq ''/etc/passwd'' ''/srv/app''"
  by code_simp+

lemma sample_simple:
  "is_simple_change (sample_context [sample_change ''src/main.rs''] Ask)"
  "check_common_restrictions (sample_context [sample_change ''src/main.rs''] Ask) standard_options
     = None"
  by (simp_all add: is_simple_change_def sample_context_def sample_change_def sample_paths
      is_protected_path_def check_common_standard has_defs is_dangerous_symlink_def)

lemma sample_asked:
  "\<exists>d. evaluate_changes (new_policy_engine Ask Strict) (sample_context [sample_change ''src/main.rs''] Ask)
     = Inr d \<and> automatic d"
  using sample_simple
  by (simp add: evaluate_changes_def effective_level_def new_policy_engine_def evaluate_ask_def
      sample_context_def sample_change_def)

theorem automatic_monotone_in_level_witness:
  "\<exists>d. evaluate_changes (new_policy_engine Moderate Strict)
      ((sample_context [sample_change ''src/main.rs''] Ask)\<lparr>requested_approval_level := Trusted\<rparr>) = Inr d
    \<and> automatic d"
proof -
  let ?ctx = "sample_context [sample_change ''src/main.rs''] Ask"
  obtain d where d: "evaluate_changes (new_policy_engine Ask Strict) ?ctx = Inr d" "automatic d"
    using sample_asked by blast
  show ?thesis
    using automatic_monotone_in_level [OF _ _ d, of Trusted "new_policy_engine Moderate Strict"]
    by (simp add: sample_context_def default_policy_engine_config_def new_policy_engine_def)
qed

text \<open>A change outside of the paths of a privileged request is denied, where \<open>Trusted\<close> applies it.\<close>

lemma privileged_denies_more:
  "\<exists>d. evaluate_privileged (sample_context [sample_change ''/etc/passwd''] Trusted) [''/srv/app''] = Inr d
    \<and> \<not> d_allow d"
  "\<exists>d. evaluate_trusted (sample_context [sample_change ''/etc/passwd''] Trusted) = Inr d \<and> automatic d"
  by (simp_all add: evaluate_privileged_def evaluate_trusted_def check_common_restrictions_def
      sample_context_def sample_change_def sample_paths is_protected_path_def is_dangerous_symlink_def)

lemma privileged_find_None:
  "find (\<lambda>fc. \<not> (\<exists>a \<in> set ps. path_starts_with (fc_path fc) a)) fcs = None
     \<longleftrightarrow> (\<forall>fc \<in> set fcs. can_access_path (Privileged ps) (fc_path fc))"
  by (auto simp: find_None_iff can_access_path_def under_iff)

text \<open>
  a privileged level applies a change set without a question exactly when it touches no
  environment file and every path lies below one of the allowed paths; it denies everything
  else.
\<close>

theorem privileged_decision:
  "\<exists>d. evaluate_privileged ctx ps = Inr d \<and>
     (if \<not> has_dot_env ctx \<and> list_all (\<lambda>fc. can_access_path (Privileged ps) (fc_path fc))
          (file_changes ctx)
      then automatic d else \<not> d_allow d)"
proof (cases "check_common_restrictions ctx
    \<lparr>allow_privileged_symlinks = True, allow_gitmodules = True\<rparr>")
  case None
  then show ?thesis
    using check_common_privileged [of ctx] privileged_find_None [of ps "file_changes ctx"]
    by (cases "find (\<lambda>fc. \<not> (\<exists>a \<in> set ps. path_starts_with (fc_path fc) a)) (file_changes ctx)")
      (auto simp: evaluate_privileged_def list_all_iff)
next
  case (Some d)
  then show ?thesis
    using check_common_privileged [of ctx] check_common_deny [OF Some]
    by (auto simp: evaluate_privileged_def)
qed

text \<open>
  when both the engine's default and the request are privileged, the allowed paths of the
  engine's default play no part: the request brings its own. In the witness an engine confined
  to \<open>/srv/app\<close> applies a change to \<open>/etc/passwd\<close> without a question.
\<close>

theorem privileged_request_replaces_allowed_paths:
  assumes "default_approval_level e = Privileged ps"
    and "requested_approval_level ctx = Privileged qs"
  shows "evaluate_changes e ctx = evaluate_privileged ctx qs"
  using assms by (simp add: evaluate_changes_def effective_level_def)

lemma sample_passwd:
  "automatic (projr (evaluate_privileged
     (sample_context [sample_change ''/etc/passwd''] (Privileged [''/''])) [''/'']))"
  by (simp add: evaluate_privileged_def check_common_restrictions_def sample_context_def
      sample_change_def sample_paths)

theorem privileged_request_replaces_allowed_paths_witness:
  "automatic (projr (evaluate_changes (new_policy_engine (Privileged [''/srv/app'']) Strict)
     (sample_context [sample_change ''/etc/passwd''] (Privileged [''/'']))))
   \<and> \<not> can_access_path (Privileged [''/srv/app'']) ''/etc/passwd''"
proof -
  have "\<not> can_access_path (Privileged [''/srv/app'']) ''/etc/passwd''"
    by (simp add: can_access_path_def under_iff sample_paths)
  then show ?thesis
    using sample_passwd privileged_request_replaces_allowed_paths
      [of "new_policy_engine (Privileged [''/srv/app'']) Strict" "[''/srv/app'']"
        "sample_context [sample_change ''/etc/passwd''] (Privileged [''/''])" "[''/'']"]
    by (simp add: new_policy_engine_def sample_context_def)
qed

lemma check_sandbox_paths_iff:
  "check_sandbox_paths root ps = Inr () \<longleftrightarrow>
     (\<forall>p \<in> set ps. if is_absolute p then path_starts_with p root
                   else ParentDir \<notin> set (components p))"
  by (induction ps) (auto simp: Let_def join_starts_with)

text \<open>
  inside a sandbox root, an operation is accepted (with the engine's profile) exactly when
  each of its absolute paths starts with the root and none of its relative paths climbs.
\<close>

theorem sandbox_accepts_iff:
  assumes "hm_get (op_metadata ctx) ''sandbox_root'' = Some r" and "r \<noteq> []"
    and "canonicalize r = Some root"
  shows "evaluate_sandbox canonicalize e ctx = Inr (default_sandbox_profile e) \<longleftrightarrow>
     (\<forall>p \<in> set (op_paths ctx). if is_absolute p then path_starts_with p root
                               else ParentDir \<notin> set (components p))"
  using assms check_sandbox_paths_iff [of root "op_paths ctx"]
  by (cases "check_sandbox_paths root (op_paths ctx)") (auto simp: evaluate_sandbox_def)

definition sample_operation :: "string list \<Rightarrow> operation_context" where
  "sample_operation paths =
     \<lparr>op_actor = ''tester'', op_operation = FileReadOp, op_paths = paths, op_data_size = None,
      op_estimated_duration = None, op_metadata = [(''sandbox_root'', ''/ws'')]\<rparr>"

text \<open>The check compares texts, so an absolute path that climbs out of the root passes it.\<close>

theorem sandbox_accepts_iff_witness:
  "evaluate_sandbox Some (new_policy_engine Ask Strict) (sample_operation [''/ws/../etc/passwd''])
     = Inr Strict"
proof -
  have "path_starts_with ''/ws/../etc/passwd'' ''/ws''" and "is_absolute ''/ws/../etc/passwd''"
    by code_simp+
  then show ?thesis
    using sandbox_accepts_iff [of "sample_operation [''/ws/../etc/passwd'']" "''/ws''" Some "''/ws''"
        "new_policy_engine Ask Strict"]
    by (simp add: sample_operation_def new_policy_engine_def)
qed

end
