(* ===== verification/Devit_Error.thy ===== *)
theory Devit_Error
  imports Rust_Str
begin

text \<open>
  The error type of the CLI core (\<open>crates/cli/src/core/errors.rs\<close>): the variants with their
  fields, the code, category, recoverability and severity of each. \<open>Panicked\<close> is not a variant
  of the source: it is how the model of another component says that the code panics there.
  The recovery hints and debug texts are not modelled.
\<close>

datatype error_category =
  Validation | Security | StateCategory | Version | Operation | Resource | System

datatype error_severity = Info | Warning | ErrorSev | Critical

datatype devit_error =
    InvalidDiff string "nat option"
  | SnapshotRequired string string
  | SnapshotStale string "int option" "string option"
  | PolicyBlock string string string string
  | ProtectedPath string string string
  | PrivilegeEscalation string string string string
  | GitDirty nat "string list" "string option"
  | VcsConflict string string "string list" "string option"
  | TestFail nat nat string "string list"
  | TestTimeout nat string "string list"
  | SandboxDenied string string string "string option"
  | ResourceLimit string nat nat string
  | Io string "string option" string
  | InvalidTestConfig string string string
  | Internal string string "string option" string
  | InvalidFormat string "string list"
  | Panicked string

fun error_code :: "devit_error \<Rightarrow> string" where
  "error_code (InvalidDiff _ _) = ''E_INVALID_DIFF''"
| "error_code (SnapshotRequired _ _) = ''E_SNAPSHOT_REQUIRED''"
| "error_code (SnapshotStale _ _ _) = ''E_SNAPSHOT_STALE''"
| "error_code (PolicyBlock _ _ _ _) = ''E_POLICY_BLOCK''"
| "error_code (ProtectedPath _ _ _) = ''E_PROTECTED_PATH''"
| "error_code (PrivilegeEscalation _ _ _ _) = ''E_PRIV_ESCALATION''"
| "error_code (GitDirty _ _ _) = ''E_GIT_DIRTY''"
| "error_code (VcsConflict _ _ _ _) = ''E_VCS_CONFLICT''"
| "error_code (TestFail _ _ _ _) = ''E_TEST_FAIL''"
| "error_code (TestTimeout _ _ _) = ''E_TEST_TIMEOUT''"
| "error_code (SandboxDenied _ _ _ _) = ''E_SANDBOX_DENIED''"
| "error_code (ResourceLimit _ _ _ _) = ''E_RESOURCE_LIMIT''"
| "error_code (Io _ _ _) = ''E_IO''"
| "error_code (InvalidTestConfig _ _ _) = ''E_INVALID_TEST_CONFIG''"
| "error_code (Internal _ _ _ _) = ''E_INTERNAL''"
| "error_code (InvalidFormat _ _) = ''E_INVALID_FORMAT''"
| "error_code (Panicked _) = []"

fun category :: "devit_error \<Rightarrow> error_category" where
  "category (InvalidDiff _ _) = Validation"
| "category (SnapshotRequired _ _) = StateCategory"
| "category (SnapshotStale _ _ _) = StateCategory"
| "category (PolicyBlock _ _ _ _) = Security"
| "category (ProtectedPath _ _ _) = Security"
| "category (PrivilegeEscalation _ _ _ _) = Security"
| "category (GitDirty _ _ _) = Version"
| "category (VcsConflict _ _ _ _) = Version"
| "category (TestFail _ _ _ _) = Operation"
| "category (TestTimeout _ _ _) = Operation"
| "category (SandboxDenied _ _ _ _) = Resource"
| "category (ResourceLimit _ _ _ _) = Resource"
| "category (Io _ _ _) = System"
| "category (InvalidTestConfig _ _ _) = Validation"
| "category (Internal _ _ _ _) = System"
| "category (InvalidFormat _ _) = Validation"
| "category (Panicked _) = System"

fun is_recoverable :: "devit_error \<Rightarrow> bool" where
  "is_recoverable (InvalidDiff _ _) = False"
| "is_recoverable (SnapshotRequired _ _) = True"
| "is_recoverable (SnapshotStale _ _ _) = True"
| "is_recoverable (PolicyBlock _ _ _ _) = True"
| "is_recoverable (ProtectedPath _ _ _) = True"
| "is_recoverable (PrivilegeEscalation _ _ _ _) = False"
| "is_recoverable (GitDirty _ _ _) = True"
| "is_recoverable (VcsConflict _ _ _ _) = True"
| "is_recoverable (TestFail _ _ _ _) = True"
| "is_recoverable (TestTimeout _ _ _) = True"
| "is_recoverable (SandboxDenied _ _ _ _) = True"
| "is_recoverable (ResourceLimit _ _ _ _) = True"
| "is_recoverable (Io _ _ _) = False"
| "is_recoverable (InvalidTestConfig _ _ _) = True"
| "is_recoverable (Internal _ _ _ _) = False"
| "is_recoverable (InvalidFormat _ _) = True"
| "is_recoverable (Panicked _) = False"

fun severity :: "devit_error \<Rightarrow> error_severity" where
  "severity (InvalidDiff _ _) = ErrorSev"
| "severity (SnapshotRequired _ _) = Warning"
| "severity (SnapshotStale _ _ _) = Warning"
| "severity (PolicyBlock _ _ _ _) = Warning"
| "severity (ProtectedPath _ _ _) = ErrorSev"
| "severity (PrivilegeEscalation _ _ _ _) = Critical"
| "severity (GitDirty _ _ _) = Warning"
| "severity (VcsConflict _ _ _ _) = ErrorSev"
| "severity (TestFail _ _ _ _) = ErrorSev"
| "severity (TestTimeout _ _ _) = Warning"
| "severity (SandboxDenied _ _ _ _) = ErrorSev"
| "severity (ResourceLimit _ _ _ _) = ErrorSev"
| "severity (Io _ _ _) = ErrorSev"
| "severity (InvalidTestConfig _ _ _) = Warning"
| "severity (Internal _ _ _ _) = Critical"
| "severity (InvalidFormat _ _) = Warning"
| "severity (Panicked _) = Critical"

text \<open>The derived order of \<open>ErrorSeverity\<close>: the order of its variants.\<close>

fun severity_index :: "error_severity \<Rightarrow> nat" where
  "severity_index Info = 0"
| "severity_index Warning = 1"
| "severity_index ErrorSev = 2"
| "severity_index Critical = 3"

instantiation error_severity :: linorder
begin

definition less_eq_error_severity :: "error_severity \<Rightarrow> error_severity \<Rightarrow> bool" where
  "less_eq_error_severity a b = (severity_index a \<le> severity_index b)"

definition less_error_severity :: "error_severity \<Rightarrow> error_severity \<Rightarrow> bool" where
  "less_error_severity a b = (severity_index a < severity_index b)"

instance
proof
  fix a b :: error_severity
  show "a \<le> b \<Longrightarrow> b \<le> a \<Longrightarrow> a = b"
    by (cases a; cases b) (simp_all add: less_eq_error_severity_def)
qed (auto simp: less_eq_error_severity_def less_error_severity_def)

end

text \<open>Errors a user can do nothing about are never reported below the level of an error.\<close>

lemma unrecoverable_severe: "\<not> is_recoverable e \<Longrightarrow> ErrorSev \<le> severity e"
  by (cases e) (simp_all add: less_eq_error_severity_def)

text \<open>Every warning can be acted upon.\<close>

lemma warning_recoverable: "severity e \<le> Warning \<Longrightarrow> is_recoverable e"
  by (cases e) (simp_all add: less_eq_error_severity_def)

end
