(* ===== verification/Patch_Parser.thy ===== *)
theory Patch_Parser
  imports Devit_Error Std_Path
begin

text \<open>
  The unified diff parser of \<open>crates/cli/src/core/patch_parser.rs\<close>. The source walks an index
  over the vector of lines; here each loop recurses on the lines that are left and carries the
  index \<open>i\<close> for the line numbers of errors. A slice that would split a UTF-8 character panics in
  Rust and is \<open>Panicked\<close> here. The warnings about header counts are not modelled.
\<close>

subsection \<open>Data\<close>

datatype patch_line = Context string | Add string | Remove string

record patch_hunk =
  old_start :: nat
  old_count :: nat
  new_start :: nat
  new_count :: nat
  hunk_lines :: "patch_line list"
  hunk_no_trailing_newline :: bool

record file_patch =
  old_path :: "string option"
  new_path :: "string option"
  hunks :: "patch_hunk list"
  is_new_file :: bool
  is_deleted_file :: bool
  old_mode :: "nat option"
  new_mode :: "nat option"
  fp_adds_exec_bit :: bool
  fp_is_binary :: bool
  no_trailing_newline :: bool

abbreviation usize_bound :: nat where
  "usize_bound \<equiv> 2 ^ 64"

subsection \<open>File modes\<close>

definition parse_mode :: "string \<Rightarrow> nat \<Rightarrow> devit_error + nat option" where
  "parse_mode value line_number =
     (if value = [] then Inr None
      else case parse_uint 8 (2 ^ 32) value of
             Some m \<Rightarrow> Inr (Some m)
           | None \<Rightarrow> Inl (InvalidDiff (''Invalid file mode '' @ [CHR 0x27] @ value @ [CHR 0x27])
                           (Some line_number)))"

text \<open>\<open>m & 0o111 != 0\<close>: one of the three executable bits is set.\<close>

definition has_exec :: "nat \<Rightarrow> bool" where
  "has_exec m = (odd m \<or> odd (m div 8) \<or> odd (m div 64))"

definition mode_adds_exec :: "nat option \<Rightarrow> nat option \<Rightarrow> bool" where
  "mode_adds_exec old_m new_m =
     (case (old_m, new_m) of
        (Some old, Some new) \<Rightarrow> has_exec new \<and> \<not> has_exec old
      | (None, Some new) \<Rightarrow> has_exec new
      | _ \<Rightarrow> False)"

subsection \<open>Hunks\<close>

definition parse_range :: "string \<Rightarrow> devit_error + nat \<times> nat" where
  "parse_range rng =
     (case split_once (CHR '','') rng of
        Some (s, c) \<Rightarrow>
          (case parse_uint 10 usize_bound s of
             None \<Rightarrow> Inl (InvalidDiff (''Invalid range start: '' @ rng) None)
           | Some start \<Rightarrow>
               (case parse_uint 10 usize_bound c of
                  None \<Rightarrow> Inl (InvalidDiff (''Invalid range count: '' @ rng) None)
                | Some count \<Rightarrow> Inr (start, count)))
      | None \<Rightarrow>
          (case parse_uint 10 usize_bound rng of
             None \<Rightarrow> Inl (InvalidDiff (''Invalid range: '' @ rng) None)
           | Some start \<Rightarrow> Inr (start, 1)))"

text \<open>\<open>&s[1..]\<close>: panics where byte 1 is inside a character.\<close>

definition slice_from_1 :: "string \<Rightarrow> devit_error + string" where
  "slice_from_1 s =
     (case s of
        [] \<Rightarrow> Inl (Panicked ''byte index 1 is out of bounds'')
      | [_] \<Rightarrow> Inr []
      | _ # c # r \<Rightarrow>
          if 0x80 \<le> (of_char c :: nat) \<and> (of_char c :: nat) < 0xC0
          then Inl (Panicked ''byte index 1 is not a char boundary'')
          else Inr (c # r))"

text \<open>\<open>line.starts_with("--- ")\<close> with a \<open>+++ \<close> line after it: the next file begins.\<close>

fun file_boundary :: "string list \<Rightarrow> bool" where
  "file_boundary (l # l' # _) = (starts_with l ''--- '' \<and> starts_with l' ''+++ '')"
| "file_boundary _ = False"

text \<open>
  The body of a hunk: the collected lines, the no-newline flag, and the index and lines where it
  stops.
\<close>

fun collect_hunk_lines ::
  "nat \<Rightarrow> string list \<Rightarrow> patch_line list \<Rightarrow> bool \<Rightarrow> patch_line list \<times> bool \<times> nat \<times> string list"
where
  "collect_hunk_lines i [] acc nonl = (acc, nonl, i, [])"
| "collect_hunk_lines i (l # ls) acc nonl =
     (if starts_with l ''@@'' \<or> starts_with l ''diff --git'' then (acc, nonl, i, l # ls)
      else if file_boundary (l # ls) then (acc, nonl, i, l # ls)
      else case l of
             [] \<Rightarrow> (acc, nonl, i, l # ls)
           | c # r \<Rightarrow>
               if c = CHR '' '' then collect_hunk_lines (Suc i) ls (acc @ [Context r]) nonl
               else if c = CHR ''+'' then collect_hunk_lines (Suc i) ls (acc @ [Add r]) nonl
               else if c = CHR ''-'' then collect_hunk_lines (Suc i) ls (acc @ [Remove r]) nonl
               else if c = CHR 0x5C then collect_hunk_lines (Suc i) ls acc True
               else (acc, nonl, i, l # ls))"

fun is_context_or_remove :: "patch_line \<Rightarrow> bool" where
  "is_context_or_remove (Context _) = True"
| "is_context_or_remove (Remove _) = True"
| "is_context_or_remove (Add _) = False"

fun is_context_or_add :: "patch_line \<Rightarrow> bool" where
  "is_context_or_add (Context _) = True"
| "is_context_or_add (Add _) = True"
| "is_context_or_add (Remove _) = False"

text \<open>The two ranges of a hunk header, \<open>start\<close> being its index.\<close>

definition parse_hunk_header :: "string \<Rightarrow> nat \<Rightarrow> devit_error + (nat \<times> nat) \<times> (nat \<times> nat)" where
  "parse_hunk_header header start =
     (let content = (case rfind_str ''@@'' header of Some at \<Rightarrow> take at header | None \<Rightarrow> header);
          parts = split_whitespace content
      in if length parts < 3 then
           Inl (InvalidDiff (''Invalid hunk header: '' @ header) (Some (start + 1)))
         else
           (case slice_from_1 (parts ! 1) of Inl e \<Rightarrow> Inl e | Inr old_range \<Rightarrow>
           (case slice_from_1 (parts ! 2) of Inl e \<Rightarrow> Inl e | Inr new_range \<Rightarrow>
           (case parse_range old_range of Inl e \<Rightarrow> Inl e | Inr old \<Rightarrow>
           (case parse_range new_range of Inl e \<Rightarrow> Inl e | Inr new \<Rightarrow> Inr (old, new))))))"

fun parse_hunk :: "nat \<Rightarrow> string list \<Rightarrow> devit_error + patch_hunk \<times> nat \<times> string list" where
  "parse_hunk i [] = Inl (Panicked ''index out of bounds'')"
| "parse_hunk i (header # ls) =
     (case parse_hunk_header header i of
        Inl e \<Rightarrow> Inl e
      | Inr ((os, _), (ns, _)) \<Rightarrow>
          (case collect_hunk_lines (Suc i) ls [] False of
             (body, nonl, j, rest) \<Rightarrow>
               if body = [] then
                 Inl (InvalidDiff (''Empty hunk at line '' @ show_nat (i + 1)) (Some (i + 1)))
               else
                 Inr (\<lparr>old_start = os, old_count = length (filter is_context_or_remove body),
                       new_start = ns, new_count = length (filter is_context_or_add body),
                       hunk_lines = body, hunk_no_trailing_newline = nonl\<rparr>, j, rest)))"

lemma collect_hunk_lines_rest:
  "collect_hunk_lines i ls acc nonl = (body, nl', j, rest) \<Longrightarrow> length rest \<le> length ls"
proof (induction i ls acc nonl rule: collect_hunk_lines.induct)
  case (1 i acc nonl)
  then show ?case by simp
next
  case (2 i l ls acc nonl)
  then show ?case
    by (auto split: if_splits list.splits)
qed

lemma parse_hunk_rest: "parse_hunk i ls = Inr (h, j, rest) \<Longrightarrow> length rest < length ls"
  by (cases ls) (auto split: sum.splits prod.splits if_splits dest: collect_hunk_lines_rest)

subsection \<open>Files\<close>

record patch_header =
  h_old_path :: "string option"
  h_new_path :: "string option"
  h_is_new :: bool
  h_is_deleted :: bool
  h_old_mode :: "nat option"
  h_new_mode :: "nat option"
  h_is_binary :: bool

definition empty_header :: patch_header where
  "empty_header =
     \<lparr>h_old_path = None, h_new_path = None, h_is_new = False, h_is_deleted = False,
      h_old_mode = None, h_new_mode = None, h_is_binary = False\<rparr>"

text \<open>The path of a \<open>---\<close> or \<open>+++\<close> line: up to a tab, without its \<open>a/\<close> or \<open>b/\<close> prefixes.\<close>

definition header_path :: "string \<Rightarrow> string \<Rightarrow> string option \<Rightarrow> string option" where
  "header_path line prefix_text unchanged =
     (let path_str = hd (split_char tab (drop 4 line))
      in if path_str \<noteq> ''/dev/null'' then Some (trim_start_matches path_str prefix_text)
         else unchanged)"

fun parse_header ::
  "nat \<Rightarrow> string list \<Rightarrow> patch_header \<Rightarrow> devit_error + patch_header \<times> nat \<times> string list"
where
  "parse_header i [] h = Inr (h, i, [])"
| "parse_header i (l # ls) h =
     (if starts_with l ''@@'' then Inr (h, i, l # ls)
      else case strip_prefix l ''old mode '' of
        Some rest \<Rightarrow>
          (case parse_mode (trim rest) (i + 1) of
             Inl e \<Rightarrow> Inl e
           | Inr m \<Rightarrow> parse_header (Suc i) ls (h\<lparr>h_old_mode := m\<rparr>))
      | None \<Rightarrow>
          (case strip_prefix l ''new mode '' of
             Some rest \<Rightarrow>
               (case parse_mode (trim rest) (i + 1) of
                  Inl e \<Rightarrow> Inl e
                | Inr m \<Rightarrow> parse_header (Suc i) ls (h\<lparr>h_new_mode := m\<rparr>))
           | None \<Rightarrow>
               if starts_with l ''--- '' then
                 parse_header (Suc i) ls (h\<lparr>h_old_path := header_path l ''a/'' (h_old_path h)\<rparr>)
               else if starts_with l ''+++ '' then
                 parse_header (Suc i) ls (h\<lparr>h_new_path := header_path l ''b/'' (h_new_path h)\<rparr>)
               else if contains l ''new file mode'' then
                 parse_header (Suc i) ls (h\<lparr>h_is_new := True\<rparr>)
               else if contains l ''deleted file mode'' then
                 parse_header (Suc i) ls (h\<lparr>h_is_deleted := True\<rparr>)
               else if starts_with l ''Binary files '' then
                 Inr (h\<lparr>h_is_binary := True\<rparr>, Suc i, ls)
               else parse_header (Suc i) ls h))"

lemma parse_header_rest: "parse_header i ls h = Inr (h', j, rest) \<Longrightarrow> length rest \<le> length ls"
proof (induction i ls h rule: parse_header.induct)
  case (1 i h)
  then show ?case by simp
next
  case (2 i l ls h)
  then show ?case
    by (auto split: if_splits option.splits sum.splits intro: le_SucI)
qed

text \<open>The hunks of a file: while the next line starts a hunk.\<close>

function parse_hunks ::
  "nat \<Rightarrow> string list \<Rightarrow> patch_hunk list \<Rightarrow> devit_error + patch_hunk list \<times> nat \<times> string list"
where
  "parse_hunks i ls acc =
     (if ls \<noteq> [] \<and> starts_with (hd ls) ''@@'' then
        (case parse_hunk i ls of
           Inl e \<Rightarrow> Inl e
         | Inr (h, j, rest) \<Rightarrow> parse_hunks j rest (acc @ [h]))
      else Inr (acc, i, ls))"
  by pat_completeness auto
termination
  by (relation "measure (\<lambda>(i, ls, acc). length ls)") (auto dest: parse_hunk_rest)

declare parse_hunks.simps [simp del]

definition build_file_patch :: "patch_header \<Rightarrow> patch_hunk list \<Rightarrow> file_patch" where
  "build_file_patch h hs =
     \<lparr>old_path = h_old_path h, new_path = h_new_path h, hunks = hs,
      is_new_file = (h_is_new h \<or> h_old_path h = None \<and> h_new_path h \<noteq> None),
      is_deleted_file = (h_is_deleted h \<or> h_new_path h = None \<and> h_old_path h \<noteq> None),
      old_mode = h_old_mode h, new_mode = h_new_mode h,
      fp_adds_exec_bit = mode_adds_exec (h_old_mode h) (h_new_mode h),
      fp_is_binary = h_is_binary h,
      no_trailing_newline = (hs \<noteq> [] \<and> hunk_no_trailing_newline (last hs))\<rparr>"

definition parse_file_patch ::
  "nat \<Rightarrow> string list \<Rightarrow> devit_error + file_patch \<times> nat \<times> string list"
where
  "parse_file_patch i ls =
     (case parse_header i ls empty_header of
        Inl e \<Rightarrow> Inl e
      | Inr (h, j, rest) \<Rightarrow>
          (case parse_hunks j rest [] of
             Inl e \<Rightarrow> Inl e
           | Inr (hs, k, rest') \<Rightarrow> Inr (build_file_patch h hs, k, rest')))"

lemma parse_hunks_rest: "parse_hunks i ls acc = Inr (hs, j, rest) \<Longrightarrow> length rest \<le> length ls"
proof (induction i ls acc rule: parse_hunks.induct)
  case (1 i ls acc)
  then show ?case
    by (subst (asm) parse_hunks.simps)
      (fastforce split: if_splits sum.splits prod.splits dest: parse_hunk_rest)
qed

text \<open>A file patch that starts on a line that is not a hunk consumes that line.\<close>

lemma parse_header_progress:
  "parse_header i (l # ls) h = Inr (h', j, rest) \<Longrightarrow> \<not> starts_with l ''@@'' \<Longrightarrow> length rest \<le> length ls"
  by (auto split: if_splits option.splits sum.splits dest: parse_header_rest)

lemma parse_file_patch_progress:
  assumes "parse_file_patch i (l # ls) = Inr (fp, j, rest)" and "\<not> starts_with l ''@@''"
  shows "length rest \<le> length ls"
  using assms parse_header_progress [OF _ assms(2)] parse_hunks_rest
  by (fastforce simp: parse_file_patch_def simp del: parse_header.simps
      split: sum.splits prod.splits)

subsection \<open>The whole diff\<close>

lemma marker_not_hunk:
  "starts_with l ''diff --git '' \<Longrightarrow> \<not> starts_with l ''@@''"
  "starts_with l ''--- '' \<Longrightarrow> \<not> starts_with l ''@@''"
  by (cases l; auto simp: starts_with_def)+

function parse_git_files :: "nat \<Rightarrow> string list \<Rightarrow> file_patch list \<Rightarrow> devit_error + file_patch list"
where
  "parse_git_files i [] acc = Inr acc"
| "parse_git_files i (l # ls) acc =
     (if starts_with l ''diff --git '' then
        (case parse_file_patch i (l # ls) of
           Inl e \<Rightarrow> Inl e
         | Inr (fp, j, rest) \<Rightarrow> parse_git_files j rest (acc @ [fp]))
      else parse_git_files (Suc i) ls acc)"
  by pat_completeness auto
termination
  by (relation "measure (\<lambda>(i, ls, acc). length ls)")
    (auto dest: parse_file_patch_progress [OF _ marker_not_hunk(1)])

function parse_plain_files :: "nat \<Rightarrow> string list \<Rightarrow> file_patch list \<Rightarrow> devit_error + file_patch list"
where
  "parse_plain_files i [] acc = Inr acc"
| "parse_plain_files i (l # ls) acc =
     (if file_boundary (l # ls) then
        (case parse_file_patch i (l # ls) of
           Inl e \<Rightarrow> Inl e
         | Inr (fp, j, rest) \<Rightarrow> parse_plain_files j rest (acc @ [fp]))
      else parse_plain_files (Suc i) ls acc)"
  by pat_completeness auto
termination
proof (relation "measure (\<lambda>(i, ls, acc). length ls)", goal_cases)
  case (2 i l ls acc p fp j rest)
  then have "starts_with l ''--- ''" by (cases ls) auto
  with 2 show ?case
    by (auto dest: parse_file_patch_progress [OF _ marker_not_hunk(2)])
qed auto

definition from_diff :: "string \<Rightarrow> devit_error + file_patch list" where
  "from_diff diff_content =
     (let lines = str_lines diff_content
      in case parse_git_files 0 lines [] of
           Inl e \<Rightarrow> Inl e
         | Inr files \<Rightarrow> if files = [] then parse_plain_files 0 lines [] else Inr files)"

end
