(* ===== verification/Atomic_Patcher.thy ===== *)
theory Atomic_Patcher
  imports Patch_Parser Std_Fs
begin

text \<open>
  The patch engine of \<open>crates/cli/src/core/atomic_patcher.rs\<close>: parse, check every path, then
  apply file by file. An operation takes the file system and returns a result and the file
  system it leaves behind, also when it fails. The text of an I/O error is empty here.
\<close>

subsection \<open>Data\<close>

record atomic_patcher =
  working_dir :: string
  dry_run :: bool

record patch_stats =
  files_modified :: nat
  hunks_applied :: nat
  stat_lines_added :: nat
  stat_lines_removed :: nat
  files_created :: nat
  files_deleted :: nat

definition zero_stats :: patch_stats where
  "zero_stats =
     \<lparr>files_modified = 0, hunks_applied = 0, stat_lines_added = 0, stat_lines_removed = 0,
      files_created = 0, files_deleted = 0\<rparr>"

type_synonym 'a fs_result = "(devit_error + 'a) \<times> file_system"

definition full_path :: "atomic_patcher \<Rightarrow> string \<Rightarrow> component list" where
  "full_path p path = components (path_join (working_dir p) path)"

text \<open>The directory part of a path, as \<open>Path::parent\<close> gives it.\<close>

definition path_parent :: "component list \<Rightarrow> component list option" where
  "path_parent cs =
     (if cs = [] \<or> last cs = RootDir then None else Some (butlast cs))"

text \<open>\<open>Path::with_extension\<close> on the components: the file stem and the new extension.\<close>

definition file_stem :: "string \<Rightarrow> string" where
  "file_stem f =
     (case rfind_str ''.'' f of
        None \<Rightarrow> f
      | Some 0 \<Rightarrow> f
      | Some n \<Rightarrow> take n f)"

definition with_extension :: "component list \<Rightarrow> string \<Rightarrow> component list" where
  "with_extension cs ext =
     (case rev cs of
        Normal f # r \<Rightarrow> rev r @ [Normal (file_stem f @ ''.'' @ ext)]
      | _ \<Rightarrow> cs)"

subsection \<open>Security validation\<close>

definition patch_path_error :: "string \<Rightarrow> string \<Rightarrow> devit_error" where
  "patch_path_error path rule = ProtectedPath path rule ''patch_apply''"

definition validate_path :: "atomic_patcher \<Rightarrow> file_system \<Rightarrow> string \<Rightarrow> devit_error + unit" where
  "validate_path p fs path =
     (if is_absolute path then Inl (patch_path_error path ''no_absolute_paths'')
      else if ParentDir \<in> set (components path) then
        Inl (patch_path_error path ''no_path_traversal'')
      else if path_exists fs (full_path p path) \<and> path_is_symlink fs (full_path p path) then
        Inl (patch_path_error path ''no_symlinks'')
      else Inr ())"

definition patch_paths :: "file_patch \<Rightarrow> string list" where
  "patch_paths fp =
     (case old_path fp of None \<Rightarrow> [] | Some q \<Rightarrow> [q]) @ (case new_path fp of None \<Rightarrow> [] | Some q \<Rightarrow> [q])"

definition validate_security ::
  "atomic_patcher \<Rightarrow> file_system \<Rightarrow> file_patch list \<Rightarrow> devit_error + unit" where
  "validate_security p fs files = try_all (validate_path p fs) (concat (map patch_paths files))"

subsection \<open>Hunks\<close>

definition start_index :: "patch_hunk \<Rightarrow> nat" where
  "start_index h = (if 0 < old_start h then old_start h - 1 else 0)"

definition mismatch :: "nat \<Rightarrow> string \<Rightarrow> string \<Rightarrow> string \<Rightarrow> devit_error" where
  "mismatch i kind hint found =
     VcsConflict (''line '' @ show_nat (i + 1)) kind []
       (Some (hint @ found @ [CHR 0x27]))"

text \<open>First pass: every context and removed line that is there must match.\<close>

fun check_lines :: "string list \<Rightarrow> nat \<Rightarrow> patch_line list \<Rightarrow> devit_error + unit" where
  "check_lines ls i [] = Inr ()"
| "check_lines ls i (Context l # ps) =
     (if i < length ls \<and> ls ! i \<noteq> l then
        Inl (mismatch i ''context_mismatch''
          (''Expected: '' @ [CHR 0x27] @ l @ [CHR 0x27] @ '', Found: '' @ [CHR 0x27]) (ls ! i))
      else check_lines ls (Suc i) ps)"
| "check_lines ls i (Remove l # ps) =
     (if i < length ls \<and> ls ! i \<noteq> l then
        Inl (mismatch i ''remove_mismatch''
          (''Expected to remove: '' @ [CHR 0x27] @ l @ [CHR 0x27] @ '', Found: '' @ [CHR 0x27])
          (ls ! i))
      else check_lines ls (Suc i) ps)"
| "check_lines ls i (Add _ # ps) = check_lines ls i ps"

text \<open>Second pass: the new lines, and the index behind the last old line.\<close>

fun apply_lines :: "nat \<Rightarrow> string list \<Rightarrow> patch_line list \<Rightarrow> string list \<times> nat" where
  "apply_lines i acc [] = (acc, i)"
| "apply_lines i acc (Context l # ps) = apply_lines (Suc i) (acc @ [l]) ps"
| "apply_lines i acc (Remove _ # ps) = apply_lines (Suc i) acc ps"
| "apply_lines i acc (Add l # ps) = apply_lines i (acc @ [l]) ps"

definition apply_hunk_to_lines :: "string list \<Rightarrow> patch_hunk \<Rightarrow> devit_error + string list" where
  "apply_hunk_to_lines ls h =
     (let start = start_index h
      in if length ls < start then
           Inl (InvalidDiff (''Patch context starts at line '' @ show_nat (old_start h)
             @ '' but file has only '' @ show_nat (length ls) @ '' lines'') (Some (old_start h)))
         else
           case check_lines ls start (hunk_lines h) of
             Inl e \<Rightarrow> Inl e
           | Inr _ \<Rightarrow>
               (case apply_lines start (take (min start (length ls)) ls) (hunk_lines h) of
                  (new_lines, old_idx) \<Rightarrow>
                    if length ls < old_idx then
                      Inl (InvalidDiff (''Patch consumes more lines than available (line ''
                        @ show_nat (old_idx + 1) @ '' in file with '' @ show_nat (length ls)
                        @ '' lines)'') (Some (old_idx + 1)))
                    else Inr (new_lines @ drop old_idx ls)))"

definition build_new_content ::
  "patch_hunk list \<Rightarrow> string list \<Rightarrow> bool \<Rightarrow> devit_error + string" where
  "build_new_content hs original trailing_newline =
     (case try_fold apply_hunk_to_lines original (rev hs) of
        Inl e \<Rightarrow> Inl e
      | Inr ls \<Rightarrow>
          (let result = join_lines ls
           in Inr (if trailing_newline \<and> result \<noteq> [] then result @ [nl] else result)))"

subsection \<open>Files\<close>

definition read_file_lines ::
  "file_system \<Rightarrow> component list \<Rightarrow> devit_error + string list \<times> bool" where
  "read_file_lines fs path =
     (case read_to_string fs path of
        None \<Rightarrow> Inl (Io ''read file'' None [])
      | Some raw \<Rightarrow> Inr (str_lines raw, ends_with raw [nl]))"

definition write_file_atomically :: "component list \<Rightarrow> string \<Rightarrow> file_system \<Rightarrow> unit fs_result" where
  "write_file_atomically path content fs =
     (let temp = with_extension path ''devit.tmp''
      in case write_text temp content fs of
           None \<Rightarrow> (Inl (Io ''create temp file'' None []), fs)
         | Some fs' \<Rightarrow>
             (case rename_file temp path fs' of
                None \<Rightarrow> (Inl (Io ''atomic rename'' None []), fs')
              | Some fs'' \<Rightarrow> (Inr (), fs'')))"

fun count_added :: "patch_line list \<Rightarrow> nat" where
  "count_added [] = 0"
| "count_added (Add _ # ps) = Suc (count_added ps)"
| "count_added (_ # ps) = count_added ps"

fun count_removed :: "patch_line list \<Rightarrow> nat" where
  "count_removed [] = 0"
| "count_removed (Remove _ # ps) = Suc (count_removed ps)"
| "count_removed (_ # ps) = count_removed ps"

definition update_stats_from_hunks :: "patch_hunk list \<Rightarrow> patch_stats \<Rightarrow> patch_stats" where
  "update_stats_from_hunks hs st =
     st\<lparr>hunks_applied := hunks_applied st + length hs,
        stat_lines_added := stat_lines_added st + sum_list (map (count_added \<circ> hunk_lines) hs),
        stat_lines_removed :=
          stat_lines_removed st + sum_list (map (count_removed \<circ> hunk_lines) hs)\<rparr>"

definition delete_file ::
  "atomic_patcher \<Rightarrow> file_patch \<Rightarrow> patch_stats \<Rightarrow> file_system \<Rightarrow> patch_stats fs_result" where
  "delete_file p fp st fs =
     (case old_path fp of
        None \<Rightarrow> (Inl (InvalidDiff ''Deleted file missing old path'' None), fs)
      | Some path \<Rightarrow>
          (let full = full_path p path;
               done = st\<lparr>files_deleted := Suc (files_deleted st)\<rparr>
           in if \<not> dry_run p \<and> path_exists fs full then
                (case remove_file full fs of
                   None \<Rightarrow> (Inl (Io ''delete file'' None []), fs)
                 | Some fs' \<Rightarrow> (Inr done, fs'))
              else (Inr done, fs)))"

text \<open>The directories of a new file; nothing in a dry run or without a parent.\<close>

definition make_parent :: "atomic_patcher \<Rightarrow> component list \<Rightarrow> file_system \<Rightarrow> file_system option" where
  "make_parent p full fs =
     (case path_parent full of
        None \<Rightarrow> Some fs
      | Some parent \<Rightarrow> if dry_run p then Some fs else create_dir_all parent fs)"

definition write_unless_dry ::
  "atomic_patcher \<Rightarrow> component list \<Rightarrow> string \<Rightarrow> 'a \<Rightarrow> file_system \<Rightarrow> 'a fs_result" where
  "write_unless_dry p full content result fs =
     (if dry_run p then (Inr result, fs)
      else case write_file_atomically full content fs of
             (Inl e, fs') \<Rightarrow> (Inl e, fs')
           | (Inr _, fs') \<Rightarrow> (Inr result, fs'))"

definition create_file ::
  "atomic_patcher \<Rightarrow> file_patch \<Rightarrow> patch_stats \<Rightarrow> file_system \<Rightarrow> patch_stats fs_result" where
  "create_file p fp st fs =
     (case new_path fp of
        None \<Rightarrow> (Inl (InvalidDiff ''New file missing new path'' None), fs)
      | Some path \<Rightarrow>
          (let full = full_path p path
           in case make_parent p full fs of
                None \<Rightarrow> (Inl (Io ''create parent directories'' None []), fs)
              | Some fs1 \<Rightarrow>
                  (case build_new_content (hunks fp) [] (\<not> no_trailing_newline fp) of
                     Inl e \<Rightarrow> (Inl e, fs1)
                   | Inr content \<Rightarrow>
                       write_unless_dry p full content
                         (update_stats_from_hunks (hunks fp)
                            (st\<lparr>files_created := Suc (files_created st)\<rparr>)) fs1)))"

definition modify_file ::
  "atomic_patcher \<Rightarrow> file_patch \<Rightarrow> patch_stats \<Rightarrow> file_system \<Rightarrow> patch_stats fs_result" where
  "modify_file p fp st fs =
     (case (case new_path fp of Some q \<Rightarrow> Some q | None \<Rightarrow> old_path fp) of
        None \<Rightarrow> (Inl (InvalidDiff ''Modified file missing path'' None), fs)
      | Some path \<Rightarrow>
          (let full = full_path p path
           in case (if path_exists fs full then read_file_lines fs full else Inr ([], True)) of
                Inl e \<Rightarrow> (Inl e, fs)
              | Inr (original, had_trailing) \<Rightarrow>
                  (case build_new_content (hunks fp) original
                          (if no_trailing_newline fp then False else had_trailing) of
                     Inl e \<Rightarrow> (Inl e, fs)
                   | Inr content \<Rightarrow>
                       write_unless_dry p full content
                         (update_stats_from_hunks (hunks fp)
                            (st\<lparr>files_modified := Suc (files_modified st)\<rparr>)) fs)))"

definition apply_file_patch ::
  "atomic_patcher \<Rightarrow> file_patch \<Rightarrow> patch_stats \<Rightarrow> file_system \<Rightarrow> patch_stats fs_result" where
  "apply_file_patch p fp st fs =
     (if is_deleted_file fp then delete_file p fp st fs
      else if is_new_file fp then create_file p fp st fs
      else modify_file p fp st fs)"

fun apply_files ::
  "atomic_patcher \<Rightarrow> file_patch list \<Rightarrow> patch_stats \<Rightarrow> file_system \<Rightarrow> patch_stats fs_result" where
  "apply_files p [] st fs = (Inr st, fs)"
| "apply_files p (fp # fps) st fs =
     (case apply_file_patch p fp st fs of
        (Inl e, fs') \<Rightarrow> (Inl e, fs')
      | (Inr st', fs') \<Rightarrow> apply_files p fps st' fs')"

definition apply_patch ::
  "atomic_patcher \<Rightarrow> string \<Rightarrow> file_system \<Rightarrow> patch_stats fs_result" where
  "apply_patch p patch_content fs =
     (case from_diff patch_content of
        Inl e \<Rightarrow> (Inl e, fs)
      | Inr files \<Rightarrow>
          (case validate_security p fs files of
             Inl e \<Rightarrow> (Inl e, fs)
           | Inr _ \<Rightarrow> apply_files p files zero_stats fs))"

end
