(* ===== verification/Patch_Properties.thy ===== *)
theory Patch_Properties
  imports Atomic_Patcher
begin

text \<open>
  What the patch engine does: one hunk is a splice, the hunks of a file applied from the last to
  the first are the simultaneous splice of all of them, and a patch changes nothing outside the
  working tree.
\<close>

subsection \<open>A hunk is a splice\<close>

text \<open>The two sides of a hunk: the lines it expects and the lines it leaves.\<close>

fun old_side :: "patch_line list \<Rightarrow> string list" where
  "old_side [] = []"
| "old_side (Context l # ps) = l # old_side ps"
| "old_side (Remove l # ps) = l # old_side ps"
| "old_side (Add _ # ps) = old_side ps"

fun new_side :: "patch_line list \<Rightarrow> string list" where
  "new_side [] = []"
| "new_side (Context l # ps) = l # new_side ps"
| "new_side (Remove _ # ps) = new_side ps"
| "new_side (Add l # ps) = l # new_side ps"

definition old_len :: "patch_hunk \<Rightarrow> nat" where
  "old_len h = length (old_side (hunk_lines h))"

text \<open>The hunk's old side is what the text holds at its position.\<close>

definition hunk_fits :: "string list \<Rightarrow> patch_hunk \<Rightarrow> bool" where
  "hunk_fits ls h =
     (start_index h + old_len h \<le> length ls \<and>
      take (old_len h) (drop (start_index h) ls) = old_side (hunk_lines h))"

definition splice :: "string list \<Rightarrow> patch_hunk \<Rightarrow> string list" where
  "splice ls h =
     take (start_index h) ls @ new_side (hunk_lines h) @ drop (start_index h + old_len h) ls"

lemma apply_lines_eq:
  "apply_lines i acc ps = (acc @ new_side ps, i + length (old_side ps))"
  by (induction i acc ps rule: apply_lines.induct) auto

lemma check_lines_ok:
  "i + length (old_side ps) \<le> length ls \<Longrightarrow>
     check_lines ls i ps = Inr () \<longleftrightarrow> take (length (old_side ps)) (drop i ls) = old_side ps"
proof (induction ls i ps rule: check_lines.induct)
  case (1 ls i)
  then show ?case by simp
next
  case (2 ls i l ps)
  then have "drop i ls = ls ! i # drop (Suc i) ls"
    by (simp add: Cons_nth_drop_Suc)
  with 2 show ?case by auto
next
  case (3 ls i l ps)
  then have "drop i ls = ls ! i # drop (Suc i) ls"
    by (simp add: Cons_nth_drop_Suc)
  with 3 show ?case by auto
next
  case (4 ls i l ps)
  then show ?case by simp
qed

lemma apply_hunk_eq:
  "apply_hunk_to_lines ls h = Inr r \<longleftrightarrow> hunk_fits ls h \<and> r = splice ls h"
proof (cases "start_index h + old_len h \<le> length ls")
  case True
  then show ?thesis
    using check_lines_ok [of "start_index h" "hunk_lines h" ls]
    by (auto simp: apply_hunk_to_lines_def hunk_fits_def splice_def apply_lines_eq old_len_def
        Let_def min_def split: sum.splits)
next
  case False
  then show ?thesis
    by (auto simp: apply_hunk_to_lines_def hunk_fits_def apply_lines_eq old_len_def Let_def
        split: sum.splits)
qed

text \<open>
  C4: a hunk applies exactly when the file holds its old side (context and removed lines) at
  the line its header gives, and the result replaces that stretch by the new side and leaves
  every other line as it was.
\<close>

theorem apply_hunk_is_splice:
  "apply_hunk_to_lines ls h = Inr r \<longleftrightarrow>
     start_index h + old_len h \<le> length ls
     \<and> take (old_len h) (drop (start_index h) ls) = old_side (hunk_lines h)
     \<and> r = take (start_index h) ls @ new_side (hunk_lines h)
           @ drop (start_index h + old_len h) ls"
  by (auto simp: apply_hunk_eq hunk_fits_def splice_def)

subsection \<open>Several hunks\<close>

text \<open>Hunks in file order, without overlap, from line index \<open>pos\<close> on, all fitting \<open>ls\<close>.\<close>

fun hunks_ordered :: "nat \<Rightarrow> patch_hunk list \<Rightarrow> string list \<Rightarrow> bool" where
  "hunks_ordered pos [] ls = True"
| "hunks_ordered pos (h # hs) ls =
     (pos \<le> start_index h \<and> hunk_fits ls h \<and> hunks_ordered (start_index h + old_len h) hs ls)"

text \<open>Reading the file once from \<open>pos\<close>, copying what lies between the hunks.\<close>

fun splice_all :: "nat \<Rightarrow> patch_hunk list \<Rightarrow> string list \<Rightarrow> string list" where
  "splice_all pos [] ls = drop pos ls"
| "splice_all pos (h # hs) ls =
     take (start_index h - pos) (drop pos ls) @ new_side (hunk_lines h)
     @ splice_all (start_index h + old_len h) hs ls"

lemma apply_reversed:
  "hunks_ordered pos hs ls \<Longrightarrow> pos \<le> length ls \<Longrightarrow>
     try_fold apply_hunk_to_lines ls (rev hs) = Inr (take pos ls @ splice_all pos hs ls)"
proof (induction hs arbitrary: pos)
  case Nil
  then show ?case by simp
next
  case (Cons h hs)
  let ?q = "start_index h + old_len h"
  let ?ls = "take ?q ls @ splice_all ?q hs ls"
  from Cons.prems have fits: "hunk_fits ls h" and pos: "pos \<le> start_index h"
    and q: "?q \<le> length ls"
    by (auto simp: hunk_fits_def)
  have step: "try_fold apply_hunk_to_lines ls (rev hs) = Inr ?ls"
    using Cons.IH [of ?q] Cons.prems q by simp
  have len: "length (take ?q ls) = ?q" using q by simp
  have "hunk_fits ?ls h"
    using fits q by (simp add: hunk_fits_def take_drop min_def)
  moreover have "splice ?ls h = take pos ls @ splice_all pos (h # hs) ls"
  proof -
    have "take (start_index h) ls = take pos ls @ take (start_index h - pos) (drop pos ls)"
      using pos by (metis le_add_diff_inverse take_add)
    then show ?thesis
      using q by (simp add: splice_def min_def)
  qed
  ultimately have "apply_hunk_to_lines ?ls h = Inr (take pos ls @ splice_all pos (h # hs) ls)"
    by (simp add: apply_hunk_eq)
  with step show ?case
    by (simp add: try_fold_append)
qed

text \<open>
  C5: applying the hunks of a file from the last to the first, each at the line its header
  gives, equals reading the file once and replacing every hunk's stretch, whenever the hunks are
  in order and do not overlap: earlier hunks never shift later ones.
\<close>

theorem reverse_application_is_simultaneous:
  assumes "hunks_ordered 0 hs ls"
  shows "build_new_content hs ls nonl
    = (let text = join_lines (splice_all 0 hs ls)
       in Inr (if nonl \<and> text \<noteq> [] then text @ [nl] else text))"
  using apply_reversed [OF assms] by (simp add: build_new_content_def)

definition sample_hunk :: "nat \<Rightarrow> patch_line list \<Rightarrow> patch_hunk" where
  "sample_hunk start ps =
     \<lparr>old_start = start, old_count = length (old_side ps), new_start = start,
      new_count = length (new_side ps), hunk_lines = ps, hunk_no_trailing_newline = False\<rparr>"

theorem reverse_application_is_simultaneous_witness:
  "build_new_content
     [sample_hunk 1 [Remove ''a'', Add ''A'', Add ''A2''], sample_hunk 3 [Context ''c'', Remove ''d'']]
     [''a'', ''b'', ''c'', ''d''] True = Inr (''A'' @ nl # ''A2'' @ nl # ''b'' @ nl # ''c'' @ [nl])"
  using reverse_application_is_simultaneous
    [of "[sample_hunk 1 [Remove ''a'', Add ''A'', Add ''A2''],
          sample_hunk 3 [Context ''c'', Remove ''d'']]" "[''a'', ''b'', ''c'', ''d'']" True]
  by (simp add: sample_hunk_def hunk_fits_def old_len_def start_index_def)

text \<open>
  reading a text file and writing it back with no hunk applied gives the same bytes, for
  every text without a carriage return other than a single line feed. (A single line feed is
  written back as nothing, and carriage returns before line feeds are lost.)
\<close>

theorem rewrite_preserves_text:
  assumes "cr \<notin> set s" and "s \<noteq> [nl]"
  shows "build_new_content [] (str_lines s) (ends_with s [nl]) = Inr s"
proof -
  have ends: "ends_with s [nl] \<longleftrightarrow> s \<noteq> [] \<and> last s = nl"
    by (cases s rule: rev_cases) (auto simp: ends_with_def)
  have join: "join_lines (str_lines s) @ (if s \<noteq> [] \<and> last s = nl then [nl] else []) = s"
    using join_str_lines [OF assms(1)] .
  have "join_lines (str_lines s) \<noteq> []" if "s \<noteq> []" "last s = nl"
    using join assms(2) that by auto
  then show ?thesis
    using join ends
    by (cases "s \<noteq> [] \<and> last s = nl") (simp_all add: build_new_content_def Let_def)
qed

theorem rewrite_preserves_text_witness:
  "build_new_content [] (str_lines (''a'' @ nl # ''b'' @ [nl])) True = Inr (''a'' @ nl # ''b'' @ [nl])
   \<and> build_new_content [] (str_lines (''a'' @ cr # nl # ''b'' @ [nl])) True
       = Inr (''a'' @ nl # ''b'' @ [nl])
   \<and> build_new_content [] (str_lines [nl]) True = Inr []"
  using rewrite_preserves_text [of "''a'' @ nl # ''b'' @ [nl]"]
  by (simp add: ends_with_def suffix_def build_new_content_def str_lines_def strip_cr_def)

subsection \<open>Where a patch may write\<close>

lemma names_map_Normal_append: "names (map Normal ns @ cs) = ns @ names cs"
  by simp

lemma plain_map_Normal [simp]: "plain (map Normal ns)"
  by (induction ns) auto

text \<open>The patcher works in \<open>root\<close>, a physical directory.\<close>

definition works_in :: "atomic_patcher \<Rightarrow> string list \<Rightarrow> bool" where
  "works_in p root = (components (working_dir p) = RootDir # map Normal root)"

text \<open>A path that names something: not empty and not \<open>.\<close>.\<close>

definition names_file :: "string \<Rightarrow> bool" where
  "names_file q = (path_names q \<noteq> [])"

definition relative_inside :: "string \<Rightarrow> bool" where
  "relative_inside q = (\<not> is_absolute q \<and> ParentDir \<notin> set (components q))"

lemma validate_path_ok: "validate_path p fs q = Inr () \<Longrightarrow> relative_inside q"
  by (simp add: validate_path_def relative_inside_def split: if_splits)

lemma full_path_names:
  assumes "works_in p root" and "relative_inside q"
  shows "full_path p q = RootDir # map Normal root @ map Normal (path_names q)"
proof -
  have "working_dir p \<noteq> []"
    using assms(1) by (auto simp: works_in_def components_def is_absolute_def seg_component_def)
  then show ?thesis
    using assms by (simp add: full_path_def works_in_def relative_inside_def components_join_names)
qed

lemma with_extension_names:
  assumes "ns \<noteq> []"
  shows "\<exists>ms. ms \<noteq> [] \<and> with_extension (RootDir # map Normal root @ map Normal ns) ext
    = RootDir # map Normal root @ map Normal ms"
proof -
  obtain ks f where ns: "ns = ks @ [f]"
    using assms by (cases ns rule: rev_cases) auto
  have "with_extension (RootDir # map Normal root @ map Normal ns) ext
      = RootDir # map Normal root @ map Normal (ks @ [file_stem f @ ''.'' @ ext])"
    by (simp add: with_extension_def ns rev_map)
  then show ?thesis by blast
qed

text \<open>Every operation keeps the working tree and writes only below it.\<close>

definition confined :: "string list \<Rightarrow> file_system \<Rightarrow> file_system \<Rightarrow> bool" where
  "confined root fs fs' = (work_tree fs' root \<and> only_below root fs fs')"

lemma confined_refl: "work_tree fs root \<Longrightarrow> confined root fs fs"
  by (simp add: confined_def)

lemma confined_trans: "confined root a b \<Longrightarrow> confined root b c \<Longrightarrow> confined root a c"
  unfolding confined_def using only_below_trans by blast

lemma write_file_atomically_confined:
  assumes "work_tree fs root" and "ns \<noteq> []"
  shows "confined root fs
    (snd (write_file_atomically (RootDir # map Normal root @ map Normal ns) content fs))"
proof -
  let ?full = "RootDir # map Normal root @ map Normal ns"
  obtain ms where ms: "ms \<noteq> []"
    and temp: "with_extension ?full ''devit.tmp'' = RootDir # map Normal root @ map Normal ms"
    using with_extension_names [OF assms(2)] by blast
  show ?thesis
  proof (cases "write_text (RootDir # map Normal root @ map Normal ms) content fs")
    case None
    then show ?thesis
      using assms(1) by (simp add: write_file_atomically_def temp confined_refl)
  next
    case (Some fs1)
    then have c1: "confined root fs fs1"
      using write_text_work_tree [OF assms(1) _ _ Some] ms by (simp add: confined_def)
    show ?thesis
    proof (cases "rename_file (RootDir # map Normal root @ map Normal ms) ?full fs1")
      case None
      then show ?thesis
        using Some c1 by (simp add: write_file_atomically_def temp)
    next
      case (Some fs2)
      have "confined root fs1 fs2"
        using rename_file_work_tree [OF _ _ _ _ _ Some] c1 ms assms(2) by (simp add: confined_def)
      then show ?thesis
        using Some \<open>write_text _ _ _ = Some fs1\<close> c1 confined_trans
        by (auto simp: write_file_atomically_def temp)
    qed
  qed
qed

lemma write_unless_dry_confined:
  assumes "work_tree fs root" and "ns \<noteq> []"
  shows "confined root fs
    (snd (write_unless_dry p (RootDir # map Normal root @ map Normal ns) content r fs))"
  using write_file_atomically_confined [OF assms, of content] assms(1)
  by (auto simp: write_unless_dry_def confined_refl split: prod.splits sum.splits)

lemma make_parent_confined:
  assumes "work_tree fs root" and "ns \<noteq> []"
    and "make_parent p (RootDir # map Normal root @ map Normal ns) fs = Some fs'"
  shows "confined root fs fs'"
proof -
  have par: "path_parent (RootDir # map Normal root @ map Normal ns)
      = Some (RootDir # map Normal root @ map Normal (butlast ns))"
    using assms(2)
    by (cases ns rule: rev_cases) (simp_all add: path_parent_def butlast_append)
  show ?thesis
    using assms par create_dir_all_work_tree [OF assms(1), of "map Normal (butlast ns)" fs']
    by (auto simp: make_parent_def confined_def split: if_splits)
qed

definition file_paths_ok :: "file_patch \<Rightarrow> bool" where
  "file_paths_ok fp = (\<forall>q \<in> set (patch_paths fp). relative_inside q \<and> names_file q)"

lemma apply_file_patch_confined:
  assumes "works_in p root" and "work_tree fs root" and "file_paths_ok fp"
  shows "confined root fs (snd (apply_file_patch p fp st fs))"
proof -
  have full: "\<exists>ns. ns \<noteq> [] \<and> full_path p q = RootDir # map Normal root @ map Normal ns"
    if "q \<in> set (patch_paths fp)" for q
    using that assms(1,3) full_path_names by (auto simp: file_paths_ok_def names_file_def)
  have del: "confined root fs (snd (delete_file p fp st fs))"
  proof (cases "old_path fp")
    case None
    then show ?thesis using assms(2) by (simp add: delete_file_def confined_refl)
  next
    case (Some q)
    then obtain ns where ns: "ns \<noteq> []" "full_path p q = RootDir # map Normal root @ map Normal ns"
      using full [of q] by (auto simp: patch_paths_def)
    then show ?thesis
      using Some assms(2) remove_file_work_tree [OF assms(2), of "map Normal ns"]
      by (auto simp: delete_file_def Let_def confined_refl confined_def split: option.splits)
  qed
  have new: "confined root fs (snd (create_file p fp st fs))"
  proof (cases "new_path fp")
    case None
    then show ?thesis using assms(2) by (simp add: create_file_def confined_refl)
  next
    case (Some q)
    then obtain ns where ns: "ns \<noteq> []" "full_path p q = RootDir # map Normal root @ map Normal ns"
      using full [of q] by (auto simp: patch_paths_def)
    show ?thesis
    proof (cases "make_parent p (full_path p q) fs")
      case None
      with Some show ?thesis using assms(2) by (simp add: create_file_def Let_def confined_refl)
    next
      case (Some fs1)
      then have c1: "confined root fs fs1"
        using make_parent_confined [OF assms(2) ns(1)] ns(2) by simp
      then have wt: "work_tree fs1 root" by (simp add: confined_def)
      show ?thesis
        using Some \<open>new_path fp = Some q\<close> c1 ns(2)
        by (auto simp: create_file_def Let_def split: sum.splits
            intro!: confined_trans [OF c1] write_unless_dry_confined [OF wt ns(1)])
    qed
  qed
  have mod: "confined root fs (snd (modify_file p fp st fs))"
  proof (cases "case new_path fp of Some q \<Rightarrow> Some q | None \<Rightarrow> old_path fp")
    case None
    then show ?thesis using assms(2) by (simp add: modify_file_def confined_refl)
  next
    case (Some q)
    then have "q \<in> set (patch_paths fp)"
      by (auto simp: patch_paths_def split: option.splits)
    then obtain ns where ns: "ns \<noteq> []" "full_path p q = RootDir # map Normal root @ map Normal ns"
      using full by blast
    then show ?thesis
      using Some assms(2)
      by (auto simp: modify_file_def Let_def confined_refl split: sum.splits prod.splits
          intro!: write_unless_dry_confined [OF assms(2) ns(1)])
  qed
  from del new mod show ?thesis
    by (simp add: apply_file_patch_def)
qed

lemma apply_files_confined:
  "works_in p root \<Longrightarrow> work_tree fs root \<Longrightarrow> (\<forall>fp \<in> set fps. file_paths_ok fp) \<Longrightarrow>
     confined root fs (snd (apply_files p fps st fs))"
proof (induction fps arbitrary: st fs)
  case Nil
  then show ?case by (simp add: confined_refl)
next
  case (Cons fp fps)
  have step: "confined root fs (snd (apply_file_patch p fp st fs))"
    using Cons.prems apply_file_patch_confined by simp
  then show ?case
    using Cons confined_trans [OF step]
    by (auto simp: confined_def split: prod.splits sum.splits)
qed

lemma validate_security_ok:
  "validate_security p fs files = Inr () \<Longrightarrow> fp \<in> set files \<Longrightarrow> q \<in> set (patch_paths fp)
     \<Longrightarrow> relative_inside q"
  by (auto simp: validate_security_def try_all_Inr intro: validate_path_ok)

end
