(* ===== verification/Patch_Roundtrip.thy ===== *)
theory Patch_Roundtrip
  imports Patch_Properties
begin

text \<open>
  A printer for git-style diffs of modified, new, deleted and binary files with their modes, and the
  round trip: what it prints, the parser reads back. The conditions say which contents the
  line-oriented format can carry.
\<close>

subsection \<open>The printer\<close>

fun render_line :: "patch_line \<Rightarrow> string" where
  "render_line (Context l) = CHR '' '' # l"
| "render_line (Add l) = CHR ''+'' # l"
| "render_line (Remove l) = CHR ''-'' # l"

definition render_hunk_header :: "patch_hunk \<Rightarrow> string" where
  "render_hunk_header h =
     ''@@ -'' @ show_nat (old_start h) @ '','' @ show_nat (old_count h)
     @ '' +'' @ show_nat (new_start h) @ '','' @ show_nat (new_count h) @ '' @@''"

definition mark_lines :: "bool \<Rightarrow> string list" where
  "mark_lines b = (if b then [CHR 0x5C # '' No newline at end of file''] else [])"

definition render_hunk :: "patch_hunk \<Rightarrow> string list" where
  "render_hunk h =
     render_hunk_header h # map render_line (hunk_lines h) @ mark_lines (hunk_no_trailing_newline h)"

fun show_octal :: "nat \<Rightarrow> string" where
  "show_octal n = (if n < 8 then [digit_char n] else show_octal (n div 8) @ [digit_char (n mod 8)])"

declare show_octal.simps [simp del]

definition mode_lines :: "string \<Rightarrow> nat option \<Rightarrow> string list" where
  "mode_lines name m = (case m of None \<Rightarrow> [] | Some k \<Rightarrow> [name @ show_octal k])"

definition flag_lines :: "bool \<Rightarrow> string \<Rightarrow> string list" where
  "flag_lines b l = (if b then [l] else [])"

definition path_line :: "string \<Rightarrow> string \<Rightarrow> string option \<Rightarrow> string" where
  "path_line start side p = start @ (case p of None \<Rightarrow> ''/dev/null'' | Some t \<Rightarrow> side @ t)"

text \<open>The names in the line that starts a file: of a new or deleted file the only one.\<close>

definition shown_name :: "string option \<Rightarrow> string option \<Rightarrow> string" where
  "shown_name p q = (case p of Some t \<Rightarrow> t | None \<Rightarrow> (case q of Some t \<Rightarrow> t | None \<Rightarrow> []))"

definition git_line :: "file_patch \<Rightarrow> string" where
  "git_line fp =
     ''diff --git a/'' @ shown_name (old_path fp) (new_path fp) @ '' b/'' @ shown_name (new_path fp) (old_path fp)"

definition binary_line :: "file_patch \<Rightarrow> string" where
  "binary_line fp =
     ''Binary files a/'' @ shown_name (old_path fp) (new_path fp) @ '' and b/''
     @ shown_name (new_path fp) (old_path fp) @ '' differ''"

definition render_file :: "file_patch \<Rightarrow> string list" where
  "render_file fp =
     [git_line fp]
     @ flag_lines (is_new_file fp) ''new file mode 100644''
     @ flag_lines (is_deleted_file fp) ''deleted file mode 100644''
     @ mode_lines ''old mode '' (old_mode fp) @ mode_lines ''new mode '' (new_mode fp)
     @ [path_line ''--- '' ''a/'' (old_path fp), path_line ''+++ '' ''b/'' (new_path fp)]
     @ flag_lines (fp_is_binary fp) (binary_line fp)
     @ concat (map render_hunk (hunks fp))"

definition render_diff :: "file_patch list \<Rightarrow> string" where
  "render_diff fps = join_lines (concat (map render_file fps)) @ [nl]"

subsection \<open>What the format can carry\<close>

text \<open>A line must not hold a line feed, nor end in a carriage return.\<close>

definition clean_text :: "string \<Rightarrow> bool" where
  "clean_text s = (nl \<notin> set s \<and> (s \<noteq> [] \<longrightarrow> last s \<noteq> cr))"

fun line_text :: "patch_line \<Rightarrow> string" where
  "line_text (Context l) = l"
| "line_text (Add l) = l"
| "line_text (Remove l) = l"

text \<open>
  A removed line that begins with \<open>-- \<close> before an added line that begins with \<open>++ \<close> prints like the
  header of a file.
\<close>

fun header_within :: "string list \<Rightarrow> bool" where
  "header_within [] = False"
| "header_within (l # ls) = (file_boundary (l # ls) \<or> header_within ls)"

definition carried_hunk :: "patch_hunk \<Rightarrow> bool" where
  "carried_hunk h =
     (hunk_lines h \<noteq> [] \<and> list_all (\<lambda>l. clean_text (line_text l)) (hunk_lines h)
      \<and> \<not> header_within (map render_line (hunk_lines h))
      \<and> old_count h = length (filter is_context_or_remove (hunk_lines h))
      \<and> new_count h = length (filter is_context_or_add (hunk_lines h))
      \<and> old_start h < usize_bound \<and> old_count h < usize_bound
      \<and> new_start h < usize_bound \<and> new_count h < usize_bound)"

definition carried_path :: "string \<Rightarrow> string option \<Rightarrow> bool" where
  "carried_path side p = (case p of None \<Rightarrow> True | Some t \<Rightarrow> clean_text t \<and> tab \<notin> set t \<and> \<not> prefix side t)"

text \<open>The flags that the parser works out from the paths, the modes and the last hunk.\<close>

definition consistent_flags :: "file_patch \<Rightarrow> bool" where
  "consistent_flags fp =
     ((old_path fp = None \<and> new_path fp \<noteq> None \<longrightarrow> is_new_file fp)
      \<and> (new_path fp = None \<and> old_path fp \<noteq> None \<longrightarrow> is_deleted_file fp)
      \<and> fp_adds_exec_bit fp = mode_adds_exec (old_mode fp) (new_mode fp)
      \<and> no_trailing_newline fp = (hunks fp \<noteq> [] \<and> hunk_no_trailing_newline (last (hunks fp))))"

definition no_marks :: "string \<Rightarrow> bool" where
  "no_marks l = (\<not> contains l ''new file mode'' \<and> \<not> contains l ''deleted file mode'')"

definition carried_file :: "file_patch \<Rightarrow> bool" where
  "carried_file fp =
     (carried_path ''a/'' (old_path fp) \<and> carried_path ''b/'' (new_path fp)
      \<and> no_marks (git_line fp) \<and> no_marks (binary_line fp)
      \<and> (hunks fp \<noteq> [] \<or> fp_is_binary fp) \<and> list_all carried_hunk (hunks fp)
      \<and> (\<forall>m \<in> set_option (old_mode fp) \<union> set_option (new_mode fp). m < 2 ^ 32)
      \<and> consistent_flags fp)"

subsection \<open>Tokens of a hunk header\<close>

lemma seq_len_space: "seq_len ws_seqs (CHR '' '' # s) = 1"
  by (simp add: seq_len_def ws_seqs_def)

lemma split_ws_token:
  "\<forall>c \<in> set w. token_char c \<Longrightarrow> split_ws cur (w @ s) = split_ws (cur @ w) s"
proof (induction w arbitrary: cur)
  case Nil
  then show ?case by simp
next
  case (Cons c w)
  then have "split_ws cur (c # w @ s) = split_ws (cur @ [c]) (w @ s)"
    using split_ws.simps [of cur "c # w @ s"] by (simp add: seq_len_token)
  with Cons show ?case by simp
qed

lemma split_ws_space: "cur \<noteq> [] \<Longrightarrow> split_ws cur (CHR '' '' # s) = cur # split_ws [] s"
  using split_ws.simps [of cur "CHR '' '' # s"] by (simp add: seq_len_space)

lemma split_ws_Nil [simp]: "split_ws [] [] = []"
  using split_ws.simps [of "[]" "[]"] by simp

lemma token_digits: "c \<in> set (show_nat n) \<Longrightarrow> token_char c"
  using digit_facts by blast

lemma token_marks: "token_char (CHR ''@'')" "token_char (CHR ''-'')" "token_char (CHR ''+'')"
    "token_char (CHR '','')"
  by (simp_all add: token_char_def ws_seqs_def)

lemma comma_digits: "CHR '','' \<notin> set (show_nat n)"
proof
  assume "CHR '','' \<in> set (show_nat n)"
  then obtain d where "d < 10" and "CHR '','' = digit_char d"
    using show_nat_digits by blast
  moreover from \<open>d < 10\<close> have "d \<in> {0, 1, 2, 3, 4, 5, 6, 7, 8, 9}" by auto
  ultimately show False by (auto simp: digit_char_def)
qed

lemma digit_code: "d < 10 \<Longrightarrow> (of_char (digit_char d) :: nat) < 0x80"
proof -
  assume "d < 10"
  then have "d \<in> {0, 1, 2, 3, 4, 5, 6, 7, 8, 9}" by auto
  then show ?thesis by (auto simp: digit_char_def)
qed

lemma slice_show: "slice_from_1 (c # show_nat n @ r) = Inr (show_nat n @ r)"
proof -
  obtain d ds where s: "show_nat n = d # ds" by (cases "show_nat n") auto
  then obtain k where "k < 10" and "d = digit_char k"
    using show_nat_digits [of d n] by auto
  with digit_code [of k] s show ?thesis by (simp add: slice_from_1_def)
qed

lemma parse_range_show:
  "a < usize_bound \<Longrightarrow> b < usize_bound \<Longrightarrow>
     parse_range (show_nat a @ CHR '','' # show_nat b) = Inr (a, b)"
  by (simp add: parse_range_def split_once_append comma_digits parse_show)

lemma rfind_header: "rfind_str ''@@'' (x @ ''@@'') = Some (length x)"
  by (induction x) simp_all

lemma parse_rendered_header:
  assumes "carried_hunk h"
  shows "parse_hunk_header (render_hunk_header h) i
    = Inr ((old_start h, old_count h), (new_start h, new_count h))"
proof -
  let ?o = "CHR ''-'' # show_nat (old_start h) @ CHR '','' # show_nat (old_count h)"
  let ?n = "CHR ''+'' # show_nat (new_start h) @ CHR '','' # show_nat (new_count h)"
  have header: "render_hunk_header h = (''@@ '' @ ?o @ '' '' @ ?n @ '' '') @ ''@@''"
    by (simp add: render_hunk_header_def)
  have toks: "\<forall>c \<in> set ?o. token_char c" "\<forall>c \<in> set ?n. token_char c"
    using token_digits token_marks by auto
  have "split_whitespace (''@@ '' @ ?o @ '' '' @ ?n @ '' '')
      = split_ws [] (''@@'' @ '' '' @ ?o @ '' '' @ ?n @ '' '')"
    by (simp add: split_whitespace_def)
  also have "\<dots> = ''@@'' # split_ws [] (?o @ '' '' @ ?n @ '' '')"
    by (subst split_ws_token) (simp_all add: token_marks split_ws_space)
  also have "split_ws [] (?o @ '' '' @ ?n @ '' '') = ?o # split_ws [] (?n @ '' '')"
    by (subst split_ws_token [OF toks(1)]) (simp add: split_ws_space)
  also have "split_ws [] (?n @ '' '') = [?n]"
    by (subst split_ws_token [OF toks(2)]) (simp add: split_ws_space)
  finally have parts: "split_whitespace (''@@ '' @ ?o @ '' '' @ ?n @ '' '') = [''@@'', ?o, ?n]" .
  have content: "rfind_str ''@@'' (render_hunk_header h)
      = Some (length (''@@ '' @ ?o @ '' '' @ ?n @ '' ''))"
    unfolding header by (rule rfind_header)
  have take: "take (length (''@@ '' @ ?o @ '' '' @ ?n @ '' '')) (render_hunk_header h)
      = ''@@ '' @ ?o @ '' '' @ ?n @ '' ''"
    unfolding header by (rule append_eq_conv_conj [THEN iffD1, THEN conjunct1, symmetric], rule refl)
  show ?thesis
    unfolding parse_hunk_header_def content option.case take parts Let_def
    using assms by (simp add: slice_show parse_range_show carried_hunk_def)
qed

subsection \<open>Hunks\<close>

text \<open>What may follow a hunk: the end, another hunk or another file.\<close>

definition hunk_end :: "string list \<Rightarrow> bool" where
  "hunk_end rest =
     (rest = [] \<or> starts_with (hd rest) ''@@'' \<or> starts_with (hd rest) ''diff --git'')"

lemma render_line_marks:
  "\<not> starts_with (render_line pl) ''@@''" "\<not> starts_with (render_line pl) ''diff --git''"
  by (cases pl; simp add: starts_with_def)+

lemma file_boundary_append:
  "\<not> file_boundary (l # ls) \<Longrightarrow> ls \<noteq> [] \<or> rest = [] \<or> \<not> starts_with (hd rest) ''+++ '' \<Longrightarrow> \<not> file_boundary (l # ls @ rest)"
  by (cases ls; cases rest) auto

lemma after_lines: "hunk_end rest \<Longrightarrow> mark_lines b @ rest = [] \<or> \<not> starts_with (hd (mark_lines b @ rest)) ''+++ ''"
  by (cases rest) (auto simp: hunk_end_def mark_lines_def starts_with_def prefix_def)

lemma collect_rendered:
  "\<not> header_within (map render_line ps) \<Longrightarrow> hunk_end rest \<Longrightarrow>
     \<exists>j. collect_hunk_lines i (map render_line ps @ mark_lines b @ rest) acc nonl = (acc @ ps, nonl \<or> b, j, rest)"
proof (induction ps arbitrary: i acc)
  case Nil
  have stop: "\<exists>j. collect_hunk_lines i rest acc c = (acc, c, j, rest)" for i c
    using Nil.prems(2) by (cases rest) (auto simp: hunk_end_def)
  show ?case
  proof (cases b)
    case True
    have "\<not> file_boundary ((CHR 0x5C # '' No newline at end of file'') # rest)"
      by (cases rest) (simp_all add: starts_with_def)
    then have "collect_hunk_lines i (mark_lines True @ rest) acc nonl = collect_hunk_lines (Suc i) rest acc True"
      by (simp add: mark_lines_def starts_with_def del: file_boundary.simps)
    with True stop [of "Suc i" True] show ?thesis by simp
  qed (use stop in \<open>simp add: mark_lines_def\<close>)
next
  case (Cons pl ps)
  have nb: "\<not> file_boundary (render_line pl # map render_line ps @ mark_lines b @ rest)"
    using Cons.prems after_lines by (intro file_boundary_append) auto
  have step: "collect_hunk_lines i (render_line pl # map render_line ps @ mark_lines b @ rest) acc nonl
      = collect_hunk_lines (Suc i) (map render_line ps @ mark_lines b @ rest) (acc @ [pl]) nonl"
    using nb render_line_marks [of pl]
    by (cases pl) (simp_all del: file_boundary.simps)
  show ?case
    using Cons.IH [of "Suc i" "acc @ [pl]"] Cons.prems step by simp
qed

lemma render_header_hunk: "starts_with (render_hunk_header h) ''@@''"
  by (simp add: starts_with_def render_hunk_header_def)

lemma parse_rendered_hunk:
  assumes "carried_hunk h" and "hunk_end rest"
  shows "\<exists>j. parse_hunk i (render_hunk h @ rest) = Inr (h, j, rest)"
proof -
  obtain j where "collect_hunk_lines (Suc i) (map render_line (hunk_lines h)
        @ mark_lines (hunk_no_trailing_newline h) @ rest) [] False
      = (hunk_lines h, hunk_no_trailing_newline h, j, rest)"
    using collect_rendered [of "hunk_lines h" rest "Suc i" "hunk_no_trailing_newline h" "[]" False] assms
    by (auto simp: carried_hunk_def)
  then show ?thesis
    using assms(1) parse_rendered_header [OF assms(1), of i]
    by (simp add: render_hunk_def carried_hunk_def)
qed

lemma hunk_end_hunks:
  "hunk_end rest \<Longrightarrow> hunk_end (concat (map render_hunk hs) @ rest)"
  by (cases hs) (auto simp: hunk_end_def render_hunk_def render_header_hunk)

definition file_end :: "string list \<Rightarrow> bool" where
  "file_end rest = (rest = [] \<or> starts_with (hd rest) ''diff --git '')"

lemma file_end_hunk: "file_end rest \<Longrightarrow> hunk_end rest"
  by (auto simp: file_end_def hunk_end_def starts_with_def prefix_def)

lemma file_end_no_hunk: "file_end rest \<Longrightarrow> rest = [] \<or> \<not> starts_with (hd rest) ''@@''"
  using marker_not_hunk(1) by (auto simp: file_end_def)

lemma parse_rendered_hunks:
  "list_all carried_hunk hs \<Longrightarrow> file_end rest \<Longrightarrow>
     \<exists>j. parse_hunks i (concat (map render_hunk hs) @ rest) acc = Inr (acc @ hs, j, rest)"
proof (induction hs arbitrary: i acc)
  case Nil
  then show ?case
    by (subst parse_hunks.simps) (auto dest: file_end_no_hunk)
next
  case (Cons h hs)
  let ?more = "concat (map render_hunk hs) @ rest"
  obtain k where ph: "parse_hunk i (render_hunk h @ ?more) = Inr (h, k, ?more)"
    using Cons.prems parse_rendered_hunk [of h ?more i]
    by (auto intro: hunk_end_hunks file_end_hunk)
  obtain j where "parse_hunks k ?more (acc @ [h]) = Inr ((acc @ [h]) @ hs, j, rest)"
    using Cons.IH [of k "acc @ [h]"] Cons.prems by auto
  then have "parse_hunks i (render_hunk h @ ?more) acc = Inr (acc @ h # hs, j, rest)"
    using ph render_header_hunk [of h]
    by (subst parse_hunks.simps) (simp add: render_hunk_def del: parse_hunk.simps)
  then show ?case by auto
qed

subsection \<open>Files\<close>

lemma trim_once: "t \<noteq> [] \<Longrightarrow> \<not> prefix t p \<Longrightarrow> trim_start_matches (t @ p) t = p"
  using trim_start_matches.simps [of "t @ p" t] trim_start_matches.simps [of p t] by simp

lemma octal_digit: "d < 8 \<Longrightarrow> digit_val 8 (digit_char d) = Some d"
proof -
  assume "d < 8"
  then have "d \<in> {0, 1, 2, 3, 4, 5, 6, 7}" by auto
  then show ?thesis by (auto simp: digit_char_def digit_val_def Let_def)
qed

lemma octal_digits: "digits_val 8 a (show_octal n) = Some (a * 8 ^ length (show_octal n) + n)"
proof (induction n arbitrary: a rule: show_octal.induct)
  case (1 n)
  show ?case
  proof (cases "n < 8")
    case True
    then show ?thesis by (simp add: show_octal.simps [of n] octal_digit)
  next
    case False
    with 1 show ?thesis
      by (simp add: show_octal.simps [of n] digits_val_append octal_digit algebra_simps)
  qed
qed

lemma octal_chars: "c \<in> set (show_octal n) \<Longrightarrow> \<exists>d < 10. c = digit_char d"
proof (induction n rule: show_octal.induct)
  case (1 n)
  have "\<exists>d < 10. digit_char (n mod 8) = digit_char d"
    by (intro exI [of _ "n mod 8"]) (simp add: less_trans [OF mod_less_divisor])
  with 1 show ?case
    by (cases "n < 8") (auto simp: show_octal.simps [of n] intro: exI [of _ n])
qed

lemma octal_nonempty [simp]: "show_octal n \<noteq> []"
  by (simp add: show_octal.simps [of n])

lemma octal_token: "c \<in> set (show_octal n) \<Longrightarrow> token_char c"
proof -
  assume "c \<in> set (show_octal n)"
  then obtain d where "d < 10" and "c = digit_char d" using octal_chars by blast
  then have "c \<in> set (show_nat d)" by (simp add: show_nat.simps [of d])
  then show ?thesis by (rule token_digits)
qed

lemma parse_mode_octal: "m < 2 ^ 32 \<Longrightarrow> parse_mode (trim (show_octal m)) i = Inr (Some m)"
proof -
  assume m: "m < 2 ^ 32"
  obtain c cs where s: "show_octal m = c # cs"
    by (cases "show_octal m") auto
  then have "c \<noteq> CHR ''+''"
    using octal_chars [of c m] digit_char_plus by auto
  moreover have "trim (show_octal m) = show_octal m"
    using octal_token [OF hd_in_set, of m] octal_token [OF last_in_set, of m] by (intro trim_token) simp_all
  ultimately show ?thesis
    using s m octal_digits [of 0 m] by (simp add: parse_mode_def parse_uint_def)
qed

text \<open>One line of the header after the other.\<close>

lemma header_git:
  "no_marks (git_line fp) \<Longrightarrow> parse_header i (git_line fp # ls) h = parse_header (Suc i) ls h"
  by (simp add: git_line_def no_marks_def strip_prefix_def starts_with_def)

lemma header_new_flag:
  "\<exists>j. parse_header i (flag_lines b ''new file mode 100644'' @ ls) h = parse_header j ls (h\<lparr>h_is_new := b \<or> h_is_new h\<rparr>)"
  by (cases b) (auto simp: flag_lines_def strip_prefix_def starts_with_def contains_def)

lemma header_deleted_flag:
  "\<exists>j. parse_header i (flag_lines b ''deleted file mode 100644'' @ ls) h
    = parse_header j ls (h\<lparr>h_is_deleted := b \<or> h_is_deleted h\<rparr>)"
  by (cases b) (auto simp: flag_lines_def strip_prefix_def starts_with_def contains_def sublist_Cons_right)

lemma header_old_mode:
  "\<forall>m \<in> set_option om. m < 2 ^ 32 \<Longrightarrow> h_old_mode h = None
    \<Longrightarrow> \<exists>j. parse_header i (mode_lines ''old mode '' om @ ls) h = parse_header j ls (h\<lparr>h_old_mode := om\<rparr>)"
  using parse_mode_octal
  by (cases om; cases h) (auto simp: mode_lines_def strip_prefix_def starts_with_def intro!: exI)

lemma header_new_mode:
  "\<forall>m \<in> set_option nm. m < 2 ^ 32 \<Longrightarrow> h_new_mode h = None
    \<Longrightarrow> \<exists>j. parse_header i (mode_lines ''new mode '' nm @ ls) h = parse_header j ls (h\<lparr>h_new_mode := nm\<rparr>)"
  using parse_mode_octal
  by (cases nm; cases h) (auto simp: mode_lines_def strip_prefix_def starts_with_def intro!: exI)

lemma header_path_shown:
  assumes "carried_path side p" and "length start = 4" and "side \<in> {''a/'', ''b/''}"
  shows "header_path (path_line start side p) side None = p"
proof (cases p)
  case None
  then show ?thesis using assms(2) by (simp add: header_path_def path_line_def split_char_single)
next
  case (Some t)
  then show ?thesis
    using assms trim_once [of side t]
    by (auto simp: header_path_def path_line_def carried_path_def split_char_single)
qed

lemma header_paths:
  assumes "carried_path ''a/'' p" and "carried_path ''b/'' q" and "h_old_path h = None" and "h_new_path h = None"
  shows "\<exists>j. parse_header i ([path_line ''--- '' ''a/'' p, path_line ''+++ '' ''b/'' q] @ ls) h
    = parse_header j ls (h\<lparr>h_old_path := p, h_new_path := q\<rparr>)"
proof -
  have "starts_with (path_line ''--- '' ''a/'' p) ''--- ''" "starts_with (path_line ''+++ '' ''b/'' q) ''+++ ''"
    "\<not> starts_with (path_line ''+++ '' ''b/'' q) ''--- ''"
    "\<not> starts_with (path_line ''--- '' ''a/'' p) ''@@''" "\<not> starts_with (path_line ''+++ '' ''b/'' q) ''@@''"
    "strip_prefix (path_line ''--- '' ''a/'' p) ''old mode '' = None"
    "strip_prefix (path_line ''--- '' ''a/'' p) ''new mode '' = None"
    "strip_prefix (path_line ''+++ '' ''b/'' q) ''old mode '' = None"
    "strip_prefix (path_line ''+++ '' ''b/'' q) ''new mode '' = None"
    by (simp_all add: path_line_def starts_with_def strip_prefix_def)
  then show ?thesis
    using header_path_shown [OF assms(1), of "''--- ''"] header_path_shown [OF assms(2), of "''+++ ''"] assms(3,4)
    by auto
qed

lemma header_end:
  assumes "no_marks (binary_line fp)" and "fp_is_binary fp \<or> ls \<noteq> [] \<and> starts_with (hd ls) ''@@''"
    and "\<not> h_is_binary h"
  shows "\<exists>j. parse_header i (flag_lines (fp_is_binary fp) (binary_line fp) @ ls) h
    = Inr (h\<lparr>h_is_binary := fp_is_binary fp\<rparr>, j, ls)"
proof (cases "fp_is_binary fp")
  case True
  then show ?thesis
    using assms(1) by (simp add: flag_lines_def binary_line_def no_marks_def strip_prefix_def starts_with_def)
next
  case False
  with assms(2,3) show ?thesis by (cases ls) (auto simp: flag_lines_def)
qed

lemma parse_rendered_file:
  assumes "carried_file fp" and "file_end rest"
  shows "\<exists>j. parse_file_patch i (render_file fp @ rest) = Inr (fp, j, rest)"
proof -
  let ?body = "concat (map render_hunk (hunks fp)) @ rest"
  have paths: "carried_path ''a/'' (old_path fp)" "carried_path ''b/'' (new_path fp)"
    and marks: "no_marks (git_line fp)" "no_marks (binary_line fp)"
    and hs: "hunks fp \<noteq> [] \<or> fp_is_binary fp" "list_all carried_hunk (hunks fp)"
    and modes: "\<forall>m \<in> set_option (old_mode fp). m < 2 ^ 32" "\<forall>m \<in> set_option (new_mode fp). m < 2 ^ 32"
    and flags: "consistent_flags fp"
    using assms(1) by (simp_all add: carried_file_def)
  have body: "fp_is_binary fp \<or> ?body \<noteq> [] \<and> starts_with (hd ?body) ''@@''"
    using hs(1) by (cases "hunks fp") (simp_all add: render_hunk_def render_header_hunk)
  let ?h1 = "empty_header\<lparr>h_is_new := is_new_file fp\<rparr>"
  let ?h2 = "?h1\<lparr>h_is_deleted := is_deleted_file fp\<rparr>"
  let ?h3 = "?h2\<lparr>h_old_mode := old_mode fp\<rparr>"
  let ?h4 = "?h3\<lparr>h_new_mode := new_mode fp\<rparr>"
  let ?h5 = "?h4\<lparr>h_old_path := old_path fp, h_new_path := new_path fp\<rparr>"
  let ?h = "?h5\<lparr>h_is_binary := fp_is_binary fp\<rparr>"
  let ?t5 = "flag_lines (fp_is_binary fp) (binary_line fp) @ ?body"
  let ?t4 = "[path_line ''--- '' ''a/'' (old_path fp), path_line ''+++ '' ''b/'' (new_path fp)] @ ?t5"
  let ?t3 = "mode_lines ''new mode '' (new_mode fp) @ ?t4"
  let ?t2 = "mode_lines ''old mode '' (old_mode fp) @ ?t3"
  let ?t1 = "flag_lines (is_deleted_file fp) ''deleted file mode 100644'' @ ?t2"
  obtain j1 where 1: "parse_header (Suc i) (flag_lines (is_new_file fp) ''new file mode 100644'' @ ?t1) empty_header
      = parse_header j1 ?t1 ?h1"
    using header_new_flag [of "Suc i" "is_new_file fp" ?t1 empty_header] by (auto simp: empty_header_def)
  obtain j2 where 2: "parse_header j1 ?t1 ?h1 = parse_header j2 ?t2 ?h2"
    using header_deleted_flag [of j1 "is_deleted_file fp" ?t2 ?h1] by (auto simp: empty_header_def)
  obtain j3 where 3: "parse_header j2 ?t2 ?h2 = parse_header j3 ?t3 ?h3"
    using header_old_mode [OF modes(1), of ?h2 j2 ?t3] by (auto simp: empty_header_def)
  obtain j4 where 4: "parse_header j3 ?t3 ?h3 = parse_header j4 ?t4 ?h4"
    using header_new_mode [OF modes(2), of ?h3 j3 ?t4] by (auto simp: empty_header_def)
  obtain j5 where 5: "parse_header j4 ?t4 ?h4 = parse_header j5 ?t5 ?h5"
    using header_paths [OF paths, of ?h4 j4 ?t5] by (auto simp: empty_header_def)
  obtain k where 6: "parse_header j5 ?t5 ?h5 = Inr (?h, k, ?body)"
    using header_end [OF marks(2) body, of ?h5 j5] by (auto simp: empty_header_def)
  have "render_file fp @ rest = git_line fp # flag_lines (is_new_file fp) ''new file mode 100644'' @ ?t1"
    by (simp add: render_file_def)
  then have head: "parse_header i (render_file fp @ rest) empty_header = Inr (?h, k, ?body)"
    using header_git [OF marks(1)] 1 2 3 4 5 6 by (simp del: parse_header.simps)
  obtain j where "parse_hunks k ?body [] = Inr (hunks fp, j, rest)"
    using parse_rendered_hunks [OF hs(2) assms(2), of k "[]"] by auto
  moreover have "build_file_patch ?h (hunks fp) = fp"
    using flags by (cases fp) (auto simp: build_file_patch_def empty_header_def consistent_flags_def)
  ultimately show ?thesis
    using head by (simp add: parse_file_patch_def del: parse_header.simps)
qed

lemma render_file_start: "render_file fp \<noteq> []" "starts_with (hd (render_file fp)) ''diff --git ''"
  by (simp_all add: render_file_def git_line_def starts_with_def)

lemma file_end_files: "file_end (concat (map render_file fps))"
  using render_file_start by (cases fps) (simp_all add: file_end_def)

lemma parse_rendered_files:
  "list_all carried_file fps \<Longrightarrow>
     parse_git_files i (concat (map render_file fps)) acc = Inr (acc @ fps)"
proof (induction fps arbitrary: i acc)
  case Nil
  then show ?case by simp
next
  case (Cons fp fps)
  let ?rest = "concat (map render_file fps)"
  obtain j where pf: "parse_file_patch i (render_file fp @ ?rest) = Inr (fp, j, ?rest)"
    using parse_rendered_file [OF _ file_end_files, of fp i fps] Cons.prems by auto
  obtain l ls where l: "render_file fp = l # ls" "starts_with l ''diff --git ''"
    using render_file_start [of fp] by (cases "render_file fp") auto
  with pf have "parse_git_files i (render_file fp @ ?rest) acc
      = parse_git_files j ?rest (acc @ [fp])"
    by simp
  with Cons show ?case by simp
qed

subsection \<open>Lines\<close>

lemma clean_show: "c \<in> set (show_nat n) \<Longrightarrow> c \<noteq> nl \<and> c \<noteq> cr"
  using token_digits [of c n] by (auto simp: token_char_def ws_seqs_def)

lemma clean_append [simp]: "clean_text s \<Longrightarrow> clean_text t \<Longrightarrow> clean_text (s @ t)"
  by (auto simp: clean_text_def last_append)

lemma clean_Cons [simp]: "c \<noteq> nl \<Longrightarrow> c \<noteq> cr \<Longrightarrow> clean_text s \<Longrightarrow> clean_text (c # s)"
  by (auto simp: clean_text_def)

lemma clean_Nil [simp]: "clean_text []"
  by (simp add: clean_text_def)

lemma clean_plain: "(\<And>c. c \<in> set s \<Longrightarrow> c \<noteq> nl \<and> c \<noteq> cr) \<Longrightarrow> clean_text s"
  by (auto simp: clean_text_def dest: last_in_set)

lemma clean_number [simp]: "clean_text (show_nat n)"
  using clean_show by (rule clean_plain)

lemma clean_octal [simp]: "clean_text (show_octal n)"
  using octal_token by (intro clean_plain) (auto simp: token_char_def ws_seqs_def)

lemma clean_mark: "l \<in> set (mark_lines b) \<Longrightarrow> clean_text l"
  by (auto simp: mark_lines_def split: if_splits)

lemma clean_hunk: "carried_hunk h \<Longrightarrow> l \<in> set (render_hunk h) \<Longrightarrow> clean_text l"
proof -
  have "clean_text (render_line pl)" if "clean_text (line_text pl)" for pl
    using that by (cases pl) simp_all
  then show "carried_hunk h \<Longrightarrow> l \<in> set (render_hunk h) \<Longrightarrow> ?thesis"
    by (auto simp: render_hunk_def render_hunk_header_def carried_hunk_def list_all_iff clean_mark)
qed

lemma clean_name:
  "carried_path sp p \<Longrightarrow> carried_path sq q \<Longrightarrow> clean_text (shown_name p q)"
  by (auto simp: carried_path_def shown_name_def split: option.splits)

lemma clean_file: "carried_file fp \<Longrightarrow> l \<in> set (render_file fp) \<Longrightarrow> clean_text l"
proof -
  assume fp: "carried_file fp" and l: "l \<in> set (render_file fp)"
  have path: "clean_text (path_line start side p)" if "carried_path side p" "clean_text start" "clean_text side"
    for start side p
    using that by (auto simp: carried_path_def path_line_def split: option.splits)
  have flag: "l \<in> set (flag_lines b t) \<Longrightarrow> clean_text t \<Longrightarrow> clean_text l" for b t
    by (auto simp: flag_lines_def split: if_splits)
  have mode: "l \<in> set (mode_lines t m) \<Longrightarrow> clean_text t \<Longrightarrow> clean_text l" for t m
    by (auto simp: mode_lines_def split: option.splits)
  have names: "clean_text (shown_name (old_path fp) (new_path fp))" "clean_text (shown_name (new_path fp) (old_path fp))"
    using fp clean_name by (auto simp: carried_file_def)
  have git: "clean_text (git_line fp)" "clean_text (binary_line fp)"
    using names by (simp_all add: git_line_def binary_line_def)
  have hunk: "clean_text l" if "h \<in> set (hunks fp)" "l \<in> set (render_hunk h)" for h
    using that fp clean_hunk by (auto simp: carried_file_def list_all_iff)
  show ?thesis
    using l fp git path hunk
    by (auto simp: render_file_def carried_file_def dest!: flag mode)
qed

lemma str_lines_clean:
  assumes "\<forall>l \<in> set ls. clean_text l" and "ls \<noteq> []"
  shows "str_lines (join_lines ls @ [nl]) = ls"
proof -
  have strip: "strip_cr l = l" if "clean_text l" for l
    using that by (auto simp: strip_cr_def clean_text_def)
  show ?thesis
    using assms
  proof (induction ls rule: join_lines.induct)
    case (2 l)
    then show ?case
      using str_lines_line [of l "[]"] strip by (simp add: clean_text_def)
  next
    case (3 l l' ls)
    then show ?case using strip by (simp add: str_lines_line clean_text_def)
  qed simp
qed

lemma str_lines_render:
  assumes "list_all carried_file fps" and "fps \<noteq> []"
  shows "str_lines (render_diff fps) = concat (map render_file fps)"
proof -
  have "\<forall>l \<in> set (concat (map render_file fps)). clean_text l"
    using assms(1) clean_file by (fastforce simp: list_all_iff)
  moreover have "concat (map render_file fps) \<noteq> []"
    using assms(2) render_file_start by (cases fps) auto
  ultimately show ?thesis
    unfolding render_diff_def by (rule str_lines_clean)
qed

subsection \<open>The round trip\<close>

text \<open>
  C3: Parsing a printed diff gives back the file patches it was printed from: no line of a hunk,
  no path, range, mode or mark of a new, deleted or binary file is lost or moved, whatever the
  number of files and hunks. The patches are those the format can carry: every file has a hunk or
  is binary, every hunk a line and the counts of its lines, lines and paths have no line feed and no
  carriage return at their end, paths no tab and no second side prefix, numbers fit, the flags are
  those of the paths, modes and last hunk, no two lines of a hunk look like the header of a file,
  and no name holds the words of a new or deleted file.
\<close>

theorem from_diff_render:
  assumes "list_all carried_file fps" and "fps \<noteq> []"
  shows "from_diff (render_diff fps) = Inr fps"
  using parse_rendered_files [OF assms(1), of 0 "[]"] assms(2)
  by (simp add: from_diff_def str_lines_render [OF assms])

definition sample_patch :: file_patch where
  "sample_patch =
     \<lparr>old_path = Some ''src/a.rs'', new_path = Some ''src/a.rs'',
      hunks = [\<lparr>old_start = 3, old_count = 2, new_start = 3, new_count = 2,
                hunk_lines = [Context ''fn f() {'', Remove '' 1'', Add '' 2''],
                hunk_no_trailing_newline = False\<rparr>],
      is_new_file = False, is_deleted_file = False, old_mode = None, new_mode = None,
      fp_adds_exec_bit = False, fp_is_binary = False, no_trailing_newline = False\<rparr>"

lemma sample_carried: "carried_file sample_patch"
  by code_simp

definition sample_new :: file_patch where
  "sample_new =
     \<lparr>old_path = None, new_path = Some ''run me.sh'',
      hunks = [\<lparr>old_start = 0, old_count = 0, new_start = 1, new_count = 1,
                hunk_lines = [Add ''-- x''], hunk_no_trailing_newline = True\<rparr>],
      is_new_file = True, is_deleted_file = False, old_mode = None, new_mode = Some 33261,
      fp_adds_exec_bit = True, fp_is_binary = False, no_trailing_newline = True\<rparr>"

definition sample_binary :: file_patch where
  "sample_binary =
     \<lparr>old_path = Some ''logo.png'', new_path = None, hunks = [],
      is_new_file = False, is_deleted_file = True, old_mode = None, new_mode = None,
      fp_adds_exec_bit = False, fp_is_binary = True, no_trailing_newline = False\<rparr>"

lemma samples_carried: "list_all carried_file [sample_patch, sample_new, sample_binary]"
  by code_simp

lemma from_diff_render_witness:
  "from_diff (render_diff [sample_patch, sample_new, sample_binary]) = Inr [sample_patch, sample_new, sample_binary]"
  by (rule from_diff_render [OF samples_carried]) simp

end
