(* ===== verification/Patch_Safety.thy ===== *)
theory Patch_Safety
  imports Patch_Roundtrip
begin

text \<open>
  What a whole run of the patch engine may touch: the work tree and nothing else, nothing in a
  dry run, and exactly one file for a modified file. Then the inputs at which it does more or
  less than that.
\<close>

subsection \<open>Confinement\<close>

lemma link_free_nodes:
  "list_all (\<lambda>(l, n). \<not> prefix root l \<or> (case n of Link _ \<Rightarrow> False | _ \<Rightarrow> True)) (nodes fs)
     \<Longrightarrow> link_free fs root"
  by (auto simp: link_free_def node_at_def list_all_iff dest!: map_of_SomeD)

lemma work_tree_nodes:
  assumes "list_all (\<lambda>(l, n). \<not> prefix root l \<or> (case n of Link _ \<Rightarrow> False | _ \<Rightarrow> True)) (nodes fs)"
    and "list_all (\<lambda>p. node_at fs p = Some Dir) (prefixes root)"
  shows "work_tree fs root"
  using link_free_nodes [OF assms(1)] assms(2) by (simp add: work_tree_def list_all_iff in_set_prefixes)

text \<open>
  A patch never writes outside the work tree: in a work tree without symbolic links,
  whatever the text of the patch, applying it leaves every location outside the directory as it
  was, also when it fails half way. Every path of the diff has to name something (an empty path
  is accepted by the checks).
\<close>

theorem patch_stays_in_work_tree:
  assumes "works_in p root" and "work_tree fs root"
    and "\<forall>files. from_diff t = Inr files \<longrightarrow>
      (\<forall>fp \<in> set files. \<forall>q \<in> set (patch_paths fp). names_file q)"
  shows "only_below root fs (snd (apply_patch p t fs))"
proof -
  have "file_paths_ok fp" if "from_diff t = Inr files" "validate_security p fs files = Inr ()"
    "fp \<in> set files" for files fp
    using that assms(3) validate_security_ok by (fastforce simp: file_paths_ok_def)
  then show ?thesis
    using apply_files_confined [OF assms(1,2)]
    by (auto simp: apply_patch_def confined_def split: sum.splits)
qed

definition sample_tree :: file_system where
  "sample_tree =
     \<lparr>nodes = [([''w''], Dir), ([''w'', ''src''], Dir),
               ([''w'', ''src'', ''a.rs''],
                File (join_lines [''use x;'', '''', ''fn f() {'', '' 1'', ''}''] @ [nl])),
               ([''etc''], Dir), ([''etc'', ''passwd''], File ''root'')],
      cwd = []\<rparr>"

definition sample_patcher :: atomic_patcher where
  "sample_patcher = \<lparr>working_dir = ''/w'', dry_run = False\<rparr>"

lemma sample_works_in: "works_in sample_patcher [''w'']"
  unfolding works_in_def by code_simp

lemma sample_work_tree: "work_tree sample_tree [''w'']"
  by (rule work_tree_nodes) (simp_all add: sample_tree_def node_at_def)

lemma sample_diff: "from_diff (render_diff [sample_patch]) = Inr [sample_patch]"
  by code_simp

lemma sample_names: "list_all names_file (patch_paths sample_patch)"
  unfolding names_file_def by code_simp

theorem patch_stays_in_work_tree_witness:
  "only_below [''w''] sample_tree
     (snd (apply_patch sample_patcher (render_diff [sample_patch]) sample_tree))"
  by (rule patch_stays_in_work_tree [OF sample_works_in sample_work_tree])
    (use sample_diff sample_names in \<open>auto simp: list_all_iff\<close>)

subsection \<open>Dry runs\<close>

lemma write_unless_dry_dry: "dry_run p \<Longrightarrow> write_unless_dry p full c r fs = (Inr r, fs)"
  by (simp add: write_unless_dry_def)

lemma apply_file_patch_dry:
  assumes "dry_run p"
  shows "snd (apply_file_patch p fp st fs) = fs"
  using assms
  by (auto simp: apply_file_patch_def delete_file_def create_file_def modify_file_def make_parent_def
      write_unless_dry_dry Let_def split: option.splits sum.splits prod.splits)

lemma apply_files_dry: "dry_run p \<Longrightarrow> snd (apply_files p fps st fs) = fs"
proof (induction fps arbitrary: st fs)
  case Nil
  then show ?case by simp
next
  case (Cons fp fps)
  obtain r fs' where step: "apply_file_patch p fp st fs = (r, fs')"
    by (cases "apply_file_patch p fp st fs") auto
  then have "fs' = fs"
    using apply_file_patch_dry [OF Cons.prems, of fp st fs] by simp
  then show ?case
    using Cons step by (auto split: sum.splits)
qed

text \<open>A dry run changes nothing, whatever the patch, the directory and the result.\<close>

theorem dry_run_changes_nothing:
  assumes "dry_run p"
  shows "snd (apply_patch p t fs) = fs"
  using apply_files_dry [OF assms] by (auto simp: apply_patch_def split: sum.splits)

theorem dry_run_changes_nothing_witness:
  "snd (apply_patch (sample_patcher\<lparr>dry_run := True\<rparr>) (render_diff [sample_patch]) sample_tree)
     = sample_tree"
  by (rule dry_run_changes_nothing) (simp add: sample_patcher_def)

subsection \<open>Modified files\<close>

text \<open>The temporary file never has the name of the target.\<close>

lemma rfind_temp: "rfind_str ''.'' (s @ ''.devit.tmp'') = Some (length s + 6)"
  by (induction s) simp_all

lemma file_stem_temp: "f \<noteq> file_stem f @ ''.devit.tmp''"
proof -
  have "file_stem (t @ ''.devit.tmp'') \<noteq> t" for t
  proof -
    have "file_stem (t @ ''.devit.tmp'') = take (length t + 6) (t @ ''.devit.tmp'')"
      by (simp add: file_stem_def rfind_temp eval_nat_numeral)
    then have "length (file_stem (t @ ''.devit.tmp'')) = length t + 6"
      by simp
    then show ?thesis by auto
  qed
  then show ?thesis by metis
qed

definition temp_names :: "string list \<Rightarrow> string list" where
  "temp_names ns = butlast ns @ [file_stem (last ns) @ ''.devit.tmp'']"

lemma temp_names_differ: "ns \<noteq> [] \<Longrightarrow> temp_names ns \<noteq> ns"
  using file_stem_temp [of "last ns"] by (cases ns rule: rev_cases) (auto simp: temp_names_def)

lemma with_extension_temp:
  "ns \<noteq> [] \<Longrightarrow> with_extension (RootDir # map Normal root @ map Normal ns) ''devit.tmp''
     = RootDir # map Normal root @ map Normal (temp_names ns)"
  by (cases ns rule: rev_cases) (simp_all add: with_extension_def temp_names_def rev_map)

lemma locate_names:
  assumes "work_tree fs root"
    and "locate fs follow (RootDir # map Normal root @ map Normal ns) = Some loc"
  shows "loc = root @ ns"
  using locate_work_tree [OF assms(1) _ assms(2)] by simp

lemma write_file_atomically_result:
  assumes "work_tree fs root" and "ns \<noteq> []"
    and "write_file_atomically (RootDir # map Normal root @ map Normal ns) content fs = (Inr (), fs')"
  shows "node_at fs' (root @ ns) = Some (File content)"
    and "node_at fs' (root @ temp_names ns) = None"
    and "l \<noteq> root @ ns \<Longrightarrow> l \<noteq> root @ temp_names ns \<Longrightarrow> node_at fs' l = node_at fs l"
proof -
  let ?full = "RootDir # map Normal root @ map Normal ns"
  let ?temp = "RootDir # map Normal root @ map Normal (temp_names ns)"
  have t: "temp_names ns \<noteq> []" by (simp add: temp_names_def)
  obtain fs1 where w: "write_text ?temp content fs = Some fs1"
    and r: "rename_file ?temp ?full fs1 = Some fs'"
    using assms(3) by (auto simp: write_file_atomically_def Let_def with_extension_temp [OF assms(2)]
        split: option.splits)
  from w obtain loc where loc: "locate fs True ?temp = Some loc"
    and fs1: "fs1 = put_node loc (File content) fs"
    by (auto simp: write_text_def split: option.splits node.splits)
  have l: "loc = root @ temp_names ns"
    using locate_names [OF assms(1) loc] .
  have wt1: "work_tree fs1 root"
    using write_text_work_tree [OF assms(1) _ _ w] t by simp
  have src: "node_at fs1 (root @ temp_names ns) = Some (File content)"
    using t by (simp add: fs1 l node_at_put)
  from r obtain a b where ab: "locate fs1 False ?temp = Some a" "locate fs1 False ?full = Some b"
    by (auto simp: rename_file_def split: option.splits)
  have at: "a = root @ temp_names ns" "b = root @ ns"
    using locate_names [OF wt1] ab by auto
  from r have fs': "fs' = put_node (root @ ns) (File content) (del_node (root @ temp_names ns) fs1)"
    using src temp_names_differ [OF assms(2)] ab unfolding at
    by (simp add: rename_file_def split: if_splits)
  have gone: "node_at (del_node (root @ temp_names ns) fs1) (root @ temp_names ns) = None"
    using t by (simp add: node_at_def del_node_def hm_get_delete)
  show "node_at fs' (root @ ns) = Some (File content)"
    using assms(2) by (simp add: fs' node_at_put)
  show "node_at fs' (root @ temp_names ns) = None"
    using temp_names_differ [OF assms(2)] gone by (simp add: fs' node_at_put_other)
  show "node_at fs' l = node_at fs l" if "l \<noteq> root @ ns" "l \<noteq> root @ temp_names ns"
    using that by (simp add: fs' fs1 l node_at_put_other node_at_del_other)
qed

text \<open>What is at a location of the work tree before the patch, as the patcher reads it.\<close>

definition lines_at :: "file_system \<Rightarrow> string list \<Rightarrow> string list \<times> bool" where
  "lines_at fs loc =
     (case node_at fs loc of Some (File raw) \<Rightarrow> (str_lines raw, ends_with raw [nl]) | _ \<Rightarrow> ([], True))"

lemma stat_names:
  assumes "work_tree fs root"
    and "stat fs follow (RootDir # map Normal root @ map Normal ns) = Some n"
  shows "node_at fs (root @ ns) = Some n"
  using assms(2) locate_names [OF assms(1)]
  by (auto simp: stat_def split: option.splits)

text \<open>
  A successful modification of a file replaces exactly that file: in a work tree the
  target then holds the text that the hunks make of the lines it had (no lines for a missing
  file), the temporary file is gone, and every other location is as before. A target that is
  there is read, so its old content is what the hunks were checked against.
\<close>

theorem modify_file_result:
  assumes "works_in p root" and "work_tree fs root" and "\<not> dry_run p"
    and "new_path fp = Some q" and "relative_inside q" and "names_file q"
    and "path_exists fs (full_path p q) \<or> node_at fs (root @ path_names q) = None"
    and "modify_file p fp st fs = (Inr st', fs')"
  shows "\<exists>content. build_new_content (hunks fp) (fst (lines_at fs (root @ path_names q)))
        (\<not> no_trailing_newline fp \<and> snd (lines_at fs (root @ path_names q))) = Inr content
      \<and> node_at fs' (root @ path_names q) = Some (File content)
      \<and> node_at fs' (root @ temp_names (path_names q)) = None
      \<and> (\<forall>l. l \<noteq> root @ path_names q \<and> l \<noteq> root @ temp_names (path_names q)
           \<longrightarrow> node_at fs' l = node_at fs l)
      \<and> files_modified st' = Suc (files_modified st)"
proof -
  let ?ns = "path_names q"
  let ?full = "RootDir # map Normal root @ map Normal ?ns"
  have full: "full_path p q = ?full"
    using full_path_names [OF assms(1,5)] .
  have ns: "?ns \<noteq> []"
    using assms(6) by (simp add: names_file_def)
  have read: "(if path_exists fs ?full then read_file_lines fs ?full else Inr ([], True)) = Inr x
      \<Longrightarrow> x = lines_at fs (root @ ?ns)" for x
    using assms(7) stat_names [OF assms(2), of True ?ns]
    by (auto simp: full read_file_lines_def read_to_string_def lines_at_def path_exists_def
        split: if_splits option.splits node.splits)
  obtain content where c: "build_new_content (hunks fp) (fst (lines_at fs (root @ ?ns)))
        (\<not> no_trailing_newline fp \<and> snd (lines_at fs (root @ ?ns))) = Inr content"
    and w: "write_unless_dry p ?full content
        (update_stats_from_hunks (hunks fp) (st\<lparr>files_modified := Suc (files_modified st)\<rparr>)) fs
      = (Inr st', fs')"
    using assms(4,8) read
    by (auto simp: modify_file_def full Let_def split: sum.splits prod.splits if_splits)
  from w have "write_file_atomically ?full content fs = (Inr (), fs')"
    and st: "st' = update_stats_from_hunks (hunks fp) (st\<lparr>files_modified := Suc (files_modified st)\<rparr>)"
    using assms(3) by (auto simp: write_unless_dry_def split: prod.splits sum.splits)
  note out = write_file_atomically_result [OF assms(2) ns this(1)]
  show ?thesis
    using c out st by (intro exI [of _ content]) (auto simp: update_stats_from_hunks_def)
qed

theorem modify_file_result_witness:
  "\<exists>st' fs'. modify_file sample_patcher sample_patch zero_stats sample_tree = (Inr st', fs')
     \<and> node_at fs' [''w'', ''src'', ''a.rs'']
         = Some (File (join_lines [''use x;'', '''', ''fn f() {'', '' 2'', ''}''] @ [nl]))"
proof -
  let ?out = "modify_file sample_patcher sample_patch zero_stats sample_tree"
  let ?loc = "[''w'', ''src'', ''a.rs'']"
  have ok: "isl (fst ?out) = False" by code_simp
  then obtain st' fs' where out: "?out = (Inr st', fs')"
    by (metis isl_def prod.collapse sum.exhaust)
  have q: "new_path sample_patch = Some ''src/a.rs''" "path_names ''src/a.rs'' = [''src'', ''a.rs'']"
    by code_simp+
  have side: "\<not> dry_run sample_patcher" "relative_inside ''src/a.rs''" "names_file ''src/a.rs''"
      "path_exists sample_tree (full_path sample_patcher ''src/a.rs'')"
    unfolding relative_inside_def names_file_def by code_simp+
  have new: "build_new_content (hunks sample_patch) (fst (lines_at sample_tree ?loc))
      (\<not> no_trailing_newline sample_patch \<and> snd (lines_at sample_tree ?loc))
    = Inr (join_lines [''use x;'', '''', ''fn f() {'', '' 2'', ''}''] @ [nl])"
    by code_simp
  show ?thesis
    using modify_file_result [OF sample_works_in sample_work_tree side(1) q(1) side(2,3) _ out]
      side(4) out new by (auto simp: q(2))
qed

subsection \<open>Hunk counts\<close>

text \<open>Every hunk that the parser returns has lines, and counts that agree with them.\<close>

definition counted :: "patch_hunk \<Rightarrow> bool" where
  "counted h =
     (hunk_lines h \<noteq> [] \<and> old_count h = length (filter is_context_or_remove (hunk_lines h))
      \<and> new_count h = length (filter is_context_or_add (hunk_lines h)))"

lemma parse_hunk_counted: "parse_hunk i ls = Inr (h, j, rest) \<Longrightarrow> counted h"
  by (cases ls) (auto simp: counted_def split: sum.splits prod.splits if_splits)

lemma parse_hunks_counted:
  "parse_hunks i ls acc = Inr (hs, j, rest) \<Longrightarrow> list_all counted acc \<Longrightarrow> list_all counted hs"
proof (induction i ls acc rule: parse_hunks.induct)
  case (1 i ls acc)
  show ?case
  proof (cases "ls \<noteq> [] \<and> starts_with (hd ls) ''@@''")
    case True
    with 1(2) obtain h k rem where h: "parse_hunk i ls = Inr (h, k, rem)"
      and more: "parse_hunks k rem (acc @ [h]) = Inr (hs, j, rest)"
      using parse_hunks.simps [of i ls acc] by (auto split: sum.splits)
    show ?thesis
      using 1(1) [OF True h refl refl more] 1(3) parse_hunk_counted [OF h] by simp
  next
    case False
    with 1 show ?thesis using parse_hunks.simps [of i ls acc] by simp
  qed
qed

lemma parse_file_patch_counted:
  "parse_file_patch i ls = Inr (fp, j, rest) \<Longrightarrow> list_all counted (hunks fp)"
  using parse_hunks_counted [where acc = "[]"]
  by (fastforce simp: parse_file_patch_def build_file_patch_def split: sum.splits prod.splits)

lemma parse_git_files_counted:
  "parse_git_files i ls acc = Inr fps \<Longrightarrow> \<forall>fp \<in> set acc. list_all counted (hunks fp)
     \<Longrightarrow> \<forall>fp \<in> set fps. list_all counted (hunks fp)"
proof (induction i ls acc rule: parse_git_files.induct)
  case (1 i acc)
  then show ?case by simp
next
  case (2 i l ls acc)
  then show ?case
    using parse_file_patch_counted by (fastforce split: if_splits sum.splits prod.splits)
qed

lemma parse_plain_files_counted:
  "parse_plain_files i ls acc = Inr fps \<Longrightarrow> \<forall>fp \<in> set acc. list_all counted (hunks fp)
     \<Longrightarrow> \<forall>fp \<in> set fps. list_all counted (hunks fp)"
proof (induction i ls acc rule: parse_plain_files.induct)
  case (1 i acc)
  then show ?case by simp
next
  case (2 i l ls acc)
  then show ?case
    using parse_file_patch_counted
    by (fastforce simp del: file_boundary.simps split: if_splits sum.splits prod.splits)
qed

text \<open>
  Every hunk of a parsed diff has at least one line, and its counts are the numbers of old
  and of new lines that it really holds, whatever the header of the hunk claims.
\<close>

theorem from_diff_counts:
  assumes "from_diff t = Inr fps" and "fp \<in> set fps" and "h \<in> set (hunks fp)"
  shows "hunk_lines h \<noteq> []
    \<and> old_count h = length (filter is_context_or_remove (hunk_lines h))
    \<and> new_count h = length (filter is_context_or_add (hunk_lines h))"
proof -
  have "\<forall>fp \<in> set fps. list_all counted (hunks fp)"
    using assms(1) parse_git_files_counted [of 0 "str_lines t" "[]" fps]
      parse_plain_files_counted [of 0 "str_lines t" "[]" fps]
    by (simp add: from_diff_def Let_def split: sum.splits if_splits)
  with assms(2,3) show ?thesis
    by (simp add: list_all_iff counted_def)
qed

theorem from_diff_counts_witness:
  "length (filter is_context_or_remove (hunk_lines (hd (hunks sample_patch)))) = 2"
  using from_diff_counts [OF sample_diff, of sample_patch "hd (hunks sample_patch)"]
  by (simp add: sample_patch_def)

subsection \<open>Inputs at the edge\<close>

definition replace_line :: "string \<Rightarrow> string \<Rightarrow> string \<Rightarrow> string list" where
  "replace_line path old new =
     [''--- a/'' @ path, ''+++ b/'' @ path, ''@@ -1 +1 @@'', CHR ''-'' # old, CHR ''+'' # new]"

text \<open>
  A directory that is a symbolic link takes a patch out of the tree: only the last component of
  a path is checked for being a link.
\<close>

definition linked_tree :: file_system where
  "linked_tree = sample_tree\<lparr>nodes := ([''w'', ''l''], Link ''/etc'') # nodes sample_tree\<rparr>"

theorem symlinked_directory_escapes:
  "node_at linked_tree [''etc'', ''passwd''] = Some (File ''root'')
   \<and> node_at (snd (apply_patch sample_patcher
        (join_lines (replace_line ''l/passwd'' ''root'' ''evil'')) linked_tree)) [''etc'', ''passwd'']
     = Some (File ''evil'')"
  by code_simp

text \<open>A patch whose second file fails has already replaced the first.\<close>

theorem failed_patch_keeps_first_file:
  "(case apply_patch sample_patcher
      (join_lines (replace_line ''src/a.rs'' ''use x;'' ''use y;'' @ replace_line ''none'' ''q'' ''r''))
      sample_tree of
     (r, fs) \<Rightarrow> isl r \<and> node_at fs [''w'', ''src'', ''a.rs''] \<noteq> node_at sample_tree [''w'', ''src'', ''a.rs''])"
  by code_simp

text \<open>
  The header of a file that only changes its mode runs on into the next file: two files of the
  diff become one, with the mode of the first and the path of the second.
\<close>

theorem mode_change_swallows_next_file:
  "map_sum id (map (\<lambda>fp. (new_path fp, fp_adds_exec_bit fp)))
     (from_diff (join_lines
        ([''diff --git a/run.sh b/run.sh'', ''old mode 100644'', ''new mode 100755'',
          ''diff --git a/y b/y''] @ replace_line ''y'' ''a'' ''b'')))
   = Inr [(Some ''y'', True)]"
  by code_simp

text \<open>An empty path passes the checks; the temporary file then lands beside the directory.\<close>

theorem empty_path_writes_outside:
  "node_at sample_tree [''w.devit.tmp''] = None
   \<and> node_at (snd (apply_patch sample_patcher
        (join_lines [''--- /dev/null'', ''+++ b/'', ''@@ -0,0 +1 @@'', ''+x'']) sample_tree))
        [''w.devit.tmp''] = Some (File (''x'' @ [nl]))"
  by code_simp

end
