(* ===== verification/Path_Security.thy ===== *)
theory Path_Security
  imports Atomic_Patcher
begin

text \<open>
  The path checks of \<open>crates/cli/src/core/path_security.rs\<close>. A path of the file system is the
  list of its components here, since the repository root and everything joined to it is in
  canonical form; a path of a patch is its text. The lexical clean-up of the crate
  \<open>path_clean\<close> is the parameter \<open>clean\<close>.
\<close>

record path_security_context =
  repo_root :: "component list"
  allow_internal_symlinks :: bool

definition new_path_security ::
  "file_system \<Rightarrow> component list \<Rightarrow> bool \<Rightarrow> devit_error + path_security_context" where
  "new_path_security fs root allow_links =
     (case canonicalize fs root of
        None \<Rightarrow> Inl (Io ''canonicalize repository root'' None [])
      | Some r \<Rightarrow> Inr \<lparr>repo_root = r, allow_internal_symlinks = allow_links\<rparr>)"

definition join_components :: "component list \<Rightarrow> string \<Rightarrow> component list" where
  "join_components base q =
     (if is_absolute q then components q
      else base @ concat (map seg_component (split_char (CHR ''/'') q)))"

definition patch_block :: "string \<Rightarrow> string \<Rightarrow> devit_error" where
  "patch_block rule detail = PolicyBlock rule ''any'' ''patch'' detail"

fun show_components :: "component list \<Rightarrow> string" where
  "show_components [] = []"
| "show_components [RootDir] = ''/''"
| "show_components (RootDir # cs) = show_components cs"
| "show_components (CurDir # cs) = ''/.'' @ show_components cs"
| "show_components (ParentDir # cs) = ''/..'' @ show_components cs"
| "show_components (Normal s # cs) = ''/'' @ s @ show_components cs"

text \<open>\<open>char::is_control\<close> but for tab and line feed, on the bytes of the text.\<close>

fun has_control :: "string \<Rightarrow> bool" where
  "has_control [] = False"
| "has_control (c # cs) =
     (let v = of_char c :: nat
      in (v < 0x20 \<or> v = 0x7F) \<and> c \<noteq> tab \<and> c \<noteq> nl
         \<or> c = CHR 0xC2 \<and> cs \<noteq> [] \<and> 0x80 \<le> (of_char (hd cs) :: nat) \<and> (of_char (hd cs) :: nat) \<le> 0x9F
         \<or> has_control cs)"

definition validate_basic_path :: "string \<Rightarrow> devit_error + unit" where
  "validate_basic_path path =
     (if contains path ''../'' \<or> contains path (''..'' @ [CHR 0x5C]) then
        Inl (patch_block ''path_traversal_protection'' ''Path traversal attempt detected'')
      else if CHR 0x00 \<in> set path then
        Inl (patch_block ''path_security_null_byte'' ''Null byte in path'')
      else if has_control path then
        Inl (patch_block ''path_security_control_chars'' ''Control character in path'')
      else if 4096 < length path then
        Inl (patch_block ''path_security_length_limit'' ''Path too long'')
      else Inr ())"

text \<open>The resolution of a relative path that does not exist; an absolute one is cleaned.\<close>

fun resolve_components ::
  "component list \<Rightarrow> component list \<Rightarrow> component list \<Rightarrow> devit_error + component list" where
  "resolve_components root resolved [] = Inr resolved"
| "resolve_components root resolved (Normal s # cs) =
     resolve_components root (resolved @ [Normal s]) cs"
| "resolve_components root resolved (ParentDir # cs) =
     (case path_parent resolved of
        None \<Rightarrow> Inl (patch_block ''path_resolution_escape'' ''Path resolution would escape repository'')
      | Some parent \<Rightarrow>
          if prefix root parent then resolve_components root parent cs
          else Inl (patch_block ''path_resolution_escape'' ''Path resolution would escape repository''))"
| "resolve_components root resolved (CurDir # cs) = resolve_components root resolved cs"
| "resolve_components root resolved (RootDir # cs) = resolve_components root resolved cs"

definition manual_path_resolution ::
  "(component list \<Rightarrow> component list) \<Rightarrow> path_security_context \<Rightarrow> component list
     \<Rightarrow> devit_error + component list" where
  "manual_path_resolution clean ctx path =
     (if path \<noteq> [] \<and> hd path = RootDir then Inr (clean path)
      else resolve_components (repo_root ctx) (repo_root ctx) path)"

definition last_name :: "component list \<Rightarrow> string option" where
  "last_name cs = (case rev cs of Normal s # _ \<Rightarrow> Some s | _ \<Rightarrow> None)"

definition safe_canonicalize ::
  "(component list \<Rightarrow> component list) \<Rightarrow> path_security_context \<Rightarrow> file_system \<Rightarrow> component list
     \<Rightarrow> devit_error + component list" where
  "safe_canonicalize clean ctx fs path =
     (if \<not> path_exists fs path then
        (case path_parent path of
           None \<Rightarrow> manual_path_resolution clean ctx path
         | Some parent \<Rightarrow>
             if path_exists fs parent then
               (case canonicalize fs parent of
                  None \<Rightarrow> Inl (Io ''canonicalize parent path'' None [])
                | Some canonical_parent \<Rightarrow>
                    (case last_name path of
                       Some name \<Rightarrow> Inr (canonical_parent @ [Normal name])
                     | None \<Rightarrow> manual_path_resolution clean ctx path))
             else manual_path_resolution clean ctx path)
      else case canonicalize fs path of
             None \<Rightarrow> Inl (Io ''canonicalize path'' None [])
           | Some c \<Rightarrow> Inr c)"

definition validate_patch_path ::
  "(component list \<Rightarrow> component list) \<Rightarrow> path_security_context \<Rightarrow> file_system \<Rightarrow> string
     \<Rightarrow> devit_error + component list" where
  "validate_patch_path clean ctx fs path =
     (if path_eq path ''/dev/null'' then Inr (components ''/dev/null'')
      else case validate_basic_path path of
        Inl e \<Rightarrow> Inl e
      | Inr _ \<Rightarrow>
          if is_absolute path then
            Inl (patch_block ''path_security_no_absolute''
              (''Absolute paths not allowed in patches: '' @ path))
          else case safe_canonicalize clean ctx fs (join_components (repo_root ctx) path) of
            Inl e \<Rightarrow> Inl e
          | Inr canonical \<Rightarrow>
              if prefix (repo_root ctx) canonical then Inr canonical
              else Inl (patch_block ''path_security_repo_boundary''
                (''Path escapes repository: '' @ path @ '' -> '' @ show_components canonical)))"

definition validate_symlink ::
  "(component list \<Rightarrow> component list) \<Rightarrow> path_security_context \<Rightarrow> file_system \<Rightarrow> string \<Rightarrow> string
     \<Rightarrow> devit_error + unit" where
  "validate_symlink clean ctx fs link target =
     (case validate_patch_path clean ctx fs link of
        Inl e \<Rightarrow> Inl e
      | Inr canonical_link \<Rightarrow>
          if is_absolute target then
            Inl (patch_block ''symlink_security_no_absolute''
              (''Symlink '' @ link @ '' points to absolute path: '' @ target))
          else
            (let dir = (case path_parent canonical_link of None \<Rightarrow> repo_root ctx | Some d \<Rightarrow> d)
             in case safe_canonicalize clean ctx fs (join_components dir target) of
               Inl e \<Rightarrow> Inl e
             | Inr canonical_target \<Rightarrow>
                 if \<not> prefix (repo_root ctx) canonical_target then
                   Inl (patch_block ''symlink_security_repo_boundary''
                     (''Symlink '' @ link @ '' target escapes repository: '' @ target @ '' -> ''
                       @ show_components canonical_target))
                 else if \<not> allow_internal_symlinks ctx then
                   Inl (PolicyBlock ''symlink_policy_disabled'' ''trusted'' ''patch''
                     ''Symlinks not allowed by current policy'')
                 else Inr ()))"

definition recheck_path ::
  "(component list \<Rightarrow> component list) \<Rightarrow> path_security_context \<Rightarrow> file_system \<Rightarrow> string
     \<Rightarrow> devit_error + unit" where
  "recheck_path clean ctx fs path =
     (case validate_patch_path clean ctx fs path of
        Inl e \<Rightarrow> Inl e
      | Inr canonical \<Rightarrow>
          if path_exists fs canonical \<and> path_is_symlink fs canonical then
            (case read_link fs canonical of
               None \<Rightarrow> Inl (Io ''read symlink'' None [])
             | Some target \<Rightarrow> validate_symlink clean ctx fs (show_components canonical) target)
          else Inr ())"

definition pre_commit_validation ::
  "(component list \<Rightarrow> component list) \<Rightarrow> path_security_context \<Rightarrow> file_system \<Rightarrow> string list
     \<Rightarrow> devit_error + unit" where
  "pre_commit_validation clean ctx fs paths = try_all (recheck_path clean ctx fs) paths"

subsection \<open>Physical locations\<close>

text \<open>A walk that follows links ends below directories, at something that is not a link.\<close>

definition all_dirs :: "file_system \<Rightarrow> string list \<Rightarrow> bool" where
  "all_dirs fs loc = (\<forall>p. prefix p loc \<longrightarrow> node_at fs p = Some Dir)"

lemma all_dirs_Nil [simp]: "all_dirs fs []"
  by (simp add: all_dirs_def node_at_def)

lemma all_dirs_snoc: "all_dirs fs loc \<Longrightarrow> node_at fs (loc @ [s]) = Some Dir \<Longrightarrow> all_dirs fs (loc @ [s])"
  by (auto simp: all_dirs_def prefix_snoc)

lemma all_dirs_butlast: "all_dirs fs loc \<Longrightarrow> all_dirs fs (butlast loc)"
  unfolding all_dirs_def by (metis append_butlast_last_id butlast.simps(1) prefix_snoc)

definition physical :: "file_system \<Rightarrow> string list \<Rightarrow> bool" where
  "physical fs loc = (all_dirs fs (butlast loc) \<and> (\<forall>t. node_at fs loc \<noteq> Some (Link t)))"

lemma all_dirs_physical: "all_dirs fs loc \<Longrightarrow> physical fs loc"
  by (auto simp: physical_def all_dirs_butlast) (simp add: all_dirs_def)

lemma walk_physical:
  "walk n fs follow cur cs = Some loc \<Longrightarrow> follow \<Longrightarrow> all_dirs fs cur \<Longrightarrow> physical fs loc"
proof (induction n fs follow cur cs rule: walk.induct)
  case (4 n fs follow cur cs)
  then show ?case by (simp add: all_dirs_butlast)
next
  case (5 n fs follow cur s cs)
  show ?case
  proof (cases "node_at fs (cur @ [s])")
    case None
    with 5 show ?thesis by (auto simp: physical_def split: if_splits)
  next
    case (Some nd)
    with 5 show ?thesis
      by (cases nd) (auto simp: physical_def all_dirs_snoc split: if_splits nat.splits)
  qed
qed (auto simp: all_dirs_physical)

lemma walk_all_dirs:
  assumes "all_dirs fs ns"
  shows "walk n fs follow [] (map Normal ns @ cs) = walk n fs follow ns cs"
  using walk_dirs [of ns fs "[]"] assms by (simp add: all_dirs_def)

text \<open>A physical location is where its own path leads, whether links are followed or not.\<close>

lemma locate_physical:
  assumes "physical fs loc"
  shows "locate fs follow (RootDir # map Normal loc) = Some loc"
proof (cases loc rule: rev_cases)
  case Nil
  then show ?thesis by (simp add: locate_def)
next
  case (snoc ns s)
  with assms have "all_dirs fs ns" and "\<And>t. node_at fs (ns @ [s]) \<noteq> Some (Link t)"
    by (simp_all add: physical_def)
  then show ?thesis
    using walk_all_dirs [of fs ns max_links follow "[Normal s]"]
    by (simp add: locate_def snoc split: option.splits node.splits)
qed

lemma canonicalize_physical:
  assumes "canonicalize fs path = Some c" and "all_dirs fs (cwd fs)"
  obtains loc where "c = RootDir # map Normal loc" and "locate fs True path = Some loc"
    and "physical fs loc"
  using assms walk_physical [of max_links fs True "cwd fs" path]
  by (auto simp: canonicalize_def locate_def split: option.splits if_splits)

lemma canonical_not_symlink:
  assumes "canonicalize fs path = Some c" and "all_dirs fs (cwd fs)"
  shows "\<not> path_is_symlink fs c"
proof -
  obtain loc where "c = RootDir # map Normal loc" and p: "physical fs loc"
    using canonicalize_physical [OF assms] .
  then show ?thesis
    using locate_physical [OF p, of False]
    by (auto simp: path_is_symlink_def stat_def physical_def split: option.splits node.splits)
qed

subsection \<open>What acceptance means\<close>

lemma validate_patch_path_cases:
  assumes "validate_patch_path clean ctx fs q = Inr c" and "\<not> path_eq q ''/dev/null''"
  shows "\<not> is_absolute q"
    and "safe_canonicalize clean ctx fs (join_components (repo_root ctx) q) = Inr c"
    and "prefix (repo_root ctx) c"
    and "validate_basic_path q = Inr ()"
  using assms by (auto simp: validate_patch_path_def split: if_splits sum.splits)

lemma prefix_map_Normal: "prefix (RootDir # map Normal ns) (RootDir # map Normal ms) \<longleftrightarrow> prefix ns ms"
proof
  assume "prefix (RootDir # map Normal ns) (RootDir # map Normal ms)"
  then obtain zs where "map Normal ms = map Normal ns @ zs"
    by (auto simp: prefix_def)
  then obtain us vs where "ms = us @ vs" and "map Normal us = map Normal ns"
    by (auto simp: map_eq_append_conv)
  moreover have "inj Normal" by (simp add: inj_def)
  ultimately show "prefix ns ms" by (simp add: inj_map_eq_map)
next
  assume "prefix ns ms"
  then show "prefix (RootDir # map Normal ns) (RootDir # map Normal ms)"
    by (auto simp: prefix_def)
qed

text \<open>
  An accepted path of something that exists leads into the repository, whatever links it
  goes through: the location that reading or writing through the path reaches is the root or
  below it, and the returned path names that same location. The current directory must be a
  real one.
\<close>

theorem accepted_path_is_inside:
  assumes "validate_patch_path clean ctx fs q = Inr c" and "\<not> path_eq q ''/dev/null''"
    and "repo_root ctx = RootDir # map Normal root" and "all_dirs fs (cwd fs)"
    and "path_exists fs (join_components (repo_root ctx) q)"
  shows "\<exists>loc. locate fs True (join_components (repo_root ctx) q) = Some loc
    \<and> prefix root loc \<and> c = RootDir # map Normal loc"
proof -
  have "canonicalize fs (join_components (repo_root ctx) q) = Some c"
    using validate_patch_path_cases(2) [OF assms(1,2)] assms(5)
    by (auto simp: safe_canonicalize_def split: option.splits)
  then obtain loc where loc: "c = RootDir # map Normal loc"
    "locate fs True (join_components (repo_root ctx) q) = Some loc"
    using canonicalize_physical assms(4) by metis
  moreover have "prefix root loc"
    using validate_patch_path_cases(3) [OF assms(1,2)] loc(1) assms(3) prefix_map_Normal by metis
  ultimately show ?thesis by blast
qed

text \<open>
  The second check for symbolic links never fires: the path that the first check returns
  for something that exists is already resolved, so the re-validation before a commit accepts
  and refuses exactly what the first validation does, and the text of a link is never read.
\<close>

theorem recheck_finds_no_links:
  assumes "all_dirs fs (cwd fs)"
    and "\<forall>q \<in> set qs. \<not> path_eq q ''/dev/null'' \<and> path_exists fs (join_components (repo_root ctx) q)"
  shows "pre_commit_validation clean ctx fs qs
    = try_all (\<lambda>q. map_sum id (\<lambda>_. ()) (validate_patch_path clean ctx fs q)) qs"
proof -
  have "recheck_path clean ctx fs q = map_sum id (\<lambda>_. ()) (validate_patch_path clean ctx fs q)"
    if "q \<in> set qs" for q
  proof (cases "validate_patch_path clean ctx fs q")
    case (Inl e)
    then show ?thesis by (simp add: recheck_path_def)
  next
    case (Inr c)
    have "canonicalize fs (join_components (repo_root ctx) q) = Some c"
      using validate_patch_path_cases(2) [OF Inr] assms(2) that
      by (auto simp: safe_canonicalize_def split: option.splits)
    then have "\<not> path_is_symlink fs c"
      using canonical_not_symlink assms(1) by blast
    with Inr show ?thesis by (simp add: recheck_path_def)
  qed
  then show ?thesis
    unfolding pre_commit_validation_def by (induction qs) (auto split: sum.splits)
qed

subsection \<open>Examples\<close>

definition repo_tree :: file_system where
  "repo_tree =
     \<lparr>nodes = [([''w''], Dir), ([''w'', ''src''], Dir), ([''w'', ''src'', ''a.rs''], File ''a''),
               ([''w'', ''in''], Link ''src''), ([''w'', ''out''], Link ''/etc''),
               ([''w'', ''dangling''], Link ''/etc/new''), ([''etc''], Dir),
               ([''etc'', ''passwd''], File ''root'')],
      cwd = [''w'']\<rparr>"

definition repo_context :: path_security_context where
  "repo_context = \<lparr>repo_root = [RootDir, Normal ''w''], allow_internal_symlinks = False\<rparr>"

lemma all_dirs_code: "all_dirs fs loc = list_all (\<lambda>p. node_at fs p = Some Dir) (prefixes loc)"
  by (auto simp: all_dirs_def list_all_iff in_set_prefixes)

lemma repo_cwd: "all_dirs repo_tree (cwd repo_tree)"
  unfolding all_dirs_code by code_simp

lemma accepted_path_is_inside_witness:
  "\<exists>loc. locate repo_tree True (join_components [RootDir, Normal ''w''] ''in/a.rs'') = Some loc
    \<and> prefix [''w''] loc"
proof -
  have v: "validate_patch_path id repo_context repo_tree ''in/a.rs''
      = Inr [RootDir, Normal ''w'', Normal ''src'', Normal ''a.rs'']"
    by code_simp
  have "\<not> path_eq ''in/a.rs'' ''/dev/null''" and root: "repo_root repo_context = RootDir # map Normal [''w'']"
    and "path_exists repo_tree (join_components (repo_root repo_context) ''in/a.rs'')"
    by code_simp+
  from accepted_path_is_inside [OF v this(1) root repo_cwd this(3)] show ?thesis
    by (auto simp: repo_context_def)
qed

lemma recheck_finds_no_links_witness:
  "pre_commit_validation id repo_context repo_tree [''in/a.rs'', ''out/passwd'']
    = Inl (patch_block ''path_security_repo_boundary''
        ''Path escapes repository: out/passwd -> /etc/passwd'')"
proof -
  have "\<forall>q \<in> set [''in/a.rs'', ''out/passwd'']. \<not> path_eq q ''/dev/null''
      \<and> path_exists repo_tree (join_components (repo_root repo_context) q)"
    by code_simp
  note same = recheck_finds_no_links [OF repo_cwd this, of id]
  show ?thesis
    unfolding same by code_simp
qed

text \<open>A dangling link is accepted, and writing through it creates a file outside the repository.\<close>

theorem dangling_link_is_accepted:
  "validate_patch_path id repo_context repo_tree ''dangling''
     = Inr [RootDir, Normal ''w'', Normal ''dangling'']
   \<and> map_option (\<lambda>fs. node_at fs [''etc'', ''new''])
       (write_text [RootDir, Normal ''w'', Normal ''dangling''] ''x'' repo_tree)
     = Some (Some (File ''x''))"
  by code_simp

text \<open>
  So is a path through a linked directory when two of its components are missing: the text of
  the path is cleaned, the link is not followed.
\<close>

theorem missing_below_link_is_accepted:
  "validate_patch_path id repo_context repo_tree ''out/new/x''
     = Inr [RootDir, Normal ''w'', Normal ''out'', Normal ''new'', Normal ''x'']
   \<and> map_option (\<lambda>fs. node_at fs [''etc'', ''new''])
       (create_dir_all [RootDir, Normal ''w'', Normal ''out'', Normal ''new''] repo_tree)
     = Some (Some Dir)"
  by code_simp

end
