(* ===== verification/Patch_Classify.thy ===== *)
theory Patch_Classify
  imports Policy Atomic_Patcher "HOL-Library.Char_ord" "HOL-Library.List_Lexorder"
begin

text \<open>
  What the engine reads off a diff before it applies it: the changes of
  \<open>crates/cli/src/core/patch.rs\<close> and the pure helpers of \<open>crates/cli/src/core/mod.rs\<close>
  (sorted paths, rule names, permission changes, the recommended level).
\<close>

subsection \<open>The order of paths\<close>

text \<open>\<open>Component\<close> derives its order: by variant, names byte by byte.\<close>

instantiation component :: linorder
begin

fun component_rank :: "component \<Rightarrow> nat" where
  "component_rank RootDir = 0"
| "component_rank CurDir = 1"
| "component_rank ParentDir = 2"
| "component_rank (Normal _) = 3"

fun component_text :: "component \<Rightarrow> string" where
  "component_text (Normal s) = s"
| "component_text _ = []"

definition less_eq_component :: "component \<Rightarrow> component \<Rightarrow> bool" where
  "less_eq_component a b =
     (component_rank a < component_rank b
      \<or> component_rank a = component_rank b \<and> component_text a \<le> component_text b)"

definition less_component :: "component \<Rightarrow> component \<Rightarrow> bool" where
  "less_component a b = (a \<le> b \<and> \<not> b \<le> (a :: component))"

instance
proof
  fix a b c :: component
  show "(a < b) = (a \<le> b \<and> \<not> b \<le> a)" by (simp add: less_component_def)
  show "a \<le> a" by (simp add: less_eq_component_def)
  show "a \<le> b \<Longrightarrow> b \<le> c \<Longrightarrow> a \<le> c" by (auto simp: less_eq_component_def)
  show "a \<le> b \<Longrightarrow> b \<le> a \<Longrightarrow> a = b"
    by (cases a; cases b) (auto simp: less_eq_component_def)
  show "a \<le> b \<or> b \<le> a" by (auto simp: less_eq_component_def)
qed

end

text \<open>\<open>dedup\<close>: of consecutive elements with the same key the first stays.\<close>

fun dedup_key :: "('a \<Rightarrow> 'k) \<Rightarrow> 'a list \<Rightarrow> 'a list" where
  "dedup_key f [] = []"
| "dedup_key f [x] = [x]"
| "dedup_key f (x # y # ys) =
     (if f x = f y then dedup_key f (x # ys) else x # dedup_key f (y # ys))"

subsection \<open>Changes of a diff\<close>

datatype risk_level = LowRisk | MediumRisk | HighRisk | CriticalRisk

datatype file_change_type = Created | Modified | Deleted | Renamed | Copied

record patch_change =
  pc_path :: string
  pc_type :: file_change_type
  pc_lines_added :: nat
  pc_lines_removed :: nat
  pc_is_binary :: bool
  pc_adds_exec_bit :: bool
  pc_is_symlink :: bool
  pc_symlink_target :: "string option"
  pc_is_submodule :: bool
  pc_touches_gitmodules :: bool

fun risk_approval :: "risk_level \<Rightarrow> approval_level" where
  "risk_approval LowRisk = Untrusted"
| "risk_approval MediumRisk = Ask"
| "risk_approval HighRisk = Moderate"
| "risk_approval CriticalRisk = Trusted"

definition primary_path :: "file_patch \<Rightarrow> string" where
  "primary_path fp =
     (case new_path fp of
        Some q \<Rightarrow> q
      | None \<Rightarrow> (case old_path fp of Some q \<Rightarrow> q | None \<Rightarrow> ''<unknown>''))"

definition change_type :: "file_patch \<Rightarrow> file_change_type" where
  "change_type fp =
     (if is_new_file fp then Created
      else if is_deleted_file fp then Deleted
      else case (old_path fp, new_path fp) of
             (Some p, Some q) \<Rightarrow> if path_eq p q then Modified else Renamed
           | _ \<Rightarrow> Modified)"

definition classify_file :: "file_patch \<Rightarrow> patch_change" where
  "classify_file fp =
     \<lparr>pc_path = primary_path fp, pc_type = change_type fp,
      pc_lines_added = sum_list (map (count_added \<circ> hunk_lines) (hunks fp)),
      pc_lines_removed = sum_list (map (count_removed \<circ> hunk_lines) (hunks fp)),
      pc_is_binary = fp_is_binary fp, pc_adds_exec_bit = fp_adds_exec_bit fp,
      pc_is_symlink = False, pc_symlink_target = None, pc_is_submodule = False,
      pc_touches_gitmodules = path_eq (primary_path fp) ''.gitmodules''\<rparr>"

definition classify_changes :: "string \<Rightarrow> devit_error + patch_change list" where
  "classify_changes diff_content =
     (case from_diff diff_content of
        Inl e \<Rightarrow> Inl e
      | Inr files \<Rightarrow> Inr (map classify_file files))"

fun policy_kind :: "file_change_type \<Rightarrow> file_change_kind" where
  "policy_kind Created = KindCreate"
| "policy_kind Modified = KindModify"
| "policy_kind Deleted = KindDelete"
| "policy_kind Renamed = KindModify"
| "policy_kind Copied = KindCreate"

definition policy_change :: "patch_change \<Rightarrow> file_change" where
  "policy_change c =
     \<lparr>fc_path = pc_path c, fc_kind = policy_kind (pc_type c), is_binary = pc_is_binary c,
      adds_exec_bit = pc_adds_exec_bit c, lines_added = pc_lines_added c,
      lines_deleted = pc_lines_removed c, is_symlink = pc_is_symlink c,
      symlink_target_abs = pc_symlink_target c, touches_protected = False,
      touches_submodule = pc_is_submodule c, touches_gitmodules = pc_touches_gitmodules c,
      file_size_bytes = Some 0\<rparr>"

subsection \<open>Helpers of the engine\<close>

definition unique_paths :: "patch_change list \<Rightarrow> string list" where
  "unique_paths changes = dedup_key components (sort_key components (map pc_path changes))"

definition infer_policy_rule :: "string \<Rightarrow> string" where
  "infer_policy_rule reason =
     (let lower = to_lowercase reason
      in if contains lower ''.env'' \<or> contains lower ''protected path''
            \<or> contains lower ''chemin prot'' then ''policy_protected_path''
         else if contains lower ''executable''
            \<or> contains lower (''permission ex'' @ [CHR 0xC3, CHR 0xA9] @ ''cutable'') then
           ''policy_exec_permission''
         else if contains lower ''binary'' \<or> contains lower ''binaire'' then
           ''policy_binary_restriction''
         else if contains lower ''gitmodules'' then ''policy_gitmodules''
         else if contains lower ''symlink'' \<or> contains lower ''lien symbolique'' then
           ''policy_symlink_restriction''
         else ''policy_evaluation'')"

definition path_matches_rule :: "string \<Rightarrow> string \<Rightarrow> bool" where
  "path_matches_rule path rule = (if path_eq path rule then True else path_starts_with path rule)"

definition protected_rule_hits :: "string list \<Rightarrow> string list \<Rightarrow> string list" where
  "protected_rule_hits rules paths =
     concat (map (\<lambda>p. concat (map (\<lambda>r.
       if path_matches_rule p r then [''Path '' @ p @ '' matches protected rule '' @ r] else [])
       rules)) paths)"

definition engine_recommended_approval :: "bool \<Rightarrow> bool \<Rightarrow> nat \<Rightarrow> nat \<Rightarrow> approval_level" where
  "engine_recommended_approval affects_protected affects_binaries line_changes file_count =
     (let score = (if affects_protected then 2 else 0 :: nat);
          score = (if affects_binaries then max score 1 else score);
          score = (if 1000 < line_changes \<or> 25 < file_count then 3
                   else if 400 < line_changes \<or> 10 < file_count then max score 1
                   else score)
      in risk_approval
           (if score = 0 then LowRisk else if score = 1 then MediumRisk
            else if score = 2 then HighRisk else CriticalRisk))"

record permission_change =
  perm_path :: string
  perm_current_mode :: nat
  perm_new_mode :: nat
  perm_description :: string

fun show_oct :: "nat \<Rightarrow> string" where
  "show_oct n = (if n < 8 then [digit_char n] else show_oct (n div 8) @ [digit_char (n mod 8)])"

declare show_oct.simps [simp del]

definition extract_diff_path :: "string \<Rightarrow> string option" where
  "extract_diff_path line =
     (if \<not> starts_with line ''diff --git'' then None
      else let parts = split_whitespace line
           in if 3 < length parts then
                Some (case strip_prefix (parts ! 3) ''b/'' of Some q \<Rightarrow> q | None \<Rightarrow> parts ! 3)
              else None)"

definition parse_mode_line :: "string \<Rightarrow> string \<Rightarrow> nat option" where
  "parse_mode_line line prefix_text =
     (if \<not> starts_with line prefix_text then None
      else let parts = split_whitespace line
           in if 2 < length parts then parse_uint 8 (2 ^ 32) (parts ! 2) else None)"

fun permission_changes_from ::
  "string option \<Rightarrow> nat option \<Rightarrow> string list \<Rightarrow> permission_change list" where
  "permission_changes_from path old [] = []"
| "permission_changes_from path old (l # ls) =
     (case extract_diff_path l of
        Some q \<Rightarrow> permission_changes_from (Some q) None ls
      | None \<Rightarrow>
          (case parse_mode_line l ''old mode'' of
             Some m \<Rightarrow> permission_changes_from path (Some m) ls
           | None \<Rightarrow>
               (case parse_mode_line l ''new mode'' of
                  None \<Rightarrow> permission_changes_from path old ls
                | Some m \<Rightarrow>
                    (case (path, old) of
                       (Some q, Some previous) \<Rightarrow>
                         (if previous \<noteq> m then
                            [\<lparr>perm_path = q, perm_current_mode = previous, perm_new_mode = m,
                              perm_description = ''mode change '' @ show_oct previous @ '' ''
                                @ [CHR 0xE2, CHR 0x86, CHR 0x92] @ '' '' @ show_oct m\<rparr>]
                          else [])
                         @ permission_changes_from path None ls
                     | (Some q, None) \<Rightarrow> permission_changes_from path None ls
                     | (None, _) \<Rightarrow> permission_changes_from path None ls))))"

definition extract_permission_changes :: "string \<Rightarrow> permission_change list" where
  "extract_permission_changes patch_content =
     permission_changes_from None None (str_lines patch_content)"

end
