(* ===== verification/Core_Engine.thy ===== *)
theory Core_Engine
  imports Patch_Classify Path_Security Patch_Safety
begin

text \<open>
  The patch pipeline of \<open>crates/cli/src/core/mod.rs\<close>: the idempotency cache, the gate of path
  checks and policy, the application, the commit and the journal entry, and the revert after
  failed tests. Clocks, \<open>git\<close>, the journal and the test run answer through \<open>patch_env\<close>;
  the JSON form of a cached result and the crate \<open>path_clean\<close> are parameters.
\<close>

subsection \<open>The idempotency cache\<close>

text \<open>An instant is a number of nanoseconds; \<open>elapsed\<close> is a difference that stops at zero.\<close>

record idempotency_entry =
  response :: string
  created_at :: nat
  ttl :: nat

type_synonym idempotency_cache = "(string, idempotency_entry) hmap"

definition is_expired :: "nat \<Rightarrow> idempotency_entry \<Rightarrow> bool" where
  "is_expired now e = (ttl e < now - created_at e)"

definition cache_get ::
  "nat \<Rightarrow> string \<Rightarrow> idempotency_cache \<Rightarrow> idempotency_entry option \<times> idempotency_cache" where
  "cache_get now key cache =
     (case hm_get cache key of
        None \<Rightarrow> (None, cache)
      | Some e \<Rightarrow> if is_expired now e then (None, hm_remove key cache) else (Some e, cache))"

definition cache_insert :: "nat \<Rightarrow> string \<Rightarrow> string \<Rightarrow> nat \<Rightarrow> idempotency_cache \<Rightarrow> idempotency_cache" where
  "cache_insert now key resp life cache =
     hm_insert key \<lparr>response = resp, created_at = now, ttl = life\<rparr> cache"

definition cache_cleanup :: "nat \<Rightarrow> idempotency_cache \<Rightarrow> idempotency_cache" where
  "cache_cleanup now cache = hm_retain (\<lambda>_ e. \<not> is_expired now e) cache"

definition one_hour :: nat where
  "one_hour = 3600 * 10 ^ 9"

subsection \<open>Results and the engine\<close>

record test_failure =
  test_name :: string
  test_error_message :: string
  test_details :: "string option"
  test_location :: "string option"

record test_results =
  tests_success :: bool
  total_tests :: nat
  passed_tests :: nat
  failed_tests :: nat
  skipped_tests :: nat
  tests_time :: nat
  failure_details :: "test_failure list"
  tests_output :: string
  tests_timed_out :: bool

record patch_result =
  pr_success :: bool
  pr_modified_files :: "string list"
  pr_warnings :: "string list"
  pr_info_messages :: "string list"
  pr_resulting_snapshot :: "string option"
  pr_execution_time :: nat
  pr_required_elevation :: bool
  pr_commit_sha :: "string option"
  pr_rollback_cmd :: "string option"
  pr_test_results :: "test_results option"
  pr_auto_reverted :: bool
  pr_reverted_sha :: "string option"

record core_engine =
  ce_protected_paths :: "string list"
  ce_auto_revert :: bool
  ce_working_directory :: "string option"
  ce_auto_commit :: bool
  ce_policy :: policy_engine
  ce_path_security :: path_security_context
  ce_cache :: idempotency_cache

text \<open>What a command answered: it did not start, or it ended with success and its two outputs.\<close>

datatype command_outcome = NotStarted | Finished bool string string

text \<open>The parameters: the crates behind the engine.\<close>

record crates =
  clean_path :: "component list \<Rightarrow> component list"
  result_to_json :: "patch_result \<Rightarrow> string option"
  result_of_json :: "string \<Rightarrow> patch_result option"

text \<open>The readings of one call.\<close>

record patch_env =
  env_lookup :: nat
  env_stored :: nat
  env_elapsed :: nat
  env_workspace :: "devit_error + string"
  env_commit :: command_outcome
  env_journal :: "devit_error + nat"

definition show_path_list :: "string list \<Rightarrow> string" where
  "show_path_list ps = (if ps = [] then [] else hd ps @ concat (map (\<lambda>p. '', '' @ p) (tl ps)))"

text \<open>The \<open>Debug\<close> form of a level; a path inside is its text in quotes.\<close>

fun debug_level :: "approval_level \<Rightarrow> string" where
  "debug_level Untrusted = ''Untrusted''"
| "debug_level Ask = ''Ask''"
| "debug_level Moderate = ''Moderate''"
| "debug_level Trusted = ''Trusted''"
| "debug_level (Privileged ps) =
     ''Privileged { allowed_paths: ['' @ show_path_list (map (\<lambda>p. [CHR 0x22] @ p @ [CHR 0x22]) ps)
       @ ''] }''"

subsection \<open>The gate\<close>

definition path_gate ::
  "crates \<Rightarrow> path_security_context \<Rightarrow> file_system \<Rightarrow> patch_change \<Rightarrow> devit_error + unit" where
  "path_gate lib ctx fs c =
     (case validate_patch_path (clean_path lib) ctx fs (pc_path c) of
        Inl e \<Rightarrow> Inl e
      | Inr _ \<Rightarrow>
          if pc_is_symlink c then
            (case pc_symlink_target c of
               None \<Rightarrow> Inr ()
             | Some target \<Rightarrow> validate_symlink (clean_path lib) ctx fs (pc_path c) target)
          else Inr ())"

definition policy_context_of :: "core_engine \<Rightarrow> patch_change list \<Rightarrow> approval_level \<Rightarrow> policy_context"
where
  "policy_context_of eng changes level =
     \<lparr>file_changes = map policy_change changes, requested_approval_level = level,
      protected_paths = ce_protected_paths eng, ctx_config = engine_config (ce_policy eng)\<rparr>"

text \<open>The warnings and messages of a decision that lets the patch through.\<close>

definition policy_gate ::
  "core_engine \<Rightarrow> patch_change list \<Rightarrow> approval_level \<Rightarrow> devit_error + string list \<times> string list" where
  "policy_gate eng changes level =
     (case evaluate_changes (ce_policy eng) (policy_context_of eng changes level) of
        Inl _ \<Rightarrow> Inl (Internal ''policy_engine'' ''Policy evaluation failed'' None [])
      | Inr d \<Rightarrow>
          if \<not> d_allow d then
            Inl (PolicyBlock (infer_policy_rule (d_reason d))
              (case d_downgraded_to d of Some l \<Rightarrow> debug_level l | None \<Rightarrow> ''Higher'')
              (debug_level level) (d_reason d))
          else if d_requires_confirmation d then
            (if level = Ask then Inr ([''Policy requires confirmation: '' @ d_reason d], [])
             else Inl (PolicyBlock ''confirmation_required'' ''Ask'' (debug_level level) (d_reason d)))
          else Inr ([], [''Policy evaluation: '' @ d_reason d]))"

text \<open>Steps 1 to 2 of \<open>patch_apply\<close>: the changes, and what the gate says of them.\<close>

record gate_pass =
  gp_changes :: "patch_change list"
  gp_files :: "string list"
  gp_warnings :: "string list"
  gp_infos :: "string list"

definition check_patch ::
  "crates \<Rightarrow> core_engine \<Rightarrow> string \<Rightarrow> approval_level \<Rightarrow> file_system \<Rightarrow> devit_error + gate_pass" where
  "check_patch lib eng patch_content level fs =
     (case classify_changes patch_content of
        Inl e \<Rightarrow> Inl e
      | Inr changes \<Rightarrow>
          if changes = [] then
            Inl (InvalidDiff ''No valid file changes found in patch'' None)
          else
            (let binaries = map pc_path (filter pc_is_binary changes);
                 infos = [''Analyzed '' @ show_nat (length changes) @ '' file changes from patch'']
                   @ (if binaries = [] then []
                      else [''Detected binary file changes (whitelist enforced): ''
                              @ show_path_list binaries])
             in case try_all (path_gate lib (ce_path_security eng) fs) changes of
                  Inl e \<Rightarrow> Inl e
                | Inr _ \<Rightarrow>
                    (case policy_gate eng changes level of
                       Inl e \<Rightarrow> Inl e
                     | Inr (warnings, notes) \<Rightarrow>
                         Inr \<lparr>gp_changes = changes, gp_files = unique_paths changes,
                              gp_warnings = warnings,
                              gp_infos = infos @ [''Path security validation passed''] @ notes\<rparr>)))"

subsection \<open>Applying\<close>

definition working_directory :: "core_engine \<Rightarrow> string" where
  "working_directory eng = (case ce_working_directory eng of Some d \<Rightarrow> d | None \<Rightarrow> ''.'')"

definition remember ::
  "crates \<Rightarrow> nat \<Rightarrow> string option \<Rightarrow> patch_result \<Rightarrow> core_engine \<Rightarrow> core_engine" where
  "remember lib now key r eng =
     (case key of
        None \<Rightarrow> eng
      | Some k \<Rightarrow>
          (case result_to_json lib r of
             None \<Rightarrow> eng
           | Some json \<Rightarrow> eng\<lparr>ce_cache := cache_insert now k json one_hour (ce_cache eng)\<rparr>))"

text \<open>The \<open>[branch sha]\<close> line of \<open>git commit\<close>.\<close>

definition commit_sha_of :: "string \<Rightarrow> string" where
  "commit_sha_of stdout =
     (case find (\<lambda>l. starts_with l ''['' \<and> 1 < length (split_whitespace l)) (str_lines stdout) of
        Some l \<Rightarrow> split_whitespace l ! 1
      | None \<Rightarrow> ''unknown'')"

text \<open>Step 5: the commit, with the warnings and messages it adds.\<close>

definition commit_step ::
  "core_engine \<Rightarrow> patch_env \<Rightarrow> devit_error + string option \<times> string list \<times> string list" where
  "commit_step eng env =
     (if \<not> ce_auto_commit eng then
        Inr (None, [], [''Auto-commit disabled - changes staged only''])
      else case env_workspace env of
             Inl e \<Rightarrow> Inl e
           | Inr _ \<Rightarrow>
               (case env_commit env of
                  NotStarted \<Rightarrow> Inl (Io ''git commit'' None [])
                | Finished True out _ \<Rightarrow>
                    Inr (Some (commit_sha_of out), [],
                         [''Creating commit for applied patch'',
                          ''Created commit: '' @ commit_sha_of out])
                | Finished False _ err \<Rightarrow>
                    Inr (None, [''Commit failed: '' @ err], [''Creating commit for applied patch''])))"

definition rollback_command :: "string option \<Rightarrow> string" where
  "rollback_command sha =
     (case sha of Some s \<Rightarrow> ''git revert '' @ s | None \<Rightarrow> ''git reset --hard HEAD'')"

definition dry_result :: "gate_pass \<Rightarrow> nat \<Rightarrow> patch_result" where
  "dry_result gp elapsed =
     \<lparr>pr_success = True, pr_modified_files = [], pr_warnings = gp_warnings gp,
      pr_info_messages = gp_infos gp
        @ [''Applying patch with atomic file operations'',
           ''Patch validation and application successful'',
           ''Dry run complete - no files were modified''],
      pr_resulting_snapshot = None, pr_execution_time = elapsed, pr_required_elevation = False,
      pr_commit_sha = None, pr_rollback_cmd = None, pr_test_results = None,
      pr_auto_reverted = False, pr_reverted_sha = None\<rparr>"

definition applied_message :: "patch_stats \<Rightarrow> string" where
  "applied_message st =
     ''Successfully applied patch: '' @ show_nat (files_modified st + files_created st)
     @ '' files modified, '' @ show_nat (hunks_applied st) @ '' hunks, +''
     @ show_nat (stat_lines_added st) @ '' -'' @ show_nat (stat_lines_removed st) @ '' lines''"

text \<open>Steps 4.5 to 7, after the files have been written.\<close>

definition finish_patch ::
  "crates \<Rightarrow> core_engine \<Rightarrow> patch_env \<Rightarrow> gate_pass \<Rightarrow> patch_stats \<Rightarrow> file_system
     \<Rightarrow> devit_error + patch_result" where
  "finish_patch lib eng env gp st fs =
     (case pre_commit_validation (clean_path lib) (ce_path_security eng) fs (gp_files gp) of
        Inl e \<Rightarrow> Inl e
      | Inr _ \<Rightarrow>
          (case commit_step eng env of
             Inl e \<Rightarrow> Inl e
           | Inr (sha, warnings, infos) \<Rightarrow>
               (case env_journal env of
                  Inl e \<Rightarrow> Inl e
                | Inr offset \<Rightarrow>
                    Inr \<lparr>pr_success = True, pr_modified_files = gp_files gp,
                         pr_warnings = gp_warnings gp @ warnings,
                         pr_info_messages = gp_infos gp
                           @ [''Applying patch with atomic file operations'',
                              ''Patch validation and application successful'', applied_message st,
                              ''Pre-commit security validation passed''] @ infos
                           @ [''Journal entry recorded: offset '' @ show_nat offset,
                              ''Rollback command available: '' @ rollback_command sha],
                         pr_resulting_snapshot = None, pr_execution_time = env_elapsed env,
                         pr_required_elevation = False, pr_commit_sha = sha,
                         pr_rollback_cmd = Some (rollback_command sha), pr_test_results = None,
                         pr_auto_reverted = False, pr_reverted_sha = None\<rparr>)))"

definition run_patch ::
  "crates \<Rightarrow> core_engine \<Rightarrow> patch_env \<Rightarrow> string \<Rightarrow> approval_level \<Rightarrow> bool \<Rightarrow> file_system
     \<Rightarrow> (devit_error + patch_result) \<times> file_system" where
  "run_patch lib eng env patch_content level dry fs =
     (case check_patch lib eng patch_content level fs of
        Inl e \<Rightarrow> (Inl e, fs)
      | Inr gp \<Rightarrow>
          (case apply_patch \<lparr>working_dir = working_directory eng, dry_run = dry\<rparr> patch_content fs of
             (Inl e, fs') \<Rightarrow> (Inl e, fs')
           | (Inr st, fs') \<Rightarrow>
               (if dry then Inr (dry_result gp (env_elapsed env))
                else finish_patch lib eng env gp st fs', fs')))"

text \<open>The cached result of a key that is still alive and readable, after the clean-up.\<close>

definition cached_result ::
  "crates \<Rightarrow> nat \<Rightarrow> string option \<Rightarrow> core_engine \<Rightarrow> patch_result option \<times> core_engine" where
  "cached_result lib now key eng =
     (case key of
        None \<Rightarrow> (None, eng)
      | Some k \<Rightarrow>
          (case cache_get now k (cache_cleanup now (ce_cache eng)) of
             (entry, cache) \<Rightarrow>
               (case entry of None \<Rightarrow> None | Some e \<Rightarrow> result_of_json lib (response e),
                eng\<lparr>ce_cache := cache\<rparr>)))"

definition patch_apply ::
  "crates \<Rightarrow> patch_env \<Rightarrow> string \<Rightarrow> approval_level \<Rightarrow> bool \<Rightarrow> string option \<Rightarrow> core_engine \<Rightarrow> file_system
     \<Rightarrow> (devit_error + patch_result) \<times> core_engine \<times> file_system" where
  "patch_apply lib env patch_content level dry key eng fs =
     (case cached_result lib (env_lookup env) key eng of
        (Some r, eng') \<Rightarrow> (Inr r, eng', fs)
      | (None, eng') \<Rightarrow>
          (case run_patch lib eng' env patch_content level dry fs of
             (Inl e, fs') \<Rightarrow> (Inl e, eng', fs')
           | (Inr r, fs') \<Rightarrow> (Inr r, remember lib (env_stored env) key r eng', fs')))"

subsection \<open>Tests after the patch and the revert\<close>

record patch_apply_request =
  req_diff :: string
  req_idempotency_key :: "string option"
  req_post_tests :: bool

definition should_auto_revert :: "core_engine \<Rightarrow> test_results \<Rightarrow> approval_level \<Rightarrow> bool" where
  "should_auto_revert eng results level =
     (if tests_success results then False
      else if \<not> ce_auto_revert eng then False
      else case level of
             Moderate \<Rightarrow> True
           | Trusted \<Rightarrow> True
           | Ask \<Rightarrow> False
           | Untrusted \<Rightarrow> False
           | Privileged _ \<Rightarrow> True)"

definition revert_error :: "string \<Rightarrow> devit_error" where
  "revert_error message = Internal ''auto_revert'' message None []"

text \<open>The revert runs the rollback command of the result, split at white space.\<close>

definition perform_auto_revert ::
  "(string list \<Rightarrow> command_outcome) \<Rightarrow> patch_result \<Rightarrow> devit_error + patch_result" where
  "perform_auto_revert run r =
     (case pr_rollback_cmd r of
        None \<Rightarrow> Inl (revert_error ''No rollback command available for revert'')
      | Some cmd \<Rightarrow>
          (let parts = split_whitespace cmd
           in if parts = [] then Inl (revert_error ''Empty rollback command'')
              else case run parts of
                NotStarted \<Rightarrow> Inl (revert_error ''Failed to execute rollback command: '')
              | Finished False _ err \<Rightarrow>
                  Inl (revert_error ''Rollback command failed with exit code: '')
              | Finished True out _ \<Rightarrow>
                  (let sha = (if contains out ''revert'' then
                       (case find (\<lambda>l. contains l ''revert'') (str_lines out) of
                          None \<Rightarrow> None
                        | Some l \<Rightarrow>
                            (if split_whitespace l = [] then None else Some (last (split_whitespace l))))
                     else None)
                   in Inr \<lparr>pr_success = True, pr_modified_files = [], pr_warnings = [],
                           pr_info_messages = [''Auto-revert executed: '' @ cmd],
                           pr_resulting_snapshot = None, pr_execution_time = 10 ^ 6,
                           pr_required_elevation = False, pr_commit_sha = sha,
                           pr_rollback_cmd = None, pr_test_results = None,
                           pr_auto_reverted = False, pr_reverted_sha = None\<rparr>)))"

text \<open>
  \<open>patch_apply_with_tests\<close>; \<open>tests\<close> is the outcome of the test run (or of reading its
  configuration), \<open>log\<close> that of the journal entry about the revert.
\<close>

definition patch_apply_with_tests ::
  "crates \<Rightarrow> patch_env \<Rightarrow> (string list \<Rightarrow> command_outcome) \<Rightarrow> devit_error + test_results
     \<Rightarrow> devit_error + unit \<Rightarrow> nat \<Rightarrow> patch_apply_request \<Rightarrow> approval_level \<Rightarrow> bool \<Rightarrow> core_engine
     \<Rightarrow> file_system \<Rightarrow> (devit_error + patch_result) \<times> core_engine \<times> file_system" where
  "patch_apply_with_tests lib env run tests log elapsed req level dry eng fs =
     (case patch_apply lib env (req_diff req) level dry (req_idempotency_key req) eng fs of
        (Inl e, eng', fs') \<Rightarrow> (Inl e, eng', fs')
      | (Inr r, eng', fs') \<Rightarrow>
          if dry \<or> \<not> req_post_tests req then (Inr r, eng', fs')
          else case tests of
            Inl e \<Rightarrow> (Inl e, eng', fs')
          | Inr results \<Rightarrow>
              if \<not> should_auto_revert eng' results level then
                (Inr (r\<lparr>pr_test_results := Some results, pr_execution_time := elapsed\<rparr>), eng', fs')
              else
                (case perform_auto_revert run r of
                   Inl e \<Rightarrow> (Inl e, eng', fs')
                 | Inr undo \<Rightarrow>
                     (case log of
                        Inl e \<Rightarrow> (Inl e, eng', fs')
                      | Inr _ \<Rightarrow>
                          (Inr (r\<lparr>pr_test_results := Some results, pr_auto_reverted := True,
                             pr_reverted_sha := pr_commit_sha undo,
                             pr_warnings := pr_warnings r
                               @ [''Tests failed - patch was automatically reverted''],
                             pr_info_messages := pr_info_messages r
                               @ (case pr_rollback_cmd undo of
                                    None \<Rightarrow> []
                                  | Some cmd \<Rightarrow> [''Auto-revert executed: '' @ cmd]),
                             pr_execution_time := elapsed\<rparr>), eng', fs'))))"

subsection \<open>The preview\<close>

record patch_preview =
  pp_affected_files :: "string list"
  pp_estimated_line_changes :: nat
  pp_affects_protected :: bool
  pp_affects_binaries :: bool
  pp_policy_warnings :: "string list"
  pp_recommended_approval :: approval_level
  pp_permission_changes :: "permission_change list"

text \<open>\<open>show_error\<close> is the text of an error.\<close>

definition path_safety_warnings ::
  "crates \<Rightarrow> (devit_error \<Rightarrow> string) \<Rightarrow> path_security_context \<Rightarrow> file_system \<Rightarrow> patch_change
     \<Rightarrow> string list" where
  "path_safety_warnings lib show_error ctx fs c =
     (case validate_patch_path (clean_path lib) ctx fs (pc_path c) of
        Inl e \<Rightarrow> [show_error e]
      | Inr _ \<Rightarrow> [])
     @ (if pc_is_symlink c then
          (case pc_symlink_target c of
             None \<Rightarrow> []
           | Some target \<Rightarrow>
               (case validate_symlink (clean_path lib) ctx fs (pc_path c) target of
                  Inl e \<Rightarrow> [show_error e]
                | Inr _ \<Rightarrow> []))
        else [])"

text \<open>\<open>base\<close>: the snapshot that was named, and whether it is still valid.\<close>

definition preview_patch ::
  "crates \<Rightarrow> (devit_error \<Rightarrow> string) \<Rightarrow> (string \<times> (devit_error + bool)) option \<Rightarrow> devit_error + unit
     \<Rightarrow> core_engine \<Rightarrow> file_system \<Rightarrow> string \<Rightarrow> devit_error + patch_preview" where
  "preview_patch lib show_error base log eng fs patch_content =
     (case (case base of
              None \<Rightarrow> Inr ()
            | Some (snapshot, Inl e) \<Rightarrow> Inl e
            | Some (snapshot, Inr valid) \<Rightarrow>
                if valid then Inr ()
                else Inl (SnapshotStale snapshot None
                  (Some ''Base snapshot is stale relative to workspace state''))) of
        Inl e \<Rightarrow> Inl e
      | Inr _ \<Rightarrow>
      (case classify_changes patch_content of
        Inl e \<Rightarrow> Inl e
      | Inr changes \<Rightarrow>
          if changes = [] then
            Inl (InvalidDiff ''Patch does not contain any file changes'' None)
          else
            (let files = unique_paths changes;
                 line_changes = sum_list (map (\<lambda>c. pc_lines_added c + pc_lines_removed c) changes);
                 binaries = (\<exists>c \<in> set changes. pc_is_binary c);
                 permissions = extract_permission_changes patch_content;
                 unsafe = concat (map (path_safety_warnings lib show_error (ce_path_security eng) fs) changes);
                 hits = protected_rule_hits (ce_protected_paths eng) files;
                 protected = (unsafe \<noteq> [] \<or> permissions \<noteq> [] \<or> hits \<noteq> []);
                 warnings = dedup_key id (sort (unsafe @ hits))
             in case log of
                  Inl e \<Rightarrow> Inl e
                | Inr _ \<Rightarrow>
                    Inr \<lparr>pp_affected_files = files, pp_estimated_line_changes = line_changes,
                         pp_affects_protected = protected, pp_affects_binaries = binaries,
                         pp_policy_warnings = warnings,
                         pp_recommended_approval =
                           engine_recommended_approval protected binaries line_changes (length files),
                         pp_permission_changes = permissions\<rparr>)))"

end
