(* ===== verification/Engine_Properties.thy ===== *)
theory Engine_Properties
  imports Core_Engine
begin

text \<open>
  What the patch pipeline guarantees: nothing is written before the gate has let the patch
  through, never outside the work tree, never for an \<open>Untrusted\<close> request or an environment
  file. Then the replay of cached results, the preview, and what the gate does not see.
\<close>

subsection \<open>The gate comes first\<close>

lemma gate_cache:
  "policy_gate (eng\<lparr>ce_cache := c\<rparr>) = policy_gate eng"
  "ce_path_security (eng\<lparr>ce_cache := c\<rparr>) = ce_path_security eng"
  by (simp_all add: fun_eq_iff policy_gate_def policy_context_of_def)

lemma check_patch_cache [simp]:
  "check_patch lib (eng\<lparr>ce_cache := c\<rparr>) t level fs = check_patch lib eng t level fs"
  unfolding check_patch_def gate_cache ..

lemma cached_result_engine: "snd (cached_result lib now key eng) = eng \<or>
    (\<exists>c. snd (cached_result lib now key eng) = eng\<lparr>ce_cache := c\<rparr>)"
  by (auto simp: cached_result_def split: option.splits prod.splits)

lemma cached_result_other:
  assumes "cached_result lib now key eng = (r, eng')"
  shows "check_patch lib eng' t level fs = check_patch lib eng t level fs"
    and "working_directory eng' = working_directory eng"
  using cached_result_engine [of lib now key eng] assms by (auto simp: working_directory_def)

lemma check_patch_ok:
  assumes "check_patch lib eng t level fs = Inr gp"
  shows "classify_changes t = Inr (gp_changes gp)"
    and "gp_changes gp \<noteq> []"
    and "\<forall>c \<in> set (gp_changes gp). path_gate lib (ce_path_security eng) fs c = Inr ()"
    and "\<exists>d. evaluate_changes (ce_policy eng) (policy_context_of eng (gp_changes gp) level) = Inr d
      \<and> d_allow d \<and> (d_requires_confirmation d \<longrightarrow> level = Ask)"
  using assms
  by (auto simp: check_patch_def Let_def try_all_Inr policy_gate_def split: sum.splits if_splits)

text \<open>The files after a call are those before it, or those a passed gate let the patcher make.\<close>

lemma patch_apply_files:
  obtains (same) "snd (snd (patch_apply lib env t level dry key eng fs)) = fs"
  | (applied) gp where "check_patch lib eng t level fs = Inr gp"
    and "snd (snd (patch_apply lib env t level dry key eng fs))
      = snd (apply_patch \<lparr>working_dir = working_directory eng, dry_run = dry\<rparr> t fs)"
proof -
  obtain c eng' where ce: "cached_result lib (env_lookup env) key eng = (c, eng')"
    by (cases "cached_result lib (env_lookup env) key eng") auto
  note other = cached_result_other [OF ce]
  show thesis
  proof (cases c)
    case (Some r)
    with ce show thesis by (intro same) (simp add: patch_apply_def)
  next
    case None
    show thesis
    proof (cases "check_patch lib eng t level fs")
      case (Inl e)
      with None ce show thesis
        by (intro same) (simp add: patch_apply_def run_patch_def other)
    next
      case (Inr gp)
      with None ce show thesis
        by (intro applied [OF Inr])
          (auto simp: patch_apply_def run_patch_def other split: sum.splits prod.splits)
    qed
  qed
qed

text \<open>
  C1: Files change only behind the gate: when applying a patch leaves other files than before,
  it was no dry run, the diff parsed to at least one change, the path of every change was
  accepted, and the policy allowed the changes, without asking for a confirmation unless the
  requested level is \<open>Ask\<close>.
\<close>

theorem files_change_only_behind_gate:
  assumes "snd (snd (patch_apply lib env t level dry key eng fs)) \<noteq> fs"
  shows "\<not> dry \<and> (\<exists>changes d. classify_changes t = Inr changes \<and> changes \<noteq> []
    \<and> (\<forall>c \<in> set changes. \<exists>p. validate_patch_path (clean_path lib) (ce_path_security eng) fs (pc_path c)
          = Inr p)
    \<and> evaluate_changes (ce_policy eng) (policy_context_of eng changes level) = Inr d
    \<and> d_allow d \<and> (d_requires_confirmation d \<longrightarrow> level = Ask))"
proof (cases rule: patch_apply_files [of lib env t level dry key eng fs])
  case same
  with assms show ?thesis by simp
next
  case (applied gp)
  have "\<not> dry"
    using assms applied(2) apply_files_dry
    by (auto simp: apply_patch_def split: sum.splits)
  moreover have "\<exists>p. validate_patch_path (clean_path lib) (ce_path_security eng) fs (pc_path c) = Inr p"
    if "c \<in> set (gp_changes gp)" for c
    using check_patch_ok(3) [OF applied(1)] that
    by (cases "validate_patch_path (clean_path lib) (ce_path_security eng) fs (pc_path c)")
      (auto simp: path_gate_def)
  ultimately show ?thesis
    using check_patch_ok(1,2,4) [OF applied(1)] by blast
qed

lemma untrusted_needs_confirmation:
  assumes "requested_approval_level ctx = Untrusted" and "evaluate_changes e ctx = Inr d"
    and "d_allow d"
  shows "d_requires_confirmation d"
proof -
  have "effective_level e ctx = Untrusted"
    using assms(1) by (auto simp: effective_level_def split: approval_level.splits)
  with assms show ?thesis
    by (auto simp: evaluate_changes_def evaluate_untrusted_def allow_with_confirmation_def
        dest!: check_common_deny split: option.splits)
qed

lemma untrusted_call_keeps_files:
  "snd (snd (patch_apply lib env t Untrusted dry key eng fs)) = fs"
proof (cases rule: patch_apply_files [of lib env t Untrusted dry key eng fs])
  case same
  then show ?thesis .
next
  case (applied gp)
  have "requested_approval_level (policy_context_of eng (gp_changes gp) Untrusted) = Untrusted"
    by (simp add: policy_context_of_def)
  then show ?thesis
    using check_patch_ok(4) [OF applied(1)] untrusted_needs_confirmation
    by (metis approval_level.distinct(1))
qed

text \<open>
  A request at level \<open>Untrusted\<close> never changes a file, whatever the patch, the engine and its
  cache: that level always asks for a confirmation, which only a request at \<open>Ask\<close> may skip.
\<close>

theorem untrusted_request_changes_nothing:
  "snd (snd (patch_apply lib env t Untrusted dry key eng fs)) = fs"
  by (rule untrusted_call_keeps_files)

lemma dot_env_denied:
  assumes "has_dot_env ctx" and "evaluate_changes e ctx = Inr d"
  shows "\<not> d_allow d"
  using assms untrusted_level.denies_env ask_level.denies_env moderate_level.denies_env
    trusted_level.denies_env privileged_level.denies_env
  by (cases rule: evaluate_changes_cases [of e ctx]) auto

text \<open>
  A patch with a file whose new path (or, without one, old path) is named \<open>.env\<close>, in any
  directory and case, changes no file at any level.
\<close>

theorem env_file_is_never_patched:
  assumes "from_diff t = Inr fps" and "fp \<in> set fps" and "is_dot_env (primary_path fp)"
  shows "snd (snd (patch_apply lib env t level dry key eng fs)) = fs"
proof (cases rule: patch_apply_files [of lib env t level dry key eng fs])
  case same
  then show ?thesis .
next
  case (applied gp)
  have "gp_changes gp = map classify_file fps"
    using check_patch_ok(1) [OF applied(1)] assms(1) by (simp add: classify_changes_def)
  then have "has_dot_env (policy_context_of eng (gp_changes gp) level)"
    using assms(2,3) by (force simp: has_dot_env_def policy_context_of_def policy_change_def
        classify_file_def)
  then show ?thesis
    using check_patch_ok(4) [OF applied(1)] dot_env_denied by blast
qed

text \<open>
  C2: The whole pipeline stays in the work tree: with a work tree that has no symbolic links, the
  engine's directory as its root, and a patch whose paths all name a file (an empty path leaves a
  temporary file beside the tree), no call writes outside it, at any level.
\<close>

theorem patch_apply_stays_in_work_tree:
  assumes "components (working_directory eng) = RootDir # map Normal root" and "work_tree fs root"
    and "\<forall>files. from_diff t = Inr files \<longrightarrow>
      (\<forall>fp \<in> set files. \<forall>q \<in> set (patch_paths fp). names_file q)"
  shows "only_below root fs (snd (snd (patch_apply lib env t level dry key eng fs)))"
proof (cases rule: patch_apply_files [of lib env t level dry key eng fs])
  case same
  then show ?thesis by simp
next
  case (applied gp)
  let ?p = "\<lparr>working_dir = working_directory eng, dry_run = dry\<rparr>"
  have "works_in ?p root"
    using assms(1) by (simp add: works_in_def)
  moreover have "file_paths_ok fp" if "from_diff t = Inr files" "validate_security ?p fs files = Inr ()"
    "fp \<in> set files" for files fp
    using that assms(3) validate_security_ok by (fastforce simp: file_paths_ok_def)
  ultimately show ?thesis
    using apply_files_confined [OF _ assms(2)] unfolding applied(2)
    by (auto simp: apply_patch_def confined_def split: sum.splits)
qed

subsection \<open>A concrete engine\<close>

definition plain_crates :: crates where
  "plain_crates = \<lparr>clean_path = id, result_to_json = \<lambda>_. None, result_of_json = \<lambda>_. None\<rparr>"

definition sample_env :: patch_env where
  "sample_env =
     \<lparr>env_lookup = 0, env_stored = 0, env_elapsed = 0, env_workspace = Inr ''/w'',
      env_commit = NotStarted, env_journal = Inr 7\<rparr>"

definition engine_at :: "approval_level \<Rightarrow> core_engine" where
  "engine_at level =
     \<lparr>ce_protected_paths = [''Cargo.toml''], ce_auto_revert = True,
      ce_working_directory = Some ''/w'', ce_auto_commit = False,
      ce_policy = new_policy_engine level Strict,
      ce_path_security = \<lparr>repo_root = [RootDir, Normal ''w''], allow_internal_symlinks = False\<rparr>,
      ce_cache = []\<rparr>"

definition files_after :: "string \<Rightarrow> approval_level \<Rightarrow> core_engine \<Rightarrow> file_system \<Rightarrow> file_system" where
  "files_after t level eng fs =
     snd (snd (patch_apply plain_crates sample_env t level False None eng fs))"

lemma sample_applied:
  "node_at (files_after (render_diff [sample_patch]) Moderate (engine_at Trusted) sample_tree)
     [''w'', ''src'', ''a.rs''] \<noteq> node_at sample_tree [''w'', ''src'', ''a.rs'']"
  by code_simp

lemma files_change_only_behind_gate_witness:
  "\<exists>changes. classify_changes (render_diff [sample_patch]) = Inr changes \<and> changes \<noteq> []
    \<and> (\<forall>c \<in> set changes. \<exists>p. validate_patch_path id (ce_path_security (engine_at Trusted)) sample_tree
         (pc_path c) = Inr p)"
proof -
  have "snd (snd (patch_apply plain_crates sample_env (render_diff [sample_patch]) Moderate False None
      (engine_at Trusted) sample_tree)) \<noteq> sample_tree"
    using sample_applied unfolding files_after_def by metis
  from files_change_only_behind_gate [OF this] show ?thesis
    by (auto simp: plain_crates_def)
qed

definition env_patch :: file_patch where
  "env_patch = sample_patch\<lparr>old_path := Some ''app/.ENV'', new_path := Some ''app/.ENV''\<rparr>"

lemma env_file_is_never_patched_witness:
  "snd (snd (patch_apply plain_crates sample_env (render_diff [env_patch])
     (Privileged [''app'']) False None (engine_at (Privileged [''app''])) sample_tree)) = sample_tree"
proof -
  have "from_diff (render_diff [env_patch]) = Inr [env_patch]" and "is_dot_env (primary_path env_patch)"
    by code_simp+
  then show ?thesis
    using env_file_is_never_patched by (metis list.set_intros(1))
qed

lemma patch_apply_stays_in_work_tree_witness:
  "only_below [''w''] sample_tree (files_after (render_diff [sample_patch]) Moderate (engine_at Trusted)
     sample_tree)"
  unfolding files_after_def
proof (rule patch_apply_stays_in_work_tree [OF _ sample_work_tree])
  show "components (working_directory (engine_at Trusted)) = RootDir # map Normal [''w'']"
    by code_simp
  show "\<forall>files. from_diff (render_diff [sample_patch]) = Inr files \<longrightarrow>
      (\<forall>fp \<in> set files. \<forall>q \<in> set (patch_paths fp). names_file q)"
    using sample_diff sample_names by (auto simp: list_all_iff)
qed

subsection \<open>The replay of a key\<close>

lemma get_retained:
  "hm_get m k = Some v \<Longrightarrow> P k v \<Longrightarrow> hm_get (hm_retain P m) k = Some v"
  by (induction m) (auto simp: hm_retain_def split: if_splits)

text \<open>
  Within an hour of a successful call, every call with the same idempotency key returns that
  call's result and touches no file, whatever its patch, level and dry-run flag are: the key
  alone identifies the request. So a dry run under a key makes the real application under that
  key report success without writing anything.
\<close>

theorem replay_ignores_the_request:
  assumes "patch_apply lib env t level dry (Some k) eng fs = (Inr r, eng1, fs1)"
    and "fst (cached_result lib (env_lookup env) (Some k) eng) = None"
    and "result_to_json lib r = Some json" and "result_of_json lib json = Some r"
    and "env_lookup env2 \<le> env_stored env + one_hour"
  shows "fst (patch_apply lib env2 t2 level2 dry2 (Some k) eng1 fs2) = Inr r
    \<and> snd (snd (patch_apply lib env2 t2 level2 dry2 (Some k) eng1 fs2)) = fs2"
proof -
  obtain eng' where "cached_result lib (env_lookup env) (Some k) eng = (None, eng')"
    using assms(2) by (metis prod.collapse)
  with assms(1,3) have eng1: "eng1 = eng'\<lparr>ce_cache := cache_insert (env_stored env) k json one_hour (ce_cache eng')\<rparr>"
    by (auto simp: patch_apply_def remember_def split: prod.splits sum.splits)
  let ?e = "\<lparr>response = json, created_at = env_stored env, ttl = one_hour\<rparr>"
  have "hm_get (ce_cache eng1) k = Some ?e"
    by (simp add: eng1 cache_insert_def hm_get_update)
  moreover have alive: "\<not> is_expired (env_lookup env2) ?e"
    using assms(5) by (simp add: is_expired_def)
  ultimately have "hm_get (cache_cleanup (env_lookup env2) (ce_cache eng1)) k = Some ?e"
    unfolding cache_cleanup_def by (intro get_retained) simp_all
  then have "fst (cached_result lib (env_lookup env2) (Some k) eng1) = Some r"
    using alive assms(4) by (simp add: cached_result_def cache_get_def)
  then show ?thesis
    by (cases "cached_result lib (env_lookup env2) (Some k) eng1") (simp add: patch_apply_def)
qed

text \<open>A store for one result: enough to see a dry run come back for the real call.\<close>

definition dry_outcome :: patch_result where
  "dry_outcome =
     (case fst (patch_apply plain_crates sample_env (render_diff [sample_patch]) Moderate True None
        (engine_at Trusted) sample_tree) of Inr r \<Rightarrow> r)"

definition one_result_crates :: crates where
  "one_result_crates =
     \<lparr>clean_path = id, result_to_json = (\<lambda>r. if r = dry_outcome then Some ''{}'' else None),
      result_of_json = (\<lambda>s. if s = ''{}'' then Some dry_outcome else None)\<rparr>"

lemma replay_ignores_the_request_witness:
  "\<exists>eng1. snd (snd (patch_apply one_result_crates sample_env (render_diff [sample_patch]) Moderate
      False (Some ''k'') eng1 sample_tree)) = sample_tree"
proof -
  let ?call = "patch_apply one_result_crates sample_env (render_diff [sample_patch]) Moderate True
    (Some ''k'') (engine_at Trusted) sample_tree"
  have "fst ?call = Inr dry_outcome" by code_simp
  then obtain eng1 fs1 where call: "?call = (Inr dry_outcome, eng1, fs1)"
    by (metis prod.collapse)
  have miss: "fst (cached_result one_result_crates (env_lookup sample_env) (Some ''k'') (engine_at Trusted)) = None"
    by code_simp
  have "snd (snd (patch_apply one_result_crates sample_env (render_diff [sample_patch]) Moderate
      False (Some ''k'') eng1 sample_tree)) = sample_tree"
    using replay_ignores_the_request [OF call miss, of "''{}''" sample_env]
    by (simp add: one_result_crates_def sample_env_def)
  then show ?thesis ..
qed

subsection \<open>The recommended level\<close>

text \<open>
  The recommended level never falls when a patch grows: more changed lines, more files, a
  protected path or a binary file can only raise it.
\<close>

theorem recommendation_monotone:
  assumes "prot \<longrightarrow> prot'" and "bin \<longrightarrow> bin'" and "n \<le> n'" and "f \<le> f'"
  shows "security_rank (engine_recommended_approval prot bin n f)
    \<le> security_rank (engine_recommended_approval prot' bin' n' f')"
  using assms by (auto simp: engine_recommended_approval_def Let_def)

lemma recommendation_monotone_witness:
  "security_rank (engine_recommended_approval False False 10 1) = 0
   \<and> security_rank (engine_recommended_approval False False 10 1)
      \<le> security_rank (engine_recommended_approval True False 500 3)
   \<and> security_rank (engine_recommended_approval True False 500 3) = 2"
  using recommendation_monotone [of False True False False 10 500 1 3]
  by (simp add: engine_recommended_approval_def)

text \<open>
  What the preview recommends is refused for every patch it finds harmless: without protected
  paths, binaries, many lines or files the recommendation is \<open>Untrusted\<close>, and a call at the
  recommended level then changes no file.
\<close>

theorem harmless_recommendation_is_refused:
  assumes "preview_patch lib show_error base log eng fs t = Inr p"
    and "\<not> pp_affects_protected p" and "\<not> pp_affects_binaries p"
    and "pp_estimated_line_changes p \<le> 400" and "length (pp_affected_files p) \<le> 10"
  shows "pp_recommended_approval p = Untrusted
    \<and> snd (snd (patch_apply lib env t (pp_recommended_approval p) dry key eng fs)) = fs"
proof -
  have "pp_recommended_approval p
      = engine_recommended_approval (pp_affects_protected p) (pp_affects_binaries p)
          (pp_estimated_line_changes p) (length (pp_affected_files p))"
    using assms(1) by (auto simp: preview_patch_def Let_def split: sum.splits if_splits)
  then have level: "pp_recommended_approval p = Untrusted"
    using assms(2-5) by (simp add: engine_recommended_approval_def)
  moreover have "snd (snd (patch_apply lib env t Untrusted dry key eng fs)) = fs"
    by (rule untrusted_call_keeps_files)
  ultimately show ?thesis by simp
qed

lemma harmless_recommendation_is_refused_witness:
  "\<exists>p. preview_patch plain_crates (\<lambda>_. []) None (Inr ()) (engine_at Trusted) sample_tree
         (render_diff [sample_patch]) = Inr p
     \<and> snd (snd (patch_apply plain_crates sample_env (render_diff [sample_patch])
         (pp_recommended_approval p) False None (engine_at Trusted) sample_tree)) = sample_tree"
proof -
  let ?v = "preview_patch plain_crates (\<lambda>_. []) None (Inr ()) (engine_at Trusted) sample_tree
    (render_diff [sample_patch])"
  have "case ?v of Inl _ \<Rightarrow> False | Inr p \<Rightarrow> \<not> pp_affects_protected p \<and> \<not> pp_affects_binaries p
      \<and> pp_estimated_line_changes p \<le> 400 \<and> length (pp_affected_files p) \<le> 10"
    by code_simp
  then obtain p where v: "?v = Inr p" and "\<not> pp_affects_protected p" "\<not> pp_affects_binaries p"
      "pp_estimated_line_changes p \<le> 400" "length (pp_affected_files p) \<le> 10"
    by (auto split: sum.splits)
  from harmless_recommendation_is_refused [OF this] v show ?thesis by blast
qed

subsection \<open>What the gate does not see\<close>

text \<open>
  A deletion whose header names another new path: the policy judges \<open>README.md\<close>, the patcher
  deletes \<open>.env\<close>.
\<close>

definition env_tree :: file_system where
  "env_tree = sample_tree\<lparr>nodes := ([''w'', ''.env''], File ''KEY=1'') # nodes sample_tree\<rparr>"

definition hidden_deletion :: string where
  "hidden_deletion =
     join_lines [''diff --git a/.env b/README.md'', ''deleted file mode 100644'', ''--- a/.env'',
       ''+++ b/README.md'', ''@@ -1 +0,0 @@'', ''-KEY=1'']"

theorem hidden_deletion_removes_env_file:
  "node_at env_tree [''w'', ''.env''] = Some (File ''KEY=1'')
   \<and> node_at (files_after hidden_deletion Moderate (engine_at Trusted) env_tree) [''w'', ''.env''] = None"
  by code_simp

text \<open>
  An engine whose default is \<open>Untrusted\<close> asks for a confirmation of every change; a request at
  \<open>Ask\<close> takes the question for a warning and applies the patch.
\<close>

theorem ask_request_skips_confirmation:
  "node_at (files_after (render_diff [sample_patch]) Ask (engine_at Untrusted) sample_tree)
     [''w'', ''src'', ''a.rs''] \<noteq> node_at sample_tree [''w'', ''src'', ''a.rs'']"
  by code_simp

text \<open>
  The rules about symbolic links and submodules never fire for a patch: the classification
  marks no change as either, so the link checks of the gate are dead code and the policy never
  sees a dangerous link, whatever the diff says.
\<close>

theorem classification_sees_no_links:
  assumes "classify_changes t = Inr changes"
  shows "\<not> has_dangerous_symlink (policy_context_of eng changes level)
    \<and> (\<forall>c \<in> set changes. \<not> pc_is_symlink c \<and> \<not> pc_is_submodule c)
    \<and> (\<forall>c \<in> set changes. path_gate lib ctx fs c
         = map_sum id (\<lambda>_. ()) (validate_patch_path (clean_path lib) ctx fs (pc_path c)))"
proof -
  have no: "\<not> pc_is_symlink c \<and> \<not> pc_is_submodule c" if "c \<in> set changes" for c
    using assms that by (auto simp: classify_changes_def classify_file_def split: sum.splits)
  moreover have "path_gate lib ctx fs c
      = map_sum id (\<lambda>_. ()) (validate_patch_path (clean_path lib) ctx fs (pc_path c))"
    if "c \<in> set changes" for c
    using no [OF that] by (simp add: path_gate_def split: sum.split)
  moreover have "\<not> has_dangerous_symlink (policy_context_of eng changes level)"
    using no by (auto simp: has_dangerous_symlink_def policy_context_of_def policy_change_def
        is_dangerous_symlink_def)
  ultimately show ?thesis by blast
qed

lemma classification_sees_no_links_witness:
  "\<exists>c. classify_changes (join_lines [''diff --git a/l b/l'', ''new file mode 120000'', ''--- /dev/null'',
        ''+++ b/l'', ''@@ -0,0 +1 @@'', ''+/etc/passwd'']) = Inr [c]
     \<and> \<not> has_dangerous_symlink (policy_context_of (engine_at Trusted) [c] Trusted)"
proof -
  let ?t = "join_lines [''diff --git a/l b/l'', ''new file mode 120000'', ''--- /dev/null'',
        ''+++ b/l'', ''@@ -0,0 +1 @@'', ''+/etc/passwd'']"
  have "case classify_changes ?t of Inl _ \<Rightarrow> False | Inr cs \<Rightarrow> length cs = 1"
    by code_simp
  then obtain c where "classify_changes ?t = Inr [c]"
    by (auto simp: length_Suc_conv split: sum.splits)
  with classification_sees_no_links [OF this] show ?thesis by blast
qed

end
