(* ===== verification/Task_Types.thy ===== *)
theory Task_Types
  imports Json
begin

text \<open>
  The task types of \<open>crates/orchestration/src/types.rs\<close>: tasks and notifications, the
  configuration with its defaults, the status filter, and the text form of a rate limit. A
  point in time (\<open>DateTime<Utc>\<close>) is an integer.
\<close>

datatype task_status = Pending | InProgress | Completed | Failed | Cancelled

record task_notification =
  received_at :: int
  n_status :: string
  n_summary :: string
  n_details :: "json option"
  n_evidence :: "json option"
  auto_generated :: bool
  n_metadata :: "json option"

record delegated_task =
  task_id :: string
  goal :: string
  delegated_to :: string
  task_created_at :: int
  timeout_secs :: nat
  task_status :: task_status
  task_context :: "json option"
  watch_patterns :: "string list"
  last_activity :: int
  notifications :: "task_notification list"
  task_working_dir :: "string option"
  response_format :: "string option"
  task_model :: "string option"
  model_resolved :: "string option"

record orchestration_summary =
  total_active :: nat
  total_completed :: nat
  total_failed :: nat
  oldest_active_task :: "string option"

record orchestration_status =
  st_active_tasks :: "delegated_task list"
  st_completed_tasks :: "delegated_task list"
  st_summary :: orchestration_summary

datatype orchestration_mode = LocalMode | DaemonMode | AutoMode

record rate_limit =
  max_actions :: nat
  per_seconds :: nat

definition per_minute :: "nat \<Rightarrow> rate_limit" where
  "per_minute n = \<lparr>max_actions = n, per_seconds = 60\<rparr>"

definition default_rate_limit :: rate_limit where
  "default_rate_limit = per_minute 10"

record capability_toggle =
  cap_enabled :: bool
  cap_rate_limit :: rate_limit

definition default_toggle :: capability_toggle where
  "default_toggle = \<lparr>cap_enabled = False, cap_rate_limit = default_rate_limit\<rparr>"

record orchestration_config =
  max_concurrent_tasks :: nat
  default_timeout_secs :: nat
  default_watch_patterns :: "string list"
  mode :: orchestration_mode
  daemon_socket :: "string option"
  auto_start_daemon :: bool
  daemon_start_timeout_ms :: nat
  screenshot_capability :: capability_toggle

definition default_config :: orchestration_config where
  "default_config =
     \<lparr>max_concurrent_tasks = 5, default_timeout_secs = 30 * 60,
      default_watch_patterns = [''*.rs'', ''Cargo.toml''], mode = AutoMode,
      daemon_socket = Some ''/tmp/devitd.sock'', auto_start_daemon = True,
      daemon_start_timeout_ms = 3000, screenshot_capability = default_toggle\<rparr>"

datatype status_filter = FilterAll | FilterActive | FilterCompleted | FilterFailed

definition filter_of_str :: "string option \<Rightarrow> status_filter" where
  "filter_of_str value =
     (let v = (case value of Some s \<Rightarrow> s | None \<Rightarrow> ''all'')
      in if v = ''active'' then FilterActive
         else if v = ''completed'' then FilterCompleted
         else if v = ''failed'' then FilterFailed
         else FilterAll)"

fun filter_text :: "status_filter \<Rightarrow> string" where
  "filter_text FilterAll = ''all''"
| "filter_text FilterActive = ''active''"
| "filter_text FilterCompleted = ''completed''"
| "filter_text FilterFailed = ''failed''"

lemma filter_round_trip: "filter_of_str (Some (filter_text f)) = f"
  by (cases f) (simp_all add: filter_of_str_def)

subsection \<open>Rate limits as text\<close>

definition u64_max :: nat where
  "u64_max = 2 ^ 64 - 1"

definition parse_free_form_window :: "string \<Rightarrow> nat option" where
  "parse_free_form_window raw =
     (let trimmed = trim raw
      in if trimmed = [] then Some 60
         else
           (case (case strip_suffix trimmed ''h'' of
                    Some s \<Rightarrow> (s, 3600)
                  | None \<Rightarrow>
                      (case strip_suffix trimmed ''m'' of
                         Some s \<Rightarrow> (s, 60)
                       | None \<Rightarrow>
                           (case strip_suffix trimmed ''s'' of
                              Some s \<Rightarrow> (s, 1)
                            | None \<Rightarrow> (trimmed, 1)))) of
              (num_part, multiplier) \<Rightarrow>
                (case parse_u64 (trim num_part) of
                   None \<Rightarrow> None
                 | Some value \<Rightarrow>
                     (let seconds = min (value * multiplier) u64_max
                      in if seconds = 0 then None else Some seconds))))"

text \<open>\<open>trim_matches(|c| c == 's' || c == ' ')\<close>.\<close>

definition trim_s_space :: "string \<Rightarrow> string" where
  "trim_s_space s =
     (let drop_them = dropWhile (\<lambda>c. c = CHR ''s'' \<or> c = CHR '' '')
      in rev (drop_them (rev (drop_them s))))"

definition parse_rate_limit_str :: "string \<Rightarrow> string + rate_limit" where
  "parse_rate_limit_str raw =
     (let normalized = to_lowercase (trim raw)
      in if normalized = [] then Inr default_rate_limit
         else
           case (case split_once (CHR ''/'') normalized of
                   Some (left, right) \<Rightarrow> Some (trim left, trim right)
                 | None \<Rightarrow>
                     (case find_str ''per'' normalized of
                        Some idx \<Rightarrow>
                          Some (trim (take idx normalized),
                                trim (trim_start_matches (drop idx normalized) ''per''))
                      | None \<Rightarrow> None)) of
             None \<Rightarrow> Inl (''invalid rate limit '' @ [CHR 0x27] @ raw @ [CHR 0x27])
           | Some (count_str, period_str) \<Rightarrow>
               (case parse_u32 count_str of
                  None \<Rightarrow> Inl (''invalid rate limit count '' @ [CHR 0x27] @ count_str @ [CHR 0x27])
                | Some count \<Rightarrow>
                    (let window = trim_s_space period_str
                     in if window = ''sec'' \<or> window = ''second'' then
                          Inr \<lparr>max_actions = count, per_seconds = 1\<rparr>
                        else if window = ''min'' \<or> window = ''minute'' then
                          Inr \<lparr>max_actions = count, per_seconds = 60\<rparr>
                        else if window = ''hour'' \<or> window = ''hr'' then
                          Inr \<lparr>max_actions = count, per_seconds = 3600\<rparr>
                        else
                          (case parse_free_form_window window of
                             None \<Rightarrow>
                               Inl (''invalid rate limit window '' @ [CHR 0x27] @ period_str @ [CHR 0x27])
                           | Some secs \<Rightarrow> Inr \<lparr>max_actions = count, per_seconds = secs\<rparr>))))"

definition serialize_rate_limit :: "rate_limit \<Rightarrow> string" where
  "serialize_rate_limit v =
     (if per_seconds v = 1 then show_nat (max_actions v) @ ''/second''
      else if per_seconds v = 60 then show_nat (max_actions v) @ ''/minute''
      else if per_seconds v = 3600 then show_nat (max_actions v) @ ''/hour''
      else show_nat (max_actions v) @ ''/'' @ show_nat (per_seconds v) @ ''s'')"

definition parse_rate_limit_value :: "json \<Rightarrow> string + rate_limit" where
  "parse_rate_limit_value value =
     (case value of
        JStr s \<Rightarrow> parse_rate_limit_str s
      | JObj _ \<Rightarrow>
          (case Option.bind (or_else (or_else (jget value ''count'') (jget value ''max''))
                  (jget value ''max_actions'')) as_u64 of
             None \<Rightarrow> Inl ''missing count field''
           | Some count \<Rightarrow>
               (case Option.bind (or_else (jget value ''per_seconds'') (jget value ''window_secs''))
                       as_u64 of
                  None \<Rightarrow> Inl ''missing per_seconds field''
                | Some secs \<Rightarrow>
                    if count < 2 ^ 32 then Inr \<lparr>max_actions = count, per_seconds = secs\<rparr>
                    else Inl ''max_actions exceeds u32''))
      | JInt _ \<Rightarrow>
          (case as_u64 value of
             None \<Rightarrow> Inl ''invalid numeric rate limit''
           | Some count \<Rightarrow>
               if count < 2 ^ 32 then Inr (per_minute count) else Inl ''invalid numeric rate limit'')
      | JFloat _ \<Rightarrow> Inl ''invalid numeric rate limit''
      | _ \<Rightarrow> Inl ''unsupported rate limit format'')"

lemma trim_s_space_show:
  "trim_s_space (show_nat n @ ''s'') = show_nat n" "trim_s_space (show_nat n) = show_nat n"
proof -
  have front: "dropWhile (\<lambda>c. c = CHR ''s'' \<or> c = CHR '' '') (show_nat n @ r) = show_nat n @ r" for r
    using show_nat_ends(3) [of n] by (cases "show_nat n") auto
  have rear: "dropWhile (\<lambda>c. c = CHR ''s'' \<or> c = CHR '' '') (rev (show_nat n)) = rev (show_nat n)"
  proof -
    obtain ds d where d: "show_nat n = ds @ [d]"
      by (metis append_butlast_last_id show_nat_nonempty)
    then have "d \<noteq> CHR ''s''" "d \<noteq> CHR '' ''"
      using show_nat_ends(4) [of n] by auto
    with d show ?thesis by simp
  qed
  show "trim_s_space (show_nat n @ ''s'') = show_nat n" "trim_s_space (show_nat n) = show_nat n"
    using front [of "[]"] front [of "''s''"] rear by (simp_all add: trim_s_space_def Let_def)
qed

lemma free_form_show:
  assumes "n < 2 ^ 64"
  shows "parse_free_form_window (show_nat n) = (if n = 0 then None else Some n)"
proof -
  have no: "strip_suffix (show_nat n) [c] = None" if "c \<in> {CHR ''h'', CHR ''m'', CHR ''s''}" for c
    using show_nat_ends(4) [of n] that by (auto simp: strip_suffix_def suffix_def)
  have p: "parse_u64 (show_nat n) = Some n"
    using assms by (rule parse_show)
  have "n \<le> u64_max"
    using assms unfolding u64_max_def by simp
  then show ?thesis
    using no p by (simp add: parse_free_form_window_def Let_def)
qed

text \<open>How a limit of the form \<open>count/window\<close> is read.\<close>

lemma parse_rate_limit_show:
  assumes "n < 2 ^ 32" and "w \<noteq> []" and "map lower_char w = w" and "token_char (hd w)"
    and "token_char (last w)"
  shows "parse_rate_limit_str (show_nat n @ CHR ''/'' # w)
    = (let window = trim_s_space w
       in if window = ''sec'' \<or> window = ''second'' then Inr \<lparr>max_actions = n, per_seconds = 1\<rparr>
          else if window = ''min'' \<or> window = ''minute'' then Inr \<lparr>max_actions = n, per_seconds = 60\<rparr>
          else if window = ''hour'' \<or> window = ''hr'' then Inr \<lparr>max_actions = n, per_seconds = 3600\<rparr>
          else (case parse_free_form_window window of
                  None \<Rightarrow> Inl (''invalid rate limit window '' @ [CHR 0x27] @ w @ [CHR 0x27])
                | Some secs \<Rightarrow> Inr \<lparr>max_actions = n, per_seconds = secs\<rparr>))"
proof -
  let ?t = "show_nat n @ CHR ''/'' # w"
  have t: "trim ?t = ?t"
    using assms show_nat_ends(1) [of n] by (intro trim_token) auto
  have l: "to_lowercase ?t = ?t"
    using assms(3) by (simp add: to_lowercase_def lower_char_def)
  have sp: "split_once (CHR ''/'') ?t = Some (show_nat n, w)"
    using digit_facts by (intro split_once_append) blast
  have w: "trim w = w"
    using assms by (intro trim_token) auto
  have p: "parse_u32 (show_nat n) = Some n"
    using assms(1) by (rule parse_show)
  show ?thesis
    unfolding parse_rate_limit_str_def t l Let_def sp using w p by simp
qed

lemma unit_words:
  "trim_s_space ''second'' = ''econd''" "trim_s_space ''minute'' = ''minute''"
  "trim_s_space ''hour'' = ''hour''" "parse_free_form_window ''econd'' = None"
  by code_simp+

lemmas word_defs = lower_char_def token_char_def ws_seqs_def

lemma read_second:
  assumes "n < 2 ^ 32"
  shows "parse_rate_limit_str (show_nat n @ ''/second'')
    = Inl (''invalid rate limit window '' @ [CHR 0x27] @ ''second'' @ [CHR 0x27])"
  using parse_rate_limit_show [OF assms, of "''second''"] by (simp add: word_defs unit_words)

lemma read_minute:
  assumes "n < 2 ^ 32"
  shows "parse_rate_limit_str (show_nat n @ ''/minute'') = Inr \<lparr>max_actions = n, per_seconds = 60\<rparr>"
  using parse_rate_limit_show [OF assms, of "''minute''"] by (simp add: word_defs unit_words)

lemma read_hour:
  assumes "n < 2 ^ 32"
  shows "parse_rate_limit_str (show_nat n @ ''/hour'') = Inr \<lparr>max_actions = n, per_seconds = 3600\<rparr>"
  using parse_rate_limit_show [OF assms, of "''hour''"] by (simp add: word_defs unit_words)

lemma read_seconds:
  assumes "n < 2 ^ 32" and "m < 2 ^ 64"
  shows "parse_rate_limit_str (show_nat n @ ''/'' @ show_nat m @ ''s'')
    = (if m = 0 then Inl (''invalid rate limit window '' @ [CHR 0x27] @ (show_nat m @ ''s'') @ [CHR 0x27])
       else Inr \<lparr>max_actions = n, per_seconds = m\<rparr>)"
proof -
  let ?w = "show_nat m @ ''s''"
  have words: "show_nat m \<noteq> w"
    if "w \<in> {''sec'', ''second'', ''min'', ''minute'', ''hour'', ''hr''}" for w
  proof
    assume "show_nat m = w"
    then have "hd w \<notin> {CHR ''s'', CHR ''m'', CHR ''h''}"
      using digit_facts [OF hd_in_set [OF show_nat_nonempty], of m] by auto
    with that show False by auto
  qed
  have "token_char (CHR ''s'')" "lower_char (CHR ''s'') = CHR ''s''"
    by (simp_all add: word_defs)
  then show ?thesis
    using parse_rate_limit_show [OF assms(1), of ?w] words show_nat_ends(1) [of m]
    by (simp add: trim_s_space_show free_form_show [OF assms(2)])
qed

text \<open>
  A rate limit that is written out reads back exactly when its window is longer than one
  second: the word \<open>second\<close> loses its first letter to the trimming of a plural \<open>s\<close>, and a window
  of zero seconds is refused. Every other limit round trips.
\<close>

theorem rate_limit_round_trip:
  assumes "max_actions v < 2 ^ 32" and "per_seconds v < 2 ^ 64"
  shows "parse_rate_limit_str (serialize_rate_limit v) = Inr v \<longleftrightarrow> 1 < per_seconds v"
proof -
  note read = read_second [OF assms(1)] read_minute [OF assms(1)] read_hour [OF assms(1)]
    read_seconds [OF assms]
  have "v = \<lparr>max_actions = max_actions v, per_seconds = per_seconds v\<rparr>" by simp
  with read show ?thesis
    by (auto simp: serialize_rate_limit_def)
qed

lemma rate_limit_round_trip_witness:
  "parse_rate_limit_str (serialize_rate_limit \<lparr>max_actions = 5, per_seconds = 90\<rparr>)
     = Inr \<lparr>max_actions = 5, per_seconds = 90\<rparr>
   \<and> parse_rate_limit_str (serialize_rate_limit \<lparr>max_actions = 5, per_seconds = 1\<rparr>)
     \<noteq> Inr \<lparr>max_actions = 5, per_seconds = 1\<rparr>"
  using rate_limit_round_trip [of "\<lparr>max_actions = 5, per_seconds = 90\<rparr>"]
    rate_limit_round_trip [of "\<lparr>max_actions = 5, per_seconds = 1\<rparr>"]
  by simp

text \<open>A bare \<open>s\<close> as the window is trimmed away, and the limit is one per minute.\<close>

theorem seconds_window_is_a_minute:
  "parse_rate_limit_str ''5/s'' = Inr \<lparr>max_actions = 5, per_seconds = 60\<rparr>"
  by code_simp

end
