(* ===== verification/Local_Backend.thy ===== *)
theory Local_Backend
  imports Task_Types
begin

text \<open>
  The in-process backend of \<open>crates/orchestration/src/local.rs\<close>: two tables of tasks behind a
  mutex, so every operation is one step. The identifier, the clocks and the arguments are
  inputs of a step; a poisoned mutex is not modelled.
\<close>

record local_state =
  l_active :: "(string, delegated_task) hmap"
  l_completed :: "(string, delegated_task) hmap"
  l_last_cleanup :: "nat option"

definition new_local :: local_state where
  "new_local = \<lparr>l_active = [], l_completed = [], l_last_cleanup = None\<rparr>"

record delegate_result =
  dr_task_id :: string
  dr_timeout_secs :: nat

record delegate_args =
  a_goal :: string
  a_delegated_to :: string
  a_model :: "string option"
  a_timeout :: "nat option"
  a_watch_patterns :: "string list option"
  a_context :: "json option"
  a_working_dir :: "string option"
  a_response_format :: "string option"

definition local_delegate ::
  "orchestration_config \<Rightarrow> string \<Rightarrow> int \<Rightarrow> delegate_args \<Rightarrow> local_state
     \<Rightarrow> (string + delegate_result) \<times> local_state" where
  "local_delegate cfg uuid now a s =
     (if max_concurrent_tasks cfg \<le> length (l_active s) then
        (Inl ''Max delegated tasks reached, close some before creating new ones'', s)
      else
        (let secs = (case a_timeout a of Some d \<Rightarrow> d | None \<Rightarrow> default_timeout_secs cfg);
             task = \<lparr>task_id = uuid, goal = a_goal a, delegated_to = a_delegated_to a,
                     task_created_at = now, timeout_secs = secs, task_status = Pending,
                     task_context = a_context a,
                     watch_patterns = (case a_watch_patterns a of Some ps \<Rightarrow> ps
                       | None \<Rightarrow> default_watch_patterns cfg),
                     last_activity = now, notifications = [],
                     task_working_dir = a_working_dir a, response_format = a_response_format a,
                     task_model = a_model a, model_resolved = None\<rparr>
         in (Inr \<lparr>dr_task_id = uuid, dr_timeout_secs = secs\<rparr>,
             s\<lparr>l_active := hm_insert uuid task (l_active s)\<rparr>)))"

definition notified_status :: "string \<Rightarrow> task_status" where
  "notified_status status =
     (if status = ''completed'' then Completed
      else if status = ''failed'' then Failed
      else if status = ''cancelled'' then Cancelled
      else InProgress)"

definition is_terminal :: "task_status \<Rightarrow> bool" where
  "is_terminal st = (st \<in> {Completed, Failed, Cancelled})"

record notify_args =
  na_status :: string
  na_summary :: string
  na_details :: "json option"
  na_evidence :: "json option"

definition local_notification :: "int \<Rightarrow> notify_args \<Rightarrow> task_notification" where
  "local_notification now a =
     \<lparr>received_at = now, n_status = na_status a, n_summary = na_summary a,
      n_details = na_details a, n_evidence = na_evidence a, auto_generated = False,
      n_metadata = None\<rparr>"

definition notified_task :: "int \<Rightarrow> int \<Rightarrow> notify_args \<Rightarrow> delegated_task \<Rightarrow> delegated_task" where
  "notified_task received now a task =
     task\<lparr>notifications := notifications task @ [local_notification received a],
          last_activity := now, task_status := notified_status (na_status a)\<rparr>"

definition local_notify ::
  "int \<Rightarrow> int \<Rightarrow> string \<Rightarrow> notify_args \<Rightarrow> local_state \<Rightarrow> (string + unit) \<times> local_state" where
  "local_notify received now tid a s =
     (if eq_ignore_ascii_case (na_status a) ''ack'' then (Inr (), s)
      else case hm_get (l_active s) tid of
        None \<Rightarrow> (Inl (''Unknown task: '' @ tid), s)
      | Some task \<Rightarrow>
          (let rest = hm_remove tid (l_active s);
               task' = notified_task received now a task
           in if is_terminal (task_status task') then
                (Inr (), s\<lparr>l_active := rest,
                           l_completed := hm_insert tid task' (l_completed s)\<rparr>)
              else (Inr (), s\<lparr>l_active := hm_insert tid task' rest\<rparr>)))"

definition has_status :: "task_status \<Rightarrow> delegated_task \<Rightarrow> bool" where
  "has_status st task = (task_status task = st)"

definition local_summary :: "local_state \<Rightarrow> orchestration_summary" where
  "local_summary s =
     \<lparr>total_active = length (l_active s),
      total_completed = length (filter (has_status Completed) (hm_values (l_completed s))),
      total_failed = length (filter (has_status Failed) (hm_values (l_completed s))),
      oldest_active_task = map_option task_id (min_by_key task_created_at (hm_values (l_active s)))\<rparr>"

definition local_status :: "status_filter \<Rightarrow> local_state \<Rightarrow> orchestration_status" where
  "local_status f s =
     \<lparr>st_active_tasks =
        (case f of
           FilterActive \<Rightarrow> hm_values (l_active s)
         | FilterFailed \<Rightarrow> filter (has_status Failed) (hm_values (l_completed s))
         | FilterCompleted \<Rightarrow> []
         | FilterAll \<Rightarrow> hm_values (l_active s)),
      st_completed_tasks =
        (case f of
           FilterCompleted \<Rightarrow> filter (has_status Completed) (hm_values (l_completed s))
         | FilterActive \<Rightarrow> []
         | FilterAll \<Rightarrow> hm_values (l_completed s)
         | FilterFailed \<Rightarrow> hm_values (l_completed s)),
      st_summary = local_summary s\<rparr>"

text \<open>
  \<open>inst\<close> is the monotonic clock and \<open>utc\<close> the wall clock, both in seconds; a clean-up runs at
  most every 30 seconds and forgets completed tasks that were quiet for two hours.
\<close>

definition local_cleanup :: "nat \<Rightarrow> int \<Rightarrow> local_state \<Rightarrow> local_state" where
  "local_cleanup inst utc s =
     (case l_last_cleanup s of
        Some t \<Rightarrow>
          if inst - t < 30 then s
          else s\<lparr>l_last_cleanup := Some inst,
                 l_completed := hm_retain (\<lambda>_ task. utc - 7200 < last_activity task) (l_completed s)\<rparr>
      | None \<Rightarrow>
          s\<lparr>l_last_cleanup := Some inst,
            l_completed := hm_retain (\<lambda>_ task. utc - 7200 < last_activity task) (l_completed s)\<rparr>)"

definition local_get_task :: "string \<Rightarrow> local_state \<Rightarrow> delegated_task option" where
  "local_get_task tid s =
     (case hm_get (l_active s) tid of
        Some task \<Rightarrow> Some task
      | None \<Rightarrow> hm_get (l_completed s) tid)"

subsection \<open>Runs of the backend\<close>

text \<open>One step; the identifier of a new task is one no table holds (\<open>Uuid::new_v4\<close>).\<close>

inductive local_step :: "orchestration_config \<Rightarrow> local_state \<Rightarrow> local_state \<Rightarrow> bool"
  for cfg where
  delegate: "local_get_task uuid s = None \<Longrightarrow> snd (local_delegate cfg uuid now a s) = s'
    \<Longrightarrow> local_step cfg s s'"
| notify: "snd (local_notify received now tid n s) = s' \<Longrightarrow> local_step cfg s s'"
| cleanup: "local_cleanup inst utc s = s' \<Longrightarrow> local_step cfg s s'"

inductive local_reachable :: "orchestration_config \<Rightarrow> local_state \<Rightarrow> bool" for cfg where
  start: "local_reachable cfg new_local"
| step: "local_reachable cfg s \<Longrightarrow> local_step cfg s s' \<Longrightarrow> local_reachable cfg s'"

inductive_cases local_stepE: "local_step cfg s s'"

definition running :: "delegated_task \<Rightarrow> bool" where
  "running task = (task_status task \<in> {Pending, InProgress})"

definition finished :: "delegated_task \<Rightarrow> bool" where
  "finished task = is_terminal (task_status task)"

definition local_inv :: "orchestration_config \<Rightarrow> local_state \<Rightarrow> bool" where
  "local_inv cfg s =
     (keyed task_id running (l_active s) \<and> keyed task_id finished (l_completed s)
      \<and> length (l_active s) \<le> max_concurrent_tasks cfg
      \<and> (\<forall>k. hm_get (l_active s) k = None \<or> hm_get (l_completed s) k = None))"

lemma notified_status_cases: "is_terminal (notified_status st) \<or> notified_status st = InProgress"
  by (simp add: notified_status_def is_terminal_def)

lemma length_insert_new: "hm_get m k = None \<Longrightarrow> length (hm_insert k v m) = Suc (length m)"
  by (induction m) (auto split: if_splits)

lemma length_remove_found: "hm_wf m \<Longrightarrow> hm_get m k = Some v \<Longrightarrow> length (hm_remove k m) = length m - 1"
  using hm.length_keys_rem [of m k] by simp

lemma found_nonempty: "hm_get m k = Some v \<Longrightarrow> 0 < length m"
  by (cases m) auto

lemma delegate_inv:
  assumes "local_inv cfg s" and "local_get_task uuid s = None"
  shows "local_inv cfg (snd (local_delegate cfg uuid now a s))"
proof -
  have new: "hm_get (l_active s) uuid = None" "hm_get (l_completed s) uuid = None"
    using assms(2) by (simp_all add: local_get_task_def split: option.splits)
  show ?thesis
    using assms(1) new
    by (auto simp: local_delegate_def local_inv_def Let_def running_def length_insert_new
        hm_get_update)
qed

lemma notify_inv:
  assumes "local_inv cfg s"
  shows "local_inv cfg (snd (local_notify received now tid n s))"
proof (cases "hm_get (l_active s) tid")
  case None
  with assms show ?thesis by (simp add: local_notify_def)
next
  case (Some task)
  let ?task = "notified_task received now n task"
  have act: "keyed task_id running (l_active s)" and com: "keyed task_id finished (l_completed s)"
    using assms by (simp_all add: local_inv_def)
  have apart: "hm_get (l_completed s) tid = None"
    using assms Some unfolding local_inv_def by (metis option.distinct(1))
  have id: "task_id ?task = tid"
    using keyed_get [OF act Some] by (simp add: notified_task_def)
  have len: "length (hm_remove tid (l_active s)) = length (l_active s) - 1" "0 < length (l_active s)"
    using length_remove_found [OF keyed_wf [OF act] Some] found_nonempty [OF Some] by simp_all
  have again: "length (hm_insert tid ?task (hm_remove tid (l_active s))) = length (l_active s)"
    using len by (simp add: length_insert_new hm_get_delete)
  show ?thesis
  proof (cases "is_terminal (task_status ?task)")
    case True
    with assms Some id len show ?thesis
      by (auto simp: local_notify_def local_inv_def Let_def finished_def hm_get_update hm_get_delete)
  next
    case False
    then have "running ?task"
      using notified_status_cases [of "na_status n"] by (simp add: running_def notified_task_def)
    with False assms Some id again apart show ?thesis
      by (auto simp: local_notify_def local_inv_def Let_def hm_get_update hm_get_delete)
  qed
qed

lemma local_cleanup_inv:
  assumes "local_inv cfg s"
  shows "local_inv cfg (local_cleanup inst utc s)"
proof -
  have "hm_wf (l_completed s)"
    using assms by (auto simp: local_inv_def intro: keyed_wf)
  with assms show ?thesis
    by (auto simp: local_inv_def local_cleanup_def hm_get_retain split: option.splits)
qed

lemma reachable_local_inv:
  assumes "local_reachable cfg s"
  shows "local_inv cfg s"
  using assms
proof induction
  case start
  then show ?case by (simp add: local_inv_def new_local_def)
next
  case (step s s')
  from step.hyps(2) step.IH show ?case
    by (cases rule: local_stepE) (auto intro: delegate_inv notify_inv local_cleanup_inv)
qed

text \<open>
  In every run the backend keeps its two tables apart and in order: a task is filed under its
  own identifier and in one table only, active tasks are pending or in progress, the others are
  completed, failed or cancelled, and there are never more active tasks than the configuration
  allows.
\<close>

theorem local_backend_invariant:
  assumes "local_reachable cfg s"
  shows "keyed task_id running (l_active s) \<and> keyed task_id finished (l_completed s)
    \<and> length (l_active s) \<le> max_concurrent_tasks cfg
    \<and> (\<forall>k. hm_get (l_active s) k = None \<or> hm_get (l_completed s) k = None)"
  using reachable_local_inv [OF assms] by (simp add: local_inv_def)

definition sample_args :: delegate_args where
  "sample_args =
     \<lparr>a_goal = ''g'', a_delegated_to = ''codex'', a_model = None, a_timeout = None,
      a_watch_patterns = None, a_context = None, a_working_dir = None, a_response_format = None\<rparr>"

definition sample_notify :: "string \<Rightarrow> notify_args" where
  "sample_notify status =
     \<lparr>na_status = status, na_summary = ''done'', na_details = None, na_evidence = None\<rparr>"

definition one_task :: local_state where
  "one_task = snd (local_delegate default_config ''t1'' 100 sample_args new_local)"

definition failed_task :: local_state where
  "failed_task = snd (local_notify 160 160 ''t1'' (sample_notify ''failed'') one_task)"

lemma one_task_reachable: "local_reachable default_config one_task"
  by (rule local_reachable.step [OF local_reachable.start local_step.delegate])
    (simp_all add: new_local_def local_get_task_def one_task_def)

lemma failed_task_reachable: "local_reachable default_config failed_task"
  by (rule local_reachable.step [OF one_task_reachable local_step.notify])
    (simp add: failed_task_def)

lemma local_backend_invariant_witness:
  "local_inv default_config failed_task \<and> hm_keys (l_completed failed_task) = [''t1'']"
proof -
  have "hm_keys (l_completed failed_task) = [''t1'']" by code_simp
  with local_backend_invariant [OF failed_task_reachable] show ?thesis by (simp add: local_inv_def)
qed

text \<open>
  The final word on a task is taken once. A notification that ends a running task moves it,
  with the notification as its last, to the completed table; the summary then counts it there,
  and every later notification but an acknowledgement is refused and changes nothing.
\<close>

theorem final_notification_ends_task:
  assumes "local_inv cfg s" and "hm_get (l_active s) tid = Some task"
    and "is_terminal (notified_status (na_status n))"
    and "\<not> eq_ignore_ascii_case (na_status n) ''ack''"
    and "s' = snd (local_notify received now tid n s)"
  shows "local_get_task tid s' = Some (notified_task received now n task)
    \<and> total_active (local_summary s') + 1 = total_active (local_summary s)
    \<and> (\<not> eq_ignore_ascii_case (na_status n2) ''ack''
        \<longrightarrow> local_notify received2 now2 tid n2 s' = (Inl (''Unknown task: '' @ tid), s'))"
proof -
  have wf: "hm_wf (l_active s)"
    using assms(1) by (auto simp: local_inv_def intro: keyed_wf)
  have s': "s' = s\<lparr>l_active := hm_remove tid (l_active s),
      l_completed := hm_insert tid (notified_task received now n task) (l_completed s)\<rparr>"
    using assms(2-5) by (simp add: local_notify_def Let_def notified_task_def)
  then show ?thesis
    using length_remove_found [OF wf assms(2)] found_nonempty [OF assms(2)]
    by (simp add: local_get_task_def local_summary_def local_notify_def hm_get_delete hm_get_update)
qed

lemma final_notification_ends_task_witness:
  "local_notify 170 170 ''t1'' (sample_notify ''completed'') failed_task
     = (Inl ''Unknown task: t1'', failed_task)"
proof -
  have "\<exists>task. hm_get (l_active one_task) ''t1'' = Some task"
    by (simp add: one_task_def local_delegate_def new_local_def sample_args_def Let_def default_config_def)
  then obtain task where task: "hm_get (l_active one_task) ''t1'' = Some task" ..
  have inv: "local_inv default_config one_task"
    using delegate_inv [of default_config new_local "''t1''" 100 sample_args]
    by (simp add: one_task_def local_inv_def new_local_def local_get_task_def)
  have "is_terminal (notified_status (na_status (sample_notify ''failed'')))"
    "\<not> eq_ignore_ascii_case (na_status (sample_notify ''failed'')) ''ack''"
    "\<not> eq_ignore_ascii_case (na_status (sample_notify ''completed'')) ''ack''"
    by code_simp+
  with final_notification_ends_task [OF inv task this(1,2), of failed_task 160 160]
  show ?thesis by (simp add: failed_task_def)
qed

text \<open>
  The filter \<open>failed\<close> does not filter: it lists the failed tasks as the active ones, and all
  finished tasks, whatever their status, as the completed ones; the running tasks are missing.
\<close>

theorem failed_filter_lists_everything_finished:
  "st_active_tasks (local_status FilterFailed s) = filter (has_status Failed) (hm_values (l_completed s))
   \<and> st_completed_tasks (local_status FilterFailed s) = st_completed_tasks (local_status FilterAll s)
   \<and> (local_inv cfg s \<longrightarrow> (\<forall>task \<in> set (st_active_tasks (local_status FilterFailed s)). \<not> running task))"
  by (auto simp: local_status_def has_status_def running_def)

lemma failed_filter_lists_everything_finished_witness:
  "local_inv default_config failed_task
   \<and> map task_id (st_active_tasks (local_status FilterFailed failed_task)) = [''t1'']
   \<and> (\<forall>task \<in> set (st_active_tasks (local_status FilterFailed failed_task)). \<not> running task)"
proof -
  have inv: "local_inv default_config failed_task"
    using notify_inv [of default_config one_task]
      delegate_inv [of default_config new_local "''t1''" 100 sample_args]
    by (simp add: failed_task_def one_task_def local_inv_def new_local_def local_get_task_def)
  have "map task_id (st_active_tasks (local_status FilterFailed failed_task)) = [''t1'']"
    by code_simp
  with inv failed_filter_lists_everything_finished [of failed_task default_config]
  show ?thesis by blast
qed

end
