(* ===== verification/Daemon_Journal.thy ===== *)
theory Daemon_Journal
  imports Json "HOL-Library.Countable"
begin

text \<open>
  The chained journal of \<open>devitd/src/journal.rs\<close>: \<open>append\<close> and the verifier. The HMAC, base64
  and the JSON text of values and entries are the crates' work: the record \<open>journal_crates\<close>.
  A journal is the sequence number and hash it keeps in memory; its file is a text.
\<close>

record jentry =
  j_seq :: nat
  j_ts :: nat
  j_ev :: string
  j_msg_id :: string
  j_from :: string
  j_to :: string
  j_meta :: json
  j_prev :: string
  j_hash :: string

text \<open>\<open>hmac\<close> answers \<open>None\<close> for a key it refuses.\<close>

record journal_crates =
  hmac_sha256 :: "string \<Rightarrow> string \<Rightarrow> string option"
  b64 :: "string \<Rightarrow> string"
  unb64 :: "string \<Rightarrow> string option"
  json_text :: "json \<Rightarrow> string"
  entry_text :: "jentry \<Rightarrow> string"
  entry_of_text :: "string \<Rightarrow> jentry option"

record journal =
  j_key :: string
  j_count :: nat
  j_last_hash :: string

definition open_journal :: "string \<Rightarrow> journal" where
  "open_journal key = \<lparr>j_key = key, j_count = 0, j_last_hash = []\<rparr>"

definition bar :: string where
  "bar = ''|''"

definition entry_canonical :: "nat \<Rightarrow> nat \<Rightarrow> string \<Rightarrow> string \<Rightarrow> string \<Rightarrow> string \<Rightarrow> string" where
  "entry_canonical seq ts ev msg_id from to =
     show_nat seq @ bar @ show_nat ts @ bar @ ev @ bar @ msg_id @ bar @ from @ bar @ to"

text \<open>\<open>HMAC(key, prev || canonical || meta)\<close> in base64.\<close>

definition chain_hash ::
  "'a journal_crates_scheme \<Rightarrow> string \<Rightarrow> string \<Rightarrow> string \<Rightarrow> json \<Rightarrow> string option" where
  "chain_hash lib key prev canonical meta =
     map_option (b64 lib) (hmac_sha256 lib key (prev @ canonical @ json_text lib meta))"

text \<open>
  What the file system does with the line: all of it is written and synchronised, or writing
  stops after some bytes, or all is written and synchronising fails.
\<close>

datatype write_outcome = Written | WriteStopped nat | SyncFailed

definition journal_append ::
  "'a journal_crates_scheme \<Rightarrow> write_outcome \<Rightarrow> nat \<Rightarrow> string \<Rightarrow> string \<Rightarrow> string \<Rightarrow> string \<Rightarrow> json
     \<Rightarrow> journal \<Rightarrow> string \<Rightarrow> (string + string) \<times> journal \<times> string" where
  "journal_append lib io ts ev msg_id from to meta j file =
     (let seq = j_count j + 1;
          counted = j\<lparr>j_count := seq\<rparr>
      in case chain_hash lib (j_key j) (j_last_hash j) (entry_canonical seq ts ev msg_id from to) meta of
           None \<Rightarrow> (Inl ''invalid key length'', counted, file)
         | Some hash \<Rightarrow>
             (let line = entry_text lib \<lparr>j_seq = seq, j_ts = ts, j_ev = ev, j_msg_id = msg_id,
                           j_from = from, j_to = to, j_meta = meta, j_prev = j_last_hash j,
                           j_hash = hash\<rparr> @ [nl]
              in case io of
                   WriteStopped n \<Rightarrow> (Inl ''write failed'', counted, file @ take n line)
                 | SyncFailed \<Rightarrow> (Inl ''sync failed'', counted, file @ line)
                 | Written \<Rightarrow> (Inr hash, counted\<lparr>j_last_hash := hash\<rparr>, file @ line)))"

text \<open>The verifier: \<open>Inl\<close> is a line that does not parse, otherwise the answer.\<close>

definition entry_ok :: "'a journal_crates_scheme \<Rightarrow> string \<Rightarrow> string \<Rightarrow> nat \<Rightarrow> jentry \<Rightarrow> bool option"
where
  "entry_ok lib key prev seq e =
     (if j_seq e \<noteq> seq then Some False
      else if j_prev e \<noteq> prev then Some False
      else case chain_hash lib key prev
                  (entry_canonical (j_seq e) (j_ts e) (j_ev e) (j_msg_id e) (j_from e) (j_to e))
                  (j_meta e) of
             None \<Rightarrow> None
           | Some expected \<Rightarrow> Some (j_hash e = expected))"

fun verify_lines ::
  "'a journal_crates_scheme \<Rightarrow> string \<Rightarrow> string \<Rightarrow> nat \<Rightarrow> string list \<Rightarrow> string + bool" where
  "verify_lines lib key prev seq [] = Inr True"
| "verify_lines lib key prev seq (l # ls) =
     (if trim l = [] then verify_lines lib key prev seq ls
      else case entry_of_text lib l of
             None \<Rightarrow> Inl ''invalid entry''
           | Some e \<Rightarrow>
               (case entry_ok lib key prev seq e of
                  None \<Rightarrow> Inl ''invalid key length''
                | Some ok \<Rightarrow>
                    if ok then verify_lines lib key (j_hash e) (seq + 1) ls else Inr False))"

definition verify_file :: "'a journal_crates_scheme \<Rightarrow> string \<Rightarrow> string \<Rightarrow> string + bool" where
  "verify_file lib key file = verify_lines lib key [] 1 (str_lines file)"

subsection \<open>What a verified journal is\<close>

text \<open>The chain from \<open>prev\<close> and \<open>seq\<close> on: numbers, links and hashes all fit.\<close>

fun chained :: "'a journal_crates_scheme \<Rightarrow> string \<Rightarrow> string \<Rightarrow> nat \<Rightarrow> jentry list \<Rightarrow> bool" where
  "chained lib key prev seq [] = True"
| "chained lib key prev seq (e # es) =
     (j_seq e = seq \<and> j_prev e = prev
      \<and> chain_hash lib key prev
          (entry_canonical (j_seq e) (j_ts e) (j_ev e) (j_msg_id e) (j_from e) (j_to e)) (j_meta e)
        = Some (j_hash e)
      \<and> chained lib key (j_hash e) (seq + 1) es)"

text \<open>What the JSON crate promises of an entry: one line that is not blank and reads back.\<close>

definition reads_back :: "'a journal_crates_scheme \<Rightarrow> jentry \<Rightarrow> bool" where
  "reads_back lib e =
     (entry_of_text lib (entry_text lib e) = Some e \<and> nl \<notin> set (entry_text lib e)
      \<and> cr \<notin> set (entry_text lib e) \<and> trim (entry_text lib e) \<noteq> [])"

definition journal_text :: "'a journal_crates_scheme \<Rightarrow> jentry list \<Rightarrow> string" where
  "journal_text lib es = concat (map (\<lambda>e. entry_text lib e @ [nl]) es)"

lemma str_lines_journal:
  "\<forall>e \<in> set es. reads_back lib e \<Longrightarrow> str_lines (journal_text lib es) = map (entry_text lib) es"
  by (induction es) (auto simp: journal_text_def reads_back_def str_lines_line strip_cr_id)

lemma chain_hash_total:
  assumes "\<forall>m. hmac_sha256 lib key m \<noteq> None"
  obtains h where "chain_hash lib key prev canonical meta = Some h"
proof -
  obtain t where "hmac_sha256 lib key (prev @ canonical @ json_text lib meta) = Some t"
    using assms by (metis option.exhaust)
  then show thesis by (intro that) (simp add: chain_hash_def)
qed

lemma verify_entries:
  assumes "\<forall>e \<in> set es. reads_back lib e" and "\<forall>m. hmac_sha256 lib key m \<noteq> None"
  shows "verify_lines lib key prev seq (map (entry_text lib) es) = Inr (chained lib key prev seq es)"
  using assms(1)
proof (induction es arbitrary: prev seq)
  case Nil
  then show ?case by simp
next
  case (Cons e es)
  obtain h where "chain_hash lib key prev
      (entry_canonical (j_seq e) (j_ts e) (j_ev e) (j_msg_id e) (j_from e) (j_to e)) (j_meta e) = Some h"
    using chain_hash_total [OF assms(2)] by blast
  with Cons show ?case
    by (auto simp: reads_back_def entry_ok_def)
qed

lemma verify_file_iff_entries:
  assumes "\<forall>e \<in> set es. reads_back lib e" and "\<forall>m. hmac_sha256 lib key m \<noteq> None"
  shows "verify_file lib key (journal_text lib es) = Inr (chained lib key [] 1 es)"
  unfolding verify_file_def str_lines_journal [OF assms(1)] by (rule verify_entries [OF assms])

text \<open>
  C10: The verifier accepts a journal exactly when its entries are numbered from one without a
  gap, each names the hash of the one before it, and each carries the HMAC of that hash, its
  canonical text and its metadata under the key; it never fails on entries that parse.
\<close>

theorem verify_file_iff_chained:
  assumes "\<forall>e \<in> set es. reads_back lib e" and "\<forall>m. hmac_sha256 lib key m \<noteq> None"
  shows "verify_file lib key (journal_text lib es) = Inr (chained lib key [] 1 es)"
  by (rule verify_file_iff_entries [OF assms])

text \<open>A run of appends whose writes all succeed.\<close>

record journal_event =
  e_ts :: nat
  e_ev :: string
  e_msg_id :: string
  e_from :: string
  e_to :: string
  e_meta :: json

fun append_events ::
  "'a journal_crates_scheme \<Rightarrow> journal_event list \<Rightarrow> journal \<Rightarrow> string \<Rightarrow> journal \<times> string" where
  "append_events lib [] j store = (j, store)"
| "append_events lib (e # es) j store =
     (case journal_append lib Written (e_ts e) (e_ev e) (e_msg_id e) (e_from e) (e_to e) (e_meta e)
             j store of
        (_, j', store') \<Rightarrow> append_events lib es j' store')"

definition last_link :: "jentry list \<Rightarrow> string" where
  "last_link es = (if es = [] then [] else j_hash (last es))"

definition journal_at :: "'a journal_crates_scheme \<Rightarrow> journal \<Rightarrow> jentry list \<Rightarrow> string \<Rightarrow> bool" where
  "journal_at lib j es store =
     (store = journal_text lib es \<and> chained lib (j_key j) [] 1 es \<and> j_count j = length es
      \<and> j_last_hash j = last_link es)"

lemma chained_snoc:
  "chained lib key prev seq (es @ [e]) \<longleftrightarrow> chained lib key prev seq es
     \<and> chained lib key (if es = [] then prev else j_hash (last es)) (seq + length es) [e]"
  by (induction es arbitrary: prev seq) auto

lemma chained_snoc_link:
  "chained lib key [] 1 (es @ [e]) \<longleftrightarrow> chained lib key [] 1 es
     \<and> chained lib key (last_link es) (1 + length es) [e]"
  unfolding chained_snoc last_link_def ..

lemma append_keeps_chain:
  assumes "journal_at lib j es store" and "\<forall>m. hmac_sha256 lib (j_key j) m \<noteq> None"
    and "journal_append lib Written ts ev i f t meta j store = (r, j', store')"
  shows "\<exists>e. journal_at lib j' (es @ [e]) store' \<and> r = Inr (j_hash e) \<and> j_key j' = j_key j
    \<and> (j_ts e, j_ev e, j_msg_id e, j_from e, j_to e, j_meta e) = (ts, ev, i, f, t, meta)"
proof -
  obtain h where h: "chain_hash lib (j_key j) (j_last_hash j)
      (entry_canonical (j_count j + 1) ts ev i f t) meta = Some h"
    using chain_hash_total [OF assms(2)] by blast
  let ?e = "\<lparr>j_seq = j_count j + 1, j_ts = ts, j_ev = ev, j_msg_id = i, j_from = f, j_to = t,
    j_meta = meta, j_prev = j_last_hash j, j_hash = h\<rparr>"
  have "r = Inr h" and j': "j' = j\<lparr>j_count := j_count j + 1, j_last_hash := h\<rparr>"
    and store': "store' = store @ entry_text lib ?e @ [nl]"
    using assms(3) h by (auto simp: journal_append_def Let_def)
  moreover have "journal_at lib j' (es @ [?e]) store'"
    using assms(1) h unfolding journal_at_def chained_snoc_link
    by (simp add: j' store' journal_text_def last_link_def)
  ultimately show ?thesis
    by (intro exI [of _ ?e]) simp
qed

lemma append_events_chain:
  assumes "journal_at lib j es store" and "\<forall>m. hmac_sha256 lib (j_key j) m \<noteq> None"
  shows "\<exists>es'. journal_at lib (fst (append_events lib evs j store)) es' (snd (append_events lib evs j store))
    \<and> length es' = length es + length evs \<and> j_key (fst (append_events lib evs j store)) = j_key j"
  using assms
proof (induction evs arbitrary: j es store)
  case Nil
  then show ?case by auto
next
  case (Cons ev evs)
  obtain r j' store' where step: "journal_append lib Written (e_ts ev) (e_ev ev) (e_msg_id ev)
      (e_from ev) (e_to ev) (e_meta ev) j store = (r, j', store')"
    by (metis prod_cases3)
  obtain e where e: "journal_at lib j' (es @ [e]) store'" "j_key j' = j_key j"
    using append_keeps_chain [OF Cons.prems step] by blast
  from Cons.IH [OF e(1)] Cons.prems(2) e(2) show ?case
    by (simp add: step)
qed

lemma open_journal_at: "journal_at lib (open_journal key) [] []"
  by (simp add: journal_at_def open_journal_def journal_text_def last_link_def)

text \<open>
  C11: What the daemon appends, the verifier accepts: after any number of appends to a new
  journal whose writes succeed, the file verifies under the same key.
\<close>

theorem appended_journal_verifies:
  assumes "\<forall>e. reads_back lib e" and "\<forall>m. hmac_sha256 lib key m \<noteq> None"
  shows "verify_file lib key (snd (append_events lib evs (open_journal key) [])) = Inr True"
proof -
  have k: "j_key (open_journal key) = key" by (simp add: open_journal_def)
  obtain es where "journal_at lib (fst (append_events lib evs (open_journal key) [])) es
      (snd (append_events lib evs (open_journal key) []))"
    and "j_key (fst (append_events lib evs (open_journal key) [])) = key"
    using append_events_chain [OF open_journal_at, of lib key evs] assms(2) k by auto
  then show ?thesis
    using verify_entries [of es lib key "[]" 1] str_lines_journal [of es lib] assms
    by (simp add: journal_at_def verify_file_def)
qed

lemma wrong_number_rejected:
  assumes "\<forall>e. reads_back lib e" and "\<forall>m. hmac_sha256 lib key m \<noteq> None"
    and "journal_at lib j es store" and "j_key j = key" and "j_key j2 = key"
    and "j_count j2 \<noteq> length es"
    and "journal_append lib Written ts ev i f t meta j2 store = (r, j3, store')"
  shows "verify_file lib key store' = Inr False"
proof -
  obtain h where h: "chain_hash lib key (j_last_hash j2)
      (entry_canonical (j_count j2 + 1) ts ev i f t) meta = Some h"
    using chain_hash_total [OF assms(2)] by blast
  let ?e = "\<lparr>j_seq = j_count j2 + 1, j_ts = ts, j_ev = ev, j_msg_id = i, j_from = f, j_to = t,
    j_meta = meta, j_prev = j_last_hash j2, j_hash = h\<rparr>"
  have "store' = journal_text lib (es @ [?e])"
    using assms(3,5,7) h by (auto simp: journal_append_def Let_def journal_at_def journal_text_def)
  moreover have "\<not> chained lib key [] 1 (es @ [?e])"
    using assms(6) by (simp add: chained_snoc)
  ultimately show ?thesis
    using verify_entries [of "es @ [?e]" lib key "[]" 1] str_lines_journal [of "es @ [?e]" lib] assms(1,2)
    by (simp add: verify_file_def)
qed

text \<open>
  A restart breaks the journal: opening does not read the file, so numbering starts again,
  and the first entry after a restart makes the whole file fail verification for good, unless
  nothing had been written before.
\<close>

theorem restart_breaks_journal:
  assumes "\<forall>e. reads_back lib e" and "\<forall>m. hmac_sha256 lib key m \<noteq> None" and "evs \<noteq> []"
    and "store = snd (append_events lib evs (open_journal key) [])"
  shows "verify_file lib key
    (snd (snd (journal_append lib Written ts ev i f t meta (open_journal key) store))) = Inr False"
proof -
  have k: "j_key (open_journal key) = key" by (simp add: open_journal_def)
  obtain es j where "journal_at lib j es store" and "j_key j = key" and "length es = length evs"
    using append_events_chain [OF open_journal_at, of lib key evs] assms(2,4) k by auto
  moreover obtain r j3 store' where "journal_append lib Written ts ev i f t meta (open_journal key) store
      = (r, j3, store')" by (metis prod_cases3)
  ultimately show ?thesis
    using wrong_number_rejected [OF assms(1,2), of j es store "open_journal key"] assms(3) k
    by (auto simp: open_journal_def)
qed

text \<open>
  So does a write that fails: the number of an entry that was never written is used up, and
  the next entry that is written makes the file fail verification.
\<close>

theorem failed_write_breaks_journal:
  assumes "\<forall>e. reads_back lib e" and "\<forall>m. hmac_sha256 lib key m \<noteq> None"
    and "append_events lib evs (open_journal key) [] = (j, store)"
    and "journal_append lib (WriteStopped 0) ts1 ev1 i1 f1 t1 meta1 j store = (r, j2, store2)"
  shows "store2 = store \<and> verify_file lib key
    (snd (snd (journal_append lib Written ts ev i f t meta j2 store2))) = Inr False"
proof -
  have k: "j_key (open_journal key) = key" by (simp add: open_journal_def)
  obtain es where es: "journal_at lib j es store" "j_key j = key"
    using append_events_chain [OF open_journal_at, of lib key evs] assms(2,3) k by auto
  have "chain_hash lib (j_key j) (j_last_hash j)
      (entry_canonical (j_count j + 1) ts1 ev1 i1 f1 t1) meta1 \<noteq> None"
    using chain_hash_total [OF assms(2)] es(2) by (metis option.distinct(1))
  then have "store2 = store" and j2: "j2 = j\<lparr>j_count := j_count j + 1\<rparr>"
    using assms(4) by (auto simp: journal_append_def Let_def)
  moreover obtain r3 j3 store' where "journal_append lib Written ts ev i f t meta j2 store
      = (r3, j3, store')" by (metis prod_cases3)
  ultimately show ?thesis
    using wrong_number_rejected [OF assms(1,2) es, of j2] es by (simp add: journal_at_def)
qed

lemma verify_entries_append:
  assumes "\<forall>e \<in> set (es @ es'). reads_back lib e" and "\<forall>m. hmac_sha256 lib key m \<noteq> None"
  shows "chained lib key prev seq (es @ es') \<longleftrightarrow> chained lib key prev seq es
    \<and> chained lib key (if es = [] then prev else j_hash (last es)) (seq + length es) es'"
  using assms(1) by (induction es arbitrary: prev seq) auto

text \<open>
  The verifier does not see where the sender of an entry ends and the receiver begins: moving
  the text between a bar in one of them to the other leaves the verdict on the whole journal as
  it was, for every HMAC and key.
\<close>

theorem bar_shift_is_undetected:
  assumes "\<forall>e. reads_back lib e" and "\<forall>m. hmac_sha256 lib key m \<noteq> None"
  shows "verify_file lib key (journal_text lib (es @ e\<lparr>j_from := a @ bar @ b, j_to := c\<rparr> # es'))
    = verify_file lib key (journal_text lib (es @ e\<lparr>j_from := a, j_to := b @ bar @ c\<rparr> # es'))"
proof -
  have same: "entry_canonical s ts ev i (a @ bar @ b) c = entry_canonical s ts ev i a (b @ bar @ c)"
    for s ts ev i by (simp add: entry_canonical_def)
  have "chained lib key prev seq (es @ e\<lparr>j_from := a @ bar @ b, j_to := c\<rparr> # es')
      = chained lib key prev seq (es @ e\<lparr>j_from := a, j_to := b @ bar @ c\<rparr> # es')" for prev seq
    by (induction es arbitrary: prev seq) (simp_all add: same)
  then show ?thesis
    using assms by (simp add: verify_file_iff_entries)
qed

subsection \<open>A concrete codec\<close>

text \<open>
  To see that the promises can be kept: entries printed as their number in an enumeration, and
  a checksum for the HMAC.
\<close>

instance json :: countable
  by countable_datatype

definition entry_tuple :: "jentry \<Rightarrow> nat" where
  "entry_tuple e =
     to_nat (j_seq e, j_ts e, j_ev e, j_msg_id e, j_from e, j_to e, j_meta e, j_prev e, j_hash e)"

definition entry_of_nat :: "nat \<Rightarrow> jentry" where
  "entry_of_nat n =
     (case from_nat n of
        (seq, ts, ev, i, f, t, meta, prev, hash) \<Rightarrow>
          \<lparr>j_seq = seq, j_ts = ts, j_ev = ev, j_msg_id = i, j_from = f, j_to = t, j_meta = meta,
           j_prev = prev, j_hash = hash\<rparr>)"

lemma entry_of_tuple: "entry_of_nat (entry_tuple e) = e"
  by (simp add: entry_of_nat_def entry_tuple_def)

definition sample_codec :: journal_crates where
  "sample_codec =
     \<lparr>hmac_sha256 = (\<lambda>key m. Some (show_nat (sum_list (map of_char (key @ m))))),
      b64 = id, unb64 = Some, json_text = (\<lambda>_. ''{}''),
      entry_text = (\<lambda>e. replicate (Suc (entry_tuple e)) (CHR ''x'')),
      entry_of_text = (\<lambda>s. Some (entry_of_nat (length s - 1)))\<rparr>"

lemma sample_codec_ok: "\<forall>e. reads_back sample_codec e" "\<forall>m. hmac_sha256 sample_codec key m \<noteq> None"
proof -
  have x: "token_char (CHR ''x'')" by code_simp
  have "trim (replicate (Suc n) (CHR ''x'')) = replicate (Suc n) (CHR ''x'')" for n
    using x by (intro trim_token) (simp_all del: replicate.simps add: hd_replicate last_replicate)
  then show "\<forall>e. reads_back sample_codec e"
    by (simp add: reads_back_def sample_codec_def entry_of_tuple)
  show "\<forall>m. hmac_sha256 sample_codec key m \<noteq> None"
    by (simp add: sample_codec_def)
qed

definition sample_event :: journal_event where
  "sample_event =
     \<lparr>e_ts = 7, e_ev = ''NOTIFY'', e_msg_id = ''t1'', e_from = ''worker'', e_to = ''client'',
      e_meta = JNull\<rparr>"

definition sample_entry :: "nat \<Rightarrow> string \<Rightarrow> jentry" where
  "sample_entry seq hash =
     \<lparr>j_seq = seq, j_ts = 7, j_ev = ''A'', j_msg_id = ''B'', j_from = ''C'', j_to = ''D'',
      j_meta = JNull, j_prev = [], j_hash = hash\<rparr>"

lemma verify_file_iff_chained_witness:
  "verify_file sample_codec ''k'' (journal_text sample_codec [sample_entry 2 ''h'']) = Inr False
   \<and> (\<exists>hash. verify_file sample_codec ''k'' (journal_text sample_codec [sample_entry 1 hash]) = Inr True)"
proof -
  have "verify_file sample_codec ''k'' (journal_text sample_codec [sample_entry 2 ''h'']) = Inr False"
    using verify_file_iff_chained [of "[sample_entry 2 ''h'']" sample_codec "''k''"] sample_codec_ok
    by (simp add: sample_entry_def)
  moreover obtain hash where "chain_hash sample_codec ''k'' []
      (entry_canonical 1 7 ''A'' ''B'' ''C'' ''D'') JNull = Some hash"
    using chain_hash_total [OF sample_codec_ok(2)] by blast
  then have "verify_file sample_codec ''k'' (journal_text sample_codec [sample_entry 1 hash]) = Inr True"
    using verify_file_iff_chained [of "[sample_entry 1 hash]" sample_codec "''k''"] sample_codec_ok
    by (simp add: sample_entry_def)
  ultimately show ?thesis by blast
qed

lemma appended_journal_verifies_witness:
  "verify_file sample_codec ''k''
     (snd (append_events sample_codec [sample_event, sample_event] (open_journal ''k'') [])) = Inr True"
  by (rule appended_journal_verifies [OF sample_codec_ok])

lemma restart_breaks_journal_witness:
  "verify_file sample_codec ''k'' (snd (snd (journal_append sample_codec Written 8 ''ACK'' ''t1'' ''a'' ''b''
     JNull (open_journal ''k'') (snd (append_events sample_codec [sample_event] (open_journal ''k'') [])))))
   = Inr False"
  by (rule restart_breaks_journal [OF sample_codec_ok _ refl]) simp

lemma failed_write_breaks_journal_witness:
  "\<exists>j file. verify_file sample_codec ''k'' (snd (snd (journal_append sample_codec Written 9 ''ACK'' ''t1''
     ''a'' ''b'' JNull j file))) = Inr False"
proof -
  obtain j store where run: "append_events sample_codec [sample_event] (open_journal ''k'') [] = (j, store)"
    by fastforce
  obtain r j2 store2 where stop: "journal_append sample_codec (WriteStopped 0) 8 ''ACK'' ''t1'' ''a'' ''b''
      JNull j store = (r, j2, store2)" by (metis prod_cases3)
  from failed_write_breaks_journal [OF sample_codec_ok run stop] show ?thesis by blast
qed

lemma bar_shift_is_undetected_witness:
  "verify_file sample_codec ''k'' (journal_text sample_codec
      [\<lparr>j_seq = 1, j_ts = 7, j_ev = ''NOTIFY'', j_msg_id = ''t1'', j_from = ''a|b'', j_to = ''c'',
        j_meta = JNull, j_prev = [], j_hash = ''h''\<rparr>])
   = verify_file sample_codec ''k'' (journal_text sample_codec
      [\<lparr>j_seq = 1, j_ts = 7, j_ev = ''NOTIFY'', j_msg_id = ''t1'', j_from = ''a'', j_to = ''b|c'',
        j_meta = JNull, j_prev = [], j_hash = ''h''\<rparr>])"
  using bar_shift_is_undetected [OF sample_codec_ok, where key = "''k''" and es = "[]" and es' = "[]"
      and e = "\<lparr>j_seq = 1, j_ts = 7, j_ev = ''NOTIFY'', j_msg_id = ''t1'', j_from = [], j_to = [],
        j_meta = JNull, j_prev = [], j_hash = ''h''\<rparr>" and a = "''a''" and b = "''b''" and c = "''c''"]
  by (simp add: bar_def)

end
