(* ===== verification/Daemon_Messages.thy ===== *)
theory Daemon_Messages
  imports Daemon_Journal
begin

text \<open>
  The messages of the daemon: their signature (\<open>devitd/src/main.rs\<close>), the compact form
  (\<open>devitd/src/compact.rs\<close>) and the policy that decides on delegated tasks
  (\<open>devitd/src/policy.rs\<close>).
\<close>

record msg =
  msg_type :: string
  msg_id :: string
  m_from :: string
  m_to :: string
  m_ts :: nat
  m_nonce :: string
  m_hmac :: string
  payload :: json

subsection \<open>Signatures\<close>

definition canonical_body :: "'a journal_crates_scheme \<Rightarrow> msg \<Rightarrow> string" where
  "canonical_body lib m =
     msg_type m @ bar @ msg_id m @ bar @ m_from m @ bar @ m_to m @ bar @ show_nat (m_ts m) @ bar
       @ m_nonce m @ bar @ json_text lib (payload m)"

record hmac_check =
  hc_valid :: bool
  hc_expected :: string
  hc_provided :: string
  hc_body :: string

text \<open>\<open>None\<close>: the HMAC refuses the secret as a key. Text that is not base64 counts as no bytes.\<close>

definition verify_hmac_detailed ::
  "'a journal_crates_scheme \<Rightarrow> msg \<Rightarrow> string \<Rightarrow> hmac_check option" where
  "verify_hmac_detailed lib m secret =
     (let body = canonical_body lib m;
          provided = (case unb64 lib (m_hmac m) of Some bytes \<Rightarrow> bytes | None \<Rightarrow> [])
      in case hmac_sha256 lib secret body of
           None \<Rightarrow> None
         | Some tag \<Rightarrow>
             Some \<lparr>hc_valid = (provided = tag), hc_expected = b64 lib tag,
                   hc_provided = m_hmac m, hc_body = body\<rparr>)"

definition sign_msg :: "'a journal_crates_scheme \<Rightarrow> string \<Rightarrow> msg \<Rightarrow> msg option" where
  "sign_msg lib secret m =
     (case hmac_sha256 lib secret (canonical_body lib m) of
        None \<Rightarrow> None
      | Some tag \<Rightarrow> Some (m\<lparr>m_hmac := b64 lib tag\<rparr>))"

text \<open>\<open>&sig[..12]\<close> panics where byte 12 is inside a character: \<open>None\<close>.\<close>

definition shorten_sig :: "string \<Rightarrow> string option" where
  "shorten_sig s =
     (if length s \<le> 12 then Some s
      else let v = of_char (s ! 12) :: nat
           in if 0x80 \<le> v \<and> v < 0xC0 then None
              else Some (take 12 s @ [CHR 0xE2, CHR 0x80, CHR 0xA6]))"

subsection \<open>The compact form\<close>

record msg_c =
  c_t :: string
  c_i :: string
  c_f :: string
  c_o :: string
  c_s :: nat
  c_n :: string
  c_h :: string
  c_p :: json

definition to_compact :: "msg \<Rightarrow> msg_c" where
  "to_compact m =
     \<lparr>c_t = msg_type m, c_i = msg_id m, c_f = m_from m, c_o = m_to m, c_s = m_ts m,
      c_n = m_nonce m, c_h = m_hmac m, c_p = payload m\<rparr>"

definition from_compact :: "msg_c \<Rightarrow> msg" where
  "from_compact c =
     \<lparr>msg_type = c_t c, msg_id = c_i c, m_from = c_f c, m_to = c_o c, m_ts = c_s c,
      m_nonce = c_n c, m_hmac = c_h c, payload = c_p c\<rparr>"

lemma compact_inverse [simp]: "from_compact (to_compact m) = m" "to_compact (from_compact c) = c"
  by (simp_all add: from_compact_def to_compact_def)

subsection \<open>The policy on delegated tasks\<close>

datatype policy_action = AllowTask | DenyTask | NeedApproval

definition task_field :: "json \<Rightarrow> string \<Rightarrow> json option" where
  "task_field v key = Option.bind (jget v ''task'') (\<lambda>t. jget t key)"

definition task_path :: "json \<Rightarrow> string option" where
  "task_path v = Option.bind (task_field v ''path'') as_str"

definition eval_patch_apply :: "json \<Rightarrow> policy_action" where
  "eval_patch_apply v =
     (case task_path v of
        Some path \<Rightarrow>
          if (\<exists>p \<in> set [''/etc'', ''/var'', ''/home'', ''/root'', ''/sys'', ''/proc'']. starts_with path p) then
            DenyTask
          else if (\<exists>p \<in> set [''/workdir/src'', ''/workdir/tests'', ''/tmp/devit'']. starts_with path p) then
            AllowTask
          else NeedApproval
      | None \<Rightarrow> NeedApproval)"

definition eval_file_read :: "json \<Rightarrow> policy_action" where
  "eval_file_read v =
     (case task_path v of
        Some path \<Rightarrow>
          if contains path ''password'' \<or> contains path ''secret'' \<or> contains path ''key''
             \<or> starts_with path ''/etc/shadow'' \<or> starts_with path ''/root/.ssh'' then DenyTask
          else (case Option.bind (task_field v ''max_bytes'') as_u64 of
                  Some n \<Rightarrow> if 1048576 < n then NeedApproval else AllowTask
                | None \<Rightarrow> AllowTask)
      | None \<Rightarrow> AllowTask)"

definition dangerous_patterns :: "string list" where
  "dangerous_patterns =
     [''rm -rf'', ''sudo'', ''chmod +x'', ''curl'', ''wget'', ''network'', ''docker'']"

definition eval_test_run :: "json \<Rightarrow> policy_action" where
  "eval_test_run v =
     (if (case Option.bind (task_field v ''timeout_secs'') as_u64 of Some n \<Rightarrow> 120 < n | None \<Rightarrow> False) then
        NeedApproval
      else if (case Option.bind (task_field v ''command'') as_str of
                 Some command \<Rightarrow> (\<exists>p \<in> set dangerous_patterns. contains command p)
               | None \<Rightarrow> False) then NeedApproval
      else AllowTask)"

definition policy_eval :: "string \<Rightarrow> json \<Rightarrow> policy_action" where
  "policy_eval tool v =
     (if tool = ''devit_patch_apply'' then eval_patch_apply v
      else if tool = ''devit_file_read'' then eval_file_read v
      else if tool = ''devit_test_run'' then eval_test_run v
      else AllowTask)"

definition assess_risk_level :: "string \<Rightarrow> json \<Rightarrow> string" where
  "assess_risk_level tool details =
     (if tool = ''devit_patch_apply'' then
        (let path = (case task_path details of Some p \<Rightarrow> p | None \<Rightarrow> [])
         in if contains path ''main.rs'' \<or> contains path ''lib.rs'' then ''medium'' else ''low'')
      else if tool = ''devit_test_run'' then
        (let timeout = (case Option.bind (task_field details ''timeout_secs'') as_u64 of
            Some n \<Rightarrow> n | None \<Rightarrow> 0)
         in if 60 < timeout then ''medium'' else ''low'')
      else ''low'')"

definition create_approval_request :: "string \<Rightarrow> string \<Rightarrow> string \<Rightarrow> string \<Rightarrow> json \<Rightarrow> json" where
  "create_approval_request timestamp task tool original_msg_id details =
     JObj [(''reason'', JStr ''on_request''), (''tool'', JStr tool), (''task_id'', JStr task),
           (''original_msg_id'', JStr original_msg_id), (''details'', details),
           (''timestamp'', JStr timestamp),
           (''risk_level'', JStr (assess_risk_level tool details))]"

subsection \<open>What a signature shows\<close>

lemma canonical_hmac [simp]: "canonical_body lib (m\<lparr>m_hmac := h\<rparr>) = canonical_body lib m"
  by (simp add: canonical_body_def)

text \<open>
  What is signed verifies: a signed message passes the check under the same secret, also
  after a trip through the compact form, and signing changes nothing but the signature.
\<close>

theorem signed_message_verifies:
  assumes "\<forall>bytes. unb64 lib (b64 lib bytes) = Some bytes" and "sign_msg lib secret m = Some s"
  shows "map_option hc_valid (verify_hmac_detailed lib (from_compact (to_compact s)) secret) = Some True
    \<and> s\<lparr>m_hmac := m_hmac m\<rparr> = m"
  using assms
  by (auto simp: sign_msg_def verify_hmac_detailed_def Let_def split: option.splits)

definition unsigned :: "string \<Rightarrow> string \<Rightarrow> msg" where
  "unsigned f t =
     \<lparr>msg_type = ''POLL'', msg_id = ''1'', m_from = f, m_to = t, m_ts = 0, m_nonce = ''n'',
      m_hmac = [], payload = JNull\<rparr>"

lemma signed_message_verifies_witness:
  "\<exists>s. map_option hc_valid (verify_hmac_detailed sample_codec (from_compact (to_compact s)) ''k'') = Some True"
proof -
  have codec: "\<forall>bytes. unb64 sample_codec (b64 sample_codec bytes) = Some bytes"
    by (simp add: sample_codec_def)
  obtain s where "sign_msg sample_codec ''k'' (unsigned ''a'' ''b'') = Some s"
    by (simp add: sign_msg_def sample_codec_def)
  with signed_message_verifies [OF codec this] show ?thesis by blast
qed

text \<open>
  A signature does not fix the fields it covers: for every HMAC and secret, a signed message
  stays valid when text up to a bar moves from its receiver to its sender, so two different
  messages share each signature.
\<close>

theorem bar_shift_keeps_signature:
  assumes "m_from m = a" and "m_to m = b @ bar @ c"
  shows "map_option hc_valid (verify_hmac_detailed lib (m\<lparr>m_from := a @ bar @ b, m_to := c\<rparr>) secret)
      = map_option hc_valid (verify_hmac_detailed lib m secret)
    \<and> m\<lparr>m_from := a @ bar @ b, m_to := c\<rparr> \<noteq> m"
proof -
  have "canonical_body lib (m\<lparr>m_from := a @ bar @ b, m_to := c\<rparr>) = canonical_body lib m"
    using assms by (simp add: canonical_body_def)
  moreover have "m_from (m\<lparr>m_from := a @ bar @ b, m_to := c\<rparr>) \<noteq> m_from m"
    using assms(1) by (simp add: bar_def)
  then have "m\<lparr>m_from := a @ bar @ b, m_to := c\<rparr> \<noteq> m" by metis
  ultimately show ?thesis
    by (simp add: verify_hmac_detailed_def Let_def split: option.splits)
qed

lemma bar_shift_keeps_signature_witness:
  "map_option hc_valid (verify_hmac_detailed sample_codec (unsigned ''a|b'' ''c'') ''k'')
     = map_option hc_valid (verify_hmac_detailed sample_codec (unsigned ''a'' ''b|c'') ''k'')"
  using bar_shift_keeps_signature [of "unsigned ''a'' ''b|c''" "''a''" "''b''" "''c''" sample_codec "''k''"]
  by (simp add: unsigned_def bar_def)

text \<open>
  The daemon's policy never lets a patch run unseen outside the trusted roots: a task of
  the tool \<open>devit_patch_apply\<close> is allowed without an approval only when it names a path that
  begins with one of the three trusted roots.
\<close>

theorem patch_task_needs_trusted_root:
  "policy_eval ''devit_patch_apply'' v = AllowTask \<longleftrightarrow>
     (\<exists>path. task_path v = Some path
       \<and> (starts_with path ''/workdir/src'' \<or> starts_with path ''/workdir/tests'' \<or> starts_with path ''/tmp/devit''))"
  by (auto simp: policy_eval_def eval_patch_apply_def starts_with_def prefix_def split: option.splits)

text \<open>The test is on the text: a path that leaves the trusted root is trusted all the same.\<close>

theorem trusted_root_is_textual:
  "policy_eval ''devit_patch_apply'' (JObj [(''task'', JObj [(''path'', JStr ''/workdir/src/../../etc/passwd'')])])
     = AllowTask"
  by code_simp

text \<open>An invalid signature with a wide character across byte 12 makes the warning panic.\<close>

theorem wide_signature_panics:
  "shorten_sig (replicate 11 (CHR ''a'') @ [CHR 0xC3, CHR 0xA9]) = None"
  by code_simp

end
