(* ===== verification/Worker_Config.thy ===== *)
theory Worker_Config
  imports Task_Types Path_Security
begin

text \<open>
  The worker settings of \<open>devitd/src/worker_executor.rs\<close>: the configuration of subprocess
  workers, its validation, the capabilities and the screenshot settings that are read from the
  configuration file. The TOML crate is a parameter: it turns the text of the file into a value
  of type \<open>toml\<close> and into the \<open>ConfigFile\<close> that serde fills.
\<close>

subsection \<open>TOML values\<close>

text \<open>A float is not a number, infinite, or \<open>p / 2 ^ q\<close>, which every finite \<open>f64\<close> is.\<close>

datatype toml_float = NotANumber | Infinite bool | Dyadic int nat

datatype toml =
    TStr string
  | TInt int
  | TFloat toml_float
  | TBool bool
  | TDate string
  | TArr "toml list"
  | TTable "(string \<times> toml) list"

fun tget :: "toml \<Rightarrow> string \<Rightarrow> toml option" where
  "tget (TTable members) key = map_of members key"
| "tget _ key = None"

fun t_str :: "toml \<Rightarrow> string option" where
  "t_str (TStr s) = Some s"
| "t_str _ = None"

fun t_bool :: "toml \<Rightarrow> bool option" where
  "t_bool (TBool b) = Some b"
| "t_bool _ = None"

fun t_int :: "toml \<Rightarrow> int option" where
  "t_int (TInt n) = Some n"
| "t_int _ = None"

fun is_table :: "toml \<Rightarrow> bool" where
  "is_table (TTable _) = True"
| "is_table _ = False"

definition t_table :: "toml \<Rightarrow> toml option" where
  "t_table v = (if is_table v then Some v else None)"

text \<open>\<open>num > 0.0\<close>, and \<open>num.round() as u32\<close>: half away from zero, then cut to the range.\<close>

definition u32_max :: nat where
  "u32_max = 2 ^ 32 - 1"

fun float_positive :: "toml_float \<Rightarrow> bool" where
  "float_positive NotANumber = False"
| "float_positive (Infinite positive) = positive"
| "float_positive (Dyadic p q) = (0 < p)"

fun float_round_u32 :: "toml_float \<Rightarrow> nat" where
  "float_round_u32 NotANumber = 0"
| "float_round_u32 (Infinite positive) = (if positive then u32_max else 0)"
| "float_round_u32 (Dyadic p q) = min ((2 * nat p + 2 ^ q) div (2 * 2 ^ q)) u32_max"

subsection \<open>Worker configurations\<close>

datatype worker_type = Cli | Mcp

fun worker_type_text :: "worker_type \<Rightarrow> string" where
  "worker_type_text Cli = ''cli''"
| "worker_type_text Mcp = ''mcp''"

datatype parse_mode = JsonMode | TextMode

record worker_config =
  wc_type :: worker_type
  wc_binary :: string
  wc_args :: "string list"
  wc_timeout_secs :: nat
  wc_parse_mode :: parse_mode
  wc_working_dir :: "string option"
  wc_max_response_chars :: "nat option"
  wc_mcp_tool :: "string option"
  wc_mcp_arguments :: "json option"
  wc_default_model :: "string option"
  wc_allowed_models :: "string list option"

definition worker_timeout_secs :: nat where
  "worker_timeout_secs = 300"

fun is_object :: "json \<Rightarrow> bool" where
  "is_object (JObj _) = True"
| "is_object _ = False"

definition validate_worker_config :: "string \<Rightarrow> worker_config \<Rightarrow> string + unit" where
  "validate_worker_config name config =
     (if trim (wc_binary config) = [] then Inl ''binary path empty''
      else if ParentDir \<in> set (components (wc_binary config)) then
        Inl ''binary contains parent directory traversal''
      else if wc_timeout_secs config = 0 then Inl ''timeout must be greater than zero''
      else if wc_max_response_chars config = Some 0 then
        Inl ''max_response_chars must be greater than zero''
      else case wc_type config of
             Cli \<Rightarrow> Inr ()
           | Mcp \<Rightarrow>
               (case wc_mcp_arguments config of
                  Some extra \<Rightarrow>
                    if is_object extra then Inr ()
                    else Inl (''worker '' @ [CHR 0x27] @ name @ [CHR 0x27]
                      @ '' mcp_arguments must be a JSON object'')
                | None \<Rightarrow> Inr ()))"

subsection \<open>The workspace root\<close>

text \<open>
  \<open>Path::parent\<close> on text: trailing separators and \<open>.\<close> components go, then the last component,
  then the separators before it. The text is read from its end.
\<close>

function strip_tail :: "string \<Rightarrow> string" where
  "strip_tail s =
     (if s \<noteq> [] \<and> hd s = CHR ''/'' \<and> tl s \<noteq> [] then strip_tail (tl s)
      else if prefix ''./'' s then strip_tail (tl s)
      else s)"
  by pat_completeness auto
termination by (relation "measure length") (auto simp: prefix_def)

declare strip_tail.simps [simp del]

definition parent_text :: "string \<Rightarrow> string option" where
  "parent_text p =
     (if components p = [] \<or> components p = [RootDir] then None
      else Some (rev (strip_tail (dropWhile (\<lambda>c. c \<noteq> CHR ''/'') (strip_tail (rev p))))))"

definition expand_home :: "string option \<Rightarrow> string \<Rightarrow> string" where
  "expand_home home raw =
     (case strip_prefix raw ''~/'' of
        Some stripped \<Rightarrow>
          (case home of Some h \<Rightarrow> h @ ''/'' @ stripped | None \<Rightarrow> raw)
      | None \<Rightarrow> raw)"

definition resolve_workspace_root ::
  "string option \<Rightarrow> file_system \<Rightarrow> string \<Rightarrow> string \<Rightarrow> string option" where
  "resolve_workspace_root home fs config_path raw =
     (let path = expand_home home raw;
          resolved = (if is_absolute path then path
            else case parent_text config_path of
                   Some parent \<Rightarrow> path_join parent path
                 | None \<Rightarrow> path)
      in case canonicalize fs (components resolved) of
           Some canonical \<Rightarrow> Some (show_components canonical)
         | None \<Rightarrow> Some resolved)"

subsection \<open>Capabilities\<close>

text \<open>\<open>num as u32\<close> and \<open>num as u64\<close> of a positive \<open>i64\<close>: the lowest bits.\<close>

definition toml_rate_limit :: "toml \<Rightarrow> rate_limit option" where
  "toml_rate_limit value =
     (case value of
        TStr raw \<Rightarrow> (case parse_rate_limit_str raw of Inl _ \<Rightarrow> None | Inr l \<Rightarrow> Some l)
      | TInt num \<Rightarrow> if 0 < num then Some (per_minute (nat num mod 2 ^ 32)) else None
      | TFloat num \<Rightarrow> if float_positive num then Some (per_minute (float_round_u32 num)) else None
      | TTable _ \<Rightarrow>
          (let count = (case Option.bind (or_else (or_else (tget value ''count'') (tget value ''max''))
                               (tget value ''max_actions'')) t_int of
                          Some n \<Rightarrow> n | None \<Rightarrow> 10);
               window = (case Option.bind (or_else (or_else (or_else (tget value ''per_seconds'')
                               (tget value ''window_secs'')) (tget value ''interval''))
                               (tget value ''every'')) t_int of
                          Some n \<Rightarrow> n | None \<Rightarrow> 60)
           in if count \<le> 0 \<or> window \<le> 0 then None
              else Some \<lparr>max_actions = nat count mod 2 ^ 32, per_seconds = nat window\<rparr>)
      | _ \<Rightarrow> None)"

definition parse_capabilities :: "toml \<Rightarrow> capability_toggle" where
  "parse_capabilities root =
     (case Option.bind (Option.bind (tget root ''orchestration'') (\<lambda>orch. tget orch ''capabilities'')) t_table of
        None \<Rightarrow> default_toggle
      | Some caps \<Rightarrow>
          (case Option.bind (tget caps ''screenshot'') t_table of
             None \<Rightarrow> default_toggle
           | Some cfg \<Rightarrow>
               \<lparr>cap_enabled = (case Option.bind (tget cfg ''enabled'') t_bool of
                    Some b \<Rightarrow> b
                  | None \<Rightarrow> cap_enabled default_toggle),
                cap_rate_limit = (case Option.bind (tget cfg ''rate_limit'') toml_rate_limit of
                    Some l \<Rightarrow> l
                  | None \<Rightarrow> cap_rate_limit default_toggle)\<rparr>))"

subsection \<open>Screenshot settings\<close>

datatype screenshot_backend = Scrot | Imagemagick | Native

record screenshot_settings =
  ss_enabled :: bool
  ss_backend :: screenshot_backend
  ss_format :: string
  ss_output_dir :: "string option"

definition default_screenshot_settings :: screenshot_settings where
  "default_screenshot_settings =
     \<lparr>ss_enabled = False, ss_backend = Scrot, ss_format = ''png'', ss_output_dir = None\<rparr>"

definition fallback_screenshot_directory :: "string \<Rightarrow> string" where
  "fallback_screenshot_directory temp = path_join temp ''devit-screenshots''"

definition default_screenshot_directory :: "string \<Rightarrow> string option \<Rightarrow> string" where
  "default_screenshot_directory temp root =
     (case root of
        Some r \<Rightarrow> path_join (path_join r ''.devit'') ''screenshots''
      | None \<Rightarrow> fallback_screenshot_directory temp)"

definition resolve_screenshot_dir :: "string \<Rightarrow> string option \<Rightarrow> string \<Rightarrow> string" where
  "resolve_screenshot_dir temp root raw =
     (let candidate = trim raw;
          default_dir = default_screenshot_directory temp root;
          fallback_dir = fallback_screenshot_directory temp
      in if candidate = [] then default_dir
         else if is_absolute candidate then
           (if (case root of Some r \<Rightarrow> path_starts_with candidate r | None \<Rightarrow> False) then candidate
            else if path_starts_with candidate fallback_dir then candidate
            else default_dir)
         else if ParentDir \<in> set (components candidate) then default_dir
         else case root of
                Some r \<Rightarrow> path_join r candidate
              | None \<Rightarrow> path_join fallback_dir candidate)"

definition backend_of :: "string \<Rightarrow> screenshot_backend" where
  "backend_of backend =
     (let b = to_lowercase (trim backend)
      in if b = ''imagemagick'' \<or> b = ''import'' then Imagemagick
         else if b = ''native'' then Native
         else Scrot)"

definition parse_screenshot_settings :: "string \<Rightarrow> string option \<Rightarrow> toml \<Rightarrow> screenshot_settings" where
  "parse_screenshot_settings temp root value =
     (let start = default_screenshot_settings
            \<lparr>ss_output_dir := Some (default_screenshot_directory temp root)\<rparr>
      in case Option.bind (Option.bind (Option.bind (tget value ''tools'') t_table)
                 (\<lambda>t. tget t ''screenshot'')) t_table of
           None \<Rightarrow> start
         | Some table \<Rightarrow>
             \<lparr>ss_enabled = (case Option.bind (tget table ''enabled'') t_bool of
                  Some b \<Rightarrow> b | None \<Rightarrow> ss_enabled start),
              ss_backend = (case Option.bind (tget table ''backend'') t_str of
                  Some b \<Rightarrow> backend_of b | None \<Rightarrow> ss_backend start),
              ss_format = (case Option.bind (tget table ''format'') t_str of
                  Some f \<Rightarrow> (if to_lowercase (trim f) = [] then ss_format start
                            else to_lowercase (trim f))
                | None \<Rightarrow> ss_format start),
              ss_output_dir = (case Option.bind (tget table ''output_dir'') t_str of
                  Some d \<Rightarrow> Some (resolve_screenshot_dir temp root d)
                | None \<Rightarrow> ss_output_dir start)\<rparr>)"

subsection \<open>The settings of the daemon\<close>

record worker_settings =
  ws_configs :: "(string, worker_config) hmap"
  ws_workspace_root :: "string option"
  ws_expected_worker_version :: "string option"
  ws_screenshot_limit :: rate_limit
  ws_screenshot_enabled :: bool
  ws_screenshot :: screenshot_settings
  ws_approval_target :: string

definition default_approver_target :: string where
  "default_approver_target = ''client:approver''"

definition default_worker_settings :: worker_settings where
  "default_worker_settings =
     \<lparr>ws_configs = [], ws_workspace_root = None, ws_expected_worker_version = None,
      ws_screenshot_limit = cap_rate_limit default_toggle,
      ws_screenshot_enabled = cap_enabled default_toggle,
      ws_screenshot = default_screenshot_settings, ws_approval_target = default_approver_target\<rparr>"

text \<open>\<open>ConfigFile\<close>: the sandbox root of the section \<open>workspace\<close>, and the table \<open>workers\<close>.\<close>

record config_file =
  cf_sandbox_root :: "string option"
  cf_workers :: "(string \<times> worker_config) list"

text \<open>What \<open>toml\<close> makes of a text: a value, and the typed file.\<close>

record toml_crate =
  toml_value :: "string \<Rightarrow> toml option"
  toml_config :: "string \<Rightarrow> config_file option"

definition nonempty :: "string \<Rightarrow> string option" where
  "nonempty s = (if s = [] then None else Some s)"

definition accept_workers :: "(string \<times> worker_config) list \<Rightarrow> (string, worker_config) hmap" where
  "accept_workers ws =
     foldl (\<lambda>m (name, cfg). case validate_worker_config name cfg of
                              Inl _ \<Rightarrow> m
                            | Inr _ \<Rightarrow> hm_insert name cfg m) [] ws"

text \<open>
  \<open>contents\<close> is the text of the file at \<open>config_path\<close>, if it can be read.
\<close>

definition load_worker_settings ::
  "toml_crate \<Rightarrow> string \<Rightarrow> string option \<Rightarrow> file_system \<Rightarrow> (string \<times> string option) option \<Rightarrow> worker_settings"
where
  "load_worker_settings crate temp home fs config_path =
     (case config_path of
        None \<Rightarrow> default_worker_settings
      | Some (path, contents) \<Rightarrow>
          (case contents of
             None \<Rightarrow> default_worker_settings
           | Some text \<Rightarrow>
               (case toml_config crate text of
                  None \<Rightarrow> default_worker_settings
                | Some parsed \<Rightarrow>
                    (let value = toml_value crate text;
                         daemon = Option.bind value (\<lambda>v. tget v ''daemon'');
                         root = Option.bind (cf_sandbox_root parsed)
                           (resolve_workspace_root home fs path);
                         caps = (case value of Some v \<Rightarrow> parse_capabilities v | None \<Rightarrow> default_toggle)
                     in \<lparr>ws_configs = accept_workers (cf_workers parsed),
                         ws_workspace_root = root,
                         ws_expected_worker_version =
                           Option.bind (map_option trim (Option.bind (Option.bind daemon
                             (\<lambda>d. tget d ''expected_worker_version'')) t_str)) nonempty,
                         ws_screenshot_limit = cap_rate_limit caps,
                         ws_screenshot_enabled = cap_enabled caps,
                         ws_screenshot = (case value of
                             Some v \<Rightarrow> parse_screenshot_settings temp root v
                           | None \<Rightarrow> default_screenshot_settings),
                         ws_approval_target =
                           (case Option.bind (map_option trim (Option.bind (Option.bind (Option.bind daemon
                               (\<lambda>d. tget d ''approvals'')) (\<lambda>a. tget a ''default_target'')) t_str)) nonempty of
                              Some t \<Rightarrow> t
                            | None \<Rightarrow> default_approver_target)\<rparr>))))"

end
