(* ===== verification/Str_Search.thy ===== *)
theory Str_Search
  imports Rust_Str
begin

text \<open>
  Searching, slicing and replacing in text, with the facts that the parsers of marked-up text rest
  on: where \<open>find\<close> stops in a text that is put together from pieces.
\<close>

text \<open>\<open>&s[a..b]\<close> at character boundaries: \<open>None\<close> is the panic of a range that is out of order or
  out of bounds.\<close>

definition slice :: "nat \<Rightarrow> nat \<Rightarrow> string \<Rightarrow> string option" where
  "slice a b s = (if a \<le> b \<and> b \<le> length s then Some (take (b - a) (drop a s)) else None)"

text \<open>\<open>str::replace\<close> of a pattern that is not empty.\<close>

function replace_str :: "string \<Rightarrow> string \<Rightarrow> string \<Rightarrow> string" where
  "replace_str pat new s =
     (if s = [] \<or> pat = [] then s
      else if prefix pat s then new @ replace_str pat new (drop (length pat) s)
      else hd s # replace_str pat new (tl s))"
  by pat_completeness auto
termination by (relation "measure (\<lambda>(p, n, s). length s)") auto

declare replace_str.simps [simp del]

lemma find_str_Some:
  "find_str p s = Some i \<Longrightarrow> i + length p \<le> length s \<and> prefix p (drop i s)"
proof (induction p s arbitrary: i rule: find_str.induct)
  case (1 p)
  then show ?case by (simp split: if_splits)
next
  case (2 p x xs)
  then show ?case
    by (auto simp: prefix_length_le split: if_splits dest: prefix_length_le)
qed

lemma find_str_head: "prefix p s \<Longrightarrow> find_str p s = Some 0"
  by (cases s) auto

lemma find_str_None: "find_str p s = None \<longleftrightarrow> \<not> contains s p"
proof (induction p s rule: find_str.induct)
  case (1 p)
  then show ?case by (simp add: contains_def)
next
  case (2 p x xs)
  then show ?case by (auto simp: contains_def sublist_Cons_right)
qed

lemma prefix_before_sep:
  assumes "c \<notin> set p"
  shows "prefix p (a @ c # b) \<longleftrightarrow> prefix p a"
proof (cases "length p \<le> length a")
  case True
  then show ?thesis by (auto simp: prefix_def append_eq_append_conv2)
next
  case False
  have "\<not> prefix p (a @ c # b)"
  proof
    assume "prefix p (a @ c # b)"
    then have "take (length p) (a @ c # b) = p" by (metis append_eq_conv_conj prefix_def)
    moreover have "c \<in> set (take (length p) (a @ c # b))"
      using False by (cases "length p - length a") auto
    ultimately show False using assms by simp
  qed
  moreover have "\<not> prefix p a" using False prefix_length_le by blast
  ultimately show ?thesis by simp
qed

text \<open>A separator that the pattern does not contain: the match lies before it or behind it.\<close>

lemma find_str_sep:
  assumes "c \<notin> set p" and "p \<noteq> []"
  shows "find_str p (a @ c # b) =
    (case find_str p a of
       Some i \<Rightarrow> Some i
     | None \<Rightarrow> map_option (\<lambda>i. length a + 1 + i) (find_str p b))"
proof (induction a)
  case Nil
  have "\<not> prefix p (c # b)" using assms by (cases p) auto
  with assms(2) show ?case by (cases "find_str p b") auto
next
  case (Cons x a)
  have "prefix p ((x # a) @ c # b) \<longleftrightarrow> prefix p (x # a)"
    using prefix_before_sep [OF assms(1), of "x # a" b] .
  then show ?case
    by (cases "find_str p a"; cases "find_str p b") (simp_all add: Cons prefix_before_sep [OF assms(1)])
qed

lemma find_str_skip:
  assumes "p \<noteq> []" and "hd p \<notin> set a"
  shows "find_str p (a @ b) = map_option (\<lambda>i. length a + i) (find_str p b)"
  using assms(2)
proof (induction a)
  case Nil
  then show ?case by (simp add: option.map_id0 [unfolded id_def])
next
  case (Cons x a)
  have "\<not> prefix p (x # a @ b)" using Cons.prems assms(1) by (cases p) auto
  with Cons show ?case by (simp add: option.map_comp comp_def)
qed

lemma replace_str_absent: "\<not> contains s p \<Longrightarrow> replace_str p new s = s"
proof (induction s)
  case Nil
  then show ?case by (simp add: replace_str.simps [of p new "[]"])
next
  case (Cons x s)
  then show ?case
    by (auto simp: contains_def sublist_Cons_right replace_str.simps [of p new "x # s"])
qed

lemma contains_mono: "contains s p \<Longrightarrow> sublist q p \<Longrightarrow> contains s q"
  unfolding contains_def by (blast intro: sublist_order.order_trans)

lemma contains_sep:
  assumes "c \<notin> set p" and "p \<noteq> []"
  shows "contains (a @ c # b) p \<longleftrightarrow> contains a p \<or> contains b p"
  using find_str_sep [OF assms, of a b] find_str_None [of p "a @ c # b"]
    find_str_None [of p a] find_str_None [of p b]
  by (cases "find_str p a"; cases "find_str p b") auto

end
