(* ===== verification/Worker_Executor.thy ===== *)
theory Worker_Executor
  imports Worker_Config Str_Search "HOL-Library.Char_ord" "HOL-Library.List_Lexorder"
begin

text \<open>
  The executor of subprocess workers, \<open>devitd/src/worker_executor.rs\<close>: how a task becomes a
  command line, what is made of the output of the process, and the JSON-RPC session with a
  worker of type \<open>mcp\<close>. The process itself is the record \<open>worker_io\<close>: what a command answers, and
  the lines an MCP worker sends. Wall-clock times count nanoseconds; output is valid UTF-8.
\<close>

subsection \<open>Tasks, outcomes, metadata\<close>

record worker_task =
  wt_id :: string
  wt_goal :: string
  wt_delegated_to :: string
  wt_working_dir :: "string option"
  wt_timeout_secs :: "nat option"
  wt_return_to :: "string option"
  wt_response_format :: "string option"
  wt_time_queued :: int
  wt_model :: "string option"
  wt_context :: "json option"

datatype worker_status = WorkerCompleted | WorkerFailed

fun worker_status_text :: "worker_status \<Rightarrow> string" where
  "worker_status_text WorkerCompleted = ''completed''"
| "worker_status_text WorkerFailed = ''failed''"

record task_metadata =
  tm_time_queued :: int
  tm_time_started :: int
  tm_time_completed :: int
  tm_duration_total_ms :: nat
  tm_duration_execution_ms :: nat
  tm_worker_type :: string
  tm_worker_version :: "string option"
  tm_model_requested :: "string option"
  tm_model_used :: "string option"
  tm_exit_code :: int
  tm_exit_reason :: string
  tm_tokens_input :: "nat option"
  tm_tokens_output :: "nat option"
  tm_tokens_reasoning :: "nat option"
  tm_cost_estimate_usd :: "string option"

definition default_metadata :: "int \<Rightarrow> task_metadata" where
  "default_metadata t =
     \<lparr>tm_time_queued = t, tm_time_started = t, tm_time_completed = t, tm_duration_total_ms = 0,
      tm_duration_execution_ms = 0, tm_worker_type = ''unknown'', tm_worker_version = None,
      tm_model_requested = None, tm_model_used = None, tm_exit_code = -1,
      tm_exit_reason = ''unknown'', tm_tokens_input = None, tm_tokens_output = None,
      tm_tokens_reasoning = None, tm_cost_estimate_usd = None\<rparr>"

record worker_outcome =
  wo_status :: worker_status
  wo_summary :: string
  wo_details :: "json option"
  wo_evidence :: "json option"
  wo_truncated :: bool
  wo_original_size :: "nat option"
  wo_metadata :: task_metadata

text \<open>A cost in dollars is an \<open>f64\<close>, kept as an opaque text.\<close>

record usage_stats =
  us_tokens_input :: "nat option"
  us_tokens_output :: "nat option"
  us_tokens_reasoning :: "nat option"
  us_cost :: "string option"

record telemetry =
  te_exit_code :: "int option"
  te_exit_reason :: "string option"
  te_worker_version :: "string option"
  te_model_requested :: "string option"
  te_model_used :: "string option"
  te_usage :: usage_stats

definition no_usage :: usage_stats where
  "no_usage = \<lparr>us_tokens_input = None, us_tokens_output = None, us_tokens_reasoning = None, us_cost = None\<rparr>"

definition no_telemetry :: telemetry where
  "no_telemetry =
     \<lparr>te_exit_code = None, te_exit_reason = None, te_worker_version = None,
      te_model_requested = None, te_model_used = None, te_usage = no_usage\<rparr>"

definition apply_usage :: "usage_stats \<Rightarrow> telemetry \<Rightarrow> telemetry" where
  "apply_usage u t =
     t\<lparr>te_usage := \<lparr>us_tokens_input = or_else (us_tokens_input (te_usage t)) (us_tokens_input u),
                    us_tokens_output = or_else (us_tokens_output (te_usage t)) (us_tokens_output u),
                    us_tokens_reasoning =
                      or_else (us_tokens_reasoning (te_usage t)) (us_tokens_reasoning u),
                    us_cost = or_else (us_cost (te_usage t)) (us_cost u)\<rparr>\<rparr>"

text \<open>\<open>(b - a).num_milliseconds().max(0)\<close>.\<close>

definition duration_ms :: "int \<Rightarrow> int \<Rightarrow> nat" where
  "duration_ms a b = nat ((b - a) div 1000000)"

definition new_metadata :: "int \<Rightarrow> int \<Rightarrow> int \<Rightarrow> worker_type \<Rightarrow> telemetry \<Rightarrow> task_metadata" where
  "new_metadata queued started completed wtype t =
     \<lparr>tm_time_queued = queued, tm_time_started = started, tm_time_completed = completed,
      tm_duration_total_ms = duration_ms queued completed,
      tm_duration_execution_ms = duration_ms started completed,
      tm_worker_type = worker_type_text wtype, tm_worker_version = te_worker_version t,
      tm_model_requested = te_model_requested t, tm_model_used = te_model_used t,
      tm_exit_code = (case te_exit_code t of Some c \<Rightarrow> c | None \<Rightarrow> -1),
      tm_exit_reason = (case te_exit_reason t of Some r \<Rightarrow> r | None \<Rightarrow> ''unknown''),
      tm_tokens_input = us_tokens_input (te_usage t), tm_tokens_output = us_tokens_output (te_usage t),
      tm_tokens_reasoning = us_tokens_reasoning (te_usage t),
      tm_cost_estimate_usd = us_cost (te_usage t)\<rparr>"

text \<open>The crates behind the executor.\<close>

record worker_crates =
  json_parse :: "string \<Rightarrow> json option"
  json_print :: "json \<Rightarrow> string option"
  strip_escapes :: "string \<Rightarrow> string option"
  number_f64 :: "json \<Rightarrow> string option"
  parse_f64 :: "string \<Rightarrow> string option"
  f64_round_u64 :: "string \<Rightarrow> nat"

subsection \<open>Cutting text\<close>

definition utf8_continuation :: "char \<Rightarrow> bool" where
  "utf8_continuation c = (let v = of_char c :: nat in 0x80 \<le> v \<and> v < 0xC0)"

definition is_char_boundary :: "string \<Rightarrow> nat \<Rightarrow> bool" where
  "is_char_boundary s i =
     (i = 0 \<or> i = length s \<or> i < length s \<and> \<not> utf8_continuation (s ! i))"

text \<open>The loop that steps back to a character boundary.\<close>

fun floor_boundary :: "string \<Rightarrow> nat \<Rightarrow> nat" where
  "floor_boundary s 0 = 0"
| "floor_boundary s (Suc n) = (if is_char_boundary s (Suc n) then Suc n else floor_boundary s n)"

definition truncate_str :: "string \<Rightarrow> nat \<Rightarrow> string" where
  "truncate_str input limit =
     (if length input \<le> limit then input else take (floor_boundary input limit) input)"

definition ellipsis :: string where
  "ellipsis = [CHR 0xE2, CHR 0x80, CHR 0xA6]"

definition make_excerpt :: "string \<Rightarrow> nat \<Rightarrow> string" where
  "make_excerpt text limit =
     (let trimmed = trim text
      in if length trimmed \<le> limit then trimmed
         else truncate_str trimmed limit @ ellipsis @ '' [excerpt]'')"

definition truncate_plain :: "string \<Rightarrow> nat \<Rightarrow> string" where
  "truncate_plain text limit =
     (if length text \<le> limit then text
      else truncate_str text limit @ ellipsis @ '' [truncated]'')"

definition truncate_json_excerpt :: "string \<Rightarrow> nat \<Rightarrow> string" where
  "truncate_json_excerpt text limit =
     (let candidate = take (floor_boundary text (min limit (length text))) text
      in case rfind_str ''}'' candidate of
           Some idx \<Rightarrow> take (Suc idx) candidate @ '' '' @ ellipsis @ '' [truncated]''
         | None \<Rightarrow> truncate_plain text limit)"

definition create_truncated_value :: "worker_crates \<Rightarrow> string \<Rightarrow> nat \<Rightarrow> json" where
  "create_truncated_value lib text limit =
     (if json_parse lib text \<noteq> None then JStr (truncate_json_excerpt text limit)
      else JStr (truncate_plain text limit))"

definition decode_and_strip :: "worker_crates \<Rightarrow> string \<Rightarrow> string" where
  "decode_and_strip lib bytes =
     (if CHR 0x1B \<notin> set bytes then bytes
      else case strip_escapes lib bytes of Some clean \<Rightarrow> clean | None \<Rightarrow> bytes)"

subsection \<open>The command line of a task\<close>

definition effective_timeout :: "worker_config \<Rightarrow> worker_task \<Rightarrow> nat" where
  "effective_timeout config task =
     (let secs = (case wt_timeout_secs task of
            Some requested \<Rightarrow>
              if 0 < requested then min (wc_timeout_secs config) requested else wc_timeout_secs config
          | None \<Rightarrow> wc_timeout_secs config)
      in if secs = 0 then worker_timeout_secs else secs)"

definition extract_model_from_context :: "json option \<Rightarrow> string option" where
  "extract_model_from_context context =
     (case context of
        Some (JObj m) \<Rightarrow> Option.bind (map_option trim (get_str (JObj m) ''model'')) nonempty
      | _ \<Rightarrow> None)"

definition resolve_model ::
  "worker_config \<Rightarrow> worker_task \<Rightarrow> string + string option \<times> string option" where
  "resolve_model config task =
     (let explicit = Option.bind (map_option trim (wt_model task)) nonempty;
          requested = or_else explicit (extract_model_from_context (wt_context task));
          resolved = or_else requested (wc_default_model config)
      in case (wc_allowed_models config, resolved) of
           (Some allowed, Some name) \<Rightarrow>
             if name \<in> set allowed then Inr (requested, resolved)
             else Inl (''model '' @ [CHR 0x27] @ name @ [CHR 0x27] @ '' n'' @ [CHR 0x27]
               @ ''est pas autoris'' @ [CHR 0xC3, CHR 0xA9] @ '' pour le worker '' @ [CHR 0x27]
               @ wt_delegated_to task @ [CHR 0x27])
         | _ \<Rightarrow> Inr (requested, resolved))"

definition replace_placeholders ::
  "worker_config \<Rightarrow> string \<Rightarrow> worker_task \<Rightarrow> string option \<Rightarrow> string option \<Rightarrow> string + string" where
  "replace_placeholders config arg task workspace model =
     (let with_goal = replace_str ''{goal}'' (wt_goal task) arg;
          with_dir = (case workspace of
              Some ws \<Rightarrow> replace_str ''{workspace}'' ws with_goal
            | None \<Rightarrow>
                (case wt_working_dir task of
                   Some d \<Rightarrow> replace_str ''{workspace}'' d with_goal
                 | None \<Rightarrow> with_goal));
          with_id = replace_str ''{task_id}'' (wt_id task) with_dir
      in if contains with_id ''{model}'' then
           (case model of
              None \<Rightarrow> Inl (''worker '' @ [CHR 0x27] @ wc_binary config @ [CHR 0x27]
                @ '' requires a model but none was resolved'')
            | Some m \<Rightarrow> Inr (replace_str ''{model}'' m with_id))
         else Inr with_id)"

definition replaced_args ::
  "worker_config \<Rightarrow> worker_task \<Rightarrow> string option \<Rightarrow> string option \<Rightarrow> string + string list" where
  "replaced_args config task workspace model =
     try_fold (\<lambda>args arg. case replace_placeholders config arg task workspace model of
                            Inl e \<Rightarrow> Inl e
                          | Inr replaced \<Rightarrow> Inr (args @ [replaced])) [] (wc_args config)"

definition prepare_args ::
  "worker_config \<Rightarrow> worker_task \<Rightarrow> string option \<Rightarrow> bool \<Rightarrow> string option \<Rightarrow> string + string list" where
  "prepare_args config task workspace append_goal model =
     (let goal_placeholder = (\<exists>arg \<in> set (wc_args config). contains arg ''{goal}'');
          model_placeholder = (\<exists>arg \<in> set (wc_args config). contains arg ''{model}'')
      in if model_placeholder \<and> model = None then
           Inl (''worker '' @ [CHR 0x27] @ wc_binary config @ [CHR 0x27]
             @ '' requires a model but none was provided (configure default_model or pass model override)'')
         else case replaced_args config task workspace model of
                Inl e \<Rightarrow> Inl e
              | Inr args \<Rightarrow>
                  Inr (if append_goal \<and> \<not> goal_placeholder then args @ [wt_goal task] else args))"

definition resolve_workspace_dir :: "string option \<Rightarrow> worker_task \<Rightarrow> string option" where
  "resolve_workspace_dir root task =
     (case wt_working_dir task of
        None \<Rightarrow> root
      | Some relative \<Rightarrow>
          if is_absolute relative then Some relative
          else case root of
                 Some r \<Rightarrow> Some (path_join r relative)
               | None \<Rightarrow> Some relative)"

record command =
  cmd_binary :: string
  cmd_args :: "string list"
  cmd_dir :: "string option"
  cmd_env :: "(string \<times> string) list"

definition opt_env :: "string \<Rightarrow> string option \<Rightarrow> (string \<times> string) list" where
  "opt_env name v = (case v of Some x \<Rightarrow> [(name, x)] | None \<Rightarrow> [])"

text \<open>The part that both kinds of workers share: the models and the command.\<close>

definition build_command ::
  "string option \<Rightarrow> worker_config \<Rightarrow> worker_task \<Rightarrow> bool
     \<Rightarrow> string + command \<times> string option \<times> string option" where
  "build_command root config task append_goal =
     (let workspace_path = resolve_workspace_dir root task;
          workspace = or_else workspace_path root
      in case resolve_model config task of
           Inl e \<Rightarrow> Inl e
         | Inr (requested, resolved) \<Rightarrow>
             (case prepare_args config task workspace append_goal resolved of
                Inl e \<Rightarrow> Inl e
              | Inr args \<Rightarrow>
                  (case (case wc_working_dir config of
                           Some dir \<Rightarrow>
                             map_sum id Some (replace_placeholders config dir task workspace resolved)
                         | None \<Rightarrow> Inr workspace_path) of
                     Inl e \<Rightarrow> Inl e
                   | Inr dir \<Rightarrow>
                       Inr (\<lparr>cmd_binary = wc_binary config, cmd_args = args, cmd_dir = dir,
                             cmd_env = [(''DEVIT_TASK_ID'', wt_id task), (''DEVIT_GOAL'', wt_goal task)]
                               @ opt_env ''DEVIT_WORKSPACE'' workspace
                               @ opt_env ''DEVIT_MODEL_REQUESTED'' requested
                               @ opt_env ''DEVIT_MODEL_USED'' resolved\<rparr>, requested, resolved))))"

subsection \<open>Reading the output\<close>

definition outcome_of :: "worker_status \<Rightarrow> string \<Rightarrow> json option \<Rightarrow> int \<Rightarrow> worker_outcome" where
  "outcome_of status summary details t =
     \<lparr>wo_status = status, wo_summary = summary, wo_details = details, wo_evidence = None,
      wo_truncated = False, wo_original_size = None, wo_metadata = default_metadata t\<rparr>"

text \<open>The last line that is JSON, when the whole is not.\<close>

definition parse_json_payload :: "worker_crates \<Rightarrow> string \<Rightarrow> json option" where
  "parse_json_payload lib raw =
     (case json_parse lib raw of
        Some v \<Rightarrow> Some v
      | None \<Rightarrow>
          (case List.map_filter (\<lambda>l. if trim l = [] then None else json_parse lib (trim l))
                  (rev (str_lines raw)) of
             [] \<Rightarrow> None
           | v # _ \<Rightarrow> Some v))"

definition first_text :: "json list \<Rightarrow> string option" where
  "first_text items =
     (case List.map_filter (\<lambda>item. get_str item ''text'') items of [] \<Rightarrow> None | t # _ \<Rightarrow> Some t)"

definition extract_summary :: "json \<Rightarrow> string option" where
  "extract_summary value =
     or_else (get_str value ''result'')
       (or_else (get_str value ''response'')
         (Option.bind (Option.bind (jget value ''content'') as_array) first_text))"

definition parse_json_output ::
  "worker_crates \<Rightarrow> int \<Rightarrow> worker_task \<Rightarrow> string \<Rightarrow> string \<Rightarrow> string + worker_outcome" where
  "parse_json_output lib t task stdout stderr =
     (if trim stdout = [] then Inl ''worker produced no JSON output''
      else case parse_json_payload lib (trim stdout) of
             None \<Rightarrow> Inl (''invalid JSON output for task '' @ wt_id task)
           | Some parsed \<Rightarrow>
               Inr (outcome_of WorkerCompleted
                 (case extract_summary parsed of Some x \<Rightarrow> x | None \<Rightarrow> ''Worker completed'')
                 (Some (JObj ([(''stdout'', parsed)]
                    @ (if trim stderr = [] then [] else [(''stderr'', JStr (trim stderr))])))) t))"

definition parse_text_output :: "int \<Rightarrow> worker_task \<Rightarrow> string \<Rightarrow> string \<Rightarrow> worker_outcome" where
  "parse_text_output t task stdout stderr =
     outcome_of WorkerCompleted
       (if trim stdout = [] then ''Worker '' @ wt_delegated_to task @ '' completed without output''
        else truncate_str (trim stdout) 240)
       (Some (JObj [(''stdout'', JStr stdout), (''stderr'', JStr stderr)])) t"

subsection \<open>The compact format\<close>

definition ascii_punctuation :: "char \<Rightarrow> bool" where
  "ascii_punctuation c =
     (let v = of_char c :: nat
      in 33 \<le> v \<and> v \<le> 47 \<or> 58 \<le> v \<and> v \<le> 64 \<or> 91 \<le> v \<and> v \<le> 96 \<or> 123 \<le> v \<and> v \<le> 126)"

definition trim_punctuation :: "string \<Rightarrow> string" where
  "trim_punctuation s = rev (dropWhile ascii_punctuation (rev (dropWhile ascii_punctuation s)))"

fun called_name :: "string list \<Rightarrow> string option" where
  "called_name [] = None"
| "called_name (token # tokens) =
     (let cleaned = trim_punctuation token
      in case find_str ''('' cleaned of
           Some (Suc idx) \<Rightarrow> Some (take (Suc idx) cleaned)
         | _ \<Rightarrow> called_name tokens)"

definition extract_identifier :: "string \<Rightarrow> string option" where
  "extract_identifier line =
     (case called_name (split_whitespace line) of
        Some name \<Rightarrow> Some name
      | None \<Rightarrow>
          (case split_whitespace line of [] \<Rightarrow> None | word # _ \<Rightarrow> Some (trim_punctuation word)))"

record findings =
  fi_new :: "string list"
  fi_modified :: "string list"
  fi_risks :: "string list"
  fi_highlights :: "string list"

definition is_bullet :: "string \<Rightarrow> bool" where
  "is_bullet s = (prefix ''-'' s \<or> prefix ''*'' s)"

definition scan_line :: "findings \<Rightarrow> string \<Rightarrow> findings" where
  "scan_line f line =
     (let trimmed = trim line; lower = to_lowercase trimmed;
          name = (case extract_identifier trimmed of Some n \<Rightarrow> [n] | None \<Rightarrow> [])
      in if trimmed = [] then f
         else
           \<lparr>fi_new = (if contains lower ''new function'' then fi_new f @ name else fi_new f),
            fi_modified = (if contains lower ''modified function'' \<or> contains lower ''updated function''
                \<or> contains lower ''changes in'' then fi_modified f @ name else fi_modified f),
            fi_risks = (if (contains lower ''risk'' \<or> contains lower ''concern''
                \<or> contains lower ''issue'') \<and> length (fi_risks f) < 5
              then fi_risks f @ [trimmed] else fi_risks f),
            fi_highlights = (if is_bullet trimmed \<and> length (fi_highlights f) < 5
              then fi_highlights f @ [strip_seqs ([''-'', ''*''] @ ws_seqs) trimmed]
              else fi_highlights f)\<rparr>)"

text \<open>The first sentences, split at full stops, exclamation and question marks.\<close>

definition sentences :: "string \<Rightarrow> string list" where
  "sentences text =
     take 5 (filter (\<lambda>s. s \<noteq> []) (map trim (split_char (CHR ''.'')
       (map (\<lambda>c. if c = CHR ''!'' \<or> c = CHR ''?'' then CHR ''.'' else c) text))))"

definition string_array :: "string list \<Rightarrow> json" where
  "string_array xs = JArr (map JStr xs)"

text \<open>The names were collected in a set and are sorted.\<close>

definition name_array :: "string \<Rightarrow> string list \<Rightarrow> (string \<times> json) list" where
  "name_array key ns =
     (if ns = [] then [] else [(key, string_array (sort (remdups ns)))])"

definition build_compact_structured_data :: "string \<Rightarrow> (string \<times> json) list" where
  "build_compact_structured_data text =
     (let f = foldl scan_line \<lparr>fi_new = [], fi_modified = [], fi_risks = [], fi_highlights = []\<rparr>
                (str_lines text);
          highlights = (if fi_highlights f = [] then sentences text else fi_highlights f);
          base = name_array ''new_funcs'' (fi_new f) @ name_array ''modified_funcs'' (fi_modified f)
            @ (if fi_risks f = [] then [] else [(''risks'', string_array (fi_risks f))])
      in if base = [] \<or> highlights \<noteq> [] then base @ [(''highlights'', string_array (take 5 highlights))]
         else base)"

text \<open>Output that is structured already is left alone.\<close>

definition already_structured :: "json option \<Rightarrow> bool" where
  "already_structured details =
     (case details of
        Some (JObj m) \<Rightarrow>
          (case map_of m ''structured_data'' of Some (JObj _) \<Rightarrow> True | _ \<Rightarrow> False)
          \<or> (case map_of m ''stdout'' of Some (JObj _) \<Rightarrow> True | Some (JArr _) \<Rightarrow> True | _ \<Rightarrow> False)
      | _ \<Rightarrow> False)"

definition apply_compact_format :: "worker_outcome \<Rightarrow> string \<Rightarrow> string \<Rightarrow> worker_outcome" where
  "apply_compact_format w stdout stderr =
     (if trim stdout = [] \<or> already_structured (wo_details w) then w
      else w\<lparr>wo_summary := ''Analysis complete. See structured_data.'',
             wo_details := Some (JObj ([(''structured_data'', JObj (build_compact_structured_data stdout)),
                 (''raw_excerpt'', JStr (make_excerpt stdout 600))]
               @ (if trim stderr = [] then [] else [(''stderr'', JStr (trim stderr))])
               @ [(''format'', JStr ''compact'')]
               @ (case wo_details w of
                    Some (JObj m) \<Rightarrow>
                      (case map_of m ''evidence'' of Some e \<Rightarrow> [(''evidence'', e)] | None \<Rightarrow> [])
                  | _ \<Rightarrow> [])))\<rparr>)"

subsection \<open>The limit on the size of an answer\<close>

text \<open>\<open>entry(key).or_insert(v)\<close>.\<close>

definition or_insert :: "string \<Rightarrow> json \<Rightarrow> (string \<times> json) list \<Rightarrow> (string \<times> json) list" where
  "or_insert key v m = (if map_of m key = None then m @ [(key, v)] else m)"

definition wants_compact :: "string option \<Rightarrow> bool" where
  "wants_compact format = (case format of Some f \<Rightarrow> eq_ignore_ascii_case f ''compact'' | None \<Rightarrow> False)"

definition enforce_max_chars ::
  "worker_crates \<Rightarrow> worker_outcome \<Rightarrow> string \<Rightarrow> string option \<Rightarrow> nat \<Rightarrow> worker_outcome" where
  "enforce_max_chars lib w stdout format limit =
     (if length stdout \<le> limit then w
      else
        (let size = JInt (int (length stdout));
             w' = w\<lparr>wo_truncated := True, wo_original_size := Some (length stdout)\<rparr>
         in if wants_compact format then
              (case wo_details w of
                 Some (JObj m) \<Rightarrow>
                   w'\<lparr>wo_details := Some (JObj (or_insert ''truncated'' (JBool True)
                        (or_insert ''original_size'' size m)))\<rparr>
               | _ \<Rightarrow>
                   w'\<lparr>wo_details := Some (JObj [(''truncated'', JBool True), (''original_size'', size),
                        (''excerpt'', JStr (make_excerpt stdout limit))])\<rparr>)
            else
              (let base = (case wo_details w of
                     Some (JObj m) \<Rightarrow> m
                   | Some other \<Rightarrow> [(''data'', other)]
                   | None \<Rightarrow> [])
               in w'\<lparr>wo_details := Some (JObj (AList.update ''original_size'' size
                    (AList.update ''truncated'' (JBool True)
                      (AList.update ''stdout'' (create_truncated_value lib stdout limit) base))))\<rparr>)))"

definition limit_answer ::
  "worker_crates \<Rightarrow> worker_config \<Rightarrow> worker_task \<Rightarrow> string \<Rightarrow> worker_outcome \<Rightarrow> worker_outcome" where
  "limit_answer lib config task stdout w =
     (case wc_max_response_chars config of
        Some limit \<Rightarrow> enforce_max_chars lib w stdout (wt_response_format task) limit
      | None \<Rightarrow> w)"

subsection \<open>Command-line workers\<close>

text \<open>
  What becomes of the process: it outlives the timeout, the thread that waits for it fails, it
  cannot be started, or it ends with a code (none after a signal), its output and its errors.
\<close>

datatype process_end = TimedOut | JoinFailed | NotRunnable | Exited "int option" string string

definition show_int :: "int \<Rightarrow> string" where
  "show_int n = (if n < 0 then ''-'' @ show_nat (nat (- n)) else show_nat (nat n))"

definition exit_telemetry :: "int option \<Rightarrow> string option \<Rightarrow> string option \<Rightarrow> telemetry" where
  "exit_telemetry code requested resolved =
     no_telemetry\<lparr>te_exit_code := Some (case code of Some c \<Rightarrow> c | None \<Rightarrow> -1),
       te_exit_reason := Some (case code of
           Some c \<Rightarrow> if c = 0 then ''success'' else ''exit code '' @ show_int c
         | None \<Rightarrow> ''terminated by signal''),
       te_model_requested := requested, te_model_used := resolved\<rparr>"

definition failed_process ::
  "worker_config \<Rightarrow> string \<Rightarrow> string \<Rightarrow> int \<Rightarrow> worker_outcome" where
  "failed_process config stdout stderr t =
     outcome_of WorkerFailed
       (''Worker '' @ [CHR 0x27] @ wc_binary config @ [CHR 0x27] @ '' failed: '' @ trim stderr)
       (Some (JObj [(''stdout'', JStr stdout), (''stderr'', JStr stderr)])) t"

definition read_output ::
  "worker_crates \<Rightarrow> int \<Rightarrow> worker_config \<Rightarrow> worker_task \<Rightarrow> string \<Rightarrow> string \<Rightarrow> string + worker_outcome" where
  "read_output lib t config task stdout stderr =
     (case wc_parse_mode config of
        JsonMode \<Rightarrow> parse_json_output lib t task stdout stderr
      | TextMode \<Rightarrow> Inr (parse_text_output t task stdout stderr))"

definition execute_cli ::
  "worker_crates \<Rightarrow> string option \<Rightarrow> worker_config \<Rightarrow> (command \<Rightarrow> nat \<Rightarrow> process_end) \<Rightarrow> int \<Rightarrow> worker_task
     \<Rightarrow> string + worker_outcome \<times> telemetry" where
  "execute_cli lib root config run t task =
     (case build_command root config task True of
        Inl e \<Rightarrow> Inl e
      | Inr (cmd, requested, resolved) \<Rightarrow>
          (let timeout = effective_timeout config task
           in case run cmd timeout of
                TimedOut \<Rightarrow> Inl (''worker timed out after '' @ show_nat timeout @ ''s'')
              | JoinFailed \<Rightarrow> Inl ''failed to join worker thread''
              | NotRunnable \<Rightarrow> Inl ''failed to execute worker process''
              | Exited code out err \<Rightarrow>
                  (let stdout = decode_and_strip lib out; stderr = decode_and_strip lib err;
                       telemetry = exit_telemetry code requested resolved
                   in if code \<noteq> Some 0 then
                        Inr (limit_answer lib config task stdout (failed_process config stdout stderr t),
                             telemetry)
                      else case read_output lib t config task stdout stderr of
                             Inl e \<Rightarrow> Inl e
                           | Inr w \<Rightarrow>
                               Inr (limit_answer lib config task stdout
                                      (if wants_compact (wt_response_format task)
                                       then apply_compact_format w stdout stderr else w),
                                    telemetry))))"

end
