(* ===== verification/Daemon_State.thy ===== *)
theory Daemon_State
  imports Daemon_Messages Local_Backend Worker_Executor
begin

text \<open>
  The state of the daemon (\<open>struct State\<close> of \<open>devitd/src/main.rs\<close>) and its methods: mail
  boxes, liveness, expiry of leases and clients, finished tasks and their pruning, the status
  snapshot, and the rate limiter of screenshots. The state sits behind one mutex. Clocks,
  identifiers and the file system answer through \<open>reading\<close>; instants count nanoseconds.
\<close>

subsection \<open>Data\<close>

record client =
  cl_ident :: string
  cl_last_heartbeat :: nat
  cl_capabilities :: "string list"
  cl_version :: "string option"

record lease =
  ls_task_id :: string
  ls_assigned_to :: string
  ls_original_from :: string
  ls_deadline :: nat
  ls_return_to :: "string option"
  ls_working_dir :: "string option"
  ls_response_format :: "string option"
  ls_model :: "string option"
  ls_model_resolved :: "string option"

record task_details =
  td_goal :: string
  td_timeout_secs :: nat
  td_context :: "json option"
  td_watch_patterns :: "string list"
  td_working_dir :: "string option"
  td_response_format :: "string option"
  td_model :: "string option"

record pending_approval =
  pa_task_id :: string
  pa_original_msg :: msg
  pa_tool :: string
  pa_requested_at :: nat

record screenshot_control =
  sc_enabled :: bool
  sc_backend :: screenshot_backend
  sc_format :: string
  sc_output_dir :: string
  sc_rate_limit :: rate_limit
  sc_history :: "nat list"
  sc_workspace_root :: "string option"

record daemon_state =
  clients :: "(string, client) hmap"
  leases :: "(string, lease) hmap"
  expired_leases :: "(string, lease) hmap"
  pending_notifications :: "(string, msg list) hmap"
  pending_approvals :: "(string, pending_approval) hmap"
  ack_markers :: "(string, string) hmap"
  ack_sockets :: "(string, string) hmap"
  ack_writers :: "(string, unit) hmap"
  secret :: string
  d_journal :: journal
  d_journal_file :: string
  worker_configs :: "(string, worker_config) hmap"
  workspace_root :: "string option"
  tasks_active :: "(string, delegated_task) hmap"
  tasks_completed :: "(string, delegated_task) hmap"
  notify_hook :: "string option"
  daemon_version :: string
  expected_worker_version :: "string option"
  screenshot :: screenshot_control
  approver_target :: string

record hook_context =
  hk_task_id :: string
  hk_status :: string
  hk_worker :: string
  hk_return_to :: string
  hk_summary :: string
  hk_working_dir :: "string option"
  hk_details :: "json option"
  hk_evidence :: "json option"
  hk_timestamp :: string
  hk_metadata :: "json option"

type_synonym hook_invocation = "string \<times> hook_context"

text \<open>The crates behind the daemon, and what the outside answers during one step.\<close>

record daemon_crates = journal_crates +
  rfc3339 :: "int \<Rightarrow> string"
  snapshot_json :: "orchestration_status \<Rightarrow> json option"
  metadata_json :: "task_metadata \<Rightarrow> json option"

record reading =
  now :: nat
  utc :: int
  unix_ts :: nat
  uuid :: "nat \<Rightarrow> string"
  journal_io :: "nat \<Rightarrow> write_outcome"
  temp_dir :: string
  ack_write_ok :: bool
  shot_stamp :: string
  shot_mkdir :: "string option"
  shot_result :: "string + string \<times> string \<times> nat"

definition second :: nat where
  "second = 10 ^ 9"

definition lease_ttl_secs :: nat where
  "lease_ttl_secs = 900"

definition lease_ttl :: nat where
  "lease_ttl = lease_ttl_secs * second"

definition heartbeat_timeout :: nat where
  "heartbeat_timeout = 30 * second"

definition max_completed_tasks :: nat where
  "max_completed_tasks = 1000"

definition default_timeout :: nat where
  "default_timeout = 30 * 60"

subsection \<open>Task details\<close>

definition parse_task_details :: "json option \<Rightarrow> string \<Rightarrow> task_details" where
  "parse_task_details task fallback_id =
     (let field = (\<lambda>key. Option.bind task (\<lambda>t. jget t key));
          text_field = (\<lambda>key. Option.bind (field key) as_str)
      in \<lparr>td_goal = (case Option.bind (map_option trim (text_field ''goal'')) nonempty of
             Some g \<Rightarrow> g
           | None \<Rightarrow> ''Task '' @ fallback_id @ '' delegated''),
          td_timeout_secs = (case Option.bind (field ''timeout'') as_u64 of
             Some n \<Rightarrow> n
           | None \<Rightarrow> default_timeout),
          td_context = field ''context'',
          td_watch_patterns = (case Option.bind (field ''watch_patterns'') as_array of
             Some xs \<Rightarrow> List.map_filter as_str xs
           | None \<Rightarrow> []),
          td_working_dir = text_field ''working_dir'',
          td_response_format = text_field ''format'',
          td_model = Option.bind (map_option trim (text_field ''model'')) nonempty\<rparr>)"

subsection \<open>Sizes for people\<close>

text \<open>
  \<open>bytes as f64\<close> rounds to 53 significant bits, half to even; dividing by 1024 is exact; two
  decimals are printed, rounded half to even.
\<close>

fun bit_length :: "nat \<Rightarrow> nat" where
  "bit_length n = (if n = 0 then 0 else Suc (bit_length (n div 2)))"

declare bit_length.simps [simp del]

definition round_half_even :: "nat \<Rightarrow> nat \<Rightarrow> nat" where
  "round_half_even a b =
     (let q = a div b; r = a mod b in if b < 2 * r \<or> b = 2 * r \<and> odd q then q + 1 else q)"

definition f64_of_nat :: "nat \<Rightarrow> nat" where
  "f64_of_nat n = (let e = bit_length n - 53 in round_half_even n (2 ^ e) * 2 ^ e)"

fun size_unit :: "nat \<Rightarrow> nat \<Rightarrow> nat" where
  "size_unit value 0 = 0"
| "size_unit value (Suc k) = (if value < 1024 then 0 else Suc (size_unit (value div 1024) k))"

definition size_units :: "string list" where
  "size_units = [''B'', ''KB'', ''MB'', ''GB'', ''TB'']"

definition human_readable_size :: "nat \<Rightarrow> string" where
  "human_readable_size bytes =
     (if bytes = 0 then ''0 B''
      else
        (let value = f64_of_nat bytes;
             unit = size_unit value (length size_units - 1);
             hundredths = round_half_even (100 * value) (1024 ^ unit)
         in show_nat (hundredths div 100) @ ''.'' @ [digit_char (hundredths div 10 mod 10),
              digit_char (hundredths mod 10)] @ '' '' @ size_units ! unit))"

subsection \<open>Screenshots\<close>

definition new_screenshot_control ::
  "string \<Rightarrow> screenshot_settings \<Rightarrow> rate_limit \<Rightarrow> bool \<Rightarrow> string option \<Rightarrow> screenshot_control" where
  "new_screenshot_control temp st limit capability_enabled root =
     \<lparr>sc_enabled = (ss_enabled st \<and> capability_enabled), sc_backend = ss_backend st,
      sc_format = (if trim (ss_format st) = [] then ''png'' else to_lowercase (ss_format st)),
      sc_output_dir = (case ss_output_dir st of
         Some d \<Rightarrow> d
       | None \<Rightarrow> default_screenshot_directory temp root),
      sc_rate_limit = limit, sc_history = [], sc_workspace_root = root\<rparr>"

definition prune_history :: "nat \<Rightarrow> screenshot_control \<Rightarrow> screenshot_control" where
  "prune_history t c =
     (let limit = sc_rate_limit c
      in if max_actions limit = 0 \<or> per_seconds limit = 0 then c\<lparr>sc_history := []\<rparr>
         else c\<lparr>sc_history :=
                  dropWhile (\<lambda>h. max (per_seconds limit) 1 * second < t - h) (sc_history c)\<rparr>)"

definition screenshot_allowed :: "string \<Rightarrow> screenshot_control \<Rightarrow> string \<Rightarrow> bool" where
  "screenshot_allowed temp c path =
     ((case sc_workspace_root c of Some root \<Rightarrow> path_starts_with path root | None \<Rightarrow> False)
      \<or> path_starts_with path (fallback_screenshot_directory temp))"

record screenshot_job =
  job_path :: string
  job_backend :: screenshot_backend
  job_format :: string

text \<open>\<open>stamp\<close> is the time stamp of the file name; \<open>mkdir\<close> an error of creating the directory.\<close>

definition prepare_job ::
  "string \<Rightarrow> string \<Rightarrow> string option \<Rightarrow> nat \<Rightarrow> screenshot_control
     \<Rightarrow> (string + screenshot_job) \<times> screenshot_control" where
  "prepare_job temp stamp mkdir t c =
     (if \<not> sc_enabled c then
        (Inl ''Screenshot capability is disabled by configuration'', c)
      else
        (let c' = prune_history t c; limit = sc_rate_limit c'
         in if 0 < max_actions limit \<and> max_actions limit \<le> length (sc_history c') then
              (Inl (''Screenshot rate limit exceeded (max '' @ show_nat (max_actions limit) @ '' per ''
                 @ show_nat (max (per_seconds limit) 1) @ ''s)''), c')
            else case mkdir of
              Some err \<Rightarrow> (Inl err, c')
            | None \<Rightarrow>
                (let candidate = path_join (sc_output_dir c')
                   (''screenshot-'' @ stamp @ ''.'' @ sc_format c')
                 in if \<not> screenshot_allowed temp c' candidate then
                      (Inl (''Screenshot path '' @ candidate @ '' is outside of the allowed sandbox''), c')
                    else
                      (Inr \<lparr>job_path = candidate, job_backend = sc_backend c', job_format = sc_format c'\<rparr>,
                       c'\<lparr>sc_history := sc_history c' @ [t]\<rparr>))))"

subsection \<open>The state\<close>

definition new_state ::
  "string \<Rightarrow> string \<Rightarrow> string \<Rightarrow> string \<Rightarrow> worker_settings \<Rightarrow> string option \<Rightarrow> daemon_state" where
  "new_state version temp key file ws hook =
     \<lparr>clients = [], leases = [], expired_leases = [], pending_notifications = [],
      pending_approvals = [], ack_markers = [], ack_sockets = [], ack_writers = [], secret = key,
      d_journal = open_journal key, d_journal_file = file, worker_configs = ws_configs ws,
      workspace_root = ws_workspace_root ws, tasks_active = [], tasks_completed = [],
      notify_hook = hook, daemon_version = version,
      expected_worker_version = ws_expected_worker_version ws,
      screenshot = new_screenshot_control temp (ws_screenshot ws) (ws_screenshot_limit ws)
        (ws_screenshot_enabled ws) (ws_workspace_root ws),
      approver_target = (if trim (ws_approval_target ws) = [] then default_approver_target
        else ws_approval_target ws)\<rparr>"

definition client_alive :: "nat \<Rightarrow> client \<Rightarrow> bool" where
  "client_alive t c = (t - cl_last_heartbeat c < heartbeat_timeout)"

definition has_live_clients :: "nat \<Rightarrow> daemon_state \<Rightarrow> bool" where
  "has_live_clients t s = (\<exists>c \<in> set (hm_values (clients s)). client_alive t c)"

definition has_inflight_work :: "daemon_state \<Rightarrow> bool" where
  "has_inflight_work s = (tasks_active s \<noteq> [] \<or> leases s \<noteq> [] \<or> pending_approvals s \<noteq> [])"

definition is_client_alive :: "nat \<Rightarrow> string \<Rightarrow> daemon_state \<Rightarrow> bool" where
  "is_client_alive t ident s =
     (case hm_get (clients s) ident of Some c \<Rightarrow> client_alive t c | None \<Rightarrow> False)"

text \<open>One tick of the idle watch: since when the daemon is idle, and whether to shut down.\<close>

definition idle_tick :: "nat \<Rightarrow> nat \<Rightarrow> nat option \<Rightarrow> daemon_state \<Rightarrow> nat option \<times> bool" where
  "idle_tick idle_after t idle_since s =
     (if has_live_clients t s \<or> has_inflight_work s then (None, False)
      else let start = (case idle_since of Some i \<Rightarrow> i | None \<Rightarrow> t)
           in (Some start, idle_after \<le> t - start))"

definition add_notification :: "string \<Rightarrow> msg \<Rightarrow> daemon_state \<Rightarrow> daemon_state" where
  "add_notification client m s =
     s\<lparr>pending_notifications := hm_insert client
         ((case hm_get (pending_notifications s) client of Some ms \<Rightarrow> ms | None \<Rightarrow> []) @ [m])
         (pending_notifications s)\<rparr>"

definition get_notifications :: "string \<Rightarrow> daemon_state \<Rightarrow> msg list \<times> daemon_state" where
  "get_notifications client s =
     ((case hm_get (pending_notifications s) client of Some ms \<Rightarrow> ms | None \<Rightarrow> []),
      s\<lparr>pending_notifications := hm_remove client (pending_notifications s)\<rparr>)"

text \<open>The journal entry number \<open>i\<close> of a step; the daemon ignores its outcome.\<close>

definition log_event ::
  "daemon_crates \<Rightarrow> reading \<Rightarrow> nat \<Rightarrow> string \<Rightarrow> string \<Rightarrow> string \<Rightarrow> string \<Rightarrow> json
     \<Rightarrow> daemon_state \<Rightarrow> daemon_state" where
  "log_event lib r i ev eid from to meta s =
     (case journal_append lib (journal_io r i) (unix_ts r) ev eid from to meta (d_journal s)
             (d_journal_file s) of
        (_, j, file) \<Rightarrow> s\<lparr>d_journal := j, d_journal_file := file\<rparr>)"

definition insert_active_task :: "delegated_task \<Rightarrow> daemon_state \<Rightarrow> daemon_state" where
  "insert_active_task task s = s\<lparr>tasks_active := hm_insert (task_id task) task (tasks_active s)\<rparr>"

text \<open>The oldest entries above the limit go, oldest by last activity.\<close>

definition prune_completed :: "daemon_state \<Rightarrow> daemon_state" where
  "prune_completed s =
     (if length (tasks_completed s) \<le> max_completed_tasks then s
      else
        (let by_age = sort_key snd
               (map (\<lambda>task. (task_id task, last_activity task)) (hm_values (tasks_completed s)));
             overflow = length (tasks_completed s) - max_completed_tasks
         in s\<lparr>tasks_completed := foldl (\<lambda>m (tid, _). hm_remove tid m) (tasks_completed s)
                (take overflow by_age)\<rparr>))"

definition finalize_task :: "delegated_task \<Rightarrow> daemon_state \<Rightarrow> daemon_state" where
  "finalize_task task s =
     (if is_terminal (task_status task) then
        prune_completed (s\<lparr>tasks_completed := hm_insert (task_id task) task (tasks_completed s)\<rparr>)
      else s\<lparr>tasks_active := hm_insert (task_id task) task (tasks_active s)\<rparr>)"

definition build_snapshot :: "daemon_state \<Rightarrow> orchestration_status" where
  "build_snapshot s =
     \<lparr>st_active_tasks = hm_values (tasks_active s),
      st_completed_tasks = hm_values (tasks_completed s),
      st_summary =
        \<lparr>total_active = length (hm_values (tasks_active s)),
         total_completed = length (filter (has_status Completed) (hm_values (tasks_completed s))),
         total_failed = length (filter (has_status Failed) (hm_values (tasks_completed s))),
         oldest_active_task =
           map_option task_id (min_by_key task_created_at (hm_values (tasks_active s)))\<rparr>\<rparr>"

text \<open>A task leaves the active table, or else the completed one.\<close>

definition take_task :: "string \<Rightarrow> daemon_state \<Rightarrow> delegated_task option \<times> daemon_state" where
  "take_task tid s =
     (case hm_get (tasks_active s) tid of
        Some task \<Rightarrow> (Some task, s\<lparr>tasks_active := hm_remove tid (tasks_active s)\<rparr>)
      | None \<Rightarrow>
          (hm_get (tasks_completed s) tid,
           s\<lparr>tasks_active := hm_remove tid (tasks_active s),
             tasks_completed := hm_remove tid (tasks_completed s)\<rparr>))"

definition fill :: "'a option \<Rightarrow> 'a option \<Rightarrow> 'a option" where
  "fill x y = (case x of Some _ \<Rightarrow> x | None \<Rightarrow> y)"

end
