(* ===== verification/Daemon_Handlers.thy ===== *)
theory Daemon_Handlers
  imports Daemon_State
begin

text \<open>
  The handlers of \<open>devitd/src/main.rs\<close>, one definition each, and the two background steps: the
  clean-up of expired leases and clients, and the end of a subprocess worker. A handler is one
  step on the state; what it starts outside (hooks, workers, acknowledgement files) is a list of
  effects.
\<close>

subsection \<open>Outcomes and effects\<close>

datatype outcome = Reply msg | Silent | Refused string | Crash

datatype effect =
    LaunchHook hook_invocation
  | LaunchWorker worker_config worker_task
  | WriteAckSocket string
  | RemovePath string
  | WriteMarker string

type_synonym handled = "outcome \<times> effect list \<times> daemon_state"

definition new_msg :: "reading \<Rightarrow> nat \<Rightarrow> string \<Rightarrow> string \<Rightarrow> string \<Rightarrow> json \<Rightarrow> msg" where
  "new_msg r i ty from to p =
     \<lparr>msg_type = ty, msg_id = uuid r i, m_from = from, m_to = to, m_ts = unix_ts r,
      m_nonce = uuid r (i + 1), m_hmac = [], payload = p\<rparr>"

definition orchestrator :: string where
  "orchestrator = ''orchestrator''"

text \<open>A message that cannot be signed is dropped with a warning.\<close>

definition post_signed :: "daemon_crates \<Rightarrow> string \<Rightarrow> msg \<Rightarrow> daemon_state \<Rightarrow> daemon_state" where
  "post_signed lib target m s =
     (case sign_msg lib (secret s) m of None \<Rightarrow> s | Some m' \<Rightarrow> add_notification target m' s)"

definition build_error_response :: "reading \<Rightarrow> msg \<Rightarrow> string \<Rightarrow> string \<Rightarrow> msg" where
  "build_error_response r m code message =
     new_msg r 0 ''ERR'' orchestrator (m_from m)
       (JObj [(''code'', JStr code), (''message'', JStr message)])"

subsection \<open>Parts of a notification\<close>

record notification_parts =
  np_summary :: string
  np_details :: "json option"
  np_evidence :: "json option"
  np_metadata :: "json option"

definition merged_details :: "(string \<times> json) list \<Rightarrow> json" where
  "merged_details obj =
     (let base = (case map_of obj ''details'' of
            Some (JObj inner) \<Rightarrow> inner
          | Some other \<Rightarrow> [(''payload'', other)]
          | None \<Rightarrow> []);
          flagged = (case map_of obj ''truncated'' of
            Some flag \<Rightarrow> AList.update ''truncated'' flag base
          | None \<Rightarrow> base)
      in JObj (case map_of obj ''original_size'' of
            Some n \<Rightarrow> AList.update ''original_size'' n flagged
          | None \<Rightarrow> flagged))"

definition extract_notification_parts :: "daemon_crates \<Rightarrow> json \<Rightarrow> notification_parts" where
  "extract_notification_parts lib artifacts =
     (case artifacts of
        JObj obj \<Rightarrow>
          \<lparr>np_summary = (case get_str artifacts ''summary'' of Some t \<Rightarrow> t
             | None \<Rightarrow> ''daemon notification''),
           np_details = (if map_of obj ''truncated'' \<noteq> None \<or> map_of obj ''original_size'' \<noteq> None then
               Some (merged_details obj)
             else map_of obj ''details''),
           np_evidence = map_of obj ''evidence'', np_metadata = map_of obj ''metadata''\<rparr>
      | other \<Rightarrow>
          \<lparr>np_summary = json_text lib other, np_details = None, np_evidence = None,
           np_metadata = None\<rparr>)"

definition map_status :: "string \<Rightarrow> task_status" where
  "map_status st =
     (if st = ''completed'' then Completed
      else if st = ''failed'' then Failed
      else if st = ''cancelled'' then Cancelled
      else if st = ''pending'' then Pending
      else InProgress)"

definition parts_record :: "reading \<Rightarrow> string \<Rightarrow> notification_parts \<Rightarrow> task_notification" where
  "parts_record r st np =
     \<lparr>received_at = utc r, n_status = st, n_summary = np_summary np, n_details = np_details np,
      n_evidence = np_evidence np, auto_generated = True, n_metadata = np_metadata np\<rparr>"

subsection \<open>Expiry\<close>

definition expiry_summary :: string where
  "expiry_summary =
     ''Task lease expired after '' @ show_nat lease_ttl_secs @ ''s without completion''"

definition expiry_details :: "daemon_crates \<Rightarrow> reading \<Rightarrow> lease \<Rightarrow> json" where
  "expiry_details lib r l =
     JObj [(''reason'', JStr ''lease_timeout''), (''timeout_secs'', JInt (int lease_ttl_secs)),
           (''expired_at'', JStr (rfc3339 lib (utc r))), (''worker'', JStr (ls_assigned_to l))]"

definition expiry_parts :: "daemon_crates \<Rightarrow> reading \<Rightarrow> lease \<Rightarrow> notification_parts" where
  "expiry_parts lib r l =
     \<lparr>np_summary = expiry_summary, np_details = Some (expiry_details lib r l), np_evidence = None,
      np_metadata = Some (JObj [(''failure'', expiry_details lib r l)])\<rparr>"

definition expired_task ::
  "daemon_crates \<Rightarrow> reading \<Rightarrow> string \<Rightarrow> lease \<Rightarrow> delegated_task option \<Rightarrow> delegated_task" where
  "expired_task lib r tid l task =
     (let entry = parts_record r ''failed'' (expiry_parts lib r l)
      in case task of
           Some t \<Rightarrow>
             t\<lparr>task_status := Failed, last_activity := utc r,
               notifications := notifications t @ [entry],
               task_working_dir := fill (ls_working_dir l) (task_working_dir t),
               response_format := fill (response_format t) (ls_response_format l),
               task_model := fill (task_model t) (ls_model l),
               model_resolved := fill (model_resolved t) (ls_model_resolved l)\<rparr>
         | None \<Rightarrow>
             \<lparr>task_id = tid, goal = expiry_summary, delegated_to = ls_assigned_to l,
              task_created_at = utc r, timeout_secs = default_timeout, task_status = Failed,
              task_context = None, watch_patterns = [], last_activity = utc r,
              notifications = [entry], task_working_dir = ls_working_dir l,
              response_format = ls_response_format l, task_model = ls_model l,
              model_resolved = ls_model_resolved l\<rparr>)"

definition lease_return_target :: "lease \<Rightarrow> string" where
  "lease_return_target l = (case ls_return_to l of Some t \<Rightarrow> t | None \<Rightarrow> ls_original_from l)"

definition expiry_payload :: "daemon_crates \<Rightarrow> reading \<Rightarrow> string \<Rightarrow> lease \<Rightarrow> json" where
  "expiry_payload lib r tid l =
     JObj [(''task_id'', JStr tid), (''status'', JStr ''failed''),
           (''artifacts'', JObj [(''summary'', JStr expiry_summary),
              (''details'', expiry_details lib r l), (''reported_at'', JStr (rfc3339 lib (utc r)))]),
           (''metadata'', JObj [(''failure'', expiry_details lib r l)]),
           (''return_to'', JStr (lease_return_target l))]"

text \<open>The lease number \<open>i\<close> that expires in a clean-up.\<close>

definition expire_lease ::
  "daemon_crates \<Rightarrow> reading \<Rightarrow> nat \<Rightarrow> string \<Rightarrow> daemon_state \<Rightarrow> daemon_state \<times> hook_invocation list" where
  "expire_lease lib r i tid s =
     (case hm_get (leases s) tid of
        None \<Rightarrow> (s, [])
      | Some l \<Rightarrow>
          (let s1 = s\<lparr>leases := hm_remove tid (leases s),
                      expired_leases := hm_insert tid l (expired_leases s)\<rparr>;
               target = lease_return_target l
           in case take_task tid s1 of
                (task, s2) \<Rightarrow>
                  (let s3 = finalize_task (expired_task lib r tid l task) s2;
                       m = new_msg r (2 * i) ''NOTIFY'' (ls_assigned_to l) target
                         (expiry_payload lib r tid l);
                       s4 = post_signed lib target m s3;
                       s5 = log_event lib r i ''NOTIFY'' tid (ls_assigned_to l) target
                         (JObj [(''status'', JStr ''failed''), (''summary'', JStr expiry_summary),
                            (''details'', expiry_details lib r l),
                            (''metadata'', JObj [(''failure'', expiry_details lib r l)]),
                            (''reason'', JStr ''lease_timeout'')]) s4
                   in (s5, case notify_hook s5 of
                             None \<Rightarrow> []
                           | Some hook \<Rightarrow>
                               [(hook, \<lparr>hk_task_id = tid, hk_status = ''failed'',
                                   hk_worker = ls_assigned_to l, hk_return_to = target,
                                   hk_summary = expiry_summary, hk_working_dir = ls_working_dir l,
                                   hk_details = Some (expiry_details lib r l), hk_evidence = None,
                                   hk_timestamp = rfc3339 lib (utc r),
                                   hk_metadata = Some (JObj [(''failure'', expiry_details lib r l)])\<rparr>)]))))"

fun expire_leases ::
  "daemon_crates \<Rightarrow> reading \<Rightarrow> nat \<Rightarrow> string list \<Rightarrow> daemon_state \<Rightarrow> daemon_state \<times> hook_invocation list"
where
  "expire_leases lib r i [] s = (s, [])"
| "expire_leases lib r i (tid # tids) s =
     (case expire_lease lib r i tid s of
        (s1, hooks1) \<Rightarrow>
          (case expire_leases lib r (i + 1) tids s1 of (s2, hooks2) \<Rightarrow> (s2, hooks1 @ hooks2)))"

definition drop_client :: "string \<Rightarrow> daemon_state \<Rightarrow> daemon_state" where
  "drop_client ident s =
     s\<lparr>clients := hm_remove ident (clients s),
       pending_notifications := hm_remove ident (pending_notifications s)\<rparr>"

definition cleanup_expired ::
  "daemon_crates \<Rightarrow> reading \<Rightarrow> daemon_state \<Rightarrow> daemon_state \<times> hook_invocation list" where
  "cleanup_expired lib r s =
     (case expire_leases lib r 0
             (map fst (filter (\<lambda>(tid, l). ls_deadline l < now r) (leases s))) s of
        (s1, hooks) \<Rightarrow>
          (foldl (\<lambda>st ident. drop_client ident st) s1
             (map fst (filter (\<lambda>(ident, c). heartbeat_timeout < now r - cl_last_heartbeat c)
                (clients s1))),
           hooks))"

subsection \<open>Registration and heartbeat\<close>

definition string_list :: "json option \<Rightarrow> string list" where
  "string_list v = (case Option.bind v as_array of Some xs \<Rightarrow> List.map_filter as_str xs | None \<Rightarrow> [])"

definition version_error :: "reading \<Rightarrow> msg \<Rightarrow> string \<Rightarrow> string \<Rightarrow> string option \<Rightarrow> msg" where
  "version_error r m daemon expected actual =
     new_msg r 0 ''ERR'' orchestrator (m_from m)
       (case actual of
          Some a \<Rightarrow>
            JObj [(''code'', JStr ''E_VERSION_MISMATCH''),
                  (''message'', JStr (''expected worker version '' @ [CHR 0x27] @ expected @ [CHR 0x27]
                     @ '' but client reported '' @ [CHR 0x27] @ a @ [CHR 0x27])),
                  (''expected_worker_version'', JStr expected),
                  (''received_worker_version'', JStr a), (''daemon_version'', JStr daemon)]
        | None \<Rightarrow>
            JObj [(''code'', JStr ''E_VERSION_MISSING''),
                  (''message'', JStr (''expected worker version '' @ [CHR 0x27] @ expected @ [CHR 0x27]
                     @ '' but client omitted version field'')),
                  (''expected_worker_version'', JStr expected), (''daemon_version'', JStr daemon)])"

definition handle_register :: "daemon_crates \<Rightarrow> reading \<Rightarrow> msg \<Rightarrow> daemon_state \<Rightarrow> handled" where
  "handle_register lib r m s =
     (let caps = string_list (jget (payload m) ''caps'');
          version = Option.bind (map_option trim (get_str (payload m) ''version'')) nonempty;
          refused = (case expected_worker_version s of
             None \<Rightarrow> None
           | Some expected \<Rightarrow> if version = Some expected then None else Some expected)
      in case refused of
           Some expected \<Rightarrow> (Reply (version_error r m (daemon_version s) expected version), [], s)
         | None \<Rightarrow>
             (let s1 = s\<lparr>clients := hm_insert (m_from m)
                    \<lparr>cl_ident = m_from m, cl_last_heartbeat = now r, cl_capabilities = caps,
                     cl_version = version\<rparr> (clients s)\<rparr>;
                  s2 = log_event lib r 0 ''REGISTER'' (msg_id m) (m_from m) orchestrator
                    (JObj [(''capabilities'', JArr (map JStr caps)),
                           (''pid'', jopt (jget (payload m) ''pid'')),
                           (''version'', jstr_opt version)]) s1
              in (Reply (new_msg r 0 ''ACK'' orchestrator (m_from m)
                    (JObj [(''daemon_version'', JStr (daemon_version s)),
                           (''expected_worker_version'', jstr_opt (expected_worker_version s)),
                           (''worker_version'', jopt (jget (payload m) ''version''))])), [], s2)))"

definition first_notification :: "string \<Rightarrow> daemon_state \<Rightarrow> handled" where
  "first_notification client s =
     (case get_notifications client s of
        (ms, s') \<Rightarrow> ((case ms of [] \<Rightarrow> Silent | m # _ \<Rightarrow> Reply m), [], s'))"

definition handle_heartbeat :: "daemon_crates \<Rightarrow> reading \<Rightarrow> msg \<Rightarrow> daemon_state \<Rightarrow> handled" where
  "handle_heartbeat lib r m s =
     first_notification (m_from m)
       (case hm_get (clients s) (m_from m) of
          None \<Rightarrow> s
        | Some c \<Rightarrow>
            s\<lparr>clients := hm_insert (m_from m) (c\<lparr>cl_last_heartbeat := now r\<rparr>) (clients s)\<rparr>)"

definition handle_poll :: "daemon_crates \<Rightarrow> reading \<Rightarrow> msg \<Rightarrow> daemon_state \<Rightarrow> handled" where
  "handle_poll lib r m s = first_notification (m_from m) s"

definition handle_status_request :: "daemon_crates \<Rightarrow> reading \<Rightarrow> msg \<Rightarrow> daemon_state \<Rightarrow> handled" where
  "handle_status_request lib r m s =
     (case snapshot_json lib (build_snapshot s) of
        None \<Rightarrow> (Refused ''serialization failed'', [], s)
      | Some v \<Rightarrow> (Reply (new_msg r 0 ''STATUS_RESPONSE'' orchestrator (m_from m) v), [], s))"

text \<open>\<open>Path::strip_prefix\<close>, on components.\<close>

definition relative_text :: "string \<Rightarrow> string \<Rightarrow> string option" where
  "relative_text path root =
     (if path_starts_with path root then
        (case drop (length (components root)) (components path) of
           [] \<Rightarrow> Some []
         | c # cs \<Rightarrow>
             Some (tl (concat (map (\<lambda>d. case d of Normal n \<Rightarrow> ''/'' @ n | ParentDir \<Rightarrow> ''/..'' | _ \<Rightarrow> [])
               (c # cs)))))
      else None)"

definition handle_screenshot :: "daemon_crates \<Rightarrow> reading \<Rightarrow> msg \<Rightarrow> daemon_state \<Rightarrow> handled" where
  "handle_screenshot lib r m s =
     (case prepare_job (temp_dir r) (shot_stamp r) (shot_mkdir r) (now r) (screenshot s) of
        (Inl err, c) \<Rightarrow>
          (Reply (build_error_response r m ''E_SCREENSHOT_DENIED'' err), [], s\<lparr>screenshot := c\<rparr>)
      | (Inr job, c) \<Rightarrow>
          (case shot_result r of
             Inl err \<Rightarrow>
               (Reply (build_error_response r m ''E_SCREENSHOT_FAILED'' err), [], s\<lparr>screenshot := c\<rparr>)
           | Inr (path, format, bytes) \<Rightarrow>
               (let shown = (case Option.bind (workspace_root s) (relative_text path) of
                       Some rel \<Rightarrow> rel
                     | None \<Rightarrow> path)
                in (Reply (new_msg r 0 ''ACK'' orchestrator (m_from m)
                      (JObj [(''status'', JStr ''ok''), (''path'', JStr shown),
                             (''format'', JStr format),
                             (''size'', JObj [(''bytes'', JInt (int bytes)),
                                (''human'', JStr (human_readable_size bytes))])])), [],
                    s\<lparr>screenshot := c\<rparr>))))"

end
