(* ===== verification/Daemon_Tasks.thy ===== *)
theory Daemon_Tasks
  imports Daemon_Handlers
begin

text \<open>
  The handlers that move tasks (\<open>devitd/src/main.rs\<close>): delegation with its policy and
  approvals, notifications, the end of a subprocess worker, and the dispatcher that checks the
  signature first.
\<close>

subsection \<open>Failures before a task starts\<close>

definition failure_payload :: "string \<Rightarrow> string \<Rightarrow> json \<Rightarrow> json" where
  "failure_payload tid target artifacts =
     JObj [(''task_id'', JStr tid), (''status'', JStr ''failed''), (''artifacts'', artifacts),
           (''return_to'', JStr target)]"

definition failed_before_start ::
  "reading \<Rightarrow> notification_parts \<Rightarrow> string \<Rightarrow> string \<Rightarrow> task_details \<Rightarrow> delegated_task" where
  "failed_before_start r np tid worker td =
     \<lparr>task_id = tid, goal = td_goal td, delegated_to = worker, task_created_at = utc r,
      timeout_secs = td_timeout_secs td, task_status = Failed, task_context = td_context td,
      watch_patterns = td_watch_patterns td, last_activity = utc r,
      notifications = [(parts_record r ''failed'' np)\<lparr>n_evidence := None\<rparr>],
      task_working_dir = td_working_dir td, response_format = td_response_format td,
      task_model = td_model td, model_resolved = None\<rparr>"

definition record_immediate_failure ::
  "daemon_crates \<Rightarrow> reading \<Rightarrow> nat \<Rightarrow> string \<Rightarrow> string \<Rightarrow> string \<Rightarrow> json \<Rightarrow> task_details
     \<Rightarrow> daemon_state \<Rightarrow> daemon_state" where
  "record_immediate_failure lib r i target tid worker artifacts td s =
     (let m = new_msg r i ''NOTIFY'' orchestrator target (failure_payload tid target artifacts);
          np = extract_notification_parts lib artifacts
      in finalize_task (failed_before_start r np tid worker td) (post_signed lib target m s))"

definition queue_failure_notification ::
  "daemon_crates \<Rightarrow> reading \<Rightarrow> nat \<Rightarrow> string \<Rightarrow> string \<Rightarrow> json \<Rightarrow> daemon_state \<Rightarrow> daemon_state" where
  "queue_failure_notification lib r i target tid artifacts s =
     post_signed lib target
       (new_msg r i ''NOTIFY'' orchestrator target (failure_payload tid target artifacts)) s"

text \<open>The failure goes to the return target, and to the sender too when that is another.\<close>

definition report_failure ::
  "daemon_crates \<Rightarrow> reading \<Rightarrow> string \<Rightarrow> string \<Rightarrow> string \<Rightarrow> string \<Rightarrow> json \<Rightarrow> task_details
     \<Rightarrow> daemon_state \<Rightarrow> daemon_state" where
  "report_failure lib r target sender tid worker artifacts td s =
     (let s1 = record_immediate_failure lib r 0 target tid worker artifacts td s
      in if target \<noteq> sender then queue_failure_notification lib r 2 sender tid artifacts s1 else s1)"

subsection \<open>Delegation\<close>

definition return_to_of :: "msg \<Rightarrow> string option" where
  "return_to_of m = get_str (payload m) ''return_to''"

definition details_of :: "msg \<Rightarrow> string \<Rightarrow> task_details" where
  "details_of m tid = parse_task_details (jget (payload m) ''task'') tid"

definition delegated ::
  "reading \<Rightarrow> string \<Rightarrow> string \<Rightarrow> bool \<Rightarrow> task_details \<Rightarrow> delegated_task" where
  "delegated r tid worker notify_worker td =
     \<lparr>task_id = tid, goal = td_goal td, delegated_to = worker, task_created_at = utc r,
      timeout_secs = td_timeout_secs td,
      task_status = (if notify_worker then Pending else InProgress),
      task_context = td_context td, watch_patterns = td_watch_patterns td, last_activity = utc r,
      notifications = [], task_working_dir = td_working_dir td,
      response_format = td_response_format td, task_model = td_model td, model_resolved = None\<rparr>"

definition new_lease :: "reading \<Rightarrow> msg \<Rightarrow> string \<Rightarrow> string \<Rightarrow> string option \<Rightarrow> task_details \<Rightarrow> lease" where
  "new_lease r m tid worker return_to td =
     \<lparr>ls_task_id = tid, ls_assigned_to = worker, ls_original_from = m_from m,
      ls_deadline = now r + lease_ttl, ls_return_to = return_to, ls_working_dir = td_working_dir td,
      ls_response_format = td_response_format td, ls_model = td_model td, ls_model_resolved = None\<rparr>"

definition proceed_with_delegation ::
  "daemon_crates \<Rightarrow> reading \<Rightarrow> msg \<Rightarrow> string \<Rightarrow> string \<Rightarrow> string option \<Rightarrow> string \<Rightarrow> bool \<Rightarrow> task_details
     \<Rightarrow> nat \<Rightarrow> daemon_state \<Rightarrow> handled" where
  "proceed_with_delegation lib r m tid worker return_to tool notify_worker td entry s =
     (let s1 = insert_active_task (delegated r tid worker notify_worker td)
            (s\<lparr>leases := hm_insert tid (new_lease r m tid worker return_to td) (leases s)\<rparr>);
          fields = [(''original_msg_id'', JStr (msg_id m)), (''return_to'', jstr_opt return_to),
            (''lease_ttl'', JInt (int lease_ttl_secs)), (''task'', jopt (jget (payload m) ''task'')),
            (''tool'', JStr tool), (''working_dir'', jstr_opt (td_working_dir td)),
            (''format'', jstr_opt (td_response_format td)), (''model'', jstr_opt (td_model td)),
            (''policy_decision'', JStr ''allow'')];
          task_msg = (new_msg r 0 ''DELEGATE'' orchestrator worker (payload m))
            \<lparr>msg_id := tid, m_nonce := uuid r 0\<rparr>;
          s2 = (if notify_worker then add_notification worker task_msg s1 else s1);
          meta = (if notify_worker then fields else fields @ [(''delivery'', JStr ''subprocess'')])
      in (Silent, [], log_event lib r entry ''DELEGATE'' tid (m_from m) worker (JObj meta) s2))"

definition handle_approval_request ::
  "daemon_crates \<Rightarrow> reading \<Rightarrow> msg \<Rightarrow> string \<Rightarrow> string \<Rightarrow> daemon_state \<Rightarrow> handled" where
  "handle_approval_request lib r m tid tool s =
     (let approval_id = uuid r 0;
          approver = (if trim (approver_target s) = [] then default_approver_target
            else approver_target s);
          approval_msg =
            \<lparr>msg_type = ''APPROVAL'', msg_id = approval_id, m_from = orchestrator, m_to = approver,
             m_ts = unix_ts r, m_nonce = uuid r 1, m_hmac = [],
             payload = create_approval_request (rfc3339 lib (utc r)) tid tool (msg_id m) (payload m)\<rparr>;
          s1 = add_notification approver approval_msg
            (s\<lparr>pending_approvals := hm_insert approval_id
                 \<lparr>pa_task_id = tid, pa_original_msg = m, pa_tool = tool, pa_requested_at = now r\<rparr>
                 (pending_approvals s)\<rparr>)
      in (Silent, [],
          log_event lib r 0 ''POLICY'' approval_id orchestrator approver
            (JObj [(''decision'', JStr ''request_approval''), (''tool'', JStr tool),
                   (''task_id'', JStr tid)]) s1))"

definition tool_of :: "msg \<Rightarrow> string" where
  "tool_of m =
     (case Option.bind (task_field (payload m) ''action'') as_str of Some t \<Rightarrow> t | None \<Rightarrow> ''unknown'')"

definition denied_details :: "msg \<Rightarrow> string \<Rightarrow> task_details \<Rightarrow> json" where
  "denied_details m tool td =
     JObj [(''reason'', JStr ''policy_denied''), (''tool'', JStr tool), (''task_id'', JStr (msg_id m)),
           (''worker'', JStr (m_to m)), (''goal'', JStr (td_goal td))]"

definition denied_summary :: "string \<Rightarrow> string" where
  "denied_summary tool = ''Task denied by policy (tool: '' @ tool @ '')''"

definition handle_denied ::
  "daemon_crates \<Rightarrow> reading \<Rightarrow> msg \<Rightarrow> string \<Rightarrow> task_details \<Rightarrow> daemon_state \<Rightarrow> handled" where
  "handle_denied lib r m tool td s =
     (let tid = msg_id m;
          artifacts = JObj [(''summary'', JStr (denied_summary tool)),
            (''details'', denied_details m tool td),
            (''metadata'', JObj [(''failure'', JObj [(''reason'', JStr ''policy_denied''),
               (''tool'', JStr tool), (''task_id'', JStr tid)])])];
          s1 = log_event lib r 0 ''POLICY'' tid (m_from m) orchestrator
            (JObj [(''decision'', JStr ''deny''), (''tool'', JStr tool),
                   (''reason'', JStr ''policy_forbidden'')]) s;
          target = (case return_to_of m of Some t \<Rightarrow> t | None \<Rightarrow> m_from m);
          s2 = report_failure lib r target (m_from m) tid (m_to m) artifacts td s1
      in (Reply (new_msg r 4 ''ERR'' orchestrator (m_from m)
            (JObj [(''code'', JStr ''E_POLICY_DENIED''), (''message'', JStr (denied_summary tool)),
                   (''details'', denied_details m tool td)])), [], s2))"

definition worker_task_of :: "reading \<Rightarrow> msg \<Rightarrow> task_details \<Rightarrow> worker_task" where
  "worker_task_of r m td =
     \<lparr>wt_id = msg_id m, wt_goal = td_goal td, wt_delegated_to = m_to m,
      wt_working_dir = td_working_dir td, wt_timeout_secs = Some (td_timeout_secs td),
      wt_return_to = return_to_of m, wt_response_format = td_response_format td,
      wt_time_queued = utc r, wt_model = td_model td, wt_context = td_context td\<rparr>"

definition handle_delegate :: "daemon_crates \<Rightarrow> reading \<Rightarrow> msg \<Rightarrow> daemon_state \<Rightarrow> handled" where
  "handle_delegate lib r m s =
     (let tool = tool_of m; td = details_of m (msg_id m); worker = m_to m
      in case policy_eval tool (payload m) of
           DenyTask \<Rightarrow> handle_denied lib r m tool td s
         | NeedApproval \<Rightarrow> handle_approval_request lib r m (msg_id m) tool s
         | AllowTask \<Rightarrow>
             (case hm_get (worker_configs s) worker of
                Some config \<Rightarrow>
                  (case proceed_with_delegation lib r m (msg_id m) worker (return_to_of m) tool False
                          td 0 s of
                     (out, effects, s') \<Rightarrow>
                       (Silent, effects @ [LaunchWorker config (worker_task_of r m td)], s'))
              | None \<Rightarrow>
                  if \<not> is_client_alive (now r) worker s then (Silent, [], s)
                  else proceed_with_delegation lib r m (msg_id m) worker (return_to_of m) tool True
                         td 0 s))"

subsection \<open>Notifications\<close>

definition notify_task_id :: "msg \<Rightarrow> string" where
  "notify_task_id m = (case get_str (payload m) ''task_id'' of Some t \<Rightarrow> t | None \<Rightarrow> msg_id m)"

definition is_ack :: "msg \<Rightarrow> bool" where
  "is_ack m =
     (case get_str (payload m) ''status'' of
        Some st \<Rightarrow> eq_ignore_ascii_case st ''ack''
      | None \<Rightarrow> False)"

text \<open>The socket is tried first; the marker file is the fallback. Both are forgotten.\<close>

definition handle_ack :: "reading \<Rightarrow> string \<Rightarrow> daemon_state \<Rightarrow> handled" where
  "handle_ack r tid s =
     (let marker = hm_get (ack_markers s) tid;
          writer = hm_get (ack_writers s) tid;
          socket = hm_get (ack_sockets s) tid;
          s1 = s\<lparr>ack_markers := hm_remove tid (ack_markers s),
                 ack_writers := hm_remove tid (ack_writers s),
                 ack_sockets := hm_remove tid (ack_sockets s)\<rparr>;
          gone = (case socket of Some p \<Rightarrow> [RemovePath p] | None \<Rightarrow> [])
      in if writer \<noteq> None \<and> ack_write_ok r then
           (Silent, [WriteAckSocket tid] @ gone
              @ (case marker of Some p \<Rightarrow> [RemovePath p] | None \<Rightarrow> []), s1)
         else
           (Silent, (case marker of Some p \<Rightarrow> [WriteMarker p] | None \<Rightarrow> []) @ gone, s1))"

definition notify_status :: "msg \<Rightarrow> string" where
  "notify_status m =
     (case get_str (payload m) ''status'' of Some st \<Rightarrow> st | None \<Rightarrow> ''completed'')"

definition notify_parts :: "daemon_crates \<Rightarrow> msg \<Rightarrow> notification_parts" where
  "notify_parts lib m = extract_notification_parts lib (jopt (jget (payload m) ''artifacts''))"

definition metadata_text :: "notification_parts \<Rightarrow> string \<Rightarrow> string option" where
  "metadata_text np key =
     (case Option.bind (np_metadata np) as_object of
        Some obj \<Rightarrow> Option.bind (map_of obj key) as_str
      | None \<Rightarrow> None)"

definition leased_task ::
  "reading \<Rightarrow> string \<Rightarrow> lease \<Rightarrow> string \<Rightarrow> notification_parts \<Rightarrow> delegated_task option \<Rightarrow> delegated_task"
where
  "leased_task r tid l st np task =
     (let entry = parts_record r st np;
          requested = metadata_text np ''model_requested'';
          used = metadata_text np ''model_used''
      in case task of
           Some t \<Rightarrow>
             t\<lparr>task_status := map_status st, last_activity := utc r,
               notifications := notifications t @ [entry],
               task_working_dir := fill (ls_working_dir l) (task_working_dir t),
               response_format := fill (response_format t) (ls_response_format l),
               task_model := fill (task_model t) (fill requested (ls_model l)),
               model_resolved := fill used (model_resolved t)\<rparr>
         | None \<Rightarrow>
             \<lparr>task_id = tid, goal = np_summary np, delegated_to = ls_assigned_to l,
              task_created_at = utc r, timeout_secs = default_timeout,
              task_status = map_status st, task_context = None, watch_patterns = [],
              last_activity = utc r, notifications = [entry],
              task_working_dir = ls_working_dir l, response_format = ls_response_format l,
              task_model = fill requested (ls_model l), model_resolved = used\<rparr>)"

definition late_task ::
  "reading \<Rightarrow> string \<Rightarrow> string \<Rightarrow> string \<Rightarrow> notification_parts \<Rightarrow> delegated_task option \<Rightarrow> delegated_task"
where
  "late_task r tid sender st np task =
     (let entry = parts_record r st np
      in case task of
           Some t \<Rightarrow>
             t\<lparr>task_status := map_status st, last_activity := utc r,
               notifications := notifications t @ [entry]\<rparr>
         | None \<Rightarrow>
             \<lparr>task_id = tid, goal = np_summary np, delegated_to = sender, task_created_at = utc r,
              timeout_secs = default_timeout, task_status = map_status st, task_context = None,
              watch_patterns = [], last_activity = utc r, notifications = [entry],
              task_working_dir = None, response_format = None, task_model = None,
              model_resolved = None\<rparr>)"

definition hook_effect ::
  "daemon_crates \<Rightarrow> reading \<Rightarrow> daemon_state \<Rightarrow> string \<Rightarrow> string \<Rightarrow> string \<Rightarrow> string \<Rightarrow> string option
     \<Rightarrow> notification_parts \<Rightarrow> effect list" where
  "hook_effect lib r s tid st worker target dir np =
     (case notify_hook s of
        None \<Rightarrow> []
      | Some hook \<Rightarrow>
          [LaunchHook (hook,
             \<lparr>hk_task_id = tid, hk_status = st, hk_worker = worker, hk_return_to = target,
              hk_summary = np_summary np, hk_working_dir = dir, hk_details = np_details np,
              hk_evidence = np_evidence np, hk_timestamp = rfc3339 lib (utc r),
              hk_metadata = np_metadata np\<rparr>)])"

definition notify_meta :: "string \<Rightarrow> notification_parts \<Rightarrow> (string \<times> json) list" where
  "notify_meta st np =
     [(''status'', JStr st), (''summary'', JStr (np_summary np)), (''details'', jopt (np_details np)),
      (''evidence'', jopt (np_evidence np)), (''metadata'', jopt (np_metadata np))]"

text \<open>
  Both branches of a notification: the task is rewritten and filed, the message goes on to the
  target, the hook starts, the journal gets an entry. When the forward cannot be signed, the
  handler stops there.
\<close>

definition forward_notify ::
  "daemon_crates \<Rightarrow> reading \<Rightarrow> msg \<Rightarrow> string \<Rightarrow> string \<Rightarrow> string \<Rightarrow> string \<Rightarrow> string option
     \<Rightarrow> notification_parts \<Rightarrow> (string \<times> json) list \<Rightarrow> daemon_state \<Rightarrow> handled" where
  "forward_notify lib r m tid st worker target dir np meta s =
     (case sign_msg lib (secret s) (new_msg r 0 ''NOTIFY'' orchestrator target (payload m)) of
        None \<Rightarrow> (Silent, [], s)
      | Some fwd \<Rightarrow>
          (let s1 = add_notification target fwd s
           in (Silent, hook_effect lib r s1 tid st worker target dir np,
               log_event lib r 0 ''NOTIFY'' tid (m_from m) target (JObj meta) s1)))"

definition notify_with_lease ::
  "daemon_crates \<Rightarrow> reading \<Rightarrow> msg \<Rightarrow> string \<Rightarrow> lease \<Rightarrow> daemon_state \<Rightarrow> handled" where
  "notify_with_lease lib r m tid l s =
     (let st = notify_status m; np = notify_parts lib m;
          target = (case return_to_of m of Some t \<Rightarrow> t | None \<Rightarrow> ls_original_from l)
      in case take_task tid s of
           (task, s1) \<Rightarrow>
             forward_notify lib r m tid st (ls_assigned_to l) target (ls_working_dir l) np
               (notify_meta st np @ [(''completed_by'', JStr (ls_assigned_to l))])
               (finalize_task (leased_task r tid l st np task) s1))"

definition notify_late :: "daemon_crates \<Rightarrow> reading \<Rightarrow> msg \<Rightarrow> string \<Rightarrow> daemon_state \<Rightarrow> handled" where
  "notify_late lib r m tid s =
     (let st = notify_status m; np = notify_parts lib m;
          target = (case return_to_of m of Some t \<Rightarrow> t | None \<Rightarrow> m_from m)
      in case take_task tid s of
           (task, s1) \<Rightarrow>
             forward_notify lib r m tid st (m_from m) target None np
               (notify_meta st np @ [(''note'', JStr ''late_notification'')])
               (finalize_task (late_task r tid (m_from m) st np task) s1))"

definition handle_notify :: "daemon_crates \<Rightarrow> reading \<Rightarrow> msg \<Rightarrow> daemon_state \<Rightarrow> handled" where
  "handle_notify lib r m s =
     (let tid = notify_task_id m
      in if is_ack m then handle_ack r tid s
         else case hm_get (leases s) tid of
           Some l \<Rightarrow> notify_with_lease lib r m tid l (s\<lparr>leases := hm_remove tid (leases s)\<rparr>)
         | None \<Rightarrow>
             (case hm_get (expired_leases s) tid of
                Some l \<Rightarrow>
                  notify_with_lease lib r m tid l
                    (s\<lparr>expired_leases := hm_remove tid (expired_leases s)\<rparr>)
              | None \<Rightarrow> notify_late lib r m tid s))"

subsection \<open>The end of a subprocess worker\<close>

definition build_worker_artifacts :: "daemon_crates \<Rightarrow> reading \<Rightarrow> worker_outcome \<Rightarrow> json" where
  "build_worker_artifacts lib r w =
     JObj ([(''summary'', JStr (wo_summary w))]
       @ (case wo_details w of Some d \<Rightarrow> [(''details'', d)] | None \<Rightarrow> [])
       @ (case wo_evidence w of Some e \<Rightarrow> [(''evidence'', e)] | None \<Rightarrow> [])
       @ (if wo_truncated w then
            [(''truncated'', JBool True)]
            @ (case wo_original_size w of Some n \<Rightarrow> [(''original_size'', JInt (int n))] | None \<Rightarrow> [])
          else [])
       @ (case metadata_json lib (wo_metadata w) of Some v \<Rightarrow> [(''metadata'', v)] | None \<Rightarrow> [])
       @ [(''reported_at'', JStr (rfc3339 lib (utc r)))])"

definition worker_notification ::
  "daemon_crates \<Rightarrow> reading \<Rightarrow> worker_task \<Rightarrow> worker_outcome \<Rightarrow> msg" where
  "worker_notification lib r wt w =
     \<lparr>msg_type = ''NOTIFY'', msg_id = wt_id wt, m_from = wt_delegated_to wt, m_to = orchestrator,
      m_ts = unix_ts r, m_nonce = uuid r 2, m_hmac = [],
      payload = JObj ([(''task_id'', JStr (wt_id wt)), (''status'', JStr (worker_status_text (wo_status w))),
          (''artifacts'', build_worker_artifacts lib r w)]
        @ (case wt_return_to wt of Some t \<Rightarrow> [(''return_to'', JStr t)] | None \<Rightarrow> []))\<rparr>"

definition finish_worker ::
  "daemon_crates \<Rightarrow> reading \<Rightarrow> worker_task \<Rightarrow> worker_outcome \<Rightarrow> daemon_state \<Rightarrow> handled" where
  "finish_worker lib r wt w s =
     (case sign_msg lib (secret s) (worker_notification lib r wt w) of
        None \<Rightarrow> (Silent, [], s)
      | Some m \<Rightarrow> handle_notify lib r m s)"

subsection \<open>Approvals\<close>

definition denial_note :: "msg \<Rightarrow> string option" where
  "denial_note m = Option.bind (map_option trim (get_str (payload m) ''note'')) nonempty"

definition denial_artifacts :: "msg \<Rightarrow> pending_approval \<Rightarrow> json" where
  "denial_artifacts m p =
     (let note = denial_note m;
          tail = (case note of Some n \<Rightarrow> [(''note'', JStr n)] | None \<Rightarrow> []);
          summary = (case note of
              Some n \<Rightarrow> ''Approval denied for task '' @ pa_task_id p @ '': '' @ n
            | None \<Rightarrow> ''Approval denied for task '' @ pa_task_id p @ '' (tool: '' @ pa_tool p @ '')'')
      in JObj [(''summary'', JStr summary),
           (''details'', JObj ([(''reason'', JStr ''approval_denied''), (''tool'', JStr (pa_tool p)),
              (''task_id'', JStr (pa_task_id p)), (''approver'', JStr (m_from m))] @ tail)),
           (''metadata'', JObj [(''failure'', JObj ([(''reason'', JStr ''approval_denied''),
              (''tool'', JStr (pa_tool p)), (''approver'', JStr (m_from m)),
              (''approval_id'', JStr (msg_id m))] @ tail))])])"

definition decision_meta :: "string \<Rightarrow> msg \<Rightarrow> pending_approval \<Rightarrow> json" where
  "decision_meta decision m p =
     JObj [(''decision'', JStr decision), (''tool'', JStr (pa_tool p)),
           (''task_id'', JStr (pa_task_id p)), (''note'', jopt (jget (payload m) ''note''))]"

definition handle_approval_decision :: "daemon_crates \<Rightarrow> reading \<Rightarrow> msg \<Rightarrow> daemon_state \<Rightarrow> handled" where
  "handle_approval_decision lib r m s =
     (case hm_get (pending_approvals s) (msg_id m) of
        None \<Rightarrow> (Silent, [], s)
      | Some p \<Rightarrow>
          (let s1 = s\<lparr>pending_approvals := hm_remove (msg_id m) (pending_approvals s)\<rparr>;
               original = pa_original_msg p;
               td = details_of original (pa_task_id p);
               status = (case get_str (payload m) ''status'' of Some st \<Rightarrow> st | None \<Rightarrow> ''unknown'')
           in if status = ''granted'' then
                proceed_with_delegation lib r original (pa_task_id p) (m_to original)
                  (return_to_of original) (pa_tool p) True td 1
                  (log_event lib r 0 ''POLICY'' (msg_id m) (m_from m) orchestrator
                     (decision_meta ''granted'' m p) s1)
              else if status = ''denied'' then
                (let s2 = log_event lib r 0 ''POLICY'' (msg_id m) (m_from m) orchestrator
                       (decision_meta ''denied'' m p) s1;
                     target = (case return_to_of original of Some t \<Rightarrow> t | None \<Rightarrow> m_from original)
                 in (Silent, [],
                     report_failure lib r target (m_from original) (pa_task_id p) (m_to original)
                       (denial_artifacts m p) td s2))
              else (Silent, [], s1)))"

subsection \<open>The dispatcher\<close>

definition dispatch :: "daemon_crates \<Rightarrow> reading \<Rightarrow> msg \<Rightarrow> daemon_state \<Rightarrow> handled" where
  "dispatch lib r m s =
     (if msg_type m = ''REGISTER'' then handle_register lib r m s
      else if msg_type m = ''HEARTBEAT'' then handle_heartbeat lib r m s
      else if msg_type m = ''DELEGATE'' then handle_delegate lib r m s
      else if msg_type m = ''NOTIFY'' then handle_notify lib r m s
      else if msg_type m = ''APPROVAL_DECISION'' then handle_approval_decision lib r m s
      else if msg_type m = ''POLL'' then handle_poll lib r m s
      else if msg_type m = ''STATUS_REQUEST'' then handle_status_request lib r m s
      else if msg_type m = ''SCREENSHOT'' then handle_screenshot lib r m s
      else (Silent, [], s))"

definition handle_message :: "daemon_crates \<Rightarrow> reading \<Rightarrow> msg \<Rightarrow> daemon_state \<Rightarrow> handled" where
  "handle_message lib r m s =
     (case verify_hmac_detailed lib m (secret s) of
        None \<Rightarrow> (Refused ''invalid key length'', [], s)
      | Some check \<Rightarrow>
          if \<not> hc_valid check then
            (if shorten_sig (hc_provided check) = None \<or> shorten_sig (hc_expected check) = None
             then Crash else Silent, [], s)
          else dispatch lib r m s)"

text \<open>A connection signs every reply.\<close>

definition serve :: "daemon_crates \<Rightarrow> reading \<Rightarrow> msg \<Rightarrow> daemon_state \<Rightarrow> handled" where
  "serve lib r m s =
     (case handle_message lib r m s of
        (Reply reply, effects, s') \<Rightarrow>
          (case sign_msg lib (secret s') reply of
             None \<Rightarrow> (Refused ''invalid key length'', effects, s')
           | Some signed \<Rightarrow> (Reply signed, effects, s'))
      | other \<Rightarrow> other)"

end
