(* ===== verification/Daemon_Invariant.thy ===== *)
theory Daemon_Invariant
  imports Daemon_Tasks "HOL-Library.Multiset"
begin

text \<open>
  Runs of the daemon as a step relation, and what holds in every state a run reaches: tables
  filed by identifier, statuses that fit the table, no lease without a running task, and a
  bounded table of finished tasks.
\<close>

inductive daemon_step :: "daemon_crates \<Rightarrow> daemon_state \<Rightarrow> daemon_state \<Rightarrow> bool" for lib where
  receive: "handle_message lib r m s = (out, effects, s') \<Longrightarrow> daemon_step lib s s'"
| worker_done: "finish_worker lib r wt w s = (out, effects, s') \<Longrightarrow> daemon_step lib s s'"
| cleanup: "cleanup_expired lib r s = (s', hooks) \<Longrightarrow> daemon_step lib s s'"
| hook_ready: "s' = s\<lparr>ack_markers := ms, ack_sockets := ss, ack_writers := ws\<rparr> \<Longrightarrow> daemon_step lib s s'"

inductive daemon_reachable :: "daemon_crates \<Rightarrow> daemon_state \<Rightarrow> bool" for lib where
  start: "daemon_reachable lib (new_state version temp key file ws hook)"
| step: "daemon_reachable lib s \<Longrightarrow> daemon_step lib s s' \<Longrightarrow> daemon_reachable lib s'"

inductive_cases daemon_stepE: "daemon_step lib s s'"

subsection \<open>The invariant\<close>

definition daemon_inv :: "daemon_state \<Rightarrow> bool" where
  "daemon_inv s =
     (keyed task_id running (tasks_active s) \<and> keyed task_id finished (tasks_completed s)
      \<and> length (tasks_completed s) \<le> max_completed_tasks
      \<and> keyed ls_task_id (\<lambda>_. True) (leases s) \<and> keyed ls_task_id (\<lambda>_. True) (expired_leases s)
      \<and> keyed cl_ident (\<lambda>_. True) (clients s)
      \<and> (\<forall>tid. hm_get (leases s) tid \<noteq> None \<longrightarrow> hm_get (tasks_active s) tid \<noteq> None))"

text \<open>The fields that the invariant speaks of.\<close>

definition same_core :: "daemon_state \<Rightarrow> daemon_state \<Rightarrow> bool" where
  "same_core s s' =
     (tasks_active s' = tasks_active s \<and> tasks_completed s' = tasks_completed s \<and> leases s' = leases s
      \<and> expired_leases s' = expired_leases s \<and> clients s' = clients s \<and> secret s' = secret s)"

lemma same_core_refl [simp]: "same_core s s"
  by (simp add: same_core_def)

lemma same_core_trans: "same_core a b \<Longrightarrow> same_core b c \<Longrightarrow> same_core a c"
  by (simp add: same_core_def)

lemma same_core_inv: "same_core s s' \<Longrightarrow> daemon_inv s' = daemon_inv s"
  by (simp add: same_core_def daemon_inv_def)

lemma add_notification_core [simp]: "same_core s (add_notification t m s)"
  by (simp add: same_core_def add_notification_def)

lemma get_notifications_core [simp]: "same_core s (snd (get_notifications c s))"
  by (simp add: same_core_def get_notifications_def)

lemma post_signed_core [simp]: "same_core s (post_signed lib t m s)"
  by (simp add: post_signed_def split: option.split)

lemma log_event_core [simp]: "same_core s (log_event lib r i ev eid f t meta s)"
  by (simp add: same_core_def log_event_def split: prod.split)

lemmas core_inv =
  add_notification_core [THEN same_core_inv] get_notifications_core [THEN same_core_inv]
  post_signed_core [THEN same_core_inv] log_event_core [THEN same_core_inv]

subsection \<open>Pruning\<close>

lemma foldl_remove_get:
  "hm_get (foldl (\<lambda>m (tid, _). hm_remove tid m) m xs) k
    = (if k \<in> fst ` set xs then None else hm_get m k)"
  by (induction xs arbitrary: m) (auto simp: hm_get_delete)

lemma foldl_remove_keyed:
  "keyed key P m \<Longrightarrow> keyed key P (foldl (\<lambda>m (tid, _). hm_remove tid m) m xs)"
  by (induction xs arbitrary: m) auto

lemma foldl_remove_length:
  "hm_wf m \<Longrightarrow> distinct (map fst xs) \<Longrightarrow> (\<forall>k \<in> fst ` set xs. hm_get m k \<noteq> None) \<Longrightarrow>
     length (foldl (\<lambda>m (tid, _). hm_remove tid m) m xs) = length m - length xs"
proof (induction xs arbitrary: m)
  case Nil
  then show ?case by simp
next
  case (Cons x xs)
  obtain v where v: "hm_get m (fst x) = Some v"
    using Cons.prems(3) by fastforce
  have "length (hm_remove (fst x) m) = length m - 1"
    using length_remove_found [OF Cons.prems(1) v] .
  moreover have "\<forall>k \<in> fst ` set xs. hm_get (hm_remove (fst x) m) k \<noteq> None"
  proof
    fix k assume k: "k \<in> fst ` set xs"
    have "fst x \<notin> fst ` set xs" using Cons.prems(2) by simp
    with k have "k \<noteq> fst x" by metis
    then show "hm_get (hm_remove (fst x) m) k \<noteq> None"
      using Cons.prems(3) k by (auto simp: hm_get_delete)
  qed
  ultimately show ?case
    using Cons.IH [of "hm_remove (fst x) m"] Cons.prems(1,2) hm.wf_rem [OF Cons.prems(1)]
    by (simp add: case_prod_beta)
qed

text \<open>The identifiers with their ages, oldest first.\<close>

definition ages :: "daemon_state \<Rightarrow> (string \<times> int) list" where
  "ages s = sort_key snd (map (\<lambda>task. (task_id task, last_activity task)) (hm_values (tasks_completed s)))"

definition overflow :: "daemon_state \<Rightarrow> nat" where
  "overflow s = length (tasks_completed s) - max_completed_tasks"

lemma prune_completed_eq:
  "tasks_completed (prune_completed s)
    = foldl (\<lambda>m (tid, _). hm_remove tid m) (tasks_completed s) (take (overflow s) (ages s))"
  by (simp add: prune_completed_def ages_def overflow_def Let_def)

lemma prune_other [simp]:
  "tasks_active (prune_completed s) = tasks_active s" "leases (prune_completed s) = leases s"
  "expired_leases (prune_completed s) = expired_leases s" "clients (prune_completed s) = clients s"
  "secret (prune_completed s) = secret s"
  by (simp_all add: prune_completed_def Let_def)

lemma keyed_ids:
  assumes "keyed key P m"
  shows "map key (hm_values m) = hm_keys m"
proof -
  have "key v = k" if "(k, v) \<in> set m" for k v
    using that assms keyed_get hm_in_set keyed_wf by metis
  then show ?thesis by auto
qed

lemma ages_ids:
  assumes "keyed task_id P (tasks_completed s)"
  shows "distinct (map fst (ages s))" and "set (map fst (ages s)) = set (hm_keys (tasks_completed s))"
    and "length (ages s) = length (tasks_completed s)"
proof -
  have ids: "map task_id (hm_values (tasks_completed s)) = hm_keys (tasks_completed s)"
    by (rule keyed_ids [OF assms])
  let ?pairs = "map (\<lambda>task. (task_id task, last_activity task)) (hm_values (tasks_completed s))"
  have "mset (map fst (ages s)) = mset (map fst ?pairs)"
    unfolding ages_def mset_map mset_sort ..
  moreover have "map fst ?pairs = hm_keys (tasks_completed s)"
    unfolding ids [symmetric] by simp
  ultimately have "mset (map fst (ages s)) = mset (hm_keys (tasks_completed s))"
    by (simp only:)
  moreover have "distinct (hm_keys (tasks_completed s))"
    using assms keyed_wf hm_wf_def by metis
  ultimately show "distinct (map fst (ages s))"
    and "set (map fst (ages s)) = set (hm_keys (tasks_completed s))"
    using mset_eq_imp_distinct_iff mset_eq_setD by blast+
  show "length (ages s) = length (tasks_completed s)" by (simp add: ages_def)
qed

lemma prune_keyed: "keyed task_id P (tasks_completed s) \<Longrightarrow> keyed task_id P (tasks_completed (prune_completed s))"
  unfolding prune_completed_eq by (rule foldl_remove_keyed)

lemma prune_length:
  assumes "keyed task_id P (tasks_completed s)"
  shows "length (tasks_completed (prune_completed s)) = min (length (tasks_completed s)) max_completed_tasks"
proof -
  note ids = ages_ids [OF assms]
  let ?old = "take (overflow s) (ages s)"
  have there: "\<forall>k \<in> fst ` set ?old. hm_get (tasks_completed s) k \<noteq> None"
  proof
    fix k assume "k \<in> fst ` set ?old"
    then have "k \<in> set (map fst (ages s))" by (auto dest: in_set_takeD)
    then show "hm_get (tasks_completed s) k \<noteq> None"
      unfolding ids(2) by (simp add: map_of_eq_None_iff)
  qed
  have "distinct (map fst ?old)"
    using ids(1) by (metis distinct_take take_map)
  from foldl_remove_length [OF keyed_wf [OF assms] this there]
  have "length (tasks_completed (prune_completed s)) = length (tasks_completed s) - length ?old"
    unfolding prune_completed_eq .
  also have "length ?old = overflow s"
    by (simp add: ids(3) overflow_def)
  finally show ?thesis by (simp add: overflow_def)
qed

lemma age_of:
  assumes "keyed task_id P (tasks_completed s)" and "hm_get (tasks_completed s) k = Some t"
  shows "(k, last_activity t) \<in> set (ages s)"
proof -
  have "task_id t = k" using keyed_get [OF assms] by simp
  moreover have "t \<in> set (hm_values (tasks_completed s))"
    using assms hm_values_get keyed_wf by metis
  ultimately show ?thesis by (force simp: ages_def)
qed

text \<open>
  Pruning forgets the oldest finished tasks only: at most a thousand stay, nothing is
  forgotten below that, and no task that stays was active longer ago than one that went.
\<close>

theorem pruning_keeps_newest:
  assumes "keyed task_id finished (tasks_completed s)"
  shows "length (tasks_completed (prune_completed s)) = min (length (tasks_completed s)) 1000
    \<and> (\<forall>k k' t t'. hm_get (tasks_completed s) k = Some t \<and> hm_get (tasks_completed (prune_completed s)) k = None
        \<and> hm_get (tasks_completed (prune_completed s)) k' = Some t' \<longrightarrow> last_activity t \<le> last_activity t')"
proof -
  have "last_activity t \<le> last_activity t'"
    if k: "hm_get (tasks_completed s) k = Some t" "hm_get (tasks_completed (prune_completed s)) k = None"
      and k': "hm_get (tasks_completed (prune_completed s)) k' = Some t'" for k k' t t'
  proof -
    let ?n = "overflow s"
    have "k \<in> fst ` set (take ?n (ages s))"
      using k unfolding prune_completed_eq foldl_remove_get by (auto split: if_splits)
    then obtain a where a: "(k, a) \<in> set (take ?n (ages s))" by auto
    have t': "k' \<notin> fst ` set (take ?n (ages s))" "hm_get (tasks_completed s) k' = Some t'"
      using k' unfolding prune_completed_eq foldl_remove_get by (auto split: if_splits)
    have "(k', last_activity t') \<in> set (ages s)"
      using age_of [OF assms t'(2)] .
    then have drop: "(k', last_activity t') \<in> set (drop ?n (ages s))"
      using t'(1) by (metis Un_iff append_take_drop_id fst_conv image_eqI set_append)
    have "a = last_activity t"
      using age_of [OF assms k(1)] a ages_ids(1) [OF assms] in_set_takeD
      by (metis eq_key_imp_eq_value)
    moreover have "sorted (map snd (take ?n (ages s) @ drop ?n (ages s)))"
      by (simp add: ages_def)
    ultimately show ?thesis
      using a drop unfolding map_append sorted_append by fastforce
  qed
  then show ?thesis
    using prune_length [OF assms] by (auto simp: max_completed_tasks_def)
qed

subsection \<open>Preservation\<close>

lemma daemon_inv_leased:
  "daemon_inv s \<Longrightarrow> hm_get (leases s) tid \<noteq> None \<Longrightarrow> hm_get (tasks_active s) tid \<noteq> None"
  by (simp add: daemon_inv_def)

lemma finalize_inv:
  assumes inv: "daemon_inv s"
  shows "daemon_inv (finalize_task t s)"
proof (cases "is_terminal (task_status t)")
  case True
  let ?s = "s\<lparr>tasks_completed := hm_insert (task_id t) t (tasks_completed s)\<rparr>"
  have key: "keyed task_id finished (tasks_completed ?s)"
    using inv True by (auto simp: daemon_inv_def finished_def)
  have "length (tasks_completed (prune_completed ?s)) \<le> max_completed_tasks"
    using prune_length [OF key] by simp
  then show ?thesis
    using inv True prune_keyed [OF key] by (simp add: finalize_task_def daemon_inv_def)
next
  case False
  then have "running t"
    by (cases "task_status t") (auto simp: running_def is_terminal_def)
  then show ?thesis
    using inv False by (auto simp: finalize_task_def daemon_inv_def hm_get_update)
qed

lemma finalize_other [simp]:
  "leases (finalize_task t s) = leases s" "expired_leases (finalize_task t s) = expired_leases s"
  "clients (finalize_task t s) = clients s" "secret (finalize_task t s) = secret s"
  by (simp_all add: finalize_task_def)

lemma take_task_other:
  "leases (snd (take_task tid s)) = leases s"
  "expired_leases (snd (take_task tid s)) = expired_leases s"
  "clients (snd (take_task tid s)) = clients s" "secret (snd (take_task tid s)) = secret s"
  by (simp_all add: take_task_def split: option.split)

lemma take_task_id:
  "daemon_inv s \<Longrightarrow> fst (take_task tid s) = Some t \<Longrightarrow> task_id t = tid"
  by (auto simp: take_task_def daemon_inv_def split: option.splits dest: keyed_get)

lemma take_task_inv:
  assumes inv: "daemon_inv s" and free: "hm_get (leases s) tid = None"
  shows "daemon_inv (snd (take_task tid s))"
proof -
  have "length (hm_remove tid (tasks_completed s)) \<le> length (tasks_completed s)"
    by (simp add: length_delete_le)
  then show ?thesis
    using assms by (auto simp: take_task_def daemon_inv_def hm_get_delete split: option.split)
qed

text \<open>A lease may be taken away at any time.\<close>

lemma remove_lease_inv:
  assumes "daemon_inv s"
  shows "daemon_inv (s\<lparr>leases := hm_remove tid (leases s)\<rparr>)"
    and "daemon_inv (s\<lparr>expired_leases := hm_remove tid (expired_leases s)\<rparr>)"
    and "hm_get (leases s) tid = Some l \<Longrightarrow>
      daemon_inv (s\<lparr>leases := hm_remove tid (leases s), expired_leases := hm_insert tid l (expired_leases s)\<rparr>)"
  using assms by (auto simp: daemon_inv_def hm_get_delete dest: keyed_get)

text \<open>The whole path of a task that a message or a deadline moves.\<close>

lemma refile_inv:
  assumes "daemon_inv s" and "hm_get (leases s) tid = None"
  shows "daemon_inv (finalize_task t (snd (take_task tid s)))"
  by (intro finalize_inv take_task_inv assms)

lemma expire_lease_inv:
  assumes "daemon_inv s"
  shows "daemon_inv (fst (expire_lease lib r i tid s))"
proof (cases "hm_get (leases s) tid")
  case None
  then show ?thesis using assms by (simp add: expire_lease_def)
next
  case (Some l)
  let ?s = "s\<lparr>leases := hm_remove tid (leases s), expired_leases := hm_insert tid l (expired_leases s)\<rparr>"
  obtain task s2 where task: "take_task tid ?s = (task, s2)" by fastforce
  have "daemon_inv (finalize_task (expired_task lib r tid l task) s2)"
    using refile_inv [OF remove_lease_inv(3) [OF assms Some], of tid] task
    by (simp add: hm_get_delete)
  then show ?thesis
    using Some task by (simp add: expire_lease_def core_inv Let_def)
qed

lemma expire_leases_inv:
  "daemon_inv s \<Longrightarrow> daemon_inv (fst (expire_leases lib r i tids s))"
proof (induction tids arbitrary: i s)
  case (Cons tid tids)
  then show ?case
    using expire_lease_inv [OF Cons.prems, of lib r i tid]
    by (simp add: split_beta)
qed simp

lemma drop_client_inv: "daemon_inv s \<Longrightarrow> daemon_inv (drop_client ident s)"
  by (auto simp: daemon_inv_def drop_client_def)

lemma drop_clients_inv:
  "daemon_inv s \<Longrightarrow> daemon_inv (foldl (\<lambda>st ident. drop_client ident st) s idents)"
  by (induction idents arbitrary: s) (simp_all add: drop_client_inv)

lemma cleanup_inv: "daemon_inv s \<Longrightarrow> daemon_inv (fst (cleanup_expired lib r s))"
  by (simp add: cleanup_expired_def drop_clients_inv expire_leases_inv split_beta)

subsection \<open>Every handler keeps the invariant\<close>

lemma forward_notify_inv:
  "daemon_inv s \<Longrightarrow> daemon_inv (snd (snd (forward_notify lib r m tid st w target dir np meta s)))"
  by (simp add: forward_notify_def core_inv Let_def split: option.split)

lemma notify_with_lease_inv:
  "daemon_inv s \<Longrightarrow> hm_get (leases s) tid = None \<Longrightarrow>
     daemon_inv (snd (snd (notify_with_lease lib r m tid l s)))"
  using refile_inv [of s tid]
  by (simp add: notify_with_lease_def Let_def split_beta forward_notify_inv)

lemma notify_late_inv:
  "daemon_inv s \<Longrightarrow> hm_get (leases s) tid = None \<Longrightarrow>
     daemon_inv (snd (snd (notify_late lib r m tid s)))"
  using refile_inv [of s tid]
  by (simp add: notify_late_def Let_def split_beta forward_notify_inv)

lemma handle_ack_core [simp]: "same_core s (snd (snd (handle_ack r tid s)))"
  by (simp add: handle_ack_def same_core_def Let_def)

lemma handle_notify_inv:
  assumes "daemon_inv s"
  shows "daemon_inv (snd (snd (handle_notify lib r m s)))"
proof -
  let ?tid = "notify_task_id m"
  consider "is_ack m" | l where "\<not> is_ack m" "hm_get (leases s) ?tid = Some l"
    | l where "\<not> is_ack m" "hm_get (leases s) ?tid = None" "hm_get (expired_leases s) ?tid = Some l"
    | "\<not> is_ack m" "hm_get (leases s) ?tid = None" "hm_get (expired_leases s) ?tid = None"
    by fastforce
  then show ?thesis
  proof cases
    case 1
    then show ?thesis
      using assms same_core_inv [OF handle_ack_core [of s r ?tid]] by (simp add: handle_notify_def Let_def)
  next
    case (2 l)
    then show ?thesis
      using notify_with_lease_inv [OF remove_lease_inv(1) [OF assms, of ?tid], of ?tid]
      by (simp add: handle_notify_def Let_def hm_get_delete)
  next
    case (3 l)
    then show ?thesis
      using notify_with_lease_inv [OF remove_lease_inv(2) [OF assms, of ?tid], of ?tid]
      by (simp add: handle_notify_def Let_def)
  next
    case 4
    then show ?thesis
      using notify_late_inv [OF assms] by (simp add: handle_notify_def Let_def)
  qed
qed

lemma delegated_running: "running (delegated r tid w n td)"
  by (simp add: delegated_def running_def)

lemma proceed_inv:
  assumes "daemon_inv s"
  shows "daemon_inv (snd (snd (proceed_with_delegation lib r m tid w rt tool n td e s)))"
proof -
  let ?s = "insert_active_task (delegated r tid w n td)
    (s\<lparr>leases := hm_insert tid (new_lease r m tid w rt td) (leases s)\<rparr>)"
  have "task_id (delegated r tid w n td) = tid" "ls_task_id (new_lease r m tid w rt td) = tid"
    by (simp_all add: delegated_def new_lease_def)
  then have "daemon_inv ?s"
    using assms delegated_running [of r tid w n td]
    by (auto simp: daemon_inv_def insert_active_task_def hm_get_update)
  then show ?thesis
    by (cases n) (simp_all add: proceed_with_delegation_def Let_def core_inv)
qed

lemma record_failure_inv:
  "daemon_inv s \<Longrightarrow> daemon_inv (record_immediate_failure lib r i target tid w a td s)"
  by (simp add: record_immediate_failure_def Let_def finalize_inv core_inv)

lemma report_failure_inv:
  "daemon_inv s \<Longrightarrow> daemon_inv (report_failure lib r target sender tid w a td s)"
  by (simp add: report_failure_def queue_failure_notification_def Let_def record_failure_inv core_inv)

lemma handle_denied_inv: "daemon_inv s \<Longrightarrow> daemon_inv (snd (snd (handle_denied lib r m tool td s)))"
  by (simp add: handle_denied_def Let_def report_failure_inv core_inv)

lemma approvals_inv [simp]: "daemon_inv (s\<lparr>pending_approvals := a\<rparr>) = daemon_inv s"
  by (simp add: daemon_inv_def)

lemma handle_approval_request_inv:
  "daemon_inv s \<Longrightarrow> daemon_inv (snd (snd (handle_approval_request lib r m tid tool s)))"
  by (simp add: handle_approval_request_def Let_def core_inv)

lemma handle_delegate_inv: "daemon_inv s \<Longrightarrow> daemon_inv (snd (snd (handle_delegate lib r m s)))"
  by (auto simp: handle_delegate_def Let_def handle_denied_inv handle_approval_request_inv proceed_inv
      split_beta split: policy_action.split option.split)

lemma handle_approval_decision_inv:
  "daemon_inv s \<Longrightarrow> daemon_inv (snd (snd (handle_approval_decision lib r m s)))"
  by (auto simp: handle_approval_decision_def Let_def report_failure_inv proceed_inv core_inv
      split: option.split)

lemma screenshot_inv [simp]: "daemon_inv (s\<lparr>screenshot := c\<rparr>) = daemon_inv s"
  by (simp add: daemon_inv_def)

lemma clients_inv:
  "daemon_inv s \<Longrightarrow> cl_ident c = k \<Longrightarrow> daemon_inv (s\<lparr>clients := hm_insert k c (clients s)\<rparr>)"
  by (auto simp: daemon_inv_def)

lemma handle_register_inv: "daemon_inv s \<Longrightarrow> daemon_inv (snd (snd (handle_register lib r m s)))"
  by (auto simp: handle_register_def Let_def clients_inv core_inv split: option.split)

lemma first_notification_inv: "daemon_inv s \<Longrightarrow> daemon_inv (snd (snd (first_notification c s)))"
  by (simp add: first_notification_def split_beta core_inv)

lemma handle_heartbeat_inv:
  assumes "daemon_inv s"
  shows "daemon_inv (snd (snd (handle_heartbeat lib r m s)))"
proof -
  have "cl_ident c = m_from m" if "hm_get (clients s) (m_from m) = Some c" for c
    using assms that by (auto simp: daemon_inv_def dest: keyed_get)
  then show ?thesis
    using assms
    by (auto simp: handle_heartbeat_def intro!: first_notification_inv clients_inv split: option.split)
qed

lemma handle_screenshot_inv: "daemon_inv s \<Longrightarrow> daemon_inv (snd (snd (handle_screenshot lib r m s)))"
  by (simp add: handle_screenshot_def Let_def split: prod.split sum.split)

lemma dispatch_inv: "daemon_inv s \<Longrightarrow> daemon_inv (snd (snd (dispatch lib r m s)))"
  by (simp add: dispatch_def handle_register_inv handle_heartbeat_inv handle_delegate_inv
      handle_notify_inv handle_approval_decision_inv handle_poll_def first_notification_inv
      handle_status_request_def handle_screenshot_inv split: option.split)

lemma handle_message_inv: "daemon_inv s \<Longrightarrow> daemon_inv (snd (snd (handle_message lib r m s)))"
  by (simp add: handle_message_def dispatch_inv split: option.split)

lemma finish_worker_inv: "daemon_inv s \<Longrightarrow> daemon_inv (snd (snd (finish_worker lib r wt w s)))"
  by (simp add: finish_worker_def handle_notify_inv split: option.split)

lemma daemon_step_inv: "daemon_step lib s s' \<Longrightarrow> daemon_inv s \<Longrightarrow> daemon_inv s'"
proof (induction rule: daemon_step.induct)
  case (receive r m s out effects s')
  then show ?case using handle_message_inv [of s lib r m] by simp
next
  case (worker_done r wt w s out effects s')
  then show ?case using finish_worker_inv [of s lib r wt w] by simp
next
  case (cleanup r s s' hooks)
  then show ?case using cleanup_inv [of s lib r] by simp
next
  case (hook_ready s' s ms ss ws)
  then show ?case by (simp add: daemon_inv_def)
qed

lemma reachable_inv: "daemon_reachable lib s \<Longrightarrow> daemon_inv s"
proof (induction rule: daemon_reachable.induct)
  case (start version temp key jf ws hook)
  show ?case by (simp add: new_state_def daemon_inv_def)
next
  case (step s s')
  then show ?case using daemon_step_inv by blast
qed

text \<open>
  C8: Whatever messages, deadlines and workers arrive, and in whatever order: every table of the
  daemon files its entries by their own identifier; the active table holds pending and running
  tasks only, the finished table finished ones only and at most a thousand of them; and no lease
  is held for a task that is not active.
\<close>

theorem daemon_invariant:
  assumes "daemon_reachable lib s"
  shows "keyed task_id running (tasks_active s) \<and> keyed task_id finished (tasks_completed s)
    \<and> length (tasks_completed s) \<le> 1000
    \<and> (\<forall>tid. hm_get (leases s) tid \<noteq> None \<longrightarrow> hm_get (tasks_active s) tid \<noteq> None)"
  using reachable_inv [OF assms] by (simp add: daemon_inv_def max_completed_tasks_def)

end
