(* ===== verification/Daemon_Auth.thy ===== *)
theory Daemon_Auth
  imports Daemon_Invariant
begin

text \<open>
  Who may move the daemon: messages without the right signature do nothing, a signature stays
  good for ever, and a task gets its lease from the policy or from an approval only.
\<close>

subsection \<open>A small daemon to try things on\<close>

definition sample_lib :: daemon_crates where
  "sample_lib =
     \<lparr>hmac_sha256 = (\<lambda>key m. Some (show_nat (sum_list (map of_char (key @ m))))),
      b64 = id, unb64 = Some, json_text = (\<lambda>_. ''{}''), entry_text = (\<lambda>_. ''entry''),
      entry_of_text = (\<lambda>_. None), rfc3339 = (\<lambda>_. ''2025''), snapshot_json = (\<lambda>_. Some JNull),
      metadata_json = (\<lambda>_. None)\<rparr>"

definition cli_config :: worker_config where
  "cli_config =
     \<lparr>wc_type = Cli, wc_binary = ''codex'', wc_args = [''exec'', ''{goal}''], wc_timeout_secs = 300,
      wc_parse_mode = TextMode, wc_working_dir = None, wc_max_response_chars = None,
      wc_mcp_tool = None, wc_mcp_arguments = None, wc_default_model = None, wc_allowed_models = None\<rparr>"

definition sample_reading :: "nat \<Rightarrow> reading" where
  "sample_reading t =
     \<lparr>now = t, utc = int t, unix_ts = t, uuid = (\<lambda>i. ''u'' @ show_nat i), journal_io = (\<lambda>_. Written),
      temp_dir = ''/tmp'', ack_write_ok = True, shot_stamp = ''0'', shot_mkdir = None,
      shot_result = Inl ''no screen''\<rparr>"

definition sample_settings :: worker_settings where
  "sample_settings =
     \<lparr>ws_configs = [(''cli'', cli_config)], ws_workspace_root = Some ''/w'',
      ws_expected_worker_version = None, ws_screenshot_limit = \<lparr>max_actions = 2, per_seconds = 60\<rparr>,
      ws_screenshot_enabled = True,
      ws_screenshot = \<lparr>ss_enabled = True, ss_backend = Scrot, ss_format = ''png'', ss_output_dir = None\<rparr>,
      ws_approval_target = ''client:boss''\<rparr>"

definition sample_state :: daemon_state where
  "sample_state = new_state ''1'' ''/tmp'' ''k'' [] sample_settings None"

definition task_payload :: "string \<Rightarrow> string \<Rightarrow> json" where
  "task_payload tool path =
     JObj [(''task'', JObj [(''action'', JStr tool), (''path'', JStr path), (''goal'', JStr ''g'')])]"

definition sample_msg :: "string \<Rightarrow> string \<Rightarrow> string \<Rightarrow> string \<Rightarrow> json \<Rightarrow> msg" where
  "sample_msg ty mid from to p =
     \<lparr>msg_type = ty, msg_id = mid, m_from = from, m_to = to, m_ts = 0, m_nonce = ''n'', m_hmac = [],
      payload = p\<rparr>"

text \<open>The state with the worker \<open>w\<close> alive.\<close>

definition with_worker :: daemon_state where
  "with_worker =
     snd (snd (handle_register sample_lib (sample_reading 0)
       (sample_msg ''REGISTER'' ''m0'' ''w'' ''orchestrator'' (JObj [])) sample_state))"

definition delegate_msg :: "string \<Rightarrow> string \<Rightarrow> msg" where
  "delegate_msg mid path = sample_msg ''DELEGATE'' mid ''boss'' ''w'' (task_payload ''devit_patch_apply'' path)"

text \<open>The state with the task \<open>t1\<close> leased to \<open>w\<close>.\<close>

definition with_task :: daemon_state where
  "with_task =
     snd (snd (handle_delegate sample_lib (sample_reading 0) (delegate_msg ''t1'' ''/workdir/src/a'') with_worker))"

subsection \<open>The secret of a run\<close>

lemma same_core_secret: "same_core s s' \<Longrightarrow> secret s' = secret s"
  by (simp add: same_core_def)

lemmas core_secret =
  add_notification_core [THEN same_core_secret] get_notifications_core [THEN same_core_secret]
  post_signed_core [THEN same_core_secret] log_event_core [THEN same_core_secret]
  handle_ack_core [THEN same_core_secret]

lemma forward_notify_secret:
  "secret (snd (snd (forward_notify lib r m tid st w target dir np meta s))) = secret s"
  by (simp add: forward_notify_def core_secret Let_def split: option.split)

lemma handle_notify_secret: "secret (snd (snd (handle_notify lib r m s))) = secret s"
  by (simp add: handle_notify_def notify_with_lease_def notify_late_def Let_def split_beta
      forward_notify_secret take_task_other core_secret split: option.split)

lemma proceed_secret:
  "secret (snd (snd (proceed_with_delegation lib r m tid w rt tool n td e s))) = secret s"
  by (cases n) (simp_all add: proceed_with_delegation_def insert_active_task_def Let_def core_secret)

lemma report_failure_secret: "secret (report_failure lib r target sender tid w a td s) = secret s"
  by (simp add: report_failure_def record_immediate_failure_def queue_failure_notification_def Let_def
      core_secret)

lemma handle_delegate_secret: "secret (snd (snd (handle_delegate lib r m s))) = secret s"
  by (auto simp: handle_delegate_def handle_denied_def handle_approval_request_def Let_def split_beta
      proceed_secret report_failure_secret core_secret split: policy_action.split option.split)

lemma handle_approval_decision_secret:
  "secret (snd (snd (handle_approval_decision lib r m s))) = secret s"
  by (auto simp: handle_approval_decision_def Let_def proceed_secret report_failure_secret core_secret
      split: option.split)

lemma first_notification_secret: "secret (snd (snd (first_notification c s))) = secret s"
  by (simp add: first_notification_def split_beta core_secret)

lemma dispatch_secret: "secret (snd (snd (dispatch lib r m s))) = secret s"
  by (auto simp: dispatch_def handle_register_def handle_heartbeat_def handle_delegate_secret
      handle_notify_secret handle_approval_decision_secret handle_poll_def first_notification_secret
      handle_status_request_def handle_screenshot_def Let_def core_secret
      split: option.split prod.split sum.split)

lemma expire_lease_secret: "secret (fst (expire_lease lib r i tid s)) = secret s"
  by (simp add: expire_lease_def Let_def split_beta core_secret take_task_other split: option.split)

lemma expire_leases_secret: "secret (fst (expire_leases lib r i tids s)) = secret s"
  by (induction tids arbitrary: i s) (simp_all add: split_beta expire_lease_secret)

lemma drop_clients_secret: "secret (foldl (\<lambda>st ident. drop_client ident st) s ids) = secret s"
  by (induction ids arbitrary: s) (simp_all add: drop_client_def)

lemma finish_worker_secret: "secret (snd (snd (finish_worker lib r wt w s))) = secret s"
  by (simp add: finish_worker_def handle_notify_secret split: option.split)

lemma step_secret: "daemon_step lib s s' \<Longrightarrow> secret s' = secret s"
proof (induction rule: daemon_step.induct)
  case (receive r m s out effects s')
  then show ?case
    using dispatch_secret [of lib r m s] by (simp add: handle_message_def split: option.splits if_splits)
next
  case (worker_done r wt w s out effects s')
  then show ?case
    using finish_worker_secret [of lib r wt w s] by simp
next
  case (cleanup r s s' hooks)
  then show ?case
    by (auto simp: cleanup_expired_def split_beta drop_clients_secret expire_leases_secret)
qed simp

lemma steps_secret: "(daemon_step lib)\<^sup>*\<^sup>* s s' \<Longrightarrow> secret s' = secret s"
  by (induction rule: rtranclp_induct) (simp_all add: step_secret)

subsection \<open>Signatures\<close>

text \<open>The signature of a message fits the secret.\<close>

definition well_signed :: "daemon_crates \<Rightarrow> string \<Rightarrow> msg \<Rightarrow> bool" where
  "well_signed lib key m =
     (hmac_sha256 lib key (canonical_body lib m) \<noteq> None
      \<and> hmac_sha256 lib key (canonical_body lib m)
          = Some (case unb64 lib (m_hmac m) of Some bytes \<Rightarrow> bytes | None \<Rightarrow> []))"

lemma well_signed_check:
  "well_signed lib (secret s) m \<longleftrightarrow>
     (\<exists>check. verify_hmac_detailed lib m (secret s) = Some check \<and> hc_valid check)"
  by (auto simp: well_signed_def verify_hmac_detailed_def Let_def split: option.splits)

lemma handle_well_signed: "well_signed lib (secret s) m \<Longrightarrow> handle_message lib r m s = dispatch lib r m s"
  using well_signed_check [of lib s m] by (auto simp: handle_message_def)

lemma handle_not_signed:
  "\<not> well_signed lib (secret s) m \<Longrightarrow>
     fst (handle_message lib r m s) \<in> {Silent, Crash, Refused ''invalid key length''}
     \<and> snd (handle_message lib r m s) = ([], s)"
  using well_signed_check [of lib s m] by (auto simp: handle_message_def split: option.split)

text \<open>
  C6: Only signed messages move the daemon. At any point of a run that began with the secret
  \<open>key\<close>, a message that is answered, starts anything outside, or changes the state, carries the
  HMAC of its fields under \<open>key\<close>.
\<close>

theorem only_signed_messages_act:
  assumes "(daemon_step lib)\<^sup>*\<^sup>* (new_state version temp key jf ws hook) s"
    and "handle_message lib r m s = (out, effects, s')"
    and "effects \<noteq> [] \<or> s' \<noteq> s \<or> (\<exists>reply. out = Reply reply)"
  shows "hmac_sha256 lib key (canonical_body lib m)
    = Some (case unb64 lib (m_hmac m) of Some bytes \<Rightarrow> bytes | None \<Rightarrow> [])"
proof -
  have "secret s = key"
    using steps_secret [OF assms(1)] by (simp add: new_state_def)
  moreover have "well_signed lib (secret s) m"
    using handle_not_signed [of lib s m r] assms(2,3) by auto
  ultimately show ?thesis by (simp add: well_signed_def)
qed

definition signed_delegate :: msg where
  "signed_delegate =
     (delegate_msg ''t1'' ''/workdir/src/a'')
       \<lparr>m_hmac := show_nat (sum_list (map of_char (''k'' @ canonical_body sample_lib
            (delegate_msg ''t1'' ''/workdir/src/a''))))\<rparr>"

lemma signed_delegate_ok: "well_signed sample_lib ''k'' signed_delegate"
  by (simp add: well_signed_def signed_delegate_def sample_lib_def canonical_body_def)

lemma sample_secret: "secret sample_state = ''k''"
  by (simp add: sample_state_def new_state_def)

definition register_msg :: msg where
  "register_msg =
     (let m = sample_msg ''REGISTER'' ''m0'' ''w'' ''orchestrator'' (JObj [])
      in m\<lparr>m_hmac := show_nat (sum_list (map of_char (''k'' @ canonical_body sample_lib m)))\<rparr>)"

lemma register_msg_ok: "well_signed sample_lib ''k'' register_msg"
  by (simp add: well_signed_def register_msg_def sample_lib_def canonical_body_def Let_def)

lemma sample_unb64: "unb64 sample_lib h = Some h"
  by (simp add: sample_lib_def)

lemma only_signed_messages_act_witness:
  "hmac_sha256 sample_lib ''k'' (canonical_body sample_lib register_msg) = Some (m_hmac register_msg)"
proof -
  have "\<exists>reply. fst (dispatch sample_lib (sample_reading 0) register_msg sample_state) = Reply reply"
    by (simp add: dispatch_def register_msg_def sample_msg_def handle_register_def sample_state_def
        new_state_def sample_settings_def Let_def)
  then obtain reply effects s' where
    "handle_message sample_lib (sample_reading 0) register_msg sample_state = (Reply reply, effects, s')"
    using handle_well_signed [of sample_lib sample_state] register_msg_ok sample_secret
    by (metis prod.collapse)
  from only_signed_messages_act [OF rtranclp.rtrancl_refl this [unfolded sample_state_def]]
  show ?thesis by (simp add: sample_unb64)
qed

text \<open>
  A signature never expires. Once a message is well signed in some state of a run, every
  later state of the run handles it again, whatever has been handled in between and whatever
  the clock says: neither its nonce nor its time stamp is looked at.
\<close>

theorem replay_is_handled:
  assumes "(daemon_step lib)\<^sup>*\<^sup>* s s'"
    and "map_option hc_valid (verify_hmac_detailed lib m (secret s)) = Some True"
  shows "handle_message lib r m s' = dispatch lib r m s'"
proof (rule handle_well_signed)
  show "well_signed lib (secret s') m"
    using assms(2) well_signed_check [of lib s m] steps_secret [OF assms(1)] by auto
qed

lemma receive_step: "daemon_step lib s (snd (snd (handle_message lib r m s)))"
  by (cases "handle_message lib r m s") (auto intro: daemon_step.receive)

lemma replay_is_handled_witness:
  "handle_message sample_lib (sample_reading 999999) register_msg
     (snd (snd (handle_message sample_lib (sample_reading 0) register_msg sample_state)))
   = dispatch sample_lib (sample_reading 999999) register_msg
     (snd (snd (handle_message sample_lib (sample_reading 0) register_msg sample_state)))"
proof (rule replay_is_handled)
  show "(daemon_step sample_lib)\<^sup>*\<^sup>* sample_state
      (snd (snd (handle_message sample_lib (sample_reading 0) register_msg sample_state)))"
    by (rule r_into_rtranclp, rule receive_step)
  show "map_option hc_valid (verify_hmac_detailed sample_lib register_msg (secret sample_state)) = Some True"
    using register_msg_ok well_signed_check [of sample_lib sample_state register_msg] sample_secret by auto
qed

subsection \<open>Where leases come from\<close>

text \<open>The lease of a task.\<close>

definition lease_of :: "daemon_state \<Rightarrow> string \<Rightarrow> lease option" where
  "lease_of s tid = hm_get (leases s) tid"

lemma same_core_lease_of: "same_core s s' \<Longrightarrow> lease_of s' = lease_of s"
  by (simp add: same_core_def lease_of_def fun_eq_iff)

lemmas core_lease_of =
  add_notification_core [THEN same_core_lease_of] get_notifications_core [THEN same_core_lease_of]
  post_signed_core [THEN same_core_lease_of] log_event_core [THEN same_core_lease_of]
  handle_ack_core [THEN same_core_lease_of]

lemma finalize_lease_of: "lease_of (finalize_task t s) = lease_of s"
  by (simp add: lease_of_def fun_eq_iff)

lemma forward_notify_lease_of:
  "lease_of (snd (snd (forward_notify lib r m tid st w target dir np meta s))) = lease_of s"
  by (simp add: forward_notify_def core_lease_of Let_def split: option.split)

lemma take_task_lease_of: "lease_of (snd (take_task tid s)) = lease_of s"
  by (simp add: lease_of_def fun_eq_iff take_task_other)

lemma notify_lease_of:
  "lease_of (snd (snd (notify_with_lease lib r m tid l s))) = lease_of s"
  "lease_of (snd (snd (notify_late lib r m tid s))) = lease_of s"
  by (simp_all add: notify_with_lease_def notify_late_def Let_def split_beta forward_notify_lease_of
      finalize_lease_of take_task_lease_of)

lemma handle_notify_lease_of:
  "lease_of (snd (snd (handle_notify lib r m s))) tid = Some l \<Longrightarrow> lease_of s tid = Some l"
  by (auto simp: handle_notify_def Let_def notify_lease_of core_lease_of split: if_splits option.splits)
    (auto simp: lease_of_def hm_get_delete split: if_splits)

lemma report_failure_lease_of: "lease_of (report_failure lib r target sender tid w a td s) = lease_of s"
  by (simp add: report_failure_def record_immediate_failure_def queue_failure_notification_def Let_def
      core_lease_of finalize_lease_of)

lemma other_lease_of:
  "lease_of (s\<lparr>pending_approvals := a\<rparr>) = lease_of s" "lease_of (s\<lparr>clients := c\<rparr>) = lease_of s"
  "lease_of (s\<lparr>screenshot := sc\<rparr>) = lease_of s" "lease_of (s\<lparr>pending_notifications := pn\<rparr>) = lease_of s"
  by (simp_all add: lease_of_def fun_eq_iff)

lemma quiet_handlers_lease_of:
  "lease_of (snd (snd (handle_denied lib r m tool td s))) = lease_of s"
  "lease_of (snd (snd (handle_approval_request lib r m tid tool s))) = lease_of s"
  "lease_of (snd (snd (first_notification c s))) = lease_of s"
  "lease_of (snd (snd (handle_register lib r m s))) = lease_of s"
  "lease_of (snd (snd (handle_heartbeat lib r m s))) = lease_of s"
  "lease_of (snd (snd (handle_screenshot lib r m s))) = lease_of s"
  "lease_of (snd (snd (handle_status_request lib r m s))) = lease_of s"
  by (auto simp: handle_denied_def handle_approval_request_def first_notification_def
      handle_register_def handle_heartbeat_def handle_screenshot_def handle_status_request_def
      Let_def split_beta other_lease_of core_lease_of report_failure_lease_of
      split: option.split prod.split sum.split)

lemma proceed_lease_of:
  "lease_of (snd (snd (proceed_with_delegation lib r m tid w rt tool n td e s)))
    = (lease_of s)(tid \<mapsto> new_lease r m tid w rt td)"
proof -
  have "lease_of (insert_active_task t (s\<lparr>leases := hm_insert tid l (leases s)\<rparr>)) = (lease_of s)(tid \<mapsto> l)" for t l
    by (simp add: lease_of_def insert_active_task_def fun_eq_iff hm_get_update)
  then show ?thesis
    by (cases n) (simp_all add: proceed_with_delegation_def Let_def core_lease_of)
qed

lemma proceed_effects: "fst (snd (proceed_with_delegation lib r m tid w rt tool n td e s)) = []"
  by (simp add: proceed_with_delegation_def Let_def)

lemma delegate_lease_of:
  assumes "lease_of (snd (snd (handle_delegate lib r m s))) tid = Some l" and "lease_of s tid \<noteq> Some l"
  shows "tid = msg_id m \<and> policy_eval (tool_of m) (payload m) = AllowTask"
  using assms
  by (auto simp: handle_delegate_def Let_def split_beta proceed_lease_of quiet_handlers_lease_of
      split: policy_action.splits option.splits if_splits)

lemma decision_lease_of:
  assumes "lease_of (snd (snd (handle_approval_decision lib r m s))) tid = Some l"
    and "lease_of s tid \<noteq> Some l"
  shows "\<exists>p. hm_get (pending_approvals s) (msg_id m) = Some p \<and> pa_task_id p = tid
    \<and> get_str (payload m) ''status'' = Some ''granted''"
  using assms
  by (auto simp: handle_approval_decision_def Let_def proceed_lease_of report_failure_lease_of
      core_lease_of other_lease_of split: option.splits if_splits)

lemma notify_effects:
  "LaunchWorker c wt \<notin> set (fst (snd (handle_notify lib r m s)))"
proof -
  have fwd: "LaunchWorker c wt \<notin> set (fst (snd (forward_notify lib r m tid st w target dir np meta s)))"
    for tid st w target dir np meta s
    by (simp add: forward_notify_def hook_effect_def Let_def split: option.split)
  show ?thesis
    by (simp add: handle_notify_def notify_with_lease_def notify_late_def handle_ack_def Let_def
        split_beta fwd split: option.split)
qed

lemma decision_effects: "fst (snd (handle_approval_decision lib r m s)) = []"
  by (simp add: handle_approval_decision_def Let_def proceed_effects split: option.split)

lemma quiet_effects:
  "fst (snd (handle_denied lib r m tool td s)) = []"
  "fst (snd (handle_approval_request lib r m tid tool s)) = []"
  "fst (snd (first_notification c s)) = []"
  "fst (snd (handle_register lib r m s)) = []"
  "fst (snd (handle_heartbeat lib r m s)) = []"
  "fst (snd (handle_screenshot lib r m s)) = []"
  "fst (snd (handle_status_request lib r m s)) = []"
  by (auto simp: handle_denied_def handle_approval_request_def first_notification_def
      handle_register_def handle_heartbeat_def handle_screenshot_def handle_status_request_def
      Let_def split_beta split: option.split prod.split sum.split)

lemma delegate_effects:
  "LaunchWorker c wt \<in> set (fst (snd (handle_delegate lib r m s))) \<Longrightarrow>
     policy_eval (tool_of m) (payload m) = AllowTask \<and> hm_get (worker_configs s) (m_to m) = Some c"
  by (auto simp: handle_delegate_def Let_def split_beta proceed_effects quiet_effects
      split: policy_action.splits option.splits if_splits)

text \<open>
  C7: No task starts without the policy or an approval. A message that gives a task a lease, or
  replaces its lease, is a delegation that the policy allows outright, for a task named after
  the message, or the grant of an approval that is pending for the task; and a worker process is
  launched only by a delegation that the policy allows, for a worker the configuration names.
\<close>

theorem leases_come_from_policy:
  assumes "handle_message lib r m s = (out, effects, s')"
  shows "(hm_get (leases s') tid = Some l \<and> hm_get (leases s) tid \<noteq> Some l \<longrightarrow>
      (msg_type m = ''DELEGATE'' \<and> tid = msg_id m \<and> policy_eval (tool_of m) (payload m) = AllowTask)
      \<or> (msg_type m = ''APPROVAL_DECISION'' \<and> get_str (payload m) ''status'' = Some ''granted''
         \<and> (\<exists>p. hm_get (pending_approvals s) (msg_id m) = Some p \<and> pa_task_id p = tid)))
    \<and> (LaunchWorker c wt \<in> set effects \<longrightarrow>
        msg_type m = ''DELEGATE'' \<and> policy_eval (tool_of m) (payload m) = AllowTask
        \<and> hm_get (worker_configs s) (m_to m) = Some c)"
proof (cases "well_signed lib (secret s) m")
  case False
  then show ?thesis using handle_not_signed [of lib s m r] assms by simp
next
  case True
  then have run: "dispatch lib r m s = (out, effects, s')"
    using handle_well_signed [of lib s m r] assms by simp
  have "lease_of s' tid = Some l \<Longrightarrow> lease_of s tid \<noteq> Some l \<Longrightarrow>
      (msg_type m = ''DELEGATE'' \<and> tid = msg_id m \<and> policy_eval (tool_of m) (payload m) = AllowTask)
      \<or> (msg_type m = ''APPROVAL_DECISION'' \<and> get_str (payload m) ''status'' = Some ''granted''
         \<and> (\<exists>p. hm_get (pending_approvals s) (msg_id m) = Some p \<and> pa_task_id p = tid))"
    using run delegate_lease_of [of lib r m s tid l] decision_lease_of [of lib r m s tid l]
      handle_notify_lease_of [of lib r m s tid l] quiet_handlers_lease_of(4-7) [of lib r m s]
      quiet_handlers_lease_of(3) [of "m_from m" s]
    by (auto simp: dispatch_def handle_poll_def split: if_splits)
  moreover have "LaunchWorker c wt \<in> set effects \<Longrightarrow>
      msg_type m = ''DELEGATE'' \<and> policy_eval (tool_of m) (payload m) = AllowTask
      \<and> hm_get (worker_configs s) (m_to m) = Some c"
    using run delegate_effects [of c wt lib r m s] notify_effects [of c wt lib r m s]
      decision_effects [of lib r m s] quiet_effects(4-7) [of lib r m s] quiet_effects(3) [of "m_from m" s]
    by (auto simp: dispatch_def handle_poll_def split: if_splits)
  ultimately show ?thesis by (auto simp: lease_of_def)
qed

lemma with_worker_facts:
  "secret with_worker = ''k''" "leases with_worker = []" "is_client_alive 0 ''w'' with_worker"
  "worker_configs with_worker = [(''cli'', cli_config)]"
  by code_simp+

lemma delegate_allowed:
  "msg_type signed_delegate = ''DELEGATE''" "msg_id signed_delegate = ''t1''"
  "policy_eval (tool_of signed_delegate) (payload signed_delegate) = AllowTask"
  "m_to signed_delegate = ''w''"
  by code_simp+

lemma leases_come_from_policy_witness:
  "\<exists>l. hm_get (leases (snd (snd (handle_message sample_lib (sample_reading 0) signed_delegate with_worker))))
      ''t1'' = Some l
    \<and> policy_eval (tool_of signed_delegate) (payload signed_delegate) = AllowTask"
proof -
  let ?h = "handle_message sample_lib (sample_reading 0) signed_delegate with_worker"
  have "?h = handle_delegate sample_lib (sample_reading 0) signed_delegate with_worker"
    using handle_well_signed [of sample_lib with_worker] signed_delegate_ok
    by (simp add: with_worker_facts dispatch_def delegate_allowed)
  then have "lease_of (snd (snd ?h)) ''t1'' \<noteq> None"
    by (simp add: handle_delegate_def Let_def delegate_allowed with_worker_facts proceed_lease_of
        sample_reading_def)
  then obtain l where l: "hm_get (leases (snd (snd ?h))) ''t1'' = Some l"
    by (auto simp: lease_of_def)
  moreover have "hm_get (leases with_worker) ''t1'' \<noteq> Some l"
    by (simp add: with_worker_facts)
  ultimately have "msg_type signed_delegate = ''DELEGATE''
      \<and> policy_eval (tool_of signed_delegate) (payload signed_delegate) = AllowTask"
    using leases_come_from_policy [of sample_lib "sample_reading 0" signed_delegate with_worker
        "fst ?h" "fst (snd ?h)" "snd (snd ?h)" "''t1''" l] by (auto simp: delegate_allowed)
  with l show ?thesis by blast
qed

end
