(* ===== verification/Daemon_Properties.thy ===== *)
theory Daemon_Properties
  imports Daemon_Auth
begin

text \<open>
  What the handlers of the daemon do to a task, from its delegation over the policy, approvals,
  notifications and expiry to its result, and the limits of mail boxes and screenshots.
\<close>

subsection \<open>Fields the journal and the mail leave alone\<close>

lemma log_event_other [simp]:
  "leases (log_event lib r i ev eid f t meta s) = leases s"
  "expired_leases (log_event lib r i ev eid f t meta s) = expired_leases s"
  "tasks_active (log_event lib r i ev eid f t meta s) = tasks_active s"
  "tasks_completed (log_event lib r i ev eid f t meta s) = tasks_completed s"
  "clients (log_event lib r i ev eid f t meta s) = clients s"
  "pending_notifications (log_event lib r i ev eid f t meta s) = pending_notifications s"
  "pending_approvals (log_event lib r i ev eid f t meta s) = pending_approvals s"
  "approver_target (log_event lib r i ev eid f t meta s) = approver_target s"
  "secret (log_event lib r i ev eid f t meta s) = secret s"
  by (simp_all add: log_event_def split: prod.split)

lemma add_notification_other [simp]:
  "leases (add_notification c m s) = leases s"
  "expired_leases (add_notification c m s) = expired_leases s"
  "tasks_active (add_notification c m s) = tasks_active s"
  "tasks_completed (add_notification c m s) = tasks_completed s"
  "clients (add_notification c m s) = clients s"
  "pending_approvals (add_notification c m s) = pending_approvals s"
  "secret (add_notification c m s) = secret s"
  by (simp_all add: add_notification_def)

lemma post_signed_other [simp]:
  "leases (post_signed lib c m s) = leases s"
  "expired_leases (post_signed lib c m s) = expired_leases s"
  "tasks_active (post_signed lib c m s) = tasks_active s"
  "tasks_completed (post_signed lib c m s) = tasks_completed s"
  "clients (post_signed lib c m s) = clients s"
  "pending_approvals (post_signed lib c m s) = pending_approvals s"
  by (simp_all add: post_signed_def split: option.split)

text \<open>The mail box of a client.\<close>

definition mailbox :: "daemon_state \<Rightarrow> string \<Rightarrow> msg list" where
  "mailbox s c = (case hm_get (pending_notifications s) c of Some ms \<Rightarrow> ms | None \<Rightarrow> [])"

lemma mailbox_add [simp]:
  "mailbox (add_notification c m s) c' = (if c' = c then mailbox s c @ [m] else mailbox s c')"
  by (simp add: mailbox_def add_notification_def hm_get_update)

lemma mailbox_log [simp]: "mailbox (log_event lib r i ev eid f t meta s) = mailbox s"
  by (simp add: mailbox_def fun_eq_iff)

lemma mailbox_other [simp]:
  "mailbox (s\<lparr>leases := l\<rparr>) = mailbox s" "mailbox (s\<lparr>expired_leases := l\<rparr>) = mailbox s"
  "mailbox (s\<lparr>tasks_active := ts\<rparr>) = mailbox s" "mailbox (s\<lparr>tasks_completed := ts\<rparr>) = mailbox s"
  "mailbox (s\<lparr>pending_approvals := pa\<rparr>) = mailbox s" "mailbox (s\<lparr>clients := cs\<rparr>) = mailbox s"
  by (simp_all add: mailbox_def fun_eq_iff)

lemma mailbox_prune [simp]: "mailbox (prune_completed s) = mailbox s"
  by (simp add: prune_completed_def Let_def)

lemma mailbox_finalize [simp]: "mailbox (finalize_task t s) = mailbox s"
  by (simp add: finalize_task_def)

lemma approvals_kept [simp]:
  "pending_approvals (prune_completed s) = pending_approvals s"
  "pending_approvals (finalize_task t s) = pending_approvals s"
  by (simp_all add: finalize_task_def prune_completed_def Let_def)

subsection \<open>Delegation\<close>

definition queued_task :: "reading \<Rightarrow> msg \<Rightarrow> string \<Rightarrow> string \<Rightarrow> msg" where
  "queued_task r m tid worker =
     (new_msg r 0 ''DELEGATE'' orchestrator worker (payload m))\<lparr>msg_id := tid, m_nonce := uuid r 0\<rparr>"

lemma proceed_result:
  assumes "proceed_with_delegation lib r m tid w rt tool n td e s = (out, effects, s')"
  shows "out = Silent" and "effects = []"
    and "leases s' = hm_insert tid (new_lease r m tid w rt td) (leases s)"
    and "tasks_active s' = hm_insert tid (delegated r tid w n td) (tasks_active s)"
    and "tasks_completed s' = tasks_completed s" and "expired_leases s' = expired_leases s"
    and "pending_approvals s' = pending_approvals s"
    and "mailbox s' = (if n then (mailbox s)(w := mailbox s w @ [queued_task r m tid w]) else mailbox s)"
proof -
  have task: "task_id (delegated r tid w n td) = tid" for n by (simp add: delegated_def)
  show "out = Silent" and "effects = []"
    and "leases s' = hm_insert tid (new_lease r m tid w rt td) (leases s)"
    and "tasks_active s' = hm_insert tid (delegated r tid w n td) (tasks_active s)"
    and "tasks_completed s' = tasks_completed s" and "expired_leases s' = expired_leases s"
    and "pending_approvals s' = pending_approvals s"
    and "mailbox s' = (if n then (mailbox s)(w := mailbox s w @ [queued_task r m tid w]) else mailbox s)"
    using assms task
    by (auto simp: proceed_with_delegation_def insert_active_task_def Let_def queued_task_def
        fun_eq_iff split: if_splits)
qed

text \<open>
  A delegation that the policy allows, for a live worker that polls, answers nothing and
  starts nothing at once: the task is active and pending, the worker's mail box gains one
  message with the task's own identifier and payload, and the lease ends 900 seconds from now,
  whatever time limit the task asks for.
\<close>

theorem delegation_takes_effect:
  assumes "policy_eval (tool_of m) (payload m) = AllowTask"
    and "hm_get (worker_configs s) (m_to m) = None" and "is_client_alive (now r) (m_to m) s"
    and "handle_delegate lib r m s = (out, effects, s')"
  shows "out = Silent \<and> effects = []
    \<and> map_option ls_deadline (hm_get (leases s') (msg_id m)) = Some (now r + 900 * 10 ^ 9)
    \<and> map_option ls_assigned_to (hm_get (leases s') (msg_id m)) = Some (m_to m)
    \<and> map_option task_status (hm_get (tasks_active s') (msg_id m)) = Some Pending
    \<and> (\<exists>tm. mailbox s' (m_to m) = mailbox s (m_to m) @ [tm] \<and> msg_id tm = msg_id m
         \<and> payload tm = payload m)"
proof -
  have "proceed_with_delegation lib r m (msg_id m) (m_to m)
      (return_to_of m) (tool_of m) True (details_of m (msg_id m)) 0 s = (out, effects, s')"
    using assms by (simp add: handle_delegate_def Let_def)
  note result = proceed_result [OF this]
  then show ?thesis
    by (simp add: hm_get_update new_lease_def delegated_def lease_ttl_def lease_ttl_secs_def
        second_def queued_task_def new_msg_def)
qed

lemma delegation_takes_effect_witness:
  "map_option ls_deadline (hm_get (leases with_task) ''t1'') = Some 900000000000
   \<and> map_option task_status (hm_get (tasks_active with_task) ''t1'') = Some Pending
   \<and> map msg_id (mailbox with_task ''w'') = [''t1'']"
proof -
  let ?m = "delegate_msg ''t1'' ''/workdir/src/a''"
  let ?h = "handle_delegate sample_lib (sample_reading 0) ?m with_worker"
  have m: "policy_eval (tool_of ?m) (payload ?m) = AllowTask" "m_to ?m = ''w''" "msg_id ?m = ''t1''"
    "mailbox with_worker ''w'' = []" "now (sample_reading 0) = 0"
    by code_simp+
  moreover have "?h = (fst ?h, fst (snd ?h), with_task)"
    by (simp add: with_task_def)
  ultimately show ?thesis
    using delegation_takes_effect [of ?m with_worker "sample_reading 0" sample_lib
        "fst ?h" "fst (snd ?h)" with_task] with_worker_facts by auto
qed

text \<open>A failure is filed among the finished tasks and touches no task that runs.\<close>

lemma insert_length: "length (hm_insert k v m) \<le> Suc (length m)"
  by (induction m) auto

lemma finalize_failed:
  assumes "is_terminal (task_status t)"
  shows "tasks_active (finalize_task t s) = tasks_active s"
    and "length (tasks_completed s) < 1000 \<Longrightarrow> hm_get (tasks_completed (finalize_task t s)) (task_id t) = Some t"
proof -
  show "tasks_active (finalize_task t s) = tasks_active s"
    using assms by (simp add: finalize_task_def)
  assume "length (tasks_completed s) < 1000"
  then have "length (hm_insert (task_id t) t (tasks_completed s)) \<le> max_completed_tasks"
    using insert_length [of "task_id t" t "tasks_completed s"] by (simp add: max_completed_tasks_def)
  then show "hm_get (tasks_completed (finalize_task t s)) (task_id t) = Some t"
    using assms by (simp add: finalize_task_def prune_completed_def hm_get_update)
qed

lemma failed_before_start_terminal [simp]:
  "is_terminal Failed"
  "task_id (failed_before_start r np tid w td) = tid"
  "task_status (failed_before_start r np tid w td) = Failed"
  by (simp_all add: failed_before_start_def is_terminal_def)

lemma report_failure_other [simp]:
  "leases (report_failure lib r target sender tid w a td s) = leases s"
  "expired_leases (report_failure lib r target sender tid w a td s) = expired_leases s"
  "tasks_active (report_failure lib r target sender tid w a td s) = tasks_active s"
  "pending_approvals (report_failure lib r target sender tid w a td s) = pending_approvals s"
  by (simp_all add: report_failure_def record_immediate_failure_def queue_failure_notification_def
      finalize_failed Let_def)

lemma report_failure_record:
  "length (tasks_completed s) < 1000 \<Longrightarrow>
     \<exists>t. hm_get (tasks_completed (report_failure lib r target sender tid w a td s)) tid = Some t
       \<and> task_status t = Failed"
  using finalize_failed(2) [of "failed_before_start r np tid w td" "post_signed lib x m s" for np m x]
  by (simp add: report_failure_def record_immediate_failure_def queue_failure_notification_def Let_def)

text \<open>
  A delegation that the policy denies starts nothing: no lease, no active task, no pending
  approval and nothing outside. The sender gets the error \<open>E_POLICY_DENIED\<close>, and the task is
  on record as failed, unless a thousand finished tasks are there already.
\<close>

theorem denied_delegation_starts_nothing:
  assumes "policy_eval (tool_of m) (payload m) = DenyTask"
    and "handle_delegate lib r m s = (out, effects, s')"
  shows "(\<exists>reply. out = Reply reply \<and> msg_type reply = ''ERR'' \<and> m_to reply = m_from m
        \<and> get_str (payload reply) ''code'' = Some ''E_POLICY_DENIED'')
    \<and> effects = [] \<and> leases s' = leases s \<and> tasks_active s' = tasks_active s
    \<and> pending_approvals s' = pending_approvals s
    \<and> (length (tasks_completed s) < 1000 \<longrightarrow>
        map_option task_status (hm_get (tasks_completed s') (msg_id m)) = Some Failed)"
proof -
  have denied: "handle_denied lib r m (tool_of m) (details_of m (msg_id m)) s = (out, effects, s')"
    using assms by (simp add: handle_delegate_def Let_def)
  then show ?thesis
    by (auto simp: handle_denied_def Let_def report_failure_other report_failure_record new_msg_def get_str_def)
qed

lemma denied_delegation_starts_nothing_witness:
  "policy_eval (tool_of (delegate_msg ''t2'' ''/etc/passwd'')) (payload (delegate_msg ''t2'' ''/etc/passwd''))
     = DenyTask
   \<and> map_option task_status (hm_get (tasks_completed (snd (snd
       (handle_delegate sample_lib (sample_reading 0) (delegate_msg ''t2'' ''/etc/passwd'') with_worker)))) ''t2'')
     = Some Failed"
proof -
  let ?m = "delegate_msg ''t2'' ''/etc/passwd''"
  let ?h = "handle_delegate sample_lib (sample_reading 0) ?m with_worker"
  have m: "policy_eval (tool_of ?m) (payload ?m) = DenyTask" "msg_id ?m = ''t2''"
    "length (tasks_completed with_worker) < 1000"
    by code_simp+
  then show ?thesis
    using denied_delegation_starts_nothing [of ?m sample_lib "sample_reading 0" with_worker
        "fst ?h" "fst (snd ?h)" "snd (snd ?h)"] by auto
qed

subsection \<open>Approvals\<close>


text \<open>A task outside the trusted roots, asked for and granted.\<close>

definition ask_msg :: msg where
  "ask_msg = delegate_msg ''t3'' ''/opt/x''"

definition asked :: daemon_state where
  "asked = snd (snd (handle_delegate sample_lib (sample_reading 0) ask_msg with_worker))"

definition grant_msg :: msg where
  "grant_msg = sample_msg ''APPROVAL_DECISION'' ''u0'' ''client:boss'' ''orchestrator''
     (JObj [(''status'', JStr ''granted'')])"

lemma ask_policy: "policy_eval (tool_of ask_msg) (payload ask_msg) = NeedApproval"
  by code_simp

lemma with_worker_approvals: "pending_approvals with_worker = []"
  by code_simp


text \<open>
  An approval is lost by a decision that is neither \<open>granted\<close> nor \<open>denied\<close>: the pending
  approval goes, the task gets neither a lease nor a record, and no message tells anyone.
\<close>

theorem unknown_decision_loses_approval:
  assumes "hm_get (pending_approvals s) (msg_id d) = Some p"
    and "get_str (payload d) ''status'' \<notin> {Some ''granted'', Some ''denied''}"
  shows "handle_approval_decision lib r d s
    = (Silent, [], s\<lparr>pending_approvals := hm_remove (msg_id d) (pending_approvals s)\<rparr>)"
  using assms by (auto simp: handle_approval_decision_def Let_def split: option.split)

lemma unknown_decision_loses_approval_witness:
  "handle_approval_decision sample_lib (sample_reading 5)
     (sample_msg ''APPROVAL_DECISION'' ''u0'' ''client:boss'' ''orchestrator'' (JObj [(''status'', JStr ''approved'')]))
     asked
   = (Silent, [], asked\<lparr>pending_approvals := []\<rparr>)"
proof -
  have "uuid (sample_reading 0) 0 = ''u0''" by code_simp
  then have "\<exists>p. pending_approvals asked = [(''u0'', p)]"
    by (simp add: asked_def handle_delegate_def ask_policy handle_approval_request_def with_worker_approvals
        Let_def)
  then obtain p where p: "pending_approvals asked = [(''u0'', p)]" ..
  then show ?thesis
    using unknown_decision_loses_approval [of asked
      "sample_msg ''APPROVAL_DECISION'' ''u0'' ''client:boss'' ''orchestrator''
         (JObj [(''status'', JStr ''approved'')])" p sample_lib "sample_reading 5"]
    by (simp add: sample_msg_def get_str_def)
qed

subsection \<open>Notifications\<close>

text \<open>What a notification does to the tasks, without the forward, the hook and the journal.\<close>

lemma forward_tables:
  assumes "forward_notify lib r m tid st w target dir np meta s = (out, effects, s')"
  shows "leases s' = leases s" and "expired_leases s' = expired_leases s"
    and "tasks_active s' = tasks_active s" and "tasks_completed s' = tasks_completed s"
    and "clients s' = clients s" and "pending_approvals s' = pending_approvals s"
  using assms by (auto simp: forward_notify_def Let_def split: option.splits)

lemma handle_notify_leased:
  assumes "hm_get (leases s) (notify_task_id m) = Some l" and "\<not> is_ack m"
  shows "handle_notify lib r m s
    = notify_with_lease lib r m (notify_task_id m) l
        (s\<lparr>leases := hm_remove (notify_task_id m) (leases s)\<rparr>)"
  using assms by (simp add: handle_notify_def Let_def)

text \<open>
  An acknowledgement touches no task: leases, tasks, mail and journal stay as they are, and
  what was registered to be told about the acknowledgement is told and forgotten.
\<close>

theorem ack_changes_no_task:
  assumes "is_ack m" and "handle_notify lib r m s = (out, effects, s')"
  shows "s' = s\<lparr>ack_markers := hm_remove (notify_task_id m) (ack_markers s),
      ack_writers := hm_remove (notify_task_id m) (ack_writers s),
      ack_sockets := hm_remove (notify_task_id m) (ack_sockets s)\<rparr>
    \<and> (ack_writers s = [] \<longrightarrow>
        (WriteMarker p \<in> set effects \<longleftrightarrow> hm_get (ack_markers s) (notify_task_id m) = Some p))"
  using assms by (auto simp: handle_notify_def handle_ack_def Let_def split: option.splits if_splits)

lemma ack_changes_no_task_witness:
  "tasks_active (snd (snd (handle_notify sample_lib (sample_reading 1)
      (sample_msg ''NOTIFY'' ''n1'' ''boss'' ''orchestrator''
         (JObj [(''task_id'', JStr ''t1''), (''status'', JStr ''ACK'')])) with_task)))
   = tasks_active with_task"
proof -
  let ?m = "sample_msg ''NOTIFY'' ''n1'' ''boss'' ''orchestrator''
         (JObj [(''task_id'', JStr ''t1''), (''status'', JStr ''ACK'')])"
  let ?h = "handle_notify sample_lib (sample_reading 1) ?m with_task"
  have "is_ack ?m" by code_simp
  then have "snd (snd ?h) = with_task\<lparr>ack_markers := hm_remove (notify_task_id ?m) (ack_markers with_task),
      ack_writers := hm_remove (notify_task_id ?m) (ack_writers with_task),
      ack_sockets := hm_remove (notify_task_id ?m) (ack_sockets with_task)\<rparr>"
    using ack_changes_no_task [of ?m sample_lib "sample_reading 1" with_task "fst ?h" "fst (snd ?h)"
        "snd (snd ?h)"] by simp
  then show ?thesis by simp
qed

lemma sign_msg_total:
  assumes "\<forall>body. hmac_sha256 lib key body \<noteq> None"
  shows "\<exists>h. sign_msg lib key m = Some (m\<lparr>m_hmac := h\<rparr>)"
proof -
  obtain tag where "hmac_sha256 lib key (canonical_body lib m) = Some tag" using assms by blast
  then show ?thesis by (auto simp: sign_msg_def)
qed

definition notify_target :: "msg \<Rightarrow> lease \<Rightarrow> string" where
  "notify_target m l = (case return_to_of m of Some t \<Rightarrow> t | None \<Rightarrow> ls_original_from l)"

text \<open>
  The result of a leased task ends it. A notification with a final status takes the task
  from the active to the finished ones with that status and the message as its last
  notification, ends the lease, and hands the message on to the return target of the message,
  else to the client that delegated the task.
\<close>

theorem final_result_ends_lease:
  assumes "daemon_inv s" and "hm_get (leases s) (notify_task_id m) = Some l"
    and "is_terminal (map_status (notify_status m))" and "\<not> is_ack m"
    and "length (tasks_completed s) < 1000"
    and "handle_notify lib r m s = (out, effects, s')"
    and "\<forall>body. hmac_sha256 lib (secret s) body \<noteq> None"
  shows "hm_get (leases s') (notify_task_id m) = None
    \<and> hm_get (tasks_active s') (notify_task_id m) = None
    \<and> (\<exists>t. hm_get (tasks_completed s') (notify_task_id m) = Some t
        \<and> task_status t = map_status (notify_status m)
        \<and> n_summary (last (notifications t)) = np_summary (notify_parts lib m))
    \<and> (\<exists>fwd. mailbox s' (notify_target m l) = mailbox s (notify_target m l) @ [fwd]
        \<and> payload fwd = payload m)"
proof -
  let ?tid = "notify_task_id m"
  obtain t where t: "hm_get (tasks_active s) ?tid = Some t"
    using daemon_inv_leased [OF assms(1), of ?tid] assms(2) by auto
  let ?t = "leased_task r ?tid l (notify_status m) (notify_parts lib m) (Some t)"
  let ?s = "s\<lparr>leases := hm_remove ?tid (leases s), tasks_active := hm_remove ?tid (tasks_active s)\<rparr>"
  have task: "task_id ?t = ?tid" "task_status ?t = map_status (notify_status m)"
    "n_summary (last (notifications ?t)) = np_summary (notify_parts lib m)"
    using keyed_get [OF _ t] assms(1)
    by (auto simp: leased_task_def parts_record_def Let_def daemon_inv_def)
  have take: "take_task ?tid (s\<lparr>leases := hm_remove ?tid (leases s)\<rparr>) = (Some t, ?s)"
    using t by (simp add: take_task_def)
  have run: "\<exists>np meta. forward_notify lib r m ?tid (notify_status m) (ls_assigned_to l)
      (notify_target m l) (ls_working_dir l) np meta (finalize_task ?t ?s) = (out, effects, s')"
    using assms(6) unfolding handle_notify_leased [OF assms(2,4)]
    by (auto simp: notify_with_lease_def Let_def take notify_target_def)
  have mail: "\<exists>fwd. mailbox s' (notify_target m l) = mailbox s (notify_target m l) @ [fwd]
        \<and> payload fwd = payload m"
    using run sign_msg_total [OF assms(7), of "new_msg r 0 ''NOTIFY'' orchestrator (notify_target m l) (payload m)"]
    by (auto simp: forward_notify_def new_msg_def Let_def)
  obtain np meta where "forward_notify lib r m ?tid (notify_status m) (ls_assigned_to l)
      (notify_target m l) (ls_working_dir l) np meta (finalize_task ?t ?s) = (out, effects, s')"
    using run by blast
  note tables = forward_tables [OF this]
  have "is_terminal (task_status ?t)" using task(2) assms(3) by simp
  from finalize_failed [OF this, of ?s] assms(5) task
  show ?thesis by (auto simp: tables hm_get_delete mail)
qed

lemma with_worker_inv: "daemon_inv with_worker"
  unfolding with_worker_def sample_state_def
  by (intro handle_register_inv) (simp add: new_state_def daemon_inv_def)

lemma with_task_inv: "daemon_inv with_task"
  unfolding with_task_def by (intro handle_delegate_inv with_worker_inv)

definition result_msg :: "string \<Rightarrow> msg" where
  "result_msg st = sample_msg ''NOTIFY'' ''n1'' ''w'' ''orchestrator''
     (JObj [(''task_id'', JStr ''t1''), (''status'', JStr st)])"

lemma with_task_lease:
  "\<exists>l. hm_get (leases with_task) ''t1'' = Some l \<and> ls_original_from l = ''boss''" "secret with_task = ''k''"
  "length (tasks_completed with_task) < 1000"
proof -
  let ?m = "delegate_msg ''t1'' ''/workdir/src/a''"
  have "policy_eval (tool_of ?m) (payload ?m) = AllowTask" "m_to ?m = ''w''" "msg_id ?m = ''t1''"
    "m_from ?m = ''boss''" "now (sample_reading 0) = 0"
    by code_simp+
  then have "\<exists>l. lease_of with_task ''t1'' = Some l \<and> ls_original_from l = ''boss''"
    unfolding with_task_def
    by (simp add: handle_delegate_def Let_def with_worker_facts proceed_lease_of new_lease_def)
  then show "\<exists>l. hm_get (leases with_task) ''t1'' = Some l \<and> ls_original_from l = ''boss''"
    by (simp add: lease_of_def)
  show "secret with_task = ''k''" "length (tasks_completed with_task) < 1000"
    by code_simp+
qed

lemma final_result_ends_lease_witness:
  "hm_get (leases (snd (snd (handle_notify sample_lib (sample_reading 9) (result_msg ''completed'') with_task))))
      ''t1'' = None
   \<and> (\<exists>t. hm_get (tasks_completed (snd (snd
        (handle_notify sample_lib (sample_reading 9) (result_msg ''completed'') with_task)))) ''t1'' = Some t
        \<and> task_status t = Completed)"
proof -
  let ?m = "result_msg ''completed''"
  let ?h = "handle_notify sample_lib (sample_reading 9) ?m with_task"
  have m: "notify_task_id ?m = ''t1''" "map_status (notify_status ?m) = Completed" "\<not> is_ack ?m"
    "is_terminal Completed"
    by code_simp+
  obtain l where "hm_get (leases with_task) ''t1'' = Some l" using with_task_lease by blast
  moreover have "\<forall>body. hmac_sha256 sample_lib (secret with_task) body \<noteq> None"
    by (simp add: sample_lib_def)
  ultimately show ?thesis
    using final_result_ends_lease [OF with_task_inv, of ?m l sample_lib "sample_reading 9" "fst ?h"
        "fst (snd ?h)" "snd (snd ?h)"] with_task_lease(3) m by auto
qed

subsection \<open>What a notification may do besides\<close>

text \<open>
  A late notification may bring a finished task back: with no lease for it, a notification
  with a status that is not final moves the finished task to the active ones, where it stays
  without a lease.
\<close>

theorem late_notification_revives_task:
  assumes "daemon_inv s" and "hm_get (tasks_completed s) (notify_task_id m) = Some t"
    and "hm_get (tasks_active s) (notify_task_id m) = None"
    and "hm_get (expired_leases s) (notify_task_id m) = None"
    and "\<not> is_ack m" and "\<not> is_terminal (map_status (notify_status m))"
    and "handle_notify lib r m s = (out, effects, s')"
  shows "hm_get (tasks_completed s') (notify_task_id m) = None
    \<and> map_option task_status (hm_get (tasks_active s') (notify_task_id m)) = Some (map_status (notify_status m))
    \<and> hm_get (leases s') (notify_task_id m) = None"
proof -
  let ?tid = "notify_task_id m"
  let ?t = "late_task r ?tid (m_from m) (notify_status m) (notify_parts lib m) (Some t)"
  have free: "hm_get (leases s) ?tid = None"
    using daemon_inv_leased [OF assms(1), of ?tid] assms(3) by fastforce
  have task: "task_id ?t = ?tid" "task_status ?t = map_status (notify_status m)"
    using keyed_get [OF _ assms(2)] assms(1) by (auto simp: late_task_def Let_def daemon_inv_def)
  obtain w target dir np meta where "forward_notify lib r m ?tid (notify_status m) w target dir np meta
      (finalize_task ?t (s\<lparr>tasks_active := hm_remove ?tid (tasks_active s),
         tasks_completed := hm_remove ?tid (tasks_completed s)\<rparr>)) = (out, effects, s')"
    using assms(2-5,7) free
    by (auto simp: handle_notify_def notify_late_def take_task_def Let_def)
  note tables = forward_tables [OF this]
  show ?thesis
    using assms(6) task free by (simp add: tables finalize_task_def hm_get_delete hm_get_update)
qed

text \<open>The task \<open>t1\<close> has failed already.\<close>

definition after_failure :: daemon_state where
  "after_failure =
     finalize_task (failed_before_start (sample_reading 9) (extract_notification_parts sample_lib JNull)
       ''t1'' ''w'' (details_of ask_msg ''t1'')) with_worker"

lemma late_notification_revives_task_witness:
  "map_option task_status (hm_get (tasks_active (snd (snd (handle_notify sample_lib (sample_reading 10)
      (result_msg ''in_progress'') after_failure)))) ''t1'') = Some InProgress"
proof -
  let ?m = "result_msg ''in_progress''"
  let ?h = "handle_notify sample_lib (sample_reading 10) ?m after_failure"
  have m: "notify_task_id ?m = ''t1''" "map_status (notify_status ?m) = InProgress" "\<not> is_ack ?m"
    "\<not> is_terminal InProgress"
    by code_simp+
  have w: "tasks_active with_worker = []" "expired_leases with_worker = []"
    "length (tasks_completed with_worker) < 1000"
    by code_simp+
  have s: "tasks_active after_failure = []" "expired_leases after_failure = []"
    "\<exists>t. hm_get (tasks_completed after_failure) ''t1'' = Some t"
    using w finalize_failed(1) finalize_failed(2) [OF _ w(3), of "failed_before_start _ _ ''t1'' _ _"]
    by (auto simp: after_failure_def)
  then obtain t where "hm_get (tasks_completed after_failure) ''t1'' = Some t" by auto
  moreover have "daemon_inv after_failure"
    unfolding after_failure_def by (intro finalize_inv with_worker_inv)
  ultimately show ?thesis
    using late_notification_revives_task [of after_failure ?m t sample_lib "sample_reading 10" "fst ?h"
        "fst (snd ?h)" "snd (snd ?h)"] s m by auto
qed

text \<open>The tables of tasks.\<close>

definition task_tables ::
  "daemon_state \<Rightarrow> (string, lease) hmap \<times> (string, delegated_task) hmap \<times> (string, delegated_task) hmap" where
  "task_tables s = (leases s, tasks_active s, tasks_completed s)"

lemma forward_state_tables:
  "task_tables (snd (snd (forward_notify lib r m tid st w target dir np meta s))) = task_tables s"
  by (simp add: task_tables_def forward_notify_def Let_def split: option.split)

lemma handle_ack_tables: "task_tables (snd (snd (handle_ack r tid s))) = task_tables s"
  by (simp add: task_tables_def handle_ack_def Let_def)

text \<open>
  Nobody checks who reports. Two notifications that differ in their sender only leave the
  same leases, active and finished tasks behind, as long as the task is known.
\<close>

theorem sender_of_result_is_not_checked:
  assumes "hm_get (tasks_active s) (notify_task_id m) = Some t"
    and "handle_notify lib r m s = (out, effects, s')"
    and "handle_notify lib r (m\<lparr>m_from := intruder\<rparr>) s = (out2, effects2, s2)"
  shows "leases s2 = leases s' \<and> tasks_active s2 = tasks_active s' \<and> tasks_completed s2 = tasks_completed s'"
proof -
  have same: "notify_task_id (m\<lparr>m_from := intruder\<rparr>) = notify_task_id m"
    "is_ack (m\<lparr>m_from := intruder\<rparr>) = is_ack m" "notify_status (m\<lparr>m_from := intruder\<rparr>) = notify_status m"
    "notify_parts lib (m\<lparr>m_from := intruder\<rparr>) = notify_parts lib m"
    by (simp_all add: notify_task_id_def is_ack_def notify_status_def notify_parts_def split: option.split)
  have late: "late_task r tid a st np (Some t) = late_task r tid b st np (Some t)" for tid a b st np
    by (simp add: late_task_def)
  have tables: "task_tables (snd (snd (handle_notify lib r (m\<lparr>m_from := intruder\<rparr>) s)))
      = task_tables (snd (snd (handle_notify lib r m s)))"
    using assms(1) late [of _ intruder _ _ "m_from m"]
    by (simp add: handle_notify_def same notify_with_lease_def notify_late_def take_task_def
        forward_state_tables handle_ack_tables Let_def split: option.split)
  then show ?thesis using assms(2,3) by (simp add: task_tables_def)
qed

lemma sender_of_result_is_not_checked_witness:
  "tasks_completed (snd (snd (handle_notify sample_lib (sample_reading 9)
       ((result_msg ''completed'')\<lparr>m_from := ''intruder''\<rparr>) with_task)))
   = tasks_completed (snd (snd (handle_notify sample_lib (sample_reading 9) (result_msg ''completed'') with_task)))"
proof -
  let ?m = "result_msg ''completed''"
  have "notify_task_id ?m = ''t1''" by code_simp
  moreover obtain t where "hm_get (tasks_active with_task) ''t1'' = Some t"
    using daemon_inv_leased [OF with_task_inv, of "''t1''"] with_task_lease(1) by auto
  ultimately show ?thesis
    using sender_of_result_is_not_checked [of with_task ?m t sample_lib "sample_reading 9" _ _ _ "''intruder''"]
    by (metis prod.collapse)
qed

end
