(* ===== verification/Daemon_Limits.thy ===== *)
theory Daemon_Limits
  imports Daemon_Properties
begin

text \<open>
  The deadlines and limits of the daemon: what a clean-up ends and what it leaves, what the mail
  boxes and the status snapshot hold, the rate of screenshots, and the result of a subprocess.
\<close>

subsection \<open>Clean-up\<close>

lemma take_task_active: "hm_get (tasks_active s) tid = Some t \<Longrightarrow>
    take_task tid s = (Some t, s\<lparr>tasks_active := hm_remove tid (tasks_active s)\<rparr>)"
  by (simp add: take_task_def)

lemma expired_task_facts:
  "task_status (expired_task lib r tid l task) = Failed"
  "task = None \<or> (\<exists>t. task = Some t \<and> task_id t = tid) \<Longrightarrow> task_id (expired_task lib r tid l task) = tid"
  by (auto simp: expired_task_def Let_def split: option.split)

lemma expire_lease_result:
  assumes "daemon_inv s"
  shows "hm_get (leases (fst (expire_lease lib r i tid s))) = (hm_get (leases s))(tid := None)"
    and "hm_get (tasks_active (fst (expire_lease lib r i tid s)))
      = (if hm_get (leases s) tid = None then hm_get (tasks_active s)
         else (hm_get (tasks_active s))(tid := None))"
    and "clients (fst (expire_lease lib r i tid s)) = clients s"
    and "hm_get (leases s) tid \<noteq> None \<Longrightarrow> length (tasks_completed s) < 1000 \<Longrightarrow>
      (\<exists>t. hm_get (tasks_completed (fst (expire_lease lib r i tid s))) = (hm_get (tasks_completed s))(tid \<mapsto> t)
        \<and> task_status t = Failed)
      \<and> length (tasks_completed (fst (expire_lease lib r i tid s))) \<le> Suc (length (tasks_completed s))"
proof -
  have "hm_get (leases (fst (expire_lease lib r i tid s))) = (hm_get (leases s))(tid := None)
    \<and> hm_get (tasks_active (fst (expire_lease lib r i tid s)))
      = (if hm_get (leases s) tid = None then hm_get (tasks_active s)
         else (hm_get (tasks_active s))(tid := None))
    \<and> clients (fst (expire_lease lib r i tid s)) = clients s
    \<and> (hm_get (leases s) tid \<noteq> None \<longrightarrow> length (tasks_completed s) < 1000 \<longrightarrow>
        (\<exists>t. hm_get (tasks_completed (fst (expire_lease lib r i tid s))) = (hm_get (tasks_completed s))(tid \<mapsto> t)
          \<and> task_status t = Failed)
        \<and> length (tasks_completed (fst (expire_lease lib r i tid s))) \<le> Suc (length (tasks_completed s)))"
  proof (cases "hm_get (leases s) tid")
    case None
    then show ?thesis by (simp add: expire_lease_def fun_upd_idem)
  next
    case (Some l)
    then obtain t where t: "hm_get (tasks_active s) tid = Some t"
      using daemon_inv_leased [OF assms, of tid] by auto
    let ?t = "expired_task lib r tid l (Some t)"
    let ?s = "s\<lparr>leases := hm_remove tid (leases s), expired_leases := hm_insert tid l (expired_leases s),
        tasks_active := hm_remove tid (tasks_active s)\<rparr>"
    have id: "task_id ?t = tid"
      using t assms by (auto simp: expired_task_facts daemon_inv_def dest: keyed_get)
    have take: "take_task tid (s\<lparr>leases := hm_remove tid (leases s),
        expired_leases := hm_insert tid l (expired_leases s)\<rparr>) = (Some t, ?s)"
      using t by (simp add: take_task_def)
    have tables: "task_tables (fst (expire_lease lib r i tid s)) = task_tables (finalize_task ?t ?s)"
      "clients (fst (expire_lease lib r i tid s)) = clients s"
      using Some take by (simp_all add: expire_lease_def task_tables_def Let_def)
    have ins: "tasks_completed (finalize_task ?t ?s) = hm_insert tid ?t (tasks_completed s)"
      if "length (tasks_completed s) < 1000"
      using that insert_length [of tid ?t "tasks_completed s"] id
      by (simp add: finalize_task_def prune_completed_def max_completed_tasks_def expired_task_facts)
    show ?thesis
      using tables Some ins id insert_length [of tid ?t "tasks_completed s"]
      by (auto simp: task_tables_def finalize_failed expired_task_facts hm_get_delete hm_get_update
          fun_eq_iff finalize_other)
  qed
  then show "hm_get (leases (fst (expire_lease lib r i tid s))) = (hm_get (leases s))(tid := None)"
    and "hm_get (tasks_active (fst (expire_lease lib r i tid s)))
      = (if hm_get (leases s) tid = None then hm_get (tasks_active s)
         else (hm_get (tasks_active s))(tid := None))"
    and "clients (fst (expire_lease lib r i tid s)) = clients s"
    and "hm_get (leases s) tid \<noteq> None \<Longrightarrow> length (tasks_completed s) < 1000 \<Longrightarrow>
      (\<exists>t. hm_get (tasks_completed (fst (expire_lease lib r i tid s))) = (hm_get (tasks_completed s))(tid \<mapsto> t)
        \<and> task_status t = Failed)
      \<and> length (tasks_completed (fst (expire_lease lib r i tid s))) \<le> Suc (length (tasks_completed s))"
    by blast+
qed

lemma expire_leases_tables:
  assumes "daemon_inv s"
  shows "hm_get (leases (fst (expire_leases lib r i tids s))) x
      = (if x \<in> set tids then None else hm_get (leases s) x)
    \<and> hm_get (tasks_active (fst (expire_leases lib r i tids s))) x
      = (if x \<in> set tids \<and> hm_get (leases s) x \<noteq> None then None else hm_get (tasks_active s) x)
    \<and> clients (fst (expire_leases lib r i tids s)) = clients s"
  using assms
proof (induction tids arbitrary: i s)
  case (Cons tid tids)
  note inv = expire_lease_inv [OF Cons.prems, of lib r i tid]
  show ?case
    using Cons.IH [OF inv, of "Suc i"] expire_lease_result(1-3) [OF Cons.prems, of lib r i tid]
    by (auto simp: split_beta)
qed simp

lemma expire_leases_failed:
  assumes "daemon_inv s" and "\<forall>x \<in> set tids. hm_get (leases s) x \<noteq> None" and "distinct tids"
    and "length (tasks_completed s) + length tids \<le> 1000"
  shows "if x \<in> set tids
    then \<exists>t. hm_get (tasks_completed (fst (expire_leases lib r i tids s))) x = Some t \<and> task_status t = Failed
    else hm_get (tasks_completed (fst (expire_leases lib r i tids s))) x = hm_get (tasks_completed s) x"
  using assms
proof (induction tids arbitrary: i s)
  case (Cons tid tids)
  let ?s = "fst (expire_lease lib r i tid s)"
  obtain t where t: "hm_get (tasks_completed ?s) = (hm_get (tasks_completed s))(tid \<mapsto> t)"
      "task_status t = Failed" "length (tasks_completed ?s) \<le> Suc (length (tasks_completed s))"
    using expire_lease_result(4) [OF Cons.prems(1), of tid lib r i] Cons.prems(2,4) by auto
  have "\<forall>x \<in> set tids. hm_get (leases ?s) x \<noteq> None"
    using expire_lease_result(1) [OF Cons.prems(1), of lib r i tid] Cons.prems(2,3) by auto
  from Cons.IH [OF expire_lease_inv [OF Cons.prems(1)] this, of "Suc i"] t Cons.prems(3,4)
  show ?case by (auto simp: split_beta split: if_splits)
qed simp

lemma drop_clients_result:
  "leases (foldl (\<lambda>st ident. drop_client ident st) s ids) = leases s
   \<and> tasks_active (foldl (\<lambda>st ident. drop_client ident st) s ids) = tasks_active s
   \<and> tasks_completed (foldl (\<lambda>st ident. drop_client ident st) s ids) = tasks_completed s
   \<and> hm_get (clients (foldl (\<lambda>st ident. drop_client ident st) s ids)) c
     = (if c \<in> set ids then None else hm_get (clients s) c)
   \<and> mailbox (foldl (\<lambda>st ident. drop_client ident st) s ids) c
     = (if c \<in> set ids then [] else mailbox s c)"
  by (induction ids arbitrary: s) (auto simp: drop_client_def mailbox_def hm_get_delete)

text \<open>The keys of the entries of a table that a clean-up picks.\<close>

lemma picked_keys:
  assumes "hm_wf m"
  shows "k \<in> set (map fst (filter (\<lambda>(k, v). P v) m)) \<longleftrightarrow> (\<exists>v. hm_get m k = Some v \<and> P v)"
proof -
  have "k \<in> set (map fst (filter (\<lambda>(k, v). P v) m)) \<longleftrightarrow> (\<exists>v. (k, v) \<in> set m \<and> P v)"
    by force
  then show ?thesis unfolding hm_in_set [OF assms] .
qed

lemma picked_distinct: "hm_wf m \<Longrightarrow> distinct (map fst (filter (\<lambda>(k, v). P v) m))"
  by (simp add: hm_wf_def distinct_map_filter)

text \<open>
  A clean-up ends exactly what is over. A lease goes when its deadline has passed and stays
  otherwise; with it goes its active task and no other; a client goes, with its mail, after more
  than 30 seconds without a heartbeat; and each task that goes is on record as failed when there
  is room for all of them.
\<close>

theorem clean_up_ends_what_is_over:
  assumes "daemon_inv s" and "cleanup_expired lib r s = (s', hooks)"
  defines "over \<equiv> \<lambda>tid. \<exists>l. hm_get (leases s) tid = Some l \<and> ls_deadline l < now r"
    and "gone \<equiv> \<lambda>c. \<exists>cl. hm_get (clients s) c = Some cl \<and> 30 * 10 ^ 9 < now r - cl_last_heartbeat cl"
  shows "hm_get (leases s') tid = (if over tid then None else hm_get (leases s) tid)
    \<and> hm_get (tasks_active s') tid = (if over tid then None else hm_get (tasks_active s) tid)
    \<and> hm_get (clients s') c = (if gone c then None else hm_get (clients s) c)
    \<and> (gone c \<longrightarrow> mailbox s' c = [])
    \<and> (over tid \<and> length (tasks_completed s) + length (leases s) \<le> 1000 \<longrightarrow>
        map_option task_status (hm_get (tasks_completed s') tid) = Some Failed)"
proof -
  let ?tids = "map fst (filter (\<lambda>(tid, l). ls_deadline l < now r) (leases s))"
  let ?s = "fst (expire_leases lib r 0 ?tids s)"
  have wf: "hm_wf (leases s)" "hm_wf (clients s)"
    using assms(1) by (auto simp: daemon_inv_def dest: keyed_wf)
  note tids = picked_keys [OF wf(1), where P = "\<lambda>l. ls_deadline l < now r"]
  have tables: "hm_get (leases ?s) x = (if x \<in> set ?tids then None else hm_get (leases s) x)"
    "hm_get (tasks_active ?s) x = (if x \<in> set ?tids \<and> hm_get (leases s) x \<noteq> None then None
       else hm_get (tasks_active s) x)" "clients ?s = clients s" for x
    using expire_leases_tables [OF assms(1), of lib r 0 ?tids x] by blast+
  let ?ids = "map fst (filter (\<lambda>(ident, c). heartbeat_timeout < now r - cl_last_heartbeat c) (clients s))"
  note ids = picked_keys [OF wf(2), where P = "\<lambda>c. heartbeat_timeout < now r - cl_last_heartbeat c"]
  have s': "s' = foldl (\<lambda>st ident. drop_client ident st) ?s ?ids"
    using assms(2) tables(3) by (simp add: cleanup_expired_def split_beta)
  note result = drop_clients_result [of ?s ?ids c, folded s']
  have over: "tid \<in> set ?tids \<longleftrightarrow> over tid" unfolding over_def by (rule tids)
  have gone: "c \<in> set ?ids \<longleftrightarrow> gone c"
    unfolding gone_def using ids by (simp add: heartbeat_timeout_def second_def)
  have "over tid \<Longrightarrow> hm_get (leases s) tid \<noteq> None" by (auto simp: over_def)
  moreover have "map_option task_status (hm_get (tasks_completed s') tid) = Some Failed"
    if "over tid" "length (tasks_completed s) + length (leases s) \<le> 1000"
  proof -
    have "\<forall>x \<in> set ?tids. hm_get (leases s) x \<noteq> None" unfolding Ball_def tids by auto
    moreover have "length (tasks_completed s) + length ?tids \<le> 1000"
      using that(2) length_filter_le [of "\<lambda>(tid, l). ls_deadline l < now r" "leases s"]
      unfolding length_map by linarith
    ultimately have "\<exists>t. hm_get (tasks_completed ?s) tid = Some t \<and> task_status t = Failed"
      using expire_leases_failed [OF assms(1) _ picked_distinct [OF wf(1)], of _ tid lib r 0] that(1) over
      by presburger
    then show ?thesis using result by auto
  qed
  ultimately show ?thesis
    using result tables over gone by auto
qed

lemma clean_up_ends_what_is_over_witness:
  "hm_get (leases (fst (cleanup_expired sample_lib (sample_reading 900000000001) with_task))) ''t1'' = None
   \<and> map_option task_status (hm_get (tasks_completed
       (fst (cleanup_expired sample_lib (sample_reading 900000000001) with_task))) ''t1'') = Some Failed"
proof -
  let ?c = "cleanup_expired sample_lib (sample_reading 900000000001) with_task"
  have now: "now (sample_reading 900000000001) = 900000000001"
    by (simp add: sample_reading_def)
  have "map_option ls_deadline (hm_get (leases with_task) ''t1'') = Some 900000000000"
    "length (tasks_completed with_task) + length (leases with_task) \<le> 1000"
    by code_simp+
  then have lease: "\<exists>l. hm_get (leases with_task) ''t1'' = Some l \<and> ls_deadline l < 900000000001"
    "length (tasks_completed with_task) + length (leases with_task) \<le> 1000"
    by auto
  show ?thesis
    using clean_up_ends_what_is_over [OF with_task_inv, of sample_lib "sample_reading 900000000001"
        "fst ?c" "snd ?c" "''t1''"] lease now by auto
qed

subsection \<open>Progress reports\<close>

lemma cleanup_active:
  assumes "daemon_inv s" and "hm_get (leases s) tid = None" and "hm_get (tasks_active s) tid \<noteq> None"
  shows "hm_get (tasks_active (fst (cleanup_expired lib r s))) tid \<noteq> None"
  using expire_leases_tables [OF assms(1), of lib r 0 _ tid] drop_clients_result assms(2,3)
  by (simp add: cleanup_expired_def split_beta)

text \<open>What a notification does to the tables when its task has a lease.\<close>

lemma notify_leased_tables:
  assumes "hm_get (leases s) (notify_task_id m) = Some l"
    and "hm_get (tasks_active s) (notify_task_id m) = Some t" and "\<not> is_ack m"
  shows "task_tables (snd (snd (handle_notify lib r m s)))
    = task_tables (finalize_task
        (leased_task r (notify_task_id m) l (notify_status m) (notify_parts lib m) (Some t))
        (s\<lparr>leases := hm_remove (notify_task_id m) (leases s),
           tasks_active := hm_remove (notify_task_id m) (tasks_active s)\<rparr>))"
  unfolding handle_notify_leased [OF assms(1,3)] using assms(2)
  by (simp add: notify_with_lease_def take_task_def forward_state_tables Let_def)

text \<open>
  Progress costs the lease. A leased task whose worker reports a status that is not final
  stays active but holds no lease any more, so that no clean-up, at whatever time, ends it.
\<close>

theorem progress_report_drops_lease:
  assumes "daemon_inv s" and "hm_get (leases s) (notify_task_id m) = Some l"
    and "\<not> is_terminal (map_status (notify_status m))" and "\<not> is_ack m"
    and "handle_notify lib r m s = (out, effects, s')"
  shows "hm_get (leases s') (notify_task_id m) = None
    \<and> hm_get (tasks_active s') (notify_task_id m) \<noteq> None
    \<and> hm_get (tasks_active (fst (cleanup_expired lib r2 s'))) (notify_task_id m) \<noteq> None"
proof -
  let ?tid = "notify_task_id m"
  obtain t where t: "hm_get (tasks_active s) ?tid = Some t"
    using daemon_inv_leased [OF assms(1), of ?tid] assms(2) by auto
  let ?t = "leased_task r ?tid l (notify_status m) (notify_parts lib m) (Some t)"
  have task: "task_id ?t = ?tid" "task_status ?t = map_status (notify_status m)"
    using keyed_get [OF _ t] assms(1) by (auto simp: leased_task_def Let_def daemon_inv_def)
  have s': "s' = snd (snd (handle_notify lib r m s))" using assms(5) by simp
  have "task_tables s' = task_tables (finalize_task ?t (s\<lparr>leases := hm_remove ?tid (leases s),
      tasks_active := hm_remove ?tid (tasks_active s)\<rparr>))"
    unfolding s' by (rule notify_leased_tables [OF assms(2) t assms(4)])
  then have tables: "hm_get (leases s') ?tid = None" "hm_get (tasks_active s') ?tid \<noteq> None"
    using assms(3) task by (simp_all add: task_tables_def finalize_task_def hm_get_delete hm_get_update)
  have "daemon_inv s'" unfolding s' by (rule handle_notify_inv [OF assms(1)])
  from cleanup_active [OF this tables] tables show ?thesis by blast
qed

lemma progress_report_drops_lease_witness:
  "hm_get (tasks_active (fst (cleanup_expired sample_lib (sample_reading (10 ^ 18))
      (snd (snd (handle_notify sample_lib (sample_reading 9) (result_msg ''in_progress'') with_task)))))) ''t1''
    \<noteq> None"
proof -
  let ?m = "result_msg ''in_progress''"
  let ?h = "handle_notify sample_lib (sample_reading 9) ?m with_task"
  have m: "notify_task_id ?m = ''t1''" "map_status (notify_status ?m) = InProgress" "\<not> is_ack ?m"
    "\<not> is_terminal InProgress"
    by code_simp+
  obtain l where "hm_get (leases with_task) ''t1'' = Some l" using with_task_lease by blast
  then show ?thesis
    using progress_report_drops_lease [OF with_task_inv, of ?m l sample_lib "sample_reading 9" "fst ?h"
        "fst (snd ?h)" "snd (snd ?h)" "sample_reading (10 ^ 18)"] m by auto
qed

subsection \<open>Mail boxes and the status\<close>

text \<open>
  Only the first message of a mail box is delivered. A poll answers with the oldest message
  and empties the box, so that every later message is gone: the next poll answers nothing.
\<close>

theorem poll_drops_the_rest:
  assumes "mailbox s (m_from m) = first # later"
    and "handle_poll lib r m s = (out, effects, s')"
  shows "out = Reply first \<and> mailbox s' (m_from m) = []
    \<and> fst (handle_poll lib r2 m s') = Silent"
  using assms
  by (auto simp: handle_poll_def first_notification_def get_notifications_def mailbox_def
      hm_get_delete split: option.splits list.splits)

lemma poll_drops_the_rest_witness:
  "fst (handle_poll sample_lib (sample_reading 2) (sample_msg ''POLL'' ''p1'' ''w'' ''orchestrator'' JNull)
     (add_notification ''w'' register_msg (add_notification ''w'' signed_delegate with_worker)))
   = Reply signed_delegate"
proof -
  let ?s = "add_notification ''w'' register_msg (add_notification ''w'' signed_delegate with_worker)"
  let ?m = "sample_msg ''POLL'' ''p1'' ''w'' ''orchestrator'' JNull"
  let ?h = "handle_poll sample_lib (sample_reading 2) ?m ?s"
  have "mailbox with_worker ''w'' = []" "m_from ?m = ''w''" by code_simp+
  then have "mailbox ?s (m_from ?m) = signed_delegate # [register_msg]" by simp
  from poll_drops_the_rest [OF this, of sample_lib "sample_reading 2" "fst ?h" "fst (snd ?h)" "snd (snd ?h)"]
  show ?thesis by simp
qed

lemma partition_lengths:
  "(\<forall>t \<in> set ts. finished t) \<Longrightarrow>
     length (filter (has_status Completed) ts) + length (filter (has_status Failed) ts)
       + length (filter (has_status Cancelled) ts) = length ts"
  by (induction ts) (auto simp: finished_def is_terminal_def has_status_def)

lemma snapshot_fields:
  "st_active_tasks (build_snapshot s) = hm_values (tasks_active s)"
  "st_completed_tasks (build_snapshot s) = hm_values (tasks_completed s)"
  "total_completed (st_summary (build_snapshot s))
    = length (filter (has_status Completed) (hm_values (tasks_completed s)))"
  "total_failed (st_summary (build_snapshot s))
    = length (filter (has_status Failed) (hm_values (tasks_completed s)))"
  "oldest_active_task (st_summary (build_snapshot s))
    = map_option task_id (min_by_key task_created_at (hm_values (tasks_active s)))"
  by (simp_all add: build_snapshot_def)

text \<open>
  The status tells the truth: in every state a run reaches, it lists each active task once
  and no finished one among them, counts every finished task as completed, failed or cancelled,
  and the task it names as the oldest is an active task that no active task precedes.
\<close>

theorem status_is_faithful:
  assumes "daemon_reachable lib s"
  shows "distinct (map task_id (st_active_tasks (build_snapshot s)))
    \<and> (\<forall>t \<in> set (st_active_tasks (build_snapshot s)). task_status t \<in> {Pending, InProgress})
    \<and> total_completed (st_summary (build_snapshot s)) + total_failed (st_summary (build_snapshot s))
      + length (filter (has_status Cancelled) (st_completed_tasks (build_snapshot s)))
      = length (st_completed_tasks (build_snapshot s))
    \<and> (case oldest_active_task (st_summary (build_snapshot s)) of
         None \<Rightarrow> st_active_tasks (build_snapshot s) = []
       | Some tid \<Rightarrow> \<exists>t. hm_get (tasks_active s) tid = Some t
           \<and> (\<forall>t' \<in> set (st_active_tasks (build_snapshot s)). task_created_at t \<le> task_created_at t'))"
proof -
  have inv: "keyed task_id running (tasks_active s)" "keyed task_id finished (tasks_completed s)"
    using reachable_inv [OF assms] by (auto simp: daemon_inv_def)
  have ids: "map task_id (hm_values (tasks_active s)) = hm_keys (tasks_active s)"
    using keyed_ids [OF inv(1)] .
  have "distinct (map task_id (hm_values (tasks_active s)))"
    unfolding ids using keyed_wf [OF inv(1)] by (simp add: hm_wf_def)
  moreover have "\<forall>t \<in> set (hm_values (tasks_active s)). running t"
    "\<forall>t \<in> set (hm_values (tasks_completed s)). finished t"
    using keyed_value inv by fast+
  moreover have "case map_option task_id (min_by_key task_created_at (hm_values (tasks_active s))) of
         None \<Rightarrow> hm_values (tasks_active s) = []
       | Some tid \<Rightarrow> \<exists>t. hm_get (tasks_active s) tid = Some t
           \<and> (\<forall>t' \<in> set (hm_values (tasks_active s)). task_created_at t \<le> task_created_at t')"
  proof (cases "min_by_key task_created_at (hm_values (tasks_active s))")
    case None
    then show ?thesis by simp
  next
    case (Some t)
    from min_by_key_Some [OF this] have "t \<in> set (hm_values (tasks_active s))"
      "\<forall>t' \<in> set (hm_values (tasks_active s)). task_created_at t \<le> task_created_at t'" by blast+
    with keyed_value [OF inv(1), of t] Some show ?thesis by simp
  qed
  ultimately show ?thesis
    using partition_lengths [of "hm_values (tasks_completed s)"]
    unfolding snapshot_fields running_def by blast
qed

lemma status_is_faithful_witness:
  "distinct (map task_id (st_active_tasks (build_snapshot
     (snd (snd (handle_message sample_lib (sample_reading 0) register_msg sample_state))))))"
proof -
  let ?s = "snd (snd (handle_message sample_lib (sample_reading 0) register_msg sample_state))"
  have "daemon_reachable sample_lib sample_state"
    unfolding sample_state_def by (rule daemon_reachable.start)
  then have "daemon_reachable sample_lib ?s" by (rule daemon_reachable.step) (rule receive_step)
  from status_is_faithful [OF this] show ?thesis by blast
qed

subsection \<open>Screenshots\<close>

text \<open>The times of the screenshots that a series of requests may take.\<close>

fun shots :: "string \<Rightarrow> (nat \<times> string \<times> string option) list \<Rightarrow> screenshot_control \<Rightarrow> nat list" where
  "shots temp [] c = []"
| "shots temp ((t, stamp, mkdir) # calls) c =
     (case prepare_job temp stamp mkdir t c of
        (Inr job, c') \<Rightarrow> t # shots temp calls c'
      | (Inl err, c') \<Rightarrow> shots temp calls c')"

lemma prune_history_cases:
  assumes "0 < max_actions (sc_rate_limit c)" and "0 < per_seconds (sc_rate_limit c)"
  obtains old where "sc_history c = old @ sc_history (prune_history t c)"
    and "\<forall>h \<in> set old. per_seconds (sc_rate_limit c) * second < t - h"
proof
  let ?old = "takeWhile (\<lambda>h. max (per_seconds (sc_rate_limit c)) 1 * second < t - h) (sc_history c)"
  show "sc_history c = ?old @ sc_history (prune_history t c)"
    using assms by (simp add: prune_history_def Let_def)
  show "\<forall>h \<in> set ?old. per_seconds (sc_rate_limit c) * second < t - h"
  proof -
    have "max (per_seconds (sc_rate_limit c)) 1 = per_seconds (sc_rate_limit c)" using assms(2) by simp
    then show ?thesis by (auto dest: set_takeWhileD)
  qed
qed

lemma prepare_job_history:
  assumes "prepare_job temp stamp mkdir t c = (res, c')" and "0 < max_actions (sc_rate_limit c)"
  shows "sc_rate_limit c' = sc_rate_limit c"
    and "case res of
        Inr job \<Rightarrow> sc_history c' = sc_history (prune_history t c) @ [t]
          \<and> length (sc_history (prune_history t c)) < max_actions (sc_rate_limit c)
      | Inl err \<Rightarrow> sc_history c' = sc_history (prune_history t c) \<or> c' = c"
  using assms
  by (auto simp: prepare_job_def prune_history_def Let_def split: if_splits option.splits)

lemma shots_after: "(\<forall>call \<in> set calls. t \<le> fst call) \<Longrightarrow> (\<forall>x \<in> set (shots temp calls c). t \<le> x)"
proof (induction calls arbitrary: c)
  case (Cons call calls)
  obtain a b d where call: "call = (a, b, d)" by (cases call)
  obtain res c' where run: "prepare_job temp b d a c = (res, c')" by fastforce
  show ?case using Cons.IH [of c'] Cons.prems run call by (auto split: sum.splits)
qed simp

definition in_window :: "nat \<Rightarrow> nat \<Rightarrow> nat \<Rightarrow> bool" where
  "in_window a w x = (a \<le> x \<and> x \<le> a + w)"

lemma filter_window_late: "(\<forall>x \<in> set xs. t \<le> x) \<Longrightarrow> a + w < t \<Longrightarrow> filter (in_window a w) xs = []"
  by (auto simp: in_window_def filter_empty_conv)

lemma shots_window:
  assumes "sorted (map fst calls)" and "0 < max_actions lim" and "0 < per_seconds lim"
    and "sc_rate_limit c = lim" and "length (sc_history c) \<le> max_actions lim"
    and "\<forall>call \<in> set calls. \<forall>h \<in> set (sc_history c). h \<le> fst call"
  shows "length (filter (in_window a (per_seconds lim * second)) (sc_history c))
    + length (filter (in_window a (per_seconds lim * second)) (shots temp calls c)) \<le> max_actions lim"
  using assms
proof (induction calls arbitrary: c)
  case Nil
  have "length (filter (in_window a (per_seconds lim * second)) (sc_history c)) \<le> length (sc_history c)"
    by simp
  with Nil.prems(5) show ?case unfolding shots.simps by (simp only: filter.simps list.size add_0_right)
next
  case (Cons call calls)
  let ?P = "in_window a (per_seconds lim * second)"
  obtain t stamp mkdir where call: "call = (t, stamp, mkdir)" by (cases call)
  obtain res c' where run: "prepare_job temp stamp mkdir t c = (res, c')" by fastforce
  note hist = prepare_job_history [OF run, unfolded Cons.prems(4), OF Cons.prems(2)]
  obtain old where old: "sc_history c = old @ sc_history (prune_history t c)"
    "\<forall>h \<in> set old. per_seconds lim * second < t - h"
    using prune_history_cases [of c t] Cons.prems(2-4) by metis
  let ?rest = "shots temp calls c'"
  have later: "\<forall>x \<in> set ?rest. t \<le> x"
    using shots_after [of calls t] Cons.prems(1) call by auto
  have shots: "shots temp (call # calls) c = (case res of Inr job \<Rightarrow> t # ?rest | Inl err \<Rightarrow> ?rest)"
    using run call by (simp split: sum.split)
  have kept: "set (sc_history (prune_history t c)) \<subseteq> set (sc_history c)"
    unfolding old(1) by auto
  have before: "\<forall>h \<in> set (sc_history c). h \<le> t" using Cons.prems(6) call by auto
  have IH: "length (filter ?P (sc_history c')) + length (filter ?P ?rest) \<le> max_actions lim"
  proof (rule Cons.IH)
    show "sorted (map fst calls)" using Cons.prems(1) by simp
    show "length (sc_history c') \<le> max_actions lim"
      using hist(2) Cons.prems(5) old(1) by (auto split: sum.splits)
    have "set (sc_history c') \<subseteq> insert t (set (sc_history c))"
      using hist(2) kept by (auto split: sum.splits)
    then show "\<forall>call \<in> set calls. \<forall>h \<in> set (sc_history c'). h \<le> fst call"
      using Cons.prems(1,6) call by fastforce
  qed (use hist(1) Cons.prems in auto)
  show ?case
  proof (cases "\<exists>h \<in> set old. ?P h")
    case True
    then have "a + per_seconds lim * second < t"
      using old(2) by (auto simp: in_window_def)
    then have "filter ?P (shots temp (call # calls) c) = []"
      using later unfolding shots by (intro filter_window_late [of _ t]) (auto split: sum.splits)
    then show ?thesis
      using Cons.prems(5) length_filter_le [of ?P "sc_history c"] by (simp del: length_filter_le)
  next
    case False
    then have "filter ?P (sc_history c) = filter ?P (sc_history (prune_history t c))"
      unfolding old(1) by (subst filter_append) (simp add: filter_empty_conv)
    then show ?thesis using IH hist(2) unfolding shots by (auto split: sum.splits)
  qed
qed

text \<open>
  C12: The rate limit of screenshots holds in every window of time, not only in the fixed ones
  that the daemon looks at: requests that arrive in the order of their times never take more
  screenshots than the limit within the limit's number of seconds, both ends included.
\<close>

theorem screenshot_rate_is_bounded:
  assumes "sorted (map fst calls)" and "0 < max_actions limit" and "0 < per_seconds limit"
    and "c = new_screenshot_control temp st limit enabled root"
  shows "length (filter (\<lambda>t. a \<le> t \<and> t \<le> a + per_seconds limit * 10 ^ 9) (shots temp calls c))
    \<le> max_actions limit"
  using shots_window [OF assms(1-3), of c a temp] assms(4)
  by (simp add: new_screenshot_control_def in_window_def [abs_def] second_def)

lemma screenshot_rate_is_bounded_witness:
  "length (filter (\<lambda>t. 5 \<le> t \<and> t \<le> 5 + 60 * 10 ^ 9)
     (shots ''/tmp'' [(10, ''0'', None), (20, ''1'', None), (30, ''2'', None)] (screenshot sample_state))) \<le> 2
   \<and> shots ''/tmp'' [(10, ''0'', None), (20, ''1'', None), (30, ''2'', None)] (screenshot sample_state) = [10, 20]"
proof -
  have "shots ''/tmp'' [(10, ''0'', None), (20, ''1'', None), (30, ''2'', None)] (screenshot sample_state) = [10, 20]"
    by code_simp
  then show ?thesis
    using screenshot_rate_is_bounded [of "[(10, ''0'', None), (20, ''1'', None), (30, ''2'', None)]"
        "\<lparr>max_actions = 2, per_seconds = 60\<rparr>" "screenshot sample_state" "''/tmp''"
        "ws_screenshot sample_settings" True "Some ''/w''" 5]
    by (simp add: sample_state_def new_state_def sample_settings_def)
qed

text \<open>
  A screenshot is planned inside the workspace or the fall-back directory only.
\<close>

theorem screenshot_stays_in_sandbox:
  assumes "prepare_job temp stamp mkdir t c = (Inr job, c')"
  shows "path_starts_with (job_path job) (fallback_screenshot_directory temp)
    \<or> (\<exists>root. sc_workspace_root c = Some root \<and> path_starts_with (job_path job) root)"
  using assms
  by (auto simp: prepare_job_def prune_history_def screenshot_allowed_def Let_def
      split: if_splits option.splits)

lemma screenshot_stays_in_sandbox_witness:
  "\<exists>job. fst (prepare_job ''/tmp'' ''0'' None 5 (screenshot sample_state)) = Inr job
    \<and> (path_starts_with (job_path job) (fallback_screenshot_directory ''/tmp'')
       \<or> path_starts_with (job_path job) ''/w'')"
proof -
  let ?p = "prepare_job ''/tmp'' ''0'' None 5 (screenshot sample_state)"
  have "(case fst ?p of Inr _ \<Rightarrow> True | Inl _ \<Rightarrow> False)" "sc_workspace_root (screenshot sample_state) = Some ''/w''"
    by code_simp+
  then obtain job where job: "?p = (Inr job, snd ?p)"
    by (metis prod.collapse sum.exhaust_sel sum.simps(5))
  from screenshot_stays_in_sandbox [OF this] \<open>sc_workspace_root _ = _\<close> show ?thesis
    unfolding job [THEN arg_cong, of fst] by auto
qed

subsection \<open>Subprocess workers\<close>

text \<open>
  The outcome of a subprocess arrives unchanged: the daemon packs it into a notification and
  the handler of notifications unpacks the same summary, evidence, metadata, status, task and
  return target, and the same details unless the output was cut short.
\<close>

theorem worker_outcome_round_trip:
  "np_summary (notify_parts lib (worker_notification lib r wt w)) = wo_summary w
   \<and> np_evidence (notify_parts lib (worker_notification lib r wt w)) = wo_evidence w
   \<and> np_metadata (notify_parts lib (worker_notification lib r wt w)) = metadata_json lib (wo_metadata w)
   \<and> (\<not> wo_truncated w \<longrightarrow> np_details (notify_parts lib (worker_notification lib r wt w)) = wo_details w)
   \<and> notify_status (worker_notification lib r wt w) = worker_status_text (wo_status w)
   \<and> notify_task_id (worker_notification lib r wt w) = wt_id wt
   \<and> return_to_of (worker_notification lib r wt w) = wt_return_to wt"
  by (auto simp: notify_parts_def worker_notification_def build_worker_artifacts_def
      extract_notification_parts_def notify_status_def notify_task_id_def return_to_of_def get_str_def
      jopt_def split: option.split)

text \<open>
  A granted task of a subprocess worker never starts. The grant gives the task a lease and
  puts a message into the mail box named after the worker, but launches no process, although the
  configuration names the command of that worker and a delegation without approval launches it.
\<close>

theorem granted_subprocess_is_not_launched:
  assumes "hm_get (pending_approvals s) (msg_id d) = Some p"
    and "get_str (payload d) ''status'' = Some ''granted''"
    and "hm_get (worker_configs s) (m_to (pa_original_msg p)) = Some config"
    and "handle_approval_decision lib r d s = (out, effects, s')"
  shows "effects = [] \<and> hm_get (leases s') (pa_task_id p) \<noteq> None
    \<and> (\<exists>tm. mailbox s' (m_to (pa_original_msg p)) = mailbox s (m_to (pa_original_msg p)) @ [tm])
    \<and> (policy_eval (tool_of m) (payload m) = AllowTask \<and> m_to m = m_to (pa_original_msg p) \<longrightarrow>
        fst (snd (handle_delegate lib r m s))
          = [LaunchWorker config (worker_task_of r m (details_of m (msg_id m)))])"
proof -
  have "proceed_with_delegation lib r (pa_original_msg p) (pa_task_id p) (m_to (pa_original_msg p))
      (return_to_of (pa_original_msg p)) (pa_tool p) True (details_of (pa_original_msg p) (pa_task_id p)) 1
      (log_event lib r 0 ''POLICY'' (msg_id d) (m_from d) orchestrator (decision_meta ''granted'' d p)
        (s\<lparr>pending_approvals := hm_remove (msg_id d) (pending_approvals s)\<rparr>)) = (out, effects, s')"
    using assms(1,2,4) by (simp add: handle_approval_decision_def Let_def)
  note result = proceed_result [OF this]
  have "fst (snd (handle_delegate lib r m s))
          = [LaunchWorker config (worker_task_of r m (details_of m (msg_id m)))]"
    if "policy_eval (tool_of m) (payload m) = AllowTask" "m_to m = m_to (pa_original_msg p)"
    using that assms(3) by (simp add: handle_delegate_def Let_def split_beta proceed_effects)
  with result show ?thesis by (simp add: hm_get_update)
qed

text \<open>A task for the configured worker \<open>cli\<close>, allowed or to be approved.\<close>

definition cli_task :: "string \<Rightarrow> msg" where
  "cli_task path = sample_msg ''DELEGATE'' ''t4'' ''boss'' ''cli'' (task_payload ''devit_patch_apply'' path)"

definition cli_asked :: daemon_state where
  "cli_asked = snd (snd (handle_delegate sample_lib (sample_reading 0) (cli_task ''/opt/x'') with_worker))"

lemma granted_subprocess_is_not_launched_witness:
  "fst (snd (handle_approval_decision sample_lib (sample_reading 5) grant_msg cli_asked)) = []
   \<and> fst (snd (handle_delegate sample_lib (sample_reading 5) (cli_task ''/workdir/src/x'') cli_asked)) \<noteq> []"
proof -
  let ?m = "cli_task ''/opt/x''" and ?m2 = "cli_task ''/workdir/src/x''"
  let ?h = "handle_approval_decision sample_lib (sample_reading 5) grant_msg cli_asked"
  have m: "policy_eval (tool_of ?m) (payload ?m) = NeedApproval" "m_to ?m = ''cli''"
    "policy_eval (tool_of ?m2) (payload ?m2) = AllowTask" "m_to ?m2 = ''cli''"
    "uuid (sample_reading 0) 0 = ''u0''" "msg_id grant_msg = ''u0''"
    "get_str (payload grant_msg) ''status'' = Some ''granted''"
    by code_simp+
  have w: "worker_configs cli_asked = [(''cli'', cli_config)]" by code_simp
  obtain p where p: "hm_get (pending_approvals cli_asked) (msg_id grant_msg) = Some p"
    "pa_original_msg p = ?m"
    by (simp add: cli_asked_def handle_delegate_def m handle_approval_request_def Let_def hm_get_update)
  show ?thesis
    using granted_subprocess_is_not_launched [OF p(1), of cli_config sample_lib "sample_reading 5"
        "fst ?h" "fst (snd ?h)" "snd (snd ?h)" ?m2] m w p(2) by simp
qed

definition sample_worker_task :: worker_task where
  "sample_worker_task =
     \<lparr>wt_id = ''t1'', wt_goal = ''g'', wt_delegated_to = ''w'', wt_working_dir = None,
      wt_timeout_secs = None, wt_return_to = None, wt_response_format = None, wt_time_queued = 0,
      wt_model = None, wt_context = None\<rparr>"

definition sample_outcome :: worker_outcome where
  "sample_outcome =
     \<lparr>wo_status = WorkerFailed, wo_summary = ''boom'', wo_details = Some (JInt 3), wo_evidence = None,
      wo_truncated = False, wo_original_size = None, wo_metadata = default_metadata 0\<rparr>"

lemma worker_outcome_round_trip_witness:
  "np_details (notify_parts sample_lib
     (worker_notification sample_lib (sample_reading 7) sample_worker_task sample_outcome)) = Some (JInt 3)"
  using worker_outcome_round_trip [of sample_lib "sample_reading 7" sample_worker_task sample_outcome]
  by (simp add: sample_outcome_def)

lemma pruning_keeps_newest_witness:
  "length (tasks_completed (prune_completed after_failure))
     = min (length (tasks_completed after_failure)) 1000"
proof -
  have "keyed task_id finished (tasks_completed after_failure)"
    using finalize_inv [OF with_worker_inv] by (simp add: after_failure_def daemon_inv_def)
  from pruning_keeps_newest [OF this] show ?thesis by blast
qed

lemma daemon_invariant_witness:
  "keyed task_id running (tasks_active
     (snd (snd (handle_message sample_lib (sample_reading 0) register_msg sample_state))))"
proof -
  have "daemon_reachable sample_lib sample_state"
    unfolding sample_state_def by (rule daemon_reachable.start)
  then have "daemon_reachable sample_lib
      (snd (snd (handle_message sample_lib (sample_reading 0) register_msg sample_state)))"
    by (rule daemon_reachable.step) (rule receive_step)
  from daemon_invariant [OF this] show ?thesis by blast
qed

end
