(* ===== verification/Worker_Mcp.thy ===== *)
theory Worker_Mcp
  imports Worker_Executor
begin

text \<open>
  Workers of type \<open>mcp\<close>: the JSON-RPC session of \<open>McpSession\<close>, what is made of the result, and
  \<open>execute_task\<close>, which runs a task on either kind of worker and turns every error into a failed
  outcome. The worker is the list of what arrives on its standard output, each event within or
  after the timeout; a list that ends is the end of the stream.
\<close>

subsection \<open>The result of a call\<close>

text \<open>A change of the value under one key.\<close>

definition map_member :: "string \<Rightarrow> (json \<Rightarrow> json) \<Rightarrow> (string \<times> json) list \<Rightarrow> (string \<times> json) list" where
  "map_member key f m = map (\<lambda>(k, v). if k = key then (k, f v) else (k, v)) m"

fun trim_text :: "json \<Rightarrow> json" where
  "trim_text (JStr s) = JStr (trim s)"
| "trim_text v = v"

fun normalize_value :: "json \<Rightarrow> json" and normalize_members :: "(string \<times> json) list \<Rightarrow> (string \<times> json) list"
where
  "normalize_value (JStr s) = JStr (trim s)"
| "normalize_value (JArr items) = JArr (map trim_text items)"
| "normalize_value (JObj members) = JObj (normalize_members members)"
| "normalize_value v = v"
| "normalize_members [] = []"
| "normalize_members ((k, v) # ms) = (k, normalize_value v) # normalize_members ms"

definition normalize_string_fields :: "(string \<times> json) list \<Rightarrow> (string \<times> json) list" where
  "normalize_string_fields m = normalize_members m"

fun normalize_object :: "json \<Rightarrow> json" where
  "normalize_object (JObj members) = JObj (normalize_string_fields members)"
| "normalize_object v = v"

definition clean_details :: "json \<Rightarrow> json" where
  "clean_details d =
     (case d of
        JObj m \<Rightarrow> JObj (hm_remove ''stderr'' (map_member ''structured_data'' normalize_object
                    (map_member ''raw_excerpt'' trim_text m)))
      | other \<Rightarrow> other)"

definition clean_mcp_result :: "json \<Rightarrow> json" where
  "clean_mcp_result value =
     (case value of
        JObj m \<Rightarrow> JObj (map_member ''details'' clean_details m)
      | other \<Rightarrow> other)"

text \<open>The first text in a list that is not blank.\<close>

definition first_nonblank :: "string list \<Rightarrow> string option" where
  "first_nonblank xs = (case filter (\<lambda>s. s \<noteq> []) (map trim xs) of [] \<Rightarrow> None | s # _ \<Rightarrow> Some s)"

definition value_texts :: "json \<Rightarrow> string list" where
  "value_texts v =
     (case v of JArr items \<Rightarrow> List.map_filter as_str items | JStr s \<Rightarrow> [s] | _ \<Rightarrow> [])"

definition nonblank :: "string option \<Rightarrow> string option" where
  "nonblank s = Option.bind (map_option trim s) nonempty"

definition summarize_mcp_result :: "worker_crates \<Rightarrow> json \<Rightarrow> string" where
  "summarize_mcp_result lib result =
     (let details = jget result ''details'';
          found = or_else (nonblank (get_str result ''summary''))
            (or_else (nonblank (Option.bind details (\<lambda>d. get_str d ''raw_excerpt'')))
              (or_else (Option.bind (Option.bind (Option.bind details (\<lambda>d. jget d ''structured_data''))
                          as_object) (\<lambda>m. first_nonblank (concat (map value_texts (map snd m)))))
                (Option.bind (Option.bind (jget result ''content'') as_array)
                  (\<lambda>items. first_nonblank (List.map_filter (\<lambda>i. get_str i ''text'') items)))))
      in case found of
           Some text \<Rightarrow> text
         | None \<Rightarrow>
             (case json_print lib result of Some text \<Rightarrow> text | None \<Rightarrow> ''MCP worker response''))"

subsection \<open>Usage figures\<close>

definition value_as_u64 :: "worker_crates \<Rightarrow> json \<Rightarrow> nat option" where
  "value_as_u64 lib v =
     (case v of
        JInt n \<Rightarrow> as_u64 (JInt n)
      | JFloat _ \<Rightarrow> map_option (f64_round_u64 lib) (number_f64 lib v)
      | JStr text \<Rightarrow> parse_u64 (trim text)
      | _ \<Rightarrow> None)"

definition value_as_f64 :: "worker_crates \<Rightarrow> json \<Rightarrow> string option" where
  "value_as_f64 lib v =
     (case v of
        JInt _ \<Rightarrow> number_f64 lib v
      | JFloat _ \<Rightarrow> number_f64 lib v
      | JStr text \<Rightarrow> parse_f64 lib (trim text)
      | _ \<Rightarrow> None)"

definition cost_parents :: "string list" where
  "cost_parents = [''cost'', ''pricing'', ''usage'', ''billing'', ''estimate'', ''estimated_cost'', ''charge'']"

text \<open>What one member of an object adds: a slot that is filled stays as it is.\<close>

definition note_usage :: "worker_crates \<Rightarrow> string option \<Rightarrow> string \<Rightarrow> json \<Rightarrow> usage_stats \<Rightarrow> usage_stats" where
  "note_usage lib parent key child u =
     (if key \<in> {''input_tokens'', ''tokens_input'', ''prompt_tokens'', ''prompt_token_count''} then
        u\<lparr>us_tokens_input := or_else (us_tokens_input u) (value_as_u64 lib child)\<rparr>
      else if key \<in> {''output_tokens'', ''tokens_output'', ''completion_tokens'', ''completion_token_count'',
                     ''total_tokens'', ''total_token_count''} then
        u\<lparr>us_tokens_output := or_else (us_tokens_output u) (value_as_u64 lib child)\<rparr>
      else if key \<in> {''reasoning_tokens'', ''tokens_reasoning''} then
        u\<lparr>us_tokens_reasoning := or_else (us_tokens_reasoning u) (value_as_u64 lib child)\<rparr>
      else if key \<in> {''cost_usd'', ''estimated_cost_usd'', ''total_cost_usd'', ''cost_estimate_usd'',
                     ''usage_cost_usd''}
         \<or> key \<in> {''usd'', ''total_cost'', ''cost'', ''price_usd''}
           \<and> (case parent of Some p \<Rightarrow> p \<in> set cost_parents | None \<Rightarrow> False) then
        u\<lparr>us_cost := or_else (us_cost u) (value_as_f64 lib child)\<rparr>
      else u)"

fun collect_usage :: "worker_crates \<Rightarrow> string option \<Rightarrow> json \<Rightarrow> usage_stats \<Rightarrow> usage_stats"
  and collect_members ::
    "worker_crates \<Rightarrow> string option \<Rightarrow> (string \<times> json) list \<Rightarrow> usage_stats \<Rightarrow> usage_stats"
  and collect_items :: "worker_crates \<Rightarrow> string option \<Rightarrow> json list \<Rightarrow> usage_stats \<Rightarrow> usage_stats"
where
  "collect_usage lib parent (JObj members) u = collect_members lib parent members u"
| "collect_usage lib parent (JArr items) u = collect_items lib parent items u"
| "collect_usage lib parent v u = u"
| "collect_members lib parent [] u = u"
| "collect_members lib parent ((k, child) # ms) u =
     collect_members lib parent ms
       (collect_usage lib (Some (to_lowercase k)) child
         (note_usage lib parent (to_lowercase k) child u))"
| "collect_items lib parent [] u = u"
| "collect_items lib parent (item # items) u =
     collect_items lib parent items (collect_usage lib parent item u)"

definition extract_usage_stats :: "worker_crates \<Rightarrow> json \<Rightarrow> usage_stats" where
  "extract_usage_stats lib value = collect_usage lib None value no_usage"

subsection \<open>The session\<close>

text \<open>
  A line that arrives in time, nothing within the timeout, the end of the stream, a read error.
\<close>

datatype mcp_event = McpLine string | McpSlow | McpClosed | McpBroken

record rpc_error =
  re_code :: int
  re_message :: string
  re_data :: "json option"

record rpc_response =
  rr_result :: "json option"
  rr_error :: "rpc_error option"

text \<open>\<open>RawRpcResponse\<close>: what serde reads from a line.\<close>

record raw_rpc_response =
  raw_jsonrpc :: string
  raw_id :: json
  raw_result :: "json option"
  raw_error :: "rpc_error option"

record mcp_crates = worker_crates +
  rpc_of_text :: "string \<Rightarrow> raw_rpc_response option"

definition rpc_of_raw :: "raw_rpc_response \<Rightarrow> rpc_response" where
  "rpc_of_raw raw = \<lparr>rr_result = raw_result raw, rr_error = raw_error raw\<rparr>"

fun read_response_matching ::
  "mcp_crates \<Rightarrow> nat \<Rightarrow> json \<Rightarrow> mcp_event list \<Rightarrow> (string + rpc_response) \<times> mcp_event list" where
  "read_response_matching lib timeout expected [] =
     (Inl ''MCP worker closed the connection unexpectedly'', [])"
| "read_response_matching lib timeout expected (McpClosed # es) =
     (Inl ''MCP worker closed the connection unexpectedly'', es)"
| "read_response_matching lib timeout expected (McpSlow # es) =
     (Inl (''MCP worker timed out after '' @ show_nat timeout @ ''s''), es)"
| "read_response_matching lib timeout expected (McpBroken # es) =
     (Inl ''failed to read MCP worker response'', es)"
| "read_response_matching lib timeout expected (McpLine line # es) =
     (if trim line = [] then read_response_matching lib timeout expected es
      else case rpc_of_text lib (trim line) of
             None \<Rightarrow> (Inl ''invalid JSON from MCP worker'', es)
           | Some parsed \<Rightarrow>
               if raw_id parsed \<noteq> expected then read_response_matching lib timeout expected es
               else (Inr (rpc_of_raw parsed), es))"

text \<open>
  A session: the identifiers of its requests, whether the worker takes the request number \<open>i\<close>,
  the requests sent so far, and what is still to arrive.
\<close>

record mcp_session =
  ms_timeout :: nat
  ms_uuid :: "nat \<Rightarrow> string"
  ms_takes :: "nat \<Rightarrow> bool"
  ms_sent :: "json list"
  ms_events :: "mcp_event list"

definition rpc_call ::
  "mcp_crates \<Rightarrow> string \<Rightarrow> json option \<Rightarrow> mcp_session \<Rightarrow> (string + rpc_response) \<times> mcp_session" where
  "rpc_call lib rpc params ms =
     (let i = length (ms_sent ms);
          ident = JStr (ms_uuid ms i);
          request = JObj ([(''jsonrpc'', JStr ''2.0''), (''id'', ident), (''method'', JStr rpc)]
            @ (case params of Some p \<Rightarrow> [(''params'', p)] | None \<Rightarrow> []));
          sent = ms\<lparr>ms_sent := ms_sent ms @ [request]\<rparr>
      in if \<not> ms_takes ms i then (Inl ''write failed'', sent)
         else case read_response_matching lib (ms_timeout ms) ident (ms_events ms) of
                (answer, es) \<Rightarrow> (answer, sent\<lparr>ms_events := es\<rparr>))"

definition init_params :: "string \<Rightarrow> json" where
  "init_params version =
     JObj [(''protocolVersion'', JStr ''1.0''),
       (''clientInfo'', JObj [(''name'', JStr ''devitd''), (''version'', JStr version)]),
       (''serverInfo'', JObj [(''name'', JStr ''codex-mcp''), (''version'', JStr ''0'')]),
       (''capabilities'', JObj [(''tools'', JObj [])])]"

definition rpc_failure :: "string \<Rightarrow> rpc_error \<Rightarrow> string" where
  "rpc_failure what e = what @ '' failed: '' @ re_message e @ '' ('' @ show_int (re_code e) @ '')''"

definition mcp_initialize :: "mcp_crates \<Rightarrow> string \<Rightarrow> mcp_session \<Rightarrow> (string + unit) \<times> mcp_session" where
  "mcp_initialize lib version ms =
     (case rpc_call lib ''initialize'' (Some (init_params version)) ms of
        (Inl e, ms1) \<Rightarrow> (Inl e, ms1)
      | (Inr r1, ms1) \<Rightarrow>
          (case rr_error r1 of
             Some e \<Rightarrow> (Inl (rpc_failure ''MCP initialize'' e), ms1)
           | None \<Rightarrow>
               (case rpc_call lib ''tools/list'' (Some (JObj [])) ms1 of
                  (Inl e, ms2) \<Rightarrow> (Inl e, ms2)
                | (Inr r2, ms2) \<Rightarrow>
                    (case rr_error r2 of
                       Some e \<Rightarrow> (Inl (rpc_failure ''MCP tools/list'' e), ms2)
                     | None \<Rightarrow> (Inr (), ms2)))))"

definition or_insert_opt :: "string \<Rightarrow> json option \<Rightarrow> (string \<times> json) list \<Rightarrow> (string \<times> json) list" where
  "or_insert_opt key v m = (case v of Some x \<Rightarrow> or_insert key x m | None \<Rightarrow> m)"

text \<open>The arguments of the configuration come first and win over those of the task.\<close>

definition delegate_arguments ::
  "worker_config \<Rightarrow> worker_task \<Rightarrow> string option \<Rightarrow> (string \<times> json) list" where
  "delegate_arguments config task model =
     (let extra = (case Option.bind (wc_mcp_arguments config) as_object of Some m \<Rightarrow> m | None \<Rightarrow> [])
      in or_insert_opt ''model'' (map_option JStr model)
           (or_insert_opt ''format'' (map_option JStr (wt_response_format task))
             (or_insert_opt ''working_dir'' (map_option JStr (wt_working_dir task))
               (or_insert_opt ''timeout'' (map_option (\<lambda>n. JInt (int n)) (wt_timeout_secs task))
                 (or_insert ''prompt'' (JStr (wt_goal task))
                   (or_insert ''goal'' (JStr (wt_goal task)) extra))))))"

definition call_delegate ::
  "mcp_crates \<Rightarrow> worker_config \<Rightarrow> worker_task \<Rightarrow> string option \<Rightarrow> mcp_session
     \<Rightarrow> (string + rpc_response) \<times> mcp_session" where
  "call_delegate lib config task model ms =
     rpc_call lib ''tools/call''
       (Some (JObj [(''name'', JStr (case wc_mcp_tool config of Some t \<Rightarrow> t | None \<Rightarrow> ''devit_delegate'')),
                    (''arguments'', JObj (delegate_arguments config task model))])) ms"

subsection \<open>The execution of a task\<close>

definition error_details :: "rpc_error \<Rightarrow> json" where
  "error_details e =
     JObj [(''error'', JObj ([(''code'', JInt (re_code e)), (''message'', JStr (re_message e))]
       @ (case re_data e of Some d \<Rightarrow> [(''data'', d)] | None \<Rightarrow> [])))]"

definition mcp_outcome :: "mcp_crates \<Rightarrow> int \<Rightarrow> rpc_response \<Rightarrow> worker_outcome" where
  "mcp_outcome lib t r =
     (case rr_error r of
        Some e \<Rightarrow>
          outcome_of WorkerFailed
            (''MCP worker error '' @ show_int (re_code e) @ '': '' @ re_message e)
            (Some (error_details e)) t
      | None \<Rightarrow>
          (case rr_result r of
             Some v \<Rightarrow>
               outcome_of WorkerCompleted
                 (summarize_mcp_result (worker_crates.truncate lib) (clean_mcp_result v))
                 (Some (clean_mcp_result v)) t
           | None \<Rightarrow> outcome_of WorkerFailed ''MCP worker returned empty result'' None t))"

definition mcp_telemetry ::
  "mcp_crates \<Rightarrow> string option \<Rightarrow> string option \<Rightarrow> rpc_response \<Rightarrow> telemetry" where
  "mcp_telemetry lib requested resolved r =
     (let t = no_telemetry\<lparr>te_exit_code := Some 0, te_exit_reason := Some ''success'',
            te_model_requested := requested, te_model_used := resolved\<rparr>;
          counted = (case rr_result r of
              Some v \<Rightarrow> apply_usage (extract_usage_stats (worker_crates.truncate lib) v) t
            | None \<Rightarrow> t)
      in case rr_error r of
           Some e \<Rightarrow>
             counted\<lparr>te_exit_code := Some (-1),
               te_exit_reason := Some (''rpc error '' @ show_int (re_code e))\<rparr>
         | None \<Rightarrow>
             (case rr_result r of
                Some _ \<Rightarrow> counted
              | None \<Rightarrow> counted\<lparr>te_exit_code := Some (-1), te_exit_reason := Some ''empty result''\<rparr>))"

text \<open>What the outside does with one task, and what it sees of it.\<close>

record worker_io =
  io_run :: "command \<Rightarrow> nat \<Rightarrow> process_end"
  io_spawns :: bool
  io_uuid :: "nat \<Rightarrow> string"
  io_takes :: "nat \<Rightarrow> bool"
  io_events :: "mcp_event list"
  io_version :: string
  io_started :: int
  io_completed :: int

record child =
  ch_command :: command
  ch_sent :: "json list"
  ch_killed :: bool

definition execute_mcp ::
  "mcp_crates \<Rightarrow> string option \<Rightarrow> worker_config \<Rightarrow> worker_io \<Rightarrow> worker_task
     \<Rightarrow> (string + worker_outcome \<times> telemetry) \<times> child option" where
  "execute_mcp lib root config io task =
     (case build_command root config task False of
        Inl e \<Rightarrow> (Inl e, None)
      | Inr (cmd, requested, resolved) \<Rightarrow>
          if \<not> io_spawns io then (Inl ''failed to spawn MCP worker process'', None)
          else
            (let start = \<lparr>ms_timeout = effective_timeout config task, ms_uuid = io_uuid io,
                   ms_takes = io_takes io, ms_sent = [], ms_events = io_events io\<rparr>
             in case mcp_initialize lib (io_version io) start of
                  (Inl e, ms) \<Rightarrow>
                    (Inl e, Some \<lparr>ch_command = cmd, ch_sent = ms_sent ms, ch_killed = True\<rparr>)
                | (Inr _, ms) \<Rightarrow>
                    (case call_delegate lib config task resolved ms of
                       (Inl e, ms') \<Rightarrow>
                         (Inl ''MCP delegate call failed'',
                          Some \<lparr>ch_command = cmd, ch_sent = ms_sent ms', ch_killed = False\<rparr>)
                     | (Inr r, ms') \<Rightarrow>
                         (Inr (limit_answer (worker_crates.truncate lib) config task []
                                 (mcp_outcome lib (io_completed io) r),
                               mcp_telemetry lib requested resolved r),
                          Some \<lparr>ch_command = cmd, ch_sent = ms_sent ms', ch_killed = True\<rparr>))))"

definition failed_execution :: "worker_config \<Rightarrow> worker_io \<Rightarrow> worker_task \<Rightarrow> string \<Rightarrow> worker_outcome" where
  "failed_execution config io task err =
     (outcome_of WorkerFailed (''Worker execution error: '' @ err) None (io_completed io))
       \<lparr>wo_metadata := new_metadata (wt_time_queued task) (io_started io) (io_completed io)
          (wc_type config) (no_telemetry\<lparr>te_exit_code := Some (-1), te_exit_reason := Some err\<rparr>)\<rparr>"

definition execute_task ::
  "mcp_crates \<Rightarrow> string option \<Rightarrow> worker_config \<Rightarrow> worker_io \<Rightarrow> worker_task \<Rightarrow> worker_outcome" where
  "execute_task lib root config io task =
     (case (case wc_type config of
              Cli \<Rightarrow> execute_cli (worker_crates.truncate lib) root config (io_run io)
                      (io_completed io) task
            | Mcp \<Rightarrow> fst (execute_mcp lib root config io task)) of
        Inr (w, t) \<Rightarrow>
          w\<lparr>wo_metadata := new_metadata (wt_time_queued task) (io_started io) (io_completed io)
              (wc_type config) t\<rparr>
      | Inl err \<Rightarrow> failed_execution config io task err)"

end
