(* ===== verification/Worker_Properties.thy ===== *)
theory Worker_Properties
  imports Worker_Mcp
begin

text \<open>
  What holds of the worker settings and of the executor: only validated workers are loaded, the
  models of a worker are those of its list, timeouts are bounded, text is cut at a character
  boundary, a task counts as completed only when its process or its call succeeded, and what the
  limits do not cover.
\<close>

subsection \<open>Settings\<close>

definition valid_worker :: "worker_config \<Rightarrow> bool" where
  "valid_worker config =
     (trim (wc_binary config) \<noteq> [] \<and> ParentDir \<notin> set (components (wc_binary config))
      \<and> 0 < wc_timeout_secs config \<and> wc_max_response_chars config \<noteq> Some 0
      \<and> (wc_type config = Mcp \<longrightarrow> (\<forall>v. wc_mcp_arguments config = Some v \<longrightarrow> is_object v)))"

lemma validate_valid: "validate_worker_config name config = Inr u \<longleftrightarrow> valid_worker config"
  by (auto simp: validate_worker_config_def valid_worker_def split: worker_type.splits option.splits)

lemma accept_step:
  "(\<forall>n c. hm_get m n = Some c \<longrightarrow> valid_worker c) \<Longrightarrow>
     hm_get (foldl (\<lambda>m (name, cfg). case validate_worker_config name cfg of
                              Inl _ \<Rightarrow> m | Inr _ \<Rightarrow> hm_insert name cfg m) m ws) n = Some c
     \<Longrightarrow> valid_worker c"
proof (induction ws arbitrary: m)
  case Nil
  then show ?case by simp
next
  case (Cons w ws)
  obtain name cfg where w: "w = (name, cfg)" by fastforce
  show ?case
  proof (cases "validate_worker_config name cfg")
    case (Inl e)
    with Cons w show ?thesis by auto
  next
    case (Inr u)
    then have "valid_worker cfg" using validate_valid by blast
    with Cons.prems(1) have "\<forall>n c. hm_get (hm_insert name cfg m) n = Some c \<longrightarrow> valid_worker c"
      by (auto simp: hm_get_update)
    with Cons w Inr show ?thesis by auto
  qed
qed

lemma accepted_valid: "hm_get (accept_workers ws) n = Some c \<Longrightarrow> valid_worker c"
  unfolding accept_workers_def by (rule accept_step [of "[]"]) auto

text \<open>
  Whatever the configuration file says, every worker the daemon loads is valid: its binary is
  named and has no \<open>..\<close> among its components, its timeout and its response limit are positive,
  and the fixed arguments of an MCP worker are an object.
\<close>

theorem loaded_workers_are_valid:
  "hm_get (ws_configs (load_worker_settings crate temp home fs file)) name = Some config
     \<Longrightarrow> valid_worker config"
  by (auto simp: load_worker_settings_def default_worker_settings_def Let_def intro: accepted_valid
      split: option.splits)

definition two_workers :: config_file where
  "two_workers =
     (let good = \<lparr>wc_type = Cli, wc_binary = ''codex'', wc_args = [''exec'', ''{goal}''],
            wc_timeout_secs = 300, wc_parse_mode = TextMode, wc_working_dir = None,
            wc_max_response_chars = Some 10, wc_mcp_tool = None, wc_mcp_arguments = None,
            wc_default_model = None, wc_allowed_models = None\<rparr>
      in \<lparr>cf_sandbox_root = None,
          cf_workers = [(''good'', good), (''bad'', good\<lparr>wc_binary := ''../codex''\<rparr>)]\<rparr>)"

definition sample_toml :: toml_crate where
  "sample_toml = \<lparr>toml_value = (\<lambda>_. None), toml_config = (\<lambda>_. Some two_workers)\<rparr>"

definition sample_settings :: worker_settings where
  "sample_settings =
     load_worker_settings sample_toml ''/tmp'' None \<lparr>nodes = [], cwd = []\<rparr> (Some (''c'', Some []))"

lemma loaded_workers_are_valid_witness:
  "(\<exists>config. hm_get (ws_configs sample_settings) ''good'' = Some config \<and> valid_worker config)
   \<and> hm_get (ws_configs sample_settings) ''bad'' = None"
proof -
  have "map fst (ws_configs sample_settings) = [''good'']" by code_simp
  then obtain config where c: "ws_configs sample_settings = [(''good'', config)]" by auto
  then have "hm_get (ws_configs sample_settings) ''good'' = Some config" by simp
  moreover from this have "valid_worker config"
    unfolding sample_settings_def by (rule loaded_workers_are_valid)
  ultimately show ?thesis using c by simp
qed

subsection \<open>The directory of screenshots\<close>

text \<open>
  The directory for screenshots that the settings yield starts with the workspace root or
  with the fallback directory, whatever the file asks for.
\<close>

theorem screenshot_dir_starts_inside:
  "ss_output_dir (parse_screenshot_settings temp root value) = Some dir \<Longrightarrow>
     (\<exists>r. root = Some r \<and> path_starts_with dir r)
     \<or> path_starts_with dir (fallback_screenshot_directory temp)"
proof -
  assume dir: "ss_output_dir (parse_screenshot_settings temp root value) = Some dir"
  have abs: "\<not> is_absolute ''.devit''" "\<not> is_absolute ''screenshots''" by (simp_all add: is_absolute_def)
  have dflt: "(\<exists>r. root = Some r \<and> path_starts_with (default_screenshot_directory temp root) r)
     \<or> path_starts_with (default_screenshot_directory temp root) (fallback_screenshot_directory temp)"
  proof (cases root)
    case None
    then show ?thesis by (simp add: default_screenshot_directory_def)
  next
    case (Some r)
    have "path_starts_with (path_join (path_join r ''.devit'') ''screenshots'') r"
      using join_starts_with [OF abs(1), of r] join_starts_with [OF abs(2)] path_starts_with_trans by blast
    with Some show ?thesis by (simp add: default_screenshot_directory_def)
  qed
  have res: "(\<exists>r. root = Some r \<and> path_starts_with (resolve_screenshot_dir temp root d) r)
     \<or> path_starts_with (resolve_screenshot_dir temp root d) (fallback_screenshot_directory temp)" for d
    using dflt by (auto simp: resolve_screenshot_dir_def Let_def join_starts_with split: option.splits)
  from dir dflt res show ?thesis
    by (auto simp: parse_screenshot_settings_def Let_def default_screenshot_settings_def
        split: option.splits)
qed

lemma screenshot_dir_starts_inside_witness:
  "path_starts_with ''/w/shots'' ''/w''"
proof -
  let ?v = "TTable [(''tools'', TTable [(''screenshot'', TTable [(''output_dir'', TStr '' shots '')])])]"
  have "ss_output_dir (parse_screenshot_settings ''/tmp'' (Some ''/w'') ?v) = Some ''/w/shots''" by code_simp
  from screenshot_dir_starts_inside [OF this]
  have "path_starts_with ''/w/shots'' ''/w''
    \<or> path_starts_with ''/w/shots'' (fallback_screenshot_directory ''/tmp'')" by simp
  moreover have "\<not> path_starts_with ''/w/shots'' (fallback_screenshot_directory ''/tmp'')" by code_simp
  ultimately show ?thesis by blast
qed

text \<open>
  Starting with the root is not staying below it: an absolute directory is taken with its \<open>..\<close>
  components, which a relative one may not have.
\<close>

lemma absolute_screenshot_dir_with_parent:
  "resolve_screenshot_dir ''/tmp'' (Some ''/w'') ''/w/../etc'' = ''/w/../etc''
   \<and> resolve_screenshot_dir ''/tmp'' (Some ''/w'') ''../etc'' = ''/w/.devit/screenshots''"
  by code_simp

text \<open>A count above the range of \<open>u32\<close> wraps around.\<close>

lemma rate_limit_count_wraps:
  "toml_rate_limit (TInt (2 ^ 32)) = Some (per_minute 0)
   \<and> toml_rate_limit (TFloat (Dyadic (2 ^ 32) 0)) = Some (per_minute (2 ^ 32 - 1))"
  by (simp add: toml_rate_limit_def u32_max_def)

subsection \<open>Timeouts and models\<close>

text \<open>
  The time a worker gets is positive, is never more than its configuration allows, and never
  more than a task asks for.
\<close>

theorem worker_timeout_bounds:
  assumes "valid_worker config"
  shows "0 < effective_timeout config task \<and> effective_timeout config task \<le> wc_timeout_secs config
    \<and> (\<forall>n. wt_timeout_secs task = Some n \<and> 0 < n \<longrightarrow> effective_timeout config task \<le> n)"
  using assms by (auto simp: effective_timeout_def valid_worker_def Let_def split: option.splits)

definition sample_worker :: worker_config where
  "sample_worker =
     \<lparr>wc_type = Cli, wc_binary = ''codex'', wc_args = [''exec'', ''{goal}''],
      wc_timeout_secs = 300, wc_parse_mode = TextMode, wc_working_dir = None,
      wc_max_response_chars = Some 4, wc_mcp_tool = None, wc_mcp_arguments = None,
      wc_default_model = Some ''small'', wc_allowed_models = Some [''small'', ''large'']\<rparr>"

definition sample_work :: worker_task where
  "sample_work =
     \<lparr>wt_id = ''t1'', wt_goal = ''fix it'', wt_delegated_to = ''cli'', wt_working_dir = None,
      wt_timeout_secs = Some 60, wt_return_to = None, wt_response_format = None, wt_time_queued = 0,
      wt_model = None, wt_context = None\<rparr>"

lemma sample_worker_valid: "valid_worker sample_worker"
proof -
  have "validate_worker_config ''cli'' sample_worker = Inr ()" by code_simp
  then show ?thesis using validate_valid by blast
qed

lemma worker_timeout_bounds_witness: "effective_timeout sample_worker sample_work \<le> 60"
  using worker_timeout_bounds [OF sample_worker_valid, of sample_work] by (simp add: sample_work_def)

text \<open>
  A worker with a list of allowed models is started with no other: the model in the
  environment of its command is on the list, and a task that asks for another model is refused
  before anything is started.
\<close>

theorem model_is_on_the_list:
  assumes "wc_allowed_models config = Some allowed"
    and "build_command root config task append_goal = Inr (cmd, requested, resolved)"
  shows "set (cmd_env cmd) \<inter> {''DEVIT_MODEL_USED''} \<times> UNIV \<subseteq> {''DEVIT_MODEL_USED''} \<times> set allowed
    \<and> (\<forall>m. resolved = Some m \<longrightarrow> m \<in> set allowed)"
proof -
  from assms(2) have r: "resolve_model config task = Inr (requested, resolved)"
    and env: "cmd_env cmd = [(''DEVIT_TASK_ID'', wt_id task), (''DEVIT_GOAL'', wt_goal task)]
                 @ opt_env ''DEVIT_WORKSPACE'' (or_else (resolve_workspace_dir root task) root)
                 @ opt_env ''DEVIT_MODEL_REQUESTED'' requested @ opt_env ''DEVIT_MODEL_USED'' resolved"
    by (auto simp: build_command_def Let_def split: sum.splits)
  from r assms(1) have "\<forall>m. resolved = Some m \<longrightarrow> m \<in> set allowed"
    by (auto simp: resolve_model_def Let_def split: option.splits if_splits)
  with env show ?thesis by (auto simp: opt_env_def split: option.splits)
qed

lemma model_is_on_the_list_witness:
  "(case build_command None sample_worker sample_work True of
      Inl e \<Rightarrow> False
    | Inr (cmd, requested, resolved) \<Rightarrow>
        resolved \<noteq> None \<and> set_option resolved \<subseteq> {''small'', ''large''}
        \<and> set (cmd_env cmd) \<inter> {''DEVIT_MODEL_USED''} \<times> UNIV
            \<subseteq> {''DEVIT_MODEL_USED''} \<times> {''small'', ''large''})"
proof -
  have a: "wc_allowed_models sample_worker = Some [''small'', ''large'']" by (simp add: sample_worker_def)
  have ok: "isl (build_command None sample_worker sample_work True) = False" by code_simp
  then obtain cmd req rs where b: "build_command None sample_worker sample_work True = Inr (cmd, req, rs)"
    by (metis isl_def obj_sumE surj_pair)
  have "snd (snd (projr (build_command None sample_worker sample_work True))) \<noteq> None" by code_simp
  with model_is_on_the_list [OF a b] b show ?thesis by (cases rs) simp_all
qed

subsection \<open>Cutting text\<close>

lemma floor_boundary_le: "floor_boundary s n \<le> n"
  by (induction n) auto

lemma floor_boundary_at: "is_char_boundary s (floor_boundary s n)"
  by (induction n) (auto simp: is_char_boundary_def)

lemma floor_boundary_max: "m \<le> n \<Longrightarrow> is_char_boundary s m \<Longrightarrow> m \<le> floor_boundary s n"
  by (induction n) (auto simp: le_Suc_eq)

lemma truncation_bound: "length (truncate_str s n) \<le> n"
  using floor_boundary_le [of s n] by (simp add: truncate_str_def)

text \<open>
  Cutting a text keeps the longest beginning that fits and ends at a character boundary, so
  no character is ever split.
\<close>

theorem truncation_is_longest_prefix:
  "prefix (truncate_str s limit) s \<and> length (truncate_str s limit) \<le> limit
   \<and> is_char_boundary s (length (truncate_str s limit))
   \<and> (\<forall>t. prefix t s \<and> length t \<le> limit \<and> is_char_boundary s (length t)
        \<longrightarrow> prefix t (truncate_str s limit))"
proof (cases "length s \<le> limit")
  case True
  then show ?thesis by (simp add: truncate_str_def is_char_boundary_def)
next
  case False
  let ?n = "floor_boundary s limit"
  have n: "?n \<le> limit" by (rule floor_boundary_le)
  have "prefix t (take ?n s)" if "prefix t s" "length t \<le> limit" "is_char_boundary s (length t)" for t
  proof -
    have "length t \<le> ?n" using floor_boundary_max [OF that(2,3)] .
    moreover have "length (take ?n s) = ?n" using n False by simp
    ultimately show ?thesis
      using prefix_length_prefix [OF that(1) take_is_prefix] by metis
  qed
  with False n floor_boundary_at [of s limit] show ?thesis
    by (simp add: truncate_str_def take_is_prefix)
qed

lemma truncation_is_longest_prefix_witness:
  "prefix (truncate_str [CHR 0xC3, CHR 0xA9, CHR 0xC3, CHR 0xA9] 3) [CHR 0xC3, CHR 0xA9, CHR 0xC3, CHR 0xA9]"
  using truncation_is_longest_prefix [of "[CHR 0xC3, CHR 0xA9, CHR 0xC3, CHR 0xA9]" 3] by blast

text \<open>The unit test \<open>truncate_handles_unicode\<close> expects two of the four letters, which are four bytes.\<close>

lemma truncate_unicode_test:
  "truncate_str (concat (replicate 4 [CHR 0xC3, CHR 0xA9])) 3 = [CHR 0xC3, CHR 0xA9]"
  by code_simp

subsection \<open>The limit on answers\<close>

lemma length_ellipsis: "length ellipsis = 3"
  by (simp add: ellipsis_def)

lemma length_truncate_plain: "length (truncate_plain s n) \<le> n + 16"
  using truncation_bound [of s n] by (simp add: truncate_plain_def length_ellipsis)

lemma length_json_excerpt: "length (truncate_json_excerpt s n) \<le> n + 16"
  using floor_boundary_le [of s "min n (length s)"] length_truncate_plain [of s n]
  by (auto simp: truncate_json_excerpt_def Let_def length_ellipsis split: option.splits)

text \<open>
  When the output of a worker is longer than its limit and the answer is not compact, the
  output in the answer is cut to the limit and a marker of at most 16 bytes, and the answer says
  that it was cut and how long the output was.
\<close>

theorem answer_is_cut:
  assumes "wc_max_response_chars config = Some limit" and "limit < length stdout"
    and "\<not> wants_compact (wt_response_format task)"
    and "w' = limit_answer lib config task stdout w"
  shows "\<exists>m t. wo_details w' = Some (JObj m) \<and> map_of m ''stdout'' = Some (JStr t)
      \<and> length t \<le> limit + 16 \<and> map_of m ''truncated'' = Some (JBool True)
      \<and> map_of m ''original_size'' = Some (JInt (int (length stdout)))
      \<and> wo_truncated w' \<and> wo_original_size w' = Some (length stdout)
      \<and> wo_status w' = wo_status w \<and> wo_summary w' = wo_summary w"
proof -
  obtain t where t: "create_truncated_value lib stdout limit = JStr t" "length t \<le> limit + 16"
    using length_truncate_plain length_json_excerpt
    unfolding create_truncated_value_def by (cases "json_parse lib stdout \<noteq> None") auto
  with assms show ?thesis
    by (auto simp: limit_answer_def enforce_max_chars_def Let_def hm_get_update)
qed

definition echo_crates :: mcp_crates where
  "echo_crates =
     \<lparr>json_parse = (\<lambda>s. if s = ''{}'' then Some (JObj []) else None), json_print = (\<lambda>_. None),
      strip_escapes = (\<lambda>_. None), number_f64 = (\<lambda>_. None), parse_f64 = (\<lambda>_. None),
      f64_round_u64 = (\<lambda>_. 0),
      rpc_of_text = (\<lambda>s. Some \<lparr>raw_jsonrpc = ''2.0'', raw_id = JStr s, raw_result = Some (JStr s),
        raw_error = None\<rparr>)\<rparr>"

lemma answer_is_cut_witness:
  "wo_original_size (limit_answer (worker_crates.truncate echo_crates) sample_worker sample_work ''hello world''
     (parse_text_output 0 sample_work ''hello world'' [])) = Some 11"
proof -
  have c: "wc_max_response_chars sample_worker = Some 4" "\<not> wants_compact (wt_response_format sample_work)"
    by code_simp+
  have l: "4 < length ''hello world''" by simp
  from answer_is_cut [OF c(1) l c(2) refl, of "worker_crates.truncate echo_crates"
      "parse_text_output 0 sample_work ''hello world'' []"]
  show ?thesis by auto
qed

text \<open>
  The limit does not reach everything: the errors stay whole, a compact answer keeps its details
  as they are, and the answer of an MCP worker, whose output the executor passes as empty, is
  never cut.
\<close>

lemma mcp_answer_is_never_cut: "limit_answer lib config task [] w = w"
  by (simp add: limit_answer_def enforce_max_chars_def split: option.split)

lemma stderr_is_never_cut:
  assumes "\<not> wants_compact (wt_response_format task)"
  shows "\<exists>m. wo_details (limit_answer lib config task stdout (failed_process config stdout stderr t))
      = Some (JObj m) \<and> map_of m ''stderr'' = Some (JStr stderr)"
  using assms
  by (auto simp: limit_answer_def enforce_max_chars_def failed_process_def outcome_of_def Let_def
      hm_get_update split: option.split)

subsection \<open>Completed means successful\<close>

lemma limit_answer_status [simp]: "wo_status (limit_answer lib config task stdout w) = wo_status w"
  by (auto simp: limit_answer_def enforce_max_chars_def Let_def split: option.splits json.splits)

lemma compact_status [simp]: "wo_status (apply_compact_format w out err) = wo_status w"
  by (simp add: apply_compact_format_def)

lemma outcome_status [simp]: "wo_status (outcome_of st x d t) = st"
  by (simp add: outcome_of_def)

lemma execute_cli_completed:
  assumes "execute_cli lib root config run t task = Inr (w, te)" and "wo_status w = WorkerCompleted"
  shows "\<exists>cmd req res out err. build_command root config task True = Inr (cmd, req, res)
      \<and> run cmd (effective_timeout config task) = Exited (Some 0) out err \<and> te_exit_code te = Some 0"
proof -
  from assms(1) obtain cmd req res where b: "build_command root config task True = Inr (cmd, req, res)"
    by (auto simp: execute_cli_def split: sum.splits)
  with assms(1) obtain code out err
    where r: "run cmd (effective_timeout config task) = Exited code out err"
    by (auto simp: execute_cli_def Let_def split: process_end.splits)
  have "code = Some 0"
  proof (rule ccontr)
    assume "code \<noteq> Some 0"
    with assms(1) b r have "wo_status w = WorkerFailed"
      by (auto simp: execute_cli_def Let_def failed_process_def)
    with assms(2) show False by simp
  qed
  with assms(1) b r show ?thesis
    by (auto simp: execute_cli_def Let_def exit_telemetry_def split: sum.splits)
qed

definition mcp_start :: "worker_config \<Rightarrow> worker_io \<Rightarrow> worker_task \<Rightarrow> mcp_session" where
  "mcp_start config io task =
     \<lparr>ms_timeout = effective_timeout config task, ms_uuid = io_uuid io, ms_takes = io_takes io,
      ms_sent = [], ms_events = io_events io\<rparr>"

lemma execute_mcp_completed:
  assumes "fst (execute_mcp lib root config io task) = Inr (w, te)" and "wo_status w = WorkerCompleted"
  shows "\<exists>ms resolved r. fst (call_delegate lib config task resolved ms) = Inr r
      \<and> rr_error r = None \<and> rr_result r \<noteq> None \<and> te_exit_code te = Some 0
      \<and> mcp_initialize lib (io_version io) (mcp_start config io task) = (Inr (), ms)"
proof -
  from assms(1) obtain cmd req res where b: "build_command root config task False = Inr (cmd, req, res)"
    and sp: "io_spawns io"
    by (auto simp: execute_mcp_def split: sum.splits if_splits)
  obtain i ms where i: "mcp_initialize lib (io_version io) (mcp_start config io task) = (i, ms)"
    by fastforce
  with assms(1) b sp have iu: "i = Inr ()"
    by (cases i) (auto simp: execute_mcp_def mcp_start_def Let_def)
  obtain c ms' where c: "call_delegate lib config task res ms = (c, ms')" by fastforce
  with assms(1) b sp i iu obtain r where r: "c = Inr r"
    by (cases c) (auto simp: execute_mcp_def mcp_start_def Let_def)
  from assms(1) b sp i iu c r have w: "w = limit_answer (worker_crates.truncate lib) config task []
      (mcp_outcome lib (io_completed io) r)" and te: "te = mcp_telemetry lib req res r"
    by (auto simp: execute_mcp_def mcp_start_def Let_def)
  from w assms(2) have ok: "rr_error r = None \<and> rr_result r \<noteq> None"
    by (auto simp: mcp_outcome_def split: option.splits)
  with te have "te_exit_code te = Some 0"
    by (auto simp: mcp_telemetry_def Let_def apply_usage_def)
  with ok c r i iu show ?thesis by (metis fst_conv)
qed

text \<open>
  How a task can end, told apart from its record: by the command, the process and its output, or by
  the session. An ending that is no success has an exit code and a reason.
\<close>

datatype worker_ending = Succeeded | Failing int string

definition cli_ending ::
  "worker_crates \<Rightarrow> string option \<Rightarrow> worker_config \<Rightarrow> (command \<Rightarrow> nat \<Rightarrow> process_end) \<Rightarrow> int \<Rightarrow> worker_task
     \<Rightarrow> worker_ending" where
  "cli_ending lib root config run t task =
     (case build_command root config task True of
        Inl e \<Rightarrow> Failing (-1) e
      | Inr (cmd, _) \<Rightarrow>
          (case run cmd (effective_timeout config task) of
             TimedOut \<Rightarrow> Failing (-1) (''worker timed out after '' @ show_nat (effective_timeout config task) @ ''s'')
           | JoinFailed \<Rightarrow> Failing (-1) ''failed to join worker thread''
           | NotRunnable \<Rightarrow> Failing (-1) ''failed to execute worker process''
           | Exited None out err \<Rightarrow> Failing (-1) ''terminated by signal''
           | Exited (Some c) out err \<Rightarrow>
               (if c \<noteq> 0 then Failing c (''exit code '' @ show_int c)
                else case read_output lib t config task (decode_and_strip lib out) (decode_and_strip lib err) of
                       Inl e \<Rightarrow> Failing (-1) e
                     | Inr _ \<Rightarrow> Succeeded)))"

definition answer_ending :: "rpc_response \<Rightarrow> worker_ending" where
  "answer_ending r =
     (case rr_error r of
        Some e \<Rightarrow> Failing (-1) (''rpc error '' @ show_int (re_code e))
      | None \<Rightarrow> (if rr_result r = None then Failing (-1) ''empty result'' else Succeeded))"

definition mcp_ending ::
  "mcp_crates \<Rightarrow> string option \<Rightarrow> worker_config \<Rightarrow> worker_io \<Rightarrow> worker_task \<Rightarrow> worker_ending" where
  "mcp_ending lib root config io task =
     (case build_command root config task False of
        Inl e \<Rightarrow> Failing (-1) e
      | Inr (cmd, requested, resolved) \<Rightarrow>
          (if \<not> io_spawns io then Failing (-1) ''failed to spawn MCP worker process''
           else case mcp_initialize lib (io_version io) (mcp_start config io task) of
                  (Inl e, _) \<Rightarrow> Failing (-1) e
                | (Inr _, ms) \<Rightarrow>
                    (case fst (call_delegate lib config task resolved ms) of
                       Inl e \<Rightarrow> Failing (-1) ''MCP delegate call failed''
                     | Inr r \<Rightarrow> answer_ending r)))"

definition told_as :: "worker_ending \<Rightarrow> worker_outcome \<Rightarrow> bool" where
  "told_as ending w =
     (case ending of
        Succeeded \<Rightarrow> wo_status w = WorkerCompleted \<and> tm_exit_code (wo_metadata w) = 0
          \<and> tm_exit_reason (wo_metadata w) = ''success''
      | Failing code reason \<Rightarrow> wo_status w = WorkerFailed \<and> tm_exit_code (wo_metadata w) = code
          \<and> tm_exit_reason (wo_metadata w) = reason)"

lemma read_output_status: "read_output lib t config task out err = Inr w \<Longrightarrow> wo_status w = WorkerCompleted"
  by (auto simp: read_output_def parse_json_output_def parse_text_output_def
      split: parse_mode.splits if_splits option.splits)

lemma failed_execution_told: "told_as (Failing (-1) e) (failed_execution config io task e)"
  by (simp add: told_as_def failed_execution_def new_metadata_def no_telemetry_def)

lemma cli_ending_told:
  assumes "wc_type config = Cli"
  shows "told_as (cli_ending (worker_crates.truncate lib) root config (io_run io) (io_completed io) task)
    (execute_task lib root config io task)"
proof (cases "build_command root config task True")
  case (Inl e)
  then show ?thesis
    by (simp add: execute_task_def assms execute_cli_def cli_ending_def failed_execution_told)
next
  case (Inr b)
  obtain cmd requested resolved where b: "b = (cmd, requested, resolved)" by (cases b)
  show ?thesis
  proof (cases "io_run io cmd (effective_timeout config task)")
    case (Exited code out err)
    show ?thesis
    proof (cases "code = Some 0")
      case True
      then show ?thesis
        using Inr b Exited assms read_output_status
        by (auto simp: execute_task_def execute_cli_def cli_ending_def failed_execution_told told_as_def
            new_metadata_def exit_telemetry_def Let_def failed_execution_def no_telemetry_def split: sum.splits)
    next
      case False
      then show ?thesis
        using Inr b Exited assms
        by (cases code) (auto simp: execute_task_def execute_cli_def cli_ending_def told_as_def
            new_metadata_def exit_telemetry_def failed_process_def Let_def)
    qed
  qed (use Inr b assms in \<open>simp_all add: execute_task_def execute_cli_def cli_ending_def failed_execution_told Let_def\<close>)
qed

lemma answer_told:
  "told_as (answer_ending r)
     ((limit_answer clib config task [] (mcp_outcome lib t r))
        \<lparr>wo_metadata := new_metadata q st t wtype (mcp_telemetry lib requested resolved r)\<rparr>)"
  by (auto simp: told_as_def answer_ending_def mcp_outcome_def mcp_telemetry_def new_metadata_def apply_usage_def
      Let_def split: option.splits)

lemma mcp_ending_told:
  assumes "wc_type config = Mcp"
  shows "told_as (mcp_ending lib root config io task) (execute_task lib root config io task)"
proof (cases "build_command root config task False")
  case (Inl e)
  then show ?thesis
    by (simp add: execute_task_def assms execute_mcp_def mcp_ending_def failed_execution_told)
next
  case (Inr b)
  obtain cmd requested resolved where b: "b = (cmd, requested, resolved)" by (cases b)
  obtain i ms where i: "mcp_initialize lib (io_version io) (mcp_start config io task) = (i, ms)" by fastforce
  obtain c ms' where c: "call_delegate lib config task resolved ms = (c, ms')" by fastforce
  show ?thesis
    using Inr b i c assms answer_told
    by (cases i; cases c)
      (auto simp: execute_task_def execute_mcp_def mcp_ending_def failed_execution_told mcp_start_def Let_def)
qed

text \<open>
  C32: A task counts as completed only when the worker succeeded: a command-line worker ended with
  exit code 0 within its timeout, and an MCP worker initialised the session and answered the call
  with a result and no error. Every task ends as its ending says: completed with exit code 0 and the
  reason \<open>success\<close>, or failed with the exit code and the reason of that ending.
\<close>

theorem completed_means_successful:
  shows "(wo_status (execute_task lib root config io task) = WorkerCompleted \<longrightarrow>
      (wc_type config = Cli \<longrightarrow>
        (\<exists>cmd req res out err. build_command root config task True = Inr (cmd, req, res)
           \<and> io_run io cmd (effective_timeout config task) = Exited (Some 0) out err))
      \<and> (wc_type config = Mcp \<longrightarrow>
        (\<exists>ms resolved r. mcp_initialize lib (io_version io) (mcp_start config io task) = (Inr (), ms)
           \<and> fst (call_delegate lib config task resolved ms) = Inr r
           \<and> rr_error r = None \<and> rr_result r \<noteq> None)))
    \<and> told_as
        (case wc_type config of
           Cli \<Rightarrow> cli_ending (worker_crates.truncate lib) root config (io_run io) (io_completed io) task
         | Mcp \<Rightarrow> mcp_ending lib root config io task)
        (execute_task lib root config io task)"
proof (cases "wc_type config")
  case Cli
  have "\<exists>cmd req res out err. build_command root config task True = Inr (cmd, req, res)
      \<and> io_run io cmd (effective_timeout config task) = Exited (Some 0) out err"
    if finished_ok: "wo_status (execute_task lib root config io task) = WorkerCompleted"
  proof -
    obtain w te where "execute_cli (worker_crates.truncate lib) root config (io_run io)
        (io_completed io) task = Inr (w, te)" and "wo_status w = WorkerCompleted"
      using finished_ok Cli
      by (cases "execute_cli (worker_crates.truncate lib) root config (io_run io) (io_completed io) task")
        (auto simp: execute_task_def failed_execution_def)
    from execute_cli_completed [OF this] show ?thesis by blast
  qed
  with Cli cli_ending_told [OF Cli] show ?thesis by simp
next
  case Mcp
  have "\<exists>ms resolved r. mcp_initialize lib (io_version io) (mcp_start config io task) = (Inr (), ms)
      \<and> fst (call_delegate lib config task resolved ms) = Inr r \<and> rr_error r = None \<and> rr_result r \<noteq> None"
    if finished_ok: "wo_status (execute_task lib root config io task) = WorkerCompleted"
  proof -
    obtain w te where "fst (execute_mcp lib root config io task) = Inr (w, te)" and "wo_status w = WorkerCompleted"
      using finished_ok Mcp
      by (cases "fst (execute_mcp lib root config io task)") (auto simp: execute_task_def failed_execution_def)
    from execute_mcp_completed [OF this] show ?thesis by blast
  qed
  with Mcp mcp_ending_told [OF Mcp] show ?thesis by simp
qed

definition quiet_io :: "mcp_event list \<Rightarrow> worker_io" where
  "quiet_io es =
     \<lparr>io_run = (\<lambda>_ _. Exited (Some 0) ''done'' []), io_spawns = True, io_uuid = (\<lambda>i. show_nat i),
      io_takes = (\<lambda>_. True), io_events = es, io_version = ''1'', io_started = 0, io_completed = 5000000\<rparr>"

text \<open>A run that ends well and one that is killed.\<close>

definition killed_io :: worker_io where
  "killed_io = (quiet_io [])\<lparr>io_run := \<lambda>_ _. Exited None [] ''killed''\<rparr>"

lemma completed_means_successful_witness:
  "(\<exists>cmd req res out err. build_command None sample_worker sample_work True = Inr (cmd, req, res)
      \<and> io_run (quiet_io []) cmd (effective_timeout sample_worker sample_work) = Exited (Some 0) out err)
   \<and> wo_status (execute_task echo_crates None sample_worker killed_io sample_work) = WorkerFailed
   \<and> tm_exit_reason (wo_metadata (execute_task echo_crates None sample_worker killed_io sample_work))
       = ''terminated by signal''"
proof -
  have cli: "wc_type sample_worker = Cli"
    and "wo_status (execute_task echo_crates None sample_worker (quiet_io []) sample_work) = WorkerCompleted"
    by code_simp+
  then have first: "\<exists>cmd req res out err. build_command None sample_worker sample_work True = Inr (cmd, req, res)
      \<and> io_run (quiet_io []) cmd (effective_timeout sample_worker sample_work) = Exited (Some 0) out err"
    using completed_means_successful [of echo_crates None sample_worker "quiet_io []" sample_work] by blast
  have "cli_ending (worker_crates.truncate echo_crates) None sample_worker (io_run killed_io)
      (io_completed killed_io) sample_work = Failing (-1) ''terminated by signal''"
    by code_simp
  with completed_means_successful [of echo_crates None sample_worker killed_io sample_work] cli first
  show ?thesis by (simp add: told_as_def)
qed

subsection \<open>The session with an MCP worker\<close>

definition rpc_method :: "json \<Rightarrow> string option" where
  "rpc_method request = get_str request ''method''"

lemma rpc_call_sends:
  assumes "rpc_call lib rpc params ms = (a, ms')"
  shows "map rpc_method (ms_sent ms') = map rpc_method (ms_sent ms) @ [Some rpc]"
  using assms
  by (auto simp: rpc_call_def rpc_method_def get_str_def Let_def split: if_splits prod.splits)

lemma initialize_sends:
  assumes "mcp_initialize lib version ms = (a, ms')" and "ms_sent ms = []"
  shows "a = Inr () \<longrightarrow> map rpc_method (ms_sent ms') = [Some ''initialize'', Some ''tools/list'']"
    and "a \<noteq> Inr () \<longrightarrow> map rpc_method (ms_sent ms')
      \<in> {[Some ''initialize''], [Some ''initialize'', Some ''tools/list'']}"
proof -
  obtain r1 ms1 where c1: "rpc_call lib ''initialize'' (Some (init_params version)) ms = (r1, ms1)"
    by fastforce
  obtain r2 ms2 where c2: "rpc_call lib ''tools/list'' (Some (JObj [])) ms1 = (r2, ms2)"
    by fastforce
  have s1: "map rpc_method (ms_sent ms1) = [Some ''initialize'']"
    using rpc_call_sends [OF c1] assms(2) by simp
  then have s2: "map rpc_method (ms_sent ms2) = [Some ''initialize'', Some ''tools/list'']"
    using rpc_call_sends [OF c2] by simp
  from assms(1) c1 c2 s1 s2
  show "a = Inr () \<longrightarrow> map rpc_method (ms_sent ms') = [Some ''initialize'', Some ''tools/list'']"
    and "a \<noteq> Inr () \<longrightarrow> map rpc_method (ms_sent ms')
      \<in> {[Some ''initialize''], [Some ''initialize'', Some ''tools/list'']}"
    by (auto simp: mcp_initialize_def split: sum.splits option.splits)
qed

text \<open>
  The executor speaks the protocol in order: it initialises, asks for the tools, and calls
  the tool only once, after both were answered without an error. A worker that fails before the
  call is killed.
\<close>

theorem mcp_session_is_ordered:
  assumes "execute_mcp lib root config io task = (result, Some c)"
  shows "prefix (map rpc_method (ch_sent c))
        [Some ''initialize'', Some ''tools/list'', Some ''tools/call'']
    \<and> (Some ''tools/call'' \<in> set (map rpc_method (ch_sent c)) \<longrightarrow>
        (\<exists>ms. mcp_initialize lib (io_version io) (mcp_start config io task) = (Inr (), ms)))
    \<and> (Some ''tools/call'' \<notin> set (map rpc_method (ch_sent c)) \<longrightarrow> ch_killed c \<and> isl result)"
proof -
  from assms obtain cmd req res where b: "build_command root config task False = Inr (cmd, req, res)"
    and sp: "io_spawns io"
    by (auto simp: execute_mcp_def split: sum.splits if_splits)
  obtain i ms where i: "mcp_initialize lib (io_version io) (mcp_start config io task) = (i, ms)"
    by fastforce
  note sends = initialize_sends [OF i]
  have fresh: "ms_sent (mcp_start config io task) = []" by (simp add: mcp_start_def)
  show ?thesis
  proof (cases i)
    case (Inl e)
    with assms b sp i have "c = \<lparr>ch_command = cmd, ch_sent = ms_sent ms, ch_killed = True\<rparr>" "result = Inl e"
      by (auto simp: execute_mcp_def mcp_start_def Let_def)
    with sends(2) [OF fresh] Inl show ?thesis by auto
  next
    case (Inr u)
    obtain a ms' where d: "call_delegate lib config task res ms = (a, ms')" by fastforce
    from assms b sp i Inr d have c: "ch_sent c = ms_sent ms'"
      by (auto simp: execute_mcp_def mcp_start_def Let_def split: sum.splits)
    have "map rpc_method (ms_sent ms') = [Some ''initialize'', Some ''tools/list'', Some ''tools/call'']"
      using sends(1) [OF fresh] Inr rpc_call_sends d unfolding call_delegate_def by fastforce
    with c i Inr show ?thesis by auto
  qed
qed

definition mcp_worker :: worker_config where
  "mcp_worker = sample_worker\<lparr>wc_type := Mcp, wc_args := [], wc_mcp_arguments := Some (JObj [(''goal'', JStr ''fixed'')])\<rparr>"

text \<open>The sample worker answers every line with a response of that identifier.\<close>

lemma mcp_session_is_ordered_witness:
  "prefix (map rpc_method (ch_sent (the (snd (execute_mcp echo_crates None mcp_worker
      (quiet_io [McpLine ''0'', McpLine ''1'', McpLine ''2'']) sample_work)))))
     [Some ''initialize'', Some ''tools/list'', Some ''tools/call'']"
proof -
  define e where "e = execute_mcp echo_crates None mcp_worker
      (quiet_io [McpLine ''0'', McpLine ''1'', McpLine ''2'']) sample_work"
  have "map_option ch_killed (snd e) = Some True" unfolding e_def by code_simp
  then obtain c where c: "snd e = Some c" by (cases "snd e") auto
  then have "execute_mcp echo_crates None mcp_worker
      (quiet_io [McpLine ''0'', McpLine ''1'', McpLine ''2'']) sample_work = (fst e, Some c)"
    unfolding e_def by (metis prod.collapse)
  from mcp_session_is_ordered [OF this] c show ?thesis unfolding e_def [symmetric] by simp
qed

text \<open>
  A call that fails, by a timeout for instance, leaves the process of the worker running: only a
  failed initialisation and a finished call kill it.
\<close>

lemma mcp_call_failure_leaves_child:
  "map_option ch_killed (snd (execute_mcp echo_crates None mcp_worker
      (quiet_io [McpLine ''0'', McpLine ''1'', McpSlow]) sample_work)) = Some False
   \<and> map_option ch_killed (snd (execute_mcp echo_crates None mcp_worker
      (quiet_io [McpLine ''0'', McpSlow]) sample_work)) = Some True"
  by code_simp

text \<open>
  The timeout is for one line, not for the call: any number of blank lines and of answers to other
  requests, each within the timeout, may come first.
\<close>

definition is_noise :: "mcp_crates \<Rightarrow> json \<Rightarrow> mcp_event \<Rightarrow> bool" where
  "is_noise lib expected ev =
     (case ev of
        McpLine line \<Rightarrow>
          trim line = [] \<or> (case rpc_of_text lib (trim line) of Some p \<Rightarrow> raw_id p \<noteq> expected | None \<Rightarrow> False)
      | _ \<Rightarrow> False)"

lemma noise_is_skipped:
  "\<forall>ev \<in> set noise. is_noise lib expected ev \<Longrightarrow>
     read_response_matching lib timeout expected (noise @ es) = read_response_matching lib timeout expected es"
proof (induction noise)
  case Nil
  then show ?case by simp
next
  case (Cons ev noise)
  then show ?case by (cases ev) (auto simp: is_noise_def split: option.splits)
qed

lemma or_insert_get:
  "map_of m k = Some v \<Longrightarrow> map_of (or_insert key x m) k = Some v"
  "map_of m k = Some v \<Longrightarrow> map_of (or_insert_opt key y m) k = Some v"
  "k \<noteq> key \<Longrightarrow> map_of (or_insert key x m) k = map_of m k"
  "k \<noteq> key \<Longrightarrow> map_of (or_insert_opt key y m) k = map_of m k"
  "map_of m key = None \<Longrightarrow> map_of (or_insert key x m) key = Some x"
  by (auto simp: or_insert_def or_insert_opt_def map_add_def split: option.splits)

text \<open>
  What the configuration fixes wins: an argument in the table of the worker reaches the tool
  as it is, and a task fills only the keys that the table leaves open; the goal is always there.
\<close>

theorem configured_arguments_win:
  assumes "wc_mcp_arguments config = Some (JObj extra)"
  shows "(\<forall>k v. map_of extra k = Some v \<longrightarrow> map_of (delegate_arguments config task model) k = Some v)
    \<and> (map_of extra ''goal'' = None \<longrightarrow>
        map_of (delegate_arguments config task model) ''goal'' = Some (JStr (wt_goal task)))
    \<and> (\<forall>k. map_of extra k = None \<and> k \<notin> {''goal'', ''prompt'', ''timeout'', ''working_dir'', ''format'', ''model''}
        \<longrightarrow> map_of (delegate_arguments config task model) k = None)"
  using assms by (simp add: delegate_arguments_def Let_def or_insert_get)

lemma configured_arguments_win_witness:
  "map_of (delegate_arguments mcp_worker sample_work None) ''goal'' = Some (JStr ''fixed'')"
proof -
  have "wc_mcp_arguments mcp_worker = Some (JObj [(''goal'', JStr ''fixed'')])"
    by (simp add: mcp_worker_def)
  from configured_arguments_win [OF this, of sample_work None] show ?thesis by simp
qed

subsection \<open>Placeholders and directories\<close>

text \<open>
  The goal is put in first and the other placeholders are replaced in what it says: a goal that
  mentions \<open>{model}\<close> makes a worker without a model fail, and one that mentions \<open>{workspace}\<close>
  reaches the worker with another text.
\<close>

definition plain_worker :: worker_config where
  "plain_worker = sample_worker\<lparr>wc_default_model := None, wc_allowed_models := None\<rparr>"

lemma goal_text_is_expanded:
  "prepare_args plain_worker (sample_work\<lparr>wt_goal := ''see {workspace}''\<rparr>) (Some ''/w'') True None
     = Inr [''exec'', ''see /w'']
   \<and> isl (prepare_args plain_worker (sample_work\<lparr>wt_goal := ''use {model}''\<rparr>) (Some ''/w'') True None)"
  by code_simp

text \<open>The directory of a task is not confined to the workspace root.\<close>

lemma working_dir_is_not_confined:
  "resolve_workspace_dir (Some ''/w'') (sample_work\<lparr>wt_working_dir := Some ''/etc''\<rparr>) = Some ''/etc''
   \<and> resolve_workspace_dir (Some ''/w'') (sample_work\<lparr>wt_working_dir := Some ''../x''\<rparr>) = Some ''/w/../x''"
  by code_simp

end
