(* ===== verification/Daemon_Workers.thy ===== *)
theory Daemon_Workers
  imports Daemon_Limits Worker_Properties
begin

text \<open>
  The daemon together with what it starts: a subprocess task from its delegation through the
  executor to its end, the idle watch that shuts the daemon down, and the connections that feed
  messages in and write the answers out.
\<close>

subsection \<open>A subprocess task from end to end\<close>

text \<open>The task that the daemon spawns: execute, then report.\<close>

definition run_worker ::
  "daemon_crates \<Rightarrow> mcp_crates \<Rightarrow> reading \<Rightarrow> string option \<Rightarrow> worker_config \<Rightarrow> worker_io \<Rightarrow> worker_task
     \<Rightarrow> daemon_state \<Rightarrow> handled" where
  "run_worker lib mlib r root config io wt s =
     finish_worker lib r wt (execute_task mlib root config io wt) s"

text \<open>The status of the task that a worker's outcome leads to.\<close>

fun final_status :: "worker_status \<Rightarrow> task_status" where
  "final_status WorkerCompleted = Completed"
| "final_status WorkerFailed = Failed"

lemma worker_status_final [simp]:
  "map_status (worker_status_text st) = final_status st" "is_terminal (final_status st)"
  by (cases st; simp add: map_status_def is_terminal_def)+

lemma signed_fields [simp]:
  "notify_task_id (m\<lparr>m_hmac := h\<rparr>) = notify_task_id m" "is_ack (m\<lparr>m_hmac := h\<rparr>) = is_ack m"
  "notify_status (m\<lparr>m_hmac := h\<rparr>) = notify_status m" "notify_parts lib (m\<lparr>m_hmac := h\<rparr>) = notify_parts lib m"
  by (simp_all add: notify_task_id_def is_ack_def notify_status_def notify_parts_def split: option.split)

lemma worker_notification_fields:
  "notify_task_id (worker_notification lib r wt w) = wt_id wt"
  "notify_status (worker_notification lib r wt w) = worker_status_text (wo_status w)"
  "np_summary (notify_parts lib (worker_notification lib r wt w)) = wo_summary w"
  by (simp_all add: worker_notification_def notify_task_id_def notify_status_def notify_parts_def
      build_worker_artifacts_def extract_notification_parts_def get_str_def jopt_def)

lemma worker_no_ack: "\<not> is_ack (worker_notification lib r wt w)"
proof -
  have "\<not> eq_ignore_ascii_case (worker_status_text st) ''ack''" for st
    by (cases st) (simp_all add: eq_ignore_ascii_case_def lower_char_def)
  then show ?thesis by (simp add: is_ack_def worker_notification_def get_str_def)
qed

lemma take_task_facts:
  assumes "daemon_inv s" and "take_task tid s = (task, s1)"
  shows "(\<forall>t. task = Some t \<longrightarrow> task_id t = tid)" and "hm_get (tasks_active s1) tid = None"
    and "leases s1 = leases s" and "length (tasks_completed s1) \<le> length (tasks_completed s)"
proof -
  have act: "keyed task_id running (tasks_active s)" and com: "keyed task_id finished (tasks_completed s)"
    using assms(1) by (simp_all add: daemon_inv_def)
  have le: "length (hm_remove tid (tasks_completed s)) \<le> length (tasks_completed s)"
    by (simp add: length_delete_le)
  have "(\<forall>t. task = Some t \<longrightarrow> task_id t = tid) \<and> hm_get (tasks_active s1) tid = None
    \<and> leases s1 = leases s \<and> length (tasks_completed s1) \<le> length (tasks_completed s)"
  proof (cases "hm_get (tasks_active s) tid")
    case None
    then show ?thesis
      using assms(2) keyed_get [OF com] le by (auto simp: take_task_def hm_get_delete)
  next
    case (Some t)
    then show ?thesis
      using assms(2) keyed_get [OF act Some] by (auto simp: take_task_def hm_get_delete)
  qed
  then show "(\<forall>t. task = Some t \<longrightarrow> task_id t = tid)" and "hm_get (tasks_active s1) tid = None"
    and "leases s1 = leases s" and "length (tasks_completed s1) \<le> length (tasks_completed s)" by blast+
qed

text \<open>
  A final notification files its task whatever has become of it: leased, expired, ended by another
  notification or unknown.
\<close>

lemma final_notification_files:
  assumes "daemon_inv s" and "is_terminal (map_status (notify_status m))" and "\<not> is_ack m"
  shows "\<exists>t s0. task_tables (snd (snd (handle_notify lib r m s))) = task_tables (finalize_task t s0)
    \<and> task_id t = notify_task_id m \<and> task_status t = map_status (notify_status m)
    \<and> n_summary (last (notifications t)) = np_summary (notify_parts lib m)
    \<and> hm_get (leases s0) (notify_task_id m) = None \<and> hm_get (tasks_active s0) (notify_task_id m) = None
    \<and> length (tasks_completed s0) \<le> length (tasks_completed s)"
proof -
  let ?tid = "notify_task_id m" and ?st = "notify_status m" and ?np = "notify_parts lib m"
  have leased: "task_id (leased_task r ?tid l ?st ?np task) = ?tid
      \<and> task_status (leased_task r ?tid l ?st ?np task) = map_status ?st
      \<and> n_summary (last (notifications (leased_task r ?tid l ?st ?np task))) = np_summary ?np"
    if "\<forall>t. task = Some t \<longrightarrow> task_id t = ?tid" for l task
    using that by (cases task) (simp_all add: leased_task_def Let_def parts_record_def)
  have late: "task_id (late_task r ?tid (m_from m) ?st ?np task) = ?tid
      \<and> task_status (late_task r ?tid (m_from m) ?st ?np task) = map_status ?st
      \<and> n_summary (last (notifications (late_task r ?tid (m_from m) ?st ?np task))) = np_summary ?np"
    if "\<forall>t. task = Some t \<longrightarrow> task_id t = ?tid" for task
    using that by (cases task) (simp_all add: late_task_def Let_def parts_record_def)
  have with_lease: ?thesis
    if run: "handle_notify lib r m s = notify_with_lease lib r m ?tid l s'" and "daemon_inv s'"
      and "hm_get (leases s') ?tid = None" and "tasks_completed s' = tasks_completed s" for l s'
  proof -
    obtain task s1 where take: "take_task ?tid s' = (task, s1)" by fastforce
    note facts = take_task_facts [OF that(2) take]
    show ?thesis
      unfolding run using facts leased [OF facts(1), of l] that(3,4)
      by (intro exI [of _ "leased_task r ?tid l ?st ?np task"] exI [of _ s1])
        (simp add: notify_with_lease_def Let_def take forward_state_tables)
  qed
  show ?thesis
  proof (cases "hm_get (leases s) ?tid")
    case (Some l)
    have "daemon_inv (s\<lparr>leases := hm_remove ?tid (leases s)\<rparr>)"
      using assms(1) by (auto simp: daemon_inv_def hm_get_delete)
    with Some assms(3) show ?thesis
      by (intro with_lease [of l "s\<lparr>leases := hm_remove ?tid (leases s)\<rparr>"])
        (simp_all add: handle_notify_def Let_def hm_get_delete)
  next
    case none: None
    show ?thesis
    proof (cases "hm_get (expired_leases s) ?tid")
      case (Some l)
      have "daemon_inv (s\<lparr>expired_leases := hm_remove ?tid (expired_leases s)\<rparr>)"
        using assms(1) by (auto simp: daemon_inv_def)
      with Some none assms(3) show ?thesis
        by (intro with_lease [of l "s\<lparr>expired_leases := hm_remove ?tid (expired_leases s)\<rparr>"])
          (simp_all add: handle_notify_def Let_def)
    next
      case None
      obtain task s1 where take: "take_task ?tid s = (task, s1)" by fastforce
      note facts = take_task_facts [OF assms(1) take]
      show ?thesis
        using facts late [OF facts(1)] none None assms(3)
        by (intro exI [of _ "late_task r ?tid (m_from m) ?st ?np task"] exI [of _ s1])
          (simp add: handle_notify_def notify_late_def Let_def take forward_state_tables)
    qed
  qed
qed

lemma reachable_from_inv: "(daemon_step lib)\<^sup>*\<^sup>* s s' \<Longrightarrow> daemon_inv s \<Longrightarrow> daemon_inv s'"
  by (induction rule: rtranclp_induct) (auto intro: daemon_step_inv)

text \<open>
  C14: A task for a configured worker ends with its worker. An allowed delegation launches exactly
  the configured command for the task. Whatever the daemon does while it runs (messages, other
  workers, clean-ups that expire the task, progress reports), when the execution is over the task
  has neither a lease nor an active entry and is on record as completed if the executor says so and
  as failed otherwise, with the summary of the executor as its last notification. The table of
  finished tasks must not be full at that point, and the secret must sign.
\<close>

theorem subprocess_task_ends:
  assumes "daemon_inv s" and "policy_eval (tool_of m) (payload m) = AllowTask"
    and "hm_get (worker_configs s) (m_to m) = Some config"
    and "handle_delegate lib r m s = (out, effects, s1)" and "(daemon_step lib)\<^sup>*\<^sup>* s1 s'"
    and "length (tasks_completed s') < 1000" and "\<forall>key body. hmac_sha256 lib key body \<noteq> None"
    and "run_worker lib mlib r2 root config io (worker_task_of r m (details_of m (msg_id m))) s'
           = (out2, effects2, s2)"
  shows "effects = [LaunchWorker config (worker_task_of r m (details_of m (msg_id m)))]
    \<and> hm_get (leases s2) (msg_id m) = None \<and> hm_get (tasks_active s2) (msg_id m) = None
    \<and> (\<exists>t. hm_get (tasks_completed s2) (msg_id m) = Some t
        \<and> task_status t = final_status (wo_status
            (execute_task mlib root config io (worker_task_of r m (details_of m (msg_id m)))))
        \<and> n_summary (last (notifications t)) = wo_summary
            (execute_task mlib root config io (worker_task_of r m (details_of m (msg_id m)))))"
proof -
  let ?wt = "worker_task_of r m (details_of m (msg_id m))"
  let ?w = "execute_task mlib root config io ?wt"
  have id: "wt_id ?wt = msg_id m" by (simp add: worker_task_of_def)
  obtain o1 e1 where p: "proceed_with_delegation lib r m (msg_id m) (m_to m) (return_to_of m) (tool_of m)
      False (details_of m (msg_id m)) 0 s = (o1, e1, s1)"
    and eff: "effects = e1 @ [LaunchWorker config ?wt]"
    using assms(2-4) by (auto simp: handle_delegate_def Let_def split: prod.splits)
  have inv: "daemon_inv s'"
    using reachable_from_inv [OF assms(5)] proceed_inv [OF assms(1)] p by (metis snd_conv)
  obtain h where h: "sign_msg lib (secret s') (worker_notification lib r2 ?wt ?w)
      = Some ((worker_notification lib r2 ?wt ?w)\<lparr>m_hmac := h\<rparr>)"
    using sign_msg_total assms(7) by blast
  let ?m = "(worker_notification lib r2 ?wt ?w)\<lparr>m_hmac := h\<rparr>"
  have s2: "s2 = snd (snd (handle_notify lib r2 ?m s'))"
    using assms(8) h by (simp add: run_worker_def finish_worker_def)
  have m: "notify_task_id ?m = msg_id m" "notify_status ?m = worker_status_text (wo_status ?w)"
    "np_summary (notify_parts lib ?m) = wo_summary ?w" "\<not> is_ack ?m"
    by (simp_all add: worker_notification_fields worker_no_ack id)
  have "is_terminal (map_status (notify_status ?m))" by (simp only: m(2) worker_status_final)
  note files = final_notification_files [OF inv this m(4), of lib r2, unfolded m(1-3) worker_status_final]
  obtain t s0 where tables: "task_tables s2 = task_tables (finalize_task t s0)"
    and t: "task_id t = msg_id m" "task_status t = final_status (wo_status ?w)"
      "n_summary (last (notifications t)) = wo_summary ?w"
    and s0: "hm_get (leases s0) (msg_id m) = None" "hm_get (tasks_active s0) (msg_id m) = None"
      "length (tasks_completed s0) \<le> length (tasks_completed s')"
    using files unfolding s2 by blast
  have "is_terminal (task_status t)" using t(2) by simp
  from finalize_failed [OF this, of s0] assms(6) s0(3) t(1)
  have "tasks_active (finalize_task t s0) = tasks_active s0"
    "hm_get (tasks_completed (finalize_task t s0)) (msg_id m) = Some t" by auto
  with tables t(2,3) eff proceed_result(2) [OF p] s0(1,2) show ?thesis
    by (auto simp: task_tables_def)
qed

lemma subprocess_task_ends_witness:
  "map_option task_status (hm_get (tasks_completed (snd (snd (run_worker sample_lib echo_crates
     (sample_reading 5) None cli_config (quiet_io [])
     (worker_task_of (sample_reading 0) (cli_task ''/workdir/src/x'')
        (details_of (cli_task ''/workdir/src/x'') ''t4''))
     (snd (snd (handle_delegate sample_lib (sample_reading 0) (cli_task ''/workdir/src/x'') with_worker)))))))
     ''t4'') = Some Completed"
proof -
  let ?m = "cli_task ''/workdir/src/x''"
  let ?d = "handle_delegate sample_lib (sample_reading 0) ?m with_worker"
  let ?wt = "worker_task_of (sample_reading 0) ?m (details_of ?m (msg_id ?m))"
  let ?e = "run_worker sample_lib echo_crates (sample_reading 5) None cli_config (quiet_io []) ?wt
      (snd (snd ?d))"
  have m: "policy_eval (tool_of ?m) (payload ?m) = AllowTask" "m_to ?m = ''cli''" "msg_id ?m = ''t4''"
    "tasks_completed with_worker = []"
    by code_simp+
  have w: "wo_status (execute_task echo_crates None cli_config (quiet_io []) ?wt) = WorkerCompleted"
    by code_simp
  have k: "\<forall>key body. hmac_sha256 sample_lib key body \<noteq> None" by (simp add: sample_lib_def)
  have c: "hm_get (worker_configs with_worker) (m_to ?m) = Some cli_config"
    by (simp add: m with_worker_facts)
  have "length (tasks_completed (snd (snd ?d))) < 1000" by code_simp
  note l = rtranclp.rtrancl_refl this
  have d: "?d = (fst ?d, fst (snd ?d), snd (snd ?d))" and e: "?e = (fst ?e, fst (snd ?e), snd (snd ?e))"
    by simp_all
  from subprocess_task_ends [OF with_worker_inv m(1) c d l k e] w m(3) show ?thesis by auto
qed

subsection \<open>The idle watch\<close>

text \<open>The watch on a sequence of ticks, each a time and the state it sees: when it shuts down.\<close>

fun idle_watch :: "nat \<Rightarrow> nat option \<Rightarrow> (nat \<times> daemon_state) list \<Rightarrow> nat option" where
  "idle_watch idle_after since [] = None"
| "idle_watch idle_after since ((t, s) # ticks) =
     (case idle_tick idle_after t since s of
        (since', stop) \<Rightarrow> if stop then Some t else idle_watch idle_after since' ticks)"

definition idle_at :: "nat \<times> daemon_state \<Rightarrow> bool" where
  "idle_at tick = (case tick of (t, s) \<Rightarrow> \<not> has_live_clients t s \<and> \<not> has_inflight_work s)"

lemma idle_tick_busy: "\<not> idle_at (t, s) \<Longrightarrow> idle_tick d t since s = (None, False)"
  by (auto simp: idle_at_def idle_tick_def)

lemma idle_tick_idle:
  "idle_at (t, s) \<Longrightarrow> idle_tick d t since s
     = (Some (case since of Some i \<Rightarrow> i | None \<Rightarrow> t), d \<le> t - (case since of Some i \<Rightarrow> i | None \<Rightarrow> t))"
  by (auto simp: idle_at_def idle_tick_def Let_def)

lemma idle_watch_waits:
  assumes "\<forall>tick \<in> set idle. idle_at tick" and "idle \<noteq> []"
    and "sorted (map fst idle)" and "since \<le> fst (hd idle)" and "d \<le> fst (last idle) - since"
  shows "idle_watch d (Some since) (idle @ rest) \<noteq> None"
  using assms
proof (induction idle)
  case Nil
  then show ?case by simp
next
  case (Cons tick idle)
  obtain t s where tick: "tick = (t, s)" by fastforce
  with Cons.prems(1) have step: "idle_tick d t (Some since) s = (Some since, d \<le> t - since)"
    by (simp add: idle_tick_idle)
  show ?case
  proof (cases "idle = []")
    case True
    with Cons.prems(5) tick step show ?thesis by simp
  next
    case False
    moreover have "since \<le> fst (hd idle)"
      using Cons.prems(3,4) False tick by (cases idle) auto
    ultimately show ?thesis
      using Cons.IH Cons.prems(1,3,5) tick step by auto
  qed
qed

lemma idle_watch_append:
  "idle_watch d since (xs @ ys) = None \<Longrightarrow> idle_watch d since xs = None"
  by (induction xs arbitrary: since) (auto split: prod.splits if_splits)

lemma idle_watch_from:
  assumes "\<forall>tick \<in> set idle. idle_at tick" and "idle \<noteq> []"
    and "sorted (map fst idle)" and "d \<le> fst (last idle) - fst (hd idle)"
    and "case since of Some i \<Rightarrow> i \<le> fst (hd idle) | None \<Rightarrow> True"
  shows "idle_watch d since (idle @ rest) \<noteq> None"
proof (cases since)
  case (Some i)
  then show ?thesis
    using idle_watch_waits [OF assms(1-3), of i d rest] assms(4,5) by simp
next
  case None
  obtain t s idle' where idle: "idle = (t, s) # idle'" using assms(2) by (cases idle) auto
  have "idle_watch d None (idle @ rest) = idle_watch d (Some t) (idle @ rest)"
    using assms(1) idle by (simp add: idle_tick_idle)
  with None show ?thesis
    using idle_watch_waits [OF assms(1-3), of t d rest] assms(4) idle by simp
qed

text \<open>
  An idle daemon shuts down. When no client is live and nothing is in flight at a tick and at
  all ticks after it, the watch shuts the daemon down at the latest with the first tick that comes
  the idle time later, whatever happened before.
\<close>

theorem idle_daemon_shuts_down:
  assumes "\<forall>tick \<in> set idle. idle_at tick" and "idle \<noteq> []"
    and "sorted (map fst (busy @ idle))" and "d \<le> fst (last idle) - fst (hd idle)"
  shows "idle_watch d None (busy @ idle @ rest) \<noteq> None"
proof -
  have "idle_watch d since (busy @ idle @ rest) \<noteq> None"
    if "case since of Some i \<Rightarrow> i \<le> fst (hd (busy @ idle)) | None \<Rightarrow> True" for since
    using that assms(3)
  proof (induction busy arbitrary: since)
    case Nil
    have "sorted (map fst idle)" using Nil.prems(2) by simp
    then show ?case using idle_watch_from [OF assms(1,2) _ assms(4)] Nil.prems(1) [unfolded append_Nil] by simp
  next
    case (Cons tick busy)
    obtain t s where tick: "tick = (t, s)" by fastforce
    have later: "t \<le> fst (hd (busy @ idle))"
      using Cons.prems(2) assms(2) tick by (cases busy) (auto simp: hd_in_set)
    have start: "case fst (idle_tick d t since s) of Some i \<Rightarrow> i \<le> fst (hd (busy @ idle)) | None \<Rightarrow> True"
      using Cons.prems(1) later tick
      by (cases "idle_at (t, s)") (auto simp: idle_tick_busy idle_tick_idle split: option.splits)
    then show ?case
      using Cons.IH [OF start] Cons.prems(2) tick by (auto split: prod.splits)
  qed
  from this [of None] show ?thesis by simp
qed

lemma idle_daemon_shuts_down_witness:
  "idle_watch 5 None [(0, with_task), (100, sample_state), (105, sample_state)] \<noteq> None"
proof -
  have i: "\<forall>tick \<in> set [(100, sample_state), (105, sample_state)]. idle_at tick"
    by (simp add: idle_at_def sample_state_def new_state_def has_live_clients_def has_inflight_work_def)
  show ?thesis
    using idle_daemon_shuts_down [OF i, of "[(0, with_task)]" 5 "[]"] by simp
qed

lemma idle_watch_history:
  assumes "idle_watch d since ticks = Some t"
  shows "(\<exists>i. since = Some i \<and> d \<le> t - i \<and> (\<exists>n s. n < length ticks \<and> ticks ! n = (t, s)
            \<and> (\<forall>k \<le> n. idle_at (ticks ! k))))
    \<or> (\<exists>m n s. m \<le> n \<and> n < length ticks \<and> ticks ! n = (t, s) \<and> d \<le> t - fst (ticks ! m)
        \<and> (\<forall>k. m \<le> k \<and> k \<le> n \<longrightarrow> idle_at (ticks ! k)))"
  using assms
proof (induction d since ticks rule: idle_watch.induct)
  case (1 d since)
  then show ?case by simp
next
  case (2 d since t0 s0 ticks)
  show ?case
  proof (cases "idle_at (t0, s0)")
    case False
    then have "idle_watch d None ticks = Some t"
      using "2.prems" by (simp add: idle_tick_busy)
    with "2.IH" [of None False] False obtain m n s where "m \<le> n" "n < length ticks" "ticks ! n = (t, s)"
      "d \<le> t - fst (ticks ! m)" "\<forall>k. m \<le> k \<and> k \<le> n \<longrightarrow> idle_at (ticks ! k)"
      by (auto simp: idle_tick_busy)
    then show ?thesis
      by (intro disjI2 exI [of _ "Suc m"] exI [of _ "Suc n"] exI [of _ s]) (auto simp: nth_Cons split: nat.splits)
  next
    case True
    let ?i = "case since of Some i \<Rightarrow> i | None \<Rightarrow> t0"
    show ?thesis
    proof (cases "d \<le> t0 - ?i")
      case stop: True
      with True "2.prems" have t: "t = t0" by (simp add: idle_tick_idle)
      show ?thesis
      proof (cases since)
        case None
        with stop True t show ?thesis
          by (intro disjI2 exI [of _ 0] exI [of _ s0]) auto
      next
        case (Some i)
        with stop True t show ?thesis
          by (intro disjI1 exI [of _ i] conjI exI [of _ 0] exI [of _ s0]) auto
      qed
    next
      case go: False
      with True "2.prems" have run: "idle_watch d (Some ?i) ticks = Some t" by (simp add: idle_tick_idle)
      with "2.IH" [of "Some ?i" False] True go consider
          (old) n s where "d \<le> t - ?i" "n < length ticks" "ticks ! n = (t, s)" "\<forall>k \<le> n. idle_at (ticks ! k)"
        | (new) m n s where "m \<le> n" "n < length ticks" "ticks ! n = (t, s)" "d \<le> t - fst (ticks ! m)"
            "\<forall>k. m \<le> k \<and> k \<le> n \<longrightarrow> idle_at (ticks ! k)"
        by (auto simp: idle_tick_idle)
      then show ?thesis
      proof cases
        case (old n s)
        have all: "\<forall>k \<le> Suc n. idle_at (((t0, s0) # ticks) ! k)"
          using old(4) True by (auto simp: nth_Cons split: nat.splits)
        show ?thesis
        proof (cases since)
          case None
          with old all show ?thesis
            by (intro disjI2 exI [of _ 0] exI [of _ "Suc n"] exI [of _ s]) auto
        next
          case (Some i)
          with old all show ?thesis
            by (intro disjI1 exI [of _ i] conjI exI [of _ "Suc n"] exI [of _ s]) auto
        qed
      next
        case (new m n s)
        then show ?thesis
          by (intro disjI2 exI [of _ "Suc m"] exI [of _ "Suc n"] exI [of _ s])
            (auto simp: nth_Cons split: nat.splits)
      qed
    qed
  qed
qed

text \<open>
  The watch never shuts down a daemon that is in use. When it shuts down, no client was live and
  no task, lease or approval was open at any tick of the last idle time: there is a tick at least
  that long ago from which on all ticks were idle.
\<close>

theorem shutdown_only_when_idle:
  assumes "idle_watch d None ticks = Some t"
  shows "\<exists>m n s. m \<le> n \<and> n < length ticks \<and> ticks ! n = (t, s) \<and> d \<le> t - fst (ticks ! m)
    \<and> (\<forall>k. m \<le> k \<and> k \<le> n \<longrightarrow> idle_at (ticks ! k))"
  using idle_watch_history [OF assms] by simp

definition sample_ticks :: "(nat \<times> daemon_state) list" where
  "sample_ticks = [(0, with_task), (100, sample_state), (105, sample_state)]"

lemma shutdown_only_when_idle_witness:
  "\<exists>m n s. m \<le> n \<and> n < length sample_ticks \<and> sample_ticks ! n = (105, s)
    \<and> 5 \<le> 105 - fst (sample_ticks ! m)"
proof -
  have "has_inflight_work with_task" "idle_at (100, sample_state)" "idle_at (105, sample_state)"
    by code_simp+
  then have "idle_watch 5 None sample_ticks = Some 105"
    by (simp add: sample_ticks_def idle_tick_idle idle_tick_busy idle_at_def)
  from shutdown_only_when_idle [OF this] show ?thesis by blast
qed

fun clean_ups :: "daemon_crates \<Rightarrow> reading list \<Rightarrow> daemon_state \<Rightarrow> (nat \<times> daemon_state) list" where
  "clean_ups lib [] s = []"
| "clean_ups lib (r # rs) s =
     (let s' = fst (cleanup_expired lib r s) in (now r, s') # clean_ups lib rs s')"

lemma leaseless_stays:
  assumes "daemon_inv s" and "hm_get (leases s) tid = None" and "hm_get (tasks_active s) tid \<noteq> None"
  shows "daemon_inv (fst (cleanup_expired lib r s)) \<and> hm_get (leases (fst (cleanup_expired lib r s))) tid = None
    \<and> hm_get (tasks_active (fst (cleanup_expired lib r s))) tid \<noteq> None"
proof -
  have "hm_get (leases (fst (cleanup_expired lib r s))) tid = None"
    using expire_leases_tables [OF assms(1), of lib r 0 _ tid] drop_clients_result assms(2)
    by (simp add: cleanup_expired_def split_beta)
  with cleanup_inv [OF assms(1)] cleanup_active [OF assms] show ?thesis by blast
qed

lemma busy_clean_ups:
  assumes "daemon_inv s" and "hm_get (leases s) tid = None" and "hm_get (tasks_active s) tid \<noteq> None"
  shows "idle_watch d since (clean_ups lib rs s) = None"
  using assms
proof (induction rs arbitrary: s since)
  case Nil
  then show ?case by simp
next
  case (Cons r rs)
  let ?s = "fst (cleanup_expired lib r s)"
  note kept = leaseless_stays [OF Cons.prems, of lib r]
  then have "\<not> idle_at (now r, ?s)"
    by (auto simp: idle_at_def has_inflight_work_def)
  with Cons.IH kept show ?case by (simp add: Let_def idle_tick_busy)
qed

text \<open>
  A task that lost its lease keeps the daemon up for ever. After a progress report the clean-up
  never removes the task, so the watch never finds the daemon idle: it does not shut down however
  many clean-ups and ticks pass, unless another message about the task comes.
\<close>

theorem leaseless_task_blocks_shutdown:
  assumes "daemon_inv s" and "hm_get (leases s) (notify_task_id m) = Some l"
    and "\<not> is_terminal (map_status (notify_status m))" and "\<not> is_ack m"
  shows "idle_watch d since (clean_ups lib rs (snd (snd (handle_notify lib r m s)))) = None"
proof -
  let ?tid = "notify_task_id m" and ?s = "snd (snd (handle_notify lib r m s))"
  obtain t where t: "hm_get (tasks_active s) ?tid = Some t"
    using daemon_inv_leased [OF assms(1), of ?tid] assms(2) by auto
  let ?t = "leased_task r ?tid l (notify_status m) (notify_parts lib m) (Some t)"
  have "task_id ?t = ?tid" "task_status ?t = map_status (notify_status m)"
    using keyed_get [OF _ t] assms(1) by (auto simp: leased_task_def Let_def daemon_inv_def)
  then have "hm_get (leases ?s) ?tid = None" "hm_get (tasks_active ?s) ?tid \<noteq> None"
    using notify_leased_tables [OF assms(2) t assms(4), of lib r] assms(3)
    by (simp_all add: task_tables_def finalize_task_def hm_get_delete hm_get_update)
  then show ?thesis using busy_clean_ups [OF handle_notify_inv [OF assms(1)]] by blast
qed

lemma leaseless_task_blocks_shutdown_witness:
  "idle_watch 60 None (clean_ups sample_lib (map (\<lambda>i. sample_reading (i * 10 ^ 13)) [1..<100])
      (snd (snd (handle_notify sample_lib (sample_reading 9) (result_msg ''in_progress'') with_task)))) = None"
proof -
  let ?m = "result_msg ''in_progress''"
  have m: "notify_task_id ?m = ''t1''" "map_status (notify_status ?m) = InProgress" "\<not> is_ack ?m"
    "\<not> is_terminal InProgress"
    by code_simp+
  obtain l where "hm_get (leases with_task) ''t1'' = Some l" using with_task_lease by blast
  then show ?thesis using leaseless_task_blocks_shutdown [OF with_task_inv, of ?m l] m by simp
qed

subsection \<open>Connections\<close>

text \<open>
  The text forms of messages are serde's work. A connection reads lines; each is tried as a compact
  message first, and the answer has the format of the request.
\<close>

record wire_crates = daemon_crates +
  compact_of_text :: "string \<Rightarrow> msg_c option"
  message_of_text :: "string \<Rightarrow> msg option"
  compact_text :: "msg_c \<Rightarrow> string option"
  message_text :: "msg \<Rightarrow> string option"

text \<open>A connection goes on, ends with an error, or its task panics.\<close>

datatype connection = Open | Ended string | Panicked_task

type_synonym line_result = "string list \<times> connection \<times> effect list \<times> daemon_state"

definition answer_line :: "(msg \<Rightarrow> string option) \<Rightarrow> handled \<Rightarrow> line_result" where
  "answer_line print h =
     (case h of
        (Reply reply, effects, s) \<Rightarrow>
          (case print reply of
             None \<Rightarrow> ([], Ended ''serialization failed'', effects, s)
           | Some text \<Rightarrow> ([text @ [nl]], Open, effects, s))
      | (Silent, effects, s) \<Rightarrow> ([], Open, effects, s)
      | (Refused err, effects, s) \<Rightarrow> ([], Ended err, effects, s)
      | (Crash, effects, s) \<Rightarrow> ([], Panicked_task, effects, s))"

definition handle_line :: "wire_crates \<Rightarrow> reading \<Rightarrow> string \<Rightarrow> daemon_state \<Rightarrow> line_result" where
  "handle_line lib r line s =
     (let raw = trim line; base = daemon_crates.truncate lib
      in if raw = [] then ([], Open, [], s)
         else case compact_of_text lib raw of
                Some c \<Rightarrow> answer_line (compact_text lib \<circ> to_compact) (serve base r (from_compact c) s)
              | None \<Rightarrow>
                  (case message_of_text lib raw of
                     Some m \<Rightarrow> answer_line (message_text lib) (serve base r m s)
                   | None \<Rightarrow> ([], Open, [], s)))"

text \<open>The loop over the lines of one connection, with the readings of each line.\<close>

fun handle_connection ::
  "wire_crates \<Rightarrow> (reading \<times> string) list \<Rightarrow> daemon_state \<Rightarrow> line_result" where
  "handle_connection lib [] s = ([], Open, [], s)"
| "handle_connection lib ((r, line) # input) s =
     (case handle_line lib r line s of
        (out, Open, effects, s1) \<Rightarrow>
          (case handle_connection lib input s1 of
             (out2, conn, effects2, s2) \<Rightarrow> (out @ out2, conn, effects @ effects2, s2))
      | (out, conn, effects, s1) \<Rightarrow> (out, conn, effects, s1))"

text \<open>What serde promises of a message it printed: it reads back, in its own format.\<close>

definition wire_round_trip :: "wire_crates \<Rightarrow> bool" where
  "wire_round_trip lib =
     ((\<forall>c text. compact_text lib c = Some text \<longrightarrow>
         trim (text @ [nl]) \<noteq> [] \<and> compact_of_text lib (trim (text @ [nl])) = Some c)
      \<and> (\<forall>m text. message_text lib m = Some text \<longrightarrow>
         trim (text @ [nl]) \<noteq> [] \<and> compact_of_text lib (trim (text @ [nl])) = None
         \<and> message_of_text lib (trim (text @ [nl])) = Some m))"

text \<open>The message that a line carries, in either format.\<close>

definition line_message :: "wire_crates \<Rightarrow> string \<Rightarrow> msg option" where
  "line_message lib line =
     (if trim line = [] then None
      else case compact_of_text lib (trim line) of
             Some c \<Rightarrow> Some (from_compact c)
           | None \<Rightarrow> message_of_text lib (trim line))"

lemma serve_state: "snd (snd (serve lib r m s)) = snd (snd (handle_message lib r m s))"
  by (simp add: serve_def split: prod.split outcome.split option.split)

lemma answer_line_state: "snd (snd (snd (answer_line print h))) = snd (snd h)"
  by (simp add: answer_line_def split: prod.split outcome.split option.split)

lemma serve_signs:
  assumes "serve lib r m s = (Reply reply, effects, s')" and "\<forall>x. unb64 lib (b64 lib x) = Some x"
  shows "well_signed lib (secret s') reply"
proof -
  from assms(1) obtain m' where "sign_msg lib (secret s') m' = Some reply"
    by (auto simp: serve_def split: prod.splits outcome.splits option.splits)
  with assms(2) show ?thesis
    by (auto simp: sign_msg_def well_signed_def canonical_body_def split: option.splits)
qed

lemma handle_line_step:
  "(daemon_step (daemon_crates.truncate lib))\<^sup>*\<^sup>* s (snd (snd (snd (handle_line lib r line s))))"
proof -
  have "daemon_step (daemon_crates.truncate lib) s (snd (snd (serve (daemon_crates.truncate lib) r m s)))" for m
    unfolding serve_state by (rule receive_step)
  then show ?thesis
    by (auto simp: handle_line_def Let_def answer_line_state split: option.split)
qed

lemma connection_steps:
  "(daemon_step (daemon_crates.truncate lib))\<^sup>*\<^sup>* s (snd (snd (snd (handle_connection lib input s))))"
proof (induction input arbitrary: s)
  case Nil
  then show ?case by simp
next
  case (Cons i input)
  obtain r line where i: "i = (r, line)" by fastforce
  obtain out conn effects s1 where h: "handle_line lib r line s = (out, conn, effects, s1)"
    by (metis surj_pair)
  have s1: "(daemon_step (daemon_crates.truncate lib))\<^sup>*\<^sup>* s s1"
    using handle_line_step [of lib s r line] h by simp
  show ?case
    using s1 rtranclp_trans [OF s1 Cons.IH] by (cases conn) (auto simp: i h split: prod.split)
qed

lemma reachable_steps: "(daemon_step lib)\<^sup>*\<^sup>* s s' \<Longrightarrow> daemon_reachable lib s \<Longrightarrow> daemon_reachable lib s'"
  by (induction rule: rtranclp_induct) (auto intro: daemon_reachable.step)

lemma handle_line_answers:
  assumes "wire_round_trip lib" and "\<forall>x. unb64 lib (b64 lib x) = Some x"
    and "handle_line lib r line s = (out, conn, effects, s')" and "text \<in> set out"
  shows "\<exists>reply. line_message lib text = Some reply
    \<and> well_signed (daemon_crates.truncate lib) (secret s) reply"
proof -
  let ?base = "daemon_crates.truncate lib"
  have sec: "secret (snd (snd (serve ?base r m s))) = secret s" for m
    unfolding serve_state using step_secret [OF receive_step] by blast
  have b: "\<forall>x. unb64 ?base (b64 ?base x) = Some x"
    using assms(2) by (simp add: daemon_crates.truncate_def)
  have signed: "well_signed ?base (secret s) reply" if "serve ?base r m s = (Reply reply, e, s2)" for m reply e s2
    using serve_signs [OF that b] sec [of m] that by simp
  from assms(3,4) consider
      (compact) c reply t e s2 where "compact_of_text lib (trim line) = Some c"
        "serve ?base r (from_compact c) s = (Reply reply, e, s2)"
        "compact_text lib (to_compact reply) = Some t" "text = t @ [nl]"
    | (standard) m reply t e s2 where "serve ?base r m s = (Reply reply, e, s2)"
        "message_text lib reply = Some t" "text = t @ [nl]"
    by (auto simp: handle_line_def answer_line_def Let_def
        split: if_splits option.splits prod.splits outcome.splits)
  then show ?thesis
  proof cases
    case compact
    with assms(1) have "line_message lib text = Some reply"
      by (auto simp: wire_round_trip_def line_message_def)
    with signed [OF compact(2)] show ?thesis by blast
  next
    case standard
    with assms(1) have "line_message lib text = Some reply"
      by (auto simp: wire_round_trip_def line_message_def)
    with signed [OF standard(1)] show ?thesis by blast
  qed
qed

lemma handle_line_secret: "secret (snd (snd (snd (handle_line lib r line s)))) = secret s"
  using steps_secret [OF handle_line_step] .

text \<open>
  Everything a client reads verifies. Whatever lines arrive on a connection, each line the daemon
  writes back reads as a message whose signature fits the secret of the daemon, and the state
  the connection leaves behind is one that a run of the daemon can reach.
\<close>

theorem connection_writes_signed_messages:
  assumes "wire_round_trip lib" and "\<forall>x. unb64 lib (b64 lib x) = Some x"
    and "daemon_reachable (daemon_crates.truncate lib) s"
    and "handle_connection lib input s = (out, conn, effects, s')"
  shows "(\<forall>text \<in> set out. \<exists>reply. line_message lib text = Some reply
      \<and> well_signed (daemon_crates.truncate lib) (secret s) reply)
    \<and> daemon_reachable (daemon_crates.truncate lib) s'"
proof
  show "daemon_reachable (daemon_crates.truncate lib) s'"
    using reachable_steps [OF connection_steps assms(3), of input] assms(4) by simp
  show "\<forall>text \<in> set out. \<exists>reply. line_message lib text = Some reply
      \<and> well_signed (daemon_crates.truncate lib) (secret s) reply"
    using assms(1,2,4)
  proof (induction input arbitrary: s out conn effects s')
    case Nil
    then show ?case by simp
  next
    case (Cons i input)
    obtain r line where i: "i = (r, line)" by fastforce
    obtain out1 conn1 effects1 s1 where h: "handle_line lib r line s = (out1, conn1, effects1, s1)"
      by (metis surj_pair)
    note first = handle_line_answers [OF Cons.prems(1,2) h]
    have sec: "secret s1 = secret s" using handle_line_secret [of lib r line s] h by simp
    obtain out2 conn2 effects2 s2 where c: "handle_connection lib input s1 = (out2, conn2, effects2, s2)"
      by (metis surj_pair)
    have "set out \<subseteq> set out1 \<union> set out2"
      using Cons.prems(3) i h c by (cases conn1) auto
    with first Cons.IH [OF Cons.prems(1,2) c] sec show ?case by auto
  qed
qed

text \<open>A codec that knows one request and its answer.\<close>

definition sample_reply :: msg where
  "sample_reply =
     (case serve sample_lib (sample_reading 0) register_msg sample_state of
        (Reply m, _) \<Rightarrow> m
      | _ \<Rightarrow> register_msg)"

definition sample_wire :: wire_crates where
  "sample_wire = daemon_crates.extend sample_lib
     \<lparr>compact_of_text = (\<lambda>_. None),
      message_of_text = (\<lambda>t. if t = ''q'' then Some register_msg
        else if t = ''a'' then Some sample_reply else None),
      compact_text = (\<lambda>_. None),
      message_text = (\<lambda>m. if m = sample_reply then Some ''a'' else None)\<rparr>"

lemma connection_writes_signed_messages_witness:
  "fst (handle_connection sample_wire [(sample_reading 0, ''q'')] sample_state) = [''a'' @ [nl]]
   \<and> (\<exists>reply. line_message sample_wire (''a'' @ [nl]) = Some reply
        \<and> well_signed (daemon_crates.truncate sample_wire) ''k'' reply)"
proof -
  have base: "daemon_crates.truncate sample_wire = sample_lib"
    by (simp add: sample_wire_def daemon_crates.defs)
  have trims: "trim (''a'' @ [nl]) = ''a''" "trim ''q'' = ''q''" by code_simp+
  have w: "wire_round_trip sample_wire"
    using trims by (auto simp: wire_round_trip_def sample_wire_def daemon_crates.defs)
  have b: "\<forall>x. unb64 sample_wire (b64 sample_wire x) = Some x"
    by (simp add: sample_wire_def daemon_crates.defs sample_lib_def)
  have "\<exists>e s'. serve sample_lib (sample_reading 0) register_msg sample_state = (Reply sample_reply, e, s')"
  proof -
    have "(case fst (serve sample_lib (sample_reading 0) register_msg sample_state) of Reply _ \<Rightarrow> True | _ \<Rightarrow> False)"
      by code_simp
    then show ?thesis
      by (auto simp: sample_reply_def split: outcome.splits prod.splits)
  qed
  then have out: "fst (handle_connection sample_wire [(sample_reading 0, ''q'')] sample_state) = [''a'' @ [nl]]"
    by (auto simp: handle_line_def answer_line_def base trims Let_def)
      (simp add: sample_wire_def daemon_crates.defs trims answer_line_def)
  obtain conn e s' where c: "handle_connection sample_wire [(sample_reading 0, ''q'')] sample_state
      = ([''a'' @ [nl]], conn, e, s')"
    using out by (metis fst_conv surj_pair)
  have "daemon_reachable (daemon_crates.truncate sample_wire) sample_state"
    unfolding base sample_state_def by (rule daemon_reachable.start)
  from connection_writes_signed_messages [OF w b this c] out sample_secret show ?thesis by simp
qed

end
