(* ===== verification/Task_Lifecycle.thy ===== *)
theory Task_Lifecycle
  imports Local_Backend
begin

text \<open>
  What a task backend promises, without tables, clocks or texts: the life of each task, from
  unknown through running to ended and forgotten. The local backend refines this automaton; the
  laws of a refinement mapping are a locale, and what follows for whole runs is proved in it once.
\<close>

subsection \<open>Refinement mappings\<close>

locale refinement_mapping =
  fixes reachable :: "'c \<Rightarrow> bool"
    and step :: "'c \<Rightarrow> 'c \<Rightarrow> bool"
    and abs :: "'c \<Rightarrow> 'a"
    and astep :: "'a \<Rightarrow> 'a \<Rightarrow> bool"
  assumes reachable_step: "reachable s \<Longrightarrow> step s s' \<Longrightarrow> reachable s'"
    and simulates: "reachable s \<Longrightarrow> step s s' \<Longrightarrow> abs s' = abs s \<or> astep (abs s) (abs s')"
begin

lemma reachable_run: "step\<^sup>*\<^sup>* s s' \<Longrightarrow> reachable s \<Longrightarrow> reachable s'"
  by (induction rule: rtranclp_induct) (auto intro: reachable_step)

text \<open>Every run of the implementation is a run of the specification.\<close>

lemma run_refines: "step\<^sup>*\<^sup>* s s' \<Longrightarrow> reachable s \<Longrightarrow> astep\<^sup>*\<^sup>* (abs s) (abs s')"
proof (induction rule: rtranclp_induct)
  case base
  then show ?case by simp
next
  case (step y z)
  then have "astep\<^sup>*\<^sup>* (abs s) (abs y)" and y: "reachable y"
    using reachable_run by blast+
  with simulates [OF y step.hyps(2)] show ?case
    by (auto intro: rtranclp.rtrancl_into_rtrancl)
qed

text \<open>What the specification keeps, the implementation keeps.\<close>

lemma inherited:
  assumes "step\<^sup>*\<^sup>* s s'" and "reachable s" and "P (abs s)"
    and "\<And>a a'. P a \<Longrightarrow> astep a a' \<Longrightarrow> P a'"
  shows "P (abs s')"
proof -
  have "astep\<^sup>*\<^sup>* (abs s) (abs s')" using run_refines [OF assms(1,2)] .
  then show ?thesis
    by (induction rule: rtranclp_induct) (use assms(3,4) in auto)
qed

end

subsection \<open>The life of a task\<close>

datatype phase = Unknown | Running | Ended task_status

text \<open>
  What may be asked of a life, with the answer: a new task begins while fewer than the limit run
  and is refused otherwise; a report on a running task keeps it running or ends it with the status
  it names, an acknowledgement changes nothing, any other report is refused; tasks that ended may be
  forgotten, any number at a time. An operation touches no task but its own.
\<close>

datatype life_op = Begin string | Report string string | Forget

inductive life_step :: "nat \<Rightarrow> life_op \<Rightarrow> bool \<Rightarrow> (string \<Rightarrow> phase) \<Rightarrow> (string \<Rightarrow> phase) \<Rightarrow> bool" for limit where
  begin_task: "p tid = Unknown \<Longrightarrow> card {t. p t = Running} < limit
    \<Longrightarrow> life_step limit (Begin tid) True p (p(tid := Running))"
| begin_refused: "limit \<le> card {t. p t = Running} \<Longrightarrow> life_step limit (Begin tid) False p p"
| acknowledge: "eq_ignore_ascii_case st ''ack'' \<Longrightarrow> life_step limit (Report tid st) True p p"
| progress: "p tid = Running \<Longrightarrow> \<not> eq_ignore_ascii_case st ''ack'' \<Longrightarrow> \<not> is_terminal (notified_status st)
    \<Longrightarrow> life_step limit (Report tid st) True p p"
| end_task: "p tid = Running \<Longrightarrow> \<not> eq_ignore_ascii_case st ''ack'' \<Longrightarrow> is_terminal (notified_status st)
    \<Longrightarrow> life_step limit (Report tid st) True p (p(tid := Ended (notified_status st)))"
| report_refused: "p tid \<noteq> Running \<Longrightarrow> \<not> eq_ignore_ascii_case st ''ack''
    \<Longrightarrow> life_step limit (Report tid st) False p p"
| forget: "(\<forall>t. q t = p t \<or> q t = Unknown \<and> (\<exists>st. p t = Ended st)) \<Longrightarrow> life_step limit Forget True p q"

inductive_cases life_stepE: "life_step limit l ok p q"

definition life_any :: "nat \<Rightarrow> (string \<Rightarrow> phase) \<Rightarrow> (string \<Rightarrow> phase) \<Rightarrow> bool" where
  "life_any limit p q = (\<exists>l ok. life_step limit l ok p q)"

definition local_phase :: "local_state \<Rightarrow> string \<Rightarrow> phase" where
  "local_phase s tid =
     (if hm_get (l_active s) tid \<noteq> None then Running
      else case hm_get (l_completed s) tid of
             Some task \<Rightarrow> Ended (task_status task)
           | None \<Rightarrow> Unknown)"

lemma running_tasks:
  assumes "hm_wf (l_active s)"
  shows "card {t. local_phase s t = Running} = length (l_active s)"
proof -
  have "{t. local_phase s t = Running} = set (hm_keys (l_active s))"
    unfolding hm.set_keys by (auto simp: local_phase_def split: option.splits)
  then show ?thesis
    using distinct_card assms by (metis hm_wf_def length_map)
qed

definition accepted :: "'e + 'a \<Rightarrow> bool" where
  "accepted r = (case r of Inl _ \<Rightarrow> False | Inr _ \<Rightarrow> True)"

lemma accepted_simps [simp]: "\<not> accepted (Inl e)" "accepted (Inr a)"
  by (simp_all add: accepted_def)

lemma delegate_simulates:
  assumes "local_inv cfg s" and "local_get_task uuid s = None"
    and "local_delegate cfg uuid now a s = (res, s')"
  shows "life_step (max_concurrent_tasks cfg) (Begin uuid) (accepted res) (local_phase s) (local_phase s')"
proof -
  have wf: "hm_wf (l_active s)" using assms(1) by (auto simp: local_inv_def intro: keyed_wf)
  show ?thesis
  proof (cases "max_concurrent_tasks cfg \<le> length (l_active s)")
    case True
    then have "life_step (max_concurrent_tasks cfg) (Begin uuid) False (local_phase s) (local_phase s)"
      using running_tasks [OF wf] by (simp add: life_step.begin_refused)
    with True show ?thesis
      using assms(3) by (auto simp: local_delegate_def)
  next
    case False
    have "local_phase s' = (local_phase s)(uuid := Running)" "accepted res"
      using False assms(3) by (auto simp: local_phase_def local_delegate_def Let_def hm_get_update)
    moreover have "local_phase s uuid = Unknown"
      using assms(2) by (simp add: local_phase_def local_get_task_def split: option.splits)
    ultimately show ?thesis
      using False running_tasks [OF wf] by (metis life_step.begin_task not_le)
  qed
qed

lemma notify_simulates:
  assumes "local_notify received now tid n s = (res, s')"
  shows "life_step limit (Report tid (na_status n)) (accepted res) (local_phase s) (local_phase s')"
proof (cases "eq_ignore_ascii_case (na_status n) ''ack''")
  case True
  then show ?thesis
    using assms by (auto simp: local_notify_def intro: life_step.acknowledge)
next
  case nack: False
  show ?thesis
  proof (cases "hm_get (l_active s) tid")
    case None
    then have "local_phase s tid \<noteq> Running" by (simp add: local_phase_def split: option.splits)
    then show ?thesis
      using assms nack None by (auto simp: local_notify_def intro: life_step.report_refused)
  next
    case (Some task)
    have run: "local_phase s tid = Running" using Some by (simp add: local_phase_def)
    have res: "accepted res" using assms nack Some by (auto simp: local_notify_def Let_def split: if_splits)
    have st: "task_status (notified_task received now n task) = notified_status (na_status n)"
      by (simp add: notified_task_def)
    show ?thesis
    proof (cases "is_terminal (notified_status (na_status n))")
      case True
      have "local_phase s' = (local_phase s)(tid := Ended (notified_status (na_status n)))"
        using assms nack Some True st
        by (auto simp: local_phase_def local_notify_def Let_def hm_get_update hm_get_delete)
      with res True run nack show ?thesis by (simp add: life_step.end_task)
    next
      case False
      have "local_phase s' = local_phase s"
        using assms nack Some False st
        by (auto simp: local_phase_def local_notify_def Let_def hm_get_update hm_get_delete fun_eq_iff
            split: if_splits)
      with res False run nack show ?thesis by (simp add: life_step.progress)
    qed
  qed
qed

lemma cleanup_simulates:
  assumes "local_inv cfg s"
  shows "life_step limit Forget True (local_phase s) (local_phase (local_cleanup inst utc s))"
    and "local_phase (local_cleanup inst utc s) t \<noteq> local_phase s t
      \<Longrightarrow> \<exists>task. hm_get (l_completed s) t = Some task \<and> last_activity task \<le> utc - 7200"
proof -
  have wf: "hm_wf (l_completed s)" using assms by (auto simp: local_inv_def intro: keyed_wf)
  have "local_phase (local_cleanup inst utc s) t = local_phase s t
    \<or> local_phase (local_cleanup inst utc s) t = Unknown \<and> (\<exists>st. local_phase s t = Ended st)" for t
    by (auto simp: local_phase_def local_cleanup_def hm_get_retain [OF wf] split: option.splits)
  then show "life_step limit Forget True (local_phase s) (local_phase (local_cleanup inst utc s))"
    by (intro life_step.forget) blast
  show "local_phase (local_cleanup inst utc s) t \<noteq> local_phase s t
      \<Longrightarrow> \<exists>task. hm_get (l_completed s) t = Some task \<and> last_activity task \<le> utc - 7200"
    by (auto simp: local_phase_def local_cleanup_def hm_get_retain [OF wf] not_less split: option.splits if_splits)
qed

lemma local_step_simulates:
  assumes "local_reachable cfg s" and "local_step cfg s s'"
  shows "life_any (max_concurrent_tasks cfg) (local_phase s) (local_phase s')"
proof -
  note inv = reachable_local_inv [OF assms(1)]
  have "life_any (max_concurrent_tasks cfg) (local_phase s) (local_phase s')"
    if "local_get_task uuid s = None" "snd (local_delegate cfg uuid now a s) = s'" for uuid now a
    using that delegate_simulates [OF inv that(1)] unfolding life_any_def by (metis prod.collapse)
  moreover have "life_any (max_concurrent_tasks cfg) (local_phase s) (local_phase s')"
    if "snd (local_notify received now tid n s) = s'" for received now tid n
    using that notify_simulates unfolding life_any_def by (metis prod.collapse)
  moreover have "life_any (max_concurrent_tasks cfg) (local_phase s) (local_phase s')"
    if "local_cleanup inst utc s = s'" for inst utc
    using that cleanup_simulates(1) [OF inv] unfolding life_any_def by blast
  ultimately show ?thesis
    using assms(2) by (blast elim: local_stepE)
qed

interpretation local_lifecycle: refinement_mapping "local_reachable cfg" "local_step cfg" local_phase
    "life_any (max_concurrent_tasks cfg)" for cfg
  by unfold_locales (auto intro: local_reachable.step dest: local_step_simulates)

text \<open>
  C13: The local backend refines the life of tasks. It begins with every task unknown, and in every
  state it reaches each operation is one step of the automaton with the same answer: a delegation
  under a new identifier begins that task below the limit and is refused at it; a notification keeps
  its task running, ends it with the status it names, or is refused; a clean-up forgets ended tasks
  only, of which nothing was heard for two hours. No other task is touched.
\<close>

theorem local_backend_refines_lifecycle:
  assumes "local_reachable cfg s"
  shows "local_phase new_local = (\<lambda>_. Unknown)
    \<and> (local_get_task uuid s = None \<longrightarrow>
        (case local_delegate cfg uuid now a s of (res, s') \<Rightarrow>
          life_step (max_concurrent_tasks cfg) (Begin uuid) (accepted res) (local_phase s) (local_phase s')))
    \<and> (case local_notify received now2 tid n s of (res, s') \<Rightarrow>
        life_step (max_concurrent_tasks cfg) (Report tid (na_status n)) (accepted res) (local_phase s) (local_phase s'))
    \<and> life_step (max_concurrent_tasks cfg) Forget True (local_phase s) (local_phase (local_cleanup inst utc s))
    \<and> (local_phase (local_cleanup inst utc s) t \<noteq> local_phase s t \<longrightarrow>
        (\<exists>task. hm_get (l_completed s) t = Some task \<and> last_activity task \<le> utc - 7200))"
proof -
  note inv = reachable_local_inv [OF assms]
  have "local_phase new_local = (\<lambda>_. Unknown)" by (auto simp: local_phase_def new_local_def)
  then show ?thesis
    using delegate_simulates [OF inv, of uuid now a] notify_simulates [of received now2 tid n s] cleanup_simulates [OF inv]
    by (auto split: prod.splits)
qed

lemma local_backend_refines_lifecycle_witness:
  "life_step 5 (Report ''t1'' ''failed'') True (local_phase one_task) (local_phase failed_task)
   \<and> local_phase one_task ''t1'' = Running \<and> local_phase failed_task ''t1'' = Ended Failed"
proof -
  have "local_phase one_task ''t1'' = Running" "local_phase failed_task ''t1'' = Ended Failed"
    "accepted (fst (local_notify 160 160 ''t1'' (sample_notify ''failed'') one_task))"
    by code_simp+
  moreover have "case local_notify 160 160 ''t1'' (sample_notify ''failed'') one_task of (res, s') \<Rightarrow>
      life_step 5 (Report ''t1'' ''failed'') (accepted res) (local_phase one_task) (local_phase s')"
    using local_backend_refines_lifecycle [OF one_task_reachable,
        where received = 160 and ?now2.0 = 160 and tid = "''t1''" and n = "sample_notify ''failed''"]
    by (simp add: default_config_def sample_notify_def)
  ultimately show ?thesis by (simp add: failed_task_def split: prod.splits)
qed

text \<open>
  An end is final. Once a task of the local backend has ended, it is for the rest of the run
  either on record with the same status or forgotten, unless it is delegated anew after it was
  forgotten; it never goes back to running while it is on record.
\<close>

theorem local_end_is_final:
  assumes "local_reachable cfg s" and "local_phase s tid = Ended st" and "local_step cfg s s'"
  shows "local_phase s' tid = Ended st \<or> local_phase s' tid = Unknown"
proof -
  have "life_step limit l ok p q \<Longrightarrow> p tid = Ended st \<Longrightarrow> q tid = Ended st \<or> q tid = Unknown" for limit l ok p q
    by (auto elim!: life_stepE) metis
  with local_step_simulates [OF assms(1,3)] assms(2) show ?thesis unfolding life_any_def by metis
qed

end
