(* ===== verification/Daemon_Client.thy ===== *)
theory Daemon_Client
  imports Daemon_Workers
begin

text \<open>
  The client library of the daemon, \<open>devitd-client/src/lib.rs\<close>: one connection per message, a
  signed line out, at most one line back, and the operations built on it. The world behind the
  socket is a \<open>channel\<close>, so the operations are functions of the world; the daemon itself is one
  such world. The branches for named pipes and TCP are those of other platforms.
\<close>

subsection \<open>The channel\<close>

text \<open>What the client sees after it has connected and written one line.\<close>

datatype channel_answer =
  SendFailed string | NoAnswer | ChannelClosed | ReceiveFailed string | Answered string

record 'w channel =
  refuses :: "'w \<Rightarrow> string option"
  exchange :: "string \<Rightarrow> 'w \<Rightarrow> channel_answer \<times> 'w"

text \<open>A call fails with an error, or the HMAC key makes it panic.\<close>

datatype client_failure = ClientErr string | ClientPanic string

text \<open>The clock and the fresh identifiers of one message.\<close>

record client_reading =
  cr_ts :: nat
  cr_id :: string
  cr_nonce :: string
  cr_utc :: int

record devit_client =
  dv_sock_path :: string
  dv_ident :: string
  dv_secret :: string
  dv_use_compact :: bool
  dv_client_version :: "string option"
  dv_daemon_version :: "string option"
  dv_caps :: "string list"

subsection \<open>Signed messages\<close>

definition client_sign :: "wire_crates \<Rightarrow> string \<Rightarrow> msg \<Rightarrow> client_failure + msg" where
  "client_sign lib key m =
     (case sign_msg (daemon_crates.truncate lib) key m of
        None \<Rightarrow> Inl (ClientPanic ''HMAC key error'')
      | Some s \<Rightarrow> Inr s)"

definition client_verify :: "wire_crates \<Rightarrow> msg \<Rightarrow> string \<Rightarrow> bool" where
  "client_verify lib m key =
     (let base = daemon_crates.truncate lib;
          provided = (case unb64 base (m_hmac m) of Some bytes \<Rightarrow> bytes | None \<Rightarrow> [])
      in case hmac_sha256 base key (canonical_body base m) of
           None \<Rightarrow> False
         | Some tag \<Rightarrow> provided = tag)"

definition client_msg ::
  "wire_crates \<Rightarrow> client_reading \<Rightarrow> string \<Rightarrow> string \<Rightarrow> string \<Rightarrow> json \<Rightarrow> string \<Rightarrow> client_failure + msg" where
  "client_msg lib r ty from to p key =
     client_sign lib key
       \<lparr>msg_type = ty, msg_id = cr_id r, m_from = from, m_to = to, m_ts = cr_ts r,
        m_nonce = cr_nonce r, m_hmac = [], payload = p\<rparr>"

text \<open>The message in an answer: either format is read, and only a valid signature counts.\<close>

definition read_reply :: "wire_crates \<Rightarrow> string \<Rightarrow> string \<Rightarrow> msg option" where
  "read_reply lib key line =
     (let raw = trim line;
          checked = (\<lambda>m. if client_verify lib m key then Some m else None)
      in if raw = [] then None
         else case compact_of_text lib raw of
                Some c \<Rightarrow> checked (from_compact c)
              | None \<Rightarrow>
                  (case message_of_text lib raw of Some m \<Rightarrow> checked m | None \<Rightarrow> None))"

definition request_line :: "wire_crates \<Rightarrow> bool \<Rightarrow> msg \<Rightarrow> string option" where
  "request_line lib use_compact m =
     map_option (\<lambda>t. t @ [nl])
       (if use_compact then compact_text lib (to_compact m) else message_text lib m)"

definition send_message ::
  "wire_crates \<Rightarrow> 'w channel \<Rightarrow> devit_client \<Rightarrow> msg \<Rightarrow> 'w \<Rightarrow> (client_failure + msg option) \<times> 'w" where
  "send_message lib ch c m w =
     (case refuses ch w of
        Some e \<Rightarrow> (Inl (ClientErr e), w)
      | None \<Rightarrow>
          (case client_sign lib (dv_secret c) m of
             Inl e \<Rightarrow> (Inl e, w)
           | Inr signed \<Rightarrow>
               (case request_line lib (dv_use_compact c) signed of
                  None \<Rightarrow> (Inl (ClientErr ''serialization failed''), w)
                | Some line \<Rightarrow>
                    (case exchange ch line w of
                       (answer, w') \<Rightarrow>
                         (case answer of
                            SendFailed e \<Rightarrow> Inl (ClientErr e)
                          | NoAnswer \<Rightarrow> Inr None
                          | ChannelClosed \<Rightarrow> Inr None
                          | ReceiveFailed e \<Rightarrow> Inl (ClientErr e)
                          | Answered text \<Rightarrow> Inr (read_reply lib (dv_secret c) text), w')))))"

text \<open>What every operation does: a new signed message, sent.\<close>

definition request ::
  "wire_crates \<Rightarrow> 'w channel \<Rightarrow> client_reading \<Rightarrow> devit_client \<Rightarrow> string \<Rightarrow> string \<Rightarrow> json \<Rightarrow> 'w
     \<Rightarrow> (client_failure + msg option) \<times> 'w" where
  "request lib ch r c ty to p w =
     (case client_msg lib r ty (dv_ident c) to p (dv_secret c) of
        Inl e \<Rightarrow> (Inl e, w)
      | Inr m \<Rightarrow> send_message lib ch c m w)"

subsection \<open>The operations\<close>

definition default_caps :: "string list" where
  "default_caps = [''delegate'', ''notify'']"

definition merged_caps :: "string list \<Rightarrow> string list" where
  "merged_caps caps = remdups_adj (sort ((if caps = [] then default_caps else caps) @ default_caps))"

definition register_payload :: "devit_client \<Rightarrow> nat \<Rightarrow> json" where
  "register_payload c pid =
     JObj ([(''caps'', JArr (map JStr (dv_caps c))), (''pid'', JInt (int pid))]
       @ (case dv_client_version c of Some v \<Rightarrow> [(''version'', JStr v)] | None \<Rightarrow> []))"

definition registered :: "devit_client \<Rightarrow> msg option \<Rightarrow> client_failure + devit_client" where
  "registered c response =
     (case response of
        None \<Rightarrow> Inr c
      | Some m \<Rightarrow>
          if msg_type m = ''ACK'' then
            Inr (case get_str (payload m) ''daemon_version'' of
                   Some v \<Rightarrow> c\<lparr>dv_daemon_version := Some v\<rparr>
                 | None \<Rightarrow> c)
          else if msg_type m = ''ERR'' then
            Inl (ClientErr (case get_str (payload m) ''message'' of
                   Some t \<Rightarrow> t
                 | None \<Rightarrow> ''daemon rejected registration''))
          else Inr c)"

definition client_register ::
  "wire_crates \<Rightarrow> 'w channel \<Rightarrow> client_reading \<Rightarrow> nat \<Rightarrow> devit_client \<Rightarrow> 'w
     \<Rightarrow> (client_failure + devit_client) \<times> 'w" where
  "client_register lib ch r pid c w =
     (case request lib ch r c ''REGISTER'' orchestrator (register_payload c pid) w of
        (Inl e, w') \<Rightarrow> (Inl e, w')
      | (Inr response, w') \<Rightarrow> (registered c response, w'))"

definition connect_with_capabilities ::
  "wire_crates \<Rightarrow> 'w channel \<Rightarrow> client_reading \<Rightarrow> nat \<Rightarrow> bool \<Rightarrow> string \<Rightarrow> string \<Rightarrow> string
     \<Rightarrow> string option \<Rightarrow> string list \<Rightarrow> 'w \<Rightarrow> (client_failure + devit_client) \<times> 'w" where
  "connect_with_capabilities lib ch r pid use_compact sock ident key version caps w =
     client_register lib ch r pid
       \<lparr>dv_sock_path = sock, dv_ident = ident, dv_secret = key, dv_use_compact = use_compact,
        dv_client_version = version, dv_daemon_version = None, dv_caps = merged_caps caps\<rparr> w"

definition client_heartbeat ::
  "wire_crates \<Rightarrow> 'w channel \<Rightarrow> client_reading \<Rightarrow> devit_client \<Rightarrow> 'w \<Rightarrow> (client_failure + msg option) \<times> 'w" where
  "client_heartbeat lib ch r c w = request lib ch r c ''HEARTBEAT'' orchestrator (JObj []) w"

text \<open>The answer to a delegation is read and dropped; its identifier is what counts.\<close>

definition client_delegate ::
  "wire_crates \<Rightarrow> 'w channel \<Rightarrow> client_reading \<Rightarrow> devit_client \<Rightarrow> string \<Rightarrow> json \<Rightarrow> string \<Rightarrow> 'w
     \<Rightarrow> (client_failure + string) \<times> 'w" where
  "client_delegate lib ch r c to_worker task return_to w =
     (case request lib ch r c ''DELEGATE'' to_worker
             (JObj [(''task'', task), (''return_to'', JStr return_to)]) w of
        (Inl e, w') \<Rightarrow> (Inl e, w')
      | (Inr _, w') \<Rightarrow> (Inr (cr_id r), w'))"

definition client_notify ::
  "wire_crates \<Rightarrow> 'w channel \<Rightarrow> client_reading \<Rightarrow> devit_client \<Rightarrow> string \<Rightarrow> string \<Rightarrow> string \<Rightarrow> json
     \<Rightarrow> string option \<Rightarrow> 'w \<Rightarrow> (client_failure + unit) \<times> 'w" where
  "client_notify lib ch r c to tid st artifacts return_to w =
     (case request lib ch r c ''NOTIFY'' to
             (JObj ([(''task_id'', JStr tid), (''status'', JStr st), (''artifacts'', artifacts)]
               @ (case return_to of Some rt \<Rightarrow> [(''return_to'', JStr rt)] | None \<Rightarrow> []))) w of
        (Inl e, w') \<Rightarrow> (Inl e, w')
      | (Inr _, w') \<Rightarrow> (Inr (), w'))"

definition status_snapshot ::
  "wire_crates \<Rightarrow> 'w channel \<Rightarrow> client_reading \<Rightarrow> devit_client \<Rightarrow> 'w \<Rightarrow> (client_failure + msg option) \<times> 'w" where
  "status_snapshot lib ch r c w = request lib ch r c ''STATUS_REQUEST'' orchestrator (JObj []) w"

definition client_poll ::
  "wire_crates \<Rightarrow> 'w channel \<Rightarrow> client_reading \<Rightarrow> devit_client \<Rightarrow> 'w \<Rightarrow> (client_failure + msg option) \<times> 'w" where
  "client_poll lib ch r c w = request lib ch r c ''POLL'' orchestrator (JObj []) w"

text \<open>The heartbeat loop: what reaches the handler, and the error that ends it.\<close>

fun heartbeat_loop ::
  "wire_crates \<Rightarrow> 'w channel \<Rightarrow> devit_client \<Rightarrow> client_reading list \<Rightarrow> 'w
     \<Rightarrow> (client_failure option \<times> msg list) \<times> 'w" where
  "heartbeat_loop lib ch c [] w = ((None, []), w)"
| "heartbeat_loop lib ch c (r # rs) w =
     (case client_heartbeat lib ch r c w of
        (Inl e, w') \<Rightarrow> ((Some e, []), w')
      | (Inr m, w') \<Rightarrow>
          (case heartbeat_loop lib ch c rs w' of
             ((ending, ms), w'') \<Rightarrow> ((ending, (case m of Some x \<Rightarrow> [x] | None \<Rightarrow> []) @ ms), w'')))"

definition is_delegate_msg :: "msg \<Rightarrow> bool" where
  "is_delegate_msg m = (msg_type m = ''DELEGATE'')"

definition is_notify_msg :: "msg \<Rightarrow> bool" where
  "is_notify_msg m = (msg_type m = ''NOTIFY'')"

definition extract_task :: "msg \<Rightarrow> json option" where
  "extract_task m = jget (payload m) ''task''"

definition extract_return_to :: "msg \<Rightarrow> string option" where
  "extract_return_to m = get_str (payload m) ''return_to''"

record screenshot_response =
  sr_path :: string
  sr_format :: string
  sr_bytes :: nat
  sr_human_size :: "string option"

definition screenshot_of :: "json \<Rightarrow> client_failure + screenshot_response" where
  "screenshot_of p =
     (case get_str p ''path'' of
        None \<Rightarrow> Inl (ClientErr ''daemon response missing screenshot path'')
      | Some path \<Rightarrow>
          (let size_obj = jget p ''size''
           in case Option.bind (Option.bind size_obj (\<lambda>v. jget v ''bytes'')) as_u64 of
                None \<Rightarrow> Inl (ClientErr ''daemon response missing size.bytes'')
              | Some n \<Rightarrow>
                  Inr \<lparr>sr_path = path,
                       sr_format = (case get_str p ''format'' of Some f \<Rightarrow> f | None \<Rightarrow> ''png''),
                       sr_bytes = n,
                       sr_human_size = Option.bind (Option.bind size_obj (\<lambda>v. jget v ''human'')) as_str\<rparr>))"

definition capture_screenshot ::
  "wire_crates \<Rightarrow> 'w channel \<Rightarrow> client_reading \<Rightarrow> devit_client \<Rightarrow> 'w
     \<Rightarrow> (client_failure + screenshot_response) \<times> 'w" where
  "capture_screenshot lib ch r c w =
     (case request lib ch r c ''SCREENSHOT'' orchestrator (JObj []) w of
        (Inl e, w') \<Rightarrow> (Inl e, w')
      | (Inr None, w') \<Rightarrow> (Inl (ClientErr ''daemon did not return a response''), w')
      | (Inr (Some m), w') \<Rightarrow>
          ((if msg_type m = ''ACK'' then screenshot_of (payload m)
            else if msg_type m = ''ERR'' then
              Inl (ClientErr (case get_str (payload m) ''message'' of
                     Some t \<Rightarrow> t
                   | None \<Rightarrow> ''daemon rejected screenshot request''))
            else Inl (ClientErr (''unexpected daemon response: '' @ msg_type m))), w'))"

subsection \<open>The table format\<close>

text \<open>\<open>devitd-client/src/compact.rs\<close>: objects with the same members as rows under one header.\<close>

definition to_table_format :: "json list \<Rightarrow> string list \<Rightarrow> json" where
  "to_table_format objects cols =
     JObj [(''fmt'', JStr ''table''), (''cols'', JArr (map JStr cols)),
       (''rows'', JArr (map (\<lambda>obj. JArr (map (\<lambda>col. jopt (jget obj col)) cols)) objects))]"

text \<open>The members of one row; a name that is not text is skipped but keeps its place.\<close>

fun row_members :: "json list \<Rightarrow> json list \<Rightarrow> (string \<times> json) list \<Rightarrow> (string \<times> json) list" where
  "row_members [] row acc = acc"
| "row_members (col # cols) row acc =
     row_members cols (drop 1 row)
       (case as_str col of
          Some name \<Rightarrow> AList.update name (case row of v # _ \<Rightarrow> v | [] \<Rightarrow> JNull) acc
        | None \<Rightarrow> acc)"

definition from_table_format :: "json \<Rightarrow> json list" where
  "from_table_format table =
     (let items = (\<lambda>key. case Option.bind (jget table key) as_array of Some xs \<Rightarrow> xs | None \<Rightarrow> [])
      in map (\<lambda>row. JObj (row_members (items ''cols'') row []))
           (List.map_filter as_array (items ''rows'')))"

end
