(* ===== verification/Daemon_Backend.thy ===== *)
theory Daemon_Backend
  imports Daemon_Client
begin

text \<open>
  The backend of \<open>crates/orchestration/src/daemon.rs\<close>: the orchestration of a process that talks
  to the daemon. It keeps a copy of the daemon's tables of tasks, refreshed by a status snapshot
  and by the notifications in its mail box. The state is the record \<open>backend\<close>; the world behind
  the socket is that of \<open>Daemon_Client\<close>. Times count nanoseconds.
\<close>

record backend =
  bk_config :: orchestration_config
  bk_socket_path :: string
  bk_ident :: string
  bk_secret :: string
  bk_client :: "devit_client option"
  bk_active :: "(string, delegated_task) hmap"
  bk_completed :: "(string, delegated_task) hmap"
  bk_last_cleanup :: "nat option"

text \<open>The process: its number, the format it asks for, its version.\<close>

record process_env =
  pe_pid :: nat
  pe_compact :: bool
  pe_version :: string

record client_crates = wire_crates +
  status_of_json :: "json \<Rightarrow> orchestration_status option"

abbreviation wire_of :: "client_crates \<Rightarrow> wire_crates" where
  "wire_of lib \<equiv> wire_crates.truncate lib"

definition default_socket :: string where
  "default_socket = ''/tmp/devitd.sock''"

definition default_secret :: string where
  "default_secret = ''change-me-in-production''"

definition new_backend :: "orchestration_config \<Rightarrow> string option \<Rightarrow> string option \<Rightarrow> process_env \<Rightarrow> backend" where
  "new_backend cfg secret_env ident_env env =
     \<lparr>bk_config = cfg,
      bk_socket_path = (case daemon_socket cfg of Some p \<Rightarrow> p | None \<Rightarrow> default_socket),
      bk_ident = (case ident_env of Some i \<Rightarrow> i | None \<Rightarrow> ''devit-cli:'' @ show_nat (pe_pid env)),
      bk_secret = (case secret_env of Some k \<Rightarrow> k | None \<Rightarrow> default_secret),
      bk_client = None, bk_active = [], bk_completed = [], bk_last_cleanup = None\<rparr>"

subsection \<open>The connection\<close>

text \<open>A result of a call, the backend after it, and the world after it.\<close>

type_synonym ('a, 'w) called = "(client_failure + 'a) \<times> backend \<times> 'w"

fun mode_text :: "orchestration_mode \<Rightarrow> string" where
  "mode_text LocalMode = ''Local''"
| "mode_text DaemonMode = ''Daemon''"
| "mode_text AutoMode = ''Auto''"

definition connect_error :: "backend \<Rightarrow> client_failure \<Rightarrow> client_failure" where
  "connect_error b e =
     (case e of
        ClientPanic p \<Rightarrow> ClientPanic p
      | ClientErr _ \<Rightarrow>
          ClientErr (''failed to connect to devitd at '' @ bk_socket_path b @ '' (mode: ''
            @ mode_text (mode (bk_config b)) @ '')''))"

definition ensure_connected ::
  "client_crates \<Rightarrow> 'w channel \<Rightarrow> process_env \<Rightarrow> client_reading \<Rightarrow> backend \<Rightarrow> 'w \<Rightarrow> (devit_client, 'w) called" where
  "ensure_connected lib ch env r b w =
     (case bk_client b of
        Some c \<Rightarrow> (Inr c, b, w)
      | None \<Rightarrow>
          (case connect_with_capabilities (wire_of lib) ch r (pe_pid env) (pe_compact env)
                  (bk_socket_path b) (bk_ident b) (bk_secret b)
                  (Some (''devit-cli/'' @ pe_version env)) [] w of
             (Inl e, w') \<Rightarrow> (Inl (connect_error b e), b, w')
           | (Inr c, w') \<Rightarrow> (Inr c, b\<lparr>bk_client := Some c\<rparr>, w')))"

definition invalidate_client :: "backend \<Rightarrow> backend" where
  "invalidate_client b = b\<lparr>bk_client := None\<rparr>"

text \<open>An error forgets the client; a panic passes through.\<close>

definition drop_on_error :: "client_failure \<Rightarrow> backend \<Rightarrow> backend" where
  "drop_on_error e b = (case e of ClientErr _ \<Rightarrow> invalidate_client b | ClientPanic _ \<Rightarrow> b)"

definition with_client ::
  "client_crates \<Rightarrow> 'w channel \<Rightarrow> process_env \<Rightarrow> client_reading
     \<Rightarrow> (devit_client \<Rightarrow> 'w \<Rightarrow> (client_failure + 'a) \<times> 'w) \<Rightarrow> backend \<Rightarrow> 'w \<Rightarrow> ('a, 'w) called" where
  "with_client lib ch env r op b w =
     (case ensure_connected lib ch env r b w of
        (Inl e, b1, w1) \<Rightarrow> (Inl e, b1, w1)
      | (Inr c, b1, w1) \<Rightarrow>
          (case op c w1 of
             (Inr v, w2) \<Rightarrow> (Inr v, b1, w2)
           | (Inl e, w2) \<Rightarrow> (Inl e, drop_on_error e b1, w2)))"

definition backend_ping ::
  "client_crates \<Rightarrow> 'w channel \<Rightarrow> process_env \<Rightarrow> (nat \<Rightarrow> client_reading) \<Rightarrow> backend \<Rightarrow> 'w \<Rightarrow> (unit, 'w) called" where
  "backend_ping lib ch env rs b w =
     (case with_client lib ch env (rs 0) (client_heartbeat (wire_of lib) ch (rs 1)) b w of
        (Inl e, b', w') \<Rightarrow> (Inl e, b', w')
      | (Inr _, b', w') \<Rightarrow> (Inr (), b', w'))"

text \<open>\<open>DaemonBackend::new\<close>: there is no backend without a connection.\<close>

definition backend_new ::
  "client_crates \<Rightarrow> 'w channel \<Rightarrow> process_env \<Rightarrow> client_reading \<Rightarrow> orchestration_config
     \<Rightarrow> string option \<Rightarrow> string option \<Rightarrow> 'w \<Rightarrow> (client_failure + backend) \<times> 'w" where
  "backend_new lib ch env r cfg secret_env ident_env w =
     (case ensure_connected lib ch env r (new_backend cfg secret_env ident_env env) w of
        (Inl e, b, w') \<Rightarrow> (Inl e, w')
      | (Inr _, b, w') \<Rightarrow> (Inr b, w'))"

subsection \<open>The copy of the tables\<close>

definition record_task :: "delegated_task \<Rightarrow> backend \<Rightarrow> backend" where
  "record_task task b = b\<lparr>bk_active := hm_insert (task_id task) task (bk_active b)\<rparr>"

definition report_note :: "int \<Rightarrow> notify_args \<Rightarrow> task_notification" where
  "report_note t n =
     \<lparr>received_at = t, n_status = na_status n, n_summary = na_summary n, n_details = na_details n,
      n_evidence = na_evidence n, auto_generated = False, n_metadata = None\<rparr>"

definition unknown_task :: "backend \<Rightarrow> int \<Rightarrow> string \<Rightarrow> notify_args \<Rightarrow> delegated_task" where
  "unknown_task b t tid n =
     \<lparr>task_id = tid, goal = na_summary n, delegated_to = [], task_created_at = t,
      timeout_secs = default_timeout_secs (bk_config b), task_status = Pending,
      task_context = None, watch_patterns = [], last_activity = t,
      notifications = [report_note t n], task_working_dir = None, response_format = None,
      task_model = None, model_resolved = None\<rparr>"

text \<open>The task as it leaves the tables, and the tables without it.\<close>

definition taken_task ::
  "int \<Rightarrow> string \<Rightarrow> notify_args \<Rightarrow> backend \<Rightarrow> delegated_task \<times> backend" where
  "taken_task t tid n b =
     (case hm_get (bk_active b) tid of
        Some task \<Rightarrow>
          (task\<lparr>notifications := notifications task @ [report_note t n], last_activity := t\<rparr>,
           b\<lparr>bk_active := hm_remove tid (bk_active b)\<rparr>)
      | None \<Rightarrow>
          (case hm_get (bk_completed b) tid of
             Some task \<Rightarrow> (task, b\<lparr>bk_completed := hm_remove tid (bk_completed b)\<rparr>)
           | None \<Rightarrow> (unknown_task b t tid n, b)))"

definition last_summary :: "delegated_task \<Rightarrow> string option" where
  "last_summary task =
     (if notifications task = [] then None else Some (n_summary (last (notifications task))))"

definition reported_task :: "int \<Rightarrow> notify_args \<Rightarrow> delegated_task \<Rightarrow> delegated_task" where
  "reported_task t n task =
     (let task' = task\<lparr>task_status := map_status (na_status n), last_activity := t\<rparr>
      in if last_summary task' = Some (na_summary n) then task'
         else task'\<lparr>notifications := notifications task'
                @ [\<lparr>received_at = t, n_status = na_status n, n_summary = na_summary n,
                    n_details = None, n_evidence = None, auto_generated = True,
                    n_metadata = None\<rparr>]\<rparr>)"

definition record_notification :: "int \<Rightarrow> string \<Rightarrow> notify_args \<Rightarrow> backend \<Rightarrow> backend" where
  "record_notification t tid n b =
     (case taken_task t tid n b of
        (found, b') \<Rightarrow>
          (let task = reported_task t n found
           in if is_terminal (task_status task) then
                b'\<lparr>bk_completed := hm_insert tid task (bk_completed b')\<rparr>
              else b'\<lparr>bk_active := hm_insert tid task (bk_active b')\<rparr>))"

definition backend_parts :: "client_crates \<Rightarrow> json \<Rightarrow> string \<times> json option \<times> json option" where
  "backend_parts lib artifacts =
     (case artifacts of
        JObj obj \<Rightarrow>
          (case get_str artifacts ''summary'' of Some s \<Rightarrow> s | None \<Rightarrow> ''daemon notification'',
           map_of obj ''details'', map_of obj ''evidence'')
      | other \<Rightarrow> (json_text lib other, None, None))"

definition process_notification :: "client_crates \<Rightarrow> int \<Rightarrow> msg \<Rightarrow> backend \<Rightarrow> client_failure + backend" where
  "process_notification lib t m b =
     (case get_str (payload m) ''task_id'' of
        None \<Rightarrow> Inl (ClientErr ''missing task_id in daemon notification'')
      | Some tid \<Rightarrow>
          (let st = (case get_str (payload m) ''status'' of Some s \<Rightarrow> s | None \<Rightarrow> ''progress'')
           in case backend_parts lib (jopt (jget (payload m) ''artifacts'')) of
                (summary, details, evidence) \<Rightarrow>
                  Inr (record_notification t tid
                         \<lparr>na_status = st, na_summary = summary, na_details = details,
                          na_evidence = evidence\<rparr> b)))"

definition table_of :: "delegated_task list \<Rightarrow> (string, delegated_task) hmap" where
  "table_of tasks = foldl (\<lambda>m task. hm_insert (task_id task) task m) [] tasks"

definition process_snapshot :: "client_crates \<Rightarrow> msg \<Rightarrow> backend \<Rightarrow> client_failure + backend" where
  "process_snapshot lib m b =
     (case status_of_json lib (payload m) of
        None \<Rightarrow> Inl (ClientErr ''invalid status snapshot from daemon'')
      | Some st \<Rightarrow>
          Inr (b\<lparr>bk_active := table_of (st_active_tasks st),
                 bk_completed := table_of (st_completed_tasks st)\<rparr>))"

definition handle_daemon_message :: "client_crates \<Rightarrow> int \<Rightarrow> msg \<Rightarrow> backend \<Rightarrow> client_failure + backend" where
  "handle_daemon_message lib t m b =
     (if is_notify_msg m then process_notification lib t m b
      else if msg_type m = ''STATUS_RESPONSE'' then process_snapshot lib m b
      else Inr b)"

subsection \<open>Refreshing the copy\<close>

text \<open>The loop of polls ends when a poll brings nothing. Against a world that always answers it
  never ends: \<open>None\<close>.\<close>

partial_function (option) poll_loop ::
  "client_crates \<Rightarrow> 'w channel \<Rightarrow> devit_client \<Rightarrow> (nat \<Rightarrow> client_reading) \<Rightarrow> nat \<Rightarrow> backend \<Rightarrow> 'w
     \<Rightarrow> (unit, 'w) called option" where
  "poll_loop lib ch c rs i b w =
     (case client_poll (wire_of lib) ch (rs i) c w of
        (Inl e, w') \<Rightarrow> Some (Inl e, b, w')
      | (Inr found, w') \<Rightarrow>
          (case found of
             None \<Rightarrow> Some (Inr (), b, w')
           | Some m \<Rightarrow>
               (case handle_daemon_message lib (cr_utc (rs i)) m b of
                  Inl e \<Rightarrow> Some (Inl e, b, w')
                | Inr b' \<Rightarrow> poll_loop lib ch c rs (Suc i) b' w')))"

text \<open>One answer of the daemon, handled when there is one.\<close>

definition handle_answer ::
  "client_crates \<Rightarrow> int \<Rightarrow> backend \<Rightarrow> (client_failure + msg option) \<times> 'w \<Rightarrow> (unit, 'w) called" where
  "handle_answer lib t b answer =
     (case answer of
        (Inl e, w) \<Rightarrow> (Inl e, b, w)
      | (Inr None, w) \<Rightarrow> (Inr (), b, w)
      | (Inr (Some m), w) \<Rightarrow>
          (case handle_daemon_message lib t m b of
             Inl e \<Rightarrow> (Inl e, b, w)
           | Inr b' \<Rightarrow> (Inr (), b', w)))"

definition consume_notification ::
  "client_crates \<Rightarrow> 'w channel \<Rightarrow> devit_client \<Rightarrow> (nat \<Rightarrow> client_reading) \<Rightarrow> backend \<Rightarrow> 'w
     \<Rightarrow> (unit, 'w) called option" where
  "consume_notification lib ch c rs b w =
     (case handle_answer lib (cr_utc (rs 0)) b (client_heartbeat (wire_of lib) ch (rs 0) c w) of
        (Inl e, b1, w1) \<Rightarrow> Some (Inl e, b1, w1)
      | (Inr _, b1, w1) \<Rightarrow> poll_loop lib ch c rs 1 b1 w1)"

text \<open>
  A failed status request leaves the client as it is, a bad answer or a failed poll forgets it.
\<close>

definition refresh_notifications ::
  "client_crates \<Rightarrow> 'w channel \<Rightarrow> process_env \<Rightarrow> (nat \<Rightarrow> client_reading) \<Rightarrow> backend \<Rightarrow> 'w
     \<Rightarrow> (unit, 'w) called option" where
  "refresh_notifications lib ch env rs b w =
     (case ensure_connected lib ch env (rs 0) b w of
        (Inl e, b1, w1) \<Rightarrow> Some (Inl e, b1, w1)
      | (Inr c, b1, w1) \<Rightarrow>
          (case status_snapshot (wire_of lib) ch (rs 1) c w1 of
             (Inl e, w2) \<Rightarrow> Some (Inl e, b1, w2)
           | (Inr found, w2) \<Rightarrow>
               (case handle_answer lib (cr_utc (rs 1)) b1 (Inr found, w2) of
                  (Inl e, b2, w2) \<Rightarrow> Some (Inl e, drop_on_error e b2, w2)
                | (Inr _, b2, w2) \<Rightarrow>
                    map_option (\<lambda>(res, b3, w3).
                        (res, case res of Inl e \<Rightarrow> drop_on_error e b3 | Inr _ \<Rightarrow> b3, w3))
                      (consume_notification lib ch c (\<lambda>i. rs (2 + i)) b2 w2))))"

text \<open>Inside \<open>status\<close> and \<open>get_task\<close> an error of the refresh is only a warning.\<close>

definition refreshed ::
  "client_crates \<Rightarrow> 'w channel \<Rightarrow> process_env \<Rightarrow> (nat \<Rightarrow> client_reading) \<Rightarrow> (backend \<Rightarrow> 'a) \<Rightarrow> backend \<Rightarrow> 'w
     \<Rightarrow> ('a, 'w) called option" where
  "refreshed lib ch env rs look b w =
     map_option (\<lambda>(res, b', w').
         (case res of Inl (ClientPanic p) \<Rightarrow> Inl (ClientPanic p) | _ \<Rightarrow> Inr (look b'), b', w'))
       (refresh_notifications lib ch env rs b w)"

definition backend_cleanup :: "nat \<Rightarrow> int \<Rightarrow> backend \<Rightarrow> backend" where
  "backend_cleanup inst wall b =
     (if (case bk_last_cleanup b of Some t \<Rightarrow> 30 * second < inst - t | None \<Rightarrow> True) then
        b\<lparr>bk_last_cleanup := Some inst,
          bk_completed := hm_retain (\<lambda>_ task. wall - 7200 * 10 ^ 9 < last_activity task) (bk_completed b)\<rparr>
      else b)"

subsection \<open>The operations of the backend\<close>

definition assemble_task_payload :: "delegate_args \<Rightarrow> nat \<Rightarrow> string list \<Rightarrow> json" where
  "assemble_task_payload a secs patterns =
     JObj ([(''action'', JStr ''devit_delegate''), (''goal'', JStr (a_goal a)), (''timeout'', JInt (int secs))]
       @ (if patterns = [] then [] else [(''watch_patterns'', JArr (map JStr patterns))])
       @ (case a_context a of Some ctx \<Rightarrow> [(''context'', ctx)] | None \<Rightarrow> [])
       @ (case a_model a of Some m \<Rightarrow> [(''model'', JStr m)] | None \<Rightarrow> [])
       @ (case a_working_dir a of
            Some d \<Rightarrow> [(''working_dir'', JStr (map (\<lambda>c. if c = CHR 0x5C then CHR ''/'' else c) d))]
          | None \<Rightarrow> [])
       @ (case a_response_format a of Some f \<Rightarrow> [(''format'', JStr f)] | None \<Rightarrow> []))"

definition build_artifacts :: "client_crates \<Rightarrow> int \<Rightarrow> notify_args \<Rightarrow> json" where
  "build_artifacts lib t n =
     JObj ([(''summary'', JStr (na_summary n))]
       @ (case na_details n of Some d \<Rightarrow> [(''details'', d)] | None \<Rightarrow> [])
       @ (case na_evidence n of Some e \<Rightarrow> [(''evidence'', e)] | None \<Rightarrow> [])
       @ [(''reported_at'', JStr (rfc3339 lib t))])"

definition pending_task ::
  "int \<Rightarrow> string \<Rightarrow> nat \<Rightarrow> string list \<Rightarrow> delegate_args \<Rightarrow> delegated_task" where
  "pending_task t tid secs patterns a =
     \<lparr>task_id = tid, goal = a_goal a, delegated_to = a_delegated_to a, task_created_at = t,
      timeout_secs = secs, task_status = Pending, task_context = a_context a,
      watch_patterns = patterns, last_activity = t, notifications = [],
      task_working_dir = a_working_dir a, response_format = a_response_format a,
      task_model = a_model a, model_resolved = None\<rparr>"

definition backend_delegate ::
  "client_crates \<Rightarrow> 'w channel \<Rightarrow> process_env \<Rightarrow> (nat \<Rightarrow> client_reading) \<Rightarrow> delegate_args \<Rightarrow> backend \<Rightarrow> 'w
     \<Rightarrow> (delegate_result, 'w) called" where
  "backend_delegate lib ch env rs a b w =
     (let secs = (case a_timeout a of Some d \<Rightarrow> d | None \<Rightarrow> default_timeout_secs (bk_config b));
          patterns = (case a_watch_patterns a of Some ps \<Rightarrow> ps | None \<Rightarrow> default_watch_patterns (bk_config b));
          task = assemble_task_payload a secs patterns
      in case with_client lib ch env (rs 0)
                (\<lambda>c. client_delegate (wire_of lib) ch (rs 1) c (a_delegated_to a) task (dv_ident c)) b w of
           (Inl e, b1, w1) \<Rightarrow> (Inl e, b1, w1)
         | (Inr tid, b1, w1) \<Rightarrow>
             (Inr \<lparr>dr_task_id = tid, dr_timeout_secs = secs\<rparr>,
              record_task (pending_task (cr_utc (rs 1)) tid secs patterns a) b1, w1))"

definition backend_notify ::
  "client_crates \<Rightarrow> 'w channel \<Rightarrow> process_env \<Rightarrow> (nat \<Rightarrow> client_reading) \<Rightarrow> string \<Rightarrow> notify_args \<Rightarrow> backend \<Rightarrow> 'w
     \<Rightarrow> (unit, 'w) called" where
  "backend_notify lib ch env rs tid n b w =
     (let artifacts = build_artifacts lib (cr_utc (rs 1)) n
      in case with_client lib ch env (rs 0)
                (\<lambda>c. client_notify (wire_of lib) ch (rs 1) c orchestrator tid (na_status n) artifacts
                       (Some (dv_ident c))) b w of
           (Inl e, b1, w1) \<Rightarrow> (Inl e, b1, w1)
         | (Inr _, b1, w1) \<Rightarrow>
             (Inr (), (if eq_ignore_ascii_case (na_status n) ''ack'' then b1
                       else record_notification (cr_utc (rs 1)) tid n b1), w1))"

definition mirror_status :: "status_filter \<Rightarrow> backend \<Rightarrow> orchestration_status" where
  "mirror_status f b =
     \<lparr>st_active_tasks =
        (case f of
           FilterActive \<Rightarrow> hm_values (bk_active b)
         | FilterFailed \<Rightarrow> filter (has_status Failed) (hm_values (bk_completed b))
         | FilterCompleted \<Rightarrow> []
         | FilterAll \<Rightarrow> hm_values (bk_active b)),
      st_completed_tasks =
        (case f of
           FilterCompleted \<Rightarrow> filter (has_status Completed) (hm_values (bk_completed b))
         | FilterActive \<Rightarrow> []
         | FilterAll \<Rightarrow> hm_values (bk_completed b)
         | FilterFailed \<Rightarrow> hm_values (bk_completed b)),
      st_summary =
        \<lparr>total_active = length (bk_active b),
         total_completed = length (filter (has_status Completed) (hm_values (bk_completed b))),
         total_failed = length (filter (has_status Failed) (hm_values (bk_completed b))),
         oldest_active_task = map_option task_id (min_by_key task_created_at (hm_values (bk_active b)))\<rparr>\<rparr>"

definition backend_status ::
  "client_crates \<Rightarrow> 'w channel \<Rightarrow> process_env \<Rightarrow> (nat \<Rightarrow> client_reading) \<Rightarrow> status_filter \<Rightarrow> backend \<Rightarrow> 'w
     \<Rightarrow> (orchestration_status, 'w) called option" where
  "backend_status lib ch env rs f b w = refreshed lib ch env rs (mirror_status f) b w"

definition known_task :: "string \<Rightarrow> backend \<Rightarrow> delegated_task option" where
  "known_task tid b = or_else (hm_get (bk_active b) tid) (hm_get (bk_completed b) tid)"

definition backend_get_task ::
  "client_crates \<Rightarrow> 'w channel \<Rightarrow> process_env \<Rightarrow> (nat \<Rightarrow> client_reading) \<Rightarrow> string \<Rightarrow> backend \<Rightarrow> 'w
     \<Rightarrow> (delegated_task option, 'w) called option" where
  "backend_get_task lib ch env rs tid b w =
     (case known_task tid b of
        Some task \<Rightarrow> Some (Inr (Some task), b, w)
      | None \<Rightarrow> refreshed lib ch env rs (known_task tid) b w)"

subsection \<open>Starting the daemon\<close>

text \<open>What the search for the binary sees of the environment and the file system.\<close>

record binary_env =
  be_env :: "string option"
  be_manifest :: "string option"
  be_exe :: "string option"
  be_is_file :: "string \<Rightarrow> bool"
  be_canonical :: "string \<Rightarrow> string option"
  be_which :: "string option"

definition binary_candidates :: "binary_env \<Rightarrow> string list" where
  "binary_candidates env =
     [''./target/debug/devitd'', ''./target/release/devitd'']
       @ (case be_manifest env of
            Some d \<Rightarrow> [path_join d ''../../target/debug/devitd'', path_join d ''../../target/release/devitd'']
          | None \<Rightarrow> [])
       @ (case Option.bind (be_exe env) parent_text of
            Some d \<Rightarrow> map (path_join d) [''devitd'', ''devitd.exe'', ''../devitd'', ''../devitd.exe'',
                       ''bin/devitd'', ''bin/devitd.exe'']
          | None \<Rightarrow> [])"

definition find_devitd_binary :: "binary_env \<Rightarrow> string + string" where
  "find_devitd_binary env =
     (case (case be_env env of Some p \<Rightarrow> if be_is_file env p then Some p else None | None \<Rightarrow> None) of
        Some p \<Rightarrow> Inr p
      | None \<Rightarrow>
          (case find (be_is_file env) (binary_candidates env) of
             Some p \<Rightarrow> Inr (case be_canonical env p of Some q \<Rightarrow> q | None \<Rightarrow> p)
           | None \<Rightarrow>
               (case Option.bind (map_option trim (be_which env)) nonempty of
                  Some p \<Rightarrow> Inr p
                | None \<Rightarrow>
                    Inl (''devitd binary not found. Build it with `cargo build -p devitd` or set DEVITD_BINARY''))))"

text \<open>One round of waiting: does the socket answer, has the child ended, is the time over.\<close>

record startup_probe =
  sp_answers :: bool
  sp_child :: "string + string option"
  sp_late :: bool

text \<open>The rounds of the loop as a list; \<open>None\<close> while it is still waiting.\<close>

fun await_daemon :: "nat \<Rightarrow> startup_probe list \<Rightarrow> (string + unit) option" where
  "await_daemon ms [] = None"
| "await_daemon ms (p # ps) =
     (if sp_answers p then Some (Inr ())
      else case sp_child p of
             Inl e \<Rightarrow> Some (Inl e)
           | Inr (Some st) \<Rightarrow>
               Some (Inl (''devitd daemon exited prematurely with status '' @ st @ '' while starting''))
           | Inr None \<Rightarrow>
               if sp_late p then Some (Inl (''devitd daemon failed to start within '' @ show_nat ms @ ''ms''))
               else await_daemon ms ps)"

definition ensure_daemon_running ::
  "binary_env \<Rightarrow> bool \<Rightarrow> string option \<Rightarrow> (string \<Rightarrow> string option) \<Rightarrow> bool \<Rightarrow> nat \<Rightarrow> startup_probe list
     \<Rightarrow> (string + unit) option" where
  "ensure_daemon_running env answers mkdir_error spawn_error auto_start timeout_ms probes =
     (if answers then Some (Inr ())
      else if \<not> auto_start then Some (Inl ''devitd daemon not running and auto_start is disabled'')
      else case (case mkdir_error of Some e \<Rightarrow> Inl e | None \<Rightarrow> find_devitd_binary env) of
             Inl e \<Rightarrow> Some (Inl e)
           | Inr binary \<Rightarrow>
               (case spawn_error binary of
                  Some _ \<Rightarrow> Some (Inl (''failed to spawn devitd binary at '' @ binary))
                | None \<Rightarrow> await_daemon (if timeout_ms = 0 then 3000 else timeout_ms) probes))"

end
