(* ===== verification/Client_Properties.thy ===== *)
theory Client_Properties
  imports Daemon_Backend "HOL-Library.Countable"
begin

text \<open>
  The client side against the daemon: what a message becomes on the way, what a client believes,
  when a refresh ends and what the copy of the tables then holds. The channel of a client that
  talks to the daemon is the daemon's own loop over the lines of a connection.
\<close>

subsection \<open>The daemon as a channel\<close>

text \<open>Each call is a connection of its own: one line in, at most one line out. The number counts
  the readings of the clock that the daemon has used.\<close>

definition daemon_channel :: "wire_crates \<Rightarrow> (nat \<Rightarrow> reading) \<Rightarrow> (nat \<times> daemon_state) channel" where
  "daemon_channel lib rs =
     \<lparr>refuses = \<lambda>_. None,
      exchange = \<lambda>line (i, s).
        (case handle_line lib (rs i) line s of
           (out, conn, effects, s') \<Rightarrow>
             (case out of
                text # _ \<Rightarrow> Answered text
              | [] \<Rightarrow> if conn = Open then NoAnswer else ChannelClosed, Suc i, s'))\<rparr>"

definition wire_total :: "wire_crates \<Rightarrow> bool" where
  "wire_total lib = ((\<forall>c. compact_text lib c \<noteq> None) \<and> (\<forall>m. message_text lib m \<noteq> None))"

definition codec_ok :: "wire_crates \<Rightarrow> bool" where
  "codec_ok lib = ((\<forall>x. unb64 lib (b64 lib x) = Some x) \<and> (\<forall>k x. hmac_sha256 lib k x \<noteq> None))"

lemma base_fields [simp]:
  "unb64 (daemon_crates.truncate lib) = unb64 lib" "b64 (daemon_crates.truncate lib) = b64 lib"
  "hmac_sha256 (daemon_crates.truncate lib) = hmac_sha256 lib"
  by (simp_all add: daemon_crates.truncate_def)

lemma client_verify_iff: "client_verify lib m key \<longleftrightarrow> well_signed (daemon_crates.truncate lib) key m"
  by (auto simp: client_verify_def well_signed_def Let_def split: option.splits)

lemma read_reply_eq:
  "read_reply lib key line =
     (case line_message lib line of
        Some m \<Rightarrow> if client_verify lib m key then Some m else None
      | None \<Rightarrow> None)"
  by (simp add: read_reply_def line_message_def Let_def split: option.split)

lemma request_line_total:
  assumes "wire_total lib"
  shows "\<exists>line. request_line lib compact m = Some line"
proof (cases compact)
  case True
  with assms show ?thesis by (auto simp: wire_total_def request_line_def)
next
  case False
  with assms show ?thesis by (auto simp: wire_total_def request_line_def)
qed

lemma request_reads_back:
  assumes "wire_round_trip lib" and "request_line lib compact m = Some line"
  shows "line_message lib line = Some m"
  using assms by (auto simp: request_line_def line_message_def wire_round_trip_def split: if_splits)

text \<open>A line that carries a message is served, and the answer comes back in the same format.\<close>

lemma handle_line_serves:
  assumes "line_message lib line = Some m"
  shows "\<exists>compact. \<forall>r s. handle_line lib r line s
    = answer_line (if compact then compact_text lib \<circ> to_compact else message_text lib)
        (serve (daemon_crates.truncate lib) r m s)"
proof -
  from assms have t: "trim line \<noteq> []" by (auto simp: line_message_def)
  show ?thesis
  proof (cases "compact_of_text lib (trim line)")
    case None
    with assms t show ?thesis
      by (intro exI [of _ False]) (simp add: line_message_def handle_line_def Let_def)
  next
    case (Some c)
    with assms t show ?thesis
      by (intro exI [of _ True]) (simp add: line_message_def handle_line_def Let_def)
  qed
qed

lemma sign_total: "codec_ok lib \<Longrightarrow> \<exists>s. sign_msg (daemon_crates.truncate lib) key m = Some s"
  by (auto simp: codec_ok_def sign_msg_def split: option.split)

lemma client_sign_total: "codec_ok lib \<Longrightarrow> \<exists>s. client_sign lib key m = Inr s"
  using sign_total [of lib key m] by (auto simp: client_sign_def)

lemma client_sign_fields:
  assumes "client_sign lib key m = Inr s"
  shows "msg_type s = msg_type m" "m_from s = m_from m" "payload s = payload m" "msg_id s = msg_id m"
  using assms by (auto simp: client_sign_def sign_msg_def split: option.splits)

lemma signed_well:
  assumes "codec_ok lib" and "sign_msg (daemon_crates.truncate lib) key m = Some s"
  shows "well_signed (daemon_crates.truncate lib) key s"
  using assms by (auto simp: codec_ok_def sign_msg_def well_signed_def split: option.splits)

lemma handle_secret: "secret (snd (snd (handle_message lib r m s))) = secret s"
  using step_secret [OF receive_step] by blast

lemma dispatch_keeps_secret:
  "well_signed lib (secret s) m \<Longrightarrow> dispatch lib r m s = (out, effects, s') \<Longrightarrow> secret s' = secret s"
  using handle_secret [of lib r m s] handle_well_signed [of lib s m r] by simp

lemma daemon_answers:
  assumes "wire_round_trip lib" and "wire_total lib" and "codec_ok lib" and "dv_secret c = secret s"
    and "client_sign lib (secret s) m = Inr signed"
    and "dispatch (daemon_crates.truncate lib) (rs i) signed s = (out, effects, s')"
  shows "send_message lib (daemon_channel lib rs) c m (i, s)
    = (Inr (case out of
              Reply reply \<Rightarrow> sign_msg (daemon_crates.truncate lib) (secret s) reply
            | _ \<Rightarrow> None), Suc i, s')"
proof -
  let ?base = "daemon_crates.truncate lib"
  have sign: "sign_msg ?base (secret s) m = Some signed"
    using assms(5) by (auto simp: client_sign_def split: option.splits)
  obtain line where line: "request_line lib (dv_use_compact c) signed = Some line"
    using request_line_total [OF assms(2)] by blast
  obtain compact where serve: "\<forall>r s. handle_line lib r line s
      = answer_line (if compact then compact_text lib \<circ> to_compact else message_text lib)
          (serve ?base r signed s)"
    using handle_line_serves [OF request_reads_back [OF assms(1) line]] by blast
  have ws: "well_signed ?base (secret s) signed"
    using signed_well [OF assms(3) sign] .
  have handled: "handle_message ?base (rs i) signed s = (out, effects, s')"
    using handle_well_signed [OF ws] assms(6) by simp
  have sec: "secret s' = secret s"
    using dispatch_keeps_secret [OF ws assms(6)] .
  show ?thesis
  proof (cases out)
    case (Reply reply)
    obtain sr where sr: "sign_msg ?base (secret s) reply = Some sr"
      using sign_total [OF assms(3)] by blast
    obtain pr where pr: "(if compact then compact_text lib \<circ> to_compact else message_text lib) sr = Some pr"
      using assms(2) by (cases compact) (auto simp: wire_total_def)
    have "request_line lib compact sr = Some (pr @ [nl])"
      using pr by (cases compact) (auto simp: request_line_def)
    then have "read_reply lib (secret s) (pr @ [nl]) = Some sr"
      using request_reads_back [OF assms(1)] signed_well [OF assms(3) sr]
      by (simp add: read_reply_eq client_verify_iff)
    then show ?thesis
      using assms(4,5) line Reply handled sec sr pr
      by (simp add: send_message_def daemon_channel_def serve serve_def answer_line_def)
  qed (use assms(4,5) line handled in
      \<open>simp_all add: send_message_def daemon_channel_def serve serve_def answer_line_def\<close>)
qed

text \<open>
  C15: A client that shares the daemon's secret is understood: what it sends is handled by the
  daemon as the message it signed, and it receives exactly the daemon's reply, signed, or
  nothing when the daemon has no answer. This holds in both formats.
\<close>

theorem client_meets_daemon:
  assumes "wire_round_trip lib" and "wire_total lib" and "codec_ok lib" and "dv_secret c = secret s"
    and "client_sign lib (secret s) m = Inr signed"
    and "dispatch (daemon_crates.truncate lib) (rs i) signed s = (out, effects, s')"
  shows "send_message lib (daemon_channel lib rs) c m (i, s)
    = (Inr (case out of
              Reply reply \<Rightarrow> sign_msg (daemon_crates.truncate lib) (secret s) reply
            | _ \<Rightarrow> None), Suc i, s')"
  by (rule daemon_answers [where rs = rs and i = i, OF assms])

text \<open>
  A client believes signed answers only: whatever is at the other end of the channel, a
  message that a call returns carries the HMAC of its fields under the client's secret.
\<close>

theorem client_believes_signed_only:
  assumes "send_message lib ch c m w = (Inr (Some reply), w')"
  shows "well_signed (daemon_crates.truncate lib) (dv_secret c) reply"
  using assms
  by (auto simp: send_message_def read_reply_eq client_verify_iff
      split: option.splits sum.splits prod.splits channel_answer.splits if_splits)

subsection \<open>A wire for the examples\<close>

text \<open>Some total text form that reads back: the number of the message, after a letter for the
  format.\<close>

instance char :: countable
  by (rule countable_classI [of "of_char :: char \<Rightarrow> nat"]) simp

instance json :: countable by countable_datatype

definition msg_number :: "msg \<Rightarrow> nat" where
  "msg_number m = to_nat (msg_type m, msg_id m, m_from m, m_to m, m_ts m, m_nonce m, m_hmac m, payload m)"

definition numbered_msg :: "nat \<Rightarrow> msg" where
  "numbered_msg n =
     (case from_nat n of (ty, i, f, t, ts, nonce, h, p) \<Rightarrow>
        \<lparr>msg_type = ty, msg_id = i, m_from = f, m_to = t, m_ts = ts, m_nonce = nonce, m_hmac = h,
         payload = p\<rparr>)"

definition tagged_number :: "char \<Rightarrow> string \<Rightarrow> nat option" where
  "tagged_number c s = (case s of [] \<Rightarrow> None | d # ds \<Rightarrow> if d = c then digits_val 10 0 ds else None)"

definition total_wire :: wire_crates where
  "total_wire = daemon_crates.extend sample_lib
     \<lparr>compact_of_text = (\<lambda>t. map_option (to_compact \<circ> numbered_msg) (tagged_number (CHR ''c'') t)),
      message_of_text = (\<lambda>t. map_option numbered_msg (tagged_number (CHR ''m'') t)),
      compact_text = (\<lambda>c. Some (CHR ''c'' # show_nat (msg_number (from_compact c)))),
      message_text = (\<lambda>m. Some (CHR ''m'' # show_nat (msg_number m)))\<rparr>"

lemma numbered [simp]: "numbered_msg (msg_number m) = m"
  by (simp add: numbered_msg_def msg_number_def)

lemma tagged [simp]: "tagged_number c (d # show_nat n) = (if d = c then Some n else None)"
  using digits_val_show [of 0 n] by (simp add: tagged_number_def)

lemma trim_line:
  assumes "s \<noteq> []" and "token_char (hd s)" and "token_char (last s)"
  shows "trim (s @ [nl]) = s"
proof -
  have "trim_start (s @ [nl]) = s @ [nl]"
    using assms seq_len_token [of "hd s" "tl s @ [nl]"]
    by (cases s) (simp_all add: trim_start_def strip_seqs_head)
  moreover have "seq_len (map rev ws_seqs) (nl # rev s) = 1"
    by (simp add: seq_len_def ws_seqs_def)
  then have "trim_end (s @ [nl]) = trim_end s"
    using strip_seqs.simps [of "map rev ws_seqs" "nl # rev s"] by (simp add: trim_end_def)
  moreover have "trim_end s = s"
    using trim_token [OF assms] assms seq_len_token [of "hd s" "tl s"]
    by (simp add: trim_def trim_start_def strip_seqs_head)
  ultimately show ?thesis by (simp add: trim_def)
qed

lemma letters_token: "token_char (CHR ''c'')" "token_char (CHR ''m'')"
  by (simp_all add: token_char_def ws_seqs_def)

lemma trim_tagged: "token_char c \<Longrightarrow> trim ((c # show_nat n) @ [nl]) = c # show_nat n"
  by (rule trim_line) (simp_all add: show_nat_ends)

lemma total_wire_ok: "wire_round_trip total_wire" "wire_total total_wire" "codec_ok total_wire"
proof -
  show "wire_round_trip total_wire"
    using trim_tagged letters_token by (auto simp: wire_round_trip_def total_wire_def daemon_crates.defs)
  show "wire_total total_wire"
    by (simp add: wire_total_def total_wire_def daemon_crates.defs)
  show "codec_ok total_wire"
    by (simp add: codec_ok_def total_wire_def daemon_crates.defs sample_lib_def)
qed

lemma total_base [simp]: "daemon_crates.truncate total_wire = sample_lib"
  by (simp add: total_wire_def daemon_crates.defs)

definition sample_client :: devit_client where
  "sample_client =
     \<lparr>dv_sock_path = default_socket, dv_ident = ''w'', dv_secret = ''k'', dv_use_compact = False,
      dv_client_version = None, dv_daemon_version = None, dv_caps = default_caps\<rparr>"

lemma client_meets_daemon_witness:
  "\<exists>reply w'. send_message total_wire (daemon_channel total_wire (\<lambda>_. sample_reading 0)) sample_client
     (sample_msg ''REGISTER'' ''m0'' ''w'' ''orchestrator'' (JObj [])) (0, sample_state)
     = (Inr (Some reply), w') \<and> msg_type reply = ''ACK''"
proof -
  let ?m = "sample_msg ''REGISTER'' ''m0'' ''w'' ''orchestrator'' (JObj [])"
  obtain signed where sign: "client_sign total_wire (secret sample_state) ?m = Inr signed"
    using client_sign_total [OF total_wire_ok(3)] by blast
  have ty: "msg_type signed = ''REGISTER''"
    using client_sign_fields [OF sign] by (simp add: sample_msg_def)
  obtain out effects s' where d: "dispatch sample_lib (sample_reading 0) signed sample_state = (out, effects, s')"
    by (metis prod.collapse)
  then obtain reply where out: "out = Reply reply" "msg_type reply = ''ACK''"
    using ty by (auto simp: dispatch_def handle_register_def sample_state_def new_state_def
        Daemon_Auth.sample_settings_def Let_def new_msg_def)
  obtain sr where sr: "sign_msg sample_lib (secret sample_state) reply = Some sr"
    using sign_total [OF total_wire_ok(3)] by fastforce
  then have "msg_type sr = ''ACK''"
    using out(2) by (auto simp: sign_msg_def split: option.splits)
  moreover have "dv_secret sample_client = secret sample_state"
    by (simp add: sample_client_def sample_secret)
  from client_meets_daemon [OF total_wire_ok this sign, of "\<lambda>_. sample_reading 0" 0] d out(1) sr
  have "send_message total_wire (daemon_channel total_wire (\<lambda>_. sample_reading 0)) sample_client ?m
     (0, sample_state) = (Inr (Some sr), Suc 0, s')"
    by simp
  ultimately show ?thesis by blast
qed

definition echo_channel :: "string \<Rightarrow> unit channel" where
  "echo_channel answer = \<lparr>refuses = \<lambda>_. None, exchange = \<lambda>line w. (Answered answer, w)\<rparr>"

lemma client_believes_signed_only_witness:
  "fst (send_message total_wire (echo_channel (CHR ''m'' # show_nat (msg_number register_msg) @ [nl]))
      sample_client register_msg ()) = Inr (Some register_msg)
   \<and> well_signed sample_lib ''k'' register_msg"
proof -
  let ?line = "CHR ''m'' # show_nat (msg_number register_msg) @ [nl]"
  have "line_message total_wire ?line = Some register_msg"
    using request_reads_back [OF total_wire_ok(1), of False register_msg ?line]
    by (simp add: request_line_def total_wire_def daemon_crates.defs)
  then have "read_reply total_wire ''k'' ?line = Some register_msg"
    by (simp add: read_reply_eq client_verify_iff register_msg_ok)
  moreover obtain signed where "client_sign total_wire ''k'' register_msg = Inr signed"
    using client_sign_total [OF total_wire_ok(3)] by blast
  moreover have "dv_secret sample_client = ''k''" by (simp add: sample_client_def)
  ultimately have "send_message total_wire (echo_channel ?line) sample_client register_msg ()
      = (Inr (Some register_msg), ())"
    using request_line_total [OF total_wire_ok(2), of "dv_use_compact sample_client" signed]
    by (auto simp: send_message_def echo_channel_def)
  with client_believes_signed_only [OF this] show ?thesis by (simp add: sample_client_def)
qed

subsection \<open>A refresh ends\<close>

lemma mailbox_taken: "mailbox (snd (get_notifications c s)) c = []"
  by (simp add: mailbox_def get_notifications_def hm_get_delete)

lemma mailbox_first: "fst (get_notifications c s) = mailbox s c"
  by (simp add: mailbox_def get_notifications_def)

text \<open>A poll brings a message only when the mail box has one, and leaves it empty then.\<close>

lemma poll_empties:
  assumes "wire_round_trip lib"
    and "client_poll lib (daemon_channel lib rs) r c (i, s) = (Inr (Some m), w')"
  shows "mailbox s (dv_ident c) \<noteq> [] \<and> mailbox (snd w') (dv_ident c) = []"
proof -
  let ?base = "daemon_crates.truncate lib"
  from assms(2) obtain m1 signed line answer where
    m1: "client_msg lib r ''POLL'' (dv_ident c) orchestrator (JObj []) (dv_secret c) = Inr m1"
    and signed: "client_sign lib (dv_secret c) m1 = Inr signed"
    and line: "request_line lib (dv_use_compact c) signed = Some line"
    and answer: "exchange (daemon_channel lib rs) line (i, s) = (Answered answer, w')"
    by (auto simp: client_poll_def request_def send_message_def
        split: sum.splits option.splits prod.splits channel_answer.splits)
  have fields: "msg_type signed = ''POLL''" "m_from signed = dv_ident c"
    using client_sign_fields [OF signed] m1
    by (auto simp: client_msg_def dest: client_sign_fields)
  obtain compact where serve: "\<forall>r s. handle_line lib r line s
      = answer_line (if compact then compact_text lib \<circ> to_compact else message_text lib)
          (serve ?base r signed s)"
    using handle_line_serves [OF request_reads_back [OF assms(1) line]] by blast
  obtain out effects s' where h: "handle_message ?base (rs i) signed s = (out, effects, s')"
    by (metis prod.collapse)
  have w': "w' = (Suc i, s')"
    using answer h by (auto simp: daemon_channel_def serve serve_def answer_line_def
        split: outcome.splits option.splits prod.splits)
  have "\<exists>reply. out = Reply reply"
    using answer h by (auto simp: daemon_channel_def serve serve_def answer_line_def
        split: outcome.splits option.splits prod.splits if_splits)
  then have "well_signed ?base (secret s) signed"
    using handle_not_signed [of ?base s signed "rs i"] h by auto
  then have "first_notification (dv_ident c) s = (out, effects, s')"
    using h handle_well_signed fields by (simp add: dispatch_def handle_poll_def)
  with \<open>\<exists>reply. out = Reply reply\<close> show ?thesis
    using mailbox_taken [of "dv_ident c" s] mailbox_first [of "dv_ident c" s] w'
    by (auto simp: first_notification_def split: prod.splits list.splits)
qed

lemma poll_loop_ends_empty:
  assumes "wire_round_trip (wire_of lib)" and "mailbox (snd w) (dv_ident c) = []"
  shows "poll_loop lib (daemon_channel (wire_of lib) rs) c prs i b w \<noteq> None"
proof -
  obtain n s where w: "w = (n, s)" by fastforce
  obtain res w' where p: "client_poll (wire_of lib) (daemon_channel (wire_of lib) rs) (prs i) c w = (res, w')"
    by (metis prod.collapse)
  have "res \<noteq> Inr (Some m)" for m
  proof
    assume "res = Inr (Some m)"
    from poll_empties [OF assms(1) p [unfolded w this]] assms(2) w show False by simp
  qed
  with p show ?thesis
    by (subst poll_loop.simps) (auto split: sum.split option.split)
qed

lemma poll_loop_ends:
  assumes "wire_round_trip (wire_of lib)"
  shows "poll_loop lib (daemon_channel (wire_of lib) rs) c prs i b w \<noteq> None"
proof -
  obtain n s where w: "w = (n, s)" by fastforce
  obtain res w' where p: "client_poll (wire_of lib) (daemon_channel (wire_of lib) rs) (prs i) c w = (res, w')"
    by (metis prod.collapse)
  have "mailbox (snd w') (dv_ident c) = []" if "res = Inr (Some m)" for m
    using poll_empties [OF assms p [unfolded w that]] by simp
  with p show ?thesis
    using poll_loop_ends_empty [OF assms]
    by (subst poll_loop.simps) (auto split: sum.split option.split)
qed

lemma consume_ends:
  assumes "wire_round_trip (wire_of lib)"
  shows "consume_notification lib (daemon_channel (wire_of lib) rs) c prs b w \<noteq> None"
  using poll_loop_ends [OF assms]
  by (simp add: consume_notification_def split: prod.split sum.split)

text \<open>
  C16: Against the daemon a refresh always ends: the loop of polls stops after the mail box has
  been emptied once, whatever the mail is, whether the secrets agree or not, and whatever state
  the client and the daemon are in.
\<close>

theorem refresh_ends:
  assumes "wire_round_trip (wire_of lib)"
  shows "refresh_notifications lib (daemon_channel (wire_of lib) rs) env prs b w \<noteq> None"
  by (auto simp: refresh_notifications_def consume_ends [OF assms] simp del: not_None_eq
      split: prod.split sum.split)

definition sample_crates :: client_crates where
  "sample_crates = wire_crates.extend total_wire \<lparr>status_of_json = \<lambda>_. None\<rparr>"

definition sample_process :: process_env where
  "sample_process = \<lparr>pe_pid = 7, pe_compact = False, pe_version = ''1''\<rparr>"

definition sample_readings :: "nat \<Rightarrow> client_reading" where
  "sample_readings i = \<lparr>cr_ts = 0, cr_id = show_nat i, cr_nonce = ''n'', cr_utc = 0\<rparr>"

lemma sample_wire_of [simp]: "wire_of sample_crates = total_wire"
  by (simp add: sample_crates_def wire_crates.defs total_wire_def daemon_crates.defs)

lemma refresh_ends_witness:
  "refresh_notifications sample_crates (daemon_channel total_wire (\<lambda>_. sample_reading 0)) sample_process
     sample_readings (new_backend default_config None None sample_process) (0, sample_state) \<noteq> None"
  using refresh_ends [of sample_crates] total_wire_ok(1) by simp

text \<open>Against a world that always answers, the loop of polls never returns.\<close>

definition endless_mail :: "client_crates \<Rightarrow> 'w channel \<Rightarrow> devit_client \<Rightarrow> (nat \<Rightarrow> client_reading) \<Rightarrow> bool" where
  "endless_mail lib ch c prs =
     (\<forall>i w. \<exists>m w'. client_poll (wire_of lib) ch (prs i) c w = (Inr (Some m), w')
        \<and> msg_type m \<notin> {''NOTIFY'', ''STATUS_RESPONSE''})"

lemma endless_mail_never_returns:
  assumes "endless_mail lib ch c prs"
  shows "poll_loop lib ch c prs i b w = None"
proof -
  have "\<not> endless_mail lib ch c prs" if "poll_loop lib ch c prs i b w = Some r" for r
  proof (rule poll_loop.raw_induct [where P = "\<lambda>lib ch c prs i b w r. \<not> endless_mail lib ch c prs", OF _ that],
      rule notI, goal_cases)
    case (1 loop lib ch c prs i b w r)
    obtain m w' where m: "client_poll (wire_of lib) ch (prs i) c w = (Inr (Some m), w')"
      "msg_type m \<notin> {''NOTIFY'', ''STATUS_RESPONSE''}"
      using 1(3) unfolding endless_mail_def by blast
    then have "handle_daemon_message lib (cr_utc (prs i)) m b = Inr b"
      by (simp add: handle_daemon_message_def is_notify_msg_def)
    with 1(2) m(1) have "loop lib ch c prs (Suc i) b w' = Some r" by simp
    with 1(1,3) show False by blast
  qed
  with assms show ?thesis by (cases "poll_loop lib ch c prs i b w") auto
qed

subsection \<open>The copy of the tables\<close>

text \<open>A client in step with the daemon: the same secret, over a wire that loses nothing.\<close>

definition linked :: "wire_crates \<Rightarrow> devit_client \<Rightarrow> daemon_state \<Rightarrow> bool" where
  "linked lib c s = (wire_round_trip lib \<and> wire_total lib \<and> codec_ok lib \<and> dv_secret c = secret s)"

lemma request_handled:
  assumes "linked lib c s"
  shows "\<exists>signed out effects s'.
    msg_type signed = ty \<and> m_from signed = dv_ident c \<and> payload signed = p \<and> msg_id signed = cr_id r
    \<and> dispatch (daemon_crates.truncate lib) (rs i) signed s = (out, effects, s') \<and> linked lib c s'
    \<and> request lib (daemon_channel lib rs) r c ty to p (i, s)
        = (Inr (case out of
              Reply reply \<Rightarrow> sign_msg (daemon_crates.truncate lib) (secret s) reply
            | _ \<Rightarrow> None), Suc i, s')"
proof -
  have ok: "wire_round_trip lib" "wire_total lib" "codec_ok lib" "dv_secret c = secret s"
    using assms by (simp_all add: linked_def)
  obtain m1 where m1: "client_msg lib r ty (dv_ident c) to p (dv_secret c) = Inr m1"
    using client_sign_total [OF ok(3)] unfolding client_msg_def by blast
  obtain signed where signed: "client_sign lib (secret s) m1 = Inr signed"
    using client_sign_total [OF ok(3)] by blast
  obtain out effects s' where d: "dispatch (daemon_crates.truncate lib) (rs i) signed s = (out, effects, s')"
    by (metis prod.collapse)
  have "well_signed (daemon_crates.truncate lib) (secret s) signed"
    using signed_well [OF ok(3)] signed by (auto simp: client_sign_def split: option.splits)
  then have "linked lib c s'"
    using dispatch_keeps_secret d ok by (auto simp: linked_def)
  moreover have "msg_type signed = ty" "m_from signed = dv_ident c" "payload signed = p" "msg_id signed = cr_id r"
    using client_sign_fields [OF signed] client_sign_fields [OF m1 [unfolded client_msg_def]] by simp_all
  ultimately show ?thesis
    using daemon_answers [where rs = rs and i = i, OF ok signed d] m1 d unfolding request_def by auto
qed

lemma sign_msg_same: "sign_msg lib key m = Some s \<Longrightarrow> s\<lparr>m_hmac := m_hmac m\<rparr> = m"
  by (auto simp: sign_msg_def split: option.splits)

lemma signed_same_fields:
  assumes "sign_msg lib key m = Some s"
  shows "msg_type s = msg_type m" "payload s = payload m"
  using assms by (auto simp: sign_msg_def split: option.splits)

lemma reply_signed:
  assumes "linked lib c s"
  shows "\<exists>sr. sign_msg (daemon_crates.truncate lib) (secret s) reply = Some sr
    \<and> msg_type sr = msg_type reply \<and> payload sr = payload reply"
  using sign_total [of lib "secret s" reply] assms signed_same_fields by (fastforce simp: linked_def)

text \<open>A status request returns the snapshot and leaves the daemon as it is.\<close>

lemma snapshot_answer:
  assumes "linked lib c s" and "snapshot_json (daemon_crates.truncate lib) (build_snapshot s) = Some v"
  shows "\<exists>m. status_snapshot lib (daemon_channel lib rs) r c (i, s) = (Inr (Some m), Suc i, s)
    \<and> msg_type m = ''STATUS_RESPONSE'' \<and> payload m = v"
proof -
  obtain signed out effects s' where q: "msg_type signed = ''STATUS_REQUEST''"
    "dispatch (daemon_crates.truncate lib) (rs i) signed s = (out, effects, s')"
    "status_snapshot lib (daemon_channel lib rs) r c (i, s)
        = (Inr (case out of Reply reply \<Rightarrow> sign_msg (daemon_crates.truncate lib) (secret s) reply
            | _ \<Rightarrow> None), Suc i, s')"
    using request_handled [OF assms(1), of "''STATUS_REQUEST''" "JObj []" r rs i orchestrator]
    unfolding status_snapshot_def by blast
  then obtain reply where "out = Reply reply" "msg_type reply = ''STATUS_RESPONSE''" "payload reply = v" "s' = s"
    using assms(2) by (auto simp: dispatch_def handle_status_request_def new_msg_def)
  with q(3) reply_signed [OF assms(1), of reply] show ?thesis by auto
qed

text \<open>A heartbeat takes the mail and leaves the tables.\<close>

lemma heartbeat_answer:
  assumes "linked lib c s"
  shows "\<exists>found s'. client_heartbeat lib (daemon_channel lib rs) r c (i, s) = (Inr found, Suc i, s')
    \<and> (case mailbox s (dv_ident c) of
         [] \<Rightarrow> found = None
       | m # _ \<Rightarrow> \<exists>sr. found = Some sr \<and> msg_type sr = msg_type m \<and> payload sr = payload m)
    \<and> mailbox s' (dv_ident c) = [] \<and> tasks_active s' = tasks_active s
    \<and> tasks_completed s' = tasks_completed s \<and> linked lib c s'"
proof -
  obtain signed out effects s' where q: "msg_type signed = ''HEARTBEAT''" "m_from signed = dv_ident c"
    "dispatch (daemon_crates.truncate lib) (rs i) signed s = (out, effects, s')" "linked lib c s'"
    "client_heartbeat lib (daemon_channel lib rs) r c (i, s)
        = (Inr (case out of Reply reply \<Rightarrow> sign_msg (daemon_crates.truncate lib) (secret s) reply
            | _ \<Rightarrow> None), Suc i, s')"
    using request_handled [OF assms(1), of "''HEARTBEAT''" "JObj []" r rs i orchestrator]
    unfolding client_heartbeat_def by blast
  have h: "handle_heartbeat (daemon_crates.truncate lib) (rs i) signed s = (out, effects, s')"
    using q(1,3) by (simp add: dispatch_def)
  have out: "out = (case mailbox s (dv_ident c) of [] \<Rightarrow> Silent | m # _ \<Rightarrow> Reply m)"
    and rest: "mailbox s' (dv_ident c) = []" "tasks_active s' = tasks_active s"
      "tasks_completed s' = tasks_completed s"
    using h q(2)
    by (auto simp: handle_heartbeat_def first_notification_def get_notifications_def mailbox_def
        hm_get_delete split: option.splits list.splits)
  show ?thesis
  proof (cases "mailbox s (dv_ident c)")
    case Nil
    with out rest q(4,5) show ?thesis by simp
  next
    case (Cons m ms)
    with out rest q(4,5) reply_signed [OF assms, of m] show ?thesis by auto
  qed
qed

lemma poll_loop_quiet:
  assumes "linked (wire_of lib) c s" and "mailbox s (dv_ident c) = []"
  shows "\<exists>s'. poll_loop lib (daemon_channel (wire_of lib) rs) c prs k b (i, s) = Some (Inr (), b, Suc i, s')
    \<and> tasks_active s' = tasks_active s \<and> tasks_completed s' = tasks_completed s"
proof -
  obtain signed out effects s' where q: "msg_type signed = ''POLL''" "m_from signed = dv_ident c"
    "dispatch (daemon_crates.truncate (wire_of lib)) (rs i) signed s = (out, effects, s')"
    "client_poll (wire_of lib) (daemon_channel (wire_of lib) rs) (prs k) c (i, s)
        = (Inr (case out of
              Reply reply \<Rightarrow> sign_msg (daemon_crates.truncate (wire_of lib)) (secret s) reply
            | _ \<Rightarrow> None), Suc i, s')"
    using request_handled [OF assms(1), of "''POLL''" "JObj []" "prs k" rs i orchestrator]
    unfolding client_poll_def by blast
  then have "out = Silent" and "tasks_active s' = tasks_active s" "tasks_completed s' = tasks_completed s"
    using assms(2)
    by (auto simp: dispatch_def handle_poll_def first_notification_def get_notifications_def mailbox_def
        split: option.splits list.splits)
  with q(4) show ?thesis by (subst poll_loop.simps) simp
qed

text \<open>One refresh of a connected client: the snapshot, then the first message of the mail box.\<close>

lemma refresh_in_step:
  assumes "linked (wire_of lib) c s" and "bk_client b = Some c"
    and "snapshot_json (daemon_crates.truncate (wire_of lib)) (build_snapshot s) = Some v"
    and "status_of_json lib v = Some (build_snapshot s)"
    and "fresh = b\<lparr>bk_active := table_of (hm_values (tasks_active s)),
           bk_completed := table_of (hm_values (tasks_completed s))\<rparr>"
    and "case mailbox s (dv_ident c) of
           [] \<Rightarrow> b2 = fresh
         | m # _ \<Rightarrow> \<forall>m'. msg_type m' = msg_type m \<longrightarrow> payload m' = payload m
             \<longrightarrow> handle_daemon_message lib (cr_utc (prs 2)) m' fresh = Inr b2"
  shows "\<exists>i' s'. refresh_notifications lib (daemon_channel (wire_of lib) rs) env prs b (i, s)
      = Some (Inr (), b2, i', s')
    \<and> tasks_active s' = tasks_active s \<and> tasks_completed s' = tasks_completed s"
proof -
  let ?ch = "daemon_channel (wire_of lib) rs"
  obtain m where m: "status_snapshot (wire_of lib) ?ch (prs 1) c (i, s) = (Inr (Some m), Suc i, s)"
    "msg_type m = ''STATUS_RESPONSE''" "payload m = v"
    using snapshot_answer [OF assms(1,3)] by blast
  have first: "handle_daemon_message lib t m b = Inr fresh" for t
    using m(2,3) assms(4,5)
    by (simp add: handle_daemon_message_def is_notify_msg_def process_snapshot_def build_snapshot_def)
  obtain found s1 where h: "client_heartbeat (wire_of lib) ?ch (prs 2) c (Suc i, s) = (Inr found, Suc (Suc i), s1)"
    "case mailbox s (dv_ident c) of
         [] \<Rightarrow> found = None
       | m # _ \<Rightarrow> \<exists>sr. found = Some sr \<and> msg_type sr = msg_type m \<and> payload sr = payload m"
    "mailbox s1 (dv_ident c) = []" "tasks_active s1 = tasks_active s"
    "tasks_completed s1 = tasks_completed s" "linked (wire_of lib) c s1"
    using heartbeat_answer [OF assms(1)] by blast
  have second: "handle_answer lib (cr_utc (prs 2)) fresh (Inr found, Suc (Suc i), s1)
      = (Inr (), b2, Suc (Suc i), s1)"
    using h(2) assms(6) by (auto simp: handle_answer_def split: list.splits)
  obtain s2 where p: "poll_loop lib ?ch c (\<lambda>i. prs (2 + i)) 1 b2 (Suc (Suc i), s1)
      = Some (Inr (), b2, Suc (Suc (Suc i)), s2)"
    "tasks_active s2 = tasks_active s1" "tasks_completed s2 = tasks_completed s1"
    using poll_loop_quiet [OF h(6,3)] by blast
  have "consume_notification lib ?ch c (\<lambda>i. prs (2 + i)) fresh (Suc i, s)
      = Some (Inr (), b2, Suc (Suc (Suc i)), s2)"
    using h(1) second p(1) by (simp add: consume_notification_def numeral_2_eq_2)
  moreover have "handle_answer lib (cr_utc (prs 1)) b (Inr (Some m), Suc i, s) = (Inr (), fresh, Suc i, s)"
    using first by (simp add: handle_answer_def)
  ultimately show ?thesis
    using assms(2) m(1) p(2,3) h(4,5)
    by (simp add: refresh_notifications_def ensure_connected_def numeral_2_eq_2)
qed

lemma table_of_values:
  assumes "\<forall>(k, v) \<in> set m. task_id v = k" and "distinct (map fst m)"
  shows "hm_get (foldl (\<lambda>m task. hm_insert (task_id task) task m) acc (hm_values m)) k
    = (case hm_get m k of Some v \<Rightarrow> Some v | None \<Rightarrow> hm_get acc k)"
  using assms
proof (induction m arbitrary: acc)
  case Nil
  then show ?case by simp
next
  case (Cons e m)
  obtain k' v where e: "e = (k', v)" by fastforce
  have "hm_get m k' = None" using Cons.prems(2) e by (simp add: map_of_eq_None_iff)
  with Cons e show ?case by (auto simp: hm_get_update split: option.split)
qed

lemma table_of_keyed:
  assumes "keyed task_id P m"
  shows "hm_get (table_of (hm_values m)) k = hm_get m k"
proof -
  have "task_id v = k" if "(k, v) \<in> set m" for k v
    using keyed_get [OF assms] that hm_in_set [OF keyed_wf [OF assms]] by blast
  then have "\<forall>(k, v) \<in> set m. task_id v = k" by blast
  moreover have "distinct (map fst m)" using keyed_wf [OF assms] by (simp add: hm_wf_def)
  ultimately show ?thesis unfolding table_of_def by (subst table_of_values) (simp_all split: option.split)
qed

text \<open>
  C17: After a status call the backend knows what the daemon knows: with an empty mail box, both of
  its tables answer every identifier as the daemon's tables do, and the answer is the view of
  these tables. Asking changes no task of the daemon.
\<close>

theorem status_mirrors_daemon:
  assumes "linked (wire_of lib) c s" and "bk_client b = Some c"
    and "daemon_reachable (daemon_crates.truncate (wire_of lib)) s"
    and "snapshot_json (daemon_crates.truncate (wire_of lib)) (build_snapshot s) = Some v"
    and "status_of_json lib v = Some (build_snapshot s)" and "mailbox s (dv_ident c) = []"
  shows "\<exists>b' i' s'. backend_status lib (daemon_channel (wire_of lib) rs) env prs f b (i, s)
      = Some (Inr (mirror_status f b'), b', i', s')
    \<and> (\<forall>tid. hm_get (bk_active b') tid = hm_get (tasks_active s) tid
        \<and> hm_get (bk_completed b') tid = hm_get (tasks_completed s) tid)
    \<and> tasks_active s' = tasks_active s \<and> tasks_completed s' = tasks_completed s"
proof -
  define fresh where "fresh = b\<lparr>bk_active := table_of (hm_values (tasks_active s)),
       bk_completed := table_of (hm_values (tasks_completed s))\<rparr>"
  have "daemon_inv s" using reachable_inv [OF assms(3)] .
  then have "hm_get (bk_active fresh) tid = hm_get (tasks_active s) tid
      \<and> hm_get (bk_completed fresh) tid = hm_get (tasks_completed s) tid" for tid
    by (auto simp: fresh_def daemon_inv_def table_of_keyed)
  moreover obtain i' s' where "refresh_notifications lib (daemon_channel (wire_of lib) rs) env prs b (i, s)
      = Some (Inr (), fresh, i', s')" "tasks_active s' = tasks_active s" "tasks_completed s' = tasks_completed s"
    using refresh_in_step [OF assms(1,2,4,5) fresh_def, of fresh prs rs env i] assms(6) by auto
  ultimately show ?thesis
    by (auto simp: backend_status_def refreshed_def)
qed

definition busy_daemon :: daemon_state where
  "busy_daemon =
     snd (snd (handle_message sample_lib (sample_reading 0) signed_delegate
       (snd (snd (handle_message sample_lib (sample_reading 0) register_msg sample_state)))))"

lemma busy_daemon_reachable: "daemon_reachable sample_lib busy_daemon"
proof -
  have "daemon_reachable sample_lib sample_state"
    unfolding sample_state_def by (rule daemon_reachable.start)
  then have "daemon_reachable sample_lib
      (snd (snd (handle_message sample_lib (sample_reading 0) register_msg sample_state)))"
    by (rule daemon_reachable.step) (rule receive_step)
  then show ?thesis
    unfolding busy_daemon_def by (rule daemon_reachable.step) (rule receive_step)
qed

text \<open>What the examples look at, evaluated once: the two entries of the task, the first message of
  a mail box, the secret.\<close>

definition task_view ::
  "daemon_state \<Rightarrow> task_status option \<times> task_status option
     \<times> (string \<times> string option \<times> string option) list \<times> string" where
  "task_view s =
     (map_option task_status (hm_get (tasks_active s) ''t1''),
      map_option task_status (hm_get (tasks_completed s) ''t1''),
      map (\<lambda>m. (msg_type m, get_str (payload m) ''task_id'', get_str (payload m) ''status''))
        (take 1 (mailbox s ''boss'')),
      secret s)"

lemma busy_daemon_view: "task_view busy_daemon = (Some Pending, None, [], ''k'')"
  by code_simp

lemma busy_daemon_facts:
  "map_option task_status (hm_get (tasks_active busy_daemon) ''t1'') = Some Pending"
  "mailbox busy_daemon ''boss'' = []" "secret busy_daemon = ''k''"
  using busy_daemon_view by (simp_all add: task_view_def)

definition boss :: devit_client where
  "boss = sample_client\<lparr>dv_ident := ''boss''\<rparr>"

definition mirror_crates :: "daemon_state \<Rightarrow> client_crates" where
  "mirror_crates s = wire_crates.extend total_wire \<lparr>status_of_json = \<lambda>_. Some (build_snapshot s)\<rparr>"

lemma mirror_wire [simp]: "wire_of (mirror_crates s) = total_wire"
  by (simp add: mirror_crates_def wire_crates.defs total_wire_def daemon_crates.defs)

lemma mirror_reads [simp]: "status_of_json (mirror_crates s) v = Some (build_snapshot s)"
  by (simp add: mirror_crates_def wire_crates.defs)

lemma sample_snapshot [simp]: "snapshot_json sample_lib st = Some JNull"
  by (simp add: sample_lib_def)

lemma boss_linked: "secret s = ''k'' \<Longrightarrow> linked total_wire boss s"
  by (simp add: linked_def total_wire_ok boss_def sample_client_def)

definition connected_backend :: backend where
  "connected_backend = (new_backend default_config None None sample_process)\<lparr>bk_client := Some boss\<rparr>"

lemma status_mirrors_daemon_witness:
  "\<exists>b' w'. backend_status (mirror_crates busy_daemon) (daemon_channel total_wire (\<lambda>_. sample_reading 0))
      sample_process sample_readings FilterAll connected_backend (0, busy_daemon)
      = Some (Inr (mirror_status FilterAll b'), b', w')
    \<and> map_option task_status (hm_get (bk_active b') ''t1'') = Some Pending"
proof -
  have m: "mailbox busy_daemon (dv_ident boss) = []"
    by (simp add: boss_def busy_daemon_facts)
  have c: "bk_client connected_backend = Some boss" by (simp add: connected_backend_def)
  from status_mirrors_daemon [of "mirror_crates busy_daemon" boss busy_daemon connected_backend JNull
      "\<lambda>_. sample_reading 0" sample_process sample_readings FilterAll 0]
  show ?thesis
    using m c boss_linked busy_daemon_facts busy_daemon_reachable by fastforce
qed

text \<open>
  A notification that waited in the mail box undoes the snapshot. The refresh takes the tables
  first and the mail afterwards, so a progress report that was queued before the task ended makes
  a task that the daemon has completed active again in the backend's copy.
\<close>

theorem stale_mail_reopens_task:
  assumes "linked (wire_of lib) c s" and "bk_client b = Some c"
    and "daemon_reachable (daemon_crates.truncate (wire_of lib)) s"
    and "snapshot_json (daemon_crates.truncate (wire_of lib)) (build_snapshot s) = Some v"
    and "status_of_json lib v = Some (build_snapshot s)"
    and "mailbox s (dv_ident c) = m # ms" and "msg_type m = ''NOTIFY''"
    and "get_str (payload m) ''task_id'' = Some tid" and "get_str (payload m) ''status'' = Some ''progress''"
    and "hm_get (tasks_completed s) tid = Some t" and "hm_get (tasks_active s) tid = None"
  shows "\<exists>b' i' s'. refresh_notifications lib (daemon_channel (wire_of lib) rs) env prs b (i, s)
      = Some (Inr (), b', i', s')
    \<and> map_option task_status (hm_get (bk_active b') tid) = Some InProgress
    \<and> hm_get (bk_completed b') tid = None
    \<and> hm_get (tasks_completed s') tid = Some t \<and> hm_get (tasks_active s') tid = None"
proof -
  define fresh where "fresh = b\<lparr>bk_active := table_of (hm_values (tasks_active s)),
       bk_completed := table_of (hm_values (tasks_completed s))\<rparr>"
  have inv: "daemon_inv s" using reachable_inv [OF assms(3)] .
  have tables: "hm_get (bk_active fresh) tid = None" "hm_get (bk_completed fresh) tid = Some t"
    using inv assms(10,11) by (auto simp: fresh_def daemon_inv_def table_of_keyed)
  obtain sm d e where parts: "backend_parts lib (jopt (jget (payload m) ''artifacts'')) = (sm, d, e)"
    using prod_cases3 by blast
  define n where "n = \<lparr>na_status = ''progress'', na_summary = sm, na_details = d, na_evidence = e\<rparr>"
  define b2 where "b2 = record_notification (cr_utc (prs 2)) tid n fresh"
  have "handle_daemon_message lib (cr_utc (prs 2)) m' fresh = Inr b2"
    if "msg_type m' = msg_type m" "payload m' = payload m" for m'
    using that assms(7-9) parts
    by (simp add: handle_daemon_message_def is_notify_msg_def process_notification_def b2_def n_def)
  then obtain i' s' where "refresh_notifications lib (daemon_channel (wire_of lib) rs) env prs b (i, s)
      = Some (Inr (), b2, i', s')" "tasks_active s' = tasks_active s" "tasks_completed s' = tasks_completed s"
    using refresh_in_step [OF assms(1,2,4,5) fresh_def, of b2 prs rs env i] assms(6) by auto
  moreover have "task_status (reported_task (cr_utc (prs 2)) n t) = InProgress"
    by (simp add: reported_task_def n_def map_status_def Let_def)
  then have "map_option task_status (hm_get (bk_active b2) tid) = Some InProgress"
    "hm_get (bk_completed b2) tid = None"
    using tables
    by (simp_all add: b2_def record_notification_def taken_task_def Let_def is_terminal_def
        hm_get_update hm_get_delete)
  ultimately show ?thesis using assms(10,11) by auto
qed

subsection \<open>What an unanswered delegation leaves\<close>

text \<open>
  A delegation that the daemon ignores is a success for the client. When the secrets differ so
  that the daemon refuses the signature, nothing changes in the daemon, and the call still returns
  an identifier and a pending task in the copy.
\<close>

theorem ignored_delegation_succeeds:
  assumes "wire_round_trip (wire_of lib)" and "wire_total (wire_of lib)" and "codec_ok (wire_of lib)"
    and "bk_client b = Some c"
    and "\<And>m. well_signed (daemon_crates.truncate (wire_of lib)) (dv_secret c) m
      \<Longrightarrow> \<not> well_signed (daemon_crates.truncate (wire_of lib)) (secret s) m"
    and "backend_delegate lib (daemon_channel (wire_of lib) rs) env prs a b (i, s) = (res, b', w')"
  shows "(\<exists>d. res = Inr d \<and> dr_task_id d = cr_id (prs 1)
      \<and> map_option task_status (hm_get (bk_active b') (dr_task_id d)) = Some Pending) \<and> snd w' = s"
proof -
  let ?lib = "wire_of lib"
  let ?base = "daemon_crates.truncate (wire_of lib)"
  have ignored: "request ?lib (daemon_channel ?lib rs) r c ty to p (i, s) = (Inr None, Suc i, s)"
    for r ty to p
  proof -
    obtain m1 where m1: "client_msg ?lib r ty (dv_ident c) to p (dv_secret c) = Inr m1"
      using client_sign_total [OF assms(3)] unfolding client_msg_def by blast
    obtain signed where signed: "client_sign ?lib (dv_secret c) m1 = Inr signed"
      using client_sign_total [OF assms(3)] by blast
    then have "well_signed ?base (dv_secret c) signed"
      using signed_well [OF assms(3)] by (auto simp: client_sign_def split: option.splits)
    from assms(5) [OF this]
    have quiet: "fst (handle_message ?base (rs i) signed s) \<in> {Silent, Crash, Refused ''invalid key length''}"
      "snd (handle_message ?base (rs i) signed s) = ([], s)"
      using handle_not_signed by blast+
    obtain line where line: "request_line ?lib (dv_use_compact c) signed = Some line"
      using request_line_total [OF assms(2)] by blast
    obtain compact where serve: "\<forall>r s. handle_line ?lib r line s
        = answer_line (if compact then compact_text ?lib \<circ> to_compact else message_text ?lib)
            (serve ?base r signed s)"
      using handle_line_serves [OF request_reads_back [OF assms(1) line]] by blast
    obtain out where "handle_message ?base (rs i) signed s = (out, [], s)"
      "out \<in> {Silent, Crash, Refused ''invalid key length''}"
      using quiet by (metis prod.collapse)
    then show ?thesis
      using m1 signed line
      by (auto simp: request_def send_message_def daemon_channel_def serve serve_def answer_line_def)
  qed
  show ?thesis
    using assms(4,6)
    by (auto simp: backend_delegate_def with_client_def ensure_connected_def client_delegate_def ignored
        record_task_def pending_task_def hm_get_update Let_def)
qed

subsection \<open>Examples\<close>

lemma show_nat_inj: "show_nat a = show_nat b \<Longrightarrow> a = b"
  using digits_val_show [of 0] by (metis add_0 mult_zero_left option.inject)

lemma sample_signed:
  "well_signed sample_lib key m \<longleftrightarrow>
     m_hmac m = show_nat (sum_list (map of_char (key @ canonical_body sample_lib m)))"
proof -
  have "hmac_sha256 sample_lib key x = Some (show_nat (sum_list (map of_char (key @ x))))" for x
    by (simp add: sample_lib_def)
  then show ?thesis by (auto simp: well_signed_def sample_unb64)
qed

definition with_key :: "msg \<Rightarrow> msg" where
  "with_key m = m\<lparr>m_hmac := show_nat (sum_list (map of_char (''k'' @ canonical_body sample_lib m)))\<rparr>"

definition worker_note :: "string \<Rightarrow> msg" where
  "worker_note st =
     with_key (sample_msg ''NOTIFY'' ''m9'' ''w'' ''orchestrator''
       (JObj [(''task_id'', JStr ''t1''), (''status'', JStr st),
              (''artifacts'', JObj [(''summary'', JStr st)])]))"

definition progress_daemon :: daemon_state where
  "progress_daemon = snd (snd (handle_notify sample_lib (sample_reading 1) (worker_note ''progress'') busy_daemon))"

definition ended_daemon :: daemon_state where
  "ended_daemon =
     snd (snd (handle_notify sample_lib (sample_reading 2) (worker_note ''completed'') progress_daemon))"

lemma worker_note_handled:
  assumes "secret s = ''k''"
  shows "handle_message sample_lib r (worker_note st) s = handle_notify sample_lib r (worker_note st) s"
proof -
  have "well_signed sample_lib (secret s) (worker_note st)"
    by (simp add: sample_signed assms worker_note_def with_key_def)
  then show ?thesis
    using handle_well_signed [of sample_lib s "worker_note st" r]
    by (simp add: dispatch_def worker_note_def with_key_def sample_msg_def)
qed

lemma progress_daemon_run: "daemon_reachable sample_lib progress_daemon" "secret progress_daemon = ''k''"
  using receive_step [of sample_lib busy_daemon "sample_reading 1" "worker_note ''progress''"]
    daemon_reachable.step [OF busy_daemon_reachable] step_secret
  unfolding progress_daemon_def worker_note_handled [OF busy_daemon_facts(3)]
  by (simp_all add: busy_daemon_facts)

lemma ended_daemon_reachable: "daemon_reachable sample_lib ended_daemon"
  using receive_step [of sample_lib progress_daemon "sample_reading 2" "worker_note ''completed''"]
    daemon_reachable.step [OF progress_daemon_run(1)]
  unfolding ended_daemon_def worker_note_handled [OF progress_daemon_run(2)] by blast

lemma busy_daemon_eq:
  "busy_daemon = snd (snd (handle_delegate sample_lib (sample_reading 0) signed_delegate
     (snd (snd (handle_register sample_lib (sample_reading 0) register_msg sample_state)))))"
proof -
  let ?s = "snd (snd (handle_register sample_lib (sample_reading 0) register_msg sample_state))"
  have "handle_message sample_lib r register_msg sample_state
      = handle_register sample_lib r register_msg sample_state" for r
    using handle_well_signed [of sample_lib sample_state register_msg r] register_msg_ok
    by (simp add: sample_secret dispatch_def register_msg_def sample_msg_def Let_def)
  moreover from this have "secret ?s = ''k''"
    using step_secret [OF receive_step [of sample_lib sample_state "sample_reading 0" register_msg]]
    by (simp add: sample_secret)
  then have "handle_message sample_lib (sample_reading 0) signed_delegate ?s
      = handle_delegate sample_lib (sample_reading 0) signed_delegate ?s"
    using handle_well_signed [of sample_lib ?s signed_delegate "sample_reading 0"] signed_delegate_ok
    by (simp add: dispatch_def signed_delegate_def delegate_msg_def sample_msg_def)
  ultimately show ?thesis by (simp add: busy_daemon_def)
qed

lemma ended_daemon_view:
  "task_view ended_daemon = (None, Some Completed, [(''NOTIFY'', Some ''t1'', Some ''progress'')], ''k'')"
  unfolding ended_daemon_def progress_daemon_def busy_daemon_eq by code_simp

lemma ended_daemon_facts:
  "map_option task_status (hm_get (tasks_completed ended_daemon) ''t1'') = Some Completed"
  "map_option task_status (hm_get (tasks_active ended_daemon) ''t1'') = None"
  "map (\<lambda>m. (msg_type m, get_str (payload m) ''task_id'', get_str (payload m) ''status''))
     (take 1 (mailbox ended_daemon ''boss'')) = [(''NOTIFY'', Some ''t1'', Some ''progress'')]"
  "secret ended_daemon = ''k''"
  using ended_daemon_view by (simp_all add: task_view_def)

lemma stale_mail_reopens_task_witness:
  "\<exists>b' w'. refresh_notifications (mirror_crates ended_daemon) (daemon_channel total_wire (\<lambda>_. sample_reading 3))
      sample_process sample_readings connected_backend (0, ended_daemon) = Some (Inr (), b', w')
    \<and> map_option task_status (hm_get (bk_active b') ''t1'') = Some InProgress
    \<and> map_option task_status (hm_get (tasks_completed (snd w')) ''t1'') = Some Completed"
proof -
  obtain m ms where mail: "mailbox ended_daemon (dv_ident boss) = m # ms"
    and m: "msg_type m = ''NOTIFY''" "get_str (payload m) ''task_id'' = Some ''t1''"
      "get_str (payload m) ''status'' = Some ''progress''"
    using ended_daemon_facts(3) by (cases "mailbox ended_daemon ''boss''") (auto simp: boss_def)
  obtain t where t: "hm_get (tasks_completed ended_daemon) ''t1'' = Some t" "task_status t = Completed"
    using ended_daemon_facts(1) by auto
  have active: "hm_get (tasks_active ended_daemon) ''t1'' = None" using ended_daemon_facts(2) by simp
  have c: "bk_client connected_backend = Some boss" by (simp add: connected_backend_def)
  have hyps: "linked (wire_of (mirror_crates ended_daemon)) boss ended_daemon"
    "daemon_reachable (daemon_crates.truncate (wire_of (mirror_crates ended_daemon))) ended_daemon"
    "snapshot_json (daemon_crates.truncate (wire_of (mirror_crates ended_daemon)))
       (build_snapshot ended_daemon) = Some JNull"
    using boss_linked [OF ended_daemon_facts(4)] ended_daemon_reachable by simp_all
  obtain b' i' s' where r: "refresh_notifications (mirror_crates ended_daemon)
      (daemon_channel (wire_of (mirror_crates ended_daemon)) (\<lambda>_. sample_reading 3)) sample_process
      sample_readings connected_backend (0, ended_daemon) = Some (Inr (), b', i', s')"
    "map_option task_status (hm_get (bk_active b') ''t1'') = Some InProgress"
    "hm_get (tasks_completed s') ''t1'' = Some t"
    using stale_mail_reopens_task [OF hyps(1) c hyps(2,3) mirror_reads mail m t(1) active,
      of "\<lambda>_. sample_reading 3" sample_process sample_readings 0] by blast
  show ?thesis
    by (intro exI [of _ b'] exI [of _ "(i', s')"] conjI r(1) [unfolded mirror_wire] r(2))
      (simp only: snd_conv r(3) t(2) option.map)
qed

lemma ignored_delegation_succeeds_witness:
  "\<exists>d. fst (backend_delegate sample_crates (daemon_channel total_wire (\<lambda>_. sample_reading 0)) sample_process
      sample_readings sample_args (connected_backend\<lparr>bk_client := Some (boss\<lparr>dv_secret := ''x''\<rparr>)\<rparr>)
      (0, sample_state)) = Inr d \<and> dr_task_id d = ''1''"
proof -
  let ?b = "connected_backend\<lparr>bk_client := Some (boss\<lparr>dv_secret := ''x''\<rparr>)\<rparr>"
  have no: "\<not> well_signed (daemon_crates.truncate (wire_of sample_crates)) (secret sample_state) m"
    if "well_signed (daemon_crates.truncate (wire_of sample_crates)) (dv_secret (boss\<lparr>dv_secret := ''x''\<rparr>)) m" for m
    using that by (auto simp: sample_signed sample_secret dest: show_nat_inj)
  obtain res b' w' where r: "backend_delegate sample_crates
      (daemon_channel (wire_of sample_crates) (\<lambda>_. sample_reading 0)) sample_process
      sample_readings sample_args ?b (0, sample_state) = (res, b', w')"
    by (metis prod.collapse)
  have ok: "wire_round_trip (wire_of sample_crates)" "wire_total (wire_of sample_crates)"
    "codec_ok (wire_of sample_crates)" "bk_client ?b = Some (boss\<lparr>dv_secret := ''x''\<rparr>)"
    using total_wire_ok by simp_all
  have "\<exists>d. res = Inr d \<and> dr_task_id d = cr_id (sample_readings 1)"
    using ignored_delegation_succeeds [OF ok no r] by blast
  moreover have "cr_id (sample_readings 1) = ''1''" by code_simp
  ultimately show ?thesis using r [unfolded sample_wire_of] by simp
qed

end
