(* ===== verification/Backends.thy ===== *)
theory Backends
  imports Client_Properties Task_Lifecycle
begin

text \<open>
  The trait \<open>OrchestrationBackend\<close> of \<open>crates/orchestration/src/backend.rs\<close> as an interface: what a
  caller may rely on, whichever backend it got. Both backends are instances, the local one and the
  one that talks to the daemon over any channel. The last part is the invariant of the copy that
  the second one keeps.
\<close>

subsection \<open>The interface\<close>

text \<open>A run of reports.\<close>

fun run_reports ::
  "('i \<Rightarrow> string \<Rightarrow> notify_args \<Rightarrow> 's \<Rightarrow> bool \<times> 's) \<Rightarrow> ('i \<times> string \<times> notify_args) list \<Rightarrow> 's \<Rightarrow> 's" where
  "run_reports notify [] s = s"
| "run_reports notify ((i, tid, n) # rest) s = run_reports notify rest (snd (notify i tid n s))"

text \<open>\<open>run_delegate\<close> and \<open>run_notify\<close> return whether the call succeeded; \<open>'i\<close> is what a call reads
  from outside, \<open>peek\<close> the task that the backend has on record.\<close>

locale orchestration_backend =
  fixes run_delegate :: "'i \<Rightarrow> delegate_args \<Rightarrow> 's \<Rightarrow> delegate_result option \<times> 's"
    and run_notify :: "'i \<Rightarrow> string \<Rightarrow> notify_args \<Rightarrow> 's \<Rightarrow> bool \<times> 's"
    and peek :: "string \<Rightarrow> 's \<Rightarrow> delegated_task option"
  assumes delegated: "run_delegate i a s = (Some d, s') \<Longrightarrow>
      \<exists>t. peek (dr_task_id d) s' = Some t \<and> goal t = a_goal a \<and> delegated_to t = a_delegated_to a
        \<and> task_status t = Pending \<and> timeout_secs t = dr_timeout_secs d"
    and not_delegated: "run_delegate i a s = (None, s') \<Longrightarrow> peek tid s' = peek tid s"
    and notified: "run_notify i tid n s = (True, s') \<Longrightarrow> \<not> eq_ignore_ascii_case (na_status n) ''ack'' \<Longrightarrow>
      \<exists>t'. peek tid s' = Some t' \<and> is_terminal (task_status t') = is_terminal (map_status (na_status n))
        \<and> (is_terminal (task_status t') \<longrightarrow> task_status t' = map_status (na_status n))
        \<and> (\<forall>t. peek tid s = Some t \<longrightarrow> goal t' = goal t \<and> delegated_to t' = delegated_to t)"
    and acknowledged: "run_notify i tid n s = (ok, s') \<Longrightarrow> eq_ignore_ascii_case (na_status n) ''ack'' \<Longrightarrow>
      peek tid' s' = peek tid' s"
    and others: "run_notify i tid n s = (ok, s') \<Longrightarrow> tid' \<noteq> tid \<Longrightarrow> peek tid' s' = peek tid' s"
begin

text \<open>Reports about other tasks and acknowledgements leave a task alone.\<close>

lemma reports_leave_task:
  assumes "\<forall>(i, tid', n) \<in> set reports. tid' \<noteq> tid \<or> eq_ignore_ascii_case (na_status n) ''ack''"
  shows "peek tid (run_reports run_notify reports s) = peek tid s"
  using assms
proof (induction reports arbitrary: s)
  case Nil
  then show ?case by simp
next
  case (Cons r rest)
  obtain i tid' n where r: "r = (i, tid', n)" by (cases r)
  obtain ok s' where n: "run_notify i tid' n s = (ok, s')" by fastforce
  have "peek tid s' = peek tid s"
    using others [OF n] acknowledged [OF n] Cons.prems r by auto
  with Cons r n show ?case by auto
qed

text \<open>From its delegation to its end: a task whose completion is reported is on record as completed,
  with the goal it was given, whatever is reported about other tasks in between.\<close>

lemma delegated_task_completes:
  assumes "run_delegate i a s = (Some d, s1)"
    and "\<forall>(j, tid', n') \<in> set reports. tid' \<noteq> dr_task_id d \<or> eq_ignore_ascii_case (na_status n') ''ack''"
    and "run_notify k (dr_task_id d) n (run_reports run_notify reports s1) = (True, s2)"
    and "na_status n = ''completed''"
  shows "\<exists>t. peek (dr_task_id d) s2 = Some t \<and> task_status t = Completed \<and> goal t = a_goal a
    \<and> delegated_to t = a_delegated_to a"
proof -
  obtain t where t: "peek (dr_task_id d) s1 = Some t" "goal t = a_goal a" "delegated_to t = a_delegated_to a"
    using delegated [OF assms(1)] by blast
  have kept: "peek (dr_task_id d) (run_reports run_notify reports s1) = Some t"
    using reports_leave_task [OF assms(2)] t(1) by simp
  have "\<not> eq_ignore_ascii_case (na_status n) ''ack''"
    unfolding assms(4) by code_simp
  from notified [OF assms(3) this] kept t show ?thesis
    by (auto simp: assms(4) map_status_def is_terminal_def)
qed

end

subsection \<open>The local backend\<close>

definition run_local_delegate ::
  "orchestration_config \<Rightarrow> string \<times> int \<Rightarrow> delegate_args \<Rightarrow> local_state \<Rightarrow> delegate_result option \<times> local_state" where
  "run_local_delegate cfg i a s =
     (case local_delegate cfg (fst i) (snd i) a s of
        (Inl _, s') \<Rightarrow> (None, s')
      | (Inr d, s') \<Rightarrow> (Some d, s'))"

definition run_local_notify :: "string \<times> int \<Rightarrow> string \<Rightarrow> notify_args \<Rightarrow> local_state \<Rightarrow> bool \<times> local_state" where
  "run_local_notify i tid n s = (case local_notify (snd i) (snd i) tid n s of (r, s') \<Rightarrow> (\<not> isl r, s'))"

lemma notified_status_map:
  "is_terminal (notified_status st) = is_terminal (map_status st)"
  "is_terminal (notified_status st) \<Longrightarrow> notified_status st = map_status st"
  by (auto simp: notified_status_def map_status_def is_terminal_def)

interpretation local_backend: orchestration_backend "run_local_delegate cfg" run_local_notify local_get_task
proof (unfold_locales, goal_cases)
  case (1 i a s d s')
  then show ?case
    by (auto simp: run_local_delegate_def local_delegate_def local_get_task_def Let_def
        hm_get_update split: if_splits sum.splits)
next
  case (2 i a s s' tid)
  then show ?case
    by (auto simp: run_local_delegate_def local_delegate_def Let_def split: if_splits sum.splits)
next
  case (3 i tid n s s')
  then show ?case
    by (auto simp: run_local_notify_def local_notify_def local_get_task_def notified_task_def Let_def
        hm_get_update hm_get_delete notified_status_map split: if_splits option.splits)
next
  case (4 i tid n s ok s' tid')
  then show ?case by (simp add: run_local_notify_def local_notify_def)
next
  case (5 i tid n s ok s' tid')
  then show ?case
    by (auto simp: run_local_notify_def local_notify_def local_get_task_def Let_def
        hm_get_update hm_get_delete split: if_splits option.splits)
qed

subsection \<open>The backend over the daemon\<close>

definition run_daemon_delegate ::
  "client_crates \<Rightarrow> 'w channel \<Rightarrow> process_env \<Rightarrow> (nat \<Rightarrow> client_reading) \<Rightarrow> delegate_args
     \<Rightarrow> backend \<times> 'w \<Rightarrow> delegate_result option \<times> backend \<times> 'w" where
  "run_daemon_delegate lib ch env rs a bw =
     (case backend_delegate lib ch env rs a (fst bw) (snd bw) of
        (Inl _, bw') \<Rightarrow> (None, bw')
      | (Inr d, bw') \<Rightarrow> (Some d, bw'))"

definition run_daemon_notify ::
  "client_crates \<Rightarrow> 'w channel \<Rightarrow> process_env \<Rightarrow> (nat \<Rightarrow> client_reading) \<Rightarrow> string \<Rightarrow> notify_args
     \<Rightarrow> backend \<times> 'w \<Rightarrow> bool \<times> backend \<times> 'w" where
  "run_daemon_notify lib ch env rs tid n bw =
     (case backend_notify lib ch env rs tid n (fst bw) (snd bw) of (r, bw') \<Rightarrow> (\<not> isl r, bw'))"

definition daemon_peek :: "string \<Rightarrow> backend \<times> 'w \<Rightarrow> delegated_task option" where
  "daemon_peek tid bw = known_task tid (fst bw)"

text \<open>A call through the client changes neither table.\<close>

lemma connected_tables:
  "ensure_connected lib ch env r b w = (res, b', w') \<Longrightarrow> bk_active b' = bk_active b \<and> bk_completed b' = bk_completed b"
  by (auto simp: ensure_connected_def split: option.splits prod.splits sum.splits)

lemma drop_on_error_tables [simp]:
  "bk_active (drop_on_error e b) = bk_active b" "bk_completed (drop_on_error e b) = bk_completed b"
  by (simp_all add: drop_on_error_def invalidate_client_def split: client_failure.split)

lemma with_client_tables:
  "with_client lib ch env r op b w = (res, b', w') \<Longrightarrow>
     bk_active b' = bk_active b \<and> bk_completed b' = bk_completed b"
  by (auto simp: with_client_def dest!: connected_tables split: prod.splits sum.splits)

lemma known_task_tables:
  "bk_active b' = bk_active b \<Longrightarrow> bk_completed b' = bk_completed b \<Longrightarrow> known_task tid b' = known_task tid b"
  by (simp add: known_task_def)

lemma reported_task_fields [simp]:
  "task_status (reported_task t n task) = map_status (na_status n)"
  "goal (reported_task t n task) = goal task" "delegated_to (reported_task t n task) = delegated_to task"
  "task_id (reported_task t n task) = task_id task"
  by (simp_all add: reported_task_def Let_def)

lemma record_notification_known:
  "\<exists>t'. known_task tid (record_notification t tid n b) = Some t'
     \<and> task_status t' = map_status (na_status n)
     \<and> (\<forall>t0. known_task tid b = Some t0 \<longrightarrow> goal t' = goal t0 \<and> delegated_to t' = delegated_to t0)"
  by (auto simp: record_notification_def taken_task_def known_task_def or_else_def Let_def
      hm_get_update hm_get_delete split: option.split)

lemma record_notification_other:
  "tid' \<noteq> tid \<Longrightarrow> known_task tid' (record_notification t tid n b) = known_task tid' b"
  by (auto simp: record_notification_def taken_task_def known_task_def or_else_def Let_def
      hm_get_update hm_get_delete split: option.split)

interpretation remote_backend: orchestration_backend
  "run_daemon_delegate lib ch env" "run_daemon_notify lib ch env" daemon_peek
proof (unfold_locales, goal_cases)
  case (1 rs a bw d bw')
  then show ?case
    by (auto simp: run_daemon_delegate_def backend_delegate_def daemon_peek_def known_task_def
        record_task_def pending_task_def or_else_def Let_def hm_get_update
        split: prod.splits sum.splits)
next
  case (2 rs a bw bw' tid)
  then show ?case
    by (auto simp: run_daemon_delegate_def backend_delegate_def daemon_peek_def Let_def
        dest!: with_client_tables intro!: known_task_tables split: prod.splits sum.splits)
next
  case (3 rs tid n bw bw')
  then obtain b1 where "bk_active b1 = bk_active (fst bw)" "bk_completed b1 = bk_completed (fst bw)"
    "fst bw' = record_notification (cr_utc (rs 1)) tid n b1"
    by (auto simp: run_daemon_notify_def backend_notify_def Let_def dest!: with_client_tables
        split: prod.splits sum.splits)
  then show ?case
    using record_notification_known [of tid "cr_utc (rs 1)" n b1] known_task_tables [of b1 "fst bw" tid]
    by (auto simp: daemon_peek_def)
next
  case (4 rs tid n bw ok bw' tid')
  then show ?case
    by (auto simp: run_daemon_notify_def backend_notify_def daemon_peek_def Let_def
        dest!: with_client_tables intro!: known_task_tables split: prod.splits sum.splits)
next
  case (5 rs tid n bw ok bw' tid')
  then obtain b1 where "bk_active b1 = bk_active (fst bw)" "bk_completed b1 = bk_completed (fst bw)"
    "fst bw' = b1 \<or> fst bw' = record_notification (cr_utc (rs 1)) tid n b1"
    by (auto simp: run_daemon_notify_def backend_notify_def Let_def dest!: with_client_tables
        split: prod.splits sum.splits if_splits)
  then show ?case
    using 5(2) record_notification_other known_task_tables [of b1 "fst bw" tid']
    by (auto simp: daemon_peek_def)
qed

text \<open>
  Whatever the daemon answers, the backend keeps its promise to the caller: a task that was
  delegated and then reported completed is on record as completed, with its goal and its worker,
  no matter which other tasks were reported or acknowledged in between.
\<close>

theorem reported_completion_is_recorded:
  assumes "run_daemon_delegate lib ch env prs a bw = (Some d, bw1)"
    and "\<forall>(j, tid', n') \<in> set reports. tid' \<noteq> dr_task_id d \<or> eq_ignore_ascii_case (na_status n') ''ack''"
    and "run_daemon_notify lib ch env prs2 (dr_task_id d) n
           (run_reports (run_daemon_notify lib ch env) reports bw1) = (True, bw2)"
    and "na_status n = ''completed''"
  shows "\<exists>t. known_task (dr_task_id d) (fst bw2) = Some t \<and> task_status t = Completed
    \<and> goal t = a_goal a \<and> delegated_to t = a_delegated_to a"
  using remote_backend.delegated_task_completes [OF assms] by (simp add: daemon_peek_def)

text \<open>The same for the local backend.\<close>

lemma local_completion_is_recorded:
  assumes "run_local_delegate cfg i a s = (Some d, s1)"
    and "\<forall>(j, tid', n') \<in> set reports. tid' \<noteq> dr_task_id d \<or> eq_ignore_ascii_case (na_status n') ''ack''"
    and "run_local_notify k (dr_task_id d) n (run_reports run_local_notify reports s1) = (True, s2)"
    and "na_status n = ''completed''"
  shows "\<exists>t. local_get_task (dr_task_id d) s2 = Some t \<and> task_status t = Completed \<and> goal t = a_goal a"
  using local_backend.delegated_task_completes [OF assms] by blast

definition silent_channel :: "unit channel" where
  "silent_channel = \<lparr>refuses = \<lambda>_. None, exchange = \<lambda>line w. (NoAnswer, w)\<rparr>"

lemma silent_request: "request total_wire silent_channel r c ty to p w = (Inr None, w)"
proof -
  obtain m where "client_msg total_wire r ty (dv_ident c) to p (dv_secret c) = Inr m"
    using client_sign_total [OF total_wire_ok(3)] unfolding client_msg_def by blast
  moreover obtain signed where "client_sign total_wire (dv_secret c) m = Inr signed"
    using client_sign_total [OF total_wire_ok(3)] by blast
  moreover obtain line where "request_line total_wire (dv_use_compact c) signed = Some line"
    using request_line_total [OF total_wire_ok(2)] by blast
  ultimately show ?thesis by (simp add: request_def send_message_def silent_channel_def)
qed

lemma reported_completion_is_recorded_witness:
  "\<exists>bw2. snd (run_daemon_notify sample_crates silent_channel sample_process sample_readings ''1''
      (sample_notify ''completed'')
      (snd (run_daemon_delegate sample_crates silent_channel sample_process sample_readings sample_args
        (connected_backend, ())))) = bw2
    \<and> map_option task_status (known_task ''1'' (fst bw2)) = Some Completed"
proof -
  have one: "cr_id (sample_readings 1) = ''1''" by code_simp
  have c: "bk_client connected_backend = Some boss" by (simp add: connected_backend_def)
  have d: "\<exists>d bw1. run_daemon_delegate sample_crates silent_channel sample_process sample_readings sample_args
      (connected_backend, ()) = (Some d, bw1) \<and> dr_task_id d = ''1'' \<and> bk_client (fst bw1) = Some boss"
    using one c by (simp add: run_daemon_delegate_def backend_delegate_def with_client_def
        ensure_connected_def client_delegate_def silent_request record_task_def Let_def)
  then obtain d bw1 where d: "run_daemon_delegate sample_crates silent_channel sample_process sample_readings
      sample_args (connected_backend, ()) = (Some d, bw1)" "dr_task_id d = ''1''" "bk_client (fst bw1) = Some boss"
    by blast
  obtain ok bw2 where n: "run_daemon_notify sample_crates silent_channel sample_process sample_readings
      (dr_task_id d) (sample_notify ''completed'')
      (run_reports (run_daemon_notify sample_crates silent_channel sample_process) [] bw1) = (ok, bw2)"
    by (metis prod.collapse)
  moreover have ok
    using n d(3) by (auto simp: run_daemon_notify_def backend_notify_def with_client_def
        ensure_connected_def client_notify_def silent_request Let_def)
  moreover have st: "na_status (sample_notify ''completed'') = ''completed''"
    by (simp add: sample_notify_def)
  ultimately obtain t where "known_task (dr_task_id d) (fst bw2) = Some t" "task_status t = Completed"
    using reported_completion_is_recorded [OF d(1), of "[]" sample_readings "sample_notify ''completed''" bw2]
    by auto
  with n d(1,2) show ?thesis by simp
qed

subsection \<open>The invariant of the copy\<close>

text \<open>Both tables are filed by the identifier of the task they hold.\<close>

definition filed :: "backend \<Rightarrow> bool" where
  "filed b = (keyed task_id (\<lambda>_. True) (bk_active b) \<and> keyed task_id (\<lambda>_. True) (bk_completed b))"

lemma filed_tables: "bk_active b' = bk_active b \<Longrightarrow> bk_completed b' = bk_completed b \<Longrightarrow> filed b' = filed b"
  by (simp add: filed_def)

lemma keyed_table_of: "keyed task_id (\<lambda>_. True) (table_of tasks)"
proof -
  have "keyed task_id (\<lambda>_. True) (foldl (\<lambda>m task. hm_insert (task_id task) task m) acc tasks)"
    if "keyed task_id (\<lambda>_. True) acc" for acc
    using that by (induction tasks arbitrary: acc) auto
  then show ?thesis by (simp add: table_of_def)
qed

lemma filed_record_task: "filed b \<Longrightarrow> filed (record_task task b)"
  by (simp add: filed_def record_task_def keyed_insert)

lemma taken_task_filed:
  assumes "filed b" and "taken_task t tid n b = (task, b')"
  shows "task_id task = tid \<and> filed b'"
proof -
  have "task_id x = tid" if "hm_get (bk_active b) tid = Some x \<or> hm_get (bk_completed b) tid = Some x" for x
    using that assms(1) keyed_get by (fastforce simp: filed_def)
  with assms show ?thesis
    by (auto simp: taken_task_def unknown_task_def filed_def split: option.splits)
qed

lemma filed_record_notification:
  assumes "filed b"
  shows "filed (record_notification t tid n b)"
proof -
  obtain task b' where "taken_task t tid n b = (task, b')" by fastforce
  with taken_task_filed [OF assms this] show ?thesis
    by (simp add: record_notification_def filed_def keyed_insert Let_def)
qed

lemma filed_handle:
  "filed b \<Longrightarrow> handle_daemon_message lib t m b = Inr b' \<Longrightarrow> filed b'"
  by (auto simp: handle_daemon_message_def process_notification_def process_snapshot_def
      filed_record_notification Let_def split: if_splits option.splits prod.splits)
    (simp_all add: filed_def keyed_table_of)

lemma filed_poll_loop:
  assumes "poll_loop lib ch c prs i b w = Some (res, b', w')" and "filed b"
  shows "filed b'"
proof -
  have "filed b \<longrightarrow> filed (fst (snd r))" if "poll_loop lib ch c prs i b w = Some r" for r
  proof (rule poll_loop.raw_induct [where P = "\<lambda>lib ch c prs i b w r. filed b \<longrightarrow> filed (fst (snd r))", OF _ that],
      rule impI, goal_cases)
    case (1 loop lib ch c prs i b w r)
    from 1(2,3) show ?case
      by (auto split: prod.splits sum.splits option.splits dest: filed_handle dest!: 1(1))
  qed
  from this [OF assms(1)] assms(2) show ?thesis by simp
qed

lemma filed_answer:
  "handle_answer lib t b answer = (res, b', w') \<Longrightarrow> filed b \<Longrightarrow> filed b'"
  by (auto simp: handle_answer_def dest: filed_handle split: prod.splits sum.splits option.splits)

lemma filed_consume:
  "consume_notification lib ch c prs b w = Some (res, b', w') \<Longrightarrow> filed b \<Longrightarrow> filed b'"
  by (auto simp: consume_notification_def dest: filed_answer filed_poll_loop split: prod.splits sum.splits)

lemma filed_drop [simp]: "filed (drop_on_error e b) = filed b"
  by (simp add: filed_def)

lemma filed_refresh:
  assumes "refresh_notifications lib ch env prs b w = Some (res, b', w')" and "filed b"
  shows "filed b'"
proof -
  obtain r1 b1 w1 where e: "ensure_connected lib ch env (prs 0) b w = (r1, b1, w1)"
    using prod_cases3 by blast
  have b1: "filed b1" using connected_tables [OF e] assms(2) filed_tables by blast
  show ?thesis
    using assms(1) e b1
    by (cases res) (auto simp: refresh_notifications_def dest: filed_answer filed_consume
        split: prod.splits sum.splits)
qed

inductive backend_step :: "client_crates \<Rightarrow> 'w channel \<Rightarrow> process_env \<Rightarrow> backend \<Rightarrow> backend \<Rightarrow> bool"
  for lib ch env where
  delegate: "backend_delegate lib ch env prs a b w = (res, b', w') \<Longrightarrow> backend_step lib ch env b b'"
| notify: "backend_notify lib ch env prs tid n b w = (res, b', w') \<Longrightarrow> backend_step lib ch env b b'"
| status: "backend_status lib ch env prs f b w = Some (res, b', w') \<Longrightarrow> backend_step lib ch env b b'"
| get_task: "backend_get_task lib ch env prs tid b w = Some (res, b', w') \<Longrightarrow> backend_step lib ch env b b'"
| ping: "backend_ping lib ch env prs b w = (res, b', w') \<Longrightarrow> backend_step lib ch env b b'"
| cleanup: "backend_cleanup inst wall b = b' \<Longrightarrow> backend_step lib ch env b b'"

lemma filed_step: "backend_step lib ch env b b' \<Longrightarrow> filed b \<Longrightarrow> filed b'"
proof (induction rule: backend_step.induct)
  case (delegate prs a b w res b' w')
  then show ?case
    by (auto simp: backend_delegate_def Let_def dest!: with_client_tables intro!: filed_record_task
        split: prod.splits sum.splits) (simp_all add: filed_def)
next
  case (notify prs tid n b w res b' w')
  then show ?case
    by (auto simp: backend_notify_def Let_def dest!: with_client_tables intro!: filed_record_notification
        split: prod.splits sum.splits if_splits) (simp_all add: filed_def)
next
  case (status prs f b w res b' w')
  then show ?case
    by (auto simp: backend_status_def refreshed_def dest: filed_refresh)
next
  case (get_task prs tid b w res b' w')
  then show ?case
    by (auto simp: backend_get_task_def refreshed_def dest: filed_refresh split: option.splits)
next
  case (ping prs b w res b' w')
  then show ?case
    by (auto simp: backend_ping_def filed_def dest!: with_client_tables split: prod.splits sum.splits)
next
  case (cleanup inst wall b b')
  then show ?case by (auto simp: backend_cleanup_def filed_def)
qed

text \<open>
  C18: Whatever comes over the channel, in every state a backend reaches from the empty one both of
  its tables hold each task under its own identifier and each identifier once.
\<close>

theorem backend_tables_filed:
  assumes "(backend_step lib ch env)\<^sup>*\<^sup>* (new_backend cfg secret_env ident_env env) b"
  shows "distinct (map fst (bk_active b)) \<and> (\<forall>tid t. hm_get (bk_active b) tid = Some t \<longrightarrow> task_id t = tid)
    \<and> distinct (map fst (bk_completed b)) \<and> (\<forall>tid t. hm_get (bk_completed b) tid = Some t \<longrightarrow> task_id t = tid)"
proof -
  have "filed b"
    using assms
    by (induction rule: rtranclp_induct) (auto simp: filed_def new_backend_def dest: filed_step [unfolded filed_def])
  then show ?thesis by (auto simp: filed_def keyed_def hm_wf_def)
qed

lemma backend_tables_filed_witness:
  "distinct (map fst (bk_active (fst (snd (run_daemon_delegate sample_crates silent_channel sample_process
     sample_readings sample_args (new_backend default_config None None sample_process, ()))))))"
proof -
  let ?b = "new_backend default_config None None sample_process"
  obtain res b' w' where d: "backend_delegate sample_crates silent_channel sample_process sample_readings
      sample_args ?b () = (res, b', w')"
    using prod_cases3 by blast
  have "(backend_step sample_crates silent_channel sample_process)\<^sup>*\<^sup>* ?b b'"
    using backend_step.delegate [OF d] by blast
  moreover have "fst (snd (run_daemon_delegate sample_crates silent_channel sample_process sample_readings
      sample_args (?b, ()))) = b'"
    using d by (simp add: run_daemon_delegate_def split: sum.split)
  ultimately show ?thesis using backend_tables_filed by metis
qed

end
