(* ===== verification/Tool_Calling.thy ===== *)
theory Tool_Calling
  imports Str_Search Json
begin

text \<open>
  The tool calls in the answer of a language model (crates/backends/core/src/tool_calling.rs): the
  tagged form, the form without its wrapper, a bare JSON object, the form that names the tool in
  the tag, the repair of damaged arguments, and the text that is left for the user.

  \<open>serde_json::from_str\<close> is the parameter \<open>jp\<close>. The functions that slice the text return
  \<open>None\<close> where the slice panics. A loop over \<open>text[start..]\<close> is a recursion over that suffix.
  An object that is collected from a \<open>HashMap\<close> has its members in the order of insertion.
\<close>

record tool_call =
  tc_name :: string
  tc_arguments :: json

datatype tool_calling_mode = ModePrompt | ModeNative

definition detect_format_from_family :: "string option \<Rightarrow> tool_calling_mode" where
  "detect_format_from_family family =
     (if family \<in> {Some ''qwen'', Some ''llama3'', Some ''mistral''} then ModePrompt else ModePrompt)"

definition fence :: string where "fence = [CHR 0x60, CHR 0x60, CHR 0x60]"

definition quote :: string where "quote = [CHR 0x22]"

subsection \<open>Cleaning and classification\<close>

definition strip_markdown_blocks :: "string \<Rightarrow> string" where
  "strip_markdown_blocks content =
     (let result = replace_str (fence @ ''xml'' @ [nl]) [] content;
          result = replace_str (fence @ ''plaintext'' @ [nl]) [] result;
          result = replace_str (fence @ [nl]) [] result;
          result = replace_str (fence @ ''xml'') [] result;
          result = replace_str (fence @ ''plaintext'') [] result
      in replace_str fence [] result)"

definition looks_like_tool_result :: "string \<Rightarrow> bool" where
  "looks_like_tool_result block =
     (let has_tool_name = contains block ''<tool_name>'';
          has_result_patterns =
            contains block (quote @ ''content'' @ quote @ '': ['')
            \<or> contains block (quote @ ''text'' @ quote @ '':'')
            \<or> contains block ''File written''
            \<or> contains block (quote @ ''metadata'' @ quote @ '':'')
            \<or> contains block ''File written successfully''
            \<or> contains block ''bytes_written''
      in \<not> has_tool_name \<and> has_result_patterns)"

subsection \<open>Damaged arguments\<close>

text \<open>The index of the first quote that no backslash precedes, or the length.\<close>

fun scan_quote :: "bool \<Rightarrow> string \<Rightarrow> nat" where
  "scan_quote escaped [] = 0"
| "scan_quote escaped (c # cs) =
     (if c = CHR 0x22 \<and> \<not> escaped then 0 else Suc (scan_quote (c = CHR 0x5C) cs))"

text \<open>The text behind a marker and its opening quote.\<close>

definition quoted_after :: "string \<Rightarrow> string \<Rightarrow> string option" where
  "quoted_after marker s =
     (case find_str marker s of
        None \<Rightarrow> None
      | Some i \<Rightarrow>
          let trimmed = trim_start (drop (i + length marker) s)
          in if starts_with trimmed quote then Some (drop 1 trimmed) else None)"

definition repair_file_write_json :: "string \<Rightarrow> json option" where
  "repair_file_write_json s =
     (case quoted_after (quote @ ''path'' @ quote @ '':'') s of
        None \<Rightarrow> None
      | Some path_content \<Rightarrow>
          let path_value = take (scan_quote False path_content) path_content
          in case quoted_after (quote @ ''content'' @ quote @ '':'') s of
               None \<Rightarrow> None
             | Some content_substr \<Rightarrow>
                 (case rfind_str (quote @ [nl] @ ''}'') content_substr of
                    Some e \<Rightarrow> Some (JObj [(''path'', JStr path_value),
                                          (''content'', JStr (take e content_substr))])
                  | None \<Rightarrow>
                 (case rfind_str (quote @ ''}'') content_substr of
                    Some e \<Rightarrow> Some (JObj [(''path'', JStr path_value),
                                          (''content'', JStr (take e content_substr))])
                  | None \<Rightarrow>
                 (case rfind_str quote content_substr of
                    Some e \<Rightarrow> Some (JObj [(''path'', JStr path_value),
                                          (''content'', JStr (take e content_substr))])
                  | None \<Rightarrow> None))))"

definition try_repair_json :: "(string \<Rightarrow> json option) \<Rightarrow> string \<Rightarrow> string \<Rightarrow> json option" where
  "try_repair_json jp s tool_name =
     (if contains tool_name ''file_write'' then repair_file_write_json s
      else jp (replace_str '', }'' '' }'' (replace_str ('','' @ [nl] @ ''}'') ([nl] @ ''}'') s)))"

subsection \<open>One block\<close>

definition extract_arguments :: "(string \<Rightarrow> json option) \<Rightarrow> string \<Rightarrow> string \<Rightarrow> json option" where
  "extract_arguments jp block tool_name =
     (case (find_str ''<arguments>'' block, find_str ''</arguments>'' block) of
        (Some args_start, Some args_end) \<Rightarrow>
          map_option (\<lambda>raw.
              let args_str = trim raw
              in case jp args_str of
                   Some v \<Rightarrow> v
                 | None \<Rightarrow> (case try_repair_json jp args_str tool_name of Some v \<Rightarrow> v | None \<Rightarrow> JObj []))
            (slice (args_start + length ''<arguments>'') args_end block)
      | _ \<Rightarrow> Some (JObj []))"

definition parse_single_block :: "(string \<Rightarrow> json option) \<Rightarrow> string \<Rightarrow> tool_call option option" where
  "parse_single_block jp block =
     (case (find_str ''<tool_name>'' block, find_str ''</tool_name>'' block) of
        (Some name_start, Some name_end) \<Rightarrow>
          (case slice (name_start + length ''<tool_name>'') name_end block of
             None \<Rightarrow> None
           | Some raw \<Rightarrow>
               map_option (\<lambda>arguments. Some \<lparr>tc_name = trim raw, tc_arguments = arguments\<rparr>)
                 (extract_arguments jp block (trim raw)))
      | _ \<Rightarrow>
          (case find_str ''<arguments>'' block of
             None \<Rightarrow> Some None
           | Some args_start \<Rightarrow>
               let after_tag = (case find_str ''<tool_call>'' block of
                                  Some i \<Rightarrow> i + length ''<tool_call>'' | None \<Rightarrow> 0)
               in case slice after_tag args_start block of
                    None \<Rightarrow> None
                  | Some raw \<Rightarrow>
                      let name = trim raw
                      in if name \<noteq> [] \<and> CHR ''<'' \<notin> set name
                         then map_option (\<lambda>arguments. Some \<lparr>tc_name = name, tc_arguments = arguments\<rparr>)
                                (extract_arguments jp block name)
                         else Some None))"

definition push_call :: "tool_call option \<Rightarrow> tool_call list \<Rightarrow> tool_call list" where
  "push_call c cs = (case c of None \<Rightarrow> cs | Some c \<Rightarrow> c # cs)"

subsection \<open>The four forms\<close>

text \<open>The loop over \<open><tool_call>\<close> blocks.\<close>

function xml_calls :: "(string \<Rightarrow> json option) \<Rightarrow> string \<Rightarrow> tool_call list option" where
  "xml_calls jp s =
     (case find_str ''<tool_call>'' s of
        None \<Rightarrow> Some []
      | Some i \<Rightarrow>
          let s' = drop i s
          in case find_str ''</tool_call>'' s' of
               None \<Rightarrow> Some []
             | Some j \<Rightarrow>
                 let n = j + length ''</tool_call>'';
                     block = take n s'
                 in if looks_like_tool_result block then xml_calls jp (drop n s')
                    else case parse_single_block jp block of
                           None \<Rightarrow> None
                         | Some c \<Rightarrow> map_option (push_call c) (xml_calls jp (drop n s')))"
  by pat_completeness auto
termination
  by (relation "measure (\<lambda>(jp, s). length s)") (auto dest: find_str_Some)

declare xml_calls.simps [simp del]

text \<open>The loop over \<open><tool_name>\<close> tags that stand without a wrapper.\<close>

function bare_calls :: "(string \<Rightarrow> json option) \<Rightarrow> string \<Rightarrow> tool_call list option" where
  "bare_calls jp s =
     (case find_str ''<tool_name>'' s of
        None \<Rightarrow> Some []
      | Some i \<Rightarrow>
          let s' = drop i s
          in case (case find_str ''</arguments>'' s' of
                     Some j \<Rightarrow> Some (j + length ''</arguments>'')
                   | None \<Rightarrow> map_option (\<lambda>j. j + length ''</tool_name>'') (find_str ''</tool_name>'' s')) of
               None \<Rightarrow> Some []
             | Some n \<Rightarrow>
                 (case parse_single_block jp (''<tool_call>'' @ take n s' @ ''</tool_call>'') of
                    None \<Rightarrow> None
                  | Some c \<Rightarrow> map_option (push_call c) (bare_calls jp (drop n s'))))"
  by pat_completeness auto
termination
  by (relation "measure (\<lambda>(jp, s). length s)") (auto dest: find_str_Some split: option.splits)

declare bare_calls.simps [simp del]

text \<open>The first balanced object with a string \<open>name\<close> and some \<open>arguments\<close>.\<close>

definition call_of_json :: "(string \<Rightarrow> json option) \<Rightarrow> string \<Rightarrow> tool_call option" where
  "call_of_json jp s =
     (case jp s of
        None \<Rightarrow> None
      | Some obj \<Rightarrow>
          (case (get_str obj ''name'', jget obj ''arguments'') of
             (Some name, Some args) \<Rightarrow> Some \<lparr>tc_name = name, tc_arguments = args\<rparr>
           | _ \<Rightarrow> None))"

fun brace_scan ::
  "(string \<Rightarrow> json option) \<Rightarrow> string \<Rightarrow> nat \<Rightarrow> nat option \<Rightarrow> int \<Rightarrow> string \<Rightarrow> tool_call option" where
  "brace_scan jp content i start count [] = None"
| "brace_scan jp content i start count (c # cs) =
     (if c = CHR ''{'' then
        brace_scan jp content (Suc i) (Some (case start of None \<Rightarrow> i | Some b \<Rightarrow> b)) (count + 1) cs
      else if c = CHR ''}'' then
        (if count - 1 = 0 then
           (case start of
              None \<Rightarrow> brace_scan jp content (Suc i) start (count - 1) cs
            | Some b \<Rightarrow>
                (case call_of_json jp (take (Suc i - b) (drop b content)) of
                   Some call \<Rightarrow> Some call
                 | None \<Rightarrow> brace_scan jp content (Suc i) None (count - 1) cs))
         else brace_scan jp content (Suc i) start (count - 1) cs)
      else brace_scan jp content (Suc i) start count cs)"

definition try_parse_json_format :: "(string \<Rightarrow> json option) \<Rightarrow> string \<Rightarrow> tool_call option" where
  "try_parse_json_format jp content = brace_scan jp content 0 None 0 content"

text \<open>The parameters of the form that names the tool in the tag.\<close>

function xml_params :: "(string \<Rightarrow> json option) \<Rightarrow> string \<Rightarrow> (string \<times> json) list \<Rightarrow> (string \<times> json) list" where
  "xml_params jp s params =
     (case find_str ''<'' s of
        None \<Rightarrow> params
      | Some i \<Rightarrow>
          let s' = drop i s
          in case find_str ''>'' s' of
               None \<Rightarrow> params
             | Some j \<Rightarrow>
                 let tag_name = take (j - 1) (drop 1 s');
                     after = drop (Suc j) s'
                 in if starts_with tag_name ''/'' then xml_params jp after params
                    else let close_tag = ''</'' @ tag_name @ ''>''
                         in case find_str close_tag after of
                              None \<Rightarrow> xml_params jp after params
                            | Some k \<Rightarrow>
                                let raw = trim (take k after);
                                    v = (case jp raw of Some v \<Rightarrow> v | None \<Rightarrow> JStr raw)
                                in xml_params jp (drop (k + length close_tag) after)
                                     (AList.update tag_name v params))"
  by pat_completeness auto
termination
  by (relation "measure (\<lambda>(jp, s, ps). length s)") (auto dest: find_str_Some)

declare xml_params.simps [simp del]

definition parse_xml_params :: "(string \<Rightarrow> json option) \<Rightarrow> string \<Rightarrow> json option" where
  "parse_xml_params jp content =
     (let params = xml_params jp content [] in if params = [] then None else Some (JObj params))"

definition tool_names :: "string list" where
  "tool_names =
     [''file_read'', ''file_write'', ''file_search'', ''file_list'', ''shell'', ''exec'',
      ''search_web'', ''fetch_url'', ''git_log'', ''git_diff'', ''git_show'', ''git_blame'',
      ''git_search'', ''project_structure'', ''directory_list'', ''explorer'', ''patch_apply'',
      ''snapshot'', ''ocr'', ''screenshot'']"

function glm_tool_calls :: "(string \<Rightarrow> json option) \<Rightarrow> string \<Rightarrow> string \<Rightarrow> tool_call list option" where
  "glm_tool_calls jp tool_name s =
     (let open_tag = ''<'' @ tool_name @ ''>'';
          close_tag = ''</'' @ tool_name @ ''>''
      in case find_str open_tag s of
           None \<Rightarrow> Some []
         | Some i \<Rightarrow>
             let s' = drop i s
             in case find_str close_tag s' of
                  None \<Rightarrow> Some []
                | Some j \<Rightarrow>
                    (case slice (length open_tag) j s' of
                       None \<Rightarrow> None
                     | Some contents \<Rightarrow>
                         map_option
                           (push_call (map_option (\<lambda>args. \<lparr>tc_name = tool_name, tc_arguments = args\<rparr>)
                              (parse_xml_params jp contents)))
                           (glm_tool_calls jp tool_name (drop (j + length close_tag) s'))))"
  by pat_completeness auto
termination
  by (relation "measure (\<lambda>(jp, t, s). length s)") (auto dest: find_str_Some)

declare glm_tool_calls.simps [simp del]

fun glm_calls :: "(string \<Rightarrow> json option) \<Rightarrow> string \<Rightarrow> string list \<Rightarrow> tool_call list option" where
  "glm_calls jp s [] = Some []"
| "glm_calls jp s (t # ts) =
     (case glm_tool_calls jp t s of
        None \<Rightarrow> None
      | Some cs \<Rightarrow> map_option (\<lambda>cs'. cs @ cs') (glm_calls jp s ts))"

definition parse_glm_style :: "(string \<Rightarrow> json option) \<Rightarrow> string \<Rightarrow> tool_call list option" where
  "parse_glm_style jp content = glm_calls jp content tool_names"

text \<open>\<^bold>\<open>parse\<close>: each form is tried only when those before it gave no call.\<close>

definition parse_calls :: "(string \<Rightarrow> json option) \<Rightarrow> string \<Rightarrow> tool_call list option" where
  "parse_calls jp content =
     (let cleaned = strip_markdown_blocks content
      in case xml_calls jp cleaned of
           None \<Rightarrow> None
         | Some (c # cs) \<Rightarrow> Some (c # cs)
         | Some [] \<Rightarrow>
             (case bare_calls jp cleaned of
                None \<Rightarrow> None
              | Some (c # cs) \<Rightarrow> Some (c # cs)
              | Some [] \<Rightarrow>
                  (case try_parse_json_format jp cleaned of
                     Some call \<Rightarrow> Some [call]
                   | None \<Rightarrow> parse_glm_style jp cleaned)))"

subsection \<open>The text that is left\<close>

function strip_xml_blocks :: "string \<Rightarrow> string" where
  "strip_xml_blocks s =
     (case find_str ''<tool_call>'' s of
        None \<Rightarrow> s
      | Some i \<Rightarrow>
          (case find_str ''</tool_call>'' (drop i s) of
             None \<Rightarrow> s
           | Some j \<Rightarrow> strip_xml_blocks (take i s @ drop (i + j + length ''</tool_call>'') s)))"
  by pat_completeness auto
termination
  by (relation "measure length") (auto dest!: find_str_Some)

declare strip_xml_blocks.simps [simp del]

definition is_tool_call_json :: "(string \<Rightarrow> json option) \<Rightarrow> string \<Rightarrow> bool" where
  "is_tool_call_json jp content =
     (case jp (trim content) of
        Some obj \<Rightarrow> jget obj ''name'' \<noteq> None \<and> jget obj ''arguments'' \<noteq> None
      | None \<Rightarrow> False)"

text \<open>The state of the loop: the result, whether a fence is open, and the text inside it.\<close>

fun strip_fences :: "(string \<Rightarrow> json option) \<Rightarrow> string \<Rightarrow> bool \<Rightarrow> string \<Rightarrow> string list \<Rightarrow> string" where
  "strip_fences jp result in_code code [] = result"
| "strip_fences jp result in_code code (l # ls) =
     (if starts_with (trim l) fence then
        (if in_code then
           strip_fences jp
             (if is_tool_call_json jp code then result
              else result @ fence @ [nl] @ code @ fence @ [nl]) False [] ls
         else strip_fences jp result True code ls)
      else if in_code then strip_fences jp result True (code @ l @ [nl]) ls
      else strip_fences jp (result @ l @ [nl]) False code ls)"

definition strip_json_code_blocks :: "(string \<Rightarrow> json option) \<Rightarrow> string \<Rightarrow> string" where
  "strip_json_code_blocks jp content = strip_fences jp [] False [] (str_lines content)"

text \<open>At most one empty line in a row, and none at the ends.\<close>

fun collapse_blank :: "nat \<Rightarrow> string list \<Rightarrow> string list" where
  "collapse_blank n [] = []"
| "collapse_blank n (l # ls) =
     (if trim l = [] then (if Suc n \<le> 1 then [[]] else []) @ collapse_blank (Suc n) ls
      else trim l # collapse_blank 0 ls)"

definition normalize_lines :: "string list \<Rightarrow> string list" where
  "normalize_lines ls =
     rev (dropWhile (\<lambda>l. l = []) (rev (dropWhile (\<lambda>l. l = []) (collapse_blank 0 ls))))"

definition strip_tool_calls :: "(string \<Rightarrow> json option) \<Rightarrow> string \<Rightarrow> string" where
  "strip_tool_calls jp content =
     join_lines (normalize_lines (str_lines (strip_json_code_blocks jp (strip_xml_blocks content))))"

end
