(* ===== verification/Tool_Call_Properties.thy ===== *)
theory Tool_Call_Properties
  imports Tool_Calling
begin

text \<open>
  What the parser of tool calls promises: an answer in the documented format gives back its calls
  and leaves its prose, and where the parser fails.
\<close>

subsection \<open>An answer in the documented format\<close>

text \<open>
  Prose and calls, as the prompt asks the model to write them. \<open>sj\<close> prints the arguments.
\<close>

definition render_call :: "(json \<Rightarrow> string) \<Rightarrow> tool_call \<Rightarrow> string" where
  "render_call sj c =
     ''<tool_call>'' @ nl # ''<tool_name>'' @ tc_name c @ ''</tool_name>'' @ nl # ''<arguments>'' @
     nl # sj (tc_arguments c) @ nl # ''</arguments>'' @ nl # ''</tool_call>''"

fun render_turn :: "(json \<Rightarrow> string) \<Rightarrow> (string \<times> tool_call) list \<Rightarrow> string \<Rightarrow> string" where
  "render_turn sj [] post = post"
| "render_turn sj ((pre, c) # rest) post = pre @ render_call sj c @ render_turn sj rest post"

text \<open>
  A call that the format can carry: a trimmed name without an angle bracket, and arguments that
  parse back and do not spell a closing tag.
\<close>

definition plain_call :: "(string \<Rightarrow> json option) \<Rightarrow> (json \<Rightarrow> string) \<Rightarrow> tool_call \<Rightarrow> bool" where
  "plain_call jp sj c \<longleftrightarrow>
     CHR ''<'' \<notin> set (tc_name c) \<and> trim (tc_name c) = tc_name c
     \<and> jp (trim (nl # sj (tc_arguments c) @ [nl])) = Some (tc_arguments c)
     \<and> \<not> contains (sj (tc_arguments c)) ''</arguments>''
     \<and> \<not> contains (sj (tc_arguments c)) ''</tool_call>''"

lemma slice_mid: "slice (length a) (length a + length b) (a @ b @ c) = Some b"
  by (simp add: slice_def)

lemma slice_mid': "i = length a \<Longrightarrow> j = length a + length b \<Longrightarrow> slice i j (a @ b @ c) = Some b"
  by (simp add: slice_mid)

lemma find_str_tail:
  "nl \<notin> set p \<Longrightarrow> p \<noteq> [] \<Longrightarrow> \<not> contains a p \<Longrightarrow> find_str p (a @ nl # b) = map_option ((+) (Suc (length a))) (find_str p b)"
  by (simp add: find_str_sep find_str_None [THEN iffD2])

lemma find_name_open: "find_str ''<tool_name>'' (render_call sj c @ rest) = Some 12"
  by (simp add: render_call_def)

lemma find_name_close:
  "CHR ''<'' \<notin> set (tc_name c) \<Longrightarrow>
    find_str ''</tool_name>'' (render_call sj c @ rest) = Some (23 + length (tc_name c))"
  by (simp add: render_call_def find_str_skip)

lemma find_args_open:
  "CHR ''<'' \<notin> set (tc_name c) \<Longrightarrow>
    find_str ''<arguments>'' (render_call sj c @ rest) = Some (36 + length (tc_name c))"
  by (simp add: render_call_def find_str_skip)

lemma find_args_close:
  "CHR ''<'' \<notin> set (tc_name c) \<Longrightarrow> \<not> contains (sj (tc_arguments c)) ''</arguments>'' \<Longrightarrow>
    find_str ''</arguments>'' (render_call sj c @ rest) =
      Some (49 + length (tc_name c) + length (sj (tc_arguments c)))"
  by (simp add: render_call_def find_str_skip find_str_tail)

lemma find_call_close:
  "CHR ''<'' \<notin> set (tc_name c) \<Longrightarrow> \<not> contains (sj (tc_arguments c)) ''</tool_call>'' \<Longrightarrow>
    find_str ''</tool_call>'' (render_call sj c @ rest) =
      Some (62 + length (tc_name c) + length (sj (tc_arguments c)))"
  by (simp add: render_call_def find_str_skip find_str_tail)

lemma length_render: "length (render_call sj c) = 74 + length (tc_name c) + length (sj (tc_arguments c))"
  by (simp add: render_call_def)

lemma looks_like_render: "\<not> looks_like_tool_result (render_call sj c)"
proof -
  have "render_call sj c = (''<tool_call>'' @ [nl]) @ ''<tool_name>'' @
      drop 23 (render_call sj c)"
    by (simp add: render_call_def)
  then have "contains (render_call sj c) ''<tool_name>''"
    unfolding contains_def sublist_def by blast
  then show ?thesis by (simp add: looks_like_tool_result_def)
qed

lemma slice_name:
  "slice 23 (23 + length (tc_name c)) (render_call sj c) = Some (tc_name c)"
  unfolding render_call_def
  using slice_mid' [of 23 "''<tool_call>'' @ nl # ''<tool_name>''" "23 + length (tc_name c)" "tc_name c"]
  by simp

lemma slice_args:
  "slice (47 + length (tc_name c)) (49 + length (tc_name c) + length (sj (tc_arguments c)))
     (render_call sj c) = Some (nl # sj (tc_arguments c) @ [nl])"
  unfolding render_call_def
  using slice_mid' [of "47 + length (tc_name c)"
      "''<tool_call>'' @ nl # ''<tool_name>'' @ tc_name c @ ''</tool_name>'' @ nl # ''<arguments>''"
      "49 + length (tc_name c) + length (sj (tc_arguments c))"
      "nl # sj (tc_arguments c) @ [nl]" "''</arguments>'' @ nl # ''</tool_call>''"] by simp

lemma extract_render:
  assumes "plain_call jp sj c"
  shows "extract_arguments jp (render_call sj c) name = Some (tc_arguments c)"
  using assms find_args_open [of c sj "[]"] find_args_close [of c sj "[]"] slice_args [of c sj]
  by (simp add: extract_arguments_def plain_call_def)

lemma parse_block_render:
  assumes "plain_call jp sj c"
  shows "parse_single_block jp (render_call sj c) = Some (Some c)"
  using assms find_name_open [of sj c "[]"] find_name_close [of c sj "[]"] slice_name [of c sj]
    extract_render [OF assms]
  by (simp add: parse_single_block_def plain_call_def)

lemma find_call_open: "find_str ''<tool_call>'' (render_call sj c @ rest) = Some 0"
  by (simp add: render_call_def)

text \<open>The opening tag has its angle bracket only in front, so it cannot begin in the text before it.\<close>

lemma find_str_before:
  assumes "p \<noteq> []" and "hd p \<notin> set (tl p)" and "prefix p b" and "\<not> contains a p"
  shows "find_str p (a @ b) = Some (length a)"
  using assms(4)
proof (induction a)
  case Nil
  then show ?case using assms(3) by (cases b) simp_all
next
  case (Cons x a)
  have "\<not> prefix p (x # a @ b)"
  proof
    assume "prefix p (x # a @ b)"
    then have pre: "prefix p ((x # a) @ b)" by simp
    obtain v where v: "p = (x # a) @ v" and vb: "prefix v b"
      using pre [unfolded prefix_append] Cons.prems by (auto simp: contains_def)
    show False
    proof (cases v)
      case Nil
      then show ?thesis using v Cons.prems by (simp add: contains_def)
    next
      case (Cons y ys)
      then have "hd p = y" using vb assms(1,3) by (cases b; cases p) auto
      then show ?thesis using v Cons assms(2) by simp
    qed
  qed
  moreover have "\<not> contains a p"
    using Cons.prems by (auto simp: contains_def sublist_Cons_right)
  ultimately show ?case using Cons.IH by simp
qed

lemma xml_calls_render:
  assumes "\<forall>(pre, c) \<in> set xs. \<not> contains pre ''<tool_call>'' \<and> plain_call jp sj c"
    and "\<not> contains post ''<tool_call>''"
  shows "xml_calls jp (render_turn sj xs post) = Some (map snd xs)"
  using assms(1)
proof (induction xs)
  case Nil
  then show ?case using assms(2) by (simp add: xml_calls.simps [of jp post] find_str_None [THEN iffD2])
next
  case (Cons x xs)
  obtain pre c where x: "x = (pre, c)" by fastforce
  let ?rest = "render_turn sj xs post"
  from Cons.prems x have pre: "\<not> contains pre ''<tool_call>''" and c: "plain_call jp sj c" by auto
  have "find_str ''<tool_call>'' (pre @ render_call sj c @ ?rest) = Some (length pre)"
    using pre by (intro find_str_before) (simp_all add: render_call_def)
  moreover have "find_str ''</tool_call>'' (render_call sj c @ ?rest)
      = Some (length (render_call sj c) - 12)"
    using c by (simp add: find_call_close plain_call_def length_render)
  ultimately show ?case
    using Cons parse_block_render [OF c] looks_like_render [of sj c]
    by (simp add: x xml_calls.simps [of jp "pre @ render_call sj c @ ?rest"] Let_def length_render
        push_call_def)
qed

lemma strip_markdown_absent:
  assumes "\<not> contains s fence"
  shows "strip_markdown_blocks s = s"
proof -
  have "\<not> contains s (fence @ w)" for w
    using assms contains_mono [of s "fence @ w" fence] by (auto simp: sublist_def)
  from this [of "[]"] this show ?thesis
    by (simp add: strip_markdown_blocks_def Let_def replace_str_absent)
qed

lemma strip_xml_render:
  assumes "\<forall>(pre, c) \<in> set xs. CHR ''<'' \<notin> set pre \<and> plain_call jp sj c"
    and "\<not> contains post ''<tool_call>''" and "CHR ''<'' \<notin> set before"
  shows "strip_xml_blocks (before @ render_turn sj xs post) = before @ concat (map fst xs) @ post"
  using assms(1,3)
proof (induction xs arbitrary: before)
  case Nil
  then show ?case
    using assms(2)
    by (simp add: strip_xml_blocks.simps [of "before @ post"] find_str_skip find_str_None [THEN iffD2])
next
  case (Cons x xs)
  obtain pre c where x: "x = (pre, c)" by fastforce
  let ?rest = "render_turn sj xs post" and ?b = "before @ pre"
  from Cons.prems x have pre: "CHR ''<'' \<notin> set ?b" and c: "plain_call jp sj c" by auto
  have "find_str ''<tool_call>'' (?b @ render_call sj c @ ?rest) = Some (length ?b)"
    using find_str_skip [of "''<tool_call>''" ?b "render_call sj c @ ?rest"] pre
    by (simp add: find_call_open)
  moreover have "find_str ''</tool_call>'' (render_call sj c @ ?rest)
      = Some (length (render_call sj c) - 12)"
    using c by (simp add: find_call_close plain_call_def length_render)
  ultimately have "strip_xml_blocks (?b @ render_call sj c @ ?rest) = strip_xml_blocks (?b @ ?rest)"
    by (simp add: strip_xml_blocks.simps [of "before @ pre @ render_call sj c @ ?rest"] length_render)
  then show ?case using Cons.IH [of ?b] Cons.prems pre x by simp
qed

subsection \<open>What the parser promises, and where it fails\<close>

text \<open>
  C33: An answer in the documented format gives back its calls. The answer is one or more calls as
  the prompt writes them, prose before each and after the last that does not spell the opening tag
  of a call, and no code fence (three backquotes) anywhere, the arguments included: the parser
  removes fences first. Each call has a trimmed name without an angle bracket and arguments that the
  JSON parser reads back from their printed form and that do not spell a closing tag. Then parsing
  returns exactly these calls, in order, with their names and arguments, without a panic.
\<close>

theorem rendered_calls_are_parsed:
  assumes "xs \<noteq> []"
    and "\<forall>(pre, c) \<in> set xs. \<not> contains pre ''<tool_call>'' \<and> plain_call jp sj c"
    and "\<not> contains post ''<tool_call>''"
    and "\<not> contains (render_turn sj xs post) fence"
  shows "parse_calls jp (render_turn sj xs post) = Some (map snd xs)"
  using xml_calls_render [OF assms(2,3)] strip_markdown_absent [OF assms(4)] assms(1)
  by (cases xs) (simp_all add: parse_calls_def)

text \<open>An answer with one call, for the witnesses: the printer writes \<open>{}\<close> for every value.\<close>

definition one_call :: "(string \<times> tool_call) list" where
  "one_call = [(''Reading. '', \<lparr>tc_name = ''file_read'', tc_arguments = JObj []\<rparr>)]"

definition empty_object :: "string \<Rightarrow> json option" where
  "empty_object t = (if t = ''{}'' then Some (JObj []) else None)"

lemma one_call_plain:
  "\<forall>(pre, c) \<in> set one_call. CHR ''<'' \<notin> set pre \<and> plain_call empty_object (\<lambda>_. ''{}'') c"
proof -
  have "trim ''file_read'' = ''file_read''" by code_simp
  moreover have "trim (nl # ''{}'' @ [nl]) = ''{}''" by code_simp
  ultimately show ?thesis
    by (simp add: one_call_def plain_call_def empty_object_def contains_def sublist_Cons_right)
qed

lemma one_call_text:
  "\<not> contains '' Done.'' ''<tool_call>''"
  "\<not> contains (render_turn (\<lambda>_. ''{}'') one_call '' Done.'') fence"
  by (simp_all add: contains_def sublist_Cons_right one_call_def render_call_def fence_def)

text \<open>Two calls, with angle brackets in the prose.\<close>

definition two_calls :: "(string \<times> tool_call) list" where
  "two_calls = (''If a < b: '', \<lparr>tc_name = ''ocr'', tc_arguments = JObj []\<rparr>) # one_call"

lemma two_calls_plain:
  "\<forall>(pre, c) \<in> set two_calls. \<not> contains pre ''<tool_call>'' \<and> plain_call empty_object (\<lambda>_. ''{}'') c"
proof -
  have "trim ''ocr'' = ''ocr''" by code_simp
  with one_call_plain show ?thesis
    by (simp add: two_calls_def one_call_def plain_call_def contains_def sublist_Cons_right)
qed

lemma rendered_calls_are_parsed_witness:
  "parse_calls empty_object (render_turn (\<lambda>_. ''{}'') two_calls '' Done.'') = Some (map snd two_calls)"
  by (rule rendered_calls_are_parsed [OF _ two_calls_plain one_call_text(1)])
    (simp_all add: two_calls_def one_call_def contains_def sublist_Cons_right render_call_def fence_def)

text \<open>A fence within the arguments, as in the text of a file to write, is removed from them.\<close>

lemma fence_in_arguments_is_removed:
  "parse_calls (\<lambda>t. Some (JStr t))
      (render_call (\<lambda>_. ''a'' @ fence @ ''b'') \<lparr>tc_name = ''ocr'', tc_arguments = JNull\<rparr>)
    = Some [\<lparr>tc_name = ''ocr'', tc_arguments = JStr ''ab''\<rparr>]"
  by code_simp

text \<open>
  What is shown to the user is the prose alone: stripping an answer gives the same text as
  stripping the answer with its tool calls left out.
\<close>

theorem stripping_leaves_the_prose:
  assumes "\<forall>(pre, c) \<in> set xs. CHR ''<'' \<notin> set pre \<and> plain_call jp sj c"
    and "\<not> contains post ''<tool_call>''"
  shows "strip_tool_calls jp (render_turn sj xs post) = strip_tool_calls jp (concat (map fst xs) @ post)"
proof -
  have "CHR ''<'' \<notin> set (concat (map fst xs))" using assms(1) by fastforce
  then have "strip_xml_blocks (concat (map fst xs) @ post) = concat (map fst xs) @ post"
    using strip_xml_render [of "[]" jp sj post "concat (map fst xs)"] assms(2) by simp
  moreover have "strip_xml_blocks (render_turn sj xs post) = concat (map fst xs) @ post"
    using strip_xml_render [OF assms, of "[]"] by simp
  ultimately show ?thesis by (simp add: strip_tool_calls_def)
qed
lemma stripping_leaves_the_prose_witness:
  "strip_tool_calls empty_object (render_turn (\<lambda>_. ''{}'') one_call '' Done.'')
    = strip_tool_calls empty_object ''Reading.  Done.''"
  using stripping_leaves_the_prose [OF one_call_plain one_call_text(1)] by (simp add: one_call_def)

text \<open>The parser slices from the opening to the closing tag: a closing tag that stands first panics.\<close>

lemma misordered_tags_panic:
  "parse_calls jp ''<tool_call></tool_name><tool_name>ls</tool_call>'' = None"
  by code_simp

text \<open>A closing brace in the prose makes the count negative, and the call behind it is not found.\<close>

definition flat_call :: string where
  "flat_call = ''{name: ocr, arguments: []}''"

lemma stray_brace_hides_call:
  "try_parse_json_format jp (''}'' @ flat_call) = None"
  "jp flat_call = Some (JObj [(''name'', JStr ''ocr''), (''arguments'', JArr [])]) \<Longrightarrow>
    try_parse_json_format jp flat_call = Some \<lparr>tc_name = ''ocr'', tc_arguments = JArr []\<rparr>"
  by (simp_all add: try_parse_json_format_def flat_call_def call_of_json_def get_str_def)

text \<open>The repair of a file's text leaves the escapes as they are: a backslash and an \<open>n\<close>.\<close>

lemma repair_keeps_escapes:
  "repair_file_write_json
      (''{'' @ quote @ ''path'' @ quote @ '':'' @ quote @ ''a'' @ quote @ '','' @
       quote @ ''content'' @ quote @ '':'' @ quote @ ''b'' @ [CHR 0x5C] @ ''n'' @ quote @ ''}'')
    = Some (JObj [(''path'', JStr ''a''), (''content'', JStr [CHR ''b'', CHR 0x5C, CHR ''n''])])"
  by code_simp

text \<open>Text behind a fence that is never closed is dropped.\<close>

lemma unclosed_fence_loses_text:
  "\<forall>l \<in> set ls. \<not> starts_with (trim l) fence \<Longrightarrow> starts_with (trim l) fence \<Longrightarrow>
    strip_fences jp result False [] (l # ls) = result"
proof -
  assume ls: "\<forall>l \<in> set ls. \<not> starts_with (trim l) fence" and l: "starts_with (trim l) fence"
  have "strip_fences jp result True code ls = result" for code
    using ls by (induction ls arbitrary: code) auto
  with l show ?thesis by simp
qed

end
