(* ===== verification/Snapshot_Cache.thy ===== *)
theory Snapshot_Cache
  imports Str_Search Devit_Error "HOL-Library.Char_ord" "HOL-Library.List_Lexorder"
begin

text \<open>
  Snapshot identifiers and their cache (crates/cli/src/core/snapshot.rs, first part): the state of
  the git repository, its signature, the least-recently-used cache of signatures, and the two
  services that make and check an identifier.

  \<open>bh\<close> is the parameter for \<^bold>\<open>blake3\<close>: the digest of a text in hexadecimal digits, of which
  the code takes a front part. What git and the file system answer is a value of
  \<open>git_answers\<close>; the list of outputs is the parameter \<open>git\<close> in the description of a snapshot.
  Times are seconds since 1970.
\<close>

subsection \<open>Texts\<close>

text \<open>The continuation bytes of UTF-8, and the first characters of a text.\<close>

definition is_continuation :: "char \<Rightarrow> bool" where
  "is_continuation c = (0x80 \<le> (of_char c :: nat) \<and> (of_char c :: nat) < 0xC0)"

fun take_chars :: "nat \<Rightarrow> string \<Rightarrow> string" where
  "take_chars n [] = []"
| "take_chars n (c # cs) =
     (if is_continuation c then c # take_chars n cs
      else if n = 0 then [] else c # take_chars (n - 1) cs)"

definition is_hexdigit :: "char \<Rightarrow> bool" where
  "is_hexdigit c =
     (let v = of_char c :: nat
      in 48 \<le> v \<and> v \<le> 57 \<or> 65 \<le> v \<and> v \<le> 70 \<or> 97 \<le> v \<and> v \<le> 102)"

text \<open>\<^bold>\<open>split\<close> at a text that is not empty.\<close>

function split_str :: "string \<Rightarrow> string \<Rightarrow> string list" where
  "split_str p s =
     (if p = [] then [s]
      else case find_str p s of
             None \<Rightarrow> [s]
           | Some i \<Rightarrow> take i s # split_str p (drop (i + length p) s))"
  by pat_completeness auto
termination
proof (relation "measure (\<lambda>(p, s). length s)", goal_cases)
  case (2 p s i)
  then have "i + length p \<le> length s" using find_str_Some by blast
  then show ?case using 2(1) by (cases p) auto
qed simp

declare split_str.simps [simp del]

lemma split_str_nonempty [simp]: "split_str p s \<noteq> []"
  by (simp add: split_str.simps [of p s] split: option.split)

text \<open>\<open>parse::<i64>\<close> of a text without a minus sign.\<close>

abbreviation parse_i64 :: "string \<Rightarrow> nat option" where
  "parse_i64 \<equiv> parse_uint 10 (2 ^ 63)"

subsection \<open>What git says about a directory\<close>

record git_snapshot =
  gs_commit_hash :: string
  gs_branch :: string
  gs_is_clean :: bool
  gs_modified :: "string list"
  gs_staged :: "string list"
  gs_untracked :: "string list"
  gs_remote_url :: "string option"

definition run_git :: "(string list \<Rightarrow> string option) \<Rightarrow> string list \<Rightarrow> string option" where
  "run_git git args =
     (case git args of
        None \<Rightarrow> None
      | Some raw \<Rightarrow> (let out = trim raw in if out = [] then None else Some out))"

text \<open>The name behind the last arrow of a rename.\<close>

definition resolved_name :: "string \<Rightarrow> string" where
  "resolved_name path = last (split_str '' -> '' path)"

text \<open>
  One line of \<open>git status --porcelain\<close>, added to the modified, staged and untracked names;
  \<open>None\<close> is the panic of \<open>line[3..]\<close> inside a character. The two flags of a line are ASCII.
\<close>

definition status_line ::
  "string list \<times> string list \<times> string list \<Rightarrow> string
    \<Rightarrow> (string list \<times> string list \<times> string list) option"
where
  "status_line acc line =
     (case acc of (modified, staged, untracked) \<Rightarrow>
        if length line < 3 then Some acc
        else if 3 < length line \<and> is_continuation (line ! 3) then None
        else
          let path = trim (drop 3 line)
          in if starts_with line ''??'' then
               Some (if path = [] then acc
                     else (modified, staged, untracked @ [resolved_name path]))
             else if path = [] then Some acc
             else
               let p = resolved_name path;
                   staged = (if line ! 0 \<noteq> CHR '' '' then staged @ [p] else staged);
                   modified = (if line ! 1 \<noteq> CHR '' '' then modified @ [p] else modified)
               in Some (modified, staged, untracked))"

fun status_lines ::
  "string list \<times> string list \<times> string list \<Rightarrow> string list
    \<Rightarrow> (string list \<times> string list \<times> string list) option"
where
  "status_lines acc [] = Some acc"
| "status_lines acc (l # ls) =
     (case status_line acc l of None \<Rightarrow> None | Some acc' \<Rightarrow> status_lines acc' ls)"

text \<open>\<open>Some None\<close> when there is no commit, \<open>None\<close> when a line panics.\<close>

definition get_git_info :: "(string list \<Rightarrow> string option) \<Rightarrow> git_snapshot option option" where
  "get_git_info git =
     (case run_git git [''rev-parse'', ''HEAD''] of
        None \<Rightarrow> Some None
      | Some commit_hash \<Rightarrow>
          let branch = (case run_git git [''rev-parse'', ''--abbrev-ref'', ''HEAD''] of
                          None \<Rightarrow> ''HEAD'' | Some b \<Rightarrow> b);
              status_output = (case run_git git [''status'', ''--porcelain''] of
                                 None \<Rightarrow> [] | Some s \<Rightarrow> s)
          in case status_lines ([], [], []) (str_lines status_output) of
               None \<Rightarrow> None
             | Some (modified, staged, untracked) \<Rightarrow>
                 Some (Some
                   \<lparr>gs_commit_hash = commit_hash, gs_branch = branch,
                    gs_is_clean = (modified = [] \<and> staged = [] \<and> untracked = []),
                    gs_modified = modified, gs_staged = staged, gs_untracked = untracked,
                    gs_remote_url = run_git git [''config'', ''--get'', ''remote.origin.url'']\<rparr>))"

subsection \<open>Identifiers\<close>

definition id_error :: devit_error where
  "id_error = Internal ''snapshot'' ''Invalid snapshot ID format'' None []"

definition generate_snapshot_id :: "(string \<Rightarrow> string) \<Rightarrow> nat \<Rightarrow> string option \<Rightarrow> string" where
  "generate_snapshot_id bh now label =
     (let hash = take 16 (bh (show_nat now @ (case label of None \<Rightarrow> [] | Some s \<Rightarrow> s)))
      in ''snap-'' @ show_nat now @ ''-'' @ hash)"

definition snapshot_id_timestamp :: "string \<Rightarrow> devit_error + nat" where
  "snapshot_id_timestamp sid =
     (case strip_prefix sid ''snap-'' of
        None \<Rightarrow> Inl id_error
      | Some parts \<Rightarrow>
          (case parse_i64 (hd (split_char (CHR ''-'') parts)) of
             None \<Rightarrow> Inl id_error
           | Some t \<Rightarrow> Inr t))"

definition validate_snapshot_id :: "string \<Rightarrow> devit_error + unit" where
  "validate_snapshot_id sid =
     (case strip_prefix sid ''snap-'' of
        None \<Rightarrow> Inl id_error
      | Some content \<Rightarrow>
          if length content = 32 \<and> list_all is_hexdigit content then Inr ()
          else
            let parts = split_char (CHR ''-'') content
            in if length parts \<ge> 2 \<and> parse_i64 (parts ! 0) \<noteq> None \<and> length (parts ! 1) = 16
               then Inr () else Inl id_error)"

subsection \<open>The state of the repository and its signature\<close>

record git_state =
  st_head_sha :: "string option"
  st_porcelain_status :: string
  st_merge_conflict :: bool
  st_rebase_conflict :: bool
  st_submodules_digest :: "string option"

text \<open>
  What the commands and the checks of \<open>get_git_state\<close> give: the output of a command that
  succeeded, which of the marker files exist, and the text of \<open>.gitmodules\<close>.
\<close>

record git_answers =
  ga_head :: "string option"
  ga_status :: "string option"
  ga_merge_head :: bool
  ga_rebase_head :: bool
  ga_rebase_merge :: bool
  ga_rebase_apply :: bool
  ga_modules :: "string option"

definition get_git_state :: "(string \<Rightarrow> string) \<Rightarrow> git_answers \<Rightarrow> git_state" where
  "get_git_state bh a =
     \<lparr>st_head_sha = map_option trim (ga_head a),
      st_porcelain_status =
        (case ga_status a of
           None \<Rightarrow> []
         | Some out \<Rightarrow> join_lines (sort (filter (\<lambda>l. l \<noteq> []) (split_char (CHR 0x00) out)))),
      st_merge_conflict = ga_merge_head a,
      st_rebase_conflict = (ga_rebase_head a \<or> ga_rebase_merge a \<or> ga_rebase_apply a),
      st_submodules_digest = map_option (\<lambda>text. take 16 (bh text)) (ga_modules a)\<rparr>"

record index_signature =
  sig_head_sha :: "string option"
  sig_summary :: string

definition sig_digest :: "(string \<Rightarrow> string) \<Rightarrow> index_signature \<Rightarrow> string" where
  "sig_digest bh s =
     take 32 (bh ((case sig_head_sha s of None \<Rightarrow> [] | Some h \<Rightarrow> h) @ sig_summary s))"

definition cache_key :: "(string \<Rightarrow> string) \<Rightarrow> index_signature \<Rightarrow> string" where
  "cache_key bh s =
     (case sig_head_sha s of None \<Rightarrow> ''nohead'' | Some h \<Rightarrow> if h = [] then ''nohead'' else h)
     @ '':'' @ sig_digest bh s"

definition head_fragment :: "nat \<Rightarrow> index_signature \<Rightarrow> string" where
  "head_fragment n s =
     (case sig_head_sha s of
        None \<Rightarrow> ''nohead'' | Some h \<Rightarrow> if h = [] then ''nohead'' else take_chars n h)"

definition signature_of :: "git_state \<Rightarrow> index_signature" where
  "signature_of g =
     \<lparr>sig_head_sha = st_head_sha g,
      sig_summary = st_porcelain_status g @ (if st_merge_conflict g then ''M'' else [])
        @ (if st_rebase_conflict g then ''R'' else [])\<rparr>"

definition conflict_error :: "string \<Rightarrow> git_state \<Rightarrow> devit_error" where
  "conflict_error location g =
     VcsConflict location (if st_merge_conflict g then ''merge'' else ''rebase'') []
       (Some (''Repository has unresolved conflicts. Resolve them before ''
          @ (if location = ''snapshot_get'' then ''creating'' else ''validating'') @ '' snapshots.''))"

definition generate_snapshot_id_from_git :: "(string \<Rightarrow> string) \<Rightarrow> git_state \<Rightarrow> devit_error + string" where
  "generate_snapshot_id_from_git bh g =
     (if st_merge_conflict g \<or> st_rebase_conflict g then Inl (conflict_error ''snapshot_get'' g)
      else
        let flag = (\<lambda>b. if b then CHR 0x01 else CHR 0x00);
            text = (case st_head_sha g of None \<Rightarrow> ''nohead'' | Some h \<Rightarrow> h)
                   @ st_porcelain_status g
                   @ [flag (st_merge_conflict g), flag (st_rebase_conflict g)]
                   @ (case st_submodules_digest g of None \<Rightarrow> [] | Some d \<Rightarrow> d)
        in Inr (''snap-'' @ take 32 (bh text)))"

subsection \<open>The cache of signatures\<close>

record signature_cache =
  sc_capacity :: nat
  sc_entries :: "(string, string) hmap"
  sc_order :: "string list"

definition with_capacity :: "nat \<Rightarrow> signature_cache" where
  "with_capacity n = \<lparr>sc_capacity = max n 1, sc_entries = [], sc_order = []\<rparr>"

definition new_signature_cache :: signature_cache where
  "new_signature_cache = with_capacity 128"

text \<open>\<open>remove_from_order\<close> drops the first occurrence, which is what \<open>remove1\<close> does.\<close>

definition mark_recent :: "string \<Rightarrow> signature_cache \<Rightarrow> signature_cache" where
  "mark_recent key c = c\<lparr>sc_order := remove1 key (sc_order c) @ [key]\<rparr>"

definition sig_cache_get ::
  "(string \<Rightarrow> string) \<Rightarrow> index_signature \<Rightarrow> signature_cache \<Rightarrow> string option \<times> signature_cache"
where
  "sig_cache_get bh s c =
     (let key = cache_key bh s
      in case hm_get (sc_entries c) key of
           None \<Rightarrow> (None, c)
         | Some sid \<Rightarrow> (Some sid, mark_recent key c))"

fun evict_if_needed ::
  "nat \<Rightarrow> (string, string) hmap \<Rightarrow> string list \<Rightarrow> (string, string) hmap \<times> string list"
where
  "evict_if_needed cap es [] = (es, [])"
| "evict_if_needed cap es (k # ks) =
     (if cap < length es then evict_if_needed cap (hm_remove k es) ks else (es, k # ks))"

definition sig_cache_insert ::
  "(string \<Rightarrow> string) \<Rightarrow> index_signature \<Rightarrow> string \<Rightarrow> signature_cache \<Rightarrow> signature_cache"
where
  "sig_cache_insert bh s sid c =
     (let key = cache_key bh s;
          order = (if hm_get (sc_entries c) key \<noteq> None then remove1 key (sc_order c) else sc_order c);
          (es, order) = evict_if_needed (sc_capacity c) (hm_insert key sid (sc_entries c)) (order @ [key])
      in c\<lparr>sc_entries := es, sc_order := order\<rparr>)"

definition contains_snapshot :: "string \<Rightarrow> signature_cache \<Rightarrow> bool" where
  "contains_snapshot sid c = (sid \<in> set (hm_values (sc_entries c)))"

subsection \<open>Making and checking an identifier\<close>

definition snapshot_get ::
  "(string \<Rightarrow> string) \<Rightarrow> git_answers \<Rightarrow> signature_cache \<Rightarrow> (devit_error + string) \<times> signature_cache"
where
  "snapshot_get bh a c =
     (let g = get_git_state bh a;
          s = signature_of g
      in case sig_cache_get bh s c of
           (Some sid, c') \<Rightarrow> (Inr sid, c')
         | (None, c') \<Rightarrow>
             (case generate_snapshot_id_from_git bh g of
                Inl e \<Rightarrow> (Inl e, c')
              | Inr sid \<Rightarrow> (Inr sid, sig_cache_insert bh s sid c')))"

definition snapshot_get_legacy ::
  "(string \<Rightarrow> string) \<Rightarrow> index_signature \<Rightarrow> signature_cache \<Rightarrow> string \<times> signature_cache"
where
  "snapshot_get_legacy bh s c =
     (case sig_cache_get bh s c of
        (Some sid, c') \<Rightarrow> (sid, c')
      | (None, c') \<Rightarrow>
          let sid = ''snap-'' @ head_fragment 8 s @ ''-'' @ sig_digest bh s
          in (sid, sig_cache_insert bh s sid c'))"

text \<open>
  \<open>listed p\<close> is the output of \<open>git ls-files -s p\<close> for a file whose metadata can be read, if the
  command succeeds. Every way through the loop goes on to the next path.
\<close>

fun validate_affected_paths :: "(string \<Rightarrow> string option) \<Rightarrow> string list \<Rightarrow> devit_error + bool" where
  "validate_affected_paths listed [] = Inr True"
| "validate_affected_paths listed (p # ps) =
     (case listed p of
        Some out \<Rightarrow> (if trim out \<noteq> [] then validate_affected_paths listed ps
                    else validate_affected_paths listed ps)
      | None \<Rightarrow> validate_affected_paths listed ps)"

definition snapshot_validate ::
  "(string \<Rightarrow> string) \<Rightarrow> git_answers \<Rightarrow> (string \<Rightarrow> string option) \<Rightarrow> string \<Rightarrow> string list
    \<Rightarrow> signature_cache \<Rightarrow> (devit_error + bool) \<times> signature_cache"
where
  "snapshot_validate bh a listed sid affected c =
     (let g = get_git_state bh a;
          s = signature_of g
      in if st_merge_conflict g \<or> st_rebase_conflict g
         then (Inl (conflict_error ''snapshot_validate'' g), c)
         else
           case sig_cache_get bh s c of
             (hit, c') \<Rightarrow>
               if hit = Some sid then (validate_affected_paths listed affected, c')
               else
                 case generate_snapshot_id_from_git bh g of
                   Inl e \<Rightarrow> (Inl e, c')
                 | Inr expected \<Rightarrow>
                     if expected = sid
                     then (validate_affected_paths listed affected, sig_cache_insert bh s expected c')
                     else (Inr False, c'))"

end
