(* ===== verification/Snapshot_Ids.thy ===== *)
theory Snapshot_Ids
  imports Snapshot_Cache
begin

text \<open>
  What the identifiers of snapshots and their cache promise: the cache is a least-recently-used
  cache, an identifier that was made validates while the repository stays as it is, and an
  identifier that validates was made.
\<close>

subsection \<open>The cache is a least-recently-used cache\<close>

datatype cache_op = Lookup index_signature | Store index_signature string

fun cache_answers ::
  "(string \<Rightarrow> string) \<Rightarrow> signature_cache \<Rightarrow> cache_op list \<Rightarrow> string option list"
where
  "cache_answers bh c [] = []"
| "cache_answers bh c (Lookup s # ops) =
     (case sig_cache_get bh s c of (r, c') \<Rightarrow> r # cache_answers bh c' ops)"
| "cache_answers bh c (Store s sid # ops) = cache_answers bh (sig_cache_insert bh s sid c) ops"

text \<open>
  The reference: one list of pairs, the most recently used last. A use moves the pair to the end,
  and a store drops from the front what exceeds the capacity.
\<close>

fun lru_answers ::
  "(index_signature \<Rightarrow> string) \<Rightarrow> nat \<Rightarrow> (string \<times> string) list \<Rightarrow> cache_op list \<Rightarrow> string option list"
where
  "lru_answers key cap l [] = []"
| "lru_answers key cap l (Lookup s # ops) =
     (case map_of l (key s) of
        None \<Rightarrow> None # lru_answers key cap l ops
      | Some sid \<Rightarrow> Some sid # lru_answers key cap (AList.delete (key s) l @ [(key s, sid)]) ops)"
| "lru_answers key cap l (Store s sid # ops) =
     (let l' = AList.delete (key s) l @ [(key s, sid)]
      in lru_answers key cap (drop (length l' - cap) l') ops)"

definition cache_list :: "signature_cache \<Rightarrow> (string \<times> string) list" where
  "cache_list c = map (\<lambda>k. (k, the (hm_get (sc_entries c) k))) (sc_order c)"

definition cache_wf :: "signature_cache \<Rightarrow> bool" where
  "cache_wf c \<longleftrightarrow>
     hm_wf (sc_entries c) \<and> distinct (sc_order c) \<and> set (sc_order c) = dom (hm_get (sc_entries c))
     \<and> length (sc_order c) \<le> sc_capacity c \<and> 1 \<le> sc_capacity c"

lemma cache_wf_new [simp]: "cache_wf (with_capacity n)"
  by (simp add: cache_wf_def with_capacity_def)

lemma length_order: "hm_wf es \<Longrightarrow> distinct ord \<Longrightarrow> set ord = dom (hm_get es) \<Longrightarrow> length es = length ord"
  by (metis distinct_card dom_map_of_conv_image_fst hm_wf_def length_map list.set_map)

lemma evict_spec:
  assumes "hm_wf es" and "distinct ord" and "set ord = dom (hm_get es)"
    and "evict_if_needed cap es ord = (es', ord')"
  shows "ord' = drop (length ord - cap) ord \<and> hm_wf es' \<and> set ord' = dom (hm_get es')
    \<and> (\<forall>k \<in> set ord'. hm_get es' k = hm_get es k)"
  using assms
proof (induction ord arbitrary: es)
  case Nil
  then show ?case by simp
next
  case (Cons k ks)
  have len: "length es = Suc (length ks)"
    using length_order [OF Cons.prems(1,2,3)] by simp
  show ?case
  proof (cases "cap < length es")
    case True
    have "set ks = dom (hm_get (hm_remove k es))"
      using Cons.prems(2,3) by (auto simp: hm_get_delete dom_def split: if_splits)
    from Cons.IH [OF hm.wf_rem [OF Cons.prems(1)] _ this] True Cons.prems(2,4)
    have *: "ord' = drop (length ks - cap) ks" "hm_wf es'" "set ord' = dom (hm_get es')"
        "\<forall>k' \<in> set ord'. hm_get es' k' = hm_get (hm_remove k es) k'"
      by auto
    moreover have "k \<notin> set ord'"
      using *(1) Cons.prems(2) in_set_dropD by fastforce
    ultimately show ?thesis
      using True len by (auto simp: hm_get_delete Suc_diff_le)
  next
    case False
    then show ?thesis using Cons.prems len by auto
  qed
qed

lemma cache_list_get: "cache_wf c \<Longrightarrow> map_of (cache_list c) k = hm_get (sc_entries c) k"
proof -
  assume c: "cache_wf c"
  have "map_of (map (\<lambda>k. (k, the (hm_get es k))) ks) k
      = (if k \<in> set ks then Some (the (hm_get es k)) else None)" for es :: "(string, string) hmap" and ks
    by (induction ks) auto
  then show ?thesis
    using c by (auto simp: cache_list_def cache_wf_def)
qed

lemma delete_cache_list:
  "distinct ks \<Longrightarrow> AList.delete k (map (\<lambda>k. (k, f k)) ks) = map (\<lambda>k. (k, f k)) (remove1 k ks)"
proof (induction ks)
  case Nil
  then show ?case by simp
next
  case (Cons k' ks)
  have "AList.delete k (map (\<lambda>k. (k, f k)) ks) = map (\<lambda>k. (k, f k)) ks" if "k \<notin> set ks"
    using that by (simp add: delete_idem image_image)
  with Cons show ?case by auto
qed

lemma mark_recent_wf: "cache_wf c \<Longrightarrow> hm_get (sc_entries c) k \<noteq> None \<Longrightarrow> cache_wf (mark_recent k c)"
  by (auto simp: cache_wf_def mark_recent_def length_remove1 dom_def)

lemma mark_recent_list:
  assumes "cache_wf c" and "hm_get (sc_entries c) k = Some sid"
  shows "cache_list (mark_recent k c) = AList.delete k (cache_list c) @ [(k, sid)]"
  using assms delete_cache_list [of "sc_order c" k "\<lambda>k. the (hm_get (sc_entries c) k)"]
  by (simp add: cache_list_def mark_recent_def cache_wf_def)

lemma insert_wf_list:
  fixes bh :: "string \<Rightarrow> string" and s :: index_signature and sid :: string
  assumes "cache_wf c"
  defines "l \<equiv> AList.delete (cache_key bh s) (cache_list c) @ [(cache_key bh s, sid)]"
  shows "cache_wf (sig_cache_insert bh s sid c)"
    and "cache_list (sig_cache_insert bh s sid c) = drop (length l - sc_capacity c) l"
proof -
  let ?k = "cache_key bh s" and ?es = "sc_entries c"
  let ?es' = "hm_insert ?k sid ?es"
  let ?ord = "remove1 ?k (sc_order c) @ [?k]"
  have wf: "hm_wf ?es" "distinct (sc_order c)" "set (sc_order c) = dom (hm_get ?es)"
      "1 \<le> sc_capacity c"
    using assms(1) by (auto simp: cache_wf_def)
  have rem: "(if hm_get ?es ?k \<noteq> None then remove1 ?k (sc_order c) else sc_order c) = remove1 ?k (sc_order c)"
    using wf(3) by (auto simp: dom_def intro!: remove1_idem [symmetric])
  obtain es2 ord2 where ev: "evict_if_needed (sc_capacity c) ?es' ?ord = (es2, ord2)"
    by fastforce
  have pre: "hm_wf ?es'" "distinct ?ord" "set ?ord = dom (hm_get ?es')"
    using wf by (auto simp: hm.wf_ins hm_get_update dom_def split: if_splits)
  note spec = evict_spec [OF pre ev]
  have ins: "sig_cache_insert bh s sid c = c\<lparr>sc_entries := es2, sc_order := ord2\<rparr>"
    unfolding sig_cache_insert_def Let_def rem by (simp add: ev)
  show "cache_wf (sig_cache_insert bh s sid c)"
  proof -
    have ord2: "ord2 = drop (length ?ord - sc_capacity c) ?ord" using spec by blast
    have "distinct ord2" unfolding ord2 by (rule distinct_drop [OF pre(2)])
    moreover have "length ord2 \<le> sc_capacity c" unfolding ord2 length_drop by arith
    moreover have "hm_wf es2" "set ord2 = dom (hm_get es2)" using spec by blast+
    ultimately show ?thesis using wf(4) by (simp add: ins cache_wf_def)
  qed
  have l: "l = map (\<lambda>k. (k, the (hm_get ?es' k))) ?ord"
    using delete_cache_list [OF wf(2), of ?k "\<lambda>k. the (hm_get ?es k)"] wf(2)
    by (auto simp: l_def cache_list_def hm_get_update)
  have "cache_list (sig_cache_insert bh s sid c)
      = map (\<lambda>k. (k, the (hm_get ?es' k))) ord2"
    using spec by (simp add: ins cache_list_def)
  also have "\<dots> = drop (length ?ord - sc_capacity c) l"
  proof -
    have o: "ord2 = drop (length ?ord - sc_capacity c) ?ord" using spec by blast
    show ?thesis unfolding o l drop_map by (rule refl)
  qed
  also have "length ?ord = length l" by (simp add: l)
  finally show "cache_list (sig_cache_insert bh s sid c) = drop (length l - sc_capacity c) l" .
qed

lemma insert_capacity [simp]: "sc_capacity (sig_cache_insert bh s sid c) = sc_capacity c"
  by (simp add: sig_cache_insert_def Let_def split: prod.split)

lemma cache_answers_lru:
  "cache_wf c \<Longrightarrow> cache_answers bh c ops = lru_answers (cache_key bh) (sc_capacity c) (cache_list c) ops"
proof (induction bh c ops rule: cache_answers.induct)
  case (1 bh c)
  then show ?case by simp
next
  case (2 bh c s ops)
  show ?case
  proof (cases "hm_get (sc_entries c) (cache_key bh s)")
    case None
    with 2 show ?thesis
      by (simp add: sig_cache_get_def cache_list_get)
  next
    case (Some sid)
    then have "sig_cache_get bh s c = (Some sid, mark_recent (cache_key bh s) c)"
      by (simp add: sig_cache_get_def)
    moreover have "sc_capacity (mark_recent (cache_key bh s) c) = sc_capacity c"
      by (simp add: mark_recent_def)
    ultimately show ?thesis
      using 2 Some mark_recent_wf [of c] mark_recent_list [of c]
      by (simp add: cache_list_get)
  qed
next
  case (3 bh c s sid ops)
  then show ?case
    using insert_wf_list [OF 3(2), of bh s sid] by (simp add: Let_def)
qed

text \<open>
  C20: The signature cache is a least-recently-used cache: for every sequence of lookups and
  stores it answers as the reference list that moves what is used to the end and drops from the
  front what exceeds the capacity, which is at least one.
\<close>

theorem signature_cache_is_lru:
  "cache_answers bh (with_capacity n) ops = lru_answers (cache_key bh) (max n 1) [] ops"
  using cache_answers_lru [OF cache_wf_new, of bh n ops]
  by (simp add: with_capacity_def cache_list_def)

subsection \<open>Identifiers that were made\<close>

text \<open>What the digest looks like: 64 hexadecimal digits.\<close>

definition hex_digest :: "(string \<Rightarrow> string) \<Rightarrow> bool" where
  "hex_digest bh \<longleftrightarrow> (\<forall>s. length (bh s) = 64 \<and> list_all is_hexdigit (bh s))"

lemma show_nat_no_dash: "CHR ''-'' \<notin> set (show_nat n)"
proof
  assume "CHR ''-'' \<in> set (show_nat n)"
  then obtain d where "d < 10" and "CHR ''-'' = digit_char d"
    using show_nat_digits by blast
  moreover have "list_all (\<lambda>c. c \<noteq> CHR ''-'') (map digit_char [0..<10])" by code_simp
  ultimately show False by (auto simp: list_all_iff)
qed

lemma hex_take: "hex_digest bh \<Longrightarrow> list_all is_hexdigit (take n (bh s))"
  by (auto simp: hex_digest_def list_all_iff dest: in_set_takeD)

lemma dash_no_hexdigit: "list_all is_hexdigit s \<Longrightarrow> CHR ''-'' \<notin> set s"
proof
  assume "list_all is_hexdigit s" and "CHR ''-'' \<in> set s"
  then have "is_hexdigit (CHR ''-'')" by (auto simp: list_all_iff)
  then show False by code_simp
qed

lemma strip_prefix_append [simp]: "strip_prefix (p @ s) p = Some s"
  by (simp add: strip_prefix_def)

lemma timed_id_parts:
  assumes "hex_digest bh"
  shows "split_char (CHR ''-'') (show_nat now @ CHR ''-'' # take 16 (bh s)) = [show_nat now, take 16 (bh s)]"
  using split_char_append [OF show_nat_no_dash, of now "take 16 (bh s)"]
    split_char_single [OF dash_no_hexdigit [OF hex_take [OF assms]], of 16 s] by simp

text \<open>
  Every identifier that is made is accepted: one made from a git state, and one made at a
  time, from which the time reads back.
\<close>

theorem made_identifiers_are_valid:
  assumes "hex_digest bh" and "now < 2 ^ 63"
  shows "(\<forall>g sid. generate_snapshot_id_from_git bh g = Inr sid \<longrightarrow> validate_snapshot_id sid = Inr ())
    \<and> validate_snapshot_id (generate_snapshot_id bh now label) = Inr ()
    \<and> snapshot_id_timestamp (generate_snapshot_id bh now label) = Inr now"
proof (intro conjI allI impI)
  fix g sid
  assume "generate_snapshot_id_from_git bh g = Inr sid"
  then obtain t where "sid = ''snap-'' @ take 32 (bh t)"
    by (auto simp: generate_snapshot_id_from_git_def Let_def split: if_splits)
  then show "validate_snapshot_id sid = Inr ()"
    using assms(1) hex_take [OF assms(1), of 32 t]
    unfolding validate_snapshot_id_def by (simp only: strip_prefix_append) (simp add: hex_digest_def)
next
  let ?s = "show_nat now @ (case label of None \<Rightarrow> [] | Some s \<Rightarrow> s)"
  have sid: "generate_snapshot_id bh now label = ''snap-'' @ (show_nat now @ CHR ''-'' # take 16 (bh ?s))"
    by (simp add: generate_snapshot_id_def Let_def)
  have p: "parse_i64 (show_nat now) = Some now" by (rule parse_show) (rule assms(2))
  show "validate_snapshot_id (generate_snapshot_id bh now label) = Inr ()"
    using assms(1) p timed_id_parts [OF assms(1), of now ?s]
    unfolding sid validate_snapshot_id_def strip_prefix_append
    by (auto simp: hex_digest_def Let_def)
  show "snapshot_id_timestamp (generate_snapshot_id bh now label) = Inr now"
    using p timed_id_parts [OF assms(1), of now ?s]
    unfolding sid snapshot_id_timestamp_def strip_prefix_append by simp
qed

lemma legacy_identifiers_are_refused:
  assumes "hex_digest bh" and "CHR ''-'' \<notin> set (head_fragment 8 s)"
    and "sig_cache_get bh s c = (None, c')"
  shows "validate_snapshot_id (fst (snapshot_get_legacy bh s c)) = Inl id_error"
proof -
  let ?h = "head_fragment 8 s" and ?d = "sig_digest bh s"
  have sid: "fst (snapshot_get_legacy bh s c) = ''snap-'' @ (?h @ CHR ''-'' # ?d)"
    using assms(3) by (simp add: snapshot_get_legacy_def Let_def)
  have d: "length ?d = 32" "CHR ''-'' \<notin> set ?d"
    using assms(1) dash_no_hexdigit [OF hex_take [OF assms(1)]] by (auto simp: sig_digest_def hex_digest_def)
  have parts: "split_char (CHR ''-'') (?h @ CHR ''-'' # ?d) = [?h, ?d]"
    using split_char_append [OF assms(2), of ?d] split_char_single [OF d(2)] by simp
  show ?thesis
    unfolding sid validate_snapshot_id_def strip_prefix_append
    by (simp add: d(1) parts Let_def)
qed

subsection \<open>Making and checking against a repository\<close>

definition in_conflict :: "git_answers \<Rightarrow> bool" where
  "in_conflict a = (ga_merge_head a \<or> ga_rebase_head a \<or> ga_rebase_merge a \<or> ga_rebase_apply a)"

definition key_of :: "(string \<Rightarrow> string) \<Rightarrow> git_answers \<Rightarrow> string" where
  "key_of bh a = cache_key bh (signature_of (get_git_state bh a))"

lemma conflict_state:
  "(st_merge_conflict (get_git_state bh a) \<or> st_rebase_conflict (get_git_state bh a)) = in_conflict a"
  by (auto simp: get_git_state_def in_conflict_def)

lemma affected_paths_do_not_matter: "validate_affected_paths listed ps = Inr True"
  by (induction ps) (auto split: option.split)

lemma insert_then_get:
  assumes "cache_wf c"
  shows "hm_get (sc_entries (sig_cache_insert bh s sid c)) (cache_key bh s) = Some sid"
proof -
  let ?l = "AList.delete (cache_key bh s) (cache_list c)"
  have "1 \<le> sc_capacity c" using assms by (simp add: cache_wf_def)
  then have "cache_list (sig_cache_insert bh s sid c)
      = drop (Suc (length ?l) - sc_capacity c) ?l @ [(cache_key bh s, sid)]"
    using insert_wf_list(2) [OF assms, of bh s sid] by (simp add: Suc_diff_le)
  moreover have "cache_key bh s \<notin> fst ` set (drop (Suc (length ?l) - sc_capacity c) ?l)"
    using delete_notin_dom [of "cache_key bh s" "cache_list c"] set_drop_subset [of _ ?l]
    by (metis image_mono subsetD)
  then have "map_of (drop (Suc (length ?l) - sc_capacity c) ?l) (cache_key bh s) = None"
    by (simp add: map_of_eq_None_iff)
  ultimately have "map_of (cache_list (sig_cache_insert bh s sid c)) (cache_key bh s) = Some sid"
    by (simp add: map_add_def)
  then show ?thesis
    using cache_list_get [OF insert_wf_list(1) [OF assms]] by simp
qed

text \<open>After an identifier was made or found, it is the one in the cache.\<close>

lemma snapshot_get_caches:
  assumes "snapshot_get bh a c = (Inr sid, c')" and "cache_wf c"
  shows "cache_wf c' \<and> hm_get (sc_entries c') (key_of bh a) = Some sid"
proof (cases "hm_get (sc_entries c) (key_of bh a)")
  case None
  then have get: "sig_cache_get bh (signature_of (get_git_state bh a)) c = (None, c)"
    by (simp add: sig_cache_get_def key_of_def)
  then have "c' = sig_cache_insert bh (signature_of (get_git_state bh a)) sid c"
    using assms(1) by (auto simp: snapshot_get_def Let_def split: sum.splits)
  then show ?thesis
    using insert_then_get [OF assms(2)] insert_wf_list(1) [OF assms(2)] by (simp add: key_of_def)
next
  case (Some x)
  then have "sig_cache_get bh (signature_of (get_git_state bh a)) c = (Some x, mark_recent (key_of bh a) c)"
    by (simp add: sig_cache_get_def key_of_def)
  then have "x = sid" "c' = mark_recent (key_of bh a) c"
    using assms(1) by (auto simp: snapshot_get_def Let_def)
  then show ?thesis
    using Some mark_recent_wf [OF assms(2)] by (simp add: mark_recent_def)
qed

text \<open>
  An identifier that was made or found for a state of the repository validates against every
  state with the same head and status that is not in conflict, whatever paths are said to be
  affected and whatever became of the submodules.
\<close>

theorem issued_identifier_validates:
  assumes "snapshot_get bh a c = (Inr sid, c')" and "cache_wf c"
    and "key_of bh a' = key_of bh a" and "\<not> in_conflict a'"
  shows "fst (snapshot_validate bh a' listed sid affected c') = Inr True"
proof -
  have "hm_get (sc_entries c') (key_of bh a') = Some sid"
    using snapshot_get_caches [OF assms(1,2)] assms(3) by simp
  then have "fst (sig_cache_get bh (signature_of (get_git_state bh a')) c') = Some sid"
    by (simp add: sig_cache_get_def key_of_def)
  then show ?thesis
    using assms(4) conflict_state [of bh a']
    by (auto simp: snapshot_validate_def Let_def affected_paths_do_not_matter split: prod.splits)
qed

text \<open>Whatever is in the cache was generated for a state that was seen.\<close>

inductive cache_reach :: "(string \<Rightarrow> string) \<Rightarrow> git_answers list \<Rightarrow> signature_cache \<Rightarrow> bool"
  for bh where
  reach_new: "cache_reach bh [] (with_capacity n)"
| reach_get: "cache_reach bh h c \<Longrightarrow> snapshot_get bh a c = (r, c') \<Longrightarrow> cache_reach bh (a # h) c'"
| reach_validate: "cache_reach bh h c \<Longrightarrow> snapshot_validate bh a listed sid affected c = (b, c')
    \<Longrightarrow> cache_reach bh (a # h) c'"

definition generated_for :: "(string \<Rightarrow> string) \<Rightarrow> git_answers list \<Rightarrow> string \<Rightarrow> string \<Rightarrow> bool" where
  "generated_for bh h k sid \<longleftrightarrow>
     (\<exists>a \<in> set h. key_of bh a = k \<and> generate_snapshot_id_from_git bh (get_git_state bh a) = Inr sid)"

definition cache_coherent :: "(string \<Rightarrow> string) \<Rightarrow> git_answers list \<Rightarrow> signature_cache \<Rightarrow> bool" where
  "cache_coherent bh h c \<longleftrightarrow>
     (\<forall>k sid. hm_get (sc_entries c) k = Some sid \<longrightarrow> generated_for bh h k sid)"

lemma evict_subset:
  "evict_if_needed cap es ord = (es', ord') \<Longrightarrow> hm_get es' k = Some x \<Longrightarrow> hm_get es k = Some x"
  by (induction cap es ord rule: evict_if_needed.induct)
    (auto simp: hm_get_delete split: if_splits)

lemma insert_entries:
  assumes "hm_get (sc_entries (sig_cache_insert bh s sid c)) k = Some x"
  shows "k = cache_key bh s \<and> x = sid \<or> hm_get (sc_entries c) k = Some x"
  using assms
  by (auto simp: sig_cache_insert_def Let_def hm_get_update split: prod.splits if_splits dest: evict_subset)

lemma coherent_more: "cache_coherent bh h c \<Longrightarrow> cache_coherent bh (a # h) c"
  by (auto simp: cache_coherent_def generated_for_def)

lemma coherent_mark [simp]: "cache_coherent bh h (mark_recent k c) = cache_coherent bh h c"
  by (simp add: cache_coherent_def mark_recent_def)

lemma coherent_insert:
  assumes "cache_coherent bh h c"
    and "generate_snapshot_id_from_git bh (get_git_state bh a) = Inr sid"
  shows "cache_coherent bh (a # h) (sig_cache_insert bh (signature_of (get_git_state bh a)) sid c)"
  using assms insert_entries [of bh "signature_of (get_git_state bh a)" sid c]
  unfolding cache_coherent_def generated_for_def key_of_def by (metis list.set_intros)

lemma reach_coherent: "cache_reach bh h c \<Longrightarrow> cache_coherent bh h c"
proof (induction rule: cache_reach.induct)
  case (reach_new n)
  then show ?case by (simp add: cache_coherent_def with_capacity_def)
next
  case (reach_get h c a r c')
  then show ?case
    using coherent_insert [OF reach_get(3), of a] coherent_more [OF reach_get(3)]
    by (auto simp: snapshot_get_def sig_cache_get_def Let_def split: option.splits sum.splits)
next
  case (reach_validate h c a listed sid affected b c')
  then show ?case
    using coherent_insert [of bh h _ a] coherent_more [OF reach_validate(3)]
    by (auto simp: snapshot_validate_def sig_cache_get_def Let_def
        split: option.splits sum.splits if_splits)
qed

text \<open>
  An identifier that validates was made: at any point of a run of requests, if a check answers
  true for an identifier, it is the one generated for the present state or for an earlier state
  with the same head and status, and the present state is not in conflict.
\<close>

theorem validated_identifier_was_generated:
  assumes "cache_reach bh h c"
    and "snapshot_validate bh a listed sid affected c = (Inr True, c')"
  shows "\<not> in_conflict a \<and> generated_for bh (a # h) (key_of bh a) sid"
proof -
  have "\<not> in_conflict a"
    using assms(2) conflict_state [of bh a] by (auto simp: snapshot_validate_def Let_def split: if_splits)
  moreover have "hm_get (sc_entries c) (key_of bh a) = Some sid
      \<or> generate_snapshot_id_from_git bh (get_git_state bh a) = Inr sid"
    using assms(2)
    by (auto simp: snapshot_validate_def sig_cache_get_def key_of_def Let_def
        split: option.splits sum.splits if_splits)
  then have "generated_for bh (a # h) (key_of bh a) sid"
    using coherent_more [OF reach_coherent [OF assms(1)], of a]
    by (auto simp: cache_coherent_def generated_for_def)
  ultimately show ?thesis by simp
qed

subsection \<open>Instances\<close>

definition zero_hash :: "string \<Rightarrow> string" where
  "zero_hash s = replicate 64 (CHR ''0'')"

lemma zero_hash_hex: "hex_digest zero_hash"
proof -
  have "list_all is_hexdigit (zero_hash s)" for s
  proof -
    have "is_hexdigit (CHR ''0'')" by code_simp
    then show ?thesis by (simp add: zero_hash_def list_all_iff)
  qed
  then show ?thesis by (simp add: hex_digest_def zero_hash_def)
qed

lemma made_identifiers_are_valid_witness:
  "validate_snapshot_id (generate_snapshot_id zero_hash 1700000000 (Some ''x'')) = Inr ()"
  using made_identifiers_are_valid [OF zero_hash_hex, of 1700000000 "Some ''x''"] by simp

text \<open>The text itself for a digest, so that differences show.\<close>

definition clean_answers :: git_answers where
  "clean_answers =
     \<lparr>ga_head = Some (''abc'' @ [nl]), ga_status = Some ('' M a'' @ [CHR 0x00]),
      ga_merge_head = False, ga_rebase_head = False, ga_rebase_merge = False,
      ga_rebase_apply = False, ga_modules = None\<rparr>"

abbreviation first_cache :: signature_cache where
  "first_cache \<equiv> snd (snapshot_get id clean_answers new_signature_cache)"

lemma first_get:
  "fst (snapshot_get id clean_answers new_signature_cache)
     = Inr (''snap-'' @ ''abc M a'' @ [CHR 0x00, CHR 0x00])"
  "key_of id (clean_answers\<lparr>ga_modules := Some ''m''\<rparr>) = key_of id clean_answers"
  by code_simp+

lemma issued_identifier_validates_witness:
  "fst (snapshot_validate id (clean_answers\<lparr>ga_modules := Some ''m''\<rparr>) (\<lambda>_. None)
     (''snap-'' @ ''abc M a'' @ [CHR 0x00, CHR 0x00]) [''a''] first_cache) = Inr True"
proof (rule issued_identifier_validates)
  show "snapshot_get id clean_answers new_signature_cache
      = (Inr (''snap-'' @ ''abc M a'' @ [CHR 0x00, CHR 0x00]), first_cache)"
    by (rule prod_eqI) (simp_all only: first_get fst_conv snd_conv)
  show "key_of id (clean_answers\<lparr>ga_modules := Some ''m''\<rparr>) = key_of id clean_answers"
    by (rule first_get)
qed (simp_all add: new_signature_cache_def in_conflict_def clean_answers_def)

lemma validated_identifier_was_generated_witness:
  "generated_for id [clean_answers] (key_of id clean_answers)
     (''snap-'' @ ''abc M a'' @ [CHR 0x00, CHR 0x00])"
proof -
  have "fst (snapshot_validate id clean_answers (\<lambda>_. None)
      (''snap-'' @ ''abc M a'' @ [CHR 0x00, CHR 0x00]) [] (with_capacity 1)) = Inr True"
    by code_simp
  then obtain c' where "snapshot_validate id clean_answers (\<lambda>_. None)
      (''snap-'' @ ''abc M a'' @ [CHR 0x00, CHR 0x00]) [] (with_capacity 1) = (Inr True, c')"
    by (metis prod.collapse)
  then show ?thesis
    using validated_identifier_was_generated [OF reach_new] by blast
qed

text \<open>
  The summary joins the status and the flags without a mark between them: a clean repository with
  a file \<^verbatim>\<open>aM\<close> and one with a merge conflict have the same signature, and the answer from the
  cache hides the conflict.
\<close>

lemma conflict_is_hidden:
  "fst (snapshot_get id (clean_answers\<lparr>ga_merge_head := True\<rparr>)
     (snd (snapshot_get id (clean_answers\<lparr>ga_status := Some ('' M aM'' @ [CHR 0x00])\<rparr>) new_signature_cache)))
   = Inr (''snap-'' @ ''abc M aM'' @ [CHR 0x00, CHR 0x00])"
  by code_simp

text \<open>
  The output of git is trimmed before it is cut into lines: the first line loses the blank of its
  flags, so an unstaged change counts as staged, under a name without its first letter.
\<close>

definition unstaged_answer :: "string list \<Rightarrow> string option" where
  "unstaged_answer args =
     (if args = [''rev-parse'', ''HEAD''] then Some ''abc''
      else if args = [''status'', ''--porcelain''] then Some ('' M src/a.rs'' @ [nl])
      else None)"

lemma first_status_line_is_misread:
  "map_option (map_option (\<lambda>g. (gs_modified g, gs_staged g))) (get_git_info unstaged_answer)
    = Some (Some ([], [''rc/a.rs'']))"
  by code_simp

end
