(* ===== verification/Std_Dir.thy ===== *)
theory Std_Dir
  imports Std_Fs
begin

text \<open>
  The entries of one directory, with no symbolic link at or below it: finding them, writing and
  removing them, and making directories, without leaving such a tree.
\<close>

subsection \<open>Parts of a path as text\<close>

text \<open>\<open>Path::parent\<close> as text: the trailing empty and \<open>.\<close> pieces go, then the last name, then
  what is empty again. What stands before the names is kept as it is written.\<close>

definition before_body :: "string \<Rightarrow> nat" where
  "before_body p = (if is_absolute p \<or> hd (split_char (CHR ''/'') p) = ''.'' then 1 else 0)"

definition drop_empty_pieces :: "string list \<Rightarrow> string list" where
  "drop_empty_pieces ps = rev (dropWhile (\<lambda>p. p = [] \<or> p = ''.'') (rev ps))"

fun join_slash :: "string list \<Rightarrow> string" where
  "join_slash [] = []"
| "join_slash [p] = p"
| "join_slash (p # ps) = p @ CHR ''/'' # join_slash ps"

definition parent_text :: "string \<Rightarrow> string option" where
  "parent_text p =
     (let b = before_body p;
          ps = drop_empty_pieces (split_char (CHR ''/'') (drop b p))
      in if ps \<noteq> [] then Some (take b p @ join_slash (drop_empty_pieces (butlast ps)))
         else if b = 1 \<and> \<not> is_absolute p then Some [] else None)"

subsection \<open>Entries of a directory\<close>

text \<open>Opening with \<open>create\<close> and \<open>append\<close>, then writing.\<close>

definition append_text :: "component list \<Rightarrow> string \<Rightarrow> file_system \<Rightarrow> file_system option" where
  "append_text path t fs =
     (case locate fs True path of
        None \<Rightarrow> None
      | Some loc \<Rightarrow>
          (case node_at fs loc of
             None \<Rightarrow> Some (put_node loc (File t) fs)
           | Some (File old) \<Rightarrow> Some (put_node loc (File (old @ t)) fs)
           | Some _ \<Rightarrow> None))"

text \<open>\<open>read_dir\<close>: the names in a directory, in the order of the file system. The empty path names
  no directory.\<close>

definition dir_names :: "file_system \<Rightarrow> string list \<Rightarrow> string list" where
  "dir_names fs loc = map last (filter (\<lambda>l. l \<noteq> [] \<and> butlast l = loc) (hm_keys (nodes fs)))"

definition read_dir :: "file_system \<Rightarrow> component list \<Rightarrow> string list option" where
  "read_dir fs path =
     (if path = [] then None
      else case locate fs True path of
             None \<Rightarrow> None
           | Some loc \<Rightarrow> if node_at fs loc = Some Dir then Some (dir_names fs loc) else None)"

lemma locate_entry:
  assumes "work_tree fs root"
  shows "locate fs follow (RootDir # map Normal root @ [Normal n]) = Some (root @ [n])"
proof -
  have "walk max_links fs follow [] (map Normal root @ [Normal n])
      = walk max_links fs follow ([] @ root) [Normal n]"
    using assms by (intro walk_dirs) (simp add: work_tree_def)
  moreover have "node_at fs (root @ [n]) \<noteq> Some (Link t)" for t
    using assms by (auto simp: work_tree_def link_free_def)
  ultimately show ?thesis
    by (auto simp: locate_def split: option.split node.split)
qed

lemma create_directory:
  assumes "work_tree fs root"
  shows "create_dir_all (RootDir # map Normal root) fs = Some fs"
  using assms create_dirs_dirs [of root fs "[]" max_links "[]"]
  by (simp add: create_dir_all_def work_tree_def)

lemma work_tree_put_file:
  assumes "work_tree fs root"
  shows "work_tree (put_node (root @ [n]) (File t) fs) root"
  using assms only_below_put [OF strict_prefix_snoc [of root root n], of fs "File t"]
  by (intro work_tree_below [OF assms]) (auto simp: work_tree_def link_free_put)

lemma locate_directory:
  assumes "work_tree fs root"
  shows "locate fs follow (RootDir # map Normal root) = Some root"
  using assms walk_dirs [of root fs "[]" max_links follow "[]"]
  by (simp add: locate_def work_tree_def)

lemma work_tree_del_entry:
  assumes "work_tree fs root"
  shows "work_tree (del_node (root @ [n]) fs) root"
  using assms only_below_del [OF strict_prefix_snoc [of root root n], of fs]
  by (intro work_tree_below [OF assms]) (auto simp: work_tree_def link_free_del)

lemma node_at_del: "loc \<noteq> [] \<Longrightarrow> node_at (del_node loc fs) l = (if l = loc then None else node_at fs l)"
  by (auto simp: node_at_def del_node_def hm_get_delete)

text \<open>Making directories only fills free places.\<close>

lemma create_dirs_only_adds:
  "create_dirs n cur cs fs = Some fs' \<Longrightarrow> node_at fs' l = node_at fs l \<or> node_at fs l = None \<and> node_at fs' l = Some Dir"
proof (induction n cur cs fs rule: create_dirs.induct)
  case (5 n cur s cs fs)
  show ?case
  proof (cases "node_at fs (cur @ [s])")
    case None
    then show ?thesis
      using "5.IH"(1) "5.prems" by (auto simp: node_at_put split: if_splits)
  next
    case (Some nd)
    then show ?thesis
      using "5.IH"(2,3) "5.prems" by (cases nd) (auto split: nat.splits)
  qed
qed simp_all

lemma create_dir_all_only_adds:
  "create_dir_all path fs = Some fs'
    \<Longrightarrow> node_at fs' l = node_at fs l \<or> node_at fs l = None \<and> node_at fs' l = Some Dir"
  unfolding create_dir_all_def by (rule create_dirs_only_adds)

lemma create_dir_all_tree:
  assumes "work_tree fs root" and "create_dir_all path fs = Some fs'"
  shows "work_tree fs' root"
proof -
  have "node_at fs' l = Some Dir" if "node_at fs l = Some Dir" for l
    using create_dir_all_only_adds [OF assms(2), of l] that by auto
  moreover have "node_at fs' l \<noteq> Some (Link t)" if "node_at fs l \<noteq> Some (Link t)" for l t
    using create_dir_all_only_adds [OF assms(2), of l] that by auto
  ultimately show ?thesis
    using assms(1) by (auto simp: work_tree_def link_free_def)
qed

subsection \<open>Walking to a file in a tree without links\<close>

definition dirs_to :: "file_system \<Rightarrow> string list \<Rightarrow> string list \<Rightarrow> bool" where
  "dirs_to fs root ns \<longleftrightarrow> (\<forall>p. strict_prefix p ns \<longrightarrow> node_at fs (root @ p) = Some Dir)"

lemma locate_dirs:
  assumes "work_tree fs root" and "dirs_to fs root ns" and "\<And>t. node_at fs (root @ ns) \<noteq> Some (Link t)"
  shows "locate fs follow (RootDir # map Normal (root @ ns)) = Some (root @ ns)"
proof (cases ns rule: rev_cases)
  case Nil
  have "\<forall>p. prefix p root \<longrightarrow> node_at fs ([] @ p) = Some Dir"
    using assms(1) by (simp add: work_tree_def)
  from walk_dirs [OF this, of max_links follow "[]"] Nil show ?thesis
    by (simp add: locate_def)
next
  case (snoc ms s)
  have "node_at fs ([] @ p) = Some Dir" if "prefix p (root @ ms)" for p
  proof (cases "prefix p root")
    case True
    then show ?thesis using assms(1) by (simp add: work_tree_def)
  next
    case False
    with that obtain q where "p = root @ q" "prefix q ms" by (auto simp: prefix_append)
    then show ?thesis using assms(2) snoc by (auto simp: dirs_to_def strict_prefix_def prefix_def)
  qed
  then have "walk max_links fs follow [] (map Normal (root @ ms) @ [Normal s])
      = walk max_links fs follow ([] @ root @ ms) [Normal s]"
    by (intro walk_dirs) blast
  also have "\<dots> = Some (root @ ns)"
    using assms(3) snoc by (auto split: option.split node.split)
  finally show ?thesis using snoc by (simp add: locate_def)
qed

lemma walk_reaches_dirs:
  "walk n fs follow cur (map Normal ns) = Some loc \<Longrightarrow> link_free fs root \<Longrightarrow> prefix root cur
    \<Longrightarrow> strict_prefix p ns \<Longrightarrow> p \<noteq> [] \<Longrightarrow> node_at fs (cur @ p) = Some Dir"
proof (induction ns arbitrary: cur p)
  case Nil
  then show ?case by simp
next
  case (Cons s ns)
  then obtain q where p: "p = s # q" "strict_prefix q ns"
    by (cases p) (auto simp: strict_prefix_def)
  then have ns: "ns \<noteq> []" by auto
  have "node_at fs (cur @ [s]) \<noteq> Some (Link t)" for t
    using Cons.prems(2,3) by (auto simp: link_free_def prefix_def)
  with Cons.prems(1) ns have d: "node_at fs (cur @ [s]) = Some Dir"
    and w: "walk n fs follow (cur @ [s]) (map Normal ns) = Some loc"
    by (auto split: option.splits node.splits)
  show ?case
  proof (cases "q = []")
    case True
    with d p show ?thesis by simp
  next
    case False
    then show ?thesis
      using Cons.IH [OF w Cons.prems(2) prefix_snoc_intro [OF Cons.prems(3)] p(2)] p by simp
  qed
qed

lemma stat_file_dirs:
  assumes "work_tree fs root" and "stat fs True (RootDir # map Normal (root @ ns)) = Some (File c)"
  shows "dirs_to fs root ns \<and> node_at fs (root @ ns) = Some (File c)"
proof -
  obtain loc where loc: "locate fs True (RootDir # map Normal root @ map Normal ns) = Some loc"
      and n: "node_at fs loc = Some (File c)"
    using assms(2) by (auto simp: stat_def split: option.splits)
  have l: "loc = root @ ns"
    using locate_work_tree [OF assms(1) _ loc] by (simp add: plain_iff image_iff)
  have "walk max_links fs True root (map Normal ns) = Some loc"
    using loc assms(1) walk_dirs [of root fs "[]" max_links True "map Normal ns"]
    by (simp add: locate_def work_tree_def)
  then have "node_at fs (root @ p) = Some Dir" if "strict_prefix p ns" for p
    using walk_reaches_dirs [of max_links fs True root ns loc root p] assms(1) that
    by (cases "p = []") (auto simp: work_tree_def)
  with n l show ?thesis by (simp add: dirs_to_def)
qed

subsection \<open>Reading what was written\<close>

lemma walk_to_written_file:
  "walk n fs follow cur cs = Some loc \<Longrightarrow> node_at fs loc = None \<or> (\<exists>u. node_at fs loc = Some (File u))
    \<Longrightarrow> walk n (put_node loc (File t) fs) follow cur cs = Some loc"
proof (induction n fs follow cur cs rule: walk.induct)
  case (5 n fs follow cur s cs)
  show ?case
  proof (cases "cur @ [s] = loc")
    case True
    then have "node_at (put_node loc (File t) fs) (cur @ [s]) = Some (File t)"
      by (auto simp: node_at_put)
    then show ?thesis using "5.prems" True by (auto split: if_splits)
  next
    case False
    then have same: "node_at (put_node loc (File t) fs) (cur @ [s]) = node_at fs (cur @ [s])"
      by (simp add: node_at_put_other)
    show ?thesis
    proof (cases "\<exists>u. node_at fs (cur @ [s]) = Some (Link u)")
      case True
      then obtain u where u: "node_at fs (cur @ [s]) = Some (Link u)" by blast
      have moved: "\<not> (cs = [] \<and> \<not> follow)"
        using "5.prems"(1) False by (auto simp: u split: if_splits)
      then obtain m where n: "n = Suc m"
        using "5.prems"(1) by (auto simp: u split: nat.splits)
      have "walk m fs follow cur (components u @ cs) = Some loc"
        using "5.prems"(1) moved by (simp add: u n)
      then have "walk m (put_node loc (File t) fs) follow cur (components u @ cs) = Some loc"
        using "5.IH"(2) [OF u _ moved n] "5.prems"(2) by simp
      then show ?thesis using moved by (auto simp: same u n)
    next
      case False
      then show ?thesis
        using "5.prems" "5.IH"(1) same by (auto split: option.splits node.splits if_splits)
    qed
  qed
qed auto

lemma write_then_read:
  assumes "write_text path t fs = Some fs'"
  shows "read_to_string fs' path = Some t"
proof -
  obtain loc where loc: "locate fs True path = Some loc"
      and nd: "node_at fs loc = None \<or> (\<exists>u. node_at fs loc = Some (File u))"
      and fs': "fs' = put_node loc (File t) fs"
    using assms by (fastforce simp: write_text_def split: option.splits node.splits)
  have "loc \<noteq> []" using nd by (auto simp: node_at_def)
  moreover have "locate fs' True path = Some loc"
    using walk_to_written_file [OF loc [unfolded locate_def] nd] by (simp add: fs' locate_def)
  ultimately show ?thesis
    by (simp add: read_to_string_def stat_def fs' node_at_put)
qed

subsection \<open>Removing entries\<close>

text \<open>A file that cannot be removed stays without notice.\<close>

definition remove_names :: "component list \<Rightarrow> string list \<Rightarrow> file_system \<Rightarrow> file_system" where
  "remove_names par ns fs =
     fold (\<lambda>n f. case remove_file (par @ [Normal n]) f of None \<Rightarrow> f | Some f' \<Rightarrow> f') ns fs"

lemma remove_names_result:
  assumes "work_tree fs root"
  shows "node_at (remove_names (RootDir # map Normal root) ns fs) l
    = (if (\<exists>n \<in> set ns. l = root @ [n]) \<and> node_at fs l \<noteq> Some Dir then None else node_at fs l)"
  using assms
proof (induction ns arbitrary: fs)
  case Nil
  then show ?case by (simp add: remove_names_def)
next
  case (Cons n ns)
  let ?p = "RootDir # map Normal root @ [Normal n]"
  have loc: "locate fs False ?p = Some (root @ [n])"
    by (rule locate_entry) (rule Cons.prems)
  show ?case
  proof (cases "node_at fs (root @ [n]) \<in> {None, Some Dir}")
    case True
    then have "remove_file ?p fs = None"
      using loc by (auto simp: remove_file_def)
    then show ?thesis
      using Cons.IH [OF Cons.prems] True by (auto simp: remove_names_def)
  next
    case False
    then have "remove_file ?p fs = Some (del_node (root @ [n]) fs)"
      using loc by (auto simp: remove_file_def split: option.split node.split)
    then show ?thesis
      using Cons.IH [OF work_tree_del_entry [OF Cons.prems, of n]] False
      by (auto simp: remove_names_def node_at_del)
  qed
qed

lemma work_tree_remove_names:
  "work_tree fs root \<Longrightarrow> work_tree (remove_names (RootDir # map Normal root) ns fs) root"
proof (induction ns arbitrary: fs)
  case Nil
  then show ?case by (simp add: remove_names_def)
next
  case (Cons n ns)
  have "work_tree (case remove_file (RootDir # map Normal root @ [Normal n]) fs of None \<Rightarrow> fs | Some f \<Rightarrow> f) root"
    using Cons.prems work_tree_del_entry [OF Cons.prems, of n] locate_entry [OF Cons.prems, of False n]
    by (auto simp: remove_file_def split: option.split node.split)
  from Cons.IH [OF this] show ?case by (simp add: remove_names_def)
qed

lemma read_dir_names:
  assumes "work_tree fs root" and "hm_wf (nodes fs)"
  shows "\<exists>ns. read_dir fs (RootDir # map Normal root) = Some ns \<and> distinct ns
    \<and> set ns = {n. node_at fs (root @ [n]) \<noteq> None}"
proof -
  have dir: "node_at fs root = Some Dir"
    using assms(1) by (simp add: work_tree_def)
  let ?ls = "filter (\<lambda>l. l \<noteq> [] \<and> butlast l = root) (hm_keys (nodes fs))"
  have key: "l \<in> set (hm_keys (nodes fs)) \<longleftrightarrow> node_at fs l \<noteq> None" if "l \<noteq> []" for l
    using that by (auto simp: node_at_def map_of_eq_None_iff)
  have entry: "l \<in> set ?ls \<longleftrightarrow> (\<exists>n. l = root @ [n] \<and> node_at fs l \<noteq> None)" for l
  proof (cases l rule: rev_cases)
    case Nil
    then show ?thesis by simp
  next
    case (snoc ms n)
    then show ?thesis using key [of l] by auto
  qed
  have "inj_on last (set ?ls)"
  proof (rule inj_onI)
    fix l k assume "l \<in> set ?ls" and "k \<in> set ?ls" and "last l = last k"
    then show "l = k" unfolding entry by auto
  qed
  moreover have "distinct ?ls"
    using assms(2) by (simp add: hm_wf_def)
  ultimately have "distinct (map last ?ls)"
    by (simp only: distinct_map simp_thms)
  moreover have "n \<in> set (map last ?ls) \<longleftrightarrow> node_at fs (root @ [n]) \<noteq> None" for n
  proof
    assume "n \<in> set (map last ?ls)"
    then obtain l where "l \<in> set ?ls" and "n = last l" unfolding set_map by blast
    with entry [of l] show "node_at fs (root @ [n]) \<noteq> None" by auto
  next
    assume "node_at fs (root @ [n]) \<noteq> None"
    then have "root @ [n] \<in> set ?ls" using entry by blast
    then show "n \<in> set (map last ?ls)" unfolding set_map by (rule rev_image_eqI) simp
  qed
  then have "set (map last ?ls) = {n. node_at fs (root @ [n]) \<noteq> None}" by blast
  ultimately show ?thesis
    using dir locate_directory [OF assms(1)] by (simp add: read_dir_def dir_names_def)
qed

end
