(* ===== verification/Snapshot_Store.thy ===== *)
theory Snapshot_Store
  imports Snapshot_Cache Std_Dir Json
begin

text \<open>
  Snapshots of a directory (crates/cli/src/core/snapshot.rs, second part, and the Unix half of
  crates/cli/src/platform/permissions.rs): taking one, checking its form, comparing it with the
  directory and writing its files back.

  A \<open>disk\<close> is a file system with the mode of every file. The server owns the files and is not the
  superuser: the two bits of the owner decide whether an existing file can be read or written.
  Directories can always be searched and written, and their modes play no part. What the code takes from outside is in
  \<open>snapshot_env\<close>: \<^bold>\<open>blake3\<close>, the compressor, the directory walker (its follow-links flag, its
  entry filter, its root), modification times, git, the clock and the names of host and user.
\<close>

subsection \<open>Files with their modes\<close>

record disk =
  d_fs :: file_system
  d_modes :: "(string list, nat) hmap"

text \<open>A file that nobody has changed the mode of is a regular file with mode 644.\<close>

definition mode_at :: "disk \<Rightarrow> string list \<Rightarrow> nat" where
  "mode_at d loc = (case hm_get (d_modes d) loc of None \<Rightarrow> 33188 | Some m \<Rightarrow> m)"

definition file_mode :: "disk \<Rightarrow> component list \<Rightarrow> nat option" where
  "file_mode d path =
     (case locate (d_fs d) True path of
        None \<Rightarrow> None
      | Some loc \<Rightarrow> if node_at (d_fs d) loc = None then None else Some (mode_at d loc))"

text \<open>The length in the metadata; that of a directory is one block.\<close>

definition file_len :: "disk \<Rightarrow> component list \<Rightarrow> nat option" where
  "file_len d path =
     (case stat (d_fs d) True path of
        Some (File text) \<Rightarrow> Some (length text) | Some _ \<Rightarrow> Some 4096 | None \<Rightarrow> None)"

text \<open>The bits \<open>0o400\<close> and \<open>0o200\<close>.\<close>

definition owner_reads :: "nat \<Rightarrow> bool" where
  "owner_reads m = odd (m div 256)"

definition owner_writes :: "nat \<Rightarrow> bool" where
  "owner_writes m = odd (m div 128)"

text \<open>\<^bold>\<open>fs::read\<close> and \<^bold>\<open>fs::write\<close>: an existing file that its owner may not read or write is an error.\<close>

definition read_content :: "disk \<Rightarrow> component list \<Rightarrow> string option" where
  "read_content d path =
     (case file_mode d path of
        None \<Rightarrow> None
      | Some m \<Rightarrow> if owner_reads m then read_to_string (d_fs d) path else None)"

definition write_file :: "component list \<Rightarrow> string \<Rightarrow> disk \<Rightarrow> disk option" where
  "write_file path text d =
     (case file_mode d path of
        Some m \<Rightarrow>
          if owner_writes m then map_option (\<lambda>fs. d\<lparr>d_fs := fs\<rparr>) (write_text path text (d_fs d)) else None
      | None \<Rightarrow> map_option (\<lambda>fs. d\<lparr>d_fs := fs\<rparr>) (write_text path text (d_fs d)))"

definition make_dirs :: "component list \<Rightarrow> disk \<Rightarrow> disk option" where
  "make_dirs path d = map_option (\<lambda>fs. d\<lparr>d_fs := fs\<rparr>) (create_dir_all path (d_fs d))"

definition set_mode :: "component list \<Rightarrow> nat \<Rightarrow> disk \<Rightarrow> disk option" where
  "set_mode path m d =
     (case locate (d_fs d) True path of
        None \<Rightarrow> None
      | Some loc \<Rightarrow> if node_at (d_fs d) loc = None then None
                   else Some (d\<lparr>d_modes := hm_insert loc m (d_modes d)\<rparr>))"

text \<open>\<^bold>\<open>fs::copy\<close>: the contents and the mode.\<close>

definition copy_file :: "component list \<Rightarrow> component list \<Rightarrow> disk \<Rightarrow> disk option" where
  "copy_file src dst d =
     (case (read_content d src, file_mode d src) of
        (Some text, Some m) \<Rightarrow> Option.bind (write_file dst text d) (set_mode dst m)
      | _ \<Rightarrow> None)"

subsection \<open>The data of a snapshot\<close>

datatype content_storage =
    Inline string
  | External string
  | Compressed string
  | Deduplicated string

record snapshot_file =
  sf_path :: string
  sf_content_hash :: string
  sf_size :: nat
  sf_permissions :: nat
  sf_modified_at :: nat
  sf_is_binary :: bool
  sf_storage :: content_storage

record snapshot_metadata =
  sm_devit_version :: string
  sm_hostname :: string
  sm_username :: string
  sm_working_directory :: string
  sm_environment :: "(string \<times> string) list"
  sm_custom_fields :: "(string \<times> json) list"

record snapshot =
  sn_id :: string
  sn_created_at :: nat
  sn_description :: string
  sn_root_path :: string
  sn_files :: "(string, snapshot_file) hmap"
  sn_git_info :: "git_snapshot option"
  sn_metadata :: snapshot_metadata
  sn_integrity_hash :: string
  sn_total_size :: nat
  sn_parent_snapshot :: "string option"

record snapshot_options =
  so_include_binary_files :: bool
  so_max_file_size :: "nat option"
  so_exclude_patterns :: "string list"
  so_compress_contents :: bool
  so_deduplicate_contents :: bool
  so_follow_symlinks :: bool
  so_include_git_info :: bool
  so_custom_metadata :: "(string \<times> json) list"

definition default_snapshot_options :: snapshot_options where
  "default_snapshot_options =
     \<lparr>so_include_binary_files = False, so_max_file_size = None,
      so_exclude_patterns = [''.git'', ''target''], so_compress_contents = False,
      so_deduplicate_contents = False, so_follow_symlinks = False,
      so_include_git_info = True, so_custom_metadata = []\<rparr>"

record restore_options =
  ro_overwrite_existing :: bool
  ro_restore_permissions :: bool
  ro_restore_timestamps :: bool
  ro_create_directories :: bool
  ro_dry_run :: bool
  ro_backup_existing :: bool

definition default_restore_options :: restore_options where
  "default_restore_options =
     \<lparr>ro_overwrite_existing = False, ro_restore_permissions = False,
      ro_restore_timestamps = False, ro_create_directories = False,
      ro_dry_run = False, ro_backup_existing = False\<rparr>"

datatype file_difference =
    Missing string
  | Added string
  | Modified string string string
  | PermissionsChanged string nat nat
  | TimestampChanged string nat nat

datatype walk_kind = WalkDirectory | WalkFile | WalkLink

datatype walk_entry = WalkEntry string walk_kind | WalkError

record snapshot_env =
  se_blake3 :: "string \<Rightarrow> string"
  se_deflate :: "string \<Rightarrow> string"
  se_inflate :: "string \<Rightarrow> string option"
  se_walk :: "file_system \<Rightarrow> bool \<Rightarrow> (string \<Rightarrow> bool) \<Rightarrow> string \<Rightarrow> walk_entry list"
  se_mtime :: "string \<Rightarrow> nat"
  se_git :: "string \<Rightarrow> string list \<Rightarrow> string option"
  se_now :: nat
  se_hostname :: "string option"
  se_user :: "string option"
  se_version :: string

subsection \<open>Taking a snapshot\<close>

definition kept_entry :: "snapshot_options \<Rightarrow> string \<Rightarrow> bool" where
  "kept_entry opts path = (\<not> list_ex (\<lambda>pattern. contains path pattern) (so_exclude_patterns opts))"

text \<open>\<^bold>\<open>strip_prefix\<close> of the root, on components, with the text of the rest.\<close>

fun component_name :: "component \<Rightarrow> string" where
  "component_name RootDir = []"
| "component_name CurDir = ''.''"
| "component_name ParentDir = ''..''"
| "component_name (Normal s) = s"

definition relative_name :: "string \<Rightarrow> string \<Rightarrow> string" where
  "relative_name root path =
     (if path_starts_with path root
      then join_slash (map component_name (drop (length (components root)) (components path)))
      else path)"

definition looks_binary :: "string \<Rightarrow> bool" where
  "looks_binary content = list_ex (\<lambda>b. b = CHR 0x00) (take 8192 content)"

definition capture_file ::
  "snapshot_env \<Rightarrow> snapshot_options \<Rightarrow> string \<Rightarrow> disk \<Rightarrow> string \<Rightarrow> devit_error + snapshot_file option"
where
  "capture_file env opts root d path =
     (case (file_len d (components path), file_mode d (components path)) of
        (Some len, Some m) \<Rightarrow>
          if (case so_max_file_size opts of None \<Rightarrow> False | Some limit \<Rightarrow> limit < len) then Inr None
          else
            (case read_content d (components path) of
               None \<Rightarrow> Inl (Io ''read file'' (Some path) [])
             | Some content \<Rightarrow>
                 if looks_binary content \<and> \<not> so_include_binary_files opts then Inr None
                 else Inr (Some
                   \<lparr>sf_path = relative_name root path,
                    sf_content_hash = se_blake3 env content, sf_size = len,
                    sf_permissions = m, sf_modified_at = se_mtime env path,
                    sf_is_binary = looks_binary content,
                    sf_storage = (if so_compress_contents opts \<and> \<not> looks_binary content
                                  then Compressed (se_deflate env content) else Inline content)\<rparr>))
      | _ \<Rightarrow> Inl (Io ''get metadata'' (Some path) []))"

text \<open>One step of the walk: the files and the total size so far.\<close>

definition capture_entry ::
  "snapshot_env \<Rightarrow> snapshot_options \<Rightarrow> string \<Rightarrow> disk \<Rightarrow> (string, snapshot_file) hmap \<times> nat
    \<Rightarrow> walk_entry \<Rightarrow> devit_error + (string, snapshot_file) hmap \<times> nat"
where
  "capture_entry env opts root d acc entry =
     (case entry of
        WalkError \<Rightarrow> Inl (Io ''walk directory'' (Some root) [])
      | WalkEntry path kind \<Rightarrow>
          if kind = WalkDirectory then Inr acc
          else
            case capture_file env opts root d path of
              Inl e \<Rightarrow> Inl e
            | Inr None \<Rightarrow> Inr acc
            | Inr (Some f) \<Rightarrow> Inr (hm_insert (sf_path f) f (fst acc), snd acc + sf_size f))"

definition snapshot_create ::
  "snapshot_env \<Rightarrow> snapshot_options \<Rightarrow> string \<Rightarrow> string \<Rightarrow> disk \<Rightarrow> devit_error + snapshot"
where
  "snapshot_create env opts root description d =
     (case try_fold (capture_entry env opts root d) ([], 0)
             (se_walk env (d_fs d) (so_follow_symlinks opts) (kept_entry opts) root) of
        Inl e \<Rightarrow> Inl e
      | Inr (files, bytes) \<Rightarrow>
          (case (if so_include_git_info opts then get_git_info (se_git env root) else Some None) of
             None \<Rightarrow> Inl (Panicked ''byte index 3 is not a char boundary'')
           | Some git_info \<Rightarrow>
               Inr \<lparr>sn_id = generate_snapshot_id (se_blake3 env) (se_now env) (Some description),
                    sn_created_at = se_now env, sn_description = description,
                    sn_root_path = root, sn_files = files, sn_git_info = git_info,
                    sn_metadata =
                      \<lparr>sm_devit_version = se_version env,
                       sm_hostname = (case se_hostname env of None \<Rightarrow> ''unknown'' | Some h \<Rightarrow> h),
                       sm_username = (case se_user env of None \<Rightarrow> ''unknown'' | Some u \<Rightarrow> u),
                       sm_working_directory = root, sm_environment = [],
                       sm_custom_fields = so_custom_metadata opts\<rparr>,
                    sn_integrity_hash = [], sn_total_size = bytes,
                    sn_parent_snapshot = None\<rparr>))"

subsection \<open>Checking the form of a snapshot\<close>

definition stale :: "snapshot \<Rightarrow> string \<Rightarrow> devit_error" where
  "stale s reason = SnapshotStale (sn_id s) None (Some reason)"

definition validate_file :: "snapshot \<Rightarrow> disk \<Rightarrow> string \<times> snapshot_file \<Rightarrow> devit_error + unit" where
  "validate_file s d entry =
     (case entry of (path, f) \<Rightarrow>
        if sf_content_hash f = [] then Inl (stale s (''File '' @ path @ '' has empty hash''))
        else if \<not> list_all is_hexdigit (sf_content_hash f)
        then Inl (stale s (''File '' @ path @ '' has invalid hash format''))
        else
          (case sf_storage f of
             External ext \<Rightarrow>
               (if path_exists (d_fs d) (components ext) then Inr ()
                else Inl (stale s (''External storage missing for '' @ path)))
           | Deduplicated h \<Rightarrow>
               (if h = [] then Inl (stale s (''Invalid dedup reference for '' @ path)) else Inr ())
           | _ \<Rightarrow> Inr ()))"

definition snapshot_form_ok :: "snapshot \<Rightarrow> disk \<Rightarrow> devit_error + unit" where
  "snapshot_form_ok s d =
     (case validate_snapshot_id (sn_id s) of
        Inl e \<Rightarrow> Inl e
      | Inr _ \<Rightarrow> try_all (validate_file s d) (sn_files s))"

subsection \<open>Comparing with the directory\<close>

definition target_of :: "snapshot \<Rightarrow> string \<Rightarrow> component list" where
  "target_of s rel = components (path_join (sn_root_path s) rel)"

definition compare_path ::
  "snapshot_env \<Rightarrow> snapshot \<Rightarrow> disk \<Rightarrow> string \<Rightarrow> devit_error + file_difference list"
where
  "compare_path env s d rel =
     (let path = target_of s rel
      in case hm_get (sn_files s) rel of
           Some f \<Rightarrow>
             if \<not> path_exists (d_fs d) path then Inr [Missing rel]
             else
               (case read_content d path of
                  None \<Rightarrow> Inl (Io ''read file for comparison'' (Some (path_join (sn_root_path s) rel)) [])
                | Some content \<Rightarrow>
                    let current = se_blake3 env content;
                        changed = (if current \<noteq> sf_content_hash f
                                   then [Modified rel (sf_content_hash f) current] else [])
                    in case file_mode d path of
                         None \<Rightarrow> Inl (Io ''get metadata for comparison''
                                       (Some (path_join (sn_root_path s) rel)) [])
                       | Some m \<Rightarrow>
                           Inr (changed @
                             (if m \<noteq> sf_permissions f
                              then [PermissionsChanged rel (sf_permissions f) m] else [])))
         | None \<Rightarrow> Inr (if path_exists (d_fs d) path then [Added rel] else []))"

fun compare_paths ::
  "snapshot_env \<Rightarrow> snapshot \<Rightarrow> disk \<Rightarrow> string list \<Rightarrow> devit_error + file_difference list"
where
  "compare_paths env s d [] = Inr []"
| "compare_paths env s d (p # ps) =
     (case compare_path env s d p of
        Inl e \<Rightarrow> Inl e
      | Inr ds \<Rightarrow>
          (case compare_paths env s d ps of Inl e \<Rightarrow> Inl e | Inr ds' \<Rightarrow> Inr (ds @ ds')))"

definition added_files :: "snapshot_env \<Rightarrow> snapshot \<Rightarrow> disk \<Rightarrow> file_difference list" where
  "added_files env s d =
     concat (map (\<lambda>entry.
         case entry of
           WalkEntry path WalkFile \<Rightarrow>
             (let rel = relative_name (sn_root_path s) path
              in if hm_get (sn_files s) rel = None then [Added rel] else [])
         | _ \<Rightarrow> [])
       (se_walk env (d_fs d) False (\<lambda>_. True) (sn_root_path s)))"

definition compare_with_current ::
  "snapshot_env \<Rightarrow> snapshot \<Rightarrow> string list option \<Rightarrow> disk \<Rightarrow> devit_error + file_difference list"
where
  "compare_with_current env s reference d =
     (case compare_paths env s d
             (case reference of Some refs \<Rightarrow> refs | None \<Rightarrow> hm_keys (sn_files s)) of
        Inl e \<Rightarrow> Inl e
      | Inr ds \<Rightarrow> Inr (ds @ (if reference = None then added_files env s d else [])))"

end
