(* ===== verification/Snapshot_Manager.thy ===== *)
theory Snapshot_Manager
  imports Snapshot_Store Patch_Classify Std_Dir
begin

text \<open>
  Writing a snapshot back, and the manager that keeps snapshots as JSON files in one directory
  (crates/cli/src/core/snapshot.rs, last part), with the operations of the engine on it
  (crates/cli/src/core/mod.rs). An operation returns its result and the disk; what it wrote
  before it failed stays written. \<open>enc\<close> and \<open>dec\<close> are serde's text form of a snapshot.
\<close>

subsection \<open>Restoring\<close>

text \<open>The first file with the hash that is stored inline.\<close>

fun inline_content :: "content_storage \<Rightarrow> string option" where
  "inline_content (Inline c) = Some c"
| "inline_content _ = None"

definition inline_of :: "snapshot \<Rightarrow> string \<Rightarrow> string option" where
  "inline_of s h =
     (case List.find (\<lambda>f. sf_content_hash f = h \<and> inline_content (sf_storage f) \<noteq> None)
             (hm_values (sn_files s)) of
        Some f \<Rightarrow> inline_content (sf_storage f)
      | None \<Rightarrow> None)"

definition stored_content ::
  "snapshot_env \<Rightarrow> snapshot \<Rightarrow> disk \<Rightarrow> string \<Rightarrow> snapshot_file \<Rightarrow> devit_error + string"
where
  "stored_content env s d target f =
     (case sf_storage f of
        Inline content \<Rightarrow> Inr content
      | Compressed z \<Rightarrow>
          (case se_inflate env z of
             None \<Rightarrow> Inl (Io ''decompress file'' (Some target) []) | Some content \<Rightarrow> Inr content)
      | External ext \<Rightarrow>
          (case read_content d (components ext) of
             None \<Rightarrow> Inl (Io ''read external storage'' (Some ext) []) | Some content \<Rightarrow> Inr content)
      | Deduplicated h \<Rightarrow>
          (case inline_of s h of
             None \<Rightarrow> Inl (stale s (''Dedup reference not found: '' @ h)) | Some content \<Rightarrow> Inr content))"

definition restore_content ::
  "snapshot_env \<Rightarrow> restore_options \<Rightarrow> snapshot \<Rightarrow> component list \<Rightarrow> string \<Rightarrow> snapshot_file \<Rightarrow> disk
    \<Rightarrow> (devit_error + bool) \<times> disk"
where
  "restore_content env opts s target text f d =
     (case (if ro_create_directories opts
            then case path_parent target of None \<Rightarrow> Some d | Some par \<Rightarrow> make_dirs par d
            else Some d) of
        None \<Rightarrow> (Inl (Io ''create directory'' (Some text) []), d)
      | Some d2 \<Rightarrow>
          (case stored_content env s d2 text f of
             Inl e \<Rightarrow> (Inl e, d2)
           | Inr content \<Rightarrow>
               (case write_file target content d2 of
                  None \<Rightarrow> (Inl (Io ''write file'' (Some text) []), d2)
                | Some d3 \<Rightarrow>
                    if ro_restore_permissions opts
                    then case set_mode target (sf_permissions f) d3 of
                           None \<Rightarrow> (Inl (Io ''set permissions'' (Some text) []), d3)
                         | Some d4 \<Rightarrow> (Inr True, d4)
                    else (Inr True, d3))))"

text \<open>One path: whether it was restored.\<close>

definition restore_one ::
  "snapshot_env \<Rightarrow> restore_options \<Rightarrow> snapshot \<Rightarrow> disk \<Rightarrow> string \<Rightarrow> (devit_error + bool) \<times> disk"
where
  "restore_one env opts s d rel =
     (case hm_get (sn_files s) rel of
        None \<Rightarrow> (Inr False, d)
      | Some f \<Rightarrow>
          let target = target_of s rel;
              text = path_join (sn_root_path s) rel
          in if path_exists (d_fs d) target \<and> \<not> ro_overwrite_existing opts then (Inr False, d)
             else
               case (if path_exists (d_fs d) target \<and> ro_backup_existing opts
                     then copy_file target (with_extension target ''backup'') d else Some d) of
                 None \<Rightarrow> (Inl (Io ''backup file'' (Some text) []), d)
               | Some d1 \<Rightarrow>
                   if ro_dry_run opts then (Inr True, d1)
                   else restore_content env opts s target text f d1)"

fun restore_files ::
  "snapshot_env \<Rightarrow> restore_options \<Rightarrow> snapshot \<Rightarrow> disk \<Rightarrow> string list
    \<Rightarrow> (devit_error + string list) \<times> disk"
where
  "restore_files env opts s d [] = (Inr [], d)"
| "restore_files env opts s d (rel # rels) =
     (case restore_one env opts s d rel of
        (Inl e, d') \<Rightarrow> (Inl e, d')
      | (Inr restored, d') \<Rightarrow>
          (case restore_files env opts s d' rels of
             (Inl e, d'') \<Rightarrow> (Inl e, d'')
           | (Inr rs, d'') \<Rightarrow> (Inr (if restored then rel # rs else rs), d'')))"

definition snapshot_write_back ::
  "snapshot_env \<Rightarrow> restore_options \<Rightarrow> snapshot \<Rightarrow> string list option \<Rightarrow> disk
    \<Rightarrow> (devit_error + string list) \<times> disk"
where
  "snapshot_write_back env opts s targets d =
     restore_files env opts s d (case targets of Some ts \<Rightarrow> ts | None \<Rightarrow> hm_keys (sn_files s))"

definition size_bytes :: "snapshot \<Rightarrow> nat" where
  "size_bytes s = sum_list (map sf_size (hm_values (sn_files s)))"

definition file_list :: "snapshot \<Rightarrow> string list" where
  "file_list s = hm_keys (sn_files s)"

subsection \<open>The manager\<close>

record snapshot_manager =
  mg_dir :: string
  mg_max :: nat
  mg_options :: snapshot_options

definition normalize_snapshot_dir :: "string \<Rightarrow> string" where
  "normalize_snapshot_dir path =
     (case file_name path of
        Some name \<Rightarrow>
          if name = ''snapshots'' then path
          else if name = ''.devit'' then path_join path ''snapshots''
          else path_join (path_join path ''.devit'') ''snapshots''
      | None \<Rightarrow> path_join (path_join path ''.devit'') ''snapshots'')"

definition new_manager :: "string \<Rightarrow> nat \<Rightarrow> snapshot_manager" where
  "new_manager dir n =
     \<lparr>mg_dir = normalize_snapshot_dir dir, mg_max = n, mg_options = default_snapshot_options\<rparr>"

definition set_snapshot_dir :: "string \<Rightarrow> snapshot_manager \<Rightarrow> snapshot_manager" where
  "set_snapshot_dir path mg = mg\<lparr>mg_dir := normalize_snapshot_dir path\<rparr>"

definition snapshot_file_path :: "snapshot_manager \<Rightarrow> string \<Rightarrow> string" where
  "snapshot_file_path mg sid =
     path_join (mg_dir mg) (if ends_with sid ''.json'' then sid else sid @ ''.json'')"

definition ensure_storage_dir :: "snapshot_manager \<Rightarrow> disk \<Rightarrow> (devit_error + unit) \<times> disk" where
  "ensure_storage_dir mg d =
     (if path_exists (d_fs d) (components (mg_dir mg)) then (Inr (), d)
      else case make_dirs (components (mg_dir mg)) d of
             None \<Rightarrow> (Inl (Io ''create snapshot directory'' (Some (mg_dir mg)) []), d)
           | Some d' \<Rightarrow> (Inr (), d'))"

text \<open>The eight bytes of a size, lowest first.\<close>

definition le_bytes :: "nat \<Rightarrow> string" where
  "le_bytes n = map (\<lambda>i. char_of (n div 256 ^ i mod 256)) [0..<8]"

definition compute_integrity_hash :: "snapshot_env \<Rightarrow> snapshot \<Rightarrow> string" where
  "compute_integrity_hash env s =
     take 32 (se_blake3 env
       (sn_id s @ sn_description s
        @ concat (map (\<lambda>(path, f). path @ sf_content_hash f @ le_bytes (sf_size f))
            (sort_key (\<lambda>(path, f). components path) (sn_files s)))))"

definition move_file :: "component list \<Rightarrow> component list \<Rightarrow> disk \<Rightarrow> disk option" where
  "move_file src dst d =
     (case (rename_file src dst (d_fs d), locate (d_fs d) False src, locate (d_fs d) False dst) of
        (Some fs, Some a, Some b) \<Rightarrow>
          Some (d\<lparr>d_fs := fs,
                  d_modes := (if a = b then d_modes d
                              else hm_insert b (mode_at d a) (hm_remove a (d_modes d)))\<rparr>)
      | _ \<Rightarrow> None)"

definition unlink_file :: "component list \<Rightarrow> disk \<Rightarrow> disk option" where
  "unlink_file path d =
     (case (remove_file path (d_fs d), locate (d_fs d) False path) of
        (Some fs, Some loc) \<Rightarrow> Some (d\<lparr>d_fs := fs, d_modes := hm_remove loc (d_modes d)\<rparr>)
      | _ \<Rightarrow> None)"

text \<open>The mode of a new file opened with \<open>0o600\<close>; an existing file keeps its mode.\<close>

definition write_private :: "component list \<Rightarrow> string \<Rightarrow> disk \<Rightarrow> disk option" where
  "write_private path text d =
     (if path_exists (d_fs d) path then write_file path text d
      else Option.bind (write_file path text d) (set_mode path 33152))"

definition write_snapshot_file ::
  "snapshot_manager \<Rightarrow> string \<Rightarrow> string \<Rightarrow> disk \<Rightarrow> (devit_error + unit) \<times> disk"
where
  "write_snapshot_file mg sid contents d =
     (let text = snapshot_file_path mg sid;
          path = components text;
          tmp = with_extension path ''json.tmp''
      in case (case path_parent path of
                 None \<Rightarrow> Some d
               | Some par \<Rightarrow> if path_exists (d_fs d) par then Some d else make_dirs par d) of
           None \<Rightarrow> (Inl (Io ''create snapshot directory'' (Some text) []), d)
         | Some d1 \<Rightarrow>
             (case write_private tmp contents d1 of
                None \<Rightarrow> (Inl (Io ''create snapshot temp file'' (Some text) []), d1)
              | Some d2 \<Rightarrow>
                  (case move_file tmp path d2 of
                     None \<Rightarrow> (Inl (Io ''persist snapshot file'' (Some text) []), d2)
                   | Some d3 \<Rightarrow>
                       (Inr (), case set_mode path 33152 d3 of None \<Rightarrow> d3 | Some d4 \<Rightarrow> d4))))"

definition not_on_disk :: "string \<Rightarrow> string \<Rightarrow> string \<Rightarrow> devit_error" where
  "not_on_disk op sid must = SnapshotRequired op (''Snapshot '' @ sid @ must)"

definition get_snapshot ::
  "(string \<Rightarrow> snapshot option) \<Rightarrow> snapshot_manager \<Rightarrow> string \<Rightarrow> disk \<Rightarrow> devit_error + snapshot"
where
  "get_snapshot dec mg sid d =
     (let text = snapshot_file_path mg sid; path = components text
      in if \<not> path_exists (d_fs d) path
         then Inl (not_on_disk ''snapshot_get'' sid '' must exist on disk'')
         else case read_content d path of
                None \<Rightarrow> Inl (Internal ''snapshot'' (''failed to deserialize snapshot '' @ sid) None [])
              | Some contents \<Rightarrow>
                  (case dec contents of
                     None \<Rightarrow> Inl (Internal ''snapshot'' (''failed to deserialize snapshot '' @ sid) None [])
                   | Some s \<Rightarrow> Inr s))"

record snapshot_info =
  si_id :: string
  si_created_at :: nat
  si_description :: string
  si_file_count :: nat
  si_size_bytes :: nat
  si_root_path :: string

definition info_of :: "snapshot \<Rightarrow> snapshot_info" where
  "info_of s =
     \<lparr>si_id = sn_id s, si_created_at = sn_created_at s, si_description = sn_description s,
      si_file_count = length (sn_files s), si_size_bytes = sn_total_size s,
      si_root_path = sn_root_path s\<rparr>"

definition is_snapshot_file :: "snapshot_manager \<Rightarrow> disk \<Rightarrow> string \<Rightarrow> bool" where
  "is_snapshot_file mg d name =
     (let path = path_join (mg_dir mg) name
      in (\<exists>t. stat (d_fs d) True (components path) = Some (File t))
         \<and> file_extension path = Some ''json'')"

definition load_infos ::
  "(string \<Rightarrow> snapshot option) \<Rightarrow> snapshot_manager \<Rightarrow> disk \<Rightarrow> snapshot_info list \<Rightarrow> string
    \<Rightarrow> devit_error + snapshot_info list"
where
  "load_infos dec mg d infos name =
     (let path = path_join (mg_dir mg) name
      in if \<not> is_snapshot_file mg d name then Inr infos
         else case read_content d (components path) of
                None \<Rightarrow> Inl (Io ''open snapshot'' (Some path) [])
              | Some contents \<Rightarrow>
                  (case dec contents of
                     None \<Rightarrow> Inl (Internal ''snapshot'' (''failed to read snapshot metadata from '' @ path) None [])
                   | Some s \<Rightarrow> Inr (infos @ [info_of s])))"

definition list_snapshots ::
  "(string \<Rightarrow> snapshot option) \<Rightarrow> snapshot_manager \<Rightarrow> disk \<Rightarrow> devit_error + snapshot_info list"
where
  "list_snapshots dec mg d =
     (if \<not> path_exists (d_fs d) (components (mg_dir mg)) then Inr []
      else case read_dir (d_fs d) (components (mg_dir mg)) of
             None \<Rightarrow> Inl (Io ''read snapshot dir'' (Some (mg_dir mg)) [])
           | Some entries \<Rightarrow>
               (case try_fold (load_infos dec mg d) [] entries of
                  Inl e \<Rightarrow> Inl e
                | Inr infos \<Rightarrow> Inr (sort_key si_created_at infos)))"

definition delete_snapshot :: "snapshot_manager \<Rightarrow> string \<Rightarrow> disk \<Rightarrow> (devit_error + unit) \<times> disk" where
  "delete_snapshot mg sid d =
     (let text = snapshot_file_path mg sid; path = components text
      in if \<not> path_exists (d_fs d) path
         then (Inl (not_on_disk ''snapshot_delete'' sid '' must exist to delete''), d)
         else case unlink_file path d of
                None \<Rightarrow> (Inl (Io ''delete snapshot'' (Some text) []), d)
              | Some d' \<Rightarrow> (Inr (), d'))"

fun delete_all ::
  "snapshot_manager \<Rightarrow> disk \<Rightarrow> snapshot_info list \<Rightarrow> (devit_error + nat) \<times> disk"
where
  "delete_all mg d [] = (Inr 0, d)"
| "delete_all mg d (i # is) =
     (case delete_snapshot mg (si_id i) d of
        (Inl e, d') \<Rightarrow> (Inl e, d')
      | (Inr _, d') \<Rightarrow>
          (case delete_all mg d' is of
             (Inl e, d'') \<Rightarrow> (Inl e, d'') | (Inr n, d'') \<Rightarrow> (Inr (Suc n), d'')))"

definition cleanup_old_snapshots ::
  "(string \<Rightarrow> snapshot option) \<Rightarrow> snapshot_manager \<Rightarrow> disk \<Rightarrow> (devit_error + nat) \<times> disk"
where
  "cleanup_old_snapshots dec mg d =
     (if mg_max mg = 0 then (Inr 0, d)
      else case list_snapshots dec mg d of
             Inl e \<Rightarrow> (Inl e, d)
           | Inr infos \<Rightarrow>
               if length infos \<le> mg_max mg then (Inr 0, d)
               else delete_all mg d
                      (take (length infos - mg_max mg) (sort_key si_created_at infos)))"

definition create_snapshot ::
  "(snapshot \<Rightarrow> string) \<Rightarrow> (string \<Rightarrow> snapshot option) \<Rightarrow> snapshot_env \<Rightarrow> snapshot_manager \<Rightarrow> string
    \<Rightarrow> string \<Rightarrow> snapshot_options option \<Rightarrow> disk \<Rightarrow> (devit_error + string) \<times> disk"
where
  "create_snapshot enc dec env mg root description opts d =
     (case ensure_storage_dir mg d of
        (Inl e, d') \<Rightarrow> (Inl e, d')
      | (Inr _, d1) \<Rightarrow>
          (case snapshot_create env (case opts of None \<Rightarrow> mg_options mg | Some os \<Rightarrow> os) root description d1 of
             Inl e \<Rightarrow> (Inl e, d1)
           | Inr s0 \<Rightarrow>
               let s = s0\<lparr>sn_integrity_hash := compute_integrity_hash env s0\<rparr>
               in case write_snapshot_file mg (sn_id s) (enc s) d1 of
                    (Inl e, d2) \<Rightarrow> (Inl e, d2)
                  | (Inr _, d2) \<Rightarrow>
                      if mg_max mg > 0
                      then case cleanup_old_snapshots dec mg d2 of
                             (Inl e, d3) \<Rightarrow> (Inl e, d3) | (Inr _, d3) \<Rightarrow> (Inr (sn_id s), d3)
                      else (Inr (sn_id s), d2)))"

record snapshot_validation =
  sv_snapshot_id :: string
  sv_is_valid :: bool
  sv_errors :: "devit_error list"

text \<open>The texts of the errors are not modelled: the validation holds the errors themselves.\<close>

definition validation_of ::
  "(string \<Rightarrow> snapshot option) \<Rightarrow> snapshot_manager \<Rightarrow> disk \<Rightarrow> snapshot_info \<Rightarrow> snapshot_validation"
where
  "validation_of dec mg d i =
     (case (case get_snapshot dec mg (si_id i) d of
              Inl e \<Rightarrow> Inl e | Inr s \<Rightarrow> snapshot_form_ok s d) of
        Inr _ \<Rightarrow> \<lparr>sv_snapshot_id = si_id i, sv_is_valid = True, sv_errors = []\<rparr>
      | Inl e \<Rightarrow> \<lparr>sv_snapshot_id = si_id i, sv_is_valid = False, sv_errors = [e]\<rparr>)"

definition validate_all_snapshots ::
  "(string \<Rightarrow> snapshot option) \<Rightarrow> snapshot_manager \<Rightarrow> disk \<Rightarrow> devit_error + snapshot_validation list"
where
  "validate_all_snapshots dec mg d =
     (case list_snapshots dec mg d of
        Inl e \<Rightarrow> Inl e | Inr infos \<Rightarrow> Inr (map (validation_of dec mg d) infos))"

definition restore_snapshot ::
  "(string \<Rightarrow> snapshot option) \<Rightarrow> snapshot_env \<Rightarrow> snapshot_manager \<Rightarrow> string \<Rightarrow> disk
    \<Rightarrow> (devit_error + unit) \<times> disk"
where
  "restore_snapshot dec env mg sid d =
     (case get_snapshot dec mg sid d of
        Inl e \<Rightarrow> (Inl e, d)
      | Inr s \<Rightarrow>
          (case snapshot_write_back env
                  (default_restore_options\<lparr>ro_overwrite_existing := True,
                     ro_create_directories := True, ro_restore_permissions := True\<rparr>) s None d of
             (Inl e, d') \<Rightarrow> (Inl e, d') | (Inr _, d') \<Rightarrow> (Inr (), d')))"

subsection \<open>The engine's operations\<close>

text \<open>
  \<open>root\<close> is the current directory of the workspace and \<open>journal\<close> the outcome of the entry in
  the journal, which is written last.
\<close>

definition engine_snapshot_get ::
  "(snapshot \<Rightarrow> string) \<Rightarrow> (string \<Rightarrow> snapshot option) \<Rightarrow> snapshot_env \<Rightarrow> (string \<Rightarrow> devit_error + unit)
    \<Rightarrow> snapshot_manager \<Rightarrow> string \<Rightarrow> string \<Rightarrow> disk \<Rightarrow> (devit_error + string) \<times> disk"
where
  "engine_snapshot_get enc dec env journal mg root now_text d =
     (case create_snapshot enc dec env mg root (''Snapshot created at '' @ now_text) None d of
        (Inl e, d') \<Rightarrow> (Inl e, d')
      | (Inr sid, d') \<Rightarrow>
          (case journal ''snapshot_create'' of Inl e \<Rightarrow> (Inl e, d') | Inr _ \<Rightarrow> (Inr sid, d')))"

definition engine_snapshot_validate ::
  "(string \<Rightarrow> snapshot option) \<Rightarrow> snapshot_env \<Rightarrow> (string \<Rightarrow> devit_error + unit)
    \<Rightarrow> snapshot_manager \<Rightarrow> string \<Rightarrow> string list \<Rightarrow> disk \<Rightarrow> devit_error + bool"
where
  "engine_snapshot_validate dec env journal mg sid paths d =
     (case get_snapshot dec mg sid d of
        Inl e \<Rightarrow> Inl e
      | Inr s \<Rightarrow>
          (case compare_with_current env s (if paths = [] then None else Some paths) d of
             Inl e \<Rightarrow> Inl e
           | Inr differences \<Rightarrow>
               (case journal ''snapshot_validate'' of
                  Inl e \<Rightarrow> Inl e | Inr _ \<Rightarrow> Inr (differences = []))))"

definition engine_snapshot_create ::
  "(snapshot \<Rightarrow> string) \<Rightarrow> (string \<Rightarrow> snapshot option) \<Rightarrow> snapshot_env \<Rightarrow> (string \<Rightarrow> devit_error + unit)
    \<Rightarrow> snapshot_manager \<Rightarrow> string \<Rightarrow> string option \<Rightarrow> disk \<Rightarrow> (devit_error + string) \<times> disk"
where
  "engine_snapshot_create enc dec env journal mg root name d =
     (let description = (case name of None \<Rightarrow> ''manual'' | Some n \<Rightarrow> n)
      in case create_snapshot enc dec env mg root description None d of
           (Inl e, d') \<Rightarrow> (Inl e, d')
         | (Inr sid, d') \<Rightarrow>
             (case get_snapshot dec mg sid d' of
                Inl e \<Rightarrow> (Inl e, d')
              | Inr _ \<Rightarrow>
                  (case journal ''snapshot_create'' of
                     Inl e \<Rightarrow> (Inl e, d') | Inr _ \<Rightarrow> (Inr sid, d'))))"

definition engine_snapshot_restore ::
  "(string \<Rightarrow> snapshot option) \<Rightarrow> snapshot_env \<Rightarrow> (string \<Rightarrow> devit_error + unit)
    \<Rightarrow> snapshot_manager \<Rightarrow> string \<Rightarrow> disk \<Rightarrow> (devit_error + unit) \<times> disk"
where
  "engine_snapshot_restore dec env journal mg sid d =
     (case restore_snapshot dec env mg sid d of
        (Inl e, d') \<Rightarrow> (Inl e, d')
      | (Inr _, d') \<Rightarrow> (journal ''snapshot_restore'', d'))"

definition engine_snapshot_config :: "snapshot_manager \<Rightarrow> nat option \<Rightarrow> nat \<times> snapshot_manager" where
  "engine_snapshot_config mg new_max =
     (case new_max of
        Some n \<Rightarrow> (n, new_manager (mg_dir mg) n) | None \<Rightarrow> (mg_max mg, mg))"

end
