(* ===== verification/Snapshot_Restore.thy ===== *)
theory Snapshot_Restore
  imports Snapshot_Manager Std_Dir
begin

text \<open>
  What snapshots promise: a snapshot that is written back gives every captured file its contents
  and mode of the time it was taken, leaves the rest alone and then compares clean; and what the
  comparison with the whole directory reports beyond that.
\<close>

subsection \<open>Names and paths\<close>

definition good_name :: "string \<Rightarrow> bool" where
  "good_name s \<longleftrightarrow> s \<notin> {[], ''.'', ''..''} \<and> CHR ''/'' \<notin> set s"

lemma component_good: "Normal s \<in> set (components p) \<Longrightarrow> good_name s"
  by (auto simp: components_def Let_def seg_component_def good_name_def dest: split_char_no_sep
      split: if_splits)

lemma split_join_slash:
  "list_all good_name ns \<Longrightarrow> ns \<noteq> [] \<Longrightarrow> split_char (CHR ''/'') (join_slash ns) = ns"
proof (induction ns rule: join_slash.induct)
  case (2 s)
  then show ?case by (simp add: good_name_def split_char_single)
next
  case (3 s s' ss)
  then show ?case by (simp add: good_name_def split_char_append)
qed simp

lemma path_names_join: "list_all good_name ns \<Longrightarrow> ns \<noteq> [] \<Longrightarrow> path_names (join_slash ns) = ns"
  by (simp add: path_names_def split_join_slash filter_id_conv list_all_iff good_name_def)

lemma join_slash_relative: "list_all good_name ns \<Longrightarrow> \<not> is_absolute (join_slash ns)"
  by (induction ns rule: join_slash.induct)
    (auto simp: is_absolute_def good_name_def neq_Nil_conv Cons_eq_append_conv)

lemma join_slash_no_parent:
  "list_all good_name ns \<Longrightarrow> ParentDir \<notin> set (components (join_slash ns))"
  by (cases "ns = []")
    (auto simp: ParentDir_segs split_join_slash list_all_iff good_name_def)

lemma join_slash_inject:
  "list_all good_name ns \<Longrightarrow> list_all good_name ms \<Longrightarrow> ns \<noteq> [] \<Longrightarrow> ms \<noteq> []
    \<Longrightarrow> join_slash ns = join_slash ms \<longleftrightarrow> ns = ms"
  by (metis path_names_join)

lemma components_of_join:
  assumes "list_all good_name ns" and "ns \<noteq> []" and "rt \<noteq> []"
  shows "components (path_join rt (join_slash ns)) = components rt @ map Normal ns"
  using components_join_names [OF join_slash_relative join_slash_no_parent assms(3)] assms
  by (simp add: path_names_join)

lemma relative_of:
  assumes "components p = components rt @ map Normal ns"
  shows "relative_name rt p = join_slash ns"
  using assms
  by (simp add: relative_name_def path_starts_with_def comp_def)

subsection \<open>Making the directories on the way\<close>

text \<open>Every place on the way is a directory or free.\<close>

definition way_free :: "file_system \<Rightarrow> string list \<Rightarrow> string list \<Rightarrow> bool" where
  "way_free fs root ns \<longleftrightarrow> (\<forall>p. strict_prefix p ns \<longrightarrow> node_at fs (root @ p) \<in> {None, Some Dir})"

lemma create_dirs_free:
  "(\<forall>p. prefix p ns \<and> p \<noteq> [] \<longrightarrow> node_at fs (cur @ p) \<in> {None, Some Dir})
    \<Longrightarrow> \<exists>fs'. create_dirs n cur (map Normal ns) fs = Some fs' \<and> cwd fs' = cwd fs
      \<and> (\<forall>l. node_at fs' l = (if \<exists>p. prefix p ns \<and> p \<noteq> [] \<and> l = cur @ p then Some Dir else node_at fs l))"
proof (induction ns arbitrary: cur fs)
  case Nil
  then show ?case by auto
next
  case (Cons s ns)
  let ?fs = "(if node_at fs (cur @ [s]) = None then put_node (cur @ [s]) Dir fs else fs)"
  have here: "node_at fs (cur @ [s]) \<in> {None, Some Dir}"
    using Cons.prems by (metis (no_types) Cons_prefix_Cons Nil_prefix list.distinct(1))
  then have step: "create_dirs n cur (map Normal (s # ns)) fs = create_dirs n (cur @ [s]) (map Normal ns) ?fs"
    by auto
  have at: "node_at ?fs l = (if l = cur @ [s] then Some Dir else node_at fs l)" for l
    using here by (auto simp: node_at_put)
  have "node_at ?fs ((cur @ [s]) @ p) \<in> {None, Some Dir}" if "prefix p ns" "p \<noteq> []" for p
    using Cons.prems [rule_format, of "s # p"] that by (simp add: at)
  then obtain fs' where fs': "create_dirs n (cur @ [s]) (map Normal ns) ?fs = Some fs'"
      and c: "cwd fs' = cwd ?fs"
      and l: "\<And>l. node_at fs' l = (if \<exists>p. prefix p ns \<and> p \<noteq> [] \<and> l = (cur @ [s]) @ p then Some Dir
                                   else node_at ?fs l)"
    using Cons.IH [of ?fs "cur @ [s]"] by blast
  have split: "(\<exists>p. prefix p (s # ns) \<and> p \<noteq> [] \<and> l = cur @ p) \<longleftrightarrow>
      l = cur @ [s] \<or> (\<exists>p. prefix p ns \<and> p \<noteq> [] \<and> l = (cur @ [s]) @ p)" for l
    by (auto simp: prefix_Cons)
  have "node_at fs' l = (if \<exists>p. prefix p (s # ns) \<and> p \<noteq> [] \<and> l = cur @ p then Some Dir
                         else node_at fs l)" for l
    unfolding l [of l] split at by auto
  moreover have "cwd fs' = cwd fs" using c by (simp split: if_splits)
  ultimately show ?case
    unfolding step using fs' by blast
qed

subsection \<open>Restoring one file\<close>

text \<open>What the engine asks for when it restores: overwrite, create directories, set modes.\<close>

definition engine_restore_options :: restore_options where
  "engine_restore_options =
     default_restore_options\<lparr>ro_overwrite_existing := True, ro_create_directories := True,
       ro_restore_permissions := True\<rparr>"

text \<open>Contents that are in the snapshot itself.\<close>

definition holds :: "snapshot_env \<Rightarrow> snapshot_file \<Rightarrow> string \<Rightarrow> bool" where
  "holds env f c \<longleftrightarrow>
     sf_storage f = Inline c \<or> (\<exists>z. sf_storage f = Compressed z \<and> se_inflate env z = Some c)"

lemma holds_content: "holds env f c \<Longrightarrow> stored_content env s d t f = Inr c"
  by (auto simp: holds_def stored_content_def)

definition absolute_dir :: "string \<Rightarrow> string list \<Rightarrow> bool" where
  "absolute_dir rt root \<longleftrightarrow> components rt = RootDir # map Normal root"

lemma absolute_dir_nonempty: "absolute_dir rt root \<Longrightarrow> rt \<noteq> []"
  by (auto simp: absolute_dir_def components_def is_absolute_def seg_component_def Let_def)

text \<open>The place of a file: free or a file that can be written, below directories or free places.\<close>

definition place_free :: "disk \<Rightarrow> string list \<Rightarrow> string list \<Rightarrow> bool" where
  "place_free d root ns \<longleftrightarrow>
     way_free (d_fs d) root ns
     \<and> (\<forall>n. node_at (d_fs d) (root @ ns) = Some n \<longrightarrow> (\<exists>t. n = File t) \<and> owner_writes (mode_at d (root @ ns)))"

lemma butlast_prefix: "strict_prefix p ns \<longleftrightarrow> ns \<noteq> [] \<and> prefix p (butlast ns)"
  by (cases ns rule: rev_cases) (auto simp: strict_prefix_def)

lemma make_dirs_free:
  assumes wt: "work_tree (d_fs d) root" and free: "place_free d root ns" and "ns \<noteq> []"
  obtains d' where "make_dirs (RootDir # map Normal (root @ butlast ns)) d = Some d'"
    and "d_modes d' = d_modes d" and "work_tree (d_fs d') root" and "dirs_to (d_fs d') root ns"
    and "\<And>l. \<not> strict_prefix l (root @ ns) \<Longrightarrow> node_at (d_fs d') l = node_at (d_fs d) l"
proof -
  let ?ms = "root @ butlast ns" and ?fs = "d_fs d"
  have "node_at ?fs ([] @ p) \<in> {None, Some Dir}" if "prefix p ?ms" for p
  proof (cases "prefix p root")
    case True
    then show ?thesis using wt by (simp add: work_tree_def)
  next
    case False
    with that obtain q where "p = root @ q" "prefix q (butlast ns)" by (auto simp: prefix_append)
    then show ?thesis using free assms(3) by (simp add: place_free_def way_free_def butlast_prefix)
  qed
  then obtain fs' where fs': "create_dirs max_links [] (map Normal ?ms) ?fs = Some fs'"
      and cwd: "cwd fs' = cwd ?fs"
      and at: "\<And>l. node_at fs' l = (if \<exists>p. prefix p ?ms \<and> p \<noteq> [] \<and> l = [] @ p then Some Dir
                                     else node_at ?fs l)"
    using create_dirs_free [of ?ms ?fs "[]" max_links] by blast
  let ?d = "d\<lparr>d_fs := fs'\<rparr>"
  have sp: "prefix p ?ms \<longleftrightarrow> strict_prefix p (root @ ns)" for p
    using assms(3) by (simp add: butlast_prefix butlast_append)
  have dir: "node_at fs' p = Some Dir" if "prefix p ?ms" for p
    using that at [of p] by (cases "p = []") (auto simp: node_at_def)
  have "link_free fs' root"
    using wt at by (auto simp: work_tree_def link_free_def split: if_splits)
  moreover have "node_at fs' p = Some Dir" if "prefix p root" for p
    using dir that by (simp add: prefix_prefix)
  ultimately have "work_tree fs' root" by (simp add: work_tree_def)
  moreover have "dirs_to fs' root ns"
    using dir assms(3) by (simp add: dirs_to_def butlast_prefix)
  moreover have "make_dirs (RootDir # map Normal ?ms) d = Some ?d"
    using fs' by (simp add: make_dirs_def create_dir_all_def)
  moreover have "node_at fs' l = node_at ?fs l" if "\<not> strict_prefix l (root @ ns)" for l
    using at [of l] that sp by auto
  ultimately show thesis using that [of ?d] by simp
qed

lemma write_restored:
  assumes wt: "work_tree (d_fs d) root" and dirs: "dirs_to (d_fs d) root ns" and "ns \<noteq> []"
    and isf: "\<And>n. node_at (d_fs d) (root @ ns) = Some n \<Longrightarrow> (\<exists>t. n = File t) \<and> owner_writes (mode_at d (root @ ns))"
  defines "target \<equiv> RootDir # map Normal (root @ ns)"
  obtains d1 d2 where "write_file target c d = Some d1" and "set_mode target m d1 = Some d2"
    and "d_fs d2 = put_node (root @ ns) (File c) (d_fs d)"
    and "d_modes d2 = hm_insert (root @ ns) m (d_modes d)"
    and "work_tree (d_fs d2) root"
proof -
  let ?loc = "root @ ns" and ?fs = "d_fs d"
  let ?fs' = "put_node ?loc (File c) ?fs"
  let ?d1 = "d\<lparr>d_fs := ?fs'\<rparr>"
  have nl: "\<And>t. node_at ?fs ?loc \<noteq> Some (Link t)" using isf by blast
  have "write_file target c d = Some ?d1"
    using locate_dirs [OF wt dirs nl, of True] isf
    by (auto simp: write_file_def file_mode_def write_text_def target_def split: option.splits node.splits)
  moreover have wt': "work_tree ?fs' root"
  proof -
    have "link_free ?fs' root"
      using wt assms(3) by (simp add: work_tree_def link_free_put)
    moreover have "only_below root ?fs ?fs'"
      using assms(3) by (simp add: only_below_put strict_prefix_def)
    ultimately show ?thesis using work_tree_below [OF wt] by blast
  qed
  moreover have "dirs_to ?fs' root ns"
    using dirs assms(3) by (auto simp: dirs_to_def node_at_put)
  then have "locate ?fs' True target = Some ?loc"
    unfolding target_def using assms(3) by (intro locate_dirs [OF wt']) (simp_all add: node_at_put)
  then have "set_mode target m ?d1 = Some (?d1\<lparr>d_modes := hm_insert ?loc m (d_modes d)\<rparr>)"
    using assms(3) by (simp add: set_mode_def node_at_put)
  ultimately show thesis using that by simp
qed

text \<open>The effect of one file on the disk.\<close>

definition restored_at :: "string list \<Rightarrow> string list \<Rightarrow> string \<Rightarrow> nat \<Rightarrow> disk \<Rightarrow> disk \<Rightarrow> bool" where
  "restored_at root ns c m d d' \<longleftrightarrow>
     work_tree (d_fs d') root \<and> dirs_to (d_fs d') root ns
     \<and> node_at (d_fs d') (root @ ns) = Some (File c) \<and> mode_at d' (root @ ns) = m
     \<and> (\<forall>l. \<not> prefix l (root @ ns) \<longrightarrow> node_at (d_fs d') l = node_at (d_fs d) l)
     \<and> (\<forall>l. l \<noteq> root @ ns \<longrightarrow> mode_at d' l = mode_at d l)"

lemma restore_one_file:
  assumes wt: "work_tree (d_fs d) root" and rt: "absolute_dir (sn_root_path s) root"
    and ns: "list_all good_name ns" "ns \<noteq> []"
    and f: "hm_get (sn_files s) (join_slash ns) = Some f" and c: "holds env f c"
    and free: "place_free d root ns"
  shows "\<exists>d'. restore_one env engine_restore_options s d (join_slash ns) = (Inr True, d')
    \<and> restored_at root ns c (sf_permissions f) d d'"
proof -
  let ?target = "RootDir # map Normal (root @ ns)"
  have target: "target_of s (join_slash ns) = ?target"
    using components_of_join [OF ns absolute_dir_nonempty [OF rt]] rt
    by (simp add: target_of_def absolute_dir_def)
  have parent: "path_parent ?target = Some (RootDir # map Normal (root @ butlast ns))"
    using ns(2) by (cases ns rule: rev_cases) (auto simp: path_parent_def butlast_append)
  obtain d1 where d1: "make_dirs (RootDir # map Normal (root @ butlast ns)) d = Some d1"
      "d_modes d1 = d_modes d" "work_tree (d_fs d1) root" "dirs_to (d_fs d1) root ns"
      and frame: "\<And>l. \<not> strict_prefix l (root @ ns) \<Longrightarrow> node_at (d_fs d1) l = node_at (d_fs d) l"
    using make_dirs_free [OF wt free ns(2)] by blast
  have isf: "\<And>n. node_at (d_fs d1) (root @ ns) = Some n
      \<Longrightarrow> (\<exists>t. n = File t) \<and> owner_writes (mode_at d1 (root @ ns))"
    using free frame [of "root @ ns"] d1(2) by (simp add: place_free_def mode_at_def)
  obtain d2 d3 where d3: "write_file ?target c d1 = Some d2" "set_mode ?target (sf_permissions f) d2 = Some d3"
      "d_fs d3 = put_node (root @ ns) (File c) (d_fs d1)"
      "d_modes d3 = hm_insert (root @ ns) (sf_permissions f) (d_modes d1)" "work_tree (d_fs d3) root"
    using write_restored [OF d1(3,4) ns(2) isf] by metis
  have "restore_one env engine_restore_options s d (join_slash ns) = (Inr True, d3)"
    unfolding restore_one_def restore_content_def Let_def target
    using d1(1) d3(1,2) holds_content [OF c]
    by (simp add: f parent engine_restore_options_def default_restore_options_def del: map_append)
  moreover have "restored_at root ns c (sf_permissions f) d d3"
    unfolding restored_at_def
  proof (intro conjI allI impI)
    show "dirs_to (d_fs d3) root ns"
      using d1(4) ns(2) by (auto simp: dirs_to_def d3(3) node_at_put)
    fix l
    show "node_at (d_fs d3) l = node_at (d_fs d) l" if "\<not> prefix l (root @ ns)"
      using that frame [of l] ns(2) by (auto simp: d3(3) node_at_put)
    show "mode_at d3 l = mode_at d l" if "l \<noteq> root @ ns"
      using that by (simp add: mode_at_def d3(4) d1(2) hm_get_update)
  qed (use ns(2) d3 in \<open>simp_all add: node_at_put mode_at_def hm_get_update\<close>)
  ultimately show ?thesis by blast
qed

subsection \<open>Restoring all files\<close>

definition in_place :: "string list \<Rightarrow> disk \<Rightarrow> string list \<Rightarrow> string \<Rightarrow> nat \<Rightarrow> bool" where
  "in_place root d ns c m \<longleftrightarrow>
     dirs_to (d_fs d) root ns \<and> node_at (d_fs d) (root @ ns) = Some (File c)
     \<and> mode_at d (root @ ns) = m"

lemma restored_in_place: "restored_at root ns c m d d' \<Longrightarrow> in_place root d' ns c m"
  by (simp add: restored_at_def in_place_def)

text \<open>Neither place lies on the way to the other.\<close>

definition apart :: "string list \<Rightarrow> string list \<Rightarrow> bool" where
  "apart ns ms \<longleftrightarrow> \<not> prefix ns ms \<and> \<not> prefix ms ns"

lemma restored_way:
  assumes "restored_at root ns c m d d'" and "apart ns ms" and "strict_prefix p ms"
  shows "node_at (d_fs d') (root @ p) = Some Dir \<or> node_at (d_fs d') (root @ p) = node_at (d_fs d) (root @ p)"
proof (cases "prefix p ns")
  case True
  with assms(2,3) have "strict_prefix p ns"
    by (auto simp: apart_def strict_prefix_def)
  then show ?thesis using assms(1) by (simp add: restored_at_def dirs_to_def)
next
  case False
  then show ?thesis using assms(1) by (simp add: restored_at_def)
qed

lemma restored_place_free:
  assumes "restored_at root ns c m d d'" and "apart ns ms" and "place_free d root ms"
  shows "place_free d' root ms"
proof -
  have "node_at (d_fs d') (root @ ms) = node_at (d_fs d) (root @ ms)
      \<and> mode_at d' (root @ ms) = mode_at d (root @ ms)"
    using assms(1,2) by (auto simp: restored_at_def apart_def)
  moreover have "way_free (d_fs d') root ms"
    using restored_way [OF assms(1,2)] assms(3) by (fastforce simp: place_free_def way_free_def)
  ultimately show ?thesis using assms(3) by (simp add: place_free_def)
qed

lemma restored_keeps:
  assumes "restored_at root ns c m d d'" and "apart ns ms" and "in_place root d ms c' m'"
  shows "in_place root d' ms c' m'"
proof -
  have "dirs_to (d_fs d') root ms"
    using restored_way [OF assms(1,2)] assms(3) by (fastforce simp: in_place_def dirs_to_def)
  then show ?thesis
    using assms by (auto simp: in_place_def restored_at_def apart_def)
qed

text \<open>A file of the snapshot with its names and contents.\<close>

definition holds_at :: "snapshot_env \<Rightarrow> snapshot \<Rightarrow> string list \<Rightarrow> string \<Rightarrow> nat \<Rightarrow> bool" where
  "holds_at env s ns c m \<longleftrightarrow>
     list_all good_name ns \<and> ns \<noteq> []
     \<and> (\<exists>f. hm_get (sn_files s) (join_slash ns) = Some f \<and> holds env f c \<and> sf_permissions f = m
         \<and> sf_content_hash f = se_blake3 env c) \<and> owner_reads m"

text \<open>Nothing changed but the places and what is on the way to them.\<close>

definition unchanged_off :: "string list \<Rightarrow> string list list \<Rightarrow> disk \<Rightarrow> disk \<Rightarrow> bool" where
  "unchanged_off root nss d d' \<longleftrightarrow>
     (\<forall>l. (\<forall>ns \<in> set nss. \<not> prefix l (root @ ns)) \<longrightarrow>
        node_at (d_fs d') l = node_at (d_fs d) l \<and> mode_at d' l = mode_at d l)"

lemma restore_files_spec:
  assumes "work_tree (d_fs d) root" and "absolute_dir (sn_root_path s) root"
    and "\<forall>ns \<in> set nss. holds_at env s ns (co ns) (mo ns) \<and> place_free d root ns"
    and "\<forall>ns \<in> set nss. \<forall>ms \<in> set nss. ns \<noteq> ms \<longrightarrow> apart ns ms" and "distinct nss"
  shows "\<exists>d'. restore_files env engine_restore_options s d (map join_slash nss) = (Inr (map join_slash nss), d')
    \<and> work_tree (d_fs d') root \<and> (\<forall>ns \<in> set nss. in_place root d' ns (co ns) (mo ns))
    \<and> unchanged_off root nss d d'
    \<and> (\<forall>ms c m. (\<forall>ns \<in> set nss. apart ns ms) \<longrightarrow> in_place root d ms c m \<longrightarrow> in_place root d' ms c m)"
  using assms
proof (induction nss arbitrary: d)
  case Nil
  then show ?case by (simp add: unchanged_off_def)
next
  case (Cons ns nss)
  obtain f where f: "hm_get (sn_files s) (join_slash ns) = Some f" "holds env f (co ns)"
      "sf_permissions f = mo ns" and ns: "list_all good_name ns" "ns \<noteq> []"
    using Cons.prems(3) by (auto simp: holds_at_def)
  have "place_free d root ns" using Cons.prems(3) by simp
  from restore_one_file [OF Cons.prems(1,2) ns f(1,2) this] obtain d1
    where one: "restore_one env engine_restore_options s d (join_slash ns) = (Inr True, d1)"
      and r0: "restored_at root ns (co ns) (sf_permissions f) d d1" by blast
  note r = r0 [unfolded f(3)]
  have wt: "work_tree (d_fs d1) root" using r by (simp add: restored_at_def)
  have ap: "apart ns ms" if "ms \<in> set nss" for ms
    using Cons.prems(4,5) that by auto
  have items: "\<forall>ms \<in> set nss. holds_at env s ms (co ms) (mo ms) \<and> place_free d1 root ms"
    using Cons.prems(3) restored_place_free [OF r ap] by auto
  have aparts: "\<forall>ns \<in> set nss. \<forall>ms \<in> set nss. ns \<noteq> ms \<longrightarrow> apart ns ms" and "distinct nss"
    using Cons.prems(4,5) by auto
  from Cons.IH [OF wt Cons.prems(2) items this] obtain d2
    where files: "restore_files env engine_restore_options s d1 (map join_slash nss)
        = (Inr (map join_slash nss), d2)"
      and "work_tree (d_fs d2) root" "\<forall>ms \<in> set nss. in_place root d2 ms (co ms) (mo ms)"
      and un: "unchanged_off root nss d1 d2"
      and keep: "\<forall>ms c m. (\<forall>ns \<in> set nss. apart ns ms) \<longrightarrow> in_place root d1 ms c m \<longrightarrow> in_place root d2 ms c m"
    by blast
  moreover have "in_place root d2 ns (co ns) (mo ns)"
    using keep restored_in_place [OF r] ap by (auto simp: apart_def)
  moreover have "unchanged_off root (ns # nss) d d2"
    using un r by (auto simp: unchanged_off_def restored_at_def)
  moreover have "in_place root d2 ms c m"
    if "\<forall>ns \<in> set (ns # nss). apart ns ms" "in_place root d ms c m" for ms c m
    using keep restored_keeps [OF r] that by auto
  ultimately show ?case using one by auto
qed

subsection \<open>Comparing what is in place\<close>

lemma in_place_read:
  assumes "work_tree (d_fs d) root" and "in_place root d ns c m"
  shows "path_exists (d_fs d) (RootDir # map Normal (root @ ns))"
    and "read_to_string (d_fs d) (RootDir # map Normal (root @ ns)) = Some c"
    and "file_mode d (RootDir # map Normal (root @ ns)) = Some m"
proof -
  have "locate (d_fs d) True (RootDir # map Normal (root @ ns)) = Some (root @ ns)"
    using assms by (intro locate_dirs) (auto simp: in_place_def)
  then show "path_exists (d_fs d) (RootDir # map Normal (root @ ns))"
    "read_to_string (d_fs d) (RootDir # map Normal (root @ ns)) = Some c"
    "file_mode d (RootDir # map Normal (root @ ns)) = Some m"
    using assms(2)
    by (simp_all add: path_exists_def read_to_string_def file_mode_def stat_def in_place_def
        del: map_append)
qed

lemma target_of_names:
  assumes "absolute_dir (sn_root_path s) root" and "list_all good_name ns" and "ns \<noteq> []"
  shows "target_of s (join_slash ns) = RootDir # map Normal (root @ ns)"
  using components_of_join [OF assms(2,3) absolute_dir_nonempty [OF assms(1)]] assms(1)
  by (simp add: target_of_def absolute_dir_def)

lemma compare_in_place:
  assumes "work_tree (d_fs d) root" and "absolute_dir (sn_root_path s) root"
    and "holds_at env s ns c m" and "in_place root d ns c m"
  shows "compare_path env s d (join_slash ns) = Inr []"
proof -
  have "target_of s (join_slash ns) = RootDir # map Normal (root @ ns)"
    using assms(3) by (intro target_of_names [OF assms(2)]) (auto simp: holds_at_def)
  then show ?thesis
    using assms(3) in_place_read [OF assms(1,4)]
    by (auto simp: compare_path_def read_content_def holds_at_def Let_def simp del: map_append)
qed

lemma compare_paths_clean: "\<forall>p \<in> set ps. compare_path env s d p = Inr [] \<Longrightarrow> compare_paths env s d ps = Inr []"
  by (induction ps) auto

subsection \<open>What a snapshot captured\<close>

text \<open>The directory walker yields what is below the root and passes the filter.\<close>

definition walks_below :: "snapshot_env \<Rightarrow> string \<Rightarrow> string list \<Rightarrow> bool" where
  "walks_below env rt root \<longleftrightarrow>
     (\<forall>fs follow keep path k. WalkEntry path k \<in> set (se_walk env fs follow keep rt) \<and> k \<noteq> WalkDirectory
        \<longrightarrow> keep path \<and> (\<exists>ns. ns \<noteq> [] \<and> components path = RootDir # map Normal (root @ ns)))"

definition captured ::
  "snapshot_env \<Rightarrow> snapshot_options \<Rightarrow> disk \<Rightarrow> string list \<Rightarrow> string \<Rightarrow> snapshot_file \<Rightarrow> bool"
where
  "captured env opts d root rel f \<longleftrightarrow>
     (\<exists>ns c path. rel = join_slash ns \<and> list_all good_name ns \<and> ns \<noteq> []
        \<and> dirs_to (d_fs d) root ns \<and> node_at (d_fs d) (root @ ns) = Some (File c)
        \<and> holds env f c \<and> sf_content_hash f = se_blake3 env c
        \<and> sf_permissions f = mode_at d (root @ ns) \<and> owner_reads (mode_at d (root @ ns))
        \<and> kept_entry opts path \<and> components path = RootDir # map Normal (root @ ns))"

lemma capture_file_captured:
  assumes wt: "work_tree (d_fs d) root" and rt: "absolute_dir rt root"
    and z: "\<forall>c. se_inflate env (se_deflate env c) = Some c"
    and path: "components path = RootDir # map Normal (root @ ns)" "ns \<noteq> []" "kept_entry opts path"
    and f: "capture_file env opts rt d path = Inr (Some f)"
  shows "captured env opts d root (sf_path f) f"
proof -
  have good: "list_all good_name ns"
    using component_good [of _ path] path(1) by (auto simp: list_all_iff)
  have rel: "relative_name rt path = join_slash ns"
    using path(1) rt by (intro relative_of) (simp add: absolute_dir_def)
  obtain c m where c: "read_to_string (d_fs d) (components path) = Some c"
    and m: "file_mode d (components path) = Some m" "owner_reads m"
    and fields: "sf_path f = relative_name rt path" "sf_content_hash f = se_blake3 env c"
      "sf_permissions f = m"
      "sf_storage f = (if so_compress_contents opts \<and> \<not> looks_binary c
         then Compressed (se_deflate env c) else Inline c)"
    using f by (auto simp: capture_file_def read_content_def split: option.splits if_splits)
  have "stat (d_fs d) True (RootDir # map Normal (root @ ns)) = Some (File c)"
    using c path(1) by (simp add: read_to_string_def split: option.splits node.splits)
  note isf = stat_file_dirs [OF wt this]
  have "locate (d_fs d) True (RootDir # map Normal (root @ ns)) = Some (root @ ns)"
    using isf by (intro locate_dirs [OF wt]) auto
  then have "m = mode_at d (root @ ns)"
    using m(1) isf path(1) by (simp add: file_mode_def)
  moreover have "holds env f c"
    using fields(4) z by (auto simp: holds_def)
  ultimately show ?thesis
    unfolding captured_def using good isf path fields(1-3) rel m(2) by metis
qed

lemma snapshot_create_captured:
  assumes "work_tree (d_fs d) root" and "absolute_dir rt root"
    and "\<forall>c. se_inflate env (se_deflate env c) = Some c" and walk: "walks_below env rt root"
    and s: "snapshot_create env opts rt description d = Inr s"
  shows "sn_root_path s = rt \<and> hm_wf (sn_files s)
    \<and> (\<forall>rel f. hm_get (sn_files s) rel = Some f \<longrightarrow> captured env opts d root rel f)"
proof -
  let ?walk = "se_walk env (d_fs d) (so_follow_symlinks opts) (kept_entry opts) rt"
  obtain files bytes where fold: "try_fold (capture_entry env opts rt d) ([], 0) ?walk = Inr (files, bytes)"
    and fields: "sn_root_path s = rt" "sn_files s = files"
    using s by (auto simp: snapshot_create_def split: sum.splits option.splits)
  let ?P = "\<lambda>acc. hm_wf (fst acc) \<and>
      (\<forall>rel f. hm_get (fst acc) rel = Some f \<longrightarrow> captured env opts d root rel f)"
  have "?P (files, bytes)"
  proof (rule try_fold_invariant [where P = ?P, OF fold])
    fix acc entry acc'
    assume entry: "entry \<in> set ?walk" and acc: "?P acc"
      and step: "capture_entry env opts rt d acc entry = Inr acc'"
    show "?P acc'"
    proof (cases entry)
      case (WalkEntry path k)
      show ?thesis
      proof (cases "k = WalkDirectory")
        case True
        with step acc WalkEntry show ?thesis by (simp add: capture_entry_def)
      next
        case False
        then obtain ns where "kept_entry opts path" "ns \<noteq> []"
            "components path = RootDir # map Normal (root @ ns)"
          using walk entry WalkEntry unfolding walks_below_def by blast
        then have cap: "capture_file env opts rt d path = Inr (Some f)
            \<Longrightarrow> captured env opts d root (sf_path f) f" for f
          using capture_file_captured [OF assms(1-3)] by blast
        show ?thesis
          using step acc WalkEntry False
          by (auto simp: capture_entry_def hm_get_update hm.wf_ins cap
              split: sum.splits option.splits if_splits)
      qed
    next
      case WalkError
      with step show ?thesis by (simp add: capture_entry_def)
    qed
  qed simp
  then show ?thesis using fields by simp
qed

lemma captured_names:
  assumes "captured env opts d root rel f"
  shows "list_all good_name (path_names rel)" "path_names rel \<noteq> []" "join_slash (path_names rel) = rel"
    "dirs_to (d_fs d) root (path_names rel)"
    "\<exists>c. node_at (d_fs d) (root @ path_names rel) = Some (File c) \<and> holds env f c
       \<and> sf_content_hash f = se_blake3 env c"
    "sf_permissions f = mode_at d (root @ path_names rel)" "owner_reads (mode_at d (root @ path_names rel))"
  using assms by (auto simp: captured_def path_names_join)

lemma captured_apart:
  assumes "captured env opts d root rel f" and "captured env opts d root rel' f'"
    and "path_names rel \<noteq> path_names rel'"
  shows "apart (path_names rel) (path_names rel')"
proof -
  have "\<not> prefix (path_names q) (path_names r)"
    if "captured env opts d root q g" "captured env opts d root r h" "path_names q \<noteq> path_names r" for q r g h
  proof
    assume "prefix (path_names q) (path_names r)"
    with that(3) have "node_at (d_fs d) (root @ path_names q) = Some Dir"
      using captured_names(4) [OF that(2)] by (simp add: dirs_to_def strict_prefix_def)
    then show False using captured_names(5) [OF that(1)] by auto
  qed
  then show ?thesis using assms unfolding apart_def by metis
qed

subsection \<open>The promise\<close>

text \<open>Every place of a captured file is free or a file that can be written.\<close>

definition room_for :: "snapshot \<Rightarrow> string list \<Rightarrow> disk \<Rightarrow> bool" where
  "room_for s root d \<longleftrightarrow> (\<forall>rel \<in> set (hm_keys (sn_files s)). place_free d root (path_names rel))"

text \<open>
  C19: A snapshot undoes edits. After changes to a directory that leave room for it (the place of
  every captured file is free or a file its owner may write, and the places on the way are free or
  directories) writing the snapshot back succeeds, gives every captured file the contents and the
  mode it had, changes nothing but those files and the missing directories on the way to them, which
  it makes, and a comparison of the captured files then finds no difference. (Without that room it
  fails half-way and keeps what it has written.)
\<close>

theorem snapshot_undoes_edits:
  assumes "work_tree (d_fs d) root" and "absolute_dir rt root"
    and "\<forall>c. se_inflate env (se_deflate env c) = Some c" and "walks_below env rt root"
    and "snapshot_create env opts rt description d = Inr s"
    and "work_tree (d_fs d1) root" and "room_for s root d1"
  shows "\<exists>d2. snapshot_write_back env engine_restore_options s None d1 = (Inr (file_list s), d2)
    \<and> (\<forall>rel \<in> set (file_list s).
         read_to_string (d_fs d2) (target_of s rel) = read_to_string (d_fs d) (target_of s rel)
         \<and> file_mode d2 (target_of s rel) = file_mode d (target_of s rel))
    \<and> unchanged_off root (map path_names (file_list s)) d1 d2
    \<and> compare_with_current env s (Some (file_list s)) d2 = Inr []"
proof -
  let ?keys = "file_list s" and ?nss = "map path_names (file_list s)"
  define co where "co ns = (case node_at (d_fs d) (root @ ns) of Some (File c) \<Rightarrow> c | _ \<Rightarrow> [])" for ns
  define mo where "mo ns = mode_at d (root @ ns)" for ns
  have created: "sn_root_path s = rt" "hm_wf (sn_files s)"
    and cap: "\<And>rel f. hm_get (sn_files s) rel = Some f \<Longrightarrow> captured env opts d root rel f"
    using snapshot_create_captured [OF assms(1-5)] by auto
  have key: "\<exists>f. hm_get (sn_files s) rel = Some f" if "rel \<in> set ?keys" for rel
    using that hm.set_keys [of "sn_files s"] by (auto simp: file_list_def)
  have join: "map join_slash ?nss = ?keys"
  proof -
    have "join_slash (path_names rel) = rel" if "rel \<in> set ?keys" for rel
      using key [OF that] cap captured_names(3) by blast
    then show ?thesis by (simp add: map_idI)
  qed
  have item: "holds_at env s (path_names rel) (co (path_names rel)) (mo (path_names rel))
      \<and> in_place root d (path_names rel) (co (path_names rel)) (mo (path_names rel))"
    if rel: "rel \<in> set ?keys" for rel
  proof -
    obtain f where f: "hm_get (sn_files s) rel = Some f" using key rel by blast
    note n = captured_names [OF cap [OF f]]
    from n(5) obtain c where "node_at (d_fs d) (root @ path_names rel) = Some (File c)"
      "holds env f c" "sf_content_hash f = se_blake3 env c" by blast
    then show ?thesis
      using n f by (auto simp: holds_at_def in_place_def co_def mo_def)
  qed
  have ap: "\<forall>ns \<in> set ?nss. \<forall>ms \<in> set ?nss. ns \<noteq> ms \<longrightarrow> apart ns ms"
  proof (intro ballI impI)
    fix ns ms
    assume "ns \<in> set ?nss" "ms \<in> set ?nss" and ne: "ns \<noteq> ms"
    then obtain p q where "p \<in> set ?keys" "q \<in> set ?keys" and nm: "ns = path_names p" "ms = path_names q"
      by auto
    then obtain f g where "hm_get (sn_files s) p = Some f" "hm_get (sn_files s) q = Some g"
      using key by blast
    from captured_apart [OF cap [OF this(1)] cap [OF this(2)]] ne
    show "apart ns ms" by (simp add: nm)
  qed
  have dist: "distinct ?nss"
    using join created(2) by (metis distinct_map file_list_def hm_wf_def)
  have rt: "absolute_dir (sn_root_path s) root" using assms(2) created(1) by simp
  have "\<forall>ns \<in> set ?nss. holds_at env s ns (co ns) (mo ns) \<and> place_free d1 root ns"
    using item assms(7) by (auto simp: room_for_def file_list_def)
  from restore_files_spec [OF assms(6) rt this ap dist] obtain d2
    where files: "restore_files env engine_restore_options s d1 ?keys = (Inr ?keys, d2)"
      and wt2: "work_tree (d_fs d2) root" and un: "unchanged_off root ?nss d1 d2"
      and inp: "\<forall>ns \<in> set ?nss. in_place root d2 ns (co ns) (mo ns)"
    unfolding join by blast
  have same: "read_to_string (d_fs d2) (target_of s rel) = read_to_string (d_fs d) (target_of s rel)
      \<and> file_mode d2 (target_of s rel) = file_mode d (target_of s rel)
      \<and> compare_path env s d2 rel = Inr []" if rel: "rel \<in> set ?keys" for rel
  proof -
    obtain f where f: "hm_get (sn_files s) rel = Some f" using key rel by blast
    note n = captured_names [OF cap [OF f]]
    have t: "target_of s rel = RootDir # map Normal (root @ path_names rel)"
      using target_of_names [OF rt n(1,2)] n(3) by simp
    have i2: "in_place root d2 (path_names rel) (co (path_names rel)) (mo (path_names rel))"
      using inp rel by simp
    show ?thesis
      using in_place_read [OF wt2 i2] in_place_read [OF assms(1) conjunct2 [OF item [OF rel]]]
        compare_in_place [OF wt2 rt conjunct1 [OF item [OF rel]] i2] n(3)
      by (simp add: t del: map_append)
  qed
  have "compare_with_current env s (Some ?keys) d2 = Inr []"
    using compare_paths_clean [of ?keys env s d2] same by (simp add: compare_with_current_def)
  then show ?thesis
    using files same un by (auto simp: snapshot_write_back_def file_list_def)
qed

subsection \<open>A fresh snapshot is stale\<close>

lemma added_file_is_reported:
  assumes "WalkEntry path WalkFile \<in> set (se_walk env (d_fs d) False (\<lambda>_. True) (sn_root_path s))"
    and "hm_get (sn_files s) (relative_name (sn_root_path s) path) = None"
    and "compare_with_current env s None d = Inr ds"
  shows "Added (relative_name (sn_root_path s) path) \<in> set ds"
proof -
  have "Added (relative_name (sn_root_path s) path) \<in> set (added_files env s d)"
    unfolding added_files_def set_concat
    using assms(1,2) by (intro UN_I [of "[Added (relative_name (sn_root_path s) path)]"]) (force simp: Let_def)+
  then show ?thesis
    using assms(3) by (auto simp: compare_with_current_def split: sum.splits)
qed

lemma split_char_sublist: "p \<in> set (split_char c s) \<Longrightarrow> sublist p s"
proof (induction c s arbitrary: p rule: split_char.induct)
  case (1 c)
  then show ?case by simp
next
  case (2 c x xs)
  obtain q qs where q: "split_char c xs = q # qs" by (cases "split_char c xs") auto
  have pre: "prefix q xs"
    using q by (induction xs arbitrary: q qs) (auto split: if_splits list.splits)
  show ?case
    using 2 q pre by (auto simp: sublist_Cons_right Cons_prefix_Cons split: if_splits)
qed

lemma excluded_name:
  assumes "Normal name \<in> set (components path)" and "contains name pattern"
    and "pattern \<in> set (so_exclude_patterns opts)"
  shows "\<not> kept_entry opts path"
proof -
  have "sublist name path"
    using assms(1) split_char_sublist [of name "CHR ''/''" path]
    by (auto simp: components_def Let_def seg_component_def split: if_splits)
  then show ?thesis
    using assms(2,3) by (auto simp: kept_entry_def list_ex_iff contains_def intro: sublist_order.order_trans)
qed

text \<open>
  The check of a snapshot against the whole directory answers false, at once and for ever,
  as soon as the directory holds a regular file that snapshots leave out, as every file under
  \<^verbatim>\<open>.git\<close> is: the walk of the comparison does not apply the filter of the capture. (The check
  fails or answers false; it never answers true.)
\<close>

theorem excluded_file_makes_stale:
  assumes "work_tree (d_fs d) root" and "absolute_dir rt root"
    and "\<forall>c. se_inflate env (se_deflate env c) = Some c" and "walks_below env rt root"
    and "snapshot_create env opts rt description d = Inr s"
    and "get_snapshot dec mg sid d1 = Inr s"
    and "WalkEntry path WalkFile \<in> set (se_walk env (d_fs d1) False (\<lambda>_. True) rt)"
    and "Normal name \<in> set (components path)" and "pattern \<in> set (so_exclude_patterns opts)"
    and "contains name pattern"
  shows "engine_snapshot_validate dec env journal mg sid [] d1 \<noteq> Inr True"
proof
  assume v: "engine_snapshot_validate dec env journal mg sid [] d1 = Inr True"
  note created = snapshot_create_captured [OF assms(1-5)]
  obtain ns where ns: "ns \<noteq> []" "components path = RootDir # map Normal (root @ ns)"
    using assms(4,7) unfolding walks_below_def by blast
  have good: "list_all good_name ns"
    using component_good [of _ path] ns(2) by (auto simp: list_all_iff)
  have rel: "relative_name rt path = join_slash ns"
    using ns(2) assms(2) by (intro relative_of) (simp add: absolute_dir_def)
  have "hm_get (sn_files s) (join_slash ns) = None"
  proof (rule ccontr)
    assume "hm_get (sn_files s) (join_slash ns) \<noteq> None"
    then obtain f where "captured env opts d root (join_slash ns) f"
      using created by blast
    then obtain ms path' where "join_slash ns = join_slash ms" "list_all good_name ms" "ms \<noteq> []"
      "kept_entry opts path'" "components path' = RootDir # map Normal (root @ ms)"
      unfolding captured_def by blast
    then show False
      using join_slash_inject [OF good _ ns(1)] ns(2) excluded_name [of _ _ pattern opts] assms(8-10) by metis
  qed
  moreover have "compare_with_current env s None d1 = Inr []"
    using v assms(6) by (auto simp: engine_snapshot_validate_def split: sum.splits)
  ultimately show False
    using added_file_is_reported [of path env d1 s "[]"] assms(7) created rel by simp
qed

subsection \<open>Instances\<close>

text \<open>A walker that lists the nodes of the file system below the root.\<close>

definition tree_walk :: "file_system \<Rightarrow> bool \<Rightarrow> (string \<Rightarrow> bool) \<Rightarrow> string \<Rightarrow> walk_entry list" where
  "tree_walk fs follow keep rt =
     (let root = names (components rt)
      in concat (map (\<lambda>(loc, n).
           let ns = drop (length root) loc; path = path_join rt (join_slash ns)
           in if strict_prefix root loc \<and> list_all good_name ns \<and> keep path
              then [WalkEntry path
                      (case n of File _ \<Rightarrow> WalkFile | Dir \<Rightarrow> WalkDirectory | Link _ \<Rightarrow> WalkLink)]
              else []) (nodes fs)))"

definition plain_env :: snapshot_env where
  "plain_env =
     \<lparr>se_blake3 = id, se_deflate = id, se_inflate = Some, se_walk = tree_walk,
      se_mtime = (\<lambda>_. 0), se_git = (\<lambda>_ _. None), se_now = 7, se_hostname = None,
      se_user = None, se_version = ''1''\<rparr>"

lemma tree_walk_below:
  assumes "absolute_dir rt root"
  shows "walks_below plain_env rt root"
proof -
  have root: "names (components rt) = root"
    using assms by (simp add: absolute_dir_def)
  have "keep path \<and> (\<exists>ns. ns \<noteq> [] \<and> components path = RootDir # map Normal (root @ ns))"
    if "WalkEntry path k \<in> set (tree_walk fs follow keep rt)" for fs follow keep path k
  proof -
    from that obtain ns where "path = path_join rt (join_slash ns)" "list_all good_name ns" "ns \<noteq> []"
      "keep path"
      by (auto simp: tree_walk_def Let_def root strict_prefix_def prefix_def split: if_splits) blast
    then show ?thesis
      using components_of_join [OF _ _ absolute_dir_nonempty [OF assms]] assms
      by (auto simp: absolute_dir_def)
  qed
  moreover have "se_walk plain_env = tree_walk" by (simp add: plain_env_def)
  ultimately show ?thesis unfolding walks_below_def by metis
qed

definition small_disk :: "string \<Rightarrow> disk" where
  "small_disk text =
     \<lparr>d_fs = \<lparr>nodes = [([''w''], Dir), ([''w'', ''a''], File text), ([''w'', ''.git''], Dir),
         ([''w'', ''.git'', ''HEAD''], File ''r''), ([''w'', ''.devit''], Dir),
         ([''w'', ''.devit'', ''snapshots''], Dir),
         ([''w'', ''.devit'', ''snapshots'', ''x.json''], File ''S'')], cwd = []\<rparr>,
      d_modes = []\<rparr>"

definition small_opts :: snapshot_options where
  "small_opts = default_snapshot_options\<lparr>so_exclude_patterns := [''.git'', ''.devit'']\<rparr>"

lemma small_dir: "absolute_dir ''/w'' [''w'']"
  unfolding absolute_dir_def by code_simp

lemma small_tree: "work_tree (d_fs (small_disk t)) [''w'']"
  by (auto simp: work_tree_def link_free_def small_disk_def node_at_def prefix_Cons split: if_splits)

lemma plain_env_zip: "\<forall>c. se_inflate plain_env (se_deflate plain_env c) = Some c"
  by (simp add: plain_env_def)

lemma small_created:
  obtains s where "snapshot_create plain_env small_opts ''/w'' ''t'' (small_disk ''x'') = Inr s"
    and "file_list s = [''a'']" and "sn_root_path s = ''/w''"
proof -
  have "(case snapshot_create plain_env small_opts ''/w'' ''t'' (small_disk ''x'') of
      Inl _ \<Rightarrow> False | Inr s \<Rightarrow> file_list s = [''a''] \<and> sn_root_path s = ''/w'')"
    by code_simp
  then show thesis using that by (auto split: sum.splits)
qed

lemma snapshot_undoes_edits_witness:
  "\<exists>s d2. snapshot_create plain_env small_opts ''/w'' ''t'' (small_disk ''x'') = Inr s
    \<and> snapshot_write_back plain_env engine_restore_options s None (small_disk ''edited'') = (Inr [''a''], d2)
    \<and> read_to_string (d_fs d2) (target_of s ''a'') = Some ''x''"
proof -
  obtain s where s: "snapshot_create plain_env small_opts ''/w'' ''t'' (small_disk ''x'') = Inr s"
    and files: "file_list s = [''a'']" and root: "sn_root_path s = ''/w''"
    by (rule small_created)
  have names: "path_names ''a'' = [''a'']" by code_simp
  have "room_for s [''w''] (small_disk ''edited'')"
    using files
    by (auto simp: room_for_def file_list_def names place_free_def way_free_def small_disk_def node_at_def
        mode_at_def owner_writes_def
        strict_prefix_def prefix_Cons)
  from snapshot_undoes_edits [OF small_tree small_dir plain_env_zip tree_walk_below [OF small_dir] s
      small_tree this]
  obtain d2 where "snapshot_write_back plain_env engine_restore_options s None (small_disk ''edited'')
        = (Inr [''a''], d2)"
    and "read_to_string (d_fs d2) (target_of s ''a'')
        = read_to_string (d_fs (small_disk ''x'')) (target_of s ''a'')"
    unfolding files by auto
  moreover have "read_to_string (d_fs (small_disk ''x'')) (components (path_join ''/w'' ''a'')) = Some ''x''"
    by code_simp
  ultimately show ?thesis
    using s by (auto simp: target_of_def root)
qed

lemma excluded_file_makes_stale_witness:
  "\<exists>s. snapshot_create plain_env small_opts ''/w'' ''t'' (small_disk ''x'') = Inr s
    \<and> engine_snapshot_validate (\<lambda>_. Some s) plain_env (\<lambda>_. Inr ()) (new_manager ''/w'' 10) ''x'' []
        (small_disk ''x'') \<noteq> Inr True"
proof -
  obtain s where s: "snapshot_create plain_env small_opts ''/w'' ''t'' (small_disk ''x'') = Inr s"
    by (rule small_created)
  have "path_exists (d_fs (small_disk ''x'')) (components (snapshot_file_path (new_manager ''/w'' 10) ''x''))"
    "read_content (small_disk ''x'') (components (snapshot_file_path (new_manager ''/w'' 10) ''x'')) = Some ''S''"
    by code_simp+
  then have g: "get_snapshot (\<lambda>_. Some s) (new_manager ''/w'' 10) ''x'' (small_disk ''x'') = Inr s"
    by (simp add: get_snapshot_def)
  have w: "WalkEntry ''/w/.git/HEAD'' WalkFile
      \<in> set (se_walk plain_env (d_fs (small_disk ''x'')) False (\<lambda>_. True) ''/w'')"
    by code_simp
  have c: "Normal ''.git'' \<in> set (components ''/w/.git/HEAD'')" by code_simp
  have "engine_snapshot_validate (\<lambda>_. Some s) plain_env (\<lambda>_. Inr ()) (new_manager ''/w'' 10) ''x'' []
      (small_disk ''x'') \<noteq> Inr True"
    by (rule excluded_file_makes_stale [where pattern = "''.git''", OF small_tree small_dir plain_env_zip
          tree_walk_below [OF small_dir] s g w c]) (simp_all add: small_opts_def contains_def)
  with s show ?thesis by blast
qed

subsection \<open>Where snapshots fall short\<close>

text \<open>A directory whose own path contains an excluded pattern is captured without any file.\<close>

lemma excluded_root_captures_nothing:
  assumes "work_tree (d_fs d) root" and "absolute_dir rt root"
    and "\<forall>c. se_inflate env (se_deflate env c) = Some c" and "walks_below env rt root"
    and "snapshot_create env opts rt description d = Inr s"
    and "name \<in> set root" and "pattern \<in> set (so_exclude_patterns opts)" and "contains name pattern"
  shows "file_list s = []"
proof (rule ccontr)
  assume "file_list s \<noteq> []"
  then obtain rel f where "(rel, f) \<in> set (sn_files s)"
    by (cases "sn_files s") (auto simp: file_list_def)
  then have "hm_get (sn_files s) rel = Some f"
    using snapshot_create_captured [OF assms(1-5)] hm_in_set [of "sn_files s" rel f] by simp
  with snapshot_create_captured [OF assms(1-5)] have "captured env opts d root rel f" by blast
  then obtain ns path where "kept_entry opts path" and p: "components path = RootDir # map Normal (root @ ns)"
    unfolding captured_def by blast
  moreover have "Normal name \<in> set (components path)" using p assms(6) by simp
  ultimately show False using excluded_name [of name path pattern opts] assms(7,8) by blast
qed

text \<open>An identifier is joined to the directory as it is: one with parent components leaves it.\<close>

lemma identifier_leaves_directory:
  "(case delete_snapshot (new_manager ''/w'' 10) ''../../conf''
      \<lparr>d_fs = \<lparr>nodes = [([''w''], Dir), ([''w'', ''.devit''], Dir),
          ([''w'', ''.devit'', ''snapshots''], Dir), ([''w'', ''conf.json''], File ''c'')], cwd = []\<rparr>,
       d_modes = []\<rparr> of
     (r, d') \<Rightarrow> r = Inr () \<and> node_at (d_fs d') [''w'', ''conf.json''] = None)"
  by code_simp

text \<open>A link to a directory, or to nothing, makes every capture of the tree fail.\<close>

lemma linked_directory_stops_capture:
  "snapshot_create plain_env default_snapshot_options ''/w'' ''t''
     \<lparr>d_fs = \<lparr>nodes = [([''w''], Dir), ([''w'', ''sub''], Dir), ([''w'', ''ln''], Link ''sub'')], cwd = []\<rparr>,
      d_modes = []\<rparr>
   = Inl (Io ''read file'' (Some ''/w/ln'') [])"
  by code_simp

text \<open>A dry run writes the backups, and two files that differ in their extension share one.\<close>

definition one_file_snapshot :: "(string \<times> string) list \<Rightarrow> snapshot" where
  "one_file_snapshot files =
     \<lparr>sn_id = ''snap-7-x'', sn_created_at = 7, sn_description = [], sn_root_path = ''/w'',
      sn_files = map (\<lambda>(rel, c). (rel, \<lparr>sf_path = rel, sf_content_hash = c, sf_size = length c,
          sf_permissions = 33188, sf_modified_at = 0, sf_is_binary = False, sf_storage = Inline c\<rparr>)) files,
      sn_git_info = None,
      sn_metadata = \<lparr>sm_devit_version = [], sm_hostname = [], sm_username = [],
        sm_working_directory = [], sm_environment = [], sm_custom_fields = []\<rparr>,
      sn_integrity_hash = [], sn_total_size = 0, sn_parent_snapshot = None\<rparr>"

definition two_files :: disk where
  "two_files =
     \<lparr>d_fs = \<lparr>nodes = [([''w''], Dir), ([''w'', ''a.rs''], File ''rs''), ([''w'', ''a.md''], File ''md'')],
        cwd = []\<rparr>, d_modes = []\<rparr>"

lemma dry_run_writes_one_backup:
  "(case snapshot_write_back plain_env
       (default_restore_options\<lparr>ro_overwrite_existing := True, ro_backup_existing := True, ro_dry_run := True\<rparr>)
       (one_file_snapshot [(''a.rs'', []), (''a.md'', [])]) None two_files of
     (r, d') \<Rightarrow> r = Inr [''a.rs'', ''a.md''] \<and> node_at (d_fs d') [''w'', ''a.backup''] = Some (File ''md''))"
  by code_simp

text \<open>A restore that fails half-way keeps what it has written.\<close>

lemma failed_restore_keeps_files:
  "(case snapshot_write_back plain_env engine_restore_options
       (one_file_snapshot [(''a.rs'', ''old''), (''a.md/b'', ''x'')]) None two_files of
     (r, d') \<Rightarrow> isl r \<and> node_at (d_fs d') [''w'', ''a.rs''] = Some (File ''old''))"
  by code_simp

text \<open>A file without permission to write stops a restore, even where nothing has changed.\<close>

lemma read_only_file_stops_restore:
  "(let d = two_files\<lparr>d_modes := [([''w'', ''a.rs''], 33060)]\<rparr>
    in snapshot_write_back plain_env engine_restore_options (one_file_snapshot [(''a.rs'', ''rs'')]) None d
       = (Inl (Io ''write file'' (Some ''/w/a.rs'') []), d))"
  by code_simp

text \<open>Paths of a stored snapshot are joined to the root unchecked.\<close>

lemma stored_path_leaves_root:
  "(case snapshot_write_back plain_env engine_restore_options
       (one_file_snapshot [(''../etc'', ''x'')]) None two_files of
     (r, d') \<Rightarrow> r = Inr [''../etc''] \<and> node_at (d_fs d') [''etc''] = Some (File ''x''))"
  by code_simp

end
