(* ===== verification/Secure_Workspace.thy ===== *)
theory Secure_Workspace
  imports Path_Security Str_Search
begin

text \<open>
  The current directory of a client inside its sandbox
  (crates/cli/src/core/security/workspace.rs). An absolute path is the list of its components;
  the current directory is relative to the sandbox and \<^verbatim>\<open>.\<close> is the empty list. The crate
  \<^bold>\<open>path_clean\<close> is the parameter \<open>clean\<close>; of \<^bold>\<open>globset\<close>, \<open>gv\<close> says whether a pattern
  compiles and \<open>gm\<close> whether a set of patterns matches. Errors are their texts without paths.
\<close>

record secure_workspace =
  ws_sandbox_root :: "component list"
  ws_current_dir :: "component list"
  ws_allowed_patterns :: "string list option"
  ws_allowed_projects :: "string list"

definition is_dir :: "file_system \<Rightarrow> component list \<Rightarrow> bool" where
  "is_dir fs path = (stat fs True path = Some Dir)"

definition new_workspace :: "file_system \<Rightarrow> component list \<Rightarrow> string + secure_workspace" where
  "new_workspace fs root =
     (case canonicalize fs root of
        None \<Rightarrow> Inl ''Failed to canonicalize sandbox root''
      | Some r \<Rightarrow>
          if is_dir fs r
          then Inr \<lparr>ws_sandbox_root = r, ws_current_dir = [], ws_allowed_patterns = None,
                    ws_allowed_projects = []\<rparr>
          else Inl ''Sandbox root is not a directory'')"

text \<open>The globs of the patterns; an error where one does not compile.\<close>

fun allowed_globs :: "(string \<Rightarrow> bool) \<Rightarrow> string list \<Rightarrow> string + string list" where
  "allowed_globs gv [] = Inr []"
| "allowed_globs gv (p # ps) =
     (let normalized = map (\<lambda>c. if c = CHR 0x5C then CHR ''/'' else c) p;
          trimmed = (case strip_suffix normalized ''/**'' of Some t \<Rightarrow> if t = [] then [] else [t] | None \<Rightarrow> [])
      in if list_all gv (normalized # trimmed)
         then (case allowed_globs gv ps of Inl e \<Rightarrow> Inl e | Inr gs \<Rightarrow> Inr (normalized # trimmed @ gs))
         else Inl ''error parsing glob'')"

definition set_allowed_projects ::
  "(string \<Rightarrow> bool) \<Rightarrow> string list \<Rightarrow> secure_workspace \<Rightarrow> (string + unit) \<times> secure_workspace"
where
  "set_allowed_projects gv projects ws =
     (let ws = ws\<lparr>ws_allowed_projects := projects\<rparr>
      in if projects = [] then (Inr (), ws\<lparr>ws_allowed_patterns := None\<rparr>)
         else case allowed_globs gv projects of
                Inl e \<Rightarrow> (Inl e, ws)
              | Inr gs \<Rightarrow> (Inr (), ws\<lparr>ws_allowed_patterns := Some gs\<rparr>))"

definition join_relative :: "component list \<Rightarrow> string \<Rightarrow> component list" where
  "join_relative base path = base @ concat (map seg_component (split_char (CHR ''/'') path))"

definition normalize_candidate ::
  "(component list \<Rightarrow> component list) \<Rightarrow> secure_workspace \<Rightarrow> string \<Rightarrow> string + component list"
where
  "normalize_candidate clean ws path =
     (if is_absolute path then Inl ''Absolute paths are not allowed in workspace operations''
      else Inr (clean (join_relative (ws_sandbox_root ws @ ws_current_dir ws) path)))"

definition ensure_within_sandbox :: "secure_workspace \<Rightarrow> component list \<Rightarrow> string + unit" where
  "ensure_within_sandbox ws path =
     (if prefix (ws_sandbox_root ws) path then Inr ()
      else Inl ''Security violation: attempted to escape sandbox'')"

text \<open>The depth below the sandbox never becomes negative.\<close>

fun depth_ok :: "int \<Rightarrow> component list \<Rightarrow> bool" where
  "depth_ok depth [] = True"
| "depth_ok depth (ParentDir # cs) = (depth - 1 \<ge> 0 \<and> depth_ok (depth - 1) cs)"
| "depth_ok depth (Normal _ # cs) = depth_ok (depth + 1) cs"
| "depth_ok depth (_ # cs) = depth_ok depth cs"

definition ensure_normalized :: "secure_workspace \<Rightarrow> component list \<Rightarrow> string + unit" where
  "ensure_normalized ws path =
     (if \<not> prefix (ws_sandbox_root ws) path then Inl ''Security violation: path outside sandbox''
      else if depth_ok 0 (drop (length (ws_sandbox_root ws)) path) then Inr ()
      else Inl ''Security violation: path escapes sandbox'')"

definition relative_from_root :: "secure_workspace \<Rightarrow> component list \<Rightarrow> string + component list" where
  "relative_from_root ws path =
     (if prefix (ws_sandbox_root ws) path then Inr (drop (length (ws_sandbox_root ws)) path)
      else Inl ''Path not within sandbox'')"

text \<open>The text of a relative path, with slashes.\<close>

fun rel_dir_text :: "component list \<Rightarrow> string" where
  "rel_dir_text [] = []"
| "rel_dir_text [Normal s] = s"
| "rel_dir_text (Normal s # cs) = s @ ''/'' @ rel_dir_text cs"
| "rel_dir_text [ParentDir] = ''..''"
| "rel_dir_text (ParentDir # cs) = ''../'' @ rel_dir_text cs"
| "rel_dir_text (_ # cs) = rel_dir_text cs"

definition ensure_allowed ::
  "(string list \<Rightarrow> string \<Rightarrow> bool) \<Rightarrow> secure_workspace \<Rightarrow> component list \<Rightarrow> string + unit"
where
  "ensure_allowed gm ws rel =
     (case ws_allowed_patterns ws of
        None \<Rightarrow> Inr ()
      | Some patterns \<Rightarrow>
          if rel = [] then Inr ()
          else if gm patterns (map (\<lambda>c. if c = CHR 0x5C then CHR ''/'' else c) (rel_dir_text rel))
          then Inr () else Inl ''Working directory is not in the allowed project list'')"

definition change_dir ::
  "(component list \<Rightarrow> component list) \<Rightarrow> (string list \<Rightarrow> string \<Rightarrow> bool) \<Rightarrow> file_system \<Rightarrow> string
    \<Rightarrow> secure_workspace \<Rightarrow> (string + component list) \<times> secure_workspace"
where
  "change_dir clean gm fs path ws =
     (case normalize_candidate clean ws path of
        Inl e \<Rightarrow> (Inl e, ws)
      | Inr cleaned \<Rightarrow>
          if \<not> path_exists fs cleaned then (Inl ''Directory does not exist'', ws)
          else
            (case canonicalize fs cleaned of
               None \<Rightarrow> (Inl ''Failed to access directory'', ws)
             | Some canonical \<Rightarrow>
                 (case ensure_within_sandbox ws canonical of
                    Inl e \<Rightarrow> (Inl e, ws)
                  | Inr _ \<Rightarrow>
                      if \<not> is_dir fs canonical then (Inl ''is not a directory'', ws)
                      else
                        (case relative_from_root ws canonical of
                           Inl e \<Rightarrow> (Inl e, ws)
                         | Inr rel \<Rightarrow>
                             (case ensure_allowed gm ws rel of
                                Inl e \<Rightarrow> (Inl e, ws)
                              | Inr _ \<Rightarrow> (Inr canonical, ws\<lparr>ws_current_dir := rel\<rparr>))))))"

definition resolve_path ::
  "(component list \<Rightarrow> component list) \<Rightarrow> file_system \<Rightarrow> string \<Rightarrow> secure_workspace
    \<Rightarrow> string + component list"
where
  "resolve_path clean fs path ws =
     (case normalize_candidate clean ws path of
        Inl e \<Rightarrow> Inl e
      | Inr cleaned \<Rightarrow>
          if path_exists fs cleaned then
            (case canonicalize fs cleaned of
               None \<Rightarrow> Inl ''Failed to canonicalize path''
             | Some canonical \<Rightarrow>
                 (case ensure_within_sandbox ws canonical of
                    Inl e \<Rightarrow> Inl e | Inr _ \<Rightarrow> Inr canonical))
          else
            (case ensure_normalized ws cleaned of Inl e \<Rightarrow> Inl e | Inr _ \<Rightarrow> Inr cleaned))"

definition workspace_dir :: "secure_workspace \<Rightarrow> component list" where
  "workspace_dir ws = ws_sandbox_root ws @ ws_current_dir ws"

definition current_relative :: "secure_workspace \<Rightarrow> component list" where
  "current_relative ws = ws_current_dir ws"

definition resolve_relative_from_root ::
  "(component list \<Rightarrow> component list) \<Rightarrow> (string list \<Rightarrow> string \<Rightarrow> bool) \<Rightarrow> string \<Rightarrow> secure_workspace
    \<Rightarrow> string + component list"
where
  "resolve_relative_from_root clean gm path ws =
     (if is_absolute path then Inl ''Absolute paths are not allowed in workspace operations''
      else
        let absolute = clean (join_relative (ws_sandbox_root ws) path)
        in case ensure_normalized ws absolute of
             Inl e \<Rightarrow> Inl e
           | Inr _ \<Rightarrow>
               (case relative_from_root ws absolute of
                  Inl e \<Rightarrow> Inl e
                | Inr rel \<Rightarrow>
                    (case ensure_allowed gm ws rel of Inl e \<Rightarrow> Inl e | Inr _ \<Rightarrow> Inr rel)))"

text \<open>
  The engine's change of directory (crates/cli/src/core/mod.rs): the new directory becomes the
  working directory of patches, the place of snapshots, the root of file operations and, last, the
  root of the path checks. Only the last can fail, and then the workspace has changed already.
\<close>

definition engine_change_dir ::
  "(component list \<Rightarrow> component list) \<Rightarrow> (string list \<Rightarrow> string \<Rightarrow> bool) \<Rightarrow> file_system \<Rightarrow> bool \<Rightarrow> string
    \<Rightarrow> secure_workspace \<Rightarrow> path_security_context
    \<Rightarrow> (devit_error + component list) \<times> secure_workspace \<times> path_security_context"
where
  "engine_change_dir clean gm fs links path ws ctx =
     (case change_dir clean gm fs path ws of
        (Inl e, ws') \<Rightarrow> (Inl (Internal ''workspace'' e None []), ws', ctx)
      | (Inr absolute, ws') \<Rightarrow>
          (case new_path_security fs absolute links of
             Inl e \<Rightarrow> (Inl e, ws', ctx)
           | Inr ctx' \<Rightarrow> (Inr absolute, ws', ctx')))"

subsection \<open>What \<^bold>\<open>path_clean\<close> does\<close>

text \<open>The names of an absolute path after its dots are worked off.\<close>

fun lexical :: "string list \<Rightarrow> component list \<Rightarrow> string list" where
  "lexical ns [] = ns"
| "lexical ns (Normal s # cs) = lexical (ns @ [s]) cs"
| "lexical ns (ParentDir # cs) = lexical (butlast ns) cs"
| "lexical ns (_ # cs) = lexical ns cs"

definition cleans :: "(component list \<Rightarrow> component list) \<Rightarrow> bool" where
  "cleans clean \<longleftrightarrow> (\<forall>cs. clean (RootDir # cs) = RootDir # map Normal (lexical [] cs))"

subsection \<open>Inside the sandbox\<close>

text \<open>
  The states of a workspace: made for a sandbox, then changed by requests while the file system
  changes freely.
\<close>

inductive workspace_reach ::
  "(component list \<Rightarrow> component list) \<Rightarrow> (string \<Rightarrow> bool) \<Rightarrow> (string list \<Rightarrow> string \<Rightarrow> bool)
    \<Rightarrow> secure_workspace \<Rightarrow> bool"
  for clean gv gm where
  ws_new: "new_workspace fs root = Inr ws \<Longrightarrow> workspace_reach clean gv gm ws"
| ws_allow: "workspace_reach clean gv gm ws
    \<Longrightarrow> workspace_reach clean gv gm (snd (set_allowed_projects gv projects ws))"
| ws_cd: "workspace_reach clean gv gm ws
    \<Longrightarrow> workspace_reach clean gv gm (snd (change_dir clean gm fs path ws))"

definition workspace_inv :: "secure_workspace \<Rightarrow> bool" where
  "workspace_inv ws \<longleftrightarrow>
     (\<exists>root ns. ws_sandbox_root ws = RootDir # map Normal root \<and> ws_current_dir ws = map Normal ns)"

lemma canonical_names: "canonicalize fs p = Some c \<Longrightarrow> \<exists>loc. c = RootDir # map Normal loc \<and> locate fs True p = Some loc"
  by (auto simp: canonicalize_def split: option.splits if_splits)

lemma below_names:
  assumes "prefix (RootDir # map Normal root) (RootDir # map Normal loc)"
  obtains ns where "loc = root @ ns" and "drop (length (RootDir # map Normal root)) (RootDir # map Normal loc) = map Normal ns"
proof -
  from assms obtain zs where "map Normal loc = map Normal root @ zs" by (auto simp: prefix_def)
  then obtain r z where "loc = r @ z" "map Normal r = map Normal root" "zs = map Normal z"
    by (auto simp: map_eq_append_conv)
  moreover from this(2) have "r = root" by (simp add: inj_map_eq_map inj_def)
  ultimately show thesis using that by simp
qed

lemma map_Normal_append: "map Normal l = map Normal a @ map Normal b \<longleftrightarrow> l = a @ b"
  by (metis component.inject inj_map_eq_map inj_onI map_append)

text \<open>What a successful change of directory yields.\<close>

lemma change_dir_result:
  assumes "change_dir clean gm fs path ws = (Inr c, ws')" and "ws_sandbox_root ws = RootDir # map Normal root"
  shows "\<exists>ns. c = RootDir # map Normal (root @ ns) \<and> ws' = ws\<lparr>ws_current_dir := map Normal ns\<rparr>
    \<and> is_dir fs c \<and> ensure_allowed gm ws (map Normal ns) = Inr ()"
proof -
  obtain cleaned where "canonicalize fs cleaned = Some c"
    and w: "prefix (ws_sandbox_root ws) c" and d: "is_dir fs c"
    and ws': "ws' = ws\<lparr>ws_current_dir := drop (length (ws_sandbox_root ws)) c\<rparr>"
    and a: "ensure_allowed gm ws (drop (length (ws_sandbox_root ws)) c) = Inr ()"
    using assms(1)
    by (auto simp: change_dir_def ensure_within_sandbox_def relative_from_root_def
        split: sum.splits option.splits if_splits)
  then obtain loc where c: "c = RootDir # map Normal loc" using canonical_names by blast
  with w assms(2) obtain ns where "loc = root @ ns" "drop (length (ws_sandbox_root ws)) c = map Normal ns"
    using below_names [of root loc] by metis
  then show ?thesis using c d ws' a by auto
qed

lemma change_dir_error: "change_dir clean gm fs path ws = (Inl e, ws') \<Longrightarrow> ws' = ws"
  by (auto simp: change_dir_def split: sum.splits option.splits if_splits)

lemma change_dir_inv: "workspace_inv ws \<Longrightarrow> workspace_inv (snd (change_dir clean gm fs path ws))"
proof -
  assume inv: "workspace_inv ws"
  obtain r ws' where cd: "change_dir clean gm fs path ws = (r, ws')" by fastforce
  show ?thesis
  proof (cases r)
    case (Inl e)
    with cd inv change_dir_error show ?thesis by fastforce
  next
    case (Inr c)
    with inv cd change_dir_result show ?thesis unfolding workspace_inv_def by fastforce
  qed
qed

lemma workspace_reach_inv: "workspace_reach clean gv gm ws \<Longrightarrow> workspace_inv ws"
proof (induction rule: workspace_reach.induct)
  case (ws_new fs root ws)
  then show ?case
    using canonical_names by (fastforce simp: new_workspace_def workspace_inv_def split: option.splits if_splits)
next
  case (ws_allow ws projects)
  then show ?case
    by (auto simp: set_allowed_projects_def workspace_inv_def Let_def split: sum.splits)
next
  case (ws_cd ws fs path)
  then show ?case by (simp add: change_dir_inv)
qed

text \<open>
  C21: The workspace never leaves its sandbox: from any state of a workspace, whatever is asked for
  and whatever links the tree holds, a change of directory that succeeds ends in an existing
  directory with a canonical path below the sandbox root that the allow list admits (or in the
  root itself), the workspace is then in this directory, and the sandbox stays the same.
\<close>

theorem workspace_stays_in_sandbox:
  assumes "workspace_reach clean gv gm ws"
    and "change_dir clean gm fs path ws = (Inr c, ws')"
  shows "\<exists>root ns. ws_sandbox_root ws = RootDir # map Normal root \<and> c = RootDir # map Normal (root @ ns)
    \<and> workspace_dir ws' = c \<and> ws_sandbox_root ws' = ws_sandbox_root ws \<and> is_dir fs c
    \<and> (case ws_allowed_patterns ws of None \<Rightarrow> True
       | Some ps \<Rightarrow> ns = [] \<or> gm ps (map (\<lambda>c. if c = CHR 0x5C then CHR ''/'' else c)
                                       (rel_dir_text (map Normal ns))))"
proof -
  obtain root where root: "ws_sandbox_root ws = RootDir # map Normal root"
    using workspace_reach_inv [OF assms(1)] by (auto simp: workspace_inv_def)
  from change_dir_result [OF assms(2) root] obtain ns where
    "c = RootDir # map Normal (root @ ns)" "ws' = ws\<lparr>ws_current_dir := map Normal ns\<rparr>"
    "is_dir fs c" "ensure_allowed gm ws (map Normal ns) = Inr ()" by blast
  then show ?thesis
    using root
    by (intro exI [of _ root] exI [of _ ns])
      (auto simp: workspace_dir_def ensure_allowed_def split: option.splits if_splits)
qed

text \<open>
  A resolved path lies in the sandbox: its text is the sandbox root followed by plain names;
  if something is there it is at that very place, and in a tree without links the path leads to
  the place it spells, so a file that is created there is created inside.
\<close>

theorem resolved_path_in_sandbox:
  assumes "workspace_reach clean gv gm ws" and "cleans clean"
    and "resolve_path clean fs path ws = Inr p"
  shows "\<exists>root ns. ws_sandbox_root ws = RootDir # map Normal root \<and> p = RootDir # map Normal (root @ ns)
    \<and> (path_exists fs (clean (join_relative (workspace_dir ws) path)) \<longrightarrow> node_at fs (root @ ns) \<noteq> None)
    \<and> (work_tree fs root \<longrightarrow> (\<forall>follow loc. locate fs follow p = Some loc \<longrightarrow> loc = root @ ns))"
proof -
  obtain root where root: "ws_sandbox_root ws = RootDir # map Normal root"
    using workspace_reach_inv [OF assms(1)] by (auto simp: workspace_inv_def)
  let ?cleaned = "clean (join_relative (workspace_dir ws) path)"
  have cl: "?cleaned = RootDir # map Normal (lexical [] (tl (join_relative (workspace_dir ws) path)))"
    using assms(2) root by (simp add: cleans_def join_relative_def workspace_dir_def)
  have cases: "canonicalize fs ?cleaned = Some p \<and> prefix (ws_sandbox_root ws) p
      \<or> p = ?cleaned \<and> \<not> path_exists fs ?cleaned \<and> prefix (ws_sandbox_root ws) p"
    using assms(3)
    by (auto simp: resolve_path_def normalize_candidate_def workspace_dir_def ensure_within_sandbox_def
        ensure_normalized_def split: if_splits option.splits sum.splits)
  then obtain loc where p: "p = RootDir # map Normal loc"
    using canonical_names cl by metis
  moreover have "prefix (ws_sandbox_root ws) p" using cases by blast
  ultimately obtain ns where loc: "loc = root @ ns"
    using below_names [of root loc] root by metis
  have "node_at fs (root @ ns) \<noteq> None" if "path_exists fs ?cleaned"
    using cases p loc that map_Normal_append
    by (auto simp: canonicalize_def split: option.splits if_splits)
  moreover have "l = root @ ns" if "work_tree fs root" "locate fs follow p = Some l" for follow l
    using locate_work_tree [OF that(1), of "map Normal ns" follow l] that(2) p loc
    by (simp add: plain_iff image_iff)
  ultimately show ?thesis using root p loc by blast
qed

subsection \<open>Instances\<close>

fun lexical_clean :: "component list \<Rightarrow> component list" where
  "lexical_clean (RootDir # cs) = RootDir # map Normal (lexical [] cs)"
| "lexical_clean cs = cs"

lemma lexical_clean_cleans: "cleans lexical_clean"
  by (simp add: cleans_def)

definition linked_tree :: file_system where
  "linked_tree =
     \<lparr>nodes = [([''w''], Dir), ([''w'', ''p''], Dir), ([''etc''], Dir), ([''w'', ''out''], Link ''/etc'')],
      cwd = []\<rparr>"

definition linked_workspace :: secure_workspace where
  "linked_workspace =
     \<lparr>ws_sandbox_root = [RootDir, Normal ''w''], ws_current_dir = [], ws_allowed_patterns = None,
      ws_allowed_projects = []\<rparr>"

lemma linked_reach: "workspace_reach lexical_clean gv gm linked_workspace"
proof (rule ws_new)
  show "new_workspace linked_tree [RootDir, Normal ''w''] = Inr linked_workspace" by code_simp
qed

lemma linked_change:
  "change_dir lexical_clean (\<lambda>_ _. True) linked_tree ''p/../p'' linked_workspace
    = (Inr [RootDir, Normal ''w'', Normal ''p''], linked_workspace\<lparr>ws_current_dir := [Normal ''p'']\<rparr>)"
  by code_simp

lemma workspace_stays_in_sandbox_witness:
  "\<exists>root ns. ws_sandbox_root linked_workspace = RootDir # map Normal root
    \<and> [RootDir, Normal ''w'', Normal ''p''] = RootDir # map Normal (root @ ns)"
  using workspace_stays_in_sandbox [OF linked_reach linked_change]
  by (elim exE conjE) (intro exI conjI)

lemma linked_resolve:
  "resolve_path lexical_clean linked_tree ''p/new.txt'' linked_workspace
    = Inr [RootDir, Normal ''w'', Normal ''p'', Normal ''new.txt'']"
  by code_simp

lemma resolved_path_in_sandbox_witness:
  "\<exists>root ns. ws_sandbox_root linked_workspace = RootDir # map Normal root
    \<and> [RootDir, Normal ''w'', Normal ''p'', Normal ''new.txt''] = RootDir # map Normal (root @ ns)"
  using resolved_path_in_sandbox [OF linked_reach lexical_clean_cleans linked_resolve]
  by (elim exE conjE) (intro exI conjI)

text \<open>
  A file that does not exist yet is only checked lexically: below a link that leads out of the
  sandbox the path is accepted, and it leads to a place outside.
\<close>

lemma missing_file_behind_link_escapes:
  "resolve_path lexical_clean linked_tree ''out/new.txt'' linked_workspace
     = Inr [RootDir, Normal ''w'', Normal ''out'', Normal ''new.txt'']"
  "locate linked_tree True [RootDir, Normal ''w'', Normal ''out'', Normal ''new.txt'']
     = Some [''etc'', ''new.txt'']"
  by code_simp+

text \<open>A list of projects that does not compile is reported as the allow list all the same.\<close>

lemma failed_allow_list_is_recorded:
  "snd (set_allowed_projects (\<lambda>_. False) [''[''] ws) = ws\<lparr>ws_allowed_projects := [''['']\<rparr>"
  by (simp add: set_allowed_projects_def Let_def split: option.split)

end
