(* ===== verification/Edit_Hunks.thy ===== *)
theory Edit_Hunks
  imports Std_Fs
begin

text \<open>
  Edits that a language model proposes and a user reviews: the hunks of
  crates/context-engine/src/diff/mod.rs and the sessions of
  crates/studio/src/ipc/structured_edit.rs.

  serde's reading of the model's answer is the parameter \<open>jp\<close>; what the crate \<^bold>\<open>similar\<close>
  finds is the argument \<open>groups\<close>. Functions that slice or drain a range return \<open>None\<close> where
  Rust panics. A \<open>usize\<close> is a natural number.
\<close>

subsection \<open>Hunks\<close>

datatype edit_operation =
    ReplaceLines nat nat string
  | InsertAfter nat string
  | DeleteLines nat nat
  | ReplaceFile string

record structured_edit =
  se_file :: string
  se_edits :: "edit_operation list"

datatype hunk_status = PendingHunk | AcceptedHunk | RejectedHunk | AppliedHunk

record edit_hunk =
  eh_id :: string
  eh_file_path :: string
  eh_start_line :: nat
  eh_end_line :: nat
  eh_original :: string
  eh_replacement :: string
  eh_description :: string
  eh_status :: hunk_status

definition usize_max :: nat where
  "usize_max = 2 ^ 64 - 1"

text \<open>One operation as a hunk; \<open>idx\<close> is its place in the answer.\<close>

definition hunk_of_edit :: "string \<Rightarrow> nat \<times> edit_operation \<Rightarrow> edit_hunk" where
  "hunk_of_edit path entry =
     (case entry of (idx, op) \<Rightarrow>
        let make = (\<lambda>s e r d. \<lparr>eh_id = path @ ''-'' @ show_nat idx, eh_file_path = path,
                      eh_start_line = s, eh_end_line = e, eh_original = [], eh_replacement = r,
                      eh_description = d, eh_status = PendingHunk\<rparr>)
        in case op of
             ReplaceLines s e content \<Rightarrow>
               make s e content (''Replace lines '' @ show_nat s @ ''-'' @ show_nat e)
           | InsertAfter n content \<Rightarrow> make n n content (''Insert after line '' @ show_nat n)
           | DeleteLines s e \<Rightarrow> make s e [] (''Delete lines '' @ show_nat s @ ''-'' @ show_nat e)
           | ReplaceFile content \<Rightarrow> make 1 usize_max content ''Replace entire file'')"

definition parse_edit :: "(string \<Rightarrow> structured_edit option) \<Rightarrow> string \<Rightarrow> string + edit_hunk list" where
  "parse_edit jp answer =
     (case jp answer of
        None \<Rightarrow> Inl ''Failed to parse edit JSON''
      | Some edit \<Rightarrow> Inr (map (hunk_of_edit (se_file edit)) (enumerate 0 (se_edits edit))))"

text \<open>A range \<open>a..b\<close> of a list: \<open>None\<close> is the panic of a range that is out of order.\<close>

definition line_range :: "nat \<Rightarrow> nat \<Rightarrow> string list \<Rightarrow> string list option" where
  "line_range a b ls = (if a \<le> b \<and> b \<le> length ls then Some (take (b - a) (drop a ls)) else None)"

definition fill_hunk :: "string \<Rightarrow> edit_hunk \<Rightarrow> edit_hunk option" where
  "fill_hunk content h =
     (let ls = str_lines content
      in if eh_end_line h = usize_max
         then Some (h\<lparr>eh_original := content, eh_end_line := length ls\<rparr>)
         else
           let start_idx = eh_start_line h - 1; end_idx = min (eh_end_line h) (length ls)
           in if start_idx < length ls
              then map_option (\<lambda>r. h\<lparr>eh_original := join_lines r\<rparr>) (line_range start_idx end_idx ls)
              else Some h)"

fun fill_original_content :: "string \<Rightarrow> edit_hunk list \<Rightarrow> edit_hunk list option" where
  "fill_original_content content [] = Some []"
| "fill_original_content content (h # hs) =
     (case fill_hunk content h of
        None \<Rightarrow> None
      | Some h' \<Rightarrow> map_option (\<lambda>hs'. h' # hs') (fill_original_content content hs))"

text \<open>One hunk on the lines; \<open>drain\<close> and \<open>splice\<close> panic where the range is out of order.\<close>

definition apply_edit :: "string list \<Rightarrow> edit_hunk \<Rightarrow> string list option" where
  "apply_edit ls h =
     (let start_idx = eh_start_line h - 1; end_idx = min (eh_end_line h) (length ls)
      in if eh_replacement h = [] then
           (if start_idx < length ls then
              (if start_idx \<le> end_idx then Some (take start_idx ls @ drop end_idx ls) else None)
            else Some ls)
         else if eh_original h = [] \<and> eh_start_line h = eh_end_line h then
           (let at = min (eh_start_line h) (length ls)
            in Some (take at ls @ str_lines (eh_replacement h) @ drop at ls))
         else if start_idx < length ls then
           (if start_idx \<le> end_idx
            then Some (take start_idx ls @ str_lines (eh_replacement h) @ drop end_idx ls) else None)
         else Some ls)"

fun apply_edits :: "string list \<Rightarrow> edit_hunk list \<Rightarrow> string list option" where
  "apply_edits ls [] = Some ls"
| "apply_edits ls (h # hs) =
     (case apply_edit ls h of None \<Rightarrow> None | Some ls' \<Rightarrow> apply_edits ls' hs)"

definition accepted_hunks :: "edit_hunk list \<Rightarrow> edit_hunk list" where
  "accepted_hunks hs = filter (\<lambda>h. eh_status h = AcceptedHunk) hs"

text \<open>From the bottom to the top; hunks with the same start stay in their order.\<close>

definition bottom_up :: "edit_hunk list \<Rightarrow> edit_hunk list" where
  "bottom_up hs = sort_key (\<lambda>h. - int (eh_start_line h)) hs"

definition apply_hunks :: "string \<Rightarrow> edit_hunk list \<Rightarrow> string option" where
  "apply_hunks original hs =
     (let accepted = accepted_hunks hs
      in if accepted = [] then Some original
         else map_option join_lines (apply_edits (str_lines original) (bottom_up accepted)))"

subsection \<open>Unified diffs\<close>

datatype diff_op =
    OpEqual nat nat nat
  | OpDelete nat nat nat
  | OpInsert nat nat nat
  | OpReplace nat nat nat nat

datatype diff_tag = TagEqual | TagDelete | TagInsert

record diff_change =
  dc_tag :: diff_tag
  dc_value :: string
  dc_missing_newline :: bool

text \<open>The state of the loop: start and end on the old and on the new side.\<close>

fun widen_range :: "nat \<times> nat \<times> nat \<times> nat \<Rightarrow> diff_op \<Rightarrow> nat \<times> nat \<times> nat \<times> nat" where
  "widen_range (os, oe, ns, ne) (OpEqual oi ni n) =
     (min os oi, max oe (oi + n), min ns ni, max ne (ni + n))"
| "widen_range (os, oe, ns, ne) (OpDelete oi on ni) = (min os oi, max oe (oi + on), ns, ne)"
| "widen_range (os, oe, ns, ne) (OpInsert oi ni nn) = (os, oe, min ns ni, max ne (ni + nn))"
| "widen_range (os, oe, ns, ne) (OpReplace oi on ni nn) =
     (min os oi, max oe (oi + on), min ns ni, max ne (ni + nn))"

text \<open>\<open>None\<close>: the sum or a difference overflows, which panics in a checked build.\<close>

definition calc_hunk_range :: "diff_op list \<Rightarrow> (nat \<times> nat \<times> nat \<times> nat) option" where
  "calc_hunk_range ops =
     (case foldl widen_range (usize_max, 0, usize_max, 0) ops of
        (os, oe, ns, ne) \<Rightarrow>
          if os < usize_max \<and> os \<le> oe \<and> ns < usize_max \<and> ns \<le> ne
          then Some (os + 1, oe - os, ns + 1, ne - ns) else None)"

definition change_text :: "diff_change \<Rightarrow> string" where
  "change_text c =
     (case dc_tag c of TagEqual \<Rightarrow> '' '' | TagDelete \<Rightarrow> ''-'' | TagInsert \<Rightarrow> ''+'')
     @ dc_value c
     @ (if dc_missing_newline c then [nl, CHR 0x5C] @ '' No newline at end of file'' @ [nl] else [])"

fun diff_groups :: "bool \<Rightarrow> (diff_op \<times> diff_change list) list list \<Rightarrow> string option" where
  "diff_groups first [] = Some []"
| "diff_groups first (g # gs) =
     (case (calc_hunk_range (map fst g), diff_groups False gs) of
        (Some (os, ol, ns, nn), Some rest) \<Rightarrow>
          Some ((if first then [] else [nl])
            @ ''@@ -'' @ show_nat os @ '','' @ show_nat ol @ '' +'' @ show_nat ns @ '','' @ show_nat nn
            @ '' @@'' @ [nl] @ concat (map change_text (concat (map snd g))) @ rest)
      | _ \<Rightarrow> None)"

definition unified_diff :: "string \<Rightarrow> (diff_op \<times> diff_change list) list list \<Rightarrow> string option" where
  "unified_diff path groups =
     map_option (\<lambda>body. ''--- a/'' @ path @ [nl] @ ''+++ b/'' @ path @ [nl] @ body)
       (diff_groups True groups)"

subsection \<open>Sessions\<close>

record edit_session =
  es_id :: string
  es_hunks :: "edit_hunk list"
  es_original_contents :: "(string, string) hmap"

type_synonym edit_sessions = "(string, edit_session) hmap"

text \<open>
  The contents of the files and the filled hunks. A panic of the filling is \<open>None\<close>; a file that
  cannot be read leaves its hunks as they are.
\<close>

fun load_hunks ::
  "file_system \<Rightarrow> (string, string) hmap \<Rightarrow> edit_hunk list
    \<Rightarrow> (edit_hunk list \<times> (string, string) hmap) option"
where
  "load_hunks fs contents [] = Some ([], contents)"
| "load_hunks fs contents (h # hs) =
     (let path = eh_file_path h;
          contents' =
            (if hm_get contents path = None
             then case read_to_string fs (components path) of
                    Some text \<Rightarrow> hm_insert path text contents | None \<Rightarrow> contents
             else contents)
      in case (case hm_get contents' path of
                 None \<Rightarrow> Some [h] | Some text \<Rightarrow> fill_original_content text [h]) of
           None \<Rightarrow> None
         | Some filled \<Rightarrow>
             map_option (\<lambda>(hs', c). (filled @ hs', c)) (load_hunks fs contents' hs))"

text \<open>\<open>request_structured_edit\<close> from the model's answer on; \<open>session_id\<close> is the fresh identifier.\<close>

definition open_session ::
  "(string \<Rightarrow> structured_edit option) \<Rightarrow> file_system \<Rightarrow> string \<Rightarrow> string \<Rightarrow> edit_sessions
    \<Rightarrow> ((string + edit_hunk list) \<times> edit_sessions) option"
where
  "open_session jp fs session_id answer sessions =
     (case parse_edit jp answer of
        Inl e \<Rightarrow> Some (Inl ''Failed to parse LLM response as JSON edit'', sessions)
      | Inr hs \<Rightarrow>
          map_option
            (\<lambda>(hs', contents).
               (Inr hs', hm_insert session_id
                  \<lparr>es_id = session_id, es_hunks = hs', es_original_contents = contents\<rparr> sessions))
            (load_hunks fs [] hs))"

text \<open>The first hunk with the identifier gets the status.\<close>

fun set_status :: "string \<Rightarrow> hunk_status \<Rightarrow> edit_hunk list \<Rightarrow> edit_hunk list option" where
  "set_status hid st [] = None"
| "set_status hid st (h # hs) =
     (if eh_id h = hid then Some (h\<lparr>eh_status := st\<rparr> # hs)
      else map_option (\<lambda>hs'. h # hs') (set_status hid st hs))"

definition update_hunk_status ::
  "string \<Rightarrow> string \<Rightarrow> bool \<Rightarrow> edit_sessions \<Rightarrow> (string + unit) \<times> edit_sessions"
where
  "update_hunk_status sid hid accepted sessions =
     (case hm_get sessions sid of
        None \<Rightarrow> (Inl ''Session not found'', sessions)
      | Some s \<Rightarrow>
          (case set_status hid (if accepted then AcceptedHunk else RejectedHunk) (es_hunks s) of
             None \<Rightarrow> (Inl ''Hunk not found'', sessions)
           | Some hs \<Rightarrow> (Inr (), hm_insert sid (s\<lparr>es_hunks := hs\<rparr>) sessions)))"

definition files_of :: "edit_hunk list \<Rightarrow> string list" where
  "files_of hs = remdups (map eh_file_path hs)"

text \<open>The files one after the other; the results are those of the files that were written.\<close>

fun write_files ::
  "edit_session \<Rightarrow> string list \<Rightarrow> file_system \<Rightarrow> ((string + string list) \<times> file_system) option"
where
  "write_files s [] fs = Some (Inr [], fs)"
| "write_files s (p # ps) fs =
     (case hm_get (es_original_contents s) p of
        None \<Rightarrow> Some (Inl (''Original content not found for '' @ p), fs)
      | Some original \<Rightarrow>
          (case apply_hunks original (filter (\<lambda>h. eh_file_path h = p) (es_hunks s)) of
             None \<Rightarrow> None
           | Some new \<Rightarrow>
               (case write_text (components p) new fs of
                  None \<Rightarrow> Some (Inl (''Failed to write '' @ p), fs)
                | Some fs' \<Rightarrow>
                    map_option (\<lambda>(r, fs''). (map_sum id (\<lambda>ps'. p # ps') r, fs'')) (write_files s ps fs'))))"

definition mark_applied :: "edit_hunk \<Rightarrow> edit_hunk" where
  "mark_applied h = (if eh_status h = AcceptedHunk then h\<lparr>eh_status := AppliedHunk\<rparr> else h)"

definition apply_accepted_hunks ::
  "string \<Rightarrow> edit_sessions \<Rightarrow> file_system
    \<Rightarrow> ((string + string list) \<times> edit_sessions \<times> file_system) option"
where
  "apply_accepted_hunks sid sessions fs =
     (case hm_get sessions sid of
        None \<Rightarrow> Some (Inl ''Session not found'', sessions, fs)
      | Some s \<Rightarrow>
          (case write_files s (files_of (es_hunks s)) fs of
             None \<Rightarrow> None
           | Some (Inl e, fs') \<Rightarrow> Some (Inl e, sessions, fs')
           | Some (Inr ps, fs') \<Rightarrow>
               Some (Inr ps, hm_insert sid (s\<lparr>es_hunks := map mark_applied (es_hunks s)\<rparr>) sessions, fs')))"

definition cancel_edit_session :: "string \<Rightarrow> edit_sessions \<Rightarrow> edit_sessions" where
  "cancel_edit_session sid sessions = hm_remove sid sessions"

definition get_edit_session :: "string \<Rightarrow> edit_sessions \<Rightarrow> (string \<times> edit_hunk list) option" where
  "get_edit_session sid sessions = map_option (\<lambda>s. (es_id s, es_hunks s)) (hm_get sessions sid)"

end
