(* ===== verification/Edit_Properties.thy ===== *)
theory Edit_Properties
  imports Edit_Hunks
begin

text \<open>
  What the review of edits promises: accepted hunks that do not overlap are applied all at once,
  hunks whose range is in order never panic, a session writes what was accepted; and what it
  does not promise.
\<close>

subsection \<open>Hunks that do not overlap\<close>

definition is_insert :: "edit_hunk \<Rightarrow> bool" where
  "is_insert h \<longleftrightarrow>
     eh_replacement h \<noteq> [] \<and> eh_original h = [] \<and> eh_start_line h = eh_end_line h"

text \<open>The first line of the stretch that a hunk replaces, counted from 0, and the one behind it.\<close>

definition span_from :: "edit_hunk \<Rightarrow> nat" where
  "span_from h = (if is_insert h then eh_start_line h else eh_start_line h - 1)"

definition new_lines :: "edit_hunk \<Rightarrow> string list" where
  "new_lines h = str_lines (eh_replacement h)"

fun edits_ordered :: "nat \<Rightarrow> edit_hunk list \<Rightarrow> nat \<Rightarrow> bool" where
  "edits_ordered pos [] n = True"
| "edits_ordered pos (h # hs) n =
     (pos \<le> span_from h \<and> eh_end_line h \<le> n \<and> (is_insert h \<or> span_from h < eh_end_line h)
      \<and> edits_ordered (eh_end_line h) hs n)"

text \<open>Reading the lines once from \<open>pos\<close>, copying what lies between the stretches.\<close>

fun edit_all :: "nat \<Rightarrow> edit_hunk list \<Rightarrow> string list \<Rightarrow> string list" where
  "edit_all pos [] ls = drop pos ls"
| "edit_all pos (h # hs) ls =
     take (span_from h - pos) (drop pos ls) @ new_lines h @ edit_all (eh_end_line h) hs ls"

lemma apply_edit_span:
  assumes "eh_end_line h \<le> length ls" and "is_insert h \<or> span_from h < eh_end_line h"
  shows "apply_edit ls h = Some (take (span_from h) ls @ new_lines h @ drop (eh_end_line h) ls)"
  using assms
  by (auto simp: apply_edit_def span_from_def new_lines_def is_insert_def Let_def)

lemma apply_edits_append:
  "apply_edits ls (hs @ hs') = Option.bind (apply_edits ls hs) (\<lambda>ls. apply_edits ls hs')"
  by (induction hs arbitrary: ls) (auto split: option.split)

lemma apply_edits_reversed:
  "edits_ordered pos hs (length ls) \<Longrightarrow> pos \<le> length ls
    \<Longrightarrow> apply_edits ls (rev hs) = Some (take pos ls @ edit_all pos hs ls)"
proof (induction hs arbitrary: pos)
  case Nil
  then show ?case by simp
next
  case (Cons h hs)
  let ?e = "eh_end_line h" and ?s = "span_from h"
  let ?ls = "take ?e ls @ edit_all ?e hs ls"
  from Cons.prems have pos: "pos \<le> ?s" and e: "?e \<le> length ls"
    and span: "is_insert h \<or> ?s < ?e" by auto
  have se: "?s \<le> ?e" using span by (auto simp: span_from_def is_insert_def)
  have step: "apply_edits ls (rev hs) = Some ?ls"
    using Cons.IH [of ?e] Cons.prems by simp
  have "apply_edit ?ls h = Some (take ?s ?ls @ new_lines h @ drop ?e ?ls)"
    using e span by (intro apply_edit_span) auto
  also have "take ?s ?ls = take pos ls @ take (?s - pos) (drop pos ls)"
    using e se pos by (simp add: min_def) (metis le_add_diff_inverse take_add)
  also have "drop ?e ?ls = edit_all ?e hs ls"
    using e by simp
  finally show ?case
    using step by (simp add: apply_edits_append)
qed

text \<open>
  C22: Accepted hunks that do not overlap are applied all at once: in whatever order they are
  given, the result is the file read once with the stretch of every accepted hunk replaced (or,
  for an insertion, its lines put in behind the named line), earlier edits never shifting later
  ones, and hunks that are not accepted have no effect.
\<close>

theorem accepted_hunks_apply_at_once:
  assumes "accepted_hunks hs \<noteq> []"
    and "edits_ordered 0 (rev (bottom_up (accepted_hunks hs))) (length (str_lines original))"
  shows "apply_hunks original hs =
    Some (join_lines (edit_all 0 (rev (bottom_up (accepted_hunks hs))) (str_lines original)))"
  using apply_edits_reversed [OF assms(2)] assms(1) by (simp add: apply_hunks_def)

definition line_hunk :: "nat \<Rightarrow> nat \<Rightarrow> string \<Rightarrow> string \<Rightarrow> edit_hunk" where
  "line_hunk s e old new =
     \<lparr>eh_id = ''a-'' @ show_nat s, eh_file_path = ''a'', eh_start_line = s, eh_end_line = e,
      eh_original = old, eh_replacement = new, eh_description = [], eh_status = AcceptedHunk\<rparr>"

lemma accepted_hunks_apply_at_once_witness:
  "apply_hunks (''a'' @ nl # ''b'' @ nl # ''c'') [line_hunk 1 1 ''a'' ''A'', line_hunk 3 3 ''c'' ''C'']
    = Some (''A'' @ nl # ''b'' @ nl # ''C'')"
proof -
  let ?hs = "[line_hunk 1 1 ''a'' ''A'', line_hunk 3 3 ''c'' ''C'']"
  have "edits_ordered 0 (rev (bottom_up (accepted_hunks ?hs))) (length (str_lines (''a'' @ nl # ''b'' @ nl # ''c'')))"
    by code_simp
  moreover have "edit_all 0 (rev (bottom_up (accepted_hunks ?hs))) (str_lines (''a'' @ nl # ''b'' @ nl # ''c''))
      = [''A'', ''b'', ''C'']"
    by code_simp
  moreover have "accepted_hunks ?hs \<noteq> []" by (simp add: accepted_hunks_def line_hunk_def)
  ultimately show ?thesis
    using accepted_hunks_apply_at_once [of ?hs "''a'' @ nl # ''b'' @ nl # ''c''"] by simp
qed

subsection \<open>Panics\<close>

lemma apply_edit_total: "eh_start_line h \<le> eh_end_line h + 1 \<Longrightarrow> apply_edit ls h \<noteq> None"
  by (auto simp: apply_edit_def Let_def)

lemma apply_edits_total:
  "\<forall>h \<in> set hs. eh_start_line h \<le> eh_end_line h + 1 \<Longrightarrow> apply_edits ls hs \<noteq> None"
proof (induction hs arbitrary: ls)
  case Nil
  then show ?case by simp
next
  case (Cons h hs)
  then show ?case
    using apply_edit_total [of h ls] by (auto split: option.split)
qed

text \<open>
  Applying never panics when every accepted hunk names a range that is in order, however the
  hunks overlap and whether or not the file has the lines; a hunk whose range is out of order
  within the file panics.
\<close>

theorem ordered_ranges_never_panic:
  assumes "\<forall>h \<in> set (accepted_hunks hs). eh_start_line h \<le> eh_end_line h + 1"
  shows "apply_hunks original hs \<noteq> None"
proof -
  have "apply_edits (str_lines original) (bottom_up (accepted_hunks hs)) \<noteq> None"
    using assms by (intro apply_edits_total) (simp add: bottom_up_def)
  then show ?thesis by (simp add: apply_hunks_def Let_def)
qed

lemma ordered_ranges_never_panic_witness:
  "apply_hunks ''a'' [line_hunk 1 1 ''a'' ''A'', line_hunk 1 9 ''a'' []] \<noteq> None"
  using ordered_ranges_never_panic [of "[line_hunk 1 1 ''a'' ''A'', line_hunk 1 9 ''a'' []]" "''a''"]
  by (simp add: accepted_hunks_def line_hunk_def)

lemma range_out_of_order_panics:
  "apply_hunks (''a'' @ nl # ''b'' @ nl # ''c'') [line_hunk 3 1 [] []] = None"
  "fill_original_content (''a'' @ nl # ''b'' @ nl # ''c'') [line_hunk 3 1 [] []] = None"
  by code_simp+

subsection \<open>An insertion that was filled replaces\<close>

text \<open>
  An insertion loses the line it should follow: once the original content is filled in, as
  every session does, an accepted insertion after a line that is not empty is applied as the
  replacement of that line; without the filling it is inserted behind it.
\<close>

theorem filled_insertion_replaces:
  assumes "1 \<le> n" and "n \<le> length (str_lines content)" and "n \<noteq> usize_max"
    and "str_lines content ! (n - 1) \<noteq> []" and "new \<noteq> []"
  shows "\<exists>h. fill_hunk content (hunk_of_edit p (i, InsertAfter n new)) = Some h
    \<and> apply_hunks content [h\<lparr>eh_status := AcceptedHunk\<rparr>]
        = Some (join_lines (take (n - 1) (str_lines content) @ str_lines new @ drop n (str_lines content)))
    \<and> apply_hunks content [(hunk_of_edit p (i, InsertAfter n new))\<lparr>eh_status := AcceptedHunk\<rparr>]
        = Some (join_lines (take n (str_lines content) @ str_lines new @ drop n (str_lines content)))"
proof -
  let ?ls = "str_lines content" and ?h = "hunk_of_edit p (i, InsertAfter n new)"
  have "drop (n - 1) ?ls = ?ls ! (n - 1) # drop n ?ls"
    using assms(1,2) Cons_nth_drop_Suc [of "n - 1" ?ls] by simp
  moreover have lt: "n - 1 < length ?ls" using assms(1,2) by simp
  ultimately have one: "take (n - (n - 1)) (drop (n - 1) ?ls) = [?ls ! (n - 1)]"
    using assms(1) by simp
  have fill: "fill_hunk content ?h = Some (?h\<lparr>eh_original := ?ls ! (n - 1)\<rparr>)"
    using assms one lt by (simp add: fill_hunk_def hunk_of_edit_def line_range_def Let_def)
  have "apply_hunks content [(?h\<lparr>eh_original := ?ls ! (n - 1)\<rparr>)\<lparr>eh_status := AcceptedHunk\<rparr>]
      = Some (join_lines (take (n - 1) ?ls @ str_lines new @ drop n ?ls))"
    using assms lt
    by (simp add: apply_hunks_def accepted_hunks_def bottom_up_def apply_edit_def hunk_of_edit_def Let_def)
  moreover have "apply_hunks content [?h\<lparr>eh_status := AcceptedHunk\<rparr>]
      = Some (join_lines (take n ?ls @ str_lines new @ drop n ?ls))"
    using assms
    by (simp add: apply_hunks_def accepted_hunks_def bottom_up_def apply_edit_def hunk_of_edit_def Let_def)
  ultimately show ?thesis using fill by auto
qed

lemma filled_insertion_replaces_witness:
  "\<exists>h. fill_hunk (''use a;'' @ nl # ''fn f'') (hunk_of_edit ''x.rs'' (0, InsertAfter 1 ''use b;'')) = Some h
    \<and> apply_hunks (''use a;'' @ nl # ''fn f'') [h\<lparr>eh_status := AcceptedHunk\<rparr>]
        = Some (''use b;'' @ nl # ''fn f'')"
proof -
  have ls: "str_lines (''use a;'' @ nl # ''fn f'') = [''use a;'', ''fn f'']" "str_lines ''use b;'' = [''use b;'']"
    by code_simp+
  show ?thesis
    using filled_insertion_replaces [of 1 "''use a;'' @ nl # ''fn f''" "''use b;''" "''x.rs''" 0]
    unfolding ls by (auto simp: usize_max_def)
qed

subsection \<open>Sessions\<close>

text \<open>A file that was written reads back, and can be written again.\<close>

lemma walk_put_file:
  "walk n fs follow cur cs = Some loc \<Longrightarrow> loc \<noteq> [] \<Longrightarrow> (case node_at fs loc of Some Dir \<Rightarrow> False | Some (Link _) \<Rightarrow> False | _ \<Rightarrow> True)
    \<Longrightarrow> walk n (put_node loc (File t) fs) follow cur cs = Some loc"
proof (induction n fs follow cur cs rule: walk.induct)
  case (5 n fs follow cur s cs)
  let ?p = "cur @ [s]" and ?fs = "put_node loc (File t) fs"
  show ?case
  proof (cases "?p = loc")
    case True
    then have "cs = []" using 5 by (auto split: option.splits node.splits)
    then show ?thesis using True "5.prems"(2) by (simp add: node_at_put)
  next
    case False
    then have same: "node_at ?fs ?p = node_at fs ?p"
      using 5 by (simp add: node_at_put)
    show ?thesis
      using 5 False by (auto simp: same split: option.splits node.splits nat.splits if_splits)
  qed
qed auto

lemma write_reads_back:
  assumes "write_text path t fs = Some fs'"
  shows "read_to_string fs' path = Some t \<and> (\<forall>t'. \<exists>fs''. write_text path t' fs' = Some fs'')"
proof -
  obtain loc where loc: "locate fs True path = Some loc"
    and n: "case node_at fs loc of Some Dir \<Rightarrow> False | Some (Link _) \<Rightarrow> False | _ \<Rightarrow> True"
    and fs': "fs' = put_node loc (File t) fs"
    using assms by (auto simp: write_text_def split: option.splits node.splits)
  have ne: "loc \<noteq> []" using n by (auto simp: node_at_def)
  have "locate fs' True path = Some loc"
    using walk_put_file [OF _ ne n] loc by (simp add: locate_def fs')
  then show ?thesis
    using ne by (simp add: read_to_string_def stat_def write_text_def fs' node_at_put)
qed

lemma apply_hunks_none_accepted: "accepted_hunks hs = [] \<Longrightarrow> apply_hunks original hs = Some original"
  by (simp add: apply_hunks_def)

text \<open>A session on one file, as every opened session is.\<close>

lemma files_of_Nil: "files_of hs = [] \<longleftrightarrow> hs = []"
  by (simp add: files_of_def)

lemma one_file_hunks: "files_of hs = [p] \<Longrightarrow> filter (\<lambda>h. eh_file_path h = p) hs = hs"
  by (metis (mono_tags, lifting) files_of_def filter_True image_eqI list.set_map set_remdups empty_iff
      empty_set insertE list.simps(15))

lemma apply_one_file:
  assumes "hm_get sessions sid = Some s" and "files_of (es_hunks s) = [p]"
    and "hm_get (es_original_contents s) p = Some original"
    and "apply_accepted_hunks sid sessions fs = Some (Inr ps, sessions', fs')"
  shows "\<exists>text. apply_hunks original (es_hunks s) = Some text \<and> write_text (components p) text fs = Some fs'
    \<and> ps = [p] \<and> sessions' = hm_insert sid (s\<lparr>es_hunks := map mark_applied (es_hunks s)\<rparr>) sessions"
  using assms one_file_hunks [OF assms(2)]
  by (auto simp: apply_accepted_hunks_def split: option.splits sum.splits)

lemma mark_applied_path [simp]: "eh_file_path (mark_applied h) = eh_file_path h"
  by (simp add: mark_applied_def)

lemma none_accepted_after: "accepted_hunks (map mark_applied hs) = []"
  by (auto simp: accepted_hunks_def mark_applied_def filter_empty_conv)

text \<open>
  Applying a session writes the original file with the accepted hunks, and marks them applied;
  applying it once more writes the original file back. The second time nothing is accepted, and
  the session still starts from the contents it read when it was opened.
\<close>

theorem second_application_reverts:
  assumes "hm_get sessions sid = Some s" and "files_of (es_hunks s) = [p]"
    and "hm_get (es_original_contents s) p = Some original"
    and "apply_accepted_hunks sid sessions fs = Some (Inr ps, sessions', fs')"
  shows "read_to_string fs' (components p) = apply_hunks original (es_hunks s)
    \<and> (\<exists>sessions'' fs''. apply_accepted_hunks sid sessions' fs' = Some (Inr [p], sessions'', fs'')
        \<and> read_to_string fs'' (components p) = Some original)"
proof -
  let ?s = "s\<lparr>es_hunks := map mark_applied (es_hunks s)\<rparr>"
  obtain new where t: "apply_hunks original (es_hunks s) = Some new"
    and w: "write_text (components p) new fs = Some fs'" and ps: "ps = [p]"
    and s': "sessions' = hm_insert sid ?s sessions"
    using apply_one_file [OF assms] by blast
  note rb = write_reads_back [OF w]
  then obtain fs'' where w2: "write_text (components p) original fs' = Some fs''" by blast
  have files: "files_of (map mark_applied (es_hunks s)) = [p]"
    using assms(2) by (simp add: files_of_def comp_def)
  have get: "hm_get sessions' sid = Some ?s" by (simp add: s' hm_get_update)
  have "filter (\<lambda>h. eh_file_path h = p) (map mark_applied (es_hunks s)) = map mark_applied (es_hunks s)"
    using one_file_hunks [OF files] .
  then have "apply_accepted_hunks sid sessions' fs'
      = Some (Inr [p], hm_insert sid (?s\<lparr>es_hunks := map mark_applied (es_hunks ?s)\<rparr>) sessions', fs'')"
    using get files w2 assms(3) apply_hunks_none_accepted [OF none_accepted_after]
    by (simp add: apply_accepted_hunks_def)
  then show ?thesis
    using rb write_reads_back [OF w2] t by auto
qed

definition edit_fs :: file_system where
  "edit_fs = \<lparr>nodes = [([''a''], File (''x'' @ nl # ''y''))], cwd = []\<rparr>"

definition edit_answer :: structured_edit where
  "edit_answer = \<lparr>se_file = ''/a'', se_edits = [ReplaceLines 1 1 ''X'']\<rparr>"

definition opened :: edit_sessions where
  "opened =
     (case open_session (\<lambda>_. Some edit_answer) edit_fs ''s'' ''{}'' [] of
        Some (_, ss) \<Rightarrow> snd (update_hunk_status ''s'' ''/a-0'' True ss) | None \<Rightarrow> [])"

definition opened_session :: edit_session where
  "opened_session = (case hm_get opened ''s'' of Some s \<Rightarrow> s | None \<Rightarrow> \<lparr>es_id = [], es_hunks = [], es_original_contents = []\<rparr>)"

lemma second_application_reverts_witness:
  "\<exists>sessions' fs' sessions'' fs''.
     apply_accepted_hunks ''s'' opened edit_fs = Some (Inr [''/a''], sessions', fs')
     \<and> read_to_string fs' (components ''/a'') = Some (''X'' @ nl # ''y'')
     \<and> apply_accepted_hunks ''s'' sessions' fs' = Some (Inr [''/a''], sessions'', fs'')
     \<and> read_to_string fs'' (components ''/a'') = Some (''x'' @ nl # ''y'')"
proof -
  have get: "hm_get opened ''s'' = Some opened_session"
    and files: "files_of (es_hunks opened_session) = [''/a'']"
    and orig: "hm_get (es_original_contents opened_session) ''/a'' = Some (''x'' @ nl # ''y'')"
    and res: "apply_hunks (''x'' @ nl # ''y'') (es_hunks opened_session) = Some (''X'' @ nl # ''y'')"
    by code_simp+
  have "(case apply_accepted_hunks ''s'' opened edit_fs of Some (Inr ps, _, _) \<Rightarrow> ps = [''/a''] | _ \<Rightarrow> False)"
    by code_simp
  then obtain sessions' fs' where
    a: "apply_accepted_hunks ''s'' opened edit_fs = Some (Inr [''/a''], sessions', fs')"
    by (auto split: option.splits prod.splits sum.splits)
  show ?thesis
    using second_application_reverts [OF get files orig a] a res by auto
qed

text \<open>Every opened session has at most one file, the one the answer names.\<close>

lemma parsed_one_file: "parse_edit jp answer = Inr hs \<Longrightarrow> \<exists>p. \<forall>h \<in> set hs. eh_file_path h = p"
proof -
  assume p: "parse_edit jp answer = Inr hs"
  have path: "eh_file_path (hunk_of_edit q e) = q" for q e
    by (cases e) (auto simp: hunk_of_edit_def Let_def split: edit_operation.split)
  show ?thesis
  proof (cases "jp answer")
    case None
    with p show ?thesis by (simp add: parse_edit_def)
  next
    case (Some edit)
    with p show ?thesis by (auto simp: parse_edit_def path)
  qed
qed

text \<open>Applying loses the line feed at the end of the file.\<close>

lemma last_line_feed_is_lost:
  "apply_hunks (''a'' @ nl # ''b'' @ [nl]) [line_hunk 1 1 ''a'' ''A''] = Some (''A'' @ nl # ''b'')"
  by code_simp

text \<open>A diff of a file that was empty has no line on its old side: the header panics.\<close>

lemma diff_of_empty_file_panics:
  "unified_diff ''a'' [[(OpInsert 0 0 1, [\<lparr>dc_tag = TagInsert, dc_value = ''x'', dc_missing_newline = True\<rparr>])]] = None"
  by code_simp

end
