(* ===== verification/Core_Journal.thy ===== *)
theory Core_Journal
  imports Approval Atomic_Patcher Std_Dir Json "HOL-Library.Word"
begin

text \<open>
  The audit journal of the CLI core (crates/cli/src/core/journal.rs) with the request identifiers
  of crates/cli/src/core/request_id.rs: the journal in memory that answers a repeated key with its
  first entry, and the manager that keeps signed entries in a file and rotates it.

  serde's text and values, the HMAC and the standard hasher are the fields of \<open>journal_lib\<close>. Fresh
  identifiers, time stamps and modification times are arguments. The identifiers and paths inside
  an error and the texts of I/O errors are empty here.
\<close>

subsection \<open>Data\<close>

datatype journal_operation =
  OpSnapshot | PatchPreview | PatchApply | TestRun | ConfigChange | PolicyCheck | JournalMaintenance

record audit_entry =
  ae_id :: string
  ae_timestamp :: string
  ae_operation :: journal_operation
  ae_actor :: string
  ae_approval_level :: approval_level
  ae_sandbox_profile :: sandbox_profile
  ae_success :: bool
  ae_duration_ms :: "nat option"
  ae_affected_files :: "string list"
  ae_metadata :: json
  ae_signature :: "string option"

record journal_lib =
  jl_print :: "json \<Rightarrow> string"
  jl_parse :: "string \<Rightarrow> json option"
  jl_value :: "audit_entry \<Rightarrow> json"
  jl_entry :: "json \<Rightarrow> audit_entry option"
  jl_hmac :: "string \<Rightarrow> string \<Rightarrow> string"
  jl_hash :: "string list \<Rightarrow> 64 word"

subsection \<open>Request identifiers\<close>

text \<open>\<open>fresh\<close> is the identifier that \<open>Uuid::new_v4\<close> would make.\<close>

type_synonym request_tracker = "(string, string) hmap"

definition resolve_request ::
  "string \<Rightarrow> string option \<Rightarrow> request_tracker \<Rightarrow> string \<times> request_tracker"
where
  "resolve_request fresh key tr =
     (case key of
        None \<Rightarrow> (fresh, tr)
      | Some k \<Rightarrow>
          (case hm_get tr k of Some r \<Rightarrow> (r, tr) | None \<Rightarrow> (fresh, hm_insert k fresh tr)))"

subsection \<open>The journal in memory\<close>

record journal_response =
  jr_hmac :: string
  jr_offset :: nat
  jr_file :: string
  jr_request_id :: string

record core_journal =
  cj_path :: string
  cj_secret :: string
  cj_entries :: "json list"
  cj_idempotency :: "(string, nat \<times> string) hmap"

definition new_core_journal :: "string \<Rightarrow> string \<Rightarrow> core_journal" where
  "new_core_journal path secret =
     \<lparr>cj_path = path, cj_secret = secret, cj_entries = [], cj_idempotency = []\<rparr>"

text \<open>Sixteen lower-case hexadecimal digits.\<close>

definition hex_digit :: "nat \<Rightarrow> char" where
  "hex_digit n = (if n < 10 then char_of (48 + n) else char_of (87 + n))"

definition hex16 :: "64 word \<Rightarrow> string" where
  "hex16 w = map (\<lambda>i. hex_digit (unat w div 16 ^ i mod 16)) (rev [0..<16])"

text \<open>The hasher is fed the bytes of the entry, then those of the secret.\<close>

definition compute_hmac :: "journal_lib \<Rightarrow> core_journal \<Rightarrow> json \<Rightarrow> string" where
  "compute_hmac lib j entry = hex16 (jl_hash lib [jl_print lib entry, cj_secret j])"

definition offset_missing :: devit_error where
  "offset_missing = Internal ''journal'' ''idempotency offset missing'' None []"

definition response_at :: "journal_lib \<Rightarrow> core_journal \<Rightarrow> nat \<Rightarrow> string \<Rightarrow> journal_response" where
  "response_at lib j offset request =
     \<lparr>jr_hmac = compute_hmac lib j (cj_entries j ! offset), jr_offset = offset,
      jr_file = cj_path j, jr_request_id = request\<rparr>"

definition core_append ::
  "journal_lib \<Rightarrow> string \<Rightarrow> json \<Rightarrow> string option \<Rightarrow> request_tracker \<Rightarrow> core_journal
    \<Rightarrow> (devit_error + journal_response) \<times> request_tracker \<times> core_journal"
where
  "core_append lib fresh entry key tr j =
     (let (request, tr') = resolve_request fresh key tr
      in case Option.bind key (hm_get (cj_idempotency j)) of
           Some (offset, stored) \<Rightarrow>
             (if offset < length (cj_entries j) then (Inr (response_at lib j offset stored), tr', j)
              else (Inl offset_missing, tr', j))
         | None \<Rightarrow>
             (let offset = length (cj_entries j);
                  j1 = j\<lparr>cj_entries := cj_entries j @ [entry]\<rparr>;
                  j2 = (case key of
                          None \<Rightarrow> j1
                        | Some k \<Rightarrow>
                            j1\<lparr>cj_idempotency := hm_insert k (offset, request) (cj_idempotency j1)\<rparr>)
              in (Inr (response_at lib j2 offset request), tr', j2)))"

subsection \<open>The manager of a journal file\<close>

record journal_runtime_config =
  jc_enabled :: bool
  jc_sign_entries :: bool
  jc_max_file_size_mb :: nat
  jc_max_rotated_files :: nat
  jc_include_sensitive_data :: bool

record journal_manager =
  jm_path :: "component list"
  jm_signing_key :: "string option"
  jm_sign_entries :: bool
  jm_config :: journal_runtime_config

definition new_journal_manager :: "component list \<Rightarrow> journal_runtime_config \<Rightarrow> journal_manager" where
  "new_journal_manager path config =
     \<lparr>jm_path = path, jm_signing_key = None, jm_sign_entries = jc_sign_entries config,
      jm_config = config\<rparr>"

definition sign_entry :: "journal_lib \<Rightarrow> journal_manager \<Rightarrow> json \<Rightarrow> string option" where
  "sign_entry lib jm v = map_option (\<lambda>key. jl_hmac lib key (jl_print lib v)) (jm_signing_key jm)"

definition signed_entry :: "journal_lib \<Rightarrow> journal_manager \<Rightarrow> string \<Rightarrow> audit_entry \<Rightarrow> json" where
  "signed_entry lib jm stamp e =
     JObj [(''entry'', jl_value lib e),
           (''signature'',
             jstr_opt (if jm_sign_entries jm then sign_entry lib jm (jl_value lib e) else None)),
           (''timestamp'', JStr stamp)]"

definition append_entry ::
  "journal_lib \<Rightarrow> journal_manager \<Rightarrow> string \<Rightarrow> audit_entry \<Rightarrow> file_system
    \<Rightarrow> (devit_error + unit) \<times> file_system"
where
  "append_entry lib jm stamp e fs =
     (case (case path_parent (jm_path jm) of None \<Rightarrow> Some fs | Some par \<Rightarrow> create_dir_all par fs) of
        None \<Rightarrow> (Inl (Io ''create journal directory'' None []), fs)
      | Some fs1 \<Rightarrow>
          (case append_text (jm_path jm) (jl_print lib (signed_entry lib jm stamp e) @ [nl]) fs1 of
             None \<Rightarrow> (Inl (Io ''open journal file'' None []), fs1)
           | Some fs2 \<Rightarrow> (Inr (), fs2)))"

subsubsection \<open>Reading\<close>

fun read_lines :: "journal_lib \<Rightarrow> string list \<Rightarrow> devit_error + audit_entry list" where
  "read_lines lib [] = Inr []"
| "read_lines lib (l # ls) =
     (if trim l = [] then read_lines lib ls
      else case jl_parse lib l of
             None \<Rightarrow> Inl (Internal ''journal'' ''Failed to parse journal entry'' None [])
           | Some sv \<Rightarrow>
               (case jget sv ''entry'' of
                  None \<Rightarrow> read_lines lib ls
                | Some v \<Rightarrow>
                    (case jl_entry lib v of
                       None \<Rightarrow> Inl (Internal ''journal'' ''Failed to deserialize entry'' None [])
                     | Some e \<Rightarrow> map_sum id ((#) e) (read_lines lib ls))))"

definition journal_lines :: "journal_manager \<Rightarrow> file_system \<Rightarrow> devit_error + string list" where
  "journal_lines jm fs =
     (if \<not> path_exists fs (jm_path jm) then Inr []
      else case read_to_string fs (jm_path jm) of
             None \<Rightarrow> Inl (Io ''read journal line'' None [])
           | Some t \<Rightarrow> Inr (str_lines t))"

definition read_entries ::
  "journal_lib \<Rightarrow> journal_manager \<Rightarrow> file_system \<Rightarrow> devit_error + audit_entry list"
where
  "read_entries lib jm fs =
     (case journal_lines jm fs of Inl e \<Rightarrow> Inl e | Inr ls \<Rightarrow> read_lines lib ls)"

subsubsection \<open>Verification\<close>

record entry_verification =
  ev_entry_id :: string
  ev_signature_valid :: bool
  ev_format_valid :: bool
  ev_issues :: "string list"

definition signature_check ::
  "journal_lib \<Rightarrow> journal_manager \<Rightarrow> json \<Rightarrow> bool \<times> string list"
where
  "signature_check lib jm sv =
     (if \<not> jm_sign_entries jm then (True, [])
      else case (jget sv ''entry'', jget sv ''signature'') of
             (Some v, Some sg) \<Rightarrow>
               (case as_str sg of
                  Some t \<Rightarrow> (sign_entry lib jm v = Some t, [])
                | None \<Rightarrow> (False, [''Invalid signature format'']))
           | _ \<Rightarrow> (False, [''Missing entry or signature field'']))"

definition verify_entry :: "journal_lib \<Rightarrow> journal_manager \<Rightarrow> nat \<Rightarrow> string \<Rightarrow> entry_verification" where
  "verify_entry lib jm n l =
     (case jl_parse lib l of
        None \<Rightarrow>
          \<lparr>ev_entry_id = ''line_'' @ show_nat n, ev_signature_valid = False, ev_format_valid = False,
           ev_issues = [''Invalid JSON'']\<rparr>
      | Some sv \<Rightarrow>
          (let (sig_ok, issues) = signature_check lib jm sv;
               form_ok = jget sv ''entry'' \<noteq> None \<and> jget sv ''timestamp'' \<noteq> None
           in \<lparr>ev_entry_id = ''line_'' @ show_nat n, ev_signature_valid = sig_ok,
               ev_format_valid = form_ok,
               ev_issues = issues @ (if form_ok then [] else [''Invalid entry format''])\<rparr>))"

fun verify_from ::
  "journal_lib \<Rightarrow> journal_manager \<Rightarrow> nat \<Rightarrow> string list \<Rightarrow> entry_verification list"
where
  "verify_from lib jm n [] = []"
| "verify_from lib jm n (l # ls) =
     (if trim l = [] then verify_from lib jm (Suc n) ls
      else verify_entry lib jm n l # verify_from lib jm (Suc n) ls)"

definition verify_integrity ::
  "journal_lib \<Rightarrow> journal_manager \<Rightarrow> file_system \<Rightarrow> devit_error + entry_verification list"
where
  "verify_integrity lib jm fs =
     (case journal_lines jm fs of Inl e \<Rightarrow> Inl e | Inr ls \<Rightarrow> Inr (verify_from lib jm 1 ls))"

subsubsection \<open>Rotation\<close>

definition stem_of :: "component list \<Rightarrow> string" where
  "stem_of path = (case rev path of Normal f # _ \<Rightarrow> file_stem f | _ \<Rightarrow> [])"

definition rotated_name :: "journal_manager \<Rightarrow> string \<Rightarrow> string" where
  "rotated_name jm stamp = stem_of (jm_path jm) @ ''.'' @ stamp @ ''.jsonl''"

definition is_rotated :: "journal_manager \<Rightarrow> string \<Rightarrow> bool" where
  "is_rotated jm name \<longleftrightarrow>
     starts_with name (stem_of (jm_path jm)) \<and> contains name ''.'' \<and> ends_with name ''.jsonl''"

text \<open>A missing modification time comes before all others.\<close>

definition age_key :: "(string \<Rightarrow> nat option) \<Rightarrow> string \<Rightarrow> nat" where
  "age_key mtime n = (case mtime n of None \<Rightarrow> 0 | Some t \<Rightarrow> Suc t)"

definition prune_rotated ::
  "journal_manager \<Rightarrow> (string \<Rightarrow> nat option) \<Rightarrow> component list \<Rightarrow> string list \<Rightarrow> file_system \<Rightarrow> file_system"
where
  "prune_rotated jm mtime par listing fs =
     (let rotated = sort_key (age_key mtime) (filter (is_rotated jm) listing)
      in remove_names par
           (take (length rotated - jc_max_rotated_files (jm_config jm)) rotated) fs)"

definition file_size :: "node option \<Rightarrow> nat" where
  "file_size n = (case n of Some (File t) \<Rightarrow> length t | _ \<Rightarrow> 0)"

definition rotate_journal ::
  "journal_manager \<Rightarrow> string \<Rightarrow> (string \<Rightarrow> nat option) \<Rightarrow> file_system \<Rightarrow> (devit_error + bool) \<times> file_system"
where
  "rotate_journal jm stamp mtime fs =
     (if \<not> path_exists fs (jm_path jm) then (Inr False, fs)
      else if file_size (stat fs True (jm_path jm)) div (1024 * 1024)
                < jc_max_file_size_mb (jm_config jm)
      then (Inr False, fs)
      else
        let par = path_parent (jm_path jm);
            target = (case par of None \<Rightarrow> [CurDir] | Some d \<Rightarrow> d) @ [Normal (rotated_name jm stamp)]
        in case rename_file (jm_path jm) target fs of
             None \<Rightarrow> (Inl (Io ''rotate journal file'' None []), fs)
           | Some fs1 \<Rightarrow>
               (case par of
                  None \<Rightarrow> (Inr True, fs1)
                | Some d \<Rightarrow>
                    (case read_dir fs1 d of
                       None \<Rightarrow> (Inl (Io ''list rotated files'' None []), fs1)
                     | Some listing \<Rightarrow> (Inr True, prune_rotated jm mtime d listing fs1))))"

end
