(* ===== verification/Journal_Properties.thy ===== *)
theory Journal_Properties
  imports Core_Journal
begin

text \<open>
  What the audit journal promises: a repeated key is answered by its first entry, what was written
  is read back, and a rotation keeps the newest files; and what its verification does not notice.
\<close>

subsection \<open>Repeated keys\<close>

text \<open>A call: the tracker it meets, the fresh identifier, the entry and the key.\<close>

type_synonym append_call = "request_tracker \<times> string \<times> json \<times> string option"

definition call_append :: "journal_lib \<Rightarrow> append_call \<Rightarrow> core_journal \<Rightarrow> core_journal" where
  "call_append lib c j =
     (case c of (tr, fresh, e, key) \<Rightarrow> snd (snd (core_append lib fresh e key tr j)))"

definition append_calls :: "journal_lib \<Rightarrow> append_call list \<Rightarrow> core_journal \<Rightarrow> core_journal" where
  "append_calls lib cs j = fold (call_append lib) cs j"

definition offsets_ok :: "core_journal \<Rightarrow> bool" where
  "offsets_ok j \<longleftrightarrow>
     (\<forall>k off r. hm_get (cj_idempotency j) k = Some (off, r) \<longrightarrow> off < length (cj_entries j))"

text \<open>What later calls leave of a journal.\<close>

definition extends :: "core_journal \<Rightarrow> core_journal \<Rightarrow> bool" where
  "extends j j' \<longleftrightarrow>
     cj_path j' = cj_path j \<and> cj_secret j' = cj_secret j \<and> prefix (cj_entries j) (cj_entries j')
     \<and> (\<forall>k v. hm_get (cj_idempotency j) k = Some v \<longrightarrow> hm_get (cj_idempotency j') k = Some v)"

lemma extends_refl [simp]: "extends j j"
  by (simp add: extends_def)

lemma extends_trans: "extends a b \<Longrightarrow> extends b c \<Longrightarrow> extends a c"
  unfolding extends_def by (auto intro: prefix_order.trans)

lemma core_append_extends: "extends j (snd (snd (core_append lib fresh e key tr j)))"
  by (auto simp: core_append_def extends_def Let_def hm_get_update
      split: prod.splits option.splits if_splits)

lemma core_append_offsets:
  "offsets_ok j \<Longrightarrow> offsets_ok (snd (snd (core_append lib fresh e key tr j)))"
  unfolding offsets_ok_def
  by (fastforce simp: core_append_def Let_def hm_get_update less_Suc_eq
      split: prod.splits option.splits if_splits)

lemma append_calls_extends: "extends j (append_calls lib cs j)"
proof (induction cs arbitrary: j)
  case Nil
  then show ?case by (simp add: append_calls_def)
next
  case (Cons c cs)
  obtain tr fresh e key where "c = (tr, fresh, e, key)" by (cases c)
  then have "extends j (call_append lib c j)"
    by (simp add: call_append_def core_append_extends)
  with Cons show ?case by (auto simp: append_calls_def intro: extends_trans)
qed

lemma append_calls_offsets: "offsets_ok j \<Longrightarrow> offsets_ok (append_calls lib cs j)"
  by (induction cs arbitrary: j)
    (auto simp: append_calls_def call_append_def core_append_offsets split: prod.splits)

lemma new_journal_offsets [simp]: "offsets_ok (new_core_journal p s)"
  by (simp add: offsets_ok_def new_core_journal_def)

text \<open>The first answer for a key, and that it is kept.\<close>

lemma keyed_append:
  assumes "offsets_ok j"
  shows "\<exists>off r. off < length (cj_entries (snd (snd (core_append lib fresh e (Some k) tr j))))
    \<and> hm_get (cj_idempotency (snd (snd (core_append lib fresh e (Some k) tr j)))) k = Some (off, r)
    \<and> fst (core_append lib fresh e (Some k) tr j)
        = Inr (response_at lib (snd (snd (core_append lib fresh e (Some k) tr j))) off r)"
  using assms
  by (auto simp: core_append_def Let_def hm_get_update offsets_ok_def
      split: prod.splits option.splits)

lemma response_extends:
  "extends j j' \<Longrightarrow> off < length (cj_entries j) \<Longrightarrow> response_at lib j' off r = response_at lib j off r"
  by (auto simp: extends_def response_at_def compute_hmac_def prefix_def nth_append)

lemma known_key_append:
  assumes "hm_get (cj_idempotency j) k = Some (off, r)" and "off < length (cj_entries j)"
  shows "fst (core_append lib fresh e (Some k) tr j) = Inr (response_at lib j off r)"
    and "snd (snd (core_append lib fresh e (Some k) tr j)) = j"
  using assms by (auto simp: core_append_def Let_def split: prod.splits)

text \<open>
  in every state of the journal, appending with a key succeeds, and any later append with
  the same key, whatever was appended in between and whatever entry it brings, gives the very
  same response (offset, digest and request identifier) and leaves the journal as it is.
\<close>

theorem repeated_append_returns_first:
  "let j = append_calls lib before (new_core_journal path secret);
       first = core_append lib fresh e (Some k) tr j;
       j' = append_calls lib between (snd (snd first));
       again = core_append lib fresh' e' (Some k) tr' j'
   in (\<exists>r. fst first = Inr r \<and> fst again = Inr r) \<and> snd (snd again) = j'"
proof -
  let ?j = "append_calls lib before (new_core_journal path secret)"
  let ?j1 = "snd (snd (core_append lib fresh e (Some k) tr ?j))"
  let ?j2 = "append_calls lib between ?j1"
  have ok: "offsets_ok ?j" by (simp add: append_calls_offsets)
  obtain off r where off: "off < length (cj_entries ?j1)"
      and key: "hm_get (cj_idempotency ?j1) k = Some (off, r)"
      and first: "fst (core_append lib fresh e (Some k) tr ?j) = Inr (response_at lib ?j1 off r)"
    using keyed_append [OF ok, of lib fresh e k tr] by blast
  have ext: "extends ?j1 ?j2" by (rule append_calls_extends)
  then have key2: "hm_get (cj_idempotency ?j2) k = Some (off, r)"
    using key by (simp add: extends_def)
  have off2: "off < length (cj_entries ?j2)"
    using ext off prefix_length_le by (fastforce simp: extends_def)
  show ?thesis
    using first known_key_append [OF key2 off2, of lib fresh' e' tr'] response_extends [OF ext off]
    by (simp add: Let_def)
qed

subsection \<open>A journal file in a directory\<close>

definition in_directory :: "journal_manager \<Rightarrow> string list \<Rightarrow> string \<Rightarrow> bool" where
  "in_directory jm root f \<longleftrightarrow> jm_path jm = RootDir # map Normal root @ [Normal f]"

lemma append_entry_in_directory:
  assumes "work_tree fs root" and "in_directory jm root f"
    and "node_at fs (root @ [f]) = (if old = [] then None else Some (File old))"
  shows "append_entry lib jm stamp e fs
    = (Inr (), put_node (root @ [f]) (File (old @ jl_print lib (signed_entry lib jm stamp e) @ [nl])) fs)"
  using assms(3) locate_entry [OF assms(1)] create_directory [OF assms(1)] assms(2)
  by (auto simp: append_entry_def in_directory_def path_parent_def append_text_def butlast_append
      split: if_splits)

text \<open>Appending entries, each with its time stamp, up to the first failure.\<close>

fun append_run ::
  "journal_lib \<Rightarrow> journal_manager \<Rightarrow> (string \<times> audit_entry) list \<Rightarrow> file_system
    \<Rightarrow> (devit_error + unit) \<times> file_system"
where
  "append_run lib jm [] fs = (Inr (), fs)"
| "append_run lib jm ((stamp, e) # es) fs =
     (case append_entry lib jm stamp e fs of
        (Inl err, fs') \<Rightarrow> (Inl err, fs')
      | (Inr _, fs') \<Rightarrow> append_run lib jm es fs')"

definition journal_text :: "journal_lib \<Rightarrow> journal_manager \<Rightarrow> (string \<times> audit_entry) list \<Rightarrow> string" where
  "journal_text lib jm es =
     concat (map (\<lambda>(stamp, e). jl_print lib (signed_entry lib jm stamp e) @ [nl]) es)"

text \<open>serde reads one entry back from the one line it prints.\<close>

definition codes_entry :: "journal_lib \<Rightarrow> journal_manager \<Rightarrow> string \<times> audit_entry \<Rightarrow> bool" where
  "codes_entry lib jm x =
     (case x of (stamp, e) \<Rightarrow>
        let t = jl_print lib (signed_entry lib jm stamp e)
        in nl \<notin> set t \<and> cr \<notin> set t \<and> trim t \<noteq> []
           \<and> jl_parse lib t = Some (signed_entry lib jm stamp e)
           \<and> jl_entry lib (jl_value lib e) = Some e)"

lemma append_run_text:
  assumes "work_tree fs root" and "in_directory jm root f"
    and "node_at fs (root @ [f]) = (if old = [] then None else Some (File old))" and "es \<noteq> []"
  shows "\<exists>fs'. append_run lib jm es fs = (Inr (), fs')
    \<and> node_at fs' (root @ [f]) = Some (File (old @ journal_text lib jm es))
    \<and> work_tree fs' root \<and> (\<forall>l. l \<noteq> root @ [f] \<longrightarrow> node_at fs' l = node_at fs l)"
  using assms
proof (induction es arbitrary: fs old)
  case Nil
  then show ?case by simp
next
  case (Cons x es)
  obtain stamp e where x: "x = (stamp, e)" by (cases x)
  let ?t = "old @ jl_print lib (signed_entry lib jm stamp e) @ [nl]"
  let ?fs = "put_node (root @ [f]) (File ?t) fs"
  have here: "append_entry lib jm stamp e fs = (Inr (), ?fs)"
    using append_entry_in_directory [OF Cons.prems(1-3)] .
  have wt: "work_tree ?fs root"
    using work_tree_put_file [OF Cons.prems(1)] .
  have node: "node_at ?fs (root @ [f]) = Some (File ?t)"
    by (simp add: node_at_put)
  show ?case
  proof (cases "es = []")
    case True
    then show ?thesis
      using here wt node by (simp add: x journal_text_def node_at_put_other)
  next
    case False
    have "node_at ?fs (root @ [f]) = (if ?t = [] then None else Some (File ?t))"
      using node by simp
    from Cons.IH [OF wt Cons.prems(2) this False] obtain fs'
      where "append_run lib jm es ?fs = (Inr (), fs')"
        and "node_at fs' (root @ [f]) = Some (File (?t @ journal_text lib jm es))"
        and "work_tree fs' root" and "\<forall>l. l \<noteq> root @ [f] \<longrightarrow> node_at fs' l = node_at ?fs l"
      by blast
    then show ?thesis
      using here by (intro exI [of _ fs']) (simp add: x journal_text_def node_at_put_other)
  qed
qed

lemma journal_text_lines:
  "list_all (codes_entry lib jm) es \<Longrightarrow>
     str_lines (journal_text lib jm es) = map (\<lambda>(stamp, e). jl_print lib (signed_entry lib jm stamp e)) es"
  by (induction es) (auto simp: journal_text_def codes_entry_def Let_def str_lines_line strip_cr_id)

lemma jget_signed [simp]:
  "jget (signed_entry lib jm stamp e) ''entry'' = Some (jl_value lib e)"
  "jget (signed_entry lib jm stamp e) ''signature''
    = Some (jstr_opt (if jm_sign_entries jm then sign_entry lib jm (jl_value lib e) else None))"
  "jget (signed_entry lib jm stamp e) ''timestamp'' = Some (JStr stamp)"
  by (simp_all add: signed_entry_def)

lemma read_printed:
  "list_all (codes_entry lib jm) es \<Longrightarrow>
     read_lines lib (map (\<lambda>(stamp, e). jl_print lib (signed_entry lib jm stamp e)) es)
       = Inr (map snd es)"
  by (induction es) (auto simp: codes_entry_def Let_def)

lemma journal_lines_file:
  assumes "work_tree fs root" and "in_directory jm root f"
  shows "journal_lines jm fs
    = (case node_at fs (root @ [f]) of
         None \<Rightarrow> Inr []
       | Some (File t) \<Rightarrow> Inr (str_lines t)
       | _ \<Rightarrow> Inl (Io ''read journal line'' None []))"
  using assms(2) locate_entry [OF assms(1)]
  by (auto simp: journal_lines_def in_directory_def path_exists_def stat_def read_to_string_def
      split: option.split node.split)

text \<open>
  entries that are appended to a fresh journal in an existing directory without links are all
  written, in order, touch no other file, and are what reading gives back.
\<close>

theorem appended_entries_are_read:
  assumes "work_tree fs root" and "in_directory jm root f" and "node_at fs (root @ [f]) = None"
    and "list_all (codes_entry lib jm) es"
  shows "\<exists>fs'. append_run lib jm es fs = (Inr (), fs') \<and> read_entries lib jm fs' = Inr (map snd es)
    \<and> (\<forall>l. l \<noteq> root @ [f] \<longrightarrow> node_at fs' l = node_at fs l)"
proof (cases "es = []")
  case True
  then show ?thesis
    using assms(3) journal_lines_file [OF assms(1,2)] by (simp add: read_entries_def)
next
  case False
  from append_run_text [OF assms(1,2) _ False, of "[]"] assms(3) obtain fs'
    where run: "append_run lib jm es fs = (Inr (), fs')"
      and node: "node_at fs' (root @ [f]) = Some (File (journal_text lib jm es))"
      and wt: "work_tree fs' root" and other: "\<forall>l. l \<noteq> root @ [f] \<longrightarrow> node_at fs' l = node_at fs l"
    by auto
  have "read_entries lib jm fs' = Inr (map snd es)"
    using journal_lines_file [OF wt assms(2)] node journal_text_lines [OF assms(4)]
      read_printed [OF assms(4)]
    by (simp add: read_entries_def)
  with run other show ?thesis by blast
qed

subsection \<open>What verification says\<close>

text \<open>
  A manager is made without a key and has no operation to set one, so where signatures are asked
  for, no entry of any journal passes.
\<close>

lemma no_signature_is_valid:
  assumes "jc_sign_entries config"
    and "verify_integrity lib (new_journal_manager path config) fs = Inr vs" and "v \<in> set vs"
  shows "\<not> ev_signature_valid v"
proof -
  have "\<not> ev_signature_valid (verify_entry lib (new_journal_manager path config) n l)" for n l
    using assms(1)
    by (simp add: verify_entry_def signature_check_def new_journal_manager_def sign_entry_def Let_def
        split: option.split)
  then have "v \<in> set (verify_from lib (new_journal_manager path config) n ls) \<Longrightarrow> \<not> ev_signature_valid v"
    for n ls by (induction ls arbitrary: n) (auto split: if_splits)
  with assms(2,3) show ?thesis
    by (auto simp: verify_integrity_def split: sum.splits)
qed

text \<open>
  Each line is judged by itself: nothing ties an entry to its neighbours, so lines that are
  removed, doubled or put in another order are not noticed.
\<close>

definition verdict :: "entry_verification \<Rightarrow> bool \<times> bool \<times> string list" where
  "verdict v = (ev_signature_valid v, ev_format_valid v, ev_issues v)"

lemma verdict_number: "verdict (verify_entry lib jm n l) = verdict (verify_entry lib jm 0 l)"
  by (simp add: verdict_def verify_entry_def Let_def split: option.split prod.split)

lemma verification_is_by_line:
  "map verdict (verify_from lib jm n ls)
    = map (\<lambda>l. verdict (verify_entry lib jm 0 l)) (filter (\<lambda>l. trim l \<noteq> []) ls)"
  by (induction ls arbitrary: n) (auto intro: verdict_number)

lemma removed_lines_are_not_noticed:
  assumes "\<forall>v \<in> set (verify_from lib jm n ls). verdict v = (True, True, [])" and "set ks \<subseteq> set ls"
  shows "\<forall>v \<in> set (verify_from lib jm m ks). verdict v = (True, True, [])"
proof -
  have "verdict ` set (verify_from lib jm i xs)
      = (\<lambda>l. verdict (verify_entry lib jm 0 l)) ` {l \<in> set xs. trim l \<noteq> []}" for i xs
    using arg_cong [OF verification_is_by_line [of lib jm i xs], of set] by simp
  then have "verdict ` set (verify_from lib jm m ks) \<subseteq> verdict ` set (verify_from lib jm n ls)"
    using assms(2) by auto
  moreover have "verdict ` set (verify_from lib jm n ls) \<subseteq> {(True, True, [])}"
    using assms(1) by blast
  ultimately show ?thesis by blast
qed

subsection \<open>Rotation\<close>

text \<open>Removing names takes away the files among them and nothing else.\<close>

lemma rfind_dot_None: "rfind_str ''.'' f = None \<Longrightarrow> CHR ''.'' \<notin> set f"
  by (induction f) (auto split: option.splits if_splits)

lemma no_dot_in_extension:
  "rfind_str ''.'' f = Some n \<Longrightarrow> CHR ''.'' \<notin> set (drop (Suc n) f) \<and> n < length f"
  by (induction f arbitrary: n) (auto split: option.splits if_splits dest: rfind_dot_None)

lemma rotated_name_differs: "in_directory jm root f \<Longrightarrow> rotated_name jm stamp \<noteq> f"
proof
  assume "in_directory jm root f" and eq: "rotated_name jm stamp = f"
  then have f: "f = file_stem f @ ''.'' @ stamp @ ''.jsonl''"
    by (simp add: rotated_name_def stem_of_def in_directory_def)
  show False
  proof (cases "rfind_str ''.'' f")
    case None
    then have "file_stem f = f" by (simp add: file_stem_def)
    with f show False by simp
  next
    case (Some n)
    show False
    proof (cases n)
      case 0
      with Some have "file_stem f = f" by (simp add: file_stem_def)
      with f show False by simp
    next
      case (Suc m)
      with Some have "file_stem f = take n f" by (simp add: file_stem_def)
      with f have "drop n f = ''.'' @ stamp @ ''.jsonl''"
        by (metis append_take_drop_id same_append_eq)
      then have "drop (Suc n) f = stamp @ ''.jsonl''"
        by (metis append_Cons append_Nil drop_Suc list.sel(3) tl_drop)
      with no_dot_in_extension [OF Some] show False by simp
    qed
  qed
qed

lemma rotated_name_is_rotated: "is_rotated jm (rotated_name jm stamp)"
  by (simp add: is_rotated_def rotated_name_def starts_with_def ends_with_def contains_def
      suffix_def) (metis append.assoc append_Cons append_Nil sublist_appendI)

text \<open>The files of the directory that count as rotated, and those there are after the move.\<close>

definition rotated_files :: "journal_manager \<Rightarrow> string list \<Rightarrow> file_system \<Rightarrow> string set" where
  "rotated_files jm root fs = {n. is_rotated jm n \<and> node_at fs (root @ [n]) \<noteq> None}"

definition moved_journal :: "journal_manager \<Rightarrow> string list \<Rightarrow> string \<Rightarrow> string \<Rightarrow> string \<Rightarrow> file_system \<Rightarrow> file_system"
where
  "moved_journal jm root f stamp c fs =
     put_node (root @ [rotated_name jm stamp]) (File c) (del_node (root @ [f]) fs)"

lemma node_at_moved:
  "node_at (moved_journal jm root f stamp c fs) l
    = (if l = root @ [rotated_name jm stamp] then Some (File c)
       else if l = root @ [f] then None else node_at fs l)"
  by (simp add: moved_journal_def node_at_put node_at_del)

lemma rename_journal:
  assumes "work_tree fs root" and "in_directory jm root f"
    and "node_at fs (root @ [f]) = Some (File c)"
    and "node_at fs (root @ [rotated_name jm stamp]) \<noteq> Some Dir"
  shows "rename_file (jm_path jm) (RootDir # map Normal root @ [Normal (rotated_name jm stamp)]) fs
    = Some (moved_journal jm root f stamp c fs)"
proof -
  have "locate fs False (jm_path jm) = Some (root @ [f])"
    using locate_entry [OF assms(1)] assms(2) by (simp add: in_directory_def)
  moreover have "root @ [f] \<noteq> root @ [rotated_name jm stamp]"
    using rotated_name_differs [OF assms(2), of stamp] by auto
  ultimately show ?thesis
    using locate_entry [OF assms(1), of False "rotated_name jm stamp"] assms(3,4)
    by (simp add: rename_file_def moved_journal_def)
qed

lemma pruned_names:
  fixes n :: nat and rs :: "string list"
  assumes "distinct rs" and "sorted (map key rs)"
  shows "card (set (drop (length rs - n) rs)) = min n (length rs)"
    and "a \<in> set (take (length rs - n) rs) \<Longrightarrow> b \<in> set (drop (length rs - n) rs) \<Longrightarrow> key a \<le> key b"
    and "set rs - set (drop (length rs - n) rs) = set (take (length rs - n) rs)"
proof -
  let ?k = "length rs - n"
  have rs: "rs = take ?k rs @ drop ?k rs" by simp
  show "card (set (drop ?k rs)) = min n (length rs)"
    using assms(1) by (simp add: distinct_card)
  have "sorted (map key (take ?k rs) @ map key (drop ?k rs))"
    using assms(2) rs by (metis map_append)
  then show "a \<in> set (take ?k rs) \<Longrightarrow> b \<in> set (drop ?k rs) \<Longrightarrow> key a \<le> key b"
    by (simp add: sorted_append)
  show "set rs - set (drop ?k rs) = set (take ?k rs)"
    using assms(1) set_append [of "take ?k rs" "drop ?k rs"]
      distinct_append [of "take ?k rs" "drop ?k rs"] by auto
qed

lemma rotation_steps:
  assumes "work_tree fs root" and "in_directory jm root f" and "hm_wf (nodes fs)"
    and "node_at fs (root @ [f]) = Some (File c)"
    and "jc_max_file_size_mb (jm_config jm) \<le> length c div (1024 * 1024)"
    and "\<forall>n. is_rotated jm n \<longrightarrow> node_at fs (root @ [n]) \<noteq> Some Dir"
  shows "\<exists>ns. distinct ns \<and> set ns = {n. node_at (moved_journal jm root f stamp c fs) (root @ [n]) \<noteq> None}
    \<and> rotate_journal jm stamp mtime fs
      = (Inr True, prune_rotated jm mtime (RootDir # map Normal root) ns (moved_journal jm root f stamp c fs))"
proof -
  let ?fs1 = "moved_journal jm root f stamp c fs"
  have "work_tree ?fs1 root"
    unfolding moved_journal_def
    by (intro work_tree_put_file work_tree_del_entry) (rule assms(1))
  moreover have "hm_wf (nodes ?fs1)"
    using assms(3) by (simp add: moved_journal_def put_node_def del_node_def hm.wf_ins hm.wf_rem)
  ultimately obtain ns where ns: "read_dir ?fs1 (RootDir # map Normal root) = Some ns"
      "distinct ns" "set ns = {n. node_at ?fs1 (root @ [n]) \<noteq> None}"
    using read_dir_names by blast
  have par: "path_parent (jm_path jm) = Some (RootDir # map Normal root)"
    using assms(2) by (simp add: in_directory_def path_parent_def butlast_append)
  have st: "stat fs True (jm_path jm) = Some (File c)"
    using locate_entry [OF assms(1)] assms(2,4) by (simp add: stat_def in_directory_def)
  have "node_at fs (root @ [rotated_name jm stamp]) \<noteq> Some Dir"
    using assms(6) rotated_name_is_rotated by blast
  from rename_journal [OF assms(1,2,4) this] have "rotate_journal jm stamp mtime fs
      = (Inr True, prune_rotated jm mtime (RootDir # map Normal root) ns ?fs1)"
    using assms(5) par st ns(1) by (simp add: rotate_journal_def path_exists_def file_size_def)
  with ns(2,3) show ?thesis by blast
qed

text \<open>
  a rotation moves the journal to its dated name and then keeps, of all the files that count
  as rotated, the newest ones, as many as the configuration allows; nothing else in the directory
  or elsewhere changes.
\<close>

theorem rotation_keeps_the_newest:
  assumes "work_tree fs root" and "in_directory jm root f" and "hm_wf (nodes fs)"
    and "node_at fs (root @ [f]) = Some (File c)"
    and "jc_max_file_size_mb (jm_config jm) \<le> length c div (1024 * 1024)"
    and "\<forall>n. is_rotated jm n \<longrightarrow> node_at fs (root @ [n]) \<noteq> Some Dir"
  shows "\<exists>fs'. rotate_journal jm stamp mtime fs = (Inr True, fs')
    \<and> (let all = rotated_files jm root (moved_journal jm root f stamp c fs);
           kept = rotated_files jm root fs'
       in kept \<subseteq> all \<and> card kept = min (jc_max_rotated_files (jm_config jm)) (card all)
          \<and> (\<forall>a \<in> all - kept. \<forall>b \<in> kept. age_key mtime a \<le> age_key mtime b)
          \<and> (\<forall>l. (\<forall>n \<in> all - kept. l \<noteq> root @ [n])
                \<longrightarrow> node_at fs' l = node_at (moved_journal jm root f stamp c fs) l))"
proof -
  let ?fs1 = "moved_journal jm root f stamp c fs"
  let ?n = "jc_max_rotated_files (jm_config jm)"
  obtain ns where ns: "distinct ns" "set ns = {n. node_at ?fs1 (root @ [n]) \<noteq> None}"
      and run: "rotate_journal jm stamp mtime fs
        = (Inr True, prune_rotated jm mtime (RootDir # map Normal root) ns ?fs1)"
    using rotation_steps [OF assms, of stamp mtime] by blast
  define rs where "rs = sort_key (age_key mtime) (filter (is_rotated jm) ns)"
  let ?gone = "take (length rs - ?n) rs"
  let ?fs2 = "remove_names (RootDir # map Normal root) ?gone ?fs1"
  have all: "set rs = rotated_files jm root ?fs1"
    using ns(2) by (auto simp: rotated_files_def rs_def)
  have sorted: "distinct rs" "sorted (map (age_key mtime) rs)"
    using ns(1) by (simp_all add: rs_def)
  note pruned = pruned_names [OF sorted, where n = ?n]
  have wt: "work_tree ?fs1 root"
    unfolding moved_journal_def by (intro work_tree_put_file work_tree_del_entry) (rule assms(1))
  have gone: "set ?gone \<subseteq> rotated_files jm root ?fs1"
    using all set_take_subset by fast
  have nodir: "node_at ?fs1 (root @ [n]) \<noteq> Some Dir" if "is_rotated jm n" for n
    using assms(6) that by (simp add: node_at_moved)
  have node: "node_at ?fs2 l = (if \<exists>n \<in> set ?gone. l = root @ [n] then None else node_at ?fs1 l)" for l
    using remove_names_result [OF wt] gone nodir by (auto simp: rotated_files_def)
  have kept: "rotated_files jm root ?fs2 = set rs - set ?gone"
    unfolding all by (auto simp: rotated_files_def node)
  also have "\<dots> = set (drop (length rs - ?n) rs)"
    using pruned(3) set_drop_subset [of "length rs - ?n" rs] by blast
  finally have kept2: "rotated_files jm root ?fs2 = set (drop (length rs - ?n) rs)" .
  have lost: "rotated_files jm root ?fs1 - rotated_files jm root ?fs2 = set ?gone"
    unfolding kept2 all [symmetric] by (rule pruned(3))
  have card: "card (rotated_files jm root ?fs1) = length rs"
    unfolding all [symmetric] by (rule distinct_card) (rule sorted(1))
  have "rotate_journal jm stamp mtime fs = (Inr True, ?fs2)"
    using run by (simp add: prune_rotated_def Let_def rs_def)
  moreover have "rotated_files jm root ?fs2 \<subseteq> rotated_files jm root ?fs1"
    using kept all by blast
  moreover have "card (rotated_files jm root ?fs2) = min ?n (card (rotated_files jm root ?fs1))"
    using pruned(1) card kept2 by simp
  moreover have "\<forall>a \<in> rotated_files jm root ?fs1 - rotated_files jm root ?fs2.
      \<forall>b \<in> rotated_files jm root ?fs2. age_key mtime a \<le> age_key mtime b"
    unfolding lost unfolding kept2 using pruned(2) by blast
  moreover have "\<forall>l. (\<forall>n \<in> rotated_files jm root ?fs1 - rotated_files jm root ?fs2. l \<noteq> root @ [n])
      \<longrightarrow> node_at ?fs2 l = node_at ?fs1 l"
    unfolding lost using node by auto
  ultimately show ?thesis
    unfolding Let_def by (intro exI [of _ ?fs2] conjI)
qed

subsection \<open>Instances\<close>

text \<open>A directory with a journal and a file of somebody else, and a codec for one entry.\<close>

definition audit_fs :: file_system where
  "audit_fs =
     \<lparr>nodes = [([''j''], Dir), ([''j'', ''audit.jsonl''], File ''x''),
               ([''j'', ''audit-notes.jsonl''], File ''n'')], cwd = []\<rparr>"

definition audit_manager :: journal_manager where
  "audit_manager =
     new_journal_manager [RootDir, Normal ''j'', Normal ''audit.jsonl'']
       \<lparr>jc_enabled = True, jc_sign_entries = False, jc_max_file_size_mb = 0,
        jc_max_rotated_files = 1, jc_include_sensitive_data = False\<rparr>"

definition sample_entry :: audit_entry where
  "sample_entry =
     \<lparr>ae_id = ''1'', ae_timestamp = ''t'', ae_operation = PatchApply, ae_actor = ''me'',
      ae_approval_level = Ask, ae_sandbox_profile = Strict, ae_success = True,
      ae_duration_ms = None, ae_affected_files = [], ae_metadata = JNull, ae_signature = None\<rparr>"

definition sample_lib :: journal_lib where
  "sample_lib =
     \<lparr>jl_print = (\<lambda>v. case get_str v ''timestamp'' of Some t \<Rightarrow> t | None \<Rightarrow> ''x''),
      jl_parse = (\<lambda>t. Some (JObj [(''entry'', JNull), (''signature'', JNull), (''timestamp'', JStr t)])),
      jl_value = (\<lambda>e. JNull), jl_entry = (\<lambda>v. Some sample_entry),
      jl_hmac = (\<lambda>k t. t), jl_hash = (\<lambda>bs. 0)\<rparr>"

lemma audit_nodes:
  "node_at audit_fs l
    = (if l = [] \<or> l = [''j''] then Some Dir
       else if l = [''j'', ''audit.jsonl''] then Some (File ''x'')
       else if l = [''j'', ''audit-notes.jsonl''] then Some (File ''n'') else None)"
  by (simp add: node_at_def audit_fs_def)

lemma audit_tree: "work_tree audit_fs [''j'']"
  by (auto simp: work_tree_def link_free_def audit_nodes prefix_Cons)

lemma audit_in_directory: "in_directory audit_manager [''j''] ''audit.jsonl''"
  by (simp add: in_directory_def audit_manager_def new_journal_manager_def)

lemma audit_stem: "stem_of (jm_path audit_manager) = ''audit''"
  by (simp add: stem_of_def audit_manager_def new_journal_manager_def file_stem_def)

text \<open>
  Every file whose name begins with the stem of the journal counts as one of its rotations: the
  notes beside the journal are removed by the first rotation.
\<close>

lemma foreign_file_is_removed:
  "case rotate_journal audit_manager ''20250101_000000'' (\<lambda>n. if n = ''audit-notes.jsonl'' then Some 1 else Some 2) audit_fs
   of (res, fs') \<Rightarrow> res = Inr True \<and> read_to_string fs' (components ''/j/audit-notes.jsonl'') = None"
  by code_simp

lemma rotation_keeps_the_newest_witness:
  "\<exists>fs'. rotate_journal audit_manager ''20250101_000000'' (\<lambda>n. Some 1) audit_fs = (Inr True, fs')
     \<and> card (rotated_files audit_manager [''j''] fs') \<le> 1"
proof -
  have "hm_wf (nodes audit_fs)" by (simp add: hm_wf_def audit_fs_def)
  moreover have "node_at audit_fs ([''j''] @ [''audit.jsonl'']) = Some (File ''x'')"
    by (simp add: audit_nodes)
  moreover have "jc_max_file_size_mb (jm_config audit_manager) \<le> length ''x'' div (1024 * 1024)"
    by (simp add: audit_manager_def new_journal_manager_def)
  moreover have "\<forall>n. is_rotated audit_manager n \<longrightarrow> node_at audit_fs ([''j''] @ [n]) \<noteq> Some Dir"
    by (simp add: audit_nodes)
  moreover have "jc_max_rotated_files (jm_config audit_manager) = 1"
    by (simp add: audit_manager_def new_journal_manager_def)
  ultimately show ?thesis
    using rotation_keeps_the_newest [OF audit_tree audit_in_directory,
        of "''x''" "''20250101_000000''" "\<lambda>n. Some 1"]
    by (auto simp: Let_def)
qed

lemma appended_entries_are_read_witness:
  "let jm = new_journal_manager [RootDir, Normal ''j'', Normal ''log.jsonl''] (jm_config audit_manager)
   in \<exists>fs'. append_run sample_lib jm [(''t1'', sample_entry), (''t2'', sample_entry)] audit_fs = (Inr (), fs')
     \<and> read_entries sample_lib jm fs' = Inr [sample_entry, sample_entry]"
proof -
  let ?jm = "new_journal_manager [RootDir, Normal ''j'', Normal ''log.jsonl''] (jm_config audit_manager)"
  have "in_directory ?jm [''j''] ''log.jsonl''"
    by (simp add: in_directory_def new_journal_manager_def)
  moreover have "node_at audit_fs ([''j''] @ [''log.jsonl'']) = None"
    by (simp add: audit_nodes)
  moreover have "list_all (codes_entry sample_lib ?jm) [(''t1'', sample_entry), (''t2'', sample_entry)]"
    by code_simp
  ultimately show ?thesis
    using appended_entries_are_read [OF audit_tree, of ?jm "''log.jsonl''" sample_lib
        "[(''t1'', sample_entry), (''t2'', sample_entry)]"]
    by (auto simp: Let_def)
qed

end
