(* ===== verification/Process_Paths.thy ===== *)
theory Process_Paths
  imports Path_Security Str_Search Std_Dir
begin

text \<open>
  The path checks before a program is started (crates/common/src/process_utils.rs): paths are made
  lexically plain, held below a root and kept free of symbolic links but for a few of the system.
  A path is the list of its components; errors are their texts without paths.
\<close>

subsection \<open>Plain paths\<close>

definition path_pop :: "component list \<Rightarrow> component list" where
  "path_pop cs = (if cs = [] \<or> last cs = RootDir then cs else butlast cs)"

fun push_component :: "component \<Rightarrow> component list \<Rightarrow> component list" where
  "push_component RootDir cs = [RootDir]"
| "push_component CurDir cs = cs"
| "push_component ParentDir cs = path_pop cs"
| "push_component (Normal s) cs = cs @ [Normal s]"

definition normalize_path :: "component list \<Rightarrow> component list" where
  "normalize_path cs = (let n = fold push_component cs [] in if n = [] then [CurDir] else n)"

definition absolute :: "component list \<Rightarrow> bool" where
  "absolute cs \<longleftrightarrow> cs \<noteq> [] \<and> hd cs = RootDir"

subsection \<open>Looking a path up without following its last link\<close>

text \<open>Where the path leads, or why not: something on the way is missing, or it is no directory.\<close>

datatype lookup = Found "string list" | Missing | LookupError

function lookup_walk ::
  "nat \<Rightarrow> file_system \<Rightarrow> bool \<Rightarrow> string list \<Rightarrow> component list \<Rightarrow> lookup"
where
  "lookup_walk n fs follow cur [] = Found cur"
| "lookup_walk n fs follow cur (RootDir # cs) = lookup_walk n fs follow [] cs"
| "lookup_walk n fs follow cur (CurDir # cs) = lookup_walk n fs follow cur cs"
| "lookup_walk n fs follow cur (ParentDir # cs) = lookup_walk n fs follow (butlast cur) cs"
| "lookup_walk n fs follow cur (Normal s # cs) =
     (case node_at fs (cur @ [s]) of
        Some Dir \<Rightarrow> lookup_walk n fs follow (cur @ [s]) cs
      | Some (File _) \<Rightarrow> (if cs = [] then Found (cur @ [s]) else LookupError)
      | None \<Rightarrow> Missing
      | Some (Link t) \<Rightarrow>
          (if cs = [] \<and> \<not> follow then Found (cur @ [s])
           else case n of
                  0 \<Rightarrow> LookupError
                | Suc m \<Rightarrow> lookup_walk m fs follow cur (components t @ cs)))"
  by pat_completeness auto
termination
  by (relation "measures [\<lambda>(n, fs, f, cur, cs). n, \<lambda>(n, fs, f, cur, cs). length cs]") auto

definition lookup_entry :: "file_system \<Rightarrow> component list \<Rightarrow> lookup" where
  "lookup_entry fs path = lookup_walk max_links fs False (cwd fs) path"

definition entry_is_link :: "file_system \<Rightarrow> string list \<Rightarrow> bool" where
  "entry_is_link fs loc = (case node_at fs loc of Some (Link _) \<Rightarrow> True | _ \<Rightarrow> False)"

subsection \<open>No links\<close>

definition system_links :: "string list" where
  "system_links =
     [''/bin'', ''/sbin'', ''/lib'', ''/lib64'', ''/usr/bin'', ''/usr/sbin'', ''/usr/lib'', ''/usr/lib64'',
      ''/opt'', ''/var/lock'', ''/var/run'', ''/run'', ''/dev/stdin'', ''/dev/stdout'', ''/dev/stderr'']"

definition is_allowed_system_symlink :: "component list \<Rightarrow> bool" where
  "is_allowed_system_symlink path = (show_components path \<in> set system_links)"

fun enforce_from ::
  "file_system \<Rightarrow> component list \<Rightarrow> component list \<Rightarrow> component list \<Rightarrow> string + unit"
where
  "enforce_from fs root cur [] = Inr ()"
| "enforce_from fs root cur (c # cs) =
     (let cur' = push_component c cur
      in if c = RootDir then enforce_from fs root cur' cs
         else if \<not> prefix root cur' then Inl ''Path escapes sandbox''
         else case lookup_entry fs cur' of
                Found loc \<Rightarrow>
                  (if entry_is_link fs loc \<and> prefix root cur' \<and> \<not> is_allowed_system_symlink cur'
                   then Inl ''Symlink detected in path''
                   else enforce_from fs root cur' cs)
              | Missing \<Rightarrow> enforce_from fs root cur' cs
              | LookupError \<Rightarrow> Inl ''lookup failed'')"

definition enforce_no_symlinks ::
  "file_system \<Rightarrow> component list \<Rightarrow> component list \<Rightarrow> string + unit"
where
  "enforce_no_symlinks fs root target = enforce_from fs root [] target"

definition canonicalize_with_nofollow ::
  "file_system \<Rightarrow> component list \<Rightarrow> string + component list"
where
  "canonicalize_with_nofollow fs path =
     (let normalized = normalize_path path
      in case enforce_no_symlinks fs [RootDir] normalized of
           Inl e \<Rightarrow> Inl e | Inr _ \<Rightarrow> Inr normalized)"

definition canonicalize_within_root ::
  "file_system \<Rightarrow> component list \<Rightarrow> component list \<Rightarrow> string + component list"
where
  "canonicalize_within_root fs root candidate =
     (let root_norm = normalize_path root;
          combined = (if absolute candidate then normalize_path candidate
                      else normalize_path (root_norm @ candidate))
      in if \<not> prefix root_norm combined then Inl ''Path escapes sandbox''
         else case enforce_no_symlinks fs root_norm combined of
                Inl e \<Rightarrow> Inl e | Inr _ \<Rightarrow> Inr combined)"

subsection \<open>What plain paths look like\<close>

lemma fold_push_shape:
  "RootDir # map Normal ns = acc \<Longrightarrow> \<exists>ms. fold push_component cs acc = RootDir # map Normal ms"
proof (induction cs arbitrary: acc ns)
  case Nil
  then show ?case by auto
next
  case (Cons c cs)
  have "\<exists>ms. push_component c acc = RootDir # map Normal ms"
  proof (cases c)
    case ParentDir
    have "path_pop (RootDir # map Normal ns) = RootDir # map Normal (butlast ns)"
      by (cases ns rule: rev_cases) (auto simp: path_pop_def butlast_append)
    with ParentDir Cons.prems show ?thesis by auto
  next
    case (Normal s)
    with Cons.prems have "push_component c acc = RootDir # map Normal (ns @ [s])" by auto
    then show ?thesis by blast
  qed (use Cons.prems in \<open>auto intro: exI [of _ "[]"]\<close>)
  with Cons.IH show ?case by fastforce
qed

lemma normalize_absolute:
  assumes "absolute cs"
  shows "\<exists>ns. normalize_path cs = RootDir # map Normal ns"
proof -
  obtain ds where "cs = RootDir # ds"
    using assms by (cases cs) (auto simp: absolute_def)
  then show ?thesis
    using fold_push_shape [of "[]" "[RootDir]" ds] by (auto simp: normalize_path_def Let_def)
qed

lemma fold_push_names: "fold push_component (map Normal ns) acc = acc @ map Normal ns"
  by (induction ns arbitrary: acc) auto

lemma normalize_plain [simp]: "normalize_path (RootDir # map Normal ns) = RootDir # map Normal ns"
  by (simp add: normalize_path_def fold_push_names)

subsection \<open>Every deeper root refuses everything\<close>

text \<open>
  For a root two or more directories below \<open>/\<close>, no path is ever accepted: the check that
  holds the path below the root is made for every directory on the way to it, too.
\<close>

lemma deep_root_accepts_nothing:
  "\<exists>e. canonicalize_within_root fs (RootDir # map Normal (a # b # ns)) candidate = Inl e"
proof -
  let ?root = "RootDir # Normal a # Normal b # map Normal ns"
  have "\<exists>e. enforce_no_symlinks fs ?root p = Inl e" if "prefix ?root p" for p
  proof -
    obtain q where p: "p = RootDir # Normal a # Normal b # map Normal ns @ q"
      using \<open>prefix ?root p\<close> by (auto simp: prefix_def)
    show ?thesis by (simp add: p enforce_no_symlinks_def)
  qed
  note refused = this
  have norm: "normalize_path (RootDir # map Normal (a # b # ns)) = ?root"
    using normalize_plain [of "a # b # ns"] by simp
  define c where "c = (if absolute candidate then normalize_path candidate
      else normalize_path (?root @ candidate))"
  have c: "canonicalize_within_root fs (RootDir # map Normal (a # b # ns)) candidate
    = (if \<not> prefix ?root c then Inl ''Path escapes sandbox''
       else case enforce_no_symlinks fs ?root c of Inl e \<Rightarrow> Inl e | Inr _ \<Rightarrow> Inr c)"
    unfolding canonicalize_within_root_def Let_def norm c_def ..
  show ?thesis
  proof (cases "prefix ?root c")
    case True
    with refused obtain e where "enforce_no_symlinks fs ?root c = Inl e" by blast
    with c True show ?thesis by auto
  next
    case False
    with c show ?thesis by auto
  qed
qed

subsection \<open>What an accepted path leads to\<close>

lemma lookup_walk_found:
  "walk n fs follow cur cs = Some loc \<Longrightarrow> node_at fs loc = Some nd \<Longrightarrow> lookup_walk n fs follow cur cs = Found loc"
  by (induction n fs follow cur cs rule: walk.induct)
    (auto split: option.splits node.splits if_splits nat.splits)

lemma lookup_found:
  "locate fs False path = Some loc \<Longrightarrow> node_at fs loc = Some nd \<Longrightarrow> lookup_entry fs path = Found loc"
  unfolding locate_def lookup_entry_def by (rule lookup_walk_found)

lemma enforce_reaches:
  "enforce_from fs root (RootDir # map Normal ms) (map Normal ks @ cs) = Inr () \<Longrightarrow> prefix ls ks \<Longrightarrow> ls \<noteq> [] \<Longrightarrow>
     \<not> (case lookup_entry fs (RootDir # map Normal (ms @ ls)) of
          Found loc \<Rightarrow> entry_is_link fs loc \<and> \<not> is_allowed_system_symlink (RootDir # map Normal (ms @ ls))
        | Missing \<Rightarrow> False | LookupError \<Rightarrow> True)"
proof (induction ks arbitrary: ms ls)
  case Nil
  then show ?case by simp
next
  case (Cons k ks)
  obtain ls' where ls: "ls = k # ls'" "prefix ls' ks"
    using Cons.prems(2,3) by (cases ls) auto
  have step: "enforce_from fs root (RootDir # map Normal (ms @ [k])) (map Normal ks @ cs) = Inr ()"
    and here: "case lookup_entry fs (RootDir # map Normal (ms @ [k])) of
          Found loc \<Rightarrow> \<not> (entry_is_link fs loc \<and> \<not> is_allowed_system_symlink (RootDir # map Normal (ms @ [k])))
        | Missing \<Rightarrow> True | LookupError \<Rightarrow> False"
    using Cons.prems(1) by (auto simp: Let_def split: if_splits lookup.splits)
  show ?case
  proof (cases "ls' = []")
    case True
    with here ls show ?thesis by (auto split: lookup.splits)
  next
    case False
    have eq: "(ms @ [k]) @ ls' = ms @ ls" using ls(1) by simp
    from Cons.IH [OF step ls(2) False] show ?thesis unfolding eq .
  qed
qed

text \<open>
  A path that is accepted without a root is plain. Neither what it names nor any directory on the way
  to it is a symbolic link, wherever the links above it lead, unless it is one of the system links
  the code lists.
\<close>

lemma accepted_path_links:
  assumes "canonicalize_with_nofollow fs path = Inr q" and "absolute path"
  shows "\<exists>ns. q = RootDir # map Normal ns
    \<and> (\<forall>ks loc t. prefix ks ns \<longrightarrow> locate fs False (RootDir # map Normal ks) = Some loc
          \<longrightarrow> node_at fs loc = Some (Link t)
          \<longrightarrow> show_components (RootDir # map Normal ks) \<in> set system_links)"
proof -
  obtain ns where ns: "normalize_path path = RootDir # map Normal ns"
    using normalize_absolute [OF assms(2)] by blast
  with assms(1) have q: "q = RootDir # map Normal ns"
    and ok: "enforce_from fs [RootDir] [] (RootDir # map Normal ns) = Inr ()"
    by (auto simp: canonicalize_with_nofollow_def enforce_no_symlinks_def Let_def split: sum.splits)
  have "show_components (RootDir # map Normal ks) \<in> set system_links"
    if "prefix ks ns" and loc: "locate fs False (RootDir # map Normal ks) = Some loc"
      and link: "node_at fs loc = Some (Link t)" for ks loc t
  proof -
    have "ks \<noteq> []" using loc link by (auto simp: locate_def node_at_def)
    then show ?thesis
      using enforce_reaches [of fs "[RootDir]" "[]" ns "[]" ks] ok \<open>prefix ks ns\<close>
        lookup_found [OF loc link] link
      by (simp add: entry_is_link_def is_allowed_system_symlink_def)
  qed
  with q show ?thesis by blast
qed

text \<open>A tree of the system with a link of its own and one of somebody else.\<close>

definition bin_fs :: file_system where
  "bin_fs =
     \<lparr>nodes = [([''usr''], Dir), ([''usr'', ''bin''], Dir), ([''usr'', ''bin'', ''cc''], File ''x''),
               ([''usr'', ''bin'', ''evil''], Link ''/w/evil''),
               ([''bin''], Link ''usr/bin''), ([''tools''], Link ''usr/bin''),
               ([''w''], Dir), ([''w'', ''s''], Dir)], cwd = []\<rparr>"

lemma foreign_link_is_refused:
  "canonicalize_with_nofollow bin_fs (components ''/bin/cc'') = Inr [RootDir, Normal ''bin'', Normal ''cc'']"
  "canonicalize_with_nofollow bin_fs (components ''/tools/cc'') = Inl ''Symlink detected in path''"
  "canonicalize_with_nofollow bin_fs (components ''/bin/evil'') = Inl ''Symlink detected in path''"
  by code_simp+

end
