(* ===== verification/Process_Exec.thy ===== *)
theory Process_Exec
  imports Process_Paths Json "HOL-Library.Word"
begin

text \<open>
  Starting programs for a client (crates/mcp-tools/src/exec.rs, on Unix): the allow list of
  binaries, the environment and the limits of the child, and what a run in the foreground answers.
  The start itself and the child are the environment's; texts of I/O errors carry no path.
\<close>

subsection \<open>Requests and settings\<close>

datatype stdin_mode = StdinNull | StdinPipe

datatype execution_mode = Background | Foreground

record exec_config =
  ec_binary :: string
  ec_args :: "string list"
  ec_working_dir :: "string option"
  ec_env :: "(string, string) hmap option"
  ec_mode :: execution_mode
  ec_stdin :: stdin_mode
  ec_foreground_timeout_secs :: "nat option"

record exec_tool_config =
  et_nofile :: "64 word"
  et_nproc :: "64 word"
  et_as_gb :: "64 word"
  et_cpu_secs :: "64 word"
  et_max_lifetime_secs :: nat
  et_allowlist :: "string list"

definition default_exec_tool_config :: exec_tool_config where
  "default_exec_tool_config =
     \<lparr>et_nofile = 8192, et_nproc = 0, et_as_gb = 16, et_cpu_secs = 900,
      et_max_lifetime_secs = 3600, et_allowlist = [''/usr/bin/*'', ''/bin/*'']\<rparr>"

subsection \<open>The allow list\<close>

definition trim_stars :: "string \<Rightarrow> string" where
  "trim_stars p = rev (dropWhile (\<lambda>c. c = CHR ''*'') (rev p))"

definition pattern_allows :: "string \<Rightarrow> string \<Rightarrow> bool" where
  "pattern_allows binary p =
     (if CHR ''*'' \<in> set p then starts_with binary (trim_stars p) else binary = p)"

definition validate_binary :: "exec_tool_config \<Rightarrow> component list \<Rightarrow> string + unit" where
  "validate_binary tool binary =
     (if list_ex (pattern_allows (show_components binary)) (et_allowlist tool) then Inr ()
      else Inl ''Binary not in allowlist'')"

subsection \<open>The environment of the child\<close>

definition safe_vars :: "string list" where
  "safe_vars =
     [''LANG'', ''LC_ALL'', ''LC_CTYPE'', ''TZ'', ''TERM'', ''COLORTERM'', ''RUST_LOG'', ''RUST_BACKTRACE'',
      ''RUSTUP_HOME'', ''CARGO_HOME'', ''PYTHONPATH'', ''VIRTUAL_ENV'', ''CONDA_PREFIX'', ''NODE_PATH'',
      ''NVM_DIR'', ''GOPATH'', ''GOROOT'', ''JAVA_HOME'']"

definition inherit_vars :: "(string, string) hmap \<Rightarrow> (string, string) hmap" where
  "inherit_vars parent =
     fold (\<lambda>v env. case hm_get parent v of Some t \<Rightarrow> hm_insert v t env | None \<Rightarrow> env) safe_vars []"

definition inherited_path :: "(string, string) hmap \<Rightarrow> string" where
  "inherited_path parent =
     (case hm_get parent ''PATH'' of Some p \<Rightarrow> p | None \<Rightarrow> ''/usr/local/bin:/usr/bin:/bin'')"

definition real_home :: "(string, string) hmap \<Rightarrow> string option" where
  "real_home parent =
     (case hm_get parent ''HOME'' of
        Some h \<Rightarrow> Some h
      | None \<Rightarrow> map_option (\<lambda>u. ''/home/'' @ u) (hm_get parent ''USER''))"

text \<open>A variable of a tool chain that is not set points into the real home, if that is there.\<close>

definition toolchain_var ::
  "file_system \<Rightarrow> (string, string) hmap \<Rightarrow> string \<Rightarrow> string \<Rightarrow> (string, string) hmap \<Rightarrow> (string, string) hmap"
where
  "toolchain_var fs parent var dir env =
     (case real_home parent of
        None \<Rightarrow> env
      | Some h \<Rightarrow>
          if hm_get parent var = None \<and> path_exists fs (components (h @ dir))
          then hm_insert var (h @ dir) env else env)"

definition merge_user_env ::
  "(string, string) hmap option \<Rightarrow> (string, string) hmap \<Rightarrow> (string, string) hmap"
where
  "merge_user_env user env =
     (case user of
        None \<Rightarrow> env
      | Some us \<Rightarrow>
          fold (\<lambda>(k, v) e. if k \<in> set safe_vars \<or> starts_with k ''DEVIT_'' then hm_insert k v e else e)
            us env)"

definition build_safe_env ::
  "(string, string) hmap \<Rightarrow> component list \<Rightarrow> (string, string) hmap option \<Rightarrow> file_system
    \<Rightarrow> (string + (string, string) hmap) \<times> file_system"
where
  "build_safe_env parent root user fs =
     (let env1 = hm_insert ''PATH'' (inherited_path parent) (inherit_vars parent);
          env2 = toolchain_var fs parent ''RUSTUP_HOME'' ''/.rustup'' env1;
          env3 = toolchain_var fs parent ''CARGO_HOME'' ''/.cargo'' env2;
          home = root @ [Normal ''.home'']
      in case create_dir_all home fs of
           None \<Rightarrow> (Inl ''create home'', fs)
         | Some fs' \<Rightarrow>
             (Inr (merge_user_env user (hm_insert ''HOME'' (show_components home) env3)), fs'))"

subsection \<open>The limits of the child\<close>

datatype process_limit =
    NoFile "64 word"
  | NProc "64 word"
  | AddressSpace "64 word"
  | Cpu "64 word"
  | NoNewPrivileges
  | DieWithParent

text \<open>Gibibytes are turned into bytes at 64 bits.\<close>

definition resource_limits :: "exec_tool_config \<Rightarrow> process_limit list" where
  "resource_limits tool =
     [NoFile (et_nofile tool)] @ (if 0 < et_nproc tool then [NProc (et_nproc tool)] else [])
     @ [AddressSpace (et_as_gb tool * 1024 * 1024 * 1024), Cpu (et_cpu_secs tool), NoNewPrivileges,
        DieWithParent]"

subsection \<open>What is started\<close>

record spawn_spec =
  sp_binary :: "component list"
  sp_args :: "string list"
  sp_working_dir :: "component list"
  sp_env :: "(string, string) hmap"
  sp_stdin :: stdin_mode
  sp_limits :: "process_limit list"

definition resolve_in_sandbox ::
  "file_system \<Rightarrow> component list \<Rightarrow> string \<Rightarrow> string + component list"
where
  "resolve_in_sandbox fs root path = canonicalize_within_root fs root (components path)"

definition directory_at :: "file_system \<Rightarrow> component list \<Rightarrow> bool" where
  "directory_at fs path = (stat fs True path = Some Dir)"

definition working_dir_of :: "file_system \<Rightarrow> component list \<Rightarrow> exec_config \<Rightarrow> string + component list" where
  "working_dir_of fs root config =
     (case (case ec_working_dir config of None \<Rightarrow> Inr root | Some wd \<Rightarrow> resolve_in_sandbox fs root wd) of
        Inl e \<Rightarrow> Inl e
      | Inr d \<Rightarrow> if directory_at fs d then Inr d else Inl ''Working directory not found'')"

definition binary_of ::
  "file_system \<Rightarrow> exec_tool_config \<Rightarrow> component list \<Rightarrow> exec_config \<Rightarrow> string + component list"
where
  "binary_of fs tool root config =
     (case (if is_absolute (ec_binary config)
            then canonicalize_with_nofollow fs (components (ec_binary config))
            else resolve_in_sandbox fs root (ec_binary config)) of
        Inl e \<Rightarrow> Inl e
      | Inr b \<Rightarrow> (case validate_binary tool b of Inl e \<Rightarrow> Inl e | Inr _ \<Rightarrow> Inr b))"

definition spawn_process ::
  "(string, string) hmap \<Rightarrow> exec_tool_config \<Rightarrow> component list \<Rightarrow> exec_config \<Rightarrow> file_system
    \<Rightarrow> (string + spawn_spec) \<times> file_system"
where
  "spawn_process parent tool root config fs =
     (case working_dir_of fs root config of
        Inl e \<Rightarrow> (Inl e, fs)
      | Inr wd \<Rightarrow>
          (case binary_of fs tool root config of
             Inl e \<Rightarrow> (Inl e, fs)
           | Inr b \<Rightarrow>
               (case build_safe_env parent root (ec_env config) fs of
                  (Inl e, fs') \<Rightarrow> (Inl e, fs')
                | (Inr env, fs') \<Rightarrow>
                    (Inr \<lparr>sp_binary = b, sp_args = ec_args config, sp_working_dir = wd, sp_env = env,
                          sp_stdin = ec_stdin config, sp_limits = resource_limits tool\<rparr>, fs'))))"

subsection \<open>A run in the foreground\<close>

text \<open>How the child ends, as the waiting thread sees it; a status has a code or a signal.\<close>

datatype child_end =
    ChildExit "int option" "int option" string string
  | WaitFailed
  | WaitTimeout

record exec_result =
  er_exit_code :: "int option"
  er_terminated_by_signal :: "int option"
  er_duration_ms :: nat
  er_stdout_tail :: string
  er_stderr_tail :: string

definition foreground_timeout :: "exec_tool_config \<Rightarrow> exec_config \<Rightarrow> nat" where
  "foreground_timeout tool config =
     (case ec_foreground_timeout_secs config of Some s \<Rightarrow> s | None \<Rightarrow> unat (et_cpu_secs tool))"

text \<open>The answer, and the process group that is killed after a timeout.\<close>

definition execute_foreground :: "nat \<Rightarrow> nat \<Rightarrow> child_end \<Rightarrow> (string + exec_result) \<times> nat option" where
  "execute_foreground pid duration outcome =
     (case outcome of
        ChildExit code sig out err \<Rightarrow>
          (Inr \<lparr>er_exit_code = code, er_terminated_by_signal = sig, er_duration_ms = duration,
                er_stdout_tail = out, er_stderr_tail = err\<rparr>, None)
      | WaitFailed \<Rightarrow> (Inl ''Process wait failed'', None)
      | WaitTimeout \<Rightarrow>
          (Inl ''Foreground execution timeout'', if pid < 2 ^ 31 then Some pid else None))"

definition jint_opt :: "int option \<Rightarrow> json" where
  "jint_opt v = (case v of None \<Rightarrow> JNull | Some n \<Rightarrow> JInt n)"

definition foreground_json :: "exec_config \<Rightarrow> exec_result \<Rightarrow> json" where
  "foreground_json config r =
     JObj [(''exec'',
       JObj [(''mode'', JStr ''foreground''), (''binary'', JStr (ec_binary config)),
             (''args'', JArr (map JStr (ec_args config))), (''working_dir'', jstr_opt (ec_working_dir config)),
             (''stdin'', JStr (case ec_stdin config of StdinNull \<Rightarrow> ''null'' | StdinPipe \<Rightarrow> ''pipe'')),
             (''foreground_timeout_secs'',
               jint_opt (map_option int (ec_foreground_timeout_secs config))),
             (''duration_ms'', JInt (int (er_duration_ms r))), (''exit_code'', jint_opt (er_exit_code r)),
             (''terminated_by_signal'', jint_opt (er_terminated_by_signal r)),
             (''stdout_tail'', JStr (er_stdout_tail r)), (''stderr_tail'', JStr (er_stderr_tail r))])]"

subsection \<open>What the environment of a child holds\<close>

lemma inherit_vars_get: "hm_get (inherit_vars parent) k = (if k \<in> set safe_vars then hm_get parent k else None)"
proof -
  let ?f = "\<lambda>v env. case hm_get parent v of Some t \<Rightarrow> hm_insert v t env | None \<Rightarrow> env"
  have "hm_get (fold ?f vs env) k
      = (if k \<in> set vs \<and> hm_get parent k \<noteq> None then hm_get parent k else hm_get env k)" for vs env
    by (induction vs arbitrary: env) (auto simp: hm_get_update split: option.splits)
  from this [of safe_vars "[]"] show ?thesis by (auto simp: inherit_vars_def)
qed

lemma merge_user_env_get:
  "hm_get (merge_user_env user env) k = Some v \<Longrightarrow>
     hm_get env k = Some v \<or> (k \<in> set safe_vars \<or> starts_with k ''DEVIT_'') \<and> (\<exists>us. user = Some us \<and> (k, v) \<in> set us)"
proof (cases user)
  case None
  then show "hm_get (merge_user_env user env) k = Some v \<Longrightarrow> ?thesis" by (simp add: merge_user_env_def)
next
  case (Some us)
  let ?f = "\<lambda>(k, v) e. if k \<in> set safe_vars \<or> starts_with k ''DEVIT_'' then hm_insert k v e else e"
  have "hm_get (fold ?f us env) k = Some v \<Longrightarrow>
      hm_get env k = Some v \<or> (k \<in> set safe_vars \<or> starts_with k ''DEVIT_'') \<and> (k, v) \<in> set us"
  proof (induction us arbitrary: env)
    case Nil
    then show ?case by simp
  next
    case (Cons x us)
    obtain l w where x: "x = (l, w)" by (cases x)
    from Cons.IH [of "?f x env"] Cons.prems
    have "hm_get (?f x env) k = Some v \<or> (k \<in> set safe_vars \<or> starts_with k ''DEVIT_'') \<and> (k, v) \<in> set us"
      by simp
    then show ?case by (auto simp: x hm_get_update split: if_splits)
  qed
  then show "hm_get (merge_user_env user env) k = Some v \<Longrightarrow> ?thesis"
    by (auto simp: merge_user_env_def Some)
qed

lemma merge_user_env_keeps:
  "k \<notin> set safe_vars \<Longrightarrow> \<not> starts_with k ''DEVIT_'' \<Longrightarrow> hm_get (merge_user_env user env) k = hm_get env k"
proof (cases user)
  case None
  then show "hm_get (merge_user_env user env) k = hm_get env k" by (simp add: merge_user_env_def)
next
  case (Some us)
  let ?f = "\<lambda>(k, v) e. if k \<in> set safe_vars \<or> starts_with k ''DEVIT_'' then hm_insert k v e else e"
  assume "k \<notin> set safe_vars" and "\<not> starts_with k ''DEVIT_''"
  then have "hm_get (fold ?f us env) k = hm_get env k"
    by (induction us arbitrary: env) (auto simp: hm_get_update)
  then show ?thesis by (simp add: merge_user_env_def Some)
qed

lemma toolchain_var_get:
  "hm_get (toolchain_var fs parent var dir env) k
    = (if k = var \<and> hm_get parent var = None \<and> (\<exists>h. real_home parent = Some h \<and> path_exists fs (components (h @ dir)))
       then map_option (\<lambda>h. h @ dir) (real_home parent) else hm_get env k)"
  by (auto simp: toolchain_var_def hm_get_update split: option.splits)

text \<open>
  C28: the child of a request sees the home directory of the sandbox, the search path of the
  server, which the request cannot change, and beyond these only the listed variables and what the
  request itself sets under \<open>DEVIT_\<close>: nothing else of the server's environment reaches it.
\<close>

theorem child_environment_is_confined:
  assumes "build_safe_env parent root user fs = (Inr env, fs')"
  shows "hm_get env ''HOME'' = Some (show_components (root @ [Normal ''.home'']))
    \<and> hm_get env ''PATH'' = Some (inherited_path parent)
    \<and> (\<forall>k v. hm_get env k = Some v \<longrightarrow> k \<in> {''HOME'', ''PATH''} \<union> set safe_vars
          \<or> starts_with k ''DEVIT_'' \<and> (\<exists>us. user = Some us \<and> (k, v) \<in> set us))"
proof -
  define e3 where "e3 = toolchain_var fs parent ''CARGO_HOME'' ''/.cargo''
    (toolchain_var fs parent ''RUSTUP_HOME'' ''/.rustup''
      (hm_insert ''PATH'' (inherited_path parent) (inherit_vars parent)))"
  have env: "env = merge_user_env user (hm_insert ''HOME'' (show_components (root @ [Normal ''.home''])) e3)"
    using assms by (auto simp: build_safe_env_def e3_def Let_def split: option.splits)
  have out: "''HOME'' \<notin> set safe_vars" "''PATH'' \<notin> set safe_vars"
    "\<not> starts_with ''HOME'' ''DEVIT_''" "\<not> starts_with ''PATH'' ''DEVIT_''"
    by (simp_all add: safe_vars_def starts_with_def)
  have listed: "''CARGO_HOME'' \<in> set safe_vars" "''RUSTUP_HOME'' \<in> set safe_vars"
    by (simp_all add: safe_vars_def)
  have e3: "hm_get e3 k = Some v \<Longrightarrow> k = ''PATH'' \<or> k \<in> set safe_vars" for k v
    using listed unfolding e3_def toolchain_var_get hm_get_update inherit_vars_get
    by (auto split: if_splits)
  have path: "hm_get e3 ''PATH'' = Some (inherited_path parent)"
    unfolding e3_def toolchain_var_get hm_get_update by simp
  have "k \<in> {''HOME'', ''PATH''} \<union> set safe_vars
      \<or> starts_with k ''DEVIT_'' \<and> (\<exists>us. user = Some us \<and> (k, v) \<in> set us)"
    if "hm_get env k = Some v" for k v
    using merge_user_env_get [OF that [unfolded env]] e3 by (auto simp: hm_get_update split: if_splits)
  then show ?thesis
    using merge_user_env_keeps [OF out(1,3)] merge_user_env_keeps [OF out(2,4)] path
    by (simp add: env hm_get_update)
qed

subsection \<open>What is started at all\<close>

lemma spawn_process_binary:
  assumes "spawn_process parent tool root config fs = (Inr spec, fs')"
  shows "list_ex (pattern_allows (show_components (sp_binary spec))) (et_allowlist tool)"
    and "is_absolute (ec_binary config) \<Longrightarrow>
          canonicalize_with_nofollow fs (components (ec_binary config)) = Inr (sp_binary spec)"
    and "\<not> is_absolute (ec_binary config) \<Longrightarrow>
          canonicalize_within_root fs root (components (ec_binary config)) = Inr (sp_binary spec)"
    and "sp_limits spec = resource_limits tool"
  using assms
  by (auto simp: spawn_process_def binary_of_def validate_binary_def resolve_in_sandbox_def
      split: sum.splits prod.splits if_splits)

text \<open>
  C27: in a sandbox two or more directories deep, a program starts only from an absolute path, in
  the root of the sandbox; its path, made plain, is on the allow list, and neither the program nor
  any directory of that path, wherever the links above it lead, is a symbolic link unless its own
  path is in the list of the links of the system. (Where a link of the system leads is not checked.)
\<close>

theorem started_program_is_allowed:
  assumes "spawn_process parent tool (RootDir # map Normal (a # b # ns)) config fs = (Inr spec, fs')"
  shows "is_absolute (ec_binary config) \<and> ec_working_dir config = None
    \<and> sp_working_dir spec = RootDir # map Normal (a # b # ns)
    \<and> list_ex (pattern_allows (show_components (sp_binary spec))) (et_allowlist tool)
    \<and> (\<exists>ms. sp_binary spec = RootDir # map Normal ms
          \<and> (\<forall>ks loc t. prefix ks ms \<longrightarrow> locate fs False (RootDir # map Normal ks) = Some loc
                \<longrightarrow> node_at fs loc = Some (Link t)
                \<longrightarrow> show_components (RootDir # map Normal ks) \<in> set system_links))"
proof -
  have deep: "canonicalize_within_root fs (RootDir # map Normal (a # b # ns)) c \<noteq> Inr d" for c d
    using deep_root_accepts_nothing [of fs a b ns c] by auto
  have wd: "working_dir_of fs (RootDir # map Normal (a # b # ns)) config = Inr (sp_working_dir spec)"
    using assms by (auto simp: spawn_process_def split: sum.splits prod.splits)
  then have "ec_working_dir config = None" and "sp_working_dir spec = RootDir # map Normal (a # b # ns)"
    using deep by (auto simp: working_dir_of_def resolve_in_sandbox_def split: option.splits sum.splits if_splits)
  moreover have abs: "is_absolute (ec_binary config)"
    using spawn_process_binary(3) [OF assms] deep by blast
  moreover have "absolute (components (ec_binary config))"
    using abs hd_components_absolute by (fastforce simp: absolute_def)
  ultimately show ?thesis
    using spawn_process_binary(1,2) [OF assms]
      accepted_path_links [of fs "components (ec_binary config)" "sp_binary spec"] by blast
qed

subsection \<open>Instances\<close>

definition cc_request :: exec_config where
  "cc_request =
     \<lparr>ec_binary = ''/bin/../bin/cc'', ec_args = [''-c''], ec_working_dir = None,
      ec_env = Some [(''DEVIT_X'', ''1''), (''LD_PRELOAD'', ''evil.so'')], ec_mode = Foreground,
      ec_stdin = StdinNull, ec_foreground_timeout_secs = None\<rparr>"

definition server_env :: "(string, string) hmap" where
  "server_env = [(''HOME'', ''/root''), (''SECRET'', ''k''), (''LANG'', ''C'')]"

lemma cc_is_started:
  "\<exists>spec fs'. spawn_process server_env default_exec_tool_config [RootDir, Normal ''w'', Normal ''s''] cc_request bin_fs
     = (Inr spec, fs') \<and> sp_binary spec = [RootDir, Normal ''bin'', Normal ''cc'']"
proof -
  have "case spawn_process server_env default_exec_tool_config [RootDir, Normal ''w'', Normal ''s''] cc_request bin_fs
    of (Inr spec, fs') \<Rightarrow> sp_binary spec = [RootDir, Normal ''bin'', Normal ''cc''] | _ \<Rightarrow> False"
    by code_simp
  then show ?thesis by (auto split: prod.splits sum.splits)
qed

lemma started_program_is_allowed_witness:
  "\<exists>spec fs'. spawn_process server_env default_exec_tool_config [RootDir, Normal ''w'', Normal ''s''] cc_request bin_fs
     = (Inr spec, fs')
     \<and> list_ex (pattern_allows (show_components (sp_binary spec))) (et_allowlist default_exec_tool_config)"
  using cc_is_started
    started_program_is_allowed [of server_env default_exec_tool_config "''w''" "''s''" "[]" cc_request bin_fs]
  by auto

lemma child_environment_is_confined_witness:
  "\<exists>env fs'. build_safe_env server_env [RootDir, Normal ''w'', Normal ''s''] (ec_env cc_request) bin_fs = (Inr env, fs')
     \<and> hm_get env ''HOME'' = Some ''/w/s/.home'' \<and> hm_get env ''SECRET'' = None \<and> hm_get env ''LD_PRELOAD'' = None"
proof -
  have "case build_safe_env server_env [RootDir, Normal ''w'', Normal ''s''] (ec_env cc_request) bin_fs
    of (Inr env, fs') \<Rightarrow> True | _ \<Rightarrow> False"
    by code_simp
  then obtain env fs' where run:
      "build_safe_env server_env [RootDir, Normal ''w'', Normal ''s''] (ec_env cc_request) bin_fs = (Inr env, fs')"
    by (auto split: prod.splits sum.splits)
  note confined = child_environment_is_confined [OF run]
  then have confined_get: "hm_get env k = Some v \<Longrightarrow> k \<in> {''HOME'', ''PATH''} \<union> set safe_vars \<or> starts_with k ''DEVIT_''"
    for k v by blast
  have "hm_get env ''SECRET'' \<noteq> Some v" and "hm_get env ''LD_PRELOAD'' \<noteq> Some v" for v
    using confined_get [of "''SECRET''" v] confined_get [of "''LD_PRELOAD''" v]
    by (auto simp: safe_vars_def starts_with_def)
  moreover have "hm_get env ''HOME'' = Some ''/w/s/.home''"
    using confined by simp
  ultimately show ?thesis using run by (meson not_Some_eq)
qed

text \<open>A star within a pattern is taken literally, and a limit of 2^34 gibibytes is one of nothing.\<close>

lemma inner_star_is_literal: "\<not> pattern_allows ''/usr/local/bin/cc'' ''/usr/*/bin/*''"
  by code_simp

lemma large_memory_limit_wraps:
  "AddressSpace 0 \<in> set (resource_limits (default_exec_tool_config\<lparr>et_as_gb := 2 ^ 34\<rparr>))"
  by (simp add: resource_limits_def)

end
