(* ===== verification/Process_Registry.thy ===== *)
theory Process_Registry
  imports Process_Exec
begin

text \<open>
  The processes that were started in the background: their registry on disk
  (crates/common/src/process_registry.rs), the identity of a process by its start time
  (crates/common/src/process_utils.rs), and the tools that start, stop and list them
  (crates/mcp-tools/src/exec.rs, kill.rs and ps.rs, on Unix).

  serde's text of a registry is given by \<open>enc\<close> and \<open>dec\<close>; times are seconds. The tools take the
  operations on the stored registry as arguments \<open>load\<close> and \<open>save\<close>, and what \<open>/proc\<close> shows of a
  process as its text.
\<close>

subsection \<open>Records\<close>

datatype process_status = Running | Exited

record process_record =
  pr_pid :: nat
  pr_pgid :: nat
  pr_start_ticks :: nat
  pr_started_at :: int
  pr_command :: string
  pr_args :: "string list"
  pr_status :: process_status
  pr_exit_code :: "int option"
  pr_terminated_by_signal :: "nat option"
  pr_auto_kill_at :: "int option"

type_synonym registry = "(nat, process_record) hmap"

subsection \<open>The registry on disk\<close>

definition registry_dir :: "(string, string) hmap \<Rightarrow> string option" where
  "registry_dir parent =
     map_option (\<lambda>h. path_join h ''.devit'')
       (or_else (hm_get parent ''HOME'') (hm_get parent ''USERPROFILE''))"

definition registry_file :: "string \<Rightarrow> component list" where
  "registry_file dir = components (path_join dir ''process_registry.json'')"

definition lock_file :: "string \<Rightarrow> component list" where
  "lock_file dir = components (path_join dir ''process_registry.lock'')"

definition temp_file :: "string \<Rightarrow> component list" where
  "temp_file dir = components (path_join dir ''process_registry.json.tmp'')"

definition no_home :: string where
  "no_home = ''Neither HOME nor USERPROFILE environment variables are set''"

definition load_registry ::
  "(string \<Rightarrow> registry option) \<Rightarrow> (string, string) hmap \<Rightarrow> file_system \<Rightarrow> string + registry"
where
  "load_registry dec parent fs =
     (case registry_dir parent of
        None \<Rightarrow> Inl no_home
      | Some dir \<Rightarrow>
          if \<not> path_exists fs (registry_file dir) then Inr []
          else case read_to_string fs (registry_file dir) of
                 None \<Rightarrow> Inl ''read registry''
               | Some t \<Rightarrow>
                   (case dec t of None \<Rightarrow> Inl ''Failed to parse registry'' | Some r \<Rightarrow> Inr r))"

text \<open>
  The steps of a save: the directory, the lock, the temporary file, and the rename that makes it
  the registry. Synchronising and locking change nothing here.
\<close>

definition save_registry ::
  "(registry \<Rightarrow> string) \<Rightarrow> (string, string) hmap \<Rightarrow> registry \<Rightarrow> file_system
    \<Rightarrow> (string + unit) \<times> file_system"
where
  "save_registry enc parent r fs =
     (case registry_dir parent of
        None \<Rightarrow> (Inl no_home, fs)
      | Some dir \<Rightarrow>
          (case create_dir_all (components dir) fs of
             None \<Rightarrow> (Inl ''create registry directory'', fs)
           | Some fs1 \<Rightarrow>
               (case write_text (lock_file dir) [] fs1 of
                  None \<Rightarrow> (Inl ''create lock'', fs1)
                | Some fs2 \<Rightarrow>
                    (case write_text (temp_file dir) (enc r) fs2 of
                       None \<Rightarrow> (Inl ''write temporary file'', fs2)
                     | Some fs3 \<Rightarrow>
                         (case rename_file (temp_file dir) (registry_file dir) fs3 of
                            None \<Rightarrow> (Inl ''rename'', fs3)
                          | Some fs4 \<Rightarrow> (Inr (), fs4))))))"

subsection \<open>The identity of a process\<close>

text \<open>The start time is the word at index 21 of the status line.\<close>

definition read_proc_stat :: "string option \<Rightarrow> string + nat" where
  "read_proc_stat content =
     (case content of
        None \<Rightarrow> Inl ''read stat''
      | Some t \<Rightarrow>
          (let parts = split_whitespace t
           in if length parts \<le> 21 then Inl ''Missing starttime field''
              else case parse_u64 (parts ! 21) of
                     None \<Rightarrow> Inl ''Failed to parse starttime'' | Some n \<Rightarrow> Inr n))"

definition verify_pgid_leader :: "(nat \<Rightarrow> string option) \<Rightarrow> nat \<Rightarrow> nat \<Rightarrow> bool" where
  "verify_pgid_leader procs pgid expected = (read_proc_stat (procs pgid) = Inr expected)"

subsection \<open>Starting in the background\<close>

type_synonym 's loader = "'s \<Rightarrow> string + registry"
type_synonym 's saver = "registry \<Rightarrow> 's \<Rightarrow> (string + unit) \<times> 's"

text \<open>The tool reads the registry once, when it is made.\<close>

definition initial_registry :: "'s loader \<Rightarrow> 's \<Rightarrow> registry" where
  "initial_registry load s = (case load s of Inl _ \<Rightarrow> [] | Inr r \<Rightarrow> r)"

definition background_record :: "exec_tool_config \<Rightarrow> exec_config \<Rightarrow> nat \<Rightarrow> nat \<Rightarrow> int \<Rightarrow> process_record" where
  "background_record tool config pid ticks now =
     \<lparr>pr_pid = pid, pr_pgid = pid, pr_start_ticks = ticks, pr_started_at = now,
      pr_command = ec_binary config, pr_args = ec_args config, pr_status = Running,
      pr_exit_code = None, pr_terminated_by_signal = None,
      pr_auto_kill_at = Some (now + int (et_max_lifetime_secs tool))\<rparr>"

text \<open>\<open>spawned\<close> is the error of the start or the new process, \<open>line\<close> its status line.\<close>

definition execute_background ::
  "'s saver \<Rightarrow> string + nat \<Rightarrow> string option \<Rightarrow> int \<Rightarrow> exec_tool_config \<Rightarrow> exec_config \<Rightarrow> registry \<Rightarrow> 's
    \<Rightarrow> (string + process_record) \<times> registry \<times> 's"
where
  "execute_background save spawned line now tool config mem s =
     (case spawned of
        Inl e \<Rightarrow> (Inl e, mem, s)
      | Inr pid \<Rightarrow>
          (case read_proc_stat line of
             Inl e \<Rightarrow> (Inl ''Failed to read /proc'', mem, s)
           | Inr ticks \<Rightarrow>
               (let r = background_record tool config pid ticks now;
                    mem' = hm_insert pid r mem
                in case save mem' s of
                     (Inl e, s') \<Rightarrow> (Inl ''Failed to save registry'', mem', s')
                   | (Inr _, s') \<Rightarrow> (Inr r, mem', s'))))"

subsection \<open>Stopping\<close>

definition upper_char :: "char \<Rightarrow> char" where
  "upper_char c =
     (let v = of_char c :: nat in if 97 \<le> v \<and> v \<le> 122 then char_of (v - 32) else c)"

definition parse_signal :: "string \<Rightarrow> nat option" where
  "parse_signal sg =
     (let u = map upper_char sg
      in if u = ''TERM'' then Some 15 else if u = ''KILL'' then Some 9
         else if u = ''INT'' then Some 2 else None)"

definition mark_killed :: "nat \<Rightarrow> process_record \<Rightarrow> process_record" where
  "mark_killed sg r = r\<lparr>pr_status := Exited, pr_terminated_by_signal := Some sg, pr_exit_code := None\<rparr>"

text \<open>
  The answer, the store, and the signal that was sent to a process group, if one was. \<open>sent_ok\<close>
  says whether the kernel took the signal.
\<close>

definition kill_process ::
  "'s loader \<Rightarrow> 's saver \<Rightarrow> (nat \<Rightarrow> string option) \<Rightarrow> bool \<Rightarrow> nat \<Rightarrow> string \<Rightarrow> 's
    \<Rightarrow> (string + process_record) \<times> 's \<times> (nat \<times> nat) option"
where
  "kill_process load save procs sent_ok pid sig_text s =
     (case load s of
        Inl e \<Rightarrow> (Inl ''Failed to load registry'', s, None)
      | Inr reg \<Rightarrow>
          (case hm_get reg pid of
             None \<Rightarrow> (Inl ''PID not in registry'', s, None)
           | Some r \<Rightarrow>
               (case read_proc_stat (procs pid) of
                  Inl _ \<Rightarrow> (Inl ''Process not found'', s, None)
                | Inr ticks \<Rightarrow>
                    if ticks \<noteq> pr_start_ticks r then (Inl ''PID reused (start_ticks mismatch)'', s, None)
                    else if \<not> verify_pgid_leader procs (pr_pgid r) (pr_start_ticks r)
                    then (Inl ''PGID leader validation failed'', s, None)
                    else case parse_signal sig_text of
                           None \<Rightarrow> (Inl ''Unknown signal'', s, None)
                         | Some sg \<Rightarrow>
                             if 2 ^ 31 \<le> pr_pgid r then (Inl ''PGID exceeds i32::MAX'', s, None)
                             else if \<not> sent_ok then (Inl ''kill failed'', s, Some (pr_pgid r, sg))
                             else
                               (case save (hm_insert pid (mark_killed sg r) reg) s of
                                  (Inl e, s') \<Rightarrow>
                                    (Inl ''Failed to save registry'', s', Some (pr_pgid r, sg))
                                | (Inr _, s') \<Rightarrow>
                                    (Inr (mark_killed sg r), s', Some (pr_pgid r, sg))))))"

subsection \<open>Listing\<close>

definition list_processes :: "'s loader \<Rightarrow> nat option \<Rightarrow> 's \<Rightarrow> string + process_record list" where
  "list_processes load pid s =
     (case load s of
        Inl e \<Rightarrow> Inl ''Failed to load registry''
      | Inr reg \<Rightarrow> Inr (map snd (filter (\<lambda>(k, r). case pid of Some p \<Rightarrow> k = p | None \<Rightarrow> True) reg)))"

end
