(* ===== verification/Process_Properties.thy ===== *)
theory Process_Properties
  imports Process_Registry "HOL-Library.Countable"
begin

text \<open>
  What the process tools promise: a save leaves the old or the new registry, never a part of one,
  and a signal goes only to a process group that the tools started; and where the registry loses
  what happened.
\<close>

subsection \<open>The interface of a stored registry\<close>

locale registry_store =
  fixes load :: "'s loader" and save :: "'s saver" and ok :: "'s \<Rightarrow> bool"
  assumes ok_save: "ok s \<Longrightarrow> ok (snd (save r s))"
    and load_save: "ok s \<Longrightarrow> load (snd (save r s)) = Inr r \<or> load (snd (save r s)) = load s"
    and load_saved: "ok s \<Longrightarrow> fst (save r s) = Inr () \<Longrightarrow> load (snd (save r s)) = Inr r"

text \<open>
  Runs of the tools: background starts, signals, and restarts of the server, which reads the
  registry again. \<open>started\<close> holds the processes that were started, with their start times.
\<close>

definition started_by :: "string + nat \<Rightarrow> string option \<Rightarrow> (nat \<times> nat) set" where
  "started_by spawned line =
     (case (spawned, read_proc_stat line) of (Inr pid, Inr t) \<Rightarrow> {(pid, t)} | _ \<Rightarrow> {})"

inductive exec_reach ::
  "'s loader \<Rightarrow> 's saver \<Rightarrow> 's \<Rightarrow> registry \<times> 's \<Rightarrow> (nat \<times> nat) set \<Rightarrow> bool"
  for load save s0
where
  exec_init: "exec_reach load save s0 (initial_registry load s0, s0) {}"
| exec_start: "exec_reach load save s0 (mem, s) started \<Longrightarrow>
    execute_background save spawned line now tool config mem s = (res, mem', s') \<Longrightarrow>
    exec_reach load save s0 (mem', s') (started \<union> started_by spawned line)"
| exec_kill: "exec_reach load save s0 (mem, s) started \<Longrightarrow>
    kill_process load save procs sent_ok pid sg s = (res, s', sent) \<Longrightarrow>
    exec_reach load save s0 (mem, s') started"
| exec_restart: "exec_reach load save s0 (mem, s) started \<Longrightarrow>
    exec_reach load save s0 (initial_registry load s, s) started"

text \<open>Every record is of a process that was started, under its own group.\<close>

definition from_start :: "(nat \<times> nat) set \<Rightarrow> registry \<Rightarrow> bool" where
  "from_start started reg \<longleftrightarrow>
     (\<forall>k r. hm_get reg k = Some r \<longrightarrow> pr_pgid r = k \<and> (k, pr_start_ticks r) \<in> started)"

lemma from_start_Nil [simp]: "from_start started []"
  by (simp add: from_start_def)

lemma from_start_mono: "from_start a reg \<Longrightarrow> a \<subseteq> b \<Longrightarrow> from_start b reg"
  by (auto simp: from_start_def)

lemma from_start_insert:
  "from_start started reg \<Longrightarrow> pr_pgid r = k \<Longrightarrow> (k, pr_start_ticks r) \<in> started
    \<Longrightarrow> from_start started (hm_insert k r reg)"
  by (auto simp: from_start_def hm_get_update)

lemma from_start_killed:
  "from_start started reg \<Longrightarrow> hm_get reg k = Some r \<Longrightarrow> from_start started (hm_insert k (mark_killed sg r) reg)"
  by (auto simp: from_start_def hm_get_update mark_killed_def)

text \<open>What a signal says about the registry it was sent from.\<close>

lemma kill_process_sent:
  assumes "kill_process load save procs sent_ok pid sg s = (res, s', Some (g, n))"
  shows "\<exists>reg r. load s = Inr reg \<and> hm_get reg pid = Some r \<and> pr_pgid r = g
    \<and> read_proc_stat (procs pid) = Inr (pr_start_ticks r) \<and> read_proc_stat (procs g) = Inr (pr_start_ticks r)"
  using assms
  by (auto simp: kill_process_def verify_pgid_leader_def split: sum.splits option.splits if_splits prod.splits)

lemma kill_process_store:
  assumes "kill_process load save procs sent_ok pid sg s = (res, s', sent)"
  shows "s' = s \<or> (\<exists>reg r n. load s = Inr reg \<and> hm_get reg pid = Some r
    \<and> s' = snd (save (hm_insert pid (mark_killed n r) reg) s))"
  using assms
  by (auto simp: kill_process_def split: sum.splits option.splits if_splits prod.splits)
    (metis snd_conv)+

lemma execute_background_store:
  assumes "execute_background save spawned line now tool config mem s = (res, mem', s')"
  shows "mem' = mem \<and> s' = s \<or> (\<exists>pid t. spawned = Inr pid \<and> read_proc_stat line = Inr t
    \<and> mem' = hm_insert pid (background_record tool config pid t now) mem \<and> s' = snd (save mem' s))"
  using assms
  by (auto simp: execute_background_def Let_def split: sum.splits prod.splits)

context registry_store
begin

lemma load_after_save:
  "ok s \<Longrightarrow> load (snd (save r s)) = Inr reg \<Longrightarrow> reg = r \<or> load s = Inr reg"
  using load_save [of s r] by auto

lemma reach_from_start:
  assumes "exec_reach load save s0 st started" and "ok s0" and "load s0 = Inr []"
  shows "ok (snd st) \<and> from_start started (fst st) \<and> (\<forall>reg. load (snd st) = Inr reg \<longrightarrow> from_start started reg)"
  using assms
proof (induction rule: exec_reach.induct)
  case exec_init
  then show ?case by (simp add: initial_registry_def)
next
  case (exec_start mem s started spawned line now tool config res mem' s')
  let ?new = "started \<union> started_by spawned line"
  have old: "ok s" "from_start ?new mem" "\<And>reg. load s = Inr reg \<Longrightarrow> from_start ?new reg"
    using exec_start by (auto intro: from_start_mono)
  show ?case
    using execute_background_store [OF exec_start.hyps(2)]
  proof (elim disjE exE conjE)
    assume "mem' = mem" and "s' = s"
    with old show ?thesis by simp
  next
    fix pid t
    assume new: "spawned = Inr pid" "read_proc_stat line = Inr t"
      and mem': "mem' = hm_insert pid (background_record tool config pid t now) mem"
      and s': "s' = snd (save mem' s)"
    have "from_start ?new mem'"
      unfolding mem' by (rule from_start_insert [OF old(2)]) (simp_all add: background_record_def started_by_def new)
    with old show ?thesis
      using ok_save load_after_save [of s mem'] by (auto simp: s')
  qed
next
  case (exec_kill mem s started procs sent_ok pid sg res s' sent)
  then have old: "ok s" "from_start started mem" "\<And>reg. load s = Inr reg \<Longrightarrow> from_start started reg"
    by auto
  show ?case
    using kill_process_store [OF exec_kill.hyps(2)]
  proof (elim disjE exE conjE)
    assume "s' = s"
    with old show ?thesis by simp
  next
    fix reg r n
    assume reg: "load s = Inr reg" "hm_get reg pid = Some r"
      and s': "s' = snd (save (hm_insert pid (mark_killed n r) reg) s)"
    have "from_start started (hm_insert pid (mark_killed n r) reg)"
      by (rule from_start_killed [OF old(3) [OF reg(1)] reg(2)])
    with old show ?thesis
      using ok_save load_after_save [of s "hm_insert pid (mark_killed n r) reg"] by (auto simp: s')
  qed
next
  case (exec_restart mem s started)
  then show ?case by (auto simp: initial_registry_def split: sum.split)
qed

lemma signals_reach_started_groups:
  assumes "exec_reach load save s0 (mem, s) started" and "ok s0" and "load s0 = Inr []"
    and "kill_process load save procs sent_ok pid sg s = (res, s', Some (g, n))"
  shows "g = pid \<and> (\<exists>t. (g, t) \<in> started \<and> read_proc_stat (procs g) = Inr t)"
proof -
  obtain reg r where r: "load s = Inr reg" "hm_get reg pid = Some r" "pr_pgid r = g"
      "read_proc_stat (procs g) = Inr (pr_start_ticks r)"
    using kill_process_sent [OF assms(4)] by blast
  have "from_start started reg"
    using reach_from_start [OF assms(1-3)] r(1) by simp
  with r show ?thesis by (auto simp: from_start_def)
qed

text \<open>A background start writes back what the tool has in memory, whatever the store held.\<close>

lemma background_overwrites:
  assumes "ok s" and "execute_background save spawned line now tool config mem s = (Inr r, mem', s')"
  shows "load s' = Inr (hm_insert (pr_pid r) r mem)"
proof -
  obtain pid t where mem': "mem' = hm_insert pid (background_record tool config pid t now) mem"
      and r: "r = background_record tool config pid t now" and saved: "save mem' s = (Inr (), s')"
    using assms(2) by (auto simp: execute_background_def Let_def split: sum.splits prod.splits)
  have "pr_pid r = pid" by (simp add: r background_record_def)
  with load_saved [OF assms(1), of mem'] saved show ?thesis by (simp add: mem' r)
qed

end

subsection \<open>The registry in a home directory\<close>

text \<open>
  The home directory is a directory without links, and what \<open>.devit\<close> in it is, the registry can be
  kept in; serde reads back what it prints.
\<close>

definition devit_loc :: "string list \<Rightarrow> string list" where
  "devit_loc home = home @ [''.devit'']"

definition registry_home ::
  "(registry \<Rightarrow> string) \<Rightarrow> (string \<Rightarrow> registry option) \<Rightarrow> (string, string) hmap \<Rightarrow> string list \<Rightarrow> file_system \<Rightarrow> bool"
where
  "registry_home enc dec parent home fs \<longleftrightarrow>
     (\<exists>h. or_else (hm_get parent ''HOME'') (hm_get parent ''USERPROFILE'') = Some h \<and> h \<noteq> []
        \<and> components h = RootDir # map Normal home)
     \<and> (\<forall>r. dec (enc r) = Some r) \<and> work_tree fs home
     \<and> (node_at fs (devit_loc home) = Some Dir
        \<or> node_at fs (devit_loc home) = None \<and> node_at fs (devit_loc home @ [''process_registry.json'']) = None)"

lemma registry_paths:
  assumes "registry_home enc dec parent home fs"
  shows "\<exists>d. registry_dir parent = Some d \<and> components d = RootDir # map Normal (devit_loc home)
    \<and> registry_file d = RootDir # map Normal (devit_loc home) @ [Normal ''process_registry.json'']
    \<and> lock_file d = RootDir # map Normal (devit_loc home) @ [Normal ''process_registry.lock'']
    \<and> temp_file d = RootDir # map Normal (devit_loc home) @ [Normal ''process_registry.json.tmp'']"
proof -
  obtain h where h: "or_else (hm_get parent ''HOME'') (hm_get parent ''USERPROFILE'') = Some h"
      "h \<noteq> []" "components h = RootDir # map Normal home"
    using assms by (auto simp: registry_home_def)
  let ?d = "path_join h ''.devit''"
  have d: "components ?d = RootDir # map Normal (devit_loc home)"
    using components_join_names [of "''.devit''" h] h(2,3)
    by (simp add: devit_loc_def path_names_def is_absolute_def components_def seg_component_def)
  have ne: "?d \<noteq> []" using h(2) by (simp add: path_join_def is_absolute_def)
  have plain: "\<not> is_absolute n \<Longrightarrow> split_char (CHR ''/'') n = [n] \<Longrightarrow> n \<noteq> [] \<Longrightarrow> n \<noteq> ''.'' \<Longrightarrow> n \<noteq> ''..''
      \<Longrightarrow> components (path_join ?d n) = RootDir # map Normal (devit_loc home) @ [Normal n]" for n
    using components_join_names [of n ?d] ne d
    by (simp add: path_names_def components_def [of n] seg_component_def)
  show ?thesis
    using h(1) d plain [of "''process_registry.json''"] plain [of "''process_registry.lock''"]
      plain [of "''process_registry.json.tmp''"]
    by (simp add: registry_dir_def registry_file_def lock_file_def temp_file_def is_absolute_def)
qed

lemma work_tree_sub:
  assumes "work_tree fs root" and "node_at fs (root @ [n]) = Some Dir"
  shows "work_tree fs (root @ [n])"
  using assms prefix_order.trans [of root "root @ [n]"]
  by (auto simp: work_tree_def link_free_def)

text \<open>Making the directory, and what entries of it come to.\<close>

lemma create_devit:
  assumes "registry_home enc dec parent home fs"
  shows "\<exists>fs1. create_dir_all (RootDir # map Normal (devit_loc home)) fs = Some fs1
    \<and> work_tree fs1 (devit_loc home) \<and> registry_home enc dec parent home fs1
    \<and> node_at fs1 (devit_loc home @ [n]) = node_at fs (devit_loc home @ [n])"
proof -
  have wt: "work_tree fs home" using assms by (simp add: registry_home_def)
  have step: "create_dir_all (RootDir # map Normal (devit_loc home)) fs = create_dirs max_links home [Normal ''.devit''] fs"
    using wt create_dirs_dirs [of home fs "[]" max_links "[Normal ''.devit'']"]
    by (simp add: create_dir_all_def devit_loc_def work_tree_def)
  show ?thesis
  proof (cases "node_at fs (devit_loc home) = Some Dir")
    case True
    then show ?thesis
      using step assms work_tree_sub [OF wt] by (simp add: devit_loc_def)
  next
    case False
    then have none: "node_at fs (devit_loc home) = None"
      using assms by (auto simp: registry_home_def)
    let ?fs1 = "put_node (devit_loc home) Dir fs"
    have made: "create_dir_all (RootDir # map Normal (devit_loc home)) fs = Some ?fs1"
      using step none by (simp add: devit_loc_def)
    then have wt1: "work_tree ?fs1 home"
      using create_dir_all_tree [OF wt] by blast
    have dir: "node_at ?fs1 (devit_loc home) = Some Dir"
      by (simp add: node_at_put devit_loc_def)
    have "registry_home enc dec parent home ?fs1"
      using assms wt1 dir by (simp add: registry_home_def)
    then show ?thesis
      using made work_tree_sub [OF wt1] dir
      by (intro exI [of _ ?fs1]) (simp add: devit_loc_def node_at_put_other)
  qed
qed

lemma write_entry:
  assumes "work_tree fs root" and "write_text (RootDir # map Normal root @ [Normal n]) t fs = Some fs'"
  shows "fs' = put_node (root @ [n]) (File t) fs"
  using assms(2) locate_entry [OF assms(1), of True n]
  by (auto simp: write_text_def split: option.splits node.splits)

lemma rename_entry:
  assumes "work_tree fs root" and "node_at fs (root @ [a]) = Some (File t)" and "a \<noteq> b"
    and "rename_file (RootDir # map Normal root @ [Normal a]) (RootDir # map Normal root @ [Normal b]) fs = Some fs'"
  shows "fs' = put_node (root @ [b]) (File t) (del_node (root @ [a]) fs)"
  using assms(2-4) locate_entry [OF assms(1), of False]
  by (auto simp: rename_file_def split: if_splits)

lemma registry_home_entry:
  assumes "registry_home enc dec parent home fs" and "work_tree fs (devit_loc home)"
  shows "registry_home enc dec parent home (put_node (devit_loc home @ [n]) (File t) fs)"
    and "registry_home enc dec parent home (del_node (devit_loc home @ [n]) fs)"
proof -
  have wt: "work_tree fs home" and dir: "node_at fs (devit_loc home) = Some Dir"
    using assms by (auto simp: registry_home_def work_tree_def)
  have loc: "devit_loc home \<noteq> devit_loc home @ [n]" by simp
  have below: "strict_prefix home (devit_loc home @ [n])"
    by (simp add: devit_loc_def strict_prefix_def)
  have "work_tree (put_node (devit_loc home @ [n]) (File t) fs) home"
    using wt by (intro work_tree_below [OF wt only_below_put [OF below]]) (simp add: work_tree_def link_free_put)
  moreover have "work_tree (del_node (devit_loc home @ [n]) fs) home"
    using wt by (intro work_tree_below [OF wt only_below_del [OF below]]) (simp add: work_tree_def link_free_del)
  ultimately show "registry_home enc dec parent home (put_node (devit_loc home @ [n]) (File t) fs)"
    and "registry_home enc dec parent home (del_node (devit_loc home @ [n]) fs)"
    using assms(1) dir loc by (simp_all add: registry_home_def node_at_put_other node_at_del_other)
qed

text \<open>Loading reads one node.\<close>

lemma load_registry_node:
  assumes "registry_home enc dec parent home fs"
  shows "load_registry dec parent fs
    = (case node_at fs (devit_loc home @ [''process_registry.json'']) of
         None \<Rightarrow> Inr []
       | Some (File t) \<Rightarrow> (case dec t of None \<Rightarrow> Inl ''Failed to parse registry'' | Some r \<Rightarrow> Inr r)
       | Some _ \<Rightarrow> Inl ''read registry'')"
proof -
  let ?p = "RootDir # map Normal (devit_loc home) @ [Normal ''process_registry.json'']"
  obtain d where d: "registry_dir parent = Some d" "registry_file d = ?p"
    using registry_paths [OF assms] by blast
  have wt: "work_tree fs home" using assms by (simp add: registry_home_def)
  show ?thesis
  proof (cases "node_at fs (devit_loc home) = Some Dir")
    case True
    then have "work_tree fs (devit_loc home)"
      using work_tree_sub [OF wt] by (simp add: devit_loc_def)
    then show ?thesis
      using d locate_entry
      by (auto simp: load_registry_def path_exists_def stat_def read_to_string_def split: option.split node.split)
  next
    case False
    then have none: "node_at fs (home @ [''.devit'']) = None"
        "node_at fs (devit_loc home @ [''process_registry.json'']) = None"
      using assms by (auto simp: registry_home_def devit_loc_def)
    have "locate fs True ?p = None"
      using none(1) wt walk_dirs [of home fs "[]" max_links True "[Normal ''.devit'', Normal ''process_registry.json'']"]
      by (simp add: locate_def devit_loc_def work_tree_def)
    then show ?thesis
      using d none(2) by (simp add: load_registry_def path_exists_def stat_def)
  qed
qed

subsection \<open>A save that is cut short\<close>

text \<open>
  What a crash during a save may leave: each state between its steps, and the temporary file
  written in part.
\<close>

inductive crash_state ::
  "(registry \<Rightarrow> string) \<Rightarrow> (string, string) hmap \<Rightarrow> registry \<Rightarrow> file_system \<Rightarrow> file_system \<Rightarrow> bool"
  for enc parent r fs
where
  crash_early: "crash_state enc parent r fs fs"
| crash_dir: "registry_dir parent = Some d \<Longrightarrow> create_dir_all (components d) fs = Some g \<Longrightarrow>
    crash_state enc parent r fs g"
| crash_lock: "registry_dir parent = Some d \<Longrightarrow> create_dir_all (components d) fs = Some fs1 \<Longrightarrow>
    write_text (lock_file d) [] fs1 = Some g \<Longrightarrow> crash_state enc parent r fs g"
| crash_temp: "registry_dir parent = Some d \<Longrightarrow> create_dir_all (components d) fs = Some fs1 \<Longrightarrow>
    write_text (lock_file d) [] fs1 = Some fs2 \<Longrightarrow>
    write_text (temp_file d) (take n (enc r)) fs2 = Some g \<Longrightarrow> crash_state enc parent r fs g"
| crash_late: "snd (save_registry enc parent r fs) = g \<Longrightarrow> crash_state enc parent r fs g"

lemma save_steps:
  assumes "registry_home enc dec parent home fs" and "registry_dir parent = Some d"
    and "create_dir_all (components d) fs = Some fs1"
  shows "work_tree fs1 (devit_loc home)" and "registry_home enc dec parent home fs1"
    and "load_registry dec parent fs1 = load_registry dec parent fs"
proof -
  obtain d' where d': "registry_dir parent = Some d'" "components d' = RootDir # map Normal (devit_loc home)"
    using registry_paths [OF assms(1)] by blast
  with assms(2,3) have "create_dir_all (RootDir # map Normal (devit_loc home)) fs = Some fs1" by simp
  with create_devit [OF assms(1), of "''process_registry.json''"]
  have *: "work_tree fs1 (devit_loc home)" "registry_home enc dec parent home fs1"
    "node_at fs1 (devit_loc home @ [''process_registry.json'']) = node_at fs (devit_loc home @ [''process_registry.json''])"
    by auto
  show "work_tree fs1 (devit_loc home)" and "registry_home enc dec parent home fs1" by (rule *)+
  show "load_registry dec parent fs1 = load_registry dec parent fs"
    using load_registry_node [OF assms(1)] load_registry_node [OF *(2)] *(3) by simp
qed

text \<open>A file that is not the registry changes nothing for who loads it.\<close>

lemma other_entry:
  assumes "registry_home enc dec parent home fs" and "work_tree fs (devit_loc home)"
    and "p = RootDir # map Normal (devit_loc home) @ [Normal n]" and "n \<noteq> ''process_registry.json''"
    and "write_text p t fs = Some fs'"
  shows "work_tree fs' (devit_loc home)" and "registry_home enc dec parent home fs'"
    and "load_registry dec parent fs' = load_registry dec parent fs"
    and "node_at fs' (devit_loc home @ [n]) = Some (File t)"
proof -
  have fs': "fs' = put_node (devit_loc home @ [n]) (File t) fs"
    using write_entry [OF assms(2)] assms(3,5) by blast
  show "work_tree fs' (devit_loc home)"
    unfolding fs' by (rule work_tree_put_file) (rule assms(2))
  show home: "registry_home enc dec parent home fs'"
    unfolding fs' by (rule registry_home_entry(1)) (rule assms(1,2))+
  show "load_registry dec parent fs' = load_registry dec parent fs"
    unfolding load_registry_node [OF assms(1)] load_registry_node [OF home]
    using assms(4) by (simp add: fs' node_at_put_other)
  show "node_at fs' (devit_loc home @ [n]) = Some (File t)"
    by (simp add: fs' node_at_put)
qed

lemma save_registry_result:
  assumes "registry_home enc dec parent home fs"
  shows "registry_home enc dec parent home (snd (save_registry enc parent r fs))"
    and "fst (save_registry enc parent r fs) = Inr () \<Longrightarrow>
          load_registry dec parent (snd (save_registry enc parent r fs)) = Inr r"
    and "fst (save_registry enc parent r fs) \<noteq> Inr () \<Longrightarrow>
          load_registry dec parent (snd (save_registry enc parent r fs)) = load_registry dec parent fs"
proof -
  obtain d where d: "registry_dir parent = Some d" "components d = RootDir # map Normal (devit_loc home)"
      and files: "registry_file d = RootDir # map Normal (devit_loc home) @ [Normal ''process_registry.json'']"
        "lock_file d = RootDir # map Normal (devit_loc home) @ [Normal ''process_registry.lock'']"
        "temp_file d = RootDir # map Normal (devit_loc home) @ [Normal ''process_registry.json.tmp'']"
    using registry_paths [OF assms] by blast
  obtain fs1 where fs1: "create_dir_all (components d) fs = Some fs1"
    using create_devit [OF assms] d(2) by auto
  note s1 = save_steps [OF assms d(1) fs1]
  have all: "registry_home enc dec parent home (snd (save_registry enc parent r fs))
    \<and> (if fst (save_registry enc parent r fs) = Inr ()
       then load_registry dec parent (snd (save_registry enc parent r fs)) = Inr r
       else load_registry dec parent (snd (save_registry enc parent r fs)) = load_registry dec parent fs)"
  proof (cases "write_text (lock_file d) [] fs1")
    case None
    then show ?thesis using d(1) fs1 s1 by (simp add: save_registry_def)
  next
    case (Some fs2)
    note lock = this
    note s2 = other_entry [OF s1(2,1) files(2) _ lock, simplified]
    show ?thesis
    proof (cases "write_text (temp_file d) (enc r) fs2")
      case None
      then show ?thesis using d(1) fs1 lock s1 s2 by (simp add: save_registry_def)
    next
      case (Some fs3)
      note s3 = other_entry [OF s2(2,1) files(3) _ Some, simplified]
      show ?thesis
      proof (cases "rename_file (temp_file d) (registry_file d) fs3")
        case None
        then show ?thesis using d(1) fs1 lock Some s1 s2 s3 by (simp add: save_registry_def)
      next
        case (Some fs4)
        have fs4: "fs4 = put_node (devit_loc home @ [''process_registry.json'']) (File (enc r))
            (del_node (devit_loc home @ [''process_registry.json.tmp'']) fs3)"
          using rename_entry [OF s3(1,4) _ Some [unfolded files]] by simp
        have gone: "registry_home enc dec parent home (del_node (devit_loc home @ [''process_registry.json.tmp'']) fs3)"
            "work_tree (del_node (devit_loc home @ [''process_registry.json.tmp'']) fs3) (devit_loc home)"
          using registry_home_entry(2) [OF s3(2,1)] work_tree_del_entry [OF s3(1)] by blast+
        have home: "registry_home enc dec parent home fs4"
          unfolding fs4 by (rule registry_home_entry(1) [OF gone])
        have "load_registry dec parent fs4 = Inr r"
          using assms unfolding load_registry_node [OF home]
          by (simp add: fs4 node_at_put registry_home_def)
        with home show ?thesis
          using d(1) fs1 lock \<open>write_text (temp_file d) (enc r) fs2 = Some fs3\<close> Some
          by (simp add: save_registry_def)
      qed
    qed
  qed
  then show "registry_home enc dec parent home (snd (save_registry enc parent r fs))" by blast
  from all show "fst (save_registry enc parent r fs) = Inr () \<Longrightarrow>
      load_registry dec parent (snd (save_registry enc parent r fs)) = Inr r" by simp
  from all show "fst (save_registry enc parent r fs) \<noteq> Inr () \<Longrightarrow>
      load_registry dec parent (snd (save_registry enc parent r fs)) = load_registry dec parent fs" by simp
qed

interpretation stored_registry: registry_store "load_registry dec parent" "save_registry enc parent"
  "registry_home enc dec parent home"
  by unfold_locales (use save_registry_result in \<open>blast+\<close>)

text \<open>
  wherever a save of the registry stops, by an error or a crash, also in the middle of
  writing, the next load gives the registry as it was before or the one that was being saved; and
  a save that reports success is read back.
\<close>

theorem saved_registry_is_whole:
  assumes "registry_home enc dec parent home fs" and "crash_state enc parent r fs g"
  shows "(load_registry dec parent g = load_registry dec parent fs \<or> load_registry dec parent g = Inr r)
    \<and> (fst (save_registry enc parent r fs) = Inr ()
        \<longrightarrow> load_registry dec parent (snd (save_registry enc parent r fs)) = Inr r)"
proof -
  have "load_registry dec parent g = load_registry dec parent fs \<or> load_registry dec parent g = Inr r"
    using assms(2)
  proof cases
    case crash_early
    then show ?thesis by simp
  next
    case (crash_dir d)
    then show ?thesis using save_steps(3) [OF assms(1)] by blast
  next
    case (crash_lock d fs1)
    obtain d' where "registry_dir parent = Some d'"
        and "lock_file d' = RootDir # map Normal (devit_loc home) @ [Normal ''process_registry.lock'']"
      using registry_paths [OF assms(1)] by blast
    with crash_lock other_entry(3) [of enc dec parent home fs1 "lock_file d" "''process_registry.lock''" "[]" g]
      save_steps [OF assms(1) crash_lock(1,2)]
    show ?thesis by simp
  next
    case (crash_temp d fs1 fs2 n)
    obtain d' where d': "registry_dir parent = Some d'"
        "lock_file d' = RootDir # map Normal (devit_loc home) @ [Normal ''process_registry.lock'']"
        "temp_file d' = RootDir # map Normal (devit_loc home) @ [Normal ''process_registry.json.tmp'']"
      using registry_paths [OF assms(1)] by blast
    note s1 = save_steps [OF assms(1) crash_temp(1,2)]
    have lock: "lock_file d = RootDir # map Normal (devit_loc home) @ [Normal ''process_registry.lock'']"
      using d' crash_temp(1) by simp
    note s2 = other_entry [OF s1(2,1) lock _ crash_temp(3), simplified]
    have temp: "temp_file d = RootDir # map Normal (devit_loc home) @ [Normal ''process_registry.json.tmp'']"
      using d' crash_temp(1) by simp
    show ?thesis
      using other_entry(3) [OF s2(2,1) temp _ crash_temp(4)] s1(3) s2(3) by simp
  next
    case crash_late
    then show ?thesis using save_registry_result(2,3) [OF assms(1), of r] by fastforce
  qed
  then show ?thesis using save_registry_result(2) [OF assms(1)] by blast
qed

text \<open>
  C26: after any run of background starts, signals and restarts from an empty registry, a signal
  goes only to the process group of a process the tools started, and only while the leader of the
  group still shows the start time it was started with.
\<close>

theorem only_started_groups_are_signalled:
  assumes "exec_reach (load_registry dec parent) (save_registry enc parent) fs0 (mem, fs) started"
    and "registry_home enc dec parent home fs0" and "load_registry dec parent fs0 = Inr []"
    and "kill_process (load_registry dec parent) (save_registry enc parent) procs sent_ok pid sg fs
      = (res, fs', Some (g, n))"
  shows "g = pid \<and> (\<exists>t. (g, t) \<in> started \<and> read_proc_stat (procs g) = Inr t)"
  by (rule stored_registry.signals_reach_started_groups [OF assms])

subsection \<open>Instances\<close>

instance process_status :: countable
  by countable_datatype

instance process_record_ext :: (countable) countable
proof (rule countable_classI)
  let ?f = "\<lambda>r :: 'a process_record_scheme. (pr_pid r, pr_pgid r, pr_start_ticks r, pr_started_at r,
    pr_command r, pr_args r, pr_status r, pr_exit_code r, pr_terminated_by_signal r, pr_auto_kill_at r,
    process_record.more r)"
  show "to_nat (?f r) = to_nat (?f r') \<Longrightarrow> r = r'" for r r'
    by simp
qed

text \<open>A text form of registries, and a home directory.\<close>

definition sample_enc :: "registry \<Rightarrow> string" where
  "sample_enc r = replicate (to_nat r) CHR ''x''"

definition sample_dec :: "string \<Rightarrow> registry option" where
  "sample_dec t = Some (from_nat (length t))"

definition home_env :: "(string, string) hmap" where
  "home_env = [(''HOME'', ''/h'')]"

definition home_fs :: file_system where
  "home_fs = \<lparr>nodes = [([''h''], Dir)], cwd = []\<rparr>"

definition cc_line :: string where
  "cc_line = ''7 (cc) S 1 7 7 0 -1 0 0 0 0 0 0 0 0 0 20 0 1 0 100 0 0''"

lemma home_nodes: "node_at home_fs l = (if l = [] \<or> l = [''h''] then Some Dir else None)"
  by (simp add: node_at_def home_fs_def)

lemma home_is_registry_home: "registry_home sample_enc sample_dec home_env [''h''] home_fs"
proof -
  have "components ''/h'' = [RootDir, Normal ''h'']" by code_simp
  moreover have "work_tree home_fs [''h'']"
    by (auto simp: work_tree_def link_free_def home_nodes prefix_Cons)
  ultimately show ?thesis
    by (simp add: registry_home_def sample_enc_def sample_dec_def home_env_def or_else_def devit_loc_def home_nodes)
qed

lemma home_save_succeeds: "fst (save_registry enc home_env r home_fs) = Inr ()"
  by code_simp

lemma home_load_empty: "load_registry dec home_env home_fs = Inr []"
  by code_simp

lemma cc_line_stat: "read_proc_stat (Some cc_line) = Inr 100"
  by code_simp

lemma saved_registry_is_whole_witness:
  "load_registry sample_dec home_env (snd (save_registry sample_enc home_env [] home_fs)) = Inr []"
  using saved_registry_is_whole [OF home_is_registry_home crash_early] home_save_succeeds by blast

text \<open>One process is started and stopped.\<close>

definition cc_record :: process_record where
  "cc_record = background_record default_exec_tool_config cc_request 7 100 0"

definition started_fs :: file_system where
  "started_fs = snd (save_registry sample_enc home_env [(7, cc_record)] home_fs)"

lemma cc_started:
  "execute_background (save_registry sample_enc home_env) (Inr 7) (Some cc_line) 0
     default_exec_tool_config cc_request [] home_fs = (Inr cc_record, [(7, cc_record)], started_fs)"
  using home_save_succeeds [of sample_enc "[(7, cc_record)]"]
  by (auto simp: execute_background_def cc_line_stat started_fs_def cc_record_def Let_def
      split: prod.split sum.split)

lemma cc_reached:
  "exec_reach (load_registry sample_dec home_env) (save_registry sample_enc home_env) home_fs
     ([(7, cc_record)], started_fs) {(7, 100)}"
proof -
  have "exec_reach (load_registry sample_dec home_env) (save_registry sample_enc home_env) home_fs
      ([], home_fs) {}"
    using exec_init [of "load_registry sample_dec home_env" "save_registry sample_enc home_env" home_fs]
    by (simp add: initial_registry_def home_load_empty)
  from exec_start [OF this cc_started] show ?thesis
    by (simp add: started_by_def cc_line_stat)
qed

lemma only_started_groups_are_signalled_witness:
  "case kill_process (load_registry sample_dec home_env) (save_registry sample_enc home_env)
          (\<lambda>p. Some cc_line) True 7 ''term'' started_fs of
     (res, fs', sent) \<Rightarrow> sent = Some (7, 15) \<and> (\<exists>t. (7, t) \<in> {(7, 100)} \<and> read_proc_stat (Some cc_line) = Inr t)"
proof -
  have load: "load_registry sample_dec home_env started_fs = Inr [(7, cc_record)]"
    using save_registry_result(2) [OF home_is_registry_home home_save_succeeds]
    by (simp add: started_fs_def)
  have sig: "parse_signal ''term'' = Some 15" by code_simp
  obtain res fs' where run: "kill_process (load_registry sample_dec home_env) (save_registry sample_enc home_env)
      (\<lambda>p. Some cc_line) True 7 ''term'' started_fs = (res, fs', Some (7, 15))"
  proof -
    have rec: "pr_pgid cc_record = 7" "pr_start_ticks cc_record = 100"
      by (simp_all add: cc_record_def background_record_def)
    obtain saved g where "save_registry sample_enc home_env [(7, mark_killed 15 cc_record)] started_fs = (saved, g)"
      by (cases "save_registry sample_enc home_env [(7, mark_killed 15 cc_record)] started_fs")
    then show ?thesis
      using that by (cases saved) (simp_all add: kill_process_def load cc_line_stat sig verify_pgid_leader_def rec)
  qed
  from only_started_groups_are_signalled [OF cc_reached home_is_registry_home home_load_empty run] run
  show ?thesis by simp
qed

subsection \<open>What the registry loses\<close>

text \<open>
  The tool that starts processes keeps its own copy and writes it back: a process that was
  stopped in between is listed as running again. (The store here is the registry itself.)
\<close>

lemma stopped_process_runs_again:
  "let load = (\<lambda>s. Inr s); save = (\<lambda>r s. (Inr (), r)); line = (\<lambda>p. Some cc_line);
       (r1, mem1, s1) = execute_background save (Inr 7) (Some cc_line) 0 default_exec_tool_config cc_request [] [];
       (r2, s2, sent) = kill_process load save line True 7 ''KILL'' s1;
       (r3, mem2, s3) = execute_background save (Inr 8) (Some cc_line) 0 default_exec_tool_config cc_request mem1 s2
   in map_option pr_status (hm_get s2 7) = Some Exited \<and> map_option pr_status (hm_get s3 7) = Some Running"
  by code_simp

text \<open>
  A space in the name of a program moves the words of its status line: what is read then is
  another field, which is zero for every process.
\<close>

lemma name_with_space_hides_start_time:
  "read_proc_stat (Some ''7 (a b) S 1 7 7 0 -1 0 0 0 0 0 0 0 0 0 20 0 1 0 100 0 0'') = Inr 0"
  "read_proc_stat (Some ''7 (a b) S 1 7 7 0 -1 0 0 0 0 0 0 0 0 0 20 0 1 0 999 0 0'') = Inr 0"
  by code_simp+

text \<open>
  A process whose status cannot be read after the start runs, but is in no registry: nothing will
  ever stop it through the tools.
\<close>

lemma unread_process_is_not_recorded:
  "execute_background save (Inr pid) None now tool config mem s = (Inl ''Failed to read /proc'', mem, s)"
  by (simp add: execute_background_def read_proc_stat_def)

end
