(* ===== verification/File_Access.thy ===== *)
theory File_Access
  imports Path_Security Str_Search Std_Dir Json
begin

text \<open>
  The files a client reads and writes through the tools: the resolution of its paths and the read
  and write tools (crates/mcp-tools/src/file_read.rs and file_write.rs, with the errors of
  errors.rs) over the writer of crates/common/src/fs/safe_write.rs.

  A path of the file system is the list of its components, \<open>tmp\<close> is the system's directory for
  temporary files. The crate \<^bold>\<open>path_clean\<close> is the parameter \<open>clean\<close>, the decoder of base64
  \<open>unb64\<close>. A panic is \<open>None\<close>. Errors carry their rule or message without paths.
\<close>

datatype tool_error =
    ToolValidation string
  | ToolMissing string
  | ToolPolicy string string
  | ToolIo string
  | ToolDiff string
  | ToolInternal string

fun rpc_code :: "tool_error \<Rightarrow> int" where
  "rpc_code (ToolValidation _) = -32602"
| "rpc_code (ToolMissing _) = -32602"
| "rpc_code (ToolPolicy _ _) = -32601"
| "rpc_code (ToolIo _) = -32603"
| "rpc_code (ToolDiff _) = -32600"
| "rpc_code (ToolInternal _) = -32603"

subsection \<open>Resolving the path of a client\<close>

record file_context =
  fc_root :: "component list"
  fc_allowed :: "component list list"

text \<open>Directories that do not exist are left out of the allowed ones.\<close>

definition new_file_context ::
  "file_system \<Rightarrow> component list \<Rightarrow> component list list \<Rightarrow> tool_error + file_context"
where
  "new_file_context fs root allowed =
     (case canonicalize fs root of
        None \<Rightarrow> Inl (ToolIo ''canonicalize repository root'')
      | Some r \<Rightarrow> Inr \<lparr>fc_root = r, fc_allowed = List.map_filter (canonicalize fs) allowed\<rparr>)"

definition is_path_allowed :: "component list \<Rightarrow> file_context \<Rightarrow> component list \<Rightarrow> bool" where
  "is_path_allowed tmp ctx canonical \<longleftrightarrow>
     prefix (fc_root ctx) canonical \<or> prefix tmp canonical
     \<or> list_ex (\<lambda>a. prefix a canonical) (fc_allowed ctx)"

definition boundary_error :: "string \<Rightarrow> tool_error" where
  "boundary_error = ToolPolicy ''path_security_repo_boundary''"

text \<open>The nearest ancestor that exists, with the missing names put back behind it.\<close>

fun ancestor_of :: "file_system \<Rightarrow> component list \<Rightarrow> component list \<Rightarrow> tool_error + component list" where
  "ancestor_of fs [] missing = Inl (boundary_error ''Cannot resolve path ancestor'')"
| "ancestor_of fs (c # rcs) missing =
     (if path_exists fs (rev (c # rcs)) then
        (case canonicalize fs (rev (c # rcs)) of
           None \<Rightarrow> Inl (ToolIo ''canonicalize parent path'')
         | Some p \<Rightarrow> Inr (p @ missing))
      else case c of
             Normal s \<Rightarrow> ancestor_of fs rcs (Normal s # missing)
           | _ \<Rightarrow> Inl (boundary_error ''Cannot resolve path ancestor''))"

definition canonicalize_ancestor :: "file_system \<Rightarrow> component list \<Rightarrow> tool_error + component list" where
  "canonicalize_ancestor fs path = ancestor_of fs (rev path) []"

definition pop_component :: "component list \<Rightarrow> component list option" where
  "pop_component cs = (if cs = [] \<or> last cs = RootDir then None else Some (butlast cs))"

fun resolve_from ::
  "component list \<Rightarrow> component list \<Rightarrow> component list \<Rightarrow> tool_error + component list"
where
  "resolve_from root resolved [] = Inr resolved"
| "resolve_from root resolved (Normal s # cs) = resolve_from root (resolved @ [Normal s]) cs"
| "resolve_from root resolved (ParentDir # cs) =
     (case pop_component resolved of
        Some r \<Rightarrow>
          if prefix root r then resolve_from root r cs
          else Inl (ToolPolicy ''path_resolution_escape'' ''Path resolution would escape repository'')
      | None \<Rightarrow> Inl (ToolPolicy ''path_resolution_escape'' ''Path resolution would escape repository''))"
| "resolve_from root resolved (_ # cs) = resolve_from root resolved cs"

definition manual_resolve :: "file_context \<Rightarrow> component list \<Rightarrow> tool_error + component list" where
  "manual_resolve ctx target = resolve_from (fc_root ctx) (fc_root ctx) target"

definition resolve_absolute ::
  "component list \<Rightarrow> file_context \<Rightarrow> file_system \<Rightarrow> string \<Rightarrow> tool_error + component list"
where
  "resolve_absolute tmp ctx fs raw =
     (let input = components raw; outside = Inl (boundary_error ''Absolute path outside project'')
      in if path_exists fs input then
           (case canonicalize fs input of
              None \<Rightarrow> Inl (ToolIo ''canonicalize path'')
            | Some c \<Rightarrow> if is_path_allowed tmp ctx c then Inr c else outside)
         else case path_parent input of
                None \<Rightarrow> outside
              | Some par \<Rightarrow>
                  (case canonicalize_ancestor fs par of
                     Inl e \<Rightarrow> Inl e
                   | Inr cp \<Rightarrow>
                       (case file_name raw of
                          Some f \<Rightarrow> if is_path_allowed tmp ctx cp then Inr (cp @ [Normal f]) else outside
                        | None \<Rightarrow> outside)))"

definition resolve_relative :: "file_context \<Rightarrow> file_system \<Rightarrow> string \<Rightarrow> tool_error + component list" where
  "resolve_relative ctx fs raw =
     (let joined = join_components (fc_root ctx) raw
      in case (if path_exists fs joined then
                 (case canonicalize fs joined of None \<Rightarrow> Inl (ToolIo ''canonicalize path'') | Some c \<Rightarrow> Inr c)
               else manual_resolve ctx (components raw)) of
           Inl e \<Rightarrow> Inl e
         | Inr c \<Rightarrow>
             if prefix (fc_root ctx) c then Inr c else Inl (boundary_error ''Path escapes repository''))"

definition resolve_file_path ::
  "component list \<Rightarrow> file_context \<Rightarrow> file_system \<Rightarrow> string \<Rightarrow> tool_error + component list"
where
  "resolve_file_path tmp ctx fs raw =
     (if contains raw ''../'' \<or> contains raw (''..'' @ [CHR 0x5C]) then
        Inl (ToolPolicy ''path_traversal_protection'' ''Path traversal attempt detected'')
      else if CHR 0x00 \<in> set raw then
        Inl (ToolPolicy ''path_security_null_byte'' ''Null byte detected in path'')
      else if 4096 < length raw then
        Inl (ToolPolicy ''path_security_length_limit'' ''Path too long'')
      else if is_absolute raw then resolve_absolute tmp ctx fs raw
      else resolve_relative ctx fs raw)"

subsection \<open>Reading\<close>

record file_content =
  fd_path :: "component list"
  fd_content :: string
  fd_size :: nat
  fd_lines :: "string list option"
  fd_encoding :: string

definition max_read_size :: nat where
  "max_read_size = 1024 * 1024"

text \<open>
  The lines from \<open>offset\<close> on, at most \<open>limit\<close>. The sum wraps at 64 bits (and panics at once in a
  build with overflow checks); an end before the start panics.
\<close>

definition line_window :: "nat \<Rightarrow> nat \<Rightarrow> string list \<Rightarrow> string list option" where
  "line_window offset limit ls =
     (let start = min offset (length ls); stop = min ((offset + limit) mod 2 ^ 64) (length ls)
      in if start \<le> stop then Some (take (stop - start) (drop start ls)) else None)"

definition pad_left :: "nat \<Rightarrow> string \<Rightarrow> string" where
  "pad_left n s = replicate (n - length s) (CHR '' '') @ s"

definition number_lines :: "string list \<Rightarrow> string list" where
  "number_lines ls = map (\<lambda>(i, l). pad_left 4 (show_nat (i + 1)) @ '': '' @ l) (enumerate 0 ls)"

definition detect_encoding :: "string \<Rightarrow> string" where
  "detect_encoding t =
     (if list_ex (\<lambda>c. 127 < (of_char c :: nat)) (take 1000 t)
         \<and> starts_with t [CHR 0xEF, CHR 0xBB, CHR 0xBF]
      then ''utf-8-bom'' else ''utf-8'')"

definition read_file ::
  "file_system \<Rightarrow> component list \<Rightarrow> bool \<Rightarrow> nat option \<Rightarrow> nat option \<Rightarrow> (tool_error + file_content) option"
where
  "read_file fs path numbered offset limit =
     (case stat fs True path of
        None \<Rightarrow> Some (Inl (ToolIo ''read file content''))
      | Some (File t) \<Rightarrow>
          (if max_read_size < length t then Some (Inl (ToolDiff ''File too large''))
           else
             case (case (offset, limit) of
                     (Some off, Some lim) \<Rightarrow> map_option join_lines (line_window off lim (str_lines t))
                   | _ \<Rightarrow> Some t) of
               None \<Rightarrow> None
             | Some shown \<Rightarrow>
                 Some (Inr \<lparr>fd_path = path, fd_content = shown, fd_size = length t,
                            fd_lines = (if numbered then Some (number_lines (str_lines shown)) else None),
                            fd_encoding = detect_encoding shown\<rparr>))
      | Some _ \<Rightarrow> Some (Inl (ToolDiff ''Path is not a file'')))"

text \<open>\<open>params.get(key)\<close> with a default for a missing or ill-typed member.\<close>

definition read_format :: "json \<Rightarrow> string" where
  "read_format params =
     (case get_str params ''format'' of
        None \<Rightarrow> ''text''
      | Some f \<Rightarrow> (let t = to_lowercase (trim f) in if t = [] then ''text'' else t))"

definition read_fields :: "json \<Rightarrow> string list option" where
  "read_fields params =
     (case Option.bind (jget params ''fields'') as_array of
        None \<Rightarrow> None
      | Some vs \<Rightarrow>
          (let fs = filter (\<lambda>s. s \<noteq> []) (map trim (List.map_filter as_str vs))
           in if fs = [] then None else Some fs))"

subsection \<open>The writer\<close>

datatype write_mode = Overwrite | Append | CreateNew

record safe_writer =
  sw_allowed :: "component list list"
  sw_max :: "nat option"

definition new_safe_writer :: "component list \<Rightarrow> file_system \<Rightarrow> safe_writer" where
  "new_safe_writer tmp fs =
     \<lparr>sw_allowed = [RootDir # map Normal (cwd fs), tmp], sw_max = Some (10 * 1024 * 1024)\<rparr>"

definition absolute_path :: "component list \<Rightarrow> bool" where
  "absolute_path p \<longleftrightarrow> p \<noteq> [] \<and> hd p = RootDir"

definition writer_checks_path ::
  "(component list \<Rightarrow> component list) \<Rightarrow> safe_writer \<Rightarrow> file_system \<Rightarrow> component list \<Rightarrow> string + unit"
where
  "writer_checks_path clean w fs path =
     (let cleaned = clean path;
          full = (if absolute_path cleaned then cleaned else RootDir # map Normal (cwd fs) @ cleaned);
          canonical = (case canonicalize fs full of Some c \<Rightarrow> c | None \<Rightarrow> full)
      in if \<not> list_ex (\<lambda>base. prefix base canonical) (sw_allowed w) then
           Inl (if absolute_path cleaned then ''absolute path is outside of allowed directories''
                else ''relative path escapes allowed directories'')
         else if ParentDir \<in> set cleaned then Inl ''path contains parent directory traversal''
         else Inr ())"

definition write_by_mode ::
  "write_mode \<Rightarrow> component list \<Rightarrow> string \<Rightarrow> file_system \<Rightarrow> file_system option"
where
  "write_by_mode mode path content fs =
     (case mode of
        Overwrite \<Rightarrow> write_text path content fs
      | Append \<Rightarrow> append_text path content fs
      | CreateNew \<Rightarrow>
          (case locate fs False path of
             None \<Rightarrow> None
           | Some loc \<Rightarrow>
               if node_at fs loc = None then Some (put_node loc (File content) fs) else None))"

datatype write_failure = Refused string | WriteFailed string

definition safe_write ::
  "(component list \<Rightarrow> component list) \<Rightarrow> safe_writer \<Rightarrow> component list \<Rightarrow> string \<Rightarrow> write_mode \<Rightarrow> file_system
    \<Rightarrow> (write_failure + unit) \<times> file_system"
where
  "safe_write clean w path content mode fs =
     (case writer_checks_path clean w fs path of
        Inl e \<Rightarrow> (Inl (Refused e), fs)
      | Inr _ \<Rightarrow>
          if (case sw_max w of Some m \<Rightarrow> m < length content | None \<Rightarrow> False)
          then (Inl (Refused ''content size exceeds maximum''), fs)
          else case (case path_parent path of
                       None \<Rightarrow> Some fs
                     | Some par \<Rightarrow> if path_exists fs par then Some fs else create_dir_all par fs) of
                 None \<Rightarrow> (Inl (WriteFailed ''create parent directories''), fs)
               | Some fs1 \<Rightarrow>
                   (case write_by_mode mode path content fs1 of
                      None \<Rightarrow> (Inl (WriteFailed ''write''), fs1)
                    | Some fs2 \<Rightarrow> (Inr (), fs2)))"

subsection \<open>Writing\<close>

definition max_write_size :: nat where
  "max_write_size = 10 * 1024 * 1024"

definition tool_writer :: "component list \<Rightarrow> file_context \<Rightarrow> safe_writer" where
  "tool_writer tmp ctx = \<lparr>sw_allowed = [fc_root ctx, tmp], sw_max = Some max_write_size\<rparr>"

definition parse_write_mode :: "string option \<Rightarrow> tool_error + write_mode" where
  "parse_write_mode raw =
     (let m = (case raw of Some t \<Rightarrow> t | None \<Rightarrow> ''overwrite'')
      in if m = ''overwrite'' then Inr Overwrite
         else if m = ''append'' then Inr Append
         else if m = ''create_new'' then Inr CreateNew
         else Inl (ToolValidation ''Invalid mode''))"

definition decode_content ::
  "(string \<Rightarrow> string option) \<Rightarrow> string \<Rightarrow> string \<Rightarrow> tool_error + string"
where
  "decode_content unb64 encoding content =
     (if encoding = ''utf8'' then Inr content
      else if encoding = ''binary'' then
        (case unb64 content of
           None \<Rightarrow> Inl (ToolValidation ''Invalid base64 encoding'') | Some b \<Rightarrow> Inr b)
      else Inl (ToolValidation ''Invalid encoding''))"

text \<open>The answer is the path that was written and the number of its bytes.\<close>

definition write_tool ::
  "(component list \<Rightarrow> component list) \<Rightarrow> (string \<Rightarrow> string option) \<Rightarrow> component list \<Rightarrow> file_context
    \<Rightarrow> json \<Rightarrow> file_system \<Rightarrow> (tool_error + component list \<times> nat) \<times> file_system"
where
  "write_tool clean unb64 tmp ctx params fs =
     (case get_str params ''path'' of
        None \<Rightarrow> (Inl (ToolMissing ''path''), fs)
      | Some raw \<Rightarrow>
     (case get_str params ''content'' of
        None \<Rightarrow> (Inl (ToolMissing ''content''), fs)
      | Some content \<Rightarrow>
     (case parse_write_mode (get_str params ''mode'') of
        Inl e \<Rightarrow> (Inl e, fs)
      | Inr mode \<Rightarrow>
     (case resolve_file_path tmp ctx fs raw of
        Inl e \<Rightarrow> (Inl e, fs)
      | Inr path \<Rightarrow>
          if stat fs True path = Some Dir then (Inl (ToolValidation ''Cannot write to a directory''), fs)
          else
     (case decode_content unb64 (case get_str params ''encoding'' of Some e \<Rightarrow> e | None \<Rightarrow> ''utf8'') content of
        Inl e \<Rightarrow> (Inl e, fs)
      | Inr bytes \<Rightarrow>
          if max_write_size < length bytes then (Inl (ToolValidation ''Content exceeds limit''), fs)
          else if mode = CreateNew \<and> path_exists fs path
          then (Inl (ToolValidation ''File already exists''), fs)
          else
            (case safe_write clean (tool_writer tmp ctx) path bytes mode fs of
               (Inl (Refused e), fs') \<Rightarrow> (Inl (ToolValidation e), fs')
             | (Inl (WriteFailed _), fs') \<Rightarrow> (Inl (ToolIo ''write file''), fs')
             | (Inr _, fs') \<Rightarrow> (Inr (path, length bytes), fs')))))))"

end
