(* ===== verification/File_Ops.thy ===== *)
theory File_Ops
  imports File_Access "HOL-Library.List_Lexorder" "HOL-Library.Char_ord" "HOL-Library.Product_Lexorder"
    "HOL-Library.Word"
begin

unbundle bit_operations_syntax

text \<open>
  The exploration of a project (crates/cli/src/core/file_ops.rs): its root, reading, listing and
  searching files, and the tree of its structure.

  The crate \<^bold>\<open>path_clean\<close> is the parameter \<open>clean\<close>, the compiler of regular expressions is
  \<open>compile\<close>, times and modes of files are the fields of \<open>file_meta\<close>. A walk that goes down a tree
  of links is given fuel: \<open>None\<close> is that it ran out. Texts of I/O errors are empty.
\<close>

subsection \<open>Data\<close>

datatype file_type = RegularFile | Directory | Symlink

record file_permissions =
  fp_readable :: bool
  fp_writable :: bool
  fp_executable :: bool

record file_entry =
  fe_name :: string
  fe_path :: "component list"
  fe_type :: file_type
  fe_size :: "nat option"
  fe_modified :: "nat option"
  fe_permissions :: file_permissions

record search_match =
  sm_file :: "component list"
  sm_line_number :: nat
  sm_line :: string
  sm_context_before :: "string list"
  sm_context_after :: "string list"

record search_results =
  sr_pattern :: string
  sr_path :: string
  sr_files_searched :: nat
  sr_total_matches :: nat
  sr_matches :: "search_match list"
  sr_truncated :: bool

datatype tree_node =
  TreeNode (tn_name: string) (tn_path: "component list") (tn_type: file_type)
    (tn_children: "tree_node list option") (tn_size: "nat option")

record project_structure =
  pj_root :: string
  pj_project_type :: "string option"
  pj_tree :: tree_node
  pj_total_files :: nat
  pj_total_dirs :: nat

record file_ops =
  fo_root :: "component list"
  fo_security :: path_security_context
  fo_internal_links :: bool

record file_meta =
  fm_modified :: "component list \<Rightarrow> nat option"
  fm_mode :: "component list \<Rightarrow> nat"

definition max_search_results :: nat where
  "max_search_results = 100"

definition max_tree_depth :: nat where
  "max_tree_depth = 10"

definition ops_io :: "string \<Rightarrow> component list \<Rightarrow> devit_error" where
  "ops_io operation path = Io operation (Some (show_components path)) []"

text \<open>\<open>Path::file_name\<close>, or the whole path where it has none.\<close>

definition entry_name :: "component list \<Rightarrow> string" where
  "entry_name path = (case last_name path of Some n \<Rightarrow> n | None \<Rightarrow> show_components path)"

definition is_file :: "file_system \<Rightarrow> component list \<Rightarrow> bool" where
  "is_file fs path = (case stat fs True path of Some (File _) \<Rightarrow> True | _ \<Rightarrow> False)"

definition is_dir :: "file_system \<Rightarrow> component list \<Rightarrow> bool" where
  "is_dir fs path = (stat fs True path = Some Dir)"

subsection \<open>The root\<close>

definition root_indicators :: "string list" where
  "root_indicators =
     [''.git'', ''Cargo.toml'', ''package.json'', ''pyproject.toml'', ''setup.py'', ''requirements.txt'',
      ''poetry.lock'', ''Pipfile'', ''pom.xml'', ''build.gradle'', ''build.gradle.kts'', ''settings.gradle'',
      ''go.mod'', ''go.sum'', ''CMakeLists.txt'', ''Makefile'', ''configure.ac'', ''*.sln'', ''*.csproj'',
      ''*.fsproj'', ''*.vbproj'', ''Gemfile'', ''Rakefile'', ''composer.json'', ''pubspec.yaml'', ''Package.swift'',
      ''build.gradle.kts'', ''build.sbt'', ''mix.exs'', ''.devcontainer'', ''docker-compose.yml'', ''docker-compose.yaml'',
      ''Dockerfile'', ''.github'', ''.gitlab-ci.yml'', ''.travis.yml'', ''Jenkinsfile'', ''README.md'',
      ''README.rst'', ''README.txt'']"

definition indicator_at :: "file_system \<Rightarrow> component list \<Rightarrow> string \<Rightarrow> bool" where
  "indicator_at fs dir ind =
     (if CHR ''*'' \<in> set ind
      then starts_with ind ''*''
           \<and> (case read_dir fs dir of None \<Rightarrow> False | Some ns \<Rightarrow> list_ex (\<lambda>n. ends_with n (tl ind)) ns)
      else path_exists fs (dir @ [Normal ind]))"

text \<open>The path itself and its parents, up to the root or the empty path.\<close>

definition ancestors :: "component list \<Rightarrow> component list list" where
  "ancestors path =
     map (\<lambda>n. take n path) (rev [(if path \<noteq> [] \<and> hd path = RootDir then 1 else 0)..<Suc (length path)])"

definition auto_detect_project_root :: "file_system \<Rightarrow> component list \<Rightarrow> component list option" where
  "auto_detect_project_root fs start =
     (let from_dir = (if is_file fs start then case path_parent start of None \<Rightarrow> start | Some d \<Rightarrow> d else start)
      in find (\<lambda>dir. list_ex (indicator_at fs dir) root_indicators) (ancestors from_dir))"

text \<open>\<open>forced\<close> is the variable \<open>DEVIT_FORCE_ROOT\<close>.\<close>

definition prepare_root ::
  "file_system \<Rightarrow> string option \<Rightarrow> component list \<Rightarrow> bool
    \<Rightarrow> devit_error + component list \<times> path_security_context"
where
  "prepare_root fs forced path links =
     (case (case forced of
              Some f \<Rightarrow>
                (case canonicalize fs (components f) of
                   None \<Rightarrow> Inl (ops_io ''prepare_root'' (components f)) | Some c \<Rightarrow> Inr c)
            | None \<Rightarrow>
                Inr (case auto_detect_project_root fs path of None \<Rightarrow> path | Some r \<Rightarrow> r)) of
        Inl e \<Rightarrow> Inl e
      | Inr root \<Rightarrow>
          (case new_path_security fs root links of Inl e \<Rightarrow> Inl e | Inr ctx \<Rightarrow> Inr (root, ctx)))"

definition new_file_ops :: "file_system \<Rightarrow> string option \<Rightarrow> component list \<Rightarrow> devit_error + file_ops" where
  "new_file_ops fs forced path =
     map_sum id (\<lambda>(root, ctx). \<lparr>fo_root = root, fo_security = ctx, fo_internal_links = False\<rparr>)
       (prepare_root fs forced path False)"

definition set_root_path ::
  "file_system \<Rightarrow> string option \<Rightarrow> component list \<Rightarrow> file_ops \<Rightarrow> (devit_error + unit) \<times> file_ops"
where
  "set_root_path fs forced path fo =
     (case prepare_root fs forced path (fo_internal_links fo) of
        Inl e \<Rightarrow> (Inl e, fo)
      | Inr (root, ctx) \<Rightarrow> (Inr (), fo\<lparr>fo_root := root, fo_security := ctx\<rparr>))"

text \<open>\<open>strip_prefix\<close> of an absolute path, as the text that is left.\<close>

fun drop_pieces :: "nat \<Rightarrow> string list \<Rightarrow> string list" where
  "drop_pieces n [] = []"
| "drop_pieces n (p # ps) =
     (if p = [] \<or> p = ''.'' then drop_pieces n ps
      else case n of 0 \<Rightarrow> p # ps | Suc m \<Rightarrow> drop_pieces m ps)"

definition strip_root :: "component list \<Rightarrow> string \<Rightarrow> string" where
  "strip_root root path =
     join_slash (drop_empty_pieces (drop_pieces (length root - 1) (tl (split_char (CHR ''/'') path))))"

definition adjust_user_path :: "file_ops \<Rightarrow> string \<Rightarrow> string" where
  "adjust_user_path fo path =
     (if is_absolute path \<and> prefix (fo_root fo) (components path)
      then let rest = strip_root (fo_root fo) path in if rest = [] then ''.'' else rest
      else path)"

definition validated ::
  "(component list \<Rightarrow> component list) \<Rightarrow> file_ops \<Rightarrow> file_system \<Rightarrow> string \<Rightarrow> string
    \<Rightarrow> devit_error + component list"
where
  "validated clean fo fs operation path =
     (case validate_patch_path clean (fo_security fo) fs path of
        Inl e \<Rightarrow> Inl e
      | Inr v \<Rightarrow> if path_exists fs v then Inr v else Inl (ops_io operation v))"

subsection \<open>Reading\<close>

record ops_content =
  oc_path :: string
  oc_content :: string
  oc_size :: nat
  oc_lines :: "string list option"
  oc_encoding :: string

definition ops_file_read ::
  "(component list \<Rightarrow> component list) \<Rightarrow> file_ops \<Rightarrow> file_system \<Rightarrow> string \<Rightarrow> bool \<Rightarrow> nat option
    \<Rightarrow> nat option \<Rightarrow> devit_error + ops_content"
where
  "ops_file_read clean fo fs raw numbered offset limit =
     (let path = adjust_user_path fo raw
      in case validated clean fo fs ''read file'' path of
           Inl e \<Rightarrow> Inl e
         | Inr v \<Rightarrow>
             (case stat fs True v of
                Some (File t) \<Rightarrow>
                  (if max_read_size < length t then Inl (InvalidDiff ''File too large'' None)
                   else
                     case (case (offset, limit) of
                             (Some off, Some lim) \<Rightarrow> map_option join_lines (line_window off lim (str_lines t))
                           | _ \<Rightarrow> Some t) of
                       None \<Rightarrow> Inl (Panicked ''slice index starts after its end'')
                     | Some shown \<Rightarrow>
                         Inr \<lparr>oc_path = path, oc_content = shown, oc_size = length t,
                              oc_lines = (if numbered then Some (number_lines (str_lines shown)) else None),
                              oc_encoding = detect_encoding shown\<rparr>)
              | _ \<Rightarrow> Inl (InvalidDiff ''Path is not a file'' None)))"

subsection \<open>The structured formats\<close>

text \<open>
  \<open>FileContent\<close> as JSON, and its forms (file\_ops.rs and formats.rs). \<open>print\<close> is serde's printer. The
  short names come from a hash map; no short name is a long one, so their order does not matter and
  here it is that of the table.
\<close>

datatype answer_format = FormatJson | FormatCompact | FormatTable | FormatMessagePack

definition content_json :: "ops_content \<Rightarrow> json" where
  "content_json c =
     JObj [(''path'', JStr (oc_path c)), (''content'', JStr (oc_content c)), (''size'', JInt (int (oc_size c))),
           (''lines'', jopt (map_option (\<lambda>ls. JArr (map JStr ls)) (oc_lines c))),
           (''encoding'', JStr (oc_encoding c))]"

definition file_mappings :: "(string \<times> string) list" where
  "file_mappings =
     [(''name'', ''n''), (''path'', ''f''), (''entry_type'', ''t''), (''size'', ''s''), (''modified'', ''m''),
      (''permissions'', ''p''), (''readable'', ''r''), (''writable'', ''w''), (''executable'', ''x''),
      (''content'', ''c''), (''lines'', ''l''), (''encoding'', ''e''), (''file'', ''sf''), (''line_number'', ''ln''),
      (''line'', ''sl''), (''context_before'', ''cb''), (''context_after'', ''ca''), (''pattern'', ''pat''),
      (''files_searched'', ''fs''), (''total_matches'', ''tm''), (''matches'', ''mt''), (''truncated'', ''tc''),
      (''root'', ''rt''), (''project_type'', ''pt''), (''tree'', ''tr''), (''total_files'', ''tf''),
      (''total_dirs'', ''td''), (''node_type'', ''nt''), (''children'', ''ch''), (''directory'', ''dir''),
      (''symlink'', ''sym''), (''unknown'', ''unk'')]"

definition json_key :: "string \<Rightarrow> string" where
  "json_key k = CHR 0x22 # k @ [CHR 0x22, CHR '':'']"

definition apply_mappings :: "string \<Rightarrow> string" where
  "apply_mappings t = fold (\<lambda>(long, short). replace_str (json_key long) (json_key short)) file_mappings t"

fun format_table_value :: "json \<Rightarrow> string" where
  "format_table_value (JStr s) = replace_str ''|'' [CHR 0x5C, CHR ''|''] s"
| "format_table_value (JInt n) = (if n < 0 then ''-'' else []) @ show_nat (nat \<bar>n\<bar>)"
| "format_table_value (JFloat s) = s"
| "format_table_value (JBool b) = (if b then ''true'' else ''false'')"
| "format_table_value JNull = ''null''"
| "format_table_value (JArr _) = ''[array]''"
| "format_table_value (JObj _) = ''[object]''"

fun join_bars :: "string list \<Rightarrow> string" where
  "join_bars [] = []"
| "join_bars [p] = p"
| "join_bars (p # ps) = p @ CHR ''|'' # join_bars ps"

definition table_row :: "string list \<Rightarrow> json \<Rightarrow> string" where
  "table_row headers v =
     join_bars (map (\<lambda>h. case jget v h of Some x \<Rightarrow> format_table_value x | None \<Rightarrow> []) headers) @ [nl]"

definition json_to_table :: "string list \<Rightarrow> json \<Rightarrow> devit_error + string" where
  "json_to_table headers v =
     (case v of
        JArr items \<Rightarrow> Inr (join_bars headers @ nl # concat (map (table_row headers) items))
      | JObj _ \<Rightarrow> Inr (join_bars headers @ nl # table_row headers v)
      | _ \<Rightarrow> Inl (InvalidFormat ''table'' [''array'', ''object'']))"

text \<open>The content of a table is cut at 97 bytes, which panics within a character.\<close>

definition byte_boundary :: "nat \<Rightarrow> string \<Rightarrow> bool" where
  "byte_boundary i t =
     (i = 0 \<or> i = length t \<or>
      i < length t \<and> \<not> (128 \<le> (of_char (t ! i) :: nat) \<and> (of_char (t ! i) :: nat) < 192))"

definition table_content :: "string \<Rightarrow> devit_error + string" where
  "table_content t =
     (if 100 < length t then
        (if byte_boundary 97 t then Inr (take 97 t @ ''...'')
         else Inl (Panicked ''byte index 97 is not a char boundary''))
      else Inr t)"

definition to_format :: "(json \<Rightarrow> string) \<Rightarrow> answer_format \<Rightarrow> ops_content \<Rightarrow> devit_error + string" where
  "to_format print format c =
     (case format of
        FormatJson \<Rightarrow> Inr (print (content_json c))
      | FormatCompact \<Rightarrow> Inr (apply_mappings (print (content_json c)))
      | FormatMessagePack \<Rightarrow> Inl (InvalidFormat ''messagepack'' [''json'', ''compact'', ''table''])
      | FormatTable \<Rightarrow>
          (case table_content (oc_content c) of
             Inl e \<Rightarrow> Inl e
           | Inr t \<Rightarrow>
               json_to_table [''path'', ''size'', ''encoding'', ''content''] (content_json (c\<lparr>oc_content := t\<rparr>))))"

subsection \<open>The read tool\<close>

text \<open>fs.rs: a service for a root reads, keeps the fields that are asked for, and prints.\<close>

definition content_fields :: "string list" where
  "content_fields = [''path'', ''content'', ''size'', ''lines'', ''encoding'']"

definition filter_file_content_fields :: "ops_content \<Rightarrow> string list \<Rightarrow> bool \<Rightarrow> devit_error + ops_content" where
  "filter_file_content_fields c wanted numbered =
     (case find (\<lambda>f. f \<notin> set content_fields) wanted of
        Some other \<Rightarrow> Inl (InvalidFormat other content_fields)
      | None \<Rightarrow>
          (if wanted = [] then Inr (c\<lparr>oc_lines := if numbered then oc_lines c else None\<rparr>)
           else Inr \<lparr>oc_path = (if ''path'' \<in> set wanted then oc_path c else []),
                     oc_content = (if ''content'' \<in> set wanted then oc_content c else []),
                     oc_size = (if ''size'' \<in> set wanted then oc_size c else 0),
                     oc_lines = (if numbered \<and> ''lines'' \<in> set wanted then oc_lines c else None),
                     oc_encoding = (if ''encoding'' \<in> set wanted then oc_encoding c else [])\<rparr>))"

definition fs_read_ext ::
  "(json \<Rightarrow> string) \<Rightarrow> (component list \<Rightarrow> component list) \<Rightarrow> file_ops \<Rightarrow> file_system \<Rightarrow> string
    \<Rightarrow> answer_format \<Rightarrow> string list option \<Rightarrow> bool \<Rightarrow> nat option \<Rightarrow> nat option \<Rightarrow> devit_error + string"
where
  "fs_read_ext print clean fo fs raw format wanted numbered offset limit =
     (case ops_file_read clean fo fs raw numbered offset limit of
        Inl e \<Rightarrow> Inl e
      | Inr c \<Rightarrow>
          (case (case wanted of None \<Rightarrow> Inr c | Some fl \<Rightarrow> filter_file_content_fields c fl numbered) of
             Inl e \<Rightarrow> Inl e
           | Inr c' \<Rightarrow> to_format print format c'))"

definition u32_or_none :: "nat option \<Rightarrow> nat option" where
  "u32_or_none n = (case n of Some k \<Rightarrow> (if k < 2 ^ 32 then Some k else None) | None \<Rightarrow> None)"

text \<open>
  The structured formats read the path a second time, through a service whose root is found from the
  root of the context: it may be a directory above it.
\<close>

definition render_structured ::
  "(json \<Rightarrow> string) \<Rightarrow> (component list \<Rightarrow> component list) \<Rightarrow> string option \<Rightarrow> file_context \<Rightarrow> file_system
    \<Rightarrow> string \<Rightarrow> answer_format \<Rightarrow> string list option \<Rightarrow> bool \<Rightarrow> nat option \<Rightarrow> nat option \<Rightarrow> devit_error + string"
where
  "render_structured print clean forced ctx fs raw format wanted numbered offset limit =
     (case new_file_ops fs forced (fc_root ctx) of
        Inl e \<Rightarrow> Inl e
      | Inr fo \<Rightarrow>
          fs_read_ext print clean fo fs raw format wanted numbered (u32_or_none offset) (u32_or_none limit))"

definition format_label :: "answer_format \<Rightarrow> string" where
  "format_label f = (case f of FormatJson \<Rightarrow> ''Json'' | FormatCompact \<Rightarrow> ''Compact'' | FormatTable \<Rightarrow> ''Table''
      | FormatMessagePack \<Rightarrow> ''MessagePack'')"

definition structured_text :: "component list \<Rightarrow> answer_format \<Rightarrow> string \<Rightarrow> string" where
  "structured_text path f body =
     [CHR 0xF0, CHR 0x9F, CHR 0x93, CHR 0x84] @ '' File: '' @ show_components path @ '' (format: '' @ format_label f @ '')''
     @ [nl, nl] @ ''```'' @ (if f = FormatTable then ''table'' else ''json'') @ [nl] @ body @ [nl] @ ''```''"

definition format_of :: "string \<Rightarrow> answer_format option" where
  "format_of s =
     (if s = ''json'' then Some FormatJson else if s = ''compact'' then Some FormatCompact
      else if s = ''table'' then Some FormatTable else None)"

text \<open>The ratio of the sizes prints the content of the first read, which may panic as well.\<close>

definition ratio_panics :: "answer_format \<Rightarrow> file_content \<Rightarrow> bool" where
  "ratio_panics f c = (f = FormatTable \<and> (case table_content (fd_content c) of Inl _ \<Rightarrow> True | Inr _ \<Rightarrow> False))"

text \<open>The text of an answer; \<open>None\<close> is a panic.\<close>

definition read_tool ::
  "(json \<Rightarrow> string) \<Rightarrow> (component list \<Rightarrow> component list) \<Rightarrow> string option \<Rightarrow> component list \<Rightarrow> file_context
    \<Rightarrow> json \<Rightarrow> file_system \<Rightarrow> (tool_error + string) option"
where
  "read_tool print clean forced tmp ctx params fs =
     (case get_str params ''path'' of
        None \<Rightarrow> Some (Inl (ToolMissing ''path''))
      | Some raw \<Rightarrow>
          (let numbered = (Option.bind (jget params ''line_numbers'') as_bool = Some True);
               format = read_format params; wanted = read_fields params;
               offset = get_u64 params ''offset''; limit = get_u64 params ''limit''
           in if format \<in> {''text'', ''plain''} \<and> wanted \<noteq> None then
                Some (Inl (ToolValidation ''fields''))
              else case resolve_file_path tmp ctx fs raw of
                     Inl e \<Rightarrow> Some (Inl e)
                   | Inr path \<Rightarrow>
                       (case read_file fs path numbered offset limit of
                          None \<Rightarrow> None
                        | Some (Inl e) \<Rightarrow> Some (Inl e)
                        | Some (Inr f) \<Rightarrow>
                            if format \<in> {''text'', ''plain''} then
                              Some (Inr (case fd_lines f of
                                           Some ls \<Rightarrow> join_lines ls | None \<Rightarrow> fd_content f))
                            else (case format_of format of
                              None \<Rightarrow> Some (Inl (ToolValidation ''format''))
                            | Some fmt \<Rightarrow>
                                (case render_structured print clean forced ctx fs raw fmt wanted numbered
                                        offset limit of
                                   Inl (Panicked _) \<Rightarrow> None
                                 | Inl e \<Rightarrow> Some (Inl (ToolInternal (error_code e)))
                                 | Inr body \<Rightarrow>
                                     (if ratio_panics fmt f then None
                                      else Some (Inr (structured_text (fd_path f) fmt body))))))))"

subsection \<open>What is looked at\<close>

definition should_include_path :: "component list \<Rightarrow> bool" where
  "should_include_path path \<longleftrightarrow>
     (let t = show_components path
      in \<not> contains t ''/.git/'' \<and> \<not> contains t ''/target/'' \<and> \<not> contains t ''/node_modules/''
         \<and> \<not> contains t ''/.devit/''
         \<and> (case last_name path of
              None \<Rightarrow> True
            | Some n \<Rightarrow> \<not> starts_with n ''.'' \<or> n = ''.gitignore'' \<or> n = ''.gitkeep''))"

definition searched_extensions :: "string list" where
  "searched_extensions =
     [''rs'', ''py'', ''js'', ''ts'', ''jsx'', ''tsx'', ''java'', ''c'', ''cpp'', ''cc'', ''cxx'', ''h'', ''hpp'',
      ''cs'', ''go'', ''php'', ''rb'', ''swift'', ''kt'', ''scala'', ''clj'', ''hs'', ''ml'', ''fs'', ''elm'',
      ''dart'', ''lua'', ''perl'', ''r'', ''jl'', ''nim'', ''cr'', ''zig'', ''odin'', ''v'', ''mod'', ''vb'',
      ''pas'', ''ada'', ''f90'', ''f95'', ''for'', ''cob'', ''asm'', ''s'',
      ''html'', ''htm'', ''xml'', ''xhtml'', ''svg'', ''css'', ''scss'', ''sass'', ''less'', ''json'', ''yaml'',
      ''yml'', ''toml'', ''ini'', ''cfg'', ''conf'', ''config'', ''properties'', ''env'',
      ''md'', ''markdown'', ''rst'', ''txt'', ''text'', ''doc'', ''rtf'', ''tex'', ''latex'',
      ''sh'', ''bash'', ''zsh'', ''fish'', ''csh'', ''tcsh'', ''ksh'', ''ps1'', ''bat'', ''cmd'',
      ''log'', ''csv'', ''tsv'', ''sql'', ''dockerfile'', ''makefile'', ''cmake'', ''bazel'', ''gradle'', ''sbt'',
      ''pom'', ''gemfile'', ''podfile'', ''rakefile'', ''vagrantfile'']"

definition searched_names :: "string list" where
  "searched_names =
     [''dockerfile'', ''makefile'', ''rakefile'', ''gemfile'', ''podfile'', ''vagrantfile'', ''justfile'',
      ''cargo.lock'', ''readme'', ''license'', ''changelog'', ''contributing'', ''authors'', ''credits'',
      ''copying'', ''install'', ''news'', ''thanks'', ''todo'', ''bugs'', ''history'']"

definition should_search_file :: "component list \<Rightarrow> bool" where
  "should_search_file path =
     (let ext = (case file_extension (entry_name path) of
                   Some e \<Rightarrow> if last_name path = None then [] else e | None \<Rightarrow> [])
      in to_lowercase ext \<in> set searched_extensions
         \<or> ext = [] \<and> (case last_name path of
                         None \<Rightarrow> False | Some n \<Rightarrow> to_lowercase n \<in> set searched_names))"

subsection \<open>Listing\<close>

text \<open>\<open>fs::metadata\<close> follows links.\<close>

definition create_file_entry :: "file_meta \<Rightarrow> file_system \<Rightarrow> component list \<Rightarrow> devit_error + file_entry" where
  "create_file_entry md fs path =
     (case stat fs True path of
        None \<Rightarrow> Inl (ops_io ''read file metadata'' path)
      | Some nd \<Rightarrow>
          Inr \<lparr>fe_name = entry_name path, fe_path = path,
               fe_type = (case nd of Dir \<Rightarrow> Directory | Link _ \<Rightarrow> Symlink | File _ \<Rightarrow> RegularFile),
               fe_size = (case nd of File t \<Rightarrow> Some (length t) | _ \<Rightarrow> None),
               fe_modified = fm_modified md path,
               fe_permissions =
                 \<lparr>fp_readable = (of_nat (fm_mode md path) AND (0x124 :: 32 word) \<noteq> 0),
                  fp_writable = (of_nat (fm_mode md path) AND (0x92 :: 32 word) \<noteq> 0),
                  fp_executable = (of_nat (fm_mode md path) AND (0x49 :: 32 word) \<noteq> 0)\<rparr>\<rparr>)"

definition keep_entry :: "file_meta \<Rightarrow> file_system \<Rightarrow> component list \<Rightarrow> file_entry list" where
  "keep_entry md fs path =
     (if should_include_path path
      then case create_file_entry md fs path of Inl _ \<Rightarrow> [] | Inr e \<Rightarrow> [e]
      else [])"

definition collect_entries_single ::
  "file_meta \<Rightarrow> file_system \<Rightarrow> component list \<Rightarrow> file_entry list \<Rightarrow> devit_error + file_entry list"
where
  "collect_entries_single md fs dir entries =
     (case read_dir fs dir of
        None \<Rightarrow> Inl (ops_io ''read directory'' dir)
      | Some ns \<Rightarrow> Inr (entries @ concat (map (\<lambda>n. keep_entry md fs (dir @ [Normal n])) ns)))"

fun collect_entries_recursive ::
  "nat \<Rightarrow> file_meta \<Rightarrow> file_system \<Rightarrow> component list \<Rightarrow> file_entry list
    \<Rightarrow> (devit_error + file_entry list) option"
and collect_subdirectories ::
  "nat \<Rightarrow> file_meta \<Rightarrow> file_system \<Rightarrow> component list \<Rightarrow> string list \<Rightarrow> file_entry list
    \<Rightarrow> (devit_error + file_entry list) option"
where
  "collect_entries_recursive 0 md fs dir entries = None"
| "collect_entries_recursive (Suc fuel) md fs dir entries =
     (case collect_entries_single md fs dir entries of
        Inl e \<Rightarrow> Some (Inl e)
      | Inr entries' \<Rightarrow>
          (case read_dir fs dir of
             None \<Rightarrow> Some (Inl (ops_io ''read directory'' dir))
           | Some ns \<Rightarrow> collect_subdirectories fuel md fs dir ns entries'))"
| "collect_subdirectories fuel md fs dir [] entries = Some (Inr entries)"
| "collect_subdirectories fuel md fs dir (n # ns) entries =
     (if is_dir fs (dir @ [Normal n]) \<and> should_include_path (dir @ [Normal n])
      then case collect_entries_recursive fuel md fs (dir @ [Normal n]) entries of
             Some (Inr entries') \<Rightarrow> collect_subdirectories fuel md fs dir ns entries'
           | r \<Rightarrow> r
      else collect_subdirectories fuel md fs dir ns entries)"

definition ops_file_list ::
  "nat \<Rightarrow> (component list \<Rightarrow> component list) \<Rightarrow> file_meta \<Rightarrow> file_ops \<Rightarrow> file_system \<Rightarrow> string \<Rightarrow> bool
    \<Rightarrow> (devit_error + file_entry list) option"
where
  "ops_file_list fuel clean md fo fs raw recursive =
     (case validated clean fo fs ''list directory'' (adjust_user_path fo raw) of
        Inl e \<Rightarrow> Some (Inl e)
      | Inr v \<Rightarrow>
          map_option (map_sum id (sort_key fe_name))
            (if is_file fs v
             then Some (Inr (case create_file_entry md fs v of Inl _ \<Rightarrow> [] | Inr e \<Rightarrow> [e]))
             else if is_dir fs v
             then (if recursive then collect_entries_recursive fuel md fs v []
                   else Some (collect_entries_single md fs v []))
             else Some (Inr [])))"

subsection \<open>Searching\<close>

text \<open>The line \<open>i\<close> of \<open>ls\<close> with its surroundings; the end of these wraps at 64 bits, and an end before
  their start panics.\<close>

definition match_at ::
  "component list \<Rightarrow> nat \<Rightarrow> string list \<Rightarrow> nat \<Rightarrow> search_match option"
where
  "match_at path width ls i =
     (let stop = min ((i + width + 1) mod 2 ^ 64) (length ls)
      in if stop < i + 1 then None
         else Some \<lparr>sm_file = path, sm_line_number = i + 1, sm_line = ls ! i,
                    sm_context_before = take (i - (i - width)) (drop (i - width) ls),
                    sm_context_after = take (stop - (i + 1)) (drop (i + 1) ls)\<rparr>)"

fun search_lines ::
  "(string \<Rightarrow> bool) \<Rightarrow> nat \<Rightarrow> component list \<Rightarrow> string list \<Rightarrow> nat list \<Rightarrow> search_results
    \<Rightarrow> devit_error + search_results"
where
  "search_lines re width path ls [] r = Inr r"
| "search_lines re width path ls (i # is) r =
     (if re (ls ! i)
      then case match_at path width ls i of
             None \<Rightarrow> Inl (Panicked ''slice index starts after its end'')
           | Some m \<Rightarrow>
               (let r' = r\<lparr>sr_total_matches := sr_total_matches r + 1, sr_matches := sr_matches r @ [m]\<rparr>
                in if max_search_results \<le> length (sr_matches r') then Inr r'
                   else search_lines re width path ls is r')
      else search_lines re width path ls is r)"

definition search_file ::
  "(string \<Rightarrow> bool) \<Rightarrow> nat \<Rightarrow> file_system \<Rightarrow> component list \<Rightarrow> search_results \<Rightarrow> devit_error + search_results"
where
  "search_file re width fs path r =
     (if \<not> should_search_file path then Inr r
      else
        let r' = r\<lparr>sr_files_searched := sr_files_searched r + 1\<rparr>
        in case read_to_string fs path of
             None \<Rightarrow> Inr r'
           | Some t \<Rightarrow> search_lines re width path (str_lines t) [0..<length (str_lines t)] r')"

fun search_directory ::
  "nat \<Rightarrow> (string \<Rightarrow> bool) \<Rightarrow> nat \<Rightarrow> file_system \<Rightarrow> component list \<Rightarrow> search_results
    \<Rightarrow> (devit_error + search_results) option"
and search_entries ::
  "nat \<Rightarrow> (string \<Rightarrow> bool) \<Rightarrow> nat \<Rightarrow> file_system \<Rightarrow> component list \<Rightarrow> string list \<Rightarrow> search_results
    \<Rightarrow> (devit_error + search_results) option"
where
  "search_directory 0 re width fs dir r = None"
| "search_directory (Suc fuel) re width fs dir r =
     (case read_dir fs dir of
        None \<Rightarrow> Some (Inl (ops_io ''read directory for search'' dir))
      | Some ns \<Rightarrow> search_entries fuel re width fs dir ns r)"
| "search_entries fuel re width fs dir [] r = Some (Inr r)"
| "search_entries fuel re width fs dir (n # ns) r =
     (let path = dir @ [Normal n]
      in if \<not> should_include_path path then search_entries fuel re width fs dir ns r
         else
           case (if is_file fs path then Some (search_file re width fs path r)
                 else if is_dir fs path then search_directory fuel re width fs path r
                 else Some (Inr r)) of
             Some (Inr r') \<Rightarrow>
               (if max_search_results \<le> length (sr_matches r') then Some (Inr r')
                else search_entries fuel re width fs dir ns r')
           | x \<Rightarrow> x)"

definition cut_results :: "search_results \<Rightarrow> search_results" where
  "cut_results r =
     (if max_search_results \<le> length (sr_matches r)
      then r\<lparr>sr_matches := take max_search_results (sr_matches r), sr_truncated := True\<rparr> else r)"

definition ops_file_search ::
  "nat \<Rightarrow> (string \<Rightarrow> (string \<Rightarrow> bool) option) \<Rightarrow> (component list \<Rightarrow> component list) \<Rightarrow> file_ops \<Rightarrow> file_system
    \<Rightarrow> string \<Rightarrow> string \<Rightarrow> nat option \<Rightarrow> (devit_error + search_results) option"
where
  "ops_file_search fuel compile clean fo fs pattern raw width =
     (let path = adjust_user_path fo raw; lines = (case width of None \<Rightarrow> 2 | Some c \<Rightarrow> c)
      in case validated clean fo fs ''search files'' path of
           Inl e \<Rightarrow> Some (Inl e)
         | Inr v \<Rightarrow>
             (case compile pattern of
                None \<Rightarrow> Some (Inl (InvalidDiff ''Invalid regex pattern'' None))
              | Some re \<Rightarrow>
                  (let r = \<lparr>sr_pattern = pattern, sr_path = path, sr_files_searched = 0, sr_total_matches = 0,
                            sr_matches = [], sr_truncated = False\<rparr>
                   in map_option (map_sum id cut_results)
                        (if is_file fs v then Some (search_file re lines fs v r)
                         else if is_dir fs v then search_directory fuel re lines fs v r
                         else Some (Inr r)))))"

subsection \<open>The structure of a project\<close>

definition type_indicators :: "(string \<times> string) list" where
  "type_indicators =
     [(''Cargo.toml'', ''Rust''), (''package.json'', ''Node.js''), (''pom.xml'', ''Maven/Java''),
      (''build.gradle'', ''Gradle/Java''), (''pyproject.toml'', ''Python''), (''requirements.txt'', ''Python''),
      (''Gemfile'', ''Ruby''), (''composer.json'', ''PHP''), (''go.mod'', ''Go''), (''CMakeLists.txt'', ''C/C++''),
      (''Makefile'', ''C/C++/Make''), (''sln'', ''C#/.NET''), (''pubspec.yaml'', ''Dart/Flutter'')]"

definition detect_project_type :: "file_system \<Rightarrow> component list \<Rightarrow> string option" where
  "detect_project_type fs path =
     map_option snd (find (\<lambda>(f, t). path_exists fs (path @ [Normal f])) type_indicators)"

text \<open>The entries of a directory that are shown: directories first, each group by name.\<close>

definition shown_children :: "file_system \<Rightarrow> component list \<Rightarrow> string list" where
  "shown_children fs path =
     (case read_dir fs path of
        None \<Rightarrow> []
      | Some ns \<Rightarrow>
          sort_key (\<lambda>n. (\<not> is_dir fs (path @ [Normal n]), n))
            (filter (\<lambda>n. should_include_path (path @ [Normal n])) ns))"

text \<open>The node of a path, with the numbers of files and directories that were counted on the way. A
  child that cannot be read is left out, and what it counted stays.\<close>

function build_tree_node ::
  "file_system \<Rightarrow> nat \<Rightarrow> nat \<Rightarrow> component list \<Rightarrow> nat \<times> nat \<Rightarrow> tree_node option \<times> nat \<times> nat"
where
  "build_tree_node fs depth max_depth path counts =
     (case stat fs True path of
        None \<Rightarrow> (None, counts)
      | Some nd \<Rightarrow>
          (let counts1 = (case nd of
                 Dir \<Rightarrow> (fst counts, snd counts + 1)
               | File _ \<Rightarrow> (fst counts + 1, snd counts)
               | Link _ \<Rightarrow> counts);
               kind = (case nd of Dir \<Rightarrow> Directory | Link _ \<Rightarrow> Symlink | File _ \<Rightarrow> RegularFile);
               sz = (case nd of File t \<Rightarrow> Some (length t) | _ \<Rightarrow> None);
               (kids, counts2) =
                 (if nd = Dir \<and> depth < max_depth
                  then fold (\<lambda>n (ks, cs).
                         case build_tree_node fs (depth + 1) max_depth (path @ [Normal n]) cs of
                           (None, cs') \<Rightarrow> (ks, cs')
                         | (Some k, cs') \<Rightarrow> (ks @ [k], cs'))
                       (shown_children fs path) ([], counts1)
                  else ([], counts1))
           in (Some (TreeNode (entry_name path) path kind (if kids = [] then None else Some kids) sz),
               counts2)))"
  by pat_completeness auto
termination by (relation "measure (\<lambda>(fs, depth, max_depth, path, counts). max_depth - depth)") auto

declare build_tree_node.simps [simp del]

definition ops_project_structure ::
  "(component list \<Rightarrow> component list) \<Rightarrow> file_ops \<Rightarrow> file_system \<Rightarrow> string \<Rightarrow> nat option
    \<Rightarrow> devit_error + project_structure"
where
  "ops_project_structure clean fo fs raw max_depth =
     (let path = adjust_user_path fo raw
      in case validated clean fo fs ''read project structure'' path of
           Inl e \<Rightarrow> Inl e
         | Inr v \<Rightarrow>
             (case build_tree_node fs 0 (case max_depth of None \<Rightarrow> max_tree_depth | Some d \<Rightarrow> d) v (0, 0) of
                (None, _) \<Rightarrow> Inl (ops_io ''read tree node metadata'' v)
              | (Some tree, files, dirs) \<Rightarrow>
                  Inr \<lparr>pj_root = path, pj_project_type = detect_project_type fs v, pj_tree = tree,
                       pj_total_files = files, pj_total_dirs = dirs\<rparr>))"

end
