(* ===== verification/File_Properties.thy ===== *)
theory File_Properties
  imports File_Ops
begin

text \<open>
  What the file tools promise: reading and writing stay below the directories a client may use, as
  long as there are no links below them, and what is written is read back; and how links and large
  numbers get around the checks.
\<close>

subsection \<open>Plain paths\<close>

abbreviation at :: "string list \<Rightarrow> component list" where
  "at ns \<equiv> RootDir # map Normal ns"

lemma prefix_Normal [simp]: "prefix (map Normal ns) (map Normal ms) \<longleftrightarrow> prefix ns ms"
  using prefix_map_Normal [of ns ms] by simp

text \<open>The context and the directories it gives access to, none of them with links.\<close>

definition open_tree :: "component list \<Rightarrow> file_context \<Rightarrow> string list list \<Rightarrow> file_system \<Rightarrow> bool" where
  "open_tree tmp ctx bases fs \<longleftrightarrow>
     fc_root ctx \<in> at ` set bases \<and> tmp \<in> at ` set bases \<and> set (fc_allowed ctx) \<subseteq> at ` set bases
     \<and> (\<forall>b \<in> set bases. work_tree fs b)"

lemma is_path_allowed_base:
  assumes "open_tree tmp ctx bases fs" and "is_path_allowed tmp ctx (at ns)"
  shows "\<exists>b \<in> set bases. prefix b ns"
proof -
  obtain r where "r \<in> at ` set bases" and "prefix r (at ns)"
    using assms unfolding open_tree_def is_path_allowed_def list_ex_iff by blast
  then show ?thesis by auto
qed

lemma canonical_at: "canonicalize fs p = Some c \<Longrightarrow> \<exists>ns. c = at ns \<and> locate fs True p = Some ns \<and> node_at fs ns \<noteq> None"
  by (auto simp: canonicalize_def split: option.splits if_splits)

lemma ancestor_of_at:
  "ancestor_of fs rcs (map Normal ms) = Inr p \<Longrightarrow> \<exists>ns. p = at ns"
proof (induction rcs arbitrary: ms)
  case Nil
  then show ?case by simp
next
  case (Cons c rcs)
  show ?case
  proof (cases "path_exists fs (rev (c # rcs))")
    case True
    then obtain q where "canonicalize fs (rev (c # rcs)) = Some q" and p: "p = q @ map Normal ms"
      using Cons.prems by (auto split: option.splits)
    then obtain ns where "q = at ns" using canonical_at by blast
    with p have "p = at (ns @ ms)" by simp
    then show ?thesis by blast
  next
    case False
    with Cons.prems obtain s where "ancestor_of fs rcs (map Normal (s # ms)) = Inr p"
      by (cases c) auto
    from Cons.IH [OF this] show ?thesis .
  qed
qed

lemma canonicalize_ancestor_at: "canonicalize_ancestor fs p = Inr q \<Longrightarrow> \<exists>ns. q = at ns"
  unfolding canonicalize_ancestor_def using ancestor_of_at [of fs "rev p" "[]"] by simp

lemma resolve_from_at: "resolve_from (at rn) (at ns) cs = Inr q \<Longrightarrow> \<exists>ms. q = at ms"
proof (induction cs arbitrary: ns)
  case Nil
  then show ?case by auto
next
  case (Cons c cs)
  show ?case
  proof (cases c)
    case (Normal s)
    then have "resolve_from (at rn) (at (ns @ [s])) cs = Inr q" using Cons.prems by simp
    then show ?thesis by (rule Cons.IH)
  next
    case ParentDir
    then have "ns \<noteq> []" and "resolve_from (at rn) (at (butlast ns)) cs = Inr q"
      using Cons.prems by (auto simp: pop_component_def map_butlast split: option.splits if_splits)
    then show ?thesis using Cons.IH by blast
  qed (use Cons in auto)
qed

text \<open>Whatever is resolved is a plain path, and where the directories hold no links it lies below one
  of them.\<close>

lemma resolved_at:
  assumes "fc_root ctx = at rn" and "resolve_file_path tmp ctx fs raw = Inr q"
  shows "\<exists>ns. q = at ns"
proof (cases "is_absolute raw")
  case True
  then have abs: "resolve_absolute tmp ctx fs raw = Inr q"
    using assms(2) by (auto simp: resolve_file_path_def split: if_splits)
  show ?thesis
  proof (cases "path_exists fs (components raw)")
    case True
    with abs have "canonicalize fs (components raw) = Some q"
      by (auto simp: resolve_absolute_def Let_def split: option.splits if_splits)
    then show ?thesis using canonical_at by blast
  next
    case False
    with abs obtain par cp f where "canonicalize_ancestor fs par = Inr cp" and q: "q = cp @ [Normal f]"
      by (auto simp: resolve_absolute_def Let_def split: option.splits sum.splits if_splits)
    then obtain ns where "cp = at ns" using canonicalize_ancestor_at by blast
    then have "q = at (ns @ [f])" using q by simp
    then show ?thesis by blast
  qed
next
  case False
  then have rel: "resolve_relative ctx fs raw = Inr q"
    using assms(2) by (auto simp: resolve_file_path_def split: if_splits)
  then show ?thesis
    using resolve_from_at [of rn rn]
    by (auto simp: resolve_relative_def manual_resolve_def Let_def assms(1) dest: canonical_at
        split: sum.splits option.splits if_splits)
qed


lemma resolved_below_base:
  assumes "open_tree tmp ctx bases fs" and "resolve_file_path tmp ctx fs raw = Inr q"
  shows "\<exists>b ns. b \<in> set bases \<and> q = at ns \<and> prefix b ns"
proof (cases "is_absolute raw")
  case True
  then have abs: "resolve_absolute tmp ctx fs raw = Inr q"
    using assms(2) by (auto simp: resolve_file_path_def split: if_splits)
  show ?thesis
  proof (cases "path_exists fs (components raw)")
    case True
    with abs have "canonicalize fs (components raw) = Some q" and "is_path_allowed tmp ctx q"
      by (auto simp: resolve_absolute_def Let_def split: option.splits if_splits)
    then show ?thesis
      using is_path_allowed_base [OF assms(1)] canonical_at by blast
  next
    case False
    with abs obtain par cp f where "canonicalize_ancestor fs par = Inr cp" and "is_path_allowed tmp ctx cp"
        and q: "q = cp @ [Normal f]"
      by (auto simp: resolve_absolute_def Let_def split: option.splits sum.splits if_splits)
    then obtain ns b where "cp = at ns" "b \<in> set bases" "prefix b ns"
      using is_path_allowed_base [OF assms(1)] canonicalize_ancestor_at by blast
    then have "q = at (ns @ [f])" and "prefix b (ns @ [f])" using q by auto
    with \<open>b \<in> set bases\<close> show ?thesis by blast
  qed
next
  case False
  then have rel: "resolve_relative ctx fs raw = Inr q"
    using assms(2) by (auto simp: resolve_file_path_def split: if_splits)
  obtain rn where rn: "fc_root ctx = at rn" "rn \<in> set bases"
    using assms(1) by (auto simp: open_tree_def)
  obtain ns where "q = at ns"
    using resolved_at [OF rn(1) assms(2)] by blast
  moreover have "prefix (fc_root ctx) q"
    using rel by (auto simp: resolve_relative_def Let_def split: sum.splits if_splits)
  ultimately show ?thesis using rn by auto
qed

subsection \<open>Reading\<close>

lemma stat_below_base:
  assumes "work_tree fs b" and "prefix b ns" and "stat fs follow (at ns) = Some nd"
  shows "node_at fs ns = Some nd"
proof -
  obtain ms where ns: "ns = b @ ms" using assms(2) by (auto simp: prefix_def)
  obtain loc where loc: "locate fs follow (RootDir # map Normal b @ map Normal ms) = Some loc"
      and "node_at fs loc = Some nd"
    using assms(3) by (auto simp: stat_def ns split: option.splits)
  moreover have "loc = b @ ms"
    using locate_work_tree [OF assms(1) _ loc] by (simp add: plain_iff image_iff)
  ultimately show ?thesis by (simp add: ns)
qed

lemma read_file_content:
  assumes "read_file fs q numbered off lim = Some (Inr f)"
  shows "\<exists>t. stat fs True q = Some (File t) \<and> length t \<le> max_read_size
    \<and> fd_content f = (case (off, lim) of
        (Some a, Some n) \<Rightarrow> join_lines (the (line_window a n (str_lines t))) | _ \<Rightarrow> t)"
  using assms by (auto simp: read_file_def split: option.splits node.splits if_splits prod.splits)

text \<open>A plain answer, as a function of the text of the file.\<close>

definition plain_answer :: "bool \<Rightarrow> nat option \<Rightarrow> nat option \<Rightarrow> string \<Rightarrow> string" where
  "plain_answer numbered off lim t =
     (let shown = (case (off, lim) of
            (Some a, Some n) \<Rightarrow> join_lines (the (line_window a n (str_lines t))) | _ \<Rightarrow> t)
      in if numbered then join_lines (number_lines (str_lines shown)) else shown)"

text \<open>What the second read of a structured answer makes of the text of a file.\<close>

definition content_of :: "string \<Rightarrow> bool \<Rightarrow> nat option \<Rightarrow> nat option \<Rightarrow> string \<Rightarrow> ops_content" where
  "content_of path numbered off lim t =
     (let shown = (case (off, lim) of
            (Some a, Some n) \<Rightarrow> join_lines (the (line_window a n (str_lines t))) | _ \<Rightarrow> t)
      in \<lparr>oc_path = path, oc_content = shown, oc_size = length t,
          oc_lines = (if numbered then Some (number_lines (str_lines shown)) else None),
          oc_encoding = detect_encoding shown\<rparr>)"

lemma read_file_below_base:
  assumes "open_tree tmp ctx bases fs" and "resolve_file_path tmp ctx fs raw = Inr q"
    and "read_file fs q numbered off lim = Some (Inr f)"
  shows "\<exists>b ns t. b \<in> set bases \<and> prefix b ns \<and> q = at ns \<and> fd_path f = q \<and> node_at fs ns = Some (File t)
    \<and> length t \<le> max_read_size
    \<and> (case fd_lines f of Some ls \<Rightarrow> join_lines ls | None \<Rightarrow> fd_content f) = plain_answer numbered off lim t"
proof -
  obtain b ns where b: "b \<in> set bases" "q = at ns" "prefix b ns"
    using resolved_below_base [OF assms(1,2)] by blast
  obtain t where t: "stat fs True q = Some (File t)" "length t \<le> max_read_size" "fd_path f = q"
      "(case fd_lines f of Some ls \<Rightarrow> join_lines ls | None \<Rightarrow> fd_content f) = plain_answer numbered off lim t"
    using assms(3)
    by (auto simp: read_file_def plain_answer_def Let_def
        split: option.splits node.splits if_splits prod.splits)
  have "work_tree fs b" using assms(1) b(1) by (simp add: open_tree_def)
  from stat_below_base [OF this b(3)] t(1) have "node_at fs ns = Some (File t)" by (simp add: b(2))
  with b t show ?thesis by blast
qed

text \<open>\<open>path_clean\<close> makes an absolute path plain.\<close>

definition makes_plain :: "(component list \<Rightarrow> component list) \<Rightarrow> bool" where
  "makes_plain clean \<longleftrightarrow> (\<forall>p. p \<noteq> [] \<and> hd p = RootDir \<longrightarrow> (\<exists>ns. clean p = at ns))"

lemma safe_canonicalize_at:
  assumes "makes_plain clean" and "safe_canonicalize clean sec fs p = Inr v" and "p \<noteq> []" and "hd p = RootDir"
  shows "\<exists>ns. v = at ns"
proof -
  have m: "\<exists>ns. v = at ns" if "manual_path_resolution clean sec p = Inr v"
    using that assms(1,3,4) by (auto simp: manual_path_resolution_def makes_plain_def split: if_splits)
  have child: "\<exists>ns. c @ [Normal n] = at ns" if "canonicalize fs par = Some c" for par c n
  proof -
    from canonical_at [OF that] obtain ns where "c @ [Normal n] = at (ns @ [n])" by auto
    then show ?thesis by blast
  qed
  show ?thesis
  proof (cases "path_exists fs p")
    case True
    then have "canonicalize fs p = Some v"
      using assms(2) by (simp add: safe_canonicalize_def split: option.splits)
    then show ?thesis using canonical_at by blast
  next
    case False
    show ?thesis
    proof (cases "manual_path_resolution clean sec p = Inr v")
      case True
      then show ?thesis by (rule m)
    next
      case man: False
      obtain par where par: "path_parent p = Some par"
        using assms(2) False man by (cases "path_parent p") (simp_all add: safe_canonicalize_def)
      have ex: "path_exists fs par"
        using assms(2) False man par by (cases "path_exists fs par") (simp_all add: safe_canonicalize_def)
      obtain c where c: "canonicalize fs par = Some c"
        using assms(2) False par ex by (cases "canonicalize fs par") (simp_all add: safe_canonicalize_def)
      obtain n where "last_name p = Some n"
        using assms(2) False man par ex c by (cases "last_name p") (simp_all add: safe_canonicalize_def)
      then have "v = c @ [Normal n]"
        using assms(2) False par ex c by (simp add: safe_canonicalize_def)
      with c have "canonicalize fs par = Some c" and "v = c @ [Normal n]" by blast+
      then show ?thesis using child by blast
    qed
  qed
qed

lemma drop_pieces_suffix: "\<exists>ys. ps = ys @ drop_pieces n ps"
proof (induction n ps rule: drop_pieces.induct)
  case (1 n)
  then show ?case by simp
next
  case (2 n p ps)
  show ?case
  proof (cases "p = [] \<or> p = ''.''")
    case True
    then obtain ys where "ps = ys @ drop_pieces n ps" using "2.IH"(1) by blast
    then have "p # ps = (p # ys) @ drop_pieces n (p # ps)" using True by simp
    then show ?thesis by blast
  next
    case False
    show ?thesis
    proof (cases n)
      case 0
      then show ?thesis using False by simp
    next
      case (Suc m)
      then obtain ys where "ps = ys @ drop_pieces m ps" using "2.IH"(2) False by blast
      then have "p # ps = (p # ys) @ drop_pieces n (p # ps)" using False Suc by simp
      then show ?thesis by blast
    qed
  qed
qed

lemma drop_pieces_hd: "drop_pieces n ps = a # rest \<Longrightarrow> a \<noteq> []"
  by (induction n ps rule: drop_pieces.induct) (auto split: if_splits nat.splits)

lemma drop_empty_pieces_prefix: "\<exists>zs. ps = drop_empty_pieces ps @ zs"
proof -
  have "rev ps = takeWhile (\<lambda>p. p = [] \<or> p = ''.'') (rev ps) @ dropWhile (\<lambda>p. p = [] \<or> p = ''.'') (rev ps)"
    by simp
  then have "ps = rev (dropWhile (\<lambda>p. p = [] \<or> p = ''.'') (rev ps)) @ rev (takeWhile (\<lambda>p. p = [] \<or> p = ''.'') (rev ps))"
    by (metis rev_append rev_rev_ident)
  then show ?thesis unfolding drop_empty_pieces_def by blast
qed

lemma strip_root_relative: "\<not> is_absolute (strip_root root path)"
proof -
  define ps where "ps = drop_pieces (length root - 1) (tl (split_char (CHR ''/'') path))"
  define qs where "qs = drop_empty_pieces ps"
  have strip: "strip_root root path = join_slash qs"
    unfolding strip_root_def qs_def ps_def ..
  obtain zs where zs: "ps = qs @ zs" using drop_empty_pieces_prefix qs_def by blast
  obtain ys where ys: "tl (split_char (CHR ''/'') path) = ys @ ps" using drop_pieces_suffix ps_def by blast
  show ?thesis
  proof (cases qs)
    case Nil
    then show ?thesis by (simp add: strip is_absolute_def)
  next
    case (Cons a as)
    have "a \<noteq> []" using drop_pieces_hd zs Cons ps_def by (metis append_Cons)
    have "a \<in> set (tl (split_char (CHR ''/'') path))" using ys zs Cons by simp
    then have "a \<in> set (split_char (CHR ''/'') path)" by (rule list.set_sel(2) [rotated]) simp
    then have "CHR ''/'' \<notin> set a" by (rule split_char_no_sep)
    with \<open>a \<noteq> []\<close> obtain c r where "a = c # r" "c \<noteq> CHR ''/''" by (cases a) auto
    then have "\<not> is_absolute (join_slash (a # as))"
      by (cases as) (simp_all add: is_absolute_def)
    then show ?thesis by (simp add: strip Cons)
  qed
qed

lemma adjusted_absolute: "is_absolute (adjust_user_path fo raw) \<Longrightarrow> adjust_user_path fo raw = raw"
  using strip_root_relative [of "fo_root fo" raw]
  by (auto simp: adjust_user_path_def Let_def is_absolute_def split: if_splits)

text \<open>A path that the service of the project validates and reads.\<close>

lemma ops_read_below:
  assumes "makes_plain clean" and "repo_root (fo_security fo) = at pr" and "work_tree fs pr"
    and "ops_file_read clean fo fs raw numbered off lim = Inr c"
    and first: "is_absolute raw \<Longrightarrow> path_exists fs (components raw) \<Longrightarrow> canonicalize fs (components raw) = Some (at ns)"
  shows "\<exists>loc u. node_at fs loc = Some (File u) \<and> length u \<le> max_read_size \<and> (prefix pr loc \<or> loc = ns)
    \<and> c = content_of (adjust_user_path fo raw) numbered off lim u"
proof -
  let ?p = "adjust_user_path fo raw"
  obtain v u where v: "validated clean fo fs ''read file'' ?p = Inr v" and u: "stat fs True v = Some (File u)"
    and c: "length u \<le> max_read_size" "c = content_of ?p numbered off lim u"
    using assms(4)
    by (auto simp: ops_file_read_def content_of_def Let_def
        split: sum.splits option.splits node.splits if_splits prod.splits)
  have val: "validate_patch_path clean (fo_security fo) fs ?p = Inr v"
    using v by (auto simp: validated_def split: sum.splits if_splits)
  show ?thesis
  proof (cases "path_eq ?p ''/dev/null''")
    case True
    then have vd: "v = components ''/dev/null''" using val by (simp add: validate_patch_path_def)
    have same: "components ?p = v" using True by (simp add: path_eq_def vd)
    have "is_absolute ?p"
      using same RootDir_components [of ?p] by (simp add: vd components_def is_absolute_def)
    then have raw: "?p = raw" "is_absolute raw" using adjusted_absolute by fastforce+
    have "path_exists fs (components raw)" using u same raw by (simp add: path_exists_def)
    from first [OF raw(2) this] have "canonicalize fs v = Some (at ns)" using same raw by simp
    from canonical_at [OF this] obtain ns' where "at ns = at ns'" and "locate fs True v = Some ns'" by blast
    moreover have "ns = ns'" using calculation(1) by (simp add: inj_map_eq_map inj_on_def)
    ultimately have "locate fs True v = Some ns" by simp
    then have "node_at fs ns = Some (File u)" using u by (simp add: stat_def)
    with c show ?thesis by blast
  next
    case False
    note cases = validate_patch_path_cases [OF val False]
    have "hd (join_components (at pr) ?p) = RootDir" "join_components (at pr) ?p \<noteq> []"
      using cases(1) by (simp_all add: join_components_def)
    then obtain ms where ms: "v = at ms"
      using safe_canonicalize_at [OF assms(1) cases(2) [unfolded assms(2)]] by blast
    then have pre: "prefix pr ms" using cases(3) by (simp add: assms(2))
    have "node_at fs ms = Some (File u)"
      using stat_below_base [OF assms(3) pre] u by (simp add: ms)
    with c pre show ?thesis by blast
  qed
qed

text \<open>The text of a structured answer, as a function of the text of the file that is read for it.\<close>

definition structured_answer ::
  "(json \<Rightarrow> string) \<Rightarrow> component list \<Rightarrow> answer_format \<Rightarrow> string list option \<Rightarrow> bool \<Rightarrow> ops_content \<Rightarrow> string option"
where
  "structured_answer print q fmt wanted numbered c =
     (case (case wanted of None \<Rightarrow> Inr c | Some fl \<Rightarrow> filter_file_content_fields c fl numbered) of
        Inl e \<Rightarrow> None
      | Inr c' \<Rightarrow>
          (case to_format print fmt c' of Inl e \<Rightarrow> None | Inr body \<Rightarrow> Some (structured_text q fmt body)))"

text \<open>
  C23: every answer of the read tool shows one file of at most a mebibyte. Where the directories a
  client may use hold no links, a plain answer is the text of a file below one of them. A structured
  answer is the text that a second read finds, in a file below one of them or below the project,
  whose root is looked for from the root of the client upwards and may lie above it.
\<close>

theorem reads_stay_in_allowed_directories:
  assumes "open_tree tmp ctx bases fs" and "makes_plain clean"
    and "\<And>fo. new_file_ops fs forced (fc_root ctx) = Inr fo \<Longrightarrow> repo_root (fo_security fo) = at pr \<and> work_tree fs pr"
    and "read_tool print clean forced tmp ctx params fs = Some (Inr answer)"
  shows "\<exists>b ns t. b \<in> set bases \<and> prefix b ns \<and> node_at fs ns = Some (File t) \<and> length t \<le> max_read_size
    \<and> (let numbered = (Option.bind (jget params ''line_numbers'') as_bool = Some True);
            off = get_u64 params ''offset''; lim = get_u64 params ''limit''
        in (if read_format params \<in> {''text'', ''plain''} then answer = plain_answer numbered off lim t
            else \<exists>fmt path loc u. format_of (read_format params) = Some fmt
              \<and> node_at fs loc = Some (File u) \<and> length u \<le> max_read_size \<and> (prefix pr loc \<or> loc = ns)
              \<and> structured_answer print (at ns) fmt (read_fields params) numbered
                  (content_of path numbered (u32_or_none off) (u32_or_none lim) u) = Some answer))"
proof -
  define numbered where "numbered = (Option.bind (jget params ''line_numbers'') as_bool = Some True)"
  define off lim where "off = get_u64 params ''offset''" and "lim = get_u64 params ''limit''"
  note defs = numbered_def off_def lim_def
  obtain raw q f where raw: "get_str params ''path'' = Some raw" and q: "resolve_file_path tmp ctx fs raw = Inr q"
    and f: "read_file fs q numbered off lim = Some (Inr f)"
    using assms(4) by (auto simp: read_tool_def Let_def defs split: option.splits sum.splits if_splits)
  from read_file_below_base [OF assms(1) q f] obtain b ns t where
    b: "b \<in> set bases" "prefix b ns" "q = at ns" "fd_path f = q" "node_at fs ns = Some (File t)"
      "length t \<le> max_read_size"
      "(case fd_lines f of Some ls \<Rightarrow> join_lines ls | None \<Rightarrow> fd_content f) = plain_answer numbered off lim t"
    by blast
  show ?thesis
  proof (cases "read_format params \<in> {''text'', ''plain''}")
    case True
    then have "answer = plain_answer numbered off lim t"
      using assms(4) raw q f b(7) by (auto simp: read_tool_def Let_def defs split: if_splits)
    with b True show ?thesis unfolding Let_def defs by auto
  next
    case False
    then obtain fmt body where fmt: "format_of (read_format params) = Some fmt"
      and body: "render_structured print clean forced ctx fs raw fmt (read_fields params) numbered off lim = Inr body"
      and ans: "answer = structured_text (fd_path f) fmt body"
      using assms(4) raw q f
      by (auto simp: read_tool_def Let_def defs split: option.splits sum.splits devit_error.splits if_splits)
    from body obtain fo c where fo: "new_file_ops fs forced (fc_root ctx) = Inr fo"
      and c: "ops_file_read clean fo fs raw numbered (u32_or_none off) (u32_or_none lim) = Inr c"
      and sa: "structured_answer print q fmt (read_fields params) numbered c = Some answer"
      using ans b(4)
      by (auto simp: render_structured_def fs_read_ext_def structured_answer_def split: sum.splits)
    have "canonicalize fs (components raw) = Some (at ns)"
      if "is_absolute raw" "path_exists fs (components raw)"
      using q that b(3)
      by (auto simp: resolve_file_path_def resolve_absolute_def Let_def split: if_splits option.splits)
    from ops_read_below [OF assms(2) _ _ c this] assms(3) [OF fo]
    obtain loc u where "node_at fs loc = Some (File u)" "length u \<le> max_read_size" "prefix pr loc \<or> loc = ns"
      and "c = content_of (adjust_user_path fo raw) numbered (u32_or_none off) (u32_or_none lim) u"
      by blast
    with False b fmt sa show ?thesis unfolding Let_def defs by simp blast
  qed
qed

subsection \<open>Writing\<close>

text \<open>What is found behind a directory: that directory is there.\<close>

lemma walk_parent:
  "walk n fs follow cur (cs @ [Normal s]) = Some loc \<Longrightarrow> all_dirs fs cur
    \<Longrightarrow> \<exists>d. walk n fs True cur cs = Some d \<and> node_at fs d = Some Dir"
proof (induction n fs "True" cur cs rule: walk.induct)
  case (1 n fs cur)
  then show ?case by (simp add: all_dirs_def)
next
  case (4 n fs cur cs)
  then show ?case by (simp add: all_dirs_butlast)
next
  case (5 n fs cur t cs)
  show ?case
  proof (cases "node_at fs (cur @ [t])")
    case None
    with 5 show ?thesis by simp
  next
    case (Some nd)
    with 5 show ?thesis
      by (cases nd) (auto simp: all_dirs_snoc split: nat.splits)
  qed
qed simp_all

lemma walk_missing: "walk n fs False cur cs = Some l \<Longrightarrow> node_at fs l = None \<Longrightarrow> walk n fs True cur cs = Some l"
proof (induction n fs False cur cs rule: walk.induct)
  case (5 n fs cur s cs)
  show ?case
  proof (cases "node_at fs (cur @ [s])")
    case None
    with 5 show ?thesis by simp
  next
    case (Some nd)
    with 5 show ?thesis by (cases nd) (auto split: if_splits nat.splits)
  qed
qed simp_all

text \<open>A write puts one file at the place its path leads to.\<close>

definition text_at :: "file_system \<Rightarrow> string list \<Rightarrow> string" where
  "text_at fs loc = (case node_at fs loc of Some (File t) \<Rightarrow> t | _ \<Rightarrow> [])"

definition written_text :: "write_mode \<Rightarrow> string \<Rightarrow> string \<Rightarrow> string" where
  "written_text mode old content = (if mode = Append then old @ content else content)"

lemma write_by_mode_puts:
  assumes "write_by_mode mode p content fs = Some fs'"
  shows "\<exists>loc. locate fs True p = Some loc \<and> fs' = put_node loc (File (written_text mode (text_at fs loc) content)) fs
    \<and> node_at fs loc \<noteq> Some Dir"
  using assms
  by (cases mode)
    (auto simp: write_by_mode_def write_text_def append_text_def locate_def written_text_def text_at_def
      dest: walk_missing split: option.splits node.splits if_splits)

lemma write_by_mode_below:
  assumes "work_tree fs b" and "prefix b ns" and "write_by_mode mode (at ns) content fs = Some fs'"
  shows "fs' = put_node ns (File (written_text mode (text_at fs ns) content)) fs
    \<and> locate fs True (at ns) = Some ns \<and> node_at fs ns \<noteq> Some Dir"
proof -
  obtain loc where loc: "locate fs True (at ns) = Some loc"
      and fs': "fs' = put_node loc (File (written_text mode (text_at fs loc) content)) fs" "node_at fs loc \<noteq> Some Dir"
    using write_by_mode_puts [OF assms(3)] by blast
  obtain ms where ns: "ns = b @ ms" using assms(2) by (auto simp: prefix_def)
  have "loc = ns"
    using locate_work_tree [OF assms(1), of "map Normal ms" True loc] loc
    by (simp add: ns plain_iff image_iff)
  with loc fs' show ?thesis by blast
qed

text \<open>\<open>path_clean\<close> leaves a plain absolute path alone.\<close>

definition cleans :: "(component list \<Rightarrow> component list) \<Rightarrow> bool" where
  "cleans clean \<longleftrightarrow> (\<forall>ns. clean (at ns) = at ns)"

lemma checked_path:
  assumes "cleans clean" and "writer_checks_path clean w fs (at ns) = Inr ()"
  shows "\<exists>base \<in> set (sw_allowed w). case canonicalize fs (at ns) of
    Some c \<Rightarrow> prefix base c | None \<Rightarrow> prefix base (at ns)"
  using assms
  by (auto simp: cleans_def writer_checks_path_def absolute_path_def Let_def list_ex_iff
      split: if_splits option.splits)

lemma path_exists_canonical: "path_exists fs p \<longleftrightarrow> canonicalize fs p \<noteq> None"
  by (auto simp: path_exists_def stat_def canonicalize_def split: option.splits)

lemma parent_exists:
  assumes "path_exists fs (at (ns @ [s]))"
  shows "path_exists fs (at ns)"
proof -
  obtain loc where "walk max_links fs True [] (map Normal ns @ [Normal s]) = Some loc"
    using assms by (auto simp: path_exists_def stat_def locate_def split: option.splits)
  from walk_parent [OF this all_dirs_Nil] show ?thesis
    by (auto simp: path_exists_def stat_def locate_def)
qed

text \<open>A write below directories without links changes nothing else.\<close>

lemma safe_write_changes:
  assumes "cleans clean" and "sw_allowed w = map at bases" and "\<forall>b \<in> set bases. work_tree fs b"
    and "safe_write clean w (at ns) content mode fs = (res, fs')"
  shows "\<forall>l. node_at fs' l \<noteq> node_at fs l \<longrightarrow> (\<exists>b \<in> set bases. prefix b l)"
proof (cases "writer_checks_path clean w fs (at ns)")
  case (Inl e)
  with assms(4) show ?thesis by (simp add: safe_write_def)
next
  case (Inr u)
  then obtain b where b: "b \<in> set bases"
      and below: "case canonicalize fs (at ns) of Some c \<Rightarrow> prefix (at b) c | None \<Rightarrow> prefix (at b) (at ns)"
  proof -
    have "writer_checks_path clean w fs (at ns) = Inr ()" using Inr by simp
    from checked_path [OF assms(1) this] obtain base where "base \<in> set (sw_allowed w)"
        and "case canonicalize fs (at ns) of Some c \<Rightarrow> prefix base c | None \<Rightarrow> prefix base (at ns)"
      by blast
    with assms(2) that show ?thesis by auto
  qed
  have wt: "work_tree fs b" using assms(3) b by blast
  obtain made where made: "made = (case path_parent (at ns) of
      None \<Rightarrow> Some fs | Some par \<Rightarrow> if path_exists fs par then Some fs else create_dir_all par fs)"
    by blast
  have res: "fs' = fs \<or> (\<exists>fs1. made = Some fs1 \<and> (fs' = fs1 \<or> write_by_mode mode (at ns) content fs1 = Some fs'))"
    using assms(4) Inr by (auto simp: safe_write_def made split: if_splits option.splits)
  show ?thesis
  proof (cases "canonicalize fs (at ns)")
    case (Some c)
    then obtain loc where loc: "c = at loc" "locate fs True (at ns) = Some loc"
      using canonical_at by blast
    have "prefix b loc" using below Some loc(1) by simp
    have ex: "path_exists fs (at ns)" using Some by (simp add: path_exists_canonical)
    have "made = Some fs"
    proof (cases ns rule: rev_cases)
      case Nil
      then show ?thesis by (simp add: made path_parent_def)
    next
      case (snoc ms s)
      then show ?thesis
        using parent_exists [of fs ms s] ex by (simp add: made path_parent_def butlast_append)
    qed
    with res have "fs' = fs \<or> write_by_mode mode (at ns) content fs = Some fs'" by auto
    then have "node_at fs' l = node_at fs l" if "l \<noteq> loc" for l
      using write_by_mode_puts [of mode "at ns" content fs fs'] loc(2) that
      by (auto simp: node_at_put_other)
    with b \<open>prefix b loc\<close> show ?thesis by metis
  next
    case None
    have pre: "prefix b ns" using below None by simp
    have "ns \<noteq> b"
      using None wt locate_directory [OF wt, of True]
      by (auto simp: canonicalize_def work_tree_def)
    with pre obtain ms s where ns: "ns = b @ ms @ [s]"
      by (metis append_butlast_last_id append_self_conv prefixE)
    have par: "path_parent (at ns) = Some (RootDir # map Normal b @ map Normal ms)"
      by (simp add: ns path_parent_def butlast_append)
    have dirs: "work_tree fs1 b \<and> only_below b fs fs1" if "made = Some fs1" for fs1
      using that create_dir_all_work_tree [OF wt, of "map Normal ms" fs1] wt
      by (auto simp: made par plain_iff image_iff split: if_splits)
    have "node_at fs' l = node_at fs l" if "\<not> prefix b l" for l
    proof -
      have strict: "\<not> strict_prefix b l" using that by auto
      from res show ?thesis
      proof (elim disjE exE conjE)
        assume "fs' = fs"
        then show ?thesis by simp
      next
        fix fs1 assume "made = Some fs1" and "fs' = fs1"
        with dirs strict show ?thesis by (simp add: only_below_def)
      next
        fix fs1 assume m: "made = Some fs1" and w: "write_by_mode mode (at ns) content fs1 = Some fs'"
        have "\<exists>t. fs' = put_node ns (File t) fs1"
          using write_by_mode_below [of fs1 b ns mode content fs'] dirs [OF m] pre w by blast
        with dirs [OF m] strict that pre show ?thesis
          by (auto simp: only_below_def node_at_put_other)
      qed
    qed
    with b show ?thesis by blast
  qed
qed

text \<open>
  C24: where the root and the directory for temporary files hold no links, whatever the write tool
  is asked, it changes nothing outside the two, wherever the links elsewhere lead.
\<close>

theorem writes_stay_in_root_and_temp:
  assumes "cleans clean" and "fc_root ctx = at rn" and "tmp = at tn" and "work_tree fs rn" and "work_tree fs tn"
    and "write_tool clean unb64 tmp ctx params fs = (res, fs')" and "node_at fs' l \<noteq> node_at fs l"
  shows "prefix rn l \<or> prefix tn l"
proof -
  have wt: "\<forall>b \<in> set [rn, tn]. work_tree fs b"
    using assms(4,5) by simp
  have "fs' \<noteq> fs" using assms(7) by blast
  then obtain raw q mode bytes res' where q: "resolve_file_path tmp ctx fs raw = Inr q"
      and w: "safe_write clean (tool_writer tmp ctx) q bytes mode fs = (res', fs')"
    using assms(6)
    by (auto simp: write_tool_def split: option.splits sum.splits if_splits prod.splits write_failure.splits)
  obtain ns where "q = at ns"
    using resolved_at [OF assms(2) q] by blast
  with w have "safe_write clean (tool_writer tmp ctx) (at ns) bytes mode fs = (res', fs')" by simp
  from safe_write_changes [OF assms(1) _ wt this] assms(2,3,7) show ?thesis
    by (auto simp: tool_writer_def)
qed

subsection \<open>Reading what was written\<close>

lemma join_components_names:
  assumes "\<not> is_absolute raw" and "ParentDir \<notin> set (components raw)"
  shows "join_components (at rn) raw = at (rn @ path_names raw)"
  using assms by (simp add: join_components_def ParentDir_segs segs_Normal path_names_def)

lemma resolve_from_names:
  "resolve_from root acc (map Normal ns) = Inr (acc @ map Normal ns)"
  by (induction ns arbitrary: acc) auto

lemma manual_resolve_names:
  assumes "\<not> is_absolute raw" and "ParentDir \<notin> set (components raw)"
  shows "manual_resolve ctx (components raw) = Inr (fc_root ctx @ map Normal (path_names raw))"
proof -
  have "concat (map seg_component (split_char (CHR ''/'') raw)) = map Normal (path_names raw)"
    using assms(2) by (simp add: ParentDir_segs segs_Normal path_names_def)
  then show ?thesis
    using assms(1) resolve_from_names by (simp add: manual_resolve_def components_def Let_def)
qed

lemma resolve_relative_names:
  assumes "work_tree fs rn" and "fc_root ctx = at rn"
    and "\<not> is_absolute raw" and "ParentDir \<notin> set (components raw)"
  shows "resolve_relative ctx fs raw = Inr (at (rn @ path_names raw))"
proof -
  let ?q = "at (rn @ path_names raw)"
  have "\<exists>c. canonicalize fs ?q = Some c" if "path_exists fs ?q"
    using that by (simp add: path_exists_canonical)
  moreover have "c = ?q" if can: "canonicalize fs ?q = Some c" for c
  proof -
    obtain loc where c: "c = at loc" and loc: "locate fs True (RootDir # map Normal rn @ map Normal (path_names raw)) = Some loc"
      using canonical_at [OF can] by auto
    have "loc = rn @ path_names raw"
      using locate_work_tree [OF assms(1) _ loc] by (simp add: plain_iff image_iff)
    then show ?thesis by (simp add: c)
  qed
  ultimately show ?thesis
    using manual_resolve_names [OF assms(3,4), of ctx]
    by (auto simp: resolve_relative_def join_components_names [OF assms(3,4)] assms(2) Let_def)
qed

lemma locate_gives_dirs:
  assumes "work_tree fs root" and "locate fs True (at (root @ ns)) = Some (root @ ns)"
  shows "dirs_to fs root ns"
proof -
  have "walk max_links fs True root (map Normal ns) = Some (root @ ns)"
    using assms walk_dirs [of root fs "[]" max_links True "map Normal ns"]
    by (simp add: locate_def work_tree_def)
  then have "node_at fs (root @ p) = Some Dir" if "strict_prefix p ns" for p
    using walk_reaches_dirs [of max_links fs True root ns "root @ ns" root p] assms(1) that
    by (cases "p = []") (auto simp: work_tree_def)
  then show ?thesis by (simp add: dirs_to_def)
qed

lemma written_node:
  assumes "cleans clean" and "work_tree fs rn" and "ns \<noteq> []"
    and "safe_write clean w (at (rn @ ns)) content mode fs = (Inr (), fs')"
  shows "work_tree fs' rn \<and> dirs_to fs' rn ns
    \<and> node_at fs' (rn @ ns) = Some (File (written_text mode (text_at fs (rn @ ns)) content))"
proof -
  obtain fs1 where made: "fs1 = fs \<or> (\<exists>p. create_dir_all p fs = Some fs1)"
      and w: "write_by_mode mode (at (rn @ ns)) content fs1 = Some fs'"
    using assms(4) by (auto simp: safe_write_def split: sum.splits option.splits if_splits)
  have wt: "work_tree fs1 rn"
    using made assms(2) create_dir_all_tree by blast
  from write_by_mode_below [OF wt _ w] have
    fs': "fs' = put_node (rn @ ns) (File (written_text mode (text_at fs1 (rn @ ns)) content)) fs1"
    and loc: "locate fs1 True (at (rn @ ns)) = Some (rn @ ns)" and "node_at fs1 (rn @ ns) \<noteq> Some Dir"
    by auto
  then have "node_at fs1 (rn @ ns) = node_at fs (rn @ ns)"
    using made create_dir_all_only_adds by blast
  then have old: "text_at fs1 (rn @ ns) = text_at fs (rn @ ns)" by (simp add: text_at_def)
  have "strict_prefix rn (rn @ ns)" using assms(3) by (simp add: strict_prefix_def)
  then have "work_tree fs' rn"
    using work_tree_below [OF wt only_below_put] wt assms(3)
    by (simp add: fs' work_tree_def link_free_put)
  moreover have "dirs_to fs' rn ns"
    using locate_gives_dirs [OF wt loc] by (auto simp: dirs_to_def fs' node_at_put_other)
  moreover have "node_at fs' (rn @ ns) = Some (File (written_text mode (text_at fs (rn @ ns)) content))"
    using assms(3) by (simp add: fs' old node_at_put)
  ultimately show ?thesis by blast
qed

lemma resolve_relative_path:
  "\<not> is_absolute raw \<Longrightarrow> resolve_file_path tmp ctx fs raw = Inr q \<Longrightarrow>
     resolve_relative ctx fs raw = Inr q \<and> resolve_file_path tmp ctx fs' raw = resolve_relative ctx fs' raw"
  by (auto simp: resolve_file_path_def split: if_splits)

text \<open>
  C25: where the root holds no links, what a write in any of the modes has left at a relative path
  without \<open>..\<close> is what a plain read of the same path answers, up to a mebibyte: the new text, or the
  text that was there and the new one after it.
\<close>

theorem written_file_is_read_back:
  assumes "cleans clean" and wt: "work_tree fs rn" and "fc_root ctx = at rn"
    and "get_str params ''path'' = Some raw" and "get_str params ''content'' = Some content"
    and "parse_write_mode (get_str params ''mode'') = Inr mode"
    and "get_str params ''encoding'' \<in> {None, Some ''utf8''}"
    and "\<not> is_absolute raw" and "ParentDir \<notin> set (components raw)" and "path_names raw \<noteq> []"
    and "write_tool clean unb64 tmp ctx params fs = (Inr r, fs')"
    and "length (written_text mode (text_at fs (rn @ path_names raw)) content) \<le> max_read_size"
  shows "read_tool print clean' forced tmp ctx (JObj [(''path'', JStr raw)]) fs'
    = Some (Inr (written_text mode (text_at fs (rn @ path_names raw)) content))"
proof -
  define shown where "shown = written_text mode (text_at fs (rn @ path_names raw)) content"
  have enc: "(case get_str params ''encoding'' of Some e \<Rightarrow> e | None \<Rightarrow> ''utf8'') = ''utf8''"
    using assms(7) by auto
  obtain q where q: "resolve_file_path tmp ctx fs raw = Inr q"
      and w: "safe_write clean (tool_writer tmp ctx) q content mode fs = (Inr (), fs')"
    using assms(4-6,11) enc
    by (auto simp: write_tool_def decode_content_def split: sum.splits if_splits prod.splits write_failure.splits)
  have rel: "resolve_relative ctx fs raw = Inr q"
    and checks: "resolve_file_path tmp ctx fs' raw = resolve_relative ctx fs' raw"
    using resolve_relative_path [OF assms(8) q] by blast+
  have "q = at (rn @ path_names raw)"
    using rel resolve_relative_names [OF wt assms(3,8,9)] by simp
  with w have "safe_write clean (tool_writer tmp ctx) (at (rn @ path_names raw)) content mode fs = (Inr (), fs')"
    by simp
  from written_node [OF assms(1) wt assms(10) this]
  have wt': "work_tree fs' rn" and dirs: "dirs_to fs' rn (path_names raw)"
    and node: "node_at fs' (rn @ path_names raw) = Some (File shown)"
    unfolding shown_def by blast+
  have "locate fs' True (at (rn @ path_names raw)) = Some (rn @ path_names raw)"
    using locate_dirs [OF wt' dirs] node by simp
  then have st: "stat fs' True (at (rn @ path_names raw)) = Some (File shown)"
    using node by (simp add: stat_def)
  have "resolve_file_path tmp ctx fs' raw = Inr (at (rn @ path_names raw))"
    using checks resolve_relative_names [OF wt' assms(3,8,9)] by simp
  with st assms(12) show ?thesis unfolding shown_def [symmetric]
    by (simp add: read_tool_def read_format_def read_fields_def get_str_def get_u64_def read_file_def
        trim_Nil Let_def)
qed

subsection \<open>Instances\<close>

definition plain_fs :: file_system where
  "plain_fs =
     \<lparr>nodes = [([''r''], Dir), ([''r'', ''a''], File ''old''), ([''tmp''], Dir), ([''shared''], Dir)], cwd = []\<rparr>"

definition plain_ctx :: file_context where
  "plain_ctx = \<lparr>fc_root = at [''r''], fc_allowed = [at [''shared'']]\<rparr>"

definition write_request :: "string \<Rightarrow> string \<Rightarrow> json" where
  "write_request path content = JObj [(''path'', JStr path), (''content'', JStr content)]"

lemma plain_nodes:
  "node_at plain_fs l
    = (if l = [] \<or> l = [''r''] \<or> l = [''tmp''] \<or> l = [''shared''] then Some Dir
       else if l = [''r'', ''a''] then Some (File ''old'') else None)"
  by (simp add: node_at_def plain_fs_def)

lemma plain_trees: "work_tree plain_fs [''r'']" "work_tree plain_fs [''tmp'']"
  by (auto simp: work_tree_def link_free_def plain_nodes prefix_Cons)

text \<open>
  A client whose root lies in a project: the root of the project is the directory above. (\<open>names_of\<close>
  stands for \<^bold>\<open>path_clean\<close>, on paths without \<open>..\<close>.)
\<close>

definition names_of :: "component list \<Rightarrow> component list" where
  "names_of p = at (concat (map (\<lambda>c. case c of Normal s \<Rightarrow> [s] | _ \<Rightarrow> []) p))"

definition project_fs :: file_system where
  "project_fs =
     \<lparr>nodes = [([''w''], Dir), ([''w'', ''.git''], Dir), ([''w'', ''a''], File ''above''), ([''w'', ''p''], Dir),
               ([''w'', ''p'', ''a''], File ''own''), ([''tmp''], Dir)], cwd = []\<rparr>"

definition project_ctx :: file_context where
  "project_ctx = \<lparr>fc_root = at [''w'', ''p''], fc_allowed = []\<rparr>"

definition content_only :: "json \<Rightarrow> string" where
  "content_only v = (case get_str v ''content'' of Some t \<Rightarrow> t | None \<Rightarrow> [])"

lemma names_of_plain: "makes_plain names_of"
  unfolding makes_plain_def names_of_def by blast

lemma project_nodes:
  "node_at project_fs l
    = (if l = [] \<or> l = [''w''] \<or> l = [''w'', ''.git''] \<or> l = [''w'', ''p''] \<or> l = [''tmp''] then Some Dir
       else if l = [''w'', ''a''] then Some (File ''above'')
       else if l = [''w'', ''p'', ''a''] then Some (File ''own'') else None)"
  by (simp add: node_at_def project_fs_def)

lemma project_open: "open_tree (at [''tmp'']) project_ctx [[''w'', ''p''], [''tmp'']] project_fs"
  by (auto simp: open_tree_def project_ctx_def work_tree_def link_free_def project_nodes prefix_Cons)

lemma project_root:
  assumes "new_file_ops project_fs None (fc_root project_ctx) = Inr fo"
  shows "repo_root (fo_security fo) = at [''w''] \<and> work_tree project_fs [''w'']"
proof -
  have "case new_file_ops project_fs None (fc_root project_ctx) of
      Inr fo \<Rightarrow> repo_root (fo_security fo) = at [''w''] | Inl _ \<Rightarrow> False"
    by code_simp
  then show ?thesis
    using assms by (auto simp: work_tree_def link_free_def project_nodes prefix_Cons)
qed

definition structured_request :: "string \<Rightarrow> json" where
  "structured_request path = JObj [(''path'', JStr path), (''format'', JStr ''json'')]"

text \<open>
  A structured answer shows a file outside of every directory the client may use: the path is checked
  below the root of the client and read below the root of the project.
\<close>

lemma structured_read_leaves_root:
  "read_tool content_only names_of None (at [''tmp'']) project_ctx (structured_request ''a'') project_fs
     = Some (Inr (structured_text (at [''w'', ''p'', ''a'']) FormatJson ''above''))"
  by code_simp

lemma reads_stay_in_allowed_directories_witness:
  "\<exists>b ns t. b \<in> set [[''w'', ''p''], [''tmp'']] \<and> prefix b ns \<and> node_at project_fs ns = Some (File t)
    \<and> length t \<le> max_read_size
    \<and> (\<exists>fmt path loc u. format_of ''json'' = Some fmt
        \<and> node_at project_fs loc = Some (File u) \<and> length u \<le> max_read_size
        \<and> (prefix [''w''] loc \<or> loc = ns)
        \<and> structured_answer content_only (at ns) fmt None False (content_of path False None None u)
           = Some (structured_text (at [''w'', ''p'', ''a'']) FormatJson ''above''))"
proof -
  have "read_format (structured_request ''a'') = ''json''" "read_fields (structured_request ''a'') = None"
    "(Option.bind (jget (structured_request ''a'') ''line_numbers'') as_bool = Some True) = False"
    "u32_or_none (get_u64 (structured_request ''a'') ''offset'') = None"
    "u32_or_none (get_u64 (structured_request ''a'') ''limit'') = None"
    by code_simp+
  with reads_stay_in_allowed_directories [OF project_open names_of_plain project_root structured_read_leaves_root]
  show ?thesis by (simp add: Let_def)
qed

lemma plain_write:
  "\<exists>fs'. write_tool (\<lambda>p. p) Some (at [''tmp'']) plain_ctx (write_request ''d/b'' ''new'') plain_fs
     = (Inr (at [''r'', ''d'', ''b''], 3), fs') \<and> node_at fs' [''r'', ''d'', ''b''] = Some (File ''new'')"
proof -
  have "case write_tool (\<lambda>p. p) Some (at [''tmp'']) plain_ctx (write_request ''d/b'' ''new'') plain_fs
    of (res, fs') \<Rightarrow> res = Inr (at [''r'', ''d'', ''b''], 3) \<and> node_at fs' [''r'', ''d'', ''b''] = Some (File ''new'')"
    by code_simp
  then show ?thesis by (auto split: prod.splits)
qed

lemma cleans_id: "cleans (\<lambda>p. p)"
  by (simp add: cleans_def)

lemma writes_stay_in_root_and_temp_witness:
  "prefix [''r''] [''r'', ''d'', ''b''] \<or> prefix [''tmp''] [''r'', ''d'', ''b'']"
proof -
  obtain fs' where run: "write_tool (\<lambda>p. p) Some (at [''tmp'']) plain_ctx (write_request ''d/b'' ''new'') plain_fs
      = (Inr (at [''r'', ''d'', ''b''], 3), fs')" and "node_at fs' [''r'', ''d'', ''b''] = Some (File ''new'')"
    using plain_write by blast
  then have "node_at fs' [''r'', ''d'', ''b''] \<noteq> node_at plain_fs [''r'', ''d'', ''b'']"
    by (simp add: plain_nodes)
  moreover have "fc_root plain_ctx = at [''r'']" by (simp add: plain_ctx_def)
  ultimately show ?thesis
    using writes_stay_in_root_and_temp [OF cleans_id _ refl plain_trees] run by blast
qed

lemma plain_join:
  "\<exists>fs'. write_tool (\<lambda>p. p) Some (at [''tmp'']) plain_ctx
       (JObj [(''path'', JStr ''./a''), (''content'', JStr '' and new''), (''mode'', JStr ''append'')]) plain_fs
     = (Inr (at [''r'', ''a''], 8), fs')"
proof -
  have "case write_tool (\<lambda>p. p) Some (at [''tmp'']) plain_ctx
       (JObj [(''path'', JStr ''./a''), (''content'', JStr '' and new''), (''mode'', JStr ''append'')]) plain_fs
    of (res, fs') \<Rightarrow> res = Inr (at [''r'', ''a''], 8)"
    by code_simp
  then show ?thesis by (auto split: prod.splits)
qed

lemma written_file_is_read_back_witness:
  "\<exists>fs'. write_tool (\<lambda>p. p) Some (at [''tmp'']) plain_ctx
       (JObj [(''path'', JStr ''./a''), (''content'', JStr '' and new''), (''mode'', JStr ''append'')]) plain_fs
     = (Inr (at [''r'', ''a''], 8), fs')
     \<and> read_tool content_only names_of None (at [''tmp'']) plain_ctx (JObj [(''path'', JStr ''./a'')]) fs'
        = Some (Inr ''old and new'')"
proof -
  let ?req = "JObj [(''path'', JStr ''./a''), (''content'', JStr '' and new''), (''mode'', JStr ''append'')]"
  obtain fs' where run: "write_tool (\<lambda>p. p) Some (at [''tmp'']) plain_ctx ?req plain_fs
      = (Inr (at [''r'', ''a''], 8), fs')"
    using plain_join by blast
  have root: "fc_root plain_ctx = at [''r'']" by (simp add: plain_ctx_def)
  have "get_str ?req ''path'' = Some ''./a''"
    and "get_str ?req ''content'' = Some '' and new''"
    and "parse_write_mode (get_str ?req ''mode'') = Inr Append"
    and "get_str ?req ''encoding'' \<in> {None, Some ''utf8''}"
    and "\<not> is_absolute ''./a''" and "ParentDir \<notin> set (components ''./a'')" and "path_names ''./a'' \<noteq> []"
    and "length (written_text Append (text_at plain_fs ([''r''] @ path_names ''./a'')) '' and new'') \<le> max_read_size"
    by code_simp+
  note answered = written_file_is_read_back [OF cleans_id plain_trees(1) root this(1-7) run this(8)]
  have "written_text Append (text_at plain_fs ([''r''] @ path_names ''./a'')) '' and new'' = ''old and new''"
    by code_simp
  with answered run show ?thesis by simp
qed

subsection \<open>How the checks are got around\<close>

text \<open>A directory with a link to a file and one to a directory outside of it.\<close>

definition linked_fs :: file_system where
  "linked_fs =
     \<lparr>nodes = [([''r''], Dir), ([''r'', ''pw''], Link ''/etc/passwd''), ([''r'', ''etc''], Link ''/etc''),
               ([''etc''], Dir), ([''etc'', ''passwd''], File ''root''), ([''tmp''], Dir)], cwd = []\<rparr>"

text \<open>
  A path that ends in \<open>..\<close> passes the textual check; behind a link to a file it does not exist, is
  resolved by its text alone, and the link is read.
\<close>

lemma final_parent_reads_through_link:
  "resolve_file_path (at [''tmp'']) plain_ctx linked_fs ''pw'' = Inl (boundary_error ''Path escapes repository'')"
  "read_tool content_only names_of None (at [''tmp'']) plain_ctx (JObj [(''path'', JStr ''pw/x/..'')]) linked_fs
     = Some (Inr ''root'')"
  by code_simp+

text \<open>A file that does not exist yet is checked by its text too, so it is made behind the link.\<close>

lemma missing_file_is_written_behind_link:
  "case write_tool (\<lambda>p. p) Some (at [''tmp'']) plain_ctx (write_request ''etc/cron'' ''x'') linked_fs of
     (res, fs') \<Rightarrow> res = Inr (at [''r'', ''etc'', ''cron''], 1) \<and> node_at fs' [''etc'', ''cron''] = Some (File ''x'')"
  by code_simp

text \<open>The largest limit makes the end of the window wrap around before its start.\<close>

lemma largest_limit_panics:
  "read_file plain_fs (at [''r'', ''a'']) False (Some 1) (Some (2 ^ 64 - 1)) = None"
  by code_simp

text \<open>A directory that was allowed in the settings can be read, but the writer does not know it.\<close>

lemma allowed_directory_is_not_writable:
  "resolve_file_path (at [''tmp'']) plain_ctx plain_fs ''/shared/f'' = Inr (at [''shared'', ''f''])"
  "fst (write_tool (\<lambda>p. p) Some (at [''tmp'']) plain_ctx (write_request ''/shared/f'' ''x'') plain_fs)
     = Inl (ToolValidation ''absolute path is outside of allowed directories'')"
  by code_simp+

text \<open>
  The writer checks the cleaned path and writes to the raw one: where a link is followed by
  \<open>..\<close> the two differ. (\<open>clean\<close> is what \<^bold>\<open>path_clean\<close> does to this one path.)
\<close>

lemma raw_path_is_written:
  "let clean = (\<lambda>p. if p = components ''/r/etc/../new'' then at [''r'', ''new''] else p)
   in case safe_write clean \<lparr>sw_allowed = [at [''r'']], sw_max = None\<rparr> (components ''/r/etc/../new'') ''x'' Overwrite linked_fs
      of (res, fs') \<Rightarrow> res = Inr () \<and> node_at fs' [''r'', ''new''] = None \<and> node_at fs' [''new''] = Some (File ''x'')"
  by code_simp

end
