(* ===== verification/Output_Shaper.thy ===== *)
theory Output_Shaper
  imports Str_Search Std_Dir Json
begin

text \<open>
  The compression of long program output for the context of a model
  (crates/mcp-tools/src/output_shaper.rs): the detection of the format, one shaper for each format,
  the cut at the largest size, and the raw text that is kept in a file.

  \<open>None\<close> is a panic, which here only the slice of a text within a character causes. Parsing and
  printing JSON is serde's work and a field of \<open>shaper_lib\<close>. Ratios of line counts are compared
  exactly, and an entry of a map of counts is one more wherever the code adds one.
\<close>

subsection \<open>Text\<close>

text \<open>\<open>&s[a..b]\<close> of UTF-8 text: \<open>None\<close> where an end is out of bounds or within a character.\<close>

definition char_boundary :: "nat \<Rightarrow> string \<Rightarrow> bool" where
  "char_boundary i s =
     (i = 0 \<or> i = length s \<or>
      i < length s \<and> \<not> (128 \<le> (of_char (s ! i) :: nat) \<and> (of_char (s ! i) :: nat) < 192))"

definition str_slice :: "nat \<Rightarrow> nat \<Rightarrow> string \<Rightarrow> string option" where
  "str_slice a b s =
     (if a \<le> b \<and> b \<le> length s \<and> char_boundary a s \<and> char_boundary b s
      then Some (take (b - a) (drop a s)) else None)"

text \<open>
  \<open>to_uppercase\<close>: the letters of ASCII, and the characters whose upper case has such a letter.
  Other characters keep their bytes here; the code only asks whether the result contains ASCII
  words.
\<close>

definition upper_seqs :: "(string \<times> string) list" where
  "upper_seqs =
     [([CHR 0xC3, CHR 0x9F], ''SS''), ([CHR 0xC4, CHR 0xB1], ''I''),
      ([CHR 0xC5, CHR 0x89], [CHR 0xCA, CHR 0xBC, CHR ''N'']), ([CHR 0xC5, CHR 0xBF], ''S''),
      ([CHR 0xC7, CHR 0xB0], [CHR ''J'', CHR 0xCC, CHR 0x8C]),
      ([CHR 0xE1, CHR 0xBA, CHR 0x96], [CHR ''H'', CHR 0xCC, CHR 0xB1]),
      ([CHR 0xE1, CHR 0xBA, CHR 0x97], [CHR ''T'', CHR 0xCC, CHR 0x88]),
      ([CHR 0xE1, CHR 0xBA, CHR 0x98], [CHR ''W'', CHR 0xCC, CHR 0x8A]),
      ([CHR 0xE1, CHR 0xBA, CHR 0x99], [CHR ''Y'', CHR 0xCC, CHR 0x8A]),
      ([CHR 0xE1, CHR 0xBA, CHR 0x9A], [CHR ''A'', CHR 0xCA, CHR 0xBE]),
      ([CHR 0xEF, CHR 0xAC, CHR 0x80], ''FF''), ([CHR 0xEF, CHR 0xAC, CHR 0x81], ''FI''),
      ([CHR 0xEF, CHR 0xAC, CHR 0x82], ''FL''), ([CHR 0xEF, CHR 0xAC, CHR 0x83], ''FFI''),
      ([CHR 0xEF, CHR 0xAC, CHR 0x84], ''FFL''), ([CHR 0xEF, CHR 0xAC, CHR 0x85], ''ST''),
      ([CHR 0xEF, CHR 0xAC, CHR 0x86], ''ST'')]"

definition upper_char :: "char \<Rightarrow> char" where
  "upper_char c =
     (let v = of_char c :: nat in if 97 \<le> v \<and> v \<le> 122 then char_of (v - 32) else c)"

fun upper_from :: "nat \<Rightarrow> string \<Rightarrow> string" where
  "upper_from skip [] = []"
| "upper_from (Suc skip) (c # cs) = upper_from skip cs"
| "upper_from 0 (c # cs) =
     (case find (\<lambda>(w, u). prefix w (c # cs)) upper_seqs of
        Some (w, u) \<Rightarrow> u @ upper_from (length w - 1) cs
      | None \<Rightarrow> upper_char c # upper_from 0 cs)"

definition to_uppercase :: "string \<Rightarrow> string" where
  "to_uppercase s = upper_from 0 s"

definition ticks :: string where
  "ticks = [CHR 0x60, CHR 0x60, CHR 0x60]"

definition ln :: "string \<Rightarrow> string" where
  "ln s = s @ [nl]"

definition spaces :: "nat \<Rightarrow> string" where
  "spaces n = replicate n (CHR '' '')"

definition quoted :: "string \<Rightarrow> string" where
  "quoted s = [CHR 0x22] @ s @ [CHR 0x22]"

subsection \<open>Data\<close>

datatype intent_hint = HintAuto | HintDebug | HintExplore | HintVerbose | HintRaw

datatype output_format =
  GccClang | RustCargo | Python | JsonText | DirectoryTree | LogFile | Plain

record output_metadata =
  om_error_count :: nat
  om_warning_count :: nat
  om_line_count :: nat
  om_truncated :: bool

record shaped_output =
  so_compact :: string
  so_raw_path :: "component list option"
  so_format :: output_format
  so_original_size :: nat
  so_compact_size :: nat
  so_metadata :: output_metadata

record output_shaper =
  os_shapers :: "output_format list"
  os_tmp_dir :: "component list"
  os_threshold :: nat
  os_max_compact_size :: nat

record shaper_lib =
  sl_parse :: "string \<Rightarrow> string + json"
  sl_print :: "json \<Rightarrow> string"

definition new_output_shaper :: output_shaper where
  "new_output_shaper =
     \<lparr>os_shapers = [GccClang, RustCargo, Python, JsonText, DirectoryTree, LogFile],
      os_tmp_dir = [RootDir, Normal ''tmp''], os_threshold = 4096, os_max_compact_size = 8192\<rparr>"

definition with_threshold :: "nat \<Rightarrow> output_shaper \<Rightarrow> output_shaper" where
  "with_threshold n sh = sh\<lparr>os_threshold := n\<rparr>"

definition count_lines :: "string \<Rightarrow> output_metadata" where
  "count_lines output =
     \<lparr>om_error_count = 0, om_warning_count = 0, om_line_count = length (str_lines output),
      om_truncated = False\<rparr>"

text \<open>A piece of text under a condition, and the note on what a list leaves out.\<close>

definition text_if :: "bool \<Rightarrow> string \<Rightarrow> string" where
  "text_if b s = (if b then s else [])"

definition and_more :: "nat \<Rightarrow> 'a list \<Rightarrow> string \<Rightarrow> string" where
  "and_more n xs what =
     text_if (n < length xs) (''... and '' @ show_nat (length xs - n) @ what)"

fun numbered :: "(nat \<Rightarrow> string \<Rightarrow> string) \<Rightarrow> nat \<Rightarrow> string list \<Rightarrow> string" where
  "numbered f i [] = []"
| "numbered f i (l # ls) = f i l @ numbered f (Suc i) ls"

subsection \<open>C and C++ compilers\<close>

definition gcc_detect :: "string \<Rightarrow> bool" where
  "gcc_detect output \<longleftrightarrow>
     contains output '': error:'' \<or> contains output '': warning:'' \<or> contains output '': fatal error:''"

definition gcc_step ::
  "string list \<times> string list \<times> string list \<Rightarrow> string \<Rightarrow> string list \<times> string list \<times> string list"
where
  "gcc_step acc l =
     (case acc of (errors, warnings, others) \<Rightarrow>
        if contains l '': error:'' \<or> contains l '': fatal error:'' then (errors @ [l], warnings, others)
        else if contains l '': warning:'' then (errors, warnings @ [l], others)
        else if contains l ''error:'' \<or> starts_with l ''make:'' then (errors, warnings, others @ [l])
        else acc)"

definition gcc_text :: "intent_hint \<Rightarrow> string list \<Rightarrow> string list \<Rightarrow> string list \<Rightarrow> string" where
  "gcc_text hint errors warnings others =
     ln ''## Compilation Summary'' @ ln (''- Errors: '' @ show_nat (length errors))
     @ ln (''- Warnings: '' @ show_nat (length warnings)) @ [nl]
     @ text_if (errors \<noteq> [])
         (ln ''### Errors'' @ ln ticks
          @ numbered (\<lambda>i e. ln (show_nat i @ ''. '' @ e)) 1 (take 10 errors)
          @ and_more 10 errors (ln '' more errors'') @ ln ticks @ [nl])
     @ text_if ((hint = HintVerbose \<or> errors = []) \<and> warnings \<noteq> [])
         (ln ''### Warnings (first 5)'' @ ln ticks @ concat (map ln (take 5 warnings))
          @ and_more 5 warnings (ln '' more warnings'') @ ln ticks)
     @ text_if (others \<noteq> [])
         ([nl] @ ln ''### Build System'' @ ln ticks @ concat (map ln (take 5 others)) @ ln ticks)"

definition gcc_shape :: "string \<Rightarrow> intent_hint \<Rightarrow> string \<times> output_metadata" where
  "gcc_shape output hint =
     (case foldl gcc_step ([], [], []) (str_lines output) of (errors, warnings, others) \<Rightarrow>
        (gcc_text hint errors warnings others,
         \<lparr>om_error_count = length errors, om_warning_count = length warnings,
          om_line_count = length (str_lines output),
          om_truncated = 10 < length errors \<or> 5 < length warnings\<rparr>))"

subsection \<open>Cargo\<close>

definition cargo_detect :: "string \<Rightarrow> bool" where
  "cargo_detect output \<longleftrightarrow>
     contains output ''error[E'' \<or> contains output ''warning:'' \<and> contains output ''-->''
     \<or> contains output ''Compiling '' \<or> contains output ''cargo ''"

record cargo_scan =
  cs_errors :: "string list"
  cs_warnings :: "string list"
  cs_block :: string
  cs_in_error :: bool
  cs_in_warning :: bool

definition file_block :: "cargo_scan \<Rightarrow> cargo_scan" where
  "file_block st =
     (if cs_in_error st then st\<lparr>cs_errors := cs_errors st @ [cs_block st]\<rparr>
      else if cs_in_warning st then st\<lparr>cs_warnings := cs_warnings st @ [cs_block st]\<rparr> else st)"

definition close_block :: "cargo_scan \<Rightarrow> cargo_scan" where
  "close_block st = (if cs_block st \<noteq> [] then file_block st else st)"

definition error_head :: "string \<Rightarrow> bool" where
  "error_head l \<longleftrightarrow> starts_with l ''error[E'' \<or> starts_with l ''error:''"

definition cargo_step :: "cargo_scan \<Rightarrow> string \<Rightarrow> cargo_scan" where
  "cargo_step st l =
     (if error_head l
      then (close_block st)\<lparr>cs_block := l, cs_in_error := True, cs_in_warning := False\<rparr>
      else if starts_with l ''warning:''
      then (close_block st)\<lparr>cs_block := l, cs_in_error := False, cs_in_warning := True\<rparr>
      else if cs_in_error st \<or> cs_in_warning st
      then (if starts_with l ''   '' \<or> starts_with l '' -->'' \<or> trim l = []
            then st\<lparr>cs_block := cs_block st @ nl # l\<rparr>
            else if starts_with l ''For more information'' \<or> starts_with l ''Some errors''
            then (file_block st)\<lparr>cs_block := [], cs_in_error := False, cs_in_warning := False\<rparr>
            else st)
      else st)"

definition cargo_scan_lines :: "string list \<Rightarrow> cargo_scan" where
  "cargo_scan_lines ls =
     close_block (foldl cargo_step
       \<lparr>cs_errors = [], cs_warnings = [], cs_block = [], cs_in_error = False, cs_in_warning = False\<rparr> ls)"

definition cargo_text :: "intent_hint \<Rightarrow> string list \<Rightarrow> string list \<Rightarrow> string" where
  "cargo_text hint errors warnings =
     ln ''## Cargo Build Summary'' @ ln (''- Errors: '' @ show_nat (length errors))
     @ ln (''- Warnings: '' @ show_nat (length warnings)) @ [nl]
     @ text_if (errors \<noteq> [])
         (ln ''### Errors''
          @ numbered (\<lambda>i e. ln (''#### Error '' @ show_nat i) @ ln ticks @ ln e @ ln ticks @ [nl]) 1
              (take 5 errors)
          @ and_more 5 errors (ln '' more errors (see raw output)'' @ [nl]))
     @ text_if (hint = HintVerbose \<and> warnings \<noteq> [])
         (ln ''### Warnings (first 3)''
          @ concat (map (\<lambda>w. ln ticks @ ln w @ ln ticks) (take 3 warnings)))"

definition cargo_shape :: "string \<Rightarrow> intent_hint \<Rightarrow> string \<times> output_metadata" where
  "cargo_shape output hint =
     (let st = cargo_scan_lines (str_lines output)
      in (cargo_text hint (cs_errors st) (cs_warnings st),
          \<lparr>om_error_count = length (cs_errors st), om_warning_count = length (cs_warnings st),
           om_line_count = length (str_lines output), om_truncated = 5 < length (cs_errors st)\<rparr>))"

subsection \<open>Python\<close>

definition traceback_mark :: string where
  "traceback_mark = ''Traceback (most recent call last):''"

definition python_detect :: "string \<Rightarrow> bool" where
  "python_detect output \<longleftrightarrow>
     contains output traceback_mark
     \<or> contains output (''  File '' @ [CHR 0x22]) \<and> contains output ([CHR 0x22] @ '', line '')
     \<or> contains output ''SyntaxError:'' \<or> contains output ''IndentationError:''
     \<or> contains output ''ModuleNotFoundError:'' \<or> contains output ''ImportError:''"

record python_scan =
  ps_tracebacks :: "string list"
  ps_current :: string
  ps_in_traceback :: bool
  ps_types :: "(string, nat) hmap"

definition count_up :: "string \<Rightarrow> (string, nat) hmap \<Rightarrow> (string, nat) hmap" where
  "count_up k m = hm_insert k (case hm_get m k of None \<Rightarrow> 1 | Some n \<Rightarrow> n + 1) m"

text \<open>A line outside a traceback: only the first keyword that it contains is looked at.\<close>

definition standalone_error :: "string \<Rightarrow> python_scan \<Rightarrow> python_scan" where
  "standalone_error l st =
     (if contains l ''Error:'' \<or> contains l ''Exception:'' \<or> contains l ''Warning:''
      then case split_once (CHR '':'') l of
             None \<Rightarrow> st
           | Some (h, _) \<Rightarrow>
               (let t = trim h
                in if CHR '' '' \<notin> set t \<or> ends_with t ''Error'' \<or> ends_with t ''Exception''
                   then st\<lparr>ps_types := count_up t (ps_types st), ps_tracebacks := ps_tracebacks st @ [l]\<rparr>
                   else st)
      else st)"

definition python_step :: "python_scan \<Rightarrow> string \<Rightarrow> python_scan" where
  "python_step st l =
     (if contains l traceback_mark
      then st\<lparr>ps_tracebacks := ps_tracebacks st @ (if ps_current st \<noteq> [] then [ps_current st] else []),
              ps_current := l, ps_in_traceback := True\<rparr>
      else if ps_in_traceback st
      then let current = ps_current st @ nl # l
           in if \<not> starts_with l '' '' \<and> l \<noteq> [] \<and> \<not> starts_with l ''Traceback''
              then st\<lparr>ps_types := (case split_once (CHR '':'') l of
                                     None \<Rightarrow> ps_types st
                                   | Some (t, _) \<Rightarrow> count_up t (ps_types st)),
                      ps_tracebacks := ps_tracebacks st @ [current], ps_current := [],
                      ps_in_traceback := False\<rparr>
              else st\<lparr>ps_current := current\<rparr>
      else standalone_error l st)"

definition python_scan_lines :: "string list \<Rightarrow> python_scan" where
  "python_scan_lines ls =
     foldl python_step
       \<lparr>ps_tracebacks = [], ps_current = [], ps_in_traceback = False, ps_types = []\<rparr> ls"

text \<open>The stable sort with the largest count first.\<close>

definition by_count :: "(string, nat) hmap \<Rightarrow> (string \<times> nat) list" where
  "by_count m = sort_key (\<lambda>(k, n). - int n) m"

definition python_text :: "intent_hint \<Rightarrow> string list \<Rightarrow> (string, nat) hmap \<Rightarrow> string" where
  "python_text hint tracebacks types =
     (let most = (if hint = HintVerbose then 5 else 3)
      in ln ''## Python Error Summary''
         @ ln (''- Total exceptions: '' @ show_nat (length tracebacks))
         @ text_if (types \<noteq> [])
             (ln ''- Error types:''
              @ concat (map (\<lambda>(t, n). ln (''  - '' @ t @ '': '' @ show_nat n)) (take 5 (by_count types))))
         @ [nl]
         @ text_if (tracebacks \<noteq> [])
             (ln ''### Tracebacks''
              @ numbered (\<lambda>i t. ln (''#### Exception '' @ show_nat i) @ ln (ticks @ ''python'') @ ln t
                    @ ln ticks @ [nl]) 1 (take most tracebacks)
              @ and_more most tracebacks (ln '' more tracebacks (see raw output)'')))"

definition python_shape :: "string \<Rightarrow> intent_hint \<Rightarrow> string \<times> output_metadata" where
  "python_shape output hint =
     (let st = python_scan_lines (str_lines output)
      in (python_text hint (ps_tracebacks st) (ps_types st),
          \<lparr>om_error_count = length (ps_tracebacks st), om_warning_count = 0,
           om_line_count = length (str_lines output), om_truncated = 3 < length (ps_tracebacks st)\<rparr>))"

subsection \<open>JSON\<close>

definition json_detect :: "string \<Rightarrow> bool" where
  "json_detect output \<longleftrightarrow>
     (let t = trim output
      in starts_with t ''{'' \<and> ends_with t ''}'' \<or> starts_with t ''['' \<and> ends_with t '']'')"

fun join_with :: "string \<Rightarrow> string list \<Rightarrow> string" where
  "join_with sep [] = []"
| "join_with sep [p] = p"
| "join_with sep (p # ps) = p @ sep @ join_with sep ps"

function summarize_json :: "(json \<Rightarrow> string) \<Rightarrow> json \<Rightarrow> nat \<Rightarrow> nat \<Rightarrow> string option" where
  "summarize_json pr v depth max_depth =
     (if max_depth \<le> depth then Some ''...''
      else case v of
             JObj ms \<Rightarrow>
               map_option
                 (\<lambda>fields.
                    ln ''{'' @ join_with ('','' @ [nl]) fields
                    @ text_if (10 < length ms)
                        ('','' @ [nl] @ spaces (depth * 2) @ ''... '' @ show_nat (length ms - 10)
                         @ '' more fields'')
                    @ [nl] @ spaces ((depth - 1) * 2) @ ''}'')
                 (those (map (\<lambda>(k, w).
                    map_option (\<lambda>t. spaces (depth * 2) @ quoted k @ '': '' @ t)
                      (summarize_json pr w (depth + 1) max_depth)) (take 10 ms)))
           | JArr xs \<Rightarrow>
               (case xs of
                  [] \<Rightarrow> Some ''[]''
                | x # _ \<Rightarrow>
                    map_option (\<lambda>t. ''['' @ show_nat (length xs) @ '' items, first: '' @ t @ '']'')
                      (summarize_json pr x (depth + 1) max_depth))
           | JStr s \<Rightarrow>
               (if 50 < length s then map_option (\<lambda>t. quoted (t @ ''...'')) (str_slice 0 47 s)
                else Some (pr v))
           | _ \<Rightarrow> Some (pr v))"
  by pat_completeness auto
termination by (relation "measure (\<lambda>(pr, v, depth, max_depth). max_depth - depth)") auto

declare summarize_json.simps [simp del]

definition json_shape :: "shaper_lib \<Rightarrow> string \<Rightarrow> (string \<times> output_metadata) option" where
  "json_shape lib output =
     map_option (\<lambda>t. (t, count_lines output))
       (case sl_parse lib output of
          Inr v \<Rightarrow>
            map_option
              (\<lambda>summary.
                 ln ''## JSON Output'' @ ln (''- Valid: '' @ [CHR 0xE2, CHR 0x9C, CHR 0x93])
                 @ ln ''- Structure:'' @ ln (ticks @ ''json'') @ ln summary @ ticks)
              (summarize_json (sl_print lib) v 0 3)
        | Inl e \<Rightarrow>
            map_option
              (\<lambda>head.
                 ln ''## JSON Output'' @ ln (''- Valid: '' @ [CHR 0xE2, CHR 0x9C, CHR 0x97])
                 @ ln (''- Parse error: '' @ e) @ ln ''- First 500 chars:'' @ ln ticks @ ln head @ ticks)
              (str_slice 0 (min (length output) 500) output))"

subsection \<open>Directory listings\<close>

definition directory_detect :: "string \<Rightarrow> bool" where
  "directory_detect output \<longleftrightarrow>
     (let ls = str_lines output
      in 20 \<le> length ls
         \<and> length ls < 2 * length (filter (\<lambda>l. CHR ''/'' \<in> set l \<or> ends_with l '':'') ls))"

definition count_extensions :: "string list \<Rightarrow> (string, nat) hmap" where
  "count_extensions ls =
     foldl (\<lambda>m l. case file_extension (trim l) of None \<Rightarrow> m | Some e \<Rightarrow> count_up e m) [] ls"

definition parents_of :: "string list \<Rightarrow> string list" where
  "parents_of ls = remdups (concat (map (\<lambda>l. case parent_text (trim l) of None \<Rightarrow> [] | Some p \<Rightarrow> [p]) ls))"

definition directory_shape :: "string \<Rightarrow> string \<times> output_metadata" where
  "directory_shape output =
     (let ls = str_lines output
      in (ln ''## Directory Listing Summary'' @ ln (''- Total entries: '' @ show_nat (length ls))
          @ ln (''- Unique directories: '' @ show_nat (length (parents_of ls))) @ [nl]
          @ ln ''### File types:''
          @ concat (map (\<lambda>(e, n). ln (''- .'' @ e @ '': '' @ show_nat n @ '' files''))
              (take 10 (by_count (count_extensions ls))))
          @ [nl] @ ln ''### First 20 entries:'' @ ln ticks @ concat (map ln (take 20 ls)) @ ln ticks
          @ text_if (20 < length ls)
              ([nl] @ ln (''... and '' @ show_nat (length ls - 20) @ '' more entries (see raw output)'')),
          (count_lines output)\<lparr>om_truncated := 50 < length ls\<rparr>))"

subsection \<open>Logs\<close>

definition log_detect :: "string \<Rightarrow> bool" where
  "log_detect output \<longleftrightarrow>
     2 \<le> length (filter (contains output)
           [''ERROR'', ''WARN'', ''INFO'', ''DEBUG'', ''[error]'', ''[warn]'', ''[info]''])"

definition log_step ::
  "string list \<times> string list \<times> nat \<times> nat \<Rightarrow> string \<Rightarrow> string list \<times> string list \<times> nat \<times> nat"
where
  "log_step acc l =
     (case acc of (errors, warnings, infos, debugs) \<Rightarrow>
        let u = to_uppercase l
        in if contains u ''ERROR'' \<or> contains u ''[ERROR]'' then (errors @ [l], warnings, infos, debugs)
           else if contains u ''WARN'' \<or> contains u ''[WARN]'' then (errors, warnings @ [l], infos, debugs)
           else if contains u ''INFO'' \<or> contains u ''[INFO]'' then (errors, warnings, infos + 1, debugs)
           else if contains u ''DEBUG'' \<or> contains u ''[DEBUG]'' then (errors, warnings, infos, debugs + 1)
           else acc)"

definition log_text ::
  "intent_hint \<Rightarrow> string list \<Rightarrow> string list \<Rightarrow> nat \<Rightarrow> nat \<Rightarrow> string"
where
  "log_text hint errors warnings infos debugs =
     ln ''## Log Summary'' @ ln (''- Errors: '' @ show_nat (length errors))
     @ ln (''- Warnings: '' @ show_nat (length warnings)) @ ln (''- Info: '' @ show_nat infos)
     @ ln (''- Debug: '' @ show_nat debugs) @ [nl]
     @ text_if (errors \<noteq> [])
         (ln ''### Errors (last 10)'' @ ln ticks @ concat (map ln (take 10 (rev errors))) @ ln ticks @ [nl])
     @ text_if ((hint = HintVerbose \<or> errors = []) \<and> warnings \<noteq> [])
         (ln ''### Warnings (last 5)'' @ ln ticks @ concat (map ln (take 5 (rev warnings))) @ ln ticks)"

definition log_shape :: "string \<Rightarrow> intent_hint \<Rightarrow> string \<times> output_metadata" where
  "log_shape output hint =
     (case foldl log_step ([], [], 0, 0) (str_lines output) of (errors, warnings, infos, debugs) \<Rightarrow>
        (log_text hint errors warnings infos debugs,
         \<lparr>om_error_count = length errors, om_warning_count = length warnings,
          om_line_count = length (str_lines output), om_truncated = 20 < length errors\<rparr>))"

subsection \<open>The shaper\<close>

fun shaper_detect :: "output_format \<Rightarrow> string \<Rightarrow> bool" where
  "shaper_detect GccClang output = gcc_detect output"
| "shaper_detect RustCargo output = cargo_detect output"
| "shaper_detect Python output = python_detect output"
| "shaper_detect JsonText output = json_detect output"
| "shaper_detect DirectoryTree output = directory_detect output"
| "shaper_detect LogFile output = log_detect output"
| "shaper_detect Plain output = False"

fun shaper_shape ::
  "shaper_lib \<Rightarrow> output_format \<Rightarrow> string \<Rightarrow> intent_hint \<Rightarrow> (string \<times> output_metadata) option"
where
  "shaper_shape lib GccClang output hint = Some (gcc_shape output hint)"
| "shaper_shape lib RustCargo output hint = Some (cargo_shape output hint)"
| "shaper_shape lib Python output hint = Some (python_shape output hint)"
| "shaper_shape lib JsonText output hint = json_shape lib output"
| "shaper_shape lib DirectoryTree output hint = Some (directory_shape output)"
| "shaper_shape lib LogFile output hint = Some (log_shape output hint)"
| "shaper_shape lib Plain output hint = None"

definition plain_shape :: "string \<Rightarrow> string \<times> output_metadata" where
  "plain_shape output =
     (let ls = str_lines output
      in (if 100 < length ls
          then join_lines (take 50 ls) @ [nl, nl] @ ''[... '' @ show_nat (length ls - 100)
               @ '' lines omitted ...]'' @ [nl, nl] @ join_lines (drop (length ls - 50) ls)
          else output,
          (count_lines output)\<lparr>om_truncated := True\<rparr>))"

definition detect_and_shape ::
  "shaper_lib \<Rightarrow> output_format list \<Rightarrow> string \<Rightarrow> intent_hint
    \<Rightarrow> (output_format \<times> string \<times> output_metadata) option"
where
  "detect_and_shape lib shapers output hint =
     (case find (\<lambda>f. shaper_detect f output) shapers of
        Some f \<Rightarrow> map_option (Pair f) (shaper_shape lib f output hint)
      | None \<Rightarrow> Some (Plain, plain_shape output))"

text \<open>Raw files older than half an hour go; times are milliseconds since the epoch.\<close>

definition is_raw_name :: "string \<Rightarrow> bool" where
  "is_raw_name n \<longleftrightarrow> starts_with n ''devit_output_'' \<and> ends_with n ''.txt''"

definition cleanup_old_files ::
  "output_shaper \<Rightarrow> nat \<Rightarrow> (string \<Rightarrow> nat option) \<Rightarrow> file_system \<Rightarrow> file_system"
where
  "cleanup_old_files sh time modified fs =
     (case read_dir fs (os_tmp_dir sh) of
        None \<Rightarrow> fs
      | Some entries \<Rightarrow>
          remove_names (os_tmp_dir sh)
            (filter (\<lambda>n. is_raw_name n
               \<and> (case modified n of None \<Rightarrow> False | Some t \<Rightarrow> t < time - 30 * 60 * 1000)) entries) fs)"

definition raw_name :: "nat \<Rightarrow> string" where
  "raw_name time = ''devit_output_'' @ show_nat time @ ''.txt''"

definition save_raw ::
  "output_shaper \<Rightarrow> nat \<Rightarrow> string \<Rightarrow> file_system \<Rightarrow> component list option \<times> file_system"
where
  "save_raw sh time output fs =
     (let path = os_tmp_dir sh @ [Normal (raw_name time)]
      in case write_text path output fs of None \<Rightarrow> (None, fs) | Some fs' \<Rightarrow> (Some path, fs'))"

definition truncation_note :: string where
  "truncation_note = [nl, nl] @ ''[... truncated, see raw_path for full output ...]''"

definition cut_compact :: "output_shaper \<Rightarrow> string \<Rightarrow> string option" where
  "cut_compact sh compact =
     (if os_max_compact_size sh < length compact
      then map_option (\<lambda>t. t @ truncation_note) (str_slice 0 (os_max_compact_size sh) compact)
      else Some compact)"

definition shape_output ::
  "shaper_lib \<Rightarrow> output_shaper \<Rightarrow> nat \<Rightarrow> (string \<Rightarrow> nat option) \<Rightarrow> nat \<Rightarrow> string \<Rightarrow> intent_hint
    \<Rightarrow> file_system \<Rightarrow> shaped_output option \<times> file_system"
where
  "shape_output lib sh clean_time modified save_time output hint fs =
     (let fs1 = cleanup_old_files sh clean_time modified fs
      in if hint = HintRaw \<or> length output \<le> os_threshold sh
         then (Some \<lparr>so_compact = output, so_raw_path = None, so_format = Plain,
                     so_original_size = length output, so_compact_size = length output,
                     so_metadata = count_lines output\<rparr>, fs1)
         else
           let (raw, fs2) = save_raw sh save_time output fs1
           in case detect_and_shape lib (os_shapers sh) output hint of
                None \<Rightarrow> (None, fs2)
              | Some (fmt, compact, meta) \<Rightarrow>
                  (case cut_compact sh compact of
                     None \<Rightarrow> (None, fs2)
                   | Some t \<Rightarrow>
                       (Some \<lparr>so_compact = t, so_raw_path = raw, so_format = fmt,
                              so_original_size = length output, so_compact_size = length t,
                              so_metadata = meta\<rparr>, fs2)))"

end
