(* ===== verification/Shell_Tool.thy ===== *)
theory Shell_Tool
  imports Output_Shaper Process_Exec Worker_Executor
begin

text \<open>
  The shell tool (crates/mcp-tools/src/shell.rs): a command becomes a run of a shell by the program
  tool, and what the program printed is shaped for the answer. The program tool is an argument;
  \<open>foreground_exec\<close> is its run in the foreground with the answer of crates/mcp-tools/src/exec.rs.
\<close>

text \<open>The characters beyond ASCII in the answers.\<close>

definition check_mark :: string where "check_mark = [CHR 0xE2, CHR 0x9C, CHR 0x85]"

definition em_dash :: string where "em_dash = [CHR 0xE2, CHR 0x80, CHR 0x94]"

definition arrow :: string where "arrow = [CHR 0xE2, CHR 0x86, CHR 0x92]"

definition text_item :: "string \<Rightarrow> json" where
  "text_item s = JObj [(''type'', JStr ''text''), (''text'', JStr s)]"

subsection \<open>The answer of a run in the foreground\<close>

definition exit_summary :: "int option \<Rightarrow> int option \<Rightarrow> string" where
  "exit_summary code sig =
     (case (code, sig) of
        (Some c, None) \<Rightarrow> ''exit '' @ show_int c
      | (None, Some s) \<Rightarrow> ''signal '' @ show_int s
      | (Some c, Some s) \<Rightarrow> ''exit '' @ show_int c @ '' (signal '' @ show_int s @ '')''
      | (None, None) \<Rightarrow> ''completed'')"

definition foreground_answer :: "exec_config \<Rightarrow> exec_result \<Rightarrow> json" where
  "foreground_answer config r =
     JObj
       [(''content'',
          JArr
            ([text_item (check_mark @ '' '' @ [CHR 0x60] @ ec_binary config @ [CHR 0x60] @ '' completed ''
                @ em_dash @ '' '' @ exit_summary (er_exit_code r) (er_terminated_by_signal r)
                @ '' ('' @ show_nat (er_duration_ms r) @ '' ms)'')]
             @ (if trim (er_stdout_tail r) \<noteq> []
                then [text_item (ln ''stdout (tail):'' @ er_stdout_tail r)] else [])
             @ (if trim (er_stderr_tail r) \<noteq> []
                then [text_item (ln ''stderr (tail):'' @ er_stderr_tail r)] else []))),
        (''structuredContent'', foreground_json config r)]"

text \<open>What the child did to the files and how it ended is the environment's.\<close>

record child_run =
  cr_pid :: nat
  cr_duration :: nat
  cr_outcome :: child_end
  cr_effect :: "file_system \<Rightarrow> file_system"

definition foreground_exec ::
  "(string, string) hmap \<Rightarrow> exec_tool_config \<Rightarrow> component list \<Rightarrow> child_run \<Rightarrow> exec_config
    \<Rightarrow> file_system \<Rightarrow> (string + json) \<times> file_system"
where
  "foreground_exec parent tool root run config fs =
     (case spawn_process parent tool root config fs of
        (Inl e, fs') \<Rightarrow> (Inl e, fs')
      | (Inr spec, fs') \<Rightarrow>
          (map_sum id (foreground_answer config)
             (fst (execute_foreground (cr_pid run) (cr_duration run) (cr_outcome run))),
           cr_effect run fs'))"

subsection \<open>The shell tool\<close>

record shell_config =
  sc_command :: string
  sc_working_dir :: "string option"
  sc_env :: "(string, string) hmap option"
  sc_timeout_secs :: "nat option"
  sc_background :: bool
  sc_output_hint :: "string option"

definition detect_shell :: "file_system \<Rightarrow> string" where
  "detect_shell fs =
     (case find (\<lambda>c. path_exists fs (components c))
             [''/bin/bash'', ''/usr/bin/bash'', ''/bin/sh'', ''/usr/bin/sh''] of
        Some c \<Rightarrow> c | None \<Rightarrow> ''/bin/sh'')"

definition shell_timeout :: "shell_config \<Rightarrow> nat" where
  "shell_timeout config = min (case sc_timeout_secs config of None \<Rightarrow> 120 | Some t \<Rightarrow> t) 600"

definition parse_output_hint :: "string option \<Rightarrow> intent_hint" where
  "parse_output_hint h =
     (if h = Some ''debug'' then HintDebug else if h = Some ''verbose'' then HintVerbose
      else if h = Some ''raw'' then HintRaw else HintAuto)"

definition shell_exec_config :: "string \<Rightarrow> shell_config \<Rightarrow> exec_config" where
  "shell_exec_config shell config =
     \<lparr>ec_binary = shell, ec_args = [''-c'', sc_command config], ec_working_dir = sc_working_dir config,
      ec_env = sc_env config, ec_mode = (if sc_background config then Background else Foreground),
      ec_stdin = StdinNull, ec_foreground_timeout_secs = Some (shell_timeout config)\<rparr>"

definition combined_output :: "string \<Rightarrow> string \<Rightarrow> string" where
  "combined_output out err =
     (if err = [] then out else if out = [] then err
      else out @ [nl, nl] @ ln ''--- stderr ---'' @ err)"

fun as_i64 :: "json \<Rightarrow> int option" where
  "as_i64 (JInt n) = (if - (2 ^ 63) \<le> n \<and> n < 2 ^ 63 then Some n else None)"
| "as_i64 _ = None"

fun format_name :: "output_format \<Rightarrow> string" where
  "format_name GccClang = ''GccClang''"
| "format_name RustCargo = ''RustCargo''"
| "format_name Python = ''Python''"
| "format_name JsonText = ''Json''"
| "format_name DirectoryTree = ''DirectoryTree''"
| "format_name LogFile = ''LogFile''"
| "format_name Plain = ''Plain''"

definition shell_summary :: "json \<Rightarrow> shaped_output \<Rightarrow> string" where
  "shell_summary data shaped =
     check_mark @ '' Shell completed '' @ em_dash @ '' exit ''
     @ show_int (case Option.bind (jget data ''exit_code'') as_i64 of None \<Rightarrow> 0 | Some c \<Rightarrow> c)
     @ '' ('' @ show_nat (case Option.bind (jget data ''duration_ms'') as_u64 of None \<Rightarrow> 0 | Some d \<Rightarrow> d)
     @ '' ms) | format: '' @ format_name (so_format shaped) @ '' | ''
     @ show_nat (so_original_size shaped) @ arrow @ show_nat (so_compact_size shaped) @ '' bytes''"

definition shell_json :: "shell_config \<Rightarrow> json \<Rightarrow> shaped_output \<Rightarrow> json" where
  "shell_json config data shaped =
     JObj
       [(''content'',
          JArr
            ([text_item (shell_summary data shaped)]
             @ (if trim (so_compact shaped) \<noteq> [] then [text_item (so_compact shaped)] else []))),
        (''structuredContent'',
          JObj [(''shell'',
            JObj
              [(''command'', JStr (sc_command config)), (''exit_code'', jopt (jget data ''exit_code'')),
               (''duration_ms'', jopt (jget data ''duration_ms'')), (''output'', JStr (so_compact shaped)),
               (''original_size'', JInt (int (so_original_size shaped))),
               (''compact_size'', JInt (int (so_compact_size shaped))),
               (''truncated'', JBool (om_truncated (so_metadata shaped))),
               (''format'', JStr (format_name (so_format shaped))),
               (''raw_path'', jstr_opt (map_option show_components (so_raw_path shaped))),
               (''metadata'',
                 JObj [(''error_count'', JInt (int (om_error_count (so_metadata shaped)))),
                       (''warning_count'', JInt (int (om_warning_count (so_metadata shaped)))),
                       (''line_count'', JInt (int (om_line_count (so_metadata shaped))))])])])]"

datatype shell_answer = ShellFailed string | ShellPanicked | ShellAnswered json

definition tail_text :: "json \<Rightarrow> string \<Rightarrow> string" where
  "tail_text data key = (case get_str data key of None \<Rightarrow> [] | Some t \<Rightarrow> t)"

definition shell_execute ::
  "(exec_config \<Rightarrow> file_system \<Rightarrow> (string + json) \<times> file_system)
    \<Rightarrow> shaper_lib \<Rightarrow> output_shaper \<Rightarrow> string \<Rightarrow> nat \<Rightarrow> (string \<Rightarrow> nat option) \<Rightarrow> nat
    \<Rightarrow> shell_config \<Rightarrow> file_system \<Rightarrow> shell_answer \<times> file_system"
where
  "shell_execute exec lib sh shell clean_time modified save_time config fs =
     (case exec (shell_exec_config shell config) fs of
        (Inl e, fs1) \<Rightarrow> (ShellFailed e, fs1)
      | (Inr result, fs1) \<Rightarrow>
          if sc_background config then (ShellAnswered result, fs1)
          else
            case Option.bind (jget result ''structuredContent'') (\<lambda>s. jget s ''exec'') of
              None \<Rightarrow> (ShellAnswered result, fs1)
            | Some data \<Rightarrow>
                (case shape_output lib sh clean_time modified save_time
                        (combined_output (tail_text data ''stdout_tail'') (tail_text data ''stderr_tail''))
                        (parse_output_hint (sc_output_hint config)) fs1 of
                   (None, fs2) \<Rightarrow> (ShellPanicked, fs2)
                 | (Some shaped, fs2) \<Rightarrow> (ShellAnswered (shell_json config data shaped), fs2)))"

end
