(* ===== verification/Shell_Properties.thy ===== *)
theory Shell_Properties
  imports Shell_Tool
begin

text \<open>
  What the shaper and the shell tool promise: the size of a shaped text and the place of the raw
  one, the files that are touched, the blocks of the cargo shaper, the texts for which nothing
  panics, and the answer to a command.
\<close>

subsection \<open>Size and raw text\<close>

lemma cut_compact_length:
  "cut_compact sh c = Some t \<Longrightarrow> length t \<le> os_max_compact_size sh + length truncation_note"
  by (auto simp: cut_compact_def str_slice_def split: if_splits)

lemma save_raw_read: "save_raw sh st output fs = (Some p, fs') \<Longrightarrow> read_to_string fs' p = Some output"
  by (auto simp: save_raw_def Let_def write_then_read split: option.splits)

text \<open>
  a shaped text is the output itself where the output is short or asked for as it is, and
  otherwise at most the largest size and the note on the cut; then the file that the answer names
  holds the whole output.
\<close>

theorem shaped_output_is_bounded:
  assumes "shape_output lib sh ct modified st output hint fs = (Some r, fs')"
  shows "so_original_size r = length output \<and> so_compact_size r = length (so_compact r)
    \<and> (if hint = HintRaw \<or> length output \<le> os_threshold sh
       then so_compact r = output \<and> so_raw_path r = None
       else length (so_compact r) \<le> os_max_compact_size sh + length truncation_note
          \<and> (\<forall>p. so_raw_path r = Some p \<longrightarrow> read_to_string fs' p = Some output))"
proof (cases "hint = HintRaw \<or> length output \<le> os_threshold sh")
  case True
  with assms show ?thesis by (auto simp: shape_output_def Let_def)
next
  case False
  then obtain raw c t where raw: "save_raw sh st output (cleanup_old_files sh ct modified fs) = (raw, fs')"
      and t: "cut_compact sh c = Some t" and r: "so_compact r = t" "so_raw_path r = raw"
        "so_original_size r = length output" "so_compact_size r = length t"
    using assms by (auto simp: shape_output_def Let_def split: prod.splits option.splits)
  then show ?thesis
    using False save_raw_read cut_compact_length [OF t] by auto
qed

definition plain_lib :: shaper_lib where
  "plain_lib = \<lparr>sl_parse = (\<lambda>_. Inl ''expected value''), sl_print = (\<lambda>_. ''null'')\<rparr>"

definition tmp_fs :: file_system where
  "tmp_fs = \<lparr>nodes = [([''tmp''], Dir), ([''tmp'', ''devit_output_7.txt''], File ''old''),
      ([''tmp'', ''notes.txt''], File ''mine'')], cwd = []\<rparr>"

definition small_shaper :: output_shaper where
  "small_shaper = (with_threshold 4 new_output_shaper)\<lparr>os_max_compact_size := 5\<rparr>"

definition no_times :: "string \<Rightarrow> nat option" where
  "no_times n = (if n = ''devit_output_7.txt'' then Some 7 else None)"

lemma small_run:
  "\<exists>r fs'. shape_output plain_lib small_shaper 9000000 no_times 9000000 ''too long'' HintAuto tmp_fs = (Some r, fs')
     \<and> so_raw_path r = Some [RootDir, Normal ''tmp'', Normal ''devit_output_9000000.txt'']"
proof -
  have "case shape_output plain_lib small_shaper 9000000 no_times 9000000 ''too long'' HintAuto tmp_fs of
      (Some r, fs') \<Rightarrow> so_raw_path r = Some [RootDir, Normal ''tmp'', Normal ''devit_output_9000000.txt'']
    | _ \<Rightarrow> False"
    by code_simp
  then show ?thesis by (auto split: prod.splits option.splits)
qed

lemma shaped_output_is_bounded_witness:
  "\<exists>r fs'. shape_output plain_lib small_shaper 9000000 no_times 9000000 ''too long'' HintAuto tmp_fs = (Some r, fs')
     \<and> read_to_string fs' [RootDir, Normal ''tmp'', Normal ''devit_output_9000000.txt''] = Some ''too long''"
proof -
  obtain r fs' where run:
      "shape_output plain_lib small_shaper 9000000 no_times 9000000 ''too long'' HintAuto tmp_fs = (Some r, fs')"
      "so_raw_path r = Some [RootDir, Normal ''tmp'', Normal ''devit_output_9000000.txt'']"
    using small_run by blast
  have "\<not> (HintAuto = HintRaw \<or> length ''too long'' \<le> os_threshold small_shaper)"
    by (simp add: small_shaper_def with_threshold_def new_output_shaper_def)
  with shaped_output_is_bounded [OF run(1)] run show ?thesis by auto
qed

subsection \<open>Files\<close>

lemma cleanup_result:
  assumes "work_tree fs tmp" and "os_tmp_dir sh = RootDir # map Normal tmp"
  shows "work_tree (cleanup_old_files sh ct modified fs) tmp"
    and "node_at (cleanup_old_files sh ct modified fs) l \<noteq> node_at fs l \<Longrightarrow>
           \<exists>n t. l = tmp @ [n] \<and> is_raw_name n \<and> modified n = Some t \<and> t < ct - 30 * 60 * 1000"
  using assms work_tree_remove_names [OF assms(1)] remove_names_result [OF assms(1)]
  by (auto simp: cleanup_old_files_def split: option.splits if_splits)

lemma raw_name_is_raw: "is_raw_name (raw_name n)"
  by (simp add: is_raw_name_def raw_name_def starts_with_def ends_with_def suffix_def)

lemma save_raw_result:
  assumes "work_tree fs tmp" and "os_tmp_dir sh = RootDir # map Normal tmp"
  shows "node_at (snd (save_raw sh st output fs)) l \<noteq> node_at fs l \<Longrightarrow> l = tmp @ [raw_name st]"
  using assms locate_entry [OF assms(1), of True "raw_name st"]
  by (auto simp: save_raw_def write_text_def node_at_put split: option.splits node.splits if_splits)

lemma shape_output_files:
  "snd (shape_output lib sh ct modified st output hint fs) = cleanup_old_files sh ct modified fs
   \<or> snd (shape_output lib sh ct modified st output hint fs)
       = snd (save_raw sh st output (cleanup_old_files sh ct modified fs))"
  by (auto simp: shape_output_def Let_def split: prod.splits option.splits)

text \<open>
  in a directory for temporary files without links, shaping changes nothing but raw files in
  it: those older than half an hour, and the one of the present time.
\<close>

theorem shaping_touches_only_raw_files:
  assumes "work_tree fs tmp" and "os_tmp_dir sh = RootDir # map Normal tmp"
    and "node_at (snd (shape_output lib sh ct modified st output hint fs)) l \<noteq> node_at fs l"
  shows "\<exists>n. l = tmp @ [n] \<and> is_raw_name n
    \<and> (n = raw_name st \<or> (\<exists>t. modified n = Some t \<and> t < ct - 30 * 60 * 1000))"
proof (cases "node_at (cleanup_old_files sh ct modified fs) l = node_at fs l")
  case True
  then have "node_at (snd (save_raw sh st output (cleanup_old_files sh ct modified fs))) l
      \<noteq> node_at (cleanup_old_files sh ct modified fs) l"
    using assms(3) shape_output_files [of lib sh ct modified st "output" hint fs] by auto
  then have "l = tmp @ [raw_name st]"
    using save_raw_result [OF cleanup_result(1) [OF assms(1,2)] assms(2)] by blast
  then show ?thesis using raw_name_is_raw by blast
next
  case False
  then show ?thesis using cleanup_result(2) [OF assms(1,2)] by blast
qed

lemma tmp_fs_tree: "work_tree tmp_fs [''tmp'']"
proof -
  have "node_at tmp_fs l \<noteq> Some (Link t)" for l t
    by (simp add: node_at_def tmp_fs_def)
  moreover have "prefix p [''tmp''] \<Longrightarrow> node_at tmp_fs p = Some Dir" for p
    by (cases p) (auto simp: node_at_def tmp_fs_def)
  ultimately show ?thesis by (simp add: work_tree_def link_free_def)
qed

lemma shaping_touches_only_raw_files_witness:
  "node_at (snd (shape_output plain_lib small_shaper 9000000 no_times 9000000 ''too long'' HintAuto tmp_fs))
     [''tmp'', ''devit_output_7.txt''] = None
   \<and> is_raw_name ''devit_output_7.txt''"
proof -
  have gone: "node_at (snd (shape_output plain_lib small_shaper 9000000 no_times 9000000 ''too long'' HintAuto tmp_fs))
      [''tmp'', ''devit_output_7.txt''] = None"
    by code_simp
  moreover have "node_at tmp_fs [''tmp'', ''devit_output_7.txt''] \<noteq> None"
    by (simp add: node_at_def tmp_fs_def)
  moreover have "os_tmp_dir small_shaper = RootDir # map Normal [''tmp'']"
    by (simp add: small_shaper_def with_threshold_def new_output_shaper_def)
  ultimately show ?thesis
    using shaping_touches_only_raw_files [OF tmp_fs_tree, of small_shaper plain_lib 9000000 no_times
        9000000 "''too long''" HintAuto "[''tmp'', ''devit_output_7.txt'']"]
    by auto
qed

subsection \<open>The blocks of the cargo shaper\<close>

definition block_head :: "string \<Rightarrow> string" where
  "block_head b = takeWhile (\<lambda>c. c \<noteq> nl) b"

definition warning_head :: "string \<Rightarrow> bool" where
  "warning_head l \<longleftrightarrow> \<not> error_head l \<and> starts_with l ''warning:''"

lemma block_head_append [simp]: "block_head (b @ nl # l) = block_head b"
  by (induction b) (simp_all add: block_head_def)

lemma block_head_line: "nl \<notin> set l \<Longrightarrow> block_head l = l"
  by (auto simp: block_head_def takeWhile_eq_all_conv)

lemma head_nonempty: "error_head l \<or> starts_with l ''warning:'' \<Longrightarrow> l \<noteq> []"
  by (auto simp: error_head_def starts_with_def)

definition cargo_inv :: "string list \<Rightarrow> cargo_scan \<Rightarrow> bool" where
  "cargo_inv ls st \<longleftrightarrow>
     map block_head (cs_errors st) @ (if cs_in_error st then [block_head (cs_block st)] else [])
       = filter error_head ls
     \<and> map block_head (cs_warnings st) @ (if cs_in_warning st then [block_head (cs_block st)] else [])
       = filter warning_head ls
     \<and> (cs_block st \<noteq> [] \<longleftrightarrow> cs_in_error st \<or> cs_in_warning st) \<and> \<not> (cs_in_error st \<and> cs_in_warning st)"

lemma cargo_step_inv:
  assumes "cargo_inv ls st" and "nl \<notin> set l"
  shows "cargo_inv (ls @ [l]) (cargo_step st l)"
proof -
  consider (error) "error_head l" | (warning) "\<not> error_head l" "starts_with l ''warning:''"
    | (rest) "\<not> error_head l" "\<not> starts_with l ''warning:''" by blast
  then show ?thesis
  proof cases
    case error
    then show ?thesis
      using assms head_nonempty block_head_line [OF assms(2)]
      by (auto simp: cargo_inv_def cargo_step_def close_block_def file_block_def warning_head_def)
  next
    case warning
    then show ?thesis
      using assms head_nonempty block_head_line [OF assms(2)]
      by (auto simp: cargo_inv_def cargo_step_def close_block_def file_block_def warning_head_def)
  next
    case rest
    then show ?thesis
      using assms(1) by (auto simp: cargo_inv_def cargo_step_def file_block_def warning_head_def)
  qed
qed

lemma cargo_fold_inv:
  "\<forall>l \<in> set ls. nl \<notin> set l \<Longrightarrow>
     cargo_inv ls (foldl cargo_step
       \<lparr>cs_errors = [], cs_warnings = [], cs_block = [], cs_in_error = False, cs_in_warning = False\<rparr> ls)"
proof (induction ls rule: rev_induct)
  case Nil
  then show ?case by (simp add: cargo_inv_def)
next
  case (snoc l ls)
  then show ?case by (simp add: cargo_step_inv)
qed

lemma close_block_heads:
  assumes "cargo_inv ls st"
  shows "map block_head (cs_errors (close_block st)) = filter error_head ls"
    and "map block_head (cs_warnings (close_block st)) = filter warning_head ls"
  using assms by (auto simp: cargo_inv_def close_block_def file_block_def)

text \<open>
  the cargo shaper makes one block of every line that opens an error or a warning, in their
  order, and counts exactly these.
\<close>

theorem cargo_blocks_follow_their_heads:
  "map block_head (cs_errors (cargo_scan_lines (str_lines output))) = filter error_head (str_lines output)
   \<and> map block_head (cs_warnings (cargo_scan_lines (str_lines output))) = filter warning_head (str_lines output)
   \<and> om_error_count (snd (cargo_shape output hint)) = length (filter error_head (str_lines output))
   \<and> om_warning_count (snd (cargo_shape output hint)) = length (filter warning_head (str_lines output))"
proof -
  have "cargo_inv (str_lines output) (foldl cargo_step
      \<lparr>cs_errors = [], cs_warnings = [], cs_block = [], cs_in_error = False, cs_in_warning = False\<rparr>
      (str_lines output))"
    using str_lines_no_nl by (intro cargo_fold_inv) blast
  from close_block_heads [OF this] have
    "map block_head (cs_errors (cargo_scan_lines (str_lines output))) = filter error_head (str_lines output)"
    "map block_head (cs_warnings (cargo_scan_lines (str_lines output))) = filter warning_head (str_lines output)"
    by (simp_all add: cargo_scan_lines_def)
  moreover from this [THEN arg_cong, of length] have
    "length (cs_errors (cargo_scan_lines (str_lines output))) = length (filter error_head (str_lines output))"
    "length (cs_warnings (cargo_scan_lines (str_lines output))) = length (filter warning_head (str_lines output))"
    by simp_all
  ultimately show ?thesis by (simp add: cargo_shape_def Let_def)
qed

subsection \<open>Text in ASCII\<close>

definition ascii :: "string \<Rightarrow> bool" where
  "ascii s \<longleftrightarrow> (\<forall>c \<in> set s. (of_char c :: nat) < 128)"

named_theorems ascii_text

lemma ascii_append [ascii_text]: "ascii (a @ b) \<longleftrightarrow> ascii a \<and> ascii b"
  by (auto simp: ascii_def)

lemma ascii_Cons [ascii_text]: "ascii (c # s) \<longleftrightarrow> (of_char c :: nat) < 128 \<and> ascii s"
  by (auto simp: ascii_def)

lemma ascii_Nil [ascii_text]: "ascii []"
  by (simp add: ascii_def)

lemma ascii_ln [ascii_text]: "ascii (ln s) \<longleftrightarrow> ascii s"
  by (simp add: ln_def ascii_text)

lemma ascii_ticks [ascii_text]: "ascii ticks"
  by (simp add: ticks_def ascii_text)

lemma ascii_text_if [ascii_text]: "(b \<Longrightarrow> ascii s) \<Longrightarrow> ascii (text_if b s)"
  by (simp add: text_if_def ascii_text)

lemma ascii_show_nat [ascii_text]: "ascii (show_nat n)"
proof -
  have "list_all (\<lambda>d. (of_char (digit_char d) :: nat) < 128) [0..<10]"
    by code_simp
  then show ?thesis
    using show_nat_digits [of _ n] by (fastforce simp: ascii_def list_all_iff)
qed

lemma ascii_subset: "ascii s \<Longrightarrow> set t \<subseteq> set s \<Longrightarrow> ascii t"
  by (auto simp: ascii_def)

lemma ascii_concat_map [ascii_text]: "(\<And>x. x \<in> set xs \<Longrightarrow> ascii (f x)) \<Longrightarrow> ascii (concat (map f xs))"
  by (auto simp: ascii_def)

lemma ascii_numbered [ascii_text]:
  "(\<And>i l. l \<in> set ls \<Longrightarrow> ascii (f i l)) \<Longrightarrow> ascii (numbered f i ls)"
  by (induction f i ls rule: numbered.induct) (auto simp: ascii_text)

lemma ascii_and_more [ascii_text]: "ascii what \<Longrightarrow> ascii (and_more n xs what)"
  by (auto simp: and_more_def text_if_def ascii_text)

lemma ascii_boundary:
  assumes "ascii s" and "i \<le> length s"
  shows "char_boundary i s"
proof (cases "i = length s")
  case False
  with assms(2) have "s ! i \<in> set s" by simp
  with assms(1) have "(of_char (s ! i) :: nat) < 128" by (simp only: ascii_def)
  with False assms(2) show ?thesis by (simp add: char_boundary_def)
qed (simp add: char_boundary_def)

lemma ascii_is_cut: "ascii c \<Longrightarrow> cut_compact sh c \<noteq> None"
  by (auto simp: cut_compact_def str_slice_def ascii_boundary)

lemma str_lines_acc_chars: "l \<in> set (str_lines_acc acc s) \<Longrightarrow> set l \<subseteq> set acc \<union> set s"
proof (induction acc s arbitrary: l rule: str_lines_acc.induct)
  case (2 acc c cs)
  have "set (strip_cr k) \<subseteq> set k" for k
    by (auto simp: strip_cr_def dest: in_set_butlastD)
  then show ?case using 2 by (fastforce split: if_splits)
qed (auto split: if_splits)

lemma str_lines_ascii: "ascii s \<Longrightarrow> l \<in> set (str_lines s) \<Longrightarrow> ascii l"
  using str_lines_acc_chars [of l "[]" s] by (auto simp: str_lines_def ascii_def)

lemma foldl_keeps:
  assumes "P a" and "\<And>acc x. x \<in> set xs \<Longrightarrow> P acc \<Longrightarrow> P (f acc x)"
  shows "P (foldl f a xs)"
  using assms by (induction xs arbitrary: a) auto

definition ascii_all :: "string list \<Rightarrow> bool" where
  "ascii_all ls = list_all ascii ls"

lemma ascii_all_append [ascii_text]: "ascii_all (a @ b) \<longleftrightarrow> ascii_all a \<and> ascii_all b"
  by (simp add: ascii_all_def)

lemma ascii_all_Cons [ascii_text]: "ascii_all (a # b) \<longleftrightarrow> ascii a \<and> ascii_all b"
  by (simp add: ascii_all_def)

lemma ascii_all_Nil [ascii_text]: "ascii_all []"
  by (simp add: ascii_all_def)

lemma ascii_allD: "ascii_all ls \<Longrightarrow> l \<in> set ls \<Longrightarrow> ascii l"
  by (simp add: ascii_all_def list_all_iff)

lemma ascii_allD_take: "ascii_all ls \<Longrightarrow> l \<in> set (take n ls) \<Longrightarrow> ascii l"
  by (drule in_set_takeD) (rule ascii_allD)

lemma ascii_allD_last: "ascii_all ls \<Longrightarrow> l \<in> set (take n (rev ls)) \<Longrightarrow> ascii l"
  by (drule in_set_takeD) (simp add: ascii_allD)

lemma str_lines_ascii_all: "ascii s \<Longrightarrow> ascii_all (str_lines s)"
  using str_lines_ascii by (auto simp: ascii_all_def list_all_iff)

definition gcc_ok :: "string list \<times> string list \<times> string list \<Rightarrow> bool" where
  "gcc_ok acc = (case acc of (e, w, k) \<Rightarrow> ascii_all e \<and> ascii_all w \<and> ascii_all k)"

lemma gcc_step_ok: "gcc_ok acc \<Longrightarrow> ascii l \<Longrightarrow> gcc_ok (gcc_step acc l)"
  by (cases acc) (simp add: gcc_ok_def gcc_step_def ascii_text)

lemma gcc_ascii: "ascii_all ls \<Longrightarrow> gcc_ok (foldl gcc_step ([], [], []) ls)"
  by (rule foldl_keeps [where P = gcc_ok]) (simp add: gcc_ok_def ascii_text, simp add: gcc_step_ok ascii_allD)

lemma gcc_text_ascii: "gcc_ok (e, w, k) \<Longrightarrow> ascii (gcc_text hint e w k)"
  by (auto simp: gcc_ok_def gcc_text_def ascii_text intro!: ascii_text)
    (blast dest: ascii_allD_take)+

definition cargo_ok :: "cargo_scan \<Rightarrow> bool" where
  "cargo_ok st \<longleftrightarrow> ascii_all (cs_errors st) \<and> ascii_all (cs_warnings st) \<and> ascii (cs_block st)"

lemma file_block_ok: "cargo_ok st \<Longrightarrow> cargo_ok (file_block st)"
  by (simp add: cargo_ok_def file_block_def ascii_text)

lemma cargo_ok_update:
  "cargo_ok st \<Longrightarrow> ascii b \<Longrightarrow> cargo_ok (st\<lparr>cs_block := b, cs_in_error := x, cs_in_warning := y\<rparr>)"
  by (simp add: cargo_ok_def)

lemma cargo_step_ok: "cargo_ok st \<Longrightarrow> ascii l \<Longrightarrow> cargo_ok (cargo_step st l)"
  using cargo_ok_update [OF file_block_ok, of st] cargo_ok_update [of st]
  by (simp add: cargo_step_def close_block_def ascii_text) (simp add: cargo_ok_def ascii_text)

lemma cargo_ascii: "ascii_all ls \<Longrightarrow> cargo_ok (cargo_scan_lines ls)"
proof -
  assume a: "ascii_all ls"
  have "cargo_ok (foldl cargo_step
      \<lparr>cs_errors = [], cs_warnings = [], cs_block = [], cs_in_error = False, cs_in_warning = False\<rparr> ls)"
    by (rule foldl_keeps) (simp_all add: cargo_step_ok ascii_allD [OF a], simp add: cargo_ok_def ascii_text)
  then show ?thesis by (simp add: cargo_scan_lines_def close_block_def file_block_ok)
qed

lemma cargo_text_ascii: "ascii_all e \<Longrightarrow> ascii_all w \<Longrightarrow> ascii (cargo_text hint e w)"
  by (auto simp: cargo_text_def ascii_text intro!: ascii_text)
    (blast dest: ascii_allD_take)+

definition log_ok :: "string list \<times> string list \<times> nat \<times> nat \<Rightarrow> bool" where
  "log_ok acc = (case acc of (e, w, i, d) \<Rightarrow> ascii_all e \<and> ascii_all w)"

lemma log_step_ok: "log_ok acc \<Longrightarrow> ascii l \<Longrightarrow> log_ok (log_step acc l)"
  by (cases acc) (simp add: log_ok_def log_step_def Let_def ascii_text)

lemma log_ascii: "ascii_all ls \<Longrightarrow> log_ok (foldl log_step ([], [], 0, 0) ls)"
  by (rule foldl_keeps [where P = log_ok]) (simp add: log_ok_def ascii_text, simp add: log_step_ok ascii_allD)

lemma log_text_ascii: "log_ok (e, w, i, d) \<Longrightarrow> ascii (log_text hint e w j k)"
  by (auto simp: log_ok_def log_text_def ascii_text intro!: ascii_text)
    (blast dest: ascii_allD_last)+

lemma strip_seqs_chars: "set (strip_seqs q s) \<subseteq> set s"
proof (induction q s rule: strip_seqs.induct)
  case (1 q s)
  then show ?case
    by (subst strip_seqs.simps) (auto dest: in_set_dropD split: if_splits)
qed

lemma trim_chars: "set (trim s) \<subseteq> set s"
  using strip_seqs_chars [of "map rev ws_seqs" "rev (trim_start s)"] strip_seqs_chars [of ws_seqs s]
  by (auto simp: trim_def trim_end_def trim_start_def)

lemma split_char_chars: "x \<in> set (split_char c s) \<Longrightarrow> set x \<subseteq> set s"
  by (induction s arbitrary: x) (fastforce split: if_splits list.splits)+

lemma component_chars: "Normal s \<in> set (components p) \<Longrightarrow> set s \<subseteq> set p"
proof -
  assume "Normal s \<in> set (components p)"
  then obtain q where q: "q \<in> set (split_char (CHR ''/'') p)" "Normal s \<in> set (seg_component q)"
    by (auto simp: components_def Let_def split: if_splits)
  then have "s = q" by (simp add: seg_component_def split: if_splits)
  with q split_char_chars show ?thesis by blast
qed

lemma extension_chars: "file_extension p = Some e \<Longrightarrow> set e \<subseteq> set p"
proof -
  assume e: "file_extension p = Some e"
  then obtain f n where f: "file_name p = Some f" "e = drop (Suc n) f"
    by (auto simp: file_extension_def split: option.splits nat.splits)
  then have "Normal f \<in> set (rev (components p))"
    by (auto simp: file_name_def split: list.splits component.splits)
  with f component_chars show ?thesis by (fastforce dest: in_set_dropD)
qed

definition keys_ok :: "(string, nat) hmap \<Rightarrow> bool" where
  "keys_ok m = ascii_all (map fst m)"

lemma count_up_ok: "keys_ok m \<Longrightarrow> ascii k \<Longrightarrow> keys_ok (count_up k m)"
  unfolding keys_ok_def ascii_all_def count_up_def list_all_iff
  by (auto simp: update_keys dest: set_mp split: if_splits)

lemma by_count_ok: "keys_ok m \<Longrightarrow> (k, n) \<in> set (take i (by_count m)) \<Longrightarrow> ascii k"
  by (drule in_set_takeD) (auto simp: by_count_def keys_ok_def ascii_all_def list_all_iff)

definition python_ok :: "python_scan \<Rightarrow> bool" where
  "python_ok st \<longleftrightarrow> ascii_all (ps_tracebacks st) \<and> ascii (ps_current st) \<and> keys_ok (ps_types st)"

lemma split_once_ascii: "split_once c l = Some (a, b) \<Longrightarrow> ascii l \<Longrightarrow> ascii a \<and> ascii (trim a)"
  using trim_chars [of a]
  by (auto simp: split_once_def ascii_def dest: set_takeWhileD split: list.splits)

lemma standalone_error_ok: "python_ok st \<Longrightarrow> ascii l \<Longrightarrow> python_ok (standalone_error l st)"
  using split_once_ascii [of "CHR '':''" l]
  by (auto simp: standalone_error_def python_ok_def Let_def ascii_text count_up_ok split: option.splits)

lemma python_step_ok: "python_ok st \<Longrightarrow> ascii l \<Longrightarrow> python_ok (python_step st l)"
  using split_once_ascii [of "CHR '':''" l] standalone_error_ok [of st l]
  by (auto simp: python_step_def python_ok_def Let_def ascii_text count_up_ok split: option.splits)

lemma python_ascii: "ascii_all ls \<Longrightarrow> python_ok (python_scan_lines ls)"
  unfolding python_scan_lines_def
  by (rule foldl_keeps [where P = python_ok])
     (simp add: python_ok_def keys_ok_def ascii_text, simp add: python_step_ok ascii_allD)

lemma python_text_ascii: "python_ok st \<Longrightarrow> ascii (python_text hint (ps_tracebacks st) (ps_types st))"
  by (auto simp: python_ok_def python_text_def Let_def ascii_text intro!: ascii_text)
    (blast dest: ascii_allD_take by_count_ok)+

lemma directory_ascii: "ascii output \<Longrightarrow> ascii (fst (directory_shape output))"
proof -
  assume a: "ascii output"
  let ?ls = "str_lines output"
  have ls: "ascii_all ?ls" by (rule str_lines_ascii_all) (rule a)
  have "ascii e" if "file_extension (trim l) = Some e" and "l \<in> set ?ls" for l e
    using extension_chars [OF that(1)] trim_chars [of l] ascii_subset [OF ascii_allD [OF ls that(2)]] by blast
  then have "keys_ok (count_extensions ?ls)"
    unfolding count_extensions_def
    by (intro foldl_keeps [where P = keys_ok])
       (auto simp: keys_ok_def [of "[]"] ascii_text count_up_ok split: option.splits)
  with ls show ?thesis
    by (auto simp: directory_shape_def Let_def ascii_text intro!: ascii_text)
       (blast dest: ascii_allD_take by_count_ok)+
qed

lemma join_lines_ascii: "ascii_all ls \<Longrightarrow> ascii (join_lines ls)"
  by (induction ls rule: join_lines.induct) (auto simp: ascii_text)

lemma plain_ascii: "ascii output \<Longrightarrow> ascii (fst (plain_shape output))"
proof -
  assume a: "ascii output"
  then have "ascii_all (take n (str_lines output))" and "ascii_all (drop n (str_lines output))" for n
    using str_lines_ascii_all [OF a] by (auto simp: ascii_all_def list_all_iff dest: in_set_takeD in_set_dropD)
  with a show ?thesis
    by (auto simp: plain_shape_def Let_def ascii_text join_lines_ascii)
qed

text \<open>
  whatever a program prints in ASCII that does not look like JSON is shaped: no slice of the
  text can fall within a character.
\<close>

theorem ascii_output_is_shaped:
  assumes "ascii output" and "\<not> json_detect output"
  shows "\<exists>r fs'. shape_output lib (with_threshold n new_output_shaper) ct modified st output hint fs = (Some r, fs')"
proof -
  let ?sh = "with_threshold n new_output_shaper"
  have ls: "ascii_all (str_lines output)" by (rule str_lines_ascii_all) (rule assms(1))
  have shaped: "\<exists>c m. shaper_shape lib f output hint = Some (c, m) \<and> ascii c"
    if "shaper_detect f output" for f
  proof (cases f)
    case GccClang
    then show ?thesis
      using gcc_ascii [OF ls] gcc_text_ascii by (auto simp: gcc_shape_def split: prod.splits)
  next
    case RustCargo
    then show ?thesis
      using cargo_ascii [OF ls] cargo_text_ascii by (auto simp: cargo_shape_def cargo_ok_def Let_def)
  next
    case Python
    then show ?thesis
      using python_text_ascii [OF python_ascii [OF ls]] by (simp add: python_shape_def Let_def)
  next
    case JsonText
    with that assms(2) show ?thesis by simp
  next
    case DirectoryTree
    then show ?thesis
      using directory_ascii [OF assms(1)] by (cases "directory_shape output") simp
  next
    case LogFile
    then show ?thesis
      using log_ascii [OF ls] log_text_ascii by (auto simp: log_shape_def split: prod.splits)
  next
    case Plain
    with that show ?thesis by simp
  qed
  have "\<exists>f c m. detect_and_shape lib (os_shapers ?sh) output hint = Some (f, c, m) \<and> ascii c"
  proof (cases "find (\<lambda>f. shaper_detect f output) (os_shapers ?sh)")
    case None
    then show ?thesis
      using plain_ascii [OF assms(1)] by (cases "plain_shape output") (simp add: detect_and_shape_def)
  next
    case (Some f)
    then have "shaper_detect f output" by (auto simp: find_Some_iff)
    from shaped [OF this] Some show ?thesis by (auto simp: detect_and_shape_def)
  qed
  then obtain f c m where "detect_and_shape lib (os_shapers ?sh) output hint = Some (f, c, m)" "ascii c"
    by blast
  with ascii_is_cut [of c ?sh] show ?thesis
    by (auto simp: shape_output_def Let_def split: prod.splits)
qed

lemma ascii_output_is_shaped_witness:
  "\<exists>r fs'. shape_output plain_lib (with_threshold 4 new_output_shaper) 9000000 no_times 9000000
     ''a.c:1: error: x'' HintAuto tmp_fs = (Some r, fs')"
proof -
  have "ascii ''a.c:1: error: x''" and "\<not> json_detect ''a.c:1: error: x''"
    by code_simp+
  then show ?thesis by (rule ascii_output_is_shaped)
qed

subsection \<open>The answer to a command\<close>

definition shell_data :: "json \<Rightarrow> json option" where
  "shell_data a = Option.bind (jget a ''structuredContent'') (\<lambda>s. jget s ''shell'')"

lemma foreground_data:
  "Option.bind (jget (foreground_answer c r) ''structuredContent'') (\<lambda>s. jget s ''exec'')
     = jget (foreground_json c r) ''exec''"
  by (simp add: foreground_answer_def)

lemma foreground_tails:
  assumes "jget (foreground_json c r) ''exec'' = Some d"
  shows "tail_text d ''stdout_tail'' = er_stdout_tail r" and "tail_text d ''stderr_tail'' = er_stderr_tail r"
    and "jget d ''exit_code'' = Some (jint_opt (er_exit_code r))"
  using assms by (auto simp: foreground_json_def tail_text_def get_str_def)

lemma shell_json_data:
  "\<exists>d. shell_data (shell_json config data shaped) = Some d \<and> get_str d ''output'' = Some (so_compact shaped)
     \<and> jget d ''exit_code'' = Some (jopt (jget data ''exit_code''))
     \<and> jget d ''original_size'' = Some (JInt (int (so_original_size shaped)))"
  by (simp add: shell_data_def shell_json_def get_str_def)

text \<open>
  a command is run by a shell that is on the allow list, as its one script, for at most ten
  minutes; with the hint for raw output the answer holds everything that the run printed, and the
  exit code of the shell.
\<close>

theorem raw_command_is_answered_whole:
  assumes "\<not> sc_background config" and "sc_output_hint config = Some ''raw''"
    and "spawn_process parent tool root (shell_exec_config shell config) fs = (Inr spec, fs1)"
    and "cr_outcome run = ChildExit code sig out err"
  shows "sp_args spec = [''-c'', sc_command config]
    \<and> list_ex (pattern_allows (show_components (sp_binary spec))) (et_allowlist tool)
    \<and> foreground_timeout tool (shell_exec_config shell config) \<le> 600
    \<and> (\<exists>a d fs'. shell_execute (foreground_exec parent tool root run) lib sh shell ct modified st config fs
            = (ShellAnswered a, fs')
          \<and> shell_data a = Some d \<and> get_str d ''output'' = Some (combined_output out err)
          \<and> jget d ''exit_code'' = Some (jint_opt code))"
proof -
  let ?r = "\<lparr>er_exit_code = code, er_terminated_by_signal = sig, er_duration_ms = cr_duration run,
    er_stdout_tail = out, er_stderr_tail = err\<rparr>"
  let ?c = "shell_exec_config shell config"
  let ?o = "combined_output out err"
  let ?shaped = "\<lparr>so_compact = ?o, so_raw_path = None, so_format = Plain, so_original_size = length ?o,
    so_compact_size = length ?o, so_metadata = count_lines ?o\<rparr>"
  have run: "foreground_exec parent tool root run ?c fs = (Inr (foreground_answer ?c ?r), cr_effect run fs1)"
    using assms(3,4) by (simp add: foreground_exec_def execute_foreground_def)
  obtain d where d: "jget (foreground_json ?c ?r) ''exec'' = Some d"
    by (simp add: foreground_json_def)
  note tails = foreground_tails [OF d]
  have "shell_execute (foreground_exec parent tool root run) lib sh shell ct modified st config fs
      = (ShellAnswered (shell_json config d ?shaped), cleanup_old_files sh ct modified (cr_effect run fs1))"
    using assms(1,2) tails(1,2)
    by (simp add: shell_execute_def run foreground_data d parse_output_hint_def shape_output_def)
  moreover obtain e where "shell_data (shell_json config d ?shaped) = Some e"
      "get_str e ''output'' = Some ?o" "jget e ''exit_code'' = Some (jint_opt code)"
    using shell_json_data [of config d ?shaped] tails(3) by (auto simp: jopt_def)
  moreover have "sp_args spec = [''-c'', sc_command config]"
    using assms(3) by (auto simp: spawn_process_def shell_exec_config_def split: sum.splits prod.splits)
  moreover have "foreground_timeout tool ?c \<le> 600"
    by (simp add: foreground_timeout_def shell_exec_config_def shell_timeout_def)
  ultimately show ?thesis using spawn_process_binary(1) [OF assms(3)] by blast
qed

definition list_command :: shell_config where
  "list_command =
     \<lparr>sc_command = ''ls'', sc_working_dir = None, sc_env = None, sc_timeout_secs = Some 9999,
      sc_background = False, sc_output_hint = Some ''raw''\<rparr>"

definition listing_run :: child_run where
  "listing_run = \<lparr>cr_pid = 7, cr_duration = 3, cr_outcome = ChildExit (Some 0) None ''a'' ''b'', cr_effect = id\<rparr>"

lemma raw_command_is_answered_whole_witness:
  "\<exists>a d fs'. shell_execute (foreground_exec server_env default_exec_tool_config [RootDir, Normal ''w'', Normal ''s'']
       listing_run) plain_lib new_output_shaper ''/bin/cc'' 0 no_times 0 list_command bin_fs = (ShellAnswered a, fs')
     \<and> shell_data a = Some d \<and> get_str d ''output'' = Some (combined_output ''a'' ''b'')
     \<and> jget d ''exit_code'' = Some (JInt 0)"
proof -
  have "case spawn_process server_env default_exec_tool_config [RootDir, Normal ''w'', Normal ''s'']
      (shell_exec_config ''/bin/cc'' list_command) bin_fs of (Inr spec, fs1) \<Rightarrow> True | _ \<Rightarrow> False"
    by code_simp
  then obtain spec fs1 where run: "spawn_process server_env default_exec_tool_config
      [RootDir, Normal ''w'', Normal ''s''] (shell_exec_config ''/bin/cc'' list_command) bin_fs = (Inr spec, fs1)"
    by (auto split: prod.splits sum.splits)
  have "\<not> sc_background list_command" and "sc_output_hint list_command = Some ''raw''"
    and "cr_outcome listing_run = ChildExit (Some 0) None ''a'' ''b''"
    by (simp_all add: list_command_def listing_run_def)
  from raw_command_is_answered_whole [OF this(1,2) run this(3), of plain_lib new_output_shaper 0 no_times 0]
  show ?thesis by (auto simp: jint_opt_def)
qed

subsection \<open>Instances\<close>

text \<open>A shell that a signal ended reads as one that exited with zero.\<close>

lemma killed_shell_reads_as_success:
  assumes "jget (foreground_json c r) ''exec'' = Some d" and "er_exit_code r = None"
    and "jget (foreground_json c (r\<lparr>er_exit_code := Some 0, er_terminated_by_signal := None\<rparr>)) ''exec'' = Some d'"
  shows "shell_summary d shaped = shell_summary d' shaped"
  using assms by (auto simp: foreground_json_def shell_summary_def jint_opt_def)

text \<open>Long text with a character at the cut: a string in JSON, and the whole compact text.\<close>

lemma long_json_text_panics:
  "summarize_json (\<lambda>_. []) (JStr (replicate 46 (CHR ''a'') @ concat (replicate 3 [CHR 0xC3, CHR 0xA9]))) 0 3 = None"
  by code_simp

lemma cut_within_character_panics:
  assumes "os_max_compact_size sh = Suc n"
  shows "cut_compact sh (replicate n (CHR ''a'') @ [CHR 0xC3, CHR 0xA9]) = None"
  using assms by (simp add: cut_compact_def str_slice_def char_boundary_def nth_append)

text \<open>The source lines of rustc, which start with their number, do not reach the block; the closing
  line of cargo is counted as an error of its own; a traceback without its last line is lost.\<close>

lemma source_line_is_dropped:
  "cs_errors (cargo_scan_lines [''error[E0382]: moved'', '' --> a.rs:10:1'', ''10 |     drop(x);''])
     = [''error[E0382]: moved'' @ nl # '' --> a.rs:10:1'']"
  by code_simp

lemma closing_line_is_counted:
  "length (cs_errors (cargo_scan_lines
     [''error[E0382]: moved'', [], ''error: could not compile x due to 1 previous error''])) = 2"
  by code_simp

lemma unfinished_traceback_is_lost:
  "ps_tracebacks (python_scan_lines [traceback_mark, ''  File x, line 1'', ''    f()'']) = []"
  by code_simp

text \<open>Two outputs of one millisecond share their raw file.\<close>

lemma raw_file_is_shared:
  assumes "save_raw sh t one fs = (Some p, fs1)" and "save_raw sh t two fs1 = (Some q, fs2)"
  shows "q = p \<and> read_to_string fs2 p = Some two"
  using assms save_raw_read [OF assms(2)] by (auto simp: save_raw_def Let_def split: option.splits)

end
