(* ===== verification/Test_Runs.thy ===== *)
theory Test_Runs
  imports Core_Engine Core_Journal
begin

text \<open>
  The test runs of the core engine (crates/cli/src/core/mod.rs) and the plans of sandbox.rs: the
  command for the framework of the project, its confinement by \<open>bwrap\<close>, the counts read from its
  output, the journal entry, and the run after a patch.

  How the child ends is the environment's. Counts are 32-bit: their sum wraps, as in a release
  build. Identifiers and the texts of I/O errors are empty.
\<close>

subsection \<open>Requests\<close>

datatype test_stack = StackCargo | StackPyTest | StackNpm

fun stack_name :: "test_stack \<Rightarrow> string" where
  "stack_name StackCargo = ''cargo''"
| "stack_name StackPyTest = ''pytest''"
| "stack_name StackNpm = ''npm''"

record test_run_request =
  tr_stack :: "test_stack option"
  tr_command :: "string option"
  tr_timeout_s :: "nat option"
  tr_cpu_limit :: "nat option"
  tr_mem_limit_mb :: "nat option"

record test_config =
  tf_framework :: "string option"
  tf_patterns :: "string list"
  tf_timeout_secs :: nat
  tf_parallel :: bool
  tf_env_vars :: "(string, string) hmap"

definition config_of_request :: "test_run_request \<Rightarrow> test_config" where
  "config_of_request r =
     \<lparr>tf_framework = map_option stack_name (tr_stack r),
      tf_patterns = (case tr_command r of None \<Rightarrow> [] | Some c \<Rightarrow> drop 2 (split_whitespace c)),
      tf_timeout_secs = (case tr_timeout_s r of None \<Rightarrow> 300 | Some t \<Rightarrow> t),
      tf_parallel = True, tf_env_vars = []\<rparr>"

definition detect_test_framework :: "file_system \<Rightarrow> string" where
  "detect_test_framework fs =
     (let there = (\<lambda>p. path_exists fs (components p))
      in if there ''Cargo.toml'' then ''cargo''
         else if there ''package.json'' then ''npm''
         else if there ''pytest.ini'' \<or> there ''pyproject.toml'' \<or> there ''setup.py'' then ''pytest''
         else ''cargo'')"

definition runner_error :: "string \<Rightarrow> devit_error" where
  "runner_error message = Internal ''test_runner'' message None []"

definition build_test_command :: "string \<Rightarrow> test_config \<Rightarrow> devit_error + string list" where
  "build_test_command framework config =
     (if framework = ''cargo'' then
        Inr ([''cargo'', ''test''] @ tf_patterns config
             @ (if tf_parallel config then [] else [''--'', ''--test-threads=1'']))
      else if framework = ''npm'' then
        Inr ([''npm'', ''test'']
             @ (if tf_patterns config = [] then [] else ''--'' # tf_patterns config))
      else if framework = ''pytest'' then
        Inr ([''pytest''] @ tf_patterns config
             @ (if tf_parallel config then [''-n'', ''auto''] else []) @ [''-v''])
      else Inl (runner_error (''Unsupported test framework: '' @ framework)))"

subsection \<open>Confinement\<close>

record sandbox_plan =
  sb_bind_ro :: "component list list"
  sb_bind_rw :: "component list list"
  sb_net :: bool
  sb_seccomp_profile :: "string option"

definition current_dir :: "file_system \<Rightarrow> component list" where
  "current_dir fs = RootDir # map Normal (cwd fs)"

definition build_test_sandbox_plan :: "sandbox_profile \<Rightarrow> file_system \<Rightarrow> sandbox_plan" where
  "build_test_sandbox_plan profile fs =
     (case profile of
        Strict \<Rightarrow>
          \<lparr>sb_bind_ro = map components [''/usr'', ''/lib'', ''/lib64'', ''/bin'', ''/sbin''],
           sb_bind_rw = [current_dir fs, components ''/tmp''],
           sb_net = False, sb_seccomp_profile = Some ''test-strict''\<rparr>
      | Permissive \<Rightarrow>
          \<lparr>sb_bind_ro = map components [''/usr'', ''/lib'', ''/lib64'', ''/bin'', ''/sbin''],
           sb_bind_rw = [current_dir fs, components ''/tmp'', components ''/home''],
           sb_net = True, sb_seccomp_profile = None\<rparr>)"

text \<open>The plans of sandbox.rs, which nothing runs.\<close>

definition system_ro_paths :: "component list list" where
  "system_ro_paths = map components [''/usr'', ''/bin'', ''/lib'', ''/lib64'', ''/etc'', ''/opt'']"

definition plan_for_apply :: "component list \<Rightarrow> sandbox_profile \<Rightarrow> sandbox_plan" where
  "plan_for_apply repo profile =
     \<lparr>sb_bind_ro = system_ro_paths
        @ (if profile = Strict then map components [''/proc'', ''/sys'', ''/dev''] else []),
      sb_bind_rw = [repo], sb_net = False,
      sb_seccomp_profile = Some (case profile of Strict \<Rightarrow> ''strict'' | Permissive \<Rightarrow> ''permissive'')\<rparr>"

definition plan_for_test :: "component list \<Rightarrow> sandbox_profile \<Rightarrow> sandbox_plan" where
  "plan_for_test repo profile =
     \<lparr>sb_bind_ro = system_ro_paths,
      sb_bind_rw = [repo, components ''/tmp'']
        @ (if profile = Permissive then map components [''/var/tmp'', ''/home''] else []),
      sb_net = (profile = Permissive),
      sb_seccomp_profile = (case profile of Strict \<Rightarrow> Some ''strict'' | Permissive \<Rightarrow> None)\<rparr>"

definition bind_args :: "file_system \<Rightarrow> string \<Rightarrow> component list list \<Rightarrow> string list" where
  "bind_args fs flag paths =
     concat (map (\<lambda>p. [flag, show_components p, show_components p]) (filter (path_exists fs) paths))"

definition build_bwrap_command :: "file_system \<Rightarrow> sandbox_plan \<Rightarrow> string list \<Rightarrow> string list" where
  "build_bwrap_command fs plan command =
     [''bwrap'', ''--unshare-all'', ''--die-with-parent''] @ bind_args fs ''--ro-bind'' (sb_bind_ro plan)
     @ bind_args fs ''--bind'' (sb_bind_rw plan) @ (if sb_net plan then [''--share-net''] else []) @ command"

subsection \<open>The run\<close>

datatype test_child = TestNotStarted | TestTimedOut | TestWaitFailed | TestEnded string bool

record execution_result =
  xr_stdout :: string
  xr_success :: bool

text \<open>\<open>bwrap\<close> says whether the program is there; without it the command runs as it is.\<close>

definition sandboxed_command :: "bool \<Rightarrow> file_system \<Rightarrow> sandbox_plan \<Rightarrow> string list \<Rightarrow> string list" where
  "sandboxed_command bwrap fs plan command =
     (if bwrap then build_bwrap_command fs plan command else command)"

definition execution_outcome :: "nat \<Rightarrow> test_child \<Rightarrow> devit_error + execution_result" where
  "execution_outcome timeout child =
     (case child of
        TestNotStarted \<Rightarrow> Inl (runner_error ''Failed to spawn test command'')
      | TestTimedOut \<Rightarrow> Inl (TestTimeout timeout ''unknown'' [])
      | TestWaitFailed \<Rightarrow> Inl (runner_error ''Failed to wait for test completion'')
      | TestEnded out ok \<Rightarrow> Inr \<lparr>xr_stdout = out, xr_success = ok\<rparr>)"

definition execute_sandboxed_command ::
  "bool \<Rightarrow> (string list \<Rightarrow> test_child) \<Rightarrow> string list \<Rightarrow> sandbox_plan \<Rightarrow> nat \<Rightarrow> file_system
    \<Rightarrow> devit_error + execution_result"
where
  "execute_sandboxed_command bwrap run command plan timeout fs =
     execution_outcome timeout (run (sandboxed_command bwrap fs plan command))"

subsection \<open>Reading the output\<close>

definition results_of :: "execution_result \<Rightarrow> nat \<Rightarrow> nat \<times> nat \<times> nat \<times> nat \<Rightarrow> test_results" where
  "results_of r elapsed counts =
     (case counts of (n, passed, failed, skipped) \<Rightarrow>
        \<lparr>tests_success = xr_success r, total_tests = n, passed_tests = passed, failed_tests = failed,
         skipped_tests = skipped, tests_time = elapsed, failure_details = [], tests_output = xr_stdout r,
         tests_timed_out = False\<rparr>)"

definition sum_u32 :: "nat \<Rightarrow> nat \<Rightarrow> nat \<Rightarrow> nat" where
  "sum_u32 a b c = (a + b + c) mod 2 ^ 32"

fun cargo_counts :: "string option \<Rightarrow> string list \<Rightarrow> nat \<times> nat \<times> nat \<Rightarrow> nat \<times> nat \<times> nat" where
  "cargo_counts prev [] acc = acc"
| "cargo_counts prev (w # ws) (p, f, s) =
     cargo_counts (Some w) ws
       (case Option.bind prev parse_u32 of
          None \<Rightarrow> (p, f, s)
        | Some n \<Rightarrow>
            if w = ''passed;'' then (n, f, s) else if w = ''failed;'' then (p, n, s)
            else if w = ''ignored;'' then (p, f, n) else (p, f, s))"

definition parse_cargo_output :: "execution_result \<Rightarrow> nat \<Rightarrow> test_results" where
  "parse_cargo_output r elapsed =
     results_of r elapsed
       (case find (\<lambda>l. contains l ''test result:'') (str_lines (xr_stdout r)) of
          None \<Rightarrow> (0, 0, 0, 0)
        | Some l \<Rightarrow>
            (case cargo_counts None (split_whitespace l) (0, 0, 0) of (p, f, s) \<Rightarrow>
               (sum_u32 p f s, p, f, s)))"

definition parse_npm_output :: "execution_result \<Rightarrow> nat \<Rightarrow> test_results" where
  "parse_npm_output r elapsed =
     results_of r elapsed (if xr_success r then (0, 1, 0, 0) else (0, 0, 1, 0))"

definition is_number :: "string \<Rightarrow> bool" where
  "is_number w = list_all (\<lambda>c. c \<in> set ''0123456789'') w"

definition pytest_line :: "string \<Rightarrow> bool" where
  "pytest_line l \<longleftrightarrow>
     contains l ''='' \<and> (contains l ''passed'' \<or> contains l ''failed'' \<or> contains l ''error'')"

definition pytest_counts :: "string \<Rightarrow> nat \<times> nat" where
  "pytest_counts l =
     (let numbers = filter is_number (split_whitespace l)
      in ((if contains l ''passed''
           then (case numbers of [] \<Rightarrow> 0 | w # _ \<Rightarrow> (case parse_u32 w of None \<Rightarrow> 0 | Some n \<Rightarrow> n)) else 0),
          (if contains l ''failed''
           then (case List.find (\<lambda>w. parse_u32 w \<noteq> None) numbers of
                   None \<Rightarrow> 0 | Some w \<Rightarrow> the (parse_u32 w)) else 0)))"

definition parse_pytest_output :: "execution_result \<Rightarrow> nat \<Rightarrow> test_results" where
  "parse_pytest_output r elapsed =
     results_of r elapsed
       (case find pytest_line (str_lines (xr_stdout r)) of
          None \<Rightarrow> (0, 0, 0, 0)
        | Some l \<Rightarrow> (case pytest_counts l of (p, f) \<Rightarrow> (sum_u32 p f 0, p, f, 0)))"

definition parse_test_output :: "string \<Rightarrow> execution_result \<Rightarrow> nat \<Rightarrow> test_results" where
  "parse_test_output framework r elapsed =
     (if framework = ''cargo'' then parse_cargo_output r elapsed
      else if framework = ''npm'' then parse_npm_output r elapsed
      else if framework = ''pytest'' then parse_pytest_output r elapsed
      else results_of r elapsed (0, 0, if xr_success r then 0 else 1, 0))"

subsection \<open>The journal of the engine\<close>

text \<open>The text of a response, the parser of identifiers, and the readings of one call.\<close>

record append_env =
  ap_encode :: "journal_response \<Rightarrow> string option"
  ap_decode :: "string \<Rightarrow> journal_response option"
  ap_uuid :: "string \<Rightarrow> string option"
  ap_request_id :: string
  ap_fresh :: string
  ap_stamp :: string
  ap_looked_up :: nat
  ap_stored :: nat

record journal_store =
  js_cache :: idempotency_cache
  js_tracker :: request_tracker
  js_journal :: core_journal

definition operation_entry ::
  "append_env \<Rightarrow> string \<Rightarrow> (string, string) hmap \<Rightarrow> string option \<Rightarrow> json"
where
  "operation_entry env operation details key =
     JObj [(''operation'', JStr operation), (''timestamp'', JStr (ap_stamp env)),
           (''request_id'', JStr (ap_request_id env)),
           (''details'', JObj (map (\<lambda>(k, v). (k, JStr v)) details)),
           (''idempotency_key'', jstr_opt key)]"

definition cached_response ::
  "append_env \<Rightarrow> string option \<Rightarrow> journal_store \<Rightarrow> journal_response option \<times> journal_store"
where
  "cached_response env key js =
     (case key of
        None \<Rightarrow> (None, js)
      | Some k \<Rightarrow>
          (case cache_get (ap_looked_up env) k (cache_cleanup (ap_looked_up env) (js_cache js)) of
             (e, cache) \<Rightarrow>
               (Option.bind e (\<lambda>x. ap_decode env (response x)), js\<lparr>js_cache := cache\<rparr>)))"

definition remember_response ::
  "append_env \<Rightarrow> string option \<Rightarrow> journal_response \<Rightarrow> journal_store \<Rightarrow> journal_store"
where
  "remember_response env key r js =
     (case (key, ap_encode env r) of
        (Some k, Some t) \<Rightarrow> js\<lparr>js_cache := cache_insert (ap_stored env) k t one_hour (js_cache js)\<rparr>
      | _ \<Rightarrow> js)"

definition engine_journal_append ::
  "journal_lib \<Rightarrow> append_env \<Rightarrow> string \<Rightarrow> (string, string) hmap \<Rightarrow> string option \<Rightarrow> journal_store
    \<Rightarrow> (devit_error + journal_response) \<times> journal_store"
where
  "engine_journal_append lib env operation details key js =
     (case cached_response env key js of
        (Some r, js1) \<Rightarrow> (Inr r, js1)
      | (None, js1) \<Rightarrow>
          (case core_append lib (ap_fresh env) (operation_entry env operation details key)
                  (Option.bind key (ap_uuid env)) (js_tracker js1) (js_journal js1) of
             (Inl e, tr, j) \<Rightarrow> (Inl e, js1\<lparr>js_tracker := tr, js_journal := j\<rparr>)
           | (Inr r, tr, j) \<Rightarrow>
               (Inr r, remember_response env key r (js1\<lparr>js_tracker := tr, js_journal := j\<rparr>))))"

subsection \<open>A test run\<close>

definition show_bool :: "bool \<Rightarrow> string" where
  "show_bool b = (if b then ''true'' else ''false'')"

definition run_details :: "string \<Rightarrow> test_results \<Rightarrow> (string, string) hmap" where
  "run_details stack r =
     [(''framework'', stack), (''success'', show_bool (tests_success r)),
      (''total_tests'', show_nat (total_tests r)), (''duration_ms'', show_nat (tests_time r div 10 ^ 6))]"

definition stack_of :: "test_config \<Rightarrow> file_system \<Rightarrow> string" where
  "stack_of config fs =
     (let framework = (case tf_framework config of None \<Rightarrow> ''auto'' | Some f \<Rightarrow> f)
      in if framework = ''auto'' then detect_test_framework fs else framework)"

text \<open>The environment of a run: whether \<open>bwrap\<close> is there, the child, and the time it took.\<close>

record run_env =
  rn_bwrap :: bool
  rn_child :: "string list \<Rightarrow> test_child"
  rn_elapsed :: nat

definition run_and_parse ::
  "run_env \<Rightarrow> test_config \<Rightarrow> sandbox_profile \<Rightarrow> file_system \<Rightarrow> devit_error + test_results"
where
  "run_and_parse rn config profile fs =
     (case build_test_command (stack_of config fs) config of
        Inl e \<Rightarrow> Inl e
      | Inr command \<Rightarrow>
          map_sum id (\<lambda>r. parse_test_output (stack_of config fs) r (rn_elapsed rn))
            (execute_sandboxed_command (rn_bwrap rn) (rn_child rn) command
               (build_test_sandbox_plan profile fs) (tf_timeout_secs config) fs))"

definition test_run ::
  "journal_lib \<Rightarrow> append_env \<Rightarrow> run_env \<Rightarrow> test_config \<Rightarrow> sandbox_profile \<Rightarrow> file_system \<Rightarrow> journal_store
    \<Rightarrow> (devit_error + test_results) \<times> journal_store"
where
  "test_run lib env rn config profile fs js =
     (case run_and_parse rn config profile fs of
        Inl e \<Rightarrow> (Inl e, js)
      | Inr r \<Rightarrow>
          (case engine_journal_append lib env ''test_run'' (run_details (stack_of config fs) r) None js of
             (Inl e, js') \<Rightarrow> (Inl e, js')
           | (Inr _, js') \<Rightarrow> (Inr r, js')))"

definition revert_details :: "patch_result \<Rightarrow> test_results \<Rightarrow> (string, string) hmap" where
  "revert_details p r =
     [(''reason'', ''test_failure''),
      (''original_commit'', case pr_commit_sha p of None \<Rightarrow> ''unknown'' | Some c \<Rightarrow> c),
      (''revert_commit'', case pr_reverted_sha p of None \<Rightarrow> ''unknown'' | Some c \<Rightarrow> c),
      (''failed_tests'', show_nat (failed_tests r)), (''total_tests'', show_nat (total_tests r))]"

definition log_revert_operation ::
  "journal_lib \<Rightarrow> append_env \<Rightarrow> patch_result \<Rightarrow> test_results \<Rightarrow> journal_store \<Rightarrow> (devit_error + unit) \<times> journal_store"
where
  "log_revert_operation lib env p r js =
     (case engine_journal_append lib env ''auto_revert'' (revert_details p r) None js of
        (Inl e, js') \<Rightarrow> (Inl e, js')
      | (Inr _, js') \<Rightarrow> (Inr (), js'))"

text \<open>
  The patch with its tests: these run strictly confined on the files that the patch left. \<open>log\<close> is
  how the journal entry about a revert ends.
\<close>

definition patch_apply_tested ::
  "crates \<Rightarrow> patch_env \<Rightarrow> (string list \<Rightarrow> command_outcome) \<Rightarrow> journal_lib \<Rightarrow> append_env \<Rightarrow> run_env
    \<Rightarrow> devit_error + unit \<Rightarrow> nat \<Rightarrow> patch_apply_request \<Rightarrow> test_run_request \<Rightarrow> approval_level \<Rightarrow> bool
    \<Rightarrow> core_engine \<Rightarrow> journal_store \<Rightarrow> file_system \<Rightarrow> (devit_error + patch_result) \<times> core_engine \<times> file_system"
where
  "patch_apply_tested lib env run jl ap rn log elapsed req tests level dry eng js fs =
     (let after = snd (snd (patch_apply lib env (req_diff req) level dry (req_idempotency_key req) eng fs))
      in patch_apply_with_tests lib env run
           (fst (test_run jl ap rn (config_of_request tests) Strict after js)) log elapsed req level dry eng fs)"

end
