(* ===== verification/Test_Properties.thy ===== *)
theory Test_Properties
  imports Test_Runs Patch_Roundtrip Engine_Properties
begin

text \<open>
  What the test runs promise: the summary of cargo is read back, the tests of a patch start only
  confined, and what becomes of a patch whose tests do not answer.
\<close>

subsection \<open>Words\<close>

fun unwords :: "string list \<Rightarrow> string" where
  "unwords [] = []"
| "unwords [w] = w"
| "unwords (w # ws) = w @ CHR '' '' # unwords ws"

definition word :: "string \<Rightarrow> bool" where
  "word w \<longleftrightarrow> w \<noteq> [] \<and> (\<forall>c \<in> set w. token_char c)"

lemma split_unwords: "\<forall>w \<in> set ws. word w \<Longrightarrow> split_whitespace (unwords ws) = ws"
proof (induction ws rule: unwords.induct)
  case 1
  then show ?case by (simp add: split_whitespace_def)
next
  case (2 w)
  then show ?case
    using split_ws_token [of w "[]" "[]"] split_ws.simps [of w "[]"]
    by (simp add: split_whitespace_def word_def)
next
  case (3 w v ws)
  then show ?case
    using split_ws_token [of w "[]" "CHR '' '' # unwords (v # ws)"] split_ws_space [of w]
    by (simp add: split_whitespace_def word_def del: unwords.simps(2,3)) (simp add: word_def)
qed

lemma word_show [simp]: "word (show_nat n)"
  using digit_facts by (auto simp: word_def)

lemma word_no_nl: "word w \<Longrightarrow> nl \<notin> set w \<and> cr \<notin> set w"
proof -
  have "\<not> token_char nl" and "\<not> token_char cr"
    by (simp_all add: token_char_def ws_seqs_def)
  then show "word w \<Longrightarrow> nl \<notin> set w \<and> cr \<notin> set w"
    unfolding word_def by blast
qed

lemma unwords_no_nl: "\<forall>w \<in> set ws. word w \<Longrightarrow> nl \<notin> set (unwords ws) \<and> cr \<notin> set (unwords ws)"
  by (induction ws rule: unwords.induct) (auto dest: word_no_nl)

subsection \<open>The summary of cargo\<close>

definition summary_line :: "string \<Rightarrow> nat \<Rightarrow> nat \<Rightarrow> nat \<Rightarrow> nat \<Rightarrow> nat \<Rightarrow> string \<Rightarrow> string" where
  "summary_line verdict p f s m k t =
     ''test result: '' @ verdict @ ''. '' @ show_nat p @ '' passed; '' @ show_nat f @ '' failed; ''
     @ show_nat s @ '' ignored; '' @ show_nat m @ '' measured; '' @ show_nat k
     @ '' filtered out; finished in '' @ t"

definition summary_words :: "string \<Rightarrow> nat \<Rightarrow> nat \<Rightarrow> nat \<Rightarrow> nat \<Rightarrow> nat \<Rightarrow> string \<Rightarrow> string list" where
  "summary_words verdict p f s m k t =
     [''test'', ''result:'', verdict @ ''.'', show_nat p, ''passed;'', show_nat f, ''failed;'', show_nat s,
      ''ignored;'', show_nat m, ''measured;'', show_nat k, ''filtered'', ''out;'', ''finished'', ''in'', t]"

lemma summary_line_words: "summary_line verdict p f s m k t = unwords (summary_words verdict p f s m k t)"
  by (simp add: summary_line_def summary_words_def)

lemma word_literals:
  "word ''test''" "word ''result:''" "word ''passed;''" "word ''failed;''" "word ''ignored;''" "word ''measured;''"
  "word ''filtered''" "word ''out;''" "word ''finished''" "word ''in''" "word ''ok.''" "word ''FAILED.''"
  by (code_simp; simp add: word_def token_char_def ws_seqs_def)+

lemma summary_are_words:
  "verdict \<in> {''ok'', ''FAILED''} \<Longrightarrow> word t \<Longrightarrow> \<forall>w \<in> set (summary_words verdict p f s m k t). word w"
  using word_literals by (auto simp: summary_words_def)

lemma literal_is_no_number:
  "parse_u32 ''test'' = None" "parse_u32 ''result:'' = None" "parse_u32 ''passed;'' = None"
  "parse_u32 ''failed;'' = None" "parse_u32 ''ignored;'' = None" "parse_u32 ''measured;'' = None"
  "parse_u32 ''filtered'' = None" "parse_u32 ''out;'' = None" "parse_u32 ''finished'' = None"
  "parse_u32 ''in'' = None" "parse_u32 ''ok.'' = None" "parse_u32 ''FAILED.'' = None"
  by code_simp+

lemma number_is_no_mark:
  "show_nat n \<noteq> ''passed;''" "show_nat n \<noteq> ''failed;''" "show_nat n \<noteq> ''ignored;''"
proof -
  have "CHR '';'' \<notin> set (show_nat n)"
    using show_nat_digits [of "CHR '';''" n] by (auto simp: digit_char_def less_Suc_eq numeral_eq_Suc)
  then show "show_nat n \<noteq> ''passed;''" "show_nat n \<noteq> ''failed;''" "show_nat n \<noteq> ''ignored;''"
    by (metis in_set_conv_decomp append_Cons append_Nil list.set_intros)+
qed

lemma summary_counts:
  assumes "p < 2 ^ 32" and "f < 2 ^ 32" and "s < 2 ^ 32" and "verdict \<in> {''ok'', ''FAILED''}"
  shows "cargo_counts None (summary_words verdict p f s m k t) (0, 0, 0) = (p, f, s)"
  using assms literal_is_no_number number_is_no_mark
  by (cases "parse_u32 (show_nat m)"; cases "parse_u32 (show_nat k)")
     (auto simp: summary_words_def parse_show)

lemma str_lines_concat:
  "\<forall>l \<in> set ls. nl \<notin> set l \<and> cr \<notin> set l
    \<Longrightarrow> str_lines (concat (map (\<lambda>l. l @ [nl]) ls) @ s) = ls @ str_lines s"
  by (induction ls) (simp_all add: str_lines_line strip_cr_id)

lemma find_append_right: "\<forall>x \<in> set xs. \<not> P x \<Longrightarrow> P y \<Longrightarrow> find P (xs @ y # ys) = Some y"
  by (induction xs) auto

text \<open>
  C31: the summary line of cargo is read back: the three counts that it shows are those of the result,
  and the whole is their sum in 32 bits. The lines before it hold no carriage return and not the words
  \<open>test result:\<close> (only the first line with these words is read); what follows it does not matter.
\<close>

theorem cargo_summary_is_read_back:
  assumes "p < 2 ^ 32" and "f < 2 ^ 32" and "s < 2 ^ 32"
    and "verdict \<in> {''ok'', ''FAILED''}" and "word t"
    and "\<forall>l \<in> set ls. nl \<notin> set l \<and> cr \<notin> set l \<and> \<not> contains l ''test result:''"
    and "r = parse_test_output ''cargo''
    \<lparr>xr_stdout = concat (map (\<lambda>l. l @ [nl]) ls) @ summary_line verdict p f s m k t @ nl # rest, xr_success = ok\<rparr> d"
  shows "passed_tests r = p \<and> failed_tests r = f \<and> skipped_tests r = s
    \<and> total_tests r = (p + f + s) mod 2 ^ 32 \<and> tests_success r = ok"
proof -
  note words = summary_are_words [OF assms(4,5), of p f s m k]
  note plain = unwords_no_nl [OF words, folded summary_line_words]
  have lines: "str_lines (concat (map (\<lambda>l. l @ [nl]) ls) @ summary_line verdict p f s m k t @ nl # rest)
      = ls @ summary_line verdict p f s m k t # str_lines rest"
    using assms(6) plain by (simp add: str_lines_concat str_lines_line strip_cr_id)
  have "contains (summary_line verdict p f s m k t) ''test result:''"
    unfolding contains_def summary_line_def by (simp add: sublist_Cons_right)
  then have "find (\<lambda>l. contains l ''test result:'') (ls @ summary_line verdict p f s m k t # str_lines rest)
      = Some (summary_line verdict p f s m k t)"
    using assms(6) by (intro find_append_right) auto
  moreover have "cargo_counts None (split_whitespace (summary_line verdict p f s m k t)) (0, 0, 0) = (p, f, s)"
    unfolding summary_line_words split_unwords [OF words] by (rule summary_counts) (rule assms)+
  ultimately show ?thesis
    by (simp add: assms(7) parse_test_output_def parse_cargo_output_def lines results_of_def sum_u32_def)
qed

lemma cargo_summary_is_read_back_witness:
  "passed_tests (parse_test_output ''cargo''
     \<lparr>xr_stdout = ''running 3 tests'' @ [nl] @ summary_line ''FAILED'' 2 1 0 0 0 ''0.01s'' @ [nl], xr_success = False\<rparr> 5) = 2"
proof -
  have "word ''0.01s''"
    by (simp add: word_def token_char_def ws_seqs_def)
  moreover have "\<not> contains ''running 3 tests'' ''test result:''"
    by code_simp
  ultimately show ?thesis
    using cargo_summary_is_read_back [of 2 1 0 "''FAILED''" "''0.01s''" "[''running 3 tests'']" _ 0 0 "[]" False 5, OF _ _ _ _ _ _ refl]
    by simp
qed

subsection \<open>Confinement\<close>

definition bwrap_confined :: "file_system \<Rightarrow> string list \<Rightarrow> bool" where
  "bwrap_confined fs argv \<longleftrightarrow>
     (\<exists>ros rws command.
        argv = [''bwrap'', ''--unshare-all'', ''--die-with-parent'']
          @ concat (map (\<lambda>p. [''--ro-bind'', p, p]) ros) @ concat (map (\<lambda>p. [''--bind'', p, p]) rws) @ command
        \<and> set ros \<subseteq> {''/usr'', ''/lib'', ''/lib64'', ''/bin'', ''/sbin''}
        \<and> set rws \<subseteq> {show_components (current_dir fs), ''/tmp''}
        \<and> command \<noteq> [] \<and> hd command \<in> {''cargo'', ''npm'', ''pytest''})"

lemma bind_args_texts:
  "bind_args fs flag paths
     = concat (map (\<lambda>p. [flag, p, p]) (map show_components (filter (path_exists fs) paths)))"
  by (simp add: bind_args_def comp_def)

lemma system_texts:
  "show_components (components ''/usr'') = ''/usr''" "show_components (components ''/lib'') = ''/lib''"
  "show_components (components ''/lib64'') = ''/lib64''" "show_components (components ''/bin'') = ''/bin''"
  "show_components (components ''/sbin'') = ''/sbin''" "show_components (components ''/tmp'') = ''/tmp''"
  by code_simp+

lemma strict_plan_texts:
  "set (map show_components (filter P (sb_bind_ro (build_test_sandbox_plan Strict fs))))
     \<subseteq> {''/usr'', ''/lib'', ''/lib64'', ''/bin'', ''/sbin''}"
  "set (map show_components (filter P (sb_bind_rw (build_test_sandbox_plan Strict fs))))
     \<subseteq> {show_components (current_dir fs), ''/tmp''}"
  by (auto simp: build_test_sandbox_plan_def system_texts simp del: show_components.simps)

lemma strict_command_confined:
  assumes "command \<noteq> []" and "hd command \<in> {''cargo'', ''npm'', ''pytest''}"
  shows "bwrap_confined fs (sandboxed_command True fs (build_test_sandbox_plan Strict fs) command)"
proof -
  let ?ros = "map show_components (filter (path_exists fs) (sb_bind_ro (build_test_sandbox_plan Strict fs)))"
  let ?rws = "map show_components (filter (path_exists fs) (sb_bind_rw (build_test_sandbox_plan Strict fs)))"
  have "sandboxed_command True fs (build_test_sandbox_plan Strict fs) command
      = [''bwrap'', ''--unshare-all'', ''--die-with-parent''] @ concat (map (\<lambda>p. [''--ro-bind'', p, p]) ?ros)
        @ concat (map (\<lambda>p. [''--bind'', p, p]) ?rws) @ command"
    unfolding sandboxed_command_def build_bwrap_command_def bind_args_texts
    by (simp add: build_test_sandbox_plan_def)
  with assms strict_plan_texts [of "path_exists fs" fs] show ?thesis
    unfolding bwrap_confined_def by blast
qed

lemma test_command_heads:
  "build_test_command framework config = Inr command \<Longrightarrow> command \<noteq> [] \<and> hd command \<in> {''cargo'', ''npm'', ''pytest''}"
  by (auto simp: build_test_command_def split: if_splits)

lemma strict_run_confined:
  assumes "rn_bwrap rn"
  shows "run_and_parse (rn\<lparr>rn_child := \<lambda>argv. if bwrap_confined fs argv then rn_child rn argv else other\<rparr>) config Strict fs
    = run_and_parse rn config Strict fs"
proof (cases "build_test_command (stack_of config fs) config")
  case (Inl e)
  then show ?thesis by (simp add: run_and_parse_def)
next
  case (Inr command)
  from strict_command_confined [OF test_command_heads [OF this, THEN conjunct1] test_command_heads [OF this, THEN conjunct2]]
  show ?thesis using assms by (simp add: run_and_parse_def Inr execute_sandboxed_command_def)
qed

text \<open>
  C30: where \<open>bwrap\<close> is there, the tests of a patch start nothing but a confined command: without the
  network, and with nothing writable but the working directory and the directory for temporary
  files. What any other command would do makes no difference.
\<close>

theorem post_tests_run_confined:
  assumes "rn_bwrap rn"
    and "left = snd (snd (patch_apply lib env (req_diff req) level dry (req_idempotency_key req) eng fs))"
  shows "patch_apply_tested lib env run jl ap
      (rn\<lparr>rn_child := \<lambda>argv. if bwrap_confined left argv then rn_child rn argv else other\<rparr>)
      entry elapsed req tests level dry eng js fs
    = patch_apply_tested lib env run jl ap rn entry elapsed req tests level dry eng js fs"
  unfolding patch_apply_tested_def Let_def assms(2) [symmetric]
  by (simp add: test_run_def strict_run_confined [OF assms(1)])

definition sample_journal_lib :: journal_lib where
  "sample_journal_lib =
     \<lparr>jl_print = (\<lambda>_. []), jl_parse = (\<lambda>_. None), jl_value = (\<lambda>_. JNull), jl_entry = (\<lambda>_. None),
      jl_hmac = (\<lambda>k t. k @ t), jl_hash = (\<lambda>ts. word_of_nat (length (concat ts)))\<rparr>"

definition sample_append_env :: append_env where
  "sample_append_env =
     \<lparr>ap_encode = (\<lambda>_. None), ap_decode = (\<lambda>_. None), ap_uuid = Some, ap_request_id = ''r'', ap_fresh = ''f'',
      ap_stamp = ''t'', ap_looked_up = 0, ap_stored = 0\<rparr>"

definition slow_run :: run_env where
  "slow_run = \<lparr>rn_bwrap = True, rn_child = \<lambda>_. TestTimedOut, rn_elapsed = 0\<rparr>"

definition cargo_request :: test_run_request where
  "cargo_request = \<lparr>tr_stack = Some StackCargo, tr_command = Some ''cargo test fast'', tr_timeout_s = Some 9,
     tr_cpu_limit = None, tr_mem_limit_mb = None\<rparr>"

definition tested_request :: patch_apply_request where
  "tested_request =
     \<lparr>req_diff = render_diff [sample_patch], req_idempotency_key = None, req_post_tests = True\<rparr>"

definition tested_patch :: "run_env \<Rightarrow> (devit_error + patch_result) \<times> core_engine \<times> file_system" where
  "tested_patch rn =
     patch_apply_tested plain_crates sample_env (\<lambda>_. NotStarted) sample_journal_lib sample_append_env rn (Inr ()) 0
       tested_request cargo_request Moderate False (engine_at Trusted)
       \<lparr>js_cache = [], js_tracker = [], js_journal = new_core_journal ''j'' ''k''\<rparr> sample_tree"

lemma post_tests_run_confined_witness:
  "tested_patch (slow_run\<lparr>rn_child := \<lambda>argv. if bwrap_confined (files_after (render_diff [sample_patch]) Moderate
       (engine_at Trusted) sample_tree) argv then rn_child slow_run argv else TestNotStarted\<rparr>)
   = tested_patch slow_run"
proof -
  have "rn_bwrap slow_run"
    by (simp add: slow_run_def)
  with post_tests_run_confined [of slow_run, OF _ refl, of plain_crates sample_env "\<lambda>_. NotStarted"
      sample_journal_lib sample_append_env tested_request Moderate False "engine_at Trusted" sample_tree TestNotStarted
      "Inr ()" 0 cargo_request "\<lparr>js_cache = [], js_tracker = [], js_journal = new_core_journal ''j'' ''k''\<rparr>"]
  show ?thesis by (simp add: tested_patch_def files_after_def tested_request_def)
qed

subsection \<open>Tests without an answer\<close>

text \<open>A patch whose tests do not answer in time stays: the call ends with the error of the tests,
  without a revert.\<close>

lemma timed_out_tests_leave_patch:
  assumes "\<And>argv. rn_child rn argv = TestTimedOut" and "\<not> dry" and "req_post_tests req"
    and "patch_apply lib env (req_diff req) level dry (req_idempotency_key req) eng fs = (Inr r, eng', fs')"
  shows "patch_apply_tested lib env run jl ap rn entry elapsed req tests level dry eng js fs
    = (Inl (TestTimeout (tf_timeout_secs (config_of_request tests)) ''unknown'' []), eng', fs')"
proof -
  let ?c = "config_of_request tests"
  have "stack_of ?c fs' \<in> {''cargo'', ''npm'', ''pytest''}"
    by (cases "tr_stack tests"; cases "the (tr_stack tests)")
       (auto simp: stack_of_def config_of_request_def detect_test_framework_def Let_def)
  then obtain command where "build_test_command (stack_of ?c fs') ?c = Inr command"
    by (auto simp: build_test_command_def)
  then have "run_and_parse rn ?c Strict fs' = Inl (TestTimeout (tf_timeout_secs ?c) ''unknown'' [])"
    using assms(1) by (simp add: run_and_parse_def execute_sandboxed_command_def execution_outcome_def)
  then show ?thesis
    using assms(2-4) by (simp add: patch_apply_tested_def patch_apply_with_tests_def test_run_def)
qed

subsection \<open>Instances\<close>

text \<open>Both counts of pytest are the first number of the line; an explicit command of one word loses
  its first argument; of a workspace only the first summary counts.\<close>

lemma pytest_counts_are_mixed_up: "pytest_counts ''== 1 failed, 2 passed in 0.12s =='' = (1, 1)"
  by code_simp

lemma first_argument_is_lost:
  "tf_patterns (config_of_request (cargo_request\<lparr>tr_stack := Some StackPyTest, tr_command := Some ''pytest tests/unit''\<rparr>)) = []"
  by code_simp

lemma second_summary_is_ignored:
  "failed_tests (parse_cargo_output
     \<lparr>xr_stdout = ''test result: ok. 2 passed; 0 failed;'' @ [nl] @ ''test result: FAILED. 0 passed; 3 failed;'',
      xr_success = False\<rparr> 0) = 0"
  by code_simp

lemma missing_bwrap_runs_unconfined: "sandboxed_command False fs plan command = command"
  by (simp add: sandboxed_command_def)

lemma test_environment_is_ignored: "run_and_parse rn (config\<lparr>tf_env_vars := vars\<rparr>) profile fs = run_and_parse rn config profile fs"
  by (simp add: run_and_parse_def stack_of_def build_test_command_def)

end
