(* ===== verification/File_Ops_Properties.thy ===== *)
theory File_Ops_Properties
  imports File_Ops
begin

text \<open>
  What the exploration promises in a directory without links: a search finds the lines that match
  in the files that are looked at, and no others, and says when it stopped early; and where links
  and missing root marks lead it elsewhere.
\<close>

subsection \<open>Entries\<close>

abbreviation phys :: "string list \<Rightarrow> component list" where
  "phys loc \<equiv> RootDir # map Normal loc"

lemma entry_stat: "work_tree fs dir \<Longrightarrow> stat fs follow (phys dir @ [Normal n]) = node_at fs (dir @ [n])"
  using locate_entry [of fs dir follow n] by (simp add: stat_def)

lemma work_tree_child:
  assumes "work_tree fs dir" and "node_at fs (dir @ [n]) = Some Dir"
  shows "work_tree fs (dir @ [n])"
proof -
  have "prefix (dir @ [n]) l \<Longrightarrow> prefix dir l" for l
    by (rule prefix_order.trans [of _ "dir @ [n]"]) simp_all
  then show ?thesis
    using assms by (auto simp: work_tree_def link_free_def prefix_snoc)
qed

definition depth_below :: "file_system \<Rightarrow> string list \<Rightarrow> nat \<Rightarrow> bool" where
  "depth_below fs dir k \<longleftrightarrow> (\<forall>ns. node_at fs (dir @ ns) = Some Dir \<longrightarrow> length ns < k)"

lemma depth_below_child: "depth_below fs dir (Suc k) \<Longrightarrow> depth_below fs (dir @ [n]) k"
  by (fastforce simp: depth_below_def)

lemma depth_below_positive: "work_tree fs dir \<Longrightarrow> depth_below fs dir k \<Longrightarrow> k \<noteq> 0"
  unfolding depth_below_def work_tree_def by (metis append_Nil2 less_zeroE prefix_order.refl)

subsection \<open>What there is to find\<close>

definition shown :: "string list \<Rightarrow> string list \<Rightarrow> bool" where
  "shown dir ns \<longleftrightarrow> (\<forall>p. prefix p ns \<and> p \<noteq> [] \<longrightarrow> should_include_path (phys (dir @ p)))"

definition file_hits ::
  "(string \<Rightarrow> bool) \<Rightarrow> nat \<Rightarrow> component list \<Rightarrow> string \<Rightarrow> search_match set"
where
  "file_hits re width path t =
     {m. \<exists>i < length (str_lines t). re (str_lines t ! i) \<and> match_at path width (str_lines t) i = Some m}"

definition hits ::
  "(string \<Rightarrow> bool) \<Rightarrow> nat \<Rightarrow> file_system \<Rightarrow> string list \<Rightarrow> search_match set"
where
  "hits re width fs dir =
     {m. \<exists>ns t. ns \<noteq> [] \<and> dirs_to fs dir ns \<and> node_at fs (dir @ ns) = Some (File t) \<and> shown dir ns
        \<and> should_search_file (phys (dir @ ns)) \<and> m \<in> file_hits re width (phys (dir @ ns)) t}"

definition entry_hits ::
  "(string \<Rightarrow> bool) \<Rightarrow> nat \<Rightarrow> file_system \<Rightarrow> string list \<Rightarrow> string \<Rightarrow> search_match set"
where
  "entry_hits re width fs dir n =
     (if \<not> should_include_path (phys (dir @ [n])) then {}
      else case node_at fs (dir @ [n]) of
             Some (File t) \<Rightarrow>
               (if should_search_file (phys (dir @ [n])) then file_hits re width (phys (dir @ [n])) t else {})
           | Some Dir \<Rightarrow> hits re width fs (dir @ [n])
           | _ \<Rightarrow> {})"

lemma shown_Cons: "shown dir (n # ns) \<longleftrightarrow> should_include_path (phys (dir @ [n])) \<and> shown (dir @ [n]) ns"
proof
  assume s: "shown dir (n # ns)"
  have "should_include_path (phys (dir @ [n] @ p))" if "prefix p ns" for p
    using s that by (simp add: shown_def del: map_append)
  from this [of "[]"] this show "should_include_path (phys (dir @ [n])) \<and> shown (dir @ [n]) ns"
    by (simp add: shown_def del: map_append)
next
  assume s: "should_include_path (phys (dir @ [n])) \<and> shown (dir @ [n]) ns"
  show "shown dir (n # ns)"
    unfolding shown_def
  proof (intro allI impI)
    fix p assume "prefix p (n # ns) \<and> p \<noteq> []"
    then obtain q where "p = n # q" "prefix q ns" by (auto simp: prefix_Cons)
    with s show "should_include_path (phys (dir @ p))"
      by (cases "q = []") (auto simp: shown_def simp del: map_append)
  qed
qed

lemma dirs_to_Cons:
  "dirs_to fs dir (n # ns) \<longleftrightarrow>
     node_at fs dir = Some Dir \<and> (ns \<noteq> [] \<longrightarrow> node_at fs (dir @ [n]) = Some Dir \<and> dirs_to fs (dir @ [n]) ns)"
proof
  assume d: "dirs_to fs dir (n # ns)"
  then have "node_at fs (dir @ n # q) = Some Dir" if "strict_prefix q ns" for q
    using that by (simp add: dirs_to_def)
  moreover have "node_at fs (dir @ []) = Some Dir"
    using d [unfolded dirs_to_def, rule_format, of "[]"] by simp
  ultimately show "node_at fs dir = Some Dir
      \<and> (ns \<noteq> [] \<longrightarrow> node_at fs (dir @ [n]) = Some Dir \<and> dirs_to fs (dir @ [n]) ns)"
    by (cases ns) (auto simp: dirs_to_def)
next
  assume a: "node_at fs dir = Some Dir
    \<and> (ns \<noteq> [] \<longrightarrow> node_at fs (dir @ [n]) = Some Dir \<and> dirs_to fs (dir @ [n]) ns)"
  show "dirs_to fs dir (n # ns)"
    unfolding dirs_to_def
  proof (intro allI impI)
    fix p assume "strict_prefix p (n # ns)"
    then consider "p = []" | q where "p = n # q" "strict_prefix q ns" by (cases p) auto
    then show "node_at fs (dir @ p) = Some Dir"
    proof cases
      case 1
      then show ?thesis using a by simp
    next
      case (2 q)
      then have "ns \<noteq> []" by (cases ns) auto
      with a 2 show ?thesis by (simp add: dirs_to_def)
    qed
  qed
qed

lemma hits_entries:
  assumes "work_tree fs dir" and "\<And>n. node_at fs (dir @ [n]) \<noteq> None \<Longrightarrow> n \<in> N"
  shows "hits re width fs dir = (\<Union>n \<in> N. entry_hits re width fs dir n)"
proof (intro equalityI subsetI)
  fix m assume "m \<in> hits re width fs dir"
  then obtain ns t where h: "ns \<noteq> []" "dirs_to fs dir ns" "node_at fs (dir @ ns) = Some (File t)" "shown dir ns"
      "should_search_file (phys (dir @ ns))" "m \<in> file_hits re width (phys (dir @ ns)) t"
    by (auto simp: hits_def)
  then obtain n ms where ns: "ns = n # ms" by (cases ns) auto
  show "m \<in> (\<Union>n \<in> N. entry_hits re width fs dir n)"
  proof (cases "ms = []")
    case True
    with h ns have "m \<in> entry_hits re width fs dir n" and "node_at fs (dir @ [n]) \<noteq> None"
      by (auto simp: entry_hits_def shown_Cons simp del: map_append)
    with assms(2) show ?thesis by blast
  next
    case False
    with h ns have sub: "node_at fs (dir @ [n]) = Some Dir" "dirs_to fs (dir @ [n]) ms"
      by (auto simp: dirs_to_Cons)
    moreover have "m \<in> hits re width fs (dir @ [n])"
      unfolding hits_def using h ns False sub(2) by (auto simp: shown_Cons simp del: map_append)
    moreover have "should_include_path (phys (dir @ [n]))"
      using h(4) ns by (simp add: shown_Cons del: map_append)
    ultimately have "m \<in> entry_hits re width fs dir n"
      by (simp add: entry_hits_def del: map_append)
    with assms(2) sub(1) show ?thesis by blast
  qed
next
  fix m assume "m \<in> (\<Union>n \<in> N. entry_hits re width fs dir n)"
  then obtain n where m: "m \<in> entry_hits re width fs dir n" by blast
  have dir: "node_at fs dir = Some Dir" using assms(1) by (simp add: work_tree_def)
  from m have inc: "should_include_path (phys (dir @ [n]))"
    by (auto simp: entry_hits_def simp del: map_append split: if_splits)
  from m inc consider
      (leaf) t where "node_at fs (dir @ [n]) = Some (File t)" "should_search_file (phys (dir @ [n]))"
        "m \<in> file_hits re width (phys (dir @ [n])) t"
    | (sub) "node_at fs (dir @ [n]) = Some Dir" "m \<in> hits re width fs (dir @ [n])"
    by (auto simp: entry_hits_def simp del: map_append split: option.splits node.splits if_splits)
  then show "m \<in> hits re width fs dir"
  proof cases
    case leaf
    have "shown dir [n]" using inc by (auto simp: shown_Cons shown_def prefix_Cons simp del: map_append)
    with leaf dir show ?thesis
      unfolding hits_def
      by (intro CollectI exI [of _ "[n]"] exI [of _ t]) (simp add: dirs_to_Cons del: map_append)
  next
    case sub
    then obtain ms t where h: "ms \<noteq> []" "dirs_to fs (dir @ [n]) ms" "node_at fs (dir @ n # ms) = Some (File t)"
        "shown (dir @ [n]) ms" "should_search_file (phys (dir @ n # ms))"
        "m \<in> file_hits re width (phys (dir @ n # ms)) t"
      by (auto simp: hits_def simp del: map_append)
    with sub(1) inc dir show ?thesis
      unfolding hits_def
      by (intro CollectI exI [of _ "n # ms"] exI [of _ t])
         (simp add: dirs_to_Cons shown_Cons del: map_append)
  qed
qed

subsection \<open>What a search adds\<close>

definition adds :: "search_results \<Rightarrow> search_results \<Rightarrow> search_match set \<Rightarrow> bool" where
  "adds r r' H \<longleftrightarrow>
     (\<exists>ms. sr_matches r' = sr_matches r @ ms \<and> set ms \<subseteq> H
        \<and> sr_total_matches r' = sr_total_matches r + length ms
        \<and> (length (sr_matches r') < max_search_results \<longrightarrow> H \<subseteq> set ms)
        \<and> (length (sr_matches r) < max_search_results \<longrightarrow> length (sr_matches r') \<le> max_search_results))
     \<and> sr_truncated r' = sr_truncated r"

lemma adds_refl: "adds r r {}"
  by (simp add: adds_def)

lemma adds_file: "adds r r' H \<Longrightarrow> adds (r\<lparr>sr_files_searched := k\<rparr>) r' H = adds r r' H"
  by (simp add: adds_def)

lemma adds_trans:
  assumes "adds r r1 H1" and "adds r1 r2 H2" and "length (sr_matches r1) < max_search_results"
  shows "adds r r2 (H1 \<union> H2)"
proof -
  obtain ms ns where m: "sr_matches r1 = sr_matches r @ ms" "set ms \<subseteq> H1"
      "sr_total_matches r1 = sr_total_matches r + length ms" "H1 \<subseteq> set ms"
    and n: "sr_matches r2 = sr_matches r1 @ ns" "set ns \<subseteq> H2"
      "sr_total_matches r2 = sr_total_matches r1 + length ns"
      "length (sr_matches r2) < max_search_results \<longrightarrow> H2 \<subseteq> set ns"
      "length (sr_matches r2) \<le> max_search_results" "sr_truncated r2 = sr_truncated r"
    using assms by (auto simp: adds_def)
  show ?thesis
    unfolding adds_def using m n by (intro conjI exI [of _ "ms @ ns"]) auto
qed

lemma adds_stop:
  assumes "adds r r1 H1" and "\<not> length (sr_matches r1) < max_search_results" and "H1 \<subseteq> H"
  shows "adds r r1 H"
  using assms unfolding adds_def by auto

lemma match_at_fits:
  "i < length ls \<Longrightarrow> length ls + width < 2 ^ 64 \<Longrightarrow> \<exists>m. match_at path width ls i = Some m"
  by (simp add: match_at_def Let_def)

lemma search_lines_adds:
  assumes "\<forall>i \<in> set is. i < length ls" and "length ls + width < 2 ^ 64"
    and "length (sr_matches r) < max_search_results"
  shows "\<exists>r'. search_lines re width path ls is r = Inr r'
    \<and> adds r r' {m. \<exists>i \<in> set is. re (ls ! i) \<and> match_at path width ls i = Some m}"
  using assms(1,3)
proof (induction "is" arbitrary: r)
  case Nil
  then show ?case by (simp add: adds_refl)
next
  case (Cons i js)
  let ?H = "\<lambda>is. {m. \<exists>i \<in> set is. re (ls ! i) \<and> match_at path width ls i = Some m}"
  show ?case
  proof (cases "re (ls ! i)")
    case False
    then have "?H (i # js) = ?H js" by auto
    with Cons False show ?thesis by simp
  next
    case True
    obtain m where m: "match_at path width ls i = Some m"
      using match_at_fits [of i ls width path] assms(2) Cons.prems(1) by auto
    let ?r = "r\<lparr>sr_total_matches := sr_total_matches r + 1, sr_matches := sr_matches r @ [m]\<rparr>"
    have one: "adds r ?r {m}" using Cons.prems(2) by (simp add: adds_def)
    have H: "?H (i # js) = {m} \<union> ?H js" using m True by auto
    show ?thesis
    proof (cases "length (sr_matches ?r) < max_search_results")
      case full: False
      with one have "adds r ?r (?H (i # js))" by (intro adds_stop [OF one full]) (simp only: H, blast)
      with full True m show ?thesis by (auto simp: not_less)
    next
      case room: True
      obtain r' where r': "search_lines re width path ls js ?r = Inr r'" "adds ?r r' (?H js)"
        using Cons.IH [of ?r] Cons.prems(1) room by auto
      have "search_lines re width path ls (i # js) r = Inr r'"
        using True m room r'(1) by (simp add: Let_def)
      with adds_trans [OF one r'(2) room] H show ?thesis by auto
    qed
  qed
qed

definition fits :: "nat \<Rightarrow> file_system \<Rightarrow> bool" where
  "fits width fs \<longleftrightarrow> (\<forall>l t. node_at fs l = Some (File t) \<longrightarrow> length (str_lines t) + width < 2 ^ 64)"

lemma search_file_adds:
  assumes "read_to_string fs path = Some t" and "length (str_lines t) + width < 2 ^ 64"
    and "length (sr_matches r) < max_search_results"
  shows "\<exists>r'. search_file re width fs path r = Inr r'
    \<and> adds r r' (if should_search_file path then file_hits re width path t else {})"
proof (cases "should_search_file path")
  case False
  then show ?thesis by (simp add: search_file_def adds_refl)
next
  case True
  let ?r = "r\<lparr>sr_files_searched := sr_files_searched r + 1\<rparr>"
  have H: "{m. \<exists>i \<in> set [0..<length (str_lines t)]. re (str_lines t ! i) \<and> match_at path width (str_lines t) i = Some m}
      = file_hits re width path t"
    by (auto simp: file_hits_def)
  obtain r' where "search_lines re width path (str_lines t) [0..<length (str_lines t)] ?r = Inr r'"
      "adds ?r r' (file_hits re width path t)"
    using search_lines_adds [of "[0..<length (str_lines t)]" "str_lines t" width ?r re path] assms(2,3) H by auto
  moreover from this(2) have "adds r r' (file_hits re width path t)" by (simp add: adds_def)
  ultimately show ?thesis using True assms(1) by (simp add: search_file_def Let_def)
qed

subsection \<open>A search in a directory\<close>

lemma entry_paths: "phys dir @ [Normal n] = phys (dir @ [n])"
  by simp

lemma search_entry_adds:
  assumes tree: "work_tree fs dir" and full: "fits width fs" and room: "length (sr_matches r) < max_search_results"
    and n: "node_at fs (dir @ [n]) \<noteq> None" and inc: "should_include_path (phys (dir @ [n]))"
    and sub: "node_at fs (dir @ [n]) = Some Dir \<Longrightarrow>
      \<exists>r'. search_directory k re width fs (phys (dir @ [n])) r = Some (Inr r') \<and> adds r r' (hits re width fs (dir @ [n]))"
  shows "\<exists>r'. (if is_file fs (phys (dir @ [n])) then Some (search_file re width fs (phys (dir @ [n])) r)
        else if is_dir fs (phys (dir @ [n])) then search_directory k re width fs (phys (dir @ [n])) r
        else Some (Inr r)) = Some (Inr r')
      \<and> adds r r' (entry_hits re width fs dir n)"
proof -
  have st: "stat fs True (phys (dir @ [n])) = node_at fs (dir @ [n])"
    using entry_stat [OF tree, of True n] by (simp only: entry_paths)
  obtain nd where nd: "node_at fs (dir @ [n]) = Some nd" using n by blast
  show ?thesis
  proof (cases nd)
    case (File t)
    have "read_to_string fs (phys (dir @ [n])) = Some t"
      by (simp only: read_to_string_def st nd File option.case node.case)
    moreover have "length (str_lines t) + width < 2 ^ 64"
      using full nd File by (auto simp: fits_def)
    ultimately obtain r' where "search_file re width fs (phys (dir @ [n])) r = Inr r'"
        "adds r r' (entry_hits re width fs dir n)"
      using search_file_adds [of fs "phys (dir @ [n])" t width r re] room inc
      by (auto simp: entry_hits_def nd File simp del: map_append)
    then show ?thesis by (simp add: is_file_def st nd File del: map_append)
  next
    case Dir
    then show ?thesis
      using sub inc by (simp add: is_file_def is_dir_def st nd entry_hits_def del: map_append)
  next
    case (Link t)
    then show ?thesis using tree nd by (simp add: work_tree_def link_free_def)
  qed
qed

lemma search_directory_adds:
  assumes "work_tree fs dir" and "hm_wf (nodes fs)" and "fits width fs" and "depth_below fs dir k"
    and "length (sr_matches r) < max_search_results"
  shows "\<exists>r'. search_directory k re width fs (phys dir) r = Some (Inr r') \<and> adds r r' (hits re width fs dir)"
  using assms(1,4,5)
proof (induction k arbitrary: dir r)
  case 0
  then show ?case using depth_below_positive by blast
next
  case (Suc k)
  obtain es where es: "read_dir fs (phys dir) = Some es" "set es = {n. node_at fs (dir @ [n]) \<noteq> None}"
    using read_dir_names [OF Suc.prems(1) assms(2)] by blast
  have "\<exists>r'. search_entries k re width fs (phys dir) ns s = Some (Inr r')
      \<and> adds s r' (\<Union>n \<in> set ns. entry_hits re width fs dir n)"
    if "set ns \<subseteq> set es" and "length (sr_matches s) < max_search_results" for ns s
    using that
  proof (induction ns arbitrary: s)
    case Nil
    then show ?case by (simp add: adds_refl)
  next
    case (Cons n ns)
    show ?case
    proof (cases "should_include_path (phys (dir @ [n]))")
      case False
      then have "entry_hits re width fs dir n = {}" by (simp add: entry_hits_def del: map_append)
      then show ?thesis
        using Cons.IH [of s] Cons.prems False by (simp add: Let_def)
    next
      case True
      have n: "node_at fs (dir @ [n]) \<noteq> None" using Cons.prems(1) es(2) by auto
      obtain s1 where s1: "(if is_file fs (phys (dir @ [n])) then Some (search_file re width fs (phys (dir @ [n])) s)
            else if is_dir fs (phys (dir @ [n])) then search_directory k re width fs (phys (dir @ [n])) s
            else Some (Inr s)) = Some (Inr s1)"
          "adds s s1 (entry_hits re width fs dir n)"
        using search_entry_adds [OF Suc.prems(1) assms(3) Cons.prems(2) n True]
          Suc.IH [OF work_tree_child [OF Suc.prems(1)] depth_below_child [OF Suc.prems(2)] Cons.prems(2)]
        by blast
      have step: "search_entries k re width fs (phys dir) (n # ns) s
          = (if max_search_results \<le> length (sr_matches s1) then Some (Inr s1)
             else search_entries k re width fs (phys dir) ns s1)"
        by (simp only: search_entries.simps Let_def entry_paths True s1(1) not_True_eq_False if_False
            option.case sum.case)
      show ?thesis
      proof (cases "length (sr_matches s1) < max_search_results")
        case full: False
        then have "adds s s1 (\<Union>n \<in> set (n # ns). entry_hits re width fs dir n)"
          by (intro adds_stop [OF s1(2)]) auto
        with full step show ?thesis by (auto simp: not_less)
      next
        case room: True
        then obtain s2 where "search_entries k re width fs (phys dir) ns s1 = Some (Inr s2)"
            "adds s1 s2 (\<Union>n \<in> set ns. entry_hits re width fs dir n)"
          using Cons.IH [of s1] Cons.prems(1) by auto
        with step room adds_trans [OF s1(2) this(2) room] show ?thesis by simp
      qed
    qed
  qed
  from this [of es r] Suc.prems(3) es(1) hits_entries [OF Suc.prems(1), of "set es"] es(2)
  show ?case by simp
qed

text \<open>
  C29: in a directory without links a search with a valid pattern, and with a context that fits (no
  number of a line plus the context reaches 2^64), answers; what it reports are matching lines, with
  their surroundings, of files that are looked at, at most a hundred; and unless it says that it
  stopped early these are all of them. (A context that does not fit panics.)
\<close>

theorem search_is_exact:
  assumes "work_tree fs dir" and "hm_wf (nodes fs)" and "depth_below fs dir fuel"
    and "fits (case width of None \<Rightarrow> 2 | Some c \<Rightarrow> c) fs" and "compile pattern = Some re"
    and "validated clean fo fs ''search files'' (adjust_user_path fo raw) = Inr (phys dir)"
  shows "\<exists>r. ops_file_search fuel compile clean fo fs pattern raw width = Some (Inr r)
    \<and> set (sr_matches r) \<subseteq> hits re (case width of None \<Rightarrow> 2 | Some c \<Rightarrow> c) fs dir
    \<and> length (sr_matches r) \<le> max_search_results \<and> sr_total_matches r = length (sr_matches r)
    \<and> (\<not> sr_truncated r \<longrightarrow> set (sr_matches r) = hits re (case width of None \<Rightarrow> 2 | Some c \<Rightarrow> c) fs dir)"
proof -
  let ?w = "case width of None \<Rightarrow> 2 | Some c \<Rightarrow> c"
  let ?r = "\<lparr>sr_pattern = pattern, sr_path = adjust_user_path fo raw, sr_files_searched = 0, sr_total_matches = 0,
    sr_matches = [], sr_truncated = False\<rparr>"
  have node: "stat fs True (phys dir) = Some Dir"
    using locate_directory [OF assms(1), of True] assms(1) by (simp add: stat_def work_tree_def)
  obtain r' where r': "search_directory fuel re ?w fs (phys dir) ?r = Some (Inr r')"
      "adds ?r r' (hits re ?w fs dir)"
    using search_directory_adds [OF assms(1,2,4,3), of ?r re] by (auto simp: max_search_results_def)
  then have "ops_file_search fuel compile clean fo fs pattern raw width = Some (Inr (cut_results r'))"
    using node by (simp add: ops_file_search_def assms(5,6) is_file_def is_dir_def)
  moreover have "set (sr_matches r') \<subseteq> hits re ?w fs dir" "length (sr_matches r') \<le> max_search_results"
      "sr_total_matches r' = length (sr_matches r')" "\<not> sr_truncated r'"
      "length (sr_matches r') < max_search_results \<Longrightarrow> hits re ?w fs dir \<subseteq> set (sr_matches r')"
    using r'(2) by (auto simp: adds_def max_search_results_def)
  ultimately show ?thesis by (auto simp: cut_results_def)
qed

subsection \<open>The tree of a project\<close>

primrec count_kind :: "file_type \<Rightarrow> tree_node \<Rightarrow> nat" where
  "count_kind k (TreeNode n p t cs s) =
     (if t = k then 1 else 0) + case_option 0 sum_list (map_option (map (count_kind k)) cs)"

primrec tree_height :: "tree_node \<Rightarrow> nat" where
  "tree_height (TreeNode n p t cs s) = case_option 0 (\<lambda>hs. Suc (Max (set hs))) (map_option (map tree_height) cs)"

definition counted :: "nat \<Rightarrow> nat \<times> nat \<Rightarrow> tree_node list \<Rightarrow> nat \<times> nat \<Rightarrow> bool" where
  "counted limit before kids after \<longleftrightarrow>
     fst after = fst before + sum_list (map (count_kind RegularFile) kids)
     \<and> snd after = snd before + sum_list (map (count_kind Directory) kids)
     \<and> (\<forall>k \<in> set kids. tree_height k \<le> limit)"

lemma children_height: "ks \<noteq> [] \<Longrightarrow> \<forall>k \<in> set ks. tree_height k \<le> m \<Longrightarrow> Max (tree_height ` set ks) \<le> m"
  by (subst Max_le_iff) auto

lemma counted_append:
  "counted m a ks b \<Longrightarrow> counted m b ls c \<Longrightarrow> counted m a (ks @ ls) c"
  by (auto simp: counted_def)

definition add_child ::
  "(string \<Rightarrow> nat \<times> nat \<Rightarrow> tree_node option \<times> nat \<times> nat) \<Rightarrow> string
    \<Rightarrow> tree_node list \<times> nat \<times> nat \<Rightarrow> tree_node list \<times> nat \<times> nat"
where
  "add_child f n acc =
     (case acc of (ks, cs) \<Rightarrow>
        case f n cs of (None, cs') \<Rightarrow> (ks, cs') | (Some k, cs') \<Rightarrow> (ks @ [k], cs'))"

lemma add_children_counted:
  assumes "\<And>n cs t cs'. f n cs = (t, cs') \<Longrightarrow> counted m cs (case t of None \<Rightarrow> [] | Some k \<Rightarrow> [k]) cs'"
  shows "counted m a ks b \<Longrightarrow> case fold (add_child f) ns (ks, b) of (ks', b') \<Rightarrow> counted m a ks' b'"
proof (induction ns arbitrary: ks b)
  case Nil
  then show ?case by simp
next
  case (Cons n ns)
  obtain t cs' where t: "f n b = (t, cs')" by (cases "f n b")
  have "counted m a (ks @ (case t of None \<Rightarrow> [] | Some k \<Rightarrow> [k])) cs'"
    using counted_append [OF Cons.prems assms [OF t]] .
  from Cons.IH [OF this] show ?case
    by (cases t) (simp_all add: add_child_def t)
qed

lemma node_counted:
  assumes "counted m (f, d) ks (f', d')" and "ks \<noteq> [] \<Longrightarrow> 0 < k \<and> m \<le> k - 1"
  shows "tree_height (TreeNode n p ty (if ks = [] then None else Some ks) s) \<le> k"
    and "count_kind kd (TreeNode n p ty (if ks = [] then None else Some ks) s)
      = (if ty = kd then 1 else 0) + sum_list (map (count_kind kd) ks)"
proof -
  show "tree_height (TreeNode n p ty (if ks = [] then None else Some ks) s) \<le> k"
  proof (cases "ks = []")
    case False
    then have "Max (tree_height ` set ks) \<le> m"
      using assms(1) by (intro children_height) (auto simp: counted_def)
    with False assms(2) have "Suc (Max (tree_height ` set ks)) \<le> k" by linarith
    with False show ?thesis by simp
  qed simp
qed simp

lemma build_tree_node_counted:
  "build_tree_node fs depth max_depth path counts = (t, after) \<Longrightarrow>
     counted (max_depth - depth) counts (case t of None \<Rightarrow> [] | Some k \<Rightarrow> [k]) after"
proof (induction "max_depth - depth" arbitrary: depth path counts t after rule: less_induct)
  case less
  note unfolded = build_tree_node.simps [of fs depth max_depth path counts]
  show ?case
  proof (cases "stat fs True path")
    case None
    then show ?thesis using less.prems by (auto simp: unfolded counted_def)
  next
    case (Some nd)
    let ?f = "\<lambda>n. build_tree_node fs (Suc depth) max_depth (path @ [Normal n])"
    define counts1 where "counts1 = (case nd of
        Dir \<Rightarrow> (fst counts, snd counts + 1) | File _ \<Rightarrow> (fst counts + 1, snd counts) | Link _ \<Rightarrow> counts)"
    define kc where "kc = (if nd = Dir \<and> depth < max_depth
        then fold (add_child ?f) (shown_children fs path) ([], counts1) else ([], counts1))"
    have start: "counted m counts1 [] counts1" for m by (simp add: counted_def)
    have kids: "case kc of (ks, b) \<Rightarrow> counted (max_depth - Suc depth) counts1 ks b"
    proof (cases "nd = Dir \<and> depth < max_depth")
      case True
      have "case fold (add_child ?f) (shown_children fs path) ([], counts1) of
          (ks, b) \<Rightarrow> counted (max_depth - Suc depth) counts1 ks b"
        using less.hyps [of "Suc depth"] True by (intro add_children_counted start) auto
      with True show ?thesis by (simp add: kc_def)
    qed (auto simp: kc_def start)
    obtain ks b where kb: "kc = (ks, b)" by (cases kc)
    have few: "ks \<noteq> [] \<Longrightarrow> 0 < max_depth - depth \<and> max_depth - Suc depth \<le> max_depth - depth - 1"
      using kb by (auto simp: kc_def split: if_splits)
    let ?kind = "case nd of Dir \<Rightarrow> Directory | Link _ \<Rightarrow> Symlink | File _ \<Rightarrow> RegularFile"
    let ?node = "\<lambda>sz. TreeNode (entry_name path) path ?kind (if ks = [] then None else Some ks) sz"
    have fold: "fold (\<lambda>n (ks, cs). case ?f n cs of (None, cs') \<Rightarrow> (ks, cs') | (Some k, cs') \<Rightarrow> (ks @ [k], cs'))
        = fold (add_child ?f)"
      by (rule arg_cong [of _ _ fold]) (auto simp: add_child_def fun_eq_iff split: prod.splits)
    have "(t, after) = (Some (?node (case nd of File t \<Rightarrow> Some (length t) | _ \<Rightarrow> None)), b)"
      using less.prems kb unfolding unfolded Some kc_def counts1_def
      by (simp add: Let_def fold split: prod.splits if_splits)
    moreover have "counted (max_depth - depth) counts [?node sz] b" for sz
      using kids kb node_counted [OF _ few, where n = "entry_name path" and p = path and s = sz]
      by (cases b; cases counts1; cases nd) (auto simp: counted_def counts1_def)
    ultimately show ?thesis by simp
  qed
qed

text \<open>
  the totals of a project structure are the numbers of files and of directories in its tree, and
  the tree is at most as deep as asked for.
\<close>

theorem structure_totals_count_the_tree:
  assumes "ops_project_structure clean fo fs raw depth = Inr s"
  shows "pj_total_files s = count_kind RegularFile (pj_tree s)
    \<and> pj_total_dirs s = count_kind Directory (pj_tree s)
    \<and> tree_height (pj_tree s) \<le> (case depth of None \<Rightarrow> max_tree_depth | Some d \<Rightarrow> d)"
proof -
  let ?d = "case depth of None \<Rightarrow> max_tree_depth | Some d \<Rightarrow> d"
  obtain v files dirs where "build_tree_node fs 0 ?d v (0, 0) = (Some (pj_tree s), files, dirs)"
      "pj_total_files s = files" "pj_total_dirs s = dirs"
    using assms by (auto simp: ops_project_structure_def Let_def split: sum.splits prod.splits option.splits)
  with build_tree_node_counted [of fs 0 ?d v "(0, 0)"] show ?thesis
    by (auto simp: counted_def)
qed

subsection \<open>Instances\<close>

definition shop_fs :: file_system where
  "shop_fs =
     \<lparr>nodes = [([''w''], Dir), ([''w'', ''src''], Dir), ([''w'', ''src'', ''a.rs''], File (''let x'' @ [nl] @ ''let y'')),
        ([''w'', ''b.bin''], File ''let z''), ([''w'', ''README.md''], File ''read'')], cwd = [''w'']\<rparr>"

definition shop :: file_ops where
  "shop = \<lparr>fo_root = phys [''w''], fo_security = \<lparr>repo_root = phys [''w''], allow_internal_symlinks = False\<rparr>,
     fo_internal_links = False\<rparr>"

definition word_search :: "string \<Rightarrow> (string \<Rightarrow> bool) option" where
  "word_search p = Some (\<lambda>l. contains l p)"

lemma shop_nodes:
  "node_at shop_fs l = Some nd \<Longrightarrow>
     l \<in> {[], [''w''], [''w'', ''src'']} \<and> nd = Dir \<or> (\<exists>t. nd = File t \<and> length (str_lines t) \<le> 2)"
proof -
  have "length (str_lines (''let x'' @ [nl] @ ''let y'')) \<le> 2" "length (str_lines ''let z'') \<le> 2"
    "length (str_lines ''read'') \<le> 2"
    by code_simp+
  then show "node_at shop_fs l = Some nd \<Longrightarrow> ?thesis"
    by (auto simp: node_at_def shop_fs_def split: if_splits)
qed

lemma shop_tree: "work_tree shop_fs [''w'']"
proof -
  have "node_at shop_fs l \<noteq> Some (Link t)" for l t
    using shop_nodes [of l "Link t"] by auto
  moreover have "prefix p [''w''] \<Longrightarrow> node_at shop_fs p = Some Dir" for p
    by (cases p) (auto simp: node_at_def shop_fs_def)
  ultimately show ?thesis by (simp add: work_tree_def link_free_def)
qed

lemma search_is_exact_witness:
  "\<exists>r. ops_file_search 2 word_search id shop shop_fs ''let y'' ''.'' (Some 1) = Some (Inr r)
     \<and> (\<not> sr_truncated r \<longrightarrow> set (sr_matches r) = hits (\<lambda>l. contains l ''let y'') 1 shop_fs [''w''])"
proof -
  have "hm_wf (nodes shop_fs)"
    by (simp add: hm_wf_def shop_fs_def)
  moreover have "depth_below shop_fs [''w''] 2"
    using shop_nodes by (fastforce simp: depth_below_def)
  moreover have "fits (case Some 1 of None \<Rightarrow> 2 | Some c \<Rightarrow> c) shop_fs"
    using shop_nodes by (fastforce simp: fits_def)
  moreover have "validated id shop shop_fs ''search files'' (adjust_user_path shop ''.'') = Inr (phys [''w''])"
    by code_simp
  moreover have "word_search ''let y'' = Some (\<lambda>l. contains l ''let y'')"
    by (simp add: word_search_def)
  ultimately show ?thesis
    using search_is_exact [OF shop_tree, of 2 "Some 1" word_search "''let y''" "\<lambda>l. contains l ''let y''" id shop "''.''"]
    by auto
qed

lemma structure_totals_count_the_tree_witness:
  "\<exists>s. ops_project_structure id shop shop_fs ''.'' (Some 1) = Inr s
     \<and> count_kind RegularFile (pj_tree s) = 2 \<and> count_kind Directory (pj_tree s) = 2"
proof -
  have "case ops_project_structure id shop shop_fs ''.'' (Some 1) of
      Inr s \<Rightarrow> pj_total_files s = 2 \<and> pj_total_dirs s = 2 | Inl _ \<Rightarrow> False"
    by code_simp
  then obtain s where s: "ops_project_structure id shop shop_fs ''.'' (Some 1) = Inr s"
      "pj_total_files s = 2" "pj_total_dirs s = 2"
    by (auto split: sum.splits)
  from structure_totals_count_the_tree [OF s(1)] s show ?thesis by auto
qed

text \<open>A link in the project leads the search out of it, and is listed as what it points to.\<close>

definition leaky_fs :: file_system where
  "leaky_fs =
     \<lparr>nodes = [([''w''], Dir), ([''w'', ''out''], Link ''/etc''), ([''etc''], Dir),
        ([''etc'', ''app.conf''], File ''key = 1'')], cwd = [''w'']\<rparr>"

lemma search_follows_links_out:
  "(case ops_file_search 3 word_search id shop leaky_fs ''key'' ''.'' None of
      Some (Inr r) \<Rightarrow> map (\<lambda>m. (sm_file m, sm_line m)) (sr_matches r)
    | _ \<Rightarrow> []) = [(phys [''w'', ''out'', ''app.conf''], ''key = 1'')]"
  by code_simp

lemma link_is_listed_as_directory:
  "map_sum id fe_type (create_file_entry \<lparr>fm_modified = \<lambda>_. None, fm_mode = \<lambda>_. 0\<rparr> leaky_fs (phys [''w'', ''out'']))
     = Inr Directory"
  by code_simp

text \<open>A project below a directory with the name of an ignored one shows nothing.\<close>

lemma project_below_target_is_empty: "\<not> should_include_path (phys ([''home'', ''target'', n] @ ns))"
proof -
  have "\<exists>xs ys. show_components (phys ([''home'', ''target'', n] @ ns)) = xs @ ''/target/'' @ ys"
    by (rule exI [of _ "''/home''"], rule exI [of _ "n @ show_components (map Normal ns)"]) simp
  then show ?thesis
    by (auto simp: should_include_path_def Let_def contains_def sublist_def)
qed

text \<open>A read-me in a parent directory makes that the root; the lock file of cargo is never searched.\<close>

lemma parent_becomes_root:
  "auto_detect_project_root
     \<lparr>nodes = [([''h''], Dir), ([''h'', ''README.md''], File []), ([''h'', ''p''], Dir)], cwd = []\<rparr> (phys [''h'', ''p''])
   = Some (phys [''h''])"
  by code_simp

lemma lock_file_is_not_searched: "\<not> should_search_file (phys [''w'', ''Cargo.lock''])"
  by code_simp

lemma huge_context_panics:
  "match_at path (2 ^ 64 - 2) [a, b] 1 = None"
  by (simp add: match_at_def Let_def)

end
