(* ===== verification/Core_Config.thy ===== *)
theory Core_Config
  imports Approval Worker_Config Str_Search Std_Dir "HOL-Library.List_Lexorder" "HOL-Library.Char_ord"
begin

text \<open>
  The settings of the core (crates/cli/src/core/config.rs): the policy section from the environment,
  a file and the defaults, the check and the merge of whole configurations, and the root of the
  workspace.

  The values of TOML are those of \<open>Worker_Config\<close>; the parser and the writer are parameters, and the
  environment is a map. Values of JSON inside a section are kept as they are.
\<close>

subsection \<open>Values\<close>

fun toml_array :: "toml \<Rightarrow> toml list option" where
  "toml_array (TArr xs) = Some xs"
| "toml_array _ = None"

fun toml_table :: "toml \<Rightarrow> (string \<times> toml) list option" where
  "toml_table (TTable t) = Some t"
| "toml_table _ = None"

subsection \<open>The policy section\<close>

record policy_config =
  pcf_default_approval_level :: approval_level
  pcf_max_files_moderate :: nat
  pcf_max_lines_moderate :: nat
  pcf_protected_paths :: "string list"
  pcf_small_binary_max_bytes :: nat
  pcf_small_binary_ext_whitelist :: "string list"
  pcf_sandbox_profile_default :: sandbox_profile
  pcf_auto_revert_on_test_fail :: bool

definition builtin_defaults :: policy_config where
  "builtin_defaults =
     \<lparr>pcf_default_approval_level = Ask, pcf_max_files_moderate = 10, pcf_max_lines_moderate = 400,
      pcf_protected_paths = [''.git'', ''Cargo.toml'', ''package.json'', ''.env''],
      pcf_small_binary_max_bytes = 1048576,
      pcf_small_binary_ext_whitelist = [''png'', ''jpg'', ''jpeg'', ''ico'', ''woff'', ''woff2''],
      pcf_sandbox_profile_default = Strict, pcf_auto_revert_on_test_fail = True\<rparr>"

definition parse_approval_level :: "string \<Rightarrow> approval_level option" where
  "parse_approval_level v =
     (let t = map lower_char (trim v)
      in if t = ''untrusted'' then Some Untrusted else if t = ''ask'' then Some Ask
         else if t = ''moderate'' then Some Moderate else if t = ''trusted'' then Some Trusted else None)"

definition parse_sandbox_profile :: "string \<Rightarrow> sandbox_profile option" where
  "parse_sandbox_profile v =
     (let t = map lower_char (trim v)
      in if t = ''permissive'' then Some Permissive else if t = ''strict'' then Some Strict else None)"

text \<open>\<open>value_as_usize\<close> and \<open>toml_as_u64\<close>, which agree on 64-bit machines.\<close>

fun toml_as_u64 :: "toml \<Rightarrow> nat option" where
  "toml_as_u64 (TInt i) = (if 0 \<le> i then Some (nat i) else None)"
| "toml_as_u64 (TStr s) = parse_u64 (trim s)"
| "toml_as_u64 _ = None"

definition clean_extension :: "string \<Rightarrow> string" where
  "clean_extension raw = map lower_char (dropWhile (\<lambda>c. c = CHR ''.'') (trim raw))"

definition dedup_extensions :: "string list \<Rightarrow> string list" where
  "dedup_extensions es = remdups_adj (sort es)"

definition table_paths :: "toml list \<Rightarrow> string list" where
  "table_paths xs =
     filter (\<lambda>p. p \<noteq> []) (map trim (List.map_filter t_str xs))"

definition table_extensions :: "toml list \<Rightarrow> string list" where
  "table_extensions xs =
     dedup_extensions (filter (\<lambda>e. e \<noteq> []) (map clean_extension (List.map_filter t_str xs)))"

text \<open>A field takes the value that a source has for it, and stays otherwise.\<close>

definition given :: "'a option \<Rightarrow> 'a \<Rightarrow> 'a" where
  "given v old = (case v of None \<Rightarrow> old | Some new \<Rightarrow> new)"

definition table_level :: "(string \<times> toml) list \<Rightarrow> approval_level option" where
  "table_level t =
     Option.bind (Option.bind (map_of t ''default_approval'') t_str) parse_approval_level"

definition table_profile :: "(string \<times> toml) list \<Rightarrow> sandbox_profile option" where
  "table_profile t =
     Option.bind (Option.bind (map_of t ''sandbox_profile_default'') t_str) parse_sandbox_profile"

definition apply_policy_table :: "(string \<times> toml) list \<Rightarrow> policy_config \<Rightarrow> policy_config" where
  "apply_policy_table t c =
     \<lparr>pcf_default_approval_level = given (table_level t) (pcf_default_approval_level c),
      pcf_max_files_moderate =
        given (Option.bind (map_of t ''max_files_moderate'') toml_as_u64) (pcf_max_files_moderate c),
      pcf_max_lines_moderate =
        given (Option.bind (map_of t ''max_lines_moderate'') toml_as_u64) (pcf_max_lines_moderate c),
      pcf_protected_paths =
        given (map_option table_paths (Option.bind (map_of t ''protected_paths'') toml_array))
          (pcf_protected_paths c),
      pcf_small_binary_max_bytes =
        given (Option.bind (map_of t ''small_binary_max_bytes'') toml_as_u64) (pcf_small_binary_max_bytes c),
      pcf_small_binary_ext_whitelist =
        given (map_option table_extensions (Option.bind (map_of t ''small_binary_ext_whitelist'') toml_array))
          (pcf_small_binary_ext_whitelist c),
      pcf_sandbox_profile_default = given (table_profile t) (pcf_sandbox_profile_default c),
      pcf_auto_revert_on_test_fail =
        given (Option.bind (map_of t ''auto_revert_on_test_fail'') t_bool) (pcf_auto_revert_on_test_fail c)\<rparr>"

text \<open>The paths of \<open>DEVIT_PROTECTED_PATHS\<close>: at commas, else at colons.\<close>

definition env_paths :: "string \<Rightarrow> string list" where
  "env_paths v =
     (let t = trim v
      in if t = [] then []
         else
           let at_commas = (if CHR '','' \<in> set t
                 then filter (\<lambda>p. p \<noteq> []) (map trim (split_char (CHR '','') t)) else []);
               at_colons = filter (\<lambda>p. p \<noteq> []) (split_char (CHR '':'') t)
           in if at_commas \<noteq> [] then at_commas else if at_colons \<noteq> [] then at_colons else [t])"

definition env_extensions :: "string \<Rightarrow> string list" where
  "env_extensions v =
     (let cleaned = (\<lambda>ps. filter (\<lambda>e. e \<noteq> []) (map clean_extension ps));
          at_commas = cleaned (split_char (CHR '','') v)
      in dedup_extensions (if at_commas \<noteq> [] then at_commas else cleaned (split_whitespace v)))"

definition env_number :: "(string, string) hmap \<Rightarrow> string \<Rightarrow> nat option" where
  "env_number env name = Option.bind (hm_get env name) (\<lambda>v. parse_u64 (trim v))"

definition apply_env_overrides :: "(string, string) hmap \<Rightarrow> policy_config \<Rightarrow> policy_config" where
  "apply_env_overrides env c =
     c\<lparr>pcf_default_approval_level :=
         given (Option.bind (hm_get env ''DEVIT_DEFAULT_APPROVAL'') (\<lambda>v. parse_approval_level (trim v)))
           (pcf_default_approval_level c),
       pcf_max_files_moderate := given (env_number env ''DEVIT_MAX_FILES_MODERATE'') (pcf_max_files_moderate c),
       pcf_max_lines_moderate := given (env_number env ''DEVIT_MAX_LINES_MODERATE'') (pcf_max_lines_moderate c),
       pcf_protected_paths :=
         given (map_option env_paths (hm_get env ''DEVIT_PROTECTED_PATHS'')) (pcf_protected_paths c),
       pcf_small_binary_max_bytes :=
         given (env_number env ''DEVIT_SMALL_BINARY_MAX_BYTES'') (pcf_small_binary_max_bytes c),
       pcf_small_binary_ext_whitelist :=
         given (map_option env_extensions (hm_get env ''DEVIT_SMALL_BINARY_EXT_WHITELIST''))
           (pcf_small_binary_ext_whitelist c),
       pcf_sandbox_profile_default :=
         given (Option.bind (hm_get env ''DEVIT_SANDBOX_PROFILE_DEFAULT'') (\<lambda>v. parse_sandbox_profile (trim v)))
           (pcf_sandbox_profile_default c)\<rparr>"

datatype policy_config_error = ConfigIo string | ConfigParse string

definition load_from_path ::
  "(string \<Rightarrow> toml option) \<Rightarrow> (string, string) hmap \<Rightarrow> file_system \<Rightarrow> string
    \<Rightarrow> policy_config_error + policy_config"
where
  "load_from_path parse env fs path =
     (case read_to_string fs (components path) of
        None \<Rightarrow> Inl (ConfigIo path)
      | Some t \<Rightarrow>
          (case parse t of
             None \<Rightarrow> Inl (ConfigParse path)
           | Some root \<Rightarrow>
               Inr (apply_env_overrides env
                 (case Option.bind (Option.bind (toml_table root) (\<lambda>m. map_of m ''policy'')) toml_table of
                    None \<Rightarrow> builtin_defaults
                  | Some table \<Rightarrow> apply_policy_table table builtin_defaults))))"

definition discover_config_path ::
  "(string, string) hmap \<Rightarrow> file_system \<Rightarrow> string option \<Rightarrow> string option"
where
  "discover_config_path env fs override =
     (case override of
        Some p \<Rightarrow> Some p
      | None \<Rightarrow>
          (let from_env = (case hm_get env ''DEVIT_CONFIG'' of None \<Rightarrow> [] | Some v \<Rightarrow> trim v)
           in if from_env \<noteq> [] then Some from_env
              else find (\<lambda>c. path_exists fs (components c)) [''devit.toml'', ''.devit/devit.toml'']))"

definition from_sources ::
  "(string \<Rightarrow> toml option) \<Rightarrow> (string, string) hmap \<Rightarrow> file_system \<Rightarrow> string option \<Rightarrow> policy_config"
where
  "from_sources parse env fs override =
     (case (case discover_config_path env fs override of
              None \<Rightarrow> None
            | Some path \<Rightarrow>
                (case load_from_path parse env fs path of Inl _ \<Rightarrow> None | Inr c \<Rightarrow> Some c)) of
        Some c \<Rightarrow> c
      | None \<Rightarrow> apply_env_overrides env builtin_defaults)"

subsection \<open>The sections\<close>

record backend_config =
  bcf_kind :: string
  bcf_base_url :: string
  bcf_model :: string
  bcf_api_key :: "string option"
  bcf_timeout_secs :: nat
  bcf_max_retries :: nat
  bcf_headers :: "(string, string) hmap"
  bcf_parameters :: "(string, json) hmap"

definition default_backend_config :: backend_config where
  "default_backend_config =
     \<lparr>bcf_kind = ''openai_like'', bcf_base_url = ''http://localhost:11434/v1'',
      bcf_model = ''llama3.1:8b'', bcf_api_key = None, bcf_timeout_secs = 120, bcf_max_retries = 3,
      bcf_headers = [], bcf_parameters = []\<rparr>"

datatype network_access = NetDisabled | NetLocalhostOnly | NetFull | NetCustom "string list"

record sandbox_config =
  scf_enabled :: bool
  scf_default_profile :: sandbox_profile
  scf_cpu_limit_secs :: "nat option"
  scf_memory_limit_mb :: "nat option"
  scf_network_access :: network_access
  scf_allowed_directories :: "string list"
  scf_forbidden_directories :: "string list"
  scf_preserved_env_vars :: "string list"
  scf_custom_restrictions :: "(string, json) hmap"

definition default_sandbox_config :: sandbox_config where
  "default_sandbox_config =
     \<lparr>scf_enabled = True, scf_default_profile = Strict, scf_cpu_limit_secs = Some 300,
      scf_memory_limit_mb = Some 2048, scf_network_access = NetDisabled,
      scf_allowed_directories = [''.''],
      scf_forbidden_directories = [''/etc'', ''/usr'', ''/bin'', ''/sbin''],
      scf_preserved_env_vars = [''PATH'', ''HOME'', ''USER''], scf_custom_restrictions = []\<rparr>"

record git_config =
  gcf_conventional_commits :: bool
  gcf_max_staged_files :: nat
  gcf_auto_commit :: bool
  gcf_commit_message_template :: "string option"
  gcf_sign_commits :: bool
  gcf_gpg_key_id :: "string option"
  gcf_use_git_notes :: bool
  gcf_protected_branches :: "string list"

definition default_git_config :: git_config where
  "default_git_config =
     \<lparr>gcf_conventional_commits = True, gcf_max_staged_files = 50, gcf_auto_commit = False,
      gcf_commit_message_template = None, gcf_sign_commits = False, gcf_gpg_key_id = None,
      gcf_use_git_notes = False, gcf_protected_branches = [''main'', ''master'']\<rparr>"

text \<open>A duration is its number of nanoseconds.\<close>

record testing_config =
  tcf_enabled :: bool
  tcf_default_timeout :: nat
  tcf_parallel_execution :: bool
  tcf_max_parallel_jobs :: "nat option"
  tcf_auto_detect_frameworks :: "string list"
  tcf_custom_test_commands :: "(string, string) hmap"
  tcf_fail_fast :: bool
  tcf_test_env_vars :: "(string, string) hmap"
  tcf_excluded_paths :: "string list"

definition default_testing_config :: testing_config where
  "default_testing_config =
     \<lparr>tcf_enabled = True, tcf_default_timeout = 300 * 10 ^ 9, tcf_parallel_execution = True,
      tcf_max_parallel_jobs = None,
      tcf_auto_detect_frameworks = [''cargo'', ''npm'', ''pytest'', ''jest''],
      tcf_custom_test_commands = [], tcf_fail_fast = False, tcf_test_env_vars = [],
      tcf_excluded_paths = [''target'', ''node_modules'', ''.git'']\<rparr>"

datatype log_level = LevelDebug | LevelInfo | LevelWarning | LevelError | LevelCritical

record journal_settings =
  jcf_enabled :: bool
  jcf_journal_path :: string
  jcf_sign_entries :: bool
  jcf_signing_key :: "string option"
  jcf_max_file_size_mb :: nat
  jcf_max_rotated_files :: nat
  jcf_include_sensitive_data :: bool
  jcf_log_levels :: "log_level list"
  jcf_custom_fields :: "(string, string) hmap"

definition default_journal_settings :: journal_settings where
  "default_journal_settings =
     \<lparr>jcf_enabled = True, jcf_journal_path = ''.devit/journal.jsonl'', jcf_sign_entries = True,
      jcf_signing_key = None, jcf_max_file_size_mb = 100, jcf_max_rotated_files = 5,
      jcf_include_sensitive_data = False, jcf_log_levels = [LevelInfo, LevelWarning, LevelError],
      jcf_custom_fields = []\<rparr>"

record performance_config =
  pfc_worker_threads :: "nat option"
  pfc_io_buffer_size :: nat
  pfc_enable_caching :: bool
  pfc_cache_size_mb :: nat
  pfc_cache_ttl_secs :: nat

definition default_performance_config :: performance_config where
  "default_performance_config =
     \<lparr>pfc_worker_threads = None, pfc_io_buffer_size = 64 * 1024, pfc_enable_caching = True,
      pfc_cache_size_mb = 100, pfc_cache_ttl_secs = 300\<rparr>"

record runtime_config =
  rcf_colored_output :: bool
  rcf_verbosity_level :: nat
  rcf_show_progress :: bool
  rcf_working_directory :: "string option"
  rcf_validate_config_on_startup :: bool
  rcf_performance :: performance_config
  rcf_feature_flags :: "(string, bool) hmap"

definition default_runtime_config :: runtime_config where
  "default_runtime_config =
     \<lparr>rcf_colored_output = True, rcf_verbosity_level = 1, rcf_show_progress = True,
      rcf_working_directory = None, rcf_validate_config_on_startup = True,
      rcf_performance = default_performance_config, rcf_feature_flags = []\<rparr>"

record workspace_config =
  wcf_sandbox_root :: "string option"
  wcf_default_project :: "string option"
  wcf_allowed_projects :: "string list"
  wcf_max_size_mb :: "nat option"
  wcf_max_files :: "nat option"

definition default_workspace_config :: workspace_config where
  "default_workspace_config =
     \<lparr>wcf_sandbox_root = None, wcf_default_project = None, wcf_allowed_projects = [],
      wcf_max_size_mb = None, wcf_max_files = None\<rparr>"

datatype shot_backend = Scrot | Imagemagick | NativeShot

record screenshot_tool_config =
  shc_enabled :: bool
  shc_backend :: shot_backend
  shc_format :: string
  shc_output_dir :: "string option"

definition default_screenshot_config :: screenshot_tool_config where
  "default_screenshot_config =
     \<lparr>shc_enabled = False, shc_backend = Scrot, shc_format = ''png'', shc_output_dir = None\<rparr>"

record exec_limits_config =
  exc_rlimit_nofile :: nat
  exc_rlimit_nproc :: nat
  exc_rlimit_as_gb :: nat
  exc_rlimit_cpu_secs :: nat
  exc_max_lifetime_secs :: nat
  exc_binary_allowlist :: "string list"

definition default_exec_config :: exec_limits_config where
  "default_exec_config =
     \<lparr>exc_rlimit_nofile = 8192, exc_rlimit_nproc = 0, exc_rlimit_as_gb = 16, exc_rlimit_cpu_secs = 900,
      exc_max_lifetime_secs = 3600, exc_binary_allowlist = [''/usr/bin/*'', ''/bin/*'']\<rparr>"

record tools_config =
  tlc_screenshot :: screenshot_tool_config
  tlc_exec :: exec_limits_config

definition default_tools_config :: tools_config where
  "default_tools_config = \<lparr>tlc_screenshot = default_screenshot_config, tlc_exec = default_exec_config\<rparr>"

text \<open>The four sections of earlier versions.\<close>

record project_cfg =
  prj_name :: string
  prj_default_language :: string

definition default_project_cfg :: project_cfg where
  "default_project_cfg = \<lparr>prj_name = ''default'', prj_default_language = ''en''\<rparr>"

record approvals_cfg =
  apc_timeout_seconds :: nat
  apc_max_auto_approve_size :: nat

definition default_approvals_cfg :: approvals_cfg where
  "default_approvals_cfg = \<lparr>apc_timeout_seconds = 300, apc_max_auto_approve_size = 10000\<rparr>"

record tests_cfg =
  tsc_default_timeout :: nat
  tsc_parallel_jobs :: nat

definition default_tests_cfg :: tests_cfg where
  "default_tests_cfg = \<lparr>tsc_default_timeout = 300, tsc_parallel_jobs = 4\<rparr>"

record monitoring_cfg =
  mon_metrics_enabled :: bool
  mon_metrics_port :: nat

definition default_monitoring_cfg :: monitoring_cfg where
  "default_monitoring_cfg = \<lparr>mon_metrics_enabled = False, mon_metrics_port = 9090\<rparr>"

record core_config =
  cc_backend :: backend_config
  cc_policy :: policy_config
  cc_sandbox :: sandbox_config
  cc_git :: git_config
  cc_testing :: testing_config
  cc_journal :: journal_settings
  cc_runtime :: runtime_config
  cc_workspace :: workspace_config
  cc_orchestration :: orchestration_config
  cc_tools :: tools_config
  cc_project :: "project_cfg option"
  cc_approvals :: "approvals_cfg option"
  cc_tests :: "tests_cfg option"
  cc_monitoring :: "monitoring_cfg option"

text \<open>The default takes the policy from its sources.\<close>

definition default_core_config ::
  "(string \<Rightarrow> toml option) \<Rightarrow> (string, string) hmap \<Rightarrow> file_system \<Rightarrow> core_config"
where
  "default_core_config parse env fs =
     \<lparr>cc_backend = default_backend_config, cc_policy = from_sources parse env fs None,
      cc_sandbox = default_sandbox_config, cc_git = default_git_config,
      cc_testing = default_testing_config, cc_journal = default_journal_settings,
      cc_runtime = default_runtime_config, cc_workspace = default_workspace_config,
      cc_orchestration = default_config, cc_tools = default_tools_config,
      cc_project = Some default_project_cfg, cc_approvals = Some default_approvals_cfg,
      cc_tests = Some default_tests_cfg, cc_monitoring = Some default_monitoring_cfg\<rparr>"

definition project_or_default :: "core_config \<Rightarrow> project_cfg" where
  "project_or_default c = (case cc_project c of Some p \<Rightarrow> p | None \<Rightarrow> default_project_cfg)"

definition approvals_or_default :: "core_config \<Rightarrow> approvals_cfg" where
  "approvals_or_default c = (case cc_approvals c of Some p \<Rightarrow> p | None \<Rightarrow> default_approvals_cfg)"

definition tests_or_default :: "core_config \<Rightarrow> tests_cfg" where
  "tests_or_default c = (case cc_tests c of Some p \<Rightarrow> p | None \<Rightarrow> default_tests_cfg)"

definition monitoring_or_default :: "core_config \<Rightarrow> monitoring_cfg" where
  "monitoring_or_default c = (case cc_monitoring c of Some p \<Rightarrow> p | None \<Rightarrow> default_monitoring_cfg)"

text \<open>Deserialising the orchestration section: a missing number or list reads as zero or empty,
  and most of these turn into the defaults.\<close>

definition orchestration_read :: "orchestration_config \<Rightarrow> orchestration_config" where
  "orchestration_read h =
     h\<lparr>default_timeout_secs :=
         (if default_timeout_secs h = 0 then 30 * 60 else default_timeout_secs h),
       default_watch_patterns :=
         (if default_watch_patterns h = [] then default_watch_patterns default_config
          else default_watch_patterns h),
       daemon_socket :=
         (case daemon_socket h of None \<Rightarrow> Some ''/tmp/devitd.sock'' | Some p \<Rightarrow> Some p),
       daemon_start_timeout_ms :=
         (if daemon_start_timeout_ms h = 0 then daemon_start_timeout_ms default_config
          else daemon_start_timeout_ms h)\<rparr>"

subsection \<open>The root of the workspace\<close>

definition expand_tilde :: "(string, string) hmap \<Rightarrow> string \<Rightarrow> string" where
  "expand_tilde env path =
     (if path = ''~'' then (case hm_get env ''HOME'' of None \<Rightarrow> path | Some home \<Rightarrow> home)
      else if prefix ''~/'' path
        then (case hm_get env ''HOME'' of None \<Rightarrow> path | Some home \<Rightarrow> path_join home (drop 2 path))
      else path)"

text \<open>\<open>current\<close> is the working directory, when it can be determined.\<close>

definition resolve_root ::
  "(string, string) hmap \<Rightarrow> string option \<Rightarrow> workspace_config \<Rightarrow> string + string"
where
  "resolve_root env current c =
     (case wcf_sandbox_root c of
        Some root \<Rightarrow> Inr (expand_tilde env root)
      | None \<Rightarrow>
          (case current of
             Some d \<Rightarrow> Inr d
           | None \<Rightarrow> Inl ''Unable to determine current directory''))"

subsection \<open>Checking, merging, loading and saving\<close>

definition note_if :: "bool \<Rightarrow> string \<Rightarrow> string list" where
  "note_if b m = (if b then [m] else [])"

definition config_errors :: "(string, string) hmap \<Rightarrow> file_system \<Rightarrow> core_config \<Rightarrow> string list" where
  "config_errors env fs c =
     note_if (trim (prj_name (project_or_default c)) = []) ''Project name cannot be empty''
     @ note_if (trim (prj_default_language (project_or_default c)) = []) ''Default language cannot be empty''
     @ note_if (apc_timeout_seconds (approvals_or_default c) = 0) ''Approval timeout must be greater than 0''
     @ note_if (1000000 < apc_max_auto_approve_size (approvals_or_default c))
         ''Max auto-approve size seems too large (>1MB)''
     @ note_if (tsc_default_timeout (tests_or_default c) = 0) ''Test timeout must be greater than 0''
     @ note_if (256 < tsc_parallel_jobs (tests_or_default c)) ''Parallel jobs seems too high (>256)''
     @ (if scf_enabled (cc_sandbox c)
        then (case scf_memory_limit_mb (cc_sandbox c) of None \<Rightarrow> []
              | Some m \<Rightarrow> note_if (m < 64) ''Sandbox memory limit too low (<64MB)'')
             @ (case scf_cpu_limit_secs (cc_sandbox c) of None \<Rightarrow> []
                | Some s \<Rightarrow> note_if (s = 0) ''Sandbox CPU limit must be greater than 0'')
        else [])
     @ note_if (jcf_enabled (cc_journal c) \<and> jcf_max_file_size_mb (cc_journal c) = 0)
         ''Journal max file size must be greater than 0''
     @ note_if (mon_metrics_enabled (monitoring_or_default c)
           \<and> mon_metrics_port (monitoring_or_default c) < 1024)
         ''Metrics port should be >= 1024 (non-privileged)''
     @ (case wcf_sandbox_root (cc_workspace c) of
          None \<Rightarrow> []
        | Some root \<Rightarrow>
            note_if (\<not> path_exists fs (components (expand_tilde env root)))
              (''Workspace sandbox_root does not exist: '' @ expand_tilde env root))"

definition config_validate ::
  "(string, string) hmap \<Rightarrow> file_system \<Rightarrow> core_config \<Rightarrow> string list + unit"
where
  "config_validate env fs c =
     (let errors = config_errors env fs c in if errors = [] then Inr () else Inl errors)"

definition config_merge :: "core_config \<Rightarrow> core_config \<Rightarrow> core_config" where
  "config_merge c other =
     c\<lparr>cc_backend := cc_backend other, cc_policy := cc_policy other, cc_sandbox := cc_sandbox other,
       cc_git := cc_git other, cc_testing := cc_testing other, cc_journal := cc_journal other,
       cc_runtime := cc_runtime other, cc_orchestration := cc_orchestration other,
       cc_project := cc_project other, cc_approvals := cc_approvals other,
       cc_tests := cc_tests other, cc_monitoring := cc_monitoring other\<rparr>"

fun join_errors :: "string list \<Rightarrow> string" where
  "join_errors [] = []"
| "join_errors [e] = e"
| "join_errors (e # es) = e @ '', '' @ join_errors es"

datatype config_file_error = CfIo | CfToml | CfInvalid string

text \<open>\<open>parse\<close> gives the fields as the file has them; \<open>from_file\<close> fills in the orchestration section.\<close>

definition config_from_file ::
  "(string \<Rightarrow> core_config option) \<Rightarrow> (string, string) hmap \<Rightarrow> file_system \<Rightarrow> string
    \<Rightarrow> config_file_error + core_config"
where
  "config_from_file parse env fs path =
     (case read_to_string fs (components path) of
        None \<Rightarrow> Inl CfIo
      | Some t \<Rightarrow>
          (case parse t of
             None \<Rightarrow> Inl CfToml
           | Some raw \<Rightarrow>
               (let c = raw\<lparr>cc_orchestration := orchestration_read (cc_orchestration raw)\<rparr>
                in case config_validate env fs c of
                     Inl es \<Rightarrow> Inl (CfInvalid (join_errors es))
                   | Inr _ \<Rightarrow> Inr c)))"

definition config_save ::
  "(core_config \<Rightarrow> string option) \<Rightarrow> (string, string) hmap \<Rightarrow> core_config \<Rightarrow> string \<Rightarrow> file_system
    \<Rightarrow> (config_file_error + unit) \<times> file_system"
where
  "config_save render env c path fs =
     (case config_validate env fs c of
        Inl es \<Rightarrow> (Inl (CfInvalid (join_errors es)), fs)
      | Inr _ \<Rightarrow>
          (case (case Std_Dir.parent_text path of None \<Rightarrow> Some fs | Some d \<Rightarrow> create_dir_all (components d) fs) of
             None \<Rightarrow> (Inl CfIo, fs)
           | Some fs1 \<Rightarrow>
               (case render c of
                  None \<Rightarrow> (Inl CfToml, fs1)
                | Some t \<Rightarrow>
                    (case write_text (components path) t fs1 of
                       None \<Rightarrow> (Inl CfIo, fs1)
                     | Some fs2 \<Rightarrow> (Inr (), fs2)))))"
end
