(* ===== verification/Config_Properties.thy ===== *)
theory Config_Properties
  imports Core_Config Local_Backend
begin

text \<open>
  Properties of the settings of the core: which source wins, what a check accepts, what a merge
  keeps, and a saved configuration read again.
\<close>

lemma given_simps [simp]:
  "given None x = x" "given (Some y) x = y"
  by (simp_all add: given_def)

subsection \<open>Which source wins\<close>

text \<open>The policy section of the file that is found: empty when there is none or when it cannot be read.\<close>

definition policy_section ::
  "(string \<Rightarrow> toml option) \<Rightarrow> (string, string) hmap \<Rightarrow> file_system \<Rightarrow> string option
    \<Rightarrow> (string \<times> toml) list"
where
  "policy_section parse env fs override =
     (case Option.bind (Option.bind (Option.bind (discover_config_path env fs override)
                (\<lambda>p. read_to_string fs (components p))) parse) toml_table of
        None \<Rightarrow> []
      | Some root \<Rightarrow> (case Option.bind (map_of root ''policy'') toml_table of None \<Rightarrow> [] | Some t \<Rightarrow> t))"

lemma apply_empty_table [simp]: "apply_policy_table [] c = c"
  by (simp add: apply_policy_table_def table_level_def table_profile_def)

lemma from_sources_section:
  "from_sources parse env fs override =
     apply_env_overrides env (apply_policy_table (policy_section parse env fs override) builtin_defaults)"
  by (auto simp: from_sources_def policy_section_def load_from_path_def
      split: option.splits bind_splits)

text \<open>The first source with a value.\<close>

fun first_given :: "'a option list \<Rightarrow> 'a \<Rightarrow> 'a" where
  "first_given [] d = d"
| "first_given (Some v # vs) d = v"
| "first_given (None # vs) d = first_given vs d"

lemma given_first: "given a (given b c) = first_given [a, b] c"
  by (cases a; cases b) simp_all


text \<open>A file that is named but cannot be read or parsed leaves the defaults, without an error.\<close>

lemma broken_file_is_the_defaults:
  assumes "\<And>c. load_from_path parse env fs path \<noteq> Inr c"
  shows "from_sources parse env fs (Some path) = apply_env_overrides env builtin_defaults"
proof -
  from assms obtain e where "load_from_path parse env fs path = Inl e"
    by (cases "load_from_path parse env fs path") auto
  then show ?thesis by (simp add: from_sources_def discover_config_path_def)
qed

text \<open>
  The documented files of the project, the user and the system, whatever they hold: where neither
  \<open>DEVIT_CONFIG\<close> nor one of the two files of the working directory is there, nothing is read.
\<close>

lemma documented_layers_are_not_read:
  assumes "hm_get env ''DEVIT_CONFIG'' = None"
    and "\<not> path_exists fs (components ''devit.toml'')"
    and "\<not> path_exists fs (components ''.devit/devit.toml'')"
  shows "from_sources parse env fs None = apply_env_overrides env builtin_defaults"
  using assms by (simp add: from_sources_def discover_config_path_def)

text \<open>A variable that is set and blank leaves no protected path.\<close>

lemma blank_variable_clears_protected_paths:
  assumes "hm_get env ''DEVIT_PROTECTED_PATHS'' = Some v" and "trim v = []"
  shows "pcf_protected_paths (from_sources parse env fs override) = []"
  using assms by (simp add: from_sources_section apply_env_overrides_def env_paths_def)

subsection \<open>Extensions\<close>

lemma distinct_remdups_adj_sorted:
  "sorted (xs :: 'a :: linorder list) \<Longrightarrow> distinct (remdups_adj xs)"
  by (induction xs rule: remdups_adj.induct) (auto simp: order.antisym)

lemma dedup_extensions_set: "set (dedup_extensions es) = set es"
  and dedup_extensions_sorted: "sorted (dedup_extensions es)"
  and dedup_extensions_distinct: "distinct (dedup_extensions es)"
  by (simp_all add: dedup_extensions_def sorted_remdups_adj distinct_remdups_adj_sorted)

text \<open>However a list of extensions is given, the one that is kept is in order, without repetition and
  depends only on the set of the cleaned extensions.\<close>

lemma extension_lists_are_canonical:
  "set (env_extensions v) = set (env_extensions w) \<longleftrightarrow> env_extensions v = env_extensions w"
proof
  assume eq: "set (env_extensions v) = set (env_extensions w)"
  have s: "sorted (env_extensions u) \<and> distinct (env_extensions u)" for u
    by (simp add: env_extensions_def Let_def dedup_extensions_sorted dedup_extensions_distinct)
  show "env_extensions v = env_extensions w"
    using eq s [of v] s [of w] by (simp add: sorted_distinct_set_unique)
qed simp

subsection \<open>Checking and merging\<close>

lemma note_if_empty [simp]: "note_if b m = [] \<longleftrightarrow> \<not> b"
  by (simp add: note_if_def)

lemma validate_accepts:
  "config_validate env fs c = Inr () \<longleftrightarrow> config_errors env fs c = []"
  by (simp add: config_validate_def Let_def)

lemma default_names_not_blank: "trim ''default'' = ''default''" "trim ''en'' = ''en''"
  by code_simp+

lemma default_configuration_is_valid:
  "config_validate env fs (default_core_config parse env fs) = Inr ()"
  by (simp add: validate_accepts config_errors_def default_core_config_def project_or_default_def
      approvals_or_default_def tests_or_default_def monitoring_or_default_def default_project_cfg_def
      default_approvals_cfg_def default_tests_cfg_def default_monitoring_cfg_def
      default_sandbox_config_def default_journal_settings_def default_workspace_config_def
      default_names_not_blank)

text \<open>What a check lets through.\<close>

lemma valid_configuration_bounds:
  assumes "config_validate env fs c = Inr ()"
  shows "0 < apc_timeout_seconds (approvals_or_default c)"
    and "apc_max_auto_approve_size (approvals_or_default c) \<le> 1000000"
    and "0 < tsc_default_timeout (tests_or_default c)"
    and "tsc_parallel_jobs (tests_or_default c) \<le> 256"
    and "scf_enabled (cc_sandbox c) \<Longrightarrow> scf_memory_limit_mb (cc_sandbox c) = Some m \<Longrightarrow> 64 \<le> m"
    and "scf_enabled (cc_sandbox c) \<Longrightarrow> scf_cpu_limit_secs (cc_sandbox c) = Some s \<Longrightarrow> 0 < s"
    and "mon_metrics_enabled (monitoring_or_default c) \<Longrightarrow> 1024 \<le> mon_metrics_port (monitoring_or_default c)"
    and "wcf_sandbox_root (cc_workspace c) = Some root
           \<Longrightarrow> path_exists fs (components (expand_tilde env root))"
  using assms by (auto simp: validate_accepts config_errors_def not_less)

text \<open>A merge takes every section of the other configuration but two, which stay.\<close>

lemma merge_sections:
  "config_merge c d = d\<lparr>cc_workspace := cc_workspace c, cc_tools := cc_tools c\<rparr>"
  by (simp add: config_merge_def)

lemma merge_idempotent: "config_merge (config_merge c d) d = config_merge c d"
  by (simp add: config_merge_def)

lemma merge_assoc: "config_merge (config_merge a b) c = config_merge a (config_merge b c)"
  by (simp add: config_merge_def)

text \<open>The file can change neither by merging: its workspace and tools are lost.\<close>

lemma merge_loses_the_other_workspace:
  "cc_workspace c \<noteq> cc_workspace d \<Longrightarrow> config_merge c d \<noteq> d"
  by (auto simp: config_merge_def dest: arg_cong [where f = cc_workspace])

subsection \<open>The orchestration section\<close>

text \<open>A section that does not name the limit reads it as zero, which a check lets through, and then
  no task can be delegated.\<close>

lemma orchestration_read_idempotent: "orchestration_read (orchestration_read h) = orchestration_read h"
  by (simp add: orchestration_read_def default_config_def split: option.splits)

lemma orchestration_read_default [simp]: "orchestration_read default_config = default_config"
  by (simp add: orchestration_read_def default_config_def)

lemma missing_limit_refuses_every_task:
  assumes "max_concurrent_tasks h = 0"
  shows "local_delegate (orchestration_read h) uuid now a s =
    (Inl ''Max delegated tasks reached, close some before creating new ones'', s)"
  using assms by (simp add: local_delegate_def orchestration_read_def)

subsection \<open>Saving and loading\<close>

lemma config_errors_without_root:
  assumes "wcf_sandbox_root (cc_workspace c) = None"
  shows "config_errors env fs' (c\<lparr>cc_orchestration := q\<rparr>) = config_errors env fs c"
  using assms by (simp add: config_errors_def project_or_default_def approvals_or_default_def
      tests_or_default_def monitoring_or_default_def)

text \<open>
  A configuration that was saved without an error is the one that is loaded from the same path,
  up to the defaults of its orchestration section, when the parser reads back what the writer of
  TOML wrote and the configuration names no sandbox root.
\<close>

lemma saved_configuration_is_loaded:
  assumes "config_save render env c path fs = (Inr (), fs')"
    and "render c = Some t" and "parse t = Some c"
    and "wcf_sandbox_root (cc_workspace c) = None"
  shows "config_from_file parse env fs' path =
    Inr (c\<lparr>cc_orchestration := orchestration_read (cc_orchestration c)\<rparr>)"
proof -
  obtain fs1 where w: "write_text (components path) t fs1 = Some fs'"
    and v: "config_validate env fs c = Inr ()"
    using assms(1,2) by (auto simp: config_save_def split: sum.splits option.splits prod.splits)
  have "config_errors env fs' (c\<lparr>cc_orchestration := orchestration_read (cc_orchestration c)\<rparr>) = []"
    using v unfolding validate_accepts config_errors_without_root [OF assms(4), where fs = fs] .
  then show ?thesis
    using assms(3) by (simp add: config_from_file_def write_then_read [OF w] config_validate_def Let_def)
qed
end
