(* ===== verification/Git_Tools.thy ===== *)
theory Git_Tools
  imports Str_Search Std_Dir Snapshot_Cache
begin

text \<open>
  The calls of git (crates/tools/src/git.rs), the messages that are proposed for a commit
  (crates/cli/src/commit_msg.rs) and the checks before one (crates/cli/src/precommit.rs).

  A run of \<open>git\<close> with its arguments and its input, and of a shell command, are parameters: each
  reads and changes the files.
\<close>

subsection \<open>Calls of git\<close>

text \<open>What a finished program gives: its code, none when a signal ended it, and its two outputs.\<close>

record program_end =
  pe_code :: "int option"
  pe_stdout :: string
  pe_stderr :: string

definition pe_success :: "program_end \<Rightarrow> bool" where
  "pe_success e = (pe_code e = Some 0)"

text \<open>None is a program that could not be run.\<close>

type_synonym git_runner = "string list \<Rightarrow> string \<Rightarrow> file_system \<Rightarrow> program_end option \<times> file_system"

definition is_git_available :: "git_runner \<Rightarrow> file_system \<Rightarrow> bool" where
  "is_git_available git fs = (fst (git [''--version''] [] fs) \<noteq> None)"

definition in_repo :: "git_runner \<Rightarrow> file_system \<Rightarrow> bool" where
  "in_repo git fs =
     (case fst (git [''rev-parse'', ''--is-inside-work-tree''] [] fs) of None \<Rightarrow> False | Some e \<Rightarrow> pe_success e)"

definition run_git_with_patch ::
  "git_runner \<Rightarrow> string list \<Rightarrow> string \<Rightarrow> file_system \<Rightarrow> (string + bool \<times> string) \<times> file_system"
where
  "run_git_with_patch git args patch fs =
     (case git args patch fs of
        (None, fs') \<Rightarrow> (Inl ''git could not be run'', fs')
      | (Some e, fs') \<Rightarrow>
          (Inr (pe_success e, if pe_success e then pe_stdout e else pe_stdout e @ pe_stderr e), fs'))"

definition apply_check :: "git_runner \<Rightarrow> string \<Rightarrow> file_system \<Rightarrow> (string + bool) \<times> file_system" where
  "apply_check git patch fs =
     (case run_git_with_patch git [''apply'', ''--check'', ''-''] patch fs of
        (Inl e, fs') \<Rightarrow> (Inl e, fs')
      | (Inr (ok, out), fs') \<Rightarrow>
          (if \<not> ok then Inl (''git apply --check failed:'' @ nl # out) else Inr True, fs'))"

record numstat_entry =
  ns_added :: nat
  ns_deleted :: nat
  ns_path :: string

text \<open>\<open>splitn(3)\<close> at tabs.\<close>

definition numstat_line :: "string \<Rightarrow> numstat_entry list" where
  "numstat_line line =
     (let num = (\<lambda>s. case parse_u64 s of None \<Rightarrow> 0 | Some n \<Rightarrow> n)
      in case split_once tab line of
           None \<Rightarrow> []
         | Some (a, rest) \<Rightarrow>
             (case split_once tab rest of
                None \<Rightarrow> []
              | Some (d, p) \<Rightarrow>
                  (if p = [] then [] else [\<lparr>ns_added = num a, ns_deleted = num d, ns_path = p\<rparr>])))"

definition numstat ::
  "git_runner \<Rightarrow> string \<Rightarrow> file_system \<Rightarrow> (string + numstat_entry list) \<times> file_system"
where
  "numstat git patch fs =
     (case run_git_with_patch git [''apply'', ''--numstat'', ''-''] patch fs of
        (Inl e, fs') \<Rightarrow> (Inl e, fs')
      | (Inr (ok, out), fs') \<Rightarrow>
          (if \<not> ok then Inl (''git apply --numstat failed:'' @ nl # out)
           else Inr (concat (map numstat_line (str_lines out))), fs'))"

text \<open>Each way of applying has a second try with a three-way merge.\<close>

definition apply_twice ::
  "git_runner \<Rightarrow> string list \<Rightarrow> string list \<Rightarrow> string \<Rightarrow> string \<Rightarrow> file_system
    \<Rightarrow> (string + bool) \<times> file_system"
where
  "apply_twice git args args3 what patch fs =
     (case run_git_with_patch git args patch fs of
        (Inl e, fs1) \<Rightarrow> (Inl e, fs1)
      | (Inr (True, _), fs1) \<Rightarrow> (Inr True, fs1)
      | (Inr (False, out), fs1) \<Rightarrow>
          (case run_git_with_patch git args3 patch fs1 of
             (Inl e, fs2) \<Rightarrow> (Inl e, fs2)
           | (Inr (True, _), fs2) \<Rightarrow> (Inr True, fs2)
           | (Inr (False, out2), fs2) \<Rightarrow>
               (Inl (what @ '' failed:'' @ nl # out @ nl # ''--- 3-way fallback ---'' @ nl # out2), fs2)))"

definition apply_index :: "git_runner \<Rightarrow> string \<Rightarrow> file_system \<Rightarrow> (string + bool) \<times> file_system" where
  "apply_index git =
     apply_twice git [''apply'', ''--index'', ''-''] [''apply'', ''--3way'', ''--index'', ''-'']
       ''git apply --index''"

definition apply_worktree :: "git_runner \<Rightarrow> string \<Rightarrow> file_system \<Rightarrow> (string + bool) \<times> file_system" where
  "apply_worktree git =
     apply_twice git [''apply'', ''-''] [''apply'', ''--3way'', ''-''] ''git apply (worktree)''"

definition head_short :: "git_runner \<Rightarrow> file_system \<Rightarrow> string option \<times> file_system" where
  "head_short git fs =
     (case git [''rev-parse'', ''--short'', ''HEAD''] [] fs of
        (None, fs') \<Rightarrow> (None, fs')
      | (Some e, fs') \<Rightarrow> (if pe_success e then Some (trim (pe_stdout e)) else None, fs'))"

subsection \<open>Messages for a commit\<close>

definition char_count :: "string \<Rightarrow> nat" where
  "char_count s = length (filter (\<lambda>c. \<not> is_continuation c) s)"

definition truncate_to :: "string \<Rightarrow> nat \<Rightarrow> string" where
  "truncate_to s n = (if char_count s \<le> n then s else take_chars n s)"

text \<open>The segments that all paths share from the start.\<close>

definition same_segment :: "string list list \<Rightarrow> nat \<Rightarrow> bool" where
  "same_segment parts i =
     (parts \<noteq> [] \<and> list_all (\<lambda>p. i < length p \<and> p ! i = hd parts ! i) parts)"

function common_segments :: "string list list \<Rightarrow> nat \<Rightarrow> nat" where
  "common_segments parts i = (if same_segment parts i then common_segments parts (Suc i) else i)"
  by pat_completeness auto
termination
  by (relation "measure (\<lambda>(parts, i). length (hd parts) - i)")
    (auto simp: same_segment_def list_all_iff intro!: diff_less_mono2 dest: bspec [OF _ hd_in_set])

declare common_segments.simps [simp del]

definition infer_scope :: "string list \<Rightarrow> string" where
  "infer_scope files =
     (let parts = map (split_char (CHR ''/'')) files
      in if parts = [] then ''repo''
         else let i = common_segments parts 0
              in if i = 0 then ''repo'' else hd parts ! (i - 1))"

definition infer_type :: "string list \<Rightarrow> string" where
  "infer_type files =
     (if list_ex (\<lambda>f. contains f ''test'' \<or> contains f ''tests/'') files then ''test''
      else if list_ex (\<lambda>f. ends_with f ''.md'' \<or> starts_with f ''docs/'') files then ''docs''
      else ''refactor'')"

definition infer_subject :: "string list \<Rightarrow> string \<Rightarrow> string \<Rightarrow> string" where
  "infer_subject files typ scope =
     (case files of
        [] \<Rightarrow> ''update''
      | f # _ \<Rightarrow>
          (if typ = ''docs'' then ''update '' @ scope @ '' docs''
           else if typ = ''test'' then ''update tests for '' @ scope
           else ''touch '' @ (case file_name f of None \<Rightarrow> f | Some n \<Rightarrow> n)))"

record message_input =
  mi_staged_paths :: "string list"
  mi_forced_type :: "string option"
  mi_forced_scope :: "string option"
  mi_max_subject :: nat
  mi_template_body :: "string option"
  mi_scopes_alias :: "(string, string) hmap option"

record message_output =
  mo_ctype :: string
  mo_scope :: "string option"
  mo_subject :: string
  mo_body :: string
  mo_footers :: "string list"

definition apply_alias :: "string option \<Rightarrow> (string, string) hmap option \<Rightarrow> string option" where
  "apply_alias scope alias =
     (case scope of
        None \<Rightarrow> None
      | Some s \<Rightarrow>
          (case alias of
             None \<Rightarrow> Some s
           | Some m \<Rightarrow>
               (case find (\<lambda>(p, _). starts_with s p \<or> contains s p) m of
                  None \<Rightarrow> Some s
                | Some (_, name) \<Rightarrow> Some name)))"

definition generate_struct :: "message_input \<Rightarrow> message_output" where
  "generate_struct i =
     (let files = mi_staged_paths i;
          scope_auto = infer_scope files;
          scope = apply_alias
            (case mi_forced_scope i of
               Some s \<Rightarrow> (if s = ''auto'' then Some scope_auto else Some s)
             | None \<Rightarrow> Some scope_auto) (mi_scopes_alias i);
          ctype = (case mi_forced_type i of
              None \<Rightarrow> infer_type files
            | Some t \<Rightarrow> (if t = ''auto'' then infer_type files else t));
          raw = infer_subject files ctype (case scope of None \<Rightarrow> ''repo'' | Some s \<Rightarrow> s)
      in \<lparr>mo_ctype = ctype, mo_scope = scope,
          mo_subject = truncate_to (rev (dropWhile (\<lambda>c. c = CHR ''.'') (rev raw))) (mi_max_subject i),
          mo_body = (case mi_template_body i of None \<Rightarrow> [] | Some b \<Rightarrow> b), mo_footers = []\<rparr>)"

record message_options =
  go_from_staged :: bool
  go_change_from :: "string option"
  go_typ :: "string option"
  go_scope :: "string option"
  go_with_template :: bool

definition output_lines :: "program_end option \<Rightarrow> string list" where
  "output_lines e =
     (case e of None \<Rightarrow> [] | Some p \<Rightarrow> (if pe_success p then str_lines (pe_stdout p) else []))"

definition changed_files :: "git_runner \<Rightarrow> bool \<Rightarrow> string option \<Rightarrow> file_system \<Rightarrow> string list" where
  "changed_files git staged base fs =
     output_lines (fst (git
       (if staged then [''diff'', ''--name-only'', ''--cached'']
        else [''diff'', ''--name-only'', (case base of None \<Rightarrow> ''HEAD~1'' | Some b \<Rightarrow> b) @ ''..HEAD'']) [] fs))"

definition generate_message :: "git_runner \<Rightarrow> message_options \<Rightarrow> file_system \<Rightarrow> string" where
  "generate_message git opts fs =
     (let files = changed_files git (go_from_staged opts) (go_change_from opts) fs;
          scope = (case go_scope opts of Some s \<Rightarrow> s | None \<Rightarrow> infer_scope files);
          typ = (case go_typ opts of Some t \<Rightarrow> t | None \<Rightarrow> infer_type files);
          head = typ @ ''('' @ scope @ ''): '' @ infer_subject files typ scope;
          truncated = truncate_to head 72
      in if go_with_template opts
         then truncated @ [nl, nl] @ ''- Impact: '' @ nl # ''- Risk: '' @ nl # ''- Tests: '' @ [nl]
         else truncated)"

end
