(* ===== verification/Precommit.thy ===== *)
theory Precommit
  imports Git_Tools
begin

text \<open>
  The checks before a commit (crates/cli/src/precommit.rs), with the parts of the configuration of
  the command line that they and the tools read (crates/common/src/lib.rs).

  A shell command under a time limit is a parameter: it reads and may change the files.
\<close>

subsection \<open>Configuration\<close>

record policy_cfg =
  po_approval :: string
  po_sandbox :: string
  po_profile :: "string option"
  po_approvals :: "(string, string) hmap option"

record precommit_cfg =
  pcm_rust :: bool
  pcm_javascript :: bool
  pcm_python :: bool
  pcm_additional :: "string list"
  pcm_fail_on :: "string list"
  pcm_allow_bypass_profiles :: "string list"

record commit_cfg =
  cmc_max_subject :: nat
  cmc_scopes_alias :: "(string, string) hmap"
  cmc_default_type :: "string option"
  cmc_template_body :: "string option"

record cli_config =
  cf_policy :: policy_cfg
  cf_footer :: bool
  cf_precommit :: "precommit_cfg option"
  cf_commit :: "commit_cfg option"

text \<open>The profile as both the checks and the tools read it.\<close>

definition profile_of :: "cli_config \<Rightarrow> string" where
  "profile_of cfg =
     to_lowercase (case po_profile (cf_policy cfg) of None \<Rightarrow> ''std'' | Some p \<Rightarrow> p)"

definition cfg_or_default :: "cli_config \<Rightarrow> precommit_cfg" where
  "cfg_or_default cfg =
     (case cf_precommit cfg of
        Some p \<Rightarrow> p
      | None \<Rightarrow>
          \<lparr>pcm_rust = True, pcm_javascript = True, pcm_python = True, pcm_additional = [],
           pcm_fail_on = [''rust'', ''javascript'', ''python''],
           pcm_allow_bypass_profiles = [''danger'']\<rparr>)"

subsection \<open>One check\<close>

record precommit_failure =
  pf_tool :: string
  pf_exit_code :: int
  pf_stderr :: string

text \<open>How a command ends: not started, by itself, or at the time limit.\<close>

datatype check_end = CheckNotStarted string | CheckEnded "int option" string | CheckTimedOut

type_synonym check_runner = "nat \<Rightarrow> string \<Rightarrow> file_system \<Rightarrow> check_end \<times> file_system"

definition check_timeout :: "(string, string) hmap \<Rightarrow> nat" where
  "check_timeout env =
     (case Option.bind (hm_get env ''DEVIT_TIMEOUT_SECS'') parse_u64 of None \<Rightarrow> 120 | Some n \<Rightarrow> n)"

definition check_outcome :: "string \<Rightarrow> check_end \<Rightarrow> precommit_failure + unit" where
  "check_outcome label e =
     (case e of
        CheckNotStarted m \<Rightarrow> Inl \<lparr>pf_tool = label, pf_exit_code = 127, pf_stderr = m\<rparr>
      | CheckEnded code err \<Rightarrow>
          (if code = Some 0 then Inr ()
           else Inl \<lparr>pf_tool = label, pf_exit_code = (case code of None \<Rightarrow> 1 | Some n \<Rightarrow> n), pf_stderr = err\<rparr>)
      | CheckTimedOut \<Rightarrow> Inl \<lparr>pf_tool = label, pf_exit_code = 124, pf_stderr = ''timeout''\<rparr>)"

type_synonym check = "file_system \<Rightarrow> (precommit_failure + unit) \<times> file_system"

definition run_with_timeout ::
  "check_runner \<Rightarrow> (string, string) hmap \<Rightarrow> string \<Rightarrow> string \<Rightarrow> check"
where
  "run_with_timeout shell env cmd label fs =
     (case shell (check_timeout env) cmd fs of (e, fs') \<Rightarrow> (check_outcome label e, fs'))"

text \<open>One check after another, until one fails.\<close>

definition then_check :: "check \<Rightarrow> check \<Rightarrow> check" where
  "then_check a b fs = (case a fs of (Inl f, fs') \<Rightarrow> (Inl f, fs') | (Inr _, fs') \<Rightarrow> b fs')"

definition no_check :: check where
  "no_check fs = (Inr (), fs)"

definition check_when :: "(file_system \<Rightarrow> bool) \<Rightarrow> check \<Rightarrow> check" where
  "check_when p c fs = (if p fs then c fs else (Inr (), fs))"

text \<open>A failure that does not block is forgotten.\<close>

definition blocking_when :: "bool \<Rightarrow> check \<Rightarrow> check" where
  "blocking_when b c fs =
     (case c fs of (Inl f, fs') \<Rightarrow> ((if b then Inl f else Inr ()), fs') | (Inr _, fs') \<Rightarrow> (Inr (), fs'))"

text \<open>A failure of the checks of Rust that does not block only loses its code.\<close>

definition rust_check :: "bool \<Rightarrow> check \<Rightarrow> check" where
  "rust_check b c fs =
     (case c fs of
        (Inl f, fs') \<Rightarrow> (Inl (if b then f else f\<lparr>pf_exit_code := 0\<rparr>), fs')
      | (Inr _, fs') \<Rightarrow> (Inr (), fs'))"

subsection \<open>All checks\<close>

definition file_there :: "string \<Rightarrow> file_system \<Rightarrow> bool" where
  "file_there p fs = path_exists fs (components p)"

definition has_prettier_config :: "file_system \<Rightarrow> bool" where
  "has_prettier_config fs =
     list_ex (\<lambda>p. file_there p fs)
       [''.prettierrc'', ''.prettierrc.json'', ''.prettierrc.js'', ''.prettierrc.cjs'',
        ''.prettierrc.yaml'', ''.prettierrc.yml'', ''prettier.config.js'', ''prettier.config.cjs'',
        ''package.json'']"

definition rust_checks :: "check_runner \<Rightarrow> (string, string) hmap \<Rightarrow> precommit_cfg \<Rightarrow> check" where
  "rust_checks shell env pc =
     check_when (\<lambda>fs. pcm_rust pc \<and> file_there ''Cargo.toml'' fs)
       (let b = (''rust'' \<in> set (pcm_fail_on pc))
        in then_check (rust_check b (run_with_timeout shell env ''cargo fmt --all -- --check'' ''fmt''))
             (rust_check b
               (run_with_timeout shell env ''cargo clippy --all-targets -- -D warnings'' ''clippy'')))"

definition javascript_checks :: "check_runner \<Rightarrow> (string, string) hmap \<Rightarrow> precommit_cfg \<Rightarrow> check" where
  "javascript_checks shell env pc =
     check_when (\<lambda>fs. pcm_javascript pc \<and> file_there ''package.json'' fs)
       (let b = (''javascript'' \<in> set (pcm_fail_on pc))
        in then_check
             (blocking_when b (run_with_timeout shell env ''npm run -s lint || npx eslint .'' ''eslint''))
             (check_when has_prettier_config
               (blocking_when b (run_with_timeout shell env ''npx prettier -c .'' ''prettier''))))"

definition python_checks :: "check_runner \<Rightarrow> (string, string) hmap \<Rightarrow> precommit_cfg \<Rightarrow> check" where
  "python_checks shell env pc =
     check_when (\<lambda>fs. pcm_python pc \<and>
         (file_there ''pyproject.toml'' fs \<or> file_there ''tox.ini'' fs \<or> file_there ''pytest.ini'' fs))
       (blocking_when (''python'' \<in> set (pcm_fail_on pc))
         (\<lambda>fs. run_with_timeout shell env
            (if file_there ''pyproject.toml'' fs then ''ruff check'' else ''ruff -q .'') ''ruff'' fs))"

definition cmake_checks :: "check_runner \<Rightarrow> (string, string) hmap \<Rightarrow> check" where
  "cmake_checks shell env =
     check_when (file_there ''CMakeLists.txt'')
       (blocking_when False (run_with_timeout shell env
          ''command -v cmake-lint >/dev/null 2>&1 && cmake-lint || true'' ''cmake-lint''))"

fun additional_checks ::
  "check_runner \<Rightarrow> (string, string) hmap \<Rightarrow> bool \<Rightarrow> nat \<Rightarrow> string list \<Rightarrow> check"
where
  "additional_checks shell env b i [] = no_check"
| "additional_checks shell env b i (cmd # cmds) =
     then_check
       (blocking_when b (run_with_timeout shell env cmd (''additional['' @ show_nat i @ '']'')))
       (additional_checks shell env b (Suc i) cmds)"

definition precommit_run :: "check_runner \<Rightarrow> (string, string) hmap \<Rightarrow> cli_config \<Rightarrow> check" where
  "precommit_run shell env cfg =
     (let pc = cfg_or_default cfg
      in then_check (rust_checks shell env pc)
          (then_check (javascript_checks shell env pc)
           (then_check (python_checks shell env pc)
            (then_check (cmake_checks shell env)
             (additional_checks shell env (''additional'' \<in> set (pcm_fail_on pc)) 0 (pcm_additional pc))))))"

definition bypass_allowed :: "cli_config \<Rightarrow> bool" where
  "bypass_allowed cfg =
     list_ex (\<lambda>p. to_lowercase p = profile_of cfg) (pcm_allow_bypass_profiles (cfg_or_default cfg))"

end
