(* ===== verification/Cli_Tools.thy ===== *)
theory Cli_Tools
  imports Precommit Json
begin

text \<open>
  The tools of the command line (crates/cli/src/main.rs, \<open>tool_call_json\<close> and \<open>tool_call_legacy\<close>,
  with crates/cli/src/test_runner.rs): applying a patch through checks, an approval, tests and a
  commit, and running a command in the sandbox.

  Parameters: git, shell commands, the answer of the user, hashes, the random key, the clock, the
  printer of JSON, the agent that words a subject, and the sandbox.
\<close>

datatype agent_end = AgentText string | AgentNothing | AgentPanic

record cli_env =
  ce_git :: git_runner
  ce_shell :: check_runner
  ce_vars :: "(string, string) hmap"
  ce_answer :: "string option"
  ce_agent :: "string \<Rightarrow> string \<Rightarrow> agent_end"
  ce_sha :: "string \<Rightarrow> string"
  ce_hmac :: "string \<Rightarrow> string \<Rightarrow> string"
  ce_key :: string
  ce_secs :: nat
  ce_millis :: nat
  ce_print :: "json \<Rightarrow> string"
  ce_sandbox :: "(string \<Rightarrow> policy_cfg \<Rightarrow> file_system \<Rightarrow> (string + int \<times> string) \<times> file_system) option"

datatype cli_tool_error = ToolFailed string | ToolPanicked

type_synonym 'a tool_run = "file_system \<Rightarrow> (cli_tool_error + 'a) \<times> file_system"

definition and_then :: "'a tool_run \<Rightarrow> ('a \<Rightarrow> 'b tool_run) \<Rightarrow> 'b tool_run" where
  "and_then m k fs = (case m fs of (Inl e, fs') \<Rightarrow> (Inl e, fs') | (Inr a, fs') \<Rightarrow> k a fs')"

definition tool_ok :: "'a \<Rightarrow> 'a tool_run" where
  "tool_ok a fs = (Inr a, fs)"

definition bail :: "string \<Rightarrow> 'a tool_run" where
  "bail m fs = (Inl (ToolFailed m), fs)"

definition run_call :: "(file_system \<Rightarrow> (string + 'a) \<times> file_system) \<Rightarrow> 'a tool_run" where
  "run_call f fs = (case f fs of (Inl m, fs') \<Rightarrow> (Inl (ToolFailed m), fs') | (Inr a, fs') \<Rightarrow> (Inr a, fs'))"

text \<open>A change of the files whose failure is ignored.\<close>

definition tool_try :: "(file_system \<Rightarrow> file_system option) \<Rightarrow> unit tool_run" where
  "tool_try f fs = (Inr (), case f fs of None \<Rightarrow> fs | Some fs' \<Rightarrow> fs')"

subsection \<open>Approval\<close>

definition requires_approval_tool :: "policy_cfg \<Rightarrow> string \<Rightarrow> bool \<Rightarrow> string \<Rightarrow> bool" where
  "requires_approval_tool policy tool yes action =
     (let eff = map lower_char
            (case Option.bind (po_approvals policy) (\<lambda>m. hm_get m (map lower_char tool)) of
               Some s \<Rightarrow> s | None \<Rightarrow> po_approval policy)
      in if eff = ''never'' then False
         else if eff = ''untrusted'' then True
         else if eff = ''on-request'' then \<not> yes
         else if eff = ''on-failure'' \<and> action = ''write'' then \<not> yes
         else if eff = ''on-failure'' then False
         else \<not> yes)"

definition ask_approval :: "cli_env \<Rightarrow> bool tool_run" where
  "ask_approval env fs =
     (case ce_answer env of
        None \<Rightarrow> (Inl (ToolFailed ''stdin''), fs)
      | Some line \<Rightarrow> (let ans = to_lowercase (trim line) in (Inr (ans = ''y'' \<or> ans = ''yes''), fs)))"

text \<open>\<open>if ask && !ask_approval()? { bail!(..) }\<close>\<close>

definition ask_when :: "cli_env \<Rightarrow> bool \<Rightarrow> unit tool_run" where
  "ask_when env needed =
     (if needed
      then and_then (ask_approval env) (\<lambda>ok. if ok then tool_ok () else bail ''Cancelled by user.'')
      else tool_ok ())"

definition ensure_git_repo :: "cli_env \<Rightarrow> unit tool_run" where
  "ensure_git_repo env fs =
     (if \<not> is_git_available (ce_git env) fs then bail ''git is not available in PATH.'' fs
      else if \<not> in_repo (ce_git env) fs
        then bail ''not inside a git repository (git rev-parse --is-inside-work-tree).'' fs
      else (Inr (), fs))"

subsection \<open>Attestation\<close>

definition ensure_devit_dir :: "file_system \<Rightarrow> file_system option" where
  "ensure_devit_dir fs =
     (if file_there ''.devit'' fs then Some fs else create_dir_all (components ''.devit'') fs)"

text \<open>The key is made on its first use.\<close>

definition hmac_key :: "cli_env \<Rightarrow> file_system \<Rightarrow> (string \<times> file_system) option" where
  "hmac_key env fs =
     (case ensure_devit_dir fs of
        None \<Rightarrow> None
      | Some fs1 \<Rightarrow>
          (let key_path = components ''.devit/hmac.key''
           in if path_exists fs1 key_path
              then map_option (\<lambda>k. (k, fs1)) (read_to_string fs1 key_path)
              else map_option (\<lambda>fs2. (ce_key env, fs2)) (write_text key_path (ce_key env) fs1)))"

definition attest_event :: "string \<Rightarrow> json" where
  "attest_event hash = JObj [(''Attest'', JObj [(''hash'', JStr hash)])]"

definition attest_journal_event :: "cli_env \<Rightarrow> json \<Rightarrow> file_system \<Rightarrow> file_system option" where
  "attest_journal_event env ev fs =
     (case hmac_key env fs of
        None \<Rightarrow> None
      | Some (key, fs1) \<Rightarrow>
          append_text (components ''.devit/journal.jsonl'')
            (ce_print env (JObj [(''ts'', JInt (int (ce_secs env))), (''event'', ev),
               (''sig'', JStr (ce_hmac env key (ce_print env ev)))]) @ [nl]) fs1)"

definition compute_call_attest ::
  "cli_env \<Rightarrow> string \<Rightarrow> json \<Rightarrow> file_system \<Rightarrow> (string \<times> file_system) option"
where
  "compute_call_attest env tool args fs =
     (case hmac_key env fs of
        None \<Rightarrow> None
      | Some (key, fs1) \<Rightarrow>
          Some (ce_hmac env key
             (tool @ '':'' @ ce_sha env (ce_print env args) @ '':'' @ show_nat (ce_millis env)), fs1))"

subsection \<open>The arguments of a patch\<close>

definition bool_arg :: "json \<Rightarrow> string \<Rightarrow> bool" where
  "bool_arg args key = (Option.bind (jget args key) as_bool = Some True)"

definition str_arg :: "json \<Rightarrow> string \<Rightarrow> string \<Rightarrow> string" where
  "str_arg args key d = (case get_str args key of None \<Rightarrow> d | Some s \<Rightarrow> s)"

text \<open>\<open>on\<close> and \<open>off\<close> decide; everything else takes the default.\<close>

definition on_off :: "string \<Rightarrow> bool \<Rightarrow> bool" where
  "on_off m d = (if m = ''on'' then True else if m = ''off'' then False else d)"

definition failure_json :: "precommit_failure \<Rightarrow> json" where
  "failure_json f =
     JObj [(''precommit_failed'', JBool True), (''tool'', JStr (pf_tool f)),
       (''exit_code'', JInt (pf_exit_code f)), (''stderr'', JStr (pf_stderr f))]"

definition approval_json :: "string \<Rightarrow> json" where
  "approval_json reason =
     JObj [(''approval_required'', JBool True), (''policy'', JStr ''on_request''),
       (''phase'', JStr ''pre''), (''reason'', JStr reason)]"

text \<open>Writing a report: the directory and the file, both without notice of a failure.\<close>

definition write_report :: "cli_env \<Rightarrow> string \<Rightarrow> json \<Rightarrow> unit tool_run" where
  "write_report env path v =
     and_then (tool_try (create_dir_all (components ''.devit/reports'')))
       (\<lambda>_. tool_try (write_text (components path) (ce_print env v)))"

definition precommit_only_run :: "cli_env \<Rightarrow> cli_config \<Rightarrow> json tool_run" where
  "precommit_only_run env cfg fs =
     (case precommit_run (ce_shell env) (ce_vars env) cfg fs of
        (Inr _, fs') \<Rightarrow> (Inr (JObj [(''precommit_ok'', JBool True)]), fs')
      | (Inl f, fs') \<Rightarrow> (Inl (ToolFailed (ce_print env (failure_json f))), fs'))"

definition precommit_gate :: "cli_env \<Rightarrow> cli_config \<Rightarrow> json \<Rightarrow> bool \<Rightarrow> unit tool_run" where
  "precommit_gate env cfg args yes =
     (let enabled = on_off (to_lowercase (str_arg args ''precommit'' ''auto'')) (profile_of cfg \<noteq> ''danger'')
      in if bool_arg args ''no_precommit'' \<and> enabled
         then (if \<not> yes \<or> \<not> bypass_allowed cfg
               then bail (ce_print env (approval_json ''precommit_bypass'')) else tool_ok ())
         else if enabled
         then (\<lambda>fs. case precommit_run (ce_shell env) (ce_vars env) cfg fs of
                 (Inl f, fs1) \<Rightarrow>
                   and_then (write_report env ''.devit/reports/precommit.json''
                       (JObj [(''precommit_failed'', JBool True), (''tool'', JStr (pf_tool f)),
                          (''exit_code'', JInt (pf_exit_code f))]))
                     (\<lambda>_. bail (ce_print env (failure_json f))) fs1
               | (Inr _, fs1) \<Rightarrow>
                   write_report env ''.devit/reports/precommit.json'' (JObj [(''ok'', JBool True)]) fs1)
         else tool_ok ())"

subsection \<open>Applying and testing\<close>

definition apply_patch_stage :: "cli_env \<Rightarrow> cli_config \<Rightarrow> string \<Rightarrow> string \<Rightarrow> bool \<Rightarrow> unit tool_run" where
  "apply_patch_stage env cfg patch m yes =
     and_then (ask_when env (requires_approval_tool (cf_policy cfg) ''git'' yes ''write''))
       (\<lambda>_. and_then
          (run_call (if m = ''worktree'' then apply_worktree (ce_git env) patch else apply_index (ce_git env) patch))
          (\<lambda>ok. if ok then tool_ok () else bail (''git apply failed ('' @ m @ '')'')))"

record impacted_opts =
  io_changed_from :: "string option"
  io_changed_paths :: "string list option"
  io_max_jobs :: "nat option"
  io_framework :: "string option"
  io_timeout_secs :: "nat option"

record impacted_report =
  ir_framework :: string
  ir_ran :: nat
  ir_failed :: nat
  ir_logs_path :: string

text \<open>The runner is a placeholder: it runs nothing.\<close>

definition run_impacted :: "impacted_opts \<Rightarrow> string + impacted_report" where
  "run_impacted opts =
     Inr \<lparr>ir_framework = (case io_framework opts of None \<Rightarrow> ''auto'' | Some f \<Rightarrow> f), ir_ran = 0,
          ir_failed = 0, ir_logs_path = ''.devit/reports/junit.xml''\<rparr>"

definition numstat_or_empty :: "cli_env \<Rightarrow> string \<Rightarrow> numstat_entry list tool_run" where
  "numstat_or_empty env patch fs =
     (case numstat (ce_git env) patch fs of (Inl _, fs') \<Rightarrow> (Inr [], fs') | (Inr ns, fs') \<Rightarrow> (Inr ns, fs'))"

definition revert_worktree :: "cli_env \<Rightarrow> string \<Rightarrow> bool tool_run" where
  "revert_worktree env patch fs =
     (case ce_git env [''apply'', ''-R'', ''-''] patch fs of
        (None, fs') \<Rightarrow> (Inr False, fs')
      | (Some e, fs') \<Rightarrow> (Inr (pe_success e), fs'))"

definition tests_report :: string where
  "tests_report = ''.devit/reports/junit.xml''"

definition tests_stage :: "cli_env \<Rightarrow> cli_config \<Rightarrow> json \<Rightarrow> string \<Rightarrow> unit tool_run" where
  "tests_stage env cfg args patch =
     (if \<not> on_off (to_lowercase (str_arg args ''tests_impacted'' ''auto'')) (profile_of cfg \<noteq> ''danger'')
      then tool_ok ()
      else and_then (numstat_or_empty env patch) (\<lambda>ns.
        case run_impacted \<lparr>io_changed_from = None, io_changed_paths = Some (map ns_path ns),
               io_max_jobs = None, io_framework = Some ''auto'',
               io_timeout_secs = Some (case get_u64 args ''tests_timeout_secs'' of None \<Rightarrow> 300 | Some n \<Rightarrow> n)\<rparr> of
          Inr rep \<Rightarrow>
            and_then (tool_try (write_text (components ''.devit/reports/impacted.json'')
                (ce_print env (JObj [(''ok'', JBool True), (''framework'', JStr (ir_framework rep)),
                   (''ran'', JInt (int (ir_ran rep))), (''failed'', JInt (int (ir_failed rep))),
                   (''logs_path'', JStr (ir_logs_path rep))]))))
              (\<lambda>_. if ir_failed rep = 0 then tool_ok ()
                 else if bool_arg args ''allow_apply_on_tests_fail''
                   then bail (ce_print env (JObj [(''tests_failed'', JBool True), (''report'', JStr tests_report)]))
                 else and_then (revert_worktree env patch)
                   (\<lambda>reverted. bail (ce_print env (JObj [(''tests_failed'', JBool True),
                      (''reverted'', JBool reverted), (''report'', JStr tests_report)]))))
        | Inl s \<Rightarrow>
            (if contains s (CHR 0x22 # ''timeout'' @ CHR 0x22 # '':true'')
             then bail (ce_print env (JObj [(''timeout'', JBool True)]))
             else bail (ce_print env (JObj [(''tests_failed'', JBool True), (''report'', JStr tests_report)])))))"

subsection \<open>Committing\<close>

record commit_plan =
  cp_message :: message_output
  cp_full :: string

definition head_lines :: "nat \<Rightarrow> string \<Rightarrow> string" where
  "head_lines n s = join_lines (take n (str_lines s))"

definition patch_summary :: "numstat_entry list \<Rightarrow> string" where
  "patch_summary ns =
     show_nat (length ns) @ '' file(s), +'' @ show_nat (sum_list (map ns_added ns))
       @ '', -'' @ show_nat (sum_list (map ns_deleted ns))"

text \<open>A short subject is worded by the agent, when it answers.\<close>

definition word_subject :: "cli_env \<Rightarrow> string \<Rightarrow> message_output \<Rightarrow> message_output tool_run" where
  "word_subject env patch msg =
     (if trim (mo_subject msg) = [] \<or> length (mo_subject msg) < 12
      then and_then (numstat_or_empty env patch) (\<lambda>ns fs.
             case ce_agent env (patch_summary ns) (head_lines 120 patch) of
               AgentText s \<Rightarrow>
                 (Inr (if trim s = [] then msg else msg\<lparr>mo_subject := trim s\<rparr>), fs)
             | AgentNothing \<Rightarrow> (Inr msg, fs)
             | AgentPanic \<Rightarrow> (Inl ToolPanicked, fs))
      else tool_ok msg)"

definition message_text :: "message_output \<Rightarrow> string" where
  "message_text msg =
     (let subject_line =
            (case mo_scope msg of
               Some sc \<Rightarrow> mo_ctype msg @ ''('' @ sc @ ''): '' @ mo_subject msg
             | None \<Rightarrow> mo_ctype msg @ '': '' @ mo_subject msg);
          foot = (if mo_footers msg = [] then [] else nl # join_lines (mo_footers msg))
      in if trim (mo_body msg) = [] then subject_line @ foot @ [nl]
         else subject_line @ [nl, nl] @ trim (mo_body msg) @ foot @ [nl])"

definition staged_paths :: "cli_env \<Rightarrow> file_system \<Rightarrow> string list \<times> file_system" where
  "staged_paths env fs =
     (case ce_git env [''diff'', ''--name-only'', ''--cached''] [] fs of
        (None, fs') \<Rightarrow> ([], fs')
      | (Some e, fs') \<Rightarrow> (str_lines (pe_stdout e), fs'))"

definition body_template :: "cli_config \<Rightarrow> string option \<Rightarrow> file_system \<Rightarrow> string option" where
  "body_template cfg given fs =
     (case given of
        Some s \<Rightarrow> Some s
      | None \<Rightarrow>
          Option.bind (Option.bind (cf_commit cfg) cmc_template_body)
            (\<lambda>p. read_to_string fs (components p)))"

definition add_footer :: "cli_env \<Rightarrow> cli_config \<Rightarrow> json \<Rightarrow> string \<Rightarrow> message_output \<Rightarrow> message_output tool_run" where
  "add_footer env cfg args patch msg =
     (if cf_footer cfg \<and> \<not> bool_arg args ''no_provenance_footer''
      then and_then (tool_try (attest_journal_event env (attest_event (ce_sha env patch))))
             (\<lambda>_. tool_ok (msg\<lparr>mo_footers := mo_footers msg @ [''DevIt-Attest: '' @ ce_sha env patch]\<rparr>))
      else tool_ok msg)"

text \<open>\<open>given\<close> is the template that the call names, read when the call was read.\<close>

definition plan_message ::
  "cli_env \<Rightarrow> cli_config \<Rightarrow> json \<Rightarrow> string option \<Rightarrow> string \<Rightarrow> message_output tool_run"
where
  "plan_message env cfg args given patch fs =
     (case staged_paths env fs of
        (staged, fs1) \<Rightarrow>
          and_then (word_subject env patch (generate_struct
              \<lparr>mi_staged_paths = staged, mi_forced_type = get_str args ''commit_type'',
               mi_forced_scope = get_str args ''commit_scope'',
               mi_max_subject = (case cf_commit cfg of None \<Rightarrow> 72 | Some c \<Rightarrow> cmc_max_subject c),
               mi_template_body = body_template cfg given fs1,
               mi_scopes_alias = map_option cmc_scopes_alias (cf_commit cfg)\<rparr>))
            (add_footer env cfg args patch) fs1)"

definition commit_message_path :: string where
  "commit_message_path = ''.git/COMMIT_EDITMSG''"

definition commit_meta :: "message_output \<Rightarrow> bool \<Rightarrow> json \<Rightarrow> json" where
  "commit_meta msg committed sha =
     JObj [(''subject'', JStr (mo_subject msg)), (''type'', JStr (mo_ctype msg)),
       (''scope'', jstr_opt (mo_scope msg)), (''committed'', JBool committed), (''sha'', sha)]"

definition commit_enabled :: "cli_config \<Rightarrow> json \<Rightarrow> bool" where
  "commit_enabled cfg args =
     on_off (to_lowercase (str_arg args ''commit'' ''auto'')) (profile_of cfg = ''safe'' \<or> profile_of cfg = ''std'')"

definition message_only :: "cli_env \<Rightarrow> json \<Rightarrow> message_output \<Rightarrow> json tool_run" where
  "message_only env args msg =
     and_then (if bool_arg args ''commit_dry_run'' then tool_ok ()
               else tool_try (write_text (components commit_message_path) (message_text msg)))
       (\<lambda>_. and_then (write_report env ''.devit/reports/commit_meta.json'' (commit_meta msg False JNull))
         (\<lambda>_. tool_ok (JObj [(''ok'', JBool True), (''committed'', JBool False),
            (''type'', JStr (mo_ctype msg)), (''scope'', jstr_opt (mo_scope msg)),
            (''subject'', JStr (mo_subject msg)), (''msg_path'', JStr commit_message_path)])))"

text \<open>\<open>git commit -F\<close>.\<close>

definition git_commit :: "cli_env \<Rightarrow> bool \<Rightarrow> unit tool_run" where
  "git_commit env signoff fs =
     (case ce_git env ([''commit'', ''-F'', commit_message_path] @ (if signoff then [''--signoff''] else [])) [] fs of
        (None, fs') \<Rightarrow> (Inl (ToolFailed ''git could not be run''), fs')
      | (Some e, fs') \<Rightarrow>
          (if pe_success e then (Inr (), fs')
           else (Inl (ToolFailed (ce_print env (JObj [(''git_commit_failed'', JBool True),
                   (''exit_code'', JInt (case pe_code e of None \<Rightarrow> 1 | Some n \<Rightarrow> n)),
                   (''stderr'', JStr (pe_stderr e))]))), fs')))"

definition do_commit :: "cli_env \<Rightarrow> json \<Rightarrow> message_output \<Rightarrow> json tool_run" where
  "do_commit env args msg =
     and_then (\<lambda>fs. case write_text (components commit_message_path) (message_text msg) fs of
                 None \<Rightarrow> bail ''commit_msg_failed: write_failed'' fs
               | Some fs' \<Rightarrow> (Inr (), fs'))
       (\<lambda>_. and_then (git_commit env (bool_arg args ''signoff''))
         (\<lambda>_ fs. case head_short (ce_git env) fs of
            (h, fs1) \<Rightarrow>
              (let sha = JStr (case h of None \<Rightarrow> [] | Some s \<Rightarrow> s)
               in and_then (write_report env ''.devit/reports/commit_meta.json'' (commit_meta msg True sha))
                    (\<lambda>_. tool_ok (JObj [(''ok'', JBool True), (''committed'', JBool True), (''commit_sha'', sha),
                       (''type'', JStr (mo_ctype msg)), (''scope'', jstr_opt (mo_scope msg)),
                       (''subject'', JStr (mo_subject msg)), (''msg_path'', JStr commit_message_path)])) fs1)))"

definition commit_stage ::
  "cli_env \<Rightarrow> cli_config \<Rightarrow> json \<Rightarrow> bool \<Rightarrow> string option \<Rightarrow> string \<Rightarrow> json tool_run"
where
  "commit_stage env cfg args yes given patch =
     and_then (plan_message env cfg args given patch) (\<lambda>msg.
       if bool_arg args ''commit_dry_run'' \<or> \<not> commit_enabled cfg args then message_only env args msg
       else if profile_of cfg = ''safe'' \<and> \<not> yes then bail (ce_print env (approval_json ''commit''))
       else do_commit env args msg)"

subsection \<open>The tools\<close>

text \<open>An unreadable template that the call names is the empty text.\<close>

definition named_template :: "json \<Rightarrow> file_system \<Rightarrow> string option" where
  "named_template args fs =
     map_option (\<lambda>p. case read_to_string fs (components p) of None \<Rightarrow> [] | Some t \<Rightarrow> t)
       (get_str args ''commit_body_template'')"

definition fs_patch_apply :: "cli_env \<Rightarrow> cli_config \<Rightarrow> json \<Rightarrow> bool \<Rightarrow> json tool_run" where
  "fs_patch_apply env cfg args yes =
     and_then (ensure_git_repo env) (\<lambda>_ fs0.
       (if to_lowercase (po_sandbox (cf_policy cfg)) = ''read-only''
        then bail ''policy.sandbox=read-only: apply denied (no write operations allowed)''
        else
          (let patch = str_arg args ''patch'' []; given = named_template args fs0
           in if patch = [] then bail (''fs_patch_apply: '' @ [CHR 0x27] @ ''patch'' @ [CHR 0x27]
                 @ '' field is required (diff content)'')
              else if bool_arg args ''precommit_only'' then precommit_only_run env cfg
              else and_then (precommit_gate env cfg args yes)
                (\<lambda>_. and_then (run_call (apply_check (ce_git env) patch))
                  (\<lambda>_. if bool_arg args ''check_only'' then tool_ok (JObj [(''checked'', JBool True)])
                     else and_then (apply_patch_stage env cfg patch (str_arg args ''mode'' ''index'') yes)
                       (\<lambda>_. and_then (tests_stage env cfg args patch)
                         (\<lambda>_. commit_stage env cfg args yes given patch)))))) fs0)"

definition sandboxed_shell ::
  "cli_env \<Rightarrow> cli_config \<Rightarrow> string \<Rightarrow> (int \<times> string) tool_run"
where
  "sandboxed_shell env cfg cmd =
     (case ce_sandbox env of
        None \<Rightarrow> tool_ok (1, ''Sandbox feature not enabled'')
      | Some run \<Rightarrow> run_call (run cmd (cf_policy cfg)))"

text \<open>The attestation of a call, whose failures are ignored.\<close>

definition attest_call :: "cli_env \<Rightarrow> json \<Rightarrow> unit tool_run" where
  "attest_call env args fs =
     (case compute_call_attest env ''shell_exec'' args fs of
        None \<Rightarrow> (Inr (), fs)
      | Some (hash, fs1) \<Rightarrow> tool_try (attest_journal_event env (attest_event hash)) fs1)"

definition shell_exec :: "cli_env \<Rightarrow> cli_config \<Rightarrow> json \<Rightarrow> bool \<Rightarrow> json tool_run" where
  "shell_exec env cfg args yes =
     (let cmd = str_arg args ''cmd'' []
      in if cmd = [] then bail (''shell_exec: '' @ [CHR 0x27] @ ''cmd'' @ [CHR 0x27] @ '' field is required'')
         else and_then (ask_when env (requires_approval_tool (cf_policy cfg) ''shell'' yes ''exec''))
           (\<lambda>_. and_then (sandboxed_shell env cfg cmd)
             (\<lambda>(code, out). and_then (attest_call env args)
               (\<lambda>_. tool_ok (JObj [(''exit_code'', JInt code), (''output'', JStr out)])))))"

definition tool_call_json :: "cli_env \<Rightarrow> cli_config \<Rightarrow> string \<Rightarrow> json \<Rightarrow> bool \<Rightarrow> json tool_run" where
  "tool_call_json env cfg name args yes =
     (if name = ''fs_patch_apply'' then fs_patch_apply env cfg args yes
      else if name = ''shell_exec'' then shell_exec env cfg args yes
      else bail (''unknown tool: '' @ name))"

subsection \<open>The tools with plain arguments\<close>

text \<open>\<open>input\<close> is the file of the patch, \<open>-\<close> the standard input \<open>stdin\<close>.\<close>

definition read_patch :: "string option \<Rightarrow> string \<Rightarrow> string tool_run" where
  "read_patch stdin input fs =
     (case (if input = ''-'' then stdin else read_to_string fs (components input)) of
        None \<Rightarrow> (Inl (ToolFailed ''unreadable patch''), fs)
      | Some s \<Rightarrow> (Inr s, fs))"

definition legacy_gate :: "cli_env \<Rightarrow> cli_config \<Rightarrow> bool \<Rightarrow> bool \<Rightarrow> unit tool_run" where
  "legacy_gate env cfg yes no_precommit =
     (if no_precommit
      then (if \<not> yes \<or> \<not> bypass_allowed cfg
            then bail (ce_print env (approval_json ''precommit_bypass'')) else tool_ok ())
      else (\<lambda>fs. case precommit_run (ce_shell env) (ce_vars env) cfg fs of
              (Inl f, fs1) \<Rightarrow> (Inl (ToolFailed (ce_print env (failure_json f))), fs1)
            | (Inr _, fs1) \<Rightarrow> (Inr (), fs1)))"

definition legacy_tests :: "cli_env \<Rightarrow> cli_config \<Rightarrow> string \<Rightarrow> unit tool_run" where
  "legacy_tests env cfg patch =
     (if profile_of cfg = ''danger'' then tool_ok ()
      else and_then (numstat_or_empty env patch) (\<lambda>ns.
        case run_impacted \<lparr>io_changed_from = None, io_changed_paths = Some (map ns_path ns),
               io_max_jobs = None, io_framework = Some ''auto'', io_timeout_secs = Some 300\<rparr> of
          Inr rep \<Rightarrow>
            (if ir_failed rep = 0 then tool_ok ()
             else bail (ce_print env (JObj [(''tests_failed'', JBool True), (''report'', JStr tests_report)])))
        | Inl _ \<Rightarrow> tool_ok ()))"

definition legacy_patch_apply ::
  "cli_env \<Rightarrow> cli_config \<Rightarrow> string option \<Rightarrow> string \<Rightarrow> bool \<Rightarrow> bool \<Rightarrow> bool \<Rightarrow> unit tool_run"
where
  "legacy_patch_apply env cfg stdin input yes no_precommit precommit_only =
     and_then (ensure_git_repo env) (\<lambda>_.
       if to_lowercase (po_sandbox (cf_policy cfg)) = ''read-only''
       then bail ''policy.sandbox=read-only: apply denied (no write operations allowed)''
       else and_then (read_patch stdin input) (\<lambda>patch.
         if precommit_only then and_then (precommit_only_run env cfg) (\<lambda>_. tool_ok ())
         else and_then (legacy_gate env cfg yes no_precommit)
           (\<lambda>_. and_then (run_call (apply_check (ce_git env) patch))
             (\<lambda>_. and_then (ask_when env (requires_approval_tool (cf_policy cfg) ''git'' yes ''write''))
               (\<lambda>_. and_then (run_call (apply_index (ce_git env) patch))
                 (\<lambda>ok. if \<not> ok then bail ''git apply --index failed (patch-only).''
                    else and_then (legacy_tests env cfg patch)
                      (\<lambda>_ fs. case attest_journal_event env (attest_event (ce_sha env patch)) fs of
                         None \<Rightarrow> bail ''journal'' fs
                       | Some fs' \<Rightarrow> (Inr (), fs'))))))))"

definition legacy_shell_exec :: "cli_env \<Rightarrow> cli_config \<Rightarrow> string \<Rightarrow> bool \<Rightarrow> unit tool_run" where
  "legacy_shell_exec env cfg input yes =
     and_then (ask_when env (requires_approval_tool (cf_policy cfg) ''shell'' yes ''exec'')) (\<lambda>_.
       if input = ''-'' then bail ''shell_exec requires a command string as input''
       else and_then (sandboxed_shell env cfg input) (\<lambda>(code, _).
         if code \<noteq> 0 then bail (''shell_exec exit code '' @ (if code < 0 then ''-'' else []) @ show_nat (nat \<bar>code\<bar>))
         else attest_call env (JObj [(''cmd'', JStr input)])))"

definition tool_call_legacy ::
  "cli_env \<Rightarrow> cli_config \<Rightarrow> string option \<Rightarrow> string \<Rightarrow> string \<Rightarrow> bool \<Rightarrow> bool \<Rightarrow> bool \<Rightarrow> bool \<Rightarrow> unit tool_run"
where
  "tool_call_legacy env cfg stdin name input yes no_precommit precommit_only json_only =
     (if json_only then bail (''--json-only requires '' @ [CHR 0x27] @ ''-'' @ [CHR 0x27]
             @ '' as tool name with JSON stdin'')
      else if name = ''fs_patch_apply'' then legacy_patch_apply env cfg stdin input yes no_precommit precommit_only
      else if name = ''shell_exec'' then legacy_shell_exec env cfg input yes
      else bail (''unknown tool: '' @ name))"

text \<open>A call as it arrives on the standard input: \<open>yes\<close> of the request wins over the flag.\<close>

definition call_from_json :: "cli_env \<Rightarrow> cli_config \<Rightarrow> json \<Rightarrow> bool \<Rightarrow> file_system \<Rightarrow> (cli_tool_error + json) \<times> file_system" where
  "call_from_json env cfg req yes =
     tool_call_json env cfg (str_arg req ''name'' []) (case jget req ''args'' of None \<Rightarrow> JObj [] | Some a \<Rightarrow> a)
       (case Option.bind (jget req ''yes'') as_bool of None \<Rightarrow> yes | Some b \<Rightarrow> b)"
end
