(* ===== verification/Cli_Properties.thy ===== *)
theory Cli_Properties
  imports Cli_Tools
begin

text \<open>
  Properties of the tools of the command line: what stands between a patch and the repository, what
  a commit needs, and what the checks and the messages do.
\<close>

subsection \<open>Runs\<close>

lemma and_then_Inr:
  "and_then m k fs = (Inr b, fs') \<longleftrightarrow> (\<exists>a fs1. m fs = (Inr a, fs1) \<and> k a fs1 = (Inr b, fs'))"
  by (auto simp: and_then_def split: prod.splits sum.splits)

lemma and_then_simps [simp]:
  "m fs = (Inl e, fs1) \<Longrightarrow> and_then m k fs = (Inl e, fs1)"
  "m fs = (Inr a, fs1) \<Longrightarrow> and_then m k fs = k a fs1"
  by (simp_all add: and_then_def)

lemma tool_ok_apply [simp]: "tool_ok a fs = (Inr a, fs)"
  by (simp add: tool_ok_def)

lemma bail_apply [simp]: "bail m fs = (Inl (ToolFailed m), fs)"
  by (simp add: bail_def)

lemma tool_try_apply: "tool_try f fs = (Inr (), case f fs of None \<Rightarrow> fs | Some fs' \<Rightarrow> fs')"
  by (simp add: tool_try_def)

lemma write_report_ok: "\<exists>fs'. write_report env path v fs = (Inr (), fs')"
  by (simp add: write_report_def and_then_def tool_try_def)

subsection \<open>Approval\<close>

text \<open>\<open>never\<close> asks for nothing and \<open>untrusted\<close> asks always, also with \<open>--yes\<close>; the rest is decided by
  \<open>--yes\<close>, but \<open>on-failure\<close> asks only for a write.\<close>

definition effective_approval :: "policy_cfg \<Rightarrow> string \<Rightarrow> string" where
  "effective_approval policy tool =
     map lower_char (case Option.bind (po_approvals policy) (\<lambda>m. hm_get m (map lower_char tool)) of
       Some s \<Rightarrow> s | None \<Rightarrow> po_approval policy)"

lemma requires_approval_cases:
  "requires_approval_tool policy tool yes action \<longleftrightarrow>
     effective_approval policy tool \<noteq> ''never'' \<and>
     (effective_approval policy tool = ''untrusted'' \<or>
      \<not> yes \<and> (effective_approval policy tool = ''on-failure'' \<longrightarrow> action = ''write''))"
  by (auto simp: requires_approval_tool_def effective_approval_def Let_def)

definition refuses :: "string option \<Rightarrow> bool" where
  "refuses a = (case a of None \<Rightarrow> True | Some line \<Rightarrow> to_lowercase (trim line) \<notin> {''y'', ''yes''})"

lemma ask_when_ok: "ask_when env needed fs = (Inr (), fs') \<longleftrightarrow> fs' = fs \<and> (needed \<longrightarrow> \<not> refuses (ce_answer env))"
  by (auto simp: ask_when_def ask_approval_def refuses_def and_then_def Let_def split: option.splits if_splits)

lemma ask_when_refused:
  "needed \<Longrightarrow> refuses (ce_answer env) \<Longrightarrow> \<exists>e. ask_when env needed = (\<lambda>fs. (Inl e, fs))"
  by (auto simp: fun_eq_iff ask_when_def ask_approval_def refuses_def and_then_def Let_def split: option.splits)

subsection \<open>What stands before a patch\<close>

text \<open>The calls of git that only read.\<close>

definition git_reads :: "string list set" where
  "git_reads =
     {[''--version''], [''rev-parse'', ''--is-inside-work-tree''], [''apply'', ''--check'', ''-''],
      [''apply'', ''--numstat'', ''-''], [''diff'', ''--name-only'', ''--cached''],
      [''rev-parse'', ''--short'', ''HEAD'']}"

definition same_reads :: "git_runner \<Rightarrow> git_runner \<Rightarrow> bool" where
  "same_reads g h = (\<forall>args. args \<in> git_reads \<longrightarrow> g args = h args)"

lemma same_reads_repo:
  assumes "same_reads g h"
  shows "ensure_git_repo (env\<lparr>ce_git := g\<rparr>) = ensure_git_repo (env\<lparr>ce_git := h\<rparr>)"
    and "apply_check g = apply_check h"
  using assms by (auto simp: fun_eq_iff same_reads_def git_reads_def ensure_git_repo_def is_git_available_def
      in_repo_def apply_check_def run_git_with_patch_def)

lemma gate_ignores_git:
  "precommit_gate (env\<lparr>ce_git := g\<rparr>) = precommit_gate env"
  "precommit_only_run (env\<lparr>ce_git := g\<rparr>) = precommit_only_run env"
  by (simp_all add: fun_eq_iff precommit_gate_def precommit_only_run_def write_report_def Let_def
      split: sum.splits prod.splits)

lemma ensure_git_repo_files: "\<exists>r. ensure_git_repo env fs = (r, fs)"
  by (simp add: ensure_git_repo_def)

text \<open>
  C34: a patch that a check before the commit stops, or whose approval is needed and refused, never
  reaches the repository: the whole run, with its result and all files, is the same for any other
  git that agrees on the calls that only read, so no call that applies, reverts or commits matters.
\<close>

theorem patch_waits_for_checks_and_approval:
  assumes "same_reads g h"
    and "fst (precommit_gate env cfg args yes fs) \<noteq> Inr () \<or>
      requires_approval_tool (cf_policy cfg) ''git'' yes ''write'' \<and> refuses (ce_answer env)"
  shows "fs_patch_apply (env\<lparr>ce_git := g\<rparr>) cfg args yes fs = fs_patch_apply (env\<lparr>ce_git := h\<rparr>) cfg args yes fs"
proof -
  let ?G = "env\<lparr>ce_git := g\<rparr>" and ?H = "env\<lparr>ce_git := h\<rparr>"
  let ?rest = "\<lambda>e. \<lambda>_::unit. and_then (run_call (apply_check (ce_git e) (str_arg args ''patch'' [])))
      (\<lambda>_. if bool_arg args ''check_only'' then tool_ok (JObj [(''checked'', JBool True)])
         else and_then (apply_patch_stage e cfg (str_arg args ''patch'' []) (str_arg args ''mode'' ''index'') yes)
           (\<lambda>_. and_then (tests_stage e cfg args (str_arg args ''patch'' []))
             (\<lambda>_. commit_stage e cfg args yes (named_template args fs) (str_arg args ''patch'' []))))"
  have tail: "and_then (precommit_gate env cfg args yes) (?rest ?G) fs
      = and_then (precommit_gate env cfg args yes) (?rest ?H) fs"
  proof (cases "precommit_gate env cfg args yes fs")
    case (Pair r fs1)
    show ?thesis
    proof (cases r)
      case (Inl e)
      then show ?thesis using Pair by (simp add: and_then_def)
    next
      case (Inr u)
      have no: "requires_approval_tool (cf_policy cfg) ''git'' yes ''write''" "refuses (ce_answer env)"
        using assms(2) Pair Inr by auto
      obtain e where "ask_when env True = (\<lambda>fs. (Inl e, fs))"
        using ask_when_refused [OF _ no(2), of True] by auto
      then have "ask_when (env\<lparr>ce_git := k\<rparr>) True = (\<lambda>fs. (Inl e, fs))" for k
        by (simp add: fun_eq_iff ask_when_def ask_approval_def and_then_def)
      then have "apply_patch_stage (env\<lparr>ce_git := k\<rparr>) cfg p m yes = (\<lambda>fs. (Inl e, fs))" for k p m
        using no(1) by (simp add: fun_eq_iff apply_patch_stage_def)
      then show ?thesis using Pair Inr same_reads_repo(2) [OF assms(1)]
        by (simp add: and_then_def split: prod.splits sum.splits)
    qed
  qed
  show ?thesis
    using tail same_reads_repo(1) [OF assms(1), of env] ensure_git_repo_files [of ?H fs]
    by (auto simp: fs_patch_apply_def Let_def gate_ignores_git and_then_def split: sum.splits)
qed

text \<open>A git that writes to a file when it applies and one that never does.\<close>

definition writing_git :: "bool \<Rightarrow> git_runner" where
  "writing_git writes args input fs =
     (if writes \<and> args = [''apply'', ''--index'', ''-'']
      then (Some \<lparr>pe_code = Some 0, pe_stdout = [], pe_stderr = []\<rparr>,
            put_node [''w''] (File input) fs)
      else (Some \<lparr>pe_code = Some 0, pe_stdout = ''true'', pe_stderr = []\<rparr>, fs))"

definition sample_env :: cli_env where
  "sample_env =
     \<lparr>ce_git = writing_git True, ce_shell = (\<lambda>t cmd fs. (CheckEnded (Some 0) [], fs)), ce_vars = [],
      ce_answer = Some ''n'', ce_agent = (\<lambda>_ _. AgentNothing), ce_sha = id, ce_hmac = (\<lambda>_. id),
      ce_key = ''k'', ce_secs = 0, ce_millis = 0, ce_print = (\<lambda>_. ''{}''), ce_sandbox = None\<rparr>"

definition sample_config :: cli_config where
  "sample_config =
     \<lparr>cf_policy = \<lparr>po_approval = ''untrusted'', po_sandbox = [], po_profile = None, po_approvals = None\<rparr>,
      cf_footer = False, cf_precommit = None, cf_commit = None\<rparr>"

definition sample_disk :: file_system where
  "sample_disk = \<lparr>nodes = [], cwd = []\<rparr>"

theorem patch_waits_for_checks_and_approval_witness:
  "fs_patch_apply (sample_env\<lparr>ce_git := writing_git True\<rparr>) sample_config (JObj [(''patch'', JStr ''p'')]) True sample_disk
    = fs_patch_apply (sample_env\<lparr>ce_git := writing_git False\<rparr>) sample_config (JObj [(''patch'', JStr ''p'')]) True sample_disk"
proof (rule patch_waits_for_checks_and_approval)
  show "same_reads (writing_git True) (writing_git False)"
    by (auto simp: same_reads_def git_reads_def writing_git_def fun_eq_iff)
  have "requires_approval_tool (cf_policy sample_config) ''git'' True ''write'' \<and> refuses (ce_answer sample_env)"
    by code_simp
  then show "fst (precommit_gate sample_env sample_config (JObj [(''patch'', JStr ''p'')]) True sample_disk) \<noteq> Inr ()
      \<or> requires_approval_tool (cf_policy sample_config) ''git'' True ''write'' \<and> refuses (ce_answer sample_env)"
    by blast
qed

subsection \<open>What a commit needs\<close>

lemma not_committed_messages:
  "message_only env args msg fs = (Inr v, fs') \<Longrightarrow> jget v ''committed'' \<noteq> Some (JBool True)"
  by (auto simp: message_only_def and_then_Inr)

text \<open>
  C35: a patch tool that answers with a commit was allowed to make one: commits were on, it was no dry
  run, the profile \<open>safe\<close> had its \<open>yes\<close>, a needed approval was given, the sandbox was not read-only,
  the patch had passed the check of git, and \<open>git commit\<close> ended with success.
\<close>

theorem commit_was_allowed:
  assumes "fs_patch_apply env cfg args yes fs = (Inr v, fs')"
    and "jget v ''committed'' = Some (JBool True)"
  shows "commit_enabled cfg args \<and> \<not> bool_arg args ''commit_dry_run'' \<and> (profile_of cfg = ''safe'' \<longrightarrow> yes)
    \<and> (requires_approval_tool (cf_policy cfg) ''git'' yes ''write'' \<longrightarrow> \<not> refuses (ce_answer env))
    \<and> to_lowercase (po_sandbox (cf_policy cfg)) \<noteq> ''read-only''
    \<and> (\<exists>fs1 fs2. apply_check (ce_git env) (str_arg args ''patch'' []) fs1 = (Inr True, fs2))
    \<and> (\<exists>fs1 fs2. git_commit env (bool_arg args ''signoff'') fs1 = (Inr (), fs2))"
proof -
  have ok: "to_lowercase (po_sandbox (cf_policy cfg)) \<noteq> ''read-only''"
    using assms(1) by (auto simp: fs_patch_apply_def and_then_Inr)
  have "\<not> bool_arg args ''precommit_only''" "\<not> bool_arg args ''check_only''"
    using assms by (auto simp: fs_patch_apply_def and_then_Inr precommit_only_run_def Let_def
        split: if_splits prod.splits sum.splits)
  then obtain fs0 fs1 b fs2 fs3 fs4 where check: "run_call (apply_check (ce_git env) (str_arg args ''patch'' [])) fs1 = (Inr b, fs2)"
    and app: "apply_patch_stage env cfg (str_arg args ''patch'' []) (str_arg args ''mode'' ''index'') yes fs2 = (Inr (), fs3)"
    and com: "commit_stage env cfg args yes (named_template args fs0) (str_arg args ''patch'' []) fs4 = (Inr v, fs')"
    using assms(1) ok by (auto simp: fs_patch_apply_def and_then_Inr Let_def split: if_splits)
  have "apply_check (ce_git env) (str_arg args ''patch'' []) fs1 = (Inr True, fs2)"
    using check by (auto simp: run_call_def apply_check_def split: prod.splits sum.splits if_splits)
  moreover have "requires_approval_tool (cf_policy cfg) ''git'' yes ''write'' \<longrightarrow> \<not> refuses (ce_answer env)"
    using app by (auto simp: apply_patch_stage_def and_then_Inr ask_when_ok)
  moreover obtain msg fs5 where "do_commit env args msg fs5 = (Inr v, fs')"
    and "commit_enabled cfg args" "\<not> bool_arg args ''commit_dry_run''" "profile_of cfg = ''safe'' \<longrightarrow> yes"
    using com assms(2) not_committed_messages
    by (fastforce simp: commit_stage_def and_then_Inr split: if_splits)
  ultimately show ?thesis using ok
    by (auto simp: do_commit_def and_then_Inr)
qed

definition free_config :: cli_config where
  "free_config = sample_config\<lparr>cf_policy := (cf_policy sample_config)\<lparr>po_approval := ''never''\<rparr>\<rparr>"

definition repo_disk :: file_system where
  "repo_disk = \<lparr>nodes = [([''.git''], Dir)], cwd = []\<rparr>"

theorem commit_was_allowed_witness:
  "\<exists>v fs'. fs_patch_apply sample_env free_config (JObj [(''patch'', JStr ''p'')]) False repo_disk = (Inr v, fs')
    \<and> jget v ''committed'' = Some (JBool True)
    \<and> commit_enabled free_config (JObj [(''patch'', JStr ''p'')])
    \<and> (\<exists>fs1 fs2. git_commit sample_env False fs1 = (Inr (), fs2))"
proof -
  have "case fs_patch_apply sample_env free_config (JObj [(''patch'', JStr ''p'')]) False repo_disk of
      (Inr v, _) \<Rightarrow> jget v ''committed'' = Some (JBool True) | _ \<Rightarrow> False"
    by code_simp
  then obtain v fs' where r: "fs_patch_apply sample_env free_config (JObj [(''patch'', JStr ''p'')]) False repo_disk
      = (Inr v, fs')" and c: "jget v ''committed'' = Some (JBool True)"
    by (auto split: prod.splits sum.splits)
  have "bool_arg (JObj [(''patch'', JStr ''p'')]) ''signoff'' = False"
    by (simp add: bool_arg_def)
  with commit_was_allowed [OF r c] r c show ?thesis by metis
qed

subsection \<open>The checks before a commit\<close>

text \<open>\<open>precommit\<close> set to \<open>off\<close> in a call skips every check, in every profile and without \<open>yes\<close>, while
  \<open>no_precommit\<close> asks for both a profile that allows it and \<open>yes\<close>.\<close>

lemma off_skips_the_checks:
  assumes "get_str args ''precommit'' = Some ''off''"
  shows "precommit_gate env cfg args yes fs = (Inr (), fs)"
proof -
  have "to_lowercase ''off'' = ''off''" by code_simp
  then show ?thesis using assms by (simp add: precommit_gate_def str_arg_def on_off_def Let_def)
qed

text \<open>The tests never stop a patch: the runner runs nothing.\<close>

lemma tests_never_fail: "\<exists>fs'. tests_stage env cfg args patch fs = (Inr (), fs')"
  by (auto simp: tests_stage_def run_impacted_def numstat_or_empty_def and_then_def tool_try_def
      split: prod.splits sum.splits)

text \<open>A failing formatter stops a commit also where \<open>rust\<close> is not among the failures that count.\<close>

lemma rust_fails_in_any_case:
  assumes "pcm_rust (cfg_or_default cfg)" and "file_there ''Cargo.toml'' fs"
    and "shell (check_timeout env) ''cargo fmt --all -- --check'' fs = (CheckEnded (Some 1) err, fs1)"
  shows "\<exists>f. precommit_run shell env cfg fs = (Inl f, fs1)
    \<and> (''rust'' \<notin> set (pcm_fail_on (cfg_or_default cfg)) \<longrightarrow> pf_exit_code f = 0)"
  using assms by (simp add: precommit_run_def rust_checks_def then_check_def check_when_def rust_check_def
      run_with_timeout_def check_outcome_def Let_def)

text \<open>The other languages block only where they are among them.\<close>

lemma blocking_when_not: "\<not> b \<Longrightarrow> fst (blocking_when b c fs) = Inr ()"
  by (simp add: blocking_when_def split: prod.splits sum.splits)

lemma additional_never_block: "\<not> b \<Longrightarrow> fst (additional_checks shell env b i cmds fs) = Inr ()"
proof (induction cmds arbitrary: i fs)
  case Nil
  then show ?case by (simp add: no_check_def)
next
  case (Cons cmd cmds)
  then show ?case
    using blocking_when_not [OF Cons.prems, of "run_with_timeout shell env cmd (''additional['' @ show_nat i @ '']'')" fs]
    by (auto simp: then_check_def split: prod.splits)
qed

subsection \<open>Messages\<close>

text \<open>With one file the scope is the name of the file, not of a directory.\<close>

lemma common_segments_step:
  "same_segment parts i \<Longrightarrow> common_segments parts i = common_segments parts (Suc i)"
  "\<not> same_segment parts i \<Longrightarrow> common_segments parts i = i"
  by (simp_all add: common_segments.simps [of parts i])

lemma common_segments_single:
  "i \<le> length p \<Longrightarrow> common_segments [p] i = length p"
proof (induction "length p - i" arbitrary: i)
  case 0
  then show ?case by (simp add: common_segments_step same_segment_def)
next
  case (Suc k)
  then have "same_segment [p] i" by (simp add: same_segment_def)
  with Suc show ?case by (simp add: common_segments_step)
qed

lemma single_file_is_its_own_scope: "infer_scope [f] = last (split_char (CHR ''/'') f)"
proof -
  have "split_char (CHR ''/'') f \<noteq> []" by simp
  then show ?thesis
    by (simp add: infer_scope_def common_segments_single Let_def last_conv_nth)
qed

lemma common_segments_prefix:
  assumes "\<forall>p \<in> set parts. take i p = take i (hd parts) \<and> i \<le> length p" and "parts \<noteq> []"
  shows "\<forall>p \<in> set parts. take (common_segments parts i) p = take (common_segments parts i) (hd parts)
    \<and> common_segments parts i \<le> length p"
  using assms
proof (induction parts i rule: common_segments.induct)
  case (1 parts i)
  show ?case
  proof (cases "same_segment parts i")
    case True
    have "\<forall>p \<in> set parts. take (Suc i) p = take (Suc i) (hd parts) \<and> Suc i \<le> length p"
    proof
      fix p assume p: "p \<in> set parts"
      have h: "i < length (hd parts)" "i < length p" "p ! i = hd parts ! i"
        using True p unfolding same_segment_def list_all_iff by (blast intro: hd_in_set)+
      have "take i p = take i (hd parts)" using 1(2) p by blast
      then show "take (Suc i) p = take (Suc i) (hd parts) \<and> Suc i \<le> length p"
        unfolding take_Suc_conv_app_nth [OF h(1)] take_Suc_conv_app_nth [OF h(2)] using h by simp
    qed
    then show ?thesis using 1(1) [OF True _ 1(3)] True by (simp add: common_segments_step)
  next
    case False
    then show ?thesis using 1(2) by (simp add: common_segments_step)
  qed
qed

text \<open>The subject is never longer than the limit, in characters.\<close>

lemma take_chars_count: "char_count (take_chars n s) \<le> n"
proof (induction n s rule: take_chars.induct)
  case (2 n c s)
  then show ?case by (cases n) (auto simp: char_count_def)
qed (simp add: char_count_def)

lemma subject_within_limit: "char_count (mo_subject (generate_struct i)) \<le> mi_max_subject i"
  by (simp add: generate_struct_def Let_def truncate_to_def take_chars_count)
end
