(* ===== verification/Shell_Policy.thy ===== *)
theory Shell_Policy
  imports Cli_Tools
begin

text \<open>
  The list of programs that the command line runs in a shell (crates/sandbox/src/lib.rs). A run of
  \<open>bash\<close> with its environment is a parameter.
\<close>

record sandbox_cfg =
  sbc_cpu_limit :: nat
  sbc_mem_limit_mb :: nat
  sbc_net :: string

definition separator :: "char \<Rightarrow> bool" where
  "separator c = (c = CHR ''|'' \<or> c = CHR '';'' \<or> c = CHR ''&'' \<or> c = nl)"

fun split_when :: "(char \<Rightarrow> bool) \<Rightarrow> string \<Rightarrow> string list" where
  "split_when p [] = [[]]"
| "split_when p (c # s) =
     (if p c then [] # split_when p s
      else case split_when p s of [] \<Rightarrow> [[c]] | w # ws \<Rightarrow> (c # w) # ws)"

definition tokenize_commands :: "string \<Rightarrow> string list" where
  "tokenize_commands cmd = filter (\<lambda>s. s \<noteq> []) (map trim (split_when separator cmd))"

definition first_word :: "string \<Rightarrow> string" where
  "first_word s = (case split_whitespace s of [] \<Rightarrow> [] | w # _ \<Rightarrow> w)"

definition allowed_binaries :: "string list" where
  "allowed_binaries =
     [''true'', ''false'', ''printf'', ''echo'', ''cat'', ''ls'', ''stat'', ''head'', ''tail'', ''wc'', ''cut'',
      ''sort'', ''uniq'', ''tr'', ''sed'', ''awk'', ''grep'', ''rg'', ''find'', ''xargs'', ''dirname'',
      ''basename'', ''pwd'']"

definition net_sensitive_binaries :: "string list" where
  "net_sensitive_binaries = [''curl'', ''wget'', ''pip'', ''npm'', ''apt'', ''git'', ''ssh'', ''scp'']"

definition mutating_binaries :: "string list" where
  "mutating_binaries = [''rm'', ''mv'', ''cp'', ''chmod'', ''chown'', ''tee'', ''dd'', ''>'', ''>>'']"

definition e_acute :: string where
  "e_acute = [CHR 0xC3, CHR 0xA9]"

definition net_refusal :: "string \<Rightarrow> string" where
  "net_refusal bin =
     ''sandbox: r'' @ e_acute @ ''seau interdit, commande bloqu'' @ e_acute @ ''e: '' @ bin"

definition read_only_refusal :: string where
  "read_only_refusal = ''sandbox: profil read-only: '' @ e_acute @ ''criture interdite''"

definition enforce_part :: "sandbox_cfg \<Rightarrow> string \<Rightarrow> string + unit" where
  "enforce_part sb p =
     (let bin = first_word p
      in if bin \<notin> set allowed_binaries then Inl (''sandbox: unauthorized binary: '' @ bin)
         else if eq_ignore_ascii_case (sbc_net sb) ''off'' \<and> bin \<in> set net_sensitive_binaries
           then Inl (net_refusal bin)
         else Inr ())"

definition enforce_policy :: "string \<Rightarrow> policy_cfg \<Rightarrow> sandbox_cfg \<Rightarrow> string + unit" where
  "enforce_policy cmd policy sb =
     (case try_all (enforce_part sb) (tokenize_commands cmd) of
        Inl e \<Rightarrow> Inl e
      | Inr _ \<Rightarrow>
          (if (case po_profile policy of None \<Rightarrow> [] | Some s \<Rightarrow> map lower_char s) = ''read-only''
              \<and> list_ex (\<lambda>c. first_word c \<in> set mutating_binaries) (tokenize_commands cmd)
           then Inl read_only_refusal else Inr ()))"

definition proxy_variables :: "string list" where
  "proxy_variables = [''http_proxy'', ''https_proxy'', ''HTTP_PROXY'', ''HTTPS_PROXY'', ''ALL_PROXY'']"

definition shell_env :: "sandbox_cfg \<Rightarrow> (string, string) hmap \<Rightarrow> (string, string) hmap" where
  "shell_env sb env =
     (if eq_ignore_ascii_case (sbc_net sb) ''off'' then fold AList.delete proxy_variables env else env)"

type_synonym bash_runner =
  "(string, string) hmap \<Rightarrow> string list \<Rightarrow> file_system \<Rightarrow> program_end option \<times> file_system"

definition run_shell_sandboxed ::
  "bash_runner \<Rightarrow> (string, string) hmap \<Rightarrow> sandbox_cfg \<Rightarrow> string \<Rightarrow> policy_cfg \<Rightarrow> file_system
    \<Rightarrow> (string + int) \<times> file_system"
where
  "run_shell_sandboxed bash env sb cmd policy fs =
     (case enforce_policy cmd policy sb of
        Inl e \<Rightarrow> (Inl e, fs)
      | Inr _ \<Rightarrow>
          (case bash (shell_env sb env) [''-lc'', cmd] fs of
             (None, fs') \<Rightarrow> (Inl ''bash could not be run'', fs')
           | (Some e, fs') \<Rightarrow> (Inr (case pe_code e of None \<Rightarrow> - 1 | Some c \<Rightarrow> c), fs')))"

definition run_shell_sandboxed_capture ::
  "bash_runner \<Rightarrow> (string, string) hmap \<Rightarrow> sandbox_cfg \<Rightarrow> string \<Rightarrow> policy_cfg \<Rightarrow> file_system
    \<Rightarrow> (string + int \<times> string) \<times> file_system"
where
  "run_shell_sandboxed_capture bash env sb cmd policy fs =
     (case enforce_policy cmd policy sb of
        Inl e \<Rightarrow> (Inl e, fs)
      | Inr _ \<Rightarrow>
          (case bash (shell_env sb env) [''-lc'', cmd] fs of
             (None, fs') \<Rightarrow> (Inl ''bash could not be run'', fs')
           | (Some e, fs') \<Rightarrow>
               (Inr (case pe_code e of None \<Rightarrow> - 1 | Some c \<Rightarrow> c, pe_stdout e @ pe_stderr e), fs')))"

subsection \<open>What the list decides\<close>

lemma allowed_disjoint:
  "bin \<in> set allowed_binaries \<Longrightarrow> bin \<notin> set net_sensitive_binaries"
  "bin \<in> set allowed_binaries \<Longrightarrow> bin \<notin> set mutating_binaries"
  by (auto simp: allowed_binaries_def net_sensitive_binaries_def mutating_binaries_def)

text \<open>The checks of the network and of writing never refuse anything: what they name is not on the
  list in the first place.\<close>

lemma enforce_part_iff: "enforce_part sb p = Inr () \<longleftrightarrow> first_word p \<in> set allowed_binaries"
  using allowed_disjoint(1) by (auto simp: enforce_part_def Let_def)

lemma policy_is_the_list:
  "enforce_policy cmd policy sb = Inr () \<longleftrightarrow>
     (\<forall>p \<in> set (tokenize_commands cmd). first_word p \<in> set allowed_binaries)"
proof (cases "try_all (enforce_part sb) (tokenize_commands cmd)")
  case (Inl e)
  then have "\<not> (\<forall>p \<in> set (tokenize_commands cmd). enforce_part sb p = Inr ())"
    unfolding try_all_Inr [symmetric] by simp
  then show ?thesis using Inl by (simp add: enforce_policy_def enforce_part_iff)
next
  case (Inr u)
  then have ok: "\<forall>p \<in> set (tokenize_commands cmd). first_word p \<in> set allowed_binaries"
    using try_all_Inr [of "enforce_part sb"] by (simp add: enforce_part_iff)
  then have "\<not> list_ex (\<lambda>c. first_word c \<in> set mutating_binaries) (tokenize_commands cmd)"
    using allowed_disjoint(2) by (auto simp: list_ex_iff)
  then show ?thesis using Inr ok by (simp add: enforce_policy_def)
qed

text \<open>
  C37: no shell command runs whose parts between the operators do not all start with a program of the
  list: the files stay and the answer is an error; the profile and the network setting make no
  difference to what is accepted.
\<close>

theorem only_listed_programs_run:
  assumes "p \<in> set (tokenize_commands cmd)" and "first_word p \<notin> set allowed_binaries"
  shows "\<exists>e. run_shell_sandboxed_capture bash env sb cmd policy fs = (Inl e, fs)
    \<and> run_shell_sandboxed bash env sb cmd policy fs = (Inl e, fs)"
proof -
  have "enforce_policy cmd policy sb \<noteq> Inr ()"
    using assms policy_is_the_list by blast
  then obtain e where "enforce_policy cmd policy sb = Inl e"
    by (cases "enforce_policy cmd policy sb") auto
  then show ?thesis by (simp add: run_shell_sandboxed_capture_def run_shell_sandboxed_def)
qed

definition open_sandbox :: sandbox_cfg where
  "open_sandbox = \<lparr>sbc_cpu_limit = 1, sbc_mem_limit_mb = 64, sbc_net = ''off''\<rparr>"

definition read_only_policy :: policy_cfg where
  "read_only_policy =
     \<lparr>po_approval = [], po_sandbox = ''read-only'', po_profile = Some ''read-only'', po_approvals = None\<rparr>"

definition empty_disk :: file_system where
  "empty_disk = \<lparr>nodes = [], cwd = []\<rparr>"

theorem only_listed_programs_run_witness:
  "\<exists>e. run_shell_sandboxed_capture (\<lambda>_ _ fs. (None, fs)) [] open_sandbox ''ls | rm x'' read_only_policy empty_disk
      = (Inl e, empty_disk)
    \<and> run_shell_sandboxed (\<lambda>_ _ fs. (None, fs)) [] open_sandbox ''ls | rm x'' read_only_policy empty_disk
      = (Inl e, empty_disk)"
proof (rule only_listed_programs_run)
  show "''rm x'' \<in> set (tokenize_commands ''ls | rm x'')" by code_simp
  show "first_word ''rm x'' \<notin> set allowed_binaries" by code_simp
qed

text \<open>A redirection and a command inside another pass, in the read-only profile as well.\<close>

lemma redirection_passes: "enforce_policy ''echo x > f'' read_only_policy open_sandbox = Inr ()"
  by code_simp

lemma substitution_passes: "enforce_policy ''echo $(rm f)'' read_only_policy open_sandbox = Inr ()"
  by code_simp

lemma xargs_passes: "enforce_policy ''echo f | xargs rm'' read_only_policy open_sandbox = Inr ()"
  by code_simp

end
