(* ===== verification/Cli_Settings.thy ===== *)
theory Cli_Settings
  imports Local_Backend Config_Properties Shell_Policy
begin

text \<open>
  The commands of the command line around the tools (crates/cli/src/main.rs): where its settings
  come from, the configuration of the workspace, what a delegation sends and prints, and the run of
  tests. Then come their properties: names that are read back, the settings that win, the file of the
  workspace, delegations and test runs.

  Parameters: the parsers of TOML and JSON, the ends of the programs that are run, and the answers
  of the engine.
\<close>

subsection \<open>The core configuration\<close>

definition env_mode :: "string \<Rightarrow> orchestration_mode option" where
  "env_mode m =
     (let t = to_lowercase m
      in if t = ''local'' then Some LocalMode else if t = ''daemon'' then Some DaemonMode
         else if t = ''auto'' then Some AutoMode else None)"

definition mode_override :: "(string, string) hmap \<Rightarrow> orchestration_mode option" where
  "mode_override env =
     (case hm_get env ''DEVIT_ORCHESTRATION_MODE'' of
        Some m \<Rightarrow> env_mode m
      | None \<Rightarrow> (if hm_get env ''DEVIT_DAEMON_SOCKET'' \<noteq> None then Some DaemonMode else None))"

definition apply_orchestration_env_overrides :: "(string, string) hmap \<Rightarrow> core_config \<Rightarrow> core_config" where
  "apply_orchestration_env_overrides env c =
     (let o1 = cc_orchestration c;
          o2 = (case hm_get env ''DEVIT_DAEMON_SOCKET'' of None \<Rightarrow> o1 | Some s \<Rightarrow> o1\<lparr>daemon_socket := Some s\<rparr>);
          o3 = (case mode_override env of None \<Rightarrow> o2 | Some m \<Rightarrow> o2\<lparr>mode := m\<rparr>);
          o4 = (case Option.bind (hm_get env ''DEVIT_ORCHESTRATION_TIMEOUT'') parse_u64 of
                  None \<Rightarrow> o3 | Some t \<Rightarrow> o3\<lparr>default_timeout_secs := t\<rparr>);
          w = (case hm_get env ''DEVIT_SANDBOX_ROOT'' of
                 None \<Rightarrow> cc_workspace c | Some r \<Rightarrow> (cc_workspace c)\<lparr>wcf_sandbox_root := Some r\<rparr>)
      in c\<lparr>cc_orchestration := o4, cc_workspace := w\<rparr>)"

text \<open>\<open>parse\<close> reads a whole configuration, \<open>parse_toml\<close> any file.\<close>

definition load_core_config_with_env ::
  "(string \<Rightarrow> core_config option) \<Rightarrow> (string \<Rightarrow> toml option) \<Rightarrow> (string, string) hmap \<Rightarrow> file_system
    \<Rightarrow> core_config"
where
  "load_core_config_with_env parse parse_toml env fs =
     apply_orchestration_env_overrides env
       (case (case hm_get env ''DEVIT_CORE_CONFIG'' of
                None \<Rightarrow> None
              | Some path \<Rightarrow>
                  (case config_from_file parse env fs path of Inl _ \<Rightarrow> None | Inr c \<Rightarrow> Some c)) of
          Some c \<Rightarrow> c
        | None \<Rightarrow>
            (case config_from_file parse env fs ''devit.core.toml'' of
               Inr c \<Rightarrow> c
             | Inl _ \<Rightarrow> default_core_config parse_toml env fs))"

subsection \<open>The model\<close>

record llm_section =
  ll_backend :: string
  ll_endpoint :: string
  ll_model :: string
  ll_timeout_s :: "nat option"
  ll_max_tokens :: "nat option"

record llm_flags =
  lf_backend :: "string option"
  lf_model :: "string option"
  lf_endpoint :: "string option"
  lf_api_key :: "string option"

record resolved_llm =
  rl_backend :: string
  rl_model :: string
  rl_endpoint :: string
  rl_api_key :: "string option"
  rl_timeout_s :: nat
  rl_max_tokens :: nat

definition default_llm :: resolved_llm where
  "default_llm =
     \<lparr>rl_backend = ''ollama'', rl_model = ''llama3.1:8b'', rl_endpoint = ''http://localhost:11434/v1'',
      rl_api_key = None, rl_timeout_s = 120, rl_max_tokens = 4096\<rparr>"

definition llm_from_section :: "llm_section option \<Rightarrow> resolved_llm \<Rightarrow> resolved_llm" where
  "llm_from_section sec r =
     (case sec of
        None \<Rightarrow> r
      | Some s \<Rightarrow>
          r\<lparr>rl_backend := ll_backend s, rl_endpoint := ll_endpoint s, rl_model := ll_model s,
            rl_timeout_s := given (ll_timeout_s s) (rl_timeout_s r),
            rl_max_tokens := given (ll_max_tokens s) (rl_max_tokens r)\<rparr>)"

definition llm_from_env :: "(string, string) hmap \<Rightarrow> resolved_llm \<Rightarrow> resolved_llm" where
  "llm_from_env env r =
     r\<lparr>rl_backend := given (hm_get env ''DEVIT_LLM_BACKEND'') (rl_backend r),
       rl_model := given (hm_get env ''DEVIT_LLM_MODEL'') (rl_model r),
       rl_endpoint := given (hm_get env ''DEVIT_LLM_ENDPOINT'') (rl_endpoint r),
       rl_api_key := (case hm_get env ''DEVIT_LLM_API_KEY'' of None \<Rightarrow> rl_api_key r | Some k \<Rightarrow> Some k)\<rparr>"

text \<open>A backend that is named brings its own endpoint, and \<open>ollama\<close> drops the key.\<close>

definition llm_backend_defaults :: "string \<Rightarrow> resolved_llm \<Rightarrow> resolved_llm" where
  "llm_backend_defaults b r =
     (if b = ''ollama'' then r\<lparr>rl_endpoint := ''http://localhost:11434/v1'', rl_api_key := None\<rparr>
      else if b = ''openai'' then r\<lparr>rl_endpoint := ''https://api.openai.com/v1''\<rparr>
      else if b = ''lmstudio'' then r\<lparr>rl_endpoint := ''http://localhost:1234/v1''\<rparr>
      else r)"

definition llm_from_flags :: "llm_flags \<Rightarrow> resolved_llm \<Rightarrow> resolved_llm" where
  "llm_from_flags f r =
     (let r1 = (case lf_backend f of None \<Rightarrow> r | Some b \<Rightarrow> llm_backend_defaults b (r\<lparr>rl_backend := b\<rparr>))
      in r1\<lparr>rl_model := given (lf_model f) (rl_model r1),
            rl_endpoint := given (lf_endpoint f) (rl_endpoint r1),
            rl_api_key := (case lf_api_key f of None \<Rightarrow> rl_api_key r1 | Some k \<Rightarrow> Some k)\<rparr>)"

definition resolve_llm_config ::
  "llm_section option \<Rightarrow> (string, string) hmap \<Rightarrow> llm_flags \<Rightarrow> resolved_llm"
where
  "resolve_llm_config sec env f =
     (let r = llm_from_flags f (llm_from_env env (llm_from_section sec default_llm))
      in if rl_backend r = ''ollama'' then r\<lparr>rl_api_key := None\<rparr> else r)"

subsection \<open>Levels and profiles by name\<close>

definition parse_approval_level_cli :: "string \<Rightarrow> approval_level option" where
  "parse_approval_level_cli raw =
     (let t = map lower_char raw
      in if t = ''untrusted'' then Some Untrusted else if t = ''ask'' then Some Ask
         else if t = ''moderate'' then Some Moderate else if t = ''trusted'' then Some Trusted else None)"

definition parse_sandbox_profile_cli :: "string \<Rightarrow> sandbox_profile option" where
  "parse_sandbox_profile_cli raw =
     (let t = map lower_char raw
      in if t = ''strict'' then Some Strict else if t = ''permissive'' then Some Permissive else None)"

fun approval_level_label :: "approval_level \<Rightarrow> string" where
  "approval_level_label Untrusted = ''untrusted''"
| "approval_level_label Ask = ''ask''"
| "approval_level_label Moderate = ''moderate''"
| "approval_level_label Trusted = ''trusted''"
| "approval_level_label (Privileged _) = ''privileged''"

fun sandbox_profile_label :: "sandbox_profile \<Rightarrow> string" where
  "sandbox_profile_label Strict = ''strict''"
| "sandbox_profile_label Permissive = ''permissive''"

subsection \<open>The workspace in the configuration file\<close>

text \<open>The file that \<open>init\<close> and \<open>cd\<close> write: it is changed as TOML, in its section of the workspace.\<close>

definition config_path :: "(string, string) hmap \<Rightarrow> string" where
  "config_path env = given (hm_get env ''DEVIT_CORE_CONFIG'') ''devit.core.toml''"

definition read_config_doc ::
  "(string \<Rightarrow> toml option) \<Rightarrow> (string, string) hmap \<Rightarrow> file_system \<Rightarrow> string + (string \<times> toml) list"
where
  "read_config_doc parse env fs =
     (if path_exists fs (components (config_path env)) then
        (case read_to_string fs (components (config_path env)) of
           None \<Rightarrow> Inl (''failed to read config at '' @ config_path env)
         | Some t \<Rightarrow>
             (case parse t of
                None \<Rightarrow> Inl (''failed to parse TOML at '' @ config_path env)
              | Some doc \<Rightarrow>
                  (case toml_table doc of
                     None \<Rightarrow> Inl ''configuration root must be a TOML table''
                   | Some table \<Rightarrow> Inr table)))
      else Inr [])"

definition workspace_section :: "(string \<times> toml) list \<Rightarrow> string + (string \<times> toml) list" where
  "workspace_section table =
     (case map_of table ''workspace'' of
        None \<Rightarrow> Inr []
      | Some v \<Rightarrow>
          (case toml_table v of None \<Rightarrow> Inl ''[workspace] must be a table'' | Some w \<Rightarrow> Inr w))"

definition write_config_doc ::
  "((string \<times> toml) list \<Rightarrow> string option) \<Rightarrow> (string, string) hmap \<Rightarrow> (string \<times> toml) list
    \<Rightarrow> (string \<times> toml) list \<Rightarrow> file_system \<Rightarrow> string + file_system"
where
  "write_config_doc render env table w fs =
     (case render (hm_insert ''workspace'' (TTable w) table) of
        None \<Rightarrow> Inl ''TOML''
      | Some t \<Rightarrow>
          (case write_text (components (config_path env)) t fs of
             None \<Rightarrow> Inl (''failed to write config at '' @ config_path env)
           | Some fs' \<Rightarrow> Inr fs'))"

definition insert_when :: "string \<Rightarrow> toml option \<Rightarrow> (string \<times> toml) list \<Rightarrow> (string \<times> toml) list" where
  "insert_when key v w = (case v of None \<Rightarrow> w | Some x \<Rightarrow> hm_insert key x w)"

definition init_section ::
  "string option \<Rightarrow> string list \<Rightarrow> string option \<Rightarrow> (string \<times> toml) list \<Rightarrow> string + (string \<times> toml) list"
where
  "init_section sandbox allow default_project w =
     (let w1 = insert_when ''sandbox_root'' (map_option TStr sandbox) w
      in case Option.bind (map_of w1 ''sandbox_root'') t_str of
           None \<Rightarrow> Inl ''--sandbox is required when no sandbox_root is configured''
         | Some _ \<Rightarrow>
             Inr (insert_when ''default_project'' (map_option TStr default_project)
               (insert_when ''allowed_projects''
                 (if allow = [] then None else Some (TArr (map TStr allow))) w1)))"

definition handle_workspace_init ::
  "(string \<Rightarrow> toml option) \<Rightarrow> ((string \<times> toml) list \<Rightarrow> string option) \<Rightarrow> (string, string) hmap
    \<Rightarrow> string option \<Rightarrow> string list \<Rightarrow> string option \<Rightarrow> file_system \<Rightarrow> string + file_system"
where
  "handle_workspace_init parse render env sandbox allow default_project fs =
     (case read_config_doc parse env fs of
        Inl e \<Rightarrow> Inl e
      | Inr table \<Rightarrow>
          (case workspace_section table of
             Inl e \<Rightarrow> Inl e
           | Inr w \<Rightarrow>
               (case init_section sandbox allow default_project w of
                  Inl e \<Rightarrow> Inl e
                | Inr w' \<Rightarrow> write_config_doc render env table w' fs)))"

text \<open>\<open>relative\<close> is the directory that the engine resolved, from the root of the sandbox.\<close>

definition cd_section :: "string \<Rightarrow> (string \<times> toml) list \<Rightarrow> (string \<times> toml) list" where
  "cd_section relative w =
     (if components relative = [] then AList.delete ''default_project'' w
      else hm_insert ''default_project'' (TStr (replace_str [CHR 0x5C] ''/'' relative)) w)"

definition handle_workspace_cd ::
  "(string \<Rightarrow> toml option) \<Rightarrow> ((string \<times> toml) list \<Rightarrow> string option) \<Rightarrow> (string, string) hmap
    \<Rightarrow> (string + string) \<Rightarrow> file_system \<Rightarrow> string + file_system"
where
  "handle_workspace_cd parse render env resolved fs =
     (case resolved of
        Inl e \<Rightarrow> Inl e
      | Inr relative \<Rightarrow>
          (case read_config_doc parse env fs of
             Inl e \<Rightarrow> Inl e
           | Inr table \<Rightarrow>
               (case workspace_section table of
                  Inl e \<Rightarrow> Inl e
                | Inr w \<Rightarrow> write_config_doc render env table (cd_section relative w) fs)))"

subsection \<open>Delegating from the command line\<close>

text \<open>With \<open>DEVIT_DAEMON_SOCKET\<close> set, a command only goes on when the engine reached the daemon.\<close>

definition daemon_guard :: "(string, string) hmap \<Rightarrow> bool \<Rightarrow> string + unit" where
  "daemon_guard env uses_daemon =
     (case hm_get env ''DEVIT_DAEMON_SOCKET'' of
        Some socket \<Rightarrow>
          (if uses_daemon then Inr ()
           else Inl (''devitd daemon not available at '' @ socket
                  @ '' (set DEVIT_ORCHESTRATION_MODE=local to work offline)''))
      | None \<Rightarrow> Inr ())"

record delegate_flags =
  df_goal :: string
  df_delegated_to :: string
  df_model :: "string option"
  df_timeout :: "nat option"
  df_watch :: "string list"
  df_context :: "string option"
  df_working_dir :: "string option"
  df_format :: "string option"

definition clean_model :: "string option \<Rightarrow> string option" where
  "clean_model m =
     (case map_option trim m of None \<Rightarrow> None | Some t \<Rightarrow> (if t = [] then None else Some t))"

definition json_arg :: "(string \<Rightarrow> json option) \<Rightarrow> string \<Rightarrow> string option \<Rightarrow> string + json option" where
  "json_arg parse name raw =
     (case raw of
        None \<Rightarrow> Inr None
      | Some r \<Rightarrow>
          (case parse r of
             None \<Rightarrow> Inl (''invalid JSON for --'' @ name @ '': '' @ r)
           | Some v \<Rightarrow> Inr (Some v)))"

text \<open>\<open>resolved\<close> is the directory that the engine found for \<open>--working-dir\<close>, \<open>current\<close> the one it is in.\<close>

definition delegate_dir ::
  "(string \<Rightarrow> string + string) \<Rightarrow> string + string \<Rightarrow> string option \<Rightarrow> string + string option"
where
  "delegate_dir resolved current dir =
     (let shown = (\<lambda>p. if components p = [] then ''.'' else replace_str [CHR 0x5C] ''/'' p)
      in case dir of
           Some d \<Rightarrow> (case resolved d of Inl e \<Rightarrow> Inl e | Inr p \<Rightarrow> Inr (Some (shown p)))
         | None \<Rightarrow>
             (case current of
                Inl e \<Rightarrow> Inl e
              | Inr p \<Rightarrow> (if components p = [] \<or> components p = [CurDir] then Inr None else Inr (Some (shown p)))))"

definition delegate_format :: "string option \<Rightarrow> string + string option" where
  "delegate_format f =
     (case f of
        None \<Rightarrow> Inr None
      | Some s \<Rightarrow>
          (if s = ''compact'' then Inr (Some ''compact'') else if s = ''default'' then Inr None
           else Inl (''Invalid format '' @ [CHR 0x27] @ s @ [CHR 0x27]
                  @ ''. Supported values: compact, default'')))"

definition delegate_request ::
  "(string \<Rightarrow> json option) \<Rightarrow> (string, string) hmap \<Rightarrow> string + bool \<Rightarrow> (string \<Rightarrow> string + string)
    \<Rightarrow> string + string \<Rightarrow> delegate_flags \<Rightarrow> string + delegate_args"
where
  "delegate_request parse env engine resolved current f =
     (case json_arg parse ''context'' (df_context f) of
        Inl e \<Rightarrow> Inl e
      | Inr ctx \<Rightarrow>
          (case engine of
             Inl e \<Rightarrow> Inl (''failed to initialize orchestration core: '' @ e)
           | Inr uses_daemon \<Rightarrow>
               (case daemon_guard env uses_daemon of
                  Inl e \<Rightarrow> Inl e
                | Inr _ \<Rightarrow>
                    (case delegate_dir resolved current (df_working_dir f) of
                       Inl e \<Rightarrow> Inl e
                     | Inr dir \<Rightarrow>
                         (case delegate_format (df_format f) of
                            Inl e \<Rightarrow> Inl e
                          | Inr fmt \<Rightarrow>
                              Inr \<lparr>a_goal = df_goal f, a_delegated_to = df_delegated_to f,
                                   a_model = clean_model (df_model f), a_timeout = df_timeout f,
                                   a_watch_patterns = (if df_watch f = [] then None else Some (df_watch f)),
                                   a_context = ctx, a_working_dir = dir, a_response_format = fmt\<rparr>)))))"

definition mode_name :: "orchestration_mode \<Rightarrow> string" where
  "mode_name m = (case m of LocalMode \<Rightarrow> ''local'' | DaemonMode \<Rightarrow> ''daemon'' | AutoMode \<Rightarrow> ''auto'')"

text \<open>What the command prints for a task that was accepted.\<close>

definition delegate_answer :: "orchestration_config \<Rightarrow> delegate_args \<Rightarrow> string \<Rightarrow> json" where
  "delegate_answer cfg a tid =
     JObj [(''task_id'', JStr tid), (''goal'', JStr (a_goal a)), (''delegated_to'', JStr (a_delegated_to a)),
       (''model'', JStr (given (a_model a) ''<default>'')),
       (''timeout_secs'', JInt (int (given (a_timeout a) (default_timeout_secs cfg)))),
       (''mode'', JStr (mode_name (mode cfg))),
       (''watch_patterns'', (case a_watch_patterns a of None \<Rightarrow> JNull | Some ps \<Rightarrow> JArr (map JStr ps))),
       (''context'', jopt (a_context a)), (''working_dir'', jstr_opt (a_working_dir a)),
       (''format'', jstr_opt (a_response_format a))]"

datatype status_format = StatusJson | StatusTable | StatusCompact

definition status_format_choice :: "string option \<Rightarrow> bool \<Rightarrow> status_format" where
  "status_format_choice format use_json =
     (let f = to_lowercase (case format of Some s \<Rightarrow> s | None \<Rightarrow> (if use_json then ''json'' else ''compact''))
      in if f = ''json'' then StatusJson else if f = ''table'' then StatusTable else StatusCompact)"

definition find_task_by_id :: "json \<Rightarrow> string \<Rightarrow> json option" where
  "find_task_by_id status tid =
     (let search = (\<lambda>key. Option.bind (Option.bind (jget status key) as_array)
            (find (\<lambda>t. get_str t ''id'' = Some tid)))
      in or_else (search ''active_tasks'') (search ''completed_tasks''))"

definition note_line :: "json \<Rightarrow> string" where
  "note_line note =
     ''- '' @ given (get_str note ''status'') ''-'' @ '': '' @ given (get_str note ''summary'') ''-''"

definition format_task_details :: "json \<Rightarrow> string" where
  "format_task_details task =
     (let s = (\<lambda>key. given (get_str task key) ''-'')
      in join_lines
           ([''Task ID: '' @ s ''id'', ''Status: '' @ s ''status'', ''Delegated to: '' @ s ''delegated_to'',
             ''Timeout: '' @ show_nat (given (get_u64 task ''timeout_secs'') 0) @ ''s'',
             ''Goal: '' @ s ''goal'', ''Created at: '' @ s ''created_at'']
            @ (case get_str task ''working_dir'' of None \<Rightarrow> [] | Some d \<Rightarrow> [''Working dir: '' @ d])
            @ (case get_str task ''response_format'' of None \<Rightarrow> [] | Some f \<Rightarrow> [''Format: '' @ f])
            @ (case Option.bind (jget task ''notifications'') as_array of
                 None \<Rightarrow> []
               | Some ns \<Rightarrow> (if ns = [] then [] else ''Notifications:'' # map note_line ns))))"

subsection \<open>Running tests\<close>

definition detect_test_stack :: "file_system \<Rightarrow> string" where
  "detect_test_stack fs =
     (let there = (\<lambda>p. path_exists fs (components p))
      in if there ''Cargo.toml'' then ''cargo'' else if there ''package.json'' then ''npm''
         else if there ''pytest.ini'' \<or> there ''pyproject.toml'' \<or> there ''setup.py'' then ''pytest''
         else ''none'')"

text \<open>How the sandboxed run and the plain one end.\<close>

datatype sandboxed_end = SandboxRan int string | SandboxRefused string | SandboxLost string | SandboxTimedOut

datatype plain_end = PlainRan bool string string | PlainFailed string | PlainTimedOut

definition check_mark :: string where
  "check_mark = [CHR 0xE2, CHR 0x9C, CHR 0x85]"

definition warning_mark :: string where
  "warning_mark = [CHR 0xE2, CHR 0x9A, CHR 0xA0, CHR 0xEF, CHR 0xB8, CHR 0x8F]"

definition info_mark :: string where
  "info_mark = [CHR 0xE2, CHR 0x84, CHR 0xB9, CHR 0xEF, CHR 0xB8, CHR 0x8F]"

definition first_lines :: "nat \<Rightarrow> string \<Rightarrow> string" where
  "first_lines n s = join_lines (take n (str_lines s))"

definition timed_out_text :: "string \<Rightarrow> nat \<Rightarrow> string" where
  "timed_out_text framework secs = framework @ '' test timed out after '' @ show_nat secs @ ''s''"

definition run_test_fallback :: "plain_end \<Rightarrow> string \<Rightarrow> nat \<Rightarrow> string \<Rightarrow> string + string" where
  "run_test_fallback unboxed cmd secs framework =
     (if split_whitespace cmd = [] then Inl ''Empty command''
      else case unboxed of
             PlainRan ok out err \<Rightarrow>
               (if ok then Inr (check_mark @ '' '' @ framework @ '' tests passed (non-sandboxed)'' @ [nl, nl] @ out)
                else Inr (warning_mark @ '' Some '' @ framework @ '' tests failed (non-sandboxed)'' @ [nl, nl]
                       @ ''STDOUT:'' @ nl # first_lines 10 out @ nl # ''STDERR:'' @ nl # first_lines 5 err))
           | PlainFailed e \<Rightarrow> Inl (''Failed to execute '' @ cmd @ '': '' @ e)
           | PlainTimedOut \<Rightarrow> Inl (timed_out_text framework secs))"

text \<open>\<open>config\<close> is the outcome of reading \<open>devit.toml\<close>.\<close>

definition run_sandboxed_test ::
  "string + unit \<Rightarrow> sandboxed_end \<Rightarrow> plain_end \<Rightarrow> string \<Rightarrow> nat \<Rightarrow> string \<Rightarrow> string + string"
where
  "run_sandboxed_test config sandboxed unboxed cmd secs framework =
     (case config of
        Inl e \<Rightarrow> Inl (''Failed to load config for sandbox: '' @ e)
      | Inr _ \<Rightarrow>
          (case sandboxed of
             SandboxRan code out \<Rightarrow>
               (if code = 0
                then Inr (check_mark @ '' '' @ framework @ '' tests passed (sandboxed)'' @ [nl, nl] @ out)
                else Inr (warning_mark @ '' Some '' @ framework @ '' tests failed (sandboxed)'' @ [nl, nl]
                       @ first_lines 15 out))
           | SandboxRefused e \<Rightarrow>
               (if contains e ''unauthorized binary'' \<or> contains e ''binary not allowed''
                then run_test_fallback unboxed cmd secs framework
                else Inl (''Sandbox execution failed: '' @ e))
           | SandboxLost e \<Rightarrow> Inl (''Task join error: '' @ e)
           | SandboxTimedOut \<Rightarrow> Inl (timed_out_text framework secs)))"

definition test_command :: "string \<Rightarrow> string option" where
  "test_command stack =
     (if stack = ''cargo'' then Some ''cargo test --color=never'' else if stack = ''npm'' then Some ''npm test''
      else if stack = ''pytest'' then Some ''pytest -v --tb=short'' else None)"

definition chosen_stack :: "string option \<Rightarrow> file_system \<Rightarrow> string" where
  "chosen_stack stack fs =
     (case stack of None \<Rightarrow> detect_test_stack fs
      | Some s \<Rightarrow> (if s = ''auto'' then detect_test_stack fs else s))"

text \<open>Success and the text of the answer, or the error.\<close>

record test_answer =
  ta_success :: bool
  ta_text :: string

definition handle_test ::
  "string + unit \<Rightarrow> (string \<Rightarrow> sandboxed_end) \<Rightarrow> (string \<Rightarrow> plain_end) \<Rightarrow> file_system
    \<Rightarrow> string option \<Rightarrow> string option \<Rightarrow> nat option \<Rightarrow> test_answer"
where
  "handle_test config sandboxed unboxed fs stack cmd timeout =
     (let s = chosen_stack stack fs; secs = given timeout 60
      in case (case test_command s of
                 Some c \<Rightarrow> run_sandboxed_test config (sandboxed c) (unboxed c) c secs s
               | None \<Rightarrow>
                   (if s = ''none'' then Inr (info_mark @ '' No test framework detected'')
                    else Inl (''Unknown test stack: '' @ s))) of
           Inr out \<Rightarrow>
             \<lparr>ta_success = True,
              ta_text = [CHR 0xF0, CHR 0x9F, CHR 0xA7, CHR 0xAA] @ '' Test Framework: '' @ s @ nl #
                [CHR 0xE2, CHR 0x8F, CHR 0xB1, CHR 0xEF, CHR 0xB8, CHR 0x8F] @ '' Timeout: '' @ show_nat secs
                @ ''s'' @ [nl, nl] @ out\<rparr>
         | Inl e \<Rightarrow> \<lparr>ta_success = False, ta_text = ''Test execution failed: '' @ e\<rparr>)"
section \<open>Properties\<close>

subsection \<open>Names\<close>

lemma level_label_read_back:
  "parse_approval_level_cli (approval_level_label l) = (case l of Privileged _ \<Rightarrow> None | _ \<Rightarrow> Some l)"
proof (cases l)
  case (Privileged ps)
  have "parse_approval_level_cli ''privileged'' = None" by code_simp
  then show ?thesis by (simp add: Privileged)
qed (simp; code_simp)+

lemma profile_label_read_back: "parse_sandbox_profile_cli (sandbox_profile_label p) = Some p"
  by (cases p) (simp; code_simp)+

subsection \<open>Settings from the environment\<close>

lemma env_overrides_orchestration:
  "cc_orchestration (apply_orchestration_env_overrides env c) =
     (cc_orchestration c)
       \<lparr>default_timeout_secs := first_given [Option.bind (hm_get env ''DEVIT_ORCHESTRATION_TIMEOUT'') parse_u64]
           (default_timeout_secs (cc_orchestration c)),
        mode := first_given [mode_override env] (mode (cc_orchestration c)),
        daemon_socket := (case hm_get env ''DEVIT_DAEMON_SOCKET'' of
            None \<Rightarrow> daemon_socket (cc_orchestration c) | Some s \<Rightarrow> Some s)\<rparr>"
  by (simp add: apply_orchestration_env_overrides_def Let_def split: option.splits)

text \<open>A socket alone asks for the daemon, so that no task ends up in the memory of the process.\<close>

lemma socket_asks_for_the_daemon:
  assumes "hm_get env ''DEVIT_DAEMON_SOCKET'' = Some s" and "hm_get env ''DEVIT_ORCHESTRATION_MODE'' = None"
  shows "mode (cc_orchestration (load_core_config_with_env parse parse_toml env fs)) = DaemonMode"
  using assms by (simp add: load_core_config_with_env_def env_overrides_orchestration mode_override_def)

text \<open>The advice of the refusal does not help: it is the same refusal in the local mode, as long as the
  socket is set.\<close>

lemma offline_advice_does_not_help:
  assumes "hm_get env ''DEVIT_DAEMON_SOCKET'' = Some s"
  shows "daemon_guard (hm_insert ''DEVIT_ORCHESTRATION_MODE'' ''local'' env) False = daemon_guard env False
    \<and> (\<exists>e. daemon_guard env False = Inl e)"
  using assms by (simp add: daemon_guard_def hm_get_update)

subsection \<open>The model\<close>

text \<open>A key is never sent to \<open>ollama\<close>; a flag wins over the environment and that over the file.\<close>

lemma ollama_has_no_key:
  "rl_backend (resolve_llm_config sec env f) = ''ollama'' \<Longrightarrow> rl_api_key (resolve_llm_config sec env f) = None"
  by (auto simp: resolve_llm_config_def Let_def split: if_splits)

lemma model_sources:
  "rl_model (resolve_llm_config sec env f) =
     first_given [lf_model f, hm_get env ''DEVIT_LLM_MODEL'', map_option ll_model sec] (rl_model default_llm)"
  by (simp add: resolve_llm_config_def llm_from_flags_def llm_from_env_def llm_from_section_def
      llm_backend_defaults_def given_def Let_def split: option.splits)

lemma backend_sources:
  "rl_backend (resolve_llm_config sec env f) =
     first_given [lf_backend f, hm_get env ''DEVIT_LLM_BACKEND'', map_option ll_backend sec] (rl_backend default_llm)"
  by (simp add: resolve_llm_config_def llm_from_flags_def llm_from_env_def llm_from_section_def
      llm_backend_defaults_def given_def Let_def split: option.splits)

text \<open>A flag for the backend also hides an endpoint that the environment names.\<close>

lemma backend_flag_hides_the_endpoint:
  assumes "lf_backend f = Some ''ollama''" and "lf_endpoint f = None"
  shows "rl_endpoint (resolve_llm_config sec env f) = ''http://localhost:11434/v1''"
  using assms by (simp add: resolve_llm_config_def llm_from_flags_def llm_backend_defaults_def given_def Let_def)

subsection \<open>The file of the workspace\<close>

lemma init_section_result:
  assumes "init_section sandbox allow project w = Inr w'"
  shows "map_of w' ''sandbox_root'' = (case sandbox of None \<Rightarrow> map_of w ''sandbox_root'' | Some r \<Rightarrow> Some (TStr r))"
    and "\<exists>r. Option.bind (map_of w' ''sandbox_root'') t_str = Some r"
    and "key \<notin> {''sandbox_root'', ''allowed_projects'', ''default_project''} \<Longrightarrow> map_of w' key = map_of w key"
  using assms by (auto simp: init_section_def insert_when_def Let_def hm_get_update
      split: option.splits if_splits)

text \<open>
  A configuration of the workspace that \<open>init\<close> wrote is read back with the sandbox that was
  given, or else with the one it had, and every other section of the file is as before, when the
  parser reads back what the writer of TOML wrote.
\<close>

lemma initialised_workspace_is_read_back:
  assumes "handle_workspace_init parse render env sandbox allow project fs = Inr fs'"
    and "read_config_doc parse env fs = Inr table"
    and "\<And>m t. render m = Some t \<Longrightarrow> parse t = Some (TTable m)"
  shows "\<exists>table' w'. read_config_doc parse env fs' = Inr table' \<and> workspace_section table' = Inr w'
    \<and> (\<forall>r. sandbox = Some r \<longrightarrow> Option.bind (map_of w' ''sandbox_root'') t_str = Some r)
    \<and> Option.bind (map_of w' ''sandbox_root'') t_str \<noteq> None
    \<and> (\<forall>key. key \<noteq> ''workspace'' \<longrightarrow> map_of table' key = map_of table key)"
proof -
  obtain w w' t where w: "init_section sandbox allow project w = Inr w'"
    and r: "render (hm_insert ''workspace'' (TTable w') table) = Some t"
    and wr: "write_text (components (config_path env)) t fs = Some fs'"
    using assms(1,2) by (auto simp: handle_workspace_init_def write_config_doc_def split: sum.splits option.splits)
  have again: "read_to_string fs' (components (config_path env)) = Some t"
    by (rule write_then_read [OF wr])
  then have "path_exists fs' (components (config_path env))"
    by (auto simp: read_to_string_def path_exists_def split: option.splits)
  with again assms(3) [OF r]
  have "read_config_doc parse env fs' = Inr (hm_insert ''workspace'' (TTable w') table)"
    by (simp add: read_config_doc_def)
  moreover have "workspace_section (hm_insert ''workspace'' (TTable w') table) = Inr w'"
    by (simp add: workspace_section_def hm_get_update)
  moreover have "\<forall>r. sandbox = Some r \<longrightarrow> Option.bind (map_of w' ''sandbox_root'') t_str = Some r"
    using init_section_result(1) [OF w] by auto
  moreover have "Option.bind (map_of w' ''sandbox_root'') t_str \<noteq> None"
    using init_section_result(2) [OF w] by auto
  ultimately show ?thesis by (auto simp: hm_get_update)
qed

subsection \<open>Delegations\<close>

text \<open>
  What a delegation prints is what the local backend recorded: the number, the timeout in
  seconds, the goal, the model and the directory of the task in the answer are those of the task
  that the backend keeps.
\<close>

lemma delegation_prints_the_recorded_task:
  assumes "delegate_request parse env engine resolved current f = Inr a"
    and "local_delegate cfg uuid now a s = (Inr d, s')"
  shows "\<exists>t. hm_get (l_active s') (dr_task_id d) = Some t
    \<and> get_str (delegate_answer cfg a (dr_task_id d)) ''task_id'' = Some (task_id t)
    \<and> jget (delegate_answer cfg a (dr_task_id d)) ''timeout_secs'' = Some (JInt (int (timeout_secs t)))
    \<and> get_str (delegate_answer cfg a (dr_task_id d)) ''goal'' = Some (df_goal f)
    \<and> goal t = df_goal f \<and> delegated_to t = df_delegated_to f
    \<and> task_model t = clean_model (df_model f)
    \<and> jget (delegate_answer cfg a (dr_task_id d)) ''working_dir'' = Some (jstr_opt (task_working_dir t))"
proof -
  have a: "a_goal a = df_goal f" "a_delegated_to a = df_delegated_to f" "a_model a = clean_model (df_model f)"
    using assms(1) by (auto simp: delegate_request_def split: sum.splits)
  show ?thesis
    using assms(2) a by (auto simp: local_delegate_def Let_def delegate_answer_def get_str_def hm_get_update
        given_def split: if_splits option.splits)
qed

subsection \<open>Test runs\<close>

text \<open>What the sandbox refuses is run outside of it.\<close>

lemma refused_tests_run_outside:
  assumes "contains e ''binary not allowed''"
  shows "run_sandboxed_test (Inr ()) (SandboxRefused e) unboxed cmd secs framework
    = run_test_fallback unboxed cmd secs framework"
  using assms by (simp add: run_sandboxed_test_def)

text \<open>Tests that fail are a success of the command; the command that is given is not used.\<close>

lemma failing_tests_succeed:
  assumes "chosen_stack stack fs = ''cargo''" and "sandboxed ''cargo test --color=never'' = SandboxRan code out"
  shows "ta_success (handle_test (Inr ()) sandboxed unboxed fs stack cmd timeout)"
  using assms by (simp add: handle_test_def test_command_def run_sandboxed_test_def Let_def)

lemma test_command_is_ignored:
  "handle_test config sandboxed unboxed fs stack cmd timeout
     = handle_test config sandboxed unboxed fs stack None timeout"
  by (simp add: handle_test_def)

text \<open>None of the three test commands is on the list of the sandbox, so that every run of tests that
  the sandbox is asked for happens outside of it.\<close>

lemma unlisted_command:
  assumes "tokenize_commands c = [p]" and "first_word p = bin" and "bin \<notin> set allowed_binaries"
  shows "enforce_policy c policy sb = Inl (''sandbox: unauthorized binary: '' @ bin)"
  using assms by (simp add: enforce_policy_def enforce_part_def Let_def)

lemma test_commands_are_refused:
  "enforce_policy ''cargo test --color=never'' policy sb = Inl ''sandbox: unauthorized binary: cargo''"
  "enforce_policy ''npm test'' policy sb = Inl ''sandbox: unauthorized binary: npm''"
  "enforce_policy ''pytest -v --tb=short'' policy sb = Inl ''sandbox: unauthorized binary: pytest''"
proof -
  have "tokenize_commands ''cargo test --color=never'' = [''cargo test --color=never'']"
    "first_word ''cargo test --color=never'' = ''cargo''" "''cargo'' \<notin> set allowed_binaries"
    by code_simp+
  then show "enforce_policy ''cargo test --color=never'' policy sb = Inl ''sandbox: unauthorized binary: cargo''"
    using unlisted_command by simp
  have "tokenize_commands ''npm test'' = [''npm test'']" "first_word ''npm test'' = ''npm''"
    "''npm'' \<notin> set allowed_binaries"
    by code_simp+
  then show "enforce_policy ''npm test'' policy sb = Inl ''sandbox: unauthorized binary: npm''"
    using unlisted_command by simp
  have "tokenize_commands ''pytest -v --tb=short'' = [''pytest -v --tb=short'']"
    "first_word ''pytest -v --tb=short'' = ''pytest''" "''pytest'' \<notin> set allowed_binaries"
    by code_simp+
  then show "enforce_policy ''pytest -v --tb=short'' policy sb = Inl ''sandbox: unauthorized binary: pytest''"
    using unlisted_command by simp
qed

lemma tests_never_run_in_the_sandbox:
  assumes "test_command s = Some c"
  shows "\<exists>e. enforce_policy c policy sb = Inl e
    \<and> run_sandboxed_test (Inr ()) (SandboxRefused e) unboxed c secs s = run_test_fallback unboxed c secs s"
proof -
  have "contains (''sandbox: unauthorized binary: '' @ b) ''unauthorized binary''" for b
    unfolding contains_def sublist_def
    by (intro exI [of _ "''sandbox: ''"] exI [of _ "'': '' @ b"]) simp
  from this [of "''cargo''"] this [of "''npm''"] this [of "''pytest''"] show ?thesis
    using assms by (auto simp: test_command_def test_commands_are_refused run_sandboxed_test_def
        split: if_splits)
qed
end
