(* ===== verification/Merge_Assist.thy ===== *)
theory Merge_Assist
  imports Git_Tools
begin

text \<open>
  Help with merge conflicts (crates/cli/src/merge_assist.rs): finding the conflicts of files,
  proposing a resolution for each, and applying a plan of resolutions, with a backup of each file.
  Git is a parameter, which lists the unmerged files.
\<close>

subsection \<open>The pieces of a file\<close>

record conflict_hunk =
  ch_start_line :: nat
  ch_end_line :: nat
  ch_ours :: string
  ch_base :: "string option"
  ch_theirs :: string

datatype merge_piece = KeptLine string | ConflictPiece conflict_hunk

fun first_index :: "(string \<Rightarrow> bool) \<Rightarrow> string list \<Rightarrow> nat option" where
  "first_index p [] = None"
| "first_index p (l # ls) = (if p l then Some 0 else map_option Suc (first_index p ls))"

text \<open>The first separator and the first end after a start; both must be there in this order.\<close>

definition conflict_at :: "string list \<Rightarrow> (nat \<times> nat) option" where
  "conflict_at ls =
     (case (first_index (\<lambda>l. starts_with l ''======='') ls, first_index (\<lambda>l. starts_with l ''>>>>>>>'') ls) of
        (Some a, Some b) \<Rightarrow> (if a < b then Some (a, b) else None)
      | _ \<Rightarrow> None)"

text \<open>\<open>i\<close> is the number of the first line that is left.\<close>

function merge_pieces :: "nat \<Rightarrow> string list \<Rightarrow> merge_piece list option" where
  "merge_pieces i [] = Some []"
| "merge_pieces i (l # ls) =
     (if starts_with l ''<<<<<<<'' then
        (case conflict_at ls of
           None \<Rightarrow> None
         | Some (a, b) \<Rightarrow>
             map_option ((#) (ConflictPiece
                 \<lparr>ch_start_line = i + 1, ch_end_line = i + 1 + b, ch_ours = join_lines (take a ls),
                  ch_base = None, ch_theirs = join_lines (take (b - a - 1) (drop (a + 1) ls))\<rparr>))
               (merge_pieces (i + 1 + b + 1) (drop (b + 1) ls)))
      else map_option ((#) (KeptLine l)) (merge_pieces (i + 1) ls))"
  by pat_completeness auto
termination
  by (relation "measure (\<lambda>(i, ls). length ls)") auto

fun conflicts_of :: "merge_piece list \<Rightarrow> conflict_hunk list" where
  "conflicts_of [] = []"
| "conflicts_of (KeptLine l # ps) = conflicts_of ps"
| "conflicts_of (ConflictPiece h # ps) = h # conflicts_of ps"

subsection \<open>Explaining\<close>

record file_conflicts =
  fcf_path :: string
  fcf_hunks :: "conflict_hunk list"

definition detect_merge_state :: "file_system \<Rightarrow> bool" where
  "detect_merge_state fs = path_exists fs (components ''.git/MERGE_HEAD'')"

definition unmerged_files :: "git_runner \<Rightarrow> file_system \<Rightarrow> string list" where
  "unmerged_files git fs =
     (case fst (git [''diff'', ''--name-only'', ''--diff-filter=U''] [] fs) of
        None \<Rightarrow> [] | Some e \<Rightarrow> str_lines (pe_stdout e))"

definition explain_file :: "file_system \<Rightarrow> string \<Rightarrow> string + file_conflicts list" where
  "explain_file fs p =
     (case read_to_string fs (components p) of
        None \<Rightarrow> Inl (''read '' @ p)
      | Some s \<Rightarrow>
          (case merge_pieces 0 (str_lines s) of
             None \<Rightarrow> Inl ''unbalanced_markers''
           | Some ps \<Rightarrow>
               Inr (if conflicts_of ps = [] then [] else [\<lparr>fcf_path = p, fcf_hunks = conflicts_of ps\<rparr>])))"

fun explain_all :: "file_system \<Rightarrow> string list \<Rightarrow> string + file_conflicts list" where
  "explain_all fs [] = Inr []"
| "explain_all fs (p # ps) =
     (case explain_file fs p of
        Inl e \<Rightarrow> Inl e
      | Inr fc \<Rightarrow> (case explain_all fs ps of Inl e \<Rightarrow> Inl e | Inr rest \<Rightarrow> Inr (fc @ rest)))"

definition explain_conflicts :: "git_runner \<Rightarrow> string list \<Rightarrow> file_system \<Rightarrow> string + file_conflicts list" where
  "explain_conflicts git paths fs = explain_all fs (if paths = [] then unmerged_files git fs else paths)"

subsection \<open>Plans\<close>

record resolution_item =
  ri_hunk_index :: nat
  ri_resolution :: string

type_synonym merge_plan = "(string, resolution_item list) hmap"

definition plan_with :: "(conflict_hunk \<Rightarrow> string) \<Rightarrow> file_conflicts list \<Rightarrow> merge_plan" where
  "plan_with decide fcs =
     fold (\<lambda>fc. hm_insert (fcf_path fc)
         (map (\<lambda>(i, h). \<lparr>ri_hunk_index = i, ri_resolution = decide h\<rparr>) (enumerate 0 (fcf_hunks fc)))) fcs []"

definition propose_minimal :: "file_conflicts list \<Rightarrow> merge_plan" where
  "propose_minimal = plan_with (\<lambda>h. ''keep_both'')"

definition propose_auto :: "file_conflicts list \<Rightarrow> merge_plan" where
  "propose_auto = plan_with (\<lambda>h. if trim (ch_ours h) = trim (ch_theirs h) then ''ours'' else ''keep_both'')"

subsection \<open>Applying\<close>

definition push_text :: "string \<Rightarrow> string \<Rightarrow> string" where
  "push_text t out = (if out = [] then t else out @ nl # t)"

definition resolution_for :: "resolution_item list \<Rightarrow> nat \<Rightarrow> string" where
  "resolution_for items k =
     (case find (\<lambda>it. ri_hunk_index it = k) items of None \<Rightarrow> ''keep_both'' | Some it \<Rightarrow> ri_resolution it)"

definition resolved_text :: "string \<Rightarrow> conflict_hunk \<Rightarrow> string" where
  "resolved_text choice h =
     (if choice = ''ours'' then ch_ours h
      else if choice = ''theirs'' then ch_theirs h
      else ch_ours h @ nl # ''// --- theirs ---'' @ nl # ch_theirs h)"

fun resolve_pieces :: "resolution_item list \<Rightarrow> nat \<Rightarrow> merge_piece list \<Rightarrow> string \<Rightarrow> string" where
  "resolve_pieces items k [] out = out"
| "resolve_pieces items k (KeptLine l # ps) out = resolve_pieces items k ps (push_text l out)"
| "resolve_pieces items k (ConflictPiece h # ps) out =
     resolve_pieces items (Suc k) ps (push_text (resolved_text (resolution_for items k) h) out)"

text \<open>A path without a file name panics in the source; it has no file to read either.\<close>

definition apply_file_plan :: "string \<Rightarrow> resolution_item list \<Rightarrow> file_system \<Rightarrow> (string + unit) \<times> file_system" where
  "apply_file_plan path items fs =
     (case read_to_string fs (components path) of
        None \<Rightarrow> (Inl ''io'', fs)
      | Some s \<Rightarrow>
          (case merge_pieces 0 (str_lines s) of
             None \<Rightarrow> (Inl ''merge_conflict_parse_error'', fs)
           | Some ps \<Rightarrow>
               (let out = resolve_pieces items 0 ps [];
                    fs1 = (case create_dir_all (components ''.devit/merge_backups'') fs of
                             None \<Rightarrow> fs | Some f \<Rightarrow> f);
                    name = (case file_name path of None \<Rightarrow> [] | Some n \<Rightarrow> n)
                in case write_text (components (path_join ''.devit/merge_backups'' name)) s fs1 of
                     None \<Rightarrow> (Inl ''merge_apply_failed'', fs1)
                   | Some fs2 \<Rightarrow>
                       (case write_text (components path) out fs2 of
                          None \<Rightarrow> (Inl ''merge_apply_failed'', fs2)
                        | Some fs3 \<Rightarrow> (Inr (), fs3)))))"

fun apply_plan :: "merge_plan \<Rightarrow> file_system \<Rightarrow> (string + unit) \<times> file_system" where
  "apply_plan [] fs = (Inr (), fs)"
| "apply_plan ((path, items) # plan) fs =
     (case apply_file_plan path items fs of
        (Inl e, fs') \<Rightarrow> (Inl e, fs')
      | (Inr _, fs') \<Rightarrow> apply_plan plan fs')"

subsection \<open>Files with conflicts\<close>

text \<open>
  A file as its parts: kept lines, and conflicts with both sides between the lines of their markers,
  whatever labels these have.
\<close>

datatype merge_part = PlainPart string | ConflictPart string "string list" string "string list" string

fun part_lines :: "merge_part \<Rightarrow> string list" where
  "part_lines (PlainPart l) = [l]"
| "part_lines (ConflictPart start ours sep theirs stop) = start # ours @ sep # theirs @ [stop]"

definition unmarked :: "string list \<Rightarrow> string \<Rightarrow> bool" where
  "unmarked marks l = list_all (\<lambda>m. \<not> starts_with l m) marks"

fun part_ok :: "merge_part \<Rightarrow> bool" where
  "part_ok (PlainPart l) = unmarked [''<<<<<<<''] l"
| "part_ok (ConflictPart start ours sep theirs stop) =
     (starts_with start ''<<<<<<<'' \<and> starts_with sep ''======='' \<and> starts_with stop ''>>>>>>>'' \<and>
      list_all (unmarked [''======='', ''>>>>>>>'']) ours \<and> list_all (unmarked [''>>>>>>>'']) theirs)"

definition chosen_text :: "string \<Rightarrow> string list \<Rightarrow> string list \<Rightarrow> string" where
  "chosen_text choice ours theirs =
     (if choice = ''ours'' then join_lines ours
      else if choice = ''theirs'' then join_lines theirs
      else join_lines ours @ nl # ''// --- theirs ---'' @ nl # join_lines theirs)"

text \<open>The pieces of the text that a resolution of the conflicts, from number \<open>k\<close> on, stands for.\<close>

fun part_texts :: "(nat \<Rightarrow> string) \<Rightarrow> nat \<Rightarrow> merge_part list \<Rightarrow> string list" where
  "part_texts f k [] = []"
| "part_texts f k (PlainPart l # ps) = l # part_texts f k ps"
| "part_texts f k (ConflictPart start ours sep theirs stop # ps) = chosen_text (f k) ours theirs # part_texts f (Suc k) ps"

lemma first_index_append:
  "list_all (\<lambda>l. \<not> p l) xs \<Longrightarrow> p y \<Longrightarrow> first_index p (xs @ y # ys) = Some (length xs)"
  by (induction xs) auto

lemma marker_kinds_differ:
  "starts_with l ''======='' \<Longrightarrow> \<not> starts_with l ''>>>>>>>''"
  by (cases l) (auto simp: starts_with_def)

lemma conflict_at_parts:
  assumes "part_ok (ConflictPart start ours sep theirs stop)"
  shows "conflict_at (ours @ sep # theirs @ stop # ls) = Some (length ours, length ours + 1 + length theirs)"
proof -
  have "first_index (\<lambda>l. starts_with l ''======='') (ours @ sep # theirs @ stop # ls) = Some (length ours)"
    using assms by (intro first_index_append) (auto simp: unmarked_def list_all_iff)
  moreover have "list_all (\<lambda>l. \<not> starts_with l ''>>>>>>>'') (ours @ sep # theirs)"
    using assms by (auto simp: unmarked_def list_all_iff marker_kinds_differ)
  then have "first_index (\<lambda>l. starts_with l ''>>>>>>>'') ((ours @ sep # theirs) @ stop # ls)
      = Some (length (ours @ sep # theirs))"
    using assms by (intro first_index_append) auto
  ultimately show ?thesis by (simp add: conflict_at_def)
qed

lemma first_index_split:
  "first_index p ls = Some i \<Longrightarrow>
    ls = take i ls @ ls ! i # drop (Suc i) ls \<and> p (ls ! i) \<and> list_all (\<lambda>l. \<not> p l) (take i ls)"
  by (induction ls arbitrary: i) (auto split: if_splits)

lemma first_index_length: "first_index p ls = Some i \<Longrightarrow> i < length ls"
  by (induction ls arbitrary: i) (auto split: if_splits)

lemma conflict_at_split:
  assumes "conflict_at ls = Some (a, b)"
  shows "ls = take a ls @ ls ! a # take (b - a - 1) (drop (a + 1) ls) @ ls ! b # drop (b + 1) ls"
    and "starts_with l ''<<<<<<<'' \<Longrightarrow>
      part_ok (ConflictPart l (take a ls) (ls ! a) (take (b - a - 1) (drop (a + 1) ls)) (ls ! b))"
proof -
  from assms have a: "first_index (\<lambda>l. starts_with l ''======='') ls = Some a"
    and b: "first_index (\<lambda>l. starts_with l ''>>>>>>>'') ls = Some b" and ab: "a < b"
    by (auto simp: conflict_at_def split: option.splits if_splits)
  note bl = first_index_length [OF b]
  have mid: "drop (a + 1) ls
      = take (b - a - 1) (drop (a + 1) ls) @ ls ! b # drop (b + 1) ls"
    using ab bl id_take_nth_drop [of "b - a - 1" "drop (a + 1) ls"] by simp
  with first_index_split [OF a]
  show "ls = take a ls @ ls ! a # take (b - a - 1) (drop (a + 1) ls) @ ls ! b # drop (b + 1) ls"
    by simp
  have "x \<in> set (take b ls)" if "x \<in> set (take (b - a - 1) (drop (a + 1) ls))" for x
    using that ab by (auto simp: take_drop dest: in_set_dropD)
  moreover have "x \<in> set (take b ls)" if "x \<in> set (take a ls)" for x
    using that ab set_take_subset_set_take [of a b ls] by auto
  moreover note first_index_split [OF a] first_index_split [OF b]
  ultimately show "starts_with l ''<<<<<<<'' \<Longrightarrow>
      part_ok (ConflictPart l (take a ls) (ls ! a) (take (b - a - 1) (drop (a + 1) ls)) (ls ! b))"
    by (auto simp: unmarked_def list_all_iff)
qed

text \<open>What the reader of conflicts accepts is exactly a sequence of such parts.\<close>

lemma merge_pieces_have_parts:
  "merge_pieces i ls = Some ps \<Longrightarrow> \<exists>parts. ls = concat (map part_lines parts) \<and> list_all part_ok parts"
proof (induction i ls arbitrary: ps rule: merge_pieces.induct)
  case (1 i)
  show ?case by (rule exI [of _ "[]"]) simp
next
  case (2 i l ls)
  show ?case
  proof (cases "starts_with l ''<<<<<<<''")
    case True
    with "2.prems" obtain a b ps' where ab: "conflict_at ls = Some (a, b)"
      and ps': "merge_pieces (i + 1 + b + 1) (drop (b + 1) ls) = Some ps'"
      by (auto split: option.splits)
    obtain parts where "drop (b + 1) ls = concat (map part_lines parts)" "list_all part_ok parts"
      using "2.IH"(1) [OF True ab _ ps'] by auto
    then show ?thesis
      using conflict_at_split(1) [OF ab] conflict_at_split(2) [OF ab True]
      by (intro exI [of _ "ConflictPart l (take a ls) (ls ! a) (take (b - a - 1) (drop (a + 1) ls)) (ls ! b) # parts"])
        simp
  next
    case False
    with "2.prems" obtain ps' where ps': "merge_pieces (i + 1) ls = Some ps'" by auto
    obtain parts where "ls = concat (map part_lines parts)" "list_all part_ok parts"
      using "2.IH"(2) [OF False ps'] by auto
    then show ?thesis using False by (intro exI [of _ "PlainPart l # parts"]) (simp add: unmarked_def)
  qed
qed

lemma merge_pieces_parts:
  assumes "list_all part_ok parts"
  shows "\<exists>ps. merge_pieces i (concat (map part_lines parts)) = Some ps
    \<and> (\<forall>k out. resolve_pieces items k ps out = fold push_text (part_texts (resolution_for items) k parts) out)"
  using assms
proof (induction parts arbitrary: i)
  case Nil
  then show ?case by simp
next
  case (Cons part parts)
  show ?case
  proof (cases part)
    case (PlainPart l)
    obtain ps where ps: "merge_pieces (i + 1) (concat (map part_lines parts)) = Some ps"
      "\<forall>k out. resolve_pieces items k ps out = fold push_text (part_texts (resolution_for items) k parts) out"
      using Cons.IH [of "i + 1"] Cons.prems by auto
    have "\<not> starts_with l ''<<<<<<<''"
      using Cons.prems PlainPart by (simp add: unmarked_def)
    then show ?thesis using ps PlainPart by simp
  next
    case (ConflictPart start ours sep theirs stop)
    let ?b = "length ours + 1 + length theirs"
    let ?rest = "concat (map part_lines parts)"
    obtain ps where ps: "merge_pieces (i + 1 + ?b + 1) ?rest = Some ps"
      "\<forall>k out. resolve_pieces items k ps out = fold push_text (part_texts (resolution_for items) k parts) out"
      using Cons.IH [of "i + 1 + ?b + 1"] Cons.prems by auto
    have at: "conflict_at (ours @ sep # theirs @ stop # ?rest) = Some (length ours, ?b)"
      by (rule conflict_at_parts [of start]) (use Cons.prems ConflictPart in simp)
    have "starts_with start ''<<<<<<<''" using Cons.prems ConflictPart by simp
    then show ?thesis using ps at ConflictPart
      by (simp add: resolved_text_def chosen_text_def)
  qed
qed

lemma push_text_simps [simp]:
  "push_text t [] = t" "out \<noteq> [] \<Longrightarrow> push_text t out = out @ nl # t"
  by (simp_all add: push_text_def)

lemma push_texts_join:
  "out \<noteq> [] \<Longrightarrow> fold push_text ts out = join_lines (out # ts)"
proof (induction ts arbitrary: out)
  case (Cons t ts)
  have "join_lines ((out @ nl # t) # ts) = join_lines (out # t # ts)" by (cases ts) auto
  then show ?case using Cons.IH [of "out @ nl # t"] Cons.prems by simp
qed simp

lemma push_texts_from_empty: "fold push_text ts [] = join_lines (dropWhile (\<lambda>t. t = []) ts)"
proof (induction ts)
  case (Cons t ts)
  then show ?case by (cases "t = []") (simp_all add: push_texts_join)
qed simp

text \<open>
  C39: where a plan was applied to a file, the file was a sequence of kept lines and of conflicts
  (a line that begins with \<open><<<<<<<\<close>, ours, a line that begins with \<open>=======\<close>, theirs, a line that
  begins with \<open>>>>>>>>\<close>; any labels), and its new text is made of the kept lines in their order and of
  each conflict the side that the plan names, or both with a comment between them: these pieces one
  per line, without the empty pieces at the start, which are dropped, and without a line end behind
  the last.
\<close>

theorem plan_resolves_conflicts:
  assumes "read_to_string fs (components path) = Some s"
    and "apply_file_plan path items fs = (Inr (), fs')"
  shows "(\<exists>parts. str_lines s = concat (map part_lines parts) \<and> list_all part_ok parts) \<and>
    (\<forall>parts. str_lines s = concat (map part_lines parts) \<and> list_all part_ok parts \<longrightarrow>
       read_to_string fs' (components path)
       = Some (join_lines (dropWhile (\<lambda>t. t = []) (part_texts (resolution_for items) 0 parts))))"
proof -
  obtain ps fs2 where ps: "merge_pieces 0 (str_lines s) = Some ps"
    and w: "write_text (components path) (resolve_pieces items 0 ps []) fs2 = Some fs'"
    using assms by (auto simp: apply_file_plan_def Let_def split: option.splits)
  have "resolve_pieces items 0 ps [] = fold push_text (part_texts (resolution_for items) 0 parts) []"
    if "str_lines s = concat (map part_lines parts)" "list_all part_ok parts" for parts
    using merge_pieces_parts [OF that(2), of 0 items] that(1) ps by auto
  then show ?thesis
    using merge_pieces_have_parts [OF ps] write_then_read [OF w] by (auto simp: push_texts_from_empty)
qed

definition conflict_text :: string where
  "conflict_text =
     ''x'' @ nl # ''<<<<<<< HEAD'' @ nl # ''o'' @ nl # ''======='' @ nl # ''t'' @ nl # ''>>>>>>> feature'' @ [nl]"

definition conflict_disk :: file_system where
  "conflict_disk = \<lparr>nodes = [([''a''], File conflict_text)], cwd = []\<rparr>"

definition sample_parts :: "merge_part list" where
  "sample_parts = [PlainPart ''x'', ConflictPart ''<<<<<<< HEAD'' [''o''] ''======='' [''t''] ''>>>>>>> feature'']"

definition take_theirs :: "resolution_item list" where
  "take_theirs = [\<lparr>ri_hunk_index = 0, ri_resolution = ''theirs''\<rparr>]"

theorem plan_resolves_conflicts_witness:
  "\<exists>fs'. apply_file_plan ''a'' take_theirs conflict_disk = (Inr (), fs')
    \<and> read_to_string fs' (components ''a'') = Some (''x'' @ nl # ''t'')"
proof -
  have read: "read_to_string conflict_disk (components ''a'') = Some conflict_text"
    by code_simp
  have ls: "str_lines conflict_text = concat (map part_lines sample_parts)"
    by code_simp
  have ok: "list_all part_ok sample_parts"
    by code_simp
  have "case apply_file_plan ''a'' take_theirs conflict_disk of (Inr _, _) \<Rightarrow> True | _ \<Rightarrow> False"
    by code_simp
  then obtain fs' where run: "apply_file_plan ''a'' take_theirs conflict_disk = (Inr (), fs')"
    by (auto split: prod.splits sum.splits)
  have "join_lines (dropWhile (\<lambda>t. t = []) (part_texts (resolution_for take_theirs) 0 sample_parts))
      = ''x'' @ nl # ''t''"
    by code_simp
  with plan_resolves_conflicts [OF read run] ls ok run show ?thesis by auto
qed

subsection \<open>Plans that are proposed\<close>

lemma resolution_of_enumerate:
  "k < length hs \<Longrightarrow>
     resolution_for (map (\<lambda>(i, h). \<lparr>ri_hunk_index = i, ri_resolution = f h\<rparr>) (enumerate n hs)) (n + k) = f (hs ! k)"
proof (induction hs arbitrary: k n)
  case (Cons h hs)
  show ?case
  proof (cases k)
    case 0
    then show ?thesis by (simp add: resolution_for_def enumerate_simps)
  next
    case (Suc m)
    then have "resolution_for (map (\<lambda>(i, h). \<lparr>ri_hunk_index = i, ri_resolution = f h\<rparr>) (enumerate (Suc n) hs)) (Suc n + m)
        = f (hs ! m)"
      using Cons.IH [of m "Suc n"] Cons.prems by simp
    then show ?thesis using Suc by (simp add: resolution_for_def enumerate_simps)
  qed
qed simp

text \<open>The automatic plan takes one side only where both are the same up to blanks.\<close>

lemma auto_plan_of_one_file:
  assumes "k < length hs"
  shows "\<exists>items. hm_get (propose_auto [\<lparr>fcf_path = p, fcf_hunks = hs\<rparr>]) p = Some items
    \<and> resolution_for items k = (if trim (ch_ours (hs ! k)) = trim (ch_theirs (hs ! k)) then ''ours'' else ''keep_both'')"
  using resolution_of_enumerate [OF assms,
      of "\<lambda>h. if trim (ch_ours h) = trim (ch_theirs h) then ''ours'' else ''keep_both''" 0]
  by (simp add: propose_auto_def plan_with_def)

text \<open>A side without lines leaves an empty line, and the last line loses its end.\<close>

lemma empty_side_leaves_a_line:
  "join_lines (dropWhile (\<lambda>t. t = []) (part_texts (\<lambda>_. ''ours'') 0
     [PlainPart ''x'', ConflictPart ''<<<<<<<'' [] ''======='' [''t''] ''>>>>>>>'', PlainPart ''y''])) = ''x'' @ [nl, nl] @ ''y''"
  by (simp add: chosen_text_def)

text \<open>In the style of three sides the base is taken for a part of ours.\<close>

lemma base_counts_as_ours:
  "merge_pieces 0 [''<<<<<<< HEAD'', ''o'', ''||||||| base'', ''b'', ''======='', ''t'', ''>>>>>>> branch'']
    = Some [ConflictPiece \<lparr>ch_start_line = 1, ch_end_line = 6,
        ch_ours = ''o'' @ nl # ''||||||| base'' @ nl # ''b'', ch_base = None, ch_theirs = ''t''\<rparr>]"
  by code_simp

end
