(* ===== verification/Recipes.thy ===== *)
theory Recipes
  imports Json Std_Dir "HOL-Library.List_Lexorder" "HOL-Library.Char_ord"
begin

text \<open>
  Recipes (crates/cli/src/recipes.rs): the files of recipes in a directory, and a run of the steps
  of one. The parser of YAML and the programs that the steps run are parameters.
\<close>

datatype recipe_kind = ShellStep | GitStep | DevitStep

record recipe_step =
  rs_kind :: recipe_kind
  rs_name :: "string option"
  rs_run :: "string option"
  rs_args :: "string list option"

record recipe_file =
  rf_id :: string
  rf_name :: string
  rf_description :: "string option"
  rf_steps :: "recipe_step list"

record recipe_summary =
  rsm_id :: string
  rsm_name :: string
  rsm_description :: "string option"

record recipe_run_report =
  rrr_id :: string
  rrr_dry_run :: bool
  rrr_steps_total :: nat

record recipe_run_error =
  rre_payload :: json
  rre_exit_code :: int

text \<open>The end of a program: an error when it could not be started, else its code.\<close>

type_synonym program_runner = "string \<Rightarrow> string list \<Rightarrow> file_system \<Rightarrow> (string + int option) \<times> file_system"

definition recipes_dir :: "(string, string) hmap \<Rightarrow> string" where
  "recipes_dir env =
     (case hm_get env ''DEVIT_RECIPES_DIR'' of
        Some custom \<Rightarrow> (if custom \<noteq> [] then custom else ''.devit/recipes'')
      | None \<Rightarrow> ''.devit/recipes'')"

definition is_recipe_file :: "file_system \<Rightarrow> string \<Rightarrow> bool" where
  "is_recipe_file fs path =
     ((case stat fs True (components path) of Some (File _) \<Rightarrow> True | _ \<Rightarrow> False)
      \<and> (file_extension path = Some ''yml'' \<or> file_extension path = Some ''yaml''))"

definition load_recipe_files :: "file_system \<Rightarrow> string \<Rightarrow> string list" where
  "load_recipe_files fs dir =
     (case read_dir fs (components dir) of
        None \<Rightarrow> []
      | Some ns \<Rightarrow> sort (filter (is_recipe_file fs) (map (path_join dir) ns)))"

definition load_recipe :: "(string \<Rightarrow> recipe_file option) \<Rightarrow> file_system \<Rightarrow> string \<Rightarrow> string + recipe_file" where
  "load_recipe parse fs path =
     (case read_to_string fs (components path) of
        None \<Rightarrow> Inl (''read recipe '' @ path)
      | Some t \<Rightarrow>
          (case parse t of
             None \<Rightarrow> Inl (''parse recipe '' @ path)
           | Some r \<Rightarrow>
               (if trim (rf_id r) = [] then Inl ''recipe id is empty''
                else if trim (rf_name r) = [] then Inl ''recipe name is empty''
                else Inr r)))"

definition loaded_recipes :: "(string \<Rightarrow> recipe_file option) \<Rightarrow> file_system \<Rightarrow> string list \<Rightarrow> recipe_file list" where
  "loaded_recipes parse fs paths =
     List.map_filter (\<lambda>p. case load_recipe parse fs p of Inl _ \<Rightarrow> None | Inr r \<Rightarrow> Some r) paths"

definition list_recipes ::
  "(string \<Rightarrow> recipe_file option) \<Rightarrow> (string, string) hmap \<Rightarrow> file_system \<Rightarrow> recipe_summary list"
where
  "list_recipes parse env fs =
     map (\<lambda>r. \<lparr>rsm_id = rf_id r, rsm_name = rf_name r, rsm_description = rf_description r\<rparr>)
       (loaded_recipes parse fs (load_recipe_files fs (recipes_dir env)))"

definition recipe_kind_name :: "recipe_kind \<Rightarrow> string" where
  "recipe_kind_name k = (case k of ShellStep \<Rightarrow> ''shell'' | GitStep \<Rightarrow> ''git'' | DevitStep \<Rightarrow> ''devit'')"

definition step_end :: "string \<Rightarrow> (string + int option) \<Rightarrow> string + unit" where
  "step_end what e =
     (case e of
        Inl m \<Rightarrow> Inl m
      | Inr code \<Rightarrow>
          (if code = Some 0 then Inr ()
           else Inl (what @ '' exit code ''
             @ (case code of None \<Rightarrow> ''-1''
                | Some n \<Rightarrow> (if n < 0 then ''-'' else []) @ show_nat (nat \<bar>n\<bar>)))))"

text \<open>\<open>exe\<close> is the program itself.\<close>

definition execute_step ::
  "program_runner \<Rightarrow> string \<Rightarrow> recipe_step \<Rightarrow> file_system \<Rightarrow> (string + unit) \<times> file_system"
where
  "execute_step run exe step fs =
     (let started = (\<lambda>what program args. case run program args fs of (e, fs') \<Rightarrow> (step_end what e, fs'));
          with_args = (\<lambda>what program. case rs_args step of
              None \<Rightarrow> (Inl (what @ '' step missing '' @ [CHR 0x27] @ ''args'' @ [CHR 0x27]), fs)
            | Some args \<Rightarrow>
                (if args = [] then (Inl (what @ '' step args empty''), fs) else started what program args))
      in case rs_kind step of
           ShellStep \<Rightarrow>
             (case rs_run step of
                None \<Rightarrow> (Inl (''shell step missing '' @ [CHR 0x27] @ ''run'' @ [CHR 0x27]), fs)
              | Some command \<Rightarrow> started ''shell'' ''bash'' [''-lc'', command])
         | GitStep \<Rightarrow> with_args ''git'' ''git''
         | DevitStep \<Rightarrow> with_args ''devit'' exe)"

fun run_steps ::
  "program_runner \<Rightarrow> string \<Rightarrow> string \<Rightarrow> bool \<Rightarrow> nat \<Rightarrow> recipe_step list \<Rightarrow> file_system
    \<Rightarrow> (recipe_run_error + unit) \<times> file_system"
where
  "run_steps run exe rid dry i [] fs = (Inr (), fs)"
| "run_steps run exe rid dry i (step # steps) fs =
     (if dry then run_steps run exe rid dry (Suc i) steps fs
      else case execute_step run exe step fs of
             (Inl e, fs') \<Rightarrow>
               (Inl \<lparr>rre_payload = JObj [(''recipe_require_failed'', JBool True), (''reason'', JStr e),
                       (''step'', JInt (int (i + 1))), (''id'', JStr rid)], rre_exit_code = 1\<rparr>, fs')
           | (Inr _, fs') \<Rightarrow> run_steps run exe rid dry (Suc i) steps fs')"

definition run_recipe ::
  "(string \<Rightarrow> recipe_file option) \<Rightarrow> (string, string) hmap \<Rightarrow> program_runner \<Rightarrow> string \<Rightarrow> string \<Rightarrow> bool
    \<Rightarrow> file_system \<Rightarrow> (recipe_run_error + recipe_run_report) \<times> file_system"
where
  "run_recipe parse env run exe rid dry fs =
     (case find (\<lambda>r. rf_id r = rid) (loaded_recipes parse fs (load_recipe_files fs (recipes_dir env))) of
        None \<Rightarrow>
          (Inl \<lparr>rre_payload = JObj [(''recipe_require_failed'', JBool True), (''reason'', JStr ''not_found''),
                  (''id'', JStr rid)], rre_exit_code = 2\<rparr>, fs)
      | Some r \<Rightarrow>
          (case run_steps run exe rid dry 0 (rf_steps r) fs of
             (Inl e, fs') \<Rightarrow> (Inl e, fs')
           | (Inr _, fs') \<Rightarrow>
               (Inr \<lparr>rrr_id = rf_id r, rrr_dry_run = dry, rrr_steps_total = length (rf_steps r)\<rparr>, fs')))"

subsection \<open>Runs\<close>

lemma dry_steps_change_nothing: "run_steps run exe rid True i steps fs = (Inr (), fs)"
  by (induction steps arbitrary: i) auto

lemma dry_recipe_changes_nothing: "snd (run_recipe parse env run exe rid True fs) = fs"
  by (simp add: run_recipe_def dry_steps_change_nothing split: option.splits)

text \<open>The steps that succeed one after another.\<close>

inductive steps_done :: "program_runner \<Rightarrow> string \<Rightarrow> recipe_step list \<Rightarrow> file_system \<Rightarrow> file_system \<Rightarrow> bool"
  for run exe
where
  none_done: "steps_done run exe [] fs fs"
| one_done: "execute_step run exe s fs = (Inr (), fs1) \<Longrightarrow> steps_done run exe ss fs1 fs2
    \<Longrightarrow> steps_done run exe (s # ss) fs fs2"

inductive_cases steps_done_ConsE: "steps_done run exe (s # ss) fs fs'"

text \<open>A run succeeds exactly when all steps do, and a failure names the first step that did not, after
  which nothing ran.\<close>

lemma run_steps_done:
  "run_steps run exe rid False i steps fs = (Inr (), fs') \<longleftrightarrow> steps_done run exe steps fs fs'"
proof (induction steps arbitrary: i fs)
  case Nil
  then show ?case by (auto intro: none_done elim: steps_done.cases)
next
  case (Cons s ss)
  obtain r fs1 where r: "execute_step run exe s fs = (r, fs1)" by fastforce
  then show ?case using Cons.IH by (cases r) (auto intro: one_done elim: steps_done_ConsE)
qed

lemma run_steps_failed:
  assumes "run_steps run exe rid False i steps fs = (Inl e, fs')"
  shows "\<exists>k fs1 m. k < length steps \<and> steps_done run exe (take k steps) fs fs1
    \<and> execute_step run exe (steps ! k) fs1 = (Inl m, fs')
    \<and> jget (rre_payload e) ''step'' = Some (JInt (int (i + k + 1))) \<and> rre_exit_code e = 1"
  using assms
proof (induction steps arbitrary: i fs)
  case (Cons s ss)
  obtain r fs1 where r: "execute_step run exe s fs = (r, fs1)" by fastforce
  show ?case
  proof (cases r)
    case (Inl m)
    then show ?thesis using Cons.prems r by (intro exI [of _ 0]) (auto intro: none_done)
  next
    case (Inr u)
    then have "run_steps run exe rid False (Suc i) ss fs1 = (Inl e, fs')"
      using Cons.prems r by simp
    from Cons.IH [OF this] obtain k fs2 m where "k < length ss" "steps_done run exe (take k ss) fs1 fs2"
      "execute_step run exe (ss ! k) fs2 = (Inl m, fs')"
      "jget (rre_payload e) ''step'' = Some (JInt (int (Suc i + k + 1)))" "rre_exit_code e = 1" by blast
    then show ?thesis using r Inr by (intro exI [of _ "Suc k"]) (auto intro: one_done)
  qed
qed simp

end
