(* ===== verification/Web_Fetch.thy ===== *)
theory Web_Fetch
  imports Output_Shaper
begin

text \<open>
  Fetching pages (crates/mcp-tools/src/fetch_url.rs, with the limits of crates/common/src/limits.rs
  and the rules of crates/mcp-tools/src/net_utils.rs): which address may be asked, how long and how
  much, what the site allows, and how the text is marked.

  Parameters: the parser of addresses, the HTTP client with its redirects, the replacement of
  regular expressions, and the extraction of an article.
\<close>

subsection \<open>Limits\<close>

record effective_limits =
  el_timeout_ms :: nat
  el_max_bytes :: "nat option"
  el_max_redirects :: nat
  el_follow_redirects :: bool

record limit_sources =
  ls_timeout_ms :: string
  ls_max_bytes :: "string option"
  ls_max_redirects :: string
  ls_follow_redirects :: string

definition parse_env_u64 :: "(string, string) hmap \<Rightarrow> string \<Rightarrow> nat option" where
  "parse_env_u64 env name = Option.bind (hm_get env name) parse_u64"

definition parse_env_bool :: "(string, string) hmap \<Rightarrow> string \<Rightarrow> bool option" where
  "parse_env_bool env name =
     Option.bind (hm_get env name) (\<lambda>v.
       let t = to_lowercase v
       in if t \<in> {''1'', ''true'', ''yes'', ''on''} then Some True
          else if t \<in> {''0'', ''false'', ''no'', ''off''} then Some False else None)"

definition clamp :: "nat \<Rightarrow> nat \<Rightarrow> nat \<Rightarrow> nat" where
  "clamp v lo hi = (if v < lo then lo else if hi < v then hi else v)"

text \<open>A number from the call, else from the environment, both cut to the range, else the default.\<close>

definition limited :: "nat option \<Rightarrow> nat option \<Rightarrow> nat \<Rightarrow> nat \<Rightarrow> nat \<Rightarrow> nat \<times> string" where
  "limited param env lo hi d =
     (case param of
        Some p \<Rightarrow> (clamp p lo hi, ''param'')
      | None \<Rightarrow> (case env of Some e \<Rightarrow> (clamp e lo hi, ''env'') | None \<Rightarrow> (d, ''default'')))"

definition resolve_search_limits ::
  "(string, string) hmap \<Rightarrow> nat option \<Rightarrow> effective_limits \<times> limit_sources"
where
  "resolve_search_limits env param =
     (let (t, src) = limited param (parse_env_u64 env ''DEVIT_SEARCH_TIMEOUT_MS'') 100 10000 8000
      in (\<lparr>el_timeout_ms = t, el_max_bytes = None, el_max_redirects = 2, el_follow_redirects = True\<rparr>,
          \<lparr>ls_timeout_ms = src, ls_max_bytes = None, ls_max_redirects = ''default'',
           ls_follow_redirects = ''default''\<rparr>))"

definition resolve_fetch_limits ::
  "(string, string) hmap \<Rightarrow> nat option \<Rightarrow> nat option \<Rightarrow> bool option \<Rightarrow> effective_limits \<times> limit_sources"
where
  "resolve_fetch_limits env timeout bytes follow =
     (let (t, t_src) = limited timeout (parse_env_u64 env ''DEVIT_FETCH_TIMEOUT_MS'') 100 10000 8000;
          (b, b_src) = limited bytes (parse_env_u64 env ''DEVIT_FETCH_MAX_BYTES'') 1 1000000 500000;
          (f, f_src) = (case follow of
              Some p \<Rightarrow> (p, ''param'')
            | None \<Rightarrow> (case parse_env_bool env ''DEVIT_FOLLOW_REDIRECTS'' of
                Some e \<Rightarrow> (e, ''env'') | None \<Rightarrow> (True, ''default'')))
      in (\<lparr>el_timeout_ms = t, el_max_bytes = Some b, el_max_redirects = 2, el_follow_redirects = f\<rparr>,
          \<lparr>ls_timeout_ms = t_src, ls_max_bytes = Some b_src, ls_max_redirects = ''default'',
           ls_follow_redirects = f_src\<rparr>))"

subsection \<open>What a site allows\<close>

datatype robots_policy = RobotsAllow | RobotsDisallow

definition starts_with_ci :: "string \<Rightarrow> string \<Rightarrow> bool" where
  "starts_with_ci line p = starts_with (map lower_char line) p"

text \<open>\<open>splitn(2, ':').nth(1)\<close>.\<close>

definition after_colon :: "string \<Rightarrow> string" where
  "after_colon line = (case split_once (CHR '':'') line of None \<Rightarrow> [] | Some (_, v) \<Rightarrow> trim v)"

record robots_scan =
  rb_in_star :: bool
  rb_allows :: "string list"
  rb_disallows :: "string list"

definition robots_line :: "string \<Rightarrow> robots_scan \<Rightarrow> robots_scan" where
  "robots_line raw st =
     (let line = trim (hd (split_char (CHR ''#'') raw))
      in if line = [] then st
         else if starts_with_ci line ''user-agent:''
           then st\<lparr>rb_in_star := (map lower_char (after_colon line) = ''*'')\<rparr>
         else if \<not> rb_in_star st then st
         else if starts_with_ci line ''allow:'' then st\<lparr>rb_allows := rb_allows st @ [after_colon line]\<rparr>
         else if starts_with_ci line ''disallow:''
           then st\<lparr>rb_disallows := rb_disallows st @ [after_colon line]\<rparr>
         else st)"

definition robots_rules :: "string \<Rightarrow> robots_scan" where
  "robots_rules robots =
     fold robots_line (str_lines robots) \<lparr>rb_in_star = False, rb_allows = [], rb_disallows = []\<rparr>"

definition best_match :: "string \<Rightarrow> string list \<Rightarrow> string option" where
  "best_match path rules =
     fold (\<lambda>r best. if starts_with path r \<and> (case best of None \<Rightarrow> True | Some b \<Rightarrow> length b < length r)
                    then Some r else best) rules None"

definition robots_policy_for :: "string \<Rightarrow> string \<Rightarrow> robots_policy" where
  "robots_policy_for path robots =
     (let st = robots_rules robots;
          best_dis = best_match path (filter (\<lambda>d. d \<noteq> []) (rb_disallows st));
          best_all = best_match path (rb_allows st)
      in if best_all \<noteq> None then RobotsAllow
         else if best_dis \<noteq> None then RobotsDisallow else RobotsAllow)"

subsection \<open>What the text hints at\<close>

definition detect_paywall_hint :: "string \<Rightarrow> bool" where
  "detect_paywall_hint html =
     (let low = to_lowercase html
      in contains low ''paywall'' \<or> contains low ''subscribe'' \<and> contains low ''premium'')"

definition detect_injection_text :: "string \<Rightarrow> bool" where
  "detect_injection_text t =
     (let low = to_lowercase t
      in 2 \<le> length (filter (contains low)
               [''ignore previous instructions'', ''system_prompt'', ''tool_call'', ''exfiltrate'']))"

datatype extract_mode = RawMode | ArticleMode | AutoExtract

definition extract_mode_of :: "string \<Rightarrow> extract_mode" where
  "extract_mode_of s =
     (let t = to_lowercase s
      in if t = ''article'' then ArticleMode else if t = ''auto'' then AutoExtract else RawMode)"

subsection \<open>Addresses of hosts\<close>

text \<open>\<open>IpAddr::from_str\<close>.\<close>

datatype ip_addr = V4 "nat list" | V6 "nat list"

definition v4_part :: "string \<Rightarrow> nat option" where
  "v4_part s =
     (if s = [] \<or> 3 < length s \<or> (1 < length s \<and> hd s = CHR ''0'') then None
      else case digits_val 10 0 s of None \<Rightarrow> None | Some n \<Rightarrow> (if n < 256 then Some n else None))"

fun all_some :: "'a option list \<Rightarrow> 'a list option" where
  "all_some [] = Some []"
| "all_some (None # xs) = None"
| "all_some (Some x # xs) = map_option ((#) x) (all_some xs)"

definition parse_v4 :: "string \<Rightarrow> nat list option" where
  "parse_v4 s =
     (case all_some (map v4_part (split_char (CHR ''.'') s)) of
        Some ns \<Rightarrow> (if length ns = 4 then Some ns else None)
      | None \<Rightarrow> None)"

definition hex_digit :: "char \<Rightarrow> nat option" where
  "hex_digit c =
     (let v = of_char c :: nat
      in if 48 \<le> v \<and> v \<le> 57 then Some (v - 48)
         else if 97 \<le> v \<and> v \<le> 102 then Some (v - 87)
         else if 65 \<le> v \<and> v \<le> 70 then Some (v - 55) else None)"

fun hex_val :: "nat \<Rightarrow> string \<Rightarrow> nat option" where
  "hex_val acc [] = Some acc"
| "hex_val acc (c # cs) =
     (case hex_digit c of None \<Rightarrow> None | Some d \<Rightarrow> hex_val (acc * 16 + d) cs)"

definition v6_part :: "string \<Rightarrow> nat option" where
  "v6_part s = (if s = [] \<or> 4 < length s then None else hex_val 0 s)"

text \<open>Groups between colons; the last may be an address of four bytes.\<close>

definition v6_groups :: "bool \<Rightarrow> string \<Rightarrow> nat list option" where
  "v6_groups v4_last s =
     (if s = [] then Some []
      else
        let ps = split_char (CHR '':'') s
        in case (if v4_last then parse_v4 (last ps) else None) of
             Some [a, b, c, d] \<Rightarrow>
               map_option (\<lambda>gs. gs @ [a * 256 + b, c * 256 + d]) (all_some (map v6_part (butlast ps)))
           | _ \<Rightarrow> all_some (map v6_part ps))"

definition parse_v6 :: "string \<Rightarrow> nat list option" where
  "parse_v6 s =
     (case find_str ''::'' s of
        None \<Rightarrow>
          (case v6_groups True s of
             Some gs \<Rightarrow> (if length gs = 8 then Some gs else None)
           | None \<Rightarrow> None)
      | Some i \<Rightarrow>
          (case (v6_groups False (take i s), v6_groups True (drop (i + 2) s)) of
             (Some a, Some b) \<Rightarrow>
               (if length a + length b \<le> 7
                then Some (a @ replicate (8 - length a - length b) 0 @ b) else None)
           | _ \<Rightarrow> None))"

definition parse_ip :: "string \<Rightarrow> ip_addr option" where
  "parse_ip s =
     (case parse_v4 s of
        Some o4 \<Rightarrow> Some (V4 o4)
      | None \<Rightarrow> map_option V6 (parse_v6 s))"

fun private_ip :: "ip_addr \<Rightarrow> bool" where
  "private_ip (V4 b) =
     (b ! 0 = 10 \<or> (b ! 0 = 172 \<and> 16 \<le> b ! 1 \<and> b ! 1 \<le> 31) \<or> (b ! 0 = 192 \<and> b ! 1 = 168) \<or> b ! 0 = 127)"
| "private_ip (V6 g) = (g = [0, 0, 0, 0, 0, 0, 0, 1] \<or> (0xFC00 \<le> g ! 0 \<and> g ! 0 < 0xFE00))"

definition is_private_host :: "string \<Rightarrow> bool" where
  "is_private_host host =
     (case parse_ip host of
        Some ip \<Rightarrow> private_ip ip
      | None \<Rightarrow>
          (let low = to_lowercase host
           in ends_with low ''.local'' \<or> ends_with low ''.corp'' \<or> low = ''localhost''))"

subsection \<open>The text of a page\<close>

record page_article =
  pa_text :: string
  pa_title :: "string option"
  pa_quality :: string
  pa_has_code :: bool
  pa_paragraphs :: nat

record web_url =
  wu_text :: string
  wu_host :: "string option"
  wu_path :: string

record http_call =
  hc_url :: string
  hc_agent :: string
  hc_redirects :: "nat option"
  hc_timeout_ms :: nat
  hc_headers :: "(string \<times> string) list"

text \<open>A header without a value is one that is not visible text, a chunk without bytes an error of
  the connection.\<close>

record http_reply =
  hr_status :: nat
  hr_final_url :: string
  hr_headers :: "(string \<times> string option) list"
  hr_length :: "nat option"
  hr_chunks :: "string option list"

text \<open>
  What the code asks of others: the parser of addresses and the address of \<open>robots.txt\<close>, the client
  (its error for an agent, an answer or the error text of a request), the text of an answer, the
  reading of bytes as text, regular expressions (pattern, new text, text), the extraction of an
  article (\<open>None\<close>: it panicked) with the per cent form of its quality, SHA-256, and the identifiers
  and times of one run.
\<close>

record web_world =
  ww_env :: "(string, string) hmap"
  ww_parse :: "string \<Rightarrow> string + web_url"
  ww_robots_url :: "web_url \<Rightarrow> string"
  ww_client_error :: "string \<Rightarrow> string option"
  ww_send :: "http_call \<Rightarrow> string + http_reply"
  ww_text :: "http_reply \<Rightarrow> string option"
  ww_lossy :: "string \<Rightarrow> string"
  ww_regex :: "string \<Rightarrow> string \<Rightarrow> string \<Rightarrow> string"
  ww_article :: "string \<Rightarrow> page_article option"
  ww_percent :: "string \<Rightarrow> string"
  ww_sha256 :: "string \<Rightarrow> string"
  ww_uuid :: string
  ww_elapsed_ms :: nat
  ww_now :: string

definition dquote :: char where
  "dquote = CHR 0x22"

definition decode_five :: "string \<Rightarrow> string" where
  "decode_five t =
     replace_str ''&#39;'' [CHR 0x27]
      (replace_str ''&quot;'' [dquote]
        (replace_str ''&gt;'' ''>'' (replace_str ''&lt;'' ''<'' (replace_str ''&amp;'' ''&'' t))))"

definition sanitize_patterns :: "(string \<times> string) list" where
  "sanitize_patterns =
     [(''(?is)<script[^>]*>.*?</script>'', []),
      (''(?is)<style[^>]*>.*?</style>'', []),
      (''(?is)<noscript[^>]*>.*?</noscript>'', []),
      (''(?i) on[a-zA-Z]+'' @ [CHR 0x5C] @ ''s*='' @ [CHR 0x5C] @ ''s*('' @ [CHR 0x5C, dquote] @ ''[^''
        @ [CHR 0x5C, dquote] @ '']*'' @ [CHR 0x5C, dquote, CHR ''|'', CHR 0x27] @ ''[^'' @ [CHR 0x27]
        @ '']*'' @ [CHR 0x27] @ '')'', []),
      (''(?i)href'' @ [CHR 0x5C] @ ''s*='' @ [CHR 0x5C] @ ''s*'' @ [CHR 0x5C, dquote, CHR 0x5C]
        @ ''s*javascript:[^'' @ [CHR 0x5C, dquote] @ '']*'' @ [CHR 0x5C, dquote],
       ''href='' @ [dquote] @ ''#'' @ [dquote]),
      (''(?is)<[^>]+>'', [])]"

text \<open>\<open>truncate\<close> panics within a character.\<close>

definition sanitize_html_to_text :: "web_world \<Rightarrow> string \<Rightarrow> string option" where
  "sanitize_html_to_text w html =
     (let stripped = fold (\<lambda>(p, new) t. ww_regex w p new t) sanitize_patterns html;
          t = ww_regex w ([CHR 0x5C] @ ''s+'') '' '' (decode_five stripped)
      in if 100000 < length t then str_slice 0 100000 t else Some t)"

subsection \<open>One fetch\<close>

datatype web_error =
    WebInvalid string
  | WebInternal string
  | WebRpc int string "json option"

text \<open>An answer of the tool, an error, or a panic.\<close>

datatype web_answer = WebOk json | WebErr web_error | WebPanic

text \<open>The requests in order, the lines added to the journal, and the answer.\<close>

record web_run =
  wr_calls :: "http_call list"
  wr_journal :: "json list"
  wr_answer :: web_answer

definition validate_url :: "web_world \<Rightarrow> string \<Rightarrow> web_error + web_url" where
  "validate_url w url =
     (let u = trim url
      in if \<not> (starts_with u ''http://'' \<or> starts_with u ''https://'')
           then Inl (WebInvalid ([CHR 0x27] @ ''url'' @ [CHR 0x27] @ '' must start with http:// or https://''))
         else if 2048 < length u then Inl (WebInvalid ''url too long'')
         else case ww_parse w u of
                Inl e \<Rightarrow> Inl (WebInvalid (''invalid url: '' @ e))
              | Inr p \<Rightarrow> Inr p)"

definition web_env_bool :: "(string, string) hmap \<Rightarrow> string \<Rightarrow> bool \<Rightarrow> bool" where
  "web_env_bool env name default_true =
     (let v = to_lowercase (case hm_get env name of None \<Rightarrow> [] | Some t \<Rightarrow> t)
      in if v \<in> {''0'', ''false'', ''no'', ''off''} then \<not> default_true
         else if v \<in> {''1'', ''true'', ''yes'', ''on''} then True else default_true)"

definition user_agent :: "(string, string) hmap \<Rightarrow> json \<Rightarrow> string" where
  "user_agent env params =
     (case get_str params ''user_agent'' of
        Some a \<Rightarrow> a
      | None \<Rightarrow> (case hm_get env ''DEVIT_HTTP_USER_AGENT'' of Some a \<Rightarrow> a | None \<Rightarrow> ''DevItBot/1.0''))"

definition fetch_robots :: "web_world \<Rightarrow> nat option \<Rightarrow> web_url \<Rightarrow> nat \<Rightarrow> http_call \<times> string option" where
  "fetch_robots w redirects url timeout =
     (let call = \<lparr>hc_url = ww_robots_url w url, hc_agent = user_agent (ww_env w) (JObj []),
                  hc_redirects = redirects, hc_timeout_ms = timeout, hc_headers = []\<rparr>
      in (call,
          case ww_send w call of
            Inl _ \<Rightarrow> None
          | Inr r \<Rightarrow> (if 200 \<le> hr_status r \<and> hr_status r < 300 then ww_text w r else None)))"

definition header_map_to_json :: "(string \<times> string option) list \<Rightarrow> json" where
  "header_map_to_json hs =
     JObj (fold (\<lambda>(k, v) out. case v of None \<Rightarrow> out | Some s \<Rightarrow> AList.update k (JStr s) out) hs [])"

definition show_bool :: "bool \<Rightarrow> string" where
  "show_bool b = (if b then ''true'' else ''false'')"

definition web_cache_key :: "web_world \<Rightarrow> string \<Rightarrow> string \<Rightarrow> string \<Rightarrow> string \<Rightarrow> bool \<Rightarrow> string" where
  "web_cache_key w query accept agent safe_mode include_content =
     ww_sha256 w (to_lowercase query @ nl # accept @ nl # agent @ nl # safe_mode @ nl #
                  show_bool include_content)"

definition limits_json :: "effective_limits \<Rightarrow> json" where
  "limits_json l =
     JObj ([(''timeout_ms'', JInt (int (el_timeout_ms l)))]
       @ (case el_max_bytes l of None \<Rightarrow> [] | Some b \<Rightarrow> [(''max_bytes'', JInt (int b))])
       @ [(''max_redirects'', JInt (int (el_max_redirects l))),
          (''follow_redirects'', JBool (el_follow_redirects l))])"

definition sources_json :: "limit_sources \<Rightarrow> json" where
  "sources_json s =
     JObj ([(''timeout_ms'', JStr (ls_timeout_ms s))]
       @ (case ls_max_bytes s of None \<Rightarrow> [] | Some b \<Rightarrow> [(''max_bytes'', JStr b)])
       @ [(''max_redirects'', JStr (ls_max_redirects s)),
          (''follow_redirects'', JStr (ls_follow_redirects s))])"

definition build_fetch_meta ::
  "string \<Rightarrow> string \<Rightarrow> bool \<Rightarrow> nat \<Rightarrow> effective_limits \<Rightarrow> limit_sources \<Rightarrow> string \<Rightarrow> (string \<times> json) list"
where
  "build_fetch_meta trace robots paywall elapsed limits sources key =
     [(''trace_id'', JStr trace), (''robots_policy'', JStr robots), (''paywall_detected'', JBool paywall),
      (''from_cache'', JBool False), (''elapsed_ms'', JInt (int elapsed)),
      (''effective_limits'', limits_json limits), (''limit_sources'', sources_json sources),
      (''delegation_context'', JNull), (''cache_key'', JStr key)]"

text \<open>The line of the journal, which the writer adds without looking at errors.\<close>

definition journal_line :: "web_world \<Rightarrow> string \<Rightarrow> string \<Rightarrow> nat \<Rightarrow> json \<Rightarrow> json" where
  "journal_line w url final status meta =
     JObj [(''timestamp'', JStr (ww_now w)), (''op'', JStr ''fetch''),
           (''meta'', JObj [(''url'', JStr url), (''final_url'', JStr final),
                          (''status'', JInt (int status)), (''meta'', meta)])]"

definition fetch_error_response ::
  "web_world \<Rightarrow> http_call list \<Rightarrow> string \<Rightarrow> string \<Rightarrow> nat \<Rightarrow> string \<Rightarrow> nat \<Rightarrow> json \<Rightarrow> json \<Rightarrow>
   string \<Rightarrow> string \<Rightarrow> string \<Rightarrow> web_run"
where
  "fetch_error_response w calls url final status ctype bytes headers meta code msg display =
     \<lparr>wr_calls = calls, wr_journal = [journal_line w url final status meta],
      wr_answer = WebOk (JObj
        [(''content'', JArr [JObj [(''type'', JStr ''text''), (''text'', JStr display)]]),
         (''metadata'', JObj
           [(''url'', JStr url), (''final_url'', JStr final), (''status'', JInt (int status)),
            (''retrieved_at'', JStr (ww_now w)), (''content_type'', JStr ctype), (''content_text'', JNull),
            (''content_bytes'', JInt (int bytes)), (''headers'', headers), (''meta'', meta),
            (''errors'', JArr [JObj [(''code'', JStr code), (''message'', JStr msg)]])])])\<rparr>"

text \<open>The loop over the chunks: what was read, and whether it is too much. An error ends it.\<close>

fun read_chunks :: "nat \<Rightarrow> string \<Rightarrow> string option list \<Rightarrow> string \<times> bool" where
  "read_chunks limit acc [] = (acc, False)"
| "read_chunks limit acc (None # cs) = (acc, False)"
| "read_chunks limit acc (Some c # cs) =
     (if limit < length (acc @ c) then (acc @ c, True) else read_chunks limit (acc @ c) cs)"

definition content_type_of :: "http_reply \<Rightarrow> string" where
  "content_type_of r =
     to_lowercase (case map_of (hr_headers r) ''content-type'' of Some (Some v) \<Rightarrow> v | _ \<Rightarrow> [])"

definition allowed_type :: "string \<Rightarrow> bool" where
  "allowed_type ct = (starts_with ct ''text/html'' \<or> starts_with ct ''text/plain''
     \<or> starts_with ct ''application/xhtml+xml'' \<or> starts_with ct ''application/json'')"

definition is_html_type :: "string \<Rightarrow> bool" where
  "is_html_type ct = (starts_with ct ''text/html'' \<or> starts_with ct ''application/xhtml+xml'')"

definition effective_mode :: "extract_mode \<Rightarrow> bool \<Rightarrow> extract_mode" where
  "effective_mode m html = (if m = AutoExtract \<and> html then ArticleMode else m)"

definition mode_str :: "extract_mode \<Rightarrow> string" where
  "mode_str m = (case m of ArticleMode \<Rightarrow> ''article'' | AutoExtract \<Rightarrow> ''auto'' | RawMode \<Rightarrow> ''raw'')"

text \<open>The text of the body and its article. \<open>None\<close>: a panic.\<close>

definition page_text :: "web_world \<Rightarrow> extract_mode \<Rightarrow> bool \<Rightarrow> string \<Rightarrow> (string \<times> page_article option) option" where
  "page_text w mode html body =
     (if html then
        (if mode = RawMode then map_option (\<lambda>t. (t, None)) (sanitize_html_to_text w body)
         else map_option (\<lambda>a. (pa_text a, Some a)) (ww_article w body))
      else Some (body, None))"

definition article_json :: "page_article \<Rightarrow> json" where
  "article_json a =
     JObj [(''title'', jstr_opt (pa_title a)), (''quality_score'', JFloat (pa_quality a)),
           (''has_code'', JBool (pa_has_code a)), (''paragraph_count'', JInt (int (pa_paragraphs a)))]"

definition mark_untrusted :: "string \<Rightarrow> string" where
  "mark_untrusted t = ''[UNTRUSTED_CONTENT_START]'' @ nl # t @ nl # ''[UNTRUSTED_CONTENT_END]''"

definition marked_text :: "string \<Rightarrow> string option" where
  "marked_text t = (if detect_injection_text t then None else Some (mark_untrusted t))"

definition fetch_summary :: "web_world \<Rightarrow> string \<Rightarrow> nat \<Rightarrow> page_article option \<Rightarrow> string" where
  "fetch_summary w final bytes art =
     (let s = ''Fetched '' @ final @ '' ('' @ show_nat bytes @ '' bytes, '' @ show_nat (ww_elapsed_ms w) @ '' ms)''
      in case art of
           None \<Rightarrow> s
         | Some a \<Rightarrow>
             (case pa_title a of None \<Rightarrow> s | Some t \<Rightarrow> s @ nl # ''Title: '' @ t)
             @ '' | Quality: '' @ ww_percent w (pa_quality a) @ ''%'')"

text \<open>What the call and the environment ask for.\<close>

record fetch_plan =
  fp_url :: web_url
  fp_limits :: effective_limits
  fp_sources :: limit_sources
  fp_safe_mode :: string
  fp_mode :: extract_mode
  fp_respect_robots :: bool
  fp_block_private :: bool
  fp_agent :: string

definition fetch_plan_of :: "web_world \<Rightarrow> json \<Rightarrow> web_error + fetch_plan" where
  "fetch_plan_of w params =
     (case get_str params ''url'' of
        None \<Rightarrow> Inl (WebInvalid ([CHR 0x27] @ ''url'' @ [CHR 0x27] @ '' is required''))
      | Some raw \<Rightarrow>
          (case validate_url w raw of
             Inl e \<Rightarrow> Inl e
           | Inr url \<Rightarrow>
               (let (limits, sources) = resolve_fetch_limits (ww_env w) (get_u64 params ''timeout_ms'')
                      (get_u64 params ''max_bytes'') (Option.bind (jget params ''follow_redirects'') as_bool)
                in Inr \<lparr>fp_url = url, fp_limits = limits, fp_sources = sources,
                     fp_safe_mode =
                       (case get_str params ''safe_mode'' of Some s \<Rightarrow> s | None \<Rightarrow> ''moderate''),
                     fp_mode =
                       (case get_str params ''extract_mode'' of Some s \<Rightarrow> extract_mode_of s | None \<Rightarrow> RawMode),
                     fp_respect_robots = web_env_bool (ww_env w) ''DEVIT_RESPECT_ROBOTS'' True,
                     fp_block_private = web_env_bool (ww_env w) ''DEVIT_BLOCK_PRIVATE_CIDRS'' True,
                     fp_agent = user_agent (ww_env w) params\<rparr>)))"

definition plan_redirects :: "fetch_plan \<Rightarrow> nat option" where
  "plan_redirects p =
     (if el_follow_redirects (fp_limits p) then Some (el_max_redirects (fp_limits p)) else None)"

definition plan_max_bytes :: "fetch_plan \<Rightarrow> nat" where
  "plan_max_bytes p = (case el_max_bytes (fp_limits p) of Some b \<Rightarrow> b | None \<Rightarrow> 500000)"

definition accept_header :: string where
  "accept_header = ''text/html, text/plain;q=0.9, */*;q=0.1''"

definition plan_key :: "web_world \<Rightarrow> fetch_plan \<Rightarrow> string" where
  "plan_key w p = web_cache_key w (wu_text (fp_url p)) accept_header (fp_agent p) (fp_safe_mode p) True"

definition plan_meta :: "web_world \<Rightarrow> fetch_plan \<Rightarrow> string \<Rightarrow> bool \<Rightarrow> nat \<Rightarrow> (string \<times> json) list" where
  "plan_meta w p robots paywall elapsed =
     build_fetch_meta (ww_uuid w) robots paywall elapsed (fp_limits p) (fp_sources p) (plan_key w p)"

definition page_call :: "fetch_plan \<Rightarrow> http_call" where
  "page_call p =
     \<lparr>hc_url = wu_text (fp_url p), hc_agent = fp_agent p, hc_redirects = plan_redirects p,
      hc_timeout_ms = el_timeout_ms (fp_limits p),
      hc_headers =
        [(''accept'', accept_header), (''accept-language'', ''en-US,en;q=0.9,fr;q=0.8''),
         (''cache-control'', ''no-cache''), (''pragma'', ''no-cache'')]\<rparr>"

text \<open>The question to \<open>robots.txt\<close>: the requests it takes, and what it says.\<close>

definition robots_stage :: "web_world \<Rightarrow> fetch_plan \<Rightarrow> http_call list \<times> robots_policy option" where
  "robots_stage w p =
     (if fp_respect_robots p \<and> wu_host (fp_url p) \<noteq> None then
        (case fetch_robots w (plan_redirects p) (fp_url p) (el_timeout_ms (fp_limits p)) of
           (call, t) \<Rightarrow> ([call], map_option (robots_policy_for (wu_path (fp_url p))) t))
      else ([], None))"

definition robots_str :: "robots_policy option \<Rightarrow> string" where
  "robots_str r = (case r of None \<Rightarrow> ''unknown'' | Some RobotsAllow \<Rightarrow> ''allow'' | Some RobotsDisallow \<Rightarrow> ''disallow'')"

text \<open>The answer for a page that was read.\<close>

definition page_answer ::
  "web_world \<Rightarrow> fetch_plan \<Rightarrow> http_call list \<Rightarrow> string \<Rightarrow> http_reply \<Rightarrow> string \<Rightarrow> web_run"
where
  "page_answer w p calls robots r bytes =
     (let body = ww_lossy w bytes;
          ct = content_type_of r;
          html = is_html_type ct;
          mode = effective_mode (fp_mode p) html
      in case page_text w mode html body of
           None \<Rightarrow> \<lparr>wr_calls = calls, wr_journal = [], wr_answer = WebPanic\<rparr>
         | Some (t, art) \<Rightarrow>
             (let content = marked_text t;
                  meta = JObj (plan_meta w p robots (detect_paywall_hint body) (ww_elapsed_ms w)
                     @ [(''extract_mode'', JStr (mode_str mode)),
                        (''extraction'', jopt (map_option article_json art))]);
                  errors = (if content = None
                            then [JObj [(''code'', JStr ''SANITIZER_BLOCKED''),
                                    (''message'', JStr ''Content flagged as potentially prompt-injection'')]]
                            else []);
                  summary = fetch_summary w (hr_final_url r) (length bytes) art
              in \<lparr>wr_calls = calls,
                  wr_journal = [journal_line w (wu_text (fp_url p)) (hr_final_url r) (hr_status r) meta],
                  wr_answer = WebOk (JObj
                    [(''content'', JArr [JObj [(''type'', JStr ''text''),
                       (''text'', JStr (summary @ nl # nl #
                          (case content of Some c \<Rightarrow> c | None \<Rightarrow> ''[Content blocked or empty]'')))]]),
                     (''metadata'', JObj
                       [(''url'', JStr (wu_text (fp_url p))), (''final_url'', JStr (hr_final_url r)),
                        (''status'', JInt (int (hr_status r))), (''retrieved_at'', JStr (ww_now w)),
                        (''content_type'', JStr ct), (''content_text'', jstr_opt content),
                        (''content_bytes'', JInt (int (length bytes))),
                        (''headers'', header_map_to_json (hr_headers r)), (''meta'', meta),
                        (''errors'', JArr errors)])])\<rparr>))"

definition reply_stage ::
  "web_world \<Rightarrow> fetch_plan \<Rightarrow> http_call list \<Rightarrow> string \<Rightarrow> http_reply \<Rightarrow> web_run"
where
  "reply_stage w p calls robots r =
     (let ct = content_type_of r;
          limit = plan_max_bytes p;
          refuse = (\<lambda>n code msg display.
            fetch_error_response w calls (wu_text (fp_url p)) (hr_final_url r) (hr_status r) ct n
              (header_map_to_json (hr_headers r)) (JObj (plan_meta w p robots False (ww_elapsed_ms w)))
              code msg display);
          read = (case read_chunks limit [] (hr_chunks r) of
                    (bytes, over) \<Rightarrow>
                      (if over
                       then refuse (length bytes) ''TOO_LARGE'' ''Streamed body exceeded limit''
                              (''Response exceeded max_bytes limit ('' @ show_nat (length bytes) @ '' bytes)'')
                       else page_answer w p calls robots r bytes))
      in if \<not> allowed_type ct
           then refuse 0 ''UNSUPPORTED_MIME'' ''Only text/html, text/plain, application/xhtml+xml are allowed''
                  (''Unsupported MIME type: '' @ ct)
         else case hr_length r of
                Some len \<Rightarrow>
                  (if limit < len
                   then refuse len ''TOO_LARGE'' ''Content-Length exceeds limit''
                          (''Response too large ('' @ show_nat len @ '' bytes > limit '' @ show_nat limit @ '')'')
                   else read)
              | None \<Rightarrow> read)"

definition error_stage :: "web_world \<Rightarrow> fetch_plan \<Rightarrow> http_call list \<Rightarrow> string \<Rightarrow> string \<Rightarrow> web_run" where
  "error_stage w p calls robots e =
     (let es = to_lowercase e;
          redirect = contains es ''redirect'' \<and> (contains es ''too many'' \<or> contains es ''loop'')
      in fetch_error_response w calls (wu_text (fp_url p)) (wu_text (fp_url p)) 0 [] 0 (JObj [])
           (JObj (plan_meta w p robots False 0))
           (if redirect then ''REDIRECT_LOOP'' else ''NETWORK_ERROR'') e (''Fetch failed: '' @ e))"

definition page_stage :: "web_world \<Rightarrow> fetch_plan \<Rightarrow> http_call list \<Rightarrow> string \<Rightarrow> web_run" where
  "page_stage w p calls robots =
     (case ww_send w (page_call p) of
        Inl e \<Rightarrow> error_stage w p (calls @ [page_call p]) robots e
      | Inr r \<Rightarrow> reply_stage w p (calls @ [page_call p]) robots r)"

definition blocked_host :: "fetch_plan \<Rightarrow> string option" where
  "blocked_host p =
     (if fp_block_private p then
        (case wu_host (fp_url p) of
           Some h \<Rightarrow> (if is_private_host h then Some h else None)
         | None \<Rightarrow> None)
      else None)"

definition refused_run :: "web_error \<Rightarrow> web_run" where
  "refused_run e = \<lparr>wr_calls = [], wr_journal = [], wr_answer = WebErr e\<rparr>"

definition run_plan :: "web_world \<Rightarrow> fetch_plan \<Rightarrow> web_run" where
  "run_plan w p =
     (case blocked_host p of
        Some h \<Rightarrow> refused_run (WebRpc (- 32600) ''DISALLOWED_DOMAIN'' (Some (JObj
             [(''message'', JStr ''Private or internal host is not allowed''), (''host'', JStr h)])))
      | None \<Rightarrow>
          (case ww_client_error w (fp_agent p) of
             Some e \<Rightarrow> refused_run (WebInternal (''http client error: '' @ e))
           | None \<Rightarrow>
               (case robots_stage w p of
                  (calls, r) \<Rightarrow>
                    (if r = Some RobotsDisallow then
                       fetch_error_response w calls (wu_text (fp_url p)) (wu_text (fp_url p)) 0 [] 0
                         (JObj []) (JObj (plan_meta w p (robots_str r) False 0)) ''ROBOTS_DISALLOW''
                         ''Robots.txt disallows this path''
                         (''Robots policy disallows fetching: '' @ wu_text (fp_url p))
                     else page_stage w p calls (robots_str r)))))"

definition fetch_url :: "web_world \<Rightarrow> json \<Rightarrow> web_run" where
  "fetch_url w params =
     (case fetch_plan_of w params of Inl e \<Rightarrow> refused_run e | Inr p \<Rightarrow> run_plan w p)"

subsection \<open>What is asked\<close>

lemma limited_bounds: "lo \<le> d \<Longrightarrow> d \<le> hi \<Longrightarrow> lo \<le> fst (limited a e lo hi d) \<and> fst (limited a e lo hi d) \<le> hi"
  by (auto simp: limited_def clamp_def split: option.splits)

lemma fetch_limits_bounds:
  assumes "resolve_fetch_limits env t b f = (l, s)"
  shows "100 \<le> el_timeout_ms l" "el_timeout_ms l \<le> 10000"
    "\<exists>n. el_max_bytes l = Some n \<and> 1 \<le> n \<and> n \<le> 1000000" "el_max_redirects l = 2"
  using assms limited_bounds [of 100 8000 10000 t "parse_env_u64 env ''DEVIT_FETCH_TIMEOUT_MS''"]
    limited_bounds [of 1 500000 1000000 b "parse_env_u64 env ''DEVIT_FETCH_MAX_BYTES''"]
  by (auto simp: resolve_fetch_limits_def split: prod.splits)

lemma search_limits_bounds:
  "100 \<le> el_timeout_ms (fst (resolve_search_limits env t)) \<and>
   el_timeout_ms (fst (resolve_search_limits env t)) \<le> 10000"
  using limited_bounds [of 100 8000 10000 t "parse_env_u64 env ''DEVIT_SEARCH_TIMEOUT_MS''"]
  by (auto simp: resolve_search_limits_def split: prod.splits)

lemma plan_bounds:
  assumes "fetch_plan_of w params = Inr p"
  shows "100 \<le> el_timeout_ms (fp_limits p)" "el_timeout_ms (fp_limits p) \<le> 10000"
    "1 \<le> plan_max_bytes p" "plan_max_bytes p \<le> 1000000" "plan_redirects p \<in> {None, Some 2}"
proof -
  obtain l s where r: "resolve_fetch_limits (ww_env w) (get_u64 params ''timeout_ms'')
      (get_u64 params ''max_bytes'') (Option.bind (jget params ''follow_redirects'') as_bool) = (l, s)"
    by (cases "resolve_fetch_limits (ww_env w) (get_u64 params ''timeout_ms'')
      (get_u64 params ''max_bytes'') (Option.bind (jget params ''follow_redirects'') as_bool)")
  have "fp_limits p = l"
    using assms r by (auto simp: fetch_plan_of_def split: option.splits sum.splits)
  with fetch_limits_bounds [OF r]
  show "100 \<le> el_timeout_ms (fp_limits p)" "el_timeout_ms (fp_limits p) \<le> 10000"
    "1 \<le> plan_max_bytes p" "plan_max_bytes p \<le> 1000000" "plan_redirects p \<in> {None, Some 2}"
    by (auto simp: plan_max_bytes_def plan_redirects_def)
qed

lemma error_response_calls [simp]:
  "wr_calls (fetch_error_response w cs u f st ct n hs m code msg d) = cs"
  by (simp add: fetch_error_response_def)

lemma refused_calls [simp]: "wr_calls (refused_run e) = []"
  by (simp add: refused_run_def)

lemma page_answer_calls [simp]: "wr_calls (page_answer w p cs rb r bytes) = cs"
  by (simp add: page_answer_def Let_def split: option.splits)

lemma reply_stage_calls [simp]: "wr_calls (reply_stage w p cs rb r) = cs"
  by (simp add: reply_stage_def Let_def split: option.splits prod.splits)

lemma page_stage_calls [simp]: "wr_calls (page_stage w p cs rb) = cs @ [page_call p]"
  by (simp add: page_stage_def error_stage_def Let_def split: sum.splits)

definition robots_call :: "web_world \<Rightarrow> fetch_plan \<Rightarrow> http_call" where
  "robots_call w p =
     \<lparr>hc_url = ww_robots_url w (fp_url p), hc_agent = user_agent (ww_env w) (JObj []),
      hc_redirects = plan_redirects p, hc_timeout_ms = el_timeout_ms (fp_limits p), hc_headers = []\<rparr>"

lemma robots_stage_calls: "fst (robots_stage w p) \<in> {[], [robots_call w p]}"
  by (simp add: robots_stage_def fetch_robots_def robots_call_def Let_def)

lemma run_plan_calls:
  "wr_calls (run_plan w p) =
     (if blocked_host p \<noteq> None \<or> ww_client_error w (fp_agent p) \<noteq> None then []
      else fst (robots_stage w p)
        @ (if snd (robots_stage w p) = Some RobotsDisallow then [] else [page_call p]))"
  by (auto simp: run_plan_def split: option.splits prod.splits)

subsection \<open>Which hosts are internal\<close>

definition dotted :: "nat \<Rightarrow> nat \<Rightarrow> nat \<Rightarrow> nat \<Rightarrow> string" where
  "dotted a b c d = show_nat a @ CHR ''.'' # show_nat b @ CHR ''.'' # show_nat c @ CHR ''.'' # show_nat d"

lemma show_nat_small: "n < 256 \<Longrightarrow> length (show_nat n) \<le> 3 \<and> (1 < length (show_nat n) \<longrightarrow> hd (show_nat n) \<noteq> CHR ''0'')"
proof -
  assume n: "n < 256"
  have digit: "digit_char d \<noteq> CHR ''0''" if "0 < d" "d < 10" for d
  proof -
    from that have "d \<in> {1, 2, 3, 4, 5, 6, 7, 8, 9}" by auto
    then show ?thesis by (auto simp: digit_char_def)
  qed
  consider "n < 10" | "10 \<le> n" "n < 100" | "100 \<le> n" by linarith
  then show ?thesis
  proof cases
    case 1 then show ?thesis by (simp add: show_nat.simps [of n])
  next
    case 2
    then have "n div 10 < 10" "0 < n div 10" by auto
    with 2 digit show ?thesis by (simp add: show_nat.simps [of n] show_nat.simps [of "n div 10"])
  next
    case 3
    with n have "n div 10 div 10 < 10" "0 < n div 10 div 10" "10 \<le> n div 10" by auto
    with 3 digit [of "n div 10 div 10"] show ?thesis
      by (simp add: show_nat.simps [of n] show_nat.simps [of "n div 10"]
          show_nat.simps [of "n div 10 div 10"])
  qed
qed

lemma v4_part_show: "n < 256 \<Longrightarrow> v4_part (show_nat n) = Some n"
  using show_nat_small [of n] digits_val_show [of 0 n] by (auto simp: v4_part_def)

lemma dot_not_shown: "CHR ''.'' \<notin> set (show_nat n)"
proof
  assume "CHR ''.'' \<in> set (show_nat n)"
  then obtain d where "d < 10" "CHR ''.'' = digit_char d" using show_nat_digits by blast
  moreover from \<open>d < 10\<close> have "d \<in> {0, 1, 2, 3, 4, 5, 6, 7, 8, 9}" by auto
  ultimately show False by (auto simp: digit_char_def)
qed

lemma parse_v4_dotted:
  "a < 256 \<Longrightarrow> b < 256 \<Longrightarrow> c < 256 \<Longrightarrow> d < 256 \<Longrightarrow> parse_v4 (dotted a b c d) = Some [a, b, c, d]"
  by (simp add: parse_v4_def dotted_def split_char_append split_char_single dot_not_shown v4_part_show)

lemma private_address_is_private:
  assumes "a < 256" "b < 256" "c < 256" "d < 256"
  shows "is_private_host (dotted a b c d)
    \<longleftrightarrow> a = 10 \<or> a = 127 \<or> (a = 172 \<and> 16 \<le> b \<and> b < 32) \<or> (a = 192 \<and> b = 168)"
  using assms by (auto simp: is_private_host_def parse_ip_def parse_v4_dotted)

text \<open>An address in brackets, as the parser of addresses gives it, is never taken for one.\<close>

lemma bracket_is_no_digit: "hex_digit CHR ''['' = None" "digit_val 10 CHR ''['' = None"
  by (simp_all add: hex_digit_def digit_val_def)

lemma loopback_in_brackets: "is_private_host ''::1''" "\<not> is_private_host ''[::1]''"
  "\<not> is_private_host ''0.0.0.0''" "\<not> is_private_host ''169.254.169.254''"
  by code_simp+

subsection \<open>What is delivered\<close>

lemma read_chunks_bounded:
  "read_chunks limit acc cs = (bytes, False) \<Longrightarrow> length acc \<le> limit \<Longrightarrow> length bytes \<le> limit"
  by (induction limit acc cs rule: read_chunks.induct) (auto split: if_splits)

lemma read_chunks_whole:
  "length (acc @ concat (map the cs)) \<le> limit \<Longrightarrow> None \<notin> set cs \<Longrightarrow>
   read_chunks limit acc cs = (acc @ concat (map the cs), False)"
  by (induction limit acc cs rule: read_chunks.induct) auto

definition answer_field :: "web_answer \<Rightarrow> string \<Rightarrow> json option" where
  "answer_field a key =
     (case a of WebOk v \<Rightarrow> Option.bind (jget v ''metadata'') (\<lambda>m. jget m key) | _ \<Rightarrow> None)"

lemma error_response_text [simp]:
  "answer_field (wr_answer (fetch_error_response w cs u f st ct n hs m code msg d)) ''content_text'' = Some JNull"
  by (simp add: fetch_error_response_def answer_field_def)

lemma page_answer_text:
  assumes "answer_field (wr_answer (page_answer w p cs rb r bytes)) ''content_text'' = Some (JStr t)"
  shows "\<exists>s art. page_text w (effective_mode (fp_mode p) (is_html_type (content_type_of r)))
      (is_html_type (content_type_of r)) (ww_lossy w bytes) = Some (s, art)
    \<and> t = mark_untrusted s \<and> \<not> detect_injection_text s"
  using assms
  by (auto simp: page_answer_def answer_field_def Let_def marked_text_def jstr_opt_def
      split: option.splits prod.splits if_splits)

text \<open>
  A text that a fetch delivers stands between the marks of untrusted content, was not taken for
  an injection, and is made of the bytes of an answer of an allowed type, which are at most as many
  as the call and the environment say and never more than a million.
\<close>

theorem delivered_text_is_bounded_and_marked:
  assumes "answer_field (wr_answer (fetch_url w params)) ''content_text'' = Some (JStr t)"
  shows "\<exists>p r bytes s art. fetch_plan_of w params = Inr p \<and> blocked_host p = None
    \<and> ww_send w (page_call p) = Inr r \<and> allowed_type (content_type_of r)
    \<and> read_chunks (plan_max_bytes p) [] (hr_chunks r) = (bytes, False)
    \<and> length bytes \<le> plan_max_bytes p \<and> plan_max_bytes p \<le> 1000000
    \<and> page_text w (effective_mode (fp_mode p) (is_html_type (content_type_of r)))
        (is_html_type (content_type_of r)) (ww_lossy w bytes) = Some (s, art)
    \<and> t = mark_untrusted s \<and> \<not> detect_injection_text s"
proof -
  from assms obtain p where p: "fetch_plan_of w params = Inr p"
    and a: "answer_field (wr_answer (run_plan w p)) ''content_text'' = Some (JStr t)"
    by (auto simp: fetch_url_def refused_run_def answer_field_def split: sum.splits)
  from a obtain cs rb where free: "blocked_host p = None"
    and b: "answer_field (wr_answer (page_stage w p cs rb)) ''content_text'' = Some (JStr t)"
    by (auto simp: run_plan_def refused_run_def answer_field_def [of "WebErr _"]
        split: option.splits prod.splits if_splits)
  from b obtain r where r: "ww_send w (page_call p) = Inr r"
    and c: "answer_field (wr_answer (reply_stage w p (cs @ [page_call p]) rb r)) ''content_text''
      = Some (JStr t)"
    by (auto simp: page_stage_def error_stage_def Let_def split: sum.splits)
  obtain bytes over where rd: "read_chunks (plan_max_bytes p) [] (hr_chunks r) = (bytes, over)"
    by (cases "read_chunks (plan_max_bytes p) [] (hr_chunks r)")
  from c rd have "allowed_type (content_type_of r)" "\<not> over"
    and d: "answer_field (wr_answer (page_answer w p (cs @ [page_call p]) rb r bytes)) ''content_text''
      = Some (JStr t)"
    by (auto simp: reply_stage_def Let_def split: option.splits if_splits)
  with page_answer_text [OF d] rd show ?thesis
    using p free r plan_bounds(4) [OF p] read_chunks_bounded [of "plan_max_bytes p" "[]"] by simp
qed

subsection \<open>The rules of a site\<close>

lemma best_match_fold:
  "fold (\<lambda>r best. if starts_with path r \<and> (case best of None \<Rightarrow> True | Some b \<Rightarrow> length b < length r)
                  then Some r else best) rules acc = None
   \<longleftrightarrow> acc = None \<and> (\<forall>r \<in> set rules. \<not> starts_with path r)"
  by (induction rules arbitrary: acc) (auto split: option.splits)

lemma best_match_None: "best_match path rules = None \<longleftrightarrow> (\<forall>r \<in> set rules. \<not> starts_with path r)"
  by (simp add: best_match_def best_match_fold)

text \<open>A path is forbidden exactly where some rule forbids it and none allows it, of any length.\<close>

lemma robots_policy_iff:
  "robots_policy_for path robots = RobotsDisallow \<longleftrightarrow>
     (\<exists>d \<in> set (rb_disallows (robots_rules robots)). d \<noteq> [] \<and> starts_with path d)
     \<and> (\<forall>a \<in> set (rb_allows (robots_rules robots)). \<not> starts_with path a)"
  using best_match_None [of path "rb_allows (robots_rules robots)"]
    best_match_None [of path "filter (\<lambda>d. d \<noteq> []) (rb_disallows (robots_rules robots))"]
  by (auto simp: robots_policy_for_def Let_def)

text \<open>A short allowance beats a longer prohibition; the comment on the function has it the other way.\<close>

lemma short_allowance_wins:
  "robots_policy_for ''/private/x''
     (''User-agent: *'' @ nl # ''Allow: /'' @ nl # ''Disallow: /private/'') = RobotsAllow"
  by code_simp

subsection \<open>What a fetch asks\<close>

definition internal_v4 :: "nat \<Rightarrow> nat \<Rightarrow> bool" where
  "internal_v4 a b \<longleftrightarrow> a = 10 \<or> a = 127 \<or> (a = 172 \<and> 16 \<le> b \<and> b < 32) \<or> (a = 192 \<and> b = 168)"

definition internal_name :: "string \<Rightarrow> bool" where
  "internal_name h \<longleftrightarrow> (let low = to_lowercase h
     in low = ''localhost'' \<or> ends_with low ''.local'' \<or> ends_with low ''.corp'')"

lemma open_host_is_not_internal:
  assumes "\<not> is_private_host h"
  shows "parse_ip h = None \<Longrightarrow> \<not> internal_name h"
    and "a < 256 \<Longrightarrow> b < 256 \<Longrightarrow> c < 256 \<Longrightarrow> d < 256 \<Longrightarrow> h = dotted a b c d \<Longrightarrow> \<not> internal_v4 a b"
  using assms private_address_is_private [of a b c d]
  by (auto simp: internal_name_def internal_v4_def is_private_host_def [of h] Let_def)

text \<open>What a site says about a path, by its rules for every agent: nothing, or that it may be read.\<close>

definition rules_permit :: "string \<Rightarrow> string \<Rightarrow> bool" where
  "rules_permit path robots \<longleftrightarrow>
     (\<exists>a \<in> set (rb_allows (robots_rules robots)). starts_with path a)
     \<or> \<not> (\<exists>d \<in> set (rb_disallows (robots_rules robots)). d \<noteq> [] \<and> starts_with path d)"

lemma permitted_stage:
  assumes "snd (robots_stage w p) \<noteq> Some RobotsDisallow" and "fp_respect_robots p"
    and "wu_host (fp_url p) \<noteq> None"
    and "ww_send w (robots_call w p) = Inr r" and "200 \<le> hr_status r" and "hr_status r < 300"
    and "ww_text w r = Some t"
  shows "rules_permit (wu_path (fp_url p)) t"
  using assms robots_policy_iff [of "wu_path (fp_url p)" t]
  by (auto simp: robots_stage_def fetch_robots_def robots_call_def Let_def rules_permit_def)

text \<open>
  C38: The requests that a fetch makes itself. Each goes to the address it was given or to the
  \<open>robots.txt\<close> of its site, with a time limit of 100 ms to 10 s and with at most two redirects, which
  the client follows to any host without a further check. While the check of hosts is on, the host
  of the given address is no address of four numbers in 10.0.0.0/8, 127.0.0.0/8, 172.16.0.0/12 or
  192.168.0.0/16 and no name \<open>localhost\<close>, \<open>*.local\<close> or \<open>*.corp\<close>: these are the hosts it recognises
  (\<open>loopback_in_brackets\<close> names three that it does not). While the rules of sites are respected and
  \<open>robots.txt\<close> was read, the page is asked only where some Allow rule for every agent is a prefix of
  its path or no Disallow rule is.
\<close>

theorem fetch_asks_only_what_it_may:
  assumes "call \<in> set (wr_calls (fetch_url w params))"
  shows "\<exists>p. fetch_plan_of w params = Inr p
    \<and> (hc_url call = wu_text (fp_url p) \<and> call = page_call p
       \<or> hc_url call = ww_robots_url w (fp_url p) \<and> call = robots_call w p \<and> fp_respect_robots p)
    \<and> 100 \<le> hc_timeout_ms call \<and> hc_timeout_ms call \<le> 10000 \<and> hc_redirects call \<in> {None, Some 2}
    \<and> (\<forall>h. fp_block_private p \<and> wu_host (fp_url p) = Some h \<longrightarrow>
         (parse_ip h = None \<longrightarrow> \<not> internal_name h) \<and>
         (\<forall>a b c d. a < 256 \<and> b < 256 \<and> c < 256 \<and> d < 256 \<and> h = dotted a b c d \<longrightarrow> \<not> internal_v4 a b))
    \<and> (\<forall>r t. fp_respect_robots p \<and> wu_host (fp_url p) \<noteq> None \<and> call \<noteq> robots_call w p
         \<and> ww_send w (robots_call w p) = Inr r \<and> 200 \<le> hr_status r \<and> hr_status r < 300
         \<and> ww_text w r = Some t \<longrightarrow> rules_permit (wu_path (fp_url p)) t)"
proof -
  from assms obtain p where p: "fetch_plan_of w params = Inr p"
    and c: "call \<in> set (wr_calls (run_plan w p))"
    by (auto simp: fetch_url_def split: sum.splits)
  from c have free: "blocked_host p = None"
    and "call \<in> set (fst (robots_stage w p))
      \<or> call = page_call p \<and> snd (robots_stage w p) \<noteq> Some RobotsDisallow"
    by (auto simp: run_plan_calls split: if_splits)
  then have which: "call = robots_call w p \<and> fp_respect_robots p
      \<or> call = page_call p \<and> snd (robots_stage w p) \<noteq> Some RobotsDisallow"
    by (auto simp: robots_stage_def fetch_robots_def robots_call_def Let_def split: if_splits)
  have "\<not> is_private_host h" if "fp_block_private p" "wu_host (fp_url p) = Some h" for h
    using free that by (auto simp: blocked_host_def split: if_splits)
  then have hosts: "\<forall>h. fp_block_private p \<and> wu_host (fp_url p) = Some h \<longrightarrow>
       (parse_ip h = None \<longrightarrow> \<not> internal_name h) \<and>
       (\<forall>a b c d. a < 256 \<and> b < 256 \<and> c < 256 \<and> d < 256 \<and> h = dotted a b c d \<longrightarrow> \<not> internal_v4 a b)"
    using open_host_is_not_internal by auto
  have site: "\<forall>r t. fp_respect_robots p \<and> wu_host (fp_url p) \<noteq> None \<and> call \<noteq> robots_call w p
       \<and> ww_send w (robots_call w p) = Inr r \<and> 200 \<le> hr_status r \<and> hr_status r < 300
       \<and> ww_text w r = Some t \<longrightarrow> rules_permit (wu_path (fp_url p)) t"
    using permitted_stage [of w p] which by auto
  have target: "hc_url call = wu_text (fp_url p) \<and> call = page_call p
       \<or> hc_url call = ww_robots_url w (fp_url p) \<and> call = robots_call w p \<and> fp_respect_robots p"
    and lo: "100 \<le> hc_timeout_ms call" and hi: "hc_timeout_ms call \<le> 10000"
    and hops: "hc_redirects call \<in> {None, Some 2}"
    using which plan_bounds [OF p] by (auto simp: robots_call_def page_call_def)
  show ?thesis by (rule exI [of _ p]) (intro conjI p target lo hi hops hosts site)
qed

subsection \<open>An example\<close>

definition example_reply :: http_reply where
  "example_reply =
     \<lparr>hr_status = 200, hr_final_url = ''http://a.org/b'',
      hr_headers = [(''content-type'', Some ''text/plain'')], hr_length = None,
      hr_chunks = [Some ''hel'', Some ''lo'']\<rparr>"

definition example_web :: web_world where
  "example_web =
     \<lparr>ww_env = [], ww_parse = (\<lambda>u. Inr \<lparr>wu_text = u, wu_host = Some ''a.org'', wu_path = ''/b''\<rparr>),
      ww_robots_url = (\<lambda>u. ''http://a.org/robots.txt''), ww_client_error = (\<lambda>a. None),
      ww_send = (\<lambda>c. Inr example_reply),
      ww_text = (\<lambda>r. Some (concat (map the (hr_chunks r)))),
      ww_lossy = (\<lambda>s. s), ww_regex = (\<lambda>p new t. t), ww_article = (\<lambda>h. None),
      ww_percent = (\<lambda>q. q), ww_sha256 = (\<lambda>s. s), ww_uuid = ''id'', ww_elapsed_ms = 3,
      ww_now = ''now''\<rparr>"

definition example_fetch :: json where
  "example_fetch = JObj [(''url'', JStr ''http://a.org/b''), (''max_bytes'', JInt 8)]"

lemma example_text:
  "answer_field (wr_answer (fetch_url example_web example_fetch)) ''content_text''
   = Some (JStr (mark_untrusted ''hello''))"
  by code_simp

lemma example_calls: "map hc_url (wr_calls (fetch_url example_web example_fetch))
   = [''http://a.org/robots.txt'', ''http://a.org/b'']"
  by code_simp

lemma example_first_call: "hd (wr_calls (fetch_url example_web example_fetch))
   \<in> set (wr_calls (fetch_url example_web example_fetch))"
  using example_calls by (cases "wr_calls (fetch_url example_web example_fetch)") simp_all

lemma example_second_call: "last (wr_calls (fetch_url example_web example_fetch))
   \<in> set (wr_calls (fetch_url example_web example_fetch))"
  using example_calls by (cases "wr_calls (fetch_url example_web example_fetch)") simp_all

theorem fetch_asks_only_what_it_may_witness:
  "(\<exists>p. fetch_plan_of example_web example_fetch = Inr p
      \<and> 100 \<le> hc_timeout_ms (hd (wr_calls (fetch_url example_web example_fetch))))
   \<and> (\<exists>p. fetch_plan_of example_web example_fetch = Inr p
      \<and> hc_redirects (last (wr_calls (fetch_url example_web example_fetch))) \<in> {None, Some 2})"
proof (rule conjI)
  show "\<exists>p. fetch_plan_of example_web example_fetch = Inr p
      \<and> 100 \<le> hc_timeout_ms (hd (wr_calls (fetch_url example_web example_fetch)))"
    using fetch_asks_only_what_it_may [OF example_first_call]
    by (elim exE conjE) (intro exI conjI; assumption)
  show "\<exists>p. fetch_plan_of example_web example_fetch = Inr p
      \<and> hc_redirects (last (wr_calls (fetch_url example_web example_fetch))) \<in> {None, Some 2}"
    using fetch_asks_only_what_it_may [OF example_second_call]
    by (elim exE conjE) (intro exI conjI; assumption)
qed

theorem delivered_text_is_bounded_and_marked_witness:
  "\<exists>p r bytes. fetch_plan_of example_web example_fetch = Inr p \<and> ww_send example_web (page_call p) = Inr r
    \<and> read_chunks (plan_max_bytes p) [] (hr_chunks r) = (bytes, False)
    \<and> length bytes \<le> plan_max_bytes p"
  using delivered_text_is_bounded_and_marked [OF example_text] by blast

end
