(* ===== verification/Sessions.thy ===== *)
theory Sessions
  imports Std_Dir Atomic_Patcher "HOL-Library.List_Lexorder" "HOL-Library.Char_ord"
begin

text \<open>
  Stored conversations (crates/common/src/session.rs): one file for each session below a directory
  of its day, the list of them, and finding one again. The form of a session as JSON is serde's and
  a parameter, and so are the directory of the user and the times.
\<close>

datatype stored_message =
    UserMessage string
  | AssistantMessage string
  | SystemMessage string
  | ToolCallMessage string string
  | ToolResultMessage string string

record session =
  ss_id :: string
  ss_created_at :: string
  ss_updated_at :: string
  ss_model :: string
  ss_workspace :: string
  ss_app :: string
  ss_messages :: "stored_message list"
  ss_input_history :: "string list"

text \<open>\<open>SessionPanic\<close> is no error of the code but a panic of it.\<close>

datatype session_error = SessionIo | SessionJson string | SessionHomeDir | SessionPanic

record session_world =
  sw_home :: "string option"
  sw_print :: "session \<Rightarrow> string + string"
  sw_parse :: "string \<Rightarrow> string + session"

definition new_with_app :: "string \<Rightarrow> string \<Rightarrow> string \<Rightarrow> string \<Rightarrow> string \<Rightarrow> session" where
  "new_with_app now_id now_rfc model workspace app =
     \<lparr>ss_id = now_id, ss_created_at = now_rfc, ss_updated_at = now_rfc, ss_model = model,
      ss_workspace = workspace, ss_app = app, ss_messages = [], ss_input_history = []\<rparr>"

definition new_session :: "string \<Rightarrow> string \<Rightarrow> string \<Rightarrow> string \<Rightarrow> session" where
  "new_session now_id now_rfc model workspace = new_with_app now_id now_rfc model workspace ''chat''"

definition get_sessions_base_dir ::
  "session_world \<Rightarrow> file_system \<Rightarrow> (session_error + string) \<times> file_system"
where
  "get_sessions_base_dir w fs =
     (case sw_home w of
        None \<Rightarrow> (Inl SessionHomeDir, fs)
      | Some home \<Rightarrow>
          (let base = path_join home ''.devit''
           in case create_dir_all (components base) fs of
                None \<Rightarrow> (Inl SessionIo, fs)
              | Some fs' \<Rightarrow> (Inr base, fs')))"

text \<open>The day is the first ten bytes of the time of creation.\<close>

definition continuation_byte :: "char \<Rightarrow> bool" where
  "continuation_byte c = (128 \<le> (of_char c :: nat) \<and> (of_char c :: nat) < 192)"

definition day_of :: "string \<Rightarrow> string option" where
  "day_of t =
     (if length t < 10 \<or> (10 < length t \<and> continuation_byte (t ! 10)) then None
      else Some (take 10 t))"

definition session_file_path ::
  "session_world \<Rightarrow> session \<Rightarrow> file_system \<Rightarrow> (session_error + string) \<times> file_system"
where
  "session_file_path w s fs =
     (case get_sessions_base_dir w fs of
        (Inl e, fs1) \<Rightarrow> (Inl e, fs1)
      | (Inr base, fs1) \<Rightarrow>
          (case day_of (ss_created_at s) of
             None \<Rightarrow> (Inl SessionPanic, fs1)
           | Some date \<Rightarrow>
               (let dir = path_join base date
                in case create_dir_all (components dir) fs1 of
                     None \<Rightarrow> (Inl SessionIo, fs1)
                   | Some fs2 \<Rightarrow> (Inr (path_join dir (''session_'' @ ss_id s @ ''.json'')), fs2))))"

text \<open>The session itself takes the new time before anything can fail.\<close>

definition session_save ::
  "session_world \<Rightarrow> string \<Rightarrow> session \<Rightarrow> file_system \<Rightarrow> (session_error + string) \<times> session \<times> file_system"
where
  "session_save w now_rfc s fs =
     (let s' = s\<lparr>ss_updated_at := now_rfc\<rparr>
      in case session_file_path w s' fs of
           (Inl e, fs1) \<Rightarrow> (Inl e, s', fs1)
         | (Inr path, fs1) \<Rightarrow>
             (case sw_print w s' of
                Inl e \<Rightarrow> (Inl (SessionJson e), s', fs1)
              | Inr t \<Rightarrow>
                  (case write_text (components path) t fs1 of
                     None \<Rightarrow> (Inl SessionIo, s', fs1)
                   | Some fs2 \<Rightarrow> (Inr path, s', fs2))))"

definition session_load :: "session_world \<Rightarrow> file_system \<Rightarrow> string \<Rightarrow> session_error + session" where
  "session_load w fs path =
     (case read_to_string fs (components path) of
        None \<Rightarrow> Inl SessionIo
      | Some t \<Rightarrow> (case sw_parse w t of Inl e \<Rightarrow> Inl (SessionJson e) | Inr s \<Rightarrow> Inr s))"

definition add_message :: "stored_message \<Rightarrow> session \<Rightarrow> session" where
  "add_message m s = s\<lparr>ss_messages := ss_messages s @ [m]\<rparr>"

definition set_input_history :: "string list \<Rightarrow> session \<Rightarrow> session" where
  "set_input_history h s = s\<lparr>ss_input_history := h\<rparr>"

definition clear_messages :: "session \<Rightarrow> session" where
  "clear_messages s = s\<lparr>ss_messages := []\<rparr>"

subsection \<open>Finding sessions\<close>

record session_info =
  si_path :: string
  si_display_name :: string
  si_app :: "string option"

definition matches_app_filter ::
  "session_world \<Rightarrow> file_system \<Rightarrow> string \<Rightarrow> string option \<Rightarrow> bool \<times> string option"
where
  "matches_app_filter w fs path app_filter =
     (case app_filter of
        None \<Rightarrow> (True, None)
      | Some f \<Rightarrow>
          (case session_load w fs path of
             Inr s \<Rightarrow> (if ss_app s = f then (True, Some (ss_app s)) else (False, None))
           | Inl _ \<Rightarrow> (True, None)))"

definition stem_or_empty :: "string \<Rightarrow> string" where
  "stem_or_empty path = (case file_name path of None \<Rightarrow> [] | Some f \<Rightarrow> file_stem f)"

definition session_entry ::
  "session_world \<Rightarrow> file_system \<Rightarrow> string option \<Rightarrow> string \<Rightarrow> string \<Rightarrow> session_info option"
where
  "session_entry w fs app_filter day path =
     (if file_extension path = Some ''json'' then
        (case matches_app_filter w fs path app_filter of
           (include, app) \<Rightarrow>
             (if include
              then Some \<lparr>si_path = path, si_display_name = day @ ''/'' @ stem_or_empty path, si_app = app\<rparr>
              else None))
      else None)"

definition day_entries ::
  "session_world \<Rightarrow> file_system \<Rightarrow> string option \<Rightarrow> string option \<Rightarrow> string \<Rightarrow> string \<Rightarrow> session_info list"
where
  "day_entries w fs date_filter app_filter base day =
     (if (case date_filter of None \<Rightarrow> False | Some f \<Rightarrow> \<not> starts_with day f) then []
      else case read_dir fs (components (path_join base day)) of
             None \<Rightarrow> []
           | Some ns \<Rightarrow>
               List.map_filter (\<lambda>n. session_entry w fs app_filter day (path_join (path_join base day) n)) ns)"

definition entry_is_dir :: "file_system \<Rightarrow> string \<Rightarrow> bool" where
  "entry_is_dir fs path = (stat fs True (components path) = Some Dir)"

text \<open>\<open>sort_by\<close> with the arguments exchanged: a stable sort, the greatest name first.\<close>

definition newest_first :: "session_info list \<Rightarrow> session_info list" where
  "newest_first xs = rev (sort_key si_display_name (rev xs))"

definition list_sessions ::
  "session_world \<Rightarrow> string option \<Rightarrow> string option \<Rightarrow> file_system
    \<Rightarrow> (session_error + session_info list) \<times> file_system"
where
  "list_sessions w date_filter app_filter fs =
     (case get_sessions_base_dir w fs of
        (Inl e, fs1) \<Rightarrow> (Inl e, fs1)
      | (Inr base, fs1) \<Rightarrow>
          (case read_dir fs1 (components base) of
             None \<Rightarrow> (Inl SessionIo, fs1)
           | Some ns \<Rightarrow>
               (Inr (newest_first (concat (map (day_entries w fs1 date_filter app_filter base)
                  (filter (\<lambda>n. entry_is_dir fs1 (path_join base n)) ns)))), fs1)))"

definition load_info ::
  "session_world \<Rightarrow> file_system \<Rightarrow> session_info option \<Rightarrow> session_error + session option"
where
  "load_info w fs info =
     (case info of
        None \<Rightarrow> Inr None
      | Some i \<Rightarrow> (case session_load w fs (si_path i) of Inl e \<Rightarrow> Inl e | Inr s \<Rightarrow> Inr (Some s)))"

definition get_latest_session ::
  "session_world \<Rightarrow> string option \<Rightarrow> file_system \<Rightarrow> (session_error + session option) \<times> file_system"
where
  "get_latest_session w app_filter fs =
     (case list_sessions w None app_filter fs of
        (Inl e, fs1) \<Rightarrow> (Inl e, fs1)
      | (Inr infos, fs1) \<Rightarrow> (load_info w fs1 (case infos of [] \<Rightarrow> None | i # _ \<Rightarrow> Some i), fs1))"

definition get_session_by_id ::
  "session_world \<Rightarrow> string \<Rightarrow> string option \<Rightarrow> file_system
    \<Rightarrow> (session_error + session option) \<times> file_system"
where
  "get_session_by_id w sid app_filter fs =
     (case list_sessions w None app_filter fs of
        (Inl e, fs1) \<Rightarrow> (Inl e, fs1)
      | (Inr infos, fs1) \<Rightarrow>
          (load_info w fs1
             (find (\<lambda>i. file_name (si_path i) \<noteq> None \<and> stem_or_empty (si_path i) = ''session_'' @ sid) infos),
           fs1))"

definition get_today_session_dir ::
  "session_world \<Rightarrow> string \<Rightarrow> file_system \<Rightarrow> (session_error + string) \<times> file_system"
where
  "get_today_session_dir w today fs =
     (case get_sessions_base_dir w fs of
        (Inl e, fs1) \<Rightarrow> (Inl e, fs1)
      | (Inr base, fs1) \<Rightarrow>
          (case create_dir_all (components (path_join base today)) fs1 of
             None \<Rightarrow> (Inl SessionIo, fs1)
           | Some fs2 \<Rightarrow> (Inr (path_join base today), fs2)))"

subsection \<open>Saving and loading\<close>

lemma saved_session_is_loaded:
  assumes "session_save w now_rfc s fs = (Inr path, s', fs')"
    and "\<And>a t. sw_print w a = Inr t \<Longrightarrow> sw_parse w t = Inr a"
  shows "session_load w fs' path = Inr s' \<and> s' = s\<lparr>ss_updated_at := now_rfc\<rparr>"
  using assms(1)
  by (auto simp: session_save_def Let_def session_load_def write_then_read assms(2)
      split: prod.splits sum.splits option.splits)

lemma messages_are_appended: "ss_messages (fold add_message ms s) = ss_messages s @ ms"
  by (induction ms arbitrary: s) (simp_all add: add_message_def)

lemma newest_first_sorted: "sorted_wrt (\<lambda>a b. si_display_name b \<le> si_display_name a) (newest_first xs)"
proof -
  have "sorted_wrt (\<lambda>a b. si_display_name a \<le> si_display_name b) (sort_key si_display_name (rev xs))"
    using sorted_sort_key [of si_display_name "rev xs"] by (simp add: sorted_map)
  then show ?thesis
    by (simp add: newest_first_def sorted_wrt_rev)
qed

lemma set_newest_first [simp]: "set (newest_first xs) = set xs"
  by (simp add: newest_first_def)

text \<open>A session found by an identifier comes from a listed file of that name, and the latest one from
  the listed file with the greatest name.\<close>

lemma find_member: "find P xs = Some x \<Longrightarrow> x \<in> set xs \<and> P x"
  by (induction xs) (auto split: if_splits)

lemma load_info_Some:
  "load_info w fs info = Inr (Some s) \<longleftrightarrow> (\<exists>i. info = Some i \<and> session_load w fs (si_path i) = Inr s)"
  by (auto simp: load_info_def split: option.splits sum.splits)

lemma session_by_id_source:
  assumes "get_session_by_id w sid app fs = (Inr (Some s), fs')"
  shows "\<exists>xs i. list_sessions w None app fs = (Inr xs, fs') \<and> i \<in> set xs
    \<and> stem_or_empty (si_path i) = ''session_'' @ sid \<and> session_load w fs' (si_path i) = Inr s"
proof -
  obtain xs i where "list_sessions w None app fs = (Inr xs, fs')"
    and f: "find (\<lambda>i. file_name (si_path i) \<noteq> None \<and> stem_or_empty (si_path i) = ''session_'' @ sid) xs
      = Some i"
    and "session_load w fs' (si_path i) = Inr s"
    using assms by (auto simp: get_session_by_id_def load_info_Some split: prod.splits sum.splits)
  with find_member [OF f] show ?thesis by blast
qed

lemma list_sessions_sorted:
  "list_sessions w d app fs = (Inr xs, fs')
    \<Longrightarrow> sorted_wrt (\<lambda>a b. si_display_name b \<le> si_display_name a) xs"
  by (auto simp: list_sessions_def newest_first_sorted split: prod.splits sum.splits option.splits)

lemma latest_session_source:
  assumes "get_latest_session w app fs = (Inr (Some s), fs')"
  shows "\<exists>xs i. list_sessions w None app fs = (Inr xs, fs') \<and> i \<in> set xs
    \<and> session_load w fs' (si_path i) = Inr s
    \<and> (\<forall>j \<in> set xs. si_display_name j \<le> si_display_name i)"
proof -
  obtain xs i where l: "list_sessions w None app fs = (Inr (i # xs), fs')"
    and s: "session_load w fs' (si_path i) = Inr s"
    using assms
    by (auto simp: get_latest_session_def load_info_Some split: prod.splits sum.splits list.splits)
  from list_sessions_sorted [OF l] l s show ?thesis by auto
qed

subsection \<open>A saved session is listed\<close>

definition plain_name :: "string \<Rightarrow> bool" where
  "plain_name n \<longleftrightarrow> n \<noteq> [] \<and> n \<noteq> ''.'' \<and> n \<noteq> ''..'' \<and> CHR ''/'' \<notin> set n"

lemma join_plain:
  assumes "plain_name n" and "p \<noteq> []"
  shows "components (path_join p n) = components p @ [Normal n]" "path_join p n \<noteq> []"
proof -
  have "\<not> is_absolute n" using assms(1) by (cases n) (auto simp: plain_name_def is_absolute_def)
  with assms show "components (path_join p n) = components p @ [Normal n]"
    by (simp add: components_join split_char_single plain_name_def seg_component_def)
  from assms show "path_join p n \<noteq> []" by (auto simp: path_join_def plain_name_def)
qed

lemma rfind_json: "rfind_str ''.'' (x @ ''.json'') = Some (length x)"
  by (induction x) auto

lemma create_dirs_makes:
  "create_dirs n cur (map Normal ns) fs = Some fs' \<Longrightarrow> link_free fs root \<Longrightarrow> prefix root cur
    \<Longrightarrow> node_at fs cur = Some Dir \<Longrightarrow> prefix p ns \<Longrightarrow> node_at fs' (cur @ p) = Some Dir"
proof (induction ns arbitrary: cur p fs)
  case Nil
  then show ?case by simp
next
  case (Cons s ns)
  have nl: "node_at fs (cur @ [s]) \<noteq> Some (Link t)" for t
    using Cons.prems(2,3) by (auto simp: link_free_def prefix_def)
  show ?case
  proof (cases "node_at fs (cur @ [s])")
    case None
    define f1 where "f1 = put_node (cur @ [s]) Dir fs"
    have c: "create_dirs n (cur @ [s]) (map Normal ns) f1 = Some fs'"
      using Cons.prems(1) None by (simp add: f1_def)
    have l: "link_free f1 root" using Cons.prems(2) by (simp add: f1_def link_free_put)
    have d: "node_at f1 (cur @ [s]) = Some Dir" by (simp add: f1_def node_at_put)
    have "node_at f1 cur = Some Dir" using Cons.prems(4) by (simp add: f1_def node_at_put)
    then have "node_at fs' cur = Some Dir" using create_dirs_only_adds [OF c, of cur] by auto
    with Cons.IH [OF c l prefix_snoc_intro [OF Cons.prems(3)] d] Cons.prems(5) show ?thesis
      by (cases p) auto
  next
    case (Some nd)
    with nl Cons.prems(1) have nd: "nd = Dir" by (cases nd) auto
    with Some Cons.prems(1) have c: "create_dirs n (cur @ [s]) (map Normal ns) fs = Some fs'" by simp
    have "node_at fs' cur = Some Dir"
      using create_dirs_only_adds [OF c, of cur] Cons.prems(4) by auto
    with Cons.IH [OF c Cons.prems(2) prefix_snoc_intro [OF Cons.prems(3)]] Cons.prems(5) Some nd
    show ?thesis by (cases p) auto
  qed
qed

lemma create_dir_all_makes_tree:
  assumes "work_tree fs root" and "create_dir_all (RootDir # map Normal (root @ ns)) fs = Some fs'"
  shows "work_tree fs' (root @ ns)"
proof -
  have t: "work_tree fs' root" by (rule create_dir_all_tree [OF assms])
  have c: "create_dirs max_links root (map Normal ns) fs = Some fs'"
    using assms create_dirs_dirs [of root fs "[]" max_links "map Normal ns"]
    by (simp add: create_dir_all_def work_tree_def)
  have "node_at fs' p = Some Dir" if "prefix p (root @ ns)" for p
  proof (cases "prefix p root")
    case True
    then show ?thesis using t by (simp add: work_tree_def)
  next
    case False
    with that obtain q where "p = root @ q" "prefix q ns" by (auto simp: prefix_append)
    then show ?thesis
      using create_dirs_makes [OF c, of root q] assms(1) by (auto simp: work_tree_def)
  qed
  moreover have "link_free fs' (root @ ns)"
    using t by (auto simp: work_tree_def link_free_def dest: append_prefixD)
  ultimately show ?thesis by (simp add: work_tree_def)
qed

lemma dir_names_member: "n \<in> set (dir_names fs loc) \<longleftrightarrow> node_at fs (loc @ [n]) \<noteq> None"
proof -
  have "n \<in> set (dir_names fs loc) \<longleftrightarrow> loc @ [n] \<in> set (hm_keys (nodes fs))"
    by (force simp: dir_names_def intro: append_butlast_last_id [symmetric])
  then show ?thesis by (simp add: node_at_def map_of_eq_None_iff)
qed

lemma read_tree_dir:
  "work_tree fs root \<Longrightarrow> read_dir fs (RootDir # map Normal root) = Some (dir_names fs root)"
  using locate_directory [of fs root True] by (simp add: read_dir_def work_tree_def)

definition session_name :: "session \<Rightarrow> string" where
  "session_name s = ''session_'' @ ss_id s"

lemma session_file_plain: "CHR ''/'' \<notin> set (ss_id s) \<Longrightarrow> plain_name (session_name s @ ''.json'')"
  by (simp add: plain_name_def session_name_def)

lemma session_file_parts:
  assumes "plain_name (session_name s @ ''.json'')" and "dir \<noteq> []"
  defines "p \<equiv> path_join dir (session_name s @ ''.json'')"
  shows "file_name p = Some (session_name s @ ''.json'')" "file_extension p = Some ''json''"
    "stem_or_empty p = session_name s"
proof -
  show f: "file_name p = Some (session_name s @ ''.json'')"
    using join_plain(1) [OF assms(1,2)] by (simp add: file_name_def p_def)
  have r: "rfind_str ''.'' (session_name s @ ''.json'') = Some (length (session_name s))"
    by (rule rfind_json)
  have "length (session_name s) \<noteq> 0" by (simp add: session_name_def)
  then obtain k where k: "length (session_name s) = Suc k" by (cases "length (session_name s)") auto
  show "file_extension p = Some ''json''"
    using k by (simp add: file_extension_def f r)
  show "stem_or_empty p = session_name s"
    using k by (simp add: stem_or_empty_def f file_stem_def r)
qed

text \<open>What a save leaves: the directory of sessions is a tree without links, with the day and the file
  in it.\<close>

lemma saved_session_tree:
  assumes home: "sw_home w = Some h" "h \<noteq> []" "components h = RootDir # map Normal root"
    and tree: "work_tree fs root"
    and saved: "session_save w now_rfc s fs = (Inr path, s', fs')"
    and day: "day_of (ss_created_at s) = Some d" "plain_name d"
    and sid: "CHR ''/'' \<notin> set (ss_id s)"
  defines "base \<equiv> path_join h ''.devit''" and "store \<equiv> root @ [''.devit'']"
  shows "path = path_join (path_join base d) (session_name s @ ''.json'')"
    "components base = RootDir # map Normal store" "base \<noteq> []"
    "work_tree fs' store" "work_tree fs' (store @ [d])"
    "node_at fs' (store @ [d, session_name s @ ''.json'']) \<noteq> None"
proof -
  let ?f = "session_name s @ ''.json''"
  have f: "plain_name ?f" using session_file_plain [OF sid] .
  show base: "components base = RootDir # map Normal store" "base \<noteq> []"
    using join_plain [of "''.devit''" h] home by (simp_all add: base_def store_def plain_name_def)
  have dir: "components (path_join base d) = RootDir # map Normal (store @ [d])" "path_join base d \<noteq> []"
    using join_plain [OF day(2) base(2)] base(1) by simp_all
  from saved home day(1) obtain fs1 fs2 t where
      fs1: "create_dir_all (components base) fs = Some fs1"
    and fs2: "create_dir_all (components (path_join base d)) fs1 = Some fs2"
    and path: "path = path_join (path_join base d) ?f"
    and fs': "write_text (components path) t fs2 = Some fs'"
    by (auto simp: session_save_def Let_def session_file_path_def get_sessions_base_dir_def
        base_def session_name_def split: prod.splits sum.splits option.splits)
  show "path = path_join (path_join base d) ?f" by (rule path)
  have t1: "work_tree fs1 store"
    using create_dir_all_makes_tree [OF tree] fs1 base(1) by (simp add: store_def)
  have t2: "work_tree fs2 store" "work_tree fs2 (store @ [d])"
    using create_dir_all_tree [OF t1] create_dir_all_makes_tree [OF t1] fs2 dir(1) by auto
  have comps: "components path = RootDir # map Normal store @ [Normal d, Normal ?f]"
    using join_plain(1) [OF f dir(2)] dir(1) by (simp add: path)
  show "work_tree fs' store"
    using write_text_work_tree [OF t2(1), of "[Normal d, Normal ?f]"] fs' comps by simp
  have "locate fs2 True (components path) = Some (store @ [d, ?f])"
    using locate_entry [OF t2(2), of True ?f] comps by simp
  then have put: "fs' = put_node (store @ [d, ?f]) (File t) fs2"
    using fs' by (auto simp: write_text_def split: option.splits node.splits)
  then show "work_tree fs' (store @ [d])"
    using work_tree_put_file [OF t2(2), of ?f t] by simp
  show "node_at fs' (store @ [d, ?f]) \<noteq> None" by (simp add: put node_at_put)
qed

theorem saved_session_is_listed:
  assumes home: "sw_home w = Some h" "h \<noteq> []" "components h = RootDir # map Normal root"
    and "work_tree fs root" and "session_save w now_rfc s fs = (Inr path, s', fs')"
    and "day_of (ss_created_at s) = Some d" "plain_name d" and "CHR ''/'' \<notin> set (ss_id s)"
  shows "\<exists>xs. list_sessions w None None fs' = (Inr xs, fs')
    \<and> \<lparr>si_path = path, si_display_name = d @ ''/'' @ session_name s, si_app = None\<rparr> \<in> set xs"
proof -
  let ?top = "root @ [''.devit'']" and ?f = "session_name s @ ''.json''"
  define base where "base = path_join h ''.devit''"
  note l = saved_session_tree [OF assms, folded base_def]
  have dir: "components (path_join base d) = RootDir # map Normal (?top @ [d])" "path_join base d \<noteq> []"
    using join_plain [OF assms(7) l(3)] l(2) by simp_all
  have e: "session_entry w fs' None d path
      = Some \<lparr>si_path = path, si_display_name = d @ ''/'' @ session_name s, si_app = None\<rparr>"
    using session_file_parts [OF session_file_plain [OF assms(8)] dir(2)] l(1)
    by (simp add: session_entry_def matches_app_filter_def)
  have "?f \<in> set (dir_names fs' (?top @ [d]))"
    using l(6) by (simp add: dir_names_member)
  then have d1: "\<lparr>si_path = path, si_display_name = d @ ''/'' @ session_name s, si_app = None\<rparr>
      \<in> set (day_entries w fs' None None base d)"
    using e l(1) read_tree_dir [OF l(5)] dir(1)
    by (force simp: day_entries_def List.map_filter_def)
  have d2: "d \<in> set (dir_names fs' ?top)" "entry_is_dir fs' (path_join base d)"
    using l(5) locate_directory [OF l(5), of True] dir(1)
    by (simp_all add: dir_names_member entry_is_dir_def stat_def work_tree_def)
  have "get_sessions_base_dir w fs' = (Inr base, fs')"
    using create_directory [OF l(4)] l(2) home(1)
    by (simp add: get_sessions_base_dir_def base_def [symmetric])
  then show ?thesis
    using d1 d2 read_tree_dir [OF l(4)] l(2) by (auto simp: list_sessions_def)
qed

text \<open>Where no other file has its name, the session is found by its identifier as it was saved.\<close>

theorem saved_session_is_found:
  assumes "sw_home w = Some h" "h \<noteq> []" "components h = RootDir # map Normal root"
    and "work_tree fs root" and saved: "session_save w now_rfc s fs = (Inr path, s', fs')"
    and "day_of (ss_created_at s) = Some d" "plain_name d" and "CHR ''/'' \<notin> set (ss_id s)"
    and serde: "\<And>a t. sw_print w a = Inr t \<Longrightarrow> sw_parse w t = Inr a"
    and only: "\<And>xs i. list_sessions w None None fs' = (Inr xs, fs') \<Longrightarrow> i \<in> set xs
      \<Longrightarrow> stem_or_empty (si_path i) = session_name s \<Longrightarrow> si_path i = path"
  shows "get_session_by_id w (ss_id s) None fs' = (Inr (Some s'), fs')"
proof -
  obtain xs i where xs: "list_sessions w None None fs' = (Inr xs, fs')" and i: "i \<in> set xs"
    and p: "si_path i = path"
    using saved_session_is_listed [OF assms(1-8)] by auto
  have "path_join (path_join h ''.devit'') d \<noteq> []"
    using join_plain(2) [of d] join_plain(2) [of "''.devit''" h] assms(2,7) by (simp add: plain_name_def)
  from session_file_parts [OF session_file_plain [OF assms(8)] this]
  have n: "file_name path \<noteq> None" "stem_or_empty path = session_name s"
    using saved_session_tree(1) [OF assms(1-8)] by auto
  let ?P = "\<lambda>i. file_name (si_path i) \<noteq> None \<and> stem_or_empty (si_path i) = ''session_'' @ ss_id s"
  have "find ?P xs \<noteq> None"
    using i p n by (auto simp: find_None_iff session_name_def)
  then obtain j where j: "find ?P xs = Some j" by blast
  then have "si_path j = path"
    using find_member [OF j] only [OF xs] by (auto simp: session_name_def)
  then have "load_info w fs' (Some j) = Inr (Some s')"
    using saved_session_is_loaded [OF saved serde] by (simp add: load_info_Some)
  then show ?thesis using xs j by (simp add: get_session_by_id_def)
qed

end
