(* ===== verification/Command_Tools.thy ===== *)
theory Command_Tools
  imports Output_Shaper
begin

text \<open>
  The tools that put one command line together and report on it: archives, data bases,
  containers and git (archive.rs, db_query.rs, docker.rs and git_ops.rs of crates/mcp-tools).

  A run of a program is a parameter, which may change the file system; so are the reading of
  parameters by serde, the reading of JSON, and the form of a size in
  kilobytes. The text of an error of the file system and the size of a directory are left out.
\<close>

subsection \<open>Commands\<close>

record tool_command =
  tc_program :: string
  tc_args :: "string list"
  tc_dir :: "string option"
  tc_env :: "(string \<times> string) list"

datatype command_end =
    NotStarted string
  | TimedOut
  | Ended "int option" string string

type_synonym command_runner = "nat option \<Rightarrow> tool_command \<Rightarrow> file_system \<Rightarrow> command_end \<times> file_system"

datatype command_error = BadRequest string | Failed string | SlicePanic

definition command_of :: "string \<Rightarrow> string list \<Rightarrow> tool_command" where
  "command_of program args = \<lparr>tc_program = program, tc_args = args, tc_dir = None, tc_env = []\<rparr>"

definition answer_with :: "string \<Rightarrow> string \<Rightarrow> (string \<times> json) list \<Rightarrow> json" where
  "answer_with shown kind details =
     JObj [(''content'', JArr [JObj [(''type'', JStr ''text''), (''text'', JStr shown)]]),
           (''structuredContent'', JObj [(kind, JObj details)])]"

definition quoted :: "string \<Rightarrow> string" where
  "quoted s = [CHR 0x27] @ s @ [CHR 0x27]"

subsection \<open>Archives\<close>

record archive_params =
  ap_action :: string
  ap_path :: string
  ap_target :: "string option"
  ap_files :: "string list option"
  ap_format :: "string option"

definition detect_format :: "string \<Rightarrow> string" where
  "detect_format path =
     (if ends_with path ''.tar.gz'' \<or> ends_with path ''.tgz'' then ''tar.gz''
      else if ends_with path ''.tar.bz2'' \<or> ends_with path ''.tbz2'' then ''tar.bz2''
      else if ends_with path ''.tar.xz'' \<or> ends_with path ''.txz'' then ''tar.xz''
      else if ends_with path ''.tar'' then ''tar''
      else if ends_with path ''.zip'' then ''zip'' else ''tar.gz'')"

definition archive_format :: "archive_params \<Rightarrow> string" where
  "archive_format p = (case ap_format p of Some f \<Rightarrow> f | None \<Rightarrow> detect_format (ap_path p))"

text \<open>The letter of the action between the letter of the compression and \<open>f\<close>.\<close>

definition tar_flag :: "char \<Rightarrow> string \<Rightarrow> string" where
  "tar_flag act fmt =
     (if fmt \<in> {''tar.gz'', ''tgz''} then act # ''zf''
      else if fmt \<in> {''tar.bz2'', ''tbz2''} then act # ''jf''
      else if fmt \<in> {''tar.xz'', ''txz''} then act # ''Jf''
      else if fmt = ''tar'' then act # ''f'' else act # ''zf'')"

definition extract_command :: "string \<Rightarrow> string \<Rightarrow> string \<Rightarrow> tool_command" where
  "extract_command fmt archive target =
     (if fmt = ''zip'' then command_of ''unzip'' [''-o'', archive, ''-d'', target]
      else command_of ''tar'' [tar_flag (CHR ''x'') fmt, archive, ''-C'', target])"

definition create_command :: "string \<Rightarrow> string \<Rightarrow> string \<Rightarrow> string list \<Rightarrow> tool_command" where
  "create_command root fmt archive files =
     (if fmt = ''zip'' then command_of ''zip'' ([''-r'', archive] @ files)
      else command_of ''tar'' ([tar_flag (CHR ''c'') fmt, archive] @ files))\<lparr>tc_dir := Some root\<rparr>"

definition archive_list_command :: "string \<Rightarrow> string \<Rightarrow> tool_command" where
  "archive_list_command fmt archive =
     (if fmt = ''zip'' then command_of ''unzip'' [''-l'', archive]
      else command_of ''tar'' [tar_flag (CHR ''t'') fmt, archive])"

text \<open>A run without a time limit, whose output is wanted: \<open>what\<close> names it in the errors.\<close>

definition run_to_end ::
  "command_runner \<Rightarrow> (string \<Rightarrow> string) \<Rightarrow> string \<Rightarrow> tool_command \<Rightarrow> file_system
    \<Rightarrow> (command_error + string) \<times> file_system"
where
  "run_to_end run lossy what cmd fs =
     (case run None cmd fs of
        (NotStarted e, fs') \<Rightarrow> (Inl (Failed (what @ '' command failed: '' @ e)), fs')
      | (TimedOut, fs') \<Rightarrow> (Inl (Failed (what @ '' command failed: '')), fs')
      | (Ended code out err, fs') \<Rightarrow>
          (if code = Some 0 then (Inr out, fs')
           else (Inl (Failed (what @ '' failed: '' @ trim (lossy err))), fs')))"

definition arrow :: string where
  "arrow = [CHR 0xE2, CHR 0x86, CHR 0x92]"

definition action_extract ::
  "command_runner \<Rightarrow> (string \<Rightarrow> string) \<Rightarrow> string \<Rightarrow> archive_params \<Rightarrow> file_system
    \<Rightarrow> (command_error + json) \<times> file_system"
where
  "action_extract run lossy root p fs =
     (let archive = path_join root (ap_path p);
          target = (case ap_target p of Some t \<Rightarrow> path_join root t | None \<Rightarrow> root);
          fmt = archive_format p
      in if \<not> path_exists fs (components archive)
         then (Inl (BadRequest (''Archive not found: '' @ archive)), fs)
         else case create_dir_all (components target) fs of
                None \<Rightarrow> (Inl (Failed ''Cannot create target dir''), fs)
              | Some fs1 \<Rightarrow>
                  (case run_to_end run lossy ''Extract'' (extract_command fmt archive target) fs1 of
                     (Inl e, fs2) \<Rightarrow> (Inl e, fs2)
                   | (Inr _, fs2) \<Rightarrow>
                       (Inr (answer_with (''Extracted '' @ ap_path p @ '' '' @ arrow @ '' '' @ target) ''archive''
                          [(''action'', JStr ''extract''), (''path'', JStr (ap_path p)),
                           (''target'', JStr target), (''format'', JStr fmt)]), fs2)))"

definition archive_size :: "file_system \<Rightarrow> string \<Rightarrow> nat" where
  "archive_size fs path = (case stat fs True (components path) of Some (File c) \<Rightarrow> length c | _ \<Rightarrow> 0)"

definition make_archive_parent :: "string \<Rightarrow> file_system \<Rightarrow> file_system option" where
  "make_archive_parent path fs =
     (case parent_text path of None \<Rightarrow> Some fs | Some d \<Rightarrow> create_dir_all (components d) fs)"

definition action_create ::
  "command_runner \<Rightarrow> (string \<Rightarrow> string) \<Rightarrow> (nat \<Rightarrow> string) \<Rightarrow> string \<Rightarrow> archive_params \<Rightarrow> file_system
    \<Rightarrow> (command_error + json) \<times> file_system"
where
  "action_create run lossy kilobytes root p fs =
     (case ap_files p of
        None \<Rightarrow> (Inl (BadRequest (quoted ''files'' @ '' is required for create action'')), fs)
      | Some files \<Rightarrow>
          (if files = [] then (Inl (BadRequest (quoted ''files'' @ '' cannot be empty'')), fs)
           else
             let archive = path_join root (ap_path p); fmt = archive_format p
             in case make_archive_parent archive fs of
                  None \<Rightarrow> (Inl (Failed ''Cannot create parent dir''), fs)
                | Some fs1 \<Rightarrow>
                    (case run_to_end run lossy ''Create'' (create_command root fmt archive files) fs1 of
                       (Inl e, fs2) \<Rightarrow> (Inl e, fs2)
                     | (Inr _, fs2) \<Rightarrow>
                         (let n = archive_size fs2 archive
                          in (Inr (answer_with
                                (''Created '' @ ap_path p @ '' ('' @ kilobytes n @ '' KB, ''
                                  @ show_nat (length files) @ '' files)'') ''archive''
                                [(''action'', JStr ''create''), (''path'', JStr (ap_path p)),
                                 (''format'', JStr fmt), (''size'', JInt (int n)),
                                 (''file_count'', JInt (int (length files)))]), fs2)))))"

definition action_list ::
  "command_runner \<Rightarrow> (string \<Rightarrow> string) \<Rightarrow> string \<Rightarrow> archive_params \<Rightarrow> file_system
    \<Rightarrow> (command_error + json) \<times> file_system"
where
  "action_list run lossy root p fs =
     (let archive = path_join root (ap_path p); fmt = archive_format p
      in if \<not> path_exists fs (components archive)
         then (Inl (BadRequest (''Archive not found: '' @ archive)), fs)
         else case run_to_end run lossy ''List'' (archive_list_command fmt archive) fs of
                (Inl e, fs1) \<Rightarrow> (Inl e, fs1)
              | (Inr out, fs1) \<Rightarrow>
                  (let listing = lossy out; n = length (str_lines listing)
                   in (Inr (answer_with
                         (''Contents of '' @ ap_path p @ '' ('' @ show_nat n @ '' entries):'' @ nl # nl # trim listing)
                         ''archive''
                         [(''action'', JStr ''list''), (''path'', JStr (ap_path p)),
                          (''format'', JStr fmt), (''entries'', JInt (int n))]), fs1)))"

definition archive_tool ::
  "command_runner \<Rightarrow> (string \<Rightarrow> string) \<Rightarrow> (nat \<Rightarrow> string) \<Rightarrow> (json \<Rightarrow> string + archive_params) \<Rightarrow> string
    \<Rightarrow> json \<Rightarrow> file_system \<Rightarrow> (command_error + json) \<times> file_system"
where
  "archive_tool run lossy kilobytes serde root v fs =
     (case serde v of
        Inl e \<Rightarrow> (Inl (BadRequest (''Invalid params: '' @ e)), fs)
      | Inr p \<Rightarrow>
          (if ap_action p = ''extract'' then action_extract run lossy root p fs
           else if ap_action p = ''create'' then action_create run lossy kilobytes root p fs
           else if ap_action p = ''list'' then action_list run lossy root p fs
           else (Inl (BadRequest (''Unknown action '' @ quoted (ap_action p)
                  @ ''. Valid: extract, create, list'')), fs)))"

subsection \<open>Data bases\<close>

record db_params =
  dq_query :: string
  dq_db_type :: string
  dq_db :: string
  dq_max_rows :: "nat option"

definition max_rows :: nat where
  "max_rows = 500"

definition query_timeout_secs :: nat where
  "query_timeout_secs = 30"

definition trim_semicolons :: "string \<Rightarrow> string" where
  "trim_semicolons q = rev (dropWhile (\<lambda>c. c = CHR '';'') (rev q))"

definition limited_query :: "string \<Rightarrow> nat \<Rightarrow> string" where
  "limited_query q n =
     (if contains (to_lowercase q) ''limit'' then q
      else trim_semicolons q @ '' LIMIT '' @ show_nat n)"

definition sqlite_command :: "string \<Rightarrow> string \<Rightarrow> nat \<Rightarrow> tool_command" where
  "sqlite_command path q n = command_of ''sqlite3'' [''-json'', path, limited_query q n]"

definition postgres_command :: "string \<Rightarrow> string \<Rightarrow> nat \<Rightarrow> tool_command" where
  "postgres_command conn q n =
     (command_of ''psql'' [conn, ''-c'', limited_query q n, ''--no-align'', ''--tuples-only'', ''--csv''])
     \<lparr>tc_env := [(''PGCONNECT_TIMEOUT'', ''5'')]\<rparr>"

definition run_query ::
  "command_runner \<Rightarrow> (string \<Rightarrow> string) \<Rightarrow> string \<Rightarrow> string \<Rightarrow> tool_command \<Rightarrow> file_system
    \<Rightarrow> (command_error + string) \<times> file_system"
where
  "run_query run lossy missing name cmd fs =
     (case run (Some query_timeout_secs) cmd fs of
        (TimedOut, fs') \<Rightarrow> (Inl (Failed ''Query timeout''), fs')
      | (NotStarted e, fs') \<Rightarrow> (Inl (Failed (missing @ e)), fs')
      | (Ended code out err, fs') \<Rightarrow>
          (if code = Some 0 then (Inr (lossy out), fs')
           else (Inl (Failed (name @ '' error: '' @ trim (lossy err))), fs')))"

text \<open>\<open>count\<close>: the length of an array that the text is, if it is one.\<close>

definition query_sqlite ::
  "command_runner \<Rightarrow> (string \<Rightarrow> string) \<Rightarrow> (string \<Rightarrow> nat option) \<Rightarrow> string \<Rightarrow> string \<Rightarrow> string \<Rightarrow> nat
    \<Rightarrow> file_system \<Rightarrow> (command_error + string \<times> nat) \<times> file_system"
where
  "query_sqlite run lossy count root db q n fs =
     (let path = path_join root db
      in if \<not> path_exists fs (components path)
         then (Inl (BadRequest (''SQLite database not found: '' @ path)), fs)
         else case run_query run lossy ''sqlite3 not found. Install sqlite3: '' ''SQLite''
                     (sqlite_command path q n) fs of
                (Inl e, fs') \<Rightarrow> (Inl e, fs')
              | (Inr out, fs') \<Rightarrow>
                  (Inr (out, if trim out = [] then 0 else case count out of None \<Rightarrow> 0 | Some k \<Rightarrow> k), fs'))"

definition query_postgres ::
  "command_runner \<Rightarrow> (string \<Rightarrow> string) \<Rightarrow> string \<Rightarrow> string \<Rightarrow> nat
    \<Rightarrow> file_system \<Rightarrow> (command_error + string \<times> nat) \<times> file_system"
where
  "query_postgres run lossy conn q n fs =
     (case run_query run lossy ''psql not found. Install postgresql-client: '' ''PostgreSQL''
             (postgres_command conn q n) fs of
        (Inl e, fs') \<Rightarrow> (Inl e, fs')
      | (Inr out, fs') \<Rightarrow> (Inr (out, length (str_lines out)), fs'))"

text \<open>\<open>&result[..32 * 1024]\<close> panics within a character.\<close>

definition shown_result :: "string \<Rightarrow> nat \<Rightarrow> string option" where
  "shown_result r n =
     (if trim r = [] then Some ''(no results)''
      else if 32 * 1024 < length r
        then map_option (\<lambda>s. s @ nl # ''[... truncated, '' @ show_nat n @ '' rows]'') (str_slice 0 (32 * 1024) r)
      else Some r)"

definition row_limit :: "db_params \<Rightarrow> nat" where
  "row_limit p = min (case dq_max_rows p of Some n \<Rightarrow> n | None \<Rightarrow> max_rows) max_rows"

definition db_result ::
  "command_runner \<Rightarrow> (string \<Rightarrow> string) \<Rightarrow> (string \<Rightarrow> nat option) \<Rightarrow> string \<Rightarrow> db_params
    \<Rightarrow> file_system \<Rightarrow> (command_error + string \<times> nat) \<times> file_system"
where
  "db_result run lossy count root p fs =
     (if dq_db_type p = ''sqlite'' then query_sqlite run lossy count root (dq_db p) (dq_query p) (row_limit p) fs
      else if dq_db_type p = ''postgres'' then query_postgres run lossy (dq_db p) (dq_query p) (row_limit p) fs
      else (Inl (BadRequest (''Unknown db_type '' @ quoted (dq_db_type p) @ ''. Valid: sqlite, postgres'')), fs))"

definition db_query_tool ::
  "command_runner \<Rightarrow> (string \<Rightarrow> string) \<Rightarrow> (string \<Rightarrow> nat option) \<Rightarrow> (json \<Rightarrow> string + db_params) \<Rightarrow> string
    \<Rightarrow> json \<Rightarrow> file_system \<Rightarrow> (command_error + json) \<times> file_system"
where
  "db_query_tool run lossy count serde root v fs =
     (case serde v of
        Inl e \<Rightarrow> (Inl (BadRequest (''Invalid params: '' @ e)), fs)
      | Inr p \<Rightarrow>
          (case db_result run lossy count root p fs of
             (Inl e, fs') \<Rightarrow> (Inl e, fs')
           | (Inr (r, n), fs') \<Rightarrow>
               (case shown_result r n of
                  None \<Rightarrow> (Inl SlicePanic, fs')
                | Some shown \<Rightarrow>
                    (Inr (answer_with shown ''db''
                       [(''db_type'', JStr (dq_db_type p)), (''rows'', JInt (int n)),
                        (''query'', JStr (dq_query p)), (''result_bytes'', JInt (int (length r)))]), fs'))))"

subsection \<open>Containers\<close>

record docker_params =
  dk_action :: string
  dk_container :: "string option"
  dk_tail :: nat
  dk_all :: bool

definition max_log_lines :: nat where
  "max_log_lines = 200"

definition docker_command :: "string list \<Rightarrow> tool_command" where
  "docker_command args = command_of ''docker'' args"

definition run_docker ::
  "command_runner \<Rightarrow> (string \<Rightarrow> string) \<Rightarrow> string list \<Rightarrow> file_system
    \<Rightarrow> (command_error + int \<times> string \<times> string) \<times> file_system"
where
  "run_docker run lossy args fs =
     (case run None (docker_command args) fs of
        (Ended code out err, fs') \<Rightarrow>
          (Inr (case code of Some c \<Rightarrow> c | None \<Rightarrow> - 1, lossy out, lossy err), fs')
      | (NotStarted e, fs') \<Rightarrow> (Inl (Failed (''docker not found or not running: '' @ e)), fs')
      | (TimedOut, fs') \<Rightarrow> (Inl (Failed ''docker not found or not running: ''), fs'))"

definition tab :: char where
  "tab = CHR 0x09"

definition ps_args :: "string \<Rightarrow> bool \<Rightarrow> string list" where
  "ps_args form every = ''ps'' # (if every then [''-a''] else []) @ [''--format'', form]"

definition ps_table :: string where
  "ps_table = ''table {{.ID}}'' @ tab # ''{{.Names}}'' @ tab # ''{{.Image}}'' @ tab # ''{{.Status}}''
     @ tab # ''{{.Ports}}''"

definition images_table :: string where
  "images_table = ''table {{.Repository}}'' @ tab # ''{{.Tag}}'' @ tab # ''{{.Size}}'' @ tab # ''{{.CreatedSince}}''"

definition action_ps ::
  "command_runner \<Rightarrow> (string \<Rightarrow> string) \<Rightarrow> (string \<Rightarrow> json option) \<Rightarrow> bool \<Rightarrow> file_system
    \<Rightarrow> (command_error + json) \<times> file_system"
where
  "action_ps run lossy parse every fs =
     (case run_docker run lossy (ps_args ps_table every) fs of
        (Inl e, fs1) \<Rightarrow> (Inl e, fs1)
      | (Inr (code, out, err), fs1) \<Rightarrow>
          (if code \<noteq> 0 then (Inl (Failed (''docker ps failed: '' @ trim err)), fs1)
           else case run_docker run lossy (ps_args ''{{json .}}'' every) fs1 of
                  (Inl e, fs2) \<Rightarrow> (Inl e, fs2)
                | (Inr (_, lines, _), fs2) \<Rightarrow>
                    (let cs = List.map_filter parse (str_lines lines)
                     in (Inr (answer_with (trim out) ''docker''
                          [(''action'', JStr ''ps''), (''count'', JInt (int (length cs))),
                           (''containers'', JArr cs)]), fs2))))"

definition action_logs ::
  "command_runner \<Rightarrow> (string \<Rightarrow> string) \<Rightarrow> string \<Rightarrow> nat \<Rightarrow> file_system \<Rightarrow> (command_error + json) \<times> file_system"
where
  "action_logs run lossy c n fs =
     (case run_docker run lossy [''logs'', ''--tail'', show_nat (min n max_log_lines), ''--timestamps'', c] fs of
        (Inl e, fs1) \<Rightarrow> (Inl e, fs1)
      | (Inr (code, out, err), fs1) \<Rightarrow>
          (if code \<noteq> 0 then (Inl (Failed (''docker logs failed: '' @ trim err)), fs1)
           else
             let t = (if out = [] then err else out)
             in (Inr (answer_with
                   (''Logs for '' @ quoted c @ '' (last '' @ show_nat n @ ''):'' @ nl # nl # trim t) ''docker''
                   [(''action'', JStr ''logs''), (''container'', JStr c), (''tail'', JInt (int n)),
                    (''lines'', JInt (int (length (str_lines t))))]), fs1)))"

definition dash :: string where
  "dash = [CHR 0xE2, CHR 0x80, CHR 0x94]"

definition action_lifecycle ::
  "command_runner \<Rightarrow> (string \<Rightarrow> string) \<Rightarrow> string \<Rightarrow> string \<Rightarrow> file_system \<Rightarrow> (command_error + json) \<times> file_system"
where
  "action_lifecycle run lossy act c fs =
     (case run_docker run lossy [act, c] fs of
        (Inl e, fs1) \<Rightarrow> (Inl e, fs1)
      | (Inr (code, out, err), fs1) \<Rightarrow>
          (Inr (answer_with
             (''docker '' @ act @ '' '' @ c @ '' '' @ dash @ '' '' @ (if code = 0 then ''OK'' else trim err))
             ''docker''
             [(''action'', JStr act), (''container'', JStr c), (''success'', JBool (code = 0))]), fs1))"

definition action_images ::
  "command_runner \<Rightarrow> (string \<Rightarrow> string) \<Rightarrow> file_system \<Rightarrow> (command_error + json) \<times> file_system"
where
  "action_images run lossy fs =
     (case run_docker run lossy [''images'', ''--format'', images_table] fs of
        (Inl e, fs1) \<Rightarrow> (Inl e, fs1)
      | (Inr (code, out, err), fs1) \<Rightarrow>
          (if code \<noteq> 0 then (Inl (Failed (''docker images failed: '' @ trim err)), fs1)
           else (Inr (answer_with (trim out) ''docker'' [(''action'', JStr ''images'')]), fs1)))"

definition str_or_unknown :: "json option \<Rightarrow> string" where
  "str_or_unknown v = (case Option.bind v as_str of Some s \<Rightarrow> s | None \<Rightarrow> ''?'')"

definition inspect_summary :: "string \<Rightarrow> string \<Rightarrow> json \<Rightarrow> string" where
  "inspect_summary c out v =
     (case as_array v of
        Some (obj # _) \<Rightarrow>
          ''Container: '' @ c
          @ '' | Image: '' @ str_or_unknown (Option.bind (jget obj ''Config'') (\<lambda>x. jget x ''Image''))
          @ '' | State: '' @ str_or_unknown (Option.bind (jget obj ''State'') (\<lambda>x. jget x ''Status''))
          @ '' | Created: '' @ str_or_unknown (jget obj ''Created'')
      | _ \<Rightarrow> out)"

definition action_inspect ::
  "command_runner \<Rightarrow> (string \<Rightarrow> string) \<Rightarrow> (string \<Rightarrow> json option) \<Rightarrow> string \<Rightarrow> file_system
    \<Rightarrow> (command_error + json) \<times> file_system"
where
  "action_inspect run lossy parse c fs =
     (case run_docker run lossy [''inspect'', c] fs of
        (Inl e, fs1) \<Rightarrow> (Inl e, fs1)
      | (Inr (code, out, err), fs1) \<Rightarrow>
          (if code \<noteq> 0 then (Inl (Failed (''docker inspect failed: '' @ trim err)), fs1)
           else
             let v = jopt (parse out)
             in (Inr (answer_with (inspect_summary c out v) ''docker''
                  [(''action'', JStr ''inspect''), (''container'', JStr c), (''data'', v)]), fs1)))"

definition docker_tool ::
  "command_runner \<Rightarrow> (string \<Rightarrow> string) \<Rightarrow> (string \<Rightarrow> json option) \<Rightarrow> (json \<Rightarrow> string + docker_params)
    \<Rightarrow> json \<Rightarrow> file_system \<Rightarrow> (command_error + json) \<times> file_system"
where
  "docker_tool run lossy parse serde v fs =
     (case serde v of
        Inl e \<Rightarrow> (Inl (BadRequest (''Invalid params: '' @ e)), fs)
      | Inr p \<Rightarrow>
          (let act = dk_action p;
               needs = (\<lambda>f. case dk_container p of
                  None \<Rightarrow> (Inl (BadRequest (quoted ''container'' @ '' is required for this action'')), fs)
                | Some c \<Rightarrow> f c)
           in if act = ''ps'' then action_ps run lossy parse (dk_all p) fs
              else if act = ''logs'' then needs (\<lambda>c. action_logs run lossy c (dk_tail p) fs)
              else if act \<in> {''start'', ''stop'', ''restart''}
                then needs (\<lambda>c. action_lifecycle run lossy act c fs)
              else if act = ''images'' then action_images run lossy fs
              else if act = ''inspect'' then needs (\<lambda>c. action_inspect run lossy parse c fs)
              else (Inl (BadRequest (''Unknown action '' @ quoted act
                     @ ''. Valid: ps, logs, start, stop, restart, images, inspect'')), fs)))"

subsection \<open>What is started\<close>

text \<open>Runners that agree on the archivers make the same run: nothing else is ever started.\<close>

lemma run_to_end_cong:
  "run (None :: nat option) cmd fs = run' None cmd fs \<Longrightarrow> run_to_end run lossy what cmd fs = run_to_end run' lossy what cmd fs"
  by (simp add: run_to_end_def)

lemma archive_programs:
  "tc_program (extract_command fmt a t) \<in> {''tar'', ''unzip''}"
  "tc_program (create_command root fmt a files) \<in> {''tar'', ''zip''}"
  "tc_program (archive_list_command fmt a) \<in> {''tar'', ''unzip''}"
  by (simp_all add: extract_command_def create_command_def archive_list_command_def command_of_def)

theorem archive_tool_starts_archivers:
  assumes "\<And>cmd f. tc_program cmd \<in> {''tar'', ''zip'', ''unzip''} \<Longrightarrow> run None cmd f = run' None cmd f"
  shows "archive_tool run lossy kb serde root v fs = archive_tool run' lossy kb serde root v fs"
proof -
  have "run_to_end run lossy what cmd f = run_to_end run' lossy what cmd f"
    if "tc_program cmd \<in> {''tar'', ''zip'', ''unzip''}" for what cmd f
    using assms that by (intro run_to_end_cong) blast
  then have e: "run_to_end run lossy what (extract_command fmt a t) f
      = run_to_end run' lossy what (extract_command fmt a t) f"
    and c: "run_to_end run lossy what (create_command r fmt a files) f
      = run_to_end run' lossy what (create_command r fmt a files) f"
    and l: "run_to_end run lossy what (archive_list_command fmt a) f
      = run_to_end run' lossy what (archive_list_command fmt a) f" for what fmt a t r files f
    using archive_programs(1) [of fmt a t] archive_programs(2) [of r fmt a files]
      archive_programs(3) [of fmt a] by fastforce+
  show ?thesis
    unfolding archive_tool_def action_extract_def action_create_def action_list_def e c l ..
qed

text \<open>What an archive is made with takes it apart again: the letters of the compression agree.\<close>

lemma tar_flag_letters: "tl (tar_flag a fmt) = tl (tar_flag b fmt)" "hd (tar_flag a fmt) = a"
  by (simp_all add: tar_flag_def)

text \<open>A query runs at most half a minute, and never with more rows than five hundred unless it speaks of
  a limit itself, be it in a name.\<close>

lemma row_limit_bound: "row_limit p \<le> 500"
  by (simp add: row_limit_def max_rows_def)

lemma query_is_limited:
  assumes "\<not> contains (to_lowercase (dq_query p)) ''limit''"
  shows "limited_query (dq_query p) (row_limit p) = trim_semicolons (dq_query p) @ '' LIMIT '' @ show_nat (row_limit p)
    \<and> row_limit p \<le> 500"
  using assms row_limit_bound by (simp add: limited_query_def)

lemma name_is_taken_for_limit: "limited_query ''SELECT speed_limit FROM t'' 5 = ''SELECT speed_limit FROM t''"
  by code_simp

theorem db_tool_starts_clients:
  assumes "\<And>cmd f. tc_program cmd \<in> {''sqlite3'', ''psql''} \<Longrightarrow> run (Some 30) cmd f = run' (Some 30) cmd f"
  shows "db_query_tool run lossy count serde root v fs = db_query_tool run' lossy count serde root v fs"
proof -
  have "run_query run lossy m n (sqlite_command path q k) f = run_query run' lossy m n (sqlite_command path q k) f"
    and "run_query run lossy m n (postgres_command conn q k) f
      = run_query run' lossy m n (postgres_command conn q k) f" for m n path conn q k f
    using assms by (simp_all add: run_query_def sqlite_command_def postgres_command_def command_of_def
        query_timeout_secs_def)
  note same = this
  show ?thesis
    unfolding db_query_tool_def db_result_def query_sqlite_def query_postgres_def same ..
qed

theorem docker_tool_starts_docker:
  assumes "\<And>args f. hd args \<in> {''ps'', ''logs'', ''start'', ''stop'', ''restart'', ''images'', ''inspect''}
    \<Longrightarrow> run None (docker_command args) f = run' None (docker_command args) f"
  shows "docker_tool run lossy parse serde v fs = docker_tool run' lossy parse serde v fs"
proof -
  have r: "run_docker run lossy (a # args) f = run_docker run' lossy (a # args) f"
    if "a \<in> {''ps'', ''logs'', ''start'', ''stop'', ''restart'', ''images'', ''inspect''}" for a args f
    using assms [of "a # args" f] that by (simp add: run_docker_def)
  have ps: "run_docker run lossy (ps_args form e) f = run_docker run' lossy (ps_args form e) f" for form e f
    by (simp add: ps_args_def r)
  have "action_ps run lossy parse e f = action_ps run' lossy parse e f" for e f
    unfolding action_ps_def ps ..
  moreover have "action_logs run lossy c n f = action_logs run' lossy c n f"
    and "action_images run lossy f = action_images run' lossy f"
    and "action_inspect run lossy parse c f = action_inspect run' lossy parse c f" for c n f
    by (simp_all add: action_logs_def action_images_def action_inspect_def r)
  moreover have "action_lifecycle run lossy a c f = action_lifecycle run' lossy a c f"
    if "a \<in> {''start'', ''stop'', ''restart''}" for a c f
    using that by (auto simp: action_lifecycle_def r)
  ultimately show ?thesis
    by (auto simp: docker_tool_def Let_def split: sum.split option.split)
qed

text \<open>Asking changes nothing that the programs themselves do not change.\<close>

lemma listing_leaves_files:
  assumes "\<And>t cmd f. snd (run t cmd f) = f"
  shows "snd (action_list run lossy root p fs) = fs"
proof -
  have "snd (run None (archive_list_command (archive_format p) (path_join root (ap_path p))) fs) = fs"
    using assms by blast
  then show ?thesis
    by (auto simp: action_list_def run_to_end_def Let_def split: prod.splits command_end.splits sum.splits if_splits)
qed

subsection \<open>Git for the model\<close>

text \<open>Here the actions may write to the repository of the project.\<close>

record git_params =
  gp_action :: string
  gp_message :: "string option"
  gp_files :: "string list option"
  gp_branch :: "string option"
  gp_remote :: "string option"
  gp_force :: bool

definition git_command :: "string \<Rightarrow> string list \<Rightarrow> tool_command" where
  "git_command root args = (command_of ''git'' args)\<lparr>tc_dir := Some root\<rparr>"

definition ops_run_git ::
  "command_runner \<Rightarrow> (string \<Rightarrow> string) \<Rightarrow> string \<Rightarrow> string list \<Rightarrow> file_system
    \<Rightarrow> (command_error + int \<times> string \<times> string) \<times> file_system"
where
  "ops_run_git run lossy root args fs =
     (case run None (git_command root args) fs of
        (Ended code out err, fs') \<Rightarrow>
          (Inr (case code of Some c \<Rightarrow> c | None \<Rightarrow> - 1, lossy out, lossy err), fs')
      | (NotStarted e, fs') \<Rightarrow> (Inl (Failed (''Failed to spawn git: '' @ e)), fs')
      | (TimedOut, fs') \<Rightarrow> (Inl (Failed ''Failed to spawn git: ''), fs'))"

definition git_answer :: "string \<Rightarrow> (string \<times> json) list \<Rightarrow> json" where
  "git_answer shown details = answer_with shown ''git'' details"

definition ok_or_failed :: "bool \<Rightarrow> string" where
  "ok_or_failed b = (if b then ''OK'' else ''FAILED'')"

definition add_args :: "git_params \<Rightarrow> string list" where
  "add_args p =
     (case gp_files p of Some (f # fs) \<Rightarrow> ''add'' # f # fs | _ \<Rightarrow> [''add'', ''-u''])"

definition add_name :: "git_params \<Rightarrow> string" where
  "add_name p = (case gp_files p of Some (_ # _) \<Rightarrow> ''git add failed: '' | _ \<Rightarrow> ''git add -u failed: '')"

definition action_commit ::
  "command_runner \<Rightarrow> (string \<Rightarrow> string) \<Rightarrow> string \<Rightarrow> git_params \<Rightarrow> file_system \<Rightarrow> (command_error + json) \<times> file_system"
where
  "action_commit run lossy root p fs =
     (case gp_message p of
        None \<Rightarrow> (Inl (BadRequest (''commit requires '' @ quoted ''message'')), fs)
      | Some msg \<Rightarrow>
          (case ops_run_git run lossy root (add_args p) fs of
             (Inl e, fs1) \<Rightarrow> (Inl e, fs1)
           | (Inr (code, _, err), fs1) \<Rightarrow>
               (if code \<noteq> 0 then
                  (Inr (git_answer (add_name p @ trim err)
                     [(''action'', JStr ''commit''), (''success'', JBool False), (''error'', JStr (trim err))]), fs1)
                else case ops_run_git run lossy root [''commit'', ''-m'', msg] fs1 of
                       (Inl e, fs2) \<Rightarrow> (Inl e, fs2)
                     | (Inr (c, out, err'), fs2) \<Rightarrow>
                         (let t = trim (if c = 0 then out else err')
                          in (Inr (git_answer
                                (''git commit '' @ dash @ '' '' @ ok_or_failed (c = 0) @ '' | '' @ t)
                                [(''action'', JStr ''commit''), (''success'', JBool (c = 0)),
                                 (''exit_code'', JInt c), (''message'', JStr msg), (''output'', JStr t)]), fs2)))))"

definition push_args :: "git_params \<Rightarrow> string list" where
  "push_args p =
     [''push'', case gp_remote p of Some r \<Rightarrow> r | None \<Rightarrow> ''origin'']
     @ (case gp_branch p of Some b \<Rightarrow> [b] | None \<Rightarrow> [])
     @ (if gp_force p then [''--force-with-lease''] else [])"

definition action_push ::
  "command_runner \<Rightarrow> (string \<Rightarrow> string) \<Rightarrow> string \<Rightarrow> git_params \<Rightarrow> file_system \<Rightarrow> (command_error + json) \<times> file_system"
where
  "action_push run lossy root p fs =
     (case ops_run_git run lossy root (push_args p) fs of
        (Inl e, fs1) \<Rightarrow> (Inl e, fs1)
      | (Inr (c, out, err), fs1) \<Rightarrow>
          (let t = trim (out @ err)
           in (Inr (git_answer (''git push '' @ dash @ '' '' @ ok_or_failed (c = 0) @ '' | '' @ t)
                [(''action'', JStr ''push''), (''success'', JBool (c = 0)), (''exit_code'', JInt c),
                 (''remote'', JStr (case gp_remote p of Some r \<Rightarrow> r | None \<Rightarrow> ''origin'')),
                 (''output'', JStr t)]), fs1)))"

definition action_branch ::
  "command_runner \<Rightarrow> (string \<Rightarrow> string) \<Rightarrow> string \<Rightarrow> git_params \<Rightarrow> file_system \<Rightarrow> (command_error + json) \<times> file_system"
where
  "action_branch run lossy root p fs =
     (case gp_branch p of
        None \<Rightarrow> (Inl (BadRequest (''branch requires '' @ quoted ''branch'' @ '' name'')), fs)
      | Some b \<Rightarrow>
          (case ops_run_git run lossy root [''checkout'', ''-b'', b] fs of
             (Inl e, fs1) \<Rightarrow> (Inl e, fs1)
           | (Inr (code, _, _), fs1) \<Rightarrow>
               (if code = 0 then
                  (Inr (git_answer (''git branch '' @ dash @ '' created & switched to '' @ quoted b)
                     [(''action'', JStr ''branch''), (''success'', JBool True), (''branch'', JStr b)]), fs1)
                else case ops_run_git run lossy root [''checkout'', b] fs1 of
                       (Inl e, fs2) \<Rightarrow> (Inl e, fs2)
                     | (Inr (c, out, err), fs2) \<Rightarrow>
                         (let t = trim (if c = 0 then out else err)
                          in (Inr (git_answer
                                (''git branch '' @ dash @ '' '' @ (if c = 0 then ''switched'' else ''FAILED'')
                                  @ '' | '' @ t)
                                [(''action'', JStr ''branch''), (''success'', JBool (c = 0)),
                                 (''branch'', JStr b), (''output'', JStr t)]), fs2)))))"

definition stash_sub :: "git_params \<Rightarrow> string" where
  "stash_sub p = (case gp_message p of Some m \<Rightarrow> m | None \<Rightarrow> ''push'')"

definition stash_args :: "git_params \<Rightarrow> string list" where
  "stash_args p =
     [''stash'', if stash_sub p \<in> {''pop'', ''list'', ''drop''} then stash_sub p else ''push'']"

definition action_stash ::
  "command_runner \<Rightarrow> (string \<Rightarrow> string) \<Rightarrow> string \<Rightarrow> git_params \<Rightarrow> file_system \<Rightarrow> (command_error + json) \<times> file_system"
where
  "action_stash run lossy root p fs =
     (case ops_run_git run lossy root (stash_args p) fs of
        (Inl e, fs1) \<Rightarrow> (Inl e, fs1)
      | (Inr (c, out, err), fs1) \<Rightarrow>
          (let t = trim (if out = [] then err else out)
           in (Inr (git_answer
                 (''git stash '' @ stash_sub p @ '' '' @ dash @ '' '' @ ok_or_failed (c = 0) @ '' | '' @ t)
                 [(''action'', JStr ''stash''), (''sub'', JStr (stash_sub p)),
                  (''success'', JBool (c = 0)), (''output'', JStr t)]), fs1)))"

definition checkout_target :: "git_params \<Rightarrow> string option" where
  "checkout_target p =
     or_else (gp_branch p) (case gp_files p of Some (f # _) \<Rightarrow> Some f | _ \<Rightarrow> None)"

definition action_checkout ::
  "command_runner \<Rightarrow> (string \<Rightarrow> string) \<Rightarrow> string \<Rightarrow> git_params \<Rightarrow> file_system \<Rightarrow> (command_error + json) \<times> file_system"
where
  "action_checkout run lossy root p fs =
     (case checkout_target p of
        None \<Rightarrow> (Inl (BadRequest (''checkout requires '' @ quoted ''branch'' @ '' or '' @ quoted ''files'')), fs)
      | Some target \<Rightarrow>
          (case ops_run_git run lossy root [''checkout'', target] fs of
             (Inl e, fs1) \<Rightarrow> (Inl e, fs1)
           | (Inr (c, out, err), fs1) \<Rightarrow>
               (let t = trim (out @ err)
                in (Inr (git_answer
                      (''git checkout '' @ target @ '' '' @ dash @ '' '' @ ok_or_failed (c = 0) @ '' | '' @ t)
                      [(''action'', JStr ''checkout''), (''success'', JBool (c = 0)),
                       (''target'', JStr target), (''output'', JStr t)]), fs1))))"

definition action_status ::
  "command_runner \<Rightarrow> (string \<Rightarrow> string) \<Rightarrow> string \<Rightarrow> file_system \<Rightarrow> (command_error + json) \<times> file_system"
where
  "action_status run lossy root fs =
     (case ops_run_git run lossy root [''status'', ''--short'', ''--branch''] fs of
        (Inl e, fs1) \<Rightarrow> (Inl e, fs1)
      | (Inr (_, out, _), fs1) \<Rightarrow>
          (Inr (git_answer (''git status:'' @ nl # trim out)
             [(''action'', JStr ''status''), (''success'', JBool True), (''output'', JStr (trim out))]), fs1))"

definition git_tool ::
  "command_runner \<Rightarrow> (string \<Rightarrow> string) \<Rightarrow> (json \<Rightarrow> string + git_params) \<Rightarrow> string \<Rightarrow> json \<Rightarrow> file_system
    \<Rightarrow> (command_error + json) \<times> file_system"
where
  "git_tool run lossy serde root v fs =
     (case serde v of
        Inl e \<Rightarrow> (Inl (BadRequest (''Invalid params: '' @ e)), fs)
      | Inr p \<Rightarrow>
          (let act = gp_action p
           in if act = ''commit'' then action_commit run lossy root p fs
              else if act = ''push'' then action_push run lossy root p fs
              else if act = ''branch'' then action_branch run lossy root p fs
              else if act = ''stash'' then action_stash run lossy root p fs
              else if act = ''checkout'' then action_checkout run lossy root p fs
              else if act = ''status'' then action_status run lossy root fs
              else (Inl (BadRequest (''Unknown action '' @ quoted act
                     @ ''. Valid: commit, push, branch, stash, checkout, status'')), fs)))"

text \<open>A commit that git refuses to prepare is not made: with a failing \<open>add\<close> the run is the same for
  every git that agrees on \<open>add\<close>.\<close>

lemma failed_add_stops_commit:
  assumes "ops_run_git run lossy root (add_args p) fs = (Inr (code, out, err), fs1)" and "code \<noteq> 0"
    and "gp_message p = Some m"
  shows "snd (action_commit run lossy root p fs) = fs1"
    and "\<exists>v. fst (action_commit run lossy root p fs) = Inr v"
  using assms by (simp_all add: action_commit_def)

text \<open>A push overwrites the other side only when asked to, and then with a lease.\<close>

lemma push_force: "''--force-with-lease'' \<in> set (push_args p) \<Longrightarrow> gp_branch p \<noteq> Some ''--force-with-lease''
    \<Longrightarrow> gp_remote p \<noteq> Some ''--force-with-lease'' \<Longrightarrow> gp_force p"
  by (auto simp: push_args_def split: option.splits if_splits)

text \<open>The status is answered as a success whatever git says.\<close>

lemma status_always_succeeds:
  assumes "run None (git_command root [''status'', ''--short'', ''--branch'']) fs = (Ended code out err, fs1)"
  shows "\<exists>t. fst (action_status run lossy root fs)
    = Inr (git_answer t [(''action'', JStr ''status''), (''success'', JBool True), (''output'', JStr (trim (lossy out)))])"
  using assms by (auto simp: action_status_def ops_run_git_def)

end
