(* ===== verification/Worker_Bridge.thy ===== *)
theory Worker_Bridge
  imports Daemon_Backend
begin

text \<open>
  The worker's side of a task (crates/mcp-tools/src/worker.rs): the server of tools registers with
  the daemon, keeps the one event that is open, asks the daemon for more, and reports the end of a
  task. The task loop of heartbeats and the calls of the client interleave; both handle messages the
  same way.
\<close>

record assigned_task =
  wt_task_id :: string
  wt_goal :: "string option"
  wt_timeout_secs :: "nat option"
  wt_watch_patterns :: "string list"
  wt_context :: "json option"
  wt_working_dir :: "string option"
  wt_absolute_working_dir :: string
  wt_received_at :: string
  wt_raw_task :: json

datatype worker_event =
    Assignment assigned_task
  | CancelledEvent string "string option"
  | TimeoutEvent string

record worker_bridge =
  wb_client :: devit_client
  wb_sandbox_root :: string
  wb_worker_id :: string
  wb_event :: "worker_event option"

subsection \<open>Connecting\<close>

definition bridge_secret :: "(string, string) hmap \<Rightarrow> string option \<Rightarrow> string" where
  "bridge_secret env given =
     (case or_else given (hm_get env ''DEVIT_SECRET'') of Some s \<Rightarrow> s | None \<Rightarrow> ''change-me-in-production'')"

definition bridge_version :: "(string, string) hmap \<Rightarrow> string \<Rightarrow> string" where
  "bridge_version env package =
     (case hm_get env ''DEVIT_CLIENT_VERSION'' of
        Some v \<Rightarrow> (if trim v \<noteq> [] then v else ''mcp-server/'' @ package)
      | None \<Rightarrow> ''mcp-server/'' @ package)"

definition auto_start_allowed :: "(string, string) hmap \<Rightarrow> bool" where
  "auto_start_allowed env \<longleftrightarrow> hm_get env ''DEVIT_NO_AUTO_START'' = None \<and> hm_get env ''CI'' = None"

text \<open>\<open>default_ms\<close> is the default of the configuration.\<close>

definition start_timeout :: "nat \<Rightarrow> (string, string) hmap \<Rightarrow> nat" where
  "start_timeout default_ms env =
     (case Option.bind (hm_get env ''DEVIT_DAEMON_START_TIMEOUT_MS'') parse_u64 of
        Some n \<Rightarrow> n | None \<Rightarrow> default_ms)"

definition version_accepted :: "(string, string) hmap \<Rightarrow> devit_client \<Rightarrow> string + unit" where
  "version_accepted env c =
     (case (hm_get env ''DEVIT_EXPECTED_DAEMON_VERSION'', dv_daemon_version c) of
        (Some expected, Some actual) \<Rightarrow>
          (if actual = expected then Inr ()
           else Inl (''daemon version mismatch: expected '' @ [CHR 0x27] @ expected @ [CHR 0x27]
                  @ '', got '' @ [CHR 0x27] @ actual @ [CHR 0x27]))
      | _ \<Rightarrow> Inr ())"

text \<open>\<open>ensure\<close> makes sure that a daemon runs, with a time in milliseconds; it ends with an error or not.\<close>

definition bridge_connect ::
  "wire_crates \<Rightarrow> 'w channel \<Rightarrow> (nat \<Rightarrow> 'w \<Rightarrow> (string + unit) \<times> 'w) \<Rightarrow> nat \<Rightarrow> (string, string) hmap
     \<Rightarrow> string \<Rightarrow> client_reading \<Rightarrow> nat \<Rightarrow> string \<Rightarrow> string \<Rightarrow> string \<Rightarrow> string option \<Rightarrow> 'w
     \<Rightarrow> (client_failure + worker_bridge) \<times> 'w"
where
  "bridge_connect lib ch ensure default_ms env package r pid root socket ident given w =
     (case (if auto_start_allowed env then ensure (start_timeout default_ms env) w else (Inr (), w)) of
        (Inl e, w1) \<Rightarrow> (Inl (ClientErr e), w1)
      | (Inr _, w1) \<Rightarrow>
          (case connect_with_capabilities lib ch r pid (hm_get env ''USE_COMPACT'' = Some ''1'') socket ident
                  (bridge_secret env given) (Some (bridge_version env package)) [] w1 of
             (Inl e, w2) \<Rightarrow> (Inl e, w2)
           | (Inr c, w2) \<Rightarrow>
               (case version_accepted env c of
                  Inl e \<Rightarrow> (Inl (ClientErr e), w2)
                | Inr _ \<Rightarrow>
                    (Inr \<lparr>wb_client = c, wb_sandbox_root = root, wb_worker_id = ident, wb_event = None\<rparr>, w2))))"

subsection \<open>Messages\<close>

definition build_task :: "string \<Rightarrow> string \<Rightarrow> msg \<Rightarrow> string + assigned_task" where
  "build_task root now_text m =
     (case Option.bind (jget (payload m) ''task'') as_object of
        None \<Rightarrow> Inl ''Invalid task payload received from daemon''
      | Some members \<Rightarrow>
          (let t = JObj members;
               dir = (case get_str t ''working_dir'' of
                  None \<Rightarrow> None
                | Some d \<Rightarrow> (if trim d = [] then None else Some (trim d)))
           in Inr \<lparr>wt_task_id = msg_id m, wt_goal = get_str t ''goal'', wt_timeout_secs = get_u64 t ''timeout'',
                wt_watch_patterns =
                  (case Option.bind (jget t ''watch_patterns'') as_array of
                     None \<Rightarrow> [] | Some xs \<Rightarrow> List.map_filter as_str xs),
                wt_context = jget t ''context'', wt_working_dir = dir,
                wt_absolute_working_dir = (case dir of None \<Rightarrow> root | Some d \<Rightarrow> path_join root d),
                wt_received_at = now_text, wt_raw_task = t\<rparr>))"

definition worker_delegate :: "string \<Rightarrow> msg \<Rightarrow> worker_bridge \<Rightarrow> string + worker_bridge" where
  "worker_delegate now_text m b =
     (if m_to m \<noteq> wb_worker_id b then Inr b
      else case build_task (wb_sandbox_root b) now_text m of
             Inl e \<Rightarrow> Inl e
           | Inr t \<Rightarrow> Inr (b\<lparr>wb_event := Some (Assignment t)\<rparr>))"

definition worker_notified :: "msg \<Rightarrow> worker_bridge \<Rightarrow> worker_bridge" where
  "worker_notified m b =
     (let tid = (case get_str (payload m) ''task_id'' of Some t \<Rightarrow> t | None \<Rightarrow> []);
          status = (case get_str (payload m) ''status'' of Some s \<Rightarrow> s | None \<Rightarrow> ''unknown'')
      in if status = ''cancelled'' then
           b\<lparr>wb_event := Some (CancelledEvent tid
               (Option.bind (jget (payload m) ''artifacts'') (\<lambda>a. get_str a ''summary'')))\<rparr>
         else if status = ''timeout'' then b\<lparr>wb_event := Some (TimeoutEvent tid)\<rparr>
         else b)"

definition process_message :: "string \<Rightarrow> msg \<Rightarrow> worker_bridge \<Rightarrow> string + worker_bridge" where
  "process_message now_text m b =
     (if msg_type m = ''DELEGATE'' then worker_delegate now_text m b
      else if msg_type m = ''NOTIFY'' then Inr (worker_notified m b)
      else Inr b)"

text \<open>One turn of the heartbeat loop: errors are logged, and the loop goes on.\<close>

definition bridge_heartbeat ::
  "wire_crates \<Rightarrow> 'w channel \<Rightarrow> client_reading \<Rightarrow> string \<Rightarrow> worker_bridge \<Rightarrow> 'w \<Rightarrow> worker_bridge \<times> 'w"
where
  "bridge_heartbeat lib ch r now_text b w =
     (case client_heartbeat lib ch r (wb_client b) w of
        (Inr (Some m), w') \<Rightarrow>
          (case process_message now_text m b of Inl _ \<Rightarrow> (b, w') | Inr b' \<Rightarrow> (b', w'))
      | (_, w') \<Rightarrow> (b, w'))"

subsection \<open>The open event\<close>

text \<open>An assignment stays, anything else is taken.\<close>

definition snapshot_event :: "worker_bridge \<Rightarrow> worker_event option \<times> worker_bridge" where
  "snapshot_event b =
     (case wb_event b of
        None \<Rightarrow> (None, b)
      | Some (Assignment t) \<Rightarrow> (Some (Assignment t), b)
      | Some e \<Rightarrow> (Some e, b\<lparr>wb_event := None\<rparr>))"

text \<open>One question to the daemon: what the client reads for it, the time in milliseconds after it, and the
  time that a task found then shows.\<close>

record poll_round =
  pr_reading :: client_reading
  pr_ms :: nat
  pr_text :: string

datatype poll_end = Found worker_event | NothingYet | PollError string | PollPanic string

text \<open>The loop asks until an event is there, an error comes or the time is up; without waiting it asks
  once. \<open>None\<close>: the rounds given were not enough.\<close>

fun bridge_polls ::
  "wire_crates \<Rightarrow> 'w channel \<Rightarrow> nat option \<Rightarrow> poll_round list \<Rightarrow> worker_bridge \<Rightarrow> 'w
     \<Rightarrow> (poll_end \<times> worker_bridge \<times> 'w) option"
where
  "bridge_polls lib ch deadline [] b w = None"
| "bridge_polls lib ch deadline (p # ps) b w =
     (let go_on = (\<lambda>b' w'. case deadline of
            None \<Rightarrow> Some (NothingYet, b', w')
          | Some limit \<Rightarrow>
              (if pr_ms p < limit then bridge_polls lib ch deadline ps b' w'
               else Some (NothingYet, b', w')))
      in case client_poll lib ch (pr_reading p) (wb_client b) w of
           (Inl (ClientErr e), w') \<Rightarrow> Some (PollError (''Unable to retrieve tasks from daemon: '' @ e), b, w')
         | (Inl (ClientPanic e), w') \<Rightarrow> Some (PollPanic e, b, w')
         | (Inr None, w') \<Rightarrow> go_on b w'
         | (Inr (Some m), w') \<Rightarrow>
             (case process_message (pr_text p) m b of
                Inl e \<Rightarrow> Some (PollError e, b, w')
              | Inr b1 \<Rightarrow>
                  (case snapshot_event b1 of
                     (Some e, b2) \<Rightarrow> Some (Found e, b2, w')
                   | (None, b2) \<Rightarrow> go_on b2 w')))"

definition poll_wait_ms :: nat where
  "poll_wait_ms = 3000"

definition poll_event ::
  "wire_crates \<Rightarrow> 'w channel \<Rightarrow> bool \<Rightarrow> nat \<Rightarrow> poll_round list \<Rightarrow> worker_bridge \<Rightarrow> 'w
     \<Rightarrow> (poll_end \<times> worker_bridge \<times> 'w) option"
where
  "poll_event lib ch wait start ps b w =
     (case snapshot_event b of
        (Some e, b') \<Rightarrow> Some (Found e, b', w)
      | (None, b') \<Rightarrow>
          bridge_polls lib ch (if wait then Some (start + poll_wait_ms) else None) ps b' w)"

subsection \<open>Reports\<close>

definition is_terminal_status :: "string \<Rightarrow> bool" where
  "is_terminal_status st = (st \<in> {''completed'', ''failed'', ''cancelled''})"

definition worker_artifacts :: "string \<Rightarrow> string \<Rightarrow> json option \<Rightarrow> json option \<Rightarrow> json" where
  "worker_artifacts now_text summary details evidence =
     JObj ([(''summary'', JStr summary)]
       @ (case details of None \<Rightarrow> [] | Some d \<Rightarrow> [(''details'', d)])
       @ (case evidence of None \<Rightarrow> [] | Some e \<Rightarrow> [(''evidence'', e)])
       @ [(''reported_at'', JStr now_text)])"

definition task_done :: "string \<Rightarrow> string \<Rightarrow> worker_bridge \<Rightarrow> worker_bridge" where
  "task_done tid st b =
     (if is_terminal_status st then
        (case wb_event b of
           Some (Assignment t) \<Rightarrow> (if wt_task_id t = tid then b\<lparr>wb_event := None\<rparr> else b)
         | _ \<Rightarrow> b)
      else b)"

definition worker_notify ::
  "wire_crates \<Rightarrow> 'w channel \<Rightarrow> client_reading \<Rightarrow> string \<Rightarrow> string \<Rightarrow> string \<Rightarrow> string \<Rightarrow> json option
     \<Rightarrow> json option \<Rightarrow> worker_bridge \<Rightarrow> 'w \<Rightarrow> (client_failure + unit) \<times> worker_bridge \<times> 'w"
where
  "worker_notify lib ch r now_text tid st summary details evidence b w =
     (case client_notify lib ch r (wb_client b) ''orchestrator'' tid st
             (worker_artifacts now_text summary details evidence) None w of
        (Inl (ClientErr e), w') \<Rightarrow> (Inl (ClientErr (''Unable to send notification: '' @ e)), b, w')
      | (Inl e, w') \<Rightarrow> (Inl e, b, w')
      | (Inr _, w') \<Rightarrow> (Inr (), task_done tid st b, w'))"

subsection \<open>The answers of the tool\<close>

definition poll_text_new :: string where
  "poll_text_new = [CHR 0xE2, CHR 0x9C, CHR 0x85] @ '' New task assigned by daemon''"

definition poll_text_idle :: string where
  "poll_text_idle = [CHR 0xF0, CHR 0x9F, CHR 0x93, CHR 0xAD] @ '' No task available''"

definition text_and_json :: "string \<Rightarrow> json \<Rightarrow> json" where
  "text_and_json t v =
     JObj [(''content'', JArr
       [JObj [(''type'', JStr ''text''), (''text'', JStr t)],
        JObj [(''type'', JStr ''json''), (''json'', v)]])]"

fun event_answer :: "worker_event option \<Rightarrow> json" where
  "event_answer (Some (Assignment t)) =
     text_and_json poll_text_new
       (JObj [(''status'', JStr ''assigned''), (''task_id'', JStr (wt_task_id t)),
              (''goal'', jstr_opt (wt_goal t)),
              (''timeout_secs'', jopt (map_option (\<lambda>n. JInt (int n)) (wt_timeout_secs t))),
              (''watch_patterns'', JArr (map JStr (wt_watch_patterns t))),
              (''working_dir'', jstr_opt (wt_working_dir t)),
              (''absolute_working_dir'', JStr (wt_absolute_working_dir t)),
              (''received_at'', JStr (wt_received_at t)), (''context'', jopt (wt_context t)),
              (''raw_task'', wt_raw_task t)])"
| "event_answer (Some (CancelledEvent tid reason)) =
     text_and_json
       ([CHR 0xE2, CHR 0x9A, CHR 0xA0, CHR 0xEF, CHR 0xB8, CHR 0x8F] @ '' Task '' @ tid
         @ '' cancelled by orchestrator'' @ (case reason of None \<Rightarrow> [] | Some r \<Rightarrow> '' : '' @ r))
       (JObj [(''status'', JStr ''cancelled''), (''task_id'', JStr tid), (''reason'', jstr_opt reason)])"
| "event_answer (Some (TimeoutEvent tid)) =
     text_and_json
       ([CHR 0xE2, CHR 0x8F, CHR 0xB1, CHR 0xEF, CHR 0xB8, CHR 0x8F] @ '' Task '' @ tid
         @ '' timed out at orchestrator'')
       (JObj [(''status'', JStr ''timeout''), (''task_id'', JStr tid)])"
| "event_answer None =
     JObj [(''content'', JArr [JObj [(''type'', JStr ''text''), (''text'', JStr poll_text_idle)]]),
           (''metadata'', JObj [(''status'', JStr ''idle'')])]"

definition poll_tasks_tool ::
  "wire_crates \<Rightarrow> 'w channel \<Rightarrow> json \<Rightarrow> nat \<Rightarrow> poll_round list \<Rightarrow> worker_bridge \<Rightarrow> 'w
     \<Rightarrow> ((client_failure + json) \<times> worker_bridge \<times> 'w) option"
where
  "poll_tasks_tool lib ch params start ps b w =
     (let wait = (case Option.bind (jget params ''wait'') as_bool of Some v \<Rightarrow> v | None \<Rightarrow> False)
      in map_option
           (\<lambda>(e, b', w').
              (case e of
                 Found ev \<Rightarrow> Inr (event_answer (Some ev))
               | NothingYet \<Rightarrow> Inr (event_answer None)
               | PollError t \<Rightarrow> Inl (ClientErr t)
               | PollPanic t \<Rightarrow> Inl (ClientPanic t), b', w'))
           (poll_event lib ch wait start ps b w))"

subsection \<open>Asking ends\<close>

lemma bridge_polls_end:
  "p \<in> set ps \<Longrightarrow> (case deadline of None \<Rightarrow> True | Some limit \<Rightarrow> limit \<le> pr_ms p)
    \<Longrightarrow> bridge_polls lib ch deadline ps b w \<noteq> None"
proof (induction ps arbitrary: b w)
  case Nil
  then show ?case by simp
next
  case (Cons q qs)
  show ?case
  proof (cases deadline)
    case None
    then show ?thesis
      by (auto simp: Let_def split: prod.split sum.split client_failure.split option.split)
  next
    case (Some limit)
    then have "pr_ms q < limit \<Longrightarrow> p \<in> set qs" using Cons.prems by auto
    then have "pr_ms q < limit \<Longrightarrow> bridge_polls lib ch deadline qs b' w' \<noteq> None" for b' w'
      using Cons.IH Cons.prems(2) by blast
    then show ?thesis
      using Some by (auto simp: Let_def split: prod.split sum.split client_failure.split option.split)
  qed
qed

text \<open>Three hundred milliseconds pass between two questions at least, so eleven are always enough.\<close>

theorem polling_ends:
  assumes "11 \<le> length ps" and "\<And>i. i < length ps \<Longrightarrow> start + 300 * i \<le> pr_ms (ps ! i)"
  shows "poll_event lib ch wait start ps b w \<noteq> None"
proof -
  have "ps ! 10 \<in> set ps" and "start + 3000 \<le> pr_ms (ps ! 10)"
    using assms(1) assms(2) [of 10] by auto
  then have "bridge_polls lib ch (if wait then Some (start + poll_wait_ms) else None) ps b' w \<noteq> None" for b'
    by (intro bridge_polls_end [of "ps ! 10"]) (auto simp: poll_wait_ms_def)
  then show ?thesis
    by (auto simp: poll_event_def split: prod.split option.split)
qed

subsection \<open>Where an assignment comes from\<close>

lemma send_message_verified:
  "send_message lib ch c m w = (Inr (Some r), w') \<Longrightarrow> client_verify lib r (dv_secret c)"
  by (auto simp: send_message_def read_reply_def Let_def
      split: option.splits sum.splits prod.splits channel_answer.splits if_splits)

lemma client_poll_verified:
  "client_poll lib ch r c w = (Inr (Some m), w') \<Longrightarrow> client_verify lib m (dv_secret c)"
  by (auto simp: client_poll_def request_def split: sum.splits dest: send_message_verified)

lemma process_message_same:
  "process_message t m b = Inr b' \<Longrightarrow> wb_client b' = wb_client b \<and> wb_worker_id b' = wb_worker_id b
    \<and> wb_sandbox_root b' = wb_sandbox_root b"
  by (auto simp: process_message_def worker_delegate_def worker_notified_def Let_def
      split: if_splits sum.splits)

lemma process_message_assigns:
  assumes "process_message t m b = Inr b'" and "wb_event b' = Some (Assignment k)" and "wb_event b = None"
  shows "msg_type m = ''DELEGATE'' \<and> m_to m = wb_worker_id b \<and> build_task (wb_sandbox_root b) t m = Inr k"
  using assms
  by (auto simp: process_message_def worker_delegate_def worker_notified_def Let_def
      split: if_splits sum.splits)

lemma snapshot_event_cases:
  "snapshot_event b = (e, b') \<Longrightarrow> e = wb_event b \<and> wb_client b' = wb_client b
    \<and> wb_worker_id b' = wb_worker_id b \<and> wb_sandbox_root b' = wb_sandbox_root b
    \<and> (e = None \<longrightarrow> b' = b)"
  by (auto simp: snapshot_event_def split: option.splits worker_event.splits)

lemma bridge_polls_assignment:
  "bridge_polls lib ch deadline ps b w = Some (Found (Assignment k), b', w') \<Longrightarrow> wb_event b = None
    \<Longrightarrow> \<exists>m t. client_verify lib m (dv_secret (wb_client b)) \<and> msg_type m = ''DELEGATE''
      \<and> m_to m = wb_worker_id b \<and> build_task (wb_sandbox_root b) t m = Inr k"
proof (induction ps arbitrary: b w)
  case Nil
  then show ?case by simp
next
  case (Cons p ps)
  obtain r w1 where r: "client_poll lib ch (pr_reading p) (wb_client b) w = (r, w1)"
    by (cases "client_poll lib ch (pr_reading p) (wb_client b) w")
  show ?case
  proof (cases r)
    case (Inl e)
    then show ?thesis using Cons.prems r by (cases e) auto
  next
    case (Inr reply)
    show ?thesis
    proof (cases reply)
      case None
      then have "bridge_polls lib ch deadline ps b w1 = Some (Found (Assignment k), b', w')"
        using Cons.prems(1) r Inr by (auto split: option.splits if_splits)
      from Cons.IH [OF this Cons.prems(2)] show ?thesis .
    next
      case (Some m)
      from Cons.prems(1) r Inr Some obtain b1 where b1: "process_message (pr_text p) m b = Inr b1"
        by (auto split: sum.splits)
      have v: "client_verify lib m (dv_secret (wb_client b))"
        using client_poll_verified [of lib ch "pr_reading p" "wb_client b" w m w1] r Inr Some by simp
      obtain e b2 where s: "snapshot_event b1 = (e, b2)" by (cases "snapshot_event b1")
      show ?thesis
      proof (cases e)
        case None
        with snapshot_event_cases [OF s] have "wb_event b1 = None" "b2 = b1" by auto
        moreover from Cons.prems(1) r Inr Some b1 s None
        have "bridge_polls lib ch deadline ps b2 w1 = Some (Found (Assignment k), b', w')"
          by (auto split: option.splits if_splits)
        ultimately show ?thesis
          using Cons.IH [of b1] process_message_same [OF b1] by simp
      next
        case (Some ev)
        with Cons.prems(1) r Inr \<open>reply = Some m\<close> b1 s have "ev = Assignment k" by auto
        then have "wb_event b1 = Some (Assignment k)" using snapshot_event_cases [OF s] Some by simp
        from process_message_assigns [OF b1 this Cons.prems(2)] v show ?thesis by blast
      qed
    qed
  qed
qed

theorem found_assignment_is_signed:
  assumes "poll_event lib ch wait start ps b w = Some (Found (Assignment k), b', w')"
    and "wb_event b = None"
  shows "\<exists>m t. client_verify lib m (dv_secret (wb_client b)) \<and> msg_type m = ''DELEGATE''
    \<and> m_to m = wb_worker_id b \<and> build_task (wb_sandbox_root b) t m = Inr k"
proof -
  have "snapshot_event b = (None, b)" using assms(2) by (simp add: snapshot_event_def)
  then show ?thesis
    using assms bridge_polls_assignment [of lib ch _ ps b w k b' w'] by (simp add: poll_event_def)
qed

subsection \<open>The open event of a run\<close>

text \<open>What happens to the bridge: a message from the daemon, a question of the model, a report that
  reached the daemon.\<close>

datatype bridge_input = Arrives string msg | Asked | Reported string string

fun bridge_step :: "bridge_input \<Rightarrow> worker_bridge \<Rightarrow> worker_bridge" where
  "bridge_step (Arrives t m) b = (case process_message t m b of Inl _ \<Rightarrow> b | Inr b' \<Rightarrow> b')"
| "bridge_step Asked b = snd (snapshot_event b)"
| "bridge_step (Reported tid st) b = task_done tid st b"

text \<open>The input neither brings something new nor ends the task.\<close>

fun leaves_task :: "string \<Rightarrow> string \<Rightarrow> bridge_input \<Rightarrow> bool" where
  "leaves_task me tid (Arrives t m) =
     ((msg_type m = ''DELEGATE'' \<longrightarrow> m_to m \<noteq> me)
      \<and> (msg_type m = ''NOTIFY'' \<longrightarrow> get_str (payload m) ''status'' \<notin> {Some ''cancelled'', Some ''timeout''}))"
| "leaves_task me tid Asked = True"
| "leaves_task me tid (Reported k st) = (k = tid \<longrightarrow> \<not> is_terminal_status st)"

lemma step_keeps_worker: "wb_worker_id (bridge_step i b) = wb_worker_id b"
proof (cases i)
  case (Arrives t m)
  then show ?thesis
    using process_message_same [of t m b] by (cases "process_message t m b") simp_all
next
  case Asked
  then show ?thesis
    using snapshot_event_cases [of b "fst (snapshot_event b)" "snd (snapshot_event b)"] by simp
next
  case (Reported tid st)
  then show ?thesis
    by (cases "wb_event b") (simp_all add: task_done_def split: worker_event.split)
qed

lemma message_leaves_event:
  assumes "leaves_task (wb_worker_id b) tid (Arrives t m)"
  shows "process_message t m b = Inr b"
proof (cases "msg_type m = ''NOTIFY''")
  case True
  then have "get_str (payload m) ''status'' \<notin> {Some ''cancelled'', Some ''timeout''}"
    using assms by simp
  then show ?thesis
    using True
    by (cases "get_str (payload m) ''status''") (auto simp: process_message_def worker_notified_def Let_def)
next
  case False
  then show ?thesis
    using assms by (auto simp: process_message_def worker_delegate_def)
qed

lemma step_keeps_assignment:
  assumes "wb_event b = Some (Assignment k)" and "leaves_task (wb_worker_id b) (wt_task_id k) i"
  shows "wb_event (bridge_step i b) = Some (Assignment k)"
proof (cases i)
  case (Arrives t m)
  then show ?thesis
    using message_leaves_event [of b "wt_task_id k" t m] assms by (simp del: leaves_task.simps)
next
  case Asked
  then show ?thesis using assms(1) by (simp add: snapshot_event_def)
next
  case (Reported tid st)
  then show ?thesis using assms by (auto simp: task_done_def)
qed

text \<open>An assignment is shown as often as it is asked for, until it is reported ended or something new
  for this worker arrives.\<close>

theorem assignment_stays_open:
  "wb_event b = Some (Assignment k) \<Longrightarrow> \<forall>i \<in> set is. leaves_task (wb_worker_id b) (wt_task_id k) i
    \<Longrightarrow> fst (snapshot_event (fold bridge_step is b)) = Some (Assignment k)"
proof (induction "is" arbitrary: b)
  case Nil
  then show ?case by (simp add: snapshot_event_def)
next
  case (Cons i "is")
  then show ?case
    using step_keeps_assignment [of b k i] step_keeps_worker [of i b] by simp
qed

text \<open>The end of a task is shown once.\<close>

lemma ends_are_shown_once:
  assumes "wb_event b = Some e" and "\<forall>k. e \<noteq> Assignment k"
  shows "fst (snapshot_event b) = Some e \<and> fst (snapshot_event (snd (snapshot_event b))) = None"
  using assms by (cases e) (simp_all add: snapshot_event_def)

lemma reported_task_is_closed:
  "wb_event b = Some (Assignment k) \<Longrightarrow> is_terminal_status st
    \<Longrightarrow> wb_event (bridge_step (Reported (wt_task_id k) st) b) = None"
  by (simp add: task_done_def)

text \<open>The end of any task replaces the open assignment, also when it is the end of another task.\<close>

lemma other_end_hides_assignment:
  assumes "msg_type m = ''NOTIFY''" and "get_str (payload m) ''status'' = Some ''timeout''"
    and "get_str (payload m) ''task_id'' = Some other"
  shows "wb_event (bridge_step (Arrives t m) b) = Some (TimeoutEvent other)"
  using assms by (simp add: process_message_def worker_notified_def)

end
