(* ===== verification/Spec2Isabelle.thy ===== *)
theory Spec2Isabelle
  imports Prelude Rust_Str Std_Path Std_Fs Approval Policy Devit_Error Patch_Parser Atomic_Patcher
    Patch_Properties Patch_Roundtrip Patch_Safety Path_Security Patch_Classify Core_Engine
    Engine_Properties Json Task_Types Local_Backend Daemon_Journal Daemon_Messages Daemon_State
    Daemon_Handlers Daemon_Tasks Daemon_Invariant Daemon_Auth Daemon_Properties Daemon_Limits
    Worker_Config Worker_Executor Worker_Mcp Worker_Properties Daemon_Workers Task_Lifecycle
    Daemon_Client Daemon_Backend Client_Properties Backends Str_Search Tool_Calling Tool_Call_Properties Snapshot_Cache Snapshot_Ids
    Snapshot_Store Snapshot_Manager Snapshot_Restore Secure_Workspace Edit_Hunks
    Edit_Properties Std_Dir Core_Journal Journal_Properties Process_Paths Process_Exec Process_Registry
    Process_Properties File_Access File_Properties Output_Shaper Shell_Tool Shell_Properties
    Test_Runs Test_Properties File_Ops File_Ops_Properties Core_Config Config_Properties
    Git_Tools Precommit Cli_Tools Cli_Properties Shell_Policy Cli_Settings
    Merge_Assist Recipes Web_Fetch Sessions Command_Tools Worker_Bridge
begin

text \<open>
  DevIt is an assistant that lets language models work on a repository under rules. This
  development models the parts that decide and that change something; each theory opens with what
  it holds. Paths below are under src/.

  \<^bold>\<open>The parts and how they interact.\<close> A client sends a patch to the core engine
  (crates/cli/src/core/mod.rs). The engine parses it, asks the path checks and the policy, has the
  patcher apply it, commits, writes its journal and reverts after failed tests. It also takes and
  restores snapshots and keeps the client inside a workspace. Tasks for other workers go through
  the orchestration: a backend in the same process, or one that talks to the daemon (devitd) by
  signed lines over a socket. The daemon keeps tasks, leases, mail boxes and approvals, asks its own
  policy, starts subprocess workers and writes a chained journal. Around it stand the tools of the
  MCP server: reading and writing files, starting and stopping programs, shaping their output. A
  chat with a model is parsed for tool calls, and edits a model proposes are reviewed hunk by hunk.

  \<^bold>\<open>Which theory models what.\<close>

  \<^item> \<open>Prelude\<close>, \<open>Rust_Str\<close>, \<open>Str_Search\<close>, \<open>Std_Path\<close>, \<open>Std_Fs\<close>, \<open>Std_Dir\<close>, \<open>Json\<close>: what the sources use
    of Rust: results, hash maps (a locale with its laws, realised by association lists), text,
    decimal numbers, paths, a file system with links, and JSON values.
  \<^item> \<open>Approval\<close>, \<open>Policy\<close>, \<open>Devit_Error\<close>: approval levels (crates/common/src/lib.rs), the policy
    engine (cli/src/core/policy.rs; its levels share a locale), the errors (errors.rs).
  \<^item> \<open>Patch_Parser\<close>, \<open>Atomic_Patcher\<close>, \<open>Path_Security\<close>, \<open>Patch_Classify\<close>, \<open>Core_Engine\<close>: patch_parser.rs,
    atomic_patcher.rs, path_security.rs, patch.rs and the patch pipeline of mod.rs.
    \<open>Patch_Properties\<close>, \<open>Patch_Roundtrip\<close>, \<open>Patch_Safety\<close>, \<open>Engine_Properties\<close>: hunks are splices,
    applied as if at once; a printed diff is parsed back; only files of the work tree change, only
    behind the gate.
  \<^item> \<open>Snapshot_Cache\<close>, \<open>Snapshot_Store\<close>, \<open>Snapshot_Manager\<close>: snapshot.rs, in the order of the file;
    \<open>Snapshot_Ids\<close>, \<open>Snapshot_Restore\<close>: the cache is least-recently-used, identifiers validate only
    for the state they name, and a restored snapshot undoes edits.
  \<^item> \<open>Secure_Workspace\<close>: security/workspace.rs, with its confinement. \<open>Core_Journal\<close>,
    \<open>Journal_Properties\<close>: journal.rs and request_id.rs, with repeated keys, reading back, rotation.
  \<^item> \<open>Task_Types\<close>, \<open>Local_Backend\<close>, \<open>Task_Lifecycle\<close>: crates/orchestration/src/types.rs and local.rs,
    as a step relation that refines the life cycle of a task.
  \<^item> \<open>Daemon_Journal\<close>, \<open>Daemon_Messages\<close>, \<open>Daemon_State\<close>, \<open>Daemon_Handlers\<close>, \<open>Daemon_Tasks\<close>: devitd/src/journal.rs,
    compact.rs and policy.rs, and the state and handlers of main.rs. \<open>Daemon_Invariant\<close>, \<open>Daemon_Auth\<close>,
    \<open>Daemon_Properties\<close>, \<open>Daemon_Limits\<close>: the invariant of all runs, who may act, what the handlers
    do to a task, and limits.
  \<^item> \<open>Worker_Config\<close>, \<open>Worker_Executor\<close>, \<open>Worker_Mcp\<close>, \<open>Worker_Properties\<close>: worker_executor.rs.
    \<open>Daemon_Workers\<close>: the daemon together with the workers and connections it starts.
  \<^item> \<open>Daemon_Client\<close>, \<open>Daemon_Backend\<close>, \<open>Client_Properties\<close>: devitd-client/src and
    crates/orchestration/src/daemon.rs against the daemon itself. \<open>Backends\<close>: backend.rs, the
    interface of both backends as a locale, interpreted on each.
  \<^item> \<open>Tool_Calling\<close>, \<open>Tool_Call_Properties\<close>: crates/backends/core/src/tool_calling.rs. \<open>Edit_Hunks\<close>,
    \<open>Edit_Properties\<close>: crates/context-engine/src/diff/mod.rs and
    crates/studio/src/ipc/structured_edit.rs.
  \<^item> \<open>File_Access\<close>, \<open>File_Properties\<close>: file_read.rs and file_write.rs of crates/mcp-tools and
    crates/common/src/fs/safe_write.rs; the tool that reads stands in \<open>File_Ops\<close>, whose service it
    asks for the structured formats.
  \<^item> \<open>Process_Paths\<close>, \<open>Process_Exec\<close>, \<open>Process_Registry\<close>, \<open>Process_Properties\<close>: process_utils.rs and
    process_registry.rs of crates/common, exec.rs, kill.rs and ps.rs of crates/mcp-tools; the tools
    are proved against the interface of a stored registry, a locale interpreted on its file.
  \<^item> \<open>Output_Shaper\<close>, \<open>Shell_Tool\<close>, \<open>Shell_Properties\<close>: output_shaper.rs and shell.rs of
    crates/mcp-tools: what the program tool printed, in short, with the raw text in a file.
  \<^item> \<open>Test_Runs\<close>, \<open>Test_Properties\<close>: the test runs of mod.rs with the plans of sandbox.rs, which are
    confined and whose summary is read back. \<open>File_Ops\<close>, \<open>File_Ops_Properties\<close>: file_ops.rs and the answers of formats.rs, where
    a search is exact and a tree is counted.
  \<^item> \<open>Core_Config\<close>, \<open>Config_Properties\<close>: config.rs, with which source wins and what is read back.
    \<open>Git_Tools\<close>, \<open>Precommit\<close>, \<open>Cli_Tools\<close>, \<open>Cli_Properties\<close>: git.rs, commit_msg.rs, precommit.rs and
    the tools of main.rs, where a patch waits for its checks and its approval. \<open>Cli_Settings\<close>: the
    settings, delegations and test runs of main.rs.
  \<^item> \<open>Shell_Policy\<close>: crates/sandbox/src/lib.rs, which programs of a shell line may run. \<open>Merge_Assist\<close>:
    merge_assist.rs, conflicts, proposals and plans. \<open>Recipes\<close>: recipes.rs, runs of steps.
  \<^item> \<open>Web_Fetch\<close>: fetch_url.rs, net_utils.rs and limits.rs, which requests a fetch makes and what it
    delivers.
    \<open>Sessions\<close>: crates/common/src/session.rs, where a saved session is listed and found.
  \<^item> \<open>Command_Tools\<close>: archive.rs, db_query.rs, docker.rs and git_ops.rs, which start nothing but the
    programs they stand for. \<open>Worker_Bridge\<close>: worker.rs, the worker's side of a delegated task, whose
    assignments are signed and stay open until their end.

  \<^bold>\<open>How the code is read.\<close> A struct is a record with the prefix of its type on the fields, an enum
  a datatype; a function is a definition, a loop a recursion over what it walks through, and a
  block of a long function a definition of its own where it has a meaning. A handler takes its
  clock, fresh identifiers, and what it asks from outside as arguments and returns its answer with
  the new state. Errors are values of a sum, a panic is \<open>None\<close> or an error of its own. Text is UTF-8
  bytes. Unsigned counters are natural numbers; where a width matters (\<open>parse\<close>, casts, sums that
  wrap, limits in bytes) it is written out.

  \<^bold>\<open>Bounds.\<close> A path follows at most \<open>max_links\<close> = 40 links, the limit of the kernel; this is no fuel,
  the code fails there as well. Parsers recurse on what is left of the text. The poll loop of the
  client is a partial function; \<open>refresh_ends\<close> shows that it returns.

  \<^bold>\<open>What is a parameter.\<close> Code that is not in the repository: serde and TOML (their laws are named
  hypotheses), HMAC, base64, blake3, zlib, the standard hasher, \<open>path_clean\<close>, \<open>globset\<close>, \<open>similar\<close>,
  \<open>walkdir\<close>, strip-ansi, git, and the operating system behind processes and sockets. Every property
  that rests on such a law has a witness at a concrete parameter.

  \<^bold>\<open>What is not modelled, and why.\<close>

  \<^item> Of the system: permissions (but for the owner's bits of the files that a snapshot reads and
    writes), full disks and concurrent writers (a step sees one state of the
    files); texts of I/O errors; directories left behind when creating several fails half-way;
    modification times but as arguments; names and texts that are not UTF-8; upper and lower case
    beyond ASCII.
  \<^item> Of the program: a handler is one step, although the code lets go of its lock between sections
    of some handlers, and reads its clock once; the order of a hash map is that of its list (the
    theorems hold for every list); rounding of floating point; branches for Windows; log lines and
    the prose of answers.
  \<^item> Whole parts: user interfaces (crates/studio, crates/tui), HTTP and sockets, prompts and calls
    of models, databases and indexing, command-line glue, help texts, plain data types that serde
    fills. They move data in and out and hold no decision of their own that could be stated
    without their libraries.
\<close>

end
